(* ===== verification/Gateway_Prelude.thy ===== *)
theory Gateway_Prelude
  imports Main "HOL-Library.Word"
begin

text \<open>
  Shared vocabulary of the development: the run-time faults that a C++ operation can end
  in, sequencing of operations that may fault, decimal printing and scanning of integers
  (the part of \<open>printf\<close>, \<open>std::to_string\<close> and \<open>std::stoi\<close> that the gateway uses), and a
  generic notion of reachable states with an invariant rule.
\<close>

section \<open>Named collections\<close>

named_theorems fault_simps \<open>evaluation of sequenced operations\<close>
named_theorems dec_simps \<open>decimal printing and scanning\<close>

section \<open>Faults and sequencing\<close>

text \<open>
  An operation of the program either returns or ends in a fault: undefined behaviour of
  C++ that the model makes explicit (the first seven), a call of
  \<open>std::terminate\<close>, or an exception of the standard
  library, of the YAML library or of the program itself.
\<close>

datatype fault =
    NullDeref
  | UseAfterFree
  | DoubleFree
  | OutOfBounds
  | LibraryCrash
  | UnionMisread
  | SignedOverflow
  | StdTerminate
  | StdInvalidArgument
  | StdOutOfRange
  | YamlInvalidNode
  | YamlBadConversion
  | YamlBadSubscript
  | RuntimeError

type_synonym 'a result = "fault + 'a"
type_synonym ('a, 's) oper = "'s \<Rightarrow> ('a \<times> 's) result"

definition ret :: "'a \<Rightarrow> ('a, 's) oper" where
  "ret x s = Inr (x, s)"

definition fail :: "fault \<Rightarrow> ('a, 's) oper" where
  "fail e s = Inl e"

definition bnd :: "('a, 's) oper \<Rightarrow> ('a \<Rightarrow> ('b, 's) oper) \<Rightarrow> ('b, 's) oper" where
  "bnd m f s = (case m s of Inl e \<Rightarrow> Inl e | Inr (x, s') \<Rightarrow> f x s')"

definition rbind :: "'a result \<Rightarrow> ('a \<Rightarrow> 'b result) \<Rightarrow> 'b result" where
  "rbind r f = (case r of Inl e \<Rightarrow> Inl e | Inr x \<Rightarrow> f x)"

lemma bnd_ret [fault_simps]: "bnd (ret x) f = f x"
  by (simp add: bnd_def ret_def fun_eq_iff)

lemma bnd_fail [fault_simps]: "bnd (fail e) f = fail e"
  by (simp add: bnd_def fail_def fun_eq_iff)

lemma bnd_Inr [fault_simps]: "m s = Inr (x, s') \<Longrightarrow> bnd m f s = f x s'"
  by (simp add: bnd_def)

lemma bnd_Inl [fault_simps]: "m s = Inl e \<Longrightarrow> bnd m f s = Inl e"
  by (simp add: bnd_def)

lemma bnd_InrE:
  assumes "bnd m f s = Inr (y, s'')"
  obtains x s' where "m s = Inr (x, s')" and "f x s' = Inr (y, s'')"
  using assms by (auto simp: bnd_def split: sum.splits prod.splits)

lemma rbind_simps [simp]:
  "rbind (Inr x) f = f x"
  "rbind (Inl e) f = Inl e"
  by (simp_all add: rbind_def)

lemma rbind_Inr_iff: "rbind r f = Inr y \<longleftrightarrow> (\<exists>x. r = Inr x \<and> f x = Inr y)"
  by (cases r) auto

fun rmap :: "('a \<Rightarrow> 'b result) \<Rightarrow> 'a list \<Rightarrow> 'b list result" where
  "rmap f [] = Inr []"
| "rmap f (x # xs) = rbind (f x) (\<lambda>y. rbind (rmap f xs) (\<lambda>ys. Inr (y # ys)))"

lemma rmap_Inr_iff: "rmap f xs = Inr ys \<longleftrightarrow> list_all2 (\<lambda>x y. f x = Inr y) xs ys"
proof (induction xs arbitrary: ys)
  case Nil
  show ?case by auto
next
  case (Cons x xs)
  show ?case
    by (cases ys) (auto simp: rbind_Inr_iff Cons.IH)
qed

section \<open>Decimal printing and scanning\<close>

definition digit_char :: "nat \<Rightarrow> char" where
  "digit_char d = char_of (48 + d)"

definition is_digit :: "char \<Rightarrow> bool" where
  "is_digit c \<longleftrightarrow> (of_char c :: nat) \<in> {48..57}"

definition digit_val :: "char \<Rightarrow> nat" where
  "digit_val c = of_char c - 48"

lemma of_char_digit_char [dec_simps]: "d < 10 \<Longrightarrow> (of_char (digit_char d) :: nat) = 48 + d"
  by (simp add: digit_char_def)

lemma is_digit_digit_char [dec_simps]: "d < 10 \<Longrightarrow> is_digit (digit_char d)"
  by (simp add: is_digit_def of_char_digit_char)

lemma digit_val_digit_char [dec_simps]: "d < 10 \<Longrightarrow> digit_val (digit_char d) = d"
  by (simp add: digit_val_def of_char_digit_char)

fun dec_nat :: "nat \<Rightarrow> string" where
  "dec_nat n = (if n < 10 then [digit_char n] else dec_nat (n div 10) @ [digit_char (n mod 10)])"

declare dec_nat.simps [simp del]

definition dec_int :: "int \<Rightarrow> string" where
  "dec_int i = (if i < 0 then CHR ''-'' # dec_nat (nat (- i)) else dec_nat (nat i))"

definition read_digits :: "string \<Rightarrow> nat" where
  "read_digits = foldl (\<lambda>a c. 10 * a + digit_val c) 0"

lemma dec_nat_digits [dec_simps]: "c \<in> set (dec_nat n) \<Longrightarrow> is_digit c"
proof (induction n rule: dec_nat.induct)
  case (1 n)
  then show ?case
    by (subst (asm) (2) dec_nat.simps) (auto split: if_splits intro: is_digit_digit_char)
qed

lemma dec_nat_not_Nil [dec_simps]: "dec_nat n \<noteq> []"
  by (subst dec_nat.simps) simp

lemma read_digits_dec_nat [dec_simps]: "read_digits (dec_nat n) = n"
proof (induction n rule: dec_nat.induct)
  case (1 n)
  show ?case
  proof (cases "n < 10")
    case True
    then show ?thesis
      by (subst dec_nat.simps) (simp add: read_digits_def digit_val_digit_char)
  next
    case False
    with 1 have "read_digits (dec_nat (n div 10)) = n div 10"
      by simp
    with False show ?thesis
      by (subst dec_nat.simps) (simp add: read_digits_def digit_val_digit_char)
  qed
qed

text \<open>
  \<open>scan_int\<close> is the common part of \<open>strtol\<close> and its relatives in base 10: skip white
  space, read an optional sign and the longest run of digits, ignore what follows.
  \<^const>\<open>None\<close> is the case where no digit is found (\<open>std::invalid_argument\<close>).
\<close>

definition is_space :: "char \<Rightarrow> bool" where
  "is_space c \<longleftrightarrow> (of_char c :: nat) \<in> {9, 10, 11, 12, 13, 32}"

definition scan_magnitude :: "string \<Rightarrow> nat option" where
  "scan_magnitude s = (let ds = takeWhile is_digit s in if ds = [] then None else Some (read_digits ds))"

definition scan_int :: "string \<Rightarrow> int option" where
  "scan_int s =
     (case dropWhile is_space s of
        [] \<Rightarrow> None
      | c # cs \<Rightarrow>
          if c = CHR ''-'' then map_option (\<lambda>n. - int n) (scan_magnitude cs)
          else if c = CHR ''+'' then map_option int (scan_magnitude cs)
          else map_option int (scan_magnitude (c # cs)))"

lemma scan_magnitude_dec_nat [dec_simps]: "scan_magnitude (dec_nat n) = Some n"
proof -
  have "takeWhile is_digit (dec_nat n) = dec_nat n"
    by (simp add: takeWhile_eq_all_conv dec_nat_digits)
  with dec_nat_not_Nil [of n] read_digits_dec_nat [of n] show ?thesis
    by (simp only: scan_magnitude_def Let_def if_False)
qed

lemma dec_nat_head:
  obtains c cs where "dec_nat n = c # cs" and "is_digit c"
  using dec_nat_digits [of _ n] dec_nat_not_Nil [of n] by (cases "dec_nat n") auto

lemma is_digit_simps [dec_simps]:
  "is_digit c \<Longrightarrow> \<not> is_space c"
  "is_digit c \<Longrightarrow> c \<noteq> CHR ''-''"
  "is_digit c \<Longrightarrow> c \<noteq> CHR ''+''"
  by (auto simp: is_digit_def is_space_def)

theorem scan_int_dec_int [dec_simps]: "scan_int (dec_int i) = Some i"
proof (cases "i < 0")
  case True
  then show ?thesis
    by (simp add: scan_int_def dec_int_def is_space_def scan_magnitude_dec_nat)
next
  case False
  obtain c cs where c: "dec_nat (nat i) = c # cs" "is_digit c"
    by (rule dec_nat_head)
  with False scan_magnitude_dec_nat [of "nat i"] show ?thesis
    by (simp add: scan_int_def dec_int_def is_digit_simps)
qed

text \<open>Two hexadecimal digits of a byte, as \<open>%02x\<close> and the stream manipulators print them.\<close>

definition hex_digit :: "nat \<Rightarrow> char" where
  "hex_digit d = (if d < 10 then digit_char d else char_of (87 + d))"

definition hex_byte :: "8 word \<Rightarrow> string" where
  "hex_byte b = [hex_digit (unat b div 16), hex_digit (unat b mod 16)]"

section \<open>Reachable states\<close>

text \<open>
  A component with state is a start predicate and a step relation. An invariant that
  every start state has and every step keeps holds in every reachable state.
\<close>

locale transition_system =
  fixes start :: "'s \<Rightarrow> bool"
    and step :: "'s \<Rightarrow> 'e \<Rightarrow> 's \<Rightarrow> bool"
begin

inductive reachable :: "'s \<Rightarrow> 'e list \<Rightarrow> bool" where
  at_start: "start s \<Longrightarrow> reachable s []"
| by_step: "reachable s es \<Longrightarrow> step s e t \<Longrightarrow> reachable t (es @ [e])"

lemma reachable_invariant:
  assumes "reachable s es"
    and "\<And>s. start s \<Longrightarrow> I s"
    and "\<And>s e t. I s \<Longrightarrow> step s e t \<Longrightarrow> I t"
  shows "I s"
  using assms(1) by (induction rule: reachable.induct) (auto intro: assms(2,3))

lemma reachable_events:
  assumes "reachable s es"
    and "\<And>s. start s \<Longrightarrow> I s"
    and "\<And>s e t. I s \<Longrightarrow> step s e t \<Longrightarrow> I t \<and> Q e"
  shows "I s \<and> (\<forall>e \<in> set es. Q e)"
  using assms(1)
proof (induction rule: reachable.induct)
  case (at_start s)
  then show ?case by (simp add: assms(2))
next
  case (by_step s es e t)
  then show ?case using assms(3) [of s e t] by auto
qed

end

locale invariant_system = transition_system start step
  for start :: "'s \<Rightarrow> bool" and step :: "'s \<Rightarrow> 'e \<Rightarrow> 's \<Rightarrow> bool" +
  fixes inv :: "'s \<Rightarrow> bool"
  assumes inv_start: "start s \<Longrightarrow> inv s"
    and inv_step: "inv s \<Longrightarrow> step s e t \<Longrightarrow> inv t"
begin

lemma reachable_inv: "reachable s es \<Longrightarrow> inv s"
  by (rule reachable_invariant [OF _ inv_start inv_step])

end

section \<open>Maps\<close>

lemma entries_cons: "m(k \<mapsto> v) ++ map_of (rev xs) = m ++ map_of (rev ((k, v) # xs))"
proof -
  have "map_of (rev ((k, v) # xs)) = [k \<mapsto> v] ++ map_of (rev xs)" by simp
  then show ?thesis by simp
qed

end
