(* ===== verification/Sample_Programs.thy ===== *)
theory Sample_Programs
  imports Gateway_Prelude
begin

text \<open>
  The remaining sample programs: the GOOSE publisher and subscriber of
  \<open>sample/goose_subpub\<close> and the program of \<open>sample/server_example_simple\<close>. What the programs
  give to libiec61850 is modelled as the settings they choose and the calls they make;
  creating a publisher, starting a receiver and listening on a port may fail, which is an
  argument. The text that the library prints for a data set is a parameter.
\<close>

section \<open>GOOSE publisher\<close>

datatype goose_value = GInt32 "32 word" | GBinaryTime | GBoolean bool

definition dataSetValues :: "goose_value list" where
  "dataSetValues = [GInt32 1234, GBinaryTime, GInt32 5678]"

record comm_parameters =
  appId :: nat
  dstAddress :: "8 word list"
  vlanId :: nat
  vlanPriority :: nat

definition gooseCommParameters :: comm_parameters where
  "gooseCommParameters =
     \<lparr>appId = 1000, dstAddress = [0x01, 0x0c, 0xcd, 0x01, 0x00, 0x01], vlanId = 0, vlanPriority = 4\<rparr>"

record publisher =
  pub_interface :: string
  pub_comm :: comm_parameters
  goCbRef :: string
  confRev :: nat
  dataSetRef :: string
  timeAllowedToLive :: nat

text \<open>The interface named on the command line, and \<open>eth1\<close> without one; shared by both programs.\<close>

definition interface_of :: "string list \<Rightarrow> string" where
  "interface_of argv = (if length argv > 1 then argv ! 1 else ''eth1'')"

definition publisher_settings :: "string list \<Rightarrow> publisher" where
  "publisher_settings argv =
     \<lparr>pub_interface = interface_of argv, pub_comm = gooseCommParameters,
      goCbRef = ''simpleIOGenericIO/LLN0$GO$gcbAnalogValues'', confRev = 1,
      dataSetRef = ''simpleIOGenericIO/LLN0$AnalogValues'', timeAllowedToLive = 500\<rparr>"

text \<open>
  The loop \<open>for (i = 0; i < 10000; i++)\<close> from \<open>i\<close> on, with \<open>n\<close> passes left: the data set that
  each pass publishes. The last pass adds a value first, so that its message does not fit
  the declared data set.
\<close>

fun publish_loop :: "nat \<Rightarrow> nat \<Rightarrow> goose_value list \<Rightarrow> goose_value list list" where
  "publish_loop 0 i values = []"
| "publish_loop (Suc n) i values =
     (let values' = (if i = 9999 then values @ [GBoolean True] else values)
      in values' # publish_loop n (i + 1) values')"

definition publisher_main :: "string list \<Rightarrow> bool \<Rightarrow> (publisher \<times> goose_value list list) option \<times> int" where
  "publisher_main argv created =
     (if created then (Some (publisher_settings argv, publish_loop 10000 0 dataSetValues), 0) else (None, 0))"

section \<open>GOOSE subscriber\<close>

record subscriber =
  sub_interface :: string
  sub_goCbRef :: string
  sub_dstMac :: "8 word list"
  sub_appId :: nat

definition subscriber_settings :: "string list \<Rightarrow> subscriber" where
  "subscriber_settings argv =
     \<lparr>sub_interface = interface_of argv, sub_goCbRef = ''simpleIOGenericIO/LLN0$GO$gcbAnalogValues'',
      sub_dstMac = [0x01, 0x0c, 0xcd, 0x01, 0x00, 0x01], sub_appId = 1000\<rparr>"

record goose_event =
  stNum :: "32 word"
  sqNum :: "32 word"
  timeToLive :: "32 word"
  timestamp_ms :: "64 word"
  is_valid :: bool

text \<open>The seconds and milliseconds that the listener prints are cut to 32 bits.\<close>

definition event_seconds :: "64 word \<Rightarrow> 32 word" where
  "event_seconds t = ucast (t div 1000)"

definition event_millis :: "64 word \<Rightarrow> 32 word" where
  "event_millis t = ucast (t mod 1000)"

definition dec_word :: "32 word \<Rightarrow> string" where
  "dec_word w = dec_nat (unat w)"

definition gooseListener :: "string \<Rightarrow> goose_event \<Rightarrow> string list" where
  "gooseListener allData ev =
     [''GOOSE event:'',
      ''  stNum: '' @ dec_word (stNum ev) @ '' sqNum: '' @ dec_word (sqNum ev),
      ''  timeToLive: '' @ dec_word (timeToLive ev),
      ''  timestamp: '' @ dec_word (event_seconds (timestamp_ms ev)) @ ''.'' @ dec_word (event_millis (timestamp_ms ev)),
      ''  message is '' @ (if is_valid ev then ''valid'' else ''INVALID''),
      ''  allData: '' @ allData]"

datatype receiver_call =
    ReceiverCreate
  | ReceiverSubscribe subscriber
  | ReceiverStart
  | WaitForInterrupt
  | PrintFailedToStart
  | ReceiverStop
  | ReceiverDestroy

text \<open>\<open>main\<close> of the subscriber: \<open>runs\<close> says whether the receiver started; if so, it waits for the interrupt.\<close>

definition subscriber_main :: "string list \<Rightarrow> bool \<Rightarrow> receiver_call list" where
  "subscriber_main argv runs =
     [ReceiverCreate, ReceiverSubscribe (subscriber_settings argv), ReceiverStart]
     @ [if runs then WaitForInterrupt else PrintFailedToStart] @ [ReceiverStop, ReceiverDestroy]"

section \<open>The simple IEC 61850 server\<close>

datatype simple_call = SimpleCreate | SimpleStart int | SimpleStop | SimpleDestroy

definition atoi :: "string \<Rightarrow> int" where
  "atoi s = (case scan_int s of None \<Rightarrow> 0 | Some i \<Rightarrow> i)"

text \<open>
  \<open>main\<close> of the simple server: the port from the command line, and the calls up to the exit
  with its status; the waiting loop ends with the interrupt signal.
\<close>

definition simple_server_main :: "string list \<Rightarrow> bool \<Rightarrow> simple_call list \<times> int" where
  "simple_server_main argv listening =
     (let tcpPort = (if length argv > 1 then atoi (argv ! 1) else 102) in
      if listening then ([SimpleCreate, SimpleStart tcpPort, SimpleStop, SimpleDestroy], 0)
      else ([SimpleCreate, SimpleStart tcpPort, SimpleDestroy], - 1))"

section \<open>Facts\<close>

lemma publish_loop_before:
  "i + n \<le> 9999 \<Longrightarrow> publish_loop n i values = replicate n values"
  by (induction n arbitrary: i) simp_all

lemma publish_loop_split:
  "i + m \<le> 9999 \<Longrightarrow> publish_loop (m + n) i values = replicate m values @ publish_loop n (i + m) values"
  by (induction m arbitrary: i) simp_all

text \<open>Where the receiver hands a message to the subscriber: same reference, address and application.\<close>

definition accepts :: "subscriber \<Rightarrow> publisher \<Rightarrow> bool" where
  "accepts sub pub \<longleftrightarrow> sub_interface sub = pub_interface pub \<and> sub_goCbRef sub = goCbRef pub
     \<and> sub_dstMac sub = dstAddress (pub_comm pub) \<and> sub_appId sub = appId (pub_comm pub)"

text \<open>The time is printed exactly, though without leading zeros, as long as the seconds fit into 32 bits.\<close>

lemma event_time_exact:
  assumes "unat t < 1000 * 2 ^ 32"
  shows "unat t = 1000 * unat (event_seconds t) + unat (event_millis t)"
proof -
  have "unat (t div 1000) = unat t div 1000" "unat (t mod 1000) = unat t mod 1000"
    by (simp_all add: unat_div unat_mod)
  moreover have "unat t div 1000 < 2 ^ 32" using assms by (simp add: less_mult_imp_div_less mult.commute)
  moreover have "unat t mod 1000 < 2 ^ 32" by (rule less_trans [OF mod_less_divisor]) simp_all
  ultimately have "unat (event_seconds t) = unat t div 1000" "unat (event_millis t) = unat t mod 1000"
    by (simp_all add: event_seconds_def event_millis_def unsigned_ucast_eq take_bit_nat_eq_self)
  then show ?thesis by simp
qed

section \<open>Properties\<close>

text \<open>
  The two GOOSE programs fit together: started with the same command line, the
  subscriber accepts what the publisher sends, and a created publisher sends 10000
  messages, the first 9999 with the three values of the data set and the last one with a
  fourth value, which the data set does not have.
\<close>

theorem goose_samples_agree:
  "accepts (subscriber_settings argv) (publisher_settings argv)
   \<and> publisher_main argv True
       = (Some (publisher_settings argv, replicate 9999 dataSetValues @ [dataSetValues @ [GBoolean True]]), 0)"
proof -
  have "publish_loop (9999 + 1) 0 dataSetValues = replicate 9999 dataSetValues @ publish_loop 1 (0 + 9999) dataSetValues"
    by (rule publish_loop_split) simp
  moreover have "publish_loop 1 9999 dataSetValues = [dataSetValues @ [GBoolean True]]"
    by (simp only: One_nat_def publish_loop.simps Let_def simp_thms if_True)
  ultimately have "publish_loop 10000 0 dataSetValues = replicate 9999 dataSetValues @ [dataSetValues @ [GBoolean True]]"
    by simp
  then show ?thesis
    by (simp add: publisher_main_def accepts_def subscriber_settings_def publisher_settings_def gooseCommParameters_def
        del: replicate.simps)
qed

end
