(* ===== verification/Ied_Model.thy ===== *)
theory Ied_Model
  imports Gateway_Prelude
begin

text \<open>
  The data model of an IED as the C code of a static model lays it out
  (\<open>core/iec61850/model/static_model.c\<close>): structures linked by the pointers \<open>parent\<close>,
  \<open>sibling\<close> and \<open>firstChild\<close>. A table lists the structures in file order with their
  addresses; a null pointer is \<^const>\<open>None\<close>, also as the name of a structure. The abstract view is an ordered tree; \<open>emit_list\<close> is the table of a forest in
  preorder, and \<open>scan\<close> checks a table in one pass: it succeeds exactly on the tables that
  are emitted by some forest. \<open>emit_represents\<close> says what the pointers of an emitted
  table mean.
\<close>

section \<open>Structures\<close>

type_synonym addr = nat

datatype functional_constraint =
    FC_ST | FC_MX | FC_SP | FC_CF | FC_DC | FC_SG | FC_EX | FC_CO

datatype attribute_type =
    T_BOOLEAN | T_CHECK | T_CODEDENUM | T_CONSTRUCTED | T_ENUMERATED | T_FLOAT32 | T_INT16U | T_INT32
  | T_INT8U | T_OCTET_STRING_64 | T_QUALITY | T_TIMESTAMP | T_VISIBLE_STRING_129 | T_VISIBLE_STRING_255

definition TRG_OPT_DATA_CHANGED :: "8 word" where "TRG_OPT_DATA_CHANGED = 1"
definition TRG_OPT_QUALITY_CHANGED :: "8 word" where "TRG_OPT_QUALITY_CHANGED = 2"

datatype mms_value = MmsInteger "32 word" | MmsVisibleString string

datatype model_node =
    LogicalDevice (node_name: "string option") (node_parent: "addr option") (node_sibling: "addr option")
      (node_firstChild: "addr option") (ldName: "string option")
  | LogicalNode (node_name: "string option") (node_parent: "addr option") (node_sibling: "addr option")
      (node_firstChild: "addr option")
  | DataObject (node_name: "string option") (node_parent: "addr option") (node_sibling: "addr option")
      (node_firstChild: "addr option") (elementCount: int) (arrayIndex: int)
  | DataAttribute (node_name: "string option") (node_parent: "addr option") (node_sibling: "addr option")
      (node_firstChild: "addr option") (elementCount: int) (arrayIndex: int)
      (node_fc: functional_constraint) (node_type: attribute_type) (triggerOptions: "8 word")
      (mmsValue: "mms_value option") (sAddr: "32 word")

type_synonym node_table = "(addr \<times> model_node) list"

section \<open>Trees\<close>

datatype label =
    LDevice "string option" "string option"
  | LNode "string option"
  | LObject "string option" int int
  | LAttribute "string option" int int functional_constraint attribute_type "8 word" "mms_value option" "32 word"

fun label_of :: "model_node \<Rightarrow> label" where
  "label_of (LogicalDevice n p s c l) = LDevice n l"
| "label_of (LogicalNode n p s c) = LNode n"
| "label_of (DataObject n p s c e i) = LObject n e i"
| "label_of (DataAttribute n p s c e i f t o' v a) = LAttribute n e i f t o' v a"

fun link_node :: "label \<Rightarrow> addr option \<Rightarrow> addr option \<Rightarrow> addr option \<Rightarrow> model_node" where
  "link_node (LDevice n l) p s c = LogicalDevice n p s c l"
| "link_node (LNode n) p s c = LogicalNode n p s c"
| "link_node (LObject n e i) p s c = DataObject n p s c e i"
| "link_node (LAttribute n e i f t o' v a) p s c = DataAttribute n p s c e i f t o' v a"

lemma link_node_label [simp]:
  "link_node (label_of n) (node_parent n) (node_sibling n) (node_firstChild n) = n"
  by (cases n) auto

lemma link_node_sel [simp]:
  "node_parent (link_node l p s c) = p"
  "node_sibling (link_node l p s c) = s"
  "node_firstChild (link_node l p s c) = c"
  "label_of (link_node l p s c) = l"
  by (cases l; simp)+

datatype model_tree = MNode (tree_addr: addr) (tree_label: label) (children: "model_tree list")

definition head_addr :: "model_tree list \<Rightarrow> addr option" where
  "head_addr ts = (case ts of [] \<Rightarrow> None | t # _ \<Rightarrow> Some (tree_addr t))"

fun emit_list :: "addr option \<Rightarrow> model_tree list \<Rightarrow> node_table" where
  "emit_list p [] = []"
| "emit_list p (MNode a l cs # ts) =
     (a, link_node l p (head_addr ts) (head_addr cs)) # emit_list (Some a) cs @ emit_list p ts"

lemma head_addr_simps [simp]:
  "head_addr [] = None"
  "head_addr (t # ts) = Some (tree_addr t)"
  by (simp_all add: head_addr_def)

section \<open>Checking a table in one pass\<close>

text \<open>
  The checker keeps a stack of lists still to be read, each given by the parent its nodes
  must have and the address of the next node, \<open>None\<close> when the list is complete.
\<close>

type_synonym expectation = "addr option \<times> addr option"

fun pop_done :: "expectation list \<Rightarrow> expectation list" where
  "pop_done ((p, None) # st) = pop_done st"
| "pop_done st = st"

fun scan :: "expectation list \<Rightarrow> node_table \<Rightarrow> expectation list option" where
  "scan st [] = Some st"
| "scan ((p, Some a) # st) ((b, n) # tbl) =
     (if a = b \<and> node_parent n = p
      then scan (pop_done ((Some b, node_firstChild n) # (p, node_sibling n) # st)) tbl else None)"
| "scan st (bn # tbl) = None"

lemma scan_append: "scan st (xs @ ys) = Option.bind (scan st xs) (\<lambda>st'. scan st' ys)"
  by (induction st xs rule: scan.induct) auto

lemma scan_chunks: "scan st xs = Some st1 \<Longrightarrow> scan st1 ys = Some st2 \<Longrightarrow> scan st (xs @ ys) = Some st2"
  by (simp add: scan_append)

text \<open>A stack of expectations is met by a stack of forests.\<close>

definition meets :: "expectation list \<Rightarrow> model_tree list list \<Rightarrow> bool" where
  "meets st tss \<longleftrightarrow> list_all2 (\<lambda>e ts. snd e = head_addr ts) st tss"

definition emit_stack :: "expectation list \<Rightarrow> model_tree list list \<Rightarrow> node_table" where
  "emit_stack st tss = concat (map (\<lambda>(e, ts). emit_list (fst e) ts) (zip st tss))"

lemma emit_stack_simps [simp]:
  "emit_stack [] tss = []"
  "emit_stack (e # st) (ts # tss) = emit_list (fst e) ts @ emit_stack st tss"
  by (simp_all add: emit_stack_def)

lemma meets_simps [simp]:
  "meets [] tss \<longleftrightarrow> tss = []"
  "meets (e # st) tss \<longleftrightarrow> (\<exists>ts tss'. tss = ts # tss' \<and> snd e = head_addr ts \<and> meets st tss')"
  by (auto simp: meets_def list_all2_Cons1)

lemma pop_done_meets:
  "meets (pop_done st) tss \<Longrightarrow> \<exists>tss'. meets st tss' \<and> emit_stack st tss' = emit_stack (pop_done st) tss"
proof (induction st arbitrary: tss rule: pop_done.induct)
  case (1 p st)
  then obtain tss' where "meets st tss'" "emit_stack st tss' = emit_stack (pop_done st) tss"
    by auto
  then show ?case by (intro exI [of _ "[] # tss'"]) simp
qed auto

lemma scan_emits:
  "scan st tbl = Some [] \<Longrightarrow> \<exists>tss. meets st tss \<and> tbl = emit_stack st tss"
proof (induction st tbl rule: scan.induct)
  case (1 st)
  then show ?case by simp
next
  case (2 p a st b n tbl)
  let ?st = "(Some b, node_firstChild n) # (p, node_sibling n) # st"
  have ab: "a = b" "node_parent n = p" and sc: "scan (pop_done ?st) tbl = Some []"
    using "2.prems" by (auto split: if_splits)
  obtain tss where "meets (pop_done ?st) tss" "tbl = emit_stack (pop_done ?st) tss"
    using "2.IH" ab sc by blast
  then obtain tss' where m: "meets ?st tss'" "tbl = emit_stack ?st tss'"
    using pop_done_meets by metis
  then obtain cs ts rest where t: "tss' = cs # ts # rest" "node_firstChild n = head_addr cs"
      "node_sibling n = head_addr ts" "meets st rest"
    by auto
  have "link_node (label_of n) p (head_addr ts) (head_addr cs) = n"
    using link_node_label [of n] ab(2) t(2,3) by simp
  then show ?case
    using m(2) t ab by (intro exI [of _ "(MNode b (label_of n) cs # ts) # rest"]) simp
qed auto

lemma scan_correct:
  "scan [(p, Some a)] tbl = Some [] \<Longrightarrow> \<exists>ts. tbl = emit_list p ts \<and> head_addr ts = Some a"
  by (drule scan_emits) auto

section \<open>What the pointers of a table mean\<close>

text \<open>
  All lists of siblings of a forest that start at some node, each with its parent, and the
  walk along the \<open>sibling\<close> pointers, which gives up when the fuel is used up or a pointer
  dangles.
\<close>

fun sibling_lists :: "addr option \<Rightarrow> model_tree list \<Rightarrow> (addr option \<times> model_tree list) list" where
  "sibling_lists p [] = [(p, [])]"
| "sibling_lists p (MNode a l cs # ts) =
     (p, MNode a l cs # ts) # sibling_lists (Some a) cs @ sibling_lists p ts"

fun walk :: "nat \<Rightarrow> node_table \<Rightarrow> addr option \<Rightarrow> addr list option" where
  "walk f tbl None = Some []"
| "walk 0 tbl (Some a) = None"
| "walk (Suc f) tbl (Some a) =
     (case map_of tbl a of None \<Rightarrow> None | Some n \<Rightarrow> map_option (Cons a) (walk f tbl (node_sibling n)))"

lemma sibling_lists_self: "(p, ts) \<in> set (sibling_lists p ts)"
  by (cases ts; (cases "hd ts")?) auto

lemma sibling_lists_closed:
  "(q, MNode a l cs # us) \<in> set (sibling_lists p ts) \<Longrightarrow>
     (a, link_node l q (head_addr us) (head_addr cs)) \<in> set (emit_list p ts)
     \<and> (q, us) \<in> set (sibling_lists p ts) \<and> (Some a, cs) \<in> set (sibling_lists p ts)"
proof (induction p ts rule: sibling_lists.induct)
  case (2 p b m ds ts)
  then show ?case using sibling_lists_self by auto
qed simp

lemma walk_siblings:
  assumes "distinct (map fst (emit_list p ts))" and "(q, us) \<in> set (sibling_lists p ts)" and "length us \<le> f"
  shows "walk f (emit_list p ts) (head_addr us) = Some (map tree_addr us)"
  using assms(2,3)
proof (induction us arbitrary: f)
  case (Cons u us)
  obtain a l cs where u: "u = MNode a l cs" by (cases u)
  have cl: "(a, link_node l q (head_addr us) (head_addr cs)) \<in> set (emit_list p ts)"
      "(q, us) \<in> set (sibling_lists p ts)"
    using sibling_lists_closed Cons.prems(1) u by blast+
  then have "map_of (emit_list p ts) a = Some (link_node l q (head_addr us) (head_addr cs))"
    using assms(1) by simp
  with Cons.IH [OF cl(2)] Cons.prems(2) u show ?case by (cases f) auto
qed simp

lemma emit_in_siblings:
  "(a, n) \<in> set (emit_list p ts) \<Longrightarrow>
     \<exists>q l cs us. (q, MNode a l cs # us) \<in> set (sibling_lists p ts)"
proof (induction p ts rule: sibling_lists.induct)
  case (2 p b l cs ts)
  show ?case
  proof (cases "a = b \<or> (a, n) \<in> set (emit_list (Some b) cs)")
    case True
    with "2.IH"(1) show ?thesis by (metis Un_iff list.set_intros set_append sibling_lists.simps(2))
  next
    case False
    with "2.prems" have "(a, n) \<in> set (emit_list p ts)" by auto
    with "2.IH"(2) show ?thesis by (metis Un_iff list.set_intros(2) set_append sibling_lists.simps(2))
  qed
qed simp

text \<open>
  A table is a well-formed model below \<open>p\<close> when, for every structure, following
  \<open>firstChild\<close> and \<open>sibling\<close> ends after finitely many structures of the table, all of which
  have it as parent.
\<close>

definition model_wf :: "addr option \<Rightarrow> node_table \<Rightarrow> bool" where
  "model_wf p tbl \<longleftrightarrow> distinct (map fst tbl) \<and>
     (\<forall>(a, n) \<in> set tbl. \<exists>cs. walk (length tbl) tbl (node_firstChild n) = Some cs \<and> distinct cs
        \<and> (\<forall>c \<in> set cs. \<exists>m. map_of tbl c = Some m \<and> node_parent m = Some a))
     \<and> (\<forall>(a, n) \<in> set tbl. node_parent n = p \<or> (\<exists>q m. node_parent n = Some q \<and> map_of tbl q = Some m))"

lemma emit_length_ge: "(q, us) \<in> set (sibling_lists p ts) \<Longrightarrow> length us \<le> length (emit_list p ts)"
proof (induction p ts rule: sibling_lists.induct)
  case (2 p a l cs ts)
  have self: "length ts \<le> length (emit_list p ts)" for p and ts :: "model_tree list"
    by (induction p ts rule: emit_list.induct) auto
  from "2.prems" consider "us = MNode a l cs # ts" | "(q, us) \<in> set (sibling_lists (Some a) cs)"
    | "(q, us) \<in> set (sibling_lists p ts)" by auto
  then show ?case
    using "2.IH" self [of ts p] by cases auto
qed simp

lemma emitted_children:
  assumes "distinct (map fst (emit_list p ts))" and "(q, cs) \<in> set (sibling_lists p ts)" and "c \<in> set cs"
  shows "\<exists>m. map_of (emit_list p ts) (tree_addr c) = Some m \<and> node_parent m = q"
  using assms(2,3)
proof (induction cs)
  case (Cons d ds)
  obtain a l es where d: "d = MNode a l es" by (cases d)
  have cl: "(a, link_node l q (head_addr ds) (head_addr es)) \<in> set (emit_list p ts)"
      "(q, ds) \<in> set (sibling_lists p ts)"
    using sibling_lists_closed Cons.prems(1) d by blast+
  then have "map_of (emit_list p ts) a = Some (link_node l q (head_addr ds) (head_addr es))"
    using assms(1) by simp
  with Cons cl(2) d show ?case by auto
qed simp

lemma emitted_parent:
  "(q, us) \<in> set (sibling_lists p ts) \<Longrightarrow> q = p \<or> (\<exists>a n. q = Some a \<and> (a, n) \<in> set (emit_list p ts))"
  by (induction p ts rule: sibling_lists.induct) fastforce+

lemma emit_addrs: "set (map tree_addr ts) \<subseteq> set (map fst (emit_list p ts))"
  by (induction p ts rule: emit_list.induct) auto

lemma emit_roots_distinct: "distinct (map fst (emit_list p ts)) \<Longrightarrow> distinct (map tree_addr ts)"
proof (induction p ts rule: emit_list.induct)
  case (2 p a l cs ts)
  then show ?case using emit_addrs [of ts p] by auto
qed simp

lemma sibling_addrs_distinct:
  "distinct (map fst (emit_list p ts)) \<Longrightarrow> (q, us) \<in> set (sibling_lists p ts) \<Longrightarrow> distinct (map tree_addr us)"
proof (induction p ts rule: sibling_lists.induct)
  case (2 p a l cs ts)
  then show ?case using emit_roots_distinct [OF "2.prems"(1)] by auto
qed simp

lemma emit_represents:
  assumes "distinct (map fst (emit_list p ts))"
  shows "model_wf p (emit_list p ts)"
proof -
  let ?tbl = "emit_list p ts"
  have "(\<exists>cs. walk (length ?tbl) ?tbl (node_firstChild n) = Some cs \<and> distinct cs
           \<and> (\<forall>c \<in> set cs. \<exists>m. map_of ?tbl c = Some m \<and> node_parent m = Some a))
      \<and> (node_parent n = p \<or> (\<exists>q m. node_parent n = Some q \<and> map_of ?tbl q = Some m))"
    if an: "(a, n) \<in> set ?tbl" for a n
  proof -
    obtain q l cs us where sl: "(q, MNode a l cs # us) \<in> set (sibling_lists p ts)"
      using emit_in_siblings [OF an] by blast
    then have "(a, link_node l q (head_addr us) (head_addr cs)) \<in> set ?tbl"
      and cs: "(Some a, cs) \<in> set (sibling_lists p ts)" using sibling_lists_closed by blast+
    then have n: "n = link_node l q (head_addr us) (head_addr cs)"
      using an assms by (metis map_of_is_SomeI option.inject)
    have "walk (length ?tbl) ?tbl (node_firstChild n) = Some (map tree_addr cs)"
      using walk_siblings [OF assms cs emit_length_ge [OF cs]] n by simp
    moreover have "node_parent n = p \<or> (\<exists>q m. node_parent n = Some q \<and> map_of ?tbl q = Some m)"
      using emitted_parent [OF sl] n assms by (auto simp: map_of_is_SomeI)
    ultimately show ?thesis
      using sibling_addrs_distinct [OF assms cs] emitted_children [OF assms cs] by auto
  qed
  then show ?thesis using assms unfolding model_wf_def by blast
qed

lemma scanned_table_wf:
  assumes "scan [(p, Some a)] tbl = Some []" and "distinct (map fst tbl)"
  shows "model_wf p tbl \<and> (\<exists>ts. tbl = emit_list p ts \<and> head_addr ts = Some a)"
  using scan_correct [OF assms(1)] emit_represents assms(2) by auto

section \<open>Conventions of single structures\<close>

text \<open>
  Devices, logical nodes and data objects have children; an attribute has children exactly
  when it is of the constructed type; a change of quality is reported for quality
  attributes and only for those; control attributes trigger no report; nothing is an array
  or carries a value before initialisation.
\<close>

fun node_conforms :: "model_node \<Rightarrow> bool" where
  "node_conforms (DataAttribute n p s c e i f t o' v a) =
     ((t = T_CONSTRUCTED) = (c \<noteq> None) \<and> (t = T_QUALITY) = (o' = TRG_OPT_QUALITY_CHANGED)
      \<and> (f = FC_CO \<longrightarrow> o' = 0) \<and> e = 0 \<and> i = - 1 \<and> v = None \<and> a = 0)"
| "node_conforms (DataObject n p s c e i) = (c \<noteq> None \<and> e = 0 \<and> i = - 1)"
| "node_conforms (LogicalNode n p s c) = (c \<noteq> None)"
| "node_conforms (LogicalDevice n p s c l) = (c \<noteq> None \<and> l = None)"

text \<open>Moving a list of structures by a distance in memory.\<close>

fun relocate :: "nat \<Rightarrow> addr \<times> model_node \<Rightarrow> addr \<times> model_node" where
  "relocate d (a, n) =
     (a + d, link_node (label_of n) (map_option (\<lambda>x. x + d) (node_parent n))
               (map_option (\<lambda>x. x + d) (node_sibling n)) (map_option (\<lambda>x. x + d) (node_firstChild n)))"

end
