(* ===== verification/Ied_Structure.thy ===== *)
theory Ied_Structure
  imports Ied_Model
begin

text \<open>
  What the static models of the repository share beyond their structures: data sets, report
  control blocks and the root structure, references by names, and the assignment of initial
  values. The locale \<open>static_model\<close> states what is checked of one model, a successful pass of
  the checker over its table and distinct addresses, and proves from it that the model is
  one tree and stays one after initialisation.
\<close>

section \<open>Data sets, reports and the root\<close>

record data_set_entry =
  fcda_logicalDeviceName :: string
  fcda_isLDNameDynamicallyAllocated :: bool
  fcda_variableName :: string
  fcda_index :: int
  fcda_componentName :: "string option"
  fcda_value :: "mms_value option"
  fcda_sibling :: "nat option"

record data_set =
  ds_logicalDeviceName :: string
  ds_name :: string
  ds_elementCount :: int
  ds_fcdas :: "nat option"
  ds_sibling :: "nat option"

record report_control_block =
  rcb_parent :: addr
  rcb_name :: string
  rcb_rptId :: string
  rcb_buffered :: bool
  rcb_dataSetName :: string
  rcb_confRef :: "32 word"
  rcb_trgOps :: "8 word"
  rcb_options :: "8 word"
  rcb_bufferTime :: "32 word"
  rcb_intPeriod :: "32 word"
  rcb_clientReservation :: "8 word list"
  rcb_sibling :: "nat option"

record ied_model =
  im_name :: string
  im_firstChild :: addr
  im_dataSets :: data_set
  im_rcbs :: nat

section \<open>Initial values\<close>

fun with_mmsValue :: "mms_value \<Rightarrow> model_node \<Rightarrow> model_node" where
  "with_mmsValue x (DataAttribute n p s c e i f t o' v a) = DataAttribute n p s c e i f t o' (Some x) a"
| "with_mmsValue x n = n"

definition assign :: "addr \<Rightarrow> mms_value \<Rightarrow> node_table \<Rightarrow> node_table" where
  "assign a x tbl = map (\<lambda>(b, n). (b, if b = a then with_mmsValue x n else n)) tbl"

definition assign_all :: "(addr \<times> mms_value) list \<Rightarrow> node_table \<Rightarrow> node_table" where
  "assign_all vs tbl = fold (\<lambda>(a, x). assign a x) vs tbl"

section \<open>References and chains\<close>

fun fc_name :: "functional_constraint \<Rightarrow> string" where
  "fc_name FC_ST = ''ST''"
| "fc_name FC_MX = ''MX''"
| "fc_name FC_SP = ''SP''"
| "fc_name FC_CF = ''CF''"
| "fc_name FC_DC = ''DC''"
| "fc_name FC_SG = ''SG''"
| "fc_name FC_EX = ''EX''"
| "fc_name FC_CO = ''CO''"

text \<open>
  The logical device and the MMS variable name of a data attribute directly below a data
  object, read off the structures by following the \<open>parent\<close> pointers.
\<close>

definition reference :: "node_table \<Rightarrow> addr \<Rightarrow> (string \<times> string) option" where
  "reference tbl a =
     (case map_of tbl a of
        Some (DataAttribute (Some da) (Some q) _ _ _ _ fc _ _ _ _) \<Rightarrow>
          (case map_of tbl q of
             Some (DataObject (Some don) (Some l) _ _ _ _) \<Rightarrow>
               (case map_of tbl l of
                  Some (LogicalNode (Some ln) (Some d) _ _) \<Rightarrow>
                    (case map_of tbl d of
                       Some (LogicalDevice (Some ld) _ _ _ _) \<Rightarrow>
                         Some (ld, ln @ ''$'' @ fc_name fc @ ''$'' @ don @ ''$'' @ da)
                     | _ \<Rightarrow> None)
                | _ \<Rightarrow> None)
           | _ \<Rightarrow> None)
      | _ \<Rightarrow> None)"

text \<open>Following the \<open>sibling\<close> pointers of data set entries or report control blocks.\<close>

fun chain_of :: "nat \<Rightarrow> (nat \<times> 'e) list \<Rightarrow> ('e \<Rightarrow> nat option) \<Rightarrow> nat option \<Rightarrow> 'e list option" where
  "chain_of f tbl next None = Some []"
| "chain_of 0 tbl next (Some a) = None"
| "chain_of (Suc f) tbl next (Some a) =
     (case map_of tbl a of None \<Rightarrow> None | Some e \<Rightarrow> map_option (Cons e) (chain_of f tbl next (next e)))"

section \<open>Initial values keep the structure\<close>

lemma with_mmsValue_sel [simp]:
  "node_parent (with_mmsValue x n) = node_parent n"
  "node_sibling (with_mmsValue x n) = node_sibling n"
  "node_firstChild (with_mmsValue x n) = node_firstChild n"
  by (cases n; simp)+

lemma assign_addrs: "map fst (assign a x tbl) = map fst tbl"
  by (induction tbl) (auto simp: assign_def)

lemma assign_lookup:
  "map_of (assign a x tbl) b = map_option (\<lambda>n. if b = a then with_mmsValue x n else n) (map_of tbl b)"
  by (induction tbl) (auto simp: assign_def)

lemma assign_scan: "scan st (assign a x tbl) = scan st tbl"
  by (induction st tbl rule: scan.induct) (auto simp: assign_def)

lemma assigns_keep:
  "map fst (assign_all vs tbl) = map fst tbl
   \<and> scan st (assign_all vs tbl) = scan st tbl"
  unfolding assign_all_def by (induction vs arbitrary: tbl) (auto simp: assign_addrs assign_scan)

lemma assigns_lookup:
  "distinct (map fst vs) \<Longrightarrow> map_of (assign_all vs tbl) b =
     map_option (\<lambda>n. case map_of vs b of None \<Rightarrow> n | Some x \<Rightarrow> with_mmsValue x n) (map_of tbl b)"
  unfolding assign_all_def
proof (induction vs arbitrary: tbl)
  case (Cons v vs)
  obtain a x where v: "v = (a, x)" by fastforce
  have "map_of vs a = None" using Cons.prems v by (simp add: map_of_eq_None_iff)
  with Cons v show ?case
    by (cases "map_of tbl b") (auto simp: assign_lookup)
qed (simp add: option.map_ident)

fun value_fits :: "mms_value \<Rightarrow> attribute_type \<Rightarrow> bool" where
  "value_fits (MmsInteger i) t = (t \<in> {T_ENUMERATED, T_INT32})"
| "value_fits (MmsVisibleString s) t =
     (t = T_VISIBLE_STRING_255 \<and> length s \<le> 255 \<or> t = T_VISIBLE_STRING_129 \<and> length s \<le> 129)"

fun takes_value :: "model_node \<Rightarrow> bool" where
  "takes_value (DataAttribute n p s c e i f t o' v a) = True"
| "takes_value n = False"

lemma with_mmsValue_attribute:
  "takes_value n \<Longrightarrow> mmsValue (with_mmsValue x n) = Some x \<and> node_type (with_mmsValue x n) = node_type n"
  by (cases n) simp_all

section \<open>Addresses of joined lists\<close>

lemma upt_join: "i \<le> j \<Longrightarrow> j \<le> k \<Longrightarrow> [i ..< j] @ [j ..< k] = [i ..< k]"
  by (metis le_Suc_ex upt_add_eq_append)

lemma upt_join_rest: "i \<le> j \<Longrightarrow> j \<le> k \<Longrightarrow> [i ..< j] @ [j ..< k] @ xs = [i ..< k] @ xs"
  by (metis append_assoc upt_join)

section \<open>A checked model\<close>

locale static_model =
  fixes root first :: addr
    and tbl :: node_table
    and vals :: "(addr \<times> mms_value) list"
  assumes scanned: "scan [(Some root, Some first)] tbl = Some []"
    and addrs_distinct: "distinct (map fst tbl)"
    and one_device: "map_option node_sibling (map_of tbl first) = Some None"
    and vals_distinct: "distinct (map fst vals)"
begin

lemma single_tree: "model_wf (Some root) tbl \<and> (\<exists>t. tbl = emit_list (Some root) [t] \<and> tree_addr t = first)"
proof -
  obtain ts where ts: "tbl = emit_list (Some root) ts" "head_addr ts = Some first"
    and wf: "model_wf (Some root) tbl"
    using scanned_table_wf [OF scanned addrs_distinct] by blast
  then obtain t us where t: "ts = t # us" "tree_addr t = first"
    by (cases ts) (auto simp: head_addr_def)
  then have "map_of tbl first = Some (link_node (tree_label t) (Some root) (head_addr us) (head_addr (children t)))"
    unfolding ts(1) by (cases t) simp
  then have "head_addr us = None" using one_device by simp
  then have "us = []" by (cases us) auto
  with ts(1) t wf show ?thesis by auto
qed

lemma initialised_lookup:
  "map_of (assign_all vals tbl) b =
     map_option (\<lambda>n. case map_of vals b of None \<Rightarrow> n | Some x \<Rightarrow> with_mmsValue x n) (map_of tbl b)"
  by (rule assigns_lookup [OF vals_distinct])

lemma initialised_wf: "model_wf (Some root) (assign_all vals tbl)"
  using scanned_table_wf [of "Some root" first "assign_all vals tbl"] assigns_keep scanned addrs_distinct by simp

lemma initialised_values:
  assumes "list_all (\<lambda>(a, x). \<exists>n. map_of tbl a = Some n \<and> takes_value n \<and> value_fits x (node_type n)) vals"
  shows "list_all (\<lambda>(a, x). \<exists>n. map_of (assign_all vals tbl) a = Some n \<and> mmsValue n = Some x
                           \<and> value_fits x (node_type n)) vals"
proof -
  have "\<exists>n. map_of (assign_all vals tbl) a = Some n \<and> mmsValue n = Some x \<and> value_fits x (node_type n)"
    if ax: "(a, x) \<in> set vals" for a x
  proof -
    have "map_of vals a = Some x" using ax vals_distinct by simp
    moreover obtain n where "map_of tbl a = Some n" "takes_value n" "value_fits x (node_type n)"
      using bspec [OF assms [unfolded list_all_iff] ax] by auto
    ultimately show ?thesis
      using with_mmsValue_attribute [of n x] by (simp add: initialised_lookup)
  qed
  then show ?thesis by (auto simp: list_all_iff)
qed

end

end
