(* ===== verification/Ied_Naming.thy ===== *)
theory Ied_Naming
  imports Ied_Structure
begin

text \<open>
  The header that goes with a static model (\<open>static_model.h\<close>): it declares every structure of
  the model and defines a handle for it, a macro named after the path of the structure that
  stands for its address. The programs use the structures through these handles. The locale
  \<open>named_model\<close> states what is checked of a header in one pass over the table, and proves
  that the handles are exactly the paths in the tree of the model.
\<close>

section \<open>Declarations\<close>

datatype c_type = LogicalDevice_t | LogicalNode_t | DataObject_t | DataAttribute_t

fun c_type_of :: "model_node \<Rightarrow> c_type" where
  "c_type_of (LogicalDevice n p s c l) = LogicalDevice_t"
| "c_type_of (LogicalNode n p s c) = LogicalNode_t"
| "c_type_of (DataObject n p s c e i) = DataObject_t"
| "c_type_of (DataAttribute n p s c e i f t o' v a) = DataAttribute_t"

definition declared_as :: "addr \<times> model_node \<Rightarrow> c_type \<times> addr" where
  "declared_as e = (c_type_of (snd e), fst e)"

section \<open>Handles\<close>

text \<open>The last part of a handle: the name of the structure, and for an element of an array its index.\<close>

fun label_name :: "label \<Rightarrow> string" where
  "label_name (LAttribute None e i f t o' v a) = dec_int i"
| "label_name (LAttribute (Some n) e i f t o' v a) = n"
| "label_name (LObject n e i) = (case n of None \<Rightarrow> [] | Some s \<Rightarrow> s)"
| "label_name (LNode n) = (case n of None \<Rightarrow> [] | Some s \<Rightarrow> s)"
| "label_name (LDevice n l) = (case n of None \<Rightarrow> [] | Some s \<Rightarrow> s)"

fun tree_handles :: "string \<Rightarrow> model_tree list \<Rightarrow> (string \<times> addr) list" where
  "tree_handles pre [] = []"
| "tree_handles pre (MNode a l cs # ts) =
     (pre @ ''_'' @ label_name l, a) # tree_handles (pre @ ''_'' @ label_name l) cs @ tree_handles pre ts"

text \<open>
  The same in one pass over a table, with a stack of the structures above the current one
  and their handles. The pass also returns the stack it ends with.
\<close>

fun handle_pass :: "(addr \<times> string) list \<Rightarrow> node_table \<Rightarrow> (string \<times> addr) list \<times> (addr \<times> string) list" where
  "handle_pass st [] = ([], st)"
| "handle_pass st ((a, n) # tbl) =
     (let st' = dropWhile (\<lambda>e. Some (fst e) \<noteq> node_parent n) st;
          name = (case st' of [] \<Rightarrow> [] | e # _ \<Rightarrow> snd e) @ ''_'' @ label_name (label_of n);
          r = handle_pass ((a, name) # st') tbl
      in ((name, a) # fst r, snd r))"

lemma handle_pass_append:
  "handle_pass st (xs @ ys) =
     (fst (handle_pass st xs) @ fst (handle_pass (snd (handle_pass st xs)) ys),
      snd (handle_pass (snd (handle_pass st xs)) ys))"
  by (induction st xs rule: handle_pass.induct) (simp_all add: Let_def)

lemma handle_pass_join:
  "handle_pass st xs = (h1, st1) \<Longrightarrow> handle_pass st1 ys = (h2, st2) \<Longrightarrow> handle_pass st (xs @ ys) = (h1 @ h2, st2)"
  by (simp add: handle_pass_append)

lemma dropWhile_stale:
  "p \<notin> fst ` set stale \<Longrightarrow> dropWhile (\<lambda>e. Some (fst e) \<noteq> Some p) (stale @ (p, pre) # base) = (p, pre) # base"
  by (induction stale) auto

lemma subset_chain: "S2 \<subseteq> S1 \<union> {a} \<union> B \<Longrightarrow> S1 \<subseteq> A \<Longrightarrow> S2 \<subseteq> S0 \<union> insert a (A \<union> B)"
  by blast

lemma handle_pass_tree:
  assumes "p \<notin> fst ` set stale" and "p \<notin> fst ` set (emit_list (Some p) ts)"
    and "distinct (map fst (emit_list (Some p) ts))"
  shows "\<exists>stale'. fst ` set stale' \<subseteq> fst ` set stale \<union> fst ` set (emit_list (Some p) ts)
    \<and> handle_pass (stale @ (p, pre) # base) (emit_list (Some p) ts) = (tree_handles pre ts, stale' @ (p, pre) # base)"
  using assms
proof (induction "Some p" ts arbitrary: p pre stale base rule: emit_list.induct)
  case (1 p)
  show ?case by (rule exI [of _ stale]) simp
next
  case (2 a l cs ts p)
  let ?name = "pre @ ''_'' @ label_name l"
  have d: "a \<notin> fst ` set (emit_list (Some a) cs)" "distinct (map fst (emit_list (Some a) cs))"
      "distinct (map fst (emit_list (Some p) ts))" "p \<noteq> a" "p \<notin> fst ` set (emit_list (Some a) cs)"
      "p \<notin> fst ` set (emit_list (Some p) ts)"
    using 2(4,5) by auto
  from 2(1) [of "[]" ?name "(p, pre) # base"] d obtain stale1 where
    a1: "fst ` set stale1 \<subseteq> fst ` set (emit_list (Some a) cs)"
      "handle_pass ((a, ?name) # (p, pre) # base) (emit_list (Some a) cs)
         = (tree_handles ?name cs, stale1 @ (a, ?name) # (p, pre) # base)"
    by auto
  have "p \<notin> fst ` set (stale1 @ [(a, ?name)])" using a1(1) d by auto
  from 2(2) [OF this d(6,3), of pre base] obtain stale2 where
    a2: "fst ` set stale2 \<subseteq> fst ` set (stale1 @ [(a, ?name)]) \<union> fst ` set (emit_list (Some p) ts)"
      "handle_pass ((stale1 @ [(a, ?name)]) @ (p, pre) # base) (emit_list (Some p) ts)
         = (tree_handles pre ts, stale2 @ (p, pre) # base)"
    by blast
  have "handle_pass (stale @ (p, pre) # base) (emit_list (Some p) (MNode a l cs # ts))
      = (tree_handles pre (MNode a l cs # ts), stale2 @ (p, pre) # base)"
    using a1(2) a2(2) dropWhile_stale [OF 2(3), of pre base] by (simp add: handle_pass_append Let_def)
  moreover have "fst ` set stale2 \<subseteq> fst ` set stale1 \<union> {a} \<union> fst ` set (emit_list (Some p) ts)"
    using a2(1) by (simp add: image_Un)
  note subset_chain [OF this a1(1), of "fst ` set stale"]
  then have "fst ` set stale2 \<subseteq> fst ` set stale \<union> fst ` set (emit_list (Some p) (MNode a l cs # ts))"
    by (simp add: image_Un)
  ultimately show ?case by blast
qed

section \<open>A model with its header\<close>

locale named_model = static_model root first tbl vals
  for root first :: addr and tbl :: node_table and vals :: "(addr \<times> mms_value) list" +
  fixes declared :: "(c_type \<times> addr) list"
    and handles :: "(string \<times> addr) list"
  assumes root_outside: "root \<notin> set (map fst tbl)"
    and declared_table: "declared = map declared_as tbl"
    and handles_pass: "fst (handle_pass [(root, ''IEDMODEL'')] tbl) = handles"
begin

lemma handles_tree: "\<exists>t. tbl = emit_list (Some root) [t] \<and> handles = tree_handles ''IEDMODEL'' [t]"
proof -
  obtain t where t: "tbl = emit_list (Some root) [t]" using single_tree by blast
  have "fst (handle_pass ([] @ (root, ''IEDMODEL'') # []) tbl) = tree_handles ''IEDMODEL'' [t]"
    using handle_pass_tree [of root "[]" "[t]" "''IEDMODEL''" "[]"] root_outside addrs_distinct unfolding t by auto
  with t handles_pass show ?thesis by auto
qed

lemma handles_addrs: "map snd handles = map fst tbl"
proof -
  have "map snd (fst (handle_pass st xs)) = map fst xs" for st xs
    by (induction st xs rule: handle_pass.induct) (simp_all add: Let_def)
  with handles_pass show ?thesis by metis
qed

lemma declared_addrs: "map snd declared = map fst tbl"
  by (simp add: declared_table declared_as_def)

end

section \<open>Evaluation\<close>

lemma digit_chars:
  "digit_char 0 = CHR ''0''" "digit_char (Suc 0) = CHR ''1''" "digit_char 1 = CHR ''1''" "digit_char 2 = CHR ''2''"
  "digit_char 3 = CHR ''3''" "digit_char 4 = CHR ''4''" "digit_char 5 = CHR ''5''" "digit_char 6 = CHR ''6''"
  "digit_char 7 = CHR ''7''" "digit_char 8 = CHR ''8''" "digit_char 9 = CHR ''9''"
  by (simp_all add: digit_char_def char_of_def bit_0)

lemmas handle_eval = digit_chars dec_nat.simps dec_int_def declared_as_def Let_def

end
