(* ===== verification/Sample_Symbols.thy ===== *)
theory Sample_Symbols
  imports Ied_Structure
begin

text \<open>
  The addresses of the structures of \<open>sample/server_example_simple/static_model.c\<close> in the
  order of the file, and the elements of an attribute that is an array.
\<close>

abbreviation (input) iedModel :: addr where "iedModel \<equiv> 3000"
abbreviation (input) iedModel_Device1 :: addr where "iedModel_Device1 \<equiv> 3001"
abbreviation (input) iedModel_Device1_LLN0 :: addr where "iedModel_Device1_LLN0 \<equiv> 3002"
abbreviation (input) iedModel_Device1_LLN0_Mod :: addr where "iedModel_Device1_LLN0_Mod \<equiv> 3003"
abbreviation (input) iedModel_Device1_LLN0_Mod_q :: addr where "iedModel_Device1_LLN0_Mod_q \<equiv> 3004"
abbreviation (input) iedModel_Device1_LLN0_Mod_t :: addr where "iedModel_Device1_LLN0_Mod_t \<equiv> 3005"
abbreviation (input) iedModel_Device1_LLN0_Mod_ctlModel :: addr where "iedModel_Device1_LLN0_Mod_ctlModel \<equiv> 3006"
abbreviation (input) iedModel_Device1_LLN0_Beh :: addr where "iedModel_Device1_LLN0_Beh \<equiv> 3007"
abbreviation (input) iedModel_Device1_LLN0_Beh_stVal :: addr where "iedModel_Device1_LLN0_Beh_stVal \<equiv> 3008"
abbreviation (input) iedModel_Device1_LLN0_Beh_q :: addr where "iedModel_Device1_LLN0_Beh_q \<equiv> 3009"
abbreviation (input) iedModel_Device1_LLN0_Beh_t :: addr where "iedModel_Device1_LLN0_Beh_t \<equiv> 3010"
abbreviation (input) iedModel_Device1_LLN0_Health :: addr where "iedModel_Device1_LLN0_Health \<equiv> 3011"
abbreviation (input) iedModel_Device1_LLN0_Health_stVal :: addr where "iedModel_Device1_LLN0_Health_stVal \<equiv> 3012"
abbreviation (input) iedModel_Device1_LLN0_Health_q :: addr where "iedModel_Device1_LLN0_Health_q \<equiv> 3013"
abbreviation (input) iedModel_Device1_LLN0_Health_t :: addr where "iedModel_Device1_LLN0_Health_t \<equiv> 3014"
abbreviation (input) iedModel_Device1_LLN0_NamPlt :: addr where "iedModel_Device1_LLN0_NamPlt \<equiv> 3015"
abbreviation (input) iedModel_Device1_LLN0_NamPlt_vendor :: addr where "iedModel_Device1_LLN0_NamPlt_vendor \<equiv> 3016"
abbreviation (input) iedModel_Device1_LLN0_NamPlt_swRev :: addr where "iedModel_Device1_LLN0_NamPlt_swRev \<equiv> 3017"
abbreviation (input) iedModel_Device1_LLN0_NamPlt_d :: addr where "iedModel_Device1_LLN0_NamPlt_d \<equiv> 3018"
abbreviation (input) iedModel_Device1_LLN0_NamPlt_configRev :: addr where "iedModel_Device1_LLN0_NamPlt_configRev \<equiv> 3019"
abbreviation (input) iedModel_Device1_LLN0_NamPlt_ldNs :: addr where "iedModel_Device1_LLN0_NamPlt_ldNs \<equiv> 3020"
abbreviation (input) iedModel_Device1_LPHD1 :: addr where "iedModel_Device1_LPHD1 \<equiv> 3021"
abbreviation (input) iedModel_Device1_LPHD1_PhyNam :: addr where "iedModel_Device1_LPHD1_PhyNam \<equiv> 3022"
abbreviation (input) iedModel_Device1_LPHD1_PhyNam_vendor :: addr where "iedModel_Device1_LPHD1_PhyNam_vendor \<equiv> 3023"
abbreviation (input) iedModel_Device1_LPHD1_PhyHealth :: addr where "iedModel_Device1_LPHD1_PhyHealth \<equiv> 3024"
abbreviation (input) iedModel_Device1_LPHD1_PhyHealth_stVal :: addr where "iedModel_Device1_LPHD1_PhyHealth_stVal \<equiv> 3025"
abbreviation (input) iedModel_Device1_LPHD1_PhyHealth_q :: addr where "iedModel_Device1_LPHD1_PhyHealth_q \<equiv> 3026"
abbreviation (input) iedModel_Device1_LPHD1_PhyHealth_t :: addr where "iedModel_Device1_LPHD1_PhyHealth_t \<equiv> 3027"
abbreviation (input) iedModel_Device1_LPHD1_Proxy :: addr where "iedModel_Device1_LPHD1_Proxy \<equiv> 3028"
abbreviation (input) iedModel_Device1_LPHD1_Proxy_stVal :: addr where "iedModel_Device1_LPHD1_Proxy_stVal \<equiv> 3029"
abbreviation (input) iedModel_Device1_LPHD1_Proxy_q :: addr where "iedModel_Device1_LPHD1_Proxy_q \<equiv> 3030"
abbreviation (input) iedModel_Device1_LPHD1_Proxy_t :: addr where "iedModel_Device1_LPHD1_Proxy_t \<equiv> 3031"
abbreviation (input) iedModel_Device1_DGEN1 :: addr where "iedModel_Device1_DGEN1 \<equiv> 3032"
abbreviation (input) iedModel_Device1_DGEN1_Mod :: addr where "iedModel_Device1_DGEN1_Mod \<equiv> 3033"
abbreviation (input) iedModel_Device1_DGEN1_Mod_q :: addr where "iedModel_Device1_DGEN1_Mod_q \<equiv> 3034"
abbreviation (input) iedModel_Device1_DGEN1_Mod_t :: addr where "iedModel_Device1_DGEN1_Mod_t \<equiv> 3035"
abbreviation (input) iedModel_Device1_DGEN1_Mod_ctlModel :: addr where "iedModel_Device1_DGEN1_Mod_ctlModel \<equiv> 3036"
abbreviation (input) iedModel_Device1_DGEN1_Beh :: addr where "iedModel_Device1_DGEN1_Beh \<equiv> 3037"
abbreviation (input) iedModel_Device1_DGEN1_Beh_stVal :: addr where "iedModel_Device1_DGEN1_Beh_stVal \<equiv> 3038"
abbreviation (input) iedModel_Device1_DGEN1_Beh_q :: addr where "iedModel_Device1_DGEN1_Beh_q \<equiv> 3039"
abbreviation (input) iedModel_Device1_DGEN1_Beh_t :: addr where "iedModel_Device1_DGEN1_Beh_t \<equiv> 3040"
abbreviation (input) iedModel_Device1_DGEN1_Health :: addr where "iedModel_Device1_DGEN1_Health \<equiv> 3041"
abbreviation (input) iedModel_Device1_DGEN1_Health_stVal :: addr where "iedModel_Device1_DGEN1_Health_stVal \<equiv> 3042"
abbreviation (input) iedModel_Device1_DGEN1_Health_q :: addr where "iedModel_Device1_DGEN1_Health_q \<equiv> 3043"
abbreviation (input) iedModel_Device1_DGEN1_Health_t :: addr where "iedModel_Device1_DGEN1_Health_t \<equiv> 3044"
abbreviation (input) iedModel_Device1_DGEN1_NamPlt :: addr where "iedModel_Device1_DGEN1_NamPlt \<equiv> 3045"
abbreviation (input) iedModel_Device1_DGEN1_NamPlt_vendor :: addr where "iedModel_Device1_DGEN1_NamPlt_vendor \<equiv> 3046"
abbreviation (input) iedModel_Device1_DGEN1_NamPlt_swRev :: addr where "iedModel_Device1_DGEN1_NamPlt_swRev \<equiv> 3047"
abbreviation (input) iedModel_Device1_DGEN1_NamPlt_d :: addr where "iedModel_Device1_DGEN1_NamPlt_d \<equiv> 3048"
abbreviation (input) iedModel_Device1_DGEN1_OpTmh :: addr where "iedModel_Device1_DGEN1_OpTmh \<equiv> 3049"
abbreviation (input) iedModel_Device1_DGEN1_OpTmh_stVal :: addr where "iedModel_Device1_DGEN1_OpTmh_stVal \<equiv> 3050"
abbreviation (input) iedModel_Device1_DGEN1_OpTmh_q :: addr where "iedModel_Device1_DGEN1_OpTmh_q \<equiv> 3051"
abbreviation (input) iedModel_Device1_DGEN1_OpTmh_t :: addr where "iedModel_Device1_DGEN1_OpTmh_t \<equiv> 3052"
abbreviation (input) iedModel_Device1_DGEN1_GnOpSt :: addr where "iedModel_Device1_DGEN1_GnOpSt \<equiv> 3053"
abbreviation (input) iedModel_Device1_DGEN1_GnOpSt_stVal :: addr where "iedModel_Device1_DGEN1_GnOpSt_stVal \<equiv> 3054"
abbreviation (input) iedModel_Device1_DGEN1_GnOpSt_q :: addr where "iedModel_Device1_DGEN1_GnOpSt_q \<equiv> 3055"
abbreviation (input) iedModel_Device1_DGEN1_GnOpSt_t :: addr where "iedModel_Device1_DGEN1_GnOpSt_t \<equiv> 3056"
abbreviation (input) iedModel_Device1_DGEN1_OpTmsRs :: addr where "iedModel_Device1_DGEN1_OpTmsRs \<equiv> 3057"
abbreviation (input) iedModel_Device1_DGEN1_OpTmsRs_stVal :: addr where "iedModel_Device1_DGEN1_OpTmsRs_stVal \<equiv> 3058"
abbreviation (input) iedModel_Device1_DGEN1_OpTmsRs_q :: addr where "iedModel_Device1_DGEN1_OpTmsRs_q \<equiv> 3059"
abbreviation (input) iedModel_Device1_DGEN1_OpTmsRs_t :: addr where "iedModel_Device1_DGEN1_OpTmsRs_t \<equiv> 3060"
abbreviation (input) iedModel_Device1_DGEN1_TotWh :: addr where "iedModel_Device1_DGEN1_TotWh \<equiv> 3061"
abbreviation (input) iedModel_Device1_DGEN1_TotWh_mag :: addr where "iedModel_Device1_DGEN1_TotWh_mag \<equiv> 3062"
abbreviation (input) iedModel_Device1_DGEN1_TotWh_mag_f :: addr where "iedModel_Device1_DGEN1_TotWh_mag_f \<equiv> 3063"
abbreviation (input) iedModel_Device1_DGEN1_TotWh_q :: addr where "iedModel_Device1_DGEN1_TotWh_q \<equiv> 3064"
abbreviation (input) iedModel_Device1_DGEN1_TotWh_t :: addr where "iedModel_Device1_DGEN1_TotWh_t \<equiv> 3065"
abbreviation (input) iedModel_Device1_DSCH1 :: addr where "iedModel_Device1_DSCH1 \<equiv> 3066"
abbreviation (input) iedModel_Device1_DSCH1_Mod :: addr where "iedModel_Device1_DSCH1_Mod \<equiv> 3067"
abbreviation (input) iedModel_Device1_DSCH1_Mod_q :: addr where "iedModel_Device1_DSCH1_Mod_q \<equiv> 3068"
abbreviation (input) iedModel_Device1_DSCH1_Mod_t :: addr where "iedModel_Device1_DSCH1_Mod_t \<equiv> 3069"
abbreviation (input) iedModel_Device1_DSCH1_Mod_ctlModel :: addr where "iedModel_Device1_DSCH1_Mod_ctlModel \<equiv> 3070"
abbreviation (input) iedModel_Device1_DSCH1_Beh :: addr where "iedModel_Device1_DSCH1_Beh \<equiv> 3071"
abbreviation (input) iedModel_Device1_DSCH1_Beh_stVal :: addr where "iedModel_Device1_DSCH1_Beh_stVal \<equiv> 3072"
abbreviation (input) iedModel_Device1_DSCH1_Beh_q :: addr where "iedModel_Device1_DSCH1_Beh_q \<equiv> 3073"
abbreviation (input) iedModel_Device1_DSCH1_Beh_t :: addr where "iedModel_Device1_DSCH1_Beh_t \<equiv> 3074"
abbreviation (input) iedModel_Device1_DSCH1_Health :: addr where "iedModel_Device1_DSCH1_Health \<equiv> 3075"
abbreviation (input) iedModel_Device1_DSCH1_Health_stVal :: addr where "iedModel_Device1_DSCH1_Health_stVal \<equiv> 3076"
abbreviation (input) iedModel_Device1_DSCH1_Health_q :: addr where "iedModel_Device1_DSCH1_Health_q \<equiv> 3077"
abbreviation (input) iedModel_Device1_DSCH1_Health_t :: addr where "iedModel_Device1_DSCH1_Health_t \<equiv> 3078"
abbreviation (input) iedModel_Device1_DSCH1_NamPlt :: addr where "iedModel_Device1_DSCH1_NamPlt \<equiv> 3079"
abbreviation (input) iedModel_Device1_DSCH1_NamPlt_vendor :: addr where "iedModel_Device1_DSCH1_NamPlt_vendor \<equiv> 3080"
abbreviation (input) iedModel_Device1_DSCH1_NamPlt_swRev :: addr where "iedModel_Device1_DSCH1_NamPlt_swRev \<equiv> 3081"
abbreviation (input) iedModel_Device1_DSCH1_NamPlt_d :: addr where "iedModel_Device1_DSCH1_NamPlt_d \<equiv> 3082"
abbreviation (input) iedModel_Device1_DSCH1_SchdSt :: addr where "iedModel_Device1_DSCH1_SchdSt \<equiv> 3083"
abbreviation (input) iedModel_Device1_DSCH1_SchdSt_stVal :: addr where "iedModel_Device1_DSCH1_SchdSt_stVal \<equiv> 3084"
abbreviation (input) iedModel_Device1_DSCH1_SchdSt_q :: addr where "iedModel_Device1_DSCH1_SchdSt_q \<equiv> 3085"
abbreviation (input) iedModel_Device1_DSCH1_SchdSt_t :: addr where "iedModel_Device1_DSCH1_SchdSt_t \<equiv> 3086"
abbreviation (input) iedModel_Device1_DSCH1_SchdId :: addr where "iedModel_Device1_DSCH1_SchdId \<equiv> 3087"
abbreviation (input) iedModel_Device1_DSCH1_SchdCat :: addr where "iedModel_Device1_DSCH1_SchdCat \<equiv> 3088"
abbreviation (input) iedModel_Device1_DSCH1_SchdTyp :: addr where "iedModel_Device1_DSCH1_SchdTyp \<equiv> 3089"
abbreviation (input) iedModel_Device1_DSCH1_SchdAbsTm :: addr where "iedModel_Device1_DSCH1_SchdAbsTm \<equiv> 3090"
abbreviation (input) iedModel_Device1_DSCH1_SchdAbsTm_val :: addr where "iedModel_Device1_DSCH1_SchdAbsTm_val \<equiv> 3091"
abbreviation (input) iedModel_Device1_DSCH1_SchdAbsTm_val_0 :: addr where "iedModel_Device1_DSCH1_SchdAbsTm_val_0 \<equiv> 3092"
abbreviation (input) iedModel_Device1_DSCH1_SchdAbsTm_val_1 :: addr where "iedModel_Device1_DSCH1_SchdAbsTm_val_1 \<equiv> 3093"
abbreviation (input) iedModel_Device1_DSCH1_SchdAbsTm_val_2 :: addr where "iedModel_Device1_DSCH1_SchdAbsTm_val_2 \<equiv> 3094"
abbreviation (input) iedModel_Device1_DSCH1_SchdAbsTm_val_3 :: addr where "iedModel_Device1_DSCH1_SchdAbsTm_val_3 \<equiv> 3095"
abbreviation (input) iedModel_Device1_DSCH1_SchdAbsTm_val_4 :: addr where "iedModel_Device1_DSCH1_SchdAbsTm_val_4 \<equiv> 3096"
abbreviation (input) iedModel_Device1_DSCH1_SchdAbsTm_val_5 :: addr where "iedModel_Device1_DSCH1_SchdAbsTm_val_5 \<equiv> 3097"
abbreviation (input) iedModel_Device1_DSCH1_SchdAbsTm_val_6 :: addr where "iedModel_Device1_DSCH1_SchdAbsTm_val_6 \<equiv> 3098"
abbreviation (input) iedModel_Device1_DSCH1_SchdAbsTm_val_7 :: addr where "iedModel_Device1_DSCH1_SchdAbsTm_val_7 \<equiv> 3099"
abbreviation (input) iedModel_Device1_DSCH1_SchdAbsTm_val_8 :: addr where "iedModel_Device1_DSCH1_SchdAbsTm_val_8 \<equiv> 3100"
abbreviation (input) iedModel_Device1_DSCH1_SchdAbsTm_val_9 :: addr where "iedModel_Device1_DSCH1_SchdAbsTm_val_9 \<equiv> 3101"
abbreviation (input) iedModel_Device1_DSCH1_SchdAbsTm_val_10 :: addr where "iedModel_Device1_DSCH1_SchdAbsTm_val_10 \<equiv> 3102"
abbreviation (input) iedModel_Device1_DSCH1_SchdAbsTm_val_11 :: addr where "iedModel_Device1_DSCH1_SchdAbsTm_val_11 \<equiv> 3103"
abbreviation (input) iedModel_Device1_DSCH1_SchdAbsTm_val_12 :: addr where "iedModel_Device1_DSCH1_SchdAbsTm_val_12 \<equiv> 3104"
abbreviation (input) iedModel_Device1_DSCH1_SchdAbsTm_val_13 :: addr where "iedModel_Device1_DSCH1_SchdAbsTm_val_13 \<equiv> 3105"
abbreviation (input) iedModel_Device1_DSCH1_SchdAbsTm_val_14 :: addr where "iedModel_Device1_DSCH1_SchdAbsTm_val_14 \<equiv> 3106"
abbreviation (input) iedModel_Device1_DSCH1_SchdAbsTm_val_15 :: addr where "iedModel_Device1_DSCH1_SchdAbsTm_val_15 \<equiv> 3107"
abbreviation (input) iedModel_Device1_DSCH1_SchdAbsTm_val_16 :: addr where "iedModel_Device1_DSCH1_SchdAbsTm_val_16 \<equiv> 3108"
abbreviation (input) iedModel_Device1_DSCH1_SchdAbsTm_val_17 :: addr where "iedModel_Device1_DSCH1_SchdAbsTm_val_17 \<equiv> 3109"
abbreviation (input) iedModel_Device1_DSCH1_SchdAbsTm_val_18 :: addr where "iedModel_Device1_DSCH1_SchdAbsTm_val_18 \<equiv> 3110"
abbreviation (input) iedModel_Device1_DSCH1_SchdAbsTm_val_19 :: addr where "iedModel_Device1_DSCH1_SchdAbsTm_val_19 \<equiv> 3111"
abbreviation (input) iedModel_Device1_DSCH1_SchdAbsTm_val_20 :: addr where "iedModel_Device1_DSCH1_SchdAbsTm_val_20 \<equiv> 3112"
abbreviation (input) iedModel_Device1_DSCH1_SchdAbsTm_val_21 :: addr where "iedModel_Device1_DSCH1_SchdAbsTm_val_21 \<equiv> 3113"
abbreviation (input) iedModel_Device1_DSCH1_SchdAbsTm_val_22 :: addr where "iedModel_Device1_DSCH1_SchdAbsTm_val_22 \<equiv> 3114"
abbreviation (input) iedModel_Device1_DSCH1_SchdAbsTm_val_23 :: addr where "iedModel_Device1_DSCH1_SchdAbsTm_val_23 \<equiv> 3115"
abbreviation (input) iedModel_Device1_DSCH1_SchdAbsTm_val_24 :: addr where "iedModel_Device1_DSCH1_SchdAbsTm_val_24 \<equiv> 3116"
abbreviation (input) iedModel_Device1_DSCH1_SchdAbsTm_val_25 :: addr where "iedModel_Device1_DSCH1_SchdAbsTm_val_25 \<equiv> 3117"
abbreviation (input) iedModel_Device1_DSCH1_SchdAbsTm_val_26 :: addr where "iedModel_Device1_DSCH1_SchdAbsTm_val_26 \<equiv> 3118"
abbreviation (input) iedModel_Device1_DSCH1_SchdAbsTm_val_27 :: addr where "iedModel_Device1_DSCH1_SchdAbsTm_val_27 \<equiv> 3119"
abbreviation (input) iedModel_Device1_DSCH1_SchdAbsTm_val_28 :: addr where "iedModel_Device1_DSCH1_SchdAbsTm_val_28 \<equiv> 3120"
abbreviation (input) iedModel_Device1_DSCH1_SchdAbsTm_val_29 :: addr where "iedModel_Device1_DSCH1_SchdAbsTm_val_29 \<equiv> 3121"
abbreviation (input) iedModel_Device1_DSCH1_SchdAbsTm_val_30 :: addr where "iedModel_Device1_DSCH1_SchdAbsTm_val_30 \<equiv> 3122"
abbreviation (input) iedModel_Device1_DSCH1_SchdAbsTm_val_31 :: addr where "iedModel_Device1_DSCH1_SchdAbsTm_val_31 \<equiv> 3123"
abbreviation (input) iedModel_Device1_DSCH1_SchdAbsTm_val_32 :: addr where "iedModel_Device1_DSCH1_SchdAbsTm_val_32 \<equiv> 3124"
abbreviation (input) iedModel_Device1_DSCH1_SchdAbsTm_val_33 :: addr where "iedModel_Device1_DSCH1_SchdAbsTm_val_33 \<equiv> 3125"
abbreviation (input) iedModel_Device1_DSCH1_SchdAbsTm_val_34 :: addr where "iedModel_Device1_DSCH1_SchdAbsTm_val_34 \<equiv> 3126"
abbreviation (input) iedModel_Device1_DSCH1_SchdAbsTm_val_35 :: addr where "iedModel_Device1_DSCH1_SchdAbsTm_val_35 \<equiv> 3127"
abbreviation (input) iedModel_Device1_DSCH1_SchdAbsTm_val_36 :: addr where "iedModel_Device1_DSCH1_SchdAbsTm_val_36 \<equiv> 3128"
abbreviation (input) iedModel_Device1_DSCH1_SchdAbsTm_val_37 :: addr where "iedModel_Device1_DSCH1_SchdAbsTm_val_37 \<equiv> 3129"
abbreviation (input) iedModel_Device1_DSCH1_SchdAbsTm_val_38 :: addr where "iedModel_Device1_DSCH1_SchdAbsTm_val_38 \<equiv> 3130"
abbreviation (input) iedModel_Device1_DSCH1_SchdAbsTm_val_39 :: addr where "iedModel_Device1_DSCH1_SchdAbsTm_val_39 \<equiv> 3131"
abbreviation (input) iedModel_Device1_DSCH1_SchdAbsTm_val_40 :: addr where "iedModel_Device1_DSCH1_SchdAbsTm_val_40 \<equiv> 3132"
abbreviation (input) iedModel_Device1_DSCH1_SchdAbsTm_val_41 :: addr where "iedModel_Device1_DSCH1_SchdAbsTm_val_41 \<equiv> 3133"
abbreviation (input) iedModel_Device1_DSCH1_SchdAbsTm_val_42 :: addr where "iedModel_Device1_DSCH1_SchdAbsTm_val_42 \<equiv> 3134"
abbreviation (input) iedModel_Device1_DSCH1_SchdAbsTm_val_43 :: addr where "iedModel_Device1_DSCH1_SchdAbsTm_val_43 \<equiv> 3135"
abbreviation (input) iedModel_Device1_DSCH1_SchdAbsTm_val_44 :: addr where "iedModel_Device1_DSCH1_SchdAbsTm_val_44 \<equiv> 3136"
abbreviation (input) iedModel_Device1_DSCH1_SchdAbsTm_val_45 :: addr where "iedModel_Device1_DSCH1_SchdAbsTm_val_45 \<equiv> 3137"
abbreviation (input) iedModel_Device1_DSCH1_SchdAbsTm_val_46 :: addr where "iedModel_Device1_DSCH1_SchdAbsTm_val_46 \<equiv> 3138"
abbreviation (input) iedModel_Device1_DSCH1_SchdAbsTm_val_47 :: addr where "iedModel_Device1_DSCH1_SchdAbsTm_val_47 \<equiv> 3139"
abbreviation (input) iedModel_Device1_DSCH1_SchdAbsTm_val_48 :: addr where "iedModel_Device1_DSCH1_SchdAbsTm_val_48 \<equiv> 3140"
abbreviation (input) iedModel_Device1_DSCH1_SchdAbsTm_val_49 :: addr where "iedModel_Device1_DSCH1_SchdAbsTm_val_49 \<equiv> 3141"
abbreviation (input) iedModel_Device1_DSCH1_SchdAbsTm_val_50 :: addr where "iedModel_Device1_DSCH1_SchdAbsTm_val_50 \<equiv> 3142"
abbreviation (input) iedModel_Device1_DSCH1_SchdAbsTm_val_51 :: addr where "iedModel_Device1_DSCH1_SchdAbsTm_val_51 \<equiv> 3143"
abbreviation (input) iedModel_Device1_DSCH1_SchdAbsTm_val_52 :: addr where "iedModel_Device1_DSCH1_SchdAbsTm_val_52 \<equiv> 3144"
abbreviation (input) iedModel_Device1_DSCH1_SchdAbsTm_val_53 :: addr where "iedModel_Device1_DSCH1_SchdAbsTm_val_53 \<equiv> 3145"
abbreviation (input) iedModel_Device1_DSCH1_SchdAbsTm_val_54 :: addr where "iedModel_Device1_DSCH1_SchdAbsTm_val_54 \<equiv> 3146"
abbreviation (input) iedModel_Device1_DSCH1_SchdAbsTm_val_55 :: addr where "iedModel_Device1_DSCH1_SchdAbsTm_val_55 \<equiv> 3147"
abbreviation (input) iedModel_Device1_DSCH1_SchdAbsTm_val_56 :: addr where "iedModel_Device1_DSCH1_SchdAbsTm_val_56 \<equiv> 3148"
abbreviation (input) iedModel_Device1_DSCH1_SchdAbsTm_val_57 :: addr where "iedModel_Device1_DSCH1_SchdAbsTm_val_57 \<equiv> 3149"
abbreviation (input) iedModel_Device1_DSCH1_SchdAbsTm_val_58 :: addr where "iedModel_Device1_DSCH1_SchdAbsTm_val_58 \<equiv> 3150"
abbreviation (input) iedModel_Device1_DSCH1_SchdAbsTm_val_59 :: addr where "iedModel_Device1_DSCH1_SchdAbsTm_val_59 \<equiv> 3151"
abbreviation (input) iedModel_Device1_DSCH1_SchdAbsTm_val_60 :: addr where "iedModel_Device1_DSCH1_SchdAbsTm_val_60 \<equiv> 3152"
abbreviation (input) iedModel_Device1_DSCH1_SchdAbsTm_val_61 :: addr where "iedModel_Device1_DSCH1_SchdAbsTm_val_61 \<equiv> 3153"
abbreviation (input) iedModel_Device1_DSCH1_SchdAbsTm_val_62 :: addr where "iedModel_Device1_DSCH1_SchdAbsTm_val_62 \<equiv> 3154"
abbreviation (input) iedModel_Device1_DSCH1_SchdAbsTm_val_63 :: addr where "iedModel_Device1_DSCH1_SchdAbsTm_val_63 \<equiv> 3155"
abbreviation (input) iedModel_Device1_DSCH1_SchdAbsTm_val_64 :: addr where "iedModel_Device1_DSCH1_SchdAbsTm_val_64 \<equiv> 3156"
abbreviation (input) iedModel_Device1_DSCH1_SchdAbsTm_val_65 :: addr where "iedModel_Device1_DSCH1_SchdAbsTm_val_65 \<equiv> 3157"
abbreviation (input) iedModel_Device1_DSCH1_SchdAbsTm_val_66 :: addr where "iedModel_Device1_DSCH1_SchdAbsTm_val_66 \<equiv> 3158"
abbreviation (input) iedModel_Device1_DSCH1_SchdAbsTm_val_67 :: addr where "iedModel_Device1_DSCH1_SchdAbsTm_val_67 \<equiv> 3159"
abbreviation (input) iedModel_Device1_DSCH1_SchdAbsTm_val_68 :: addr where "iedModel_Device1_DSCH1_SchdAbsTm_val_68 \<equiv> 3160"
abbreviation (input) iedModel_Device1_DSCH1_SchdAbsTm_val_69 :: addr where "iedModel_Device1_DSCH1_SchdAbsTm_val_69 \<equiv> 3161"
abbreviation (input) iedModel_Device1_DSCH1_SchdAbsTm_val_70 :: addr where "iedModel_Device1_DSCH1_SchdAbsTm_val_70 \<equiv> 3162"
abbreviation (input) iedModel_Device1_DSCH1_SchdAbsTm_val_71 :: addr where "iedModel_Device1_DSCH1_SchdAbsTm_val_71 \<equiv> 3163"
abbreviation (input) iedModel_Device1_DSCH1_SchdAbsTm_val_72 :: addr where "iedModel_Device1_DSCH1_SchdAbsTm_val_72 \<equiv> 3164"
abbreviation (input) iedModel_Device1_DSCH1_SchdAbsTm_val_73 :: addr where "iedModel_Device1_DSCH1_SchdAbsTm_val_73 \<equiv> 3165"
abbreviation (input) iedModel_Device1_DSCH1_SchdAbsTm_val_74 :: addr where "iedModel_Device1_DSCH1_SchdAbsTm_val_74 \<equiv> 3166"
abbreviation (input) iedModel_Device1_DSCH1_SchdAbsTm_val_75 :: addr where "iedModel_Device1_DSCH1_SchdAbsTm_val_75 \<equiv> 3167"
abbreviation (input) iedModel_Device1_DSCH1_SchdAbsTm_val_76 :: addr where "iedModel_Device1_DSCH1_SchdAbsTm_val_76 \<equiv> 3168"
abbreviation (input) iedModel_Device1_DSCH1_SchdAbsTm_val_77 :: addr where "iedModel_Device1_DSCH1_SchdAbsTm_val_77 \<equiv> 3169"
abbreviation (input) iedModel_Device1_DSCH1_SchdAbsTm_val_78 :: addr where "iedModel_Device1_DSCH1_SchdAbsTm_val_78 \<equiv> 3170"
abbreviation (input) iedModel_Device1_DSCH1_SchdAbsTm_val_79 :: addr where "iedModel_Device1_DSCH1_SchdAbsTm_val_79 \<equiv> 3171"
abbreviation (input) iedModel_Device1_DSCH1_SchdAbsTm_val_80 :: addr where "iedModel_Device1_DSCH1_SchdAbsTm_val_80 \<equiv> 3172"
abbreviation (input) iedModel_Device1_DSCH1_SchdAbsTm_val_81 :: addr where "iedModel_Device1_DSCH1_SchdAbsTm_val_81 \<equiv> 3173"
abbreviation (input) iedModel_Device1_DSCH1_SchdAbsTm_val_82 :: addr where "iedModel_Device1_DSCH1_SchdAbsTm_val_82 \<equiv> 3174"
abbreviation (input) iedModel_Device1_DSCH1_SchdAbsTm_val_83 :: addr where "iedModel_Device1_DSCH1_SchdAbsTm_val_83 \<equiv> 3175"
abbreviation (input) iedModel_Device1_DSCH1_SchdAbsTm_val_84 :: addr where "iedModel_Device1_DSCH1_SchdAbsTm_val_84 \<equiv> 3176"
abbreviation (input) iedModel_Device1_DSCH1_SchdAbsTm_val_85 :: addr where "iedModel_Device1_DSCH1_SchdAbsTm_val_85 \<equiv> 3177"
abbreviation (input) iedModel_Device1_DSCH1_SchdAbsTm_val_86 :: addr where "iedModel_Device1_DSCH1_SchdAbsTm_val_86 \<equiv> 3178"
abbreviation (input) iedModel_Device1_DSCH1_SchdAbsTm_val_87 :: addr where "iedModel_Device1_DSCH1_SchdAbsTm_val_87 \<equiv> 3179"
abbreviation (input) iedModel_Device1_DSCH1_SchdAbsTm_val_88 :: addr where "iedModel_Device1_DSCH1_SchdAbsTm_val_88 \<equiv> 3180"
abbreviation (input) iedModel_Device1_DSCH1_SchdAbsTm_val_89 :: addr where "iedModel_Device1_DSCH1_SchdAbsTm_val_89 \<equiv> 3181"
abbreviation (input) iedModel_Device1_DSCH1_SchdAbsTm_val_90 :: addr where "iedModel_Device1_DSCH1_SchdAbsTm_val_90 \<equiv> 3182"
abbreviation (input) iedModel_Device1_DSCH1_SchdAbsTm_val_91 :: addr where "iedModel_Device1_DSCH1_SchdAbsTm_val_91 \<equiv> 3183"
abbreviation (input) iedModel_Device1_DSCH1_SchdAbsTm_val_92 :: addr where "iedModel_Device1_DSCH1_SchdAbsTm_val_92 \<equiv> 3184"
abbreviation (input) iedModel_Device1_DSCH1_SchdAbsTm_val_93 :: addr where "iedModel_Device1_DSCH1_SchdAbsTm_val_93 \<equiv> 3185"
abbreviation (input) iedModel_Device1_DSCH1_SchdAbsTm_val_94 :: addr where "iedModel_Device1_DSCH1_SchdAbsTm_val_94 \<equiv> 3186"
abbreviation (input) iedModel_Device1_DSCH1_SchdAbsTm_val_95 :: addr where "iedModel_Device1_DSCH1_SchdAbsTm_val_95 \<equiv> 3187"
abbreviation (input) iedModel_Device1_DSCH1_SchdAbsTm_val_96 :: addr where "iedModel_Device1_DSCH1_SchdAbsTm_val_96 \<equiv> 3188"
abbreviation (input) iedModel_Device1_DSCH1_SchdAbsTm_val_97 :: addr where "iedModel_Device1_DSCH1_SchdAbsTm_val_97 \<equiv> 3189"
abbreviation (input) iedModel_Device1_DSCH1_SchdAbsTm_val_98 :: addr where "iedModel_Device1_DSCH1_SchdAbsTm_val_98 \<equiv> 3190"
abbreviation (input) iedModel_Device1_DSCH1_SchdAbsTm_val_99 :: addr where "iedModel_Device1_DSCH1_SchdAbsTm_val_99 \<equiv> 3191"
abbreviation (input) iedModel_Device1_DSCH1_SchdAbsTm_val_100 :: addr where "iedModel_Device1_DSCH1_SchdAbsTm_val_100 \<equiv> 3192"
abbreviation (input) iedModel_Device1_DSCH1_SchdAbsTm_val_101 :: addr where "iedModel_Device1_DSCH1_SchdAbsTm_val_101 \<equiv> 3193"
abbreviation (input) iedModel_Device1_DSCH1_SchdAbsTm_val_102 :: addr where "iedModel_Device1_DSCH1_SchdAbsTm_val_102 \<equiv> 3194"
abbreviation (input) iedModel_Device1_DSCH1_SchdAbsTm_val_103 :: addr where "iedModel_Device1_DSCH1_SchdAbsTm_val_103 \<equiv> 3195"
abbreviation (input) iedModel_Device1_DSCH1_SchdAbsTm_val_104 :: addr where "iedModel_Device1_DSCH1_SchdAbsTm_val_104 \<equiv> 3196"
abbreviation (input) iedModel_Device1_DSCH1_SchdAbsTm_val_105 :: addr where "iedModel_Device1_DSCH1_SchdAbsTm_val_105 \<equiv> 3197"
abbreviation (input) iedModel_Device1_DSCH1_SchdAbsTm_val_106 :: addr where "iedModel_Device1_DSCH1_SchdAbsTm_val_106 \<equiv> 3198"
abbreviation (input) iedModel_Device1_DSCH1_SchdAbsTm_val_107 :: addr where "iedModel_Device1_DSCH1_SchdAbsTm_val_107 \<equiv> 3199"
abbreviation (input) iedModel_Device1_DSCH1_SchdAbsTm_val_108 :: addr where "iedModel_Device1_DSCH1_SchdAbsTm_val_108 \<equiv> 3200"
abbreviation (input) iedModel_Device1_DSCH1_SchdAbsTm_val_109 :: addr where "iedModel_Device1_DSCH1_SchdAbsTm_val_109 \<equiv> 3201"
abbreviation (input) iedModel_Device1_DSCH1_SchdAbsTm_val_110 :: addr where "iedModel_Device1_DSCH1_SchdAbsTm_val_110 \<equiv> 3202"
abbreviation (input) iedModel_Device1_DSCH1_SchdAbsTm_val_111 :: addr where "iedModel_Device1_DSCH1_SchdAbsTm_val_111 \<equiv> 3203"
abbreviation (input) iedModel_Device1_DSCH1_SchdAbsTm_val_112 :: addr where "iedModel_Device1_DSCH1_SchdAbsTm_val_112 \<equiv> 3204"
abbreviation (input) iedModel_Device1_DSCH1_SchdAbsTm_val_113 :: addr where "iedModel_Device1_DSCH1_SchdAbsTm_val_113 \<equiv> 3205"
abbreviation (input) iedModel_Device1_DSCH1_SchdAbsTm_val_114 :: addr where "iedModel_Device1_DSCH1_SchdAbsTm_val_114 \<equiv> 3206"
abbreviation (input) iedModel_Device1_DSCH1_SchdAbsTm_val_115 :: addr where "iedModel_Device1_DSCH1_SchdAbsTm_val_115 \<equiv> 3207"
abbreviation (input) iedModel_Device1_DSCH1_SchdAbsTm_val_116 :: addr where "iedModel_Device1_DSCH1_SchdAbsTm_val_116 \<equiv> 3208"
abbreviation (input) iedModel_Device1_DSCH1_SchdAbsTm_val_117 :: addr where "iedModel_Device1_DSCH1_SchdAbsTm_val_117 \<equiv> 3209"
abbreviation (input) iedModel_Device1_DSCH1_SchdAbsTm_val_118 :: addr where "iedModel_Device1_DSCH1_SchdAbsTm_val_118 \<equiv> 3210"
abbreviation (input) iedModel_Device1_DSCH1_SchdAbsTm_val_119 :: addr where "iedModel_Device1_DSCH1_SchdAbsTm_val_119 \<equiv> 3211"
abbreviation (input) iedModel_Device1_DSCH1_SchdAbsTm_val_120 :: addr where "iedModel_Device1_DSCH1_SchdAbsTm_val_120 \<equiv> 3212"
abbreviation (input) iedModel_Device1_DSCH1_SchdAbsTm_val_121 :: addr where "iedModel_Device1_DSCH1_SchdAbsTm_val_121 \<equiv> 3213"
abbreviation (input) iedModel_Device1_DSCH1_SchdAbsTm_val_122 :: addr where "iedModel_Device1_DSCH1_SchdAbsTm_val_122 \<equiv> 3214"
abbreviation (input) iedModel_Device1_DSCH1_SchdAbsTm_val_123 :: addr where "iedModel_Device1_DSCH1_SchdAbsTm_val_123 \<equiv> 3215"
abbreviation (input) iedModel_Device1_DSCH1_SchdAbsTm_val_124 :: addr where "iedModel_Device1_DSCH1_SchdAbsTm_val_124 \<equiv> 3216"
abbreviation (input) iedModel_Device1_DSCH1_SchdAbsTm_val_125 :: addr where "iedModel_Device1_DSCH1_SchdAbsTm_val_125 \<equiv> 3217"
abbreviation (input) iedModel_Device1_DSCH1_SchdAbsTm_val_126 :: addr where "iedModel_Device1_DSCH1_SchdAbsTm_val_126 \<equiv> 3218"
abbreviation (input) iedModel_Device1_DSCH1_SchdAbsTm_val_127 :: addr where "iedModel_Device1_DSCH1_SchdAbsTm_val_127 \<equiv> 3219"
abbreviation (input) iedModel_Device1_DSCH1_SchdAbsTm_val_128 :: addr where "iedModel_Device1_DSCH1_SchdAbsTm_val_128 \<equiv> 3220"
abbreviation (input) iedModel_Device1_DSCH1_SchdAbsTm_val_129 :: addr where "iedModel_Device1_DSCH1_SchdAbsTm_val_129 \<equiv> 3221"
abbreviation (input) iedModel_Device1_DSCH1_SchdAbsTm_val_130 :: addr where "iedModel_Device1_DSCH1_SchdAbsTm_val_130 \<equiv> 3222"
abbreviation (input) iedModel_Device1_DSCH1_SchdAbsTm_val_131 :: addr where "iedModel_Device1_DSCH1_SchdAbsTm_val_131 \<equiv> 3223"
abbreviation (input) iedModel_Device1_DSCH1_SchdAbsTm_val_132 :: addr where "iedModel_Device1_DSCH1_SchdAbsTm_val_132 \<equiv> 3224"
abbreviation (input) iedModel_Device1_DSCH1_SchdAbsTm_val_133 :: addr where "iedModel_Device1_DSCH1_SchdAbsTm_val_133 \<equiv> 3225"
abbreviation (input) iedModel_Device1_DSCH1_SchdAbsTm_val_134 :: addr where "iedModel_Device1_DSCH1_SchdAbsTm_val_134 \<equiv> 3226"
abbreviation (input) iedModel_Device1_DSCH1_SchdAbsTm_val_135 :: addr where "iedModel_Device1_DSCH1_SchdAbsTm_val_135 \<equiv> 3227"
abbreviation (input) iedModel_Device1_DSCH1_SchdAbsTm_val_136 :: addr where "iedModel_Device1_DSCH1_SchdAbsTm_val_136 \<equiv> 3228"
abbreviation (input) iedModel_Device1_DSCH1_SchdAbsTm_val_137 :: addr where "iedModel_Device1_DSCH1_SchdAbsTm_val_137 \<equiv> 3229"
abbreviation (input) iedModel_Device1_DSCH1_SchdAbsTm_val_138 :: addr where "iedModel_Device1_DSCH1_SchdAbsTm_val_138 \<equiv> 3230"
abbreviation (input) iedModel_Device1_DSCH1_SchdAbsTm_val_139 :: addr where "iedModel_Device1_DSCH1_SchdAbsTm_val_139 \<equiv> 3231"
abbreviation (input) iedModel_Device1_DSCH1_SchdAbsTm_val_140 :: addr where "iedModel_Device1_DSCH1_SchdAbsTm_val_140 \<equiv> 3232"
abbreviation (input) iedModel_Device1_DSCH1_SchdAbsTm_val_141 :: addr where "iedModel_Device1_DSCH1_SchdAbsTm_val_141 \<equiv> 3233"
abbreviation (input) iedModel_Device1_DSCH1_SchdAbsTm_val_142 :: addr where "iedModel_Device1_DSCH1_SchdAbsTm_val_142 \<equiv> 3234"
abbreviation (input) iedModel_Device1_DSCH1_SchdAbsTm_val_143 :: addr where "iedModel_Device1_DSCH1_SchdAbsTm_val_143 \<equiv> 3235"
abbreviation (input) iedModel_Device1_DSCH1_SchdAbsTm_val_144 :: addr where "iedModel_Device1_DSCH1_SchdAbsTm_val_144 \<equiv> 3236"
abbreviation (input) iedModel_Device1_DSCH1_SchdAbsTm_val_145 :: addr where "iedModel_Device1_DSCH1_SchdAbsTm_val_145 \<equiv> 3237"
abbreviation (input) iedModel_Device1_DSCH1_SchdAbsTm_val_146 :: addr where "iedModel_Device1_DSCH1_SchdAbsTm_val_146 \<equiv> 3238"
abbreviation (input) iedModel_Device1_DSCH1_SchdAbsTm_val_147 :: addr where "iedModel_Device1_DSCH1_SchdAbsTm_val_147 \<equiv> 3239"
abbreviation (input) iedModel_Device1_DSCH1_SchdAbsTm_val_148 :: addr where "iedModel_Device1_DSCH1_SchdAbsTm_val_148 \<equiv> 3240"
abbreviation (input) iedModel_Device1_DSCH1_SchdAbsTm_val_149 :: addr where "iedModel_Device1_DSCH1_SchdAbsTm_val_149 \<equiv> 3241"
abbreviation (input) iedModel_Device1_DSCH1_SchdAbsTm_val_150 :: addr where "iedModel_Device1_DSCH1_SchdAbsTm_val_150 \<equiv> 3242"
abbreviation (input) iedModel_Device1_DSCH1_SchdAbsTm_val_151 :: addr where "iedModel_Device1_DSCH1_SchdAbsTm_val_151 \<equiv> 3243"
abbreviation (input) iedModel_Device1_DSCH1_SchdAbsTm_val_152 :: addr where "iedModel_Device1_DSCH1_SchdAbsTm_val_152 \<equiv> 3244"
abbreviation (input) iedModel_Device1_DSCH1_SchdAbsTm_val_153 :: addr where "iedModel_Device1_DSCH1_SchdAbsTm_val_153 \<equiv> 3245"
abbreviation (input) iedModel_Device1_DSCH1_SchdAbsTm_val_154 :: addr where "iedModel_Device1_DSCH1_SchdAbsTm_val_154 \<equiv> 3246"
abbreviation (input) iedModel_Device1_DSCH1_SchdAbsTm_val_155 :: addr where "iedModel_Device1_DSCH1_SchdAbsTm_val_155 \<equiv> 3247"
abbreviation (input) iedModel_Device1_DSCH1_SchdAbsTm_val_156 :: addr where "iedModel_Device1_DSCH1_SchdAbsTm_val_156 \<equiv> 3248"
abbreviation (input) iedModel_Device1_DSCH1_SchdAbsTm_val_157 :: addr where "iedModel_Device1_DSCH1_SchdAbsTm_val_157 \<equiv> 3249"
abbreviation (input) iedModel_Device1_DSCH1_SchdAbsTm_val_158 :: addr where "iedModel_Device1_DSCH1_SchdAbsTm_val_158 \<equiv> 3250"
abbreviation (input) iedModel_Device1_DSCH1_SchdAbsTm_val_159 :: addr where "iedModel_Device1_DSCH1_SchdAbsTm_val_159 \<equiv> 3251"
abbreviation (input) iedModel_Device1_DSCH1_SchdAbsTm_val_160 :: addr where "iedModel_Device1_DSCH1_SchdAbsTm_val_160 \<equiv> 3252"
abbreviation (input) iedModel_Device1_DSCH1_SchdAbsTm_val_161 :: addr where "iedModel_Device1_DSCH1_SchdAbsTm_val_161 \<equiv> 3253"
abbreviation (input) iedModel_Device1_DSCH1_SchdAbsTm_val_162 :: addr where "iedModel_Device1_DSCH1_SchdAbsTm_val_162 \<equiv> 3254"
abbreviation (input) iedModel_Device1_DSCH1_SchdAbsTm_val_163 :: addr where "iedModel_Device1_DSCH1_SchdAbsTm_val_163 \<equiv> 3255"
abbreviation (input) iedModel_Device1_DSCH1_SchdAbsTm_val_164 :: addr where "iedModel_Device1_DSCH1_SchdAbsTm_val_164 \<equiv> 3256"
abbreviation (input) iedModel_Device1_DSCH1_SchdAbsTm_val_165 :: addr where "iedModel_Device1_DSCH1_SchdAbsTm_val_165 \<equiv> 3257"
abbreviation (input) iedModel_Device1_DSCH1_SchdAbsTm_val_166 :: addr where "iedModel_Device1_DSCH1_SchdAbsTm_val_166 \<equiv> 3258"
abbreviation (input) iedModel_Device1_DSCH1_SchdAbsTm_val_167 :: addr where "iedModel_Device1_DSCH1_SchdAbsTm_val_167 \<equiv> 3259"
abbreviation (input) iedModel_Device1_DSCH1_SchdAbsTm_val_168 :: addr where "iedModel_Device1_DSCH1_SchdAbsTm_val_168 \<equiv> 3260"
abbreviation (input) iedModel_Device1_DSCH1_SchdAbsTm_val_169 :: addr where "iedModel_Device1_DSCH1_SchdAbsTm_val_169 \<equiv> 3261"
abbreviation (input) iedModel_Device1_DSCH1_SchdAbsTm_val_170 :: addr where "iedModel_Device1_DSCH1_SchdAbsTm_val_170 \<equiv> 3262"
abbreviation (input) iedModel_Device1_DSCH1_SchdAbsTm_val_171 :: addr where "iedModel_Device1_DSCH1_SchdAbsTm_val_171 \<equiv> 3263"
abbreviation (input) iedModel_Device1_DSCH1_SchdAbsTm_val_172 :: addr where "iedModel_Device1_DSCH1_SchdAbsTm_val_172 \<equiv> 3264"
abbreviation (input) iedModel_Device1_DSCH1_SchdAbsTm_val_173 :: addr where "iedModel_Device1_DSCH1_SchdAbsTm_val_173 \<equiv> 3265"
abbreviation (input) iedModel_Device1_DSCH1_SchdAbsTm_val_174 :: addr where "iedModel_Device1_DSCH1_SchdAbsTm_val_174 \<equiv> 3266"
abbreviation (input) iedModel_Device1_DSCH1_SchdAbsTm_val_175 :: addr where "iedModel_Device1_DSCH1_SchdAbsTm_val_175 \<equiv> 3267"
abbreviation (input) iedModel_Device1_DSCH1_SchdAbsTm_val_176 :: addr where "iedModel_Device1_DSCH1_SchdAbsTm_val_176 \<equiv> 3268"
abbreviation (input) iedModel_Device1_DSCH1_SchdAbsTm_val_177 :: addr where "iedModel_Device1_DSCH1_SchdAbsTm_val_177 \<equiv> 3269"
abbreviation (input) iedModel_Device1_DSCH1_SchdAbsTm_val_178 :: addr where "iedModel_Device1_DSCH1_SchdAbsTm_val_178 \<equiv> 3270"
abbreviation (input) iedModel_Device1_DSCH1_SchdAbsTm_val_179 :: addr where "iedModel_Device1_DSCH1_SchdAbsTm_val_179 \<equiv> 3271"
abbreviation (input) iedModel_Device1_DSCH1_SchdAbsTm_val_180 :: addr where "iedModel_Device1_DSCH1_SchdAbsTm_val_180 \<equiv> 3272"
abbreviation (input) iedModel_Device1_DSCH1_SchdAbsTm_val_181 :: addr where "iedModel_Device1_DSCH1_SchdAbsTm_val_181 \<equiv> 3273"
abbreviation (input) iedModel_Device1_DSCH1_SchdAbsTm_val_182 :: addr where "iedModel_Device1_DSCH1_SchdAbsTm_val_182 \<equiv> 3274"
abbreviation (input) iedModel_Device1_DSCH1_SchdAbsTm_val_183 :: addr where "iedModel_Device1_DSCH1_SchdAbsTm_val_183 \<equiv> 3275"
abbreviation (input) iedModel_Device1_DSCH1_SchdAbsTm_val_184 :: addr where "iedModel_Device1_DSCH1_SchdAbsTm_val_184 \<equiv> 3276"
abbreviation (input) iedModel_Device1_DSCH1_SchdAbsTm_val_185 :: addr where "iedModel_Device1_DSCH1_SchdAbsTm_val_185 \<equiv> 3277"
abbreviation (input) iedModel_Device1_DSCH1_SchdAbsTm_val_186 :: addr where "iedModel_Device1_DSCH1_SchdAbsTm_val_186 \<equiv> 3278"
abbreviation (input) iedModel_Device1_DSCH1_SchdAbsTm_val_187 :: addr where "iedModel_Device1_DSCH1_SchdAbsTm_val_187 \<equiv> 3279"
abbreviation (input) iedModel_Device1_DSCH1_SchdAbsTm_val_188 :: addr where "iedModel_Device1_DSCH1_SchdAbsTm_val_188 \<equiv> 3280"
abbreviation (input) iedModel_Device1_DSCH1_SchdAbsTm_val_189 :: addr where "iedModel_Device1_DSCH1_SchdAbsTm_val_189 \<equiv> 3281"
abbreviation (input) iedModel_Device1_DSCH1_SchdAbsTm_val_190 :: addr where "iedModel_Device1_DSCH1_SchdAbsTm_val_190 \<equiv> 3282"
abbreviation (input) iedModel_Device1_DSCH1_SchdAbsTm_val_191 :: addr where "iedModel_Device1_DSCH1_SchdAbsTm_val_191 \<equiv> 3283"
abbreviation (input) iedModel_Device1_DSCH1_SchdAbsTm_val_192 :: addr where "iedModel_Device1_DSCH1_SchdAbsTm_val_192 \<equiv> 3284"
abbreviation (input) iedModel_Device1_DSCH1_SchdAbsTm_val_193 :: addr where "iedModel_Device1_DSCH1_SchdAbsTm_val_193 \<equiv> 3285"
abbreviation (input) iedModel_Device1_DSCH1_SchdAbsTm_val_194 :: addr where "iedModel_Device1_DSCH1_SchdAbsTm_val_194 \<equiv> 3286"
abbreviation (input) iedModel_Device1_DSCH1_SchdAbsTm_val_195 :: addr where "iedModel_Device1_DSCH1_SchdAbsTm_val_195 \<equiv> 3287"
abbreviation (input) iedModel_Device1_DSCH1_SchdAbsTm_val_196 :: addr where "iedModel_Device1_DSCH1_SchdAbsTm_val_196 \<equiv> 3288"
abbreviation (input) iedModel_Device1_DSCH1_SchdAbsTm_val_197 :: addr where "iedModel_Device1_DSCH1_SchdAbsTm_val_197 \<equiv> 3289"
abbreviation (input) iedModel_Device1_DSCH1_SchdAbsTm_val_198 :: addr where "iedModel_Device1_DSCH1_SchdAbsTm_val_198 \<equiv> 3290"
abbreviation (input) iedModel_Device1_DSCH1_SchdAbsTm_val_199 :: addr where "iedModel_Device1_DSCH1_SchdAbsTm_val_199 \<equiv> 3291"
abbreviation (input) iedModel_Device1_DSCH1_SchdAbsTm_val_200 :: addr where "iedModel_Device1_DSCH1_SchdAbsTm_val_200 \<equiv> 3292"
abbreviation (input) iedModel_Device1_DSCH1_SchdAbsTm_val_201 :: addr where "iedModel_Device1_DSCH1_SchdAbsTm_val_201 \<equiv> 3293"
abbreviation (input) iedModel_Device1_DSCH1_SchdAbsTm_val_202 :: addr where "iedModel_Device1_DSCH1_SchdAbsTm_val_202 \<equiv> 3294"
abbreviation (input) iedModel_Device1_DSCH1_SchdAbsTm_val_203 :: addr where "iedModel_Device1_DSCH1_SchdAbsTm_val_203 \<equiv> 3295"
abbreviation (input) iedModel_Device1_DSCH1_SchdAbsTm_val_204 :: addr where "iedModel_Device1_DSCH1_SchdAbsTm_val_204 \<equiv> 3296"
abbreviation (input) iedModel_Device1_DSCH1_SchdAbsTm_val_205 :: addr where "iedModel_Device1_DSCH1_SchdAbsTm_val_205 \<equiv> 3297"
abbreviation (input) iedModel_Device1_DSCH1_SchdAbsTm_val_206 :: addr where "iedModel_Device1_DSCH1_SchdAbsTm_val_206 \<equiv> 3298"
abbreviation (input) iedModel_Device1_DSCH1_SchdAbsTm_val_207 :: addr where "iedModel_Device1_DSCH1_SchdAbsTm_val_207 \<equiv> 3299"
abbreviation (input) iedModel_Device1_DSCH1_SchdAbsTm_val_208 :: addr where "iedModel_Device1_DSCH1_SchdAbsTm_val_208 \<equiv> 3300"
abbreviation (input) iedModel_Device1_DSCH1_SchdAbsTm_val_209 :: addr where "iedModel_Device1_DSCH1_SchdAbsTm_val_209 \<equiv> 3301"
abbreviation (input) iedModel_Device1_DSCH1_SchdAbsTm_val_210 :: addr where "iedModel_Device1_DSCH1_SchdAbsTm_val_210 \<equiv> 3302"
abbreviation (input) iedModel_Device1_DSCH1_SchdAbsTm_val_211 :: addr where "iedModel_Device1_DSCH1_SchdAbsTm_val_211 \<equiv> 3303"
abbreviation (input) iedModel_Device1_DSCH1_SchdAbsTm_val_212 :: addr where "iedModel_Device1_DSCH1_SchdAbsTm_val_212 \<equiv> 3304"
abbreviation (input) iedModel_Device1_DSCH1_SchdAbsTm_val_213 :: addr where "iedModel_Device1_DSCH1_SchdAbsTm_val_213 \<equiv> 3305"
abbreviation (input) iedModel_Device1_DSCH1_SchdAbsTm_val_214 :: addr where "iedModel_Device1_DSCH1_SchdAbsTm_val_214 \<equiv> 3306"
abbreviation (input) iedModel_Device1_DSCH1_SchdAbsTm_val_215 :: addr where "iedModel_Device1_DSCH1_SchdAbsTm_val_215 \<equiv> 3307"
abbreviation (input) iedModel_Device1_DSCH1_SchdAbsTm_val_216 :: addr where "iedModel_Device1_DSCH1_SchdAbsTm_val_216 \<equiv> 3308"
abbreviation (input) iedModel_Device1_DSCH1_SchdAbsTm_val_217 :: addr where "iedModel_Device1_DSCH1_SchdAbsTm_val_217 \<equiv> 3309"
abbreviation (input) iedModel_Device1_DSCH1_SchdAbsTm_val_218 :: addr where "iedModel_Device1_DSCH1_SchdAbsTm_val_218 \<equiv> 3310"
abbreviation (input) iedModel_Device1_DSCH1_SchdAbsTm_val_219 :: addr where "iedModel_Device1_DSCH1_SchdAbsTm_val_219 \<equiv> 3311"
abbreviation (input) iedModel_Device1_DSCH1_SchdAbsTm_val_220 :: addr where "iedModel_Device1_DSCH1_SchdAbsTm_val_220 \<equiv> 3312"
abbreviation (input) iedModel_Device1_DSCH1_SchdAbsTm_val_221 :: addr where "iedModel_Device1_DSCH1_SchdAbsTm_val_221 \<equiv> 3313"
abbreviation (input) iedModel_Device1_DSCH1_SchdAbsTm_val_222 :: addr where "iedModel_Device1_DSCH1_SchdAbsTm_val_222 \<equiv> 3314"
abbreviation (input) iedModel_Device1_DSCH1_SchdAbsTm_val_223 :: addr where "iedModel_Device1_DSCH1_SchdAbsTm_val_223 \<equiv> 3315"
abbreviation (input) iedModel_Device1_DSCH1_SchdAbsTm_val_224 :: addr where "iedModel_Device1_DSCH1_SchdAbsTm_val_224 \<equiv> 3316"
abbreviation (input) iedModel_Device1_DSCH1_SchdAbsTm_val_225 :: addr where "iedModel_Device1_DSCH1_SchdAbsTm_val_225 \<equiv> 3317"
abbreviation (input) iedModel_Device1_DSCH1_SchdAbsTm_val_226 :: addr where "iedModel_Device1_DSCH1_SchdAbsTm_val_226 \<equiv> 3318"
abbreviation (input) iedModel_Device1_DSCH1_SchdAbsTm_val_227 :: addr where "iedModel_Device1_DSCH1_SchdAbsTm_val_227 \<equiv> 3319"
abbreviation (input) iedModel_Device1_DSCH1_SchdAbsTm_val_228 :: addr where "iedModel_Device1_DSCH1_SchdAbsTm_val_228 \<equiv> 3320"
abbreviation (input) iedModel_Device1_DSCH1_SchdAbsTm_val_229 :: addr where "iedModel_Device1_DSCH1_SchdAbsTm_val_229 \<equiv> 3321"
abbreviation (input) iedModel_Device1_DSCH1_SchdAbsTm_val_230 :: addr where "iedModel_Device1_DSCH1_SchdAbsTm_val_230 \<equiv> 3322"
abbreviation (input) iedModel_Device1_DSCH1_SchdAbsTm_val_231 :: addr where "iedModel_Device1_DSCH1_SchdAbsTm_val_231 \<equiv> 3323"
abbreviation (input) iedModel_Device1_DSCH1_SchdAbsTm_val_232 :: addr where "iedModel_Device1_DSCH1_SchdAbsTm_val_232 \<equiv> 3324"
abbreviation (input) iedModel_Device1_DSCH1_SchdAbsTm_val_233 :: addr where "iedModel_Device1_DSCH1_SchdAbsTm_val_233 \<equiv> 3325"
abbreviation (input) iedModel_Device1_DSCH1_SchdAbsTm_val_234 :: addr where "iedModel_Device1_DSCH1_SchdAbsTm_val_234 \<equiv> 3326"
abbreviation (input) iedModel_Device1_DSCH1_SchdAbsTm_val_235 :: addr where "iedModel_Device1_DSCH1_SchdAbsTm_val_235 \<equiv> 3327"
abbreviation (input) iedModel_Device1_DSCH1_SchdAbsTm_val_236 :: addr where "iedModel_Device1_DSCH1_SchdAbsTm_val_236 \<equiv> 3328"
abbreviation (input) iedModel_Device1_DSCH1_SchdAbsTm_val_237 :: addr where "iedModel_Device1_DSCH1_SchdAbsTm_val_237 \<equiv> 3329"
abbreviation (input) iedModel_Device1_DSCH1_SchdAbsTm_val_238 :: addr where "iedModel_Device1_DSCH1_SchdAbsTm_val_238 \<equiv> 3330"
abbreviation (input) iedModel_Device1_DSCH1_SchdAbsTm_val_239 :: addr where "iedModel_Device1_DSCH1_SchdAbsTm_val_239 \<equiv> 3331"
abbreviation (input) iedModel_Device1_DSCH1_SchdAbsTm_val_240 :: addr where "iedModel_Device1_DSCH1_SchdAbsTm_val_240 \<equiv> 3332"
abbreviation (input) iedModel_Device1_DSCH1_SchdAbsTm_val_241 :: addr where "iedModel_Device1_DSCH1_SchdAbsTm_val_241 \<equiv> 3333"
abbreviation (input) iedModel_Device1_DSCH1_SchdAbsTm_val_242 :: addr where "iedModel_Device1_DSCH1_SchdAbsTm_val_242 \<equiv> 3334"
abbreviation (input) iedModel_Device1_DSCH1_SchdAbsTm_val_243 :: addr where "iedModel_Device1_DSCH1_SchdAbsTm_val_243 \<equiv> 3335"
abbreviation (input) iedModel_Device1_DSCH1_SchdAbsTm_val_244 :: addr where "iedModel_Device1_DSCH1_SchdAbsTm_val_244 \<equiv> 3336"
abbreviation (input) iedModel_Device1_DSCH1_SchdAbsTm_val_245 :: addr where "iedModel_Device1_DSCH1_SchdAbsTm_val_245 \<equiv> 3337"
abbreviation (input) iedModel_Device1_DSCH1_SchdAbsTm_val_246 :: addr where "iedModel_Device1_DSCH1_SchdAbsTm_val_246 \<equiv> 3338"
abbreviation (input) iedModel_Device1_DSCH1_SchdAbsTm_val_247 :: addr where "iedModel_Device1_DSCH1_SchdAbsTm_val_247 \<equiv> 3339"
abbreviation (input) iedModel_Device1_DSCH1_SchdAbsTm_val_248 :: addr where "iedModel_Device1_DSCH1_SchdAbsTm_val_248 \<equiv> 3340"
abbreviation (input) iedModel_Device1_DSCH1_SchdAbsTm_val_249 :: addr where "iedModel_Device1_DSCH1_SchdAbsTm_val_249 \<equiv> 3341"
abbreviation (input) iedModel_Device1_DSCH1_SchdAbsTm_val_250 :: addr where "iedModel_Device1_DSCH1_SchdAbsTm_val_250 \<equiv> 3342"
abbreviation (input) iedModel_Device1_DSCH1_SchdAbsTm_val_251 :: addr where "iedModel_Device1_DSCH1_SchdAbsTm_val_251 \<equiv> 3343"
abbreviation (input) iedModel_Device1_DSCH1_SchdAbsTm_val_252 :: addr where "iedModel_Device1_DSCH1_SchdAbsTm_val_252 \<equiv> 3344"
abbreviation (input) iedModel_Device1_DSCH1_SchdAbsTm_val_253 :: addr where "iedModel_Device1_DSCH1_SchdAbsTm_val_253 \<equiv> 3345"
abbreviation (input) iedModel_Device1_DSCH1_SchdAbsTm_val_254 :: addr where "iedModel_Device1_DSCH1_SchdAbsTm_val_254 \<equiv> 3346"
abbreviation (input) iedModel_Device1_DSCH1_SchdAbsTm_time :: addr where "iedModel_Device1_DSCH1_SchdAbsTm_time \<equiv> 3347"
abbreviation (input) iedModel_Device1_DSCH1_SchdAbsTm_time_0 :: addr where "iedModel_Device1_DSCH1_SchdAbsTm_time_0 \<equiv> 3348"
abbreviation (input) iedModel_Device1_DSCH1_SchdAbsTm_time_1 :: addr where "iedModel_Device1_DSCH1_SchdAbsTm_time_1 \<equiv> 3349"
abbreviation (input) iedModel_Device1_DSCH1_SchdAbsTm_time_2 :: addr where "iedModel_Device1_DSCH1_SchdAbsTm_time_2 \<equiv> 3350"
abbreviation (input) iedModel_Device1_DSCH1_SchdAbsTm_time_3 :: addr where "iedModel_Device1_DSCH1_SchdAbsTm_time_3 \<equiv> 3351"
abbreviation (input) iedModel_Device1_DSCH1_SchdAbsTm_time_4 :: addr where "iedModel_Device1_DSCH1_SchdAbsTm_time_4 \<equiv> 3352"
abbreviation (input) iedModel_Device1_DSCH1_SchdAbsTm_time_5 :: addr where "iedModel_Device1_DSCH1_SchdAbsTm_time_5 \<equiv> 3353"
abbreviation (input) iedModel_Device1_DSCH1_SchdAbsTm_time_6 :: addr where "iedModel_Device1_DSCH1_SchdAbsTm_time_6 \<equiv> 3354"
abbreviation (input) iedModel_Device1_DSCH1_SchdAbsTm_time_7 :: addr where "iedModel_Device1_DSCH1_SchdAbsTm_time_7 \<equiv> 3355"
abbreviation (input) iedModel_Device1_DSCH1_SchdAbsTm_time_8 :: addr where "iedModel_Device1_DSCH1_SchdAbsTm_time_8 \<equiv> 3356"
abbreviation (input) iedModel_Device1_DSCH1_SchdAbsTm_time_9 :: addr where "iedModel_Device1_DSCH1_SchdAbsTm_time_9 \<equiv> 3357"
abbreviation (input) iedModel_Device1_DSCH1_SchdAbsTm_time_10 :: addr where "iedModel_Device1_DSCH1_SchdAbsTm_time_10 \<equiv> 3358"
abbreviation (input) iedModel_Device1_DSCH1_SchdAbsTm_time_11 :: addr where "iedModel_Device1_DSCH1_SchdAbsTm_time_11 \<equiv> 3359"
abbreviation (input) iedModel_Device1_DSCH1_SchdAbsTm_time_12 :: addr where "iedModel_Device1_DSCH1_SchdAbsTm_time_12 \<equiv> 3360"
abbreviation (input) iedModel_Device1_DSCH1_SchdAbsTm_time_13 :: addr where "iedModel_Device1_DSCH1_SchdAbsTm_time_13 \<equiv> 3361"
abbreviation (input) iedModel_Device1_DSCH1_SchdAbsTm_time_14 :: addr where "iedModel_Device1_DSCH1_SchdAbsTm_time_14 \<equiv> 3362"
abbreviation (input) iedModel_Device1_DSCH1_SchdAbsTm_time_15 :: addr where "iedModel_Device1_DSCH1_SchdAbsTm_time_15 \<equiv> 3363"
abbreviation (input) iedModel_Device1_DSCH1_SchdAbsTm_time_16 :: addr where "iedModel_Device1_DSCH1_SchdAbsTm_time_16 \<equiv> 3364"
abbreviation (input) iedModel_Device1_DSCH1_SchdAbsTm_time_17 :: addr where "iedModel_Device1_DSCH1_SchdAbsTm_time_17 \<equiv> 3365"
abbreviation (input) iedModel_Device1_DSCH1_SchdAbsTm_time_18 :: addr where "iedModel_Device1_DSCH1_SchdAbsTm_time_18 \<equiv> 3366"
abbreviation (input) iedModel_Device1_DSCH1_SchdAbsTm_time_19 :: addr where "iedModel_Device1_DSCH1_SchdAbsTm_time_19 \<equiv> 3367"
abbreviation (input) iedModel_Device1_DSCH1_SchdAbsTm_time_20 :: addr where "iedModel_Device1_DSCH1_SchdAbsTm_time_20 \<equiv> 3368"
abbreviation (input) iedModel_Device1_DSCH1_SchdAbsTm_time_21 :: addr where "iedModel_Device1_DSCH1_SchdAbsTm_time_21 \<equiv> 3369"
abbreviation (input) iedModel_Device1_DSCH1_SchdAbsTm_time_22 :: addr where "iedModel_Device1_DSCH1_SchdAbsTm_time_22 \<equiv> 3370"
abbreviation (input) iedModel_Device1_DSCH1_SchdAbsTm_time_23 :: addr where "iedModel_Device1_DSCH1_SchdAbsTm_time_23 \<equiv> 3371"
abbreviation (input) iedModel_Device1_DSCH1_SchdAbsTm_time_24 :: addr where "iedModel_Device1_DSCH1_SchdAbsTm_time_24 \<equiv> 3372"
abbreviation (input) iedModel_Device1_DSCH1_SchdAbsTm_time_25 :: addr where "iedModel_Device1_DSCH1_SchdAbsTm_time_25 \<equiv> 3373"
abbreviation (input) iedModel_Device1_DSCH1_SchdAbsTm_time_26 :: addr where "iedModel_Device1_DSCH1_SchdAbsTm_time_26 \<equiv> 3374"
abbreviation (input) iedModel_Device1_DSCH1_SchdAbsTm_time_27 :: addr where "iedModel_Device1_DSCH1_SchdAbsTm_time_27 \<equiv> 3375"
abbreviation (input) iedModel_Device1_DSCH1_SchdAbsTm_time_28 :: addr where "iedModel_Device1_DSCH1_SchdAbsTm_time_28 \<equiv> 3376"
abbreviation (input) iedModel_Device1_DSCH1_SchdAbsTm_time_29 :: addr where "iedModel_Device1_DSCH1_SchdAbsTm_time_29 \<equiv> 3377"
abbreviation (input) iedModel_Device1_DSCH1_SchdAbsTm_time_30 :: addr where "iedModel_Device1_DSCH1_SchdAbsTm_time_30 \<equiv> 3378"
abbreviation (input) iedModel_Device1_DSCH1_SchdAbsTm_time_31 :: addr where "iedModel_Device1_DSCH1_SchdAbsTm_time_31 \<equiv> 3379"
abbreviation (input) iedModel_Device1_DSCH1_SchdAbsTm_time_32 :: addr where "iedModel_Device1_DSCH1_SchdAbsTm_time_32 \<equiv> 3380"
abbreviation (input) iedModel_Device1_DSCH1_SchdAbsTm_time_33 :: addr where "iedModel_Device1_DSCH1_SchdAbsTm_time_33 \<equiv> 3381"
abbreviation (input) iedModel_Device1_DSCH1_SchdAbsTm_time_34 :: addr where "iedModel_Device1_DSCH1_SchdAbsTm_time_34 \<equiv> 3382"
abbreviation (input) iedModel_Device1_DSCH1_SchdAbsTm_time_35 :: addr where "iedModel_Device1_DSCH1_SchdAbsTm_time_35 \<equiv> 3383"
abbreviation (input) iedModel_Device1_DSCH1_SchdAbsTm_time_36 :: addr where "iedModel_Device1_DSCH1_SchdAbsTm_time_36 \<equiv> 3384"
abbreviation (input) iedModel_Device1_DSCH1_SchdAbsTm_time_37 :: addr where "iedModel_Device1_DSCH1_SchdAbsTm_time_37 \<equiv> 3385"
abbreviation (input) iedModel_Device1_DSCH1_SchdAbsTm_time_38 :: addr where "iedModel_Device1_DSCH1_SchdAbsTm_time_38 \<equiv> 3386"
abbreviation (input) iedModel_Device1_DSCH1_SchdAbsTm_time_39 :: addr where "iedModel_Device1_DSCH1_SchdAbsTm_time_39 \<equiv> 3387"
abbreviation (input) iedModel_Device1_DSCH1_SchdAbsTm_time_40 :: addr where "iedModel_Device1_DSCH1_SchdAbsTm_time_40 \<equiv> 3388"
abbreviation (input) iedModel_Device1_DSCH1_SchdAbsTm_time_41 :: addr where "iedModel_Device1_DSCH1_SchdAbsTm_time_41 \<equiv> 3389"
abbreviation (input) iedModel_Device1_DSCH1_SchdAbsTm_time_42 :: addr where "iedModel_Device1_DSCH1_SchdAbsTm_time_42 \<equiv> 3390"
abbreviation (input) iedModel_Device1_DSCH1_SchdAbsTm_time_43 :: addr where "iedModel_Device1_DSCH1_SchdAbsTm_time_43 \<equiv> 3391"
abbreviation (input) iedModel_Device1_DSCH1_SchdAbsTm_time_44 :: addr where "iedModel_Device1_DSCH1_SchdAbsTm_time_44 \<equiv> 3392"
abbreviation (input) iedModel_Device1_DSCH1_SchdAbsTm_time_45 :: addr where "iedModel_Device1_DSCH1_SchdAbsTm_time_45 \<equiv> 3393"
abbreviation (input) iedModel_Device1_DSCH1_SchdAbsTm_time_46 :: addr where "iedModel_Device1_DSCH1_SchdAbsTm_time_46 \<equiv> 3394"
abbreviation (input) iedModel_Device1_DSCH1_SchdAbsTm_time_47 :: addr where "iedModel_Device1_DSCH1_SchdAbsTm_time_47 \<equiv> 3395"
abbreviation (input) iedModel_Device1_DSCH1_SchdAbsTm_time_48 :: addr where "iedModel_Device1_DSCH1_SchdAbsTm_time_48 \<equiv> 3396"
abbreviation (input) iedModel_Device1_DSCH1_SchdAbsTm_time_49 :: addr where "iedModel_Device1_DSCH1_SchdAbsTm_time_49 \<equiv> 3397"
abbreviation (input) iedModel_Device1_DSCH1_SchdAbsTm_time_50 :: addr where "iedModel_Device1_DSCH1_SchdAbsTm_time_50 \<equiv> 3398"
abbreviation (input) iedModel_Device1_DSCH1_SchdAbsTm_time_51 :: addr where "iedModel_Device1_DSCH1_SchdAbsTm_time_51 \<equiv> 3399"
abbreviation (input) iedModel_Device1_DSCH1_SchdAbsTm_time_52 :: addr where "iedModel_Device1_DSCH1_SchdAbsTm_time_52 \<equiv> 3400"
abbreviation (input) iedModel_Device1_DSCH1_SchdAbsTm_time_53 :: addr where "iedModel_Device1_DSCH1_SchdAbsTm_time_53 \<equiv> 3401"
abbreviation (input) iedModel_Device1_DSCH1_SchdAbsTm_time_54 :: addr where "iedModel_Device1_DSCH1_SchdAbsTm_time_54 \<equiv> 3402"
abbreviation (input) iedModel_Device1_DSCH1_SchdAbsTm_time_55 :: addr where "iedModel_Device1_DSCH1_SchdAbsTm_time_55 \<equiv> 3403"
abbreviation (input) iedModel_Device1_DSCH1_SchdAbsTm_time_56 :: addr where "iedModel_Device1_DSCH1_SchdAbsTm_time_56 \<equiv> 3404"
abbreviation (input) iedModel_Device1_DSCH1_SchdAbsTm_time_57 :: addr where "iedModel_Device1_DSCH1_SchdAbsTm_time_57 \<equiv> 3405"
abbreviation (input) iedModel_Device1_DSCH1_SchdAbsTm_time_58 :: addr where "iedModel_Device1_DSCH1_SchdAbsTm_time_58 \<equiv> 3406"
abbreviation (input) iedModel_Device1_DSCH1_SchdAbsTm_time_59 :: addr where "iedModel_Device1_DSCH1_SchdAbsTm_time_59 \<equiv> 3407"
abbreviation (input) iedModel_Device1_DSCH1_SchdAbsTm_time_60 :: addr where "iedModel_Device1_DSCH1_SchdAbsTm_time_60 \<equiv> 3408"
abbreviation (input) iedModel_Device1_DSCH1_SchdAbsTm_time_61 :: addr where "iedModel_Device1_DSCH1_SchdAbsTm_time_61 \<equiv> 3409"
abbreviation (input) iedModel_Device1_DSCH1_SchdAbsTm_time_62 :: addr where "iedModel_Device1_DSCH1_SchdAbsTm_time_62 \<equiv> 3410"
abbreviation (input) iedModel_Device1_DSCH1_SchdAbsTm_time_63 :: addr where "iedModel_Device1_DSCH1_SchdAbsTm_time_63 \<equiv> 3411"
abbreviation (input) iedModel_Device1_DSCH1_SchdAbsTm_time_64 :: addr where "iedModel_Device1_DSCH1_SchdAbsTm_time_64 \<equiv> 3412"
abbreviation (input) iedModel_Device1_DSCH1_SchdAbsTm_time_65 :: addr where "iedModel_Device1_DSCH1_SchdAbsTm_time_65 \<equiv> 3413"
abbreviation (input) iedModel_Device1_DSCH1_SchdAbsTm_time_66 :: addr where "iedModel_Device1_DSCH1_SchdAbsTm_time_66 \<equiv> 3414"
abbreviation (input) iedModel_Device1_DSCH1_SchdAbsTm_time_67 :: addr where "iedModel_Device1_DSCH1_SchdAbsTm_time_67 \<equiv> 3415"
abbreviation (input) iedModel_Device1_DSCH1_SchdAbsTm_time_68 :: addr where "iedModel_Device1_DSCH1_SchdAbsTm_time_68 \<equiv> 3416"
abbreviation (input) iedModel_Device1_DSCH1_SchdAbsTm_time_69 :: addr where "iedModel_Device1_DSCH1_SchdAbsTm_time_69 \<equiv> 3417"
abbreviation (input) iedModel_Device1_DSCH1_SchdAbsTm_time_70 :: addr where "iedModel_Device1_DSCH1_SchdAbsTm_time_70 \<equiv> 3418"
abbreviation (input) iedModel_Device1_DSCH1_SchdAbsTm_time_71 :: addr where "iedModel_Device1_DSCH1_SchdAbsTm_time_71 \<equiv> 3419"
abbreviation (input) iedModel_Device1_DSCH1_SchdAbsTm_time_72 :: addr where "iedModel_Device1_DSCH1_SchdAbsTm_time_72 \<equiv> 3420"
abbreviation (input) iedModel_Device1_DSCH1_SchdAbsTm_time_73 :: addr where "iedModel_Device1_DSCH1_SchdAbsTm_time_73 \<equiv> 3421"
abbreviation (input) iedModel_Device1_DSCH1_SchdAbsTm_time_74 :: addr where "iedModel_Device1_DSCH1_SchdAbsTm_time_74 \<equiv> 3422"
abbreviation (input) iedModel_Device1_DSCH1_SchdAbsTm_time_75 :: addr where "iedModel_Device1_DSCH1_SchdAbsTm_time_75 \<equiv> 3423"
abbreviation (input) iedModel_Device1_DSCH1_SchdAbsTm_time_76 :: addr where "iedModel_Device1_DSCH1_SchdAbsTm_time_76 \<equiv> 3424"
abbreviation (input) iedModel_Device1_DSCH1_SchdAbsTm_time_77 :: addr where "iedModel_Device1_DSCH1_SchdAbsTm_time_77 \<equiv> 3425"
abbreviation (input) iedModel_Device1_DSCH1_SchdAbsTm_time_78 :: addr where "iedModel_Device1_DSCH1_SchdAbsTm_time_78 \<equiv> 3426"
abbreviation (input) iedModel_Device1_DSCH1_SchdAbsTm_time_79 :: addr where "iedModel_Device1_DSCH1_SchdAbsTm_time_79 \<equiv> 3427"
abbreviation (input) iedModel_Device1_DSCH1_SchdAbsTm_time_80 :: addr where "iedModel_Device1_DSCH1_SchdAbsTm_time_80 \<equiv> 3428"
abbreviation (input) iedModel_Device1_DSCH1_SchdAbsTm_time_81 :: addr where "iedModel_Device1_DSCH1_SchdAbsTm_time_81 \<equiv> 3429"
abbreviation (input) iedModel_Device1_DSCH1_SchdAbsTm_time_82 :: addr where "iedModel_Device1_DSCH1_SchdAbsTm_time_82 \<equiv> 3430"
abbreviation (input) iedModel_Device1_DSCH1_SchdAbsTm_time_83 :: addr where "iedModel_Device1_DSCH1_SchdAbsTm_time_83 \<equiv> 3431"
abbreviation (input) iedModel_Device1_DSCH1_SchdAbsTm_time_84 :: addr where "iedModel_Device1_DSCH1_SchdAbsTm_time_84 \<equiv> 3432"
abbreviation (input) iedModel_Device1_DSCH1_SchdAbsTm_time_85 :: addr where "iedModel_Device1_DSCH1_SchdAbsTm_time_85 \<equiv> 3433"
abbreviation (input) iedModel_Device1_DSCH1_SchdAbsTm_time_86 :: addr where "iedModel_Device1_DSCH1_SchdAbsTm_time_86 \<equiv> 3434"
abbreviation (input) iedModel_Device1_DSCH1_SchdAbsTm_time_87 :: addr where "iedModel_Device1_DSCH1_SchdAbsTm_time_87 \<equiv> 3435"
abbreviation (input) iedModel_Device1_DSCH1_SchdAbsTm_time_88 :: addr where "iedModel_Device1_DSCH1_SchdAbsTm_time_88 \<equiv> 3436"
abbreviation (input) iedModel_Device1_DSCH1_SchdAbsTm_time_89 :: addr where "iedModel_Device1_DSCH1_SchdAbsTm_time_89 \<equiv> 3437"
abbreviation (input) iedModel_Device1_DSCH1_SchdAbsTm_time_90 :: addr where "iedModel_Device1_DSCH1_SchdAbsTm_time_90 \<equiv> 3438"
abbreviation (input) iedModel_Device1_DSCH1_SchdAbsTm_time_91 :: addr where "iedModel_Device1_DSCH1_SchdAbsTm_time_91 \<equiv> 3439"
abbreviation (input) iedModel_Device1_DSCH1_SchdAbsTm_time_92 :: addr where "iedModel_Device1_DSCH1_SchdAbsTm_time_92 \<equiv> 3440"
abbreviation (input) iedModel_Device1_DSCH1_SchdAbsTm_time_93 :: addr where "iedModel_Device1_DSCH1_SchdAbsTm_time_93 \<equiv> 3441"
abbreviation (input) iedModel_Device1_DSCH1_SchdAbsTm_time_94 :: addr where "iedModel_Device1_DSCH1_SchdAbsTm_time_94 \<equiv> 3442"
abbreviation (input) iedModel_Device1_DSCH1_SchdAbsTm_time_95 :: addr where "iedModel_Device1_DSCH1_SchdAbsTm_time_95 \<equiv> 3443"
abbreviation (input) iedModel_Device1_DSCH1_SchdAbsTm_time_96 :: addr where "iedModel_Device1_DSCH1_SchdAbsTm_time_96 \<equiv> 3444"
abbreviation (input) iedModel_Device1_DSCH1_SchdAbsTm_time_97 :: addr where "iedModel_Device1_DSCH1_SchdAbsTm_time_97 \<equiv> 3445"
abbreviation (input) iedModel_Device1_DSCH1_SchdAbsTm_time_98 :: addr where "iedModel_Device1_DSCH1_SchdAbsTm_time_98 \<equiv> 3446"
abbreviation (input) iedModel_Device1_DSCH1_SchdAbsTm_time_99 :: addr where "iedModel_Device1_DSCH1_SchdAbsTm_time_99 \<equiv> 3447"
abbreviation (input) iedModel_Device1_DSCH1_SchdAbsTm_time_100 :: addr where "iedModel_Device1_DSCH1_SchdAbsTm_time_100 \<equiv> 3448"
abbreviation (input) iedModel_Device1_DSCH1_SchdAbsTm_time_101 :: addr where "iedModel_Device1_DSCH1_SchdAbsTm_time_101 \<equiv> 3449"
abbreviation (input) iedModel_Device1_DSCH1_SchdAbsTm_time_102 :: addr where "iedModel_Device1_DSCH1_SchdAbsTm_time_102 \<equiv> 3450"
abbreviation (input) iedModel_Device1_DSCH1_SchdAbsTm_time_103 :: addr where "iedModel_Device1_DSCH1_SchdAbsTm_time_103 \<equiv> 3451"
abbreviation (input) iedModel_Device1_DSCH1_SchdAbsTm_time_104 :: addr where "iedModel_Device1_DSCH1_SchdAbsTm_time_104 \<equiv> 3452"
abbreviation (input) iedModel_Device1_DSCH1_SchdAbsTm_time_105 :: addr where "iedModel_Device1_DSCH1_SchdAbsTm_time_105 \<equiv> 3453"
abbreviation (input) iedModel_Device1_DSCH1_SchdAbsTm_time_106 :: addr where "iedModel_Device1_DSCH1_SchdAbsTm_time_106 \<equiv> 3454"
abbreviation (input) iedModel_Device1_DSCH1_SchdAbsTm_time_107 :: addr where "iedModel_Device1_DSCH1_SchdAbsTm_time_107 \<equiv> 3455"
abbreviation (input) iedModel_Device1_DSCH1_SchdAbsTm_time_108 :: addr where "iedModel_Device1_DSCH1_SchdAbsTm_time_108 \<equiv> 3456"
abbreviation (input) iedModel_Device1_DSCH1_SchdAbsTm_time_109 :: addr where "iedModel_Device1_DSCH1_SchdAbsTm_time_109 \<equiv> 3457"
abbreviation (input) iedModel_Device1_DSCH1_SchdAbsTm_time_110 :: addr where "iedModel_Device1_DSCH1_SchdAbsTm_time_110 \<equiv> 3458"
abbreviation (input) iedModel_Device1_DSCH1_SchdAbsTm_time_111 :: addr where "iedModel_Device1_DSCH1_SchdAbsTm_time_111 \<equiv> 3459"
abbreviation (input) iedModel_Device1_DSCH1_SchdAbsTm_time_112 :: addr where "iedModel_Device1_DSCH1_SchdAbsTm_time_112 \<equiv> 3460"
abbreviation (input) iedModel_Device1_DSCH1_SchdAbsTm_time_113 :: addr where "iedModel_Device1_DSCH1_SchdAbsTm_time_113 \<equiv> 3461"
abbreviation (input) iedModel_Device1_DSCH1_SchdAbsTm_time_114 :: addr where "iedModel_Device1_DSCH1_SchdAbsTm_time_114 \<equiv> 3462"
abbreviation (input) iedModel_Device1_DSCH1_SchdAbsTm_time_115 :: addr where "iedModel_Device1_DSCH1_SchdAbsTm_time_115 \<equiv> 3463"
abbreviation (input) iedModel_Device1_DSCH1_SchdAbsTm_time_116 :: addr where "iedModel_Device1_DSCH1_SchdAbsTm_time_116 \<equiv> 3464"
abbreviation (input) iedModel_Device1_DSCH1_SchdAbsTm_time_117 :: addr where "iedModel_Device1_DSCH1_SchdAbsTm_time_117 \<equiv> 3465"
abbreviation (input) iedModel_Device1_DSCH1_SchdAbsTm_time_118 :: addr where "iedModel_Device1_DSCH1_SchdAbsTm_time_118 \<equiv> 3466"
abbreviation (input) iedModel_Device1_DSCH1_SchdAbsTm_time_119 :: addr where "iedModel_Device1_DSCH1_SchdAbsTm_time_119 \<equiv> 3467"
abbreviation (input) iedModel_Device1_DSCH1_SchdAbsTm_time_120 :: addr where "iedModel_Device1_DSCH1_SchdAbsTm_time_120 \<equiv> 3468"
abbreviation (input) iedModel_Device1_DSCH1_SchdAbsTm_time_121 :: addr where "iedModel_Device1_DSCH1_SchdAbsTm_time_121 \<equiv> 3469"
abbreviation (input) iedModel_Device1_DSCH1_SchdAbsTm_time_122 :: addr where "iedModel_Device1_DSCH1_SchdAbsTm_time_122 \<equiv> 3470"
abbreviation (input) iedModel_Device1_DSCH1_SchdAbsTm_time_123 :: addr where "iedModel_Device1_DSCH1_SchdAbsTm_time_123 \<equiv> 3471"
abbreviation (input) iedModel_Device1_DSCH1_SchdAbsTm_time_124 :: addr where "iedModel_Device1_DSCH1_SchdAbsTm_time_124 \<equiv> 3472"
abbreviation (input) iedModel_Device1_DSCH1_SchdAbsTm_time_125 :: addr where "iedModel_Device1_DSCH1_SchdAbsTm_time_125 \<equiv> 3473"
abbreviation (input) iedModel_Device1_DSCH1_SchdAbsTm_time_126 :: addr where "iedModel_Device1_DSCH1_SchdAbsTm_time_126 \<equiv> 3474"
abbreviation (input) iedModel_Device1_DSCH1_SchdAbsTm_time_127 :: addr where "iedModel_Device1_DSCH1_SchdAbsTm_time_127 \<equiv> 3475"
abbreviation (input) iedModel_Device1_DSCH1_SchdAbsTm_time_128 :: addr where "iedModel_Device1_DSCH1_SchdAbsTm_time_128 \<equiv> 3476"
abbreviation (input) iedModel_Device1_DSCH1_SchdAbsTm_time_129 :: addr where "iedModel_Device1_DSCH1_SchdAbsTm_time_129 \<equiv> 3477"
abbreviation (input) iedModel_Device1_DSCH1_SchdAbsTm_time_130 :: addr where "iedModel_Device1_DSCH1_SchdAbsTm_time_130 \<equiv> 3478"
abbreviation (input) iedModel_Device1_DSCH1_SchdAbsTm_time_131 :: addr where "iedModel_Device1_DSCH1_SchdAbsTm_time_131 \<equiv> 3479"
abbreviation (input) iedModel_Device1_DSCH1_SchdAbsTm_time_132 :: addr where "iedModel_Device1_DSCH1_SchdAbsTm_time_132 \<equiv> 3480"
abbreviation (input) iedModel_Device1_DSCH1_SchdAbsTm_time_133 :: addr where "iedModel_Device1_DSCH1_SchdAbsTm_time_133 \<equiv> 3481"
abbreviation (input) iedModel_Device1_DSCH1_SchdAbsTm_time_134 :: addr where "iedModel_Device1_DSCH1_SchdAbsTm_time_134 \<equiv> 3482"
abbreviation (input) iedModel_Device1_DSCH1_SchdAbsTm_time_135 :: addr where "iedModel_Device1_DSCH1_SchdAbsTm_time_135 \<equiv> 3483"
abbreviation (input) iedModel_Device1_DSCH1_SchdAbsTm_time_136 :: addr where "iedModel_Device1_DSCH1_SchdAbsTm_time_136 \<equiv> 3484"
abbreviation (input) iedModel_Device1_DSCH1_SchdAbsTm_time_137 :: addr where "iedModel_Device1_DSCH1_SchdAbsTm_time_137 \<equiv> 3485"
abbreviation (input) iedModel_Device1_DSCH1_SchdAbsTm_time_138 :: addr where "iedModel_Device1_DSCH1_SchdAbsTm_time_138 \<equiv> 3486"
abbreviation (input) iedModel_Device1_DSCH1_SchdAbsTm_time_139 :: addr where "iedModel_Device1_DSCH1_SchdAbsTm_time_139 \<equiv> 3487"
abbreviation (input) iedModel_Device1_DSCH1_SchdAbsTm_time_140 :: addr where "iedModel_Device1_DSCH1_SchdAbsTm_time_140 \<equiv> 3488"
abbreviation (input) iedModel_Device1_DSCH1_SchdAbsTm_time_141 :: addr where "iedModel_Device1_DSCH1_SchdAbsTm_time_141 \<equiv> 3489"
abbreviation (input) iedModel_Device1_DSCH1_SchdAbsTm_time_142 :: addr where "iedModel_Device1_DSCH1_SchdAbsTm_time_142 \<equiv> 3490"
abbreviation (input) iedModel_Device1_DSCH1_SchdAbsTm_time_143 :: addr where "iedModel_Device1_DSCH1_SchdAbsTm_time_143 \<equiv> 3491"
abbreviation (input) iedModel_Device1_DSCH1_SchdAbsTm_time_144 :: addr where "iedModel_Device1_DSCH1_SchdAbsTm_time_144 \<equiv> 3492"
abbreviation (input) iedModel_Device1_DSCH1_SchdAbsTm_time_145 :: addr where "iedModel_Device1_DSCH1_SchdAbsTm_time_145 \<equiv> 3493"
abbreviation (input) iedModel_Device1_DSCH1_SchdAbsTm_time_146 :: addr where "iedModel_Device1_DSCH1_SchdAbsTm_time_146 \<equiv> 3494"
abbreviation (input) iedModel_Device1_DSCH1_SchdAbsTm_time_147 :: addr where "iedModel_Device1_DSCH1_SchdAbsTm_time_147 \<equiv> 3495"
abbreviation (input) iedModel_Device1_DSCH1_SchdAbsTm_time_148 :: addr where "iedModel_Device1_DSCH1_SchdAbsTm_time_148 \<equiv> 3496"
abbreviation (input) iedModel_Device1_DSCH1_SchdAbsTm_time_149 :: addr where "iedModel_Device1_DSCH1_SchdAbsTm_time_149 \<equiv> 3497"
abbreviation (input) iedModel_Device1_DSCH1_SchdAbsTm_time_150 :: addr where "iedModel_Device1_DSCH1_SchdAbsTm_time_150 \<equiv> 3498"
abbreviation (input) iedModel_Device1_DSCH1_SchdAbsTm_time_151 :: addr where "iedModel_Device1_DSCH1_SchdAbsTm_time_151 \<equiv> 3499"
abbreviation (input) iedModel_Device1_DSCH1_SchdAbsTm_time_152 :: addr where "iedModel_Device1_DSCH1_SchdAbsTm_time_152 \<equiv> 3500"
abbreviation (input) iedModel_Device1_DSCH1_SchdAbsTm_time_153 :: addr where "iedModel_Device1_DSCH1_SchdAbsTm_time_153 \<equiv> 3501"
abbreviation (input) iedModel_Device1_DSCH1_SchdAbsTm_time_154 :: addr where "iedModel_Device1_DSCH1_SchdAbsTm_time_154 \<equiv> 3502"
abbreviation (input) iedModel_Device1_DSCH1_SchdAbsTm_time_155 :: addr where "iedModel_Device1_DSCH1_SchdAbsTm_time_155 \<equiv> 3503"
abbreviation (input) iedModel_Device1_DSCH1_SchdAbsTm_time_156 :: addr where "iedModel_Device1_DSCH1_SchdAbsTm_time_156 \<equiv> 3504"
abbreviation (input) iedModel_Device1_DSCH1_SchdAbsTm_time_157 :: addr where "iedModel_Device1_DSCH1_SchdAbsTm_time_157 \<equiv> 3505"
abbreviation (input) iedModel_Device1_DSCH1_SchdAbsTm_time_158 :: addr where "iedModel_Device1_DSCH1_SchdAbsTm_time_158 \<equiv> 3506"
abbreviation (input) iedModel_Device1_DSCH1_SchdAbsTm_time_159 :: addr where "iedModel_Device1_DSCH1_SchdAbsTm_time_159 \<equiv> 3507"
abbreviation (input) iedModel_Device1_DSCH1_SchdAbsTm_time_160 :: addr where "iedModel_Device1_DSCH1_SchdAbsTm_time_160 \<equiv> 3508"
abbreviation (input) iedModel_Device1_DSCH1_SchdAbsTm_time_161 :: addr where "iedModel_Device1_DSCH1_SchdAbsTm_time_161 \<equiv> 3509"
abbreviation (input) iedModel_Device1_DSCH1_SchdAbsTm_time_162 :: addr where "iedModel_Device1_DSCH1_SchdAbsTm_time_162 \<equiv> 3510"
abbreviation (input) iedModel_Device1_DSCH1_SchdAbsTm_time_163 :: addr where "iedModel_Device1_DSCH1_SchdAbsTm_time_163 \<equiv> 3511"
abbreviation (input) iedModel_Device1_DSCH1_SchdAbsTm_time_164 :: addr where "iedModel_Device1_DSCH1_SchdAbsTm_time_164 \<equiv> 3512"
abbreviation (input) iedModel_Device1_DSCH1_SchdAbsTm_time_165 :: addr where "iedModel_Device1_DSCH1_SchdAbsTm_time_165 \<equiv> 3513"
abbreviation (input) iedModel_Device1_DSCH1_SchdAbsTm_time_166 :: addr where "iedModel_Device1_DSCH1_SchdAbsTm_time_166 \<equiv> 3514"
abbreviation (input) iedModel_Device1_DSCH1_SchdAbsTm_time_167 :: addr where "iedModel_Device1_DSCH1_SchdAbsTm_time_167 \<equiv> 3515"
abbreviation (input) iedModel_Device1_DSCH1_SchdAbsTm_time_168 :: addr where "iedModel_Device1_DSCH1_SchdAbsTm_time_168 \<equiv> 3516"
abbreviation (input) iedModel_Device1_DSCH1_SchdAbsTm_time_169 :: addr where "iedModel_Device1_DSCH1_SchdAbsTm_time_169 \<equiv> 3517"
abbreviation (input) iedModel_Device1_DSCH1_SchdAbsTm_time_170 :: addr where "iedModel_Device1_DSCH1_SchdAbsTm_time_170 \<equiv> 3518"
abbreviation (input) iedModel_Device1_DSCH1_SchdAbsTm_time_171 :: addr where "iedModel_Device1_DSCH1_SchdAbsTm_time_171 \<equiv> 3519"
abbreviation (input) iedModel_Device1_DSCH1_SchdAbsTm_time_172 :: addr where "iedModel_Device1_DSCH1_SchdAbsTm_time_172 \<equiv> 3520"
abbreviation (input) iedModel_Device1_DSCH1_SchdAbsTm_time_173 :: addr where "iedModel_Device1_DSCH1_SchdAbsTm_time_173 \<equiv> 3521"
abbreviation (input) iedModel_Device1_DSCH1_SchdAbsTm_time_174 :: addr where "iedModel_Device1_DSCH1_SchdAbsTm_time_174 \<equiv> 3522"
abbreviation (input) iedModel_Device1_DSCH1_SchdAbsTm_time_175 :: addr where "iedModel_Device1_DSCH1_SchdAbsTm_time_175 \<equiv> 3523"
abbreviation (input) iedModel_Device1_DSCH1_SchdAbsTm_time_176 :: addr where "iedModel_Device1_DSCH1_SchdAbsTm_time_176 \<equiv> 3524"
abbreviation (input) iedModel_Device1_DSCH1_SchdAbsTm_time_177 :: addr where "iedModel_Device1_DSCH1_SchdAbsTm_time_177 \<equiv> 3525"
abbreviation (input) iedModel_Device1_DSCH1_SchdAbsTm_time_178 :: addr where "iedModel_Device1_DSCH1_SchdAbsTm_time_178 \<equiv> 3526"
abbreviation (input) iedModel_Device1_DSCH1_SchdAbsTm_time_179 :: addr where "iedModel_Device1_DSCH1_SchdAbsTm_time_179 \<equiv> 3527"
abbreviation (input) iedModel_Device1_DSCH1_SchdAbsTm_time_180 :: addr where "iedModel_Device1_DSCH1_SchdAbsTm_time_180 \<equiv> 3528"
abbreviation (input) iedModel_Device1_DSCH1_SchdAbsTm_time_181 :: addr where "iedModel_Device1_DSCH1_SchdAbsTm_time_181 \<equiv> 3529"
abbreviation (input) iedModel_Device1_DSCH1_SchdAbsTm_time_182 :: addr where "iedModel_Device1_DSCH1_SchdAbsTm_time_182 \<equiv> 3530"
abbreviation (input) iedModel_Device1_DSCH1_SchdAbsTm_time_183 :: addr where "iedModel_Device1_DSCH1_SchdAbsTm_time_183 \<equiv> 3531"
abbreviation (input) iedModel_Device1_DSCH1_SchdAbsTm_time_184 :: addr where "iedModel_Device1_DSCH1_SchdAbsTm_time_184 \<equiv> 3532"
abbreviation (input) iedModel_Device1_DSCH1_SchdAbsTm_time_185 :: addr where "iedModel_Device1_DSCH1_SchdAbsTm_time_185 \<equiv> 3533"
abbreviation (input) iedModel_Device1_DSCH1_SchdAbsTm_time_186 :: addr where "iedModel_Device1_DSCH1_SchdAbsTm_time_186 \<equiv> 3534"
abbreviation (input) iedModel_Device1_DSCH1_SchdAbsTm_time_187 :: addr where "iedModel_Device1_DSCH1_SchdAbsTm_time_187 \<equiv> 3535"
abbreviation (input) iedModel_Device1_DSCH1_SchdAbsTm_time_188 :: addr where "iedModel_Device1_DSCH1_SchdAbsTm_time_188 \<equiv> 3536"
abbreviation (input) iedModel_Device1_DSCH1_SchdAbsTm_time_189 :: addr where "iedModel_Device1_DSCH1_SchdAbsTm_time_189 \<equiv> 3537"
abbreviation (input) iedModel_Device1_DSCH1_SchdAbsTm_time_190 :: addr where "iedModel_Device1_DSCH1_SchdAbsTm_time_190 \<equiv> 3538"
abbreviation (input) iedModel_Device1_DSCH1_SchdAbsTm_time_191 :: addr where "iedModel_Device1_DSCH1_SchdAbsTm_time_191 \<equiv> 3539"
abbreviation (input) iedModel_Device1_DSCH1_SchdAbsTm_time_192 :: addr where "iedModel_Device1_DSCH1_SchdAbsTm_time_192 \<equiv> 3540"
abbreviation (input) iedModel_Device1_DSCH1_SchdAbsTm_time_193 :: addr where "iedModel_Device1_DSCH1_SchdAbsTm_time_193 \<equiv> 3541"
abbreviation (input) iedModel_Device1_DSCH1_SchdAbsTm_time_194 :: addr where "iedModel_Device1_DSCH1_SchdAbsTm_time_194 \<equiv> 3542"
abbreviation (input) iedModel_Device1_DSCH1_SchdAbsTm_time_195 :: addr where "iedModel_Device1_DSCH1_SchdAbsTm_time_195 \<equiv> 3543"
abbreviation (input) iedModel_Device1_DSCH1_SchdAbsTm_time_196 :: addr where "iedModel_Device1_DSCH1_SchdAbsTm_time_196 \<equiv> 3544"
abbreviation (input) iedModel_Device1_DSCH1_SchdAbsTm_time_197 :: addr where "iedModel_Device1_DSCH1_SchdAbsTm_time_197 \<equiv> 3545"
abbreviation (input) iedModel_Device1_DSCH1_SchdAbsTm_time_198 :: addr where "iedModel_Device1_DSCH1_SchdAbsTm_time_198 \<equiv> 3546"
abbreviation (input) iedModel_Device1_DSCH1_SchdAbsTm_time_199 :: addr where "iedModel_Device1_DSCH1_SchdAbsTm_time_199 \<equiv> 3547"
abbreviation (input) iedModel_Device1_DSCH1_SchdAbsTm_time_200 :: addr where "iedModel_Device1_DSCH1_SchdAbsTm_time_200 \<equiv> 3548"
abbreviation (input) iedModel_Device1_DSCH1_SchdAbsTm_time_201 :: addr where "iedModel_Device1_DSCH1_SchdAbsTm_time_201 \<equiv> 3549"
abbreviation (input) iedModel_Device1_DSCH1_SchdAbsTm_time_202 :: addr where "iedModel_Device1_DSCH1_SchdAbsTm_time_202 \<equiv> 3550"
abbreviation (input) iedModel_Device1_DSCH1_SchdAbsTm_time_203 :: addr where "iedModel_Device1_DSCH1_SchdAbsTm_time_203 \<equiv> 3551"
abbreviation (input) iedModel_Device1_DSCH1_SchdAbsTm_time_204 :: addr where "iedModel_Device1_DSCH1_SchdAbsTm_time_204 \<equiv> 3552"
abbreviation (input) iedModel_Device1_DSCH1_SchdAbsTm_time_205 :: addr where "iedModel_Device1_DSCH1_SchdAbsTm_time_205 \<equiv> 3553"
abbreviation (input) iedModel_Device1_DSCH1_SchdAbsTm_time_206 :: addr where "iedModel_Device1_DSCH1_SchdAbsTm_time_206 \<equiv> 3554"
abbreviation (input) iedModel_Device1_DSCH1_SchdAbsTm_time_207 :: addr where "iedModel_Device1_DSCH1_SchdAbsTm_time_207 \<equiv> 3555"
abbreviation (input) iedModel_Device1_DSCH1_SchdAbsTm_time_208 :: addr where "iedModel_Device1_DSCH1_SchdAbsTm_time_208 \<equiv> 3556"
abbreviation (input) iedModel_Device1_DSCH1_SchdAbsTm_time_209 :: addr where "iedModel_Device1_DSCH1_SchdAbsTm_time_209 \<equiv> 3557"
abbreviation (input) iedModel_Device1_DSCH1_SchdAbsTm_time_210 :: addr where "iedModel_Device1_DSCH1_SchdAbsTm_time_210 \<equiv> 3558"
abbreviation (input) iedModel_Device1_DSCH1_SchdAbsTm_time_211 :: addr where "iedModel_Device1_DSCH1_SchdAbsTm_time_211 \<equiv> 3559"
abbreviation (input) iedModel_Device1_DSCH1_SchdAbsTm_time_212 :: addr where "iedModel_Device1_DSCH1_SchdAbsTm_time_212 \<equiv> 3560"
abbreviation (input) iedModel_Device1_DSCH1_SchdAbsTm_time_213 :: addr where "iedModel_Device1_DSCH1_SchdAbsTm_time_213 \<equiv> 3561"
abbreviation (input) iedModel_Device1_DSCH1_SchdAbsTm_time_214 :: addr where "iedModel_Device1_DSCH1_SchdAbsTm_time_214 \<equiv> 3562"
abbreviation (input) iedModel_Device1_DSCH1_SchdAbsTm_time_215 :: addr where "iedModel_Device1_DSCH1_SchdAbsTm_time_215 \<equiv> 3563"
abbreviation (input) iedModel_Device1_DSCH1_SchdAbsTm_time_216 :: addr where "iedModel_Device1_DSCH1_SchdAbsTm_time_216 \<equiv> 3564"
abbreviation (input) iedModel_Device1_DSCH1_SchdAbsTm_time_217 :: addr where "iedModel_Device1_DSCH1_SchdAbsTm_time_217 \<equiv> 3565"
abbreviation (input) iedModel_Device1_DSCH1_SchdAbsTm_time_218 :: addr where "iedModel_Device1_DSCH1_SchdAbsTm_time_218 \<equiv> 3566"
abbreviation (input) iedModel_Device1_DSCH1_SchdAbsTm_time_219 :: addr where "iedModel_Device1_DSCH1_SchdAbsTm_time_219 \<equiv> 3567"
abbreviation (input) iedModel_Device1_DSCH1_SchdAbsTm_time_220 :: addr where "iedModel_Device1_DSCH1_SchdAbsTm_time_220 \<equiv> 3568"
abbreviation (input) iedModel_Device1_DSCH1_SchdAbsTm_time_221 :: addr where "iedModel_Device1_DSCH1_SchdAbsTm_time_221 \<equiv> 3569"
abbreviation (input) iedModel_Device1_DSCH1_SchdAbsTm_time_222 :: addr where "iedModel_Device1_DSCH1_SchdAbsTm_time_222 \<equiv> 3570"
abbreviation (input) iedModel_Device1_DSCH1_SchdAbsTm_time_223 :: addr where "iedModel_Device1_DSCH1_SchdAbsTm_time_223 \<equiv> 3571"
abbreviation (input) iedModel_Device1_DSCH1_SchdAbsTm_time_224 :: addr where "iedModel_Device1_DSCH1_SchdAbsTm_time_224 \<equiv> 3572"
abbreviation (input) iedModel_Device1_DSCH1_SchdAbsTm_time_225 :: addr where "iedModel_Device1_DSCH1_SchdAbsTm_time_225 \<equiv> 3573"
abbreviation (input) iedModel_Device1_DSCH1_SchdAbsTm_time_226 :: addr where "iedModel_Device1_DSCH1_SchdAbsTm_time_226 \<equiv> 3574"
abbreviation (input) iedModel_Device1_DSCH1_SchdAbsTm_time_227 :: addr where "iedModel_Device1_DSCH1_SchdAbsTm_time_227 \<equiv> 3575"
abbreviation (input) iedModel_Device1_DSCH1_SchdAbsTm_time_228 :: addr where "iedModel_Device1_DSCH1_SchdAbsTm_time_228 \<equiv> 3576"
abbreviation (input) iedModel_Device1_DSCH1_SchdAbsTm_time_229 :: addr where "iedModel_Device1_DSCH1_SchdAbsTm_time_229 \<equiv> 3577"
abbreviation (input) iedModel_Device1_DSCH1_SchdAbsTm_time_230 :: addr where "iedModel_Device1_DSCH1_SchdAbsTm_time_230 \<equiv> 3578"
abbreviation (input) iedModel_Device1_DSCH1_SchdAbsTm_time_231 :: addr where "iedModel_Device1_DSCH1_SchdAbsTm_time_231 \<equiv> 3579"
abbreviation (input) iedModel_Device1_DSCH1_SchdAbsTm_time_232 :: addr where "iedModel_Device1_DSCH1_SchdAbsTm_time_232 \<equiv> 3580"
abbreviation (input) iedModel_Device1_DSCH1_SchdAbsTm_time_233 :: addr where "iedModel_Device1_DSCH1_SchdAbsTm_time_233 \<equiv> 3581"
abbreviation (input) iedModel_Device1_DSCH1_SchdAbsTm_time_234 :: addr where "iedModel_Device1_DSCH1_SchdAbsTm_time_234 \<equiv> 3582"
abbreviation (input) iedModel_Device1_DSCH1_SchdAbsTm_time_235 :: addr where "iedModel_Device1_DSCH1_SchdAbsTm_time_235 \<equiv> 3583"
abbreviation (input) iedModel_Device1_DSCH1_SchdAbsTm_time_236 :: addr where "iedModel_Device1_DSCH1_SchdAbsTm_time_236 \<equiv> 3584"
abbreviation (input) iedModel_Device1_DSCH1_SchdAbsTm_time_237 :: addr where "iedModel_Device1_DSCH1_SchdAbsTm_time_237 \<equiv> 3585"
abbreviation (input) iedModel_Device1_DSCH1_SchdAbsTm_time_238 :: addr where "iedModel_Device1_DSCH1_SchdAbsTm_time_238 \<equiv> 3586"
abbreviation (input) iedModel_Device1_DSCH1_SchdAbsTm_time_239 :: addr where "iedModel_Device1_DSCH1_SchdAbsTm_time_239 \<equiv> 3587"
abbreviation (input) iedModel_Device1_DSCH1_SchdAbsTm_time_240 :: addr where "iedModel_Device1_DSCH1_SchdAbsTm_time_240 \<equiv> 3588"
abbreviation (input) iedModel_Device1_DSCH1_SchdAbsTm_time_241 :: addr where "iedModel_Device1_DSCH1_SchdAbsTm_time_241 \<equiv> 3589"
abbreviation (input) iedModel_Device1_DSCH1_SchdAbsTm_time_242 :: addr where "iedModel_Device1_DSCH1_SchdAbsTm_time_242 \<equiv> 3590"
abbreviation (input) iedModel_Device1_DSCH1_SchdAbsTm_time_243 :: addr where "iedModel_Device1_DSCH1_SchdAbsTm_time_243 \<equiv> 3591"
abbreviation (input) iedModel_Device1_DSCH1_SchdAbsTm_time_244 :: addr where "iedModel_Device1_DSCH1_SchdAbsTm_time_244 \<equiv> 3592"
abbreviation (input) iedModel_Device1_DSCH1_SchdAbsTm_time_245 :: addr where "iedModel_Device1_DSCH1_SchdAbsTm_time_245 \<equiv> 3593"
abbreviation (input) iedModel_Device1_DSCH1_SchdAbsTm_time_246 :: addr where "iedModel_Device1_DSCH1_SchdAbsTm_time_246 \<equiv> 3594"
abbreviation (input) iedModel_Device1_DSCH1_SchdAbsTm_time_247 :: addr where "iedModel_Device1_DSCH1_SchdAbsTm_time_247 \<equiv> 3595"
abbreviation (input) iedModel_Device1_DSCH1_SchdAbsTm_time_248 :: addr where "iedModel_Device1_DSCH1_SchdAbsTm_time_248 \<equiv> 3596"
abbreviation (input) iedModel_Device1_DSCH1_SchdAbsTm_time_249 :: addr where "iedModel_Device1_DSCH1_SchdAbsTm_time_249 \<equiv> 3597"
abbreviation (input) iedModel_Device1_DSCH1_SchdAbsTm_time_250 :: addr where "iedModel_Device1_DSCH1_SchdAbsTm_time_250 \<equiv> 3598"
abbreviation (input) iedModel_Device1_DSCH1_SchdAbsTm_time_251 :: addr where "iedModel_Device1_DSCH1_SchdAbsTm_time_251 \<equiv> 3599"
abbreviation (input) iedModel_Device1_DSCH1_SchdAbsTm_time_252 :: addr where "iedModel_Device1_DSCH1_SchdAbsTm_time_252 \<equiv> 3600"
abbreviation (input) iedModel_Device1_DSCH1_SchdAbsTm_time_253 :: addr where "iedModel_Device1_DSCH1_SchdAbsTm_time_253 \<equiv> 3601"
abbreviation (input) iedModel_Device1_DSCH1_SchdAbsTm_time_254 :: addr where "iedModel_Device1_DSCH1_SchdAbsTm_time_254 \<equiv> 3602"
abbreviation (input) iedModel_Device1_MMXU1 :: addr where "iedModel_Device1_MMXU1 \<equiv> 3603"
abbreviation (input) iedModel_Device1_MMXU1_Mod :: addr where "iedModel_Device1_MMXU1_Mod \<equiv> 3604"
abbreviation (input) iedModel_Device1_MMXU1_Mod_q :: addr where "iedModel_Device1_MMXU1_Mod_q \<equiv> 3605"
abbreviation (input) iedModel_Device1_MMXU1_Mod_t :: addr where "iedModel_Device1_MMXU1_Mod_t \<equiv> 3606"
abbreviation (input) iedModel_Device1_MMXU1_Mod_ctlModel :: addr where "iedModel_Device1_MMXU1_Mod_ctlModel \<equiv> 3607"
abbreviation (input) iedModel_Device1_MMXU1_Beh :: addr where "iedModel_Device1_MMXU1_Beh \<equiv> 3608"
abbreviation (input) iedModel_Device1_MMXU1_Beh_stVal :: addr where "iedModel_Device1_MMXU1_Beh_stVal \<equiv> 3609"
abbreviation (input) iedModel_Device1_MMXU1_Beh_q :: addr where "iedModel_Device1_MMXU1_Beh_q \<equiv> 3610"
abbreviation (input) iedModel_Device1_MMXU1_Beh_t :: addr where "iedModel_Device1_MMXU1_Beh_t \<equiv> 3611"
abbreviation (input) iedModel_Device1_MMXU1_Health :: addr where "iedModel_Device1_MMXU1_Health \<equiv> 3612"
abbreviation (input) iedModel_Device1_MMXU1_Health_stVal :: addr where "iedModel_Device1_MMXU1_Health_stVal \<equiv> 3613"
abbreviation (input) iedModel_Device1_MMXU1_Health_q :: addr where "iedModel_Device1_MMXU1_Health_q \<equiv> 3614"
abbreviation (input) iedModel_Device1_MMXU1_Health_t :: addr where "iedModel_Device1_MMXU1_Health_t \<equiv> 3615"
abbreviation (input) iedModel_Device1_MMXU1_NamPlt :: addr where "iedModel_Device1_MMXU1_NamPlt \<equiv> 3616"
abbreviation (input) iedModel_Device1_MMXU1_NamPlt_vendor :: addr where "iedModel_Device1_MMXU1_NamPlt_vendor \<equiv> 3617"
abbreviation (input) iedModel_Device1_MMXU1_NamPlt_swRev :: addr where "iedModel_Device1_MMXU1_NamPlt_swRev \<equiv> 3618"
abbreviation (input) iedModel_Device1_MMXU1_NamPlt_d :: addr where "iedModel_Device1_MMXU1_NamPlt_d \<equiv> 3619"
abbreviation (input) iedModel_Device1_MMXU2 :: addr where "iedModel_Device1_MMXU2 \<equiv> 3620"
abbreviation (input) iedModel_Device1_MMXU2_Mod :: addr where "iedModel_Device1_MMXU2_Mod \<equiv> 3621"
abbreviation (input) iedModel_Device1_MMXU2_Mod_q :: addr where "iedModel_Device1_MMXU2_Mod_q \<equiv> 3622"
abbreviation (input) iedModel_Device1_MMXU2_Mod_t :: addr where "iedModel_Device1_MMXU2_Mod_t \<equiv> 3623"
abbreviation (input) iedModel_Device1_MMXU2_Mod_ctlModel :: addr where "iedModel_Device1_MMXU2_Mod_ctlModel \<equiv> 3624"
abbreviation (input) iedModel_Device1_MMXU2_Beh :: addr where "iedModel_Device1_MMXU2_Beh \<equiv> 3625"
abbreviation (input) iedModel_Device1_MMXU2_Beh_stVal :: addr where "iedModel_Device1_MMXU2_Beh_stVal \<equiv> 3626"
abbreviation (input) iedModel_Device1_MMXU2_Beh_q :: addr where "iedModel_Device1_MMXU2_Beh_q \<equiv> 3627"
abbreviation (input) iedModel_Device1_MMXU2_Beh_t :: addr where "iedModel_Device1_MMXU2_Beh_t \<equiv> 3628"
abbreviation (input) iedModel_Device1_MMXU2_Health :: addr where "iedModel_Device1_MMXU2_Health \<equiv> 3629"
abbreviation (input) iedModel_Device1_MMXU2_Health_stVal :: addr where "iedModel_Device1_MMXU2_Health_stVal \<equiv> 3630"
abbreviation (input) iedModel_Device1_MMXU2_Health_q :: addr where "iedModel_Device1_MMXU2_Health_q \<equiv> 3631"
abbreviation (input) iedModel_Device1_MMXU2_Health_t :: addr where "iedModel_Device1_MMXU2_Health_t \<equiv> 3632"
abbreviation (input) iedModel_Device1_MMXU2_NamPlt :: addr where "iedModel_Device1_MMXU2_NamPlt \<equiv> 3633"
abbreviation (input) iedModel_Device1_MMXU2_NamPlt_vendor :: addr where "iedModel_Device1_MMXU2_NamPlt_vendor \<equiv> 3634"
abbreviation (input) iedModel_Device1_MMXU2_NamPlt_swRev :: addr where "iedModel_Device1_MMXU2_NamPlt_swRev \<equiv> 3635"
abbreviation (input) iedModel_Device1_MMXU2_NamPlt_d :: addr where "iedModel_Device1_MMXU2_NamPlt_d \<equiv> 3636"
abbreviation (input) iedModel_Device1_MMXU2_TotW :: addr where "iedModel_Device1_MMXU2_TotW \<equiv> 3637"
abbreviation (input) iedModel_Device1_MMXU2_TotW_mag :: addr where "iedModel_Device1_MMXU2_TotW_mag \<equiv> 3638"
abbreviation (input) iedModel_Device1_MMXU2_TotW_mag_f :: addr where "iedModel_Device1_MMXU2_TotW_mag_f \<equiv> 3639"
abbreviation (input) iedModel_Device1_MMXU2_TotW_q :: addr where "iedModel_Device1_MMXU2_TotW_q \<equiv> 3640"
abbreviation (input) iedModel_Device1_MMXU2_TotW_t :: addr where "iedModel_Device1_MMXU2_TotW_t \<equiv> 3641"

text \<open>
  The \<open>k\<close>-th element of an array of \<open>n\<close> attributes that starts at address \<open>b\<close>: it has no name,
  its index, the parent \<open>p\<close>, and the next element as its sibling.
\<close>

definition array_element ::
  "addr \<Rightarrow> addr \<Rightarrow> nat \<Rightarrow> functional_constraint \<Rightarrow> attribute_type \<Rightarrow> 8 word \<Rightarrow> nat \<Rightarrow> addr \<times> model_node" where
  "array_element p b n fc ty trg k =
     (b + k, DataAttribute None (Some p) (if k + 1 < n then Some (b + k + 1) else None) None 0 (int k) fc ty trg None 0)"

lemma upt_ten: "[0 ..< 10] = [0, 1, 2, 3, 4, 5, 6, 7, 8, 9 :: nat]"
  by (simp add: upt_conv_Cons)

text \<open>
  The conventions of this model: an attribute has children exactly when it is constructed or
  an array, and a change of quality is reported for quality attributes and only for those.
\<close>

fun sample_conforms :: "model_node \<Rightarrow> bool" where
  "sample_conforms (DataAttribute n p s c e i f t o' v a) =
     ((t = T_CONSTRUCTED \<or> 0 < e) = (c \<noteq> None) \<and> (t = T_QUALITY) = (o' = TRG_OPT_QUALITY_CHANGED)
      \<and> (n = None) = (0 \<le> i) \<and> v = None \<and> a = 0)"
| "sample_conforms (DataObject n p s c e i) = (n \<noteq> None \<and> e = 0 \<and> i = - 1)"
| "sample_conforms (LogicalNode n p s c) = (n \<noteq> None \<and> c \<noteq> None)"
| "sample_conforms (LogicalDevice n p s c l) = (n \<noteq> None \<and> c \<noteq> None \<and> l = None)"

text \<open>The names of the data objects without any attribute.\<close>

fun childless :: "model_node \<Rightarrow> bool" where
  "childless (DataObject n p s c e i) = (c = None)"
| "childless n = False"

definition childless_objects :: "node_table \<Rightarrow> string option list" where
  "childless_objects tbl = map node_name (filter childless (map snd tbl))"

lemma childless_append:
  "childless_objects [] = []" "childless_objects (xs @ ys) = childless_objects xs @ childless_objects ys"
  by (simp_all add: childless_objects_def)

end
