(* ===== verification/Sample_Nodes.thy ===== *)
theory Sample_Nodes
  imports Sample_Symbols
begin

text \<open>
  The structures of \<open>sample/server_example_simple/static_model.c\<close> for all of its logical nodes, up to the two arrays of \<open>DSCH1.SchdAbsTm\<close>,
  in file order, a list per stretch of the file, and the pass of the checker over each list.
\<close>

definition sample_LD :: node_table where
  "sample_LD =
   [(iedModel_Device1,
    LogicalDevice (Some ''Device1'') (Some iedModel) None (Some iedModel_Device1_LLN0) None)]"

definition sample_LLN0_1 :: node_table where
  "sample_LLN0_1 =
   [(iedModel_Device1_LLN0,
    LogicalNode (Some ''LLN0'') (Some iedModel_Device1) (Some iedModel_Device1_LPHD1) (Some iedModel_Device1_LLN0_Mod)),
    (iedModel_Device1_LLN0_Mod,
    DataObject (Some ''Mod'') (Some iedModel_Device1_LLN0) (Some iedModel_Device1_LLN0_Beh) (Some iedModel_Device1_LLN0_Mod_q) 0 (- 1)),
    (iedModel_Device1_LLN0_Mod_q,
    DataAttribute (Some ''q'') (Some iedModel_Device1_LLN0_Mod) (Some iedModel_Device1_LLN0_Mod_t) None 0 (- 1) FC_ST T_QUALITY (0 + TRG_OPT_QUALITY_CHANGED) None 0),
    (iedModel_Device1_LLN0_Mod_t,
    DataAttribute (Some ''t'') (Some iedModel_Device1_LLN0_Mod) (Some iedModel_Device1_LLN0_Mod_ctlModel) None 0 (- 1) FC_ST T_TIMESTAMP 0 None 0),
    (iedModel_Device1_LLN0_Mod_ctlModel,
    DataAttribute (Some ''ctlModel'') (Some iedModel_Device1_LLN0_Mod) None None 0 (- 1) FC_CF T_ENUMERATED 0 None 0),
    (iedModel_Device1_LLN0_Beh,
    DataObject (Some ''Beh'') (Some iedModel_Device1_LLN0) (Some iedModel_Device1_LLN0_Health) (Some iedModel_Device1_LLN0_Beh_stVal) 0 (- 1)),
    (iedModel_Device1_LLN0_Beh_stVal,
    DataAttribute (Some ''stVal'') (Some iedModel_Device1_LLN0_Beh) (Some iedModel_Device1_LLN0_Beh_q) None 0 (- 1) FC_ST T_INT32 (0 + TRG_OPT_DATA_CHANGED) None 0),
    (iedModel_Device1_LLN0_Beh_q,
    DataAttribute (Some ''q'') (Some iedModel_Device1_LLN0_Beh) (Some iedModel_Device1_LLN0_Beh_t) None 0 (- 1) FC_ST T_QUALITY (0 + TRG_OPT_QUALITY_CHANGED) None 0),
    (iedModel_Device1_LLN0_Beh_t,
    DataAttribute (Some ''t'') (Some iedModel_Device1_LLN0_Beh) None None 0 (- 1) FC_ST T_TIMESTAMP 0 None 0),
    (iedModel_Device1_LLN0_Health,
    DataObject (Some ''Health'') (Some iedModel_Device1_LLN0) (Some iedModel_Device1_LLN0_NamPlt) (Some iedModel_Device1_LLN0_Health_stVal) 0 (- 1)),
    (iedModel_Device1_LLN0_Health_stVal,
    DataAttribute (Some ''stVal'') (Some iedModel_Device1_LLN0_Health) (Some iedModel_Device1_LLN0_Health_q) None 0 (- 1) FC_ST T_INT32 (0 + TRG_OPT_DATA_CHANGED) None 0)]"

definition sample_LLN0_2 :: node_table where
  "sample_LLN0_2 =
   [(iedModel_Device1_LLN0_Health_q,
    DataAttribute (Some ''q'') (Some iedModel_Device1_LLN0_Health) (Some iedModel_Device1_LLN0_Health_t) None 0 (- 1) FC_ST T_QUALITY (0 + TRG_OPT_QUALITY_CHANGED) None 0),
    (iedModel_Device1_LLN0_Health_t,
    DataAttribute (Some ''t'') (Some iedModel_Device1_LLN0_Health) None None 0 (- 1) FC_ST T_TIMESTAMP 0 None 0),
    (iedModel_Device1_LLN0_NamPlt,
    DataObject (Some ''NamPlt'') (Some iedModel_Device1_LLN0) None (Some iedModel_Device1_LLN0_NamPlt_vendor) 0 (- 1)),
    (iedModel_Device1_LLN0_NamPlt_vendor,
    DataAttribute (Some ''vendor'') (Some iedModel_Device1_LLN0_NamPlt) (Some iedModel_Device1_LLN0_NamPlt_swRev) None 0 (- 1) FC_DC T_VISIBLE_STRING_255 0 None 0),
    (iedModel_Device1_LLN0_NamPlt_swRev,
    DataAttribute (Some ''swRev'') (Some iedModel_Device1_LLN0_NamPlt) (Some iedModel_Device1_LLN0_NamPlt_d) None 0 (- 1) FC_DC T_VISIBLE_STRING_255 0 None 0),
    (iedModel_Device1_LLN0_NamPlt_d,
    DataAttribute (Some ''d'') (Some iedModel_Device1_LLN0_NamPlt) (Some iedModel_Device1_LLN0_NamPlt_configRev) None 0 (- 1) FC_DC T_VISIBLE_STRING_255 0 None 0),
    (iedModel_Device1_LLN0_NamPlt_configRev,
    DataAttribute (Some ''configRev'') (Some iedModel_Device1_LLN0_NamPlt) (Some iedModel_Device1_LLN0_NamPlt_ldNs) None 0 (- 1) FC_DC T_VISIBLE_STRING_255 0 None 0),
    (iedModel_Device1_LLN0_NamPlt_ldNs,
    DataAttribute (Some ''ldNs'') (Some iedModel_Device1_LLN0_NamPlt) None None 0 (- 1) FC_EX T_VISIBLE_STRING_255 0 None 0)]"

definition sample_LLN0 :: node_table where
  "sample_LLN0 = concat [sample_LLN0_1,
     sample_LLN0_2]"

definition sample_LPHD1 :: node_table where
  "sample_LPHD1 =
   [(iedModel_Device1_LPHD1,
    LogicalNode (Some ''LPHD1'') (Some iedModel_Device1) (Some iedModel_Device1_DGEN1) (Some iedModel_Device1_LPHD1_PhyNam)),
    (iedModel_Device1_LPHD1_PhyNam,
    DataObject (Some ''PhyNam'') (Some iedModel_Device1_LPHD1) (Some iedModel_Device1_LPHD1_PhyHealth) (Some iedModel_Device1_LPHD1_PhyNam_vendor) 0 (- 1)),
    (iedModel_Device1_LPHD1_PhyNam_vendor,
    DataAttribute (Some ''vendor'') (Some iedModel_Device1_LPHD1_PhyNam) None None 0 (- 1) FC_DC T_VISIBLE_STRING_255 0 None 0),
    (iedModel_Device1_LPHD1_PhyHealth,
    DataObject (Some ''PhyHealth'') (Some iedModel_Device1_LPHD1) (Some iedModel_Device1_LPHD1_Proxy) (Some iedModel_Device1_LPHD1_PhyHealth_stVal) 0 (- 1)),
    (iedModel_Device1_LPHD1_PhyHealth_stVal,
    DataAttribute (Some ''stVal'') (Some iedModel_Device1_LPHD1_PhyHealth) (Some iedModel_Device1_LPHD1_PhyHealth_q) None 0 (- 1) FC_ST T_INT32 (0 + TRG_OPT_DATA_CHANGED) None 0),
    (iedModel_Device1_LPHD1_PhyHealth_q,
    DataAttribute (Some ''q'') (Some iedModel_Device1_LPHD1_PhyHealth) (Some iedModel_Device1_LPHD1_PhyHealth_t) None 0 (- 1) FC_ST T_QUALITY (0 + TRG_OPT_QUALITY_CHANGED) None 0),
    (iedModel_Device1_LPHD1_PhyHealth_t,
    DataAttribute (Some ''t'') (Some iedModel_Device1_LPHD1_PhyHealth) None None 0 (- 1) FC_ST T_TIMESTAMP 0 None 0),
    (iedModel_Device1_LPHD1_Proxy,
    DataObject (Some ''Proxy'') (Some iedModel_Device1_LPHD1) None (Some iedModel_Device1_LPHD1_Proxy_stVal) 0 (- 1)),
    (iedModel_Device1_LPHD1_Proxy_stVal,
    DataAttribute (Some ''stVal'') (Some iedModel_Device1_LPHD1_Proxy) (Some iedModel_Device1_LPHD1_Proxy_q) None 0 (- 1) FC_ST T_BOOLEAN (0 + TRG_OPT_DATA_CHANGED) None 0),
    (iedModel_Device1_LPHD1_Proxy_q,
    DataAttribute (Some ''q'') (Some iedModel_Device1_LPHD1_Proxy) (Some iedModel_Device1_LPHD1_Proxy_t) None 0 (- 1) FC_ST T_QUALITY (0 + TRG_OPT_QUALITY_CHANGED) None 0),
    (iedModel_Device1_LPHD1_Proxy_t,
    DataAttribute (Some ''t'') (Some iedModel_Device1_LPHD1_Proxy) None None 0 (- 1) FC_ST T_TIMESTAMP 0 None 0)]"

definition sample_DGEN1_1 :: node_table where
  "sample_DGEN1_1 =
   [(iedModel_Device1_DGEN1,
    LogicalNode (Some ''DGEN1'') (Some iedModel_Device1) (Some iedModel_Device1_DSCH1) (Some iedModel_Device1_DGEN1_Mod)),
    (iedModel_Device1_DGEN1_Mod,
    DataObject (Some ''Mod'') (Some iedModel_Device1_DGEN1) (Some iedModel_Device1_DGEN1_Beh) (Some iedModel_Device1_DGEN1_Mod_q) 0 (- 1)),
    (iedModel_Device1_DGEN1_Mod_q,
    DataAttribute (Some ''q'') (Some iedModel_Device1_DGEN1_Mod) (Some iedModel_Device1_DGEN1_Mod_t) None 0 (- 1) FC_ST T_QUALITY (0 + TRG_OPT_QUALITY_CHANGED) None 0),
    (iedModel_Device1_DGEN1_Mod_t,
    DataAttribute (Some ''t'') (Some iedModel_Device1_DGEN1_Mod) (Some iedModel_Device1_DGEN1_Mod_ctlModel) None 0 (- 1) FC_ST T_TIMESTAMP 0 None 0),
    (iedModel_Device1_DGEN1_Mod_ctlModel,
    DataAttribute (Some ''ctlModel'') (Some iedModel_Device1_DGEN1_Mod) None None 0 (- 1) FC_CF T_ENUMERATED 0 None 0),
    (iedModel_Device1_DGEN1_Beh,
    DataObject (Some ''Beh'') (Some iedModel_Device1_DGEN1) (Some iedModel_Device1_DGEN1_Health) (Some iedModel_Device1_DGEN1_Beh_stVal) 0 (- 1)),
    (iedModel_Device1_DGEN1_Beh_stVal,
    DataAttribute (Some ''stVal'') (Some iedModel_Device1_DGEN1_Beh) (Some iedModel_Device1_DGEN1_Beh_q) None 0 (- 1) FC_ST T_INT32 (0 + TRG_OPT_DATA_CHANGED) None 0),
    (iedModel_Device1_DGEN1_Beh_q,
    DataAttribute (Some ''q'') (Some iedModel_Device1_DGEN1_Beh) (Some iedModel_Device1_DGEN1_Beh_t) None 0 (- 1) FC_ST T_QUALITY (0 + TRG_OPT_QUALITY_CHANGED) None 0),
    (iedModel_Device1_DGEN1_Beh_t,
    DataAttribute (Some ''t'') (Some iedModel_Device1_DGEN1_Beh) None None 0 (- 1) FC_ST T_TIMESTAMP 0 None 0),
    (iedModel_Device1_DGEN1_Health,
    DataObject (Some ''Health'') (Some iedModel_Device1_DGEN1) (Some iedModel_Device1_DGEN1_NamPlt) (Some iedModel_Device1_DGEN1_Health_stVal) 0 (- 1)),
    (iedModel_Device1_DGEN1_Health_stVal,
    DataAttribute (Some ''stVal'') (Some iedModel_Device1_DGEN1_Health) (Some iedModel_Device1_DGEN1_Health_q) None 0 (- 1) FC_ST T_INT32 (0 + TRG_OPT_DATA_CHANGED) None 0)]"

definition sample_DGEN1_2 :: node_table where
  "sample_DGEN1_2 =
   [(iedModel_Device1_DGEN1_Health_q,
    DataAttribute (Some ''q'') (Some iedModel_Device1_DGEN1_Health) (Some iedModel_Device1_DGEN1_Health_t) None 0 (- 1) FC_ST T_QUALITY (0 + TRG_OPT_QUALITY_CHANGED) None 0),
    (iedModel_Device1_DGEN1_Health_t,
    DataAttribute (Some ''t'') (Some iedModel_Device1_DGEN1_Health) None None 0 (- 1) FC_ST T_TIMESTAMP 0 None 0),
    (iedModel_Device1_DGEN1_NamPlt,
    DataObject (Some ''NamPlt'') (Some iedModel_Device1_DGEN1) (Some iedModel_Device1_DGEN1_OpTmh) (Some iedModel_Device1_DGEN1_NamPlt_vendor) 0 (- 1)),
    (iedModel_Device1_DGEN1_NamPlt_vendor,
    DataAttribute (Some ''vendor'') (Some iedModel_Device1_DGEN1_NamPlt) (Some iedModel_Device1_DGEN1_NamPlt_swRev) None 0 (- 1) FC_DC T_VISIBLE_STRING_255 0 None 0),
    (iedModel_Device1_DGEN1_NamPlt_swRev,
    DataAttribute (Some ''swRev'') (Some iedModel_Device1_DGEN1_NamPlt) (Some iedModel_Device1_DGEN1_NamPlt_d) None 0 (- 1) FC_DC T_VISIBLE_STRING_255 0 None 0),
    (iedModel_Device1_DGEN1_NamPlt_d,
    DataAttribute (Some ''d'') (Some iedModel_Device1_DGEN1_NamPlt) None None 0 (- 1) FC_DC T_VISIBLE_STRING_255 0 None 0),
    (iedModel_Device1_DGEN1_OpTmh,
    DataObject (Some ''OpTmh'') (Some iedModel_Device1_DGEN1) (Some iedModel_Device1_DGEN1_GnOpSt) (Some iedModel_Device1_DGEN1_OpTmh_stVal) 0 (- 1)),
    (iedModel_Device1_DGEN1_OpTmh_stVal,
    DataAttribute (Some ''stVal'') (Some iedModel_Device1_DGEN1_OpTmh) (Some iedModel_Device1_DGEN1_OpTmh_q) None 0 (- 1) FC_ST T_INT32 (0 + TRG_OPT_DATA_CHANGED) None 0),
    (iedModel_Device1_DGEN1_OpTmh_q,
    DataAttribute (Some ''q'') (Some iedModel_Device1_DGEN1_OpTmh) (Some iedModel_Device1_DGEN1_OpTmh_t) None 0 (- 1) FC_ST T_QUALITY (0 + TRG_OPT_QUALITY_CHANGED) None 0),
    (iedModel_Device1_DGEN1_OpTmh_t,
    DataAttribute (Some ''t'') (Some iedModel_Device1_DGEN1_OpTmh) None None 0 (- 1) FC_ST T_TIMESTAMP 0 None 0),
    (iedModel_Device1_DGEN1_GnOpSt,
    DataObject (Some ''GnOpSt'') (Some iedModel_Device1_DGEN1) (Some iedModel_Device1_DGEN1_OpTmsRs) (Some iedModel_Device1_DGEN1_GnOpSt_stVal) 0 (- 1))]"

definition sample_DGEN1_3 :: node_table where
  "sample_DGEN1_3 =
   [(iedModel_Device1_DGEN1_GnOpSt_stVal,
    DataAttribute (Some ''stVal'') (Some iedModel_Device1_DGEN1_GnOpSt) (Some iedModel_Device1_DGEN1_GnOpSt_q) None 0 (- 1) FC_ST T_INT32 (0 + TRG_OPT_DATA_CHANGED) None 0),
    (iedModel_Device1_DGEN1_GnOpSt_q,
    DataAttribute (Some ''q'') (Some iedModel_Device1_DGEN1_GnOpSt) (Some iedModel_Device1_DGEN1_GnOpSt_t) None 0 (- 1) FC_ST T_QUALITY (0 + TRG_OPT_QUALITY_CHANGED) None 0),
    (iedModel_Device1_DGEN1_GnOpSt_t,
    DataAttribute (Some ''t'') (Some iedModel_Device1_DGEN1_GnOpSt) None None 0 (- 1) FC_ST T_TIMESTAMP 0 None 0),
    (iedModel_Device1_DGEN1_OpTmsRs,
    DataObject (Some ''OpTmsRs'') (Some iedModel_Device1_DGEN1) (Some iedModel_Device1_DGEN1_TotWh) (Some iedModel_Device1_DGEN1_OpTmsRs_stVal) 0 (- 1)),
    (iedModel_Device1_DGEN1_OpTmsRs_stVal,
    DataAttribute (Some ''stVal'') (Some iedModel_Device1_DGEN1_OpTmsRs) (Some iedModel_Device1_DGEN1_OpTmsRs_q) None 0 (- 1) FC_ST T_INT32 (0 + TRG_OPT_DATA_CHANGED) None 0),
    (iedModel_Device1_DGEN1_OpTmsRs_q,
    DataAttribute (Some ''q'') (Some iedModel_Device1_DGEN1_OpTmsRs) (Some iedModel_Device1_DGEN1_OpTmsRs_t) None 0 (- 1) FC_ST T_QUALITY (0 + TRG_OPT_QUALITY_CHANGED) None 0),
    (iedModel_Device1_DGEN1_OpTmsRs_t,
    DataAttribute (Some ''t'') (Some iedModel_Device1_DGEN1_OpTmsRs) None None 0 (- 1) FC_ST T_TIMESTAMP 0 None 0),
    (iedModel_Device1_DGEN1_TotWh,
    DataObject (Some ''TotWh'') (Some iedModel_Device1_DGEN1) None (Some iedModel_Device1_DGEN1_TotWh_mag) 0 (- 1)),
    (iedModel_Device1_DGEN1_TotWh_mag,
    DataAttribute (Some ''mag'') (Some iedModel_Device1_DGEN1_TotWh) (Some iedModel_Device1_DGEN1_TotWh_q) (Some iedModel_Device1_DGEN1_TotWh_mag_f) 0 (- 1) FC_MX T_CONSTRUCTED (0 + TRG_OPT_DATA_CHANGED) None 0),
    (iedModel_Device1_DGEN1_TotWh_mag_f,
    DataAttribute (Some ''f'') (Some iedModel_Device1_DGEN1_TotWh_mag) None None 0 (- 1) FC_MX T_FLOAT32 (0 + TRG_OPT_DATA_CHANGED) None 0),
    (iedModel_Device1_DGEN1_TotWh_q,
    DataAttribute (Some ''q'') (Some iedModel_Device1_DGEN1_TotWh) (Some iedModel_Device1_DGEN1_TotWh_t) None 0 (- 1) FC_MX T_QUALITY (0 + TRG_OPT_QUALITY_CHANGED) None 0)]"

definition sample_DGEN1_4 :: node_table where
  "sample_DGEN1_4 =
   [(iedModel_Device1_DGEN1_TotWh_t,
    DataAttribute (Some ''t'') (Some iedModel_Device1_DGEN1_TotWh) None None 0 (- 1) FC_MX T_TIMESTAMP 0 None 0)]"

definition sample_DGEN1 :: node_table where
  "sample_DGEN1 = concat [sample_DGEN1_1,
     sample_DGEN1_2,
     sample_DGEN1_3,
     sample_DGEN1_4]"

definition sample_DSCH1_1 :: node_table where
  "sample_DSCH1_1 =
   [(iedModel_Device1_DSCH1,
    LogicalNode (Some ''DSCH1'') (Some iedModel_Device1) (Some iedModel_Device1_MMXU1) (Some iedModel_Device1_DSCH1_Mod)),
    (iedModel_Device1_DSCH1_Mod,
    DataObject (Some ''Mod'') (Some iedModel_Device1_DSCH1) (Some iedModel_Device1_DSCH1_Beh) (Some iedModel_Device1_DSCH1_Mod_q) 0 (- 1)),
    (iedModel_Device1_DSCH1_Mod_q,
    DataAttribute (Some ''q'') (Some iedModel_Device1_DSCH1_Mod) (Some iedModel_Device1_DSCH1_Mod_t) None 0 (- 1) FC_ST T_QUALITY (0 + TRG_OPT_QUALITY_CHANGED) None 0),
    (iedModel_Device1_DSCH1_Mod_t,
    DataAttribute (Some ''t'') (Some iedModel_Device1_DSCH1_Mod) (Some iedModel_Device1_DSCH1_Mod_ctlModel) None 0 (- 1) FC_ST T_TIMESTAMP 0 None 0),
    (iedModel_Device1_DSCH1_Mod_ctlModel,
    DataAttribute (Some ''ctlModel'') (Some iedModel_Device1_DSCH1_Mod) None None 0 (- 1) FC_CF T_ENUMERATED 0 None 0),
    (iedModel_Device1_DSCH1_Beh,
    DataObject (Some ''Beh'') (Some iedModel_Device1_DSCH1) (Some iedModel_Device1_DSCH1_Health) (Some iedModel_Device1_DSCH1_Beh_stVal) 0 (- 1)),
    (iedModel_Device1_DSCH1_Beh_stVal,
    DataAttribute (Some ''stVal'') (Some iedModel_Device1_DSCH1_Beh) (Some iedModel_Device1_DSCH1_Beh_q) None 0 (- 1) FC_ST T_INT32 (0 + TRG_OPT_DATA_CHANGED) None 0),
    (iedModel_Device1_DSCH1_Beh_q,
    DataAttribute (Some ''q'') (Some iedModel_Device1_DSCH1_Beh) (Some iedModel_Device1_DSCH1_Beh_t) None 0 (- 1) FC_ST T_QUALITY (0 + TRG_OPT_QUALITY_CHANGED) None 0),
    (iedModel_Device1_DSCH1_Beh_t,
    DataAttribute (Some ''t'') (Some iedModel_Device1_DSCH1_Beh) None None 0 (- 1) FC_ST T_TIMESTAMP 0 None 0),
    (iedModel_Device1_DSCH1_Health,
    DataObject (Some ''Health'') (Some iedModel_Device1_DSCH1) (Some iedModel_Device1_DSCH1_NamPlt) (Some iedModel_Device1_DSCH1_Health_stVal) 0 (- 1)),
    (iedModel_Device1_DSCH1_Health_stVal,
    DataAttribute (Some ''stVal'') (Some iedModel_Device1_DSCH1_Health) (Some iedModel_Device1_DSCH1_Health_q) None 0 (- 1) FC_ST T_INT32 (0 + TRG_OPT_DATA_CHANGED) None 0)]"

definition sample_DSCH1_2 :: node_table where
  "sample_DSCH1_2 =
   [(iedModel_Device1_DSCH1_Health_q,
    DataAttribute (Some ''q'') (Some iedModel_Device1_DSCH1_Health) (Some iedModel_Device1_DSCH1_Health_t) None 0 (- 1) FC_ST T_QUALITY (0 + TRG_OPT_QUALITY_CHANGED) None 0),
    (iedModel_Device1_DSCH1_Health_t,
    DataAttribute (Some ''t'') (Some iedModel_Device1_DSCH1_Health) None None 0 (- 1) FC_ST T_TIMESTAMP 0 None 0),
    (iedModel_Device1_DSCH1_NamPlt,
    DataObject (Some ''NamPlt'') (Some iedModel_Device1_DSCH1) (Some iedModel_Device1_DSCH1_SchdSt) (Some iedModel_Device1_DSCH1_NamPlt_vendor) 0 (- 1)),
    (iedModel_Device1_DSCH1_NamPlt_vendor,
    DataAttribute (Some ''vendor'') (Some iedModel_Device1_DSCH1_NamPlt) (Some iedModel_Device1_DSCH1_NamPlt_swRev) None 0 (- 1) FC_DC T_VISIBLE_STRING_255 0 None 0),
    (iedModel_Device1_DSCH1_NamPlt_swRev,
    DataAttribute (Some ''swRev'') (Some iedModel_Device1_DSCH1_NamPlt) (Some iedModel_Device1_DSCH1_NamPlt_d) None 0 (- 1) FC_DC T_VISIBLE_STRING_255 0 None 0),
    (iedModel_Device1_DSCH1_NamPlt_d,
    DataAttribute (Some ''d'') (Some iedModel_Device1_DSCH1_NamPlt) None None 0 (- 1) FC_DC T_VISIBLE_STRING_255 0 None 0),
    (iedModel_Device1_DSCH1_SchdSt,
    DataObject (Some ''SchdSt'') (Some iedModel_Device1_DSCH1) (Some iedModel_Device1_DSCH1_SchdId) (Some iedModel_Device1_DSCH1_SchdSt_stVal) 0 (- 1)),
    (iedModel_Device1_DSCH1_SchdSt_stVal,
    DataAttribute (Some ''stVal'') (Some iedModel_Device1_DSCH1_SchdSt) (Some iedModel_Device1_DSCH1_SchdSt_q) None 0 (- 1) FC_ST T_INT32 (0 + TRG_OPT_DATA_CHANGED) None 0),
    (iedModel_Device1_DSCH1_SchdSt_q,
    DataAttribute (Some ''q'') (Some iedModel_Device1_DSCH1_SchdSt) (Some iedModel_Device1_DSCH1_SchdSt_t) None 0 (- 1) FC_ST T_QUALITY (0 + TRG_OPT_QUALITY_CHANGED) None 0),
    (iedModel_Device1_DSCH1_SchdSt_t,
    DataAttribute (Some ''t'') (Some iedModel_Device1_DSCH1_SchdSt) None None 0 (- 1) FC_ST T_TIMESTAMP 0 None 0),
    (iedModel_Device1_DSCH1_SchdId,
    DataObject (Some ''SchdId'') (Some iedModel_Device1_DSCH1) (Some iedModel_Device1_DSCH1_SchdCat) None 0 (- 1))]"

definition sample_DSCH1_3 :: node_table where
  "sample_DSCH1_3 =
   [(iedModel_Device1_DSCH1_SchdCat,
    DataObject (Some ''SchdCat'') (Some iedModel_Device1_DSCH1) (Some iedModel_Device1_DSCH1_SchdTyp) None 0 (- 1)),
    (iedModel_Device1_DSCH1_SchdTyp,
    DataObject (Some ''SchdTyp'') (Some iedModel_Device1_DSCH1) (Some iedModel_Device1_DSCH1_SchdAbsTm) None 0 (- 1)),
    (iedModel_Device1_DSCH1_SchdAbsTm,
    DataObject (Some ''SchdAbsTm'') (Some iedModel_Device1_DSCH1) None (Some iedModel_Device1_DSCH1_SchdAbsTm_val) 0 (- 1))]"

definition sample_DSCH1 :: node_table where
  "sample_DSCH1 = concat [sample_DSCH1_1,
     sample_DSCH1_2,
     sample_DSCH1_3]"

definition sample_MMXU1_1 :: node_table where
  "sample_MMXU1_1 =
   [(iedModel_Device1_MMXU1,
    LogicalNode (Some ''MMXU1'') (Some iedModel_Device1) (Some iedModel_Device1_MMXU2) (Some iedModel_Device1_MMXU1_Mod)),
    (iedModel_Device1_MMXU1_Mod,
    DataObject (Some ''Mod'') (Some iedModel_Device1_MMXU1) (Some iedModel_Device1_MMXU1_Beh) (Some iedModel_Device1_MMXU1_Mod_q) 0 (- 1)),
    (iedModel_Device1_MMXU1_Mod_q,
    DataAttribute (Some ''q'') (Some iedModel_Device1_MMXU1_Mod) (Some iedModel_Device1_MMXU1_Mod_t) None 0 (- 1) FC_ST T_QUALITY (0 + TRG_OPT_QUALITY_CHANGED) None 0),
    (iedModel_Device1_MMXU1_Mod_t,
    DataAttribute (Some ''t'') (Some iedModel_Device1_MMXU1_Mod) (Some iedModel_Device1_MMXU1_Mod_ctlModel) None 0 (- 1) FC_ST T_TIMESTAMP 0 None 0),
    (iedModel_Device1_MMXU1_Mod_ctlModel,
    DataAttribute (Some ''ctlModel'') (Some iedModel_Device1_MMXU1_Mod) None None 0 (- 1) FC_CF T_ENUMERATED 0 None 0),
    (iedModel_Device1_MMXU1_Beh,
    DataObject (Some ''Beh'') (Some iedModel_Device1_MMXU1) (Some iedModel_Device1_MMXU1_Health) (Some iedModel_Device1_MMXU1_Beh_stVal) 0 (- 1)),
    (iedModel_Device1_MMXU1_Beh_stVal,
    DataAttribute (Some ''stVal'') (Some iedModel_Device1_MMXU1_Beh) (Some iedModel_Device1_MMXU1_Beh_q) None 0 (- 1) FC_ST T_INT32 (0 + TRG_OPT_DATA_CHANGED) None 0),
    (iedModel_Device1_MMXU1_Beh_q,
    DataAttribute (Some ''q'') (Some iedModel_Device1_MMXU1_Beh) (Some iedModel_Device1_MMXU1_Beh_t) None 0 (- 1) FC_ST T_QUALITY (0 + TRG_OPT_QUALITY_CHANGED) None 0),
    (iedModel_Device1_MMXU1_Beh_t,
    DataAttribute (Some ''t'') (Some iedModel_Device1_MMXU1_Beh) None None 0 (- 1) FC_ST T_TIMESTAMP 0 None 0),
    (iedModel_Device1_MMXU1_Health,
    DataObject (Some ''Health'') (Some iedModel_Device1_MMXU1) (Some iedModel_Device1_MMXU1_NamPlt) (Some iedModel_Device1_MMXU1_Health_stVal) 0 (- 1)),
    (iedModel_Device1_MMXU1_Health_stVal,
    DataAttribute (Some ''stVal'') (Some iedModel_Device1_MMXU1_Health) (Some iedModel_Device1_MMXU1_Health_q) None 0 (- 1) FC_ST T_INT32 (0 + TRG_OPT_DATA_CHANGED) None 0)]"

definition sample_MMXU1_2 :: node_table where
  "sample_MMXU1_2 =
   [(iedModel_Device1_MMXU1_Health_q,
    DataAttribute (Some ''q'') (Some iedModel_Device1_MMXU1_Health) (Some iedModel_Device1_MMXU1_Health_t) None 0 (- 1) FC_ST T_QUALITY (0 + TRG_OPT_QUALITY_CHANGED) None 0),
    (iedModel_Device1_MMXU1_Health_t,
    DataAttribute (Some ''t'') (Some iedModel_Device1_MMXU1_Health) None None 0 (- 1) FC_ST T_TIMESTAMP 0 None 0),
    (iedModel_Device1_MMXU1_NamPlt,
    DataObject (Some ''NamPlt'') (Some iedModel_Device1_MMXU1) None (Some iedModel_Device1_MMXU1_NamPlt_vendor) 0 (- 1)),
    (iedModel_Device1_MMXU1_NamPlt_vendor,
    DataAttribute (Some ''vendor'') (Some iedModel_Device1_MMXU1_NamPlt) (Some iedModel_Device1_MMXU1_NamPlt_swRev) None 0 (- 1) FC_DC T_VISIBLE_STRING_255 0 None 0),
    (iedModel_Device1_MMXU1_NamPlt_swRev,
    DataAttribute (Some ''swRev'') (Some iedModel_Device1_MMXU1_NamPlt) (Some iedModel_Device1_MMXU1_NamPlt_d) None 0 (- 1) FC_DC T_VISIBLE_STRING_255 0 None 0),
    (iedModel_Device1_MMXU1_NamPlt_d,
    DataAttribute (Some ''d'') (Some iedModel_Device1_MMXU1_NamPlt) None None 0 (- 1) FC_DC T_VISIBLE_STRING_255 0 None 0)]"

definition sample_MMXU1 :: node_table where
  "sample_MMXU1 = concat [sample_MMXU1_1,
     sample_MMXU1_2]"

definition sample_MMXU2_1 :: node_table where
  "sample_MMXU2_1 =
   [(iedModel_Device1_MMXU2,
    LogicalNode (Some ''MMXU2'') (Some iedModel_Device1) None (Some iedModel_Device1_MMXU2_Mod)),
    (iedModel_Device1_MMXU2_Mod,
    DataObject (Some ''Mod'') (Some iedModel_Device1_MMXU2) (Some iedModel_Device1_MMXU2_Beh) (Some iedModel_Device1_MMXU2_Mod_q) 0 (- 1)),
    (iedModel_Device1_MMXU2_Mod_q,
    DataAttribute (Some ''q'') (Some iedModel_Device1_MMXU2_Mod) (Some iedModel_Device1_MMXU2_Mod_t) None 0 (- 1) FC_ST T_QUALITY (0 + TRG_OPT_QUALITY_CHANGED) None 0),
    (iedModel_Device1_MMXU2_Mod_t,
    DataAttribute (Some ''t'') (Some iedModel_Device1_MMXU2_Mod) (Some iedModel_Device1_MMXU2_Mod_ctlModel) None 0 (- 1) FC_ST T_TIMESTAMP 0 None 0),
    (iedModel_Device1_MMXU2_Mod_ctlModel,
    DataAttribute (Some ''ctlModel'') (Some iedModel_Device1_MMXU2_Mod) None None 0 (- 1) FC_CF T_ENUMERATED 0 None 0),
    (iedModel_Device1_MMXU2_Beh,
    DataObject (Some ''Beh'') (Some iedModel_Device1_MMXU2) (Some iedModel_Device1_MMXU2_Health) (Some iedModel_Device1_MMXU2_Beh_stVal) 0 (- 1)),
    (iedModel_Device1_MMXU2_Beh_stVal,
    DataAttribute (Some ''stVal'') (Some iedModel_Device1_MMXU2_Beh) (Some iedModel_Device1_MMXU2_Beh_q) None 0 (- 1) FC_ST T_INT32 (0 + TRG_OPT_DATA_CHANGED) None 0),
    (iedModel_Device1_MMXU2_Beh_q,
    DataAttribute (Some ''q'') (Some iedModel_Device1_MMXU2_Beh) (Some iedModel_Device1_MMXU2_Beh_t) None 0 (- 1) FC_ST T_QUALITY (0 + TRG_OPT_QUALITY_CHANGED) None 0),
    (iedModel_Device1_MMXU2_Beh_t,
    DataAttribute (Some ''t'') (Some iedModel_Device1_MMXU2_Beh) None None 0 (- 1) FC_ST T_TIMESTAMP 0 None 0),
    (iedModel_Device1_MMXU2_Health,
    DataObject (Some ''Health'') (Some iedModel_Device1_MMXU2) (Some iedModel_Device1_MMXU2_NamPlt) (Some iedModel_Device1_MMXU2_Health_stVal) 0 (- 1)),
    (iedModel_Device1_MMXU2_Health_stVal,
    DataAttribute (Some ''stVal'') (Some iedModel_Device1_MMXU2_Health) (Some iedModel_Device1_MMXU2_Health_q) None 0 (- 1) FC_ST T_INT32 (0 + TRG_OPT_DATA_CHANGED) None 0)]"

definition sample_MMXU2_2 :: node_table where
  "sample_MMXU2_2 =
   [(iedModel_Device1_MMXU2_Health_q,
    DataAttribute (Some ''q'') (Some iedModel_Device1_MMXU2_Health) (Some iedModel_Device1_MMXU2_Health_t) None 0 (- 1) FC_ST T_QUALITY (0 + TRG_OPT_QUALITY_CHANGED) None 0),
    (iedModel_Device1_MMXU2_Health_t,
    DataAttribute (Some ''t'') (Some iedModel_Device1_MMXU2_Health) None None 0 (- 1) FC_ST T_TIMESTAMP 0 None 0),
    (iedModel_Device1_MMXU2_NamPlt,
    DataObject (Some ''NamPlt'') (Some iedModel_Device1_MMXU2) (Some iedModel_Device1_MMXU2_TotW) (Some iedModel_Device1_MMXU2_NamPlt_vendor) 0 (- 1)),
    (iedModel_Device1_MMXU2_NamPlt_vendor,
    DataAttribute (Some ''vendor'') (Some iedModel_Device1_MMXU2_NamPlt) (Some iedModel_Device1_MMXU2_NamPlt_swRev) None 0 (- 1) FC_DC T_VISIBLE_STRING_255 0 None 0),
    (iedModel_Device1_MMXU2_NamPlt_swRev,
    DataAttribute (Some ''swRev'') (Some iedModel_Device1_MMXU2_NamPlt) (Some iedModel_Device1_MMXU2_NamPlt_d) None 0 (- 1) FC_DC T_VISIBLE_STRING_255 0 None 0),
    (iedModel_Device1_MMXU2_NamPlt_d,
    DataAttribute (Some ''d'') (Some iedModel_Device1_MMXU2_NamPlt) None None 0 (- 1) FC_DC T_VISIBLE_STRING_255 0 None 0),
    (iedModel_Device1_MMXU2_TotW,
    DataObject (Some ''TotW'') (Some iedModel_Device1_MMXU2) None (Some iedModel_Device1_MMXU2_TotW_mag) 0 (- 1)),
    (iedModel_Device1_MMXU2_TotW_mag,
    DataAttribute (Some ''mag'') (Some iedModel_Device1_MMXU2_TotW) (Some iedModel_Device1_MMXU2_TotW_q) (Some iedModel_Device1_MMXU2_TotW_mag_f) 0 (- 1) FC_MX T_CONSTRUCTED (0 + TRG_OPT_DATA_CHANGED) None 0),
    (iedModel_Device1_MMXU2_TotW_mag_f,
    DataAttribute (Some ''f'') (Some iedModel_Device1_MMXU2_TotW_mag) None None 0 (- 1) FC_MX T_FLOAT32 (0 + TRG_OPT_DATA_CHANGED) None 0),
    (iedModel_Device1_MMXU2_TotW_q,
    DataAttribute (Some ''q'') (Some iedModel_Device1_MMXU2_TotW) (Some iedModel_Device1_MMXU2_TotW_t) None 0 (- 1) FC_MX T_QUALITY (0 + TRG_OPT_QUALITY_CHANGED) None 0),
    (iedModel_Device1_MMXU2_TotW_t,
    DataAttribute (Some ''t'') (Some iedModel_Device1_MMXU2_TotW) None None 0 (- 1) FC_MX T_TIMESTAMP 0 None 0)]"

definition sample_MMXU2 :: node_table where
  "sample_MMXU2 = concat [sample_MMXU2_1,
     sample_MMXU2_2]"

section \<open>Checking the lists\<close>

lemma scan_sample_LD: "scan [(Some iedModel, Some iedModel_Device1)] sample_LD
    = Some [(Some iedModel_Device1, Some iedModel_Device1_LLN0), (Some iedModel, None)]"
  by (simp add: sample_LD_def)

lemma conf_sample_LD: "list_all sample_conforms (map snd sample_LD)"
  by (simp add: sample_LD_def TRG_OPT_DATA_CHANGED_def TRG_OPT_QUALITY_CHANGED_def)

lemma addrs_sample_LD: "map fst sample_LD = [3001 ..< 3002]"
  by (simp add: sample_LD_def upt_rec_numeral)

lemma childless_sample_LD: "childless_objects sample_LD = []"
  by (simp add: sample_LD_def childless_objects_def)

lemma scan_sample_LLN0_1: "scan [(Some iedModel_Device1, Some iedModel_Device1_LLN0), (Some iedModel, None)] sample_LLN0_1
    = Some [(Some iedModel_Device1_LLN0_Health, Some iedModel_Device1_LLN0_Health_q), (Some iedModel_Device1_LLN0, Some iedModel_Device1_LLN0_NamPlt), (Some iedModel_Device1, Some iedModel_Device1_LPHD1), (Some iedModel, None)]"
  by (simp add: sample_LLN0_1_def)

lemma conf_sample_LLN0_1: "list_all sample_conforms (map snd sample_LLN0_1)"
  by (simp add: sample_LLN0_1_def TRG_OPT_DATA_CHANGED_def TRG_OPT_QUALITY_CHANGED_def)

lemma addrs_sample_LLN0_1: "map fst sample_LLN0_1 = [3002 ..< 3013]"
  by (simp add: sample_LLN0_1_def upt_rec_numeral)

lemma childless_sample_LLN0_1: "childless_objects sample_LLN0_1 = []"
  by (simp add: sample_LLN0_1_def childless_objects_def)

lemma scan_sample_LLN0_2: "scan [(Some iedModel_Device1_LLN0_Health, Some iedModel_Device1_LLN0_Health_q), (Some iedModel_Device1_LLN0, Some iedModel_Device1_LLN0_NamPlt), (Some iedModel_Device1, Some iedModel_Device1_LPHD1), (Some iedModel, None)] sample_LLN0_2
    = Some [(Some iedModel_Device1, Some iedModel_Device1_LPHD1), (Some iedModel, None)]"
  by (simp add: sample_LLN0_2_def)

lemma conf_sample_LLN0_2: "list_all sample_conforms (map snd sample_LLN0_2)"
  by (simp add: sample_LLN0_2_def TRG_OPT_DATA_CHANGED_def TRG_OPT_QUALITY_CHANGED_def)

lemma addrs_sample_LLN0_2: "map fst sample_LLN0_2 = [3013 ..< 3021]"
  by (simp add: sample_LLN0_2_def upt_rec_numeral)

lemma childless_sample_LLN0_2: "childless_objects sample_LLN0_2 = []"
  by (simp add: sample_LLN0_2_def childless_objects_def)

lemma scan_sample_LLN0: "scan [(Some iedModel_Device1, Some iedModel_Device1_LLN0), (Some iedModel, None)] sample_LLN0
    = Some [(Some iedModel_Device1, Some iedModel_Device1_LPHD1), (Some iedModel, None)]"
  by (simp add: sample_LLN0_def scan_append scan_sample_LLN0_1 scan_sample_LLN0_2)

lemma conf_sample_LLN0: "list_all sample_conforms (map snd sample_LLN0)"
  by (simp add: sample_LLN0_def conf_sample_LLN0_1 conf_sample_LLN0_2)

lemma childless_sample_LLN0: "childless_objects sample_LLN0 = []"
  by (simp add: sample_LLN0_def childless_append childless_sample_LLN0_1 childless_sample_LLN0_2)

lemma addrs_sample_LLN0: "map fst sample_LLN0 = [3002 ..< 3021]"
  by (simp add: sample_LLN0_def upt_join addrs_sample_LLN0_1 addrs_sample_LLN0_2 del: upt_rec_numeral)

lemma scan_sample_LPHD1: "scan [(Some iedModel_Device1, Some iedModel_Device1_LPHD1), (Some iedModel, None)] sample_LPHD1
    = Some [(Some iedModel_Device1, Some iedModel_Device1_DGEN1), (Some iedModel, None)]"
  by (simp add: sample_LPHD1_def)

lemma conf_sample_LPHD1: "list_all sample_conforms (map snd sample_LPHD1)"
  by (simp add: sample_LPHD1_def TRG_OPT_DATA_CHANGED_def TRG_OPT_QUALITY_CHANGED_def)

lemma addrs_sample_LPHD1: "map fst sample_LPHD1 = [3021 ..< 3032]"
  by (simp add: sample_LPHD1_def upt_rec_numeral)

lemma childless_sample_LPHD1: "childless_objects sample_LPHD1 = []"
  by (simp add: sample_LPHD1_def childless_objects_def)

lemma scan_sample_DGEN1_1: "scan [(Some iedModel_Device1, Some iedModel_Device1_DGEN1), (Some iedModel, None)] sample_DGEN1_1
    = Some [(Some iedModel_Device1_DGEN1_Health, Some iedModel_Device1_DGEN1_Health_q), (Some iedModel_Device1_DGEN1, Some iedModel_Device1_DGEN1_NamPlt), (Some iedModel_Device1, Some iedModel_Device1_DSCH1), (Some iedModel, None)]"
  by (simp add: sample_DGEN1_1_def)

lemma conf_sample_DGEN1_1: "list_all sample_conforms (map snd sample_DGEN1_1)"
  by (simp add: sample_DGEN1_1_def TRG_OPT_DATA_CHANGED_def TRG_OPT_QUALITY_CHANGED_def)

lemma addrs_sample_DGEN1_1: "map fst sample_DGEN1_1 = [3032 ..< 3043]"
  by (simp add: sample_DGEN1_1_def upt_rec_numeral)

lemma childless_sample_DGEN1_1: "childless_objects sample_DGEN1_1 = []"
  by (simp add: sample_DGEN1_1_def childless_objects_def)

lemma scan_sample_DGEN1_2: "scan [(Some iedModel_Device1_DGEN1_Health, Some iedModel_Device1_DGEN1_Health_q), (Some iedModel_Device1_DGEN1, Some iedModel_Device1_DGEN1_NamPlt), (Some iedModel_Device1, Some iedModel_Device1_DSCH1), (Some iedModel, None)] sample_DGEN1_2
    = Some [(Some iedModel_Device1_DGEN1_GnOpSt, Some iedModel_Device1_DGEN1_GnOpSt_stVal), (Some iedModel_Device1_DGEN1, Some iedModel_Device1_DGEN1_OpTmsRs), (Some iedModel_Device1, Some iedModel_Device1_DSCH1), (Some iedModel, None)]"
  by (simp add: sample_DGEN1_2_def)

lemma conf_sample_DGEN1_2: "list_all sample_conforms (map snd sample_DGEN1_2)"
  by (simp add: sample_DGEN1_2_def TRG_OPT_DATA_CHANGED_def TRG_OPT_QUALITY_CHANGED_def)

lemma addrs_sample_DGEN1_2: "map fst sample_DGEN1_2 = [3043 ..< 3054]"
  by (simp add: sample_DGEN1_2_def upt_rec_numeral)

lemma childless_sample_DGEN1_2: "childless_objects sample_DGEN1_2 = []"
  by (simp add: sample_DGEN1_2_def childless_objects_def)

lemma scan_sample_DGEN1_3: "scan [(Some iedModel_Device1_DGEN1_GnOpSt, Some iedModel_Device1_DGEN1_GnOpSt_stVal), (Some iedModel_Device1_DGEN1, Some iedModel_Device1_DGEN1_OpTmsRs), (Some iedModel_Device1, Some iedModel_Device1_DSCH1), (Some iedModel, None)] sample_DGEN1_3
    = Some [(Some iedModel_Device1_DGEN1_TotWh, Some iedModel_Device1_DGEN1_TotWh_t), (Some iedModel_Device1_DGEN1, None), (Some iedModel_Device1, Some iedModel_Device1_DSCH1), (Some iedModel, None)]"
  by (simp add: sample_DGEN1_3_def)

lemma conf_sample_DGEN1_3: "list_all sample_conforms (map snd sample_DGEN1_3)"
  by (simp add: sample_DGEN1_3_def TRG_OPT_DATA_CHANGED_def TRG_OPT_QUALITY_CHANGED_def)

lemma addrs_sample_DGEN1_3: "map fst sample_DGEN1_3 = [3054 ..< 3065]"
  by (simp add: sample_DGEN1_3_def upt_rec_numeral)

lemma childless_sample_DGEN1_3: "childless_objects sample_DGEN1_3 = []"
  by (simp add: sample_DGEN1_3_def childless_objects_def)

lemma scan_sample_DGEN1_4: "scan [(Some iedModel_Device1_DGEN1_TotWh, Some iedModel_Device1_DGEN1_TotWh_t), (Some iedModel_Device1_DGEN1, None), (Some iedModel_Device1, Some iedModel_Device1_DSCH1), (Some iedModel, None)] sample_DGEN1_4
    = Some [(Some iedModel_Device1, Some iedModel_Device1_DSCH1), (Some iedModel, None)]"
  by (simp add: sample_DGEN1_4_def)

lemma conf_sample_DGEN1_4: "list_all sample_conforms (map snd sample_DGEN1_4)"
  by (simp add: sample_DGEN1_4_def TRG_OPT_DATA_CHANGED_def TRG_OPT_QUALITY_CHANGED_def)

lemma addrs_sample_DGEN1_4: "map fst sample_DGEN1_4 = [3065 ..< 3066]"
  by (simp add: sample_DGEN1_4_def upt_rec_numeral)

lemma childless_sample_DGEN1_4: "childless_objects sample_DGEN1_4 = []"
  by (simp add: sample_DGEN1_4_def childless_objects_def)

lemma scan_sample_DGEN1: "scan [(Some iedModel_Device1, Some iedModel_Device1_DGEN1), (Some iedModel, None)] sample_DGEN1
    = Some [(Some iedModel_Device1, Some iedModel_Device1_DSCH1), (Some iedModel, None)]"
  by (simp add: sample_DGEN1_def scan_append scan_sample_DGEN1_1 scan_sample_DGEN1_2 scan_sample_DGEN1_3 scan_sample_DGEN1_4)

lemma conf_sample_DGEN1: "list_all sample_conforms (map snd sample_DGEN1)"
  by (simp add: sample_DGEN1_def conf_sample_DGEN1_1 conf_sample_DGEN1_2 conf_sample_DGEN1_3 conf_sample_DGEN1_4)

lemma childless_sample_DGEN1: "childless_objects sample_DGEN1 = []"
  by (simp add: sample_DGEN1_def childless_append childless_sample_DGEN1_1 childless_sample_DGEN1_2 childless_sample_DGEN1_3 childless_sample_DGEN1_4)

lemma addrs_sample_DGEN1: "map fst sample_DGEN1 = [3032 ..< 3066]"
  by (simp add: sample_DGEN1_def upt_join addrs_sample_DGEN1_1 addrs_sample_DGEN1_2 addrs_sample_DGEN1_3 addrs_sample_DGEN1_4 del: upt_rec_numeral)

lemma scan_sample_DSCH1_1: "scan [(Some iedModel_Device1, Some iedModel_Device1_DSCH1), (Some iedModel, None)] sample_DSCH1_1
    = Some [(Some iedModel_Device1_DSCH1_Health, Some iedModel_Device1_DSCH1_Health_q), (Some iedModel_Device1_DSCH1, Some iedModel_Device1_DSCH1_NamPlt), (Some iedModel_Device1, Some iedModel_Device1_MMXU1), (Some iedModel, None)]"
  by (simp add: sample_DSCH1_1_def)

lemma conf_sample_DSCH1_1: "list_all sample_conforms (map snd sample_DSCH1_1)"
  by (simp add: sample_DSCH1_1_def TRG_OPT_DATA_CHANGED_def TRG_OPT_QUALITY_CHANGED_def)

lemma addrs_sample_DSCH1_1: "map fst sample_DSCH1_1 = [3066 ..< 3077]"
  by (simp add: sample_DSCH1_1_def upt_rec_numeral)

lemma childless_sample_DSCH1_1: "childless_objects sample_DSCH1_1 = []"
  by (simp add: sample_DSCH1_1_def childless_objects_def)

lemma scan_sample_DSCH1_2: "scan [(Some iedModel_Device1_DSCH1_Health, Some iedModel_Device1_DSCH1_Health_q), (Some iedModel_Device1_DSCH1, Some iedModel_Device1_DSCH1_NamPlt), (Some iedModel_Device1, Some iedModel_Device1_MMXU1), (Some iedModel, None)] sample_DSCH1_2
    = Some [(Some iedModel_Device1_DSCH1, Some iedModel_Device1_DSCH1_SchdCat), (Some iedModel_Device1, Some iedModel_Device1_MMXU1), (Some iedModel, None)]"
  by (simp add: sample_DSCH1_2_def)

lemma conf_sample_DSCH1_2: "list_all sample_conforms (map snd sample_DSCH1_2)"
  by (simp add: sample_DSCH1_2_def TRG_OPT_DATA_CHANGED_def TRG_OPT_QUALITY_CHANGED_def)

lemma addrs_sample_DSCH1_2: "map fst sample_DSCH1_2 = [3077 ..< 3088]"
  by (simp add: sample_DSCH1_2_def upt_rec_numeral)

lemma childless_sample_DSCH1_2: "childless_objects sample_DSCH1_2 = [Some ''SchdId'']"
  by (simp add: sample_DSCH1_2_def childless_objects_def)

lemma scan_sample_DSCH1_3: "scan [(Some iedModel_Device1_DSCH1, Some iedModel_Device1_DSCH1_SchdCat), (Some iedModel_Device1, Some iedModel_Device1_MMXU1), (Some iedModel, None)] sample_DSCH1_3
    = Some [(Some iedModel_Device1_DSCH1_SchdAbsTm, Some iedModel_Device1_DSCH1_SchdAbsTm_val), (Some iedModel_Device1_DSCH1, None), (Some iedModel_Device1, Some iedModel_Device1_MMXU1), (Some iedModel, None)]"
  by (simp add: sample_DSCH1_3_def)

lemma conf_sample_DSCH1_3: "list_all sample_conforms (map snd sample_DSCH1_3)"
  by (simp add: sample_DSCH1_3_def TRG_OPT_DATA_CHANGED_def TRG_OPT_QUALITY_CHANGED_def)

lemma addrs_sample_DSCH1_3: "map fst sample_DSCH1_3 = [3088 ..< 3091]"
  by (simp add: sample_DSCH1_3_def upt_rec_numeral)

lemma childless_sample_DSCH1_3: "childless_objects sample_DSCH1_3 = [Some ''SchdCat'', Some ''SchdTyp'']"
  by (simp add: sample_DSCH1_3_def childless_objects_def)

lemma scan_sample_DSCH1: "scan [(Some iedModel_Device1, Some iedModel_Device1_DSCH1), (Some iedModel, None)] sample_DSCH1
    = Some [(Some iedModel_Device1_DSCH1_SchdAbsTm, Some iedModel_Device1_DSCH1_SchdAbsTm_val), (Some iedModel_Device1_DSCH1, None), (Some iedModel_Device1, Some iedModel_Device1_MMXU1), (Some iedModel, None)]"
  by (simp add: sample_DSCH1_def scan_append scan_sample_DSCH1_1 scan_sample_DSCH1_2 scan_sample_DSCH1_3)

lemma conf_sample_DSCH1: "list_all sample_conforms (map snd sample_DSCH1)"
  by (simp add: sample_DSCH1_def conf_sample_DSCH1_1 conf_sample_DSCH1_2 conf_sample_DSCH1_3)

lemma childless_sample_DSCH1: "childless_objects sample_DSCH1 = [Some ''SchdId'', Some ''SchdCat'', Some ''SchdTyp'']"
  by (simp add: sample_DSCH1_def childless_append childless_sample_DSCH1_1 childless_sample_DSCH1_2 childless_sample_DSCH1_3)

lemma addrs_sample_DSCH1: "map fst sample_DSCH1 = [3066 ..< 3091]"
  by (simp add: sample_DSCH1_def upt_join addrs_sample_DSCH1_1 addrs_sample_DSCH1_2 addrs_sample_DSCH1_3 del: upt_rec_numeral)

lemma scan_sample_MMXU1_1: "scan [(Some iedModel_Device1, Some iedModel_Device1_MMXU1), (Some iedModel, None)] sample_MMXU1_1
    = Some [(Some iedModel_Device1_MMXU1_Health, Some iedModel_Device1_MMXU1_Health_q), (Some iedModel_Device1_MMXU1, Some iedModel_Device1_MMXU1_NamPlt), (Some iedModel_Device1, Some iedModel_Device1_MMXU2), (Some iedModel, None)]"
  by (simp add: sample_MMXU1_1_def)

lemma conf_sample_MMXU1_1: "list_all sample_conforms (map snd sample_MMXU1_1)"
  by (simp add: sample_MMXU1_1_def TRG_OPT_DATA_CHANGED_def TRG_OPT_QUALITY_CHANGED_def)

lemma addrs_sample_MMXU1_1: "map fst sample_MMXU1_1 = [3603 ..< 3614]"
  by (simp add: sample_MMXU1_1_def upt_rec_numeral)

lemma childless_sample_MMXU1_1: "childless_objects sample_MMXU1_1 = []"
  by (simp add: sample_MMXU1_1_def childless_objects_def)

lemma scan_sample_MMXU1_2: "scan [(Some iedModel_Device1_MMXU1_Health, Some iedModel_Device1_MMXU1_Health_q), (Some iedModel_Device1_MMXU1, Some iedModel_Device1_MMXU1_NamPlt), (Some iedModel_Device1, Some iedModel_Device1_MMXU2), (Some iedModel, None)] sample_MMXU1_2
    = Some [(Some iedModel_Device1, Some iedModel_Device1_MMXU2), (Some iedModel, None)]"
  by (simp add: sample_MMXU1_2_def)

lemma conf_sample_MMXU1_2: "list_all sample_conforms (map snd sample_MMXU1_2)"
  by (simp add: sample_MMXU1_2_def TRG_OPT_DATA_CHANGED_def TRG_OPT_QUALITY_CHANGED_def)

lemma addrs_sample_MMXU1_2: "map fst sample_MMXU1_2 = [3614 ..< 3620]"
  by (simp add: sample_MMXU1_2_def upt_rec_numeral)

lemma childless_sample_MMXU1_2: "childless_objects sample_MMXU1_2 = []"
  by (simp add: sample_MMXU1_2_def childless_objects_def)

lemma scan_sample_MMXU1: "scan [(Some iedModel_Device1, Some iedModel_Device1_MMXU1), (Some iedModel, None)] sample_MMXU1
    = Some [(Some iedModel_Device1, Some iedModel_Device1_MMXU2), (Some iedModel, None)]"
  by (simp add: sample_MMXU1_def scan_append scan_sample_MMXU1_1 scan_sample_MMXU1_2)

lemma conf_sample_MMXU1: "list_all sample_conforms (map snd sample_MMXU1)"
  by (simp add: sample_MMXU1_def conf_sample_MMXU1_1 conf_sample_MMXU1_2)

lemma childless_sample_MMXU1: "childless_objects sample_MMXU1 = []"
  by (simp add: sample_MMXU1_def childless_append childless_sample_MMXU1_1 childless_sample_MMXU1_2)

lemma addrs_sample_MMXU1: "map fst sample_MMXU1 = [3603 ..< 3620]"
  by (simp add: sample_MMXU1_def upt_join addrs_sample_MMXU1_1 addrs_sample_MMXU1_2 del: upt_rec_numeral)

lemma scan_sample_MMXU2_1: "scan [(Some iedModel_Device1, Some iedModel_Device1_MMXU2), (Some iedModel, None)] sample_MMXU2_1
    = Some [(Some iedModel_Device1_MMXU2_Health, Some iedModel_Device1_MMXU2_Health_q), (Some iedModel_Device1_MMXU2, Some iedModel_Device1_MMXU2_NamPlt), (Some iedModel_Device1, None), (Some iedModel, None)]"
  by (simp add: sample_MMXU2_1_def)

lemma conf_sample_MMXU2_1: "list_all sample_conforms (map snd sample_MMXU2_1)"
  by (simp add: sample_MMXU2_1_def TRG_OPT_DATA_CHANGED_def TRG_OPT_QUALITY_CHANGED_def)

lemma addrs_sample_MMXU2_1: "map fst sample_MMXU2_1 = [3620 ..< 3631]"
  by (simp add: sample_MMXU2_1_def upt_rec_numeral)

lemma childless_sample_MMXU2_1: "childless_objects sample_MMXU2_1 = []"
  by (simp add: sample_MMXU2_1_def childless_objects_def)

lemma scan_sample_MMXU2_2: "scan [(Some iedModel_Device1_MMXU2_Health, Some iedModel_Device1_MMXU2_Health_q), (Some iedModel_Device1_MMXU2, Some iedModel_Device1_MMXU2_NamPlt), (Some iedModel_Device1, None), (Some iedModel, None)] sample_MMXU2_2
    = Some []"
  by (simp add: sample_MMXU2_2_def)

lemma conf_sample_MMXU2_2: "list_all sample_conforms (map snd sample_MMXU2_2)"
  by (simp add: sample_MMXU2_2_def TRG_OPT_DATA_CHANGED_def TRG_OPT_QUALITY_CHANGED_def)

lemma addrs_sample_MMXU2_2: "map fst sample_MMXU2_2 = [3631 ..< 3642]"
  by (simp add: sample_MMXU2_2_def upt_rec_numeral)

lemma childless_sample_MMXU2_2: "childless_objects sample_MMXU2_2 = []"
  by (simp add: sample_MMXU2_2_def childless_objects_def)

lemma scan_sample_MMXU2: "scan [(Some iedModel_Device1, Some iedModel_Device1_MMXU2), (Some iedModel, None)] sample_MMXU2
    = Some []"
  by (simp add: sample_MMXU2_def scan_append scan_sample_MMXU2_1 scan_sample_MMXU2_2)

lemma conf_sample_MMXU2: "list_all sample_conforms (map snd sample_MMXU2)"
  by (simp add: sample_MMXU2_def conf_sample_MMXU2_1 conf_sample_MMXU2_2)

lemma childless_sample_MMXU2: "childless_objects sample_MMXU2 = []"
  by (simp add: sample_MMXU2_def childless_append childless_sample_MMXU2_1 childless_sample_MMXU2_2)

lemma addrs_sample_MMXU2: "map fst sample_MMXU2 = [3620 ..< 3642]"
  by (simp add: sample_MMXU2_def upt_join addrs_sample_MMXU2_1 addrs_sample_MMXU2_2 del: upt_rec_numeral)

end
