(* ===== verification/Sample_Times.thy ===== *)
theory Sample_Times
  imports Sample_Symbols
begin

text \<open>
  The structures of \<open>sample/server_example_simple/static_model.c\<close> for the array \<open>DSCH1.SchdAbsTm.time\<close>,
  in file order, a list per stretch of the file, and the pass of the checker over each list.
\<close>

definition sample_SchdAbsTm_time :: node_table where
  "sample_SchdAbsTm_time =
   [(iedModel_Device1_DSCH1_SchdAbsTm_time,
    DataAttribute (Some ''time'') (Some iedModel_Device1_DSCH1_SchdAbsTm) None (Some iedModel_Device1_DSCH1_SchdAbsTm_time_0) 255 (- 1) FC_SP T_TIMESTAMP (0 + TRG_OPT_DATA_CHANGED) None 0)]"

definition sample_SchdAbsTm_time_elements_1 :: node_table where
  "sample_SchdAbsTm_time_elements_1 =
   [(iedModel_Device1_DSCH1_SchdAbsTm_time_0,
    DataAttribute None (Some iedModel_Device1_DSCH1_SchdAbsTm_time) (Some iedModel_Device1_DSCH1_SchdAbsTm_time_1) None 0 0 FC_SP T_TIMESTAMP (0 + TRG_OPT_DATA_CHANGED) None 0),
    (iedModel_Device1_DSCH1_SchdAbsTm_time_1,
    DataAttribute None (Some iedModel_Device1_DSCH1_SchdAbsTm_time) (Some iedModel_Device1_DSCH1_SchdAbsTm_time_2) None 0 1 FC_SP T_TIMESTAMP (0 + TRG_OPT_DATA_CHANGED) None 0),
    (iedModel_Device1_DSCH1_SchdAbsTm_time_2,
    DataAttribute None (Some iedModel_Device1_DSCH1_SchdAbsTm_time) (Some iedModel_Device1_DSCH1_SchdAbsTm_time_3) None 0 2 FC_SP T_TIMESTAMP (0 + TRG_OPT_DATA_CHANGED) None 0),
    (iedModel_Device1_DSCH1_SchdAbsTm_time_3,
    DataAttribute None (Some iedModel_Device1_DSCH1_SchdAbsTm_time) (Some iedModel_Device1_DSCH1_SchdAbsTm_time_4) None 0 3 FC_SP T_TIMESTAMP (0 + TRG_OPT_DATA_CHANGED) None 0),
    (iedModel_Device1_DSCH1_SchdAbsTm_time_4,
    DataAttribute None (Some iedModel_Device1_DSCH1_SchdAbsTm_time) (Some iedModel_Device1_DSCH1_SchdAbsTm_time_5) None 0 4 FC_SP T_TIMESTAMP (0 + TRG_OPT_DATA_CHANGED) None 0),
    (iedModel_Device1_DSCH1_SchdAbsTm_time_5,
    DataAttribute None (Some iedModel_Device1_DSCH1_SchdAbsTm_time) (Some iedModel_Device1_DSCH1_SchdAbsTm_time_6) None 0 5 FC_SP T_TIMESTAMP (0 + TRG_OPT_DATA_CHANGED) None 0),
    (iedModel_Device1_DSCH1_SchdAbsTm_time_6,
    DataAttribute None (Some iedModel_Device1_DSCH1_SchdAbsTm_time) (Some iedModel_Device1_DSCH1_SchdAbsTm_time_7) None 0 6 FC_SP T_TIMESTAMP (0 + TRG_OPT_DATA_CHANGED) None 0),
    (iedModel_Device1_DSCH1_SchdAbsTm_time_7,
    DataAttribute None (Some iedModel_Device1_DSCH1_SchdAbsTm_time) (Some iedModel_Device1_DSCH1_SchdAbsTm_time_8) None 0 7 FC_SP T_TIMESTAMP (0 + TRG_OPT_DATA_CHANGED) None 0),
    (iedModel_Device1_DSCH1_SchdAbsTm_time_8,
    DataAttribute None (Some iedModel_Device1_DSCH1_SchdAbsTm_time) (Some iedModel_Device1_DSCH1_SchdAbsTm_time_9) None 0 8 FC_SP T_TIMESTAMP (0 + TRG_OPT_DATA_CHANGED) None 0),
    (iedModel_Device1_DSCH1_SchdAbsTm_time_9,
    DataAttribute None (Some iedModel_Device1_DSCH1_SchdAbsTm_time) (Some iedModel_Device1_DSCH1_SchdAbsTm_time_10) None 0 9 FC_SP T_TIMESTAMP (0 + TRG_OPT_DATA_CHANGED) None 0)]"

definition sample_SchdAbsTm_time_elements_2 :: node_table where
  "sample_SchdAbsTm_time_elements_2 =
   [(iedModel_Device1_DSCH1_SchdAbsTm_time_10,
    DataAttribute None (Some iedModel_Device1_DSCH1_SchdAbsTm_time) (Some iedModel_Device1_DSCH1_SchdAbsTm_time_11) None 0 10 FC_SP T_TIMESTAMP (0 + TRG_OPT_DATA_CHANGED) None 0),
    (iedModel_Device1_DSCH1_SchdAbsTm_time_11,
    DataAttribute None (Some iedModel_Device1_DSCH1_SchdAbsTm_time) (Some iedModel_Device1_DSCH1_SchdAbsTm_time_12) None 0 11 FC_SP T_TIMESTAMP (0 + TRG_OPT_DATA_CHANGED) None 0),
    (iedModel_Device1_DSCH1_SchdAbsTm_time_12,
    DataAttribute None (Some iedModel_Device1_DSCH1_SchdAbsTm_time) (Some iedModel_Device1_DSCH1_SchdAbsTm_time_13) None 0 12 FC_SP T_TIMESTAMP (0 + TRG_OPT_DATA_CHANGED) None 0),
    (iedModel_Device1_DSCH1_SchdAbsTm_time_13,
    DataAttribute None (Some iedModel_Device1_DSCH1_SchdAbsTm_time) (Some iedModel_Device1_DSCH1_SchdAbsTm_time_14) None 0 13 FC_SP T_TIMESTAMP (0 + TRG_OPT_DATA_CHANGED) None 0),
    (iedModel_Device1_DSCH1_SchdAbsTm_time_14,
    DataAttribute None (Some iedModel_Device1_DSCH1_SchdAbsTm_time) (Some iedModel_Device1_DSCH1_SchdAbsTm_time_15) None 0 14 FC_SP T_TIMESTAMP (0 + TRG_OPT_DATA_CHANGED) None 0),
    (iedModel_Device1_DSCH1_SchdAbsTm_time_15,
    DataAttribute None (Some iedModel_Device1_DSCH1_SchdAbsTm_time) (Some iedModel_Device1_DSCH1_SchdAbsTm_time_16) None 0 15 FC_SP T_TIMESTAMP (0 + TRG_OPT_DATA_CHANGED) None 0),
    (iedModel_Device1_DSCH1_SchdAbsTm_time_16,
    DataAttribute None (Some iedModel_Device1_DSCH1_SchdAbsTm_time) (Some iedModel_Device1_DSCH1_SchdAbsTm_time_17) None 0 16 FC_SP T_TIMESTAMP (0 + TRG_OPT_DATA_CHANGED) None 0),
    (iedModel_Device1_DSCH1_SchdAbsTm_time_17,
    DataAttribute None (Some iedModel_Device1_DSCH1_SchdAbsTm_time) (Some iedModel_Device1_DSCH1_SchdAbsTm_time_18) None 0 17 FC_SP T_TIMESTAMP (0 + TRG_OPT_DATA_CHANGED) None 0),
    (iedModel_Device1_DSCH1_SchdAbsTm_time_18,
    DataAttribute None (Some iedModel_Device1_DSCH1_SchdAbsTm_time) (Some iedModel_Device1_DSCH1_SchdAbsTm_time_19) None 0 18 FC_SP T_TIMESTAMP (0 + TRG_OPT_DATA_CHANGED) None 0),
    (iedModel_Device1_DSCH1_SchdAbsTm_time_19,
    DataAttribute None (Some iedModel_Device1_DSCH1_SchdAbsTm_time) (Some iedModel_Device1_DSCH1_SchdAbsTm_time_20) None 0 19 FC_SP T_TIMESTAMP (0 + TRG_OPT_DATA_CHANGED) None 0)]"

definition sample_SchdAbsTm_time_elements_3 :: node_table where
  "sample_SchdAbsTm_time_elements_3 =
   [(iedModel_Device1_DSCH1_SchdAbsTm_time_20,
    DataAttribute None (Some iedModel_Device1_DSCH1_SchdAbsTm_time) (Some iedModel_Device1_DSCH1_SchdAbsTm_time_21) None 0 20 FC_SP T_TIMESTAMP (0 + TRG_OPT_DATA_CHANGED) None 0),
    (iedModel_Device1_DSCH1_SchdAbsTm_time_21,
    DataAttribute None (Some iedModel_Device1_DSCH1_SchdAbsTm_time) (Some iedModel_Device1_DSCH1_SchdAbsTm_time_22) None 0 21 FC_SP T_TIMESTAMP (0 + TRG_OPT_DATA_CHANGED) None 0),
    (iedModel_Device1_DSCH1_SchdAbsTm_time_22,
    DataAttribute None (Some iedModel_Device1_DSCH1_SchdAbsTm_time) (Some iedModel_Device1_DSCH1_SchdAbsTm_time_23) None 0 22 FC_SP T_TIMESTAMP (0 + TRG_OPT_DATA_CHANGED) None 0),
    (iedModel_Device1_DSCH1_SchdAbsTm_time_23,
    DataAttribute None (Some iedModel_Device1_DSCH1_SchdAbsTm_time) (Some iedModel_Device1_DSCH1_SchdAbsTm_time_24) None 0 23 FC_SP T_TIMESTAMP (0 + TRG_OPT_DATA_CHANGED) None 0),
    (iedModel_Device1_DSCH1_SchdAbsTm_time_24,
    DataAttribute None (Some iedModel_Device1_DSCH1_SchdAbsTm_time) (Some iedModel_Device1_DSCH1_SchdAbsTm_time_25) None 0 24 FC_SP T_TIMESTAMP (0 + TRG_OPT_DATA_CHANGED) None 0),
    (iedModel_Device1_DSCH1_SchdAbsTm_time_25,
    DataAttribute None (Some iedModel_Device1_DSCH1_SchdAbsTm_time) (Some iedModel_Device1_DSCH1_SchdAbsTm_time_26) None 0 25 FC_SP T_TIMESTAMP (0 + TRG_OPT_DATA_CHANGED) None 0),
    (iedModel_Device1_DSCH1_SchdAbsTm_time_26,
    DataAttribute None (Some iedModel_Device1_DSCH1_SchdAbsTm_time) (Some iedModel_Device1_DSCH1_SchdAbsTm_time_27) None 0 26 FC_SP T_TIMESTAMP (0 + TRG_OPT_DATA_CHANGED) None 0),
    (iedModel_Device1_DSCH1_SchdAbsTm_time_27,
    DataAttribute None (Some iedModel_Device1_DSCH1_SchdAbsTm_time) (Some iedModel_Device1_DSCH1_SchdAbsTm_time_28) None 0 27 FC_SP T_TIMESTAMP (0 + TRG_OPT_DATA_CHANGED) None 0),
    (iedModel_Device1_DSCH1_SchdAbsTm_time_28,
    DataAttribute None (Some iedModel_Device1_DSCH1_SchdAbsTm_time) (Some iedModel_Device1_DSCH1_SchdAbsTm_time_29) None 0 28 FC_SP T_TIMESTAMP (0 + TRG_OPT_DATA_CHANGED) None 0),
    (iedModel_Device1_DSCH1_SchdAbsTm_time_29,
    DataAttribute None (Some iedModel_Device1_DSCH1_SchdAbsTm_time) (Some iedModel_Device1_DSCH1_SchdAbsTm_time_30) None 0 29 FC_SP T_TIMESTAMP (0 + TRG_OPT_DATA_CHANGED) None 0)]"

definition sample_SchdAbsTm_time_elements_4 :: node_table where
  "sample_SchdAbsTm_time_elements_4 =
   [(iedModel_Device1_DSCH1_SchdAbsTm_time_30,
    DataAttribute None (Some iedModel_Device1_DSCH1_SchdAbsTm_time) (Some iedModel_Device1_DSCH1_SchdAbsTm_time_31) None 0 30 FC_SP T_TIMESTAMP (0 + TRG_OPT_DATA_CHANGED) None 0),
    (iedModel_Device1_DSCH1_SchdAbsTm_time_31,
    DataAttribute None (Some iedModel_Device1_DSCH1_SchdAbsTm_time) (Some iedModel_Device1_DSCH1_SchdAbsTm_time_32) None 0 31 FC_SP T_TIMESTAMP (0 + TRG_OPT_DATA_CHANGED) None 0),
    (iedModel_Device1_DSCH1_SchdAbsTm_time_32,
    DataAttribute None (Some iedModel_Device1_DSCH1_SchdAbsTm_time) (Some iedModel_Device1_DSCH1_SchdAbsTm_time_33) None 0 32 FC_SP T_TIMESTAMP (0 + TRG_OPT_DATA_CHANGED) None 0),
    (iedModel_Device1_DSCH1_SchdAbsTm_time_33,
    DataAttribute None (Some iedModel_Device1_DSCH1_SchdAbsTm_time) (Some iedModel_Device1_DSCH1_SchdAbsTm_time_34) None 0 33 FC_SP T_TIMESTAMP (0 + TRG_OPT_DATA_CHANGED) None 0),
    (iedModel_Device1_DSCH1_SchdAbsTm_time_34,
    DataAttribute None (Some iedModel_Device1_DSCH1_SchdAbsTm_time) (Some iedModel_Device1_DSCH1_SchdAbsTm_time_35) None 0 34 FC_SP T_TIMESTAMP (0 + TRG_OPT_DATA_CHANGED) None 0),
    (iedModel_Device1_DSCH1_SchdAbsTm_time_35,
    DataAttribute None (Some iedModel_Device1_DSCH1_SchdAbsTm_time) (Some iedModel_Device1_DSCH1_SchdAbsTm_time_36) None 0 35 FC_SP T_TIMESTAMP (0 + TRG_OPT_DATA_CHANGED) None 0),
    (iedModel_Device1_DSCH1_SchdAbsTm_time_36,
    DataAttribute None (Some iedModel_Device1_DSCH1_SchdAbsTm_time) (Some iedModel_Device1_DSCH1_SchdAbsTm_time_37) None 0 36 FC_SP T_TIMESTAMP (0 + TRG_OPT_DATA_CHANGED) None 0),
    (iedModel_Device1_DSCH1_SchdAbsTm_time_37,
    DataAttribute None (Some iedModel_Device1_DSCH1_SchdAbsTm_time) (Some iedModel_Device1_DSCH1_SchdAbsTm_time_38) None 0 37 FC_SP T_TIMESTAMP (0 + TRG_OPT_DATA_CHANGED) None 0),
    (iedModel_Device1_DSCH1_SchdAbsTm_time_38,
    DataAttribute None (Some iedModel_Device1_DSCH1_SchdAbsTm_time) (Some iedModel_Device1_DSCH1_SchdAbsTm_time_39) None 0 38 FC_SP T_TIMESTAMP (0 + TRG_OPT_DATA_CHANGED) None 0),
    (iedModel_Device1_DSCH1_SchdAbsTm_time_39,
    DataAttribute None (Some iedModel_Device1_DSCH1_SchdAbsTm_time) (Some iedModel_Device1_DSCH1_SchdAbsTm_time_40) None 0 39 FC_SP T_TIMESTAMP (0 + TRG_OPT_DATA_CHANGED) None 0)]"

definition sample_SchdAbsTm_time_elements_5 :: node_table where
  "sample_SchdAbsTm_time_elements_5 =
   [(iedModel_Device1_DSCH1_SchdAbsTm_time_40,
    DataAttribute None (Some iedModel_Device1_DSCH1_SchdAbsTm_time) (Some iedModel_Device1_DSCH1_SchdAbsTm_time_41) None 0 40 FC_SP T_TIMESTAMP (0 + TRG_OPT_DATA_CHANGED) None 0),
    (iedModel_Device1_DSCH1_SchdAbsTm_time_41,
    DataAttribute None (Some iedModel_Device1_DSCH1_SchdAbsTm_time) (Some iedModel_Device1_DSCH1_SchdAbsTm_time_42) None 0 41 FC_SP T_TIMESTAMP (0 + TRG_OPT_DATA_CHANGED) None 0),
    (iedModel_Device1_DSCH1_SchdAbsTm_time_42,
    DataAttribute None (Some iedModel_Device1_DSCH1_SchdAbsTm_time) (Some iedModel_Device1_DSCH1_SchdAbsTm_time_43) None 0 42 FC_SP T_TIMESTAMP (0 + TRG_OPT_DATA_CHANGED) None 0),
    (iedModel_Device1_DSCH1_SchdAbsTm_time_43,
    DataAttribute None (Some iedModel_Device1_DSCH1_SchdAbsTm_time) (Some iedModel_Device1_DSCH1_SchdAbsTm_time_44) None 0 43 FC_SP T_TIMESTAMP (0 + TRG_OPT_DATA_CHANGED) None 0),
    (iedModel_Device1_DSCH1_SchdAbsTm_time_44,
    DataAttribute None (Some iedModel_Device1_DSCH1_SchdAbsTm_time) (Some iedModel_Device1_DSCH1_SchdAbsTm_time_45) None 0 44 FC_SP T_TIMESTAMP (0 + TRG_OPT_DATA_CHANGED) None 0),
    (iedModel_Device1_DSCH1_SchdAbsTm_time_45,
    DataAttribute None (Some iedModel_Device1_DSCH1_SchdAbsTm_time) (Some iedModel_Device1_DSCH1_SchdAbsTm_time_46) None 0 45 FC_SP T_TIMESTAMP (0 + TRG_OPT_DATA_CHANGED) None 0),
    (iedModel_Device1_DSCH1_SchdAbsTm_time_46,
    DataAttribute None (Some iedModel_Device1_DSCH1_SchdAbsTm_time) (Some iedModel_Device1_DSCH1_SchdAbsTm_time_47) None 0 46 FC_SP T_TIMESTAMP (0 + TRG_OPT_DATA_CHANGED) None 0),
    (iedModel_Device1_DSCH1_SchdAbsTm_time_47,
    DataAttribute None (Some iedModel_Device1_DSCH1_SchdAbsTm_time) (Some iedModel_Device1_DSCH1_SchdAbsTm_time_48) None 0 47 FC_SP T_TIMESTAMP (0 + TRG_OPT_DATA_CHANGED) None 0),
    (iedModel_Device1_DSCH1_SchdAbsTm_time_48,
    DataAttribute None (Some iedModel_Device1_DSCH1_SchdAbsTm_time) (Some iedModel_Device1_DSCH1_SchdAbsTm_time_49) None 0 48 FC_SP T_TIMESTAMP (0 + TRG_OPT_DATA_CHANGED) None 0),
    (iedModel_Device1_DSCH1_SchdAbsTm_time_49,
    DataAttribute None (Some iedModel_Device1_DSCH1_SchdAbsTm_time) (Some iedModel_Device1_DSCH1_SchdAbsTm_time_50) None 0 49 FC_SP T_TIMESTAMP (0 + TRG_OPT_DATA_CHANGED) None 0)]"

definition sample_SchdAbsTm_time_elements_6 :: node_table where
  "sample_SchdAbsTm_time_elements_6 =
   [(iedModel_Device1_DSCH1_SchdAbsTm_time_50,
    DataAttribute None (Some iedModel_Device1_DSCH1_SchdAbsTm_time) (Some iedModel_Device1_DSCH1_SchdAbsTm_time_51) None 0 50 FC_SP T_TIMESTAMP (0 + TRG_OPT_DATA_CHANGED) None 0),
    (iedModel_Device1_DSCH1_SchdAbsTm_time_51,
    DataAttribute None (Some iedModel_Device1_DSCH1_SchdAbsTm_time) (Some iedModel_Device1_DSCH1_SchdAbsTm_time_52) None 0 51 FC_SP T_TIMESTAMP (0 + TRG_OPT_DATA_CHANGED) None 0),
    (iedModel_Device1_DSCH1_SchdAbsTm_time_52,
    DataAttribute None (Some iedModel_Device1_DSCH1_SchdAbsTm_time) (Some iedModel_Device1_DSCH1_SchdAbsTm_time_53) None 0 52 FC_SP T_TIMESTAMP (0 + TRG_OPT_DATA_CHANGED) None 0),
    (iedModel_Device1_DSCH1_SchdAbsTm_time_53,
    DataAttribute None (Some iedModel_Device1_DSCH1_SchdAbsTm_time) (Some iedModel_Device1_DSCH1_SchdAbsTm_time_54) None 0 53 FC_SP T_TIMESTAMP (0 + TRG_OPT_DATA_CHANGED) None 0),
    (iedModel_Device1_DSCH1_SchdAbsTm_time_54,
    DataAttribute None (Some iedModel_Device1_DSCH1_SchdAbsTm_time) (Some iedModel_Device1_DSCH1_SchdAbsTm_time_55) None 0 54 FC_SP T_TIMESTAMP (0 + TRG_OPT_DATA_CHANGED) None 0),
    (iedModel_Device1_DSCH1_SchdAbsTm_time_55,
    DataAttribute None (Some iedModel_Device1_DSCH1_SchdAbsTm_time) (Some iedModel_Device1_DSCH1_SchdAbsTm_time_56) None 0 55 FC_SP T_TIMESTAMP (0 + TRG_OPT_DATA_CHANGED) None 0),
    (iedModel_Device1_DSCH1_SchdAbsTm_time_56,
    DataAttribute None (Some iedModel_Device1_DSCH1_SchdAbsTm_time) (Some iedModel_Device1_DSCH1_SchdAbsTm_time_57) None 0 56 FC_SP T_TIMESTAMP (0 + TRG_OPT_DATA_CHANGED) None 0),
    (iedModel_Device1_DSCH1_SchdAbsTm_time_57,
    DataAttribute None (Some iedModel_Device1_DSCH1_SchdAbsTm_time) (Some iedModel_Device1_DSCH1_SchdAbsTm_time_58) None 0 57 FC_SP T_TIMESTAMP (0 + TRG_OPT_DATA_CHANGED) None 0),
    (iedModel_Device1_DSCH1_SchdAbsTm_time_58,
    DataAttribute None (Some iedModel_Device1_DSCH1_SchdAbsTm_time) (Some iedModel_Device1_DSCH1_SchdAbsTm_time_59) None 0 58 FC_SP T_TIMESTAMP (0 + TRG_OPT_DATA_CHANGED) None 0),
    (iedModel_Device1_DSCH1_SchdAbsTm_time_59,
    DataAttribute None (Some iedModel_Device1_DSCH1_SchdAbsTm_time) (Some iedModel_Device1_DSCH1_SchdAbsTm_time_60) None 0 59 FC_SP T_TIMESTAMP (0 + TRG_OPT_DATA_CHANGED) None 0)]"

definition sample_SchdAbsTm_time_elements_7 :: node_table where
  "sample_SchdAbsTm_time_elements_7 =
   [(iedModel_Device1_DSCH1_SchdAbsTm_time_60,
    DataAttribute None (Some iedModel_Device1_DSCH1_SchdAbsTm_time) (Some iedModel_Device1_DSCH1_SchdAbsTm_time_61) None 0 60 FC_SP T_TIMESTAMP (0 + TRG_OPT_DATA_CHANGED) None 0),
    (iedModel_Device1_DSCH1_SchdAbsTm_time_61,
    DataAttribute None (Some iedModel_Device1_DSCH1_SchdAbsTm_time) (Some iedModel_Device1_DSCH1_SchdAbsTm_time_62) None 0 61 FC_SP T_TIMESTAMP (0 + TRG_OPT_DATA_CHANGED) None 0),
    (iedModel_Device1_DSCH1_SchdAbsTm_time_62,
    DataAttribute None (Some iedModel_Device1_DSCH1_SchdAbsTm_time) (Some iedModel_Device1_DSCH1_SchdAbsTm_time_63) None 0 62 FC_SP T_TIMESTAMP (0 + TRG_OPT_DATA_CHANGED) None 0),
    (iedModel_Device1_DSCH1_SchdAbsTm_time_63,
    DataAttribute None (Some iedModel_Device1_DSCH1_SchdAbsTm_time) (Some iedModel_Device1_DSCH1_SchdAbsTm_time_64) None 0 63 FC_SP T_TIMESTAMP (0 + TRG_OPT_DATA_CHANGED) None 0),
    (iedModel_Device1_DSCH1_SchdAbsTm_time_64,
    DataAttribute None (Some iedModel_Device1_DSCH1_SchdAbsTm_time) (Some iedModel_Device1_DSCH1_SchdAbsTm_time_65) None 0 64 FC_SP T_TIMESTAMP (0 + TRG_OPT_DATA_CHANGED) None 0),
    (iedModel_Device1_DSCH1_SchdAbsTm_time_65,
    DataAttribute None (Some iedModel_Device1_DSCH1_SchdAbsTm_time) (Some iedModel_Device1_DSCH1_SchdAbsTm_time_66) None 0 65 FC_SP T_TIMESTAMP (0 + TRG_OPT_DATA_CHANGED) None 0),
    (iedModel_Device1_DSCH1_SchdAbsTm_time_66,
    DataAttribute None (Some iedModel_Device1_DSCH1_SchdAbsTm_time) (Some iedModel_Device1_DSCH1_SchdAbsTm_time_67) None 0 66 FC_SP T_TIMESTAMP (0 + TRG_OPT_DATA_CHANGED) None 0),
    (iedModel_Device1_DSCH1_SchdAbsTm_time_67,
    DataAttribute None (Some iedModel_Device1_DSCH1_SchdAbsTm_time) (Some iedModel_Device1_DSCH1_SchdAbsTm_time_68) None 0 67 FC_SP T_TIMESTAMP (0 + TRG_OPT_DATA_CHANGED) None 0),
    (iedModel_Device1_DSCH1_SchdAbsTm_time_68,
    DataAttribute None (Some iedModel_Device1_DSCH1_SchdAbsTm_time) (Some iedModel_Device1_DSCH1_SchdAbsTm_time_69) None 0 68 FC_SP T_TIMESTAMP (0 + TRG_OPT_DATA_CHANGED) None 0),
    (iedModel_Device1_DSCH1_SchdAbsTm_time_69,
    DataAttribute None (Some iedModel_Device1_DSCH1_SchdAbsTm_time) (Some iedModel_Device1_DSCH1_SchdAbsTm_time_70) None 0 69 FC_SP T_TIMESTAMP (0 + TRG_OPT_DATA_CHANGED) None 0)]"

definition sample_SchdAbsTm_time_elements_8 :: node_table where
  "sample_SchdAbsTm_time_elements_8 =
   [(iedModel_Device1_DSCH1_SchdAbsTm_time_70,
    DataAttribute None (Some iedModel_Device1_DSCH1_SchdAbsTm_time) (Some iedModel_Device1_DSCH1_SchdAbsTm_time_71) None 0 70 FC_SP T_TIMESTAMP (0 + TRG_OPT_DATA_CHANGED) None 0),
    (iedModel_Device1_DSCH1_SchdAbsTm_time_71,
    DataAttribute None (Some iedModel_Device1_DSCH1_SchdAbsTm_time) (Some iedModel_Device1_DSCH1_SchdAbsTm_time_72) None 0 71 FC_SP T_TIMESTAMP (0 + TRG_OPT_DATA_CHANGED) None 0),
    (iedModel_Device1_DSCH1_SchdAbsTm_time_72,
    DataAttribute None (Some iedModel_Device1_DSCH1_SchdAbsTm_time) (Some iedModel_Device1_DSCH1_SchdAbsTm_time_73) None 0 72 FC_SP T_TIMESTAMP (0 + TRG_OPT_DATA_CHANGED) None 0),
    (iedModel_Device1_DSCH1_SchdAbsTm_time_73,
    DataAttribute None (Some iedModel_Device1_DSCH1_SchdAbsTm_time) (Some iedModel_Device1_DSCH1_SchdAbsTm_time_74) None 0 73 FC_SP T_TIMESTAMP (0 + TRG_OPT_DATA_CHANGED) None 0),
    (iedModel_Device1_DSCH1_SchdAbsTm_time_74,
    DataAttribute None (Some iedModel_Device1_DSCH1_SchdAbsTm_time) (Some iedModel_Device1_DSCH1_SchdAbsTm_time_75) None 0 74 FC_SP T_TIMESTAMP (0 + TRG_OPT_DATA_CHANGED) None 0),
    (iedModel_Device1_DSCH1_SchdAbsTm_time_75,
    DataAttribute None (Some iedModel_Device1_DSCH1_SchdAbsTm_time) (Some iedModel_Device1_DSCH1_SchdAbsTm_time_76) None 0 75 FC_SP T_TIMESTAMP (0 + TRG_OPT_DATA_CHANGED) None 0),
    (iedModel_Device1_DSCH1_SchdAbsTm_time_76,
    DataAttribute None (Some iedModel_Device1_DSCH1_SchdAbsTm_time) (Some iedModel_Device1_DSCH1_SchdAbsTm_time_77) None 0 76 FC_SP T_TIMESTAMP (0 + TRG_OPT_DATA_CHANGED) None 0),
    (iedModel_Device1_DSCH1_SchdAbsTm_time_77,
    DataAttribute None (Some iedModel_Device1_DSCH1_SchdAbsTm_time) (Some iedModel_Device1_DSCH1_SchdAbsTm_time_78) None 0 77 FC_SP T_TIMESTAMP (0 + TRG_OPT_DATA_CHANGED) None 0),
    (iedModel_Device1_DSCH1_SchdAbsTm_time_78,
    DataAttribute None (Some iedModel_Device1_DSCH1_SchdAbsTm_time) (Some iedModel_Device1_DSCH1_SchdAbsTm_time_79) None 0 78 FC_SP T_TIMESTAMP (0 + TRG_OPT_DATA_CHANGED) None 0),
    (iedModel_Device1_DSCH1_SchdAbsTm_time_79,
    DataAttribute None (Some iedModel_Device1_DSCH1_SchdAbsTm_time) (Some iedModel_Device1_DSCH1_SchdAbsTm_time_80) None 0 79 FC_SP T_TIMESTAMP (0 + TRG_OPT_DATA_CHANGED) None 0)]"

definition sample_SchdAbsTm_time_elements_9 :: node_table where
  "sample_SchdAbsTm_time_elements_9 =
   [(iedModel_Device1_DSCH1_SchdAbsTm_time_80,
    DataAttribute None (Some iedModel_Device1_DSCH1_SchdAbsTm_time) (Some iedModel_Device1_DSCH1_SchdAbsTm_time_81) None 0 80 FC_SP T_TIMESTAMP (0 + TRG_OPT_DATA_CHANGED) None 0),
    (iedModel_Device1_DSCH1_SchdAbsTm_time_81,
    DataAttribute None (Some iedModel_Device1_DSCH1_SchdAbsTm_time) (Some iedModel_Device1_DSCH1_SchdAbsTm_time_82) None 0 81 FC_SP T_TIMESTAMP (0 + TRG_OPT_DATA_CHANGED) None 0),
    (iedModel_Device1_DSCH1_SchdAbsTm_time_82,
    DataAttribute None (Some iedModel_Device1_DSCH1_SchdAbsTm_time) (Some iedModel_Device1_DSCH1_SchdAbsTm_time_83) None 0 82 FC_SP T_TIMESTAMP (0 + TRG_OPT_DATA_CHANGED) None 0),
    (iedModel_Device1_DSCH1_SchdAbsTm_time_83,
    DataAttribute None (Some iedModel_Device1_DSCH1_SchdAbsTm_time) (Some iedModel_Device1_DSCH1_SchdAbsTm_time_84) None 0 83 FC_SP T_TIMESTAMP (0 + TRG_OPT_DATA_CHANGED) None 0),
    (iedModel_Device1_DSCH1_SchdAbsTm_time_84,
    DataAttribute None (Some iedModel_Device1_DSCH1_SchdAbsTm_time) (Some iedModel_Device1_DSCH1_SchdAbsTm_time_85) None 0 84 FC_SP T_TIMESTAMP (0 + TRG_OPT_DATA_CHANGED) None 0),
    (iedModel_Device1_DSCH1_SchdAbsTm_time_85,
    DataAttribute None (Some iedModel_Device1_DSCH1_SchdAbsTm_time) (Some iedModel_Device1_DSCH1_SchdAbsTm_time_86) None 0 85 FC_SP T_TIMESTAMP (0 + TRG_OPT_DATA_CHANGED) None 0),
    (iedModel_Device1_DSCH1_SchdAbsTm_time_86,
    DataAttribute None (Some iedModel_Device1_DSCH1_SchdAbsTm_time) (Some iedModel_Device1_DSCH1_SchdAbsTm_time_87) None 0 86 FC_SP T_TIMESTAMP (0 + TRG_OPT_DATA_CHANGED) None 0),
    (iedModel_Device1_DSCH1_SchdAbsTm_time_87,
    DataAttribute None (Some iedModel_Device1_DSCH1_SchdAbsTm_time) (Some iedModel_Device1_DSCH1_SchdAbsTm_time_88) None 0 87 FC_SP T_TIMESTAMP (0 + TRG_OPT_DATA_CHANGED) None 0),
    (iedModel_Device1_DSCH1_SchdAbsTm_time_88,
    DataAttribute None (Some iedModel_Device1_DSCH1_SchdAbsTm_time) (Some iedModel_Device1_DSCH1_SchdAbsTm_time_89) None 0 88 FC_SP T_TIMESTAMP (0 + TRG_OPT_DATA_CHANGED) None 0),
    (iedModel_Device1_DSCH1_SchdAbsTm_time_89,
    DataAttribute None (Some iedModel_Device1_DSCH1_SchdAbsTm_time) (Some iedModel_Device1_DSCH1_SchdAbsTm_time_90) None 0 89 FC_SP T_TIMESTAMP (0 + TRG_OPT_DATA_CHANGED) None 0)]"

definition sample_SchdAbsTm_time_elements_10 :: node_table where
  "sample_SchdAbsTm_time_elements_10 =
   [(iedModel_Device1_DSCH1_SchdAbsTm_time_90,
    DataAttribute None (Some iedModel_Device1_DSCH1_SchdAbsTm_time) (Some iedModel_Device1_DSCH1_SchdAbsTm_time_91) None 0 90 FC_SP T_TIMESTAMP (0 + TRG_OPT_DATA_CHANGED) None 0),
    (iedModel_Device1_DSCH1_SchdAbsTm_time_91,
    DataAttribute None (Some iedModel_Device1_DSCH1_SchdAbsTm_time) (Some iedModel_Device1_DSCH1_SchdAbsTm_time_92) None 0 91 FC_SP T_TIMESTAMP (0 + TRG_OPT_DATA_CHANGED) None 0),
    (iedModel_Device1_DSCH1_SchdAbsTm_time_92,
    DataAttribute None (Some iedModel_Device1_DSCH1_SchdAbsTm_time) (Some iedModel_Device1_DSCH1_SchdAbsTm_time_93) None 0 92 FC_SP T_TIMESTAMP (0 + TRG_OPT_DATA_CHANGED) None 0),
    (iedModel_Device1_DSCH1_SchdAbsTm_time_93,
    DataAttribute None (Some iedModel_Device1_DSCH1_SchdAbsTm_time) (Some iedModel_Device1_DSCH1_SchdAbsTm_time_94) None 0 93 FC_SP T_TIMESTAMP (0 + TRG_OPT_DATA_CHANGED) None 0),
    (iedModel_Device1_DSCH1_SchdAbsTm_time_94,
    DataAttribute None (Some iedModel_Device1_DSCH1_SchdAbsTm_time) (Some iedModel_Device1_DSCH1_SchdAbsTm_time_95) None 0 94 FC_SP T_TIMESTAMP (0 + TRG_OPT_DATA_CHANGED) None 0),
    (iedModel_Device1_DSCH1_SchdAbsTm_time_95,
    DataAttribute None (Some iedModel_Device1_DSCH1_SchdAbsTm_time) (Some iedModel_Device1_DSCH1_SchdAbsTm_time_96) None 0 95 FC_SP T_TIMESTAMP (0 + TRG_OPT_DATA_CHANGED) None 0),
    (iedModel_Device1_DSCH1_SchdAbsTm_time_96,
    DataAttribute None (Some iedModel_Device1_DSCH1_SchdAbsTm_time) (Some iedModel_Device1_DSCH1_SchdAbsTm_time_97) None 0 96 FC_SP T_TIMESTAMP (0 + TRG_OPT_DATA_CHANGED) None 0),
    (iedModel_Device1_DSCH1_SchdAbsTm_time_97,
    DataAttribute None (Some iedModel_Device1_DSCH1_SchdAbsTm_time) (Some iedModel_Device1_DSCH1_SchdAbsTm_time_98) None 0 97 FC_SP T_TIMESTAMP (0 + TRG_OPT_DATA_CHANGED) None 0),
    (iedModel_Device1_DSCH1_SchdAbsTm_time_98,
    DataAttribute None (Some iedModel_Device1_DSCH1_SchdAbsTm_time) (Some iedModel_Device1_DSCH1_SchdAbsTm_time_99) None 0 98 FC_SP T_TIMESTAMP (0 + TRG_OPT_DATA_CHANGED) None 0),
    (iedModel_Device1_DSCH1_SchdAbsTm_time_99,
    DataAttribute None (Some iedModel_Device1_DSCH1_SchdAbsTm_time) (Some iedModel_Device1_DSCH1_SchdAbsTm_time_100) None 0 99 FC_SP T_TIMESTAMP (0 + TRG_OPT_DATA_CHANGED) None 0)]"

definition sample_SchdAbsTm_time_elements_11 :: node_table where
  "sample_SchdAbsTm_time_elements_11 =
   [(iedModel_Device1_DSCH1_SchdAbsTm_time_100,
    DataAttribute None (Some iedModel_Device1_DSCH1_SchdAbsTm_time) (Some iedModel_Device1_DSCH1_SchdAbsTm_time_101) None 0 100 FC_SP T_TIMESTAMP (0 + TRG_OPT_DATA_CHANGED) None 0),
    (iedModel_Device1_DSCH1_SchdAbsTm_time_101,
    DataAttribute None (Some iedModel_Device1_DSCH1_SchdAbsTm_time) (Some iedModel_Device1_DSCH1_SchdAbsTm_time_102) None 0 101 FC_SP T_TIMESTAMP (0 + TRG_OPT_DATA_CHANGED) None 0),
    (iedModel_Device1_DSCH1_SchdAbsTm_time_102,
    DataAttribute None (Some iedModel_Device1_DSCH1_SchdAbsTm_time) (Some iedModel_Device1_DSCH1_SchdAbsTm_time_103) None 0 102 FC_SP T_TIMESTAMP (0 + TRG_OPT_DATA_CHANGED) None 0),
    (iedModel_Device1_DSCH1_SchdAbsTm_time_103,
    DataAttribute None (Some iedModel_Device1_DSCH1_SchdAbsTm_time) (Some iedModel_Device1_DSCH1_SchdAbsTm_time_104) None 0 103 FC_SP T_TIMESTAMP (0 + TRG_OPT_DATA_CHANGED) None 0),
    (iedModel_Device1_DSCH1_SchdAbsTm_time_104,
    DataAttribute None (Some iedModel_Device1_DSCH1_SchdAbsTm_time) (Some iedModel_Device1_DSCH1_SchdAbsTm_time_105) None 0 104 FC_SP T_TIMESTAMP (0 + TRG_OPT_DATA_CHANGED) None 0),
    (iedModel_Device1_DSCH1_SchdAbsTm_time_105,
    DataAttribute None (Some iedModel_Device1_DSCH1_SchdAbsTm_time) (Some iedModel_Device1_DSCH1_SchdAbsTm_time_106) None 0 105 FC_SP T_TIMESTAMP (0 + TRG_OPT_DATA_CHANGED) None 0),
    (iedModel_Device1_DSCH1_SchdAbsTm_time_106,
    DataAttribute None (Some iedModel_Device1_DSCH1_SchdAbsTm_time) (Some iedModel_Device1_DSCH1_SchdAbsTm_time_107) None 0 106 FC_SP T_TIMESTAMP (0 + TRG_OPT_DATA_CHANGED) None 0),
    (iedModel_Device1_DSCH1_SchdAbsTm_time_107,
    DataAttribute None (Some iedModel_Device1_DSCH1_SchdAbsTm_time) (Some iedModel_Device1_DSCH1_SchdAbsTm_time_108) None 0 107 FC_SP T_TIMESTAMP (0 + TRG_OPT_DATA_CHANGED) None 0),
    (iedModel_Device1_DSCH1_SchdAbsTm_time_108,
    DataAttribute None (Some iedModel_Device1_DSCH1_SchdAbsTm_time) (Some iedModel_Device1_DSCH1_SchdAbsTm_time_109) None 0 108 FC_SP T_TIMESTAMP (0 + TRG_OPT_DATA_CHANGED) None 0),
    (iedModel_Device1_DSCH1_SchdAbsTm_time_109,
    DataAttribute None (Some iedModel_Device1_DSCH1_SchdAbsTm_time) (Some iedModel_Device1_DSCH1_SchdAbsTm_time_110) None 0 109 FC_SP T_TIMESTAMP (0 + TRG_OPT_DATA_CHANGED) None 0)]"

definition sample_SchdAbsTm_time_elements_12 :: node_table where
  "sample_SchdAbsTm_time_elements_12 =
   [(iedModel_Device1_DSCH1_SchdAbsTm_time_110,
    DataAttribute None (Some iedModel_Device1_DSCH1_SchdAbsTm_time) (Some iedModel_Device1_DSCH1_SchdAbsTm_time_111) None 0 110 FC_SP T_TIMESTAMP (0 + TRG_OPT_DATA_CHANGED) None 0),
    (iedModel_Device1_DSCH1_SchdAbsTm_time_111,
    DataAttribute None (Some iedModel_Device1_DSCH1_SchdAbsTm_time) (Some iedModel_Device1_DSCH1_SchdAbsTm_time_112) None 0 111 FC_SP T_TIMESTAMP (0 + TRG_OPT_DATA_CHANGED) None 0),
    (iedModel_Device1_DSCH1_SchdAbsTm_time_112,
    DataAttribute None (Some iedModel_Device1_DSCH1_SchdAbsTm_time) (Some iedModel_Device1_DSCH1_SchdAbsTm_time_113) None 0 112 FC_SP T_TIMESTAMP (0 + TRG_OPT_DATA_CHANGED) None 0),
    (iedModel_Device1_DSCH1_SchdAbsTm_time_113,
    DataAttribute None (Some iedModel_Device1_DSCH1_SchdAbsTm_time) (Some iedModel_Device1_DSCH1_SchdAbsTm_time_114) None 0 113 FC_SP T_TIMESTAMP (0 + TRG_OPT_DATA_CHANGED) None 0),
    (iedModel_Device1_DSCH1_SchdAbsTm_time_114,
    DataAttribute None (Some iedModel_Device1_DSCH1_SchdAbsTm_time) (Some iedModel_Device1_DSCH1_SchdAbsTm_time_115) None 0 114 FC_SP T_TIMESTAMP (0 + TRG_OPT_DATA_CHANGED) None 0),
    (iedModel_Device1_DSCH1_SchdAbsTm_time_115,
    DataAttribute None (Some iedModel_Device1_DSCH1_SchdAbsTm_time) (Some iedModel_Device1_DSCH1_SchdAbsTm_time_116) None 0 115 FC_SP T_TIMESTAMP (0 + TRG_OPT_DATA_CHANGED) None 0),
    (iedModel_Device1_DSCH1_SchdAbsTm_time_116,
    DataAttribute None (Some iedModel_Device1_DSCH1_SchdAbsTm_time) (Some iedModel_Device1_DSCH1_SchdAbsTm_time_117) None 0 116 FC_SP T_TIMESTAMP (0 + TRG_OPT_DATA_CHANGED) None 0),
    (iedModel_Device1_DSCH1_SchdAbsTm_time_117,
    DataAttribute None (Some iedModel_Device1_DSCH1_SchdAbsTm_time) (Some iedModel_Device1_DSCH1_SchdAbsTm_time_118) None 0 117 FC_SP T_TIMESTAMP (0 + TRG_OPT_DATA_CHANGED) None 0),
    (iedModel_Device1_DSCH1_SchdAbsTm_time_118,
    DataAttribute None (Some iedModel_Device1_DSCH1_SchdAbsTm_time) (Some iedModel_Device1_DSCH1_SchdAbsTm_time_119) None 0 118 FC_SP T_TIMESTAMP (0 + TRG_OPT_DATA_CHANGED) None 0),
    (iedModel_Device1_DSCH1_SchdAbsTm_time_119,
    DataAttribute None (Some iedModel_Device1_DSCH1_SchdAbsTm_time) (Some iedModel_Device1_DSCH1_SchdAbsTm_time_120) None 0 119 FC_SP T_TIMESTAMP (0 + TRG_OPT_DATA_CHANGED) None 0)]"

definition sample_SchdAbsTm_time_elements_13 :: node_table where
  "sample_SchdAbsTm_time_elements_13 =
   [(iedModel_Device1_DSCH1_SchdAbsTm_time_120,
    DataAttribute None (Some iedModel_Device1_DSCH1_SchdAbsTm_time) (Some iedModel_Device1_DSCH1_SchdAbsTm_time_121) None 0 120 FC_SP T_TIMESTAMP (0 + TRG_OPT_DATA_CHANGED) None 0),
    (iedModel_Device1_DSCH1_SchdAbsTm_time_121,
    DataAttribute None (Some iedModel_Device1_DSCH1_SchdAbsTm_time) (Some iedModel_Device1_DSCH1_SchdAbsTm_time_122) None 0 121 FC_SP T_TIMESTAMP (0 + TRG_OPT_DATA_CHANGED) None 0),
    (iedModel_Device1_DSCH1_SchdAbsTm_time_122,
    DataAttribute None (Some iedModel_Device1_DSCH1_SchdAbsTm_time) (Some iedModel_Device1_DSCH1_SchdAbsTm_time_123) None 0 122 FC_SP T_TIMESTAMP (0 + TRG_OPT_DATA_CHANGED) None 0),
    (iedModel_Device1_DSCH1_SchdAbsTm_time_123,
    DataAttribute None (Some iedModel_Device1_DSCH1_SchdAbsTm_time) (Some iedModel_Device1_DSCH1_SchdAbsTm_time_124) None 0 123 FC_SP T_TIMESTAMP (0 + TRG_OPT_DATA_CHANGED) None 0),
    (iedModel_Device1_DSCH1_SchdAbsTm_time_124,
    DataAttribute None (Some iedModel_Device1_DSCH1_SchdAbsTm_time) (Some iedModel_Device1_DSCH1_SchdAbsTm_time_125) None 0 124 FC_SP T_TIMESTAMP (0 + TRG_OPT_DATA_CHANGED) None 0),
    (iedModel_Device1_DSCH1_SchdAbsTm_time_125,
    DataAttribute None (Some iedModel_Device1_DSCH1_SchdAbsTm_time) (Some iedModel_Device1_DSCH1_SchdAbsTm_time_126) None 0 125 FC_SP T_TIMESTAMP (0 + TRG_OPT_DATA_CHANGED) None 0),
    (iedModel_Device1_DSCH1_SchdAbsTm_time_126,
    DataAttribute None (Some iedModel_Device1_DSCH1_SchdAbsTm_time) (Some iedModel_Device1_DSCH1_SchdAbsTm_time_127) None 0 126 FC_SP T_TIMESTAMP (0 + TRG_OPT_DATA_CHANGED) None 0),
    (iedModel_Device1_DSCH1_SchdAbsTm_time_127,
    DataAttribute None (Some iedModel_Device1_DSCH1_SchdAbsTm_time) (Some iedModel_Device1_DSCH1_SchdAbsTm_time_128) None 0 127 FC_SP T_TIMESTAMP (0 + TRG_OPT_DATA_CHANGED) None 0),
    (iedModel_Device1_DSCH1_SchdAbsTm_time_128,
    DataAttribute None (Some iedModel_Device1_DSCH1_SchdAbsTm_time) (Some iedModel_Device1_DSCH1_SchdAbsTm_time_129) None 0 128 FC_SP T_TIMESTAMP (0 + TRG_OPT_DATA_CHANGED) None 0),
    (iedModel_Device1_DSCH1_SchdAbsTm_time_129,
    DataAttribute None (Some iedModel_Device1_DSCH1_SchdAbsTm_time) (Some iedModel_Device1_DSCH1_SchdAbsTm_time_130) None 0 129 FC_SP T_TIMESTAMP (0 + TRG_OPT_DATA_CHANGED) None 0)]"

definition sample_SchdAbsTm_time_elements_14 :: node_table where
  "sample_SchdAbsTm_time_elements_14 =
   [(iedModel_Device1_DSCH1_SchdAbsTm_time_130,
    DataAttribute None (Some iedModel_Device1_DSCH1_SchdAbsTm_time) (Some iedModel_Device1_DSCH1_SchdAbsTm_time_131) None 0 130 FC_SP T_TIMESTAMP (0 + TRG_OPT_DATA_CHANGED) None 0),
    (iedModel_Device1_DSCH1_SchdAbsTm_time_131,
    DataAttribute None (Some iedModel_Device1_DSCH1_SchdAbsTm_time) (Some iedModel_Device1_DSCH1_SchdAbsTm_time_132) None 0 131 FC_SP T_TIMESTAMP (0 + TRG_OPT_DATA_CHANGED) None 0),
    (iedModel_Device1_DSCH1_SchdAbsTm_time_132,
    DataAttribute None (Some iedModel_Device1_DSCH1_SchdAbsTm_time) (Some iedModel_Device1_DSCH1_SchdAbsTm_time_133) None 0 132 FC_SP T_TIMESTAMP (0 + TRG_OPT_DATA_CHANGED) None 0),
    (iedModel_Device1_DSCH1_SchdAbsTm_time_133,
    DataAttribute None (Some iedModel_Device1_DSCH1_SchdAbsTm_time) (Some iedModel_Device1_DSCH1_SchdAbsTm_time_134) None 0 133 FC_SP T_TIMESTAMP (0 + TRG_OPT_DATA_CHANGED) None 0),
    (iedModel_Device1_DSCH1_SchdAbsTm_time_134,
    DataAttribute None (Some iedModel_Device1_DSCH1_SchdAbsTm_time) (Some iedModel_Device1_DSCH1_SchdAbsTm_time_135) None 0 134 FC_SP T_TIMESTAMP (0 + TRG_OPT_DATA_CHANGED) None 0),
    (iedModel_Device1_DSCH1_SchdAbsTm_time_135,
    DataAttribute None (Some iedModel_Device1_DSCH1_SchdAbsTm_time) (Some iedModel_Device1_DSCH1_SchdAbsTm_time_136) None 0 135 FC_SP T_TIMESTAMP (0 + TRG_OPT_DATA_CHANGED) None 0),
    (iedModel_Device1_DSCH1_SchdAbsTm_time_136,
    DataAttribute None (Some iedModel_Device1_DSCH1_SchdAbsTm_time) (Some iedModel_Device1_DSCH1_SchdAbsTm_time_137) None 0 136 FC_SP T_TIMESTAMP (0 + TRG_OPT_DATA_CHANGED) None 0),
    (iedModel_Device1_DSCH1_SchdAbsTm_time_137,
    DataAttribute None (Some iedModel_Device1_DSCH1_SchdAbsTm_time) (Some iedModel_Device1_DSCH1_SchdAbsTm_time_138) None 0 137 FC_SP T_TIMESTAMP (0 + TRG_OPT_DATA_CHANGED) None 0),
    (iedModel_Device1_DSCH1_SchdAbsTm_time_138,
    DataAttribute None (Some iedModel_Device1_DSCH1_SchdAbsTm_time) (Some iedModel_Device1_DSCH1_SchdAbsTm_time_139) None 0 138 FC_SP T_TIMESTAMP (0 + TRG_OPT_DATA_CHANGED) None 0),
    (iedModel_Device1_DSCH1_SchdAbsTm_time_139,
    DataAttribute None (Some iedModel_Device1_DSCH1_SchdAbsTm_time) (Some iedModel_Device1_DSCH1_SchdAbsTm_time_140) None 0 139 FC_SP T_TIMESTAMP (0 + TRG_OPT_DATA_CHANGED) None 0)]"

definition sample_SchdAbsTm_time_elements_15 :: node_table where
  "sample_SchdAbsTm_time_elements_15 =
   [(iedModel_Device1_DSCH1_SchdAbsTm_time_140,
    DataAttribute None (Some iedModel_Device1_DSCH1_SchdAbsTm_time) (Some iedModel_Device1_DSCH1_SchdAbsTm_time_141) None 0 140 FC_SP T_TIMESTAMP (0 + TRG_OPT_DATA_CHANGED) None 0),
    (iedModel_Device1_DSCH1_SchdAbsTm_time_141,
    DataAttribute None (Some iedModel_Device1_DSCH1_SchdAbsTm_time) (Some iedModel_Device1_DSCH1_SchdAbsTm_time_142) None 0 141 FC_SP T_TIMESTAMP (0 + TRG_OPT_DATA_CHANGED) None 0),
    (iedModel_Device1_DSCH1_SchdAbsTm_time_142,
    DataAttribute None (Some iedModel_Device1_DSCH1_SchdAbsTm_time) (Some iedModel_Device1_DSCH1_SchdAbsTm_time_143) None 0 142 FC_SP T_TIMESTAMP (0 + TRG_OPT_DATA_CHANGED) None 0),
    (iedModel_Device1_DSCH1_SchdAbsTm_time_143,
    DataAttribute None (Some iedModel_Device1_DSCH1_SchdAbsTm_time) (Some iedModel_Device1_DSCH1_SchdAbsTm_time_144) None 0 143 FC_SP T_TIMESTAMP (0 + TRG_OPT_DATA_CHANGED) None 0),
    (iedModel_Device1_DSCH1_SchdAbsTm_time_144,
    DataAttribute None (Some iedModel_Device1_DSCH1_SchdAbsTm_time) (Some iedModel_Device1_DSCH1_SchdAbsTm_time_145) None 0 144 FC_SP T_TIMESTAMP (0 + TRG_OPT_DATA_CHANGED) None 0),
    (iedModel_Device1_DSCH1_SchdAbsTm_time_145,
    DataAttribute None (Some iedModel_Device1_DSCH1_SchdAbsTm_time) (Some iedModel_Device1_DSCH1_SchdAbsTm_time_146) None 0 145 FC_SP T_TIMESTAMP (0 + TRG_OPT_DATA_CHANGED) None 0),
    (iedModel_Device1_DSCH1_SchdAbsTm_time_146,
    DataAttribute None (Some iedModel_Device1_DSCH1_SchdAbsTm_time) (Some iedModel_Device1_DSCH1_SchdAbsTm_time_147) None 0 146 FC_SP T_TIMESTAMP (0 + TRG_OPT_DATA_CHANGED) None 0),
    (iedModel_Device1_DSCH1_SchdAbsTm_time_147,
    DataAttribute None (Some iedModel_Device1_DSCH1_SchdAbsTm_time) (Some iedModel_Device1_DSCH1_SchdAbsTm_time_148) None 0 147 FC_SP T_TIMESTAMP (0 + TRG_OPT_DATA_CHANGED) None 0),
    (iedModel_Device1_DSCH1_SchdAbsTm_time_148,
    DataAttribute None (Some iedModel_Device1_DSCH1_SchdAbsTm_time) (Some iedModel_Device1_DSCH1_SchdAbsTm_time_149) None 0 148 FC_SP T_TIMESTAMP (0 + TRG_OPT_DATA_CHANGED) None 0),
    (iedModel_Device1_DSCH1_SchdAbsTm_time_149,
    DataAttribute None (Some iedModel_Device1_DSCH1_SchdAbsTm_time) (Some iedModel_Device1_DSCH1_SchdAbsTm_time_150) None 0 149 FC_SP T_TIMESTAMP (0 + TRG_OPT_DATA_CHANGED) None 0)]"

definition sample_SchdAbsTm_time_elements_16 :: node_table where
  "sample_SchdAbsTm_time_elements_16 =
   [(iedModel_Device1_DSCH1_SchdAbsTm_time_150,
    DataAttribute None (Some iedModel_Device1_DSCH1_SchdAbsTm_time) (Some iedModel_Device1_DSCH1_SchdAbsTm_time_151) None 0 150 FC_SP T_TIMESTAMP (0 + TRG_OPT_DATA_CHANGED) None 0),
    (iedModel_Device1_DSCH1_SchdAbsTm_time_151,
    DataAttribute None (Some iedModel_Device1_DSCH1_SchdAbsTm_time) (Some iedModel_Device1_DSCH1_SchdAbsTm_time_152) None 0 151 FC_SP T_TIMESTAMP (0 + TRG_OPT_DATA_CHANGED) None 0),
    (iedModel_Device1_DSCH1_SchdAbsTm_time_152,
    DataAttribute None (Some iedModel_Device1_DSCH1_SchdAbsTm_time) (Some iedModel_Device1_DSCH1_SchdAbsTm_time_153) None 0 152 FC_SP T_TIMESTAMP (0 + TRG_OPT_DATA_CHANGED) None 0),
    (iedModel_Device1_DSCH1_SchdAbsTm_time_153,
    DataAttribute None (Some iedModel_Device1_DSCH1_SchdAbsTm_time) (Some iedModel_Device1_DSCH1_SchdAbsTm_time_154) None 0 153 FC_SP T_TIMESTAMP (0 + TRG_OPT_DATA_CHANGED) None 0),
    (iedModel_Device1_DSCH1_SchdAbsTm_time_154,
    DataAttribute None (Some iedModel_Device1_DSCH1_SchdAbsTm_time) (Some iedModel_Device1_DSCH1_SchdAbsTm_time_155) None 0 154 FC_SP T_TIMESTAMP (0 + TRG_OPT_DATA_CHANGED) None 0),
    (iedModel_Device1_DSCH1_SchdAbsTm_time_155,
    DataAttribute None (Some iedModel_Device1_DSCH1_SchdAbsTm_time) (Some iedModel_Device1_DSCH1_SchdAbsTm_time_156) None 0 155 FC_SP T_TIMESTAMP (0 + TRG_OPT_DATA_CHANGED) None 0),
    (iedModel_Device1_DSCH1_SchdAbsTm_time_156,
    DataAttribute None (Some iedModel_Device1_DSCH1_SchdAbsTm_time) (Some iedModel_Device1_DSCH1_SchdAbsTm_time_157) None 0 156 FC_SP T_TIMESTAMP (0 + TRG_OPT_DATA_CHANGED) None 0),
    (iedModel_Device1_DSCH1_SchdAbsTm_time_157,
    DataAttribute None (Some iedModel_Device1_DSCH1_SchdAbsTm_time) (Some iedModel_Device1_DSCH1_SchdAbsTm_time_158) None 0 157 FC_SP T_TIMESTAMP (0 + TRG_OPT_DATA_CHANGED) None 0),
    (iedModel_Device1_DSCH1_SchdAbsTm_time_158,
    DataAttribute None (Some iedModel_Device1_DSCH1_SchdAbsTm_time) (Some iedModel_Device1_DSCH1_SchdAbsTm_time_159) None 0 158 FC_SP T_TIMESTAMP (0 + TRG_OPT_DATA_CHANGED) None 0),
    (iedModel_Device1_DSCH1_SchdAbsTm_time_159,
    DataAttribute None (Some iedModel_Device1_DSCH1_SchdAbsTm_time) (Some iedModel_Device1_DSCH1_SchdAbsTm_time_160) None 0 159 FC_SP T_TIMESTAMP (0 + TRG_OPT_DATA_CHANGED) None 0)]"

definition sample_SchdAbsTm_time_elements_17 :: node_table where
  "sample_SchdAbsTm_time_elements_17 =
   [(iedModel_Device1_DSCH1_SchdAbsTm_time_160,
    DataAttribute None (Some iedModel_Device1_DSCH1_SchdAbsTm_time) (Some iedModel_Device1_DSCH1_SchdAbsTm_time_161) None 0 160 FC_SP T_TIMESTAMP (0 + TRG_OPT_DATA_CHANGED) None 0),
    (iedModel_Device1_DSCH1_SchdAbsTm_time_161,
    DataAttribute None (Some iedModel_Device1_DSCH1_SchdAbsTm_time) (Some iedModel_Device1_DSCH1_SchdAbsTm_time_162) None 0 161 FC_SP T_TIMESTAMP (0 + TRG_OPT_DATA_CHANGED) None 0),
    (iedModel_Device1_DSCH1_SchdAbsTm_time_162,
    DataAttribute None (Some iedModel_Device1_DSCH1_SchdAbsTm_time) (Some iedModel_Device1_DSCH1_SchdAbsTm_time_163) None 0 162 FC_SP T_TIMESTAMP (0 + TRG_OPT_DATA_CHANGED) None 0),
    (iedModel_Device1_DSCH1_SchdAbsTm_time_163,
    DataAttribute None (Some iedModel_Device1_DSCH1_SchdAbsTm_time) (Some iedModel_Device1_DSCH1_SchdAbsTm_time_164) None 0 163 FC_SP T_TIMESTAMP (0 + TRG_OPT_DATA_CHANGED) None 0),
    (iedModel_Device1_DSCH1_SchdAbsTm_time_164,
    DataAttribute None (Some iedModel_Device1_DSCH1_SchdAbsTm_time) (Some iedModel_Device1_DSCH1_SchdAbsTm_time_165) None 0 164 FC_SP T_TIMESTAMP (0 + TRG_OPT_DATA_CHANGED) None 0),
    (iedModel_Device1_DSCH1_SchdAbsTm_time_165,
    DataAttribute None (Some iedModel_Device1_DSCH1_SchdAbsTm_time) (Some iedModel_Device1_DSCH1_SchdAbsTm_time_166) None 0 165 FC_SP T_TIMESTAMP (0 + TRG_OPT_DATA_CHANGED) None 0),
    (iedModel_Device1_DSCH1_SchdAbsTm_time_166,
    DataAttribute None (Some iedModel_Device1_DSCH1_SchdAbsTm_time) (Some iedModel_Device1_DSCH1_SchdAbsTm_time_167) None 0 166 FC_SP T_TIMESTAMP (0 + TRG_OPT_DATA_CHANGED) None 0),
    (iedModel_Device1_DSCH1_SchdAbsTm_time_167,
    DataAttribute None (Some iedModel_Device1_DSCH1_SchdAbsTm_time) (Some iedModel_Device1_DSCH1_SchdAbsTm_time_168) None 0 167 FC_SP T_TIMESTAMP (0 + TRG_OPT_DATA_CHANGED) None 0),
    (iedModel_Device1_DSCH1_SchdAbsTm_time_168,
    DataAttribute None (Some iedModel_Device1_DSCH1_SchdAbsTm_time) (Some iedModel_Device1_DSCH1_SchdAbsTm_time_169) None 0 168 FC_SP T_TIMESTAMP (0 + TRG_OPT_DATA_CHANGED) None 0),
    (iedModel_Device1_DSCH1_SchdAbsTm_time_169,
    DataAttribute None (Some iedModel_Device1_DSCH1_SchdAbsTm_time) (Some iedModel_Device1_DSCH1_SchdAbsTm_time_170) None 0 169 FC_SP T_TIMESTAMP (0 + TRG_OPT_DATA_CHANGED) None 0)]"

definition sample_SchdAbsTm_time_elements_18 :: node_table where
  "sample_SchdAbsTm_time_elements_18 =
   [(iedModel_Device1_DSCH1_SchdAbsTm_time_170,
    DataAttribute None (Some iedModel_Device1_DSCH1_SchdAbsTm_time) (Some iedModel_Device1_DSCH1_SchdAbsTm_time_171) None 0 170 FC_SP T_TIMESTAMP (0 + TRG_OPT_DATA_CHANGED) None 0),
    (iedModel_Device1_DSCH1_SchdAbsTm_time_171,
    DataAttribute None (Some iedModel_Device1_DSCH1_SchdAbsTm_time) (Some iedModel_Device1_DSCH1_SchdAbsTm_time_172) None 0 171 FC_SP T_TIMESTAMP (0 + TRG_OPT_DATA_CHANGED) None 0),
    (iedModel_Device1_DSCH1_SchdAbsTm_time_172,
    DataAttribute None (Some iedModel_Device1_DSCH1_SchdAbsTm_time) (Some iedModel_Device1_DSCH1_SchdAbsTm_time_173) None 0 172 FC_SP T_TIMESTAMP (0 + TRG_OPT_DATA_CHANGED) None 0),
    (iedModel_Device1_DSCH1_SchdAbsTm_time_173,
    DataAttribute None (Some iedModel_Device1_DSCH1_SchdAbsTm_time) (Some iedModel_Device1_DSCH1_SchdAbsTm_time_174) None 0 173 FC_SP T_TIMESTAMP (0 + TRG_OPT_DATA_CHANGED) None 0),
    (iedModel_Device1_DSCH1_SchdAbsTm_time_174,
    DataAttribute None (Some iedModel_Device1_DSCH1_SchdAbsTm_time) (Some iedModel_Device1_DSCH1_SchdAbsTm_time_175) None 0 174 FC_SP T_TIMESTAMP (0 + TRG_OPT_DATA_CHANGED) None 0),
    (iedModel_Device1_DSCH1_SchdAbsTm_time_175,
    DataAttribute None (Some iedModel_Device1_DSCH1_SchdAbsTm_time) (Some iedModel_Device1_DSCH1_SchdAbsTm_time_176) None 0 175 FC_SP T_TIMESTAMP (0 + TRG_OPT_DATA_CHANGED) None 0),
    (iedModel_Device1_DSCH1_SchdAbsTm_time_176,
    DataAttribute None (Some iedModel_Device1_DSCH1_SchdAbsTm_time) (Some iedModel_Device1_DSCH1_SchdAbsTm_time_177) None 0 176 FC_SP T_TIMESTAMP (0 + TRG_OPT_DATA_CHANGED) None 0),
    (iedModel_Device1_DSCH1_SchdAbsTm_time_177,
    DataAttribute None (Some iedModel_Device1_DSCH1_SchdAbsTm_time) (Some iedModel_Device1_DSCH1_SchdAbsTm_time_178) None 0 177 FC_SP T_TIMESTAMP (0 + TRG_OPT_DATA_CHANGED) None 0),
    (iedModel_Device1_DSCH1_SchdAbsTm_time_178,
    DataAttribute None (Some iedModel_Device1_DSCH1_SchdAbsTm_time) (Some iedModel_Device1_DSCH1_SchdAbsTm_time_179) None 0 178 FC_SP T_TIMESTAMP (0 + TRG_OPT_DATA_CHANGED) None 0),
    (iedModel_Device1_DSCH1_SchdAbsTm_time_179,
    DataAttribute None (Some iedModel_Device1_DSCH1_SchdAbsTm_time) (Some iedModel_Device1_DSCH1_SchdAbsTm_time_180) None 0 179 FC_SP T_TIMESTAMP (0 + TRG_OPT_DATA_CHANGED) None 0)]"

definition sample_SchdAbsTm_time_elements_19 :: node_table where
  "sample_SchdAbsTm_time_elements_19 =
   [(iedModel_Device1_DSCH1_SchdAbsTm_time_180,
    DataAttribute None (Some iedModel_Device1_DSCH1_SchdAbsTm_time) (Some iedModel_Device1_DSCH1_SchdAbsTm_time_181) None 0 180 FC_SP T_TIMESTAMP (0 + TRG_OPT_DATA_CHANGED) None 0),
    (iedModel_Device1_DSCH1_SchdAbsTm_time_181,
    DataAttribute None (Some iedModel_Device1_DSCH1_SchdAbsTm_time) (Some iedModel_Device1_DSCH1_SchdAbsTm_time_182) None 0 181 FC_SP T_TIMESTAMP (0 + TRG_OPT_DATA_CHANGED) None 0),
    (iedModel_Device1_DSCH1_SchdAbsTm_time_182,
    DataAttribute None (Some iedModel_Device1_DSCH1_SchdAbsTm_time) (Some iedModel_Device1_DSCH1_SchdAbsTm_time_183) None 0 182 FC_SP T_TIMESTAMP (0 + TRG_OPT_DATA_CHANGED) None 0),
    (iedModel_Device1_DSCH1_SchdAbsTm_time_183,
    DataAttribute None (Some iedModel_Device1_DSCH1_SchdAbsTm_time) (Some iedModel_Device1_DSCH1_SchdAbsTm_time_184) None 0 183 FC_SP T_TIMESTAMP (0 + TRG_OPT_DATA_CHANGED) None 0),
    (iedModel_Device1_DSCH1_SchdAbsTm_time_184,
    DataAttribute None (Some iedModel_Device1_DSCH1_SchdAbsTm_time) (Some iedModel_Device1_DSCH1_SchdAbsTm_time_185) None 0 184 FC_SP T_TIMESTAMP (0 + TRG_OPT_DATA_CHANGED) None 0),
    (iedModel_Device1_DSCH1_SchdAbsTm_time_185,
    DataAttribute None (Some iedModel_Device1_DSCH1_SchdAbsTm_time) (Some iedModel_Device1_DSCH1_SchdAbsTm_time_186) None 0 185 FC_SP T_TIMESTAMP (0 + TRG_OPT_DATA_CHANGED) None 0),
    (iedModel_Device1_DSCH1_SchdAbsTm_time_186,
    DataAttribute None (Some iedModel_Device1_DSCH1_SchdAbsTm_time) (Some iedModel_Device1_DSCH1_SchdAbsTm_time_187) None 0 186 FC_SP T_TIMESTAMP (0 + TRG_OPT_DATA_CHANGED) None 0),
    (iedModel_Device1_DSCH1_SchdAbsTm_time_187,
    DataAttribute None (Some iedModel_Device1_DSCH1_SchdAbsTm_time) (Some iedModel_Device1_DSCH1_SchdAbsTm_time_188) None 0 187 FC_SP T_TIMESTAMP (0 + TRG_OPT_DATA_CHANGED) None 0),
    (iedModel_Device1_DSCH1_SchdAbsTm_time_188,
    DataAttribute None (Some iedModel_Device1_DSCH1_SchdAbsTm_time) (Some iedModel_Device1_DSCH1_SchdAbsTm_time_189) None 0 188 FC_SP T_TIMESTAMP (0 + TRG_OPT_DATA_CHANGED) None 0),
    (iedModel_Device1_DSCH1_SchdAbsTm_time_189,
    DataAttribute None (Some iedModel_Device1_DSCH1_SchdAbsTm_time) (Some iedModel_Device1_DSCH1_SchdAbsTm_time_190) None 0 189 FC_SP T_TIMESTAMP (0 + TRG_OPT_DATA_CHANGED) None 0)]"

definition sample_SchdAbsTm_time_elements_20 :: node_table where
  "sample_SchdAbsTm_time_elements_20 =
   [(iedModel_Device1_DSCH1_SchdAbsTm_time_190,
    DataAttribute None (Some iedModel_Device1_DSCH1_SchdAbsTm_time) (Some iedModel_Device1_DSCH1_SchdAbsTm_time_191) None 0 190 FC_SP T_TIMESTAMP (0 + TRG_OPT_DATA_CHANGED) None 0),
    (iedModel_Device1_DSCH1_SchdAbsTm_time_191,
    DataAttribute None (Some iedModel_Device1_DSCH1_SchdAbsTm_time) (Some iedModel_Device1_DSCH1_SchdAbsTm_time_192) None 0 191 FC_SP T_TIMESTAMP (0 + TRG_OPT_DATA_CHANGED) None 0),
    (iedModel_Device1_DSCH1_SchdAbsTm_time_192,
    DataAttribute None (Some iedModel_Device1_DSCH1_SchdAbsTm_time) (Some iedModel_Device1_DSCH1_SchdAbsTm_time_193) None 0 192 FC_SP T_TIMESTAMP (0 + TRG_OPT_DATA_CHANGED) None 0),
    (iedModel_Device1_DSCH1_SchdAbsTm_time_193,
    DataAttribute None (Some iedModel_Device1_DSCH1_SchdAbsTm_time) (Some iedModel_Device1_DSCH1_SchdAbsTm_time_194) None 0 193 FC_SP T_TIMESTAMP (0 + TRG_OPT_DATA_CHANGED) None 0),
    (iedModel_Device1_DSCH1_SchdAbsTm_time_194,
    DataAttribute None (Some iedModel_Device1_DSCH1_SchdAbsTm_time) (Some iedModel_Device1_DSCH1_SchdAbsTm_time_195) None 0 194 FC_SP T_TIMESTAMP (0 + TRG_OPT_DATA_CHANGED) None 0),
    (iedModel_Device1_DSCH1_SchdAbsTm_time_195,
    DataAttribute None (Some iedModel_Device1_DSCH1_SchdAbsTm_time) (Some iedModel_Device1_DSCH1_SchdAbsTm_time_196) None 0 195 FC_SP T_TIMESTAMP (0 + TRG_OPT_DATA_CHANGED) None 0),
    (iedModel_Device1_DSCH1_SchdAbsTm_time_196,
    DataAttribute None (Some iedModel_Device1_DSCH1_SchdAbsTm_time) (Some iedModel_Device1_DSCH1_SchdAbsTm_time_197) None 0 196 FC_SP T_TIMESTAMP (0 + TRG_OPT_DATA_CHANGED) None 0),
    (iedModel_Device1_DSCH1_SchdAbsTm_time_197,
    DataAttribute None (Some iedModel_Device1_DSCH1_SchdAbsTm_time) (Some iedModel_Device1_DSCH1_SchdAbsTm_time_198) None 0 197 FC_SP T_TIMESTAMP (0 + TRG_OPT_DATA_CHANGED) None 0),
    (iedModel_Device1_DSCH1_SchdAbsTm_time_198,
    DataAttribute None (Some iedModel_Device1_DSCH1_SchdAbsTm_time) (Some iedModel_Device1_DSCH1_SchdAbsTm_time_199) None 0 198 FC_SP T_TIMESTAMP (0 + TRG_OPT_DATA_CHANGED) None 0),
    (iedModel_Device1_DSCH1_SchdAbsTm_time_199,
    DataAttribute None (Some iedModel_Device1_DSCH1_SchdAbsTm_time) (Some iedModel_Device1_DSCH1_SchdAbsTm_time_200) None 0 199 FC_SP T_TIMESTAMP (0 + TRG_OPT_DATA_CHANGED) None 0)]"

definition sample_SchdAbsTm_time_elements_21 :: node_table where
  "sample_SchdAbsTm_time_elements_21 =
   [(iedModel_Device1_DSCH1_SchdAbsTm_time_200,
    DataAttribute None (Some iedModel_Device1_DSCH1_SchdAbsTm_time) (Some iedModel_Device1_DSCH1_SchdAbsTm_time_201) None 0 200 FC_SP T_TIMESTAMP (0 + TRG_OPT_DATA_CHANGED) None 0),
    (iedModel_Device1_DSCH1_SchdAbsTm_time_201,
    DataAttribute None (Some iedModel_Device1_DSCH1_SchdAbsTm_time) (Some iedModel_Device1_DSCH1_SchdAbsTm_time_202) None 0 201 FC_SP T_TIMESTAMP (0 + TRG_OPT_DATA_CHANGED) None 0),
    (iedModel_Device1_DSCH1_SchdAbsTm_time_202,
    DataAttribute None (Some iedModel_Device1_DSCH1_SchdAbsTm_time) (Some iedModel_Device1_DSCH1_SchdAbsTm_time_203) None 0 202 FC_SP T_TIMESTAMP (0 + TRG_OPT_DATA_CHANGED) None 0),
    (iedModel_Device1_DSCH1_SchdAbsTm_time_203,
    DataAttribute None (Some iedModel_Device1_DSCH1_SchdAbsTm_time) (Some iedModel_Device1_DSCH1_SchdAbsTm_time_204) None 0 203 FC_SP T_TIMESTAMP (0 + TRG_OPT_DATA_CHANGED) None 0),
    (iedModel_Device1_DSCH1_SchdAbsTm_time_204,
    DataAttribute None (Some iedModel_Device1_DSCH1_SchdAbsTm_time) (Some iedModel_Device1_DSCH1_SchdAbsTm_time_205) None 0 204 FC_SP T_TIMESTAMP (0 + TRG_OPT_DATA_CHANGED) None 0),
    (iedModel_Device1_DSCH1_SchdAbsTm_time_205,
    DataAttribute None (Some iedModel_Device1_DSCH1_SchdAbsTm_time) (Some iedModel_Device1_DSCH1_SchdAbsTm_time_206) None 0 205 FC_SP T_TIMESTAMP (0 + TRG_OPT_DATA_CHANGED) None 0),
    (iedModel_Device1_DSCH1_SchdAbsTm_time_206,
    DataAttribute None (Some iedModel_Device1_DSCH1_SchdAbsTm_time) (Some iedModel_Device1_DSCH1_SchdAbsTm_time_207) None 0 206 FC_SP T_TIMESTAMP (0 + TRG_OPT_DATA_CHANGED) None 0),
    (iedModel_Device1_DSCH1_SchdAbsTm_time_207,
    DataAttribute None (Some iedModel_Device1_DSCH1_SchdAbsTm_time) (Some iedModel_Device1_DSCH1_SchdAbsTm_time_208) None 0 207 FC_SP T_TIMESTAMP (0 + TRG_OPT_DATA_CHANGED) None 0),
    (iedModel_Device1_DSCH1_SchdAbsTm_time_208,
    DataAttribute None (Some iedModel_Device1_DSCH1_SchdAbsTm_time) (Some iedModel_Device1_DSCH1_SchdAbsTm_time_209) None 0 208 FC_SP T_TIMESTAMP (0 + TRG_OPT_DATA_CHANGED) None 0),
    (iedModel_Device1_DSCH1_SchdAbsTm_time_209,
    DataAttribute None (Some iedModel_Device1_DSCH1_SchdAbsTm_time) (Some iedModel_Device1_DSCH1_SchdAbsTm_time_210) None 0 209 FC_SP T_TIMESTAMP (0 + TRG_OPT_DATA_CHANGED) None 0)]"

definition sample_SchdAbsTm_time_elements_22 :: node_table where
  "sample_SchdAbsTm_time_elements_22 =
   [(iedModel_Device1_DSCH1_SchdAbsTm_time_210,
    DataAttribute None (Some iedModel_Device1_DSCH1_SchdAbsTm_time) (Some iedModel_Device1_DSCH1_SchdAbsTm_time_211) None 0 210 FC_SP T_TIMESTAMP (0 + TRG_OPT_DATA_CHANGED) None 0),
    (iedModel_Device1_DSCH1_SchdAbsTm_time_211,
    DataAttribute None (Some iedModel_Device1_DSCH1_SchdAbsTm_time) (Some iedModel_Device1_DSCH1_SchdAbsTm_time_212) None 0 211 FC_SP T_TIMESTAMP (0 + TRG_OPT_DATA_CHANGED) None 0),
    (iedModel_Device1_DSCH1_SchdAbsTm_time_212,
    DataAttribute None (Some iedModel_Device1_DSCH1_SchdAbsTm_time) (Some iedModel_Device1_DSCH1_SchdAbsTm_time_213) None 0 212 FC_SP T_TIMESTAMP (0 + TRG_OPT_DATA_CHANGED) None 0),
    (iedModel_Device1_DSCH1_SchdAbsTm_time_213,
    DataAttribute None (Some iedModel_Device1_DSCH1_SchdAbsTm_time) (Some iedModel_Device1_DSCH1_SchdAbsTm_time_214) None 0 213 FC_SP T_TIMESTAMP (0 + TRG_OPT_DATA_CHANGED) None 0),
    (iedModel_Device1_DSCH1_SchdAbsTm_time_214,
    DataAttribute None (Some iedModel_Device1_DSCH1_SchdAbsTm_time) (Some iedModel_Device1_DSCH1_SchdAbsTm_time_215) None 0 214 FC_SP T_TIMESTAMP (0 + TRG_OPT_DATA_CHANGED) None 0),
    (iedModel_Device1_DSCH1_SchdAbsTm_time_215,
    DataAttribute None (Some iedModel_Device1_DSCH1_SchdAbsTm_time) (Some iedModel_Device1_DSCH1_SchdAbsTm_time_216) None 0 215 FC_SP T_TIMESTAMP (0 + TRG_OPT_DATA_CHANGED) None 0),
    (iedModel_Device1_DSCH1_SchdAbsTm_time_216,
    DataAttribute None (Some iedModel_Device1_DSCH1_SchdAbsTm_time) (Some iedModel_Device1_DSCH1_SchdAbsTm_time_217) None 0 216 FC_SP T_TIMESTAMP (0 + TRG_OPT_DATA_CHANGED) None 0),
    (iedModel_Device1_DSCH1_SchdAbsTm_time_217,
    DataAttribute None (Some iedModel_Device1_DSCH1_SchdAbsTm_time) (Some iedModel_Device1_DSCH1_SchdAbsTm_time_218) None 0 217 FC_SP T_TIMESTAMP (0 + TRG_OPT_DATA_CHANGED) None 0),
    (iedModel_Device1_DSCH1_SchdAbsTm_time_218,
    DataAttribute None (Some iedModel_Device1_DSCH1_SchdAbsTm_time) (Some iedModel_Device1_DSCH1_SchdAbsTm_time_219) None 0 218 FC_SP T_TIMESTAMP (0 + TRG_OPT_DATA_CHANGED) None 0),
    (iedModel_Device1_DSCH1_SchdAbsTm_time_219,
    DataAttribute None (Some iedModel_Device1_DSCH1_SchdAbsTm_time) (Some iedModel_Device1_DSCH1_SchdAbsTm_time_220) None 0 219 FC_SP T_TIMESTAMP (0 + TRG_OPT_DATA_CHANGED) None 0)]"

definition sample_SchdAbsTm_time_elements_23 :: node_table where
  "sample_SchdAbsTm_time_elements_23 =
   [(iedModel_Device1_DSCH1_SchdAbsTm_time_220,
    DataAttribute None (Some iedModel_Device1_DSCH1_SchdAbsTm_time) (Some iedModel_Device1_DSCH1_SchdAbsTm_time_221) None 0 220 FC_SP T_TIMESTAMP (0 + TRG_OPT_DATA_CHANGED) None 0),
    (iedModel_Device1_DSCH1_SchdAbsTm_time_221,
    DataAttribute None (Some iedModel_Device1_DSCH1_SchdAbsTm_time) (Some iedModel_Device1_DSCH1_SchdAbsTm_time_222) None 0 221 FC_SP T_TIMESTAMP (0 + TRG_OPT_DATA_CHANGED) None 0),
    (iedModel_Device1_DSCH1_SchdAbsTm_time_222,
    DataAttribute None (Some iedModel_Device1_DSCH1_SchdAbsTm_time) (Some iedModel_Device1_DSCH1_SchdAbsTm_time_223) None 0 222 FC_SP T_TIMESTAMP (0 + TRG_OPT_DATA_CHANGED) None 0),
    (iedModel_Device1_DSCH1_SchdAbsTm_time_223,
    DataAttribute None (Some iedModel_Device1_DSCH1_SchdAbsTm_time) (Some iedModel_Device1_DSCH1_SchdAbsTm_time_224) None 0 223 FC_SP T_TIMESTAMP (0 + TRG_OPT_DATA_CHANGED) None 0),
    (iedModel_Device1_DSCH1_SchdAbsTm_time_224,
    DataAttribute None (Some iedModel_Device1_DSCH1_SchdAbsTm_time) (Some iedModel_Device1_DSCH1_SchdAbsTm_time_225) None 0 224 FC_SP T_TIMESTAMP (0 + TRG_OPT_DATA_CHANGED) None 0),
    (iedModel_Device1_DSCH1_SchdAbsTm_time_225,
    DataAttribute None (Some iedModel_Device1_DSCH1_SchdAbsTm_time) (Some iedModel_Device1_DSCH1_SchdAbsTm_time_226) None 0 225 FC_SP T_TIMESTAMP (0 + TRG_OPT_DATA_CHANGED) None 0),
    (iedModel_Device1_DSCH1_SchdAbsTm_time_226,
    DataAttribute None (Some iedModel_Device1_DSCH1_SchdAbsTm_time) (Some iedModel_Device1_DSCH1_SchdAbsTm_time_227) None 0 226 FC_SP T_TIMESTAMP (0 + TRG_OPT_DATA_CHANGED) None 0),
    (iedModel_Device1_DSCH1_SchdAbsTm_time_227,
    DataAttribute None (Some iedModel_Device1_DSCH1_SchdAbsTm_time) (Some iedModel_Device1_DSCH1_SchdAbsTm_time_228) None 0 227 FC_SP T_TIMESTAMP (0 + TRG_OPT_DATA_CHANGED) None 0),
    (iedModel_Device1_DSCH1_SchdAbsTm_time_228,
    DataAttribute None (Some iedModel_Device1_DSCH1_SchdAbsTm_time) (Some iedModel_Device1_DSCH1_SchdAbsTm_time_229) None 0 228 FC_SP T_TIMESTAMP (0 + TRG_OPT_DATA_CHANGED) None 0),
    (iedModel_Device1_DSCH1_SchdAbsTm_time_229,
    DataAttribute None (Some iedModel_Device1_DSCH1_SchdAbsTm_time) (Some iedModel_Device1_DSCH1_SchdAbsTm_time_230) None 0 229 FC_SP T_TIMESTAMP (0 + TRG_OPT_DATA_CHANGED) None 0)]"

definition sample_SchdAbsTm_time_elements_24 :: node_table where
  "sample_SchdAbsTm_time_elements_24 =
   [(iedModel_Device1_DSCH1_SchdAbsTm_time_230,
    DataAttribute None (Some iedModel_Device1_DSCH1_SchdAbsTm_time) (Some iedModel_Device1_DSCH1_SchdAbsTm_time_231) None 0 230 FC_SP T_TIMESTAMP (0 + TRG_OPT_DATA_CHANGED) None 0),
    (iedModel_Device1_DSCH1_SchdAbsTm_time_231,
    DataAttribute None (Some iedModel_Device1_DSCH1_SchdAbsTm_time) (Some iedModel_Device1_DSCH1_SchdAbsTm_time_232) None 0 231 FC_SP T_TIMESTAMP (0 + TRG_OPT_DATA_CHANGED) None 0),
    (iedModel_Device1_DSCH1_SchdAbsTm_time_232,
    DataAttribute None (Some iedModel_Device1_DSCH1_SchdAbsTm_time) (Some iedModel_Device1_DSCH1_SchdAbsTm_time_233) None 0 232 FC_SP T_TIMESTAMP (0 + TRG_OPT_DATA_CHANGED) None 0),
    (iedModel_Device1_DSCH1_SchdAbsTm_time_233,
    DataAttribute None (Some iedModel_Device1_DSCH1_SchdAbsTm_time) (Some iedModel_Device1_DSCH1_SchdAbsTm_time_234) None 0 233 FC_SP T_TIMESTAMP (0 + TRG_OPT_DATA_CHANGED) None 0),
    (iedModel_Device1_DSCH1_SchdAbsTm_time_234,
    DataAttribute None (Some iedModel_Device1_DSCH1_SchdAbsTm_time) (Some iedModel_Device1_DSCH1_SchdAbsTm_time_235) None 0 234 FC_SP T_TIMESTAMP (0 + TRG_OPT_DATA_CHANGED) None 0),
    (iedModel_Device1_DSCH1_SchdAbsTm_time_235,
    DataAttribute None (Some iedModel_Device1_DSCH1_SchdAbsTm_time) (Some iedModel_Device1_DSCH1_SchdAbsTm_time_236) None 0 235 FC_SP T_TIMESTAMP (0 + TRG_OPT_DATA_CHANGED) None 0),
    (iedModel_Device1_DSCH1_SchdAbsTm_time_236,
    DataAttribute None (Some iedModel_Device1_DSCH1_SchdAbsTm_time) (Some iedModel_Device1_DSCH1_SchdAbsTm_time_237) None 0 236 FC_SP T_TIMESTAMP (0 + TRG_OPT_DATA_CHANGED) None 0),
    (iedModel_Device1_DSCH1_SchdAbsTm_time_237,
    DataAttribute None (Some iedModel_Device1_DSCH1_SchdAbsTm_time) (Some iedModel_Device1_DSCH1_SchdAbsTm_time_238) None 0 237 FC_SP T_TIMESTAMP (0 + TRG_OPT_DATA_CHANGED) None 0),
    (iedModel_Device1_DSCH1_SchdAbsTm_time_238,
    DataAttribute None (Some iedModel_Device1_DSCH1_SchdAbsTm_time) (Some iedModel_Device1_DSCH1_SchdAbsTm_time_239) None 0 238 FC_SP T_TIMESTAMP (0 + TRG_OPT_DATA_CHANGED) None 0),
    (iedModel_Device1_DSCH1_SchdAbsTm_time_239,
    DataAttribute None (Some iedModel_Device1_DSCH1_SchdAbsTm_time) (Some iedModel_Device1_DSCH1_SchdAbsTm_time_240) None 0 239 FC_SP T_TIMESTAMP (0 + TRG_OPT_DATA_CHANGED) None 0)]"

definition sample_SchdAbsTm_time_elements_25 :: node_table where
  "sample_SchdAbsTm_time_elements_25 =
   [(iedModel_Device1_DSCH1_SchdAbsTm_time_240,
    DataAttribute None (Some iedModel_Device1_DSCH1_SchdAbsTm_time) (Some iedModel_Device1_DSCH1_SchdAbsTm_time_241) None 0 240 FC_SP T_TIMESTAMP (0 + TRG_OPT_DATA_CHANGED) None 0),
    (iedModel_Device1_DSCH1_SchdAbsTm_time_241,
    DataAttribute None (Some iedModel_Device1_DSCH1_SchdAbsTm_time) (Some iedModel_Device1_DSCH1_SchdAbsTm_time_242) None 0 241 FC_SP T_TIMESTAMP (0 + TRG_OPT_DATA_CHANGED) None 0),
    (iedModel_Device1_DSCH1_SchdAbsTm_time_242,
    DataAttribute None (Some iedModel_Device1_DSCH1_SchdAbsTm_time) (Some iedModel_Device1_DSCH1_SchdAbsTm_time_243) None 0 242 FC_SP T_TIMESTAMP (0 + TRG_OPT_DATA_CHANGED) None 0),
    (iedModel_Device1_DSCH1_SchdAbsTm_time_243,
    DataAttribute None (Some iedModel_Device1_DSCH1_SchdAbsTm_time) (Some iedModel_Device1_DSCH1_SchdAbsTm_time_244) None 0 243 FC_SP T_TIMESTAMP (0 + TRG_OPT_DATA_CHANGED) None 0),
    (iedModel_Device1_DSCH1_SchdAbsTm_time_244,
    DataAttribute None (Some iedModel_Device1_DSCH1_SchdAbsTm_time) (Some iedModel_Device1_DSCH1_SchdAbsTm_time_245) None 0 244 FC_SP T_TIMESTAMP (0 + TRG_OPT_DATA_CHANGED) None 0),
    (iedModel_Device1_DSCH1_SchdAbsTm_time_245,
    DataAttribute None (Some iedModel_Device1_DSCH1_SchdAbsTm_time) (Some iedModel_Device1_DSCH1_SchdAbsTm_time_246) None 0 245 FC_SP T_TIMESTAMP (0 + TRG_OPT_DATA_CHANGED) None 0),
    (iedModel_Device1_DSCH1_SchdAbsTm_time_246,
    DataAttribute None (Some iedModel_Device1_DSCH1_SchdAbsTm_time) (Some iedModel_Device1_DSCH1_SchdAbsTm_time_247) None 0 246 FC_SP T_TIMESTAMP (0 + TRG_OPT_DATA_CHANGED) None 0),
    (iedModel_Device1_DSCH1_SchdAbsTm_time_247,
    DataAttribute None (Some iedModel_Device1_DSCH1_SchdAbsTm_time) (Some iedModel_Device1_DSCH1_SchdAbsTm_time_248) None 0 247 FC_SP T_TIMESTAMP (0 + TRG_OPT_DATA_CHANGED) None 0),
    (iedModel_Device1_DSCH1_SchdAbsTm_time_248,
    DataAttribute None (Some iedModel_Device1_DSCH1_SchdAbsTm_time) (Some iedModel_Device1_DSCH1_SchdAbsTm_time_249) None 0 248 FC_SP T_TIMESTAMP (0 + TRG_OPT_DATA_CHANGED) None 0),
    (iedModel_Device1_DSCH1_SchdAbsTm_time_249,
    DataAttribute None (Some iedModel_Device1_DSCH1_SchdAbsTm_time) (Some iedModel_Device1_DSCH1_SchdAbsTm_time_250) None 0 249 FC_SP T_TIMESTAMP (0 + TRG_OPT_DATA_CHANGED) None 0)]"

definition sample_SchdAbsTm_time_elements_26 :: node_table where
  "sample_SchdAbsTm_time_elements_26 =
   [(iedModel_Device1_DSCH1_SchdAbsTm_time_250,
    DataAttribute None (Some iedModel_Device1_DSCH1_SchdAbsTm_time) (Some iedModel_Device1_DSCH1_SchdAbsTm_time_251) None 0 250 FC_SP T_TIMESTAMP (0 + TRG_OPT_DATA_CHANGED) None 0),
    (iedModel_Device1_DSCH1_SchdAbsTm_time_251,
    DataAttribute None (Some iedModel_Device1_DSCH1_SchdAbsTm_time) (Some iedModel_Device1_DSCH1_SchdAbsTm_time_252) None 0 251 FC_SP T_TIMESTAMP (0 + TRG_OPT_DATA_CHANGED) None 0),
    (iedModel_Device1_DSCH1_SchdAbsTm_time_252,
    DataAttribute None (Some iedModel_Device1_DSCH1_SchdAbsTm_time) (Some iedModel_Device1_DSCH1_SchdAbsTm_time_253) None 0 252 FC_SP T_TIMESTAMP (0 + TRG_OPT_DATA_CHANGED) None 0),
    (iedModel_Device1_DSCH1_SchdAbsTm_time_253,
    DataAttribute None (Some iedModel_Device1_DSCH1_SchdAbsTm_time) (Some iedModel_Device1_DSCH1_SchdAbsTm_time_254) None 0 253 FC_SP T_TIMESTAMP (0 + TRG_OPT_DATA_CHANGED) None 0),
    (iedModel_Device1_DSCH1_SchdAbsTm_time_254,
    DataAttribute None (Some iedModel_Device1_DSCH1_SchdAbsTm_time) None None 0 254 FC_SP T_TIMESTAMP (0 + TRG_OPT_DATA_CHANGED) None 0)]"

definition sample_SchdAbsTm_time_elements :: node_table where
  "sample_SchdAbsTm_time_elements = concat [sample_SchdAbsTm_time_elements_1,
     sample_SchdAbsTm_time_elements_2,
     sample_SchdAbsTm_time_elements_3,
     sample_SchdAbsTm_time_elements_4,
     sample_SchdAbsTm_time_elements_5,
     sample_SchdAbsTm_time_elements_6,
     sample_SchdAbsTm_time_elements_7,
     sample_SchdAbsTm_time_elements_8,
     sample_SchdAbsTm_time_elements_9,
     sample_SchdAbsTm_time_elements_10,
     sample_SchdAbsTm_time_elements_11,
     sample_SchdAbsTm_time_elements_12,
     sample_SchdAbsTm_time_elements_13,
     sample_SchdAbsTm_time_elements_14,
     sample_SchdAbsTm_time_elements_15,
     sample_SchdAbsTm_time_elements_16,
     sample_SchdAbsTm_time_elements_17,
     sample_SchdAbsTm_time_elements_18,
     sample_SchdAbsTm_time_elements_19,
     sample_SchdAbsTm_time_elements_20,
     sample_SchdAbsTm_time_elements_21,
     sample_SchdAbsTm_time_elements_22,
     sample_SchdAbsTm_time_elements_23,
     sample_SchdAbsTm_time_elements_24,
     sample_SchdAbsTm_time_elements_25,
     sample_SchdAbsTm_time_elements_26]"

section \<open>Checking the lists\<close>

lemma scan_sample_SchdAbsTm_time: "scan [(Some iedModel_Device1_DSCH1_SchdAbsTm, Some iedModel_Device1_DSCH1_SchdAbsTm_time), (Some iedModel_Device1_DSCH1, None), (Some iedModel_Device1, Some iedModel_Device1_MMXU1), (Some iedModel, None)] sample_SchdAbsTm_time
    = Some [(Some iedModel_Device1_DSCH1_SchdAbsTm_time, Some iedModel_Device1_DSCH1_SchdAbsTm_time_0), (Some iedModel_Device1_DSCH1_SchdAbsTm, None), (Some iedModel_Device1_DSCH1, None), (Some iedModel_Device1, Some iedModel_Device1_MMXU1), (Some iedModel, None)]"
  by (simp add: sample_SchdAbsTm_time_def)

lemma conf_sample_SchdAbsTm_time: "list_all sample_conforms (map snd sample_SchdAbsTm_time)"
  by (simp add: sample_SchdAbsTm_time_def TRG_OPT_DATA_CHANGED_def TRG_OPT_QUALITY_CHANGED_def)

lemma addrs_sample_SchdAbsTm_time: "map fst sample_SchdAbsTm_time = [3347 ..< 3348]"
  by (simp add: sample_SchdAbsTm_time_def upt_rec_numeral)

lemma childless_sample_SchdAbsTm_time: "childless_objects sample_SchdAbsTm_time = []"
  by (simp add: sample_SchdAbsTm_time_def childless_objects_def)

lemma scan_sample_SchdAbsTm_time_elements_1: "scan [(Some iedModel_Device1_DSCH1_SchdAbsTm_time, Some iedModel_Device1_DSCH1_SchdAbsTm_time_0), (Some iedModel_Device1_DSCH1_SchdAbsTm, None), (Some iedModel_Device1_DSCH1, None), (Some iedModel_Device1, Some iedModel_Device1_MMXU1), (Some iedModel, None)] sample_SchdAbsTm_time_elements_1
    = Some [(Some iedModel_Device1_DSCH1_SchdAbsTm_time, Some iedModel_Device1_DSCH1_SchdAbsTm_time_10), (Some iedModel_Device1_DSCH1_SchdAbsTm, None), (Some iedModel_Device1_DSCH1, None), (Some iedModel_Device1, Some iedModel_Device1_MMXU1), (Some iedModel, None)]"
  by (simp add: sample_SchdAbsTm_time_elements_1_def)

lemma conf_sample_SchdAbsTm_time_elements_1: "list_all sample_conforms (map snd sample_SchdAbsTm_time_elements_1)"
  by (simp add: sample_SchdAbsTm_time_elements_1_def TRG_OPT_DATA_CHANGED_def TRG_OPT_QUALITY_CHANGED_def)

lemma addrs_sample_SchdAbsTm_time_elements_1: "map fst sample_SchdAbsTm_time_elements_1 = [3348 ..< 3358]"
  by (simp add: sample_SchdAbsTm_time_elements_1_def upt_rec_numeral)

lemma elements_sample_SchdAbsTm_time_elements_1: "sample_SchdAbsTm_time_elements_1 = map (array_element iedModel_Device1_DSCH1_SchdAbsTm_time iedModel_Device1_DSCH1_SchdAbsTm_time_0 255 FC_SP T_TIMESTAMP TRG_OPT_DATA_CHANGED) [0 ..< 10]"
  by (simp add: sample_SchdAbsTm_time_elements_1_def array_element_def upt_rec_numeral upt_ten)

lemma childless_sample_SchdAbsTm_time_elements_1: "childless_objects sample_SchdAbsTm_time_elements_1 = []"
  by (simp add: sample_SchdAbsTm_time_elements_1_def childless_objects_def)

lemma scan_sample_SchdAbsTm_time_elements_2: "scan [(Some iedModel_Device1_DSCH1_SchdAbsTm_time, Some iedModel_Device1_DSCH1_SchdAbsTm_time_10), (Some iedModel_Device1_DSCH1_SchdAbsTm, None), (Some iedModel_Device1_DSCH1, None), (Some iedModel_Device1, Some iedModel_Device1_MMXU1), (Some iedModel, None)] sample_SchdAbsTm_time_elements_2
    = Some [(Some iedModel_Device1_DSCH1_SchdAbsTm_time, Some iedModel_Device1_DSCH1_SchdAbsTm_time_20), (Some iedModel_Device1_DSCH1_SchdAbsTm, None), (Some iedModel_Device1_DSCH1, None), (Some iedModel_Device1, Some iedModel_Device1_MMXU1), (Some iedModel, None)]"
  by (simp add: sample_SchdAbsTm_time_elements_2_def)

lemma conf_sample_SchdAbsTm_time_elements_2: "list_all sample_conforms (map snd sample_SchdAbsTm_time_elements_2)"
  by (simp add: sample_SchdAbsTm_time_elements_2_def TRG_OPT_DATA_CHANGED_def TRG_OPT_QUALITY_CHANGED_def)

lemma addrs_sample_SchdAbsTm_time_elements_2: "map fst sample_SchdAbsTm_time_elements_2 = [3358 ..< 3368]"
  by (simp add: sample_SchdAbsTm_time_elements_2_def upt_rec_numeral)

lemma elements_sample_SchdAbsTm_time_elements_2: "sample_SchdAbsTm_time_elements_2 = map (array_element iedModel_Device1_DSCH1_SchdAbsTm_time iedModel_Device1_DSCH1_SchdAbsTm_time_0 255 FC_SP T_TIMESTAMP TRG_OPT_DATA_CHANGED) [10 ..< 20]"
  by (simp add: sample_SchdAbsTm_time_elements_2_def array_element_def upt_rec_numeral)

lemma childless_sample_SchdAbsTm_time_elements_2: "childless_objects sample_SchdAbsTm_time_elements_2 = []"
  by (simp add: sample_SchdAbsTm_time_elements_2_def childless_objects_def)

lemma scan_sample_SchdAbsTm_time_elements_3: "scan [(Some iedModel_Device1_DSCH1_SchdAbsTm_time, Some iedModel_Device1_DSCH1_SchdAbsTm_time_20), (Some iedModel_Device1_DSCH1_SchdAbsTm, None), (Some iedModel_Device1_DSCH1, None), (Some iedModel_Device1, Some iedModel_Device1_MMXU1), (Some iedModel, None)] sample_SchdAbsTm_time_elements_3
    = Some [(Some iedModel_Device1_DSCH1_SchdAbsTm_time, Some iedModel_Device1_DSCH1_SchdAbsTm_time_30), (Some iedModel_Device1_DSCH1_SchdAbsTm, None), (Some iedModel_Device1_DSCH1, None), (Some iedModel_Device1, Some iedModel_Device1_MMXU1), (Some iedModel, None)]"
  by (simp add: sample_SchdAbsTm_time_elements_3_def)

lemma conf_sample_SchdAbsTm_time_elements_3: "list_all sample_conforms (map snd sample_SchdAbsTm_time_elements_3)"
  by (simp add: sample_SchdAbsTm_time_elements_3_def TRG_OPT_DATA_CHANGED_def TRG_OPT_QUALITY_CHANGED_def)

lemma addrs_sample_SchdAbsTm_time_elements_3: "map fst sample_SchdAbsTm_time_elements_3 = [3368 ..< 3378]"
  by (simp add: sample_SchdAbsTm_time_elements_3_def upt_rec_numeral)

lemma elements_sample_SchdAbsTm_time_elements_3: "sample_SchdAbsTm_time_elements_3 = map (array_element iedModel_Device1_DSCH1_SchdAbsTm_time iedModel_Device1_DSCH1_SchdAbsTm_time_0 255 FC_SP T_TIMESTAMP TRG_OPT_DATA_CHANGED) [20 ..< 30]"
  by (simp add: sample_SchdAbsTm_time_elements_3_def array_element_def upt_rec_numeral)

lemma childless_sample_SchdAbsTm_time_elements_3: "childless_objects sample_SchdAbsTm_time_elements_3 = []"
  by (simp add: sample_SchdAbsTm_time_elements_3_def childless_objects_def)

lemma scan_sample_SchdAbsTm_time_elements_4: "scan [(Some iedModel_Device1_DSCH1_SchdAbsTm_time, Some iedModel_Device1_DSCH1_SchdAbsTm_time_30), (Some iedModel_Device1_DSCH1_SchdAbsTm, None), (Some iedModel_Device1_DSCH1, None), (Some iedModel_Device1, Some iedModel_Device1_MMXU1), (Some iedModel, None)] sample_SchdAbsTm_time_elements_4
    = Some [(Some iedModel_Device1_DSCH1_SchdAbsTm_time, Some iedModel_Device1_DSCH1_SchdAbsTm_time_40), (Some iedModel_Device1_DSCH1_SchdAbsTm, None), (Some iedModel_Device1_DSCH1, None), (Some iedModel_Device1, Some iedModel_Device1_MMXU1), (Some iedModel, None)]"
  by (simp add: sample_SchdAbsTm_time_elements_4_def)

lemma conf_sample_SchdAbsTm_time_elements_4: "list_all sample_conforms (map snd sample_SchdAbsTm_time_elements_4)"
  by (simp add: sample_SchdAbsTm_time_elements_4_def TRG_OPT_DATA_CHANGED_def TRG_OPT_QUALITY_CHANGED_def)

lemma addrs_sample_SchdAbsTm_time_elements_4: "map fst sample_SchdAbsTm_time_elements_4 = [3378 ..< 3388]"
  by (simp add: sample_SchdAbsTm_time_elements_4_def upt_rec_numeral)

lemma elements_sample_SchdAbsTm_time_elements_4: "sample_SchdAbsTm_time_elements_4 = map (array_element iedModel_Device1_DSCH1_SchdAbsTm_time iedModel_Device1_DSCH1_SchdAbsTm_time_0 255 FC_SP T_TIMESTAMP TRG_OPT_DATA_CHANGED) [30 ..< 40]"
  by (simp add: sample_SchdAbsTm_time_elements_4_def array_element_def upt_rec_numeral)

lemma childless_sample_SchdAbsTm_time_elements_4: "childless_objects sample_SchdAbsTm_time_elements_4 = []"
  by (simp add: sample_SchdAbsTm_time_elements_4_def childless_objects_def)

lemma scan_sample_SchdAbsTm_time_elements_5: "scan [(Some iedModel_Device1_DSCH1_SchdAbsTm_time, Some iedModel_Device1_DSCH1_SchdAbsTm_time_40), (Some iedModel_Device1_DSCH1_SchdAbsTm, None), (Some iedModel_Device1_DSCH1, None), (Some iedModel_Device1, Some iedModel_Device1_MMXU1), (Some iedModel, None)] sample_SchdAbsTm_time_elements_5
    = Some [(Some iedModel_Device1_DSCH1_SchdAbsTm_time, Some iedModel_Device1_DSCH1_SchdAbsTm_time_50), (Some iedModel_Device1_DSCH1_SchdAbsTm, None), (Some iedModel_Device1_DSCH1, None), (Some iedModel_Device1, Some iedModel_Device1_MMXU1), (Some iedModel, None)]"
  by (simp add: sample_SchdAbsTm_time_elements_5_def)

lemma conf_sample_SchdAbsTm_time_elements_5: "list_all sample_conforms (map snd sample_SchdAbsTm_time_elements_5)"
  by (simp add: sample_SchdAbsTm_time_elements_5_def TRG_OPT_DATA_CHANGED_def TRG_OPT_QUALITY_CHANGED_def)

lemma addrs_sample_SchdAbsTm_time_elements_5: "map fst sample_SchdAbsTm_time_elements_5 = [3388 ..< 3398]"
  by (simp add: sample_SchdAbsTm_time_elements_5_def upt_rec_numeral)

lemma elements_sample_SchdAbsTm_time_elements_5: "sample_SchdAbsTm_time_elements_5 = map (array_element iedModel_Device1_DSCH1_SchdAbsTm_time iedModel_Device1_DSCH1_SchdAbsTm_time_0 255 FC_SP T_TIMESTAMP TRG_OPT_DATA_CHANGED) [40 ..< 50]"
  by (simp add: sample_SchdAbsTm_time_elements_5_def array_element_def upt_rec_numeral)

lemma childless_sample_SchdAbsTm_time_elements_5: "childless_objects sample_SchdAbsTm_time_elements_5 = []"
  by (simp add: sample_SchdAbsTm_time_elements_5_def childless_objects_def)

lemma scan_sample_SchdAbsTm_time_elements_6: "scan [(Some iedModel_Device1_DSCH1_SchdAbsTm_time, Some iedModel_Device1_DSCH1_SchdAbsTm_time_50), (Some iedModel_Device1_DSCH1_SchdAbsTm, None), (Some iedModel_Device1_DSCH1, None), (Some iedModel_Device1, Some iedModel_Device1_MMXU1), (Some iedModel, None)] sample_SchdAbsTm_time_elements_6
    = Some [(Some iedModel_Device1_DSCH1_SchdAbsTm_time, Some iedModel_Device1_DSCH1_SchdAbsTm_time_60), (Some iedModel_Device1_DSCH1_SchdAbsTm, None), (Some iedModel_Device1_DSCH1, None), (Some iedModel_Device1, Some iedModel_Device1_MMXU1), (Some iedModel, None)]"
  by (simp add: sample_SchdAbsTm_time_elements_6_def)

lemma conf_sample_SchdAbsTm_time_elements_6: "list_all sample_conforms (map snd sample_SchdAbsTm_time_elements_6)"
  by (simp add: sample_SchdAbsTm_time_elements_6_def TRG_OPT_DATA_CHANGED_def TRG_OPT_QUALITY_CHANGED_def)

lemma addrs_sample_SchdAbsTm_time_elements_6: "map fst sample_SchdAbsTm_time_elements_6 = [3398 ..< 3408]"
  by (simp add: sample_SchdAbsTm_time_elements_6_def upt_rec_numeral)

lemma elements_sample_SchdAbsTm_time_elements_6: "sample_SchdAbsTm_time_elements_6 = map (array_element iedModel_Device1_DSCH1_SchdAbsTm_time iedModel_Device1_DSCH1_SchdAbsTm_time_0 255 FC_SP T_TIMESTAMP TRG_OPT_DATA_CHANGED) [50 ..< 60]"
  by (simp add: sample_SchdAbsTm_time_elements_6_def array_element_def upt_rec_numeral)

lemma childless_sample_SchdAbsTm_time_elements_6: "childless_objects sample_SchdAbsTm_time_elements_6 = []"
  by (simp add: sample_SchdAbsTm_time_elements_6_def childless_objects_def)

lemma scan_sample_SchdAbsTm_time_elements_7: "scan [(Some iedModel_Device1_DSCH1_SchdAbsTm_time, Some iedModel_Device1_DSCH1_SchdAbsTm_time_60), (Some iedModel_Device1_DSCH1_SchdAbsTm, None), (Some iedModel_Device1_DSCH1, None), (Some iedModel_Device1, Some iedModel_Device1_MMXU1), (Some iedModel, None)] sample_SchdAbsTm_time_elements_7
    = Some [(Some iedModel_Device1_DSCH1_SchdAbsTm_time, Some iedModel_Device1_DSCH1_SchdAbsTm_time_70), (Some iedModel_Device1_DSCH1_SchdAbsTm, None), (Some iedModel_Device1_DSCH1, None), (Some iedModel_Device1, Some iedModel_Device1_MMXU1), (Some iedModel, None)]"
  by (simp add: sample_SchdAbsTm_time_elements_7_def)

lemma conf_sample_SchdAbsTm_time_elements_7: "list_all sample_conforms (map snd sample_SchdAbsTm_time_elements_7)"
  by (simp add: sample_SchdAbsTm_time_elements_7_def TRG_OPT_DATA_CHANGED_def TRG_OPT_QUALITY_CHANGED_def)

lemma addrs_sample_SchdAbsTm_time_elements_7: "map fst sample_SchdAbsTm_time_elements_7 = [3408 ..< 3418]"
  by (simp add: sample_SchdAbsTm_time_elements_7_def upt_rec_numeral)

lemma elements_sample_SchdAbsTm_time_elements_7: "sample_SchdAbsTm_time_elements_7 = map (array_element iedModel_Device1_DSCH1_SchdAbsTm_time iedModel_Device1_DSCH1_SchdAbsTm_time_0 255 FC_SP T_TIMESTAMP TRG_OPT_DATA_CHANGED) [60 ..< 70]"
  by (simp add: sample_SchdAbsTm_time_elements_7_def array_element_def upt_rec_numeral)

lemma childless_sample_SchdAbsTm_time_elements_7: "childless_objects sample_SchdAbsTm_time_elements_7 = []"
  by (simp add: sample_SchdAbsTm_time_elements_7_def childless_objects_def)

lemma scan_sample_SchdAbsTm_time_elements_8: "scan [(Some iedModel_Device1_DSCH1_SchdAbsTm_time, Some iedModel_Device1_DSCH1_SchdAbsTm_time_70), (Some iedModel_Device1_DSCH1_SchdAbsTm, None), (Some iedModel_Device1_DSCH1, None), (Some iedModel_Device1, Some iedModel_Device1_MMXU1), (Some iedModel, None)] sample_SchdAbsTm_time_elements_8
    = Some [(Some iedModel_Device1_DSCH1_SchdAbsTm_time, Some iedModel_Device1_DSCH1_SchdAbsTm_time_80), (Some iedModel_Device1_DSCH1_SchdAbsTm, None), (Some iedModel_Device1_DSCH1, None), (Some iedModel_Device1, Some iedModel_Device1_MMXU1), (Some iedModel, None)]"
  by (simp add: sample_SchdAbsTm_time_elements_8_def)

lemma conf_sample_SchdAbsTm_time_elements_8: "list_all sample_conforms (map snd sample_SchdAbsTm_time_elements_8)"
  by (simp add: sample_SchdAbsTm_time_elements_8_def TRG_OPT_DATA_CHANGED_def TRG_OPT_QUALITY_CHANGED_def)

lemma addrs_sample_SchdAbsTm_time_elements_8: "map fst sample_SchdAbsTm_time_elements_8 = [3418 ..< 3428]"
  by (simp add: sample_SchdAbsTm_time_elements_8_def upt_rec_numeral)

lemma elements_sample_SchdAbsTm_time_elements_8: "sample_SchdAbsTm_time_elements_8 = map (array_element iedModel_Device1_DSCH1_SchdAbsTm_time iedModel_Device1_DSCH1_SchdAbsTm_time_0 255 FC_SP T_TIMESTAMP TRG_OPT_DATA_CHANGED) [70 ..< 80]"
  by (simp add: sample_SchdAbsTm_time_elements_8_def array_element_def upt_rec_numeral)

lemma childless_sample_SchdAbsTm_time_elements_8: "childless_objects sample_SchdAbsTm_time_elements_8 = []"
  by (simp add: sample_SchdAbsTm_time_elements_8_def childless_objects_def)

lemma scan_sample_SchdAbsTm_time_elements_9: "scan [(Some iedModel_Device1_DSCH1_SchdAbsTm_time, Some iedModel_Device1_DSCH1_SchdAbsTm_time_80), (Some iedModel_Device1_DSCH1_SchdAbsTm, None), (Some iedModel_Device1_DSCH1, None), (Some iedModel_Device1, Some iedModel_Device1_MMXU1), (Some iedModel, None)] sample_SchdAbsTm_time_elements_9
    = Some [(Some iedModel_Device1_DSCH1_SchdAbsTm_time, Some iedModel_Device1_DSCH1_SchdAbsTm_time_90), (Some iedModel_Device1_DSCH1_SchdAbsTm, None), (Some iedModel_Device1_DSCH1, None), (Some iedModel_Device1, Some iedModel_Device1_MMXU1), (Some iedModel, None)]"
  by (simp add: sample_SchdAbsTm_time_elements_9_def)

lemma conf_sample_SchdAbsTm_time_elements_9: "list_all sample_conforms (map snd sample_SchdAbsTm_time_elements_9)"
  by (simp add: sample_SchdAbsTm_time_elements_9_def TRG_OPT_DATA_CHANGED_def TRG_OPT_QUALITY_CHANGED_def)

lemma addrs_sample_SchdAbsTm_time_elements_9: "map fst sample_SchdAbsTm_time_elements_9 = [3428 ..< 3438]"
  by (simp add: sample_SchdAbsTm_time_elements_9_def upt_rec_numeral)

lemma elements_sample_SchdAbsTm_time_elements_9: "sample_SchdAbsTm_time_elements_9 = map (array_element iedModel_Device1_DSCH1_SchdAbsTm_time iedModel_Device1_DSCH1_SchdAbsTm_time_0 255 FC_SP T_TIMESTAMP TRG_OPT_DATA_CHANGED) [80 ..< 90]"
  by (simp add: sample_SchdAbsTm_time_elements_9_def array_element_def upt_rec_numeral)

lemma childless_sample_SchdAbsTm_time_elements_9: "childless_objects sample_SchdAbsTm_time_elements_9 = []"
  by (simp add: sample_SchdAbsTm_time_elements_9_def childless_objects_def)

lemma scan_sample_SchdAbsTm_time_elements_10: "scan [(Some iedModel_Device1_DSCH1_SchdAbsTm_time, Some iedModel_Device1_DSCH1_SchdAbsTm_time_90), (Some iedModel_Device1_DSCH1_SchdAbsTm, None), (Some iedModel_Device1_DSCH1, None), (Some iedModel_Device1, Some iedModel_Device1_MMXU1), (Some iedModel, None)] sample_SchdAbsTm_time_elements_10
    = Some [(Some iedModel_Device1_DSCH1_SchdAbsTm_time, Some iedModel_Device1_DSCH1_SchdAbsTm_time_100), (Some iedModel_Device1_DSCH1_SchdAbsTm, None), (Some iedModel_Device1_DSCH1, None), (Some iedModel_Device1, Some iedModel_Device1_MMXU1), (Some iedModel, None)]"
  by (simp add: sample_SchdAbsTm_time_elements_10_def)

lemma conf_sample_SchdAbsTm_time_elements_10: "list_all sample_conforms (map snd sample_SchdAbsTm_time_elements_10)"
  by (simp add: sample_SchdAbsTm_time_elements_10_def TRG_OPT_DATA_CHANGED_def TRG_OPT_QUALITY_CHANGED_def)

lemma addrs_sample_SchdAbsTm_time_elements_10: "map fst sample_SchdAbsTm_time_elements_10 = [3438 ..< 3448]"
  by (simp add: sample_SchdAbsTm_time_elements_10_def upt_rec_numeral)

lemma elements_sample_SchdAbsTm_time_elements_10: "sample_SchdAbsTm_time_elements_10 = map (array_element iedModel_Device1_DSCH1_SchdAbsTm_time iedModel_Device1_DSCH1_SchdAbsTm_time_0 255 FC_SP T_TIMESTAMP TRG_OPT_DATA_CHANGED) [90 ..< 100]"
  by (simp add: sample_SchdAbsTm_time_elements_10_def array_element_def upt_rec_numeral)

lemma childless_sample_SchdAbsTm_time_elements_10: "childless_objects sample_SchdAbsTm_time_elements_10 = []"
  by (simp add: sample_SchdAbsTm_time_elements_10_def childless_objects_def)

lemma scan_sample_SchdAbsTm_time_elements_11: "scan [(Some iedModel_Device1_DSCH1_SchdAbsTm_time, Some iedModel_Device1_DSCH1_SchdAbsTm_time_100), (Some iedModel_Device1_DSCH1_SchdAbsTm, None), (Some iedModel_Device1_DSCH1, None), (Some iedModel_Device1, Some iedModel_Device1_MMXU1), (Some iedModel, None)] sample_SchdAbsTm_time_elements_11
    = Some [(Some iedModel_Device1_DSCH1_SchdAbsTm_time, Some iedModel_Device1_DSCH1_SchdAbsTm_time_110), (Some iedModel_Device1_DSCH1_SchdAbsTm, None), (Some iedModel_Device1_DSCH1, None), (Some iedModel_Device1, Some iedModel_Device1_MMXU1), (Some iedModel, None)]"
  by (simp add: sample_SchdAbsTm_time_elements_11_def)

lemma conf_sample_SchdAbsTm_time_elements_11: "list_all sample_conforms (map snd sample_SchdAbsTm_time_elements_11)"
  by (simp add: sample_SchdAbsTm_time_elements_11_def TRG_OPT_DATA_CHANGED_def TRG_OPT_QUALITY_CHANGED_def)

lemma addrs_sample_SchdAbsTm_time_elements_11: "map fst sample_SchdAbsTm_time_elements_11 = [3448 ..< 3458]"
  by (simp add: sample_SchdAbsTm_time_elements_11_def upt_rec_numeral)

lemma elements_sample_SchdAbsTm_time_elements_11: "sample_SchdAbsTm_time_elements_11 = map (array_element iedModel_Device1_DSCH1_SchdAbsTm_time iedModel_Device1_DSCH1_SchdAbsTm_time_0 255 FC_SP T_TIMESTAMP TRG_OPT_DATA_CHANGED) [100 ..< 110]"
  by (simp add: sample_SchdAbsTm_time_elements_11_def array_element_def upt_rec_numeral)

lemma childless_sample_SchdAbsTm_time_elements_11: "childless_objects sample_SchdAbsTm_time_elements_11 = []"
  by (simp add: sample_SchdAbsTm_time_elements_11_def childless_objects_def)

lemma scan_sample_SchdAbsTm_time_elements_12: "scan [(Some iedModel_Device1_DSCH1_SchdAbsTm_time, Some iedModel_Device1_DSCH1_SchdAbsTm_time_110), (Some iedModel_Device1_DSCH1_SchdAbsTm, None), (Some iedModel_Device1_DSCH1, None), (Some iedModel_Device1, Some iedModel_Device1_MMXU1), (Some iedModel, None)] sample_SchdAbsTm_time_elements_12
    = Some [(Some iedModel_Device1_DSCH1_SchdAbsTm_time, Some iedModel_Device1_DSCH1_SchdAbsTm_time_120), (Some iedModel_Device1_DSCH1_SchdAbsTm, None), (Some iedModel_Device1_DSCH1, None), (Some iedModel_Device1, Some iedModel_Device1_MMXU1), (Some iedModel, None)]"
  by (simp add: sample_SchdAbsTm_time_elements_12_def)

lemma conf_sample_SchdAbsTm_time_elements_12: "list_all sample_conforms (map snd sample_SchdAbsTm_time_elements_12)"
  by (simp add: sample_SchdAbsTm_time_elements_12_def TRG_OPT_DATA_CHANGED_def TRG_OPT_QUALITY_CHANGED_def)

lemma addrs_sample_SchdAbsTm_time_elements_12: "map fst sample_SchdAbsTm_time_elements_12 = [3458 ..< 3468]"
  by (simp add: sample_SchdAbsTm_time_elements_12_def upt_rec_numeral)

lemma elements_sample_SchdAbsTm_time_elements_12: "sample_SchdAbsTm_time_elements_12 = map (array_element iedModel_Device1_DSCH1_SchdAbsTm_time iedModel_Device1_DSCH1_SchdAbsTm_time_0 255 FC_SP T_TIMESTAMP TRG_OPT_DATA_CHANGED) [110 ..< 120]"
  by (simp add: sample_SchdAbsTm_time_elements_12_def array_element_def upt_rec_numeral)

lemma childless_sample_SchdAbsTm_time_elements_12: "childless_objects sample_SchdAbsTm_time_elements_12 = []"
  by (simp add: sample_SchdAbsTm_time_elements_12_def childless_objects_def)

lemma scan_sample_SchdAbsTm_time_elements_13: "scan [(Some iedModel_Device1_DSCH1_SchdAbsTm_time, Some iedModel_Device1_DSCH1_SchdAbsTm_time_120), (Some iedModel_Device1_DSCH1_SchdAbsTm, None), (Some iedModel_Device1_DSCH1, None), (Some iedModel_Device1, Some iedModel_Device1_MMXU1), (Some iedModel, None)] sample_SchdAbsTm_time_elements_13
    = Some [(Some iedModel_Device1_DSCH1_SchdAbsTm_time, Some iedModel_Device1_DSCH1_SchdAbsTm_time_130), (Some iedModel_Device1_DSCH1_SchdAbsTm, None), (Some iedModel_Device1_DSCH1, None), (Some iedModel_Device1, Some iedModel_Device1_MMXU1), (Some iedModel, None)]"
  by (simp add: sample_SchdAbsTm_time_elements_13_def)

lemma conf_sample_SchdAbsTm_time_elements_13: "list_all sample_conforms (map snd sample_SchdAbsTm_time_elements_13)"
  by (simp add: sample_SchdAbsTm_time_elements_13_def TRG_OPT_DATA_CHANGED_def TRG_OPT_QUALITY_CHANGED_def)

lemma addrs_sample_SchdAbsTm_time_elements_13: "map fst sample_SchdAbsTm_time_elements_13 = [3468 ..< 3478]"
  by (simp add: sample_SchdAbsTm_time_elements_13_def upt_rec_numeral)

lemma elements_sample_SchdAbsTm_time_elements_13: "sample_SchdAbsTm_time_elements_13 = map (array_element iedModel_Device1_DSCH1_SchdAbsTm_time iedModel_Device1_DSCH1_SchdAbsTm_time_0 255 FC_SP T_TIMESTAMP TRG_OPT_DATA_CHANGED) [120 ..< 130]"
  by (simp add: sample_SchdAbsTm_time_elements_13_def array_element_def upt_rec_numeral)

lemma childless_sample_SchdAbsTm_time_elements_13: "childless_objects sample_SchdAbsTm_time_elements_13 = []"
  by (simp add: sample_SchdAbsTm_time_elements_13_def childless_objects_def)

lemma scan_sample_SchdAbsTm_time_elements_14: "scan [(Some iedModel_Device1_DSCH1_SchdAbsTm_time, Some iedModel_Device1_DSCH1_SchdAbsTm_time_130), (Some iedModel_Device1_DSCH1_SchdAbsTm, None), (Some iedModel_Device1_DSCH1, None), (Some iedModel_Device1, Some iedModel_Device1_MMXU1), (Some iedModel, None)] sample_SchdAbsTm_time_elements_14
    = Some [(Some iedModel_Device1_DSCH1_SchdAbsTm_time, Some iedModel_Device1_DSCH1_SchdAbsTm_time_140), (Some iedModel_Device1_DSCH1_SchdAbsTm, None), (Some iedModel_Device1_DSCH1, None), (Some iedModel_Device1, Some iedModel_Device1_MMXU1), (Some iedModel, None)]"
  by (simp add: sample_SchdAbsTm_time_elements_14_def)

lemma conf_sample_SchdAbsTm_time_elements_14: "list_all sample_conforms (map snd sample_SchdAbsTm_time_elements_14)"
  by (simp add: sample_SchdAbsTm_time_elements_14_def TRG_OPT_DATA_CHANGED_def TRG_OPT_QUALITY_CHANGED_def)

lemma addrs_sample_SchdAbsTm_time_elements_14: "map fst sample_SchdAbsTm_time_elements_14 = [3478 ..< 3488]"
  by (simp add: sample_SchdAbsTm_time_elements_14_def upt_rec_numeral)

lemma elements_sample_SchdAbsTm_time_elements_14: "sample_SchdAbsTm_time_elements_14 = map (array_element iedModel_Device1_DSCH1_SchdAbsTm_time iedModel_Device1_DSCH1_SchdAbsTm_time_0 255 FC_SP T_TIMESTAMP TRG_OPT_DATA_CHANGED) [130 ..< 140]"
  by (simp add: sample_SchdAbsTm_time_elements_14_def array_element_def upt_rec_numeral)

lemma childless_sample_SchdAbsTm_time_elements_14: "childless_objects sample_SchdAbsTm_time_elements_14 = []"
  by (simp add: sample_SchdAbsTm_time_elements_14_def childless_objects_def)

lemma scan_sample_SchdAbsTm_time_elements_15: "scan [(Some iedModel_Device1_DSCH1_SchdAbsTm_time, Some iedModel_Device1_DSCH1_SchdAbsTm_time_140), (Some iedModel_Device1_DSCH1_SchdAbsTm, None), (Some iedModel_Device1_DSCH1, None), (Some iedModel_Device1, Some iedModel_Device1_MMXU1), (Some iedModel, None)] sample_SchdAbsTm_time_elements_15
    = Some [(Some iedModel_Device1_DSCH1_SchdAbsTm_time, Some iedModel_Device1_DSCH1_SchdAbsTm_time_150), (Some iedModel_Device1_DSCH1_SchdAbsTm, None), (Some iedModel_Device1_DSCH1, None), (Some iedModel_Device1, Some iedModel_Device1_MMXU1), (Some iedModel, None)]"
  by (simp add: sample_SchdAbsTm_time_elements_15_def)

lemma conf_sample_SchdAbsTm_time_elements_15: "list_all sample_conforms (map snd sample_SchdAbsTm_time_elements_15)"
  by (simp add: sample_SchdAbsTm_time_elements_15_def TRG_OPT_DATA_CHANGED_def TRG_OPT_QUALITY_CHANGED_def)

lemma addrs_sample_SchdAbsTm_time_elements_15: "map fst sample_SchdAbsTm_time_elements_15 = [3488 ..< 3498]"
  by (simp add: sample_SchdAbsTm_time_elements_15_def upt_rec_numeral)

lemma elements_sample_SchdAbsTm_time_elements_15: "sample_SchdAbsTm_time_elements_15 = map (array_element iedModel_Device1_DSCH1_SchdAbsTm_time iedModel_Device1_DSCH1_SchdAbsTm_time_0 255 FC_SP T_TIMESTAMP TRG_OPT_DATA_CHANGED) [140 ..< 150]"
  by (simp add: sample_SchdAbsTm_time_elements_15_def array_element_def upt_rec_numeral)

lemma childless_sample_SchdAbsTm_time_elements_15: "childless_objects sample_SchdAbsTm_time_elements_15 = []"
  by (simp add: sample_SchdAbsTm_time_elements_15_def childless_objects_def)

lemma scan_sample_SchdAbsTm_time_elements_16: "scan [(Some iedModel_Device1_DSCH1_SchdAbsTm_time, Some iedModel_Device1_DSCH1_SchdAbsTm_time_150), (Some iedModel_Device1_DSCH1_SchdAbsTm, None), (Some iedModel_Device1_DSCH1, None), (Some iedModel_Device1, Some iedModel_Device1_MMXU1), (Some iedModel, None)] sample_SchdAbsTm_time_elements_16
    = Some [(Some iedModel_Device1_DSCH1_SchdAbsTm_time, Some iedModel_Device1_DSCH1_SchdAbsTm_time_160), (Some iedModel_Device1_DSCH1_SchdAbsTm, None), (Some iedModel_Device1_DSCH1, None), (Some iedModel_Device1, Some iedModel_Device1_MMXU1), (Some iedModel, None)]"
  by (simp add: sample_SchdAbsTm_time_elements_16_def)

lemma conf_sample_SchdAbsTm_time_elements_16: "list_all sample_conforms (map snd sample_SchdAbsTm_time_elements_16)"
  by (simp add: sample_SchdAbsTm_time_elements_16_def TRG_OPT_DATA_CHANGED_def TRG_OPT_QUALITY_CHANGED_def)

lemma addrs_sample_SchdAbsTm_time_elements_16: "map fst sample_SchdAbsTm_time_elements_16 = [3498 ..< 3508]"
  by (simp add: sample_SchdAbsTm_time_elements_16_def upt_rec_numeral)

lemma elements_sample_SchdAbsTm_time_elements_16: "sample_SchdAbsTm_time_elements_16 = map (array_element iedModel_Device1_DSCH1_SchdAbsTm_time iedModel_Device1_DSCH1_SchdAbsTm_time_0 255 FC_SP T_TIMESTAMP TRG_OPT_DATA_CHANGED) [150 ..< 160]"
  by (simp add: sample_SchdAbsTm_time_elements_16_def array_element_def upt_rec_numeral)

lemma childless_sample_SchdAbsTm_time_elements_16: "childless_objects sample_SchdAbsTm_time_elements_16 = []"
  by (simp add: sample_SchdAbsTm_time_elements_16_def childless_objects_def)

lemma scan_sample_SchdAbsTm_time_elements_17: "scan [(Some iedModel_Device1_DSCH1_SchdAbsTm_time, Some iedModel_Device1_DSCH1_SchdAbsTm_time_160), (Some iedModel_Device1_DSCH1_SchdAbsTm, None), (Some iedModel_Device1_DSCH1, None), (Some iedModel_Device1, Some iedModel_Device1_MMXU1), (Some iedModel, None)] sample_SchdAbsTm_time_elements_17
    = Some [(Some iedModel_Device1_DSCH1_SchdAbsTm_time, Some iedModel_Device1_DSCH1_SchdAbsTm_time_170), (Some iedModel_Device1_DSCH1_SchdAbsTm, None), (Some iedModel_Device1_DSCH1, None), (Some iedModel_Device1, Some iedModel_Device1_MMXU1), (Some iedModel, None)]"
  by (simp add: sample_SchdAbsTm_time_elements_17_def)

lemma conf_sample_SchdAbsTm_time_elements_17: "list_all sample_conforms (map snd sample_SchdAbsTm_time_elements_17)"
  by (simp add: sample_SchdAbsTm_time_elements_17_def TRG_OPT_DATA_CHANGED_def TRG_OPT_QUALITY_CHANGED_def)

lemma addrs_sample_SchdAbsTm_time_elements_17: "map fst sample_SchdAbsTm_time_elements_17 = [3508 ..< 3518]"
  by (simp add: sample_SchdAbsTm_time_elements_17_def upt_rec_numeral)

lemma elements_sample_SchdAbsTm_time_elements_17: "sample_SchdAbsTm_time_elements_17 = map (array_element iedModel_Device1_DSCH1_SchdAbsTm_time iedModel_Device1_DSCH1_SchdAbsTm_time_0 255 FC_SP T_TIMESTAMP TRG_OPT_DATA_CHANGED) [160 ..< 170]"
  by (simp add: sample_SchdAbsTm_time_elements_17_def array_element_def upt_rec_numeral)

lemma childless_sample_SchdAbsTm_time_elements_17: "childless_objects sample_SchdAbsTm_time_elements_17 = []"
  by (simp add: sample_SchdAbsTm_time_elements_17_def childless_objects_def)

lemma scan_sample_SchdAbsTm_time_elements_18: "scan [(Some iedModel_Device1_DSCH1_SchdAbsTm_time, Some iedModel_Device1_DSCH1_SchdAbsTm_time_170), (Some iedModel_Device1_DSCH1_SchdAbsTm, None), (Some iedModel_Device1_DSCH1, None), (Some iedModel_Device1, Some iedModel_Device1_MMXU1), (Some iedModel, None)] sample_SchdAbsTm_time_elements_18
    = Some [(Some iedModel_Device1_DSCH1_SchdAbsTm_time, Some iedModel_Device1_DSCH1_SchdAbsTm_time_180), (Some iedModel_Device1_DSCH1_SchdAbsTm, None), (Some iedModel_Device1_DSCH1, None), (Some iedModel_Device1, Some iedModel_Device1_MMXU1), (Some iedModel, None)]"
  by (simp add: sample_SchdAbsTm_time_elements_18_def)

lemma conf_sample_SchdAbsTm_time_elements_18: "list_all sample_conforms (map snd sample_SchdAbsTm_time_elements_18)"
  by (simp add: sample_SchdAbsTm_time_elements_18_def TRG_OPT_DATA_CHANGED_def TRG_OPT_QUALITY_CHANGED_def)

lemma addrs_sample_SchdAbsTm_time_elements_18: "map fst sample_SchdAbsTm_time_elements_18 = [3518 ..< 3528]"
  by (simp add: sample_SchdAbsTm_time_elements_18_def upt_rec_numeral)

lemma elements_sample_SchdAbsTm_time_elements_18: "sample_SchdAbsTm_time_elements_18 = map (array_element iedModel_Device1_DSCH1_SchdAbsTm_time iedModel_Device1_DSCH1_SchdAbsTm_time_0 255 FC_SP T_TIMESTAMP TRG_OPT_DATA_CHANGED) [170 ..< 180]"
  by (simp add: sample_SchdAbsTm_time_elements_18_def array_element_def upt_rec_numeral)

lemma childless_sample_SchdAbsTm_time_elements_18: "childless_objects sample_SchdAbsTm_time_elements_18 = []"
  by (simp add: sample_SchdAbsTm_time_elements_18_def childless_objects_def)

lemma scan_sample_SchdAbsTm_time_elements_19: "scan [(Some iedModel_Device1_DSCH1_SchdAbsTm_time, Some iedModel_Device1_DSCH1_SchdAbsTm_time_180), (Some iedModel_Device1_DSCH1_SchdAbsTm, None), (Some iedModel_Device1_DSCH1, None), (Some iedModel_Device1, Some iedModel_Device1_MMXU1), (Some iedModel, None)] sample_SchdAbsTm_time_elements_19
    = Some [(Some iedModel_Device1_DSCH1_SchdAbsTm_time, Some iedModel_Device1_DSCH1_SchdAbsTm_time_190), (Some iedModel_Device1_DSCH1_SchdAbsTm, None), (Some iedModel_Device1_DSCH1, None), (Some iedModel_Device1, Some iedModel_Device1_MMXU1), (Some iedModel, None)]"
  by (simp add: sample_SchdAbsTm_time_elements_19_def)

lemma conf_sample_SchdAbsTm_time_elements_19: "list_all sample_conforms (map snd sample_SchdAbsTm_time_elements_19)"
  by (simp add: sample_SchdAbsTm_time_elements_19_def TRG_OPT_DATA_CHANGED_def TRG_OPT_QUALITY_CHANGED_def)

lemma addrs_sample_SchdAbsTm_time_elements_19: "map fst sample_SchdAbsTm_time_elements_19 = [3528 ..< 3538]"
  by (simp add: sample_SchdAbsTm_time_elements_19_def upt_rec_numeral)

lemma elements_sample_SchdAbsTm_time_elements_19: "sample_SchdAbsTm_time_elements_19 = map (array_element iedModel_Device1_DSCH1_SchdAbsTm_time iedModel_Device1_DSCH1_SchdAbsTm_time_0 255 FC_SP T_TIMESTAMP TRG_OPT_DATA_CHANGED) [180 ..< 190]"
  by (simp add: sample_SchdAbsTm_time_elements_19_def array_element_def upt_rec_numeral)

lemma childless_sample_SchdAbsTm_time_elements_19: "childless_objects sample_SchdAbsTm_time_elements_19 = []"
  by (simp add: sample_SchdAbsTm_time_elements_19_def childless_objects_def)

lemma scan_sample_SchdAbsTm_time_elements_20: "scan [(Some iedModel_Device1_DSCH1_SchdAbsTm_time, Some iedModel_Device1_DSCH1_SchdAbsTm_time_190), (Some iedModel_Device1_DSCH1_SchdAbsTm, None), (Some iedModel_Device1_DSCH1, None), (Some iedModel_Device1, Some iedModel_Device1_MMXU1), (Some iedModel, None)] sample_SchdAbsTm_time_elements_20
    = Some [(Some iedModel_Device1_DSCH1_SchdAbsTm_time, Some iedModel_Device1_DSCH1_SchdAbsTm_time_200), (Some iedModel_Device1_DSCH1_SchdAbsTm, None), (Some iedModel_Device1_DSCH1, None), (Some iedModel_Device1, Some iedModel_Device1_MMXU1), (Some iedModel, None)]"
  by (simp add: sample_SchdAbsTm_time_elements_20_def)

lemma conf_sample_SchdAbsTm_time_elements_20: "list_all sample_conforms (map snd sample_SchdAbsTm_time_elements_20)"
  by (simp add: sample_SchdAbsTm_time_elements_20_def TRG_OPT_DATA_CHANGED_def TRG_OPT_QUALITY_CHANGED_def)

lemma addrs_sample_SchdAbsTm_time_elements_20: "map fst sample_SchdAbsTm_time_elements_20 = [3538 ..< 3548]"
  by (simp add: sample_SchdAbsTm_time_elements_20_def upt_rec_numeral)

lemma elements_sample_SchdAbsTm_time_elements_20: "sample_SchdAbsTm_time_elements_20 = map (array_element iedModel_Device1_DSCH1_SchdAbsTm_time iedModel_Device1_DSCH1_SchdAbsTm_time_0 255 FC_SP T_TIMESTAMP TRG_OPT_DATA_CHANGED) [190 ..< 200]"
  by (simp add: sample_SchdAbsTm_time_elements_20_def array_element_def upt_rec_numeral)

lemma childless_sample_SchdAbsTm_time_elements_20: "childless_objects sample_SchdAbsTm_time_elements_20 = []"
  by (simp add: sample_SchdAbsTm_time_elements_20_def childless_objects_def)

lemma scan_sample_SchdAbsTm_time_elements_21: "scan [(Some iedModel_Device1_DSCH1_SchdAbsTm_time, Some iedModel_Device1_DSCH1_SchdAbsTm_time_200), (Some iedModel_Device1_DSCH1_SchdAbsTm, None), (Some iedModel_Device1_DSCH1, None), (Some iedModel_Device1, Some iedModel_Device1_MMXU1), (Some iedModel, None)] sample_SchdAbsTm_time_elements_21
    = Some [(Some iedModel_Device1_DSCH1_SchdAbsTm_time, Some iedModel_Device1_DSCH1_SchdAbsTm_time_210), (Some iedModel_Device1_DSCH1_SchdAbsTm, None), (Some iedModel_Device1_DSCH1, None), (Some iedModel_Device1, Some iedModel_Device1_MMXU1), (Some iedModel, None)]"
  by (simp add: sample_SchdAbsTm_time_elements_21_def)

lemma conf_sample_SchdAbsTm_time_elements_21: "list_all sample_conforms (map snd sample_SchdAbsTm_time_elements_21)"
  by (simp add: sample_SchdAbsTm_time_elements_21_def TRG_OPT_DATA_CHANGED_def TRG_OPT_QUALITY_CHANGED_def)

lemma addrs_sample_SchdAbsTm_time_elements_21: "map fst sample_SchdAbsTm_time_elements_21 = [3548 ..< 3558]"
  by (simp add: sample_SchdAbsTm_time_elements_21_def upt_rec_numeral)

lemma elements_sample_SchdAbsTm_time_elements_21: "sample_SchdAbsTm_time_elements_21 = map (array_element iedModel_Device1_DSCH1_SchdAbsTm_time iedModel_Device1_DSCH1_SchdAbsTm_time_0 255 FC_SP T_TIMESTAMP TRG_OPT_DATA_CHANGED) [200 ..< 210]"
  by (simp add: sample_SchdAbsTm_time_elements_21_def array_element_def upt_rec_numeral)

lemma childless_sample_SchdAbsTm_time_elements_21: "childless_objects sample_SchdAbsTm_time_elements_21 = []"
  by (simp add: sample_SchdAbsTm_time_elements_21_def childless_objects_def)

lemma scan_sample_SchdAbsTm_time_elements_22: "scan [(Some iedModel_Device1_DSCH1_SchdAbsTm_time, Some iedModel_Device1_DSCH1_SchdAbsTm_time_210), (Some iedModel_Device1_DSCH1_SchdAbsTm, None), (Some iedModel_Device1_DSCH1, None), (Some iedModel_Device1, Some iedModel_Device1_MMXU1), (Some iedModel, None)] sample_SchdAbsTm_time_elements_22
    = Some [(Some iedModel_Device1_DSCH1_SchdAbsTm_time, Some iedModel_Device1_DSCH1_SchdAbsTm_time_220), (Some iedModel_Device1_DSCH1_SchdAbsTm, None), (Some iedModel_Device1_DSCH1, None), (Some iedModel_Device1, Some iedModel_Device1_MMXU1), (Some iedModel, None)]"
  by (simp add: sample_SchdAbsTm_time_elements_22_def)

lemma conf_sample_SchdAbsTm_time_elements_22: "list_all sample_conforms (map snd sample_SchdAbsTm_time_elements_22)"
  by (simp add: sample_SchdAbsTm_time_elements_22_def TRG_OPT_DATA_CHANGED_def TRG_OPT_QUALITY_CHANGED_def)

lemma addrs_sample_SchdAbsTm_time_elements_22: "map fst sample_SchdAbsTm_time_elements_22 = [3558 ..< 3568]"
  by (simp add: sample_SchdAbsTm_time_elements_22_def upt_rec_numeral)

lemma elements_sample_SchdAbsTm_time_elements_22: "sample_SchdAbsTm_time_elements_22 = map (array_element iedModel_Device1_DSCH1_SchdAbsTm_time iedModel_Device1_DSCH1_SchdAbsTm_time_0 255 FC_SP T_TIMESTAMP TRG_OPT_DATA_CHANGED) [210 ..< 220]"
  by (simp add: sample_SchdAbsTm_time_elements_22_def array_element_def upt_rec_numeral)

lemma childless_sample_SchdAbsTm_time_elements_22: "childless_objects sample_SchdAbsTm_time_elements_22 = []"
  by (simp add: sample_SchdAbsTm_time_elements_22_def childless_objects_def)

lemma scan_sample_SchdAbsTm_time_elements_23: "scan [(Some iedModel_Device1_DSCH1_SchdAbsTm_time, Some iedModel_Device1_DSCH1_SchdAbsTm_time_220), (Some iedModel_Device1_DSCH1_SchdAbsTm, None), (Some iedModel_Device1_DSCH1, None), (Some iedModel_Device1, Some iedModel_Device1_MMXU1), (Some iedModel, None)] sample_SchdAbsTm_time_elements_23
    = Some [(Some iedModel_Device1_DSCH1_SchdAbsTm_time, Some iedModel_Device1_DSCH1_SchdAbsTm_time_230), (Some iedModel_Device1_DSCH1_SchdAbsTm, None), (Some iedModel_Device1_DSCH1, None), (Some iedModel_Device1, Some iedModel_Device1_MMXU1), (Some iedModel, None)]"
  by (simp add: sample_SchdAbsTm_time_elements_23_def)

lemma conf_sample_SchdAbsTm_time_elements_23: "list_all sample_conforms (map snd sample_SchdAbsTm_time_elements_23)"
  by (simp add: sample_SchdAbsTm_time_elements_23_def TRG_OPT_DATA_CHANGED_def TRG_OPT_QUALITY_CHANGED_def)

lemma addrs_sample_SchdAbsTm_time_elements_23: "map fst sample_SchdAbsTm_time_elements_23 = [3568 ..< 3578]"
  by (simp add: sample_SchdAbsTm_time_elements_23_def upt_rec_numeral)

lemma elements_sample_SchdAbsTm_time_elements_23: "sample_SchdAbsTm_time_elements_23 = map (array_element iedModel_Device1_DSCH1_SchdAbsTm_time iedModel_Device1_DSCH1_SchdAbsTm_time_0 255 FC_SP T_TIMESTAMP TRG_OPT_DATA_CHANGED) [220 ..< 230]"
  by (simp add: sample_SchdAbsTm_time_elements_23_def array_element_def upt_rec_numeral)

lemma childless_sample_SchdAbsTm_time_elements_23: "childless_objects sample_SchdAbsTm_time_elements_23 = []"
  by (simp add: sample_SchdAbsTm_time_elements_23_def childless_objects_def)

lemma scan_sample_SchdAbsTm_time_elements_24: "scan [(Some iedModel_Device1_DSCH1_SchdAbsTm_time, Some iedModel_Device1_DSCH1_SchdAbsTm_time_230), (Some iedModel_Device1_DSCH1_SchdAbsTm, None), (Some iedModel_Device1_DSCH1, None), (Some iedModel_Device1, Some iedModel_Device1_MMXU1), (Some iedModel, None)] sample_SchdAbsTm_time_elements_24
    = Some [(Some iedModel_Device1_DSCH1_SchdAbsTm_time, Some iedModel_Device1_DSCH1_SchdAbsTm_time_240), (Some iedModel_Device1_DSCH1_SchdAbsTm, None), (Some iedModel_Device1_DSCH1, None), (Some iedModel_Device1, Some iedModel_Device1_MMXU1), (Some iedModel, None)]"
  by (simp add: sample_SchdAbsTm_time_elements_24_def)

lemma conf_sample_SchdAbsTm_time_elements_24: "list_all sample_conforms (map snd sample_SchdAbsTm_time_elements_24)"
  by (simp add: sample_SchdAbsTm_time_elements_24_def TRG_OPT_DATA_CHANGED_def TRG_OPT_QUALITY_CHANGED_def)

lemma addrs_sample_SchdAbsTm_time_elements_24: "map fst sample_SchdAbsTm_time_elements_24 = [3578 ..< 3588]"
  by (simp add: sample_SchdAbsTm_time_elements_24_def upt_rec_numeral)

lemma elements_sample_SchdAbsTm_time_elements_24: "sample_SchdAbsTm_time_elements_24 = map (array_element iedModel_Device1_DSCH1_SchdAbsTm_time iedModel_Device1_DSCH1_SchdAbsTm_time_0 255 FC_SP T_TIMESTAMP TRG_OPT_DATA_CHANGED) [230 ..< 240]"
  by (simp add: sample_SchdAbsTm_time_elements_24_def array_element_def upt_rec_numeral)

lemma childless_sample_SchdAbsTm_time_elements_24: "childless_objects sample_SchdAbsTm_time_elements_24 = []"
  by (simp add: sample_SchdAbsTm_time_elements_24_def childless_objects_def)

lemma scan_sample_SchdAbsTm_time_elements_25: "scan [(Some iedModel_Device1_DSCH1_SchdAbsTm_time, Some iedModel_Device1_DSCH1_SchdAbsTm_time_240), (Some iedModel_Device1_DSCH1_SchdAbsTm, None), (Some iedModel_Device1_DSCH1, None), (Some iedModel_Device1, Some iedModel_Device1_MMXU1), (Some iedModel, None)] sample_SchdAbsTm_time_elements_25
    = Some [(Some iedModel_Device1_DSCH1_SchdAbsTm_time, Some iedModel_Device1_DSCH1_SchdAbsTm_time_250), (Some iedModel_Device1_DSCH1_SchdAbsTm, None), (Some iedModel_Device1_DSCH1, None), (Some iedModel_Device1, Some iedModel_Device1_MMXU1), (Some iedModel, None)]"
  by (simp add: sample_SchdAbsTm_time_elements_25_def)

lemma conf_sample_SchdAbsTm_time_elements_25: "list_all sample_conforms (map snd sample_SchdAbsTm_time_elements_25)"
  by (simp add: sample_SchdAbsTm_time_elements_25_def TRG_OPT_DATA_CHANGED_def TRG_OPT_QUALITY_CHANGED_def)

lemma addrs_sample_SchdAbsTm_time_elements_25: "map fst sample_SchdAbsTm_time_elements_25 = [3588 ..< 3598]"
  by (simp add: sample_SchdAbsTm_time_elements_25_def upt_rec_numeral)

lemma elements_sample_SchdAbsTm_time_elements_25: "sample_SchdAbsTm_time_elements_25 = map (array_element iedModel_Device1_DSCH1_SchdAbsTm_time iedModel_Device1_DSCH1_SchdAbsTm_time_0 255 FC_SP T_TIMESTAMP TRG_OPT_DATA_CHANGED) [240 ..< 250]"
  by (simp add: sample_SchdAbsTm_time_elements_25_def array_element_def upt_rec_numeral)

lemma childless_sample_SchdAbsTm_time_elements_25: "childless_objects sample_SchdAbsTm_time_elements_25 = []"
  by (simp add: sample_SchdAbsTm_time_elements_25_def childless_objects_def)

lemma scan_sample_SchdAbsTm_time_elements_26: "scan [(Some iedModel_Device1_DSCH1_SchdAbsTm_time, Some iedModel_Device1_DSCH1_SchdAbsTm_time_250), (Some iedModel_Device1_DSCH1_SchdAbsTm, None), (Some iedModel_Device1_DSCH1, None), (Some iedModel_Device1, Some iedModel_Device1_MMXU1), (Some iedModel, None)] sample_SchdAbsTm_time_elements_26
    = Some [(Some iedModel_Device1, Some iedModel_Device1_MMXU1), (Some iedModel, None)]"
  by (simp add: sample_SchdAbsTm_time_elements_26_def)

lemma conf_sample_SchdAbsTm_time_elements_26: "list_all sample_conforms (map snd sample_SchdAbsTm_time_elements_26)"
  by (simp add: sample_SchdAbsTm_time_elements_26_def TRG_OPT_DATA_CHANGED_def TRG_OPT_QUALITY_CHANGED_def)

lemma addrs_sample_SchdAbsTm_time_elements_26: "map fst sample_SchdAbsTm_time_elements_26 = [3598 ..< 3603]"
  by (simp add: sample_SchdAbsTm_time_elements_26_def upt_rec_numeral)

lemma elements_sample_SchdAbsTm_time_elements_26: "sample_SchdAbsTm_time_elements_26 = map (array_element iedModel_Device1_DSCH1_SchdAbsTm_time iedModel_Device1_DSCH1_SchdAbsTm_time_0 255 FC_SP T_TIMESTAMP TRG_OPT_DATA_CHANGED) [250 ..< 255]"
  by (simp add: sample_SchdAbsTm_time_elements_26_def array_element_def upt_rec_numeral)

lemma childless_sample_SchdAbsTm_time_elements_26: "childless_objects sample_SchdAbsTm_time_elements_26 = []"
  by (simp add: sample_SchdAbsTm_time_elements_26_def childless_objects_def)

lemma scan_sample_SchdAbsTm_time_elements: "scan [(Some iedModel_Device1_DSCH1_SchdAbsTm_time, Some iedModel_Device1_DSCH1_SchdAbsTm_time_0), (Some iedModel_Device1_DSCH1_SchdAbsTm, None), (Some iedModel_Device1_DSCH1, None), (Some iedModel_Device1, Some iedModel_Device1_MMXU1), (Some iedModel, None)] sample_SchdAbsTm_time_elements
    = Some [(Some iedModel_Device1, Some iedModel_Device1_MMXU1), (Some iedModel, None)]"
  by (simp add: sample_SchdAbsTm_time_elements_def scan_append scan_sample_SchdAbsTm_time_elements_1 scan_sample_SchdAbsTm_time_elements_2 scan_sample_SchdAbsTm_time_elements_3 scan_sample_SchdAbsTm_time_elements_4 scan_sample_SchdAbsTm_time_elements_5 scan_sample_SchdAbsTm_time_elements_6 scan_sample_SchdAbsTm_time_elements_7 scan_sample_SchdAbsTm_time_elements_8 scan_sample_SchdAbsTm_time_elements_9 scan_sample_SchdAbsTm_time_elements_10 scan_sample_SchdAbsTm_time_elements_11 scan_sample_SchdAbsTm_time_elements_12 scan_sample_SchdAbsTm_time_elements_13 scan_sample_SchdAbsTm_time_elements_14 scan_sample_SchdAbsTm_time_elements_15 scan_sample_SchdAbsTm_time_elements_16 scan_sample_SchdAbsTm_time_elements_17 scan_sample_SchdAbsTm_time_elements_18 scan_sample_SchdAbsTm_time_elements_19 scan_sample_SchdAbsTm_time_elements_20 scan_sample_SchdAbsTm_time_elements_21 scan_sample_SchdAbsTm_time_elements_22 scan_sample_SchdAbsTm_time_elements_23 scan_sample_SchdAbsTm_time_elements_24 scan_sample_SchdAbsTm_time_elements_25 scan_sample_SchdAbsTm_time_elements_26)

lemma conf_sample_SchdAbsTm_time_elements: "list_all sample_conforms (map snd sample_SchdAbsTm_time_elements)"
  by (simp add: sample_SchdAbsTm_time_elements_def conf_sample_SchdAbsTm_time_elements_1 conf_sample_SchdAbsTm_time_elements_2 conf_sample_SchdAbsTm_time_elements_3 conf_sample_SchdAbsTm_time_elements_4 conf_sample_SchdAbsTm_time_elements_5 conf_sample_SchdAbsTm_time_elements_6 conf_sample_SchdAbsTm_time_elements_7 conf_sample_SchdAbsTm_time_elements_8 conf_sample_SchdAbsTm_time_elements_9 conf_sample_SchdAbsTm_time_elements_10 conf_sample_SchdAbsTm_time_elements_11 conf_sample_SchdAbsTm_time_elements_12 conf_sample_SchdAbsTm_time_elements_13 conf_sample_SchdAbsTm_time_elements_14 conf_sample_SchdAbsTm_time_elements_15 conf_sample_SchdAbsTm_time_elements_16 conf_sample_SchdAbsTm_time_elements_17 conf_sample_SchdAbsTm_time_elements_18 conf_sample_SchdAbsTm_time_elements_19 conf_sample_SchdAbsTm_time_elements_20 conf_sample_SchdAbsTm_time_elements_21 conf_sample_SchdAbsTm_time_elements_22 conf_sample_SchdAbsTm_time_elements_23 conf_sample_SchdAbsTm_time_elements_24 conf_sample_SchdAbsTm_time_elements_25 conf_sample_SchdAbsTm_time_elements_26)

lemma childless_sample_SchdAbsTm_time_elements: "childless_objects sample_SchdAbsTm_time_elements = []"
  by (simp add: sample_SchdAbsTm_time_elements_def childless_append childless_sample_SchdAbsTm_time_elements_1 childless_sample_SchdAbsTm_time_elements_2 childless_sample_SchdAbsTm_time_elements_3 childless_sample_SchdAbsTm_time_elements_4 childless_sample_SchdAbsTm_time_elements_5 childless_sample_SchdAbsTm_time_elements_6 childless_sample_SchdAbsTm_time_elements_7 childless_sample_SchdAbsTm_time_elements_8 childless_sample_SchdAbsTm_time_elements_9 childless_sample_SchdAbsTm_time_elements_10 childless_sample_SchdAbsTm_time_elements_11 childless_sample_SchdAbsTm_time_elements_12 childless_sample_SchdAbsTm_time_elements_13 childless_sample_SchdAbsTm_time_elements_14 childless_sample_SchdAbsTm_time_elements_15 childless_sample_SchdAbsTm_time_elements_16 childless_sample_SchdAbsTm_time_elements_17 childless_sample_SchdAbsTm_time_elements_18 childless_sample_SchdAbsTm_time_elements_19 childless_sample_SchdAbsTm_time_elements_20 childless_sample_SchdAbsTm_time_elements_21 childless_sample_SchdAbsTm_time_elements_22 childless_sample_SchdAbsTm_time_elements_23 childless_sample_SchdAbsTm_time_elements_24 childless_sample_SchdAbsTm_time_elements_25 childless_sample_SchdAbsTm_time_elements_26)

lemma addrs_sample_SchdAbsTm_time_elements: "map fst sample_SchdAbsTm_time_elements = [3348 ..< 3603]"
  by (simp add: sample_SchdAbsTm_time_elements_def upt_join addrs_sample_SchdAbsTm_time_elements_1 addrs_sample_SchdAbsTm_time_elements_2 addrs_sample_SchdAbsTm_time_elements_3 addrs_sample_SchdAbsTm_time_elements_4 addrs_sample_SchdAbsTm_time_elements_5 addrs_sample_SchdAbsTm_time_elements_6 addrs_sample_SchdAbsTm_time_elements_7 addrs_sample_SchdAbsTm_time_elements_8 addrs_sample_SchdAbsTm_time_elements_9 addrs_sample_SchdAbsTm_time_elements_10 addrs_sample_SchdAbsTm_time_elements_11 addrs_sample_SchdAbsTm_time_elements_12 addrs_sample_SchdAbsTm_time_elements_13 addrs_sample_SchdAbsTm_time_elements_14 addrs_sample_SchdAbsTm_time_elements_15 addrs_sample_SchdAbsTm_time_elements_16 addrs_sample_SchdAbsTm_time_elements_17 addrs_sample_SchdAbsTm_time_elements_18 addrs_sample_SchdAbsTm_time_elements_19 addrs_sample_SchdAbsTm_time_elements_20 addrs_sample_SchdAbsTm_time_elements_21 addrs_sample_SchdAbsTm_time_elements_22 addrs_sample_SchdAbsTm_time_elements_23 addrs_sample_SchdAbsTm_time_elements_24 addrs_sample_SchdAbsTm_time_elements_25 addrs_sample_SchdAbsTm_time_elements_26 del: upt_rec_numeral)

lemma elements_sample_SchdAbsTm_time_elements: "sample_SchdAbsTm_time_elements = map (array_element iedModel_Device1_DSCH1_SchdAbsTm_time iedModel_Device1_DSCH1_SchdAbsTm_time_0 255 FC_SP T_TIMESTAMP TRG_OPT_DATA_CHANGED) [0 ..< 255]"
  by (simp add: sample_SchdAbsTm_time_elements_def upt_join map_append [symmetric] elements_sample_SchdAbsTm_time_elements_1 elements_sample_SchdAbsTm_time_elements_2 elements_sample_SchdAbsTm_time_elements_3 elements_sample_SchdAbsTm_time_elements_4 elements_sample_SchdAbsTm_time_elements_5 elements_sample_SchdAbsTm_time_elements_6 elements_sample_SchdAbsTm_time_elements_7 elements_sample_SchdAbsTm_time_elements_8 elements_sample_SchdAbsTm_time_elements_9 elements_sample_SchdAbsTm_time_elements_10 elements_sample_SchdAbsTm_time_elements_11 elements_sample_SchdAbsTm_time_elements_12 elements_sample_SchdAbsTm_time_elements_13 elements_sample_SchdAbsTm_time_elements_14 elements_sample_SchdAbsTm_time_elements_15 elements_sample_SchdAbsTm_time_elements_16 elements_sample_SchdAbsTm_time_elements_17 elements_sample_SchdAbsTm_time_elements_18 elements_sample_SchdAbsTm_time_elements_19 elements_sample_SchdAbsTm_time_elements_20 elements_sample_SchdAbsTm_time_elements_21 elements_sample_SchdAbsTm_time_elements_22 elements_sample_SchdAbsTm_time_elements_23 elements_sample_SchdAbsTm_time_elements_24 elements_sample_SchdAbsTm_time_elements_25 elements_sample_SchdAbsTm_time_elements_26 del: upt_rec_numeral map_append)

end
