(* ===== verification/Sample_Static.thy ===== *)
theory Sample_Static
  imports Sample_Nodes Sample_Values Sample_Times
begin

text \<open>
  The static model of \<open>sample/server_example_simple/static_model.c\<close> as a whole: all structures,
  the data set, the report control block, the root structure and \<open>initializeValues\<close>, as an
  instance of the locale \<open>static_model\<close>.
\<close>

section \<open>The model\<close>

definition sample_table :: node_table where
  "sample_table =
     sample_LD @ sample_LLN0 @ sample_LPHD1 @ sample_DGEN1 @ sample_DSCH1 @ sample_SchdAbsTm_val
     @ sample_SchdAbsTm_val_elements @ sample_SchdAbsTm_time @ sample_SchdAbsTm_time_elements
     @ sample_MMXU1 @ sample_MMXU2"

definition sample_fcda :: "string \<Rightarrow> nat option \<Rightarrow> data_set_entry" where
  "sample_fcda v s =
     \<lparr>fcda_logicalDeviceName = ''Device1'', fcda_isLDNameDynamicallyAllocated = False, fcda_variableName = v,
      fcda_index = - 1, fcda_componentName = None, fcda_value = None, fcda_sibling = s\<rparr>"

text \<open>The entries \<open>iedModelds_Device1_LLN0_dataset1_fcda0\<close> to \<open>fcda2\<close> by their number.\<close>

definition dataset1_fcdas :: "(nat \<times> data_set_entry) list" where
  "dataset1_fcdas =
     [(0, sample_fcda ''LLN0$ST$Mod$q'' (Some 1)),
      (1, sample_fcda ''MMXU1$ST$Mod$q'' (Some 2)),
      (2, sample_fcda ''MMXU1$CF$Mod$ctlModel'' None)]"

definition dataset1 :: data_set where
  "dataset1 =
     \<lparr>ds_logicalDeviceName = ''Device1'', ds_name = ''LLN0$dataset1'', ds_elementCount = 3, ds_fcdas = Some 0,
      ds_sibling = None\<rparr>"

definition sample_reports :: "(nat \<times> report_control_block) list" where
  "sample_reports =
     [(0, \<lparr>rcb_parent = iedModel_Device1_LLN0, rcb_name = ''LLN0_Events_BuffRep01'', rcb_rptId = ''LLN0$RP$brcbEV1'',
           rcb_buffered = True, rcb_dataSetName = ''dataset1'', rcb_confRef = 1, rcb_trgOps = 25, rcb_options = 239,
           rcb_bufferTime = 50, rcb_intPeriod = 900000, rcb_clientReservation = replicate 17 0, rcb_sibling = None\<rparr>)]"

definition sample_iedModel :: ied_model where
  "sample_iedModel =
     \<lparr>im_name = ''SampleIED'', im_firstChild = iedModel_Device1, im_dataSets = dataset1, im_rcbs = 0\<rparr>"

definition sample_initial_values :: "(addr \<times> mms_value) list" where
  "sample_initial_values =
     [(iedModel_Device1_LLN0_Mod_ctlModel, MmsInteger 0),
      (iedModel_Device1_DGEN1_Mod_ctlModel, MmsInteger 0),
      (iedModel_Device1_DSCH1_Mod_ctlModel, MmsInteger 0),
      (iedModel_Device1_MMXU1_Mod_ctlModel, MmsInteger 0),
      (iedModel_Device1_MMXU2_Mod_ctlModel, MmsInteger 0)]"

definition sample_initializeValues :: "node_table \<Rightarrow> node_table" where
  "sample_initializeValues tbl = assign_all sample_initial_values tbl"

section \<open>Checking the table\<close>

lemmas scan_sample = scan_sample_LD scan_sample_LLN0 scan_sample_LPHD1 scan_sample_DGEN1 scan_sample_DSCH1 scan_sample_SchdAbsTm_val scan_sample_SchdAbsTm_val_elements scan_sample_SchdAbsTm_time scan_sample_SchdAbsTm_time_elements scan_sample_MMXU1 scan_sample_MMXU2

lemmas addrs_sample = addrs_sample_LD addrs_sample_LLN0 addrs_sample_LPHD1 addrs_sample_DGEN1 addrs_sample_DSCH1 addrs_sample_SchdAbsTm_val addrs_sample_SchdAbsTm_val_elements addrs_sample_SchdAbsTm_time addrs_sample_SchdAbsTm_time_elements addrs_sample_MMXU1 addrs_sample_MMXU2

lemmas conf_sample = conf_sample_LD conf_sample_LLN0 conf_sample_LPHD1 conf_sample_DGEN1 conf_sample_DSCH1 conf_sample_SchdAbsTm_val conf_sample_SchdAbsTm_val_elements conf_sample_SchdAbsTm_time conf_sample_SchdAbsTm_time_elements conf_sample_MMXU1 conf_sample_MMXU2

lemmas childless_sample = childless_sample_LD childless_sample_LLN0 childless_sample_LPHD1 childless_sample_DGEN1 childless_sample_DSCH1 childless_sample_SchdAbsTm_val childless_sample_SchdAbsTm_val_elements childless_sample_SchdAbsTm_time childless_sample_SchdAbsTm_time_elements childless_sample_MMXU1 childless_sample_MMXU2

lemma scan_sample_table: "scan [(Some iedModel, Some iedModel_Device1)] sample_table = Some []"
  by (simp add: sample_table_def scan_append scan_sample)

lemma addrs_sample_table: "map fst sample_table = [3001 ..< 3642]"
  by (simp add: sample_table_def upt_join addrs_sample del: upt_rec_numeral)

lemma conf_sample_table: "list_all sample_conforms (map snd sample_table)"
  by (simp add: sample_table_def conf_sample)

lemma childless_sample_table: "childless_objects sample_table = [Some ''SchdId'', Some ''SchdCat'', Some ''SchdTyp'']"
  by (simp add: sample_table_def childless_append childless_sample)

lemma sample_table_distinct: "distinct (map fst sample_table)"
  by (simp only: addrs_sample_table distinct_upt)

lemma sample_table_length: "length sample_table = 641"
  using arg_cong [OF addrs_sample_table, of length] by simp

lemma sample_lookup: "(a, n) \<in> set sample_table \<Longrightarrow> map_of sample_table a = Some n"
  by (simp add: sample_table_distinct)

section \<open>Single structures\<close>

lemma at_Device1:
  "map_of sample_table iedModel_Device1 = Some
    (LogicalDevice (Some ''Device1'') (Some iedModel) None (Some iedModel_Device1_LLN0) None)"
  by (rule sample_lookup) (simp add: sample_table_def sample_LD_def)

lemma at_Device1_LLN0:
  "map_of sample_table iedModel_Device1_LLN0 = Some
    (LogicalNode (Some ''LLN0'') (Some iedModel_Device1) (Some iedModel_Device1_LPHD1) (Some iedModel_Device1_LLN0_Mod))"
  by (rule sample_lookup) (simp add: sample_table_def sample_LLN0_def sample_LLN0_1_def)

lemma at_Device1_MMXU1:
  "map_of sample_table iedModel_Device1_MMXU1 = Some
    (LogicalNode (Some ''MMXU1'') (Some iedModel_Device1) (Some iedModel_Device1_MMXU2) (Some iedModel_Device1_MMXU1_Mod))"
  by (rule sample_lookup) (simp add: sample_table_def sample_MMXU1_def sample_MMXU1_1_def)

lemma at_Device1_LLN0_Mod:
  "map_of sample_table iedModel_Device1_LLN0_Mod = Some
    (DataObject (Some ''Mod'') (Some iedModel_Device1_LLN0) (Some iedModel_Device1_LLN0_Beh) (Some iedModel_Device1_LLN0_Mod_q) 0 (- 1))"
  by (rule sample_lookup) (simp add: sample_table_def sample_LLN0_def sample_LLN0_1_def)

lemma at_Device1_MMXU1_Mod:
  "map_of sample_table iedModel_Device1_MMXU1_Mod = Some
    (DataObject (Some ''Mod'') (Some iedModel_Device1_MMXU1) (Some iedModel_Device1_MMXU1_Beh) (Some iedModel_Device1_MMXU1_Mod_q) 0 (- 1))"
  by (rule sample_lookup) (simp add: sample_table_def sample_MMXU1_def sample_MMXU1_1_def)

lemma at_Device1_LLN0_Mod_q:
  "map_of sample_table iedModel_Device1_LLN0_Mod_q = Some
    (DataAttribute (Some ''q'') (Some iedModel_Device1_LLN0_Mod) (Some iedModel_Device1_LLN0_Mod_t) None 0 (- 1) FC_ST T_QUALITY (0 + TRG_OPT_QUALITY_CHANGED) None 0)"
  by (rule sample_lookup) (simp add: sample_table_def sample_LLN0_def sample_LLN0_1_def)

lemma at_Device1_MMXU1_Mod_q:
  "map_of sample_table iedModel_Device1_MMXU1_Mod_q = Some
    (DataAttribute (Some ''q'') (Some iedModel_Device1_MMXU1_Mod) (Some iedModel_Device1_MMXU1_Mod_t) None 0 (- 1) FC_ST T_QUALITY (0 + TRG_OPT_QUALITY_CHANGED) None 0)"
  by (rule sample_lookup) (simp add: sample_table_def sample_MMXU1_def sample_MMXU1_1_def)

lemma at_Device1_LLN0_Mod_ctlModel:
  "map_of sample_table iedModel_Device1_LLN0_Mod_ctlModel = Some
    (DataAttribute (Some ''ctlModel'') (Some iedModel_Device1_LLN0_Mod) None None 0 (- 1) FC_CF T_ENUMERATED 0 None 0)"
  by (rule sample_lookup) (simp add: sample_table_def sample_LLN0_def sample_LLN0_1_def)

lemma at_Device1_DGEN1_Mod_ctlModel:
  "map_of sample_table iedModel_Device1_DGEN1_Mod_ctlModel = Some
    (DataAttribute (Some ''ctlModel'') (Some iedModel_Device1_DGEN1_Mod) None None 0 (- 1) FC_CF T_ENUMERATED 0 None 0)"
  by (rule sample_lookup) (simp add: sample_table_def sample_DGEN1_def sample_DGEN1_1_def)

lemma at_Device1_DSCH1_Mod_ctlModel:
  "map_of sample_table iedModel_Device1_DSCH1_Mod_ctlModel = Some
    (DataAttribute (Some ''ctlModel'') (Some iedModel_Device1_DSCH1_Mod) None None 0 (- 1) FC_CF T_ENUMERATED 0 None 0)"
  by (rule sample_lookup) (simp add: sample_table_def sample_DSCH1_def sample_DSCH1_1_def)

lemma at_Device1_MMXU1_Mod_ctlModel:
  "map_of sample_table iedModel_Device1_MMXU1_Mod_ctlModel = Some
    (DataAttribute (Some ''ctlModel'') (Some iedModel_Device1_MMXU1_Mod) None None 0 (- 1) FC_CF T_ENUMERATED 0 None 0)"
  by (rule sample_lookup) (simp add: sample_table_def sample_MMXU1_def sample_MMXU1_1_def)

lemma at_Device1_MMXU2_Mod_ctlModel:
  "map_of sample_table iedModel_Device1_MMXU2_Mod_ctlModel = Some
    (DataAttribute (Some ''ctlModel'') (Some iedModel_Device1_MMXU2_Mod) None None 0 (- 1) FC_CF T_ENUMERATED 0 None 0)"
  by (rule sample_lookup) (simp add: sample_table_def sample_MMXU2_def sample_MMXU2_1_def)

lemma at_Device1_DSCH1_SchdAbsTm_val:
  "map_of sample_table iedModel_Device1_DSCH1_SchdAbsTm_val = Some
    (DataAttribute (Some ''val'') (Some iedModel_Device1_DSCH1_SchdAbsTm) (Some iedModel_Device1_DSCH1_SchdAbsTm_time) (Some iedModel_Device1_DSCH1_SchdAbsTm_val_0) 255 (- 1) FC_SP T_FLOAT32 (0 + TRG_OPT_DATA_CHANGED) None 0)"
  by (rule sample_lookup) (simp add: sample_table_def sample_SchdAbsTm_val_def)

lemma at_Device1_DSCH1_SchdAbsTm_time:
  "map_of sample_table iedModel_Device1_DSCH1_SchdAbsTm_time = Some
    (DataAttribute (Some ''time'') (Some iedModel_Device1_DSCH1_SchdAbsTm) None (Some iedModel_Device1_DSCH1_SchdAbsTm_time_0) 255 (- 1) FC_SP T_TIMESTAMP (0 + TRG_OPT_DATA_CHANGED) None 0)"
  by (rule sample_lookup) (simp add: sample_table_def sample_SchdAbsTm_time_def)

lemmas at_sample = at_Device1 at_Device1_LLN0 at_Device1_MMXU1 at_Device1_LLN0_Mod at_Device1_MMXU1_Mod at_Device1_LLN0_Mod_q at_Device1_MMXU1_Mod_q at_Device1_LLN0_Mod_ctlModel at_Device1_DGEN1_Mod_ctlModel at_Device1_DSCH1_Mod_ctlModel at_Device1_MMXU1_Mod_ctlModel at_Device1_MMXU2_Mod_ctlModel at_Device1_DSCH1_SchdAbsTm_val at_Device1_DSCH1_SchdAbsTm_time

interpretation smp: static_model iedModel iedModel_Device1 sample_table sample_initial_values
  by unfold_locales (simp_all add: scan_sample_table sample_table_distinct at_Device1 sample_initial_values_def)

section \<open>Data set and report\<close>

lemma dataset1_references:
  "reference sample_table iedModel_Device1_LLN0_Mod_q = Some (''Device1'', ''LLN0$ST$Mod$q'')"
  "reference sample_table iedModel_Device1_MMXU1_Mod_q = Some (''Device1'', ''MMXU1$ST$Mod$q'')"
  "reference sample_table iedModel_Device1_MMXU1_Mod_ctlModel = Some (''Device1'', ''MMXU1$CF$Mod$ctlModel'')"
  by (simp_all add: reference_def at_sample)

lemma dataset1_chain: "chain_of 3 dataset1_fcdas fcda_sibling (ds_fcdas dataset1) = Some (map snd dataset1_fcdas)"
  by (simp add: dataset1_def dataset1_fcdas_def sample_fcda_def eval_nat_numeral)

lemma dataset1_resolves:
  "int (length dataset1_fcdas) = ds_elementCount dataset1"
  "\<forall>e \<in> set (map snd dataset1_fcdas). \<exists>a. reference sample_table a = Some (fcda_logicalDeviceName e, fcda_variableName e)"
  "\<forall>r \<in> set (map snd sample_reports). map_option node_name (map_of sample_table (rcb_parent r)) = Some (Some ''LLN0'')
     \<and> ''LLN0$'' @ rcb_dataSetName r = ds_name dataset1"
  using dataset1_references
  by (auto simp: dataset1_def dataset1_fcdas_def sample_fcda_def sample_reports_def at_sample)

lemma sample_initialised:
  "list_all (\<lambda>(a, x). \<exists>n. map_of (sample_initializeValues sample_table) a = Some n \<and> mmsValue n = Some x
                        \<and> value_fits x (node_type n)) sample_initial_values"
  "model_wf (Some iedModel) (sample_initializeValues sample_table)"
proof -
  have "list_all (\<lambda>(a, x). \<exists>n. map_of sample_table a = Some n \<and> takes_value n \<and> value_fits x (node_type n))
      sample_initial_values"
    by (simp add: sample_initial_values_def at_sample)
  then show "list_all (\<lambda>(a, x). \<exists>n. map_of (sample_initializeValues sample_table) a = Some n \<and> mmsValue n = Some x
                        \<and> value_fits x (node_type n)) sample_initial_values"
    unfolding sample_initializeValues_def by (rule smp.initialised_values)
  show "model_wf (Some iedModel) (sample_initializeValues sample_table)"
    unfolding sample_initializeValues_def by (rule smp.initialised_wf)
qed

section \<open>Properties\<close>

text \<open>
  C29. The static model of the simple server is one tree of 641 structures that obey the
  conventions of the model, and its initial values keep it well-formed. The two arrays of the schedule, each written out
  element by element over more than 3000 lines, are regular: exactly 255 elements with the
  indices from 0 on in order, all with the constraint and type that the array attribute
  declares. Three data objects of the schedule have no attributes at all.
\<close>

theorem sample_model_is_tree:
  "model_wf (Some iedModel) (sample_initializeValues sample_table) \<and> length sample_table = 641
   \<and> (\<exists>t. sample_table = emit_list (Some iedModel) [t] \<and> tree_addr t = im_firstChild sample_iedModel)
   \<and> list_all sample_conforms (map snd sample_table)
   \<and> childless_objects sample_table = [Some ''SchdId'', Some ''SchdCat'', Some ''SchdTyp'']
   \<and> list_all (\<lambda>(a, elements). \<exists>n b. map_of sample_table a = Some n \<and> node_firstChild n = Some b \<and>
        elements = map (array_element a b (nat (elementCount n)) (node_fc n) (node_type n) (triggerOptions n)) [0 ..< nat (elementCount n)])
       [(iedModel_Device1_DSCH1_SchdAbsTm_val, sample_SchdAbsTm_val_elements),
        (iedModel_Device1_DSCH1_SchdAbsTm_time, sample_SchdAbsTm_time_elements)]"
  using smp.single_tree sample_initialised(2)
  by (simp add: sample_table_length conf_sample_table childless_sample_table sample_iedModel_def at_sample
      elements_sample_SchdAbsTm_val_elements elements_sample_SchdAbsTm_time_elements del: upt_rec_numeral)

end
