(* ===== verification/Sample_Handles.thy ===== *)
theory Sample_Handles
  imports Ied_Naming Sample_Static
begin

text \<open>
  The header \<open>sample/server_example_simple/static_model.h\<close>: its declarations and handles, in file order.
\<close>

section \<open>Declarations and handles\<close>

definition smp_declared_1 :: "(c_type \<times> addr) list" where
  "smp_declared_1 =
    [(LogicalDevice_t, iedModel_Device1),
     (LogicalNode_t, iedModel_Device1_LLN0),
     (DataObject_t, iedModel_Device1_LLN0_Mod),
     (DataAttribute_t, iedModel_Device1_LLN0_Mod_q),
     (DataAttribute_t, iedModel_Device1_LLN0_Mod_t),
     (DataAttribute_t, iedModel_Device1_LLN0_Mod_ctlModel),
     (DataObject_t, iedModel_Device1_LLN0_Beh),
     (DataAttribute_t, iedModel_Device1_LLN0_Beh_stVal),
     (DataAttribute_t, iedModel_Device1_LLN0_Beh_q),
     (DataAttribute_t, iedModel_Device1_LLN0_Beh_t),
     (DataObject_t, iedModel_Device1_LLN0_Health),
     (DataAttribute_t, iedModel_Device1_LLN0_Health_stVal),
     (DataAttribute_t, iedModel_Device1_LLN0_Health_q),
     (DataAttribute_t, iedModel_Device1_LLN0_Health_t),
     (DataObject_t, iedModel_Device1_LLN0_NamPlt),
     (DataAttribute_t, iedModel_Device1_LLN0_NamPlt_vendor),
     (DataAttribute_t, iedModel_Device1_LLN0_NamPlt_swRev),
     (DataAttribute_t, iedModel_Device1_LLN0_NamPlt_d),
     (DataAttribute_t, iedModel_Device1_LLN0_NamPlt_configRev),
     (DataAttribute_t, iedModel_Device1_LLN0_NamPlt_ldNs)]"

definition smp_handles_1 :: "(string \<times> addr) list" where
  "smp_handles_1 =
    [(''IEDMODEL_Device1'', iedModel_Device1),
     (''IEDMODEL_Device1_LLN0'', iedModel_Device1_LLN0),
     (''IEDMODEL_Device1_LLN0_Mod'', iedModel_Device1_LLN0_Mod),
     (''IEDMODEL_Device1_LLN0_Mod_q'', iedModel_Device1_LLN0_Mod_q),
     (''IEDMODEL_Device1_LLN0_Mod_t'', iedModel_Device1_LLN0_Mod_t),
     (''IEDMODEL_Device1_LLN0_Mod_ctlModel'', iedModel_Device1_LLN0_Mod_ctlModel),
     (''IEDMODEL_Device1_LLN0_Beh'', iedModel_Device1_LLN0_Beh),
     (''IEDMODEL_Device1_LLN0_Beh_stVal'', iedModel_Device1_LLN0_Beh_stVal),
     (''IEDMODEL_Device1_LLN0_Beh_q'', iedModel_Device1_LLN0_Beh_q),
     (''IEDMODEL_Device1_LLN0_Beh_t'', iedModel_Device1_LLN0_Beh_t),
     (''IEDMODEL_Device1_LLN0_Health'', iedModel_Device1_LLN0_Health),
     (''IEDMODEL_Device1_LLN0_Health_stVal'', iedModel_Device1_LLN0_Health_stVal),
     (''IEDMODEL_Device1_LLN0_Health_q'', iedModel_Device1_LLN0_Health_q),
     (''IEDMODEL_Device1_LLN0_Health_t'', iedModel_Device1_LLN0_Health_t),
     (''IEDMODEL_Device1_LLN0_NamPlt'', iedModel_Device1_LLN0_NamPlt),
     (''IEDMODEL_Device1_LLN0_NamPlt_vendor'', iedModel_Device1_LLN0_NamPlt_vendor),
     (''IEDMODEL_Device1_LLN0_NamPlt_swRev'', iedModel_Device1_LLN0_NamPlt_swRev),
     (''IEDMODEL_Device1_LLN0_NamPlt_d'', iedModel_Device1_LLN0_NamPlt_d),
     (''IEDMODEL_Device1_LLN0_NamPlt_configRev'', iedModel_Device1_LLN0_NamPlt_configRev),
     (''IEDMODEL_Device1_LLN0_NamPlt_ldNs'', iedModel_Device1_LLN0_NamPlt_ldNs)]"

definition smp_declared_2 :: "(c_type \<times> addr) list" where
  "smp_declared_2 =
    [(LogicalNode_t, iedModel_Device1_LPHD1),
     (DataObject_t, iedModel_Device1_LPHD1_PhyNam),
     (DataAttribute_t, iedModel_Device1_LPHD1_PhyNam_vendor),
     (DataObject_t, iedModel_Device1_LPHD1_PhyHealth),
     (DataAttribute_t, iedModel_Device1_LPHD1_PhyHealth_stVal),
     (DataAttribute_t, iedModel_Device1_LPHD1_PhyHealth_q),
     (DataAttribute_t, iedModel_Device1_LPHD1_PhyHealth_t),
     (DataObject_t, iedModel_Device1_LPHD1_Proxy),
     (DataAttribute_t, iedModel_Device1_LPHD1_Proxy_stVal),
     (DataAttribute_t, iedModel_Device1_LPHD1_Proxy_q),
     (DataAttribute_t, iedModel_Device1_LPHD1_Proxy_t),
     (LogicalNode_t, iedModel_Device1_DGEN1),
     (DataObject_t, iedModel_Device1_DGEN1_Mod),
     (DataAttribute_t, iedModel_Device1_DGEN1_Mod_q),
     (DataAttribute_t, iedModel_Device1_DGEN1_Mod_t),
     (DataAttribute_t, iedModel_Device1_DGEN1_Mod_ctlModel),
     (DataObject_t, iedModel_Device1_DGEN1_Beh),
     (DataAttribute_t, iedModel_Device1_DGEN1_Beh_stVal),
     (DataAttribute_t, iedModel_Device1_DGEN1_Beh_q),
     (DataAttribute_t, iedModel_Device1_DGEN1_Beh_t),
     (DataObject_t, iedModel_Device1_DGEN1_Health),
     (DataAttribute_t, iedModel_Device1_DGEN1_Health_stVal)]"

definition smp_handles_2 :: "(string \<times> addr) list" where
  "smp_handles_2 =
    [(''IEDMODEL_Device1_LPHD1'', iedModel_Device1_LPHD1),
     (''IEDMODEL_Device1_LPHD1_PhyNam'', iedModel_Device1_LPHD1_PhyNam),
     (''IEDMODEL_Device1_LPHD1_PhyNam_vendor'', iedModel_Device1_LPHD1_PhyNam_vendor),
     (''IEDMODEL_Device1_LPHD1_PhyHealth'', iedModel_Device1_LPHD1_PhyHealth),
     (''IEDMODEL_Device1_LPHD1_PhyHealth_stVal'', iedModel_Device1_LPHD1_PhyHealth_stVal),
     (''IEDMODEL_Device1_LPHD1_PhyHealth_q'', iedModel_Device1_LPHD1_PhyHealth_q),
     (''IEDMODEL_Device1_LPHD1_PhyHealth_t'', iedModel_Device1_LPHD1_PhyHealth_t),
     (''IEDMODEL_Device1_LPHD1_Proxy'', iedModel_Device1_LPHD1_Proxy),
     (''IEDMODEL_Device1_LPHD1_Proxy_stVal'', iedModel_Device1_LPHD1_Proxy_stVal),
     (''IEDMODEL_Device1_LPHD1_Proxy_q'', iedModel_Device1_LPHD1_Proxy_q),
     (''IEDMODEL_Device1_LPHD1_Proxy_t'', iedModel_Device1_LPHD1_Proxy_t),
     (''IEDMODEL_Device1_DGEN1'', iedModel_Device1_DGEN1),
     (''IEDMODEL_Device1_DGEN1_Mod'', iedModel_Device1_DGEN1_Mod),
     (''IEDMODEL_Device1_DGEN1_Mod_q'', iedModel_Device1_DGEN1_Mod_q),
     (''IEDMODEL_Device1_DGEN1_Mod_t'', iedModel_Device1_DGEN1_Mod_t),
     (''IEDMODEL_Device1_DGEN1_Mod_ctlModel'', iedModel_Device1_DGEN1_Mod_ctlModel),
     (''IEDMODEL_Device1_DGEN1_Beh'', iedModel_Device1_DGEN1_Beh),
     (''IEDMODEL_Device1_DGEN1_Beh_stVal'', iedModel_Device1_DGEN1_Beh_stVal),
     (''IEDMODEL_Device1_DGEN1_Beh_q'', iedModel_Device1_DGEN1_Beh_q),
     (''IEDMODEL_Device1_DGEN1_Beh_t'', iedModel_Device1_DGEN1_Beh_t),
     (''IEDMODEL_Device1_DGEN1_Health'', iedModel_Device1_DGEN1_Health),
     (''IEDMODEL_Device1_DGEN1_Health_stVal'', iedModel_Device1_DGEN1_Health_stVal)]"

definition smp_declared_3 :: "(c_type \<times> addr) list" where
  "smp_declared_3 =
    [(DataAttribute_t, iedModel_Device1_DGEN1_Health_q),
     (DataAttribute_t, iedModel_Device1_DGEN1_Health_t),
     (DataObject_t, iedModel_Device1_DGEN1_NamPlt),
     (DataAttribute_t, iedModel_Device1_DGEN1_NamPlt_vendor),
     (DataAttribute_t, iedModel_Device1_DGEN1_NamPlt_swRev),
     (DataAttribute_t, iedModel_Device1_DGEN1_NamPlt_d),
     (DataObject_t, iedModel_Device1_DGEN1_OpTmh),
     (DataAttribute_t, iedModel_Device1_DGEN1_OpTmh_stVal),
     (DataAttribute_t, iedModel_Device1_DGEN1_OpTmh_q),
     (DataAttribute_t, iedModel_Device1_DGEN1_OpTmh_t),
     (DataObject_t, iedModel_Device1_DGEN1_GnOpSt),
     (DataAttribute_t, iedModel_Device1_DGEN1_GnOpSt_stVal),
     (DataAttribute_t, iedModel_Device1_DGEN1_GnOpSt_q),
     (DataAttribute_t, iedModel_Device1_DGEN1_GnOpSt_t),
     (DataObject_t, iedModel_Device1_DGEN1_OpTmsRs),
     (DataAttribute_t, iedModel_Device1_DGEN1_OpTmsRs_stVal),
     (DataAttribute_t, iedModel_Device1_DGEN1_OpTmsRs_q),
     (DataAttribute_t, iedModel_Device1_DGEN1_OpTmsRs_t),
     (DataObject_t, iedModel_Device1_DGEN1_TotWh),
     (DataAttribute_t, iedModel_Device1_DGEN1_TotWh_mag),
     (DataAttribute_t, iedModel_Device1_DGEN1_TotWh_mag_f),
     (DataAttribute_t, iedModel_Device1_DGEN1_TotWh_q),
     (DataAttribute_t, iedModel_Device1_DGEN1_TotWh_t)]"

definition smp_handles_3 :: "(string \<times> addr) list" where
  "smp_handles_3 =
    [(''IEDMODEL_Device1_DGEN1_Health_q'', iedModel_Device1_DGEN1_Health_q),
     (''IEDMODEL_Device1_DGEN1_Health_t'', iedModel_Device1_DGEN1_Health_t),
     (''IEDMODEL_Device1_DGEN1_NamPlt'', iedModel_Device1_DGEN1_NamPlt),
     (''IEDMODEL_Device1_DGEN1_NamPlt_vendor'', iedModel_Device1_DGEN1_NamPlt_vendor),
     (''IEDMODEL_Device1_DGEN1_NamPlt_swRev'', iedModel_Device1_DGEN1_NamPlt_swRev),
     (''IEDMODEL_Device1_DGEN1_NamPlt_d'', iedModel_Device1_DGEN1_NamPlt_d),
     (''IEDMODEL_Device1_DGEN1_OpTmh'', iedModel_Device1_DGEN1_OpTmh),
     (''IEDMODEL_Device1_DGEN1_OpTmh_stVal'', iedModel_Device1_DGEN1_OpTmh_stVal),
     (''IEDMODEL_Device1_DGEN1_OpTmh_q'', iedModel_Device1_DGEN1_OpTmh_q),
     (''IEDMODEL_Device1_DGEN1_OpTmh_t'', iedModel_Device1_DGEN1_OpTmh_t),
     (''IEDMODEL_Device1_DGEN1_GnOpSt'', iedModel_Device1_DGEN1_GnOpSt),
     (''IEDMODEL_Device1_DGEN1_GnOpSt_stVal'', iedModel_Device1_DGEN1_GnOpSt_stVal),
     (''IEDMODEL_Device1_DGEN1_GnOpSt_q'', iedModel_Device1_DGEN1_GnOpSt_q),
     (''IEDMODEL_Device1_DGEN1_GnOpSt_t'', iedModel_Device1_DGEN1_GnOpSt_t),
     (''IEDMODEL_Device1_DGEN1_OpTmsRs'', iedModel_Device1_DGEN1_OpTmsRs),
     (''IEDMODEL_Device1_DGEN1_OpTmsRs_stVal'', iedModel_Device1_DGEN1_OpTmsRs_stVal),
     (''IEDMODEL_Device1_DGEN1_OpTmsRs_q'', iedModel_Device1_DGEN1_OpTmsRs_q),
     (''IEDMODEL_Device1_DGEN1_OpTmsRs_t'', iedModel_Device1_DGEN1_OpTmsRs_t),
     (''IEDMODEL_Device1_DGEN1_TotWh'', iedModel_Device1_DGEN1_TotWh),
     (''IEDMODEL_Device1_DGEN1_TotWh_mag'', iedModel_Device1_DGEN1_TotWh_mag),
     (''IEDMODEL_Device1_DGEN1_TotWh_mag_f'', iedModel_Device1_DGEN1_TotWh_mag_f),
     (''IEDMODEL_Device1_DGEN1_TotWh_q'', iedModel_Device1_DGEN1_TotWh_q),
     (''IEDMODEL_Device1_DGEN1_TotWh_t'', iedModel_Device1_DGEN1_TotWh_t)]"

definition smp_declared_4 :: "(c_type \<times> addr) list" where
  "smp_declared_4 =
    [(LogicalNode_t, iedModel_Device1_DSCH1),
     (DataObject_t, iedModel_Device1_DSCH1_Mod),
     (DataAttribute_t, iedModel_Device1_DSCH1_Mod_q),
     (DataAttribute_t, iedModel_Device1_DSCH1_Mod_t),
     (DataAttribute_t, iedModel_Device1_DSCH1_Mod_ctlModel),
     (DataObject_t, iedModel_Device1_DSCH1_Beh),
     (DataAttribute_t, iedModel_Device1_DSCH1_Beh_stVal),
     (DataAttribute_t, iedModel_Device1_DSCH1_Beh_q),
     (DataAttribute_t, iedModel_Device1_DSCH1_Beh_t),
     (DataObject_t, iedModel_Device1_DSCH1_Health),
     (DataAttribute_t, iedModel_Device1_DSCH1_Health_stVal),
     (DataAttribute_t, iedModel_Device1_DSCH1_Health_q),
     (DataAttribute_t, iedModel_Device1_DSCH1_Health_t),
     (DataObject_t, iedModel_Device1_DSCH1_NamPlt),
     (DataAttribute_t, iedModel_Device1_DSCH1_NamPlt_vendor),
     (DataAttribute_t, iedModel_Device1_DSCH1_NamPlt_swRev),
     (DataAttribute_t, iedModel_Device1_DSCH1_NamPlt_d),
     (DataObject_t, iedModel_Device1_DSCH1_SchdSt),
     (DataAttribute_t, iedModel_Device1_DSCH1_SchdSt_stVal),
     (DataAttribute_t, iedModel_Device1_DSCH1_SchdSt_q),
     (DataAttribute_t, iedModel_Device1_DSCH1_SchdSt_t),
     (DataObject_t, iedModel_Device1_DSCH1_SchdId)]"

definition smp_handles_4 :: "(string \<times> addr) list" where
  "smp_handles_4 =
    [(''IEDMODEL_Device1_DSCH1'', iedModel_Device1_DSCH1),
     (''IEDMODEL_Device1_DSCH1_Mod'', iedModel_Device1_DSCH1_Mod),
     (''IEDMODEL_Device1_DSCH1_Mod_q'', iedModel_Device1_DSCH1_Mod_q),
     (''IEDMODEL_Device1_DSCH1_Mod_t'', iedModel_Device1_DSCH1_Mod_t),
     (''IEDMODEL_Device1_DSCH1_Mod_ctlModel'', iedModel_Device1_DSCH1_Mod_ctlModel),
     (''IEDMODEL_Device1_DSCH1_Beh'', iedModel_Device1_DSCH1_Beh),
     (''IEDMODEL_Device1_DSCH1_Beh_stVal'', iedModel_Device1_DSCH1_Beh_stVal),
     (''IEDMODEL_Device1_DSCH1_Beh_q'', iedModel_Device1_DSCH1_Beh_q),
     (''IEDMODEL_Device1_DSCH1_Beh_t'', iedModel_Device1_DSCH1_Beh_t),
     (''IEDMODEL_Device1_DSCH1_Health'', iedModel_Device1_DSCH1_Health),
     (''IEDMODEL_Device1_DSCH1_Health_stVal'', iedModel_Device1_DSCH1_Health_stVal),
     (''IEDMODEL_Device1_DSCH1_Health_q'', iedModel_Device1_DSCH1_Health_q),
     (''IEDMODEL_Device1_DSCH1_Health_t'', iedModel_Device1_DSCH1_Health_t),
     (''IEDMODEL_Device1_DSCH1_NamPlt'', iedModel_Device1_DSCH1_NamPlt),
     (''IEDMODEL_Device1_DSCH1_NamPlt_vendor'', iedModel_Device1_DSCH1_NamPlt_vendor),
     (''IEDMODEL_Device1_DSCH1_NamPlt_swRev'', iedModel_Device1_DSCH1_NamPlt_swRev),
     (''IEDMODEL_Device1_DSCH1_NamPlt_d'', iedModel_Device1_DSCH1_NamPlt_d),
     (''IEDMODEL_Device1_DSCH1_SchdSt'', iedModel_Device1_DSCH1_SchdSt),
     (''IEDMODEL_Device1_DSCH1_SchdSt_stVal'', iedModel_Device1_DSCH1_SchdSt_stVal),
     (''IEDMODEL_Device1_DSCH1_SchdSt_q'', iedModel_Device1_DSCH1_SchdSt_q),
     (''IEDMODEL_Device1_DSCH1_SchdSt_t'', iedModel_Device1_DSCH1_SchdSt_t),
     (''IEDMODEL_Device1_DSCH1_SchdId'', iedModel_Device1_DSCH1_SchdId)]"

definition smp_declared_5 :: "(c_type \<times> addr) list" where
  "smp_declared_5 =
    [(DataObject_t, iedModel_Device1_DSCH1_SchdCat),
     (DataObject_t, iedModel_Device1_DSCH1_SchdTyp),
     (DataObject_t, iedModel_Device1_DSCH1_SchdAbsTm),
     (DataAttribute_t, iedModel_Device1_DSCH1_SchdAbsTm_val),
     (DataAttribute_t, iedModel_Device1_DSCH1_SchdAbsTm_val_0),
     (DataAttribute_t, iedModel_Device1_DSCH1_SchdAbsTm_val_1),
     (DataAttribute_t, iedModel_Device1_DSCH1_SchdAbsTm_val_2),
     (DataAttribute_t, iedModel_Device1_DSCH1_SchdAbsTm_val_3),
     (DataAttribute_t, iedModel_Device1_DSCH1_SchdAbsTm_val_4),
     (DataAttribute_t, iedModel_Device1_DSCH1_SchdAbsTm_val_5),
     (DataAttribute_t, iedModel_Device1_DSCH1_SchdAbsTm_val_6),
     (DataAttribute_t, iedModel_Device1_DSCH1_SchdAbsTm_val_7),
     (DataAttribute_t, iedModel_Device1_DSCH1_SchdAbsTm_val_8),
     (DataAttribute_t, iedModel_Device1_DSCH1_SchdAbsTm_val_9),
     (DataAttribute_t, iedModel_Device1_DSCH1_SchdAbsTm_val_10),
     (DataAttribute_t, iedModel_Device1_DSCH1_SchdAbsTm_val_11),
     (DataAttribute_t, iedModel_Device1_DSCH1_SchdAbsTm_val_12),
     (DataAttribute_t, iedModel_Device1_DSCH1_SchdAbsTm_val_13),
     (DataAttribute_t, iedModel_Device1_DSCH1_SchdAbsTm_val_14),
     (DataAttribute_t, iedModel_Device1_DSCH1_SchdAbsTm_val_15),
     (DataAttribute_t, iedModel_Device1_DSCH1_SchdAbsTm_val_16),
     (DataAttribute_t, iedModel_Device1_DSCH1_SchdAbsTm_val_17),
     (DataAttribute_t, iedModel_Device1_DSCH1_SchdAbsTm_val_18),
     (DataAttribute_t, iedModel_Device1_DSCH1_SchdAbsTm_val_19)]"

definition smp_handles_5 :: "(string \<times> addr) list" where
  "smp_handles_5 =
    [(''IEDMODEL_Device1_DSCH1_SchdCat'', iedModel_Device1_DSCH1_SchdCat),
     (''IEDMODEL_Device1_DSCH1_SchdTyp'', iedModel_Device1_DSCH1_SchdTyp),
     (''IEDMODEL_Device1_DSCH1_SchdAbsTm'', iedModel_Device1_DSCH1_SchdAbsTm),
     (''IEDMODEL_Device1_DSCH1_SchdAbsTm_val'', iedModel_Device1_DSCH1_SchdAbsTm_val),
     (''IEDMODEL_Device1_DSCH1_SchdAbsTm_val_0'', iedModel_Device1_DSCH1_SchdAbsTm_val_0),
     (''IEDMODEL_Device1_DSCH1_SchdAbsTm_val_1'', iedModel_Device1_DSCH1_SchdAbsTm_val_1),
     (''IEDMODEL_Device1_DSCH1_SchdAbsTm_val_2'', iedModel_Device1_DSCH1_SchdAbsTm_val_2),
     (''IEDMODEL_Device1_DSCH1_SchdAbsTm_val_3'', iedModel_Device1_DSCH1_SchdAbsTm_val_3),
     (''IEDMODEL_Device1_DSCH1_SchdAbsTm_val_4'', iedModel_Device1_DSCH1_SchdAbsTm_val_4),
     (''IEDMODEL_Device1_DSCH1_SchdAbsTm_val_5'', iedModel_Device1_DSCH1_SchdAbsTm_val_5),
     (''IEDMODEL_Device1_DSCH1_SchdAbsTm_val_6'', iedModel_Device1_DSCH1_SchdAbsTm_val_6),
     (''IEDMODEL_Device1_DSCH1_SchdAbsTm_val_7'', iedModel_Device1_DSCH1_SchdAbsTm_val_7),
     (''IEDMODEL_Device1_DSCH1_SchdAbsTm_val_8'', iedModel_Device1_DSCH1_SchdAbsTm_val_8),
     (''IEDMODEL_Device1_DSCH1_SchdAbsTm_val_9'', iedModel_Device1_DSCH1_SchdAbsTm_val_9),
     (''IEDMODEL_Device1_DSCH1_SchdAbsTm_val_10'', iedModel_Device1_DSCH1_SchdAbsTm_val_10),
     (''IEDMODEL_Device1_DSCH1_SchdAbsTm_val_11'', iedModel_Device1_DSCH1_SchdAbsTm_val_11),
     (''IEDMODEL_Device1_DSCH1_SchdAbsTm_val_12'', iedModel_Device1_DSCH1_SchdAbsTm_val_12),
     (''IEDMODEL_Device1_DSCH1_SchdAbsTm_val_13'', iedModel_Device1_DSCH1_SchdAbsTm_val_13),
     (''IEDMODEL_Device1_DSCH1_SchdAbsTm_val_14'', iedModel_Device1_DSCH1_SchdAbsTm_val_14),
     (''IEDMODEL_Device1_DSCH1_SchdAbsTm_val_15'', iedModel_Device1_DSCH1_SchdAbsTm_val_15),
     (''IEDMODEL_Device1_DSCH1_SchdAbsTm_val_16'', iedModel_Device1_DSCH1_SchdAbsTm_val_16),
     (''IEDMODEL_Device1_DSCH1_SchdAbsTm_val_17'', iedModel_Device1_DSCH1_SchdAbsTm_val_17),
     (''IEDMODEL_Device1_DSCH1_SchdAbsTm_val_18'', iedModel_Device1_DSCH1_SchdAbsTm_val_18),
     (''IEDMODEL_Device1_DSCH1_SchdAbsTm_val_19'', iedModel_Device1_DSCH1_SchdAbsTm_val_19)]"

definition smp_declared_6 :: "(c_type \<times> addr) list" where
  "smp_declared_6 =
    [(DataAttribute_t, iedModel_Device1_DSCH1_SchdAbsTm_val_20),
     (DataAttribute_t, iedModel_Device1_DSCH1_SchdAbsTm_val_21),
     (DataAttribute_t, iedModel_Device1_DSCH1_SchdAbsTm_val_22),
     (DataAttribute_t, iedModel_Device1_DSCH1_SchdAbsTm_val_23),
     (DataAttribute_t, iedModel_Device1_DSCH1_SchdAbsTm_val_24),
     (DataAttribute_t, iedModel_Device1_DSCH1_SchdAbsTm_val_25),
     (DataAttribute_t, iedModel_Device1_DSCH1_SchdAbsTm_val_26),
     (DataAttribute_t, iedModel_Device1_DSCH1_SchdAbsTm_val_27),
     (DataAttribute_t, iedModel_Device1_DSCH1_SchdAbsTm_val_28),
     (DataAttribute_t, iedModel_Device1_DSCH1_SchdAbsTm_val_29),
     (DataAttribute_t, iedModel_Device1_DSCH1_SchdAbsTm_val_30),
     (DataAttribute_t, iedModel_Device1_DSCH1_SchdAbsTm_val_31),
     (DataAttribute_t, iedModel_Device1_DSCH1_SchdAbsTm_val_32),
     (DataAttribute_t, iedModel_Device1_DSCH1_SchdAbsTm_val_33),
     (DataAttribute_t, iedModel_Device1_DSCH1_SchdAbsTm_val_34),
     (DataAttribute_t, iedModel_Device1_DSCH1_SchdAbsTm_val_35),
     (DataAttribute_t, iedModel_Device1_DSCH1_SchdAbsTm_val_36),
     (DataAttribute_t, iedModel_Device1_DSCH1_SchdAbsTm_val_37),
     (DataAttribute_t, iedModel_Device1_DSCH1_SchdAbsTm_val_38),
     (DataAttribute_t, iedModel_Device1_DSCH1_SchdAbsTm_val_39)]"

definition smp_handles_6 :: "(string \<times> addr) list" where
  "smp_handles_6 =
    [(''IEDMODEL_Device1_DSCH1_SchdAbsTm_val_20'', iedModel_Device1_DSCH1_SchdAbsTm_val_20),
     (''IEDMODEL_Device1_DSCH1_SchdAbsTm_val_21'', iedModel_Device1_DSCH1_SchdAbsTm_val_21),
     (''IEDMODEL_Device1_DSCH1_SchdAbsTm_val_22'', iedModel_Device1_DSCH1_SchdAbsTm_val_22),
     (''IEDMODEL_Device1_DSCH1_SchdAbsTm_val_23'', iedModel_Device1_DSCH1_SchdAbsTm_val_23),
     (''IEDMODEL_Device1_DSCH1_SchdAbsTm_val_24'', iedModel_Device1_DSCH1_SchdAbsTm_val_24),
     (''IEDMODEL_Device1_DSCH1_SchdAbsTm_val_25'', iedModel_Device1_DSCH1_SchdAbsTm_val_25),
     (''IEDMODEL_Device1_DSCH1_SchdAbsTm_val_26'', iedModel_Device1_DSCH1_SchdAbsTm_val_26),
     (''IEDMODEL_Device1_DSCH1_SchdAbsTm_val_27'', iedModel_Device1_DSCH1_SchdAbsTm_val_27),
     (''IEDMODEL_Device1_DSCH1_SchdAbsTm_val_28'', iedModel_Device1_DSCH1_SchdAbsTm_val_28),
     (''IEDMODEL_Device1_DSCH1_SchdAbsTm_val_29'', iedModel_Device1_DSCH1_SchdAbsTm_val_29),
     (''IEDMODEL_Device1_DSCH1_SchdAbsTm_val_30'', iedModel_Device1_DSCH1_SchdAbsTm_val_30),
     (''IEDMODEL_Device1_DSCH1_SchdAbsTm_val_31'', iedModel_Device1_DSCH1_SchdAbsTm_val_31),
     (''IEDMODEL_Device1_DSCH1_SchdAbsTm_val_32'', iedModel_Device1_DSCH1_SchdAbsTm_val_32),
     (''IEDMODEL_Device1_DSCH1_SchdAbsTm_val_33'', iedModel_Device1_DSCH1_SchdAbsTm_val_33),
     (''IEDMODEL_Device1_DSCH1_SchdAbsTm_val_34'', iedModel_Device1_DSCH1_SchdAbsTm_val_34),
     (''IEDMODEL_Device1_DSCH1_SchdAbsTm_val_35'', iedModel_Device1_DSCH1_SchdAbsTm_val_35),
     (''IEDMODEL_Device1_DSCH1_SchdAbsTm_val_36'', iedModel_Device1_DSCH1_SchdAbsTm_val_36),
     (''IEDMODEL_Device1_DSCH1_SchdAbsTm_val_37'', iedModel_Device1_DSCH1_SchdAbsTm_val_37),
     (''IEDMODEL_Device1_DSCH1_SchdAbsTm_val_38'', iedModel_Device1_DSCH1_SchdAbsTm_val_38),
     (''IEDMODEL_Device1_DSCH1_SchdAbsTm_val_39'', iedModel_Device1_DSCH1_SchdAbsTm_val_39)]"

definition smp_declared_7 :: "(c_type \<times> addr) list" where
  "smp_declared_7 =
    [(DataAttribute_t, iedModel_Device1_DSCH1_SchdAbsTm_val_40),
     (DataAttribute_t, iedModel_Device1_DSCH1_SchdAbsTm_val_41),
     (DataAttribute_t, iedModel_Device1_DSCH1_SchdAbsTm_val_42),
     (DataAttribute_t, iedModel_Device1_DSCH1_SchdAbsTm_val_43),
     (DataAttribute_t, iedModel_Device1_DSCH1_SchdAbsTm_val_44),
     (DataAttribute_t, iedModel_Device1_DSCH1_SchdAbsTm_val_45),
     (DataAttribute_t, iedModel_Device1_DSCH1_SchdAbsTm_val_46),
     (DataAttribute_t, iedModel_Device1_DSCH1_SchdAbsTm_val_47),
     (DataAttribute_t, iedModel_Device1_DSCH1_SchdAbsTm_val_48),
     (DataAttribute_t, iedModel_Device1_DSCH1_SchdAbsTm_val_49),
     (DataAttribute_t, iedModel_Device1_DSCH1_SchdAbsTm_val_50),
     (DataAttribute_t, iedModel_Device1_DSCH1_SchdAbsTm_val_51),
     (DataAttribute_t, iedModel_Device1_DSCH1_SchdAbsTm_val_52),
     (DataAttribute_t, iedModel_Device1_DSCH1_SchdAbsTm_val_53),
     (DataAttribute_t, iedModel_Device1_DSCH1_SchdAbsTm_val_54),
     (DataAttribute_t, iedModel_Device1_DSCH1_SchdAbsTm_val_55),
     (DataAttribute_t, iedModel_Device1_DSCH1_SchdAbsTm_val_56),
     (DataAttribute_t, iedModel_Device1_DSCH1_SchdAbsTm_val_57),
     (DataAttribute_t, iedModel_Device1_DSCH1_SchdAbsTm_val_58),
     (DataAttribute_t, iedModel_Device1_DSCH1_SchdAbsTm_val_59)]"

definition smp_handles_7 :: "(string \<times> addr) list" where
  "smp_handles_7 =
    [(''IEDMODEL_Device1_DSCH1_SchdAbsTm_val_40'', iedModel_Device1_DSCH1_SchdAbsTm_val_40),
     (''IEDMODEL_Device1_DSCH1_SchdAbsTm_val_41'', iedModel_Device1_DSCH1_SchdAbsTm_val_41),
     (''IEDMODEL_Device1_DSCH1_SchdAbsTm_val_42'', iedModel_Device1_DSCH1_SchdAbsTm_val_42),
     (''IEDMODEL_Device1_DSCH1_SchdAbsTm_val_43'', iedModel_Device1_DSCH1_SchdAbsTm_val_43),
     (''IEDMODEL_Device1_DSCH1_SchdAbsTm_val_44'', iedModel_Device1_DSCH1_SchdAbsTm_val_44),
     (''IEDMODEL_Device1_DSCH1_SchdAbsTm_val_45'', iedModel_Device1_DSCH1_SchdAbsTm_val_45),
     (''IEDMODEL_Device1_DSCH1_SchdAbsTm_val_46'', iedModel_Device1_DSCH1_SchdAbsTm_val_46),
     (''IEDMODEL_Device1_DSCH1_SchdAbsTm_val_47'', iedModel_Device1_DSCH1_SchdAbsTm_val_47),
     (''IEDMODEL_Device1_DSCH1_SchdAbsTm_val_48'', iedModel_Device1_DSCH1_SchdAbsTm_val_48),
     (''IEDMODEL_Device1_DSCH1_SchdAbsTm_val_49'', iedModel_Device1_DSCH1_SchdAbsTm_val_49),
     (''IEDMODEL_Device1_DSCH1_SchdAbsTm_val_50'', iedModel_Device1_DSCH1_SchdAbsTm_val_50),
     (''IEDMODEL_Device1_DSCH1_SchdAbsTm_val_51'', iedModel_Device1_DSCH1_SchdAbsTm_val_51),
     (''IEDMODEL_Device1_DSCH1_SchdAbsTm_val_52'', iedModel_Device1_DSCH1_SchdAbsTm_val_52),
     (''IEDMODEL_Device1_DSCH1_SchdAbsTm_val_53'', iedModel_Device1_DSCH1_SchdAbsTm_val_53),
     (''IEDMODEL_Device1_DSCH1_SchdAbsTm_val_54'', iedModel_Device1_DSCH1_SchdAbsTm_val_54),
     (''IEDMODEL_Device1_DSCH1_SchdAbsTm_val_55'', iedModel_Device1_DSCH1_SchdAbsTm_val_55),
     (''IEDMODEL_Device1_DSCH1_SchdAbsTm_val_56'', iedModel_Device1_DSCH1_SchdAbsTm_val_56),
     (''IEDMODEL_Device1_DSCH1_SchdAbsTm_val_57'', iedModel_Device1_DSCH1_SchdAbsTm_val_57),
     (''IEDMODEL_Device1_DSCH1_SchdAbsTm_val_58'', iedModel_Device1_DSCH1_SchdAbsTm_val_58),
     (''IEDMODEL_Device1_DSCH1_SchdAbsTm_val_59'', iedModel_Device1_DSCH1_SchdAbsTm_val_59)]"

definition smp_declared_8 :: "(c_type \<times> addr) list" where
  "smp_declared_8 =
    [(DataAttribute_t, iedModel_Device1_DSCH1_SchdAbsTm_val_60),
     (DataAttribute_t, iedModel_Device1_DSCH1_SchdAbsTm_val_61),
     (DataAttribute_t, iedModel_Device1_DSCH1_SchdAbsTm_val_62),
     (DataAttribute_t, iedModel_Device1_DSCH1_SchdAbsTm_val_63),
     (DataAttribute_t, iedModel_Device1_DSCH1_SchdAbsTm_val_64),
     (DataAttribute_t, iedModel_Device1_DSCH1_SchdAbsTm_val_65),
     (DataAttribute_t, iedModel_Device1_DSCH1_SchdAbsTm_val_66),
     (DataAttribute_t, iedModel_Device1_DSCH1_SchdAbsTm_val_67),
     (DataAttribute_t, iedModel_Device1_DSCH1_SchdAbsTm_val_68),
     (DataAttribute_t, iedModel_Device1_DSCH1_SchdAbsTm_val_69),
     (DataAttribute_t, iedModel_Device1_DSCH1_SchdAbsTm_val_70),
     (DataAttribute_t, iedModel_Device1_DSCH1_SchdAbsTm_val_71),
     (DataAttribute_t, iedModel_Device1_DSCH1_SchdAbsTm_val_72),
     (DataAttribute_t, iedModel_Device1_DSCH1_SchdAbsTm_val_73),
     (DataAttribute_t, iedModel_Device1_DSCH1_SchdAbsTm_val_74),
     (DataAttribute_t, iedModel_Device1_DSCH1_SchdAbsTm_val_75),
     (DataAttribute_t, iedModel_Device1_DSCH1_SchdAbsTm_val_76),
     (DataAttribute_t, iedModel_Device1_DSCH1_SchdAbsTm_val_77),
     (DataAttribute_t, iedModel_Device1_DSCH1_SchdAbsTm_val_78),
     (DataAttribute_t, iedModel_Device1_DSCH1_SchdAbsTm_val_79)]"

definition smp_handles_8 :: "(string \<times> addr) list" where
  "smp_handles_8 =
    [(''IEDMODEL_Device1_DSCH1_SchdAbsTm_val_60'', iedModel_Device1_DSCH1_SchdAbsTm_val_60),
     (''IEDMODEL_Device1_DSCH1_SchdAbsTm_val_61'', iedModel_Device1_DSCH1_SchdAbsTm_val_61),
     (''IEDMODEL_Device1_DSCH1_SchdAbsTm_val_62'', iedModel_Device1_DSCH1_SchdAbsTm_val_62),
     (''IEDMODEL_Device1_DSCH1_SchdAbsTm_val_63'', iedModel_Device1_DSCH1_SchdAbsTm_val_63),
     (''IEDMODEL_Device1_DSCH1_SchdAbsTm_val_64'', iedModel_Device1_DSCH1_SchdAbsTm_val_64),
     (''IEDMODEL_Device1_DSCH1_SchdAbsTm_val_65'', iedModel_Device1_DSCH1_SchdAbsTm_val_65),
     (''IEDMODEL_Device1_DSCH1_SchdAbsTm_val_66'', iedModel_Device1_DSCH1_SchdAbsTm_val_66),
     (''IEDMODEL_Device1_DSCH1_SchdAbsTm_val_67'', iedModel_Device1_DSCH1_SchdAbsTm_val_67),
     (''IEDMODEL_Device1_DSCH1_SchdAbsTm_val_68'', iedModel_Device1_DSCH1_SchdAbsTm_val_68),
     (''IEDMODEL_Device1_DSCH1_SchdAbsTm_val_69'', iedModel_Device1_DSCH1_SchdAbsTm_val_69),
     (''IEDMODEL_Device1_DSCH1_SchdAbsTm_val_70'', iedModel_Device1_DSCH1_SchdAbsTm_val_70),
     (''IEDMODEL_Device1_DSCH1_SchdAbsTm_val_71'', iedModel_Device1_DSCH1_SchdAbsTm_val_71),
     (''IEDMODEL_Device1_DSCH1_SchdAbsTm_val_72'', iedModel_Device1_DSCH1_SchdAbsTm_val_72),
     (''IEDMODEL_Device1_DSCH1_SchdAbsTm_val_73'', iedModel_Device1_DSCH1_SchdAbsTm_val_73),
     (''IEDMODEL_Device1_DSCH1_SchdAbsTm_val_74'', iedModel_Device1_DSCH1_SchdAbsTm_val_74),
     (''IEDMODEL_Device1_DSCH1_SchdAbsTm_val_75'', iedModel_Device1_DSCH1_SchdAbsTm_val_75),
     (''IEDMODEL_Device1_DSCH1_SchdAbsTm_val_76'', iedModel_Device1_DSCH1_SchdAbsTm_val_76),
     (''IEDMODEL_Device1_DSCH1_SchdAbsTm_val_77'', iedModel_Device1_DSCH1_SchdAbsTm_val_77),
     (''IEDMODEL_Device1_DSCH1_SchdAbsTm_val_78'', iedModel_Device1_DSCH1_SchdAbsTm_val_78),
     (''IEDMODEL_Device1_DSCH1_SchdAbsTm_val_79'', iedModel_Device1_DSCH1_SchdAbsTm_val_79)]"

definition smp_declared_9 :: "(c_type \<times> addr) list" where
  "smp_declared_9 =
    [(DataAttribute_t, iedModel_Device1_DSCH1_SchdAbsTm_val_80),
     (DataAttribute_t, iedModel_Device1_DSCH1_SchdAbsTm_val_81),
     (DataAttribute_t, iedModel_Device1_DSCH1_SchdAbsTm_val_82),
     (DataAttribute_t, iedModel_Device1_DSCH1_SchdAbsTm_val_83),
     (DataAttribute_t, iedModel_Device1_DSCH1_SchdAbsTm_val_84),
     (DataAttribute_t, iedModel_Device1_DSCH1_SchdAbsTm_val_85),
     (DataAttribute_t, iedModel_Device1_DSCH1_SchdAbsTm_val_86),
     (DataAttribute_t, iedModel_Device1_DSCH1_SchdAbsTm_val_87),
     (DataAttribute_t, iedModel_Device1_DSCH1_SchdAbsTm_val_88),
     (DataAttribute_t, iedModel_Device1_DSCH1_SchdAbsTm_val_89),
     (DataAttribute_t, iedModel_Device1_DSCH1_SchdAbsTm_val_90),
     (DataAttribute_t, iedModel_Device1_DSCH1_SchdAbsTm_val_91),
     (DataAttribute_t, iedModel_Device1_DSCH1_SchdAbsTm_val_92),
     (DataAttribute_t, iedModel_Device1_DSCH1_SchdAbsTm_val_93),
     (DataAttribute_t, iedModel_Device1_DSCH1_SchdAbsTm_val_94),
     (DataAttribute_t, iedModel_Device1_DSCH1_SchdAbsTm_val_95),
     (DataAttribute_t, iedModel_Device1_DSCH1_SchdAbsTm_val_96),
     (DataAttribute_t, iedModel_Device1_DSCH1_SchdAbsTm_val_97),
     (DataAttribute_t, iedModel_Device1_DSCH1_SchdAbsTm_val_98),
     (DataAttribute_t, iedModel_Device1_DSCH1_SchdAbsTm_val_99)]"

definition smp_handles_9 :: "(string \<times> addr) list" where
  "smp_handles_9 =
    [(''IEDMODEL_Device1_DSCH1_SchdAbsTm_val_80'', iedModel_Device1_DSCH1_SchdAbsTm_val_80),
     (''IEDMODEL_Device1_DSCH1_SchdAbsTm_val_81'', iedModel_Device1_DSCH1_SchdAbsTm_val_81),
     (''IEDMODEL_Device1_DSCH1_SchdAbsTm_val_82'', iedModel_Device1_DSCH1_SchdAbsTm_val_82),
     (''IEDMODEL_Device1_DSCH1_SchdAbsTm_val_83'', iedModel_Device1_DSCH1_SchdAbsTm_val_83),
     (''IEDMODEL_Device1_DSCH1_SchdAbsTm_val_84'', iedModel_Device1_DSCH1_SchdAbsTm_val_84),
     (''IEDMODEL_Device1_DSCH1_SchdAbsTm_val_85'', iedModel_Device1_DSCH1_SchdAbsTm_val_85),
     (''IEDMODEL_Device1_DSCH1_SchdAbsTm_val_86'', iedModel_Device1_DSCH1_SchdAbsTm_val_86),
     (''IEDMODEL_Device1_DSCH1_SchdAbsTm_val_87'', iedModel_Device1_DSCH1_SchdAbsTm_val_87),
     (''IEDMODEL_Device1_DSCH1_SchdAbsTm_val_88'', iedModel_Device1_DSCH1_SchdAbsTm_val_88),
     (''IEDMODEL_Device1_DSCH1_SchdAbsTm_val_89'', iedModel_Device1_DSCH1_SchdAbsTm_val_89),
     (''IEDMODEL_Device1_DSCH1_SchdAbsTm_val_90'', iedModel_Device1_DSCH1_SchdAbsTm_val_90),
     (''IEDMODEL_Device1_DSCH1_SchdAbsTm_val_91'', iedModel_Device1_DSCH1_SchdAbsTm_val_91),
     (''IEDMODEL_Device1_DSCH1_SchdAbsTm_val_92'', iedModel_Device1_DSCH1_SchdAbsTm_val_92),
     (''IEDMODEL_Device1_DSCH1_SchdAbsTm_val_93'', iedModel_Device1_DSCH1_SchdAbsTm_val_93),
     (''IEDMODEL_Device1_DSCH1_SchdAbsTm_val_94'', iedModel_Device1_DSCH1_SchdAbsTm_val_94),
     (''IEDMODEL_Device1_DSCH1_SchdAbsTm_val_95'', iedModel_Device1_DSCH1_SchdAbsTm_val_95),
     (''IEDMODEL_Device1_DSCH1_SchdAbsTm_val_96'', iedModel_Device1_DSCH1_SchdAbsTm_val_96),
     (''IEDMODEL_Device1_DSCH1_SchdAbsTm_val_97'', iedModel_Device1_DSCH1_SchdAbsTm_val_97),
     (''IEDMODEL_Device1_DSCH1_SchdAbsTm_val_98'', iedModel_Device1_DSCH1_SchdAbsTm_val_98),
     (''IEDMODEL_Device1_DSCH1_SchdAbsTm_val_99'', iedModel_Device1_DSCH1_SchdAbsTm_val_99)]"

definition smp_declared_10 :: "(c_type \<times> addr) list" where
  "smp_declared_10 =
    [(DataAttribute_t, iedModel_Device1_DSCH1_SchdAbsTm_val_100),
     (DataAttribute_t, iedModel_Device1_DSCH1_SchdAbsTm_val_101),
     (DataAttribute_t, iedModel_Device1_DSCH1_SchdAbsTm_val_102),
     (DataAttribute_t, iedModel_Device1_DSCH1_SchdAbsTm_val_103),
     (DataAttribute_t, iedModel_Device1_DSCH1_SchdAbsTm_val_104),
     (DataAttribute_t, iedModel_Device1_DSCH1_SchdAbsTm_val_105),
     (DataAttribute_t, iedModel_Device1_DSCH1_SchdAbsTm_val_106),
     (DataAttribute_t, iedModel_Device1_DSCH1_SchdAbsTm_val_107),
     (DataAttribute_t, iedModel_Device1_DSCH1_SchdAbsTm_val_108),
     (DataAttribute_t, iedModel_Device1_DSCH1_SchdAbsTm_val_109),
     (DataAttribute_t, iedModel_Device1_DSCH1_SchdAbsTm_val_110),
     (DataAttribute_t, iedModel_Device1_DSCH1_SchdAbsTm_val_111),
     (DataAttribute_t, iedModel_Device1_DSCH1_SchdAbsTm_val_112),
     (DataAttribute_t, iedModel_Device1_DSCH1_SchdAbsTm_val_113),
     (DataAttribute_t, iedModel_Device1_DSCH1_SchdAbsTm_val_114),
     (DataAttribute_t, iedModel_Device1_DSCH1_SchdAbsTm_val_115),
     (DataAttribute_t, iedModel_Device1_DSCH1_SchdAbsTm_val_116),
     (DataAttribute_t, iedModel_Device1_DSCH1_SchdAbsTm_val_117),
     (DataAttribute_t, iedModel_Device1_DSCH1_SchdAbsTm_val_118),
     (DataAttribute_t, iedModel_Device1_DSCH1_SchdAbsTm_val_119)]"

definition smp_handles_10 :: "(string \<times> addr) list" where
  "smp_handles_10 =
    [(''IEDMODEL_Device1_DSCH1_SchdAbsTm_val_100'', iedModel_Device1_DSCH1_SchdAbsTm_val_100),
     (''IEDMODEL_Device1_DSCH1_SchdAbsTm_val_101'', iedModel_Device1_DSCH1_SchdAbsTm_val_101),
     (''IEDMODEL_Device1_DSCH1_SchdAbsTm_val_102'', iedModel_Device1_DSCH1_SchdAbsTm_val_102),
     (''IEDMODEL_Device1_DSCH1_SchdAbsTm_val_103'', iedModel_Device1_DSCH1_SchdAbsTm_val_103),
     (''IEDMODEL_Device1_DSCH1_SchdAbsTm_val_104'', iedModel_Device1_DSCH1_SchdAbsTm_val_104),
     (''IEDMODEL_Device1_DSCH1_SchdAbsTm_val_105'', iedModel_Device1_DSCH1_SchdAbsTm_val_105),
     (''IEDMODEL_Device1_DSCH1_SchdAbsTm_val_106'', iedModel_Device1_DSCH1_SchdAbsTm_val_106),
     (''IEDMODEL_Device1_DSCH1_SchdAbsTm_val_107'', iedModel_Device1_DSCH1_SchdAbsTm_val_107),
     (''IEDMODEL_Device1_DSCH1_SchdAbsTm_val_108'', iedModel_Device1_DSCH1_SchdAbsTm_val_108),
     (''IEDMODEL_Device1_DSCH1_SchdAbsTm_val_109'', iedModel_Device1_DSCH1_SchdAbsTm_val_109),
     (''IEDMODEL_Device1_DSCH1_SchdAbsTm_val_110'', iedModel_Device1_DSCH1_SchdAbsTm_val_110),
     (''IEDMODEL_Device1_DSCH1_SchdAbsTm_val_111'', iedModel_Device1_DSCH1_SchdAbsTm_val_111),
     (''IEDMODEL_Device1_DSCH1_SchdAbsTm_val_112'', iedModel_Device1_DSCH1_SchdAbsTm_val_112),
     (''IEDMODEL_Device1_DSCH1_SchdAbsTm_val_113'', iedModel_Device1_DSCH1_SchdAbsTm_val_113),
     (''IEDMODEL_Device1_DSCH1_SchdAbsTm_val_114'', iedModel_Device1_DSCH1_SchdAbsTm_val_114),
     (''IEDMODEL_Device1_DSCH1_SchdAbsTm_val_115'', iedModel_Device1_DSCH1_SchdAbsTm_val_115),
     (''IEDMODEL_Device1_DSCH1_SchdAbsTm_val_116'', iedModel_Device1_DSCH1_SchdAbsTm_val_116),
     (''IEDMODEL_Device1_DSCH1_SchdAbsTm_val_117'', iedModel_Device1_DSCH1_SchdAbsTm_val_117),
     (''IEDMODEL_Device1_DSCH1_SchdAbsTm_val_118'', iedModel_Device1_DSCH1_SchdAbsTm_val_118),
     (''IEDMODEL_Device1_DSCH1_SchdAbsTm_val_119'', iedModel_Device1_DSCH1_SchdAbsTm_val_119)]"

definition smp_declared_11 :: "(c_type \<times> addr) list" where
  "smp_declared_11 =
    [(DataAttribute_t, iedModel_Device1_DSCH1_SchdAbsTm_val_120),
     (DataAttribute_t, iedModel_Device1_DSCH1_SchdAbsTm_val_121),
     (DataAttribute_t, iedModel_Device1_DSCH1_SchdAbsTm_val_122),
     (DataAttribute_t, iedModel_Device1_DSCH1_SchdAbsTm_val_123),
     (DataAttribute_t, iedModel_Device1_DSCH1_SchdAbsTm_val_124),
     (DataAttribute_t, iedModel_Device1_DSCH1_SchdAbsTm_val_125),
     (DataAttribute_t, iedModel_Device1_DSCH1_SchdAbsTm_val_126),
     (DataAttribute_t, iedModel_Device1_DSCH1_SchdAbsTm_val_127),
     (DataAttribute_t, iedModel_Device1_DSCH1_SchdAbsTm_val_128),
     (DataAttribute_t, iedModel_Device1_DSCH1_SchdAbsTm_val_129),
     (DataAttribute_t, iedModel_Device1_DSCH1_SchdAbsTm_val_130),
     (DataAttribute_t, iedModel_Device1_DSCH1_SchdAbsTm_val_131),
     (DataAttribute_t, iedModel_Device1_DSCH1_SchdAbsTm_val_132),
     (DataAttribute_t, iedModel_Device1_DSCH1_SchdAbsTm_val_133),
     (DataAttribute_t, iedModel_Device1_DSCH1_SchdAbsTm_val_134),
     (DataAttribute_t, iedModel_Device1_DSCH1_SchdAbsTm_val_135),
     (DataAttribute_t, iedModel_Device1_DSCH1_SchdAbsTm_val_136),
     (DataAttribute_t, iedModel_Device1_DSCH1_SchdAbsTm_val_137),
     (DataAttribute_t, iedModel_Device1_DSCH1_SchdAbsTm_val_138),
     (DataAttribute_t, iedModel_Device1_DSCH1_SchdAbsTm_val_139)]"

definition smp_handles_11 :: "(string \<times> addr) list" where
  "smp_handles_11 =
    [(''IEDMODEL_Device1_DSCH1_SchdAbsTm_val_120'', iedModel_Device1_DSCH1_SchdAbsTm_val_120),
     (''IEDMODEL_Device1_DSCH1_SchdAbsTm_val_121'', iedModel_Device1_DSCH1_SchdAbsTm_val_121),
     (''IEDMODEL_Device1_DSCH1_SchdAbsTm_val_122'', iedModel_Device1_DSCH1_SchdAbsTm_val_122),
     (''IEDMODEL_Device1_DSCH1_SchdAbsTm_val_123'', iedModel_Device1_DSCH1_SchdAbsTm_val_123),
     (''IEDMODEL_Device1_DSCH1_SchdAbsTm_val_124'', iedModel_Device1_DSCH1_SchdAbsTm_val_124),
     (''IEDMODEL_Device1_DSCH1_SchdAbsTm_val_125'', iedModel_Device1_DSCH1_SchdAbsTm_val_125),
     (''IEDMODEL_Device1_DSCH1_SchdAbsTm_val_126'', iedModel_Device1_DSCH1_SchdAbsTm_val_126),
     (''IEDMODEL_Device1_DSCH1_SchdAbsTm_val_127'', iedModel_Device1_DSCH1_SchdAbsTm_val_127),
     (''IEDMODEL_Device1_DSCH1_SchdAbsTm_val_128'', iedModel_Device1_DSCH1_SchdAbsTm_val_128),
     (''IEDMODEL_Device1_DSCH1_SchdAbsTm_val_129'', iedModel_Device1_DSCH1_SchdAbsTm_val_129),
     (''IEDMODEL_Device1_DSCH1_SchdAbsTm_val_130'', iedModel_Device1_DSCH1_SchdAbsTm_val_130),
     (''IEDMODEL_Device1_DSCH1_SchdAbsTm_val_131'', iedModel_Device1_DSCH1_SchdAbsTm_val_131),
     (''IEDMODEL_Device1_DSCH1_SchdAbsTm_val_132'', iedModel_Device1_DSCH1_SchdAbsTm_val_132),
     (''IEDMODEL_Device1_DSCH1_SchdAbsTm_val_133'', iedModel_Device1_DSCH1_SchdAbsTm_val_133),
     (''IEDMODEL_Device1_DSCH1_SchdAbsTm_val_134'', iedModel_Device1_DSCH1_SchdAbsTm_val_134),
     (''IEDMODEL_Device1_DSCH1_SchdAbsTm_val_135'', iedModel_Device1_DSCH1_SchdAbsTm_val_135),
     (''IEDMODEL_Device1_DSCH1_SchdAbsTm_val_136'', iedModel_Device1_DSCH1_SchdAbsTm_val_136),
     (''IEDMODEL_Device1_DSCH1_SchdAbsTm_val_137'', iedModel_Device1_DSCH1_SchdAbsTm_val_137),
     (''IEDMODEL_Device1_DSCH1_SchdAbsTm_val_138'', iedModel_Device1_DSCH1_SchdAbsTm_val_138),
     (''IEDMODEL_Device1_DSCH1_SchdAbsTm_val_139'', iedModel_Device1_DSCH1_SchdAbsTm_val_139)]"

definition smp_declared_12 :: "(c_type \<times> addr) list" where
  "smp_declared_12 =
    [(DataAttribute_t, iedModel_Device1_DSCH1_SchdAbsTm_val_140),
     (DataAttribute_t, iedModel_Device1_DSCH1_SchdAbsTm_val_141),
     (DataAttribute_t, iedModel_Device1_DSCH1_SchdAbsTm_val_142),
     (DataAttribute_t, iedModel_Device1_DSCH1_SchdAbsTm_val_143),
     (DataAttribute_t, iedModel_Device1_DSCH1_SchdAbsTm_val_144),
     (DataAttribute_t, iedModel_Device1_DSCH1_SchdAbsTm_val_145),
     (DataAttribute_t, iedModel_Device1_DSCH1_SchdAbsTm_val_146),
     (DataAttribute_t, iedModel_Device1_DSCH1_SchdAbsTm_val_147),
     (DataAttribute_t, iedModel_Device1_DSCH1_SchdAbsTm_val_148),
     (DataAttribute_t, iedModel_Device1_DSCH1_SchdAbsTm_val_149),
     (DataAttribute_t, iedModel_Device1_DSCH1_SchdAbsTm_val_150),
     (DataAttribute_t, iedModel_Device1_DSCH1_SchdAbsTm_val_151),
     (DataAttribute_t, iedModel_Device1_DSCH1_SchdAbsTm_val_152),
     (DataAttribute_t, iedModel_Device1_DSCH1_SchdAbsTm_val_153),
     (DataAttribute_t, iedModel_Device1_DSCH1_SchdAbsTm_val_154),
     (DataAttribute_t, iedModel_Device1_DSCH1_SchdAbsTm_val_155),
     (DataAttribute_t, iedModel_Device1_DSCH1_SchdAbsTm_val_156),
     (DataAttribute_t, iedModel_Device1_DSCH1_SchdAbsTm_val_157),
     (DataAttribute_t, iedModel_Device1_DSCH1_SchdAbsTm_val_158),
     (DataAttribute_t, iedModel_Device1_DSCH1_SchdAbsTm_val_159)]"

definition smp_handles_12 :: "(string \<times> addr) list" where
  "smp_handles_12 =
    [(''IEDMODEL_Device1_DSCH1_SchdAbsTm_val_140'', iedModel_Device1_DSCH1_SchdAbsTm_val_140),
     (''IEDMODEL_Device1_DSCH1_SchdAbsTm_val_141'', iedModel_Device1_DSCH1_SchdAbsTm_val_141),
     (''IEDMODEL_Device1_DSCH1_SchdAbsTm_val_142'', iedModel_Device1_DSCH1_SchdAbsTm_val_142),
     (''IEDMODEL_Device1_DSCH1_SchdAbsTm_val_143'', iedModel_Device1_DSCH1_SchdAbsTm_val_143),
     (''IEDMODEL_Device1_DSCH1_SchdAbsTm_val_144'', iedModel_Device1_DSCH1_SchdAbsTm_val_144),
     (''IEDMODEL_Device1_DSCH1_SchdAbsTm_val_145'', iedModel_Device1_DSCH1_SchdAbsTm_val_145),
     (''IEDMODEL_Device1_DSCH1_SchdAbsTm_val_146'', iedModel_Device1_DSCH1_SchdAbsTm_val_146),
     (''IEDMODEL_Device1_DSCH1_SchdAbsTm_val_147'', iedModel_Device1_DSCH1_SchdAbsTm_val_147),
     (''IEDMODEL_Device1_DSCH1_SchdAbsTm_val_148'', iedModel_Device1_DSCH1_SchdAbsTm_val_148),
     (''IEDMODEL_Device1_DSCH1_SchdAbsTm_val_149'', iedModel_Device1_DSCH1_SchdAbsTm_val_149),
     (''IEDMODEL_Device1_DSCH1_SchdAbsTm_val_150'', iedModel_Device1_DSCH1_SchdAbsTm_val_150),
     (''IEDMODEL_Device1_DSCH1_SchdAbsTm_val_151'', iedModel_Device1_DSCH1_SchdAbsTm_val_151),
     (''IEDMODEL_Device1_DSCH1_SchdAbsTm_val_152'', iedModel_Device1_DSCH1_SchdAbsTm_val_152),
     (''IEDMODEL_Device1_DSCH1_SchdAbsTm_val_153'', iedModel_Device1_DSCH1_SchdAbsTm_val_153),
     (''IEDMODEL_Device1_DSCH1_SchdAbsTm_val_154'', iedModel_Device1_DSCH1_SchdAbsTm_val_154),
     (''IEDMODEL_Device1_DSCH1_SchdAbsTm_val_155'', iedModel_Device1_DSCH1_SchdAbsTm_val_155),
     (''IEDMODEL_Device1_DSCH1_SchdAbsTm_val_156'', iedModel_Device1_DSCH1_SchdAbsTm_val_156),
     (''IEDMODEL_Device1_DSCH1_SchdAbsTm_val_157'', iedModel_Device1_DSCH1_SchdAbsTm_val_157),
     (''IEDMODEL_Device1_DSCH1_SchdAbsTm_val_158'', iedModel_Device1_DSCH1_SchdAbsTm_val_158),
     (''IEDMODEL_Device1_DSCH1_SchdAbsTm_val_159'', iedModel_Device1_DSCH1_SchdAbsTm_val_159)]"

definition smp_declared_13 :: "(c_type \<times> addr) list" where
  "smp_declared_13 =
    [(DataAttribute_t, iedModel_Device1_DSCH1_SchdAbsTm_val_160),
     (DataAttribute_t, iedModel_Device1_DSCH1_SchdAbsTm_val_161),
     (DataAttribute_t, iedModel_Device1_DSCH1_SchdAbsTm_val_162),
     (DataAttribute_t, iedModel_Device1_DSCH1_SchdAbsTm_val_163),
     (DataAttribute_t, iedModel_Device1_DSCH1_SchdAbsTm_val_164),
     (DataAttribute_t, iedModel_Device1_DSCH1_SchdAbsTm_val_165),
     (DataAttribute_t, iedModel_Device1_DSCH1_SchdAbsTm_val_166),
     (DataAttribute_t, iedModel_Device1_DSCH1_SchdAbsTm_val_167),
     (DataAttribute_t, iedModel_Device1_DSCH1_SchdAbsTm_val_168),
     (DataAttribute_t, iedModel_Device1_DSCH1_SchdAbsTm_val_169),
     (DataAttribute_t, iedModel_Device1_DSCH1_SchdAbsTm_val_170),
     (DataAttribute_t, iedModel_Device1_DSCH1_SchdAbsTm_val_171),
     (DataAttribute_t, iedModel_Device1_DSCH1_SchdAbsTm_val_172),
     (DataAttribute_t, iedModel_Device1_DSCH1_SchdAbsTm_val_173),
     (DataAttribute_t, iedModel_Device1_DSCH1_SchdAbsTm_val_174),
     (DataAttribute_t, iedModel_Device1_DSCH1_SchdAbsTm_val_175),
     (DataAttribute_t, iedModel_Device1_DSCH1_SchdAbsTm_val_176),
     (DataAttribute_t, iedModel_Device1_DSCH1_SchdAbsTm_val_177),
     (DataAttribute_t, iedModel_Device1_DSCH1_SchdAbsTm_val_178),
     (DataAttribute_t, iedModel_Device1_DSCH1_SchdAbsTm_val_179)]"

definition smp_handles_13 :: "(string \<times> addr) list" where
  "smp_handles_13 =
    [(''IEDMODEL_Device1_DSCH1_SchdAbsTm_val_160'', iedModel_Device1_DSCH1_SchdAbsTm_val_160),
     (''IEDMODEL_Device1_DSCH1_SchdAbsTm_val_161'', iedModel_Device1_DSCH1_SchdAbsTm_val_161),
     (''IEDMODEL_Device1_DSCH1_SchdAbsTm_val_162'', iedModel_Device1_DSCH1_SchdAbsTm_val_162),
     (''IEDMODEL_Device1_DSCH1_SchdAbsTm_val_163'', iedModel_Device1_DSCH1_SchdAbsTm_val_163),
     (''IEDMODEL_Device1_DSCH1_SchdAbsTm_val_164'', iedModel_Device1_DSCH1_SchdAbsTm_val_164),
     (''IEDMODEL_Device1_DSCH1_SchdAbsTm_val_165'', iedModel_Device1_DSCH1_SchdAbsTm_val_165),
     (''IEDMODEL_Device1_DSCH1_SchdAbsTm_val_166'', iedModel_Device1_DSCH1_SchdAbsTm_val_166),
     (''IEDMODEL_Device1_DSCH1_SchdAbsTm_val_167'', iedModel_Device1_DSCH1_SchdAbsTm_val_167),
     (''IEDMODEL_Device1_DSCH1_SchdAbsTm_val_168'', iedModel_Device1_DSCH1_SchdAbsTm_val_168),
     (''IEDMODEL_Device1_DSCH1_SchdAbsTm_val_169'', iedModel_Device1_DSCH1_SchdAbsTm_val_169),
     (''IEDMODEL_Device1_DSCH1_SchdAbsTm_val_170'', iedModel_Device1_DSCH1_SchdAbsTm_val_170),
     (''IEDMODEL_Device1_DSCH1_SchdAbsTm_val_171'', iedModel_Device1_DSCH1_SchdAbsTm_val_171),
     (''IEDMODEL_Device1_DSCH1_SchdAbsTm_val_172'', iedModel_Device1_DSCH1_SchdAbsTm_val_172),
     (''IEDMODEL_Device1_DSCH1_SchdAbsTm_val_173'', iedModel_Device1_DSCH1_SchdAbsTm_val_173),
     (''IEDMODEL_Device1_DSCH1_SchdAbsTm_val_174'', iedModel_Device1_DSCH1_SchdAbsTm_val_174),
     (''IEDMODEL_Device1_DSCH1_SchdAbsTm_val_175'', iedModel_Device1_DSCH1_SchdAbsTm_val_175),
     (''IEDMODEL_Device1_DSCH1_SchdAbsTm_val_176'', iedModel_Device1_DSCH1_SchdAbsTm_val_176),
     (''IEDMODEL_Device1_DSCH1_SchdAbsTm_val_177'', iedModel_Device1_DSCH1_SchdAbsTm_val_177),
     (''IEDMODEL_Device1_DSCH1_SchdAbsTm_val_178'', iedModel_Device1_DSCH1_SchdAbsTm_val_178),
     (''IEDMODEL_Device1_DSCH1_SchdAbsTm_val_179'', iedModel_Device1_DSCH1_SchdAbsTm_val_179)]"

definition smp_declared_14 :: "(c_type \<times> addr) list" where
  "smp_declared_14 =
    [(DataAttribute_t, iedModel_Device1_DSCH1_SchdAbsTm_val_180),
     (DataAttribute_t, iedModel_Device1_DSCH1_SchdAbsTm_val_181),
     (DataAttribute_t, iedModel_Device1_DSCH1_SchdAbsTm_val_182),
     (DataAttribute_t, iedModel_Device1_DSCH1_SchdAbsTm_val_183),
     (DataAttribute_t, iedModel_Device1_DSCH1_SchdAbsTm_val_184),
     (DataAttribute_t, iedModel_Device1_DSCH1_SchdAbsTm_val_185),
     (DataAttribute_t, iedModel_Device1_DSCH1_SchdAbsTm_val_186),
     (DataAttribute_t, iedModel_Device1_DSCH1_SchdAbsTm_val_187),
     (DataAttribute_t, iedModel_Device1_DSCH1_SchdAbsTm_val_188),
     (DataAttribute_t, iedModel_Device1_DSCH1_SchdAbsTm_val_189),
     (DataAttribute_t, iedModel_Device1_DSCH1_SchdAbsTm_val_190),
     (DataAttribute_t, iedModel_Device1_DSCH1_SchdAbsTm_val_191),
     (DataAttribute_t, iedModel_Device1_DSCH1_SchdAbsTm_val_192),
     (DataAttribute_t, iedModel_Device1_DSCH1_SchdAbsTm_val_193),
     (DataAttribute_t, iedModel_Device1_DSCH1_SchdAbsTm_val_194),
     (DataAttribute_t, iedModel_Device1_DSCH1_SchdAbsTm_val_195),
     (DataAttribute_t, iedModel_Device1_DSCH1_SchdAbsTm_val_196),
     (DataAttribute_t, iedModel_Device1_DSCH1_SchdAbsTm_val_197),
     (DataAttribute_t, iedModel_Device1_DSCH1_SchdAbsTm_val_198),
     (DataAttribute_t, iedModel_Device1_DSCH1_SchdAbsTm_val_199)]"

definition smp_handles_14 :: "(string \<times> addr) list" where
  "smp_handles_14 =
    [(''IEDMODEL_Device1_DSCH1_SchdAbsTm_val_180'', iedModel_Device1_DSCH1_SchdAbsTm_val_180),
     (''IEDMODEL_Device1_DSCH1_SchdAbsTm_val_181'', iedModel_Device1_DSCH1_SchdAbsTm_val_181),
     (''IEDMODEL_Device1_DSCH1_SchdAbsTm_val_182'', iedModel_Device1_DSCH1_SchdAbsTm_val_182),
     (''IEDMODEL_Device1_DSCH1_SchdAbsTm_val_183'', iedModel_Device1_DSCH1_SchdAbsTm_val_183),
     (''IEDMODEL_Device1_DSCH1_SchdAbsTm_val_184'', iedModel_Device1_DSCH1_SchdAbsTm_val_184),
     (''IEDMODEL_Device1_DSCH1_SchdAbsTm_val_185'', iedModel_Device1_DSCH1_SchdAbsTm_val_185),
     (''IEDMODEL_Device1_DSCH1_SchdAbsTm_val_186'', iedModel_Device1_DSCH1_SchdAbsTm_val_186),
     (''IEDMODEL_Device1_DSCH1_SchdAbsTm_val_187'', iedModel_Device1_DSCH1_SchdAbsTm_val_187),
     (''IEDMODEL_Device1_DSCH1_SchdAbsTm_val_188'', iedModel_Device1_DSCH1_SchdAbsTm_val_188),
     (''IEDMODEL_Device1_DSCH1_SchdAbsTm_val_189'', iedModel_Device1_DSCH1_SchdAbsTm_val_189),
     (''IEDMODEL_Device1_DSCH1_SchdAbsTm_val_190'', iedModel_Device1_DSCH1_SchdAbsTm_val_190),
     (''IEDMODEL_Device1_DSCH1_SchdAbsTm_val_191'', iedModel_Device1_DSCH1_SchdAbsTm_val_191),
     (''IEDMODEL_Device1_DSCH1_SchdAbsTm_val_192'', iedModel_Device1_DSCH1_SchdAbsTm_val_192),
     (''IEDMODEL_Device1_DSCH1_SchdAbsTm_val_193'', iedModel_Device1_DSCH1_SchdAbsTm_val_193),
     (''IEDMODEL_Device1_DSCH1_SchdAbsTm_val_194'', iedModel_Device1_DSCH1_SchdAbsTm_val_194),
     (''IEDMODEL_Device1_DSCH1_SchdAbsTm_val_195'', iedModel_Device1_DSCH1_SchdAbsTm_val_195),
     (''IEDMODEL_Device1_DSCH1_SchdAbsTm_val_196'', iedModel_Device1_DSCH1_SchdAbsTm_val_196),
     (''IEDMODEL_Device1_DSCH1_SchdAbsTm_val_197'', iedModel_Device1_DSCH1_SchdAbsTm_val_197),
     (''IEDMODEL_Device1_DSCH1_SchdAbsTm_val_198'', iedModel_Device1_DSCH1_SchdAbsTm_val_198),
     (''IEDMODEL_Device1_DSCH1_SchdAbsTm_val_199'', iedModel_Device1_DSCH1_SchdAbsTm_val_199)]"

definition smp_declared_15 :: "(c_type \<times> addr) list" where
  "smp_declared_15 =
    [(DataAttribute_t, iedModel_Device1_DSCH1_SchdAbsTm_val_200),
     (DataAttribute_t, iedModel_Device1_DSCH1_SchdAbsTm_val_201),
     (DataAttribute_t, iedModel_Device1_DSCH1_SchdAbsTm_val_202),
     (DataAttribute_t, iedModel_Device1_DSCH1_SchdAbsTm_val_203),
     (DataAttribute_t, iedModel_Device1_DSCH1_SchdAbsTm_val_204),
     (DataAttribute_t, iedModel_Device1_DSCH1_SchdAbsTm_val_205),
     (DataAttribute_t, iedModel_Device1_DSCH1_SchdAbsTm_val_206),
     (DataAttribute_t, iedModel_Device1_DSCH1_SchdAbsTm_val_207),
     (DataAttribute_t, iedModel_Device1_DSCH1_SchdAbsTm_val_208),
     (DataAttribute_t, iedModel_Device1_DSCH1_SchdAbsTm_val_209),
     (DataAttribute_t, iedModel_Device1_DSCH1_SchdAbsTm_val_210),
     (DataAttribute_t, iedModel_Device1_DSCH1_SchdAbsTm_val_211),
     (DataAttribute_t, iedModel_Device1_DSCH1_SchdAbsTm_val_212),
     (DataAttribute_t, iedModel_Device1_DSCH1_SchdAbsTm_val_213),
     (DataAttribute_t, iedModel_Device1_DSCH1_SchdAbsTm_val_214),
     (DataAttribute_t, iedModel_Device1_DSCH1_SchdAbsTm_val_215),
     (DataAttribute_t, iedModel_Device1_DSCH1_SchdAbsTm_val_216),
     (DataAttribute_t, iedModel_Device1_DSCH1_SchdAbsTm_val_217),
     (DataAttribute_t, iedModel_Device1_DSCH1_SchdAbsTm_val_218),
     (DataAttribute_t, iedModel_Device1_DSCH1_SchdAbsTm_val_219)]"

definition smp_handles_15 :: "(string \<times> addr) list" where
  "smp_handles_15 =
    [(''IEDMODEL_Device1_DSCH1_SchdAbsTm_val_200'', iedModel_Device1_DSCH1_SchdAbsTm_val_200),
     (''IEDMODEL_Device1_DSCH1_SchdAbsTm_val_201'', iedModel_Device1_DSCH1_SchdAbsTm_val_201),
     (''IEDMODEL_Device1_DSCH1_SchdAbsTm_val_202'', iedModel_Device1_DSCH1_SchdAbsTm_val_202),
     (''IEDMODEL_Device1_DSCH1_SchdAbsTm_val_203'', iedModel_Device1_DSCH1_SchdAbsTm_val_203),
     (''IEDMODEL_Device1_DSCH1_SchdAbsTm_val_204'', iedModel_Device1_DSCH1_SchdAbsTm_val_204),
     (''IEDMODEL_Device1_DSCH1_SchdAbsTm_val_205'', iedModel_Device1_DSCH1_SchdAbsTm_val_205),
     (''IEDMODEL_Device1_DSCH1_SchdAbsTm_val_206'', iedModel_Device1_DSCH1_SchdAbsTm_val_206),
     (''IEDMODEL_Device1_DSCH1_SchdAbsTm_val_207'', iedModel_Device1_DSCH1_SchdAbsTm_val_207),
     (''IEDMODEL_Device1_DSCH1_SchdAbsTm_val_208'', iedModel_Device1_DSCH1_SchdAbsTm_val_208),
     (''IEDMODEL_Device1_DSCH1_SchdAbsTm_val_209'', iedModel_Device1_DSCH1_SchdAbsTm_val_209),
     (''IEDMODEL_Device1_DSCH1_SchdAbsTm_val_210'', iedModel_Device1_DSCH1_SchdAbsTm_val_210),
     (''IEDMODEL_Device1_DSCH1_SchdAbsTm_val_211'', iedModel_Device1_DSCH1_SchdAbsTm_val_211),
     (''IEDMODEL_Device1_DSCH1_SchdAbsTm_val_212'', iedModel_Device1_DSCH1_SchdAbsTm_val_212),
     (''IEDMODEL_Device1_DSCH1_SchdAbsTm_val_213'', iedModel_Device1_DSCH1_SchdAbsTm_val_213),
     (''IEDMODEL_Device1_DSCH1_SchdAbsTm_val_214'', iedModel_Device1_DSCH1_SchdAbsTm_val_214),
     (''IEDMODEL_Device1_DSCH1_SchdAbsTm_val_215'', iedModel_Device1_DSCH1_SchdAbsTm_val_215),
     (''IEDMODEL_Device1_DSCH1_SchdAbsTm_val_216'', iedModel_Device1_DSCH1_SchdAbsTm_val_216),
     (''IEDMODEL_Device1_DSCH1_SchdAbsTm_val_217'', iedModel_Device1_DSCH1_SchdAbsTm_val_217),
     (''IEDMODEL_Device1_DSCH1_SchdAbsTm_val_218'', iedModel_Device1_DSCH1_SchdAbsTm_val_218),
     (''IEDMODEL_Device1_DSCH1_SchdAbsTm_val_219'', iedModel_Device1_DSCH1_SchdAbsTm_val_219)]"

definition smp_declared_16 :: "(c_type \<times> addr) list" where
  "smp_declared_16 =
    [(DataAttribute_t, iedModel_Device1_DSCH1_SchdAbsTm_val_220),
     (DataAttribute_t, iedModel_Device1_DSCH1_SchdAbsTm_val_221),
     (DataAttribute_t, iedModel_Device1_DSCH1_SchdAbsTm_val_222),
     (DataAttribute_t, iedModel_Device1_DSCH1_SchdAbsTm_val_223),
     (DataAttribute_t, iedModel_Device1_DSCH1_SchdAbsTm_val_224),
     (DataAttribute_t, iedModel_Device1_DSCH1_SchdAbsTm_val_225),
     (DataAttribute_t, iedModel_Device1_DSCH1_SchdAbsTm_val_226),
     (DataAttribute_t, iedModel_Device1_DSCH1_SchdAbsTm_val_227),
     (DataAttribute_t, iedModel_Device1_DSCH1_SchdAbsTm_val_228),
     (DataAttribute_t, iedModel_Device1_DSCH1_SchdAbsTm_val_229),
     (DataAttribute_t, iedModel_Device1_DSCH1_SchdAbsTm_val_230),
     (DataAttribute_t, iedModel_Device1_DSCH1_SchdAbsTm_val_231),
     (DataAttribute_t, iedModel_Device1_DSCH1_SchdAbsTm_val_232),
     (DataAttribute_t, iedModel_Device1_DSCH1_SchdAbsTm_val_233),
     (DataAttribute_t, iedModel_Device1_DSCH1_SchdAbsTm_val_234),
     (DataAttribute_t, iedModel_Device1_DSCH1_SchdAbsTm_val_235),
     (DataAttribute_t, iedModel_Device1_DSCH1_SchdAbsTm_val_236),
     (DataAttribute_t, iedModel_Device1_DSCH1_SchdAbsTm_val_237),
     (DataAttribute_t, iedModel_Device1_DSCH1_SchdAbsTm_val_238),
     (DataAttribute_t, iedModel_Device1_DSCH1_SchdAbsTm_val_239)]"

definition smp_handles_16 :: "(string \<times> addr) list" where
  "smp_handles_16 =
    [(''IEDMODEL_Device1_DSCH1_SchdAbsTm_val_220'', iedModel_Device1_DSCH1_SchdAbsTm_val_220),
     (''IEDMODEL_Device1_DSCH1_SchdAbsTm_val_221'', iedModel_Device1_DSCH1_SchdAbsTm_val_221),
     (''IEDMODEL_Device1_DSCH1_SchdAbsTm_val_222'', iedModel_Device1_DSCH1_SchdAbsTm_val_222),
     (''IEDMODEL_Device1_DSCH1_SchdAbsTm_val_223'', iedModel_Device1_DSCH1_SchdAbsTm_val_223),
     (''IEDMODEL_Device1_DSCH1_SchdAbsTm_val_224'', iedModel_Device1_DSCH1_SchdAbsTm_val_224),
     (''IEDMODEL_Device1_DSCH1_SchdAbsTm_val_225'', iedModel_Device1_DSCH1_SchdAbsTm_val_225),
     (''IEDMODEL_Device1_DSCH1_SchdAbsTm_val_226'', iedModel_Device1_DSCH1_SchdAbsTm_val_226),
     (''IEDMODEL_Device1_DSCH1_SchdAbsTm_val_227'', iedModel_Device1_DSCH1_SchdAbsTm_val_227),
     (''IEDMODEL_Device1_DSCH1_SchdAbsTm_val_228'', iedModel_Device1_DSCH1_SchdAbsTm_val_228),
     (''IEDMODEL_Device1_DSCH1_SchdAbsTm_val_229'', iedModel_Device1_DSCH1_SchdAbsTm_val_229),
     (''IEDMODEL_Device1_DSCH1_SchdAbsTm_val_230'', iedModel_Device1_DSCH1_SchdAbsTm_val_230),
     (''IEDMODEL_Device1_DSCH1_SchdAbsTm_val_231'', iedModel_Device1_DSCH1_SchdAbsTm_val_231),
     (''IEDMODEL_Device1_DSCH1_SchdAbsTm_val_232'', iedModel_Device1_DSCH1_SchdAbsTm_val_232),
     (''IEDMODEL_Device1_DSCH1_SchdAbsTm_val_233'', iedModel_Device1_DSCH1_SchdAbsTm_val_233),
     (''IEDMODEL_Device1_DSCH1_SchdAbsTm_val_234'', iedModel_Device1_DSCH1_SchdAbsTm_val_234),
     (''IEDMODEL_Device1_DSCH1_SchdAbsTm_val_235'', iedModel_Device1_DSCH1_SchdAbsTm_val_235),
     (''IEDMODEL_Device1_DSCH1_SchdAbsTm_val_236'', iedModel_Device1_DSCH1_SchdAbsTm_val_236),
     (''IEDMODEL_Device1_DSCH1_SchdAbsTm_val_237'', iedModel_Device1_DSCH1_SchdAbsTm_val_237),
     (''IEDMODEL_Device1_DSCH1_SchdAbsTm_val_238'', iedModel_Device1_DSCH1_SchdAbsTm_val_238),
     (''IEDMODEL_Device1_DSCH1_SchdAbsTm_val_239'', iedModel_Device1_DSCH1_SchdAbsTm_val_239)]"

definition smp_declared_17 :: "(c_type \<times> addr) list" where
  "smp_declared_17 =
    [(DataAttribute_t, iedModel_Device1_DSCH1_SchdAbsTm_val_240),
     (DataAttribute_t, iedModel_Device1_DSCH1_SchdAbsTm_val_241),
     (DataAttribute_t, iedModel_Device1_DSCH1_SchdAbsTm_val_242),
     (DataAttribute_t, iedModel_Device1_DSCH1_SchdAbsTm_val_243),
     (DataAttribute_t, iedModel_Device1_DSCH1_SchdAbsTm_val_244),
     (DataAttribute_t, iedModel_Device1_DSCH1_SchdAbsTm_val_245),
     (DataAttribute_t, iedModel_Device1_DSCH1_SchdAbsTm_val_246),
     (DataAttribute_t, iedModel_Device1_DSCH1_SchdAbsTm_val_247),
     (DataAttribute_t, iedModel_Device1_DSCH1_SchdAbsTm_val_248),
     (DataAttribute_t, iedModel_Device1_DSCH1_SchdAbsTm_val_249),
     (DataAttribute_t, iedModel_Device1_DSCH1_SchdAbsTm_val_250),
     (DataAttribute_t, iedModel_Device1_DSCH1_SchdAbsTm_val_251),
     (DataAttribute_t, iedModel_Device1_DSCH1_SchdAbsTm_val_252),
     (DataAttribute_t, iedModel_Device1_DSCH1_SchdAbsTm_val_253),
     (DataAttribute_t, iedModel_Device1_DSCH1_SchdAbsTm_val_254),
     (DataAttribute_t, iedModel_Device1_DSCH1_SchdAbsTm_time)]"

definition smp_handles_17 :: "(string \<times> addr) list" where
  "smp_handles_17 =
    [(''IEDMODEL_Device1_DSCH1_SchdAbsTm_val_240'', iedModel_Device1_DSCH1_SchdAbsTm_val_240),
     (''IEDMODEL_Device1_DSCH1_SchdAbsTm_val_241'', iedModel_Device1_DSCH1_SchdAbsTm_val_241),
     (''IEDMODEL_Device1_DSCH1_SchdAbsTm_val_242'', iedModel_Device1_DSCH1_SchdAbsTm_val_242),
     (''IEDMODEL_Device1_DSCH1_SchdAbsTm_val_243'', iedModel_Device1_DSCH1_SchdAbsTm_val_243),
     (''IEDMODEL_Device1_DSCH1_SchdAbsTm_val_244'', iedModel_Device1_DSCH1_SchdAbsTm_val_244),
     (''IEDMODEL_Device1_DSCH1_SchdAbsTm_val_245'', iedModel_Device1_DSCH1_SchdAbsTm_val_245),
     (''IEDMODEL_Device1_DSCH1_SchdAbsTm_val_246'', iedModel_Device1_DSCH1_SchdAbsTm_val_246),
     (''IEDMODEL_Device1_DSCH1_SchdAbsTm_val_247'', iedModel_Device1_DSCH1_SchdAbsTm_val_247),
     (''IEDMODEL_Device1_DSCH1_SchdAbsTm_val_248'', iedModel_Device1_DSCH1_SchdAbsTm_val_248),
     (''IEDMODEL_Device1_DSCH1_SchdAbsTm_val_249'', iedModel_Device1_DSCH1_SchdAbsTm_val_249),
     (''IEDMODEL_Device1_DSCH1_SchdAbsTm_val_250'', iedModel_Device1_DSCH1_SchdAbsTm_val_250),
     (''IEDMODEL_Device1_DSCH1_SchdAbsTm_val_251'', iedModel_Device1_DSCH1_SchdAbsTm_val_251),
     (''IEDMODEL_Device1_DSCH1_SchdAbsTm_val_252'', iedModel_Device1_DSCH1_SchdAbsTm_val_252),
     (''IEDMODEL_Device1_DSCH1_SchdAbsTm_val_253'', iedModel_Device1_DSCH1_SchdAbsTm_val_253),
     (''IEDMODEL_Device1_DSCH1_SchdAbsTm_val_254'', iedModel_Device1_DSCH1_SchdAbsTm_val_254),
     (''IEDMODEL_Device1_DSCH1_SchdAbsTm_time'', iedModel_Device1_DSCH1_SchdAbsTm_time)]"

definition smp_declared_18 :: "(c_type \<times> addr) list" where
  "smp_declared_18 =
    [(DataAttribute_t, iedModel_Device1_DSCH1_SchdAbsTm_time_0),
     (DataAttribute_t, iedModel_Device1_DSCH1_SchdAbsTm_time_1),
     (DataAttribute_t, iedModel_Device1_DSCH1_SchdAbsTm_time_2),
     (DataAttribute_t, iedModel_Device1_DSCH1_SchdAbsTm_time_3),
     (DataAttribute_t, iedModel_Device1_DSCH1_SchdAbsTm_time_4),
     (DataAttribute_t, iedModel_Device1_DSCH1_SchdAbsTm_time_5),
     (DataAttribute_t, iedModel_Device1_DSCH1_SchdAbsTm_time_6),
     (DataAttribute_t, iedModel_Device1_DSCH1_SchdAbsTm_time_7),
     (DataAttribute_t, iedModel_Device1_DSCH1_SchdAbsTm_time_8),
     (DataAttribute_t, iedModel_Device1_DSCH1_SchdAbsTm_time_9),
     (DataAttribute_t, iedModel_Device1_DSCH1_SchdAbsTm_time_10),
     (DataAttribute_t, iedModel_Device1_DSCH1_SchdAbsTm_time_11),
     (DataAttribute_t, iedModel_Device1_DSCH1_SchdAbsTm_time_12),
     (DataAttribute_t, iedModel_Device1_DSCH1_SchdAbsTm_time_13),
     (DataAttribute_t, iedModel_Device1_DSCH1_SchdAbsTm_time_14),
     (DataAttribute_t, iedModel_Device1_DSCH1_SchdAbsTm_time_15),
     (DataAttribute_t, iedModel_Device1_DSCH1_SchdAbsTm_time_16),
     (DataAttribute_t, iedModel_Device1_DSCH1_SchdAbsTm_time_17),
     (DataAttribute_t, iedModel_Device1_DSCH1_SchdAbsTm_time_18),
     (DataAttribute_t, iedModel_Device1_DSCH1_SchdAbsTm_time_19)]"

definition smp_handles_18 :: "(string \<times> addr) list" where
  "smp_handles_18 =
    [(''IEDMODEL_Device1_DSCH1_SchdAbsTm_time_0'', iedModel_Device1_DSCH1_SchdAbsTm_time_0),
     (''IEDMODEL_Device1_DSCH1_SchdAbsTm_time_1'', iedModel_Device1_DSCH1_SchdAbsTm_time_1),
     (''IEDMODEL_Device1_DSCH1_SchdAbsTm_time_2'', iedModel_Device1_DSCH1_SchdAbsTm_time_2),
     (''IEDMODEL_Device1_DSCH1_SchdAbsTm_time_3'', iedModel_Device1_DSCH1_SchdAbsTm_time_3),
     (''IEDMODEL_Device1_DSCH1_SchdAbsTm_time_4'', iedModel_Device1_DSCH1_SchdAbsTm_time_4),
     (''IEDMODEL_Device1_DSCH1_SchdAbsTm_time_5'', iedModel_Device1_DSCH1_SchdAbsTm_time_5),
     (''IEDMODEL_Device1_DSCH1_SchdAbsTm_time_6'', iedModel_Device1_DSCH1_SchdAbsTm_time_6),
     (''IEDMODEL_Device1_DSCH1_SchdAbsTm_time_7'', iedModel_Device1_DSCH1_SchdAbsTm_time_7),
     (''IEDMODEL_Device1_DSCH1_SchdAbsTm_time_8'', iedModel_Device1_DSCH1_SchdAbsTm_time_8),
     (''IEDMODEL_Device1_DSCH1_SchdAbsTm_time_9'', iedModel_Device1_DSCH1_SchdAbsTm_time_9),
     (''IEDMODEL_Device1_DSCH1_SchdAbsTm_time_10'', iedModel_Device1_DSCH1_SchdAbsTm_time_10),
     (''IEDMODEL_Device1_DSCH1_SchdAbsTm_time_11'', iedModel_Device1_DSCH1_SchdAbsTm_time_11),
     (''IEDMODEL_Device1_DSCH1_SchdAbsTm_time_12'', iedModel_Device1_DSCH1_SchdAbsTm_time_12),
     (''IEDMODEL_Device1_DSCH1_SchdAbsTm_time_13'', iedModel_Device1_DSCH1_SchdAbsTm_time_13),
     (''IEDMODEL_Device1_DSCH1_SchdAbsTm_time_14'', iedModel_Device1_DSCH1_SchdAbsTm_time_14),
     (''IEDMODEL_Device1_DSCH1_SchdAbsTm_time_15'', iedModel_Device1_DSCH1_SchdAbsTm_time_15),
     (''IEDMODEL_Device1_DSCH1_SchdAbsTm_time_16'', iedModel_Device1_DSCH1_SchdAbsTm_time_16),
     (''IEDMODEL_Device1_DSCH1_SchdAbsTm_time_17'', iedModel_Device1_DSCH1_SchdAbsTm_time_17),
     (''IEDMODEL_Device1_DSCH1_SchdAbsTm_time_18'', iedModel_Device1_DSCH1_SchdAbsTm_time_18),
     (''IEDMODEL_Device1_DSCH1_SchdAbsTm_time_19'', iedModel_Device1_DSCH1_SchdAbsTm_time_19)]"

definition smp_declared_19 :: "(c_type \<times> addr) list" where
  "smp_declared_19 =
    [(DataAttribute_t, iedModel_Device1_DSCH1_SchdAbsTm_time_20),
     (DataAttribute_t, iedModel_Device1_DSCH1_SchdAbsTm_time_21),
     (DataAttribute_t, iedModel_Device1_DSCH1_SchdAbsTm_time_22),
     (DataAttribute_t, iedModel_Device1_DSCH1_SchdAbsTm_time_23),
     (DataAttribute_t, iedModel_Device1_DSCH1_SchdAbsTm_time_24),
     (DataAttribute_t, iedModel_Device1_DSCH1_SchdAbsTm_time_25),
     (DataAttribute_t, iedModel_Device1_DSCH1_SchdAbsTm_time_26),
     (DataAttribute_t, iedModel_Device1_DSCH1_SchdAbsTm_time_27),
     (DataAttribute_t, iedModel_Device1_DSCH1_SchdAbsTm_time_28),
     (DataAttribute_t, iedModel_Device1_DSCH1_SchdAbsTm_time_29),
     (DataAttribute_t, iedModel_Device1_DSCH1_SchdAbsTm_time_30),
     (DataAttribute_t, iedModel_Device1_DSCH1_SchdAbsTm_time_31),
     (DataAttribute_t, iedModel_Device1_DSCH1_SchdAbsTm_time_32),
     (DataAttribute_t, iedModel_Device1_DSCH1_SchdAbsTm_time_33),
     (DataAttribute_t, iedModel_Device1_DSCH1_SchdAbsTm_time_34),
     (DataAttribute_t, iedModel_Device1_DSCH1_SchdAbsTm_time_35),
     (DataAttribute_t, iedModel_Device1_DSCH1_SchdAbsTm_time_36),
     (DataAttribute_t, iedModel_Device1_DSCH1_SchdAbsTm_time_37),
     (DataAttribute_t, iedModel_Device1_DSCH1_SchdAbsTm_time_38),
     (DataAttribute_t, iedModel_Device1_DSCH1_SchdAbsTm_time_39)]"

definition smp_handles_19 :: "(string \<times> addr) list" where
  "smp_handles_19 =
    [(''IEDMODEL_Device1_DSCH1_SchdAbsTm_time_20'', iedModel_Device1_DSCH1_SchdAbsTm_time_20),
     (''IEDMODEL_Device1_DSCH1_SchdAbsTm_time_21'', iedModel_Device1_DSCH1_SchdAbsTm_time_21),
     (''IEDMODEL_Device1_DSCH1_SchdAbsTm_time_22'', iedModel_Device1_DSCH1_SchdAbsTm_time_22),
     (''IEDMODEL_Device1_DSCH1_SchdAbsTm_time_23'', iedModel_Device1_DSCH1_SchdAbsTm_time_23),
     (''IEDMODEL_Device1_DSCH1_SchdAbsTm_time_24'', iedModel_Device1_DSCH1_SchdAbsTm_time_24),
     (''IEDMODEL_Device1_DSCH1_SchdAbsTm_time_25'', iedModel_Device1_DSCH1_SchdAbsTm_time_25),
     (''IEDMODEL_Device1_DSCH1_SchdAbsTm_time_26'', iedModel_Device1_DSCH1_SchdAbsTm_time_26),
     (''IEDMODEL_Device1_DSCH1_SchdAbsTm_time_27'', iedModel_Device1_DSCH1_SchdAbsTm_time_27),
     (''IEDMODEL_Device1_DSCH1_SchdAbsTm_time_28'', iedModel_Device1_DSCH1_SchdAbsTm_time_28),
     (''IEDMODEL_Device1_DSCH1_SchdAbsTm_time_29'', iedModel_Device1_DSCH1_SchdAbsTm_time_29),
     (''IEDMODEL_Device1_DSCH1_SchdAbsTm_time_30'', iedModel_Device1_DSCH1_SchdAbsTm_time_30),
     (''IEDMODEL_Device1_DSCH1_SchdAbsTm_time_31'', iedModel_Device1_DSCH1_SchdAbsTm_time_31),
     (''IEDMODEL_Device1_DSCH1_SchdAbsTm_time_32'', iedModel_Device1_DSCH1_SchdAbsTm_time_32),
     (''IEDMODEL_Device1_DSCH1_SchdAbsTm_time_33'', iedModel_Device1_DSCH1_SchdAbsTm_time_33),
     (''IEDMODEL_Device1_DSCH1_SchdAbsTm_time_34'', iedModel_Device1_DSCH1_SchdAbsTm_time_34),
     (''IEDMODEL_Device1_DSCH1_SchdAbsTm_time_35'', iedModel_Device1_DSCH1_SchdAbsTm_time_35),
     (''IEDMODEL_Device1_DSCH1_SchdAbsTm_time_36'', iedModel_Device1_DSCH1_SchdAbsTm_time_36),
     (''IEDMODEL_Device1_DSCH1_SchdAbsTm_time_37'', iedModel_Device1_DSCH1_SchdAbsTm_time_37),
     (''IEDMODEL_Device1_DSCH1_SchdAbsTm_time_38'', iedModel_Device1_DSCH1_SchdAbsTm_time_38),
     (''IEDMODEL_Device1_DSCH1_SchdAbsTm_time_39'', iedModel_Device1_DSCH1_SchdAbsTm_time_39)]"

definition smp_declared_20 :: "(c_type \<times> addr) list" where
  "smp_declared_20 =
    [(DataAttribute_t, iedModel_Device1_DSCH1_SchdAbsTm_time_40),
     (DataAttribute_t, iedModel_Device1_DSCH1_SchdAbsTm_time_41),
     (DataAttribute_t, iedModel_Device1_DSCH1_SchdAbsTm_time_42),
     (DataAttribute_t, iedModel_Device1_DSCH1_SchdAbsTm_time_43),
     (DataAttribute_t, iedModel_Device1_DSCH1_SchdAbsTm_time_44),
     (DataAttribute_t, iedModel_Device1_DSCH1_SchdAbsTm_time_45),
     (DataAttribute_t, iedModel_Device1_DSCH1_SchdAbsTm_time_46),
     (DataAttribute_t, iedModel_Device1_DSCH1_SchdAbsTm_time_47),
     (DataAttribute_t, iedModel_Device1_DSCH1_SchdAbsTm_time_48),
     (DataAttribute_t, iedModel_Device1_DSCH1_SchdAbsTm_time_49),
     (DataAttribute_t, iedModel_Device1_DSCH1_SchdAbsTm_time_50),
     (DataAttribute_t, iedModel_Device1_DSCH1_SchdAbsTm_time_51),
     (DataAttribute_t, iedModel_Device1_DSCH1_SchdAbsTm_time_52),
     (DataAttribute_t, iedModel_Device1_DSCH1_SchdAbsTm_time_53),
     (DataAttribute_t, iedModel_Device1_DSCH1_SchdAbsTm_time_54),
     (DataAttribute_t, iedModel_Device1_DSCH1_SchdAbsTm_time_55),
     (DataAttribute_t, iedModel_Device1_DSCH1_SchdAbsTm_time_56),
     (DataAttribute_t, iedModel_Device1_DSCH1_SchdAbsTm_time_57),
     (DataAttribute_t, iedModel_Device1_DSCH1_SchdAbsTm_time_58),
     (DataAttribute_t, iedModel_Device1_DSCH1_SchdAbsTm_time_59)]"

definition smp_handles_20 :: "(string \<times> addr) list" where
  "smp_handles_20 =
    [(''IEDMODEL_Device1_DSCH1_SchdAbsTm_time_40'', iedModel_Device1_DSCH1_SchdAbsTm_time_40),
     (''IEDMODEL_Device1_DSCH1_SchdAbsTm_time_41'', iedModel_Device1_DSCH1_SchdAbsTm_time_41),
     (''IEDMODEL_Device1_DSCH1_SchdAbsTm_time_42'', iedModel_Device1_DSCH1_SchdAbsTm_time_42),
     (''IEDMODEL_Device1_DSCH1_SchdAbsTm_time_43'', iedModel_Device1_DSCH1_SchdAbsTm_time_43),
     (''IEDMODEL_Device1_DSCH1_SchdAbsTm_time_44'', iedModel_Device1_DSCH1_SchdAbsTm_time_44),
     (''IEDMODEL_Device1_DSCH1_SchdAbsTm_time_45'', iedModel_Device1_DSCH1_SchdAbsTm_time_45),
     (''IEDMODEL_Device1_DSCH1_SchdAbsTm_time_46'', iedModel_Device1_DSCH1_SchdAbsTm_time_46),
     (''IEDMODEL_Device1_DSCH1_SchdAbsTm_time_47'', iedModel_Device1_DSCH1_SchdAbsTm_time_47),
     (''IEDMODEL_Device1_DSCH1_SchdAbsTm_time_48'', iedModel_Device1_DSCH1_SchdAbsTm_time_48),
     (''IEDMODEL_Device1_DSCH1_SchdAbsTm_time_49'', iedModel_Device1_DSCH1_SchdAbsTm_time_49),
     (''IEDMODEL_Device1_DSCH1_SchdAbsTm_time_50'', iedModel_Device1_DSCH1_SchdAbsTm_time_50),
     (''IEDMODEL_Device1_DSCH1_SchdAbsTm_time_51'', iedModel_Device1_DSCH1_SchdAbsTm_time_51),
     (''IEDMODEL_Device1_DSCH1_SchdAbsTm_time_52'', iedModel_Device1_DSCH1_SchdAbsTm_time_52),
     (''IEDMODEL_Device1_DSCH1_SchdAbsTm_time_53'', iedModel_Device1_DSCH1_SchdAbsTm_time_53),
     (''IEDMODEL_Device1_DSCH1_SchdAbsTm_time_54'', iedModel_Device1_DSCH1_SchdAbsTm_time_54),
     (''IEDMODEL_Device1_DSCH1_SchdAbsTm_time_55'', iedModel_Device1_DSCH1_SchdAbsTm_time_55),
     (''IEDMODEL_Device1_DSCH1_SchdAbsTm_time_56'', iedModel_Device1_DSCH1_SchdAbsTm_time_56),
     (''IEDMODEL_Device1_DSCH1_SchdAbsTm_time_57'', iedModel_Device1_DSCH1_SchdAbsTm_time_57),
     (''IEDMODEL_Device1_DSCH1_SchdAbsTm_time_58'', iedModel_Device1_DSCH1_SchdAbsTm_time_58),
     (''IEDMODEL_Device1_DSCH1_SchdAbsTm_time_59'', iedModel_Device1_DSCH1_SchdAbsTm_time_59)]"

definition smp_declared_21 :: "(c_type \<times> addr) list" where
  "smp_declared_21 =
    [(DataAttribute_t, iedModel_Device1_DSCH1_SchdAbsTm_time_60),
     (DataAttribute_t, iedModel_Device1_DSCH1_SchdAbsTm_time_61),
     (DataAttribute_t, iedModel_Device1_DSCH1_SchdAbsTm_time_62),
     (DataAttribute_t, iedModel_Device1_DSCH1_SchdAbsTm_time_63),
     (DataAttribute_t, iedModel_Device1_DSCH1_SchdAbsTm_time_64),
     (DataAttribute_t, iedModel_Device1_DSCH1_SchdAbsTm_time_65),
     (DataAttribute_t, iedModel_Device1_DSCH1_SchdAbsTm_time_66),
     (DataAttribute_t, iedModel_Device1_DSCH1_SchdAbsTm_time_67),
     (DataAttribute_t, iedModel_Device1_DSCH1_SchdAbsTm_time_68),
     (DataAttribute_t, iedModel_Device1_DSCH1_SchdAbsTm_time_69),
     (DataAttribute_t, iedModel_Device1_DSCH1_SchdAbsTm_time_70),
     (DataAttribute_t, iedModel_Device1_DSCH1_SchdAbsTm_time_71),
     (DataAttribute_t, iedModel_Device1_DSCH1_SchdAbsTm_time_72),
     (DataAttribute_t, iedModel_Device1_DSCH1_SchdAbsTm_time_73),
     (DataAttribute_t, iedModel_Device1_DSCH1_SchdAbsTm_time_74),
     (DataAttribute_t, iedModel_Device1_DSCH1_SchdAbsTm_time_75),
     (DataAttribute_t, iedModel_Device1_DSCH1_SchdAbsTm_time_76),
     (DataAttribute_t, iedModel_Device1_DSCH1_SchdAbsTm_time_77),
     (DataAttribute_t, iedModel_Device1_DSCH1_SchdAbsTm_time_78),
     (DataAttribute_t, iedModel_Device1_DSCH1_SchdAbsTm_time_79)]"

definition smp_handles_21 :: "(string \<times> addr) list" where
  "smp_handles_21 =
    [(''IEDMODEL_Device1_DSCH1_SchdAbsTm_time_60'', iedModel_Device1_DSCH1_SchdAbsTm_time_60),
     (''IEDMODEL_Device1_DSCH1_SchdAbsTm_time_61'', iedModel_Device1_DSCH1_SchdAbsTm_time_61),
     (''IEDMODEL_Device1_DSCH1_SchdAbsTm_time_62'', iedModel_Device1_DSCH1_SchdAbsTm_time_62),
     (''IEDMODEL_Device1_DSCH1_SchdAbsTm_time_63'', iedModel_Device1_DSCH1_SchdAbsTm_time_63),
     (''IEDMODEL_Device1_DSCH1_SchdAbsTm_time_64'', iedModel_Device1_DSCH1_SchdAbsTm_time_64),
     (''IEDMODEL_Device1_DSCH1_SchdAbsTm_time_65'', iedModel_Device1_DSCH1_SchdAbsTm_time_65),
     (''IEDMODEL_Device1_DSCH1_SchdAbsTm_time_66'', iedModel_Device1_DSCH1_SchdAbsTm_time_66),
     (''IEDMODEL_Device1_DSCH1_SchdAbsTm_time_67'', iedModel_Device1_DSCH1_SchdAbsTm_time_67),
     (''IEDMODEL_Device1_DSCH1_SchdAbsTm_time_68'', iedModel_Device1_DSCH1_SchdAbsTm_time_68),
     (''IEDMODEL_Device1_DSCH1_SchdAbsTm_time_69'', iedModel_Device1_DSCH1_SchdAbsTm_time_69),
     (''IEDMODEL_Device1_DSCH1_SchdAbsTm_time_70'', iedModel_Device1_DSCH1_SchdAbsTm_time_70),
     (''IEDMODEL_Device1_DSCH1_SchdAbsTm_time_71'', iedModel_Device1_DSCH1_SchdAbsTm_time_71),
     (''IEDMODEL_Device1_DSCH1_SchdAbsTm_time_72'', iedModel_Device1_DSCH1_SchdAbsTm_time_72),
     (''IEDMODEL_Device1_DSCH1_SchdAbsTm_time_73'', iedModel_Device1_DSCH1_SchdAbsTm_time_73),
     (''IEDMODEL_Device1_DSCH1_SchdAbsTm_time_74'', iedModel_Device1_DSCH1_SchdAbsTm_time_74),
     (''IEDMODEL_Device1_DSCH1_SchdAbsTm_time_75'', iedModel_Device1_DSCH1_SchdAbsTm_time_75),
     (''IEDMODEL_Device1_DSCH1_SchdAbsTm_time_76'', iedModel_Device1_DSCH1_SchdAbsTm_time_76),
     (''IEDMODEL_Device1_DSCH1_SchdAbsTm_time_77'', iedModel_Device1_DSCH1_SchdAbsTm_time_77),
     (''IEDMODEL_Device1_DSCH1_SchdAbsTm_time_78'', iedModel_Device1_DSCH1_SchdAbsTm_time_78),
     (''IEDMODEL_Device1_DSCH1_SchdAbsTm_time_79'', iedModel_Device1_DSCH1_SchdAbsTm_time_79)]"

definition smp_declared_22 :: "(c_type \<times> addr) list" where
  "smp_declared_22 =
    [(DataAttribute_t, iedModel_Device1_DSCH1_SchdAbsTm_time_80),
     (DataAttribute_t, iedModel_Device1_DSCH1_SchdAbsTm_time_81),
     (DataAttribute_t, iedModel_Device1_DSCH1_SchdAbsTm_time_82),
     (DataAttribute_t, iedModel_Device1_DSCH1_SchdAbsTm_time_83),
     (DataAttribute_t, iedModel_Device1_DSCH1_SchdAbsTm_time_84),
     (DataAttribute_t, iedModel_Device1_DSCH1_SchdAbsTm_time_85),
     (DataAttribute_t, iedModel_Device1_DSCH1_SchdAbsTm_time_86),
     (DataAttribute_t, iedModel_Device1_DSCH1_SchdAbsTm_time_87),
     (DataAttribute_t, iedModel_Device1_DSCH1_SchdAbsTm_time_88),
     (DataAttribute_t, iedModel_Device1_DSCH1_SchdAbsTm_time_89),
     (DataAttribute_t, iedModel_Device1_DSCH1_SchdAbsTm_time_90),
     (DataAttribute_t, iedModel_Device1_DSCH1_SchdAbsTm_time_91),
     (DataAttribute_t, iedModel_Device1_DSCH1_SchdAbsTm_time_92),
     (DataAttribute_t, iedModel_Device1_DSCH1_SchdAbsTm_time_93),
     (DataAttribute_t, iedModel_Device1_DSCH1_SchdAbsTm_time_94),
     (DataAttribute_t, iedModel_Device1_DSCH1_SchdAbsTm_time_95),
     (DataAttribute_t, iedModel_Device1_DSCH1_SchdAbsTm_time_96),
     (DataAttribute_t, iedModel_Device1_DSCH1_SchdAbsTm_time_97),
     (DataAttribute_t, iedModel_Device1_DSCH1_SchdAbsTm_time_98),
     (DataAttribute_t, iedModel_Device1_DSCH1_SchdAbsTm_time_99)]"

definition smp_handles_22 :: "(string \<times> addr) list" where
  "smp_handles_22 =
    [(''IEDMODEL_Device1_DSCH1_SchdAbsTm_time_80'', iedModel_Device1_DSCH1_SchdAbsTm_time_80),
     (''IEDMODEL_Device1_DSCH1_SchdAbsTm_time_81'', iedModel_Device1_DSCH1_SchdAbsTm_time_81),
     (''IEDMODEL_Device1_DSCH1_SchdAbsTm_time_82'', iedModel_Device1_DSCH1_SchdAbsTm_time_82),
     (''IEDMODEL_Device1_DSCH1_SchdAbsTm_time_83'', iedModel_Device1_DSCH1_SchdAbsTm_time_83),
     (''IEDMODEL_Device1_DSCH1_SchdAbsTm_time_84'', iedModel_Device1_DSCH1_SchdAbsTm_time_84),
     (''IEDMODEL_Device1_DSCH1_SchdAbsTm_time_85'', iedModel_Device1_DSCH1_SchdAbsTm_time_85),
     (''IEDMODEL_Device1_DSCH1_SchdAbsTm_time_86'', iedModel_Device1_DSCH1_SchdAbsTm_time_86),
     (''IEDMODEL_Device1_DSCH1_SchdAbsTm_time_87'', iedModel_Device1_DSCH1_SchdAbsTm_time_87),
     (''IEDMODEL_Device1_DSCH1_SchdAbsTm_time_88'', iedModel_Device1_DSCH1_SchdAbsTm_time_88),
     (''IEDMODEL_Device1_DSCH1_SchdAbsTm_time_89'', iedModel_Device1_DSCH1_SchdAbsTm_time_89),
     (''IEDMODEL_Device1_DSCH1_SchdAbsTm_time_90'', iedModel_Device1_DSCH1_SchdAbsTm_time_90),
     (''IEDMODEL_Device1_DSCH1_SchdAbsTm_time_91'', iedModel_Device1_DSCH1_SchdAbsTm_time_91),
     (''IEDMODEL_Device1_DSCH1_SchdAbsTm_time_92'', iedModel_Device1_DSCH1_SchdAbsTm_time_92),
     (''IEDMODEL_Device1_DSCH1_SchdAbsTm_time_93'', iedModel_Device1_DSCH1_SchdAbsTm_time_93),
     (''IEDMODEL_Device1_DSCH1_SchdAbsTm_time_94'', iedModel_Device1_DSCH1_SchdAbsTm_time_94),
     (''IEDMODEL_Device1_DSCH1_SchdAbsTm_time_95'', iedModel_Device1_DSCH1_SchdAbsTm_time_95),
     (''IEDMODEL_Device1_DSCH1_SchdAbsTm_time_96'', iedModel_Device1_DSCH1_SchdAbsTm_time_96),
     (''IEDMODEL_Device1_DSCH1_SchdAbsTm_time_97'', iedModel_Device1_DSCH1_SchdAbsTm_time_97),
     (''IEDMODEL_Device1_DSCH1_SchdAbsTm_time_98'', iedModel_Device1_DSCH1_SchdAbsTm_time_98),
     (''IEDMODEL_Device1_DSCH1_SchdAbsTm_time_99'', iedModel_Device1_DSCH1_SchdAbsTm_time_99)]"

definition smp_declared_23 :: "(c_type \<times> addr) list" where
  "smp_declared_23 =
    [(DataAttribute_t, iedModel_Device1_DSCH1_SchdAbsTm_time_100),
     (DataAttribute_t, iedModel_Device1_DSCH1_SchdAbsTm_time_101),
     (DataAttribute_t, iedModel_Device1_DSCH1_SchdAbsTm_time_102),
     (DataAttribute_t, iedModel_Device1_DSCH1_SchdAbsTm_time_103),
     (DataAttribute_t, iedModel_Device1_DSCH1_SchdAbsTm_time_104),
     (DataAttribute_t, iedModel_Device1_DSCH1_SchdAbsTm_time_105),
     (DataAttribute_t, iedModel_Device1_DSCH1_SchdAbsTm_time_106),
     (DataAttribute_t, iedModel_Device1_DSCH1_SchdAbsTm_time_107),
     (DataAttribute_t, iedModel_Device1_DSCH1_SchdAbsTm_time_108),
     (DataAttribute_t, iedModel_Device1_DSCH1_SchdAbsTm_time_109),
     (DataAttribute_t, iedModel_Device1_DSCH1_SchdAbsTm_time_110),
     (DataAttribute_t, iedModel_Device1_DSCH1_SchdAbsTm_time_111),
     (DataAttribute_t, iedModel_Device1_DSCH1_SchdAbsTm_time_112),
     (DataAttribute_t, iedModel_Device1_DSCH1_SchdAbsTm_time_113),
     (DataAttribute_t, iedModel_Device1_DSCH1_SchdAbsTm_time_114),
     (DataAttribute_t, iedModel_Device1_DSCH1_SchdAbsTm_time_115),
     (DataAttribute_t, iedModel_Device1_DSCH1_SchdAbsTm_time_116),
     (DataAttribute_t, iedModel_Device1_DSCH1_SchdAbsTm_time_117),
     (DataAttribute_t, iedModel_Device1_DSCH1_SchdAbsTm_time_118),
     (DataAttribute_t, iedModel_Device1_DSCH1_SchdAbsTm_time_119)]"

definition smp_handles_23 :: "(string \<times> addr) list" where
  "smp_handles_23 =
    [(''IEDMODEL_Device1_DSCH1_SchdAbsTm_time_100'', iedModel_Device1_DSCH1_SchdAbsTm_time_100),
     (''IEDMODEL_Device1_DSCH1_SchdAbsTm_time_101'', iedModel_Device1_DSCH1_SchdAbsTm_time_101),
     (''IEDMODEL_Device1_DSCH1_SchdAbsTm_time_102'', iedModel_Device1_DSCH1_SchdAbsTm_time_102),
     (''IEDMODEL_Device1_DSCH1_SchdAbsTm_time_103'', iedModel_Device1_DSCH1_SchdAbsTm_time_103),
     (''IEDMODEL_Device1_DSCH1_SchdAbsTm_time_104'', iedModel_Device1_DSCH1_SchdAbsTm_time_104),
     (''IEDMODEL_Device1_DSCH1_SchdAbsTm_time_105'', iedModel_Device1_DSCH1_SchdAbsTm_time_105),
     (''IEDMODEL_Device1_DSCH1_SchdAbsTm_time_106'', iedModel_Device1_DSCH1_SchdAbsTm_time_106),
     (''IEDMODEL_Device1_DSCH1_SchdAbsTm_time_107'', iedModel_Device1_DSCH1_SchdAbsTm_time_107),
     (''IEDMODEL_Device1_DSCH1_SchdAbsTm_time_108'', iedModel_Device1_DSCH1_SchdAbsTm_time_108),
     (''IEDMODEL_Device1_DSCH1_SchdAbsTm_time_109'', iedModel_Device1_DSCH1_SchdAbsTm_time_109),
     (''IEDMODEL_Device1_DSCH1_SchdAbsTm_time_110'', iedModel_Device1_DSCH1_SchdAbsTm_time_110),
     (''IEDMODEL_Device1_DSCH1_SchdAbsTm_time_111'', iedModel_Device1_DSCH1_SchdAbsTm_time_111),
     (''IEDMODEL_Device1_DSCH1_SchdAbsTm_time_112'', iedModel_Device1_DSCH1_SchdAbsTm_time_112),
     (''IEDMODEL_Device1_DSCH1_SchdAbsTm_time_113'', iedModel_Device1_DSCH1_SchdAbsTm_time_113),
     (''IEDMODEL_Device1_DSCH1_SchdAbsTm_time_114'', iedModel_Device1_DSCH1_SchdAbsTm_time_114),
     (''IEDMODEL_Device1_DSCH1_SchdAbsTm_time_115'', iedModel_Device1_DSCH1_SchdAbsTm_time_115),
     (''IEDMODEL_Device1_DSCH1_SchdAbsTm_time_116'', iedModel_Device1_DSCH1_SchdAbsTm_time_116),
     (''IEDMODEL_Device1_DSCH1_SchdAbsTm_time_117'', iedModel_Device1_DSCH1_SchdAbsTm_time_117),
     (''IEDMODEL_Device1_DSCH1_SchdAbsTm_time_118'', iedModel_Device1_DSCH1_SchdAbsTm_time_118),
     (''IEDMODEL_Device1_DSCH1_SchdAbsTm_time_119'', iedModel_Device1_DSCH1_SchdAbsTm_time_119)]"

definition smp_declared_24 :: "(c_type \<times> addr) list" where
  "smp_declared_24 =
    [(DataAttribute_t, iedModel_Device1_DSCH1_SchdAbsTm_time_120),
     (DataAttribute_t, iedModel_Device1_DSCH1_SchdAbsTm_time_121),
     (DataAttribute_t, iedModel_Device1_DSCH1_SchdAbsTm_time_122),
     (DataAttribute_t, iedModel_Device1_DSCH1_SchdAbsTm_time_123),
     (DataAttribute_t, iedModel_Device1_DSCH1_SchdAbsTm_time_124),
     (DataAttribute_t, iedModel_Device1_DSCH1_SchdAbsTm_time_125),
     (DataAttribute_t, iedModel_Device1_DSCH1_SchdAbsTm_time_126),
     (DataAttribute_t, iedModel_Device1_DSCH1_SchdAbsTm_time_127),
     (DataAttribute_t, iedModel_Device1_DSCH1_SchdAbsTm_time_128),
     (DataAttribute_t, iedModel_Device1_DSCH1_SchdAbsTm_time_129),
     (DataAttribute_t, iedModel_Device1_DSCH1_SchdAbsTm_time_130),
     (DataAttribute_t, iedModel_Device1_DSCH1_SchdAbsTm_time_131),
     (DataAttribute_t, iedModel_Device1_DSCH1_SchdAbsTm_time_132),
     (DataAttribute_t, iedModel_Device1_DSCH1_SchdAbsTm_time_133),
     (DataAttribute_t, iedModel_Device1_DSCH1_SchdAbsTm_time_134),
     (DataAttribute_t, iedModel_Device1_DSCH1_SchdAbsTm_time_135),
     (DataAttribute_t, iedModel_Device1_DSCH1_SchdAbsTm_time_136),
     (DataAttribute_t, iedModel_Device1_DSCH1_SchdAbsTm_time_137),
     (DataAttribute_t, iedModel_Device1_DSCH1_SchdAbsTm_time_138),
     (DataAttribute_t, iedModel_Device1_DSCH1_SchdAbsTm_time_139)]"

definition smp_handles_24 :: "(string \<times> addr) list" where
  "smp_handles_24 =
    [(''IEDMODEL_Device1_DSCH1_SchdAbsTm_time_120'', iedModel_Device1_DSCH1_SchdAbsTm_time_120),
     (''IEDMODEL_Device1_DSCH1_SchdAbsTm_time_121'', iedModel_Device1_DSCH1_SchdAbsTm_time_121),
     (''IEDMODEL_Device1_DSCH1_SchdAbsTm_time_122'', iedModel_Device1_DSCH1_SchdAbsTm_time_122),
     (''IEDMODEL_Device1_DSCH1_SchdAbsTm_time_123'', iedModel_Device1_DSCH1_SchdAbsTm_time_123),
     (''IEDMODEL_Device1_DSCH1_SchdAbsTm_time_124'', iedModel_Device1_DSCH1_SchdAbsTm_time_124),
     (''IEDMODEL_Device1_DSCH1_SchdAbsTm_time_125'', iedModel_Device1_DSCH1_SchdAbsTm_time_125),
     (''IEDMODEL_Device1_DSCH1_SchdAbsTm_time_126'', iedModel_Device1_DSCH1_SchdAbsTm_time_126),
     (''IEDMODEL_Device1_DSCH1_SchdAbsTm_time_127'', iedModel_Device1_DSCH1_SchdAbsTm_time_127),
     (''IEDMODEL_Device1_DSCH1_SchdAbsTm_time_128'', iedModel_Device1_DSCH1_SchdAbsTm_time_128),
     (''IEDMODEL_Device1_DSCH1_SchdAbsTm_time_129'', iedModel_Device1_DSCH1_SchdAbsTm_time_129),
     (''IEDMODEL_Device1_DSCH1_SchdAbsTm_time_130'', iedModel_Device1_DSCH1_SchdAbsTm_time_130),
     (''IEDMODEL_Device1_DSCH1_SchdAbsTm_time_131'', iedModel_Device1_DSCH1_SchdAbsTm_time_131),
     (''IEDMODEL_Device1_DSCH1_SchdAbsTm_time_132'', iedModel_Device1_DSCH1_SchdAbsTm_time_132),
     (''IEDMODEL_Device1_DSCH1_SchdAbsTm_time_133'', iedModel_Device1_DSCH1_SchdAbsTm_time_133),
     (''IEDMODEL_Device1_DSCH1_SchdAbsTm_time_134'', iedModel_Device1_DSCH1_SchdAbsTm_time_134),
     (''IEDMODEL_Device1_DSCH1_SchdAbsTm_time_135'', iedModel_Device1_DSCH1_SchdAbsTm_time_135),
     (''IEDMODEL_Device1_DSCH1_SchdAbsTm_time_136'', iedModel_Device1_DSCH1_SchdAbsTm_time_136),
     (''IEDMODEL_Device1_DSCH1_SchdAbsTm_time_137'', iedModel_Device1_DSCH1_SchdAbsTm_time_137),
     (''IEDMODEL_Device1_DSCH1_SchdAbsTm_time_138'', iedModel_Device1_DSCH1_SchdAbsTm_time_138),
     (''IEDMODEL_Device1_DSCH1_SchdAbsTm_time_139'', iedModel_Device1_DSCH1_SchdAbsTm_time_139)]"

definition smp_declared_25 :: "(c_type \<times> addr) list" where
  "smp_declared_25 =
    [(DataAttribute_t, iedModel_Device1_DSCH1_SchdAbsTm_time_140),
     (DataAttribute_t, iedModel_Device1_DSCH1_SchdAbsTm_time_141),
     (DataAttribute_t, iedModel_Device1_DSCH1_SchdAbsTm_time_142),
     (DataAttribute_t, iedModel_Device1_DSCH1_SchdAbsTm_time_143),
     (DataAttribute_t, iedModel_Device1_DSCH1_SchdAbsTm_time_144),
     (DataAttribute_t, iedModel_Device1_DSCH1_SchdAbsTm_time_145),
     (DataAttribute_t, iedModel_Device1_DSCH1_SchdAbsTm_time_146),
     (DataAttribute_t, iedModel_Device1_DSCH1_SchdAbsTm_time_147),
     (DataAttribute_t, iedModel_Device1_DSCH1_SchdAbsTm_time_148),
     (DataAttribute_t, iedModel_Device1_DSCH1_SchdAbsTm_time_149),
     (DataAttribute_t, iedModel_Device1_DSCH1_SchdAbsTm_time_150),
     (DataAttribute_t, iedModel_Device1_DSCH1_SchdAbsTm_time_151),
     (DataAttribute_t, iedModel_Device1_DSCH1_SchdAbsTm_time_152),
     (DataAttribute_t, iedModel_Device1_DSCH1_SchdAbsTm_time_153),
     (DataAttribute_t, iedModel_Device1_DSCH1_SchdAbsTm_time_154),
     (DataAttribute_t, iedModel_Device1_DSCH1_SchdAbsTm_time_155),
     (DataAttribute_t, iedModel_Device1_DSCH1_SchdAbsTm_time_156),
     (DataAttribute_t, iedModel_Device1_DSCH1_SchdAbsTm_time_157),
     (DataAttribute_t, iedModel_Device1_DSCH1_SchdAbsTm_time_158),
     (DataAttribute_t, iedModel_Device1_DSCH1_SchdAbsTm_time_159)]"

definition smp_handles_25 :: "(string \<times> addr) list" where
  "smp_handles_25 =
    [(''IEDMODEL_Device1_DSCH1_SchdAbsTm_time_140'', iedModel_Device1_DSCH1_SchdAbsTm_time_140),
     (''IEDMODEL_Device1_DSCH1_SchdAbsTm_time_141'', iedModel_Device1_DSCH1_SchdAbsTm_time_141),
     (''IEDMODEL_Device1_DSCH1_SchdAbsTm_time_142'', iedModel_Device1_DSCH1_SchdAbsTm_time_142),
     (''IEDMODEL_Device1_DSCH1_SchdAbsTm_time_143'', iedModel_Device1_DSCH1_SchdAbsTm_time_143),
     (''IEDMODEL_Device1_DSCH1_SchdAbsTm_time_144'', iedModel_Device1_DSCH1_SchdAbsTm_time_144),
     (''IEDMODEL_Device1_DSCH1_SchdAbsTm_time_145'', iedModel_Device1_DSCH1_SchdAbsTm_time_145),
     (''IEDMODEL_Device1_DSCH1_SchdAbsTm_time_146'', iedModel_Device1_DSCH1_SchdAbsTm_time_146),
     (''IEDMODEL_Device1_DSCH1_SchdAbsTm_time_147'', iedModel_Device1_DSCH1_SchdAbsTm_time_147),
     (''IEDMODEL_Device1_DSCH1_SchdAbsTm_time_148'', iedModel_Device1_DSCH1_SchdAbsTm_time_148),
     (''IEDMODEL_Device1_DSCH1_SchdAbsTm_time_149'', iedModel_Device1_DSCH1_SchdAbsTm_time_149),
     (''IEDMODEL_Device1_DSCH1_SchdAbsTm_time_150'', iedModel_Device1_DSCH1_SchdAbsTm_time_150),
     (''IEDMODEL_Device1_DSCH1_SchdAbsTm_time_151'', iedModel_Device1_DSCH1_SchdAbsTm_time_151),
     (''IEDMODEL_Device1_DSCH1_SchdAbsTm_time_152'', iedModel_Device1_DSCH1_SchdAbsTm_time_152),
     (''IEDMODEL_Device1_DSCH1_SchdAbsTm_time_153'', iedModel_Device1_DSCH1_SchdAbsTm_time_153),
     (''IEDMODEL_Device1_DSCH1_SchdAbsTm_time_154'', iedModel_Device1_DSCH1_SchdAbsTm_time_154),
     (''IEDMODEL_Device1_DSCH1_SchdAbsTm_time_155'', iedModel_Device1_DSCH1_SchdAbsTm_time_155),
     (''IEDMODEL_Device1_DSCH1_SchdAbsTm_time_156'', iedModel_Device1_DSCH1_SchdAbsTm_time_156),
     (''IEDMODEL_Device1_DSCH1_SchdAbsTm_time_157'', iedModel_Device1_DSCH1_SchdAbsTm_time_157),
     (''IEDMODEL_Device1_DSCH1_SchdAbsTm_time_158'', iedModel_Device1_DSCH1_SchdAbsTm_time_158),
     (''IEDMODEL_Device1_DSCH1_SchdAbsTm_time_159'', iedModel_Device1_DSCH1_SchdAbsTm_time_159)]"

definition smp_declared_26 :: "(c_type \<times> addr) list" where
  "smp_declared_26 =
    [(DataAttribute_t, iedModel_Device1_DSCH1_SchdAbsTm_time_160),
     (DataAttribute_t, iedModel_Device1_DSCH1_SchdAbsTm_time_161),
     (DataAttribute_t, iedModel_Device1_DSCH1_SchdAbsTm_time_162),
     (DataAttribute_t, iedModel_Device1_DSCH1_SchdAbsTm_time_163),
     (DataAttribute_t, iedModel_Device1_DSCH1_SchdAbsTm_time_164),
     (DataAttribute_t, iedModel_Device1_DSCH1_SchdAbsTm_time_165),
     (DataAttribute_t, iedModel_Device1_DSCH1_SchdAbsTm_time_166),
     (DataAttribute_t, iedModel_Device1_DSCH1_SchdAbsTm_time_167),
     (DataAttribute_t, iedModel_Device1_DSCH1_SchdAbsTm_time_168),
     (DataAttribute_t, iedModel_Device1_DSCH1_SchdAbsTm_time_169),
     (DataAttribute_t, iedModel_Device1_DSCH1_SchdAbsTm_time_170),
     (DataAttribute_t, iedModel_Device1_DSCH1_SchdAbsTm_time_171),
     (DataAttribute_t, iedModel_Device1_DSCH1_SchdAbsTm_time_172),
     (DataAttribute_t, iedModel_Device1_DSCH1_SchdAbsTm_time_173),
     (DataAttribute_t, iedModel_Device1_DSCH1_SchdAbsTm_time_174),
     (DataAttribute_t, iedModel_Device1_DSCH1_SchdAbsTm_time_175),
     (DataAttribute_t, iedModel_Device1_DSCH1_SchdAbsTm_time_176),
     (DataAttribute_t, iedModel_Device1_DSCH1_SchdAbsTm_time_177),
     (DataAttribute_t, iedModel_Device1_DSCH1_SchdAbsTm_time_178),
     (DataAttribute_t, iedModel_Device1_DSCH1_SchdAbsTm_time_179)]"

definition smp_handles_26 :: "(string \<times> addr) list" where
  "smp_handles_26 =
    [(''IEDMODEL_Device1_DSCH1_SchdAbsTm_time_160'', iedModel_Device1_DSCH1_SchdAbsTm_time_160),
     (''IEDMODEL_Device1_DSCH1_SchdAbsTm_time_161'', iedModel_Device1_DSCH1_SchdAbsTm_time_161),
     (''IEDMODEL_Device1_DSCH1_SchdAbsTm_time_162'', iedModel_Device1_DSCH1_SchdAbsTm_time_162),
     (''IEDMODEL_Device1_DSCH1_SchdAbsTm_time_163'', iedModel_Device1_DSCH1_SchdAbsTm_time_163),
     (''IEDMODEL_Device1_DSCH1_SchdAbsTm_time_164'', iedModel_Device1_DSCH1_SchdAbsTm_time_164),
     (''IEDMODEL_Device1_DSCH1_SchdAbsTm_time_165'', iedModel_Device1_DSCH1_SchdAbsTm_time_165),
     (''IEDMODEL_Device1_DSCH1_SchdAbsTm_time_166'', iedModel_Device1_DSCH1_SchdAbsTm_time_166),
     (''IEDMODEL_Device1_DSCH1_SchdAbsTm_time_167'', iedModel_Device1_DSCH1_SchdAbsTm_time_167),
     (''IEDMODEL_Device1_DSCH1_SchdAbsTm_time_168'', iedModel_Device1_DSCH1_SchdAbsTm_time_168),
     (''IEDMODEL_Device1_DSCH1_SchdAbsTm_time_169'', iedModel_Device1_DSCH1_SchdAbsTm_time_169),
     (''IEDMODEL_Device1_DSCH1_SchdAbsTm_time_170'', iedModel_Device1_DSCH1_SchdAbsTm_time_170),
     (''IEDMODEL_Device1_DSCH1_SchdAbsTm_time_171'', iedModel_Device1_DSCH1_SchdAbsTm_time_171),
     (''IEDMODEL_Device1_DSCH1_SchdAbsTm_time_172'', iedModel_Device1_DSCH1_SchdAbsTm_time_172),
     (''IEDMODEL_Device1_DSCH1_SchdAbsTm_time_173'', iedModel_Device1_DSCH1_SchdAbsTm_time_173),
     (''IEDMODEL_Device1_DSCH1_SchdAbsTm_time_174'', iedModel_Device1_DSCH1_SchdAbsTm_time_174),
     (''IEDMODEL_Device1_DSCH1_SchdAbsTm_time_175'', iedModel_Device1_DSCH1_SchdAbsTm_time_175),
     (''IEDMODEL_Device1_DSCH1_SchdAbsTm_time_176'', iedModel_Device1_DSCH1_SchdAbsTm_time_176),
     (''IEDMODEL_Device1_DSCH1_SchdAbsTm_time_177'', iedModel_Device1_DSCH1_SchdAbsTm_time_177),
     (''IEDMODEL_Device1_DSCH1_SchdAbsTm_time_178'', iedModel_Device1_DSCH1_SchdAbsTm_time_178),
     (''IEDMODEL_Device1_DSCH1_SchdAbsTm_time_179'', iedModel_Device1_DSCH1_SchdAbsTm_time_179)]"

definition smp_declared_27 :: "(c_type \<times> addr) list" where
  "smp_declared_27 =
    [(DataAttribute_t, iedModel_Device1_DSCH1_SchdAbsTm_time_180),
     (DataAttribute_t, iedModel_Device1_DSCH1_SchdAbsTm_time_181),
     (DataAttribute_t, iedModel_Device1_DSCH1_SchdAbsTm_time_182),
     (DataAttribute_t, iedModel_Device1_DSCH1_SchdAbsTm_time_183),
     (DataAttribute_t, iedModel_Device1_DSCH1_SchdAbsTm_time_184),
     (DataAttribute_t, iedModel_Device1_DSCH1_SchdAbsTm_time_185),
     (DataAttribute_t, iedModel_Device1_DSCH1_SchdAbsTm_time_186),
     (DataAttribute_t, iedModel_Device1_DSCH1_SchdAbsTm_time_187),
     (DataAttribute_t, iedModel_Device1_DSCH1_SchdAbsTm_time_188),
     (DataAttribute_t, iedModel_Device1_DSCH1_SchdAbsTm_time_189),
     (DataAttribute_t, iedModel_Device1_DSCH1_SchdAbsTm_time_190),
     (DataAttribute_t, iedModel_Device1_DSCH1_SchdAbsTm_time_191),
     (DataAttribute_t, iedModel_Device1_DSCH1_SchdAbsTm_time_192),
     (DataAttribute_t, iedModel_Device1_DSCH1_SchdAbsTm_time_193),
     (DataAttribute_t, iedModel_Device1_DSCH1_SchdAbsTm_time_194),
     (DataAttribute_t, iedModel_Device1_DSCH1_SchdAbsTm_time_195),
     (DataAttribute_t, iedModel_Device1_DSCH1_SchdAbsTm_time_196),
     (DataAttribute_t, iedModel_Device1_DSCH1_SchdAbsTm_time_197),
     (DataAttribute_t, iedModel_Device1_DSCH1_SchdAbsTm_time_198),
     (DataAttribute_t, iedModel_Device1_DSCH1_SchdAbsTm_time_199)]"

definition smp_handles_27 :: "(string \<times> addr) list" where
  "smp_handles_27 =
    [(''IEDMODEL_Device1_DSCH1_SchdAbsTm_time_180'', iedModel_Device1_DSCH1_SchdAbsTm_time_180),
     (''IEDMODEL_Device1_DSCH1_SchdAbsTm_time_181'', iedModel_Device1_DSCH1_SchdAbsTm_time_181),
     (''IEDMODEL_Device1_DSCH1_SchdAbsTm_time_182'', iedModel_Device1_DSCH1_SchdAbsTm_time_182),
     (''IEDMODEL_Device1_DSCH1_SchdAbsTm_time_183'', iedModel_Device1_DSCH1_SchdAbsTm_time_183),
     (''IEDMODEL_Device1_DSCH1_SchdAbsTm_time_184'', iedModel_Device1_DSCH1_SchdAbsTm_time_184),
     (''IEDMODEL_Device1_DSCH1_SchdAbsTm_time_185'', iedModel_Device1_DSCH1_SchdAbsTm_time_185),
     (''IEDMODEL_Device1_DSCH1_SchdAbsTm_time_186'', iedModel_Device1_DSCH1_SchdAbsTm_time_186),
     (''IEDMODEL_Device1_DSCH1_SchdAbsTm_time_187'', iedModel_Device1_DSCH1_SchdAbsTm_time_187),
     (''IEDMODEL_Device1_DSCH1_SchdAbsTm_time_188'', iedModel_Device1_DSCH1_SchdAbsTm_time_188),
     (''IEDMODEL_Device1_DSCH1_SchdAbsTm_time_189'', iedModel_Device1_DSCH1_SchdAbsTm_time_189),
     (''IEDMODEL_Device1_DSCH1_SchdAbsTm_time_190'', iedModel_Device1_DSCH1_SchdAbsTm_time_190),
     (''IEDMODEL_Device1_DSCH1_SchdAbsTm_time_191'', iedModel_Device1_DSCH1_SchdAbsTm_time_191),
     (''IEDMODEL_Device1_DSCH1_SchdAbsTm_time_192'', iedModel_Device1_DSCH1_SchdAbsTm_time_192),
     (''IEDMODEL_Device1_DSCH1_SchdAbsTm_time_193'', iedModel_Device1_DSCH1_SchdAbsTm_time_193),
     (''IEDMODEL_Device1_DSCH1_SchdAbsTm_time_194'', iedModel_Device1_DSCH1_SchdAbsTm_time_194),
     (''IEDMODEL_Device1_DSCH1_SchdAbsTm_time_195'', iedModel_Device1_DSCH1_SchdAbsTm_time_195),
     (''IEDMODEL_Device1_DSCH1_SchdAbsTm_time_196'', iedModel_Device1_DSCH1_SchdAbsTm_time_196),
     (''IEDMODEL_Device1_DSCH1_SchdAbsTm_time_197'', iedModel_Device1_DSCH1_SchdAbsTm_time_197),
     (''IEDMODEL_Device1_DSCH1_SchdAbsTm_time_198'', iedModel_Device1_DSCH1_SchdAbsTm_time_198),
     (''IEDMODEL_Device1_DSCH1_SchdAbsTm_time_199'', iedModel_Device1_DSCH1_SchdAbsTm_time_199)]"

definition smp_declared_28 :: "(c_type \<times> addr) list" where
  "smp_declared_28 =
    [(DataAttribute_t, iedModel_Device1_DSCH1_SchdAbsTm_time_200),
     (DataAttribute_t, iedModel_Device1_DSCH1_SchdAbsTm_time_201),
     (DataAttribute_t, iedModel_Device1_DSCH1_SchdAbsTm_time_202),
     (DataAttribute_t, iedModel_Device1_DSCH1_SchdAbsTm_time_203),
     (DataAttribute_t, iedModel_Device1_DSCH1_SchdAbsTm_time_204),
     (DataAttribute_t, iedModel_Device1_DSCH1_SchdAbsTm_time_205),
     (DataAttribute_t, iedModel_Device1_DSCH1_SchdAbsTm_time_206),
     (DataAttribute_t, iedModel_Device1_DSCH1_SchdAbsTm_time_207),
     (DataAttribute_t, iedModel_Device1_DSCH1_SchdAbsTm_time_208),
     (DataAttribute_t, iedModel_Device1_DSCH1_SchdAbsTm_time_209),
     (DataAttribute_t, iedModel_Device1_DSCH1_SchdAbsTm_time_210),
     (DataAttribute_t, iedModel_Device1_DSCH1_SchdAbsTm_time_211),
     (DataAttribute_t, iedModel_Device1_DSCH1_SchdAbsTm_time_212),
     (DataAttribute_t, iedModel_Device1_DSCH1_SchdAbsTm_time_213),
     (DataAttribute_t, iedModel_Device1_DSCH1_SchdAbsTm_time_214),
     (DataAttribute_t, iedModel_Device1_DSCH1_SchdAbsTm_time_215),
     (DataAttribute_t, iedModel_Device1_DSCH1_SchdAbsTm_time_216),
     (DataAttribute_t, iedModel_Device1_DSCH1_SchdAbsTm_time_217),
     (DataAttribute_t, iedModel_Device1_DSCH1_SchdAbsTm_time_218),
     (DataAttribute_t, iedModel_Device1_DSCH1_SchdAbsTm_time_219)]"

definition smp_handles_28 :: "(string \<times> addr) list" where
  "smp_handles_28 =
    [(''IEDMODEL_Device1_DSCH1_SchdAbsTm_time_200'', iedModel_Device1_DSCH1_SchdAbsTm_time_200),
     (''IEDMODEL_Device1_DSCH1_SchdAbsTm_time_201'', iedModel_Device1_DSCH1_SchdAbsTm_time_201),
     (''IEDMODEL_Device1_DSCH1_SchdAbsTm_time_202'', iedModel_Device1_DSCH1_SchdAbsTm_time_202),
     (''IEDMODEL_Device1_DSCH1_SchdAbsTm_time_203'', iedModel_Device1_DSCH1_SchdAbsTm_time_203),
     (''IEDMODEL_Device1_DSCH1_SchdAbsTm_time_204'', iedModel_Device1_DSCH1_SchdAbsTm_time_204),
     (''IEDMODEL_Device1_DSCH1_SchdAbsTm_time_205'', iedModel_Device1_DSCH1_SchdAbsTm_time_205),
     (''IEDMODEL_Device1_DSCH1_SchdAbsTm_time_206'', iedModel_Device1_DSCH1_SchdAbsTm_time_206),
     (''IEDMODEL_Device1_DSCH1_SchdAbsTm_time_207'', iedModel_Device1_DSCH1_SchdAbsTm_time_207),
     (''IEDMODEL_Device1_DSCH1_SchdAbsTm_time_208'', iedModel_Device1_DSCH1_SchdAbsTm_time_208),
     (''IEDMODEL_Device1_DSCH1_SchdAbsTm_time_209'', iedModel_Device1_DSCH1_SchdAbsTm_time_209),
     (''IEDMODEL_Device1_DSCH1_SchdAbsTm_time_210'', iedModel_Device1_DSCH1_SchdAbsTm_time_210),
     (''IEDMODEL_Device1_DSCH1_SchdAbsTm_time_211'', iedModel_Device1_DSCH1_SchdAbsTm_time_211),
     (''IEDMODEL_Device1_DSCH1_SchdAbsTm_time_212'', iedModel_Device1_DSCH1_SchdAbsTm_time_212),
     (''IEDMODEL_Device1_DSCH1_SchdAbsTm_time_213'', iedModel_Device1_DSCH1_SchdAbsTm_time_213),
     (''IEDMODEL_Device1_DSCH1_SchdAbsTm_time_214'', iedModel_Device1_DSCH1_SchdAbsTm_time_214),
     (''IEDMODEL_Device1_DSCH1_SchdAbsTm_time_215'', iedModel_Device1_DSCH1_SchdAbsTm_time_215),
     (''IEDMODEL_Device1_DSCH1_SchdAbsTm_time_216'', iedModel_Device1_DSCH1_SchdAbsTm_time_216),
     (''IEDMODEL_Device1_DSCH1_SchdAbsTm_time_217'', iedModel_Device1_DSCH1_SchdAbsTm_time_217),
     (''IEDMODEL_Device1_DSCH1_SchdAbsTm_time_218'', iedModel_Device1_DSCH1_SchdAbsTm_time_218),
     (''IEDMODEL_Device1_DSCH1_SchdAbsTm_time_219'', iedModel_Device1_DSCH1_SchdAbsTm_time_219)]"

definition smp_declared_29 :: "(c_type \<times> addr) list" where
  "smp_declared_29 =
    [(DataAttribute_t, iedModel_Device1_DSCH1_SchdAbsTm_time_220),
     (DataAttribute_t, iedModel_Device1_DSCH1_SchdAbsTm_time_221),
     (DataAttribute_t, iedModel_Device1_DSCH1_SchdAbsTm_time_222),
     (DataAttribute_t, iedModel_Device1_DSCH1_SchdAbsTm_time_223),
     (DataAttribute_t, iedModel_Device1_DSCH1_SchdAbsTm_time_224),
     (DataAttribute_t, iedModel_Device1_DSCH1_SchdAbsTm_time_225),
     (DataAttribute_t, iedModel_Device1_DSCH1_SchdAbsTm_time_226),
     (DataAttribute_t, iedModel_Device1_DSCH1_SchdAbsTm_time_227),
     (DataAttribute_t, iedModel_Device1_DSCH1_SchdAbsTm_time_228),
     (DataAttribute_t, iedModel_Device1_DSCH1_SchdAbsTm_time_229),
     (DataAttribute_t, iedModel_Device1_DSCH1_SchdAbsTm_time_230),
     (DataAttribute_t, iedModel_Device1_DSCH1_SchdAbsTm_time_231),
     (DataAttribute_t, iedModel_Device1_DSCH1_SchdAbsTm_time_232),
     (DataAttribute_t, iedModel_Device1_DSCH1_SchdAbsTm_time_233),
     (DataAttribute_t, iedModel_Device1_DSCH1_SchdAbsTm_time_234),
     (DataAttribute_t, iedModel_Device1_DSCH1_SchdAbsTm_time_235),
     (DataAttribute_t, iedModel_Device1_DSCH1_SchdAbsTm_time_236),
     (DataAttribute_t, iedModel_Device1_DSCH1_SchdAbsTm_time_237),
     (DataAttribute_t, iedModel_Device1_DSCH1_SchdAbsTm_time_238),
     (DataAttribute_t, iedModel_Device1_DSCH1_SchdAbsTm_time_239)]"

definition smp_handles_29 :: "(string \<times> addr) list" where
  "smp_handles_29 =
    [(''IEDMODEL_Device1_DSCH1_SchdAbsTm_time_220'', iedModel_Device1_DSCH1_SchdAbsTm_time_220),
     (''IEDMODEL_Device1_DSCH1_SchdAbsTm_time_221'', iedModel_Device1_DSCH1_SchdAbsTm_time_221),
     (''IEDMODEL_Device1_DSCH1_SchdAbsTm_time_222'', iedModel_Device1_DSCH1_SchdAbsTm_time_222),
     (''IEDMODEL_Device1_DSCH1_SchdAbsTm_time_223'', iedModel_Device1_DSCH1_SchdAbsTm_time_223),
     (''IEDMODEL_Device1_DSCH1_SchdAbsTm_time_224'', iedModel_Device1_DSCH1_SchdAbsTm_time_224),
     (''IEDMODEL_Device1_DSCH1_SchdAbsTm_time_225'', iedModel_Device1_DSCH1_SchdAbsTm_time_225),
     (''IEDMODEL_Device1_DSCH1_SchdAbsTm_time_226'', iedModel_Device1_DSCH1_SchdAbsTm_time_226),
     (''IEDMODEL_Device1_DSCH1_SchdAbsTm_time_227'', iedModel_Device1_DSCH1_SchdAbsTm_time_227),
     (''IEDMODEL_Device1_DSCH1_SchdAbsTm_time_228'', iedModel_Device1_DSCH1_SchdAbsTm_time_228),
     (''IEDMODEL_Device1_DSCH1_SchdAbsTm_time_229'', iedModel_Device1_DSCH1_SchdAbsTm_time_229),
     (''IEDMODEL_Device1_DSCH1_SchdAbsTm_time_230'', iedModel_Device1_DSCH1_SchdAbsTm_time_230),
     (''IEDMODEL_Device1_DSCH1_SchdAbsTm_time_231'', iedModel_Device1_DSCH1_SchdAbsTm_time_231),
     (''IEDMODEL_Device1_DSCH1_SchdAbsTm_time_232'', iedModel_Device1_DSCH1_SchdAbsTm_time_232),
     (''IEDMODEL_Device1_DSCH1_SchdAbsTm_time_233'', iedModel_Device1_DSCH1_SchdAbsTm_time_233),
     (''IEDMODEL_Device1_DSCH1_SchdAbsTm_time_234'', iedModel_Device1_DSCH1_SchdAbsTm_time_234),
     (''IEDMODEL_Device1_DSCH1_SchdAbsTm_time_235'', iedModel_Device1_DSCH1_SchdAbsTm_time_235),
     (''IEDMODEL_Device1_DSCH1_SchdAbsTm_time_236'', iedModel_Device1_DSCH1_SchdAbsTm_time_236),
     (''IEDMODEL_Device1_DSCH1_SchdAbsTm_time_237'', iedModel_Device1_DSCH1_SchdAbsTm_time_237),
     (''IEDMODEL_Device1_DSCH1_SchdAbsTm_time_238'', iedModel_Device1_DSCH1_SchdAbsTm_time_238),
     (''IEDMODEL_Device1_DSCH1_SchdAbsTm_time_239'', iedModel_Device1_DSCH1_SchdAbsTm_time_239)]"

definition smp_declared_30 :: "(c_type \<times> addr) list" where
  "smp_declared_30 =
    [(DataAttribute_t, iedModel_Device1_DSCH1_SchdAbsTm_time_240),
     (DataAttribute_t, iedModel_Device1_DSCH1_SchdAbsTm_time_241),
     (DataAttribute_t, iedModel_Device1_DSCH1_SchdAbsTm_time_242),
     (DataAttribute_t, iedModel_Device1_DSCH1_SchdAbsTm_time_243),
     (DataAttribute_t, iedModel_Device1_DSCH1_SchdAbsTm_time_244),
     (DataAttribute_t, iedModel_Device1_DSCH1_SchdAbsTm_time_245),
     (DataAttribute_t, iedModel_Device1_DSCH1_SchdAbsTm_time_246),
     (DataAttribute_t, iedModel_Device1_DSCH1_SchdAbsTm_time_247),
     (DataAttribute_t, iedModel_Device1_DSCH1_SchdAbsTm_time_248),
     (DataAttribute_t, iedModel_Device1_DSCH1_SchdAbsTm_time_249),
     (DataAttribute_t, iedModel_Device1_DSCH1_SchdAbsTm_time_250),
     (DataAttribute_t, iedModel_Device1_DSCH1_SchdAbsTm_time_251),
     (DataAttribute_t, iedModel_Device1_DSCH1_SchdAbsTm_time_252),
     (DataAttribute_t, iedModel_Device1_DSCH1_SchdAbsTm_time_253),
     (DataAttribute_t, iedModel_Device1_DSCH1_SchdAbsTm_time_254)]"

definition smp_handles_30 :: "(string \<times> addr) list" where
  "smp_handles_30 =
    [(''IEDMODEL_Device1_DSCH1_SchdAbsTm_time_240'', iedModel_Device1_DSCH1_SchdAbsTm_time_240),
     (''IEDMODEL_Device1_DSCH1_SchdAbsTm_time_241'', iedModel_Device1_DSCH1_SchdAbsTm_time_241),
     (''IEDMODEL_Device1_DSCH1_SchdAbsTm_time_242'', iedModel_Device1_DSCH1_SchdAbsTm_time_242),
     (''IEDMODEL_Device1_DSCH1_SchdAbsTm_time_243'', iedModel_Device1_DSCH1_SchdAbsTm_time_243),
     (''IEDMODEL_Device1_DSCH1_SchdAbsTm_time_244'', iedModel_Device1_DSCH1_SchdAbsTm_time_244),
     (''IEDMODEL_Device1_DSCH1_SchdAbsTm_time_245'', iedModel_Device1_DSCH1_SchdAbsTm_time_245),
     (''IEDMODEL_Device1_DSCH1_SchdAbsTm_time_246'', iedModel_Device1_DSCH1_SchdAbsTm_time_246),
     (''IEDMODEL_Device1_DSCH1_SchdAbsTm_time_247'', iedModel_Device1_DSCH1_SchdAbsTm_time_247),
     (''IEDMODEL_Device1_DSCH1_SchdAbsTm_time_248'', iedModel_Device1_DSCH1_SchdAbsTm_time_248),
     (''IEDMODEL_Device1_DSCH1_SchdAbsTm_time_249'', iedModel_Device1_DSCH1_SchdAbsTm_time_249),
     (''IEDMODEL_Device1_DSCH1_SchdAbsTm_time_250'', iedModel_Device1_DSCH1_SchdAbsTm_time_250),
     (''IEDMODEL_Device1_DSCH1_SchdAbsTm_time_251'', iedModel_Device1_DSCH1_SchdAbsTm_time_251),
     (''IEDMODEL_Device1_DSCH1_SchdAbsTm_time_252'', iedModel_Device1_DSCH1_SchdAbsTm_time_252),
     (''IEDMODEL_Device1_DSCH1_SchdAbsTm_time_253'', iedModel_Device1_DSCH1_SchdAbsTm_time_253),
     (''IEDMODEL_Device1_DSCH1_SchdAbsTm_time_254'', iedModel_Device1_DSCH1_SchdAbsTm_time_254)]"

definition smp_declared_31 :: "(c_type \<times> addr) list" where
  "smp_declared_31 =
    [(LogicalNode_t, iedModel_Device1_MMXU1),
     (DataObject_t, iedModel_Device1_MMXU1_Mod),
     (DataAttribute_t, iedModel_Device1_MMXU1_Mod_q),
     (DataAttribute_t, iedModel_Device1_MMXU1_Mod_t),
     (DataAttribute_t, iedModel_Device1_MMXU1_Mod_ctlModel),
     (DataObject_t, iedModel_Device1_MMXU1_Beh),
     (DataAttribute_t, iedModel_Device1_MMXU1_Beh_stVal),
     (DataAttribute_t, iedModel_Device1_MMXU1_Beh_q),
     (DataAttribute_t, iedModel_Device1_MMXU1_Beh_t),
     (DataObject_t, iedModel_Device1_MMXU1_Health),
     (DataAttribute_t, iedModel_Device1_MMXU1_Health_stVal),
     (DataAttribute_t, iedModel_Device1_MMXU1_Health_q),
     (DataAttribute_t, iedModel_Device1_MMXU1_Health_t),
     (DataObject_t, iedModel_Device1_MMXU1_NamPlt),
     (DataAttribute_t, iedModel_Device1_MMXU1_NamPlt_vendor),
     (DataAttribute_t, iedModel_Device1_MMXU1_NamPlt_swRev),
     (DataAttribute_t, iedModel_Device1_MMXU1_NamPlt_d)]"

definition smp_handles_31 :: "(string \<times> addr) list" where
  "smp_handles_31 =
    [(''IEDMODEL_Device1_MMXU1'', iedModel_Device1_MMXU1),
     (''IEDMODEL_Device1_MMXU1_Mod'', iedModel_Device1_MMXU1_Mod),
     (''IEDMODEL_Device1_MMXU1_Mod_q'', iedModel_Device1_MMXU1_Mod_q),
     (''IEDMODEL_Device1_MMXU1_Mod_t'', iedModel_Device1_MMXU1_Mod_t),
     (''IEDMODEL_Device1_MMXU1_Mod_ctlModel'', iedModel_Device1_MMXU1_Mod_ctlModel),
     (''IEDMODEL_Device1_MMXU1_Beh'', iedModel_Device1_MMXU1_Beh),
     (''IEDMODEL_Device1_MMXU1_Beh_stVal'', iedModel_Device1_MMXU1_Beh_stVal),
     (''IEDMODEL_Device1_MMXU1_Beh_q'', iedModel_Device1_MMXU1_Beh_q),
     (''IEDMODEL_Device1_MMXU1_Beh_t'', iedModel_Device1_MMXU1_Beh_t),
     (''IEDMODEL_Device1_MMXU1_Health'', iedModel_Device1_MMXU1_Health),
     (''IEDMODEL_Device1_MMXU1_Health_stVal'', iedModel_Device1_MMXU1_Health_stVal),
     (''IEDMODEL_Device1_MMXU1_Health_q'', iedModel_Device1_MMXU1_Health_q),
     (''IEDMODEL_Device1_MMXU1_Health_t'', iedModel_Device1_MMXU1_Health_t),
     (''IEDMODEL_Device1_MMXU1_NamPlt'', iedModel_Device1_MMXU1_NamPlt),
     (''IEDMODEL_Device1_MMXU1_NamPlt_vendor'', iedModel_Device1_MMXU1_NamPlt_vendor),
     (''IEDMODEL_Device1_MMXU1_NamPlt_swRev'', iedModel_Device1_MMXU1_NamPlt_swRev),
     (''IEDMODEL_Device1_MMXU1_NamPlt_d'', iedModel_Device1_MMXU1_NamPlt_d)]"

definition smp_declared_32 :: "(c_type \<times> addr) list" where
  "smp_declared_32 =
    [(LogicalNode_t, iedModel_Device1_MMXU2),
     (DataObject_t, iedModel_Device1_MMXU2_Mod),
     (DataAttribute_t, iedModel_Device1_MMXU2_Mod_q),
     (DataAttribute_t, iedModel_Device1_MMXU2_Mod_t),
     (DataAttribute_t, iedModel_Device1_MMXU2_Mod_ctlModel),
     (DataObject_t, iedModel_Device1_MMXU2_Beh),
     (DataAttribute_t, iedModel_Device1_MMXU2_Beh_stVal),
     (DataAttribute_t, iedModel_Device1_MMXU2_Beh_q),
     (DataAttribute_t, iedModel_Device1_MMXU2_Beh_t),
     (DataObject_t, iedModel_Device1_MMXU2_Health),
     (DataAttribute_t, iedModel_Device1_MMXU2_Health_stVal),
     (DataAttribute_t, iedModel_Device1_MMXU2_Health_q),
     (DataAttribute_t, iedModel_Device1_MMXU2_Health_t),
     (DataObject_t, iedModel_Device1_MMXU2_NamPlt),
     (DataAttribute_t, iedModel_Device1_MMXU2_NamPlt_vendor),
     (DataAttribute_t, iedModel_Device1_MMXU2_NamPlt_swRev),
     (DataAttribute_t, iedModel_Device1_MMXU2_NamPlt_d),
     (DataObject_t, iedModel_Device1_MMXU2_TotW),
     (DataAttribute_t, iedModel_Device1_MMXU2_TotW_mag),
     (DataAttribute_t, iedModel_Device1_MMXU2_TotW_mag_f),
     (DataAttribute_t, iedModel_Device1_MMXU2_TotW_q),
     (DataAttribute_t, iedModel_Device1_MMXU2_TotW_t)]"

definition smp_handles_32 :: "(string \<times> addr) list" where
  "smp_handles_32 =
    [(''IEDMODEL_Device1_MMXU2'', iedModel_Device1_MMXU2),
     (''IEDMODEL_Device1_MMXU2_Mod'', iedModel_Device1_MMXU2_Mod),
     (''IEDMODEL_Device1_MMXU2_Mod_q'', iedModel_Device1_MMXU2_Mod_q),
     (''IEDMODEL_Device1_MMXU2_Mod_t'', iedModel_Device1_MMXU2_Mod_t),
     (''IEDMODEL_Device1_MMXU2_Mod_ctlModel'', iedModel_Device1_MMXU2_Mod_ctlModel),
     (''IEDMODEL_Device1_MMXU2_Beh'', iedModel_Device1_MMXU2_Beh),
     (''IEDMODEL_Device1_MMXU2_Beh_stVal'', iedModel_Device1_MMXU2_Beh_stVal),
     (''IEDMODEL_Device1_MMXU2_Beh_q'', iedModel_Device1_MMXU2_Beh_q),
     (''IEDMODEL_Device1_MMXU2_Beh_t'', iedModel_Device1_MMXU2_Beh_t),
     (''IEDMODEL_Device1_MMXU2_Health'', iedModel_Device1_MMXU2_Health),
     (''IEDMODEL_Device1_MMXU2_Health_stVal'', iedModel_Device1_MMXU2_Health_stVal),
     (''IEDMODEL_Device1_MMXU2_Health_q'', iedModel_Device1_MMXU2_Health_q),
     (''IEDMODEL_Device1_MMXU2_Health_t'', iedModel_Device1_MMXU2_Health_t),
     (''IEDMODEL_Device1_MMXU2_NamPlt'', iedModel_Device1_MMXU2_NamPlt),
     (''IEDMODEL_Device1_MMXU2_NamPlt_vendor'', iedModel_Device1_MMXU2_NamPlt_vendor),
     (''IEDMODEL_Device1_MMXU2_NamPlt_swRev'', iedModel_Device1_MMXU2_NamPlt_swRev),
     (''IEDMODEL_Device1_MMXU2_NamPlt_d'', iedModel_Device1_MMXU2_NamPlt_d),
     (''IEDMODEL_Device1_MMXU2_TotW'', iedModel_Device1_MMXU2_TotW),
     (''IEDMODEL_Device1_MMXU2_TotW_mag'', iedModel_Device1_MMXU2_TotW_mag),
     (''IEDMODEL_Device1_MMXU2_TotW_mag_f'', iedModel_Device1_MMXU2_TotW_mag_f),
     (''IEDMODEL_Device1_MMXU2_TotW_q'', iedModel_Device1_MMXU2_TotW_q),
     (''IEDMODEL_Device1_MMXU2_TotW_t'', iedModel_Device1_MMXU2_TotW_t)]"

definition smp_declared :: "(c_type \<times> addr) list" where
  "smp_declared = smp_declared_1 @ smp_declared_2 @ smp_declared_3 @ smp_declared_4 @ smp_declared_5 @ smp_declared_6 @ smp_declared_7 @ smp_declared_8 @ smp_declared_9 @ smp_declared_10 @ smp_declared_11 @ smp_declared_12 @ smp_declared_13 @ smp_declared_14 @ smp_declared_15 @ smp_declared_16 @ smp_declared_17 @ smp_declared_18 @ smp_declared_19 @ smp_declared_20 @ smp_declared_21 @ smp_declared_22 @ smp_declared_23 @ smp_declared_24 @ smp_declared_25 @ smp_declared_26 @ smp_declared_27 @ smp_declared_28 @ smp_declared_29 @ smp_declared_30 @ smp_declared_31 @ smp_declared_32"

definition smp_handles :: "(string \<times> addr) list" where
  "smp_handles = smp_handles_1 @ smp_handles_2 @ smp_handles_3 @ smp_handles_4 @ smp_handles_5 @ smp_handles_6 @ smp_handles_7 @ smp_handles_8 @ smp_handles_9 @ smp_handles_10 @ smp_handles_11 @ smp_handles_12 @ smp_handles_13 @ smp_handles_14 @ smp_handles_15 @ smp_handles_16 @ smp_handles_17 @ smp_handles_18 @ smp_handles_19 @ smp_handles_20 @ smp_handles_21 @ smp_handles_22 @ smp_handles_23 @ smp_handles_24 @ smp_handles_25 @ smp_handles_26 @ smp_handles_27 @ smp_handles_28 @ smp_handles_29 @ smp_handles_30 @ smp_handles_31 @ smp_handles_32"

section \<open>Checking the header\<close>

lemma smp_declared_1_block: "smp_declared_1 = map declared_as (concat [sample_LD, sample_LLN0_1, sample_LLN0_2])"
  by (simp add: smp_declared_1_def declared_as_def sample_LD_def sample_LLN0_1_def sample_LLN0_2_def)

lemma smp_handles_1_block: "handle_pass [(iedModel, ''IEDMODEL'')] (concat [sample_LD, sample_LLN0_1, sample_LLN0_2])
    = (smp_handles_1, [(iedModel_Device1_LLN0_NamPlt_ldNs, ''IEDMODEL_Device1_LLN0_NamPlt_ldNs''), (iedModel_Device1_LLN0_NamPlt, ''IEDMODEL_Device1_LLN0_NamPlt''), (iedModel_Device1_LLN0, ''IEDMODEL_Device1_LLN0''), (iedModel_Device1, ''IEDMODEL_Device1''), (iedModel, ''IEDMODEL'')])"
  by (simp add: smp_handles_1_def handle_eval sample_LD_def sample_LLN0_1_def sample_LLN0_2_def)

lemma smp_declared_2_block: "smp_declared_2 = map declared_as (concat [sample_LPHD1, sample_DGEN1_1])"
  by (simp add: smp_declared_2_def declared_as_def sample_LPHD1_def sample_DGEN1_1_def)

lemma smp_handles_2_block: "handle_pass [(iedModel_Device1_LLN0_NamPlt_ldNs, ''IEDMODEL_Device1_LLN0_NamPlt_ldNs''), (iedModel_Device1_LLN0_NamPlt, ''IEDMODEL_Device1_LLN0_NamPlt''), (iedModel_Device1_LLN0, ''IEDMODEL_Device1_LLN0''), (iedModel_Device1, ''IEDMODEL_Device1''), (iedModel, ''IEDMODEL'')] (concat [sample_LPHD1, sample_DGEN1_1])
    = (smp_handles_2, [(iedModel_Device1_DGEN1_Health_stVal, ''IEDMODEL_Device1_DGEN1_Health_stVal''), (iedModel_Device1_DGEN1_Health, ''IEDMODEL_Device1_DGEN1_Health''), (iedModel_Device1_DGEN1, ''IEDMODEL_Device1_DGEN1''), (iedModel_Device1, ''IEDMODEL_Device1''), (iedModel, ''IEDMODEL'')])"
  by (simp add: smp_handles_2_def handle_eval sample_LPHD1_def sample_DGEN1_1_def)

lemma smp_declared_3_block: "smp_declared_3 = map declared_as (concat [sample_DGEN1_2, sample_DGEN1_3, sample_DGEN1_4])"
  by (simp add: smp_declared_3_def declared_as_def sample_DGEN1_2_def sample_DGEN1_3_def sample_DGEN1_4_def)

lemma smp_handles_3_block: "handle_pass [(iedModel_Device1_DGEN1_Health_stVal, ''IEDMODEL_Device1_DGEN1_Health_stVal''), (iedModel_Device1_DGEN1_Health, ''IEDMODEL_Device1_DGEN1_Health''), (iedModel_Device1_DGEN1, ''IEDMODEL_Device1_DGEN1''), (iedModel_Device1, ''IEDMODEL_Device1''), (iedModel, ''IEDMODEL'')] (concat [sample_DGEN1_2, sample_DGEN1_3, sample_DGEN1_4])
    = (smp_handles_3, [(iedModel_Device1_DGEN1_TotWh_t, ''IEDMODEL_Device1_DGEN1_TotWh_t''), (iedModel_Device1_DGEN1_TotWh, ''IEDMODEL_Device1_DGEN1_TotWh''), (iedModel_Device1_DGEN1, ''IEDMODEL_Device1_DGEN1''), (iedModel_Device1, ''IEDMODEL_Device1''), (iedModel, ''IEDMODEL'')])"
  by (simp add: smp_handles_3_def handle_eval sample_DGEN1_2_def sample_DGEN1_3_def sample_DGEN1_4_def)

lemma smp_declared_4_block: "smp_declared_4 = map declared_as (concat [sample_DSCH1_1, sample_DSCH1_2])"
  by (simp add: smp_declared_4_def declared_as_def sample_DSCH1_1_def sample_DSCH1_2_def)

lemma smp_handles_4_block: "handle_pass [(iedModel_Device1_DGEN1_TotWh_t, ''IEDMODEL_Device1_DGEN1_TotWh_t''), (iedModel_Device1_DGEN1_TotWh, ''IEDMODEL_Device1_DGEN1_TotWh''), (iedModel_Device1_DGEN1, ''IEDMODEL_Device1_DGEN1''), (iedModel_Device1, ''IEDMODEL_Device1''), (iedModel, ''IEDMODEL'')] (concat [sample_DSCH1_1, sample_DSCH1_2])
    = (smp_handles_4, [(iedModel_Device1_DSCH1_SchdId, ''IEDMODEL_Device1_DSCH1_SchdId''), (iedModel_Device1_DSCH1, ''IEDMODEL_Device1_DSCH1''), (iedModel_Device1, ''IEDMODEL_Device1''), (iedModel, ''IEDMODEL'')])"
  by (simp add: smp_handles_4_def handle_eval sample_DSCH1_1_def sample_DSCH1_2_def)

lemma smp_declared_5_block: "smp_declared_5 = map declared_as (concat [sample_DSCH1_3, sample_SchdAbsTm_val, sample_SchdAbsTm_val_elements_1, sample_SchdAbsTm_val_elements_2])"
  by (simp add: smp_declared_5_def declared_as_def sample_DSCH1_3_def sample_SchdAbsTm_val_def sample_SchdAbsTm_val_elements_1_def sample_SchdAbsTm_val_elements_2_def)

lemma smp_handles_5_block: "handle_pass [(iedModel_Device1_DSCH1_SchdId, ''IEDMODEL_Device1_DSCH1_SchdId''), (iedModel_Device1_DSCH1, ''IEDMODEL_Device1_DSCH1''), (iedModel_Device1, ''IEDMODEL_Device1''), (iedModel, ''IEDMODEL'')] (concat [sample_DSCH1_3, sample_SchdAbsTm_val, sample_SchdAbsTm_val_elements_1, sample_SchdAbsTm_val_elements_2])
    = (smp_handles_5, [(iedModel_Device1_DSCH1_SchdAbsTm_val_19, ''IEDMODEL_Device1_DSCH1_SchdAbsTm_val_19''), (iedModel_Device1_DSCH1_SchdAbsTm_val, ''IEDMODEL_Device1_DSCH1_SchdAbsTm_val''), (iedModel_Device1_DSCH1_SchdAbsTm, ''IEDMODEL_Device1_DSCH1_SchdAbsTm''), (iedModel_Device1_DSCH1, ''IEDMODEL_Device1_DSCH1''), (iedModel_Device1, ''IEDMODEL_Device1''), (iedModel, ''IEDMODEL'')])"
  by (simp add: smp_handles_5_def handle_eval sample_DSCH1_3_def sample_SchdAbsTm_val_def sample_SchdAbsTm_val_elements_1_def sample_SchdAbsTm_val_elements_2_def)

lemma smp_declared_6_block: "smp_declared_6 = map declared_as (concat [sample_SchdAbsTm_val_elements_3, sample_SchdAbsTm_val_elements_4])"
  by (simp add: smp_declared_6_def declared_as_def sample_SchdAbsTm_val_elements_3_def sample_SchdAbsTm_val_elements_4_def)

lemma smp_handles_6_block: "handle_pass [(iedModel_Device1_DSCH1_SchdAbsTm_val_19, ''IEDMODEL_Device1_DSCH1_SchdAbsTm_val_19''), (iedModel_Device1_DSCH1_SchdAbsTm_val, ''IEDMODEL_Device1_DSCH1_SchdAbsTm_val''), (iedModel_Device1_DSCH1_SchdAbsTm, ''IEDMODEL_Device1_DSCH1_SchdAbsTm''), (iedModel_Device1_DSCH1, ''IEDMODEL_Device1_DSCH1''), (iedModel_Device1, ''IEDMODEL_Device1''), (iedModel, ''IEDMODEL'')] (concat [sample_SchdAbsTm_val_elements_3, sample_SchdAbsTm_val_elements_4])
    = (smp_handles_6, [(iedModel_Device1_DSCH1_SchdAbsTm_val_39, ''IEDMODEL_Device1_DSCH1_SchdAbsTm_val_39''), (iedModel_Device1_DSCH1_SchdAbsTm_val, ''IEDMODEL_Device1_DSCH1_SchdAbsTm_val''), (iedModel_Device1_DSCH1_SchdAbsTm, ''IEDMODEL_Device1_DSCH1_SchdAbsTm''), (iedModel_Device1_DSCH1, ''IEDMODEL_Device1_DSCH1''), (iedModel_Device1, ''IEDMODEL_Device1''), (iedModel, ''IEDMODEL'')])"
  by (simp add: smp_handles_6_def handle_eval sample_SchdAbsTm_val_elements_3_def sample_SchdAbsTm_val_elements_4_def)

lemma smp_declared_7_block: "smp_declared_7 = map declared_as (concat [sample_SchdAbsTm_val_elements_5, sample_SchdAbsTm_val_elements_6])"
  by (simp add: smp_declared_7_def declared_as_def sample_SchdAbsTm_val_elements_5_def sample_SchdAbsTm_val_elements_6_def)

lemma smp_handles_7_block: "handle_pass [(iedModel_Device1_DSCH1_SchdAbsTm_val_39, ''IEDMODEL_Device1_DSCH1_SchdAbsTm_val_39''), (iedModel_Device1_DSCH1_SchdAbsTm_val, ''IEDMODEL_Device1_DSCH1_SchdAbsTm_val''), (iedModel_Device1_DSCH1_SchdAbsTm, ''IEDMODEL_Device1_DSCH1_SchdAbsTm''), (iedModel_Device1_DSCH1, ''IEDMODEL_Device1_DSCH1''), (iedModel_Device1, ''IEDMODEL_Device1''), (iedModel, ''IEDMODEL'')] (concat [sample_SchdAbsTm_val_elements_5, sample_SchdAbsTm_val_elements_6])
    = (smp_handles_7, [(iedModel_Device1_DSCH1_SchdAbsTm_val_59, ''IEDMODEL_Device1_DSCH1_SchdAbsTm_val_59''), (iedModel_Device1_DSCH1_SchdAbsTm_val, ''IEDMODEL_Device1_DSCH1_SchdAbsTm_val''), (iedModel_Device1_DSCH1_SchdAbsTm, ''IEDMODEL_Device1_DSCH1_SchdAbsTm''), (iedModel_Device1_DSCH1, ''IEDMODEL_Device1_DSCH1''), (iedModel_Device1, ''IEDMODEL_Device1''), (iedModel, ''IEDMODEL'')])"
  by (simp add: smp_handles_7_def handle_eval sample_SchdAbsTm_val_elements_5_def sample_SchdAbsTm_val_elements_6_def)

lemma smp_declared_8_block: "smp_declared_8 = map declared_as (concat [sample_SchdAbsTm_val_elements_7, sample_SchdAbsTm_val_elements_8])"
  by (simp add: smp_declared_8_def declared_as_def sample_SchdAbsTm_val_elements_7_def sample_SchdAbsTm_val_elements_8_def)

lemma smp_handles_8_block: "handle_pass [(iedModel_Device1_DSCH1_SchdAbsTm_val_59, ''IEDMODEL_Device1_DSCH1_SchdAbsTm_val_59''), (iedModel_Device1_DSCH1_SchdAbsTm_val, ''IEDMODEL_Device1_DSCH1_SchdAbsTm_val''), (iedModel_Device1_DSCH1_SchdAbsTm, ''IEDMODEL_Device1_DSCH1_SchdAbsTm''), (iedModel_Device1_DSCH1, ''IEDMODEL_Device1_DSCH1''), (iedModel_Device1, ''IEDMODEL_Device1''), (iedModel, ''IEDMODEL'')] (concat [sample_SchdAbsTm_val_elements_7, sample_SchdAbsTm_val_elements_8])
    = (smp_handles_8, [(iedModel_Device1_DSCH1_SchdAbsTm_val_79, ''IEDMODEL_Device1_DSCH1_SchdAbsTm_val_79''), (iedModel_Device1_DSCH1_SchdAbsTm_val, ''IEDMODEL_Device1_DSCH1_SchdAbsTm_val''), (iedModel_Device1_DSCH1_SchdAbsTm, ''IEDMODEL_Device1_DSCH1_SchdAbsTm''), (iedModel_Device1_DSCH1, ''IEDMODEL_Device1_DSCH1''), (iedModel_Device1, ''IEDMODEL_Device1''), (iedModel, ''IEDMODEL'')])"
  by (simp add: smp_handles_8_def handle_eval sample_SchdAbsTm_val_elements_7_def sample_SchdAbsTm_val_elements_8_def)

lemma smp_declared_9_block: "smp_declared_9 = map declared_as (concat [sample_SchdAbsTm_val_elements_9, sample_SchdAbsTm_val_elements_10])"
  by (simp add: smp_declared_9_def declared_as_def sample_SchdAbsTm_val_elements_9_def sample_SchdAbsTm_val_elements_10_def)

lemma smp_handles_9_block: "handle_pass [(iedModel_Device1_DSCH1_SchdAbsTm_val_79, ''IEDMODEL_Device1_DSCH1_SchdAbsTm_val_79''), (iedModel_Device1_DSCH1_SchdAbsTm_val, ''IEDMODEL_Device1_DSCH1_SchdAbsTm_val''), (iedModel_Device1_DSCH1_SchdAbsTm, ''IEDMODEL_Device1_DSCH1_SchdAbsTm''), (iedModel_Device1_DSCH1, ''IEDMODEL_Device1_DSCH1''), (iedModel_Device1, ''IEDMODEL_Device1''), (iedModel, ''IEDMODEL'')] (concat [sample_SchdAbsTm_val_elements_9, sample_SchdAbsTm_val_elements_10])
    = (smp_handles_9, [(iedModel_Device1_DSCH1_SchdAbsTm_val_99, ''IEDMODEL_Device1_DSCH1_SchdAbsTm_val_99''), (iedModel_Device1_DSCH1_SchdAbsTm_val, ''IEDMODEL_Device1_DSCH1_SchdAbsTm_val''), (iedModel_Device1_DSCH1_SchdAbsTm, ''IEDMODEL_Device1_DSCH1_SchdAbsTm''), (iedModel_Device1_DSCH1, ''IEDMODEL_Device1_DSCH1''), (iedModel_Device1, ''IEDMODEL_Device1''), (iedModel, ''IEDMODEL'')])"
  by (simp add: smp_handles_9_def handle_eval sample_SchdAbsTm_val_elements_9_def sample_SchdAbsTm_val_elements_10_def)

lemma smp_declared_10_block: "smp_declared_10 = map declared_as (concat [sample_SchdAbsTm_val_elements_11, sample_SchdAbsTm_val_elements_12])"
  by (simp add: smp_declared_10_def declared_as_def sample_SchdAbsTm_val_elements_11_def sample_SchdAbsTm_val_elements_12_def)

lemma smp_handles_10_block: "handle_pass [(iedModel_Device1_DSCH1_SchdAbsTm_val_99, ''IEDMODEL_Device1_DSCH1_SchdAbsTm_val_99''), (iedModel_Device1_DSCH1_SchdAbsTm_val, ''IEDMODEL_Device1_DSCH1_SchdAbsTm_val''), (iedModel_Device1_DSCH1_SchdAbsTm, ''IEDMODEL_Device1_DSCH1_SchdAbsTm''), (iedModel_Device1_DSCH1, ''IEDMODEL_Device1_DSCH1''), (iedModel_Device1, ''IEDMODEL_Device1''), (iedModel, ''IEDMODEL'')] (concat [sample_SchdAbsTm_val_elements_11, sample_SchdAbsTm_val_elements_12])
    = (smp_handles_10, [(iedModel_Device1_DSCH1_SchdAbsTm_val_119, ''IEDMODEL_Device1_DSCH1_SchdAbsTm_val_119''), (iedModel_Device1_DSCH1_SchdAbsTm_val, ''IEDMODEL_Device1_DSCH1_SchdAbsTm_val''), (iedModel_Device1_DSCH1_SchdAbsTm, ''IEDMODEL_Device1_DSCH1_SchdAbsTm''), (iedModel_Device1_DSCH1, ''IEDMODEL_Device1_DSCH1''), (iedModel_Device1, ''IEDMODEL_Device1''), (iedModel, ''IEDMODEL'')])"
  by (simp add: smp_handles_10_def handle_eval sample_SchdAbsTm_val_elements_11_def sample_SchdAbsTm_val_elements_12_def)

lemma smp_declared_11_block: "smp_declared_11 = map declared_as (concat [sample_SchdAbsTm_val_elements_13, sample_SchdAbsTm_val_elements_14])"
  by (simp add: smp_declared_11_def declared_as_def sample_SchdAbsTm_val_elements_13_def sample_SchdAbsTm_val_elements_14_def)

lemma smp_handles_11_block: "handle_pass [(iedModel_Device1_DSCH1_SchdAbsTm_val_119, ''IEDMODEL_Device1_DSCH1_SchdAbsTm_val_119''), (iedModel_Device1_DSCH1_SchdAbsTm_val, ''IEDMODEL_Device1_DSCH1_SchdAbsTm_val''), (iedModel_Device1_DSCH1_SchdAbsTm, ''IEDMODEL_Device1_DSCH1_SchdAbsTm''), (iedModel_Device1_DSCH1, ''IEDMODEL_Device1_DSCH1''), (iedModel_Device1, ''IEDMODEL_Device1''), (iedModel, ''IEDMODEL'')] (concat [sample_SchdAbsTm_val_elements_13, sample_SchdAbsTm_val_elements_14])
    = (smp_handles_11, [(iedModel_Device1_DSCH1_SchdAbsTm_val_139, ''IEDMODEL_Device1_DSCH1_SchdAbsTm_val_139''), (iedModel_Device1_DSCH1_SchdAbsTm_val, ''IEDMODEL_Device1_DSCH1_SchdAbsTm_val''), (iedModel_Device1_DSCH1_SchdAbsTm, ''IEDMODEL_Device1_DSCH1_SchdAbsTm''), (iedModel_Device1_DSCH1, ''IEDMODEL_Device1_DSCH1''), (iedModel_Device1, ''IEDMODEL_Device1''), (iedModel, ''IEDMODEL'')])"
  by (simp add: smp_handles_11_def handle_eval sample_SchdAbsTm_val_elements_13_def sample_SchdAbsTm_val_elements_14_def)

lemma smp_declared_12_block: "smp_declared_12 = map declared_as (concat [sample_SchdAbsTm_val_elements_15, sample_SchdAbsTm_val_elements_16])"
  by (simp add: smp_declared_12_def declared_as_def sample_SchdAbsTm_val_elements_15_def sample_SchdAbsTm_val_elements_16_def)

lemma smp_handles_12_block: "handle_pass [(iedModel_Device1_DSCH1_SchdAbsTm_val_139, ''IEDMODEL_Device1_DSCH1_SchdAbsTm_val_139''), (iedModel_Device1_DSCH1_SchdAbsTm_val, ''IEDMODEL_Device1_DSCH1_SchdAbsTm_val''), (iedModel_Device1_DSCH1_SchdAbsTm, ''IEDMODEL_Device1_DSCH1_SchdAbsTm''), (iedModel_Device1_DSCH1, ''IEDMODEL_Device1_DSCH1''), (iedModel_Device1, ''IEDMODEL_Device1''), (iedModel, ''IEDMODEL'')] (concat [sample_SchdAbsTm_val_elements_15, sample_SchdAbsTm_val_elements_16])
    = (smp_handles_12, [(iedModel_Device1_DSCH1_SchdAbsTm_val_159, ''IEDMODEL_Device1_DSCH1_SchdAbsTm_val_159''), (iedModel_Device1_DSCH1_SchdAbsTm_val, ''IEDMODEL_Device1_DSCH1_SchdAbsTm_val''), (iedModel_Device1_DSCH1_SchdAbsTm, ''IEDMODEL_Device1_DSCH1_SchdAbsTm''), (iedModel_Device1_DSCH1, ''IEDMODEL_Device1_DSCH1''), (iedModel_Device1, ''IEDMODEL_Device1''), (iedModel, ''IEDMODEL'')])"
  by (simp add: smp_handles_12_def handle_eval sample_SchdAbsTm_val_elements_15_def sample_SchdAbsTm_val_elements_16_def)

lemma smp_declared_13_block: "smp_declared_13 = map declared_as (concat [sample_SchdAbsTm_val_elements_17, sample_SchdAbsTm_val_elements_18])"
  by (simp add: smp_declared_13_def declared_as_def sample_SchdAbsTm_val_elements_17_def sample_SchdAbsTm_val_elements_18_def)

lemma smp_handles_13_block: "handle_pass [(iedModel_Device1_DSCH1_SchdAbsTm_val_159, ''IEDMODEL_Device1_DSCH1_SchdAbsTm_val_159''), (iedModel_Device1_DSCH1_SchdAbsTm_val, ''IEDMODEL_Device1_DSCH1_SchdAbsTm_val''), (iedModel_Device1_DSCH1_SchdAbsTm, ''IEDMODEL_Device1_DSCH1_SchdAbsTm''), (iedModel_Device1_DSCH1, ''IEDMODEL_Device1_DSCH1''), (iedModel_Device1, ''IEDMODEL_Device1''), (iedModel, ''IEDMODEL'')] (concat [sample_SchdAbsTm_val_elements_17, sample_SchdAbsTm_val_elements_18])
    = (smp_handles_13, [(iedModel_Device1_DSCH1_SchdAbsTm_val_179, ''IEDMODEL_Device1_DSCH1_SchdAbsTm_val_179''), (iedModel_Device1_DSCH1_SchdAbsTm_val, ''IEDMODEL_Device1_DSCH1_SchdAbsTm_val''), (iedModel_Device1_DSCH1_SchdAbsTm, ''IEDMODEL_Device1_DSCH1_SchdAbsTm''), (iedModel_Device1_DSCH1, ''IEDMODEL_Device1_DSCH1''), (iedModel_Device1, ''IEDMODEL_Device1''), (iedModel, ''IEDMODEL'')])"
  by (simp add: smp_handles_13_def handle_eval sample_SchdAbsTm_val_elements_17_def sample_SchdAbsTm_val_elements_18_def)

lemma smp_declared_14_block: "smp_declared_14 = map declared_as (concat [sample_SchdAbsTm_val_elements_19, sample_SchdAbsTm_val_elements_20])"
  by (simp add: smp_declared_14_def declared_as_def sample_SchdAbsTm_val_elements_19_def sample_SchdAbsTm_val_elements_20_def)

lemma smp_handles_14_block: "handle_pass [(iedModel_Device1_DSCH1_SchdAbsTm_val_179, ''IEDMODEL_Device1_DSCH1_SchdAbsTm_val_179''), (iedModel_Device1_DSCH1_SchdAbsTm_val, ''IEDMODEL_Device1_DSCH1_SchdAbsTm_val''), (iedModel_Device1_DSCH1_SchdAbsTm, ''IEDMODEL_Device1_DSCH1_SchdAbsTm''), (iedModel_Device1_DSCH1, ''IEDMODEL_Device1_DSCH1''), (iedModel_Device1, ''IEDMODEL_Device1''), (iedModel, ''IEDMODEL'')] (concat [sample_SchdAbsTm_val_elements_19, sample_SchdAbsTm_val_elements_20])
    = (smp_handles_14, [(iedModel_Device1_DSCH1_SchdAbsTm_val_199, ''IEDMODEL_Device1_DSCH1_SchdAbsTm_val_199''), (iedModel_Device1_DSCH1_SchdAbsTm_val, ''IEDMODEL_Device1_DSCH1_SchdAbsTm_val''), (iedModel_Device1_DSCH1_SchdAbsTm, ''IEDMODEL_Device1_DSCH1_SchdAbsTm''), (iedModel_Device1_DSCH1, ''IEDMODEL_Device1_DSCH1''), (iedModel_Device1, ''IEDMODEL_Device1''), (iedModel, ''IEDMODEL'')])"
  by (simp add: smp_handles_14_def handle_eval sample_SchdAbsTm_val_elements_19_def sample_SchdAbsTm_val_elements_20_def)

lemma smp_declared_15_block: "smp_declared_15 = map declared_as (concat [sample_SchdAbsTm_val_elements_21, sample_SchdAbsTm_val_elements_22])"
  by (simp add: smp_declared_15_def declared_as_def sample_SchdAbsTm_val_elements_21_def sample_SchdAbsTm_val_elements_22_def)

lemma smp_handles_15_block: "handle_pass [(iedModel_Device1_DSCH1_SchdAbsTm_val_199, ''IEDMODEL_Device1_DSCH1_SchdAbsTm_val_199''), (iedModel_Device1_DSCH1_SchdAbsTm_val, ''IEDMODEL_Device1_DSCH1_SchdAbsTm_val''), (iedModel_Device1_DSCH1_SchdAbsTm, ''IEDMODEL_Device1_DSCH1_SchdAbsTm''), (iedModel_Device1_DSCH1, ''IEDMODEL_Device1_DSCH1''), (iedModel_Device1, ''IEDMODEL_Device1''), (iedModel, ''IEDMODEL'')] (concat [sample_SchdAbsTm_val_elements_21, sample_SchdAbsTm_val_elements_22])
    = (smp_handles_15, [(iedModel_Device1_DSCH1_SchdAbsTm_val_219, ''IEDMODEL_Device1_DSCH1_SchdAbsTm_val_219''), (iedModel_Device1_DSCH1_SchdAbsTm_val, ''IEDMODEL_Device1_DSCH1_SchdAbsTm_val''), (iedModel_Device1_DSCH1_SchdAbsTm, ''IEDMODEL_Device1_DSCH1_SchdAbsTm''), (iedModel_Device1_DSCH1, ''IEDMODEL_Device1_DSCH1''), (iedModel_Device1, ''IEDMODEL_Device1''), (iedModel, ''IEDMODEL'')])"
  by (simp add: smp_handles_15_def handle_eval sample_SchdAbsTm_val_elements_21_def sample_SchdAbsTm_val_elements_22_def)

lemma smp_declared_16_block: "smp_declared_16 = map declared_as (concat [sample_SchdAbsTm_val_elements_23, sample_SchdAbsTm_val_elements_24])"
  by (simp add: smp_declared_16_def declared_as_def sample_SchdAbsTm_val_elements_23_def sample_SchdAbsTm_val_elements_24_def)

lemma smp_handles_16_block: "handle_pass [(iedModel_Device1_DSCH1_SchdAbsTm_val_219, ''IEDMODEL_Device1_DSCH1_SchdAbsTm_val_219''), (iedModel_Device1_DSCH1_SchdAbsTm_val, ''IEDMODEL_Device1_DSCH1_SchdAbsTm_val''), (iedModel_Device1_DSCH1_SchdAbsTm, ''IEDMODEL_Device1_DSCH1_SchdAbsTm''), (iedModel_Device1_DSCH1, ''IEDMODEL_Device1_DSCH1''), (iedModel_Device1, ''IEDMODEL_Device1''), (iedModel, ''IEDMODEL'')] (concat [sample_SchdAbsTm_val_elements_23, sample_SchdAbsTm_val_elements_24])
    = (smp_handles_16, [(iedModel_Device1_DSCH1_SchdAbsTm_val_239, ''IEDMODEL_Device1_DSCH1_SchdAbsTm_val_239''), (iedModel_Device1_DSCH1_SchdAbsTm_val, ''IEDMODEL_Device1_DSCH1_SchdAbsTm_val''), (iedModel_Device1_DSCH1_SchdAbsTm, ''IEDMODEL_Device1_DSCH1_SchdAbsTm''), (iedModel_Device1_DSCH1, ''IEDMODEL_Device1_DSCH1''), (iedModel_Device1, ''IEDMODEL_Device1''), (iedModel, ''IEDMODEL'')])"
  by (simp add: smp_handles_16_def handle_eval sample_SchdAbsTm_val_elements_23_def sample_SchdAbsTm_val_elements_24_def)

lemma smp_declared_17_block: "smp_declared_17 = map declared_as (concat [sample_SchdAbsTm_val_elements_25, sample_SchdAbsTm_val_elements_26, sample_SchdAbsTm_time])"
  by (simp add: smp_declared_17_def declared_as_def sample_SchdAbsTm_val_elements_25_def sample_SchdAbsTm_val_elements_26_def sample_SchdAbsTm_time_def)

lemma smp_handles_17_block: "handle_pass [(iedModel_Device1_DSCH1_SchdAbsTm_val_239, ''IEDMODEL_Device1_DSCH1_SchdAbsTm_val_239''), (iedModel_Device1_DSCH1_SchdAbsTm_val, ''IEDMODEL_Device1_DSCH1_SchdAbsTm_val''), (iedModel_Device1_DSCH1_SchdAbsTm, ''IEDMODEL_Device1_DSCH1_SchdAbsTm''), (iedModel_Device1_DSCH1, ''IEDMODEL_Device1_DSCH1''), (iedModel_Device1, ''IEDMODEL_Device1''), (iedModel, ''IEDMODEL'')] (concat [sample_SchdAbsTm_val_elements_25, sample_SchdAbsTm_val_elements_26, sample_SchdAbsTm_time])
    = (smp_handles_17, [(iedModel_Device1_DSCH1_SchdAbsTm_time, ''IEDMODEL_Device1_DSCH1_SchdAbsTm_time''), (iedModel_Device1_DSCH1_SchdAbsTm, ''IEDMODEL_Device1_DSCH1_SchdAbsTm''), (iedModel_Device1_DSCH1, ''IEDMODEL_Device1_DSCH1''), (iedModel_Device1, ''IEDMODEL_Device1''), (iedModel, ''IEDMODEL'')])"
  by (simp add: smp_handles_17_def handle_eval sample_SchdAbsTm_val_elements_25_def sample_SchdAbsTm_val_elements_26_def sample_SchdAbsTm_time_def)

lemma smp_declared_18_block: "smp_declared_18 = map declared_as (concat [sample_SchdAbsTm_time_elements_1, sample_SchdAbsTm_time_elements_2])"
  by (simp add: smp_declared_18_def declared_as_def sample_SchdAbsTm_time_elements_1_def sample_SchdAbsTm_time_elements_2_def)

lemma smp_handles_18_block: "handle_pass [(iedModel_Device1_DSCH1_SchdAbsTm_time, ''IEDMODEL_Device1_DSCH1_SchdAbsTm_time''), (iedModel_Device1_DSCH1_SchdAbsTm, ''IEDMODEL_Device1_DSCH1_SchdAbsTm''), (iedModel_Device1_DSCH1, ''IEDMODEL_Device1_DSCH1''), (iedModel_Device1, ''IEDMODEL_Device1''), (iedModel, ''IEDMODEL'')] (concat [sample_SchdAbsTm_time_elements_1, sample_SchdAbsTm_time_elements_2])
    = (smp_handles_18, [(iedModel_Device1_DSCH1_SchdAbsTm_time_19, ''IEDMODEL_Device1_DSCH1_SchdAbsTm_time_19''), (iedModel_Device1_DSCH1_SchdAbsTm_time, ''IEDMODEL_Device1_DSCH1_SchdAbsTm_time''), (iedModel_Device1_DSCH1_SchdAbsTm, ''IEDMODEL_Device1_DSCH1_SchdAbsTm''), (iedModel_Device1_DSCH1, ''IEDMODEL_Device1_DSCH1''), (iedModel_Device1, ''IEDMODEL_Device1''), (iedModel, ''IEDMODEL'')])"
  by (simp add: smp_handles_18_def handle_eval sample_SchdAbsTm_time_elements_1_def sample_SchdAbsTm_time_elements_2_def)

lemma smp_declared_19_block: "smp_declared_19 = map declared_as (concat [sample_SchdAbsTm_time_elements_3, sample_SchdAbsTm_time_elements_4])"
  by (simp add: smp_declared_19_def declared_as_def sample_SchdAbsTm_time_elements_3_def sample_SchdAbsTm_time_elements_4_def)

lemma smp_handles_19_block: "handle_pass [(iedModel_Device1_DSCH1_SchdAbsTm_time_19, ''IEDMODEL_Device1_DSCH1_SchdAbsTm_time_19''), (iedModel_Device1_DSCH1_SchdAbsTm_time, ''IEDMODEL_Device1_DSCH1_SchdAbsTm_time''), (iedModel_Device1_DSCH1_SchdAbsTm, ''IEDMODEL_Device1_DSCH1_SchdAbsTm''), (iedModel_Device1_DSCH1, ''IEDMODEL_Device1_DSCH1''), (iedModel_Device1, ''IEDMODEL_Device1''), (iedModel, ''IEDMODEL'')] (concat [sample_SchdAbsTm_time_elements_3, sample_SchdAbsTm_time_elements_4])
    = (smp_handles_19, [(iedModel_Device1_DSCH1_SchdAbsTm_time_39, ''IEDMODEL_Device1_DSCH1_SchdAbsTm_time_39''), (iedModel_Device1_DSCH1_SchdAbsTm_time, ''IEDMODEL_Device1_DSCH1_SchdAbsTm_time''), (iedModel_Device1_DSCH1_SchdAbsTm, ''IEDMODEL_Device1_DSCH1_SchdAbsTm''), (iedModel_Device1_DSCH1, ''IEDMODEL_Device1_DSCH1''), (iedModel_Device1, ''IEDMODEL_Device1''), (iedModel, ''IEDMODEL'')])"
  by (simp add: smp_handles_19_def handle_eval sample_SchdAbsTm_time_elements_3_def sample_SchdAbsTm_time_elements_4_def)

lemma smp_declared_20_block: "smp_declared_20 = map declared_as (concat [sample_SchdAbsTm_time_elements_5, sample_SchdAbsTm_time_elements_6])"
  by (simp add: smp_declared_20_def declared_as_def sample_SchdAbsTm_time_elements_5_def sample_SchdAbsTm_time_elements_6_def)

lemma smp_handles_20_block: "handle_pass [(iedModel_Device1_DSCH1_SchdAbsTm_time_39, ''IEDMODEL_Device1_DSCH1_SchdAbsTm_time_39''), (iedModel_Device1_DSCH1_SchdAbsTm_time, ''IEDMODEL_Device1_DSCH1_SchdAbsTm_time''), (iedModel_Device1_DSCH1_SchdAbsTm, ''IEDMODEL_Device1_DSCH1_SchdAbsTm''), (iedModel_Device1_DSCH1, ''IEDMODEL_Device1_DSCH1''), (iedModel_Device1, ''IEDMODEL_Device1''), (iedModel, ''IEDMODEL'')] (concat [sample_SchdAbsTm_time_elements_5, sample_SchdAbsTm_time_elements_6])
    = (smp_handles_20, [(iedModel_Device1_DSCH1_SchdAbsTm_time_59, ''IEDMODEL_Device1_DSCH1_SchdAbsTm_time_59''), (iedModel_Device1_DSCH1_SchdAbsTm_time, ''IEDMODEL_Device1_DSCH1_SchdAbsTm_time''), (iedModel_Device1_DSCH1_SchdAbsTm, ''IEDMODEL_Device1_DSCH1_SchdAbsTm''), (iedModel_Device1_DSCH1, ''IEDMODEL_Device1_DSCH1''), (iedModel_Device1, ''IEDMODEL_Device1''), (iedModel, ''IEDMODEL'')])"
  by (simp add: smp_handles_20_def handle_eval sample_SchdAbsTm_time_elements_5_def sample_SchdAbsTm_time_elements_6_def)

lemma smp_declared_21_block: "smp_declared_21 = map declared_as (concat [sample_SchdAbsTm_time_elements_7, sample_SchdAbsTm_time_elements_8])"
  by (simp add: smp_declared_21_def declared_as_def sample_SchdAbsTm_time_elements_7_def sample_SchdAbsTm_time_elements_8_def)

lemma smp_handles_21_block: "handle_pass [(iedModel_Device1_DSCH1_SchdAbsTm_time_59, ''IEDMODEL_Device1_DSCH1_SchdAbsTm_time_59''), (iedModel_Device1_DSCH1_SchdAbsTm_time, ''IEDMODEL_Device1_DSCH1_SchdAbsTm_time''), (iedModel_Device1_DSCH1_SchdAbsTm, ''IEDMODEL_Device1_DSCH1_SchdAbsTm''), (iedModel_Device1_DSCH1, ''IEDMODEL_Device1_DSCH1''), (iedModel_Device1, ''IEDMODEL_Device1''), (iedModel, ''IEDMODEL'')] (concat [sample_SchdAbsTm_time_elements_7, sample_SchdAbsTm_time_elements_8])
    = (smp_handles_21, [(iedModel_Device1_DSCH1_SchdAbsTm_time_79, ''IEDMODEL_Device1_DSCH1_SchdAbsTm_time_79''), (iedModel_Device1_DSCH1_SchdAbsTm_time, ''IEDMODEL_Device1_DSCH1_SchdAbsTm_time''), (iedModel_Device1_DSCH1_SchdAbsTm, ''IEDMODEL_Device1_DSCH1_SchdAbsTm''), (iedModel_Device1_DSCH1, ''IEDMODEL_Device1_DSCH1''), (iedModel_Device1, ''IEDMODEL_Device1''), (iedModel, ''IEDMODEL'')])"
  by (simp add: smp_handles_21_def handle_eval sample_SchdAbsTm_time_elements_7_def sample_SchdAbsTm_time_elements_8_def)

lemma smp_declared_22_block: "smp_declared_22 = map declared_as (concat [sample_SchdAbsTm_time_elements_9, sample_SchdAbsTm_time_elements_10])"
  by (simp add: smp_declared_22_def declared_as_def sample_SchdAbsTm_time_elements_9_def sample_SchdAbsTm_time_elements_10_def)

lemma smp_handles_22_block: "handle_pass [(iedModel_Device1_DSCH1_SchdAbsTm_time_79, ''IEDMODEL_Device1_DSCH1_SchdAbsTm_time_79''), (iedModel_Device1_DSCH1_SchdAbsTm_time, ''IEDMODEL_Device1_DSCH1_SchdAbsTm_time''), (iedModel_Device1_DSCH1_SchdAbsTm, ''IEDMODEL_Device1_DSCH1_SchdAbsTm''), (iedModel_Device1_DSCH1, ''IEDMODEL_Device1_DSCH1''), (iedModel_Device1, ''IEDMODEL_Device1''), (iedModel, ''IEDMODEL'')] (concat [sample_SchdAbsTm_time_elements_9, sample_SchdAbsTm_time_elements_10])
    = (smp_handles_22, [(iedModel_Device1_DSCH1_SchdAbsTm_time_99, ''IEDMODEL_Device1_DSCH1_SchdAbsTm_time_99''), (iedModel_Device1_DSCH1_SchdAbsTm_time, ''IEDMODEL_Device1_DSCH1_SchdAbsTm_time''), (iedModel_Device1_DSCH1_SchdAbsTm, ''IEDMODEL_Device1_DSCH1_SchdAbsTm''), (iedModel_Device1_DSCH1, ''IEDMODEL_Device1_DSCH1''), (iedModel_Device1, ''IEDMODEL_Device1''), (iedModel, ''IEDMODEL'')])"
  by (simp add: smp_handles_22_def handle_eval sample_SchdAbsTm_time_elements_9_def sample_SchdAbsTm_time_elements_10_def)

lemma smp_declared_23_block: "smp_declared_23 = map declared_as (concat [sample_SchdAbsTm_time_elements_11, sample_SchdAbsTm_time_elements_12])"
  by (simp add: smp_declared_23_def declared_as_def sample_SchdAbsTm_time_elements_11_def sample_SchdAbsTm_time_elements_12_def)

lemma smp_handles_23_block: "handle_pass [(iedModel_Device1_DSCH1_SchdAbsTm_time_99, ''IEDMODEL_Device1_DSCH1_SchdAbsTm_time_99''), (iedModel_Device1_DSCH1_SchdAbsTm_time, ''IEDMODEL_Device1_DSCH1_SchdAbsTm_time''), (iedModel_Device1_DSCH1_SchdAbsTm, ''IEDMODEL_Device1_DSCH1_SchdAbsTm''), (iedModel_Device1_DSCH1, ''IEDMODEL_Device1_DSCH1''), (iedModel_Device1, ''IEDMODEL_Device1''), (iedModel, ''IEDMODEL'')] (concat [sample_SchdAbsTm_time_elements_11, sample_SchdAbsTm_time_elements_12])
    = (smp_handles_23, [(iedModel_Device1_DSCH1_SchdAbsTm_time_119, ''IEDMODEL_Device1_DSCH1_SchdAbsTm_time_119''), (iedModel_Device1_DSCH1_SchdAbsTm_time, ''IEDMODEL_Device1_DSCH1_SchdAbsTm_time''), (iedModel_Device1_DSCH1_SchdAbsTm, ''IEDMODEL_Device1_DSCH1_SchdAbsTm''), (iedModel_Device1_DSCH1, ''IEDMODEL_Device1_DSCH1''), (iedModel_Device1, ''IEDMODEL_Device1''), (iedModel, ''IEDMODEL'')])"
  by (simp add: smp_handles_23_def handle_eval sample_SchdAbsTm_time_elements_11_def sample_SchdAbsTm_time_elements_12_def)

lemma smp_declared_24_block: "smp_declared_24 = map declared_as (concat [sample_SchdAbsTm_time_elements_13, sample_SchdAbsTm_time_elements_14])"
  by (simp add: smp_declared_24_def declared_as_def sample_SchdAbsTm_time_elements_13_def sample_SchdAbsTm_time_elements_14_def)

lemma smp_handles_24_block: "handle_pass [(iedModel_Device1_DSCH1_SchdAbsTm_time_119, ''IEDMODEL_Device1_DSCH1_SchdAbsTm_time_119''), (iedModel_Device1_DSCH1_SchdAbsTm_time, ''IEDMODEL_Device1_DSCH1_SchdAbsTm_time''), (iedModel_Device1_DSCH1_SchdAbsTm, ''IEDMODEL_Device1_DSCH1_SchdAbsTm''), (iedModel_Device1_DSCH1, ''IEDMODEL_Device1_DSCH1''), (iedModel_Device1, ''IEDMODEL_Device1''), (iedModel, ''IEDMODEL'')] (concat [sample_SchdAbsTm_time_elements_13, sample_SchdAbsTm_time_elements_14])
    = (smp_handles_24, [(iedModel_Device1_DSCH1_SchdAbsTm_time_139, ''IEDMODEL_Device1_DSCH1_SchdAbsTm_time_139''), (iedModel_Device1_DSCH1_SchdAbsTm_time, ''IEDMODEL_Device1_DSCH1_SchdAbsTm_time''), (iedModel_Device1_DSCH1_SchdAbsTm, ''IEDMODEL_Device1_DSCH1_SchdAbsTm''), (iedModel_Device1_DSCH1, ''IEDMODEL_Device1_DSCH1''), (iedModel_Device1, ''IEDMODEL_Device1''), (iedModel, ''IEDMODEL'')])"
  by (simp add: smp_handles_24_def handle_eval sample_SchdAbsTm_time_elements_13_def sample_SchdAbsTm_time_elements_14_def)

lemma smp_declared_25_block: "smp_declared_25 = map declared_as (concat [sample_SchdAbsTm_time_elements_15, sample_SchdAbsTm_time_elements_16])"
  by (simp add: smp_declared_25_def declared_as_def sample_SchdAbsTm_time_elements_15_def sample_SchdAbsTm_time_elements_16_def)

lemma smp_handles_25_block: "handle_pass [(iedModel_Device1_DSCH1_SchdAbsTm_time_139, ''IEDMODEL_Device1_DSCH1_SchdAbsTm_time_139''), (iedModel_Device1_DSCH1_SchdAbsTm_time, ''IEDMODEL_Device1_DSCH1_SchdAbsTm_time''), (iedModel_Device1_DSCH1_SchdAbsTm, ''IEDMODEL_Device1_DSCH1_SchdAbsTm''), (iedModel_Device1_DSCH1, ''IEDMODEL_Device1_DSCH1''), (iedModel_Device1, ''IEDMODEL_Device1''), (iedModel, ''IEDMODEL'')] (concat [sample_SchdAbsTm_time_elements_15, sample_SchdAbsTm_time_elements_16])
    = (smp_handles_25, [(iedModel_Device1_DSCH1_SchdAbsTm_time_159, ''IEDMODEL_Device1_DSCH1_SchdAbsTm_time_159''), (iedModel_Device1_DSCH1_SchdAbsTm_time, ''IEDMODEL_Device1_DSCH1_SchdAbsTm_time''), (iedModel_Device1_DSCH1_SchdAbsTm, ''IEDMODEL_Device1_DSCH1_SchdAbsTm''), (iedModel_Device1_DSCH1, ''IEDMODEL_Device1_DSCH1''), (iedModel_Device1, ''IEDMODEL_Device1''), (iedModel, ''IEDMODEL'')])"
  by (simp add: smp_handles_25_def handle_eval sample_SchdAbsTm_time_elements_15_def sample_SchdAbsTm_time_elements_16_def)

lemma smp_declared_26_block: "smp_declared_26 = map declared_as (concat [sample_SchdAbsTm_time_elements_17, sample_SchdAbsTm_time_elements_18])"
  by (simp add: smp_declared_26_def declared_as_def sample_SchdAbsTm_time_elements_17_def sample_SchdAbsTm_time_elements_18_def)

lemma smp_handles_26_block: "handle_pass [(iedModel_Device1_DSCH1_SchdAbsTm_time_159, ''IEDMODEL_Device1_DSCH1_SchdAbsTm_time_159''), (iedModel_Device1_DSCH1_SchdAbsTm_time, ''IEDMODEL_Device1_DSCH1_SchdAbsTm_time''), (iedModel_Device1_DSCH1_SchdAbsTm, ''IEDMODEL_Device1_DSCH1_SchdAbsTm''), (iedModel_Device1_DSCH1, ''IEDMODEL_Device1_DSCH1''), (iedModel_Device1, ''IEDMODEL_Device1''), (iedModel, ''IEDMODEL'')] (concat [sample_SchdAbsTm_time_elements_17, sample_SchdAbsTm_time_elements_18])
    = (smp_handles_26, [(iedModel_Device1_DSCH1_SchdAbsTm_time_179, ''IEDMODEL_Device1_DSCH1_SchdAbsTm_time_179''), (iedModel_Device1_DSCH1_SchdAbsTm_time, ''IEDMODEL_Device1_DSCH1_SchdAbsTm_time''), (iedModel_Device1_DSCH1_SchdAbsTm, ''IEDMODEL_Device1_DSCH1_SchdAbsTm''), (iedModel_Device1_DSCH1, ''IEDMODEL_Device1_DSCH1''), (iedModel_Device1, ''IEDMODEL_Device1''), (iedModel, ''IEDMODEL'')])"
  by (simp add: smp_handles_26_def handle_eval sample_SchdAbsTm_time_elements_17_def sample_SchdAbsTm_time_elements_18_def)

lemma smp_declared_27_block: "smp_declared_27 = map declared_as (concat [sample_SchdAbsTm_time_elements_19, sample_SchdAbsTm_time_elements_20])"
  by (simp add: smp_declared_27_def declared_as_def sample_SchdAbsTm_time_elements_19_def sample_SchdAbsTm_time_elements_20_def)

lemma smp_handles_27_block: "handle_pass [(iedModel_Device1_DSCH1_SchdAbsTm_time_179, ''IEDMODEL_Device1_DSCH1_SchdAbsTm_time_179''), (iedModel_Device1_DSCH1_SchdAbsTm_time, ''IEDMODEL_Device1_DSCH1_SchdAbsTm_time''), (iedModel_Device1_DSCH1_SchdAbsTm, ''IEDMODEL_Device1_DSCH1_SchdAbsTm''), (iedModel_Device1_DSCH1, ''IEDMODEL_Device1_DSCH1''), (iedModel_Device1, ''IEDMODEL_Device1''), (iedModel, ''IEDMODEL'')] (concat [sample_SchdAbsTm_time_elements_19, sample_SchdAbsTm_time_elements_20])
    = (smp_handles_27, [(iedModel_Device1_DSCH1_SchdAbsTm_time_199, ''IEDMODEL_Device1_DSCH1_SchdAbsTm_time_199''), (iedModel_Device1_DSCH1_SchdAbsTm_time, ''IEDMODEL_Device1_DSCH1_SchdAbsTm_time''), (iedModel_Device1_DSCH1_SchdAbsTm, ''IEDMODEL_Device1_DSCH1_SchdAbsTm''), (iedModel_Device1_DSCH1, ''IEDMODEL_Device1_DSCH1''), (iedModel_Device1, ''IEDMODEL_Device1''), (iedModel, ''IEDMODEL'')])"
  by (simp add: smp_handles_27_def handle_eval sample_SchdAbsTm_time_elements_19_def sample_SchdAbsTm_time_elements_20_def)

lemma smp_declared_28_block: "smp_declared_28 = map declared_as (concat [sample_SchdAbsTm_time_elements_21, sample_SchdAbsTm_time_elements_22])"
  by (simp add: smp_declared_28_def declared_as_def sample_SchdAbsTm_time_elements_21_def sample_SchdAbsTm_time_elements_22_def)

lemma smp_handles_28_block: "handle_pass [(iedModel_Device1_DSCH1_SchdAbsTm_time_199, ''IEDMODEL_Device1_DSCH1_SchdAbsTm_time_199''), (iedModel_Device1_DSCH1_SchdAbsTm_time, ''IEDMODEL_Device1_DSCH1_SchdAbsTm_time''), (iedModel_Device1_DSCH1_SchdAbsTm, ''IEDMODEL_Device1_DSCH1_SchdAbsTm''), (iedModel_Device1_DSCH1, ''IEDMODEL_Device1_DSCH1''), (iedModel_Device1, ''IEDMODEL_Device1''), (iedModel, ''IEDMODEL'')] (concat [sample_SchdAbsTm_time_elements_21, sample_SchdAbsTm_time_elements_22])
    = (smp_handles_28, [(iedModel_Device1_DSCH1_SchdAbsTm_time_219, ''IEDMODEL_Device1_DSCH1_SchdAbsTm_time_219''), (iedModel_Device1_DSCH1_SchdAbsTm_time, ''IEDMODEL_Device1_DSCH1_SchdAbsTm_time''), (iedModel_Device1_DSCH1_SchdAbsTm, ''IEDMODEL_Device1_DSCH1_SchdAbsTm''), (iedModel_Device1_DSCH1, ''IEDMODEL_Device1_DSCH1''), (iedModel_Device1, ''IEDMODEL_Device1''), (iedModel, ''IEDMODEL'')])"
  by (simp add: smp_handles_28_def handle_eval sample_SchdAbsTm_time_elements_21_def sample_SchdAbsTm_time_elements_22_def)

lemma smp_declared_29_block: "smp_declared_29 = map declared_as (concat [sample_SchdAbsTm_time_elements_23, sample_SchdAbsTm_time_elements_24])"
  by (simp add: smp_declared_29_def declared_as_def sample_SchdAbsTm_time_elements_23_def sample_SchdAbsTm_time_elements_24_def)

lemma smp_handles_29_block: "handle_pass [(iedModel_Device1_DSCH1_SchdAbsTm_time_219, ''IEDMODEL_Device1_DSCH1_SchdAbsTm_time_219''), (iedModel_Device1_DSCH1_SchdAbsTm_time, ''IEDMODEL_Device1_DSCH1_SchdAbsTm_time''), (iedModel_Device1_DSCH1_SchdAbsTm, ''IEDMODEL_Device1_DSCH1_SchdAbsTm''), (iedModel_Device1_DSCH1, ''IEDMODEL_Device1_DSCH1''), (iedModel_Device1, ''IEDMODEL_Device1''), (iedModel, ''IEDMODEL'')] (concat [sample_SchdAbsTm_time_elements_23, sample_SchdAbsTm_time_elements_24])
    = (smp_handles_29, [(iedModel_Device1_DSCH1_SchdAbsTm_time_239, ''IEDMODEL_Device1_DSCH1_SchdAbsTm_time_239''), (iedModel_Device1_DSCH1_SchdAbsTm_time, ''IEDMODEL_Device1_DSCH1_SchdAbsTm_time''), (iedModel_Device1_DSCH1_SchdAbsTm, ''IEDMODEL_Device1_DSCH1_SchdAbsTm''), (iedModel_Device1_DSCH1, ''IEDMODEL_Device1_DSCH1''), (iedModel_Device1, ''IEDMODEL_Device1''), (iedModel, ''IEDMODEL'')])"
  by (simp add: smp_handles_29_def handle_eval sample_SchdAbsTm_time_elements_23_def sample_SchdAbsTm_time_elements_24_def)

lemma smp_declared_30_block: "smp_declared_30 = map declared_as (concat [sample_SchdAbsTm_time_elements_25, sample_SchdAbsTm_time_elements_26])"
  by (simp add: smp_declared_30_def declared_as_def sample_SchdAbsTm_time_elements_25_def sample_SchdAbsTm_time_elements_26_def)

lemma smp_handles_30_block: "handle_pass [(iedModel_Device1_DSCH1_SchdAbsTm_time_239, ''IEDMODEL_Device1_DSCH1_SchdAbsTm_time_239''), (iedModel_Device1_DSCH1_SchdAbsTm_time, ''IEDMODEL_Device1_DSCH1_SchdAbsTm_time''), (iedModel_Device1_DSCH1_SchdAbsTm, ''IEDMODEL_Device1_DSCH1_SchdAbsTm''), (iedModel_Device1_DSCH1, ''IEDMODEL_Device1_DSCH1''), (iedModel_Device1, ''IEDMODEL_Device1''), (iedModel, ''IEDMODEL'')] (concat [sample_SchdAbsTm_time_elements_25, sample_SchdAbsTm_time_elements_26])
    = (smp_handles_30, [(iedModel_Device1_DSCH1_SchdAbsTm_time_254, ''IEDMODEL_Device1_DSCH1_SchdAbsTm_time_254''), (iedModel_Device1_DSCH1_SchdAbsTm_time, ''IEDMODEL_Device1_DSCH1_SchdAbsTm_time''), (iedModel_Device1_DSCH1_SchdAbsTm, ''IEDMODEL_Device1_DSCH1_SchdAbsTm''), (iedModel_Device1_DSCH1, ''IEDMODEL_Device1_DSCH1''), (iedModel_Device1, ''IEDMODEL_Device1''), (iedModel, ''IEDMODEL'')])"
  by (simp add: smp_handles_30_def handle_eval sample_SchdAbsTm_time_elements_25_def sample_SchdAbsTm_time_elements_26_def)

lemma smp_declared_31_block: "smp_declared_31 = map declared_as (concat [sample_MMXU1_1, sample_MMXU1_2])"
  by (simp add: smp_declared_31_def declared_as_def sample_MMXU1_1_def sample_MMXU1_2_def)

lemma smp_handles_31_block: "handle_pass [(iedModel_Device1_DSCH1_SchdAbsTm_time_254, ''IEDMODEL_Device1_DSCH1_SchdAbsTm_time_254''), (iedModel_Device1_DSCH1_SchdAbsTm_time, ''IEDMODEL_Device1_DSCH1_SchdAbsTm_time''), (iedModel_Device1_DSCH1_SchdAbsTm, ''IEDMODEL_Device1_DSCH1_SchdAbsTm''), (iedModel_Device1_DSCH1, ''IEDMODEL_Device1_DSCH1''), (iedModel_Device1, ''IEDMODEL_Device1''), (iedModel, ''IEDMODEL'')] (concat [sample_MMXU1_1, sample_MMXU1_2])
    = (smp_handles_31, [(iedModel_Device1_MMXU1_NamPlt_d, ''IEDMODEL_Device1_MMXU1_NamPlt_d''), (iedModel_Device1_MMXU1_NamPlt, ''IEDMODEL_Device1_MMXU1_NamPlt''), (iedModel_Device1_MMXU1, ''IEDMODEL_Device1_MMXU1''), (iedModel_Device1, ''IEDMODEL_Device1''), (iedModel, ''IEDMODEL'')])"
  by (simp add: smp_handles_31_def handle_eval sample_MMXU1_1_def sample_MMXU1_2_def)

lemma smp_declared_32_block: "smp_declared_32 = map declared_as (concat [sample_MMXU2_1, sample_MMXU2_2])"
  by (simp add: smp_declared_32_def declared_as_def sample_MMXU2_1_def sample_MMXU2_2_def)

lemma smp_handles_32_block: "handle_pass [(iedModel_Device1_MMXU1_NamPlt_d, ''IEDMODEL_Device1_MMXU1_NamPlt_d''), (iedModel_Device1_MMXU1_NamPlt, ''IEDMODEL_Device1_MMXU1_NamPlt''), (iedModel_Device1_MMXU1, ''IEDMODEL_Device1_MMXU1''), (iedModel_Device1, ''IEDMODEL_Device1''), (iedModel, ''IEDMODEL'')] (concat [sample_MMXU2_1, sample_MMXU2_2])
    = (smp_handles_32, [(iedModel_Device1_MMXU2_TotW_t, ''IEDMODEL_Device1_MMXU2_TotW_t''), (iedModel_Device1_MMXU2_TotW, ''IEDMODEL_Device1_MMXU2_TotW''), (iedModel_Device1_MMXU2, ''IEDMODEL_Device1_MMXU2''), (iedModel_Device1, ''IEDMODEL_Device1''), (iedModel, ''IEDMODEL'')])"
  by (simp add: smp_handles_32_def handle_eval sample_MMXU2_1_def sample_MMXU2_2_def)

lemma smp_blocks: "sample_table = concat [sample_LD, sample_LLN0_1, sample_LLN0_2]
     @ concat [sample_LPHD1, sample_DGEN1_1]
     @ concat [sample_DGEN1_2, sample_DGEN1_3, sample_DGEN1_4]
     @ concat [sample_DSCH1_1, sample_DSCH1_2]
     @ concat [sample_DSCH1_3, sample_SchdAbsTm_val, sample_SchdAbsTm_val_elements_1, sample_SchdAbsTm_val_elements_2]
     @ concat [sample_SchdAbsTm_val_elements_3, sample_SchdAbsTm_val_elements_4]
     @ concat [sample_SchdAbsTm_val_elements_5, sample_SchdAbsTm_val_elements_6]
     @ concat [sample_SchdAbsTm_val_elements_7, sample_SchdAbsTm_val_elements_8]
     @ concat [sample_SchdAbsTm_val_elements_9, sample_SchdAbsTm_val_elements_10]
     @ concat [sample_SchdAbsTm_val_elements_11, sample_SchdAbsTm_val_elements_12]
     @ concat [sample_SchdAbsTm_val_elements_13, sample_SchdAbsTm_val_elements_14]
     @ concat [sample_SchdAbsTm_val_elements_15, sample_SchdAbsTm_val_elements_16]
     @ concat [sample_SchdAbsTm_val_elements_17, sample_SchdAbsTm_val_elements_18]
     @ concat [sample_SchdAbsTm_val_elements_19, sample_SchdAbsTm_val_elements_20]
     @ concat [sample_SchdAbsTm_val_elements_21, sample_SchdAbsTm_val_elements_22]
     @ concat [sample_SchdAbsTm_val_elements_23, sample_SchdAbsTm_val_elements_24]
     @ concat [sample_SchdAbsTm_val_elements_25, sample_SchdAbsTm_val_elements_26, sample_SchdAbsTm_time]
     @ concat [sample_SchdAbsTm_time_elements_1, sample_SchdAbsTm_time_elements_2]
     @ concat [sample_SchdAbsTm_time_elements_3, sample_SchdAbsTm_time_elements_4]
     @ concat [sample_SchdAbsTm_time_elements_5, sample_SchdAbsTm_time_elements_6]
     @ concat [sample_SchdAbsTm_time_elements_7, sample_SchdAbsTm_time_elements_8]
     @ concat [sample_SchdAbsTm_time_elements_9, sample_SchdAbsTm_time_elements_10]
     @ concat [sample_SchdAbsTm_time_elements_11, sample_SchdAbsTm_time_elements_12]
     @ concat [sample_SchdAbsTm_time_elements_13, sample_SchdAbsTm_time_elements_14]
     @ concat [sample_SchdAbsTm_time_elements_15, sample_SchdAbsTm_time_elements_16]
     @ concat [sample_SchdAbsTm_time_elements_17, sample_SchdAbsTm_time_elements_18]
     @ concat [sample_SchdAbsTm_time_elements_19, sample_SchdAbsTm_time_elements_20]
     @ concat [sample_SchdAbsTm_time_elements_21, sample_SchdAbsTm_time_elements_22]
     @ concat [sample_SchdAbsTm_time_elements_23, sample_SchdAbsTm_time_elements_24]
     @ concat [sample_SchdAbsTm_time_elements_25, sample_SchdAbsTm_time_elements_26]
     @ concat [sample_MMXU1_1, sample_MMXU1_2]
     @ concat [sample_MMXU2_1, sample_MMXU2_2]"
  by (simp add: sample_table_def sample_LLN0_def sample_DGEN1_def sample_DSCH1_def sample_SchdAbsTm_val_elements_def sample_SchdAbsTm_time_elements_def sample_MMXU1_def sample_MMXU2_def)

lemma smp_declared_table: "smp_declared = map declared_as sample_table"
  by (simp only: smp_blocks map_append smp_declared_def smp_declared_1_block smp_declared_2_block smp_declared_3_block smp_declared_4_block smp_declared_5_block smp_declared_6_block smp_declared_7_block smp_declared_8_block smp_declared_9_block smp_declared_10_block smp_declared_11_block smp_declared_12_block smp_declared_13_block smp_declared_14_block smp_declared_15_block smp_declared_16_block smp_declared_17_block smp_declared_18_block smp_declared_19_block smp_declared_20_block smp_declared_21_block smp_declared_22_block smp_declared_23_block smp_declared_24_block smp_declared_25_block smp_declared_26_block smp_declared_27_block smp_declared_28_block smp_declared_29_block smp_declared_30_block smp_declared_31_block smp_declared_32_block)

lemma smp_handles_pass:
  "handle_pass [(iedModel, ''IEDMODEL'')] sample_table = (smp_handles, [(iedModel_Device1_MMXU2_TotW_t, ''IEDMODEL_Device1_MMXU2_TotW_t''), (iedModel_Device1_MMXU2_TotW, ''IEDMODEL_Device1_MMXU2_TotW''), (iedModel_Device1_MMXU2, ''IEDMODEL_Device1_MMXU2''), (iedModel_Device1, ''IEDMODEL_Device1''), (iedModel, ''IEDMODEL'')])"
  unfolding smp_blocks smp_handles_def by (intro handle_pass_join) (rule smp_handles_1_block smp_handles_2_block smp_handles_3_block smp_handles_4_block smp_handles_5_block smp_handles_6_block smp_handles_7_block smp_handles_8_block smp_handles_9_block smp_handles_10_block smp_handles_11_block smp_handles_12_block smp_handles_13_block smp_handles_14_block smp_handles_15_block smp_handles_16_block smp_handles_17_block smp_handles_18_block smp_handles_19_block smp_handles_20_block smp_handles_21_block smp_handles_22_block smp_handles_23_block smp_handles_24_block smp_handles_25_block smp_handles_26_block smp_handles_27_block smp_handles_28_block smp_handles_29_block smp_handles_30_block smp_handles_31_block smp_handles_32_block)+

lemma smp_handles_table: "fst (handle_pass [(iedModel, ''IEDMODEL'')] sample_table) = smp_handles"
  by (simp only: smp_handles_pass fst_conv)

interpretation smph: named_model iedModel iedModel_Device1 sample_table sample_initial_values smp_declared smp_handles
  by unfold_locales (simp_all add: addrs_sample_table smp_declared_table smp_handles_table del: upt_rec_numeral)

lemma sample_handles_are_paths:
  "(\<exists>t. sample_table = emit_list (Some iedModel) [t] \<and> smp_handles = tree_handles ''IEDMODEL'' [t])
   \<and> smp_declared = map declared_as sample_table \<and> length smp_handles = 641"
proof -
  have "length smp_handles = 641"
    using arg_cong [OF smph.handles_addrs, of length] sample_table_length by (simp only: length_map)
  with smph.handles_tree smp_declared_table show ?thesis by blast
qed

end
