(* ===== verification/Ied_Symbols.thy ===== *)
theory Ied_Symbols
  imports Ied_Model
begin

text \<open>
  The addresses of the structures of \<open>core/iec61850/model/static_model.c\<close>: every C identifier
  stands for a distinct number, given in the order of the file.
\<close>

abbreviation (input) iedModel :: addr where "iedModel \<equiv> 1000"
abbreviation (input) iedModel_GenericIO :: addr where "iedModel_GenericIO \<equiv> 1001"
abbreviation (input) iedModel_GenericIO_LLN0 :: addr where "iedModel_GenericIO_LLN0 \<equiv> 1002"
abbreviation (input) iedModel_GenericIO_LLN0_Beh :: addr where "iedModel_GenericIO_LLN0_Beh \<equiv> 1003"
abbreviation (input) iedModel_GenericIO_LLN0_Beh_stVal :: addr where "iedModel_GenericIO_LLN0_Beh_stVal \<equiv> 1004"
abbreviation (input) iedModel_GenericIO_LLN0_Beh_q :: addr where "iedModel_GenericIO_LLN0_Beh_q \<equiv> 1005"
abbreviation (input) iedModel_GenericIO_LLN0_Beh_t :: addr where "iedModel_GenericIO_LLN0_Beh_t \<equiv> 1006"
abbreviation (input) iedModel_GenericIO_LLN0_Mod :: addr where "iedModel_GenericIO_LLN0_Mod \<equiv> 1007"
abbreviation (input) iedModel_GenericIO_LLN0_Mod_stVal :: addr where "iedModel_GenericIO_LLN0_Mod_stVal \<equiv> 1008"
abbreviation (input) iedModel_GenericIO_LLN0_Mod_q :: addr where "iedModel_GenericIO_LLN0_Mod_q \<equiv> 1009"
abbreviation (input) iedModel_GenericIO_LLN0_Mod_t :: addr where "iedModel_GenericIO_LLN0_Mod_t \<equiv> 1010"
abbreviation (input) iedModel_GenericIO_LLN0_Mod_ctlModel :: addr where "iedModel_GenericIO_LLN0_Mod_ctlModel \<equiv> 1011"
abbreviation (input) iedModel_GenericIO_LLN0_Health :: addr where "iedModel_GenericIO_LLN0_Health \<equiv> 1012"
abbreviation (input) iedModel_GenericIO_LLN0_Health_stVal :: addr where "iedModel_GenericIO_LLN0_Health_stVal \<equiv> 1013"
abbreviation (input) iedModel_GenericIO_LLN0_Health_q :: addr where "iedModel_GenericIO_LLN0_Health_q \<equiv> 1014"
abbreviation (input) iedModel_GenericIO_LLN0_Health_t :: addr where "iedModel_GenericIO_LLN0_Health_t \<equiv> 1015"
abbreviation (input) iedModel_GenericIO_LLN0_NamPlt :: addr where "iedModel_GenericIO_LLN0_NamPlt \<equiv> 1016"
abbreviation (input) iedModel_GenericIO_LLN0_NamPlt_vendor :: addr where "iedModel_GenericIO_LLN0_NamPlt_vendor \<equiv> 1017"
abbreviation (input) iedModel_GenericIO_LLN0_NamPlt_swRev :: addr where "iedModel_GenericIO_LLN0_NamPlt_swRev \<equiv> 1018"
abbreviation (input) iedModel_GenericIO_LLN0_NamPlt_d :: addr where "iedModel_GenericIO_LLN0_NamPlt_d \<equiv> 1019"
abbreviation (input) iedModel_GenericIO_LLN0_NamPlt_configRev :: addr where "iedModel_GenericIO_LLN0_NamPlt_configRev \<equiv> 1020"
abbreviation (input) iedModel_GenericIO_LLN0_NamPlt_ldNs :: addr where "iedModel_GenericIO_LLN0_NamPlt_ldNs \<equiv> 1021"
abbreviation (input) iedModel_GenericIO_LPHD1 :: addr where "iedModel_GenericIO_LPHD1 \<equiv> 1022"
abbreviation (input) iedModel_GenericIO_LPHD1_PhyNam :: addr where "iedModel_GenericIO_LPHD1_PhyNam \<equiv> 1023"
abbreviation (input) iedModel_GenericIO_LPHD1_PhyNam_vendor :: addr where "iedModel_GenericIO_LPHD1_PhyNam_vendor \<equiv> 1024"
abbreviation (input) iedModel_GenericIO_LPHD1_PhyHealth :: addr where "iedModel_GenericIO_LPHD1_PhyHealth \<equiv> 1025"
abbreviation (input) iedModel_GenericIO_LPHD1_PhyHealth_stVal :: addr where "iedModel_GenericIO_LPHD1_PhyHealth_stVal \<equiv> 1026"
abbreviation (input) iedModel_GenericIO_LPHD1_PhyHealth_q :: addr where "iedModel_GenericIO_LPHD1_PhyHealth_q \<equiv> 1027"
abbreviation (input) iedModel_GenericIO_LPHD1_PhyHealth_t :: addr where "iedModel_GenericIO_LPHD1_PhyHealth_t \<equiv> 1028"
abbreviation (input) iedModel_GenericIO_LPHD1_Proxy :: addr where "iedModel_GenericIO_LPHD1_Proxy \<equiv> 1029"
abbreviation (input) iedModel_GenericIO_LPHD1_Proxy_stVal :: addr where "iedModel_GenericIO_LPHD1_Proxy_stVal \<equiv> 1030"
abbreviation (input) iedModel_GenericIO_LPHD1_Proxy_q :: addr where "iedModel_GenericIO_LPHD1_Proxy_q \<equiv> 1031"
abbreviation (input) iedModel_GenericIO_LPHD1_Proxy_t :: addr where "iedModel_GenericIO_LPHD1_Proxy_t \<equiv> 1032"
abbreviation (input) iedModel_GenericIO_GGIO1 :: addr where "iedModel_GenericIO_GGIO1 \<equiv> 1033"
abbreviation (input) iedModel_GenericIO_GGIO1_Beh :: addr where "iedModel_GenericIO_GGIO1_Beh \<equiv> 1034"
abbreviation (input) iedModel_GenericIO_GGIO1_Beh_stVal :: addr where "iedModel_GenericIO_GGIO1_Beh_stVal \<equiv> 1035"
abbreviation (input) iedModel_GenericIO_GGIO1_Beh_q :: addr where "iedModel_GenericIO_GGIO1_Beh_q \<equiv> 1036"
abbreviation (input) iedModel_GenericIO_GGIO1_Beh_t :: addr where "iedModel_GenericIO_GGIO1_Beh_t \<equiv> 1037"
abbreviation (input) iedModel_GenericIO_GGIO1_Mod :: addr where "iedModel_GenericIO_GGIO1_Mod \<equiv> 1038"
abbreviation (input) iedModel_GenericIO_GGIO1_Mod_stVal :: addr where "iedModel_GenericIO_GGIO1_Mod_stVal \<equiv> 1039"
abbreviation (input) iedModel_GenericIO_GGIO1_Mod_q :: addr where "iedModel_GenericIO_GGIO1_Mod_q \<equiv> 1040"
abbreviation (input) iedModel_GenericIO_GGIO1_Mod_t :: addr where "iedModel_GenericIO_GGIO1_Mod_t \<equiv> 1041"
abbreviation (input) iedModel_GenericIO_GGIO1_Mod_ctlModel :: addr where "iedModel_GenericIO_GGIO1_Mod_ctlModel \<equiv> 1042"
abbreviation (input) iedModel_GenericIO_GGIO1_Health :: addr where "iedModel_GenericIO_GGIO1_Health \<equiv> 1043"
abbreviation (input) iedModel_GenericIO_GGIO1_Health_stVal :: addr where "iedModel_GenericIO_GGIO1_Health_stVal \<equiv> 1044"
abbreviation (input) iedModel_GenericIO_GGIO1_Health_q :: addr where "iedModel_GenericIO_GGIO1_Health_q \<equiv> 1045"
abbreviation (input) iedModel_GenericIO_GGIO1_Health_t :: addr where "iedModel_GenericIO_GGIO1_Health_t \<equiv> 1046"
abbreviation (input) iedModel_GenericIO_GGIO1_NamPlt :: addr where "iedModel_GenericIO_GGIO1_NamPlt \<equiv> 1047"
abbreviation (input) iedModel_GenericIO_GGIO1_NamPlt_vendor :: addr where "iedModel_GenericIO_GGIO1_NamPlt_vendor \<equiv> 1048"
abbreviation (input) iedModel_GenericIO_GGIO1_NamPlt_swRev :: addr where "iedModel_GenericIO_GGIO1_NamPlt_swRev \<equiv> 1049"
abbreviation (input) iedModel_GenericIO_GGIO1_NamPlt_d :: addr where "iedModel_GenericIO_GGIO1_NamPlt_d \<equiv> 1050"
abbreviation (input) iedModel_GenericIO_GGIO1_AnIn1 :: addr where "iedModel_GenericIO_GGIO1_AnIn1 \<equiv> 1051"
abbreviation (input) iedModel_GenericIO_GGIO1_AnIn1_mag :: addr where "iedModel_GenericIO_GGIO1_AnIn1_mag \<equiv> 1052"
abbreviation (input) iedModel_GenericIO_GGIO1_AnIn1_mag_f :: addr where "iedModel_GenericIO_GGIO1_AnIn1_mag_f \<equiv> 1053"
abbreviation (input) iedModel_GenericIO_GGIO1_AnIn1_q :: addr where "iedModel_GenericIO_GGIO1_AnIn1_q \<equiv> 1054"
abbreviation (input) iedModel_GenericIO_GGIO1_AnIn1_t :: addr where "iedModel_GenericIO_GGIO1_AnIn1_t \<equiv> 1055"
abbreviation (input) iedModel_GenericIO_GGIO1_AnIn2 :: addr where "iedModel_GenericIO_GGIO1_AnIn2 \<equiv> 1056"
abbreviation (input) iedModel_GenericIO_GGIO1_AnIn2_mag :: addr where "iedModel_GenericIO_GGIO1_AnIn2_mag \<equiv> 1057"
abbreviation (input) iedModel_GenericIO_GGIO1_AnIn2_mag_f :: addr where "iedModel_GenericIO_GGIO1_AnIn2_mag_f \<equiv> 1058"
abbreviation (input) iedModel_GenericIO_GGIO1_AnIn2_q :: addr where "iedModel_GenericIO_GGIO1_AnIn2_q \<equiv> 1059"
abbreviation (input) iedModel_GenericIO_GGIO1_AnIn2_t :: addr where "iedModel_GenericIO_GGIO1_AnIn2_t \<equiv> 1060"
abbreviation (input) iedModel_GenericIO_GGIO1_AnIn3 :: addr where "iedModel_GenericIO_GGIO1_AnIn3 \<equiv> 1061"
abbreviation (input) iedModel_GenericIO_GGIO1_AnIn3_mag :: addr where "iedModel_GenericIO_GGIO1_AnIn3_mag \<equiv> 1062"
abbreviation (input) iedModel_GenericIO_GGIO1_AnIn3_mag_f :: addr where "iedModel_GenericIO_GGIO1_AnIn3_mag_f \<equiv> 1063"
abbreviation (input) iedModel_GenericIO_GGIO1_AnIn3_q :: addr where "iedModel_GenericIO_GGIO1_AnIn3_q \<equiv> 1064"
abbreviation (input) iedModel_GenericIO_GGIO1_AnIn3_t :: addr where "iedModel_GenericIO_GGIO1_AnIn3_t \<equiv> 1065"
abbreviation (input) iedModel_GenericIO_GGIO1_AnIn4 :: addr where "iedModel_GenericIO_GGIO1_AnIn4 \<equiv> 1066"
abbreviation (input) iedModel_GenericIO_GGIO1_AnIn4_mag :: addr where "iedModel_GenericIO_GGIO1_AnIn4_mag \<equiv> 1067"
abbreviation (input) iedModel_GenericIO_GGIO1_AnIn4_mag_f :: addr where "iedModel_GenericIO_GGIO1_AnIn4_mag_f \<equiv> 1068"
abbreviation (input) iedModel_GenericIO_GGIO1_AnIn4_q :: addr where "iedModel_GenericIO_GGIO1_AnIn4_q \<equiv> 1069"
abbreviation (input) iedModel_GenericIO_GGIO1_AnIn4_t :: addr where "iedModel_GenericIO_GGIO1_AnIn4_t \<equiv> 1070"
abbreviation (input) iedModel_GenericIO_GGIO1_SPCSO1 :: addr where "iedModel_GenericIO_GGIO1_SPCSO1 \<equiv> 1071"
abbreviation (input) iedModel_GenericIO_GGIO1_SPCSO1_stVal :: addr where "iedModel_GenericIO_GGIO1_SPCSO1_stVal \<equiv> 1072"
abbreviation (input) iedModel_GenericIO_GGIO1_SPCSO1_q :: addr where "iedModel_GenericIO_GGIO1_SPCSO1_q \<equiv> 1073"
abbreviation (input) iedModel_GenericIO_GGIO1_SPCSO1_Oper :: addr where "iedModel_GenericIO_GGIO1_SPCSO1_Oper \<equiv> 1074"
abbreviation (input) iedModel_GenericIO_GGIO1_SPCSO1_Oper_ctlVal :: addr where "iedModel_GenericIO_GGIO1_SPCSO1_Oper_ctlVal \<equiv> 1075"
abbreviation (input) iedModel_GenericIO_GGIO1_SPCSO1_Oper_origin :: addr where "iedModel_GenericIO_GGIO1_SPCSO1_Oper_origin \<equiv> 1076"
abbreviation (input) iedModel_GenericIO_GGIO1_SPCSO1_Oper_origin_orCat :: addr where "iedModel_GenericIO_GGIO1_SPCSO1_Oper_origin_orCat \<equiv> 1077"
abbreviation (input) iedModel_GenericIO_GGIO1_SPCSO1_Oper_origin_orIdent :: addr where "iedModel_GenericIO_GGIO1_SPCSO1_Oper_origin_orIdent \<equiv> 1078"
abbreviation (input) iedModel_GenericIO_GGIO1_SPCSO1_Oper_ctlNum :: addr where "iedModel_GenericIO_GGIO1_SPCSO1_Oper_ctlNum \<equiv> 1079"
abbreviation (input) iedModel_GenericIO_GGIO1_SPCSO1_Oper_T :: addr where "iedModel_GenericIO_GGIO1_SPCSO1_Oper_T \<equiv> 1080"
abbreviation (input) iedModel_GenericIO_GGIO1_SPCSO1_Oper_Test :: addr where "iedModel_GenericIO_GGIO1_SPCSO1_Oper_Test \<equiv> 1081"
abbreviation (input) iedModel_GenericIO_GGIO1_SPCSO1_Oper_Check :: addr where "iedModel_GenericIO_GGIO1_SPCSO1_Oper_Check \<equiv> 1082"
abbreviation (input) iedModel_GenericIO_GGIO1_SPCSO1_ctlModel :: addr where "iedModel_GenericIO_GGIO1_SPCSO1_ctlModel \<equiv> 1083"
abbreviation (input) iedModel_GenericIO_GGIO1_SPCSO1_t :: addr where "iedModel_GenericIO_GGIO1_SPCSO1_t \<equiv> 1084"
abbreviation (input) iedModel_GenericIO_GGIO1_SPCSO2 :: addr where "iedModel_GenericIO_GGIO1_SPCSO2 \<equiv> 1085"
abbreviation (input) iedModel_GenericIO_GGIO1_SPCSO2_stVal :: addr where "iedModel_GenericIO_GGIO1_SPCSO2_stVal \<equiv> 1086"
abbreviation (input) iedModel_GenericIO_GGIO1_SPCSO2_q :: addr where "iedModel_GenericIO_GGIO1_SPCSO2_q \<equiv> 1087"
abbreviation (input) iedModel_GenericIO_GGIO1_SPCSO2_SBO :: addr where "iedModel_GenericIO_GGIO1_SPCSO2_SBO \<equiv> 1088"
abbreviation (input) iedModel_GenericIO_GGIO1_SPCSO2_Oper :: addr where "iedModel_GenericIO_GGIO1_SPCSO2_Oper \<equiv> 1089"
abbreviation (input) iedModel_GenericIO_GGIO1_SPCSO2_Oper_ctlVal :: addr where "iedModel_GenericIO_GGIO1_SPCSO2_Oper_ctlVal \<equiv> 1090"
abbreviation (input) iedModel_GenericIO_GGIO1_SPCSO2_Oper_origin :: addr where "iedModel_GenericIO_GGIO1_SPCSO2_Oper_origin \<equiv> 1091"
abbreviation (input) iedModel_GenericIO_GGIO1_SPCSO2_Oper_origin_orCat :: addr where "iedModel_GenericIO_GGIO1_SPCSO2_Oper_origin_orCat \<equiv> 1092"
abbreviation (input) iedModel_GenericIO_GGIO1_SPCSO2_Oper_origin_orIdent :: addr where "iedModel_GenericIO_GGIO1_SPCSO2_Oper_origin_orIdent \<equiv> 1093"
abbreviation (input) iedModel_GenericIO_GGIO1_SPCSO2_Oper_ctlNum :: addr where "iedModel_GenericIO_GGIO1_SPCSO2_Oper_ctlNum \<equiv> 1094"
abbreviation (input) iedModel_GenericIO_GGIO1_SPCSO2_Oper_T :: addr where "iedModel_GenericIO_GGIO1_SPCSO2_Oper_T \<equiv> 1095"
abbreviation (input) iedModel_GenericIO_GGIO1_SPCSO2_Oper_Test :: addr where "iedModel_GenericIO_GGIO1_SPCSO2_Oper_Test \<equiv> 1096"
abbreviation (input) iedModel_GenericIO_GGIO1_SPCSO2_Oper_Check :: addr where "iedModel_GenericIO_GGIO1_SPCSO2_Oper_Check \<equiv> 1097"
abbreviation (input) iedModel_GenericIO_GGIO1_SPCSO2_Cancel :: addr where "iedModel_GenericIO_GGIO1_SPCSO2_Cancel \<equiv> 1098"
abbreviation (input) iedModel_GenericIO_GGIO1_SPCSO2_Cancel_ctlVal :: addr where "iedModel_GenericIO_GGIO1_SPCSO2_Cancel_ctlVal \<equiv> 1099"
abbreviation (input) iedModel_GenericIO_GGIO1_SPCSO2_Cancel_origin :: addr where "iedModel_GenericIO_GGIO1_SPCSO2_Cancel_origin \<equiv> 1100"
abbreviation (input) iedModel_GenericIO_GGIO1_SPCSO2_Cancel_origin_orCat :: addr where "iedModel_GenericIO_GGIO1_SPCSO2_Cancel_origin_orCat \<equiv> 1101"
abbreviation (input) iedModel_GenericIO_GGIO1_SPCSO2_Cancel_origin_orIdent :: addr where "iedModel_GenericIO_GGIO1_SPCSO2_Cancel_origin_orIdent \<equiv> 1102"
abbreviation (input) iedModel_GenericIO_GGIO1_SPCSO2_Cancel_ctlNum :: addr where "iedModel_GenericIO_GGIO1_SPCSO2_Cancel_ctlNum \<equiv> 1103"
abbreviation (input) iedModel_GenericIO_GGIO1_SPCSO2_Cancel_T :: addr where "iedModel_GenericIO_GGIO1_SPCSO2_Cancel_T \<equiv> 1104"
abbreviation (input) iedModel_GenericIO_GGIO1_SPCSO2_Cancel_Test :: addr where "iedModel_GenericIO_GGIO1_SPCSO2_Cancel_Test \<equiv> 1105"
abbreviation (input) iedModel_GenericIO_GGIO1_SPCSO2_ctlModel :: addr where "iedModel_GenericIO_GGIO1_SPCSO2_ctlModel \<equiv> 1106"
abbreviation (input) iedModel_GenericIO_GGIO1_SPCSO2_t :: addr where "iedModel_GenericIO_GGIO1_SPCSO2_t \<equiv> 1107"
abbreviation (input) iedModel_GenericIO_GGIO1_SPCSO3 :: addr where "iedModel_GenericIO_GGIO1_SPCSO3 \<equiv> 1108"
abbreviation (input) iedModel_GenericIO_GGIO1_SPCSO3_stVal :: addr where "iedModel_GenericIO_GGIO1_SPCSO3_stVal \<equiv> 1109"
abbreviation (input) iedModel_GenericIO_GGIO1_SPCSO3_q :: addr where "iedModel_GenericIO_GGIO1_SPCSO3_q \<equiv> 1110"
abbreviation (input) iedModel_GenericIO_GGIO1_SPCSO3_Oper :: addr where "iedModel_GenericIO_GGIO1_SPCSO3_Oper \<equiv> 1111"
abbreviation (input) iedModel_GenericIO_GGIO1_SPCSO3_Oper_ctlVal :: addr where "iedModel_GenericIO_GGIO1_SPCSO3_Oper_ctlVal \<equiv> 1112"
abbreviation (input) iedModel_GenericIO_GGIO1_SPCSO3_Oper_origin :: addr where "iedModel_GenericIO_GGIO1_SPCSO3_Oper_origin \<equiv> 1113"
abbreviation (input) iedModel_GenericIO_GGIO1_SPCSO3_Oper_origin_orCat :: addr where "iedModel_GenericIO_GGIO1_SPCSO3_Oper_origin_orCat \<equiv> 1114"
abbreviation (input) iedModel_GenericIO_GGIO1_SPCSO3_Oper_origin_orIdent :: addr where "iedModel_GenericIO_GGIO1_SPCSO3_Oper_origin_orIdent \<equiv> 1115"
abbreviation (input) iedModel_GenericIO_GGIO1_SPCSO3_Oper_ctlNum :: addr where "iedModel_GenericIO_GGIO1_SPCSO3_Oper_ctlNum \<equiv> 1116"
abbreviation (input) iedModel_GenericIO_GGIO1_SPCSO3_Oper_T :: addr where "iedModel_GenericIO_GGIO1_SPCSO3_Oper_T \<equiv> 1117"
abbreviation (input) iedModel_GenericIO_GGIO1_SPCSO3_Oper_Test :: addr where "iedModel_GenericIO_GGIO1_SPCSO3_Oper_Test \<equiv> 1118"
abbreviation (input) iedModel_GenericIO_GGIO1_SPCSO3_Oper_Check :: addr where "iedModel_GenericIO_GGIO1_SPCSO3_Oper_Check \<equiv> 1119"
abbreviation (input) iedModel_GenericIO_GGIO1_SPCSO3_ctlModel :: addr where "iedModel_GenericIO_GGIO1_SPCSO3_ctlModel \<equiv> 1120"
abbreviation (input) iedModel_GenericIO_GGIO1_SPCSO3_t :: addr where "iedModel_GenericIO_GGIO1_SPCSO3_t \<equiv> 1121"
abbreviation (input) iedModel_GenericIO_GGIO1_DPCSO1 :: addr where "iedModel_GenericIO_GGIO1_DPCSO1 \<equiv> 1122"
abbreviation (input) iedModel_GenericIO_GGIO1_DPCSO1_stVal :: addr where "iedModel_GenericIO_GGIO1_DPCSO1_stVal \<equiv> 1123"
abbreviation (input) iedModel_GenericIO_GGIO1_DPCSO1_q :: addr where "iedModel_GenericIO_GGIO1_DPCSO1_q \<equiv> 1124"
abbreviation (input) iedModel_GenericIO_GGIO1_DPCSO1_Oper :: addr where "iedModel_GenericIO_GGIO1_DPCSO1_Oper \<equiv> 1125"
abbreviation (input) iedModel_GenericIO_GGIO1_DPCSO1_Oper_ctlVal :: addr where "iedModel_GenericIO_GGIO1_DPCSO1_Oper_ctlVal \<equiv> 1126"
abbreviation (input) iedModel_GenericIO_GGIO1_DPCSO1_Oper_origin :: addr where "iedModel_GenericIO_GGIO1_DPCSO1_Oper_origin \<equiv> 1127"
abbreviation (input) iedModel_GenericIO_GGIO1_DPCSO1_Oper_origin_orCat :: addr where "iedModel_GenericIO_GGIO1_DPCSO1_Oper_origin_orCat \<equiv> 1128"
abbreviation (input) iedModel_GenericIO_GGIO1_DPCSO1_Oper_origin_orIdent :: addr where "iedModel_GenericIO_GGIO1_DPCSO1_Oper_origin_orIdent \<equiv> 1129"
abbreviation (input) iedModel_GenericIO_GGIO1_DPCSO1_Oper_ctlNum :: addr where "iedModel_GenericIO_GGIO1_DPCSO1_Oper_ctlNum \<equiv> 1130"
abbreviation (input) iedModel_GenericIO_GGIO1_DPCSO1_Oper_T :: addr where "iedModel_GenericIO_GGIO1_DPCSO1_Oper_T \<equiv> 1131"
abbreviation (input) iedModel_GenericIO_GGIO1_DPCSO1_Oper_Test :: addr where "iedModel_GenericIO_GGIO1_DPCSO1_Oper_Test \<equiv> 1132"
abbreviation (input) iedModel_GenericIO_GGIO1_DPCSO1_Oper_Check :: addr where "iedModel_GenericIO_GGIO1_DPCSO1_Oper_Check \<equiv> 1133"
abbreviation (input) iedModel_GenericIO_GGIO1_DPCSO1_ctlModel :: addr where "iedModel_GenericIO_GGIO1_DPCSO1_ctlModel \<equiv> 1134"
abbreviation (input) iedModel_GenericIO_GGIO1_DPCSO1_t :: addr where "iedModel_GenericIO_GGIO1_DPCSO1_t \<equiv> 1135"
abbreviation (input) iedModel_GenericIO_GGIO1_Ind1 :: addr where "iedModel_GenericIO_GGIO1_Ind1 \<equiv> 1136"
abbreviation (input) iedModel_GenericIO_GGIO1_Ind1_stVal :: addr where "iedModel_GenericIO_GGIO1_Ind1_stVal \<equiv> 1137"
abbreviation (input) iedModel_GenericIO_GGIO1_Ind1_q :: addr where "iedModel_GenericIO_GGIO1_Ind1_q \<equiv> 1138"
abbreviation (input) iedModel_GenericIO_GGIO1_Ind1_t :: addr where "iedModel_GenericIO_GGIO1_Ind1_t \<equiv> 1139"
abbreviation (input) iedModel_GenericIO_GGIO1_Ind2 :: addr where "iedModel_GenericIO_GGIO1_Ind2 \<equiv> 1140"
abbreviation (input) iedModel_GenericIO_GGIO1_Ind2_stVal :: addr where "iedModel_GenericIO_GGIO1_Ind2_stVal \<equiv> 1141"
abbreviation (input) iedModel_GenericIO_GGIO1_Ind2_q :: addr where "iedModel_GenericIO_GGIO1_Ind2_q \<equiv> 1142"
abbreviation (input) iedModel_GenericIO_GGIO1_Ind2_t :: addr where "iedModel_GenericIO_GGIO1_Ind2_t \<equiv> 1143"
abbreviation (input) iedModel_GenericIO_GGIO1_Ind3 :: addr where "iedModel_GenericIO_GGIO1_Ind3 \<equiv> 1144"
abbreviation (input) iedModel_GenericIO_GGIO1_Ind3_stVal :: addr where "iedModel_GenericIO_GGIO1_Ind3_stVal \<equiv> 1145"
abbreviation (input) iedModel_GenericIO_GGIO1_Ind3_q :: addr where "iedModel_GenericIO_GGIO1_Ind3_q \<equiv> 1146"
abbreviation (input) iedModel_GenericIO_GGIO1_Ind3_t :: addr where "iedModel_GenericIO_GGIO1_Ind3_t \<equiv> 1147"
abbreviation (input) iedModel_GenericIO_GGIO1_Ind4 :: addr where "iedModel_GenericIO_GGIO1_Ind4 \<equiv> 1148"
abbreviation (input) iedModel_GenericIO_GGIO1_Ind4_stVal :: addr where "iedModel_GenericIO_GGIO1_Ind4_stVal \<equiv> 1149"
abbreviation (input) iedModel_GenericIO_GGIO1_Ind4_q :: addr where "iedModel_GenericIO_GGIO1_Ind4_q \<equiv> 1150"
abbreviation (input) iedModel_GenericIO_GGIO1_Ind4_t :: addr where "iedModel_GenericIO_GGIO1_Ind4_t \<equiv> 1151"
abbreviation (input) iedModel_GenericIO_TIM_GAPC1 :: addr where "iedModel_GenericIO_TIM_GAPC1 \<equiv> 1152"
abbreviation (input) iedModel_GenericIO_TIM_GAPC1_Beh :: addr where "iedModel_GenericIO_TIM_GAPC1_Beh \<equiv> 1153"
abbreviation (input) iedModel_GenericIO_TIM_GAPC1_Beh_stVal :: addr where "iedModel_GenericIO_TIM_GAPC1_Beh_stVal \<equiv> 1154"
abbreviation (input) iedModel_GenericIO_TIM_GAPC1_Beh_q :: addr where "iedModel_GenericIO_TIM_GAPC1_Beh_q \<equiv> 1155"
abbreviation (input) iedModel_GenericIO_TIM_GAPC1_Beh_t :: addr where "iedModel_GenericIO_TIM_GAPC1_Beh_t \<equiv> 1156"
abbreviation (input) iedModel_GenericIO_TIM_GAPC1_Mod :: addr where "iedModel_GenericIO_TIM_GAPC1_Mod \<equiv> 1157"
abbreviation (input) iedModel_GenericIO_TIM_GAPC1_Mod_stVal :: addr where "iedModel_GenericIO_TIM_GAPC1_Mod_stVal \<equiv> 1158"
abbreviation (input) iedModel_GenericIO_TIM_GAPC1_Mod_q :: addr where "iedModel_GenericIO_TIM_GAPC1_Mod_q \<equiv> 1159"
abbreviation (input) iedModel_GenericIO_TIM_GAPC1_Mod_t :: addr where "iedModel_GenericIO_TIM_GAPC1_Mod_t \<equiv> 1160"
abbreviation (input) iedModel_GenericIO_TIM_GAPC1_Mod_ctlModel :: addr where "iedModel_GenericIO_TIM_GAPC1_Mod_ctlModel \<equiv> 1161"
abbreviation (input) iedModel_GenericIO_TIM_GAPC1_Str :: addr where "iedModel_GenericIO_TIM_GAPC1_Str \<equiv> 1162"
abbreviation (input) iedModel_GenericIO_TIM_GAPC1_Str_general :: addr where "iedModel_GenericIO_TIM_GAPC1_Str_general \<equiv> 1163"
abbreviation (input) iedModel_GenericIO_TIM_GAPC1_Str_dirGeneral :: addr where "iedModel_GenericIO_TIM_GAPC1_Str_dirGeneral \<equiv> 1164"
abbreviation (input) iedModel_GenericIO_TIM_GAPC1_Str_q :: addr where "iedModel_GenericIO_TIM_GAPC1_Str_q \<equiv> 1165"
abbreviation (input) iedModel_GenericIO_TIM_GAPC1_Str_t :: addr where "iedModel_GenericIO_TIM_GAPC1_Str_t \<equiv> 1166"
abbreviation (input) iedModel_GenericIO_TIM_GAPC1_Op :: addr where "iedModel_GenericIO_TIM_GAPC1_Op \<equiv> 1167"
abbreviation (input) iedModel_GenericIO_TIM_GAPC1_Op_general :: addr where "iedModel_GenericIO_TIM_GAPC1_Op_general \<equiv> 1168"
abbreviation (input) iedModel_GenericIO_TIM_GAPC1_Op_q :: addr where "iedModel_GenericIO_TIM_GAPC1_Op_q \<equiv> 1169"
abbreviation (input) iedModel_GenericIO_TIM_GAPC1_Op_t :: addr where "iedModel_GenericIO_TIM_GAPC1_Op_t \<equiv> 1170"
abbreviation (input) iedModel_GenericIO_TIM_GAPC1_OpDlTmms :: addr where "iedModel_GenericIO_TIM_GAPC1_OpDlTmms \<equiv> 1171"
abbreviation (input) iedModel_GenericIO_TIM_GAPC1_OpDlTmms_setVal :: addr where "iedModel_GenericIO_TIM_GAPC1_OpDlTmms_setVal \<equiv> 1172"
abbreviation (input) iedModel_GenericIO_TIM_GAPC1_OpDlTmms_dataNs :: addr where "iedModel_GenericIO_TIM_GAPC1_OpDlTmms_dataNs \<equiv> 1173"
abbreviation (input) iedModel_GenericIO_TIM_GAPC1_RsDlTmms :: addr where "iedModel_GenericIO_TIM_GAPC1_RsDlTmms \<equiv> 1174"
abbreviation (input) iedModel_GenericIO_TIM_GAPC1_RsDlTmms_setVal :: addr where "iedModel_GenericIO_TIM_GAPC1_RsDlTmms_setVal \<equiv> 1175"
abbreviation (input) iedModel_GenericIO_TIM_GAPC1_RsDlTmms_dataNs :: addr where "iedModel_GenericIO_TIM_GAPC1_RsDlTmms_dataNs \<equiv> 1176"
abbreviation (input) iedModel_GenericIO_TIM_GAPC1_OpCntRs :: addr where "iedModel_GenericIO_TIM_GAPC1_OpCntRs \<equiv> 1177"
abbreviation (input) iedModel_GenericIO_TIM_GAPC1_OpCntRs_stVal :: addr where "iedModel_GenericIO_TIM_GAPC1_OpCntRs_stVal \<equiv> 1178"
abbreviation (input) iedModel_GenericIO_TIM_GAPC1_OpCntRs_q :: addr where "iedModel_GenericIO_TIM_GAPC1_OpCntRs_q \<equiv> 1179"
abbreviation (input) iedModel_GenericIO_TIM_GAPC1_OpCntRs_t :: addr where "iedModel_GenericIO_TIM_GAPC1_OpCntRs_t \<equiv> 1180"
abbreviation (input) iedModel_GenericIO_TIM_GAPC1_OpCntRs_Oper :: addr where "iedModel_GenericIO_TIM_GAPC1_OpCntRs_Oper \<equiv> 1181"
abbreviation (input) iedModel_GenericIO_TIM_GAPC1_OpCntRs_Oper_ctlVal :: addr where "iedModel_GenericIO_TIM_GAPC1_OpCntRs_Oper_ctlVal \<equiv> 1182"
abbreviation (input) iedModel_GenericIO_TIM_GAPC1_OpCntRs_Oper_origin :: addr where "iedModel_GenericIO_TIM_GAPC1_OpCntRs_Oper_origin \<equiv> 1183"
abbreviation (input) iedModel_GenericIO_TIM_GAPC1_OpCntRs_Oper_origin_orCat :: addr where "iedModel_GenericIO_TIM_GAPC1_OpCntRs_Oper_origin_orCat \<equiv> 1184"
abbreviation (input) iedModel_GenericIO_TIM_GAPC1_OpCntRs_Oper_origin_orIdent :: addr where "iedModel_GenericIO_TIM_GAPC1_OpCntRs_Oper_origin_orIdent \<equiv> 1185"
abbreviation (input) iedModel_GenericIO_TIM_GAPC1_OpCntRs_Oper_ctlNum :: addr where "iedModel_GenericIO_TIM_GAPC1_OpCntRs_Oper_ctlNum \<equiv> 1186"
abbreviation (input) iedModel_GenericIO_TIM_GAPC1_OpCntRs_Oper_T :: addr where "iedModel_GenericIO_TIM_GAPC1_OpCntRs_Oper_T \<equiv> 1187"
abbreviation (input) iedModel_GenericIO_TIM_GAPC1_OpCntRs_Oper_Test :: addr where "iedModel_GenericIO_TIM_GAPC1_OpCntRs_Oper_Test \<equiv> 1188"
abbreviation (input) iedModel_GenericIO_TIM_GAPC1_OpCntRs_Oper_Check :: addr where "iedModel_GenericIO_TIM_GAPC1_OpCntRs_Oper_Check \<equiv> 1189"
abbreviation (input) iedModel_GenericIO_TIM_GAPC1_OpCntRs_ctlModel :: addr where "iedModel_GenericIO_TIM_GAPC1_OpCntRs_ctlModel \<equiv> 1190"
abbreviation (input) iedModel_GenericIO_T60S_FSCH1 :: addr where "iedModel_GenericIO_T60S_FSCH1 \<equiv> 1191"
abbreviation (input) iedModel_GenericIO_T60S_FSCH1_Beh :: addr where "iedModel_GenericIO_T60S_FSCH1_Beh \<equiv> 1192"
abbreviation (input) iedModel_GenericIO_T60S_FSCH1_Beh_stVal :: addr where "iedModel_GenericIO_T60S_FSCH1_Beh_stVal \<equiv> 1193"
abbreviation (input) iedModel_GenericIO_T60S_FSCH1_Beh_q :: addr where "iedModel_GenericIO_T60S_FSCH1_Beh_q \<equiv> 1194"
abbreviation (input) iedModel_GenericIO_T60S_FSCH1_Beh_t :: addr where "iedModel_GenericIO_T60S_FSCH1_Beh_t \<equiv> 1195"
abbreviation (input) iedModel_GenericIO_T60S_FSCH1_SchdSt :: addr where "iedModel_GenericIO_T60S_FSCH1_SchdSt \<equiv> 1196"
abbreviation (input) iedModel_GenericIO_T60S_FSCH1_SchdSt_stVal :: addr where "iedModel_GenericIO_T60S_FSCH1_SchdSt_stVal \<equiv> 1197"
abbreviation (input) iedModel_GenericIO_T60S_FSCH1_SchdSt_q :: addr where "iedModel_GenericIO_T60S_FSCH1_SchdSt_q \<equiv> 1198"
abbreviation (input) iedModel_GenericIO_T60S_FSCH1_SchdSt_t :: addr where "iedModel_GenericIO_T60S_FSCH1_SchdSt_t \<equiv> 1199"
abbreviation (input) iedModel_GenericIO_T60S_FSCH1_SchdEntr :: addr where "iedModel_GenericIO_T60S_FSCH1_SchdEntr \<equiv> 1200"
abbreviation (input) iedModel_GenericIO_T60S_FSCH1_SchdEntr_stVal :: addr where "iedModel_GenericIO_T60S_FSCH1_SchdEntr_stVal \<equiv> 1201"
abbreviation (input) iedModel_GenericIO_T60S_FSCH1_SchdEntr_q :: addr where "iedModel_GenericIO_T60S_FSCH1_SchdEntr_q \<equiv> 1202"
abbreviation (input) iedModel_GenericIO_T60S_FSCH1_SchdEntr_t :: addr where "iedModel_GenericIO_T60S_FSCH1_SchdEntr_t \<equiv> 1203"
abbreviation (input) iedModel_GenericIO_T60S_FSCH1_ValSPS :: addr where "iedModel_GenericIO_T60S_FSCH1_ValSPS \<equiv> 1204"
abbreviation (input) iedModel_GenericIO_T60S_FSCH1_ValSPS_stVal :: addr where "iedModel_GenericIO_T60S_FSCH1_ValSPS_stVal \<equiv> 1205"
abbreviation (input) iedModel_GenericIO_T60S_FSCH1_ValSPS_q :: addr where "iedModel_GenericIO_T60S_FSCH1_ValSPS_q \<equiv> 1206"
abbreviation (input) iedModel_GenericIO_T60S_FSCH1_ValSPS_t :: addr where "iedModel_GenericIO_T60S_FSCH1_ValSPS_t \<equiv> 1207"
abbreviation (input) iedModel_GenericIO_T60S_FSCH1_VldReq :: addr where "iedModel_GenericIO_T60S_FSCH1_VldReq \<equiv> 1208"
abbreviation (input) iedModel_GenericIO_T60S_FSCH1_VldReq_stVal :: addr where "iedModel_GenericIO_T60S_FSCH1_VldReq_stVal \<equiv> 1209"
abbreviation (input) iedModel_GenericIO_T60S_FSCH1_VldReq_q :: addr where "iedModel_GenericIO_T60S_FSCH1_VldReq_q \<equiv> 1210"
abbreviation (input) iedModel_GenericIO_T60S_FSCH1_VldReq_Oper :: addr where "iedModel_GenericIO_T60S_FSCH1_VldReq_Oper \<equiv> 1211"
abbreviation (input) iedModel_GenericIO_T60S_FSCH1_VldReq_Oper_ctlVal :: addr where "iedModel_GenericIO_T60S_FSCH1_VldReq_Oper_ctlVal \<equiv> 1212"
abbreviation (input) iedModel_GenericIO_T60S_FSCH1_VldReq_Oper_origin :: addr where "iedModel_GenericIO_T60S_FSCH1_VldReq_Oper_origin \<equiv> 1213"
abbreviation (input) iedModel_GenericIO_T60S_FSCH1_VldReq_Oper_origin_orCat :: addr where "iedModel_GenericIO_T60S_FSCH1_VldReq_Oper_origin_orCat \<equiv> 1214"
abbreviation (input) iedModel_GenericIO_T60S_FSCH1_VldReq_Oper_origin_orIdent :: addr where "iedModel_GenericIO_T60S_FSCH1_VldReq_Oper_origin_orIdent \<equiv> 1215"
abbreviation (input) iedModel_GenericIO_T60S_FSCH1_VldReq_Oper_ctlNum :: addr where "iedModel_GenericIO_T60S_FSCH1_VldReq_Oper_ctlNum \<equiv> 1216"
abbreviation (input) iedModel_GenericIO_T60S_FSCH1_VldReq_Oper_T :: addr where "iedModel_GenericIO_T60S_FSCH1_VldReq_Oper_T \<equiv> 1217"
abbreviation (input) iedModel_GenericIO_T60S_FSCH1_VldReq_Oper_Test :: addr where "iedModel_GenericIO_T60S_FSCH1_VldReq_Oper_Test \<equiv> 1218"
abbreviation (input) iedModel_GenericIO_T60S_FSCH1_VldReq_Oper_Check :: addr where "iedModel_GenericIO_T60S_FSCH1_VldReq_Oper_Check \<equiv> 1219"
abbreviation (input) iedModel_GenericIO_T60S_FSCH1_VldReq_ctlModel :: addr where "iedModel_GenericIO_T60S_FSCH1_VldReq_ctlModel \<equiv> 1220"
abbreviation (input) iedModel_GenericIO_T60S_FSCH1_VldReq_t :: addr where "iedModel_GenericIO_T60S_FSCH1_VldReq_t \<equiv> 1221"
abbreviation (input) iedModel_GenericIO_T60S_FSCH1_EnaReq :: addr where "iedModel_GenericIO_T60S_FSCH1_EnaReq \<equiv> 1222"
abbreviation (input) iedModel_GenericIO_T60S_FSCH1_EnaReq_stVal :: addr where "iedModel_GenericIO_T60S_FSCH1_EnaReq_stVal \<equiv> 1223"
abbreviation (input) iedModel_GenericIO_T60S_FSCH1_EnaReq_q :: addr where "iedModel_GenericIO_T60S_FSCH1_EnaReq_q \<equiv> 1224"
abbreviation (input) iedModel_GenericIO_T60S_FSCH1_EnaReq_Oper :: addr where "iedModel_GenericIO_T60S_FSCH1_EnaReq_Oper \<equiv> 1225"
abbreviation (input) iedModel_GenericIO_T60S_FSCH1_EnaReq_Oper_ctlVal :: addr where "iedModel_GenericIO_T60S_FSCH1_EnaReq_Oper_ctlVal \<equiv> 1226"
abbreviation (input) iedModel_GenericIO_T60S_FSCH1_EnaReq_Oper_origin :: addr where "iedModel_GenericIO_T60S_FSCH1_EnaReq_Oper_origin \<equiv> 1227"
abbreviation (input) iedModel_GenericIO_T60S_FSCH1_EnaReq_Oper_origin_orCat :: addr where "iedModel_GenericIO_T60S_FSCH1_EnaReq_Oper_origin_orCat \<equiv> 1228"
abbreviation (input) iedModel_GenericIO_T60S_FSCH1_EnaReq_Oper_origin_orIdent :: addr where "iedModel_GenericIO_T60S_FSCH1_EnaReq_Oper_origin_orIdent \<equiv> 1229"
abbreviation (input) iedModel_GenericIO_T60S_FSCH1_EnaReq_Oper_ctlNum :: addr where "iedModel_GenericIO_T60S_FSCH1_EnaReq_Oper_ctlNum \<equiv> 1230"
abbreviation (input) iedModel_GenericIO_T60S_FSCH1_EnaReq_Oper_T :: addr where "iedModel_GenericIO_T60S_FSCH1_EnaReq_Oper_T \<equiv> 1231"
abbreviation (input) iedModel_GenericIO_T60S_FSCH1_EnaReq_Oper_Test :: addr where "iedModel_GenericIO_T60S_FSCH1_EnaReq_Oper_Test \<equiv> 1232"
abbreviation (input) iedModel_GenericIO_T60S_FSCH1_EnaReq_Oper_Check :: addr where "iedModel_GenericIO_T60S_FSCH1_EnaReq_Oper_Check \<equiv> 1233"
abbreviation (input) iedModel_GenericIO_T60S_FSCH1_EnaReq_ctlModel :: addr where "iedModel_GenericIO_T60S_FSCH1_EnaReq_ctlModel \<equiv> 1234"
abbreviation (input) iedModel_GenericIO_T60S_FSCH1_EnaReq_t :: addr where "iedModel_GenericIO_T60S_FSCH1_EnaReq_t \<equiv> 1235"
abbreviation (input) iedModel_GenericIO_T60S_FSCH1_EdtReq :: addr where "iedModel_GenericIO_T60S_FSCH1_EdtReq \<equiv> 1236"
abbreviation (input) iedModel_GenericIO_T60S_FSCH1_EdtReq_stVal :: addr where "iedModel_GenericIO_T60S_FSCH1_EdtReq_stVal \<equiv> 1237"
abbreviation (input) iedModel_GenericIO_T60S_FSCH1_EdtReq_q :: addr where "iedModel_GenericIO_T60S_FSCH1_EdtReq_q \<equiv> 1238"
abbreviation (input) iedModel_GenericIO_T60S_FSCH1_EdtReq_Oper :: addr where "iedModel_GenericIO_T60S_FSCH1_EdtReq_Oper \<equiv> 1239"
abbreviation (input) iedModel_GenericIO_T60S_FSCH1_EdtReq_Oper_ctlVal :: addr where "iedModel_GenericIO_T60S_FSCH1_EdtReq_Oper_ctlVal \<equiv> 1240"
abbreviation (input) iedModel_GenericIO_T60S_FSCH1_EdtReq_Oper_origin :: addr where "iedModel_GenericIO_T60S_FSCH1_EdtReq_Oper_origin \<equiv> 1241"
abbreviation (input) iedModel_GenericIO_T60S_FSCH1_EdtReq_Oper_origin_orCat :: addr where "iedModel_GenericIO_T60S_FSCH1_EdtReq_Oper_origin_orCat \<equiv> 1242"
abbreviation (input) iedModel_GenericIO_T60S_FSCH1_EdtReq_Oper_origin_orIdent :: addr where "iedModel_GenericIO_T60S_FSCH1_EdtReq_Oper_origin_orIdent \<equiv> 1243"
abbreviation (input) iedModel_GenericIO_T60S_FSCH1_EdtReq_Oper_ctlNum :: addr where "iedModel_GenericIO_T60S_FSCH1_EdtReq_Oper_ctlNum \<equiv> 1244"
abbreviation (input) iedModel_GenericIO_T60S_FSCH1_EdtReq_Oper_T :: addr where "iedModel_GenericIO_T60S_FSCH1_EdtReq_Oper_T \<equiv> 1245"
abbreviation (input) iedModel_GenericIO_T60S_FSCH1_EdtReq_Oper_Test :: addr where "iedModel_GenericIO_T60S_FSCH1_EdtReq_Oper_Test \<equiv> 1246"
abbreviation (input) iedModel_GenericIO_T60S_FSCH1_EdtReq_Oper_Check :: addr where "iedModel_GenericIO_T60S_FSCH1_EdtReq_Oper_Check \<equiv> 1247"
abbreviation (input) iedModel_GenericIO_T60S_FSCH1_EdtReq_ctlModel :: addr where "iedModel_GenericIO_T60S_FSCH1_EdtReq_ctlModel \<equiv> 1248"
abbreviation (input) iedModel_GenericIO_T60S_FSCH1_EdtReq_t :: addr where "iedModel_GenericIO_T60S_FSCH1_EdtReq_t \<equiv> 1249"
abbreviation (input) iedModel_GenericIO_T60S_FSCH1_DsaReq :: addr where "iedModel_GenericIO_T60S_FSCH1_DsaReq \<equiv> 1250"
abbreviation (input) iedModel_GenericIO_T60S_FSCH1_DsaReq_stVal :: addr where "iedModel_GenericIO_T60S_FSCH1_DsaReq_stVal \<equiv> 1251"
abbreviation (input) iedModel_GenericIO_T60S_FSCH1_DsaReq_q :: addr where "iedModel_GenericIO_T60S_FSCH1_DsaReq_q \<equiv> 1252"
abbreviation (input) iedModel_GenericIO_T60S_FSCH1_DsaReq_Oper :: addr where "iedModel_GenericIO_T60S_FSCH1_DsaReq_Oper \<equiv> 1253"
abbreviation (input) iedModel_GenericIO_T60S_FSCH1_DsaReq_Oper_ctlVal :: addr where "iedModel_GenericIO_T60S_FSCH1_DsaReq_Oper_ctlVal \<equiv> 1254"
abbreviation (input) iedModel_GenericIO_T60S_FSCH1_DsaReq_Oper_origin :: addr where "iedModel_GenericIO_T60S_FSCH1_DsaReq_Oper_origin \<equiv> 1255"
abbreviation (input) iedModel_GenericIO_T60S_FSCH1_DsaReq_Oper_origin_orCat :: addr where "iedModel_GenericIO_T60S_FSCH1_DsaReq_Oper_origin_orCat \<equiv> 1256"
abbreviation (input) iedModel_GenericIO_T60S_FSCH1_DsaReq_Oper_origin_orIdent :: addr where "iedModel_GenericIO_T60S_FSCH1_DsaReq_Oper_origin_orIdent \<equiv> 1257"
abbreviation (input) iedModel_GenericIO_T60S_FSCH1_DsaReq_Oper_ctlNum :: addr where "iedModel_GenericIO_T60S_FSCH1_DsaReq_Oper_ctlNum \<equiv> 1258"
abbreviation (input) iedModel_GenericIO_T60S_FSCH1_DsaReq_Oper_T :: addr where "iedModel_GenericIO_T60S_FSCH1_DsaReq_Oper_T \<equiv> 1259"
abbreviation (input) iedModel_GenericIO_T60S_FSCH1_DsaReq_Oper_Test :: addr where "iedModel_GenericIO_T60S_FSCH1_DsaReq_Oper_Test \<equiv> 1260"
abbreviation (input) iedModel_GenericIO_T60S_FSCH1_DsaReq_Oper_Check :: addr where "iedModel_GenericIO_T60S_FSCH1_DsaReq_Oper_Check \<equiv> 1261"
abbreviation (input) iedModel_GenericIO_T60S_FSCH1_DsaReq_ctlModel :: addr where "iedModel_GenericIO_T60S_FSCH1_DsaReq_ctlModel \<equiv> 1262"
abbreviation (input) iedModel_GenericIO_T60S_FSCH1_DsaReq_t :: addr where "iedModel_GenericIO_T60S_FSCH1_DsaReq_t \<equiv> 1263"
abbreviation (input) iedModel_GenericIO_T60S_FSCH1_SchdPrio :: addr where "iedModel_GenericIO_T60S_FSCH1_SchdPrio \<equiv> 1264"
abbreviation (input) iedModel_GenericIO_T60S_FSCH1_SchdPrio_setVal :: addr where "iedModel_GenericIO_T60S_FSCH1_SchdPrio_setVal \<equiv> 1265"
abbreviation (input) iedModel_GenericIO_T60S_FSCH1_NumEntr :: addr where "iedModel_GenericIO_T60S_FSCH1_NumEntr \<equiv> 1266"
abbreviation (input) iedModel_GenericIO_T60S_FSCH1_NumEntr_setVal :: addr where "iedModel_GenericIO_T60S_FSCH1_NumEntr_setVal \<equiv> 1267"
abbreviation (input) iedModel_GenericIO_T60S_FSCH1_SchdIntv :: addr where "iedModel_GenericIO_T60S_FSCH1_SchdIntv \<equiv> 1268"
abbreviation (input) iedModel_GenericIO_T60S_FSCH1_SchdIntv_setVal :: addr where "iedModel_GenericIO_T60S_FSCH1_SchdIntv_setVal \<equiv> 1269"
abbreviation (input) iedModel_GenericIO_T60S_FSCH1_ValSPG1 :: addr where "iedModel_GenericIO_T60S_FSCH1_ValSPG1 \<equiv> 1270"
abbreviation (input) iedModel_GenericIO_T60S_FSCH1_ValSPG1_setVal :: addr where "iedModel_GenericIO_T60S_FSCH1_ValSPG1_setVal \<equiv> 1271"
abbreviation (input) iedModel_GenericIO_T60S_FSCH1_ValSPG2 :: addr where "iedModel_GenericIO_T60S_FSCH1_ValSPG2 \<equiv> 1272"
abbreviation (input) iedModel_GenericIO_T60S_FSCH1_ValSPG2_setVal :: addr where "iedModel_GenericIO_T60S_FSCH1_ValSPG2_setVal \<equiv> 1273"
abbreviation (input) iedModel_GenericIO_T60S_FSCH1_ValSPG3 :: addr where "iedModel_GenericIO_T60S_FSCH1_ValSPG3 \<equiv> 1274"
abbreviation (input) iedModel_GenericIO_T60S_FSCH1_ValSPG3_setVal :: addr where "iedModel_GenericIO_T60S_FSCH1_ValSPG3_setVal \<equiv> 1275"
abbreviation (input) iedModel_GenericIO_T60S_FSCH1_ValSPG4 :: addr where "iedModel_GenericIO_T60S_FSCH1_ValSPG4 \<equiv> 1276"
abbreviation (input) iedModel_GenericIO_T60S_FSCH1_ValSPG4_setVal :: addr where "iedModel_GenericIO_T60S_FSCH1_ValSPG4_setVal \<equiv> 1277"
abbreviation (input) iedModel_GenericIO_T60S_FSCH1_ValSPG5 :: addr where "iedModel_GenericIO_T60S_FSCH1_ValSPG5 \<equiv> 1278"
abbreviation (input) iedModel_GenericIO_T60S_FSCH1_ValSPG5_setVal :: addr where "iedModel_GenericIO_T60S_FSCH1_ValSPG5_setVal \<equiv> 1279"
abbreviation (input) iedModel_GenericIO_T60S_FSCH1_ValSPG6 :: addr where "iedModel_GenericIO_T60S_FSCH1_ValSPG6 \<equiv> 1280"
abbreviation (input) iedModel_GenericIO_T60S_FSCH1_ValSPG6_setVal :: addr where "iedModel_GenericIO_T60S_FSCH1_ValSPG6_setVal \<equiv> 1281"
abbreviation (input) iedModel_GenericIO_T60S_FSCH1_ValSPG7 :: addr where "iedModel_GenericIO_T60S_FSCH1_ValSPG7 \<equiv> 1282"
abbreviation (input) iedModel_GenericIO_T60S_FSCH1_ValSPG7_setVal :: addr where "iedModel_GenericIO_T60S_FSCH1_ValSPG7_setVal \<equiv> 1283"
abbreviation (input) iedModel_GenericIO_T60S_FSCH1_ValSPG8 :: addr where "iedModel_GenericIO_T60S_FSCH1_ValSPG8 \<equiv> 1284"
abbreviation (input) iedModel_GenericIO_T60S_FSCH1_ValSPG8_setVal :: addr where "iedModel_GenericIO_T60S_FSCH1_ValSPG8_setVal \<equiv> 1285"
abbreviation (input) iedModel_GenericIO_T60S_FSCH1_ValSPG9 :: addr where "iedModel_GenericIO_T60S_FSCH1_ValSPG9 \<equiv> 1286"
abbreviation (input) iedModel_GenericIO_T60S_FSCH1_ValSPG9_setVal :: addr where "iedModel_GenericIO_T60S_FSCH1_ValSPG9_setVal \<equiv> 1287"
abbreviation (input) iedModel_GenericIO_T60S_FSCH1_ValSPG10 :: addr where "iedModel_GenericIO_T60S_FSCH1_ValSPG10 \<equiv> 1288"
abbreviation (input) iedModel_GenericIO_T60S_FSCH1_ValSPG10_setVal :: addr where "iedModel_GenericIO_T60S_FSCH1_ValSPG10_setVal \<equiv> 1289"
abbreviation (input) iedModel_GenericIO_T60S_FSCH1_ValSPG11 :: addr where "iedModel_GenericIO_T60S_FSCH1_ValSPG11 \<equiv> 1290"
abbreviation (input) iedModel_GenericIO_T60S_FSCH1_ValSPG11_setVal :: addr where "iedModel_GenericIO_T60S_FSCH1_ValSPG11_setVal \<equiv> 1291"
abbreviation (input) iedModel_GenericIO_T60S_FSCH1_ValSPG12 :: addr where "iedModel_GenericIO_T60S_FSCH1_ValSPG12 \<equiv> 1292"
abbreviation (input) iedModel_GenericIO_T60S_FSCH1_ValSPG12_setVal :: addr where "iedModel_GenericIO_T60S_FSCH1_ValSPG12_setVal \<equiv> 1293"
abbreviation (input) iedModel_GenericIO_T60S_FSCH1_ValSPG13 :: addr where "iedModel_GenericIO_T60S_FSCH1_ValSPG13 \<equiv> 1294"
abbreviation (input) iedModel_GenericIO_T60S_FSCH1_ValSPG13_setVal :: addr where "iedModel_GenericIO_T60S_FSCH1_ValSPG13_setVal \<equiv> 1295"
abbreviation (input) iedModel_GenericIO_T60S_FSCH1_ValSPG14 :: addr where "iedModel_GenericIO_T60S_FSCH1_ValSPG14 \<equiv> 1296"
abbreviation (input) iedModel_GenericIO_T60S_FSCH1_ValSPG14_setVal :: addr where "iedModel_GenericIO_T60S_FSCH1_ValSPG14_setVal \<equiv> 1297"
abbreviation (input) iedModel_GenericIO_T60S_FSCH1_ValSPG15 :: addr where "iedModel_GenericIO_T60S_FSCH1_ValSPG15 \<equiv> 1298"
abbreviation (input) iedModel_GenericIO_T60S_FSCH1_ValSPG15_setVal :: addr where "iedModel_GenericIO_T60S_FSCH1_ValSPG15_setVal \<equiv> 1299"
abbreviation (input) iedModel_GenericIO_T60S_FSCH1_ValSPG16 :: addr where "iedModel_GenericIO_T60S_FSCH1_ValSPG16 \<equiv> 1300"
abbreviation (input) iedModel_GenericIO_T60S_FSCH1_ValSPG16_setVal :: addr where "iedModel_GenericIO_T60S_FSCH1_ValSPG16_setVal \<equiv> 1301"
abbreviation (input) iedModel_GenericIO_T60S_FSCH1_ValSPG17 :: addr where "iedModel_GenericIO_T60S_FSCH1_ValSPG17 \<equiv> 1302"
abbreviation (input) iedModel_GenericIO_T60S_FSCH1_ValSPG17_setVal :: addr where "iedModel_GenericIO_T60S_FSCH1_ValSPG17_setVal \<equiv> 1303"
abbreviation (input) iedModel_GenericIO_T60S_FSCH1_ValSPG18 :: addr where "iedModel_GenericIO_T60S_FSCH1_ValSPG18 \<equiv> 1304"
abbreviation (input) iedModel_GenericIO_T60S_FSCH1_ValSPG18_setVal :: addr where "iedModel_GenericIO_T60S_FSCH1_ValSPG18_setVal \<equiv> 1305"
abbreviation (input) iedModel_GenericIO_T60S_FSCH1_ValSPG19 :: addr where "iedModel_GenericIO_T60S_FSCH1_ValSPG19 \<equiv> 1306"
abbreviation (input) iedModel_GenericIO_T60S_FSCH1_ValSPG19_setVal :: addr where "iedModel_GenericIO_T60S_FSCH1_ValSPG19_setVal \<equiv> 1307"
abbreviation (input) iedModel_GenericIO_T60S_FSCH1_ValSPG20 :: addr where "iedModel_GenericIO_T60S_FSCH1_ValSPG20 \<equiv> 1308"
abbreviation (input) iedModel_GenericIO_T60S_FSCH1_ValSPG20_setVal :: addr where "iedModel_GenericIO_T60S_FSCH1_ValSPG20_setVal \<equiv> 1309"
abbreviation (input) iedModel_GenericIO_T60S_FSCH1_ValSPG21 :: addr where "iedModel_GenericIO_T60S_FSCH1_ValSPG21 \<equiv> 1310"
abbreviation (input) iedModel_GenericIO_T60S_FSCH1_ValSPG21_setVal :: addr where "iedModel_GenericIO_T60S_FSCH1_ValSPG21_setVal \<equiv> 1311"
abbreviation (input) iedModel_GenericIO_T60S_FSCH1_ValSPG22 :: addr where "iedModel_GenericIO_T60S_FSCH1_ValSPG22 \<equiv> 1312"
abbreviation (input) iedModel_GenericIO_T60S_FSCH1_ValSPG22_setVal :: addr where "iedModel_GenericIO_T60S_FSCH1_ValSPG22_setVal \<equiv> 1313"
abbreviation (input) iedModel_GenericIO_T60S_FSCH1_ValSPG23 :: addr where "iedModel_GenericIO_T60S_FSCH1_ValSPG23 \<equiv> 1314"
abbreviation (input) iedModel_GenericIO_T60S_FSCH1_ValSPG23_setVal :: addr where "iedModel_GenericIO_T60S_FSCH1_ValSPG23_setVal \<equiv> 1315"
abbreviation (input) iedModel_GenericIO_T60S_FSCH1_ValSPG24 :: addr where "iedModel_GenericIO_T60S_FSCH1_ValSPG24 \<equiv> 1316"
abbreviation (input) iedModel_GenericIO_T60S_FSCH1_ValSPG24_setVal :: addr where "iedModel_GenericIO_T60S_FSCH1_ValSPG24_setVal \<equiv> 1317"
abbreviation (input) iedModel_GenericIO_T60S_FSCH1_ValSPG25 :: addr where "iedModel_GenericIO_T60S_FSCH1_ValSPG25 \<equiv> 1318"
abbreviation (input) iedModel_GenericIO_T60S_FSCH1_ValSPG25_setVal :: addr where "iedModel_GenericIO_T60S_FSCH1_ValSPG25_setVal \<equiv> 1319"
abbreviation (input) iedModel_GenericIO_T60S_FSCH1_ValSPG26 :: addr where "iedModel_GenericIO_T60S_FSCH1_ValSPG26 \<equiv> 1320"
abbreviation (input) iedModel_GenericIO_T60S_FSCH1_ValSPG26_setVal :: addr where "iedModel_GenericIO_T60S_FSCH1_ValSPG26_setVal \<equiv> 1321"
abbreviation (input) iedModel_GenericIO_T60S_FSCH1_ValSPG27 :: addr where "iedModel_GenericIO_T60S_FSCH1_ValSPG27 \<equiv> 1322"
abbreviation (input) iedModel_GenericIO_T60S_FSCH1_ValSPG27_setVal :: addr where "iedModel_GenericIO_T60S_FSCH1_ValSPG27_setVal \<equiv> 1323"
abbreviation (input) iedModel_GenericIO_T60S_FSCH1_ValSPG28 :: addr where "iedModel_GenericIO_T60S_FSCH1_ValSPG28 \<equiv> 1324"
abbreviation (input) iedModel_GenericIO_T60S_FSCH1_ValSPG28_setVal :: addr where "iedModel_GenericIO_T60S_FSCH1_ValSPG28_setVal \<equiv> 1325"
abbreviation (input) iedModel_GenericIO_T60S_FSCH1_ValSPG29 :: addr where "iedModel_GenericIO_T60S_FSCH1_ValSPG29 \<equiv> 1326"
abbreviation (input) iedModel_GenericIO_T60S_FSCH1_ValSPG29_setVal :: addr where "iedModel_GenericIO_T60S_FSCH1_ValSPG29_setVal \<equiv> 1327"
abbreviation (input) iedModel_GenericIO_T60S_FSCH1_ValSPG30 :: addr where "iedModel_GenericIO_T60S_FSCH1_ValSPG30 \<equiv> 1328"
abbreviation (input) iedModel_GenericIO_T60S_FSCH1_ValSPG30_setVal :: addr where "iedModel_GenericIO_T60S_FSCH1_ValSPG30_setVal \<equiv> 1329"
abbreviation (input) iedModel_GenericIO_T60S_FSCH1_ValSPG31 :: addr where "iedModel_GenericIO_T60S_FSCH1_ValSPG31 \<equiv> 1330"
abbreviation (input) iedModel_GenericIO_T60S_FSCH1_ValSPG31_setVal :: addr where "iedModel_GenericIO_T60S_FSCH1_ValSPG31_setVal \<equiv> 1331"
abbreviation (input) iedModel_GenericIO_T60S_FSCH1_ValSPG32 :: addr where "iedModel_GenericIO_T60S_FSCH1_ValSPG32 \<equiv> 1332"
abbreviation (input) iedModel_GenericIO_T60S_FSCH1_ValSPG32_setVal :: addr where "iedModel_GenericIO_T60S_FSCH1_ValSPG32_setVal \<equiv> 1333"
abbreviation (input) iedModel_GenericIO_T60S_FSCH1_ValSPG33 :: addr where "iedModel_GenericIO_T60S_FSCH1_ValSPG33 \<equiv> 1334"
abbreviation (input) iedModel_GenericIO_T60S_FSCH1_ValSPG33_setVal :: addr where "iedModel_GenericIO_T60S_FSCH1_ValSPG33_setVal \<equiv> 1335"
abbreviation (input) iedModel_GenericIO_T60S_FSCH1_ValSPG34 :: addr where "iedModel_GenericIO_T60S_FSCH1_ValSPG34 \<equiv> 1336"
abbreviation (input) iedModel_GenericIO_T60S_FSCH1_ValSPG34_setVal :: addr where "iedModel_GenericIO_T60S_FSCH1_ValSPG34_setVal \<equiv> 1337"
abbreviation (input) iedModel_GenericIO_T60S_FSCH1_ValSPG35 :: addr where "iedModel_GenericIO_T60S_FSCH1_ValSPG35 \<equiv> 1338"
abbreviation (input) iedModel_GenericIO_T60S_FSCH1_ValSPG35_setVal :: addr where "iedModel_GenericIO_T60S_FSCH1_ValSPG35_setVal \<equiv> 1339"
abbreviation (input) iedModel_GenericIO_T60S_FSCH1_ValSPG36 :: addr where "iedModel_GenericIO_T60S_FSCH1_ValSPG36 \<equiv> 1340"
abbreviation (input) iedModel_GenericIO_T60S_FSCH1_ValSPG36_setVal :: addr where "iedModel_GenericIO_T60S_FSCH1_ValSPG36_setVal \<equiv> 1341"
abbreviation (input) iedModel_GenericIO_T60S_FSCH1_ValSPG37 :: addr where "iedModel_GenericIO_T60S_FSCH1_ValSPG37 \<equiv> 1342"
abbreviation (input) iedModel_GenericIO_T60S_FSCH1_ValSPG37_setVal :: addr where "iedModel_GenericIO_T60S_FSCH1_ValSPG37_setVal \<equiv> 1343"
abbreviation (input) iedModel_GenericIO_T60S_FSCH1_ValSPG38 :: addr where "iedModel_GenericIO_T60S_FSCH1_ValSPG38 \<equiv> 1344"
abbreviation (input) iedModel_GenericIO_T60S_FSCH1_ValSPG38_setVal :: addr where "iedModel_GenericIO_T60S_FSCH1_ValSPG38_setVal \<equiv> 1345"
abbreviation (input) iedModel_GenericIO_T60S_FSCH1_ValSPG39 :: addr where "iedModel_GenericIO_T60S_FSCH1_ValSPG39 \<equiv> 1346"
abbreviation (input) iedModel_GenericIO_T60S_FSCH1_ValSPG39_setVal :: addr where "iedModel_GenericIO_T60S_FSCH1_ValSPG39_setVal \<equiv> 1347"
abbreviation (input) iedModel_GenericIO_T60S_FSCH1_ValSPG40 :: addr where "iedModel_GenericIO_T60S_FSCH1_ValSPG40 \<equiv> 1348"
abbreviation (input) iedModel_GenericIO_T60S_FSCH1_ValSPG40_setVal :: addr where "iedModel_GenericIO_T60S_FSCH1_ValSPG40_setVal \<equiv> 1349"
abbreviation (input) iedModel_GenericIO_T60S_FSCH1_ValSPG41 :: addr where "iedModel_GenericIO_T60S_FSCH1_ValSPG41 \<equiv> 1350"
abbreviation (input) iedModel_GenericIO_T60S_FSCH1_ValSPG41_setVal :: addr where "iedModel_GenericIO_T60S_FSCH1_ValSPG41_setVal \<equiv> 1351"
abbreviation (input) iedModel_GenericIO_T60S_FSCH1_ValSPG42 :: addr where "iedModel_GenericIO_T60S_FSCH1_ValSPG42 \<equiv> 1352"
abbreviation (input) iedModel_GenericIO_T60S_FSCH1_ValSPG42_setVal :: addr where "iedModel_GenericIO_T60S_FSCH1_ValSPG42_setVal \<equiv> 1353"
abbreviation (input) iedModel_GenericIO_T60S_FSCH1_ValSPG43 :: addr where "iedModel_GenericIO_T60S_FSCH1_ValSPG43 \<equiv> 1354"
abbreviation (input) iedModel_GenericIO_T60S_FSCH1_ValSPG43_setVal :: addr where "iedModel_GenericIO_T60S_FSCH1_ValSPG43_setVal \<equiv> 1355"
abbreviation (input) iedModel_GenericIO_T60S_FSCH1_ValSPG44 :: addr where "iedModel_GenericIO_T60S_FSCH1_ValSPG44 \<equiv> 1356"
abbreviation (input) iedModel_GenericIO_T60S_FSCH1_ValSPG44_setVal :: addr where "iedModel_GenericIO_T60S_FSCH1_ValSPG44_setVal \<equiv> 1357"
abbreviation (input) iedModel_GenericIO_T60S_FSCH1_ValSPG45 :: addr where "iedModel_GenericIO_T60S_FSCH1_ValSPG45 \<equiv> 1358"
abbreviation (input) iedModel_GenericIO_T60S_FSCH1_ValSPG45_setVal :: addr where "iedModel_GenericIO_T60S_FSCH1_ValSPG45_setVal \<equiv> 1359"
abbreviation (input) iedModel_GenericIO_T60S_FSCH1_ValSPG46 :: addr where "iedModel_GenericIO_T60S_FSCH1_ValSPG46 \<equiv> 1360"
abbreviation (input) iedModel_GenericIO_T60S_FSCH1_ValSPG46_setVal :: addr where "iedModel_GenericIO_T60S_FSCH1_ValSPG46_setVal \<equiv> 1361"
abbreviation (input) iedModel_GenericIO_T60S_FSCH1_ValSPG47 :: addr where "iedModel_GenericIO_T60S_FSCH1_ValSPG47 \<equiv> 1362"
abbreviation (input) iedModel_GenericIO_T60S_FSCH1_ValSPG47_setVal :: addr where "iedModel_GenericIO_T60S_FSCH1_ValSPG47_setVal \<equiv> 1363"
abbreviation (input) iedModel_GenericIO_T60S_FSCH1_ValSPG48 :: addr where "iedModel_GenericIO_T60S_FSCH1_ValSPG48 \<equiv> 1364"
abbreviation (input) iedModel_GenericIO_T60S_FSCH1_ValSPG48_setVal :: addr where "iedModel_GenericIO_T60S_FSCH1_ValSPG48_setVal \<equiv> 1365"
abbreviation (input) iedModel_GenericIO_T60S_FSCH1_ValSPG49 :: addr where "iedModel_GenericIO_T60S_FSCH1_ValSPG49 \<equiv> 1366"
abbreviation (input) iedModel_GenericIO_T60S_FSCH1_ValSPG49_setVal :: addr where "iedModel_GenericIO_T60S_FSCH1_ValSPG49_setVal \<equiv> 1367"
abbreviation (input) iedModel_GenericIO_T60S_FSCH1_ValSPG50 :: addr where "iedModel_GenericIO_T60S_FSCH1_ValSPG50 \<equiv> 1368"
abbreviation (input) iedModel_GenericIO_T60S_FSCH1_ValSPG50_setVal :: addr where "iedModel_GenericIO_T60S_FSCH1_ValSPG50_setVal \<equiv> 1369"
abbreviation (input) iedModel_GenericIO_T60S_FSCH1_ValSPG51 :: addr where "iedModel_GenericIO_T60S_FSCH1_ValSPG51 \<equiv> 1370"
abbreviation (input) iedModel_GenericIO_T60S_FSCH1_ValSPG51_setVal :: addr where "iedModel_GenericIO_T60S_FSCH1_ValSPG51_setVal \<equiv> 1371"
abbreviation (input) iedModel_GenericIO_T60S_FSCH1_ValSPG52 :: addr where "iedModel_GenericIO_T60S_FSCH1_ValSPG52 \<equiv> 1372"
abbreviation (input) iedModel_GenericIO_T60S_FSCH1_ValSPG52_setVal :: addr where "iedModel_GenericIO_T60S_FSCH1_ValSPG52_setVal \<equiv> 1373"
abbreviation (input) iedModel_GenericIO_T60S_FSCH1_ValSPG53 :: addr where "iedModel_GenericIO_T60S_FSCH1_ValSPG53 \<equiv> 1374"
abbreviation (input) iedModel_GenericIO_T60S_FSCH1_ValSPG53_setVal :: addr where "iedModel_GenericIO_T60S_FSCH1_ValSPG53_setVal \<equiv> 1375"
abbreviation (input) iedModel_GenericIO_T60S_FSCH1_ValSPG54 :: addr where "iedModel_GenericIO_T60S_FSCH1_ValSPG54 \<equiv> 1376"
abbreviation (input) iedModel_GenericIO_T60S_FSCH1_ValSPG54_setVal :: addr where "iedModel_GenericIO_T60S_FSCH1_ValSPG54_setVal \<equiv> 1377"
abbreviation (input) iedModel_GenericIO_T60S_FSCH1_ValSPG55 :: addr where "iedModel_GenericIO_T60S_FSCH1_ValSPG55 \<equiv> 1378"
abbreviation (input) iedModel_GenericIO_T60S_FSCH1_ValSPG55_setVal :: addr where "iedModel_GenericIO_T60S_FSCH1_ValSPG55_setVal \<equiv> 1379"
abbreviation (input) iedModel_GenericIO_T60S_FSCH1_ValSPG56 :: addr where "iedModel_GenericIO_T60S_FSCH1_ValSPG56 \<equiv> 1380"
abbreviation (input) iedModel_GenericIO_T60S_FSCH1_ValSPG56_setVal :: addr where "iedModel_GenericIO_T60S_FSCH1_ValSPG56_setVal \<equiv> 1381"
abbreviation (input) iedModel_GenericIO_T60S_FSCH1_ValSPG57 :: addr where "iedModel_GenericIO_T60S_FSCH1_ValSPG57 \<equiv> 1382"
abbreviation (input) iedModel_GenericIO_T60S_FSCH1_ValSPG57_setVal :: addr where "iedModel_GenericIO_T60S_FSCH1_ValSPG57_setVal \<equiv> 1383"
abbreviation (input) iedModel_GenericIO_T60S_FSCH1_ValSPG58 :: addr where "iedModel_GenericIO_T60S_FSCH1_ValSPG58 \<equiv> 1384"
abbreviation (input) iedModel_GenericIO_T60S_FSCH1_ValSPG58_setVal :: addr where "iedModel_GenericIO_T60S_FSCH1_ValSPG58_setVal \<equiv> 1385"
abbreviation (input) iedModel_GenericIO_T60S_FSCH1_ValSPG59 :: addr where "iedModel_GenericIO_T60S_FSCH1_ValSPG59 \<equiv> 1386"
abbreviation (input) iedModel_GenericIO_T60S_FSCH1_ValSPG59_setVal :: addr where "iedModel_GenericIO_T60S_FSCH1_ValSPG59_setVal \<equiv> 1387"
abbreviation (input) iedModel_GenericIO_T60S_FSCH1_ValSPG60 :: addr where "iedModel_GenericIO_T60S_FSCH1_ValSPG60 \<equiv> 1388"
abbreviation (input) iedModel_GenericIO_T60S_FSCH1_ValSPG60_setVal :: addr where "iedModel_GenericIO_T60S_FSCH1_ValSPG60_setVal \<equiv> 1389"
abbreviation (input) iedModel_GenericIO_T60S_FSCH1_StrTm :: addr where "iedModel_GenericIO_T60S_FSCH1_StrTm \<equiv> 1390"
abbreviation (input) iedModel_GenericIO_T60S_FSCH1_StrTm_setTm :: addr where "iedModel_GenericIO_T60S_FSCH1_StrTm_setTm \<equiv> 1391"
abbreviation (input) iedModel_GenericIO_T60S_FSCH1_StrTm_setCal :: addr where "iedModel_GenericIO_T60S_FSCH1_StrTm_setCal \<equiv> 1392"
abbreviation (input) iedModel_GenericIO_T60S_FSCH1_StrTm_setCal_occ :: addr where "iedModel_GenericIO_T60S_FSCH1_StrTm_setCal_occ \<equiv> 1393"
abbreviation (input) iedModel_GenericIO_T60S_FSCH1_StrTm_setCal_occType :: addr where "iedModel_GenericIO_T60S_FSCH1_StrTm_setCal_occType \<equiv> 1394"
abbreviation (input) iedModel_GenericIO_T60S_FSCH1_StrTm_setCal_occPer :: addr where "iedModel_GenericIO_T60S_FSCH1_StrTm_setCal_occPer \<equiv> 1395"
abbreviation (input) iedModel_GenericIO_T60S_FSCH1_StrTm_setCal_weekDay :: addr where "iedModel_GenericIO_T60S_FSCH1_StrTm_setCal_weekDay \<equiv> 1396"
abbreviation (input) iedModel_GenericIO_T60S_FSCH1_StrTm_setCal_month :: addr where "iedModel_GenericIO_T60S_FSCH1_StrTm_setCal_month \<equiv> 1397"
abbreviation (input) iedModel_GenericIO_T60S_FSCH1_StrTm_setCal_day :: addr where "iedModel_GenericIO_T60S_FSCH1_StrTm_setCal_day \<equiv> 1398"
abbreviation (input) iedModel_GenericIO_T60S_FSCH1_StrTm_setCal_hr :: addr where "iedModel_GenericIO_T60S_FSCH1_StrTm_setCal_hr \<equiv> 1399"
abbreviation (input) iedModel_GenericIO_T60S_FSCH1_StrTm_setCal_mn :: addr where "iedModel_GenericIO_T60S_FSCH1_StrTm_setCal_mn \<equiv> 1400"
abbreviation (input) iedModel_GenericIO_T60S_FSCH1_IntvPer :: addr where "iedModel_GenericIO_T60S_FSCH1_IntvPer \<equiv> 1401"
abbreviation (input) iedModel_GenericIO_T60S_FSCH1_IntvPer_setVal :: addr where "iedModel_GenericIO_T60S_FSCH1_IntvPer_setVal \<equiv> 1402"
abbreviation (input) iedModel_GenericIO_T60S_FSCH1_IntvTyp :: addr where "iedModel_GenericIO_T60S_FSCH1_IntvTyp \<equiv> 1403"
abbreviation (input) iedModel_GenericIO_T60S_FSCH1_IntvTyp_setVal :: addr where "iedModel_GenericIO_T60S_FSCH1_IntvTyp_setVal \<equiv> 1404"
abbreviation (input) iedModel_GenericIO_T60S_FSCH1_SchdReuse :: addr where "iedModel_GenericIO_T60S_FSCH1_SchdReuse \<equiv> 1405"
abbreviation (input) iedModel_GenericIO_T60S_FSCH1_SchdReuse_setVal :: addr where "iedModel_GenericIO_T60S_FSCH1_SchdReuse_setVal \<equiv> 1406"
abbreviation (input) iedModel_GenericIO_T60S_FSCH2 :: addr where "iedModel_GenericIO_T60S_FSCH2 \<equiv> 1407"
abbreviation (input) iedModel_GenericIO_T60S_FSCH2_Beh :: addr where "iedModel_GenericIO_T60S_FSCH2_Beh \<equiv> 1408"
abbreviation (input) iedModel_GenericIO_T60S_FSCH2_Beh_stVal :: addr where "iedModel_GenericIO_T60S_FSCH2_Beh_stVal \<equiv> 1409"
abbreviation (input) iedModel_GenericIO_T60S_FSCH2_Beh_q :: addr where "iedModel_GenericIO_T60S_FSCH2_Beh_q \<equiv> 1410"
abbreviation (input) iedModel_GenericIO_T60S_FSCH2_Beh_t :: addr where "iedModel_GenericIO_T60S_FSCH2_Beh_t \<equiv> 1411"
abbreviation (input) iedModel_GenericIO_T60S_FSCH2_SchdSt :: addr where "iedModel_GenericIO_T60S_FSCH2_SchdSt \<equiv> 1412"
abbreviation (input) iedModel_GenericIO_T60S_FSCH2_SchdSt_stVal :: addr where "iedModel_GenericIO_T60S_FSCH2_SchdSt_stVal \<equiv> 1413"
abbreviation (input) iedModel_GenericIO_T60S_FSCH2_SchdSt_q :: addr where "iedModel_GenericIO_T60S_FSCH2_SchdSt_q \<equiv> 1414"
abbreviation (input) iedModel_GenericIO_T60S_FSCH2_SchdSt_t :: addr where "iedModel_GenericIO_T60S_FSCH2_SchdSt_t \<equiv> 1415"
abbreviation (input) iedModel_GenericIO_T60S_FSCH2_SchdEntr :: addr where "iedModel_GenericIO_T60S_FSCH2_SchdEntr \<equiv> 1416"
abbreviation (input) iedModel_GenericIO_T60S_FSCH2_SchdEntr_stVal :: addr where "iedModel_GenericIO_T60S_FSCH2_SchdEntr_stVal \<equiv> 1417"
abbreviation (input) iedModel_GenericIO_T60S_FSCH2_SchdEntr_q :: addr where "iedModel_GenericIO_T60S_FSCH2_SchdEntr_q \<equiv> 1418"
abbreviation (input) iedModel_GenericIO_T60S_FSCH2_SchdEntr_t :: addr where "iedModel_GenericIO_T60S_FSCH2_SchdEntr_t \<equiv> 1419"
abbreviation (input) iedModel_GenericIO_T60S_FSCH2_ValSPS :: addr where "iedModel_GenericIO_T60S_FSCH2_ValSPS \<equiv> 1420"
abbreviation (input) iedModel_GenericIO_T60S_FSCH2_ValSPS_stVal :: addr where "iedModel_GenericIO_T60S_FSCH2_ValSPS_stVal \<equiv> 1421"
abbreviation (input) iedModel_GenericIO_T60S_FSCH2_ValSPS_q :: addr where "iedModel_GenericIO_T60S_FSCH2_ValSPS_q \<equiv> 1422"
abbreviation (input) iedModel_GenericIO_T60S_FSCH2_ValSPS_t :: addr where "iedModel_GenericIO_T60S_FSCH2_ValSPS_t \<equiv> 1423"
abbreviation (input) iedModel_GenericIO_T60S_FSCH2_VldReq :: addr where "iedModel_GenericIO_T60S_FSCH2_VldReq \<equiv> 1424"
abbreviation (input) iedModel_GenericIO_T60S_FSCH2_VldReq_stVal :: addr where "iedModel_GenericIO_T60S_FSCH2_VldReq_stVal \<equiv> 1425"
abbreviation (input) iedModel_GenericIO_T60S_FSCH2_VldReq_q :: addr where "iedModel_GenericIO_T60S_FSCH2_VldReq_q \<equiv> 1426"
abbreviation (input) iedModel_GenericIO_T60S_FSCH2_VldReq_Oper :: addr where "iedModel_GenericIO_T60S_FSCH2_VldReq_Oper \<equiv> 1427"
abbreviation (input) iedModel_GenericIO_T60S_FSCH2_VldReq_Oper_ctlVal :: addr where "iedModel_GenericIO_T60S_FSCH2_VldReq_Oper_ctlVal \<equiv> 1428"
abbreviation (input) iedModel_GenericIO_T60S_FSCH2_VldReq_Oper_origin :: addr where "iedModel_GenericIO_T60S_FSCH2_VldReq_Oper_origin \<equiv> 1429"
abbreviation (input) iedModel_GenericIO_T60S_FSCH2_VldReq_Oper_origin_orCat :: addr where "iedModel_GenericIO_T60S_FSCH2_VldReq_Oper_origin_orCat \<equiv> 1430"
abbreviation (input) iedModel_GenericIO_T60S_FSCH2_VldReq_Oper_origin_orIdent :: addr where "iedModel_GenericIO_T60S_FSCH2_VldReq_Oper_origin_orIdent \<equiv> 1431"
abbreviation (input) iedModel_GenericIO_T60S_FSCH2_VldReq_Oper_ctlNum :: addr where "iedModel_GenericIO_T60S_FSCH2_VldReq_Oper_ctlNum \<equiv> 1432"
abbreviation (input) iedModel_GenericIO_T60S_FSCH2_VldReq_Oper_T :: addr where "iedModel_GenericIO_T60S_FSCH2_VldReq_Oper_T \<equiv> 1433"
abbreviation (input) iedModel_GenericIO_T60S_FSCH2_VldReq_Oper_Test :: addr where "iedModel_GenericIO_T60S_FSCH2_VldReq_Oper_Test \<equiv> 1434"
abbreviation (input) iedModel_GenericIO_T60S_FSCH2_VldReq_Oper_Check :: addr where "iedModel_GenericIO_T60S_FSCH2_VldReq_Oper_Check \<equiv> 1435"
abbreviation (input) iedModel_GenericIO_T60S_FSCH2_VldReq_ctlModel :: addr where "iedModel_GenericIO_T60S_FSCH2_VldReq_ctlModel \<equiv> 1436"
abbreviation (input) iedModel_GenericIO_T60S_FSCH2_VldReq_t :: addr where "iedModel_GenericIO_T60S_FSCH2_VldReq_t \<equiv> 1437"
abbreviation (input) iedModel_GenericIO_T60S_FSCH2_EnaReq :: addr where "iedModel_GenericIO_T60S_FSCH2_EnaReq \<equiv> 1438"
abbreviation (input) iedModel_GenericIO_T60S_FSCH2_EnaReq_stVal :: addr where "iedModel_GenericIO_T60S_FSCH2_EnaReq_stVal \<equiv> 1439"
abbreviation (input) iedModel_GenericIO_T60S_FSCH2_EnaReq_q :: addr where "iedModel_GenericIO_T60S_FSCH2_EnaReq_q \<equiv> 1440"
abbreviation (input) iedModel_GenericIO_T60S_FSCH2_EnaReq_Oper :: addr where "iedModel_GenericIO_T60S_FSCH2_EnaReq_Oper \<equiv> 1441"
abbreviation (input) iedModel_GenericIO_T60S_FSCH2_EnaReq_Oper_ctlVal :: addr where "iedModel_GenericIO_T60S_FSCH2_EnaReq_Oper_ctlVal \<equiv> 1442"
abbreviation (input) iedModel_GenericIO_T60S_FSCH2_EnaReq_Oper_origin :: addr where "iedModel_GenericIO_T60S_FSCH2_EnaReq_Oper_origin \<equiv> 1443"
abbreviation (input) iedModel_GenericIO_T60S_FSCH2_EnaReq_Oper_origin_orCat :: addr where "iedModel_GenericIO_T60S_FSCH2_EnaReq_Oper_origin_orCat \<equiv> 1444"
abbreviation (input) iedModel_GenericIO_T60S_FSCH2_EnaReq_Oper_origin_orIdent :: addr where "iedModel_GenericIO_T60S_FSCH2_EnaReq_Oper_origin_orIdent \<equiv> 1445"
abbreviation (input) iedModel_GenericIO_T60S_FSCH2_EnaReq_Oper_ctlNum :: addr where "iedModel_GenericIO_T60S_FSCH2_EnaReq_Oper_ctlNum \<equiv> 1446"
abbreviation (input) iedModel_GenericIO_T60S_FSCH2_EnaReq_Oper_T :: addr where "iedModel_GenericIO_T60S_FSCH2_EnaReq_Oper_T \<equiv> 1447"
abbreviation (input) iedModel_GenericIO_T60S_FSCH2_EnaReq_Oper_Test :: addr where "iedModel_GenericIO_T60S_FSCH2_EnaReq_Oper_Test \<equiv> 1448"
abbreviation (input) iedModel_GenericIO_T60S_FSCH2_EnaReq_Oper_Check :: addr where "iedModel_GenericIO_T60S_FSCH2_EnaReq_Oper_Check \<equiv> 1449"
abbreviation (input) iedModel_GenericIO_T60S_FSCH2_EnaReq_ctlModel :: addr where "iedModel_GenericIO_T60S_FSCH2_EnaReq_ctlModel \<equiv> 1450"
abbreviation (input) iedModel_GenericIO_T60S_FSCH2_EnaReq_t :: addr where "iedModel_GenericIO_T60S_FSCH2_EnaReq_t \<equiv> 1451"
abbreviation (input) iedModel_GenericIO_T60S_FSCH2_EdtReq :: addr where "iedModel_GenericIO_T60S_FSCH2_EdtReq \<equiv> 1452"
abbreviation (input) iedModel_GenericIO_T60S_FSCH2_EdtReq_stVal :: addr where "iedModel_GenericIO_T60S_FSCH2_EdtReq_stVal \<equiv> 1453"
abbreviation (input) iedModel_GenericIO_T60S_FSCH2_EdtReq_q :: addr where "iedModel_GenericIO_T60S_FSCH2_EdtReq_q \<equiv> 1454"
abbreviation (input) iedModel_GenericIO_T60S_FSCH2_EdtReq_Oper :: addr where "iedModel_GenericIO_T60S_FSCH2_EdtReq_Oper \<equiv> 1455"
abbreviation (input) iedModel_GenericIO_T60S_FSCH2_EdtReq_Oper_ctlVal :: addr where "iedModel_GenericIO_T60S_FSCH2_EdtReq_Oper_ctlVal \<equiv> 1456"
abbreviation (input) iedModel_GenericIO_T60S_FSCH2_EdtReq_Oper_origin :: addr where "iedModel_GenericIO_T60S_FSCH2_EdtReq_Oper_origin \<equiv> 1457"
abbreviation (input) iedModel_GenericIO_T60S_FSCH2_EdtReq_Oper_origin_orCat :: addr where "iedModel_GenericIO_T60S_FSCH2_EdtReq_Oper_origin_orCat \<equiv> 1458"
abbreviation (input) iedModel_GenericIO_T60S_FSCH2_EdtReq_Oper_origin_orIdent :: addr where "iedModel_GenericIO_T60S_FSCH2_EdtReq_Oper_origin_orIdent \<equiv> 1459"
abbreviation (input) iedModel_GenericIO_T60S_FSCH2_EdtReq_Oper_ctlNum :: addr where "iedModel_GenericIO_T60S_FSCH2_EdtReq_Oper_ctlNum \<equiv> 1460"
abbreviation (input) iedModel_GenericIO_T60S_FSCH2_EdtReq_Oper_T :: addr where "iedModel_GenericIO_T60S_FSCH2_EdtReq_Oper_T \<equiv> 1461"
abbreviation (input) iedModel_GenericIO_T60S_FSCH2_EdtReq_Oper_Test :: addr where "iedModel_GenericIO_T60S_FSCH2_EdtReq_Oper_Test \<equiv> 1462"
abbreviation (input) iedModel_GenericIO_T60S_FSCH2_EdtReq_Oper_Check :: addr where "iedModel_GenericIO_T60S_FSCH2_EdtReq_Oper_Check \<equiv> 1463"
abbreviation (input) iedModel_GenericIO_T60S_FSCH2_EdtReq_ctlModel :: addr where "iedModel_GenericIO_T60S_FSCH2_EdtReq_ctlModel \<equiv> 1464"
abbreviation (input) iedModel_GenericIO_T60S_FSCH2_EdtReq_t :: addr where "iedModel_GenericIO_T60S_FSCH2_EdtReq_t \<equiv> 1465"
abbreviation (input) iedModel_GenericIO_T60S_FSCH2_DsaReq :: addr where "iedModel_GenericIO_T60S_FSCH2_DsaReq \<equiv> 1466"
abbreviation (input) iedModel_GenericIO_T60S_FSCH2_DsaReq_stVal :: addr where "iedModel_GenericIO_T60S_FSCH2_DsaReq_stVal \<equiv> 1467"
abbreviation (input) iedModel_GenericIO_T60S_FSCH2_DsaReq_q :: addr where "iedModel_GenericIO_T60S_FSCH2_DsaReq_q \<equiv> 1468"
abbreviation (input) iedModel_GenericIO_T60S_FSCH2_DsaReq_Oper :: addr where "iedModel_GenericIO_T60S_FSCH2_DsaReq_Oper \<equiv> 1469"
abbreviation (input) iedModel_GenericIO_T60S_FSCH2_DsaReq_Oper_ctlVal :: addr where "iedModel_GenericIO_T60S_FSCH2_DsaReq_Oper_ctlVal \<equiv> 1470"
abbreviation (input) iedModel_GenericIO_T60S_FSCH2_DsaReq_Oper_origin :: addr where "iedModel_GenericIO_T60S_FSCH2_DsaReq_Oper_origin \<equiv> 1471"
abbreviation (input) iedModel_GenericIO_T60S_FSCH2_DsaReq_Oper_origin_orCat :: addr where "iedModel_GenericIO_T60S_FSCH2_DsaReq_Oper_origin_orCat \<equiv> 1472"
abbreviation (input) iedModel_GenericIO_T60S_FSCH2_DsaReq_Oper_origin_orIdent :: addr where "iedModel_GenericIO_T60S_FSCH2_DsaReq_Oper_origin_orIdent \<equiv> 1473"
abbreviation (input) iedModel_GenericIO_T60S_FSCH2_DsaReq_Oper_ctlNum :: addr where "iedModel_GenericIO_T60S_FSCH2_DsaReq_Oper_ctlNum \<equiv> 1474"
abbreviation (input) iedModel_GenericIO_T60S_FSCH2_DsaReq_Oper_T :: addr where "iedModel_GenericIO_T60S_FSCH2_DsaReq_Oper_T \<equiv> 1475"
abbreviation (input) iedModel_GenericIO_T60S_FSCH2_DsaReq_Oper_Test :: addr where "iedModel_GenericIO_T60S_FSCH2_DsaReq_Oper_Test \<equiv> 1476"
abbreviation (input) iedModel_GenericIO_T60S_FSCH2_DsaReq_Oper_Check :: addr where "iedModel_GenericIO_T60S_FSCH2_DsaReq_Oper_Check \<equiv> 1477"
abbreviation (input) iedModel_GenericIO_T60S_FSCH2_DsaReq_ctlModel :: addr where "iedModel_GenericIO_T60S_FSCH2_DsaReq_ctlModel \<equiv> 1478"
abbreviation (input) iedModel_GenericIO_T60S_FSCH2_DsaReq_t :: addr where "iedModel_GenericIO_T60S_FSCH2_DsaReq_t \<equiv> 1479"
abbreviation (input) iedModel_GenericIO_T60S_FSCH2_SchdPrio :: addr where "iedModel_GenericIO_T60S_FSCH2_SchdPrio \<equiv> 1480"
abbreviation (input) iedModel_GenericIO_T60S_FSCH2_SchdPrio_setVal :: addr where "iedModel_GenericIO_T60S_FSCH2_SchdPrio_setVal \<equiv> 1481"
abbreviation (input) iedModel_GenericIO_T60S_FSCH2_NumEntr :: addr where "iedModel_GenericIO_T60S_FSCH2_NumEntr \<equiv> 1482"
abbreviation (input) iedModel_GenericIO_T60S_FSCH2_NumEntr_setVal :: addr where "iedModel_GenericIO_T60S_FSCH2_NumEntr_setVal \<equiv> 1483"
abbreviation (input) iedModel_GenericIO_T60S_FSCH2_SchdIntv :: addr where "iedModel_GenericIO_T60S_FSCH2_SchdIntv \<equiv> 1484"
abbreviation (input) iedModel_GenericIO_T60S_FSCH2_SchdIntv_setVal :: addr where "iedModel_GenericIO_T60S_FSCH2_SchdIntv_setVal \<equiv> 1485"
abbreviation (input) iedModel_GenericIO_T60S_FSCH2_ValSPG1 :: addr where "iedModel_GenericIO_T60S_FSCH2_ValSPG1 \<equiv> 1486"
abbreviation (input) iedModel_GenericIO_T60S_FSCH2_ValSPG1_setVal :: addr where "iedModel_GenericIO_T60S_FSCH2_ValSPG1_setVal \<equiv> 1487"
abbreviation (input) iedModel_GenericIO_T60S_FSCH2_ValSPG2 :: addr where "iedModel_GenericIO_T60S_FSCH2_ValSPG2 \<equiv> 1488"
abbreviation (input) iedModel_GenericIO_T60S_FSCH2_ValSPG2_setVal :: addr where "iedModel_GenericIO_T60S_FSCH2_ValSPG2_setVal \<equiv> 1489"
abbreviation (input) iedModel_GenericIO_T60S_FSCH2_ValSPG3 :: addr where "iedModel_GenericIO_T60S_FSCH2_ValSPG3 \<equiv> 1490"
abbreviation (input) iedModel_GenericIO_T60S_FSCH2_ValSPG3_setVal :: addr where "iedModel_GenericIO_T60S_FSCH2_ValSPG3_setVal \<equiv> 1491"
abbreviation (input) iedModel_GenericIO_T60S_FSCH2_ValSPG4 :: addr where "iedModel_GenericIO_T60S_FSCH2_ValSPG4 \<equiv> 1492"
abbreviation (input) iedModel_GenericIO_T60S_FSCH2_ValSPG4_setVal :: addr where "iedModel_GenericIO_T60S_FSCH2_ValSPG4_setVal \<equiv> 1493"
abbreviation (input) iedModel_GenericIO_T60S_FSCH2_ValSPG5 :: addr where "iedModel_GenericIO_T60S_FSCH2_ValSPG5 \<equiv> 1494"
abbreviation (input) iedModel_GenericIO_T60S_FSCH2_ValSPG5_setVal :: addr where "iedModel_GenericIO_T60S_FSCH2_ValSPG5_setVal \<equiv> 1495"
abbreviation (input) iedModel_GenericIO_T60S_FSCH2_ValSPG6 :: addr where "iedModel_GenericIO_T60S_FSCH2_ValSPG6 \<equiv> 1496"
abbreviation (input) iedModel_GenericIO_T60S_FSCH2_ValSPG6_setVal :: addr where "iedModel_GenericIO_T60S_FSCH2_ValSPG6_setVal \<equiv> 1497"
abbreviation (input) iedModel_GenericIO_T60S_FSCH2_ValSPG7 :: addr where "iedModel_GenericIO_T60S_FSCH2_ValSPG7 \<equiv> 1498"
abbreviation (input) iedModel_GenericIO_T60S_FSCH2_ValSPG7_setVal :: addr where "iedModel_GenericIO_T60S_FSCH2_ValSPG7_setVal \<equiv> 1499"
abbreviation (input) iedModel_GenericIO_T60S_FSCH2_ValSPG8 :: addr where "iedModel_GenericIO_T60S_FSCH2_ValSPG8 \<equiv> 1500"
abbreviation (input) iedModel_GenericIO_T60S_FSCH2_ValSPG8_setVal :: addr where "iedModel_GenericIO_T60S_FSCH2_ValSPG8_setVal \<equiv> 1501"
abbreviation (input) iedModel_GenericIO_T60S_FSCH2_ValSPG9 :: addr where "iedModel_GenericIO_T60S_FSCH2_ValSPG9 \<equiv> 1502"
abbreviation (input) iedModel_GenericIO_T60S_FSCH2_ValSPG9_setVal :: addr where "iedModel_GenericIO_T60S_FSCH2_ValSPG9_setVal \<equiv> 1503"
abbreviation (input) iedModel_GenericIO_T60S_FSCH2_ValSPG10 :: addr where "iedModel_GenericIO_T60S_FSCH2_ValSPG10 \<equiv> 1504"
abbreviation (input) iedModel_GenericIO_T60S_FSCH2_ValSPG10_setVal :: addr where "iedModel_GenericIO_T60S_FSCH2_ValSPG10_setVal \<equiv> 1505"
abbreviation (input) iedModel_GenericIO_T60S_FSCH2_ValSPG11 :: addr where "iedModel_GenericIO_T60S_FSCH2_ValSPG11 \<equiv> 1506"
abbreviation (input) iedModel_GenericIO_T60S_FSCH2_ValSPG11_setVal :: addr where "iedModel_GenericIO_T60S_FSCH2_ValSPG11_setVal \<equiv> 1507"
abbreviation (input) iedModel_GenericIO_T60S_FSCH2_ValSPG12 :: addr where "iedModel_GenericIO_T60S_FSCH2_ValSPG12 \<equiv> 1508"
abbreviation (input) iedModel_GenericIO_T60S_FSCH2_ValSPG12_setVal :: addr where "iedModel_GenericIO_T60S_FSCH2_ValSPG12_setVal \<equiv> 1509"
abbreviation (input) iedModel_GenericIO_T60S_FSCH2_ValSPG13 :: addr where "iedModel_GenericIO_T60S_FSCH2_ValSPG13 \<equiv> 1510"
abbreviation (input) iedModel_GenericIO_T60S_FSCH2_ValSPG13_setVal :: addr where "iedModel_GenericIO_T60S_FSCH2_ValSPG13_setVal \<equiv> 1511"
abbreviation (input) iedModel_GenericIO_T60S_FSCH2_ValSPG14 :: addr where "iedModel_GenericIO_T60S_FSCH2_ValSPG14 \<equiv> 1512"
abbreviation (input) iedModel_GenericIO_T60S_FSCH2_ValSPG14_setVal :: addr where "iedModel_GenericIO_T60S_FSCH2_ValSPG14_setVal \<equiv> 1513"
abbreviation (input) iedModel_GenericIO_T60S_FSCH2_ValSPG15 :: addr where "iedModel_GenericIO_T60S_FSCH2_ValSPG15 \<equiv> 1514"
abbreviation (input) iedModel_GenericIO_T60S_FSCH2_ValSPG15_setVal :: addr where "iedModel_GenericIO_T60S_FSCH2_ValSPG15_setVal \<equiv> 1515"
abbreviation (input) iedModel_GenericIO_T60S_FSCH2_ValSPG16 :: addr where "iedModel_GenericIO_T60S_FSCH2_ValSPG16 \<equiv> 1516"
abbreviation (input) iedModel_GenericIO_T60S_FSCH2_ValSPG16_setVal :: addr where "iedModel_GenericIO_T60S_FSCH2_ValSPG16_setVal \<equiv> 1517"
abbreviation (input) iedModel_GenericIO_T60S_FSCH2_ValSPG17 :: addr where "iedModel_GenericIO_T60S_FSCH2_ValSPG17 \<equiv> 1518"
abbreviation (input) iedModel_GenericIO_T60S_FSCH2_ValSPG17_setVal :: addr where "iedModel_GenericIO_T60S_FSCH2_ValSPG17_setVal \<equiv> 1519"
abbreviation (input) iedModel_GenericIO_T60S_FSCH2_ValSPG18 :: addr where "iedModel_GenericIO_T60S_FSCH2_ValSPG18 \<equiv> 1520"
abbreviation (input) iedModel_GenericIO_T60S_FSCH2_ValSPG18_setVal :: addr where "iedModel_GenericIO_T60S_FSCH2_ValSPG18_setVal \<equiv> 1521"
abbreviation (input) iedModel_GenericIO_T60S_FSCH2_ValSPG19 :: addr where "iedModel_GenericIO_T60S_FSCH2_ValSPG19 \<equiv> 1522"
abbreviation (input) iedModel_GenericIO_T60S_FSCH2_ValSPG19_setVal :: addr where "iedModel_GenericIO_T60S_FSCH2_ValSPG19_setVal \<equiv> 1523"
abbreviation (input) iedModel_GenericIO_T60S_FSCH2_ValSPG20 :: addr where "iedModel_GenericIO_T60S_FSCH2_ValSPG20 \<equiv> 1524"
abbreviation (input) iedModel_GenericIO_T60S_FSCH2_ValSPG20_setVal :: addr where "iedModel_GenericIO_T60S_FSCH2_ValSPG20_setVal \<equiv> 1525"
abbreviation (input) iedModel_GenericIO_T60S_FSCH2_ValSPG21 :: addr where "iedModel_GenericIO_T60S_FSCH2_ValSPG21 \<equiv> 1526"
abbreviation (input) iedModel_GenericIO_T60S_FSCH2_ValSPG21_setVal :: addr where "iedModel_GenericIO_T60S_FSCH2_ValSPG21_setVal \<equiv> 1527"
abbreviation (input) iedModel_GenericIO_T60S_FSCH2_ValSPG22 :: addr where "iedModel_GenericIO_T60S_FSCH2_ValSPG22 \<equiv> 1528"
abbreviation (input) iedModel_GenericIO_T60S_FSCH2_ValSPG22_setVal :: addr where "iedModel_GenericIO_T60S_FSCH2_ValSPG22_setVal \<equiv> 1529"
abbreviation (input) iedModel_GenericIO_T60S_FSCH2_ValSPG23 :: addr where "iedModel_GenericIO_T60S_FSCH2_ValSPG23 \<equiv> 1530"
abbreviation (input) iedModel_GenericIO_T60S_FSCH2_ValSPG23_setVal :: addr where "iedModel_GenericIO_T60S_FSCH2_ValSPG23_setVal \<equiv> 1531"
abbreviation (input) iedModel_GenericIO_T60S_FSCH2_ValSPG24 :: addr where "iedModel_GenericIO_T60S_FSCH2_ValSPG24 \<equiv> 1532"
abbreviation (input) iedModel_GenericIO_T60S_FSCH2_ValSPG24_setVal :: addr where "iedModel_GenericIO_T60S_FSCH2_ValSPG24_setVal \<equiv> 1533"
abbreviation (input) iedModel_GenericIO_T60S_FSCH2_ValSPG25 :: addr where "iedModel_GenericIO_T60S_FSCH2_ValSPG25 \<equiv> 1534"
abbreviation (input) iedModel_GenericIO_T60S_FSCH2_ValSPG25_setVal :: addr where "iedModel_GenericIO_T60S_FSCH2_ValSPG25_setVal \<equiv> 1535"
abbreviation (input) iedModel_GenericIO_T60S_FSCH2_ValSPG26 :: addr where "iedModel_GenericIO_T60S_FSCH2_ValSPG26 \<equiv> 1536"
abbreviation (input) iedModel_GenericIO_T60S_FSCH2_ValSPG26_setVal :: addr where "iedModel_GenericIO_T60S_FSCH2_ValSPG26_setVal \<equiv> 1537"
abbreviation (input) iedModel_GenericIO_T60S_FSCH2_ValSPG27 :: addr where "iedModel_GenericIO_T60S_FSCH2_ValSPG27 \<equiv> 1538"
abbreviation (input) iedModel_GenericIO_T60S_FSCH2_ValSPG27_setVal :: addr where "iedModel_GenericIO_T60S_FSCH2_ValSPG27_setVal \<equiv> 1539"
abbreviation (input) iedModel_GenericIO_T60S_FSCH2_ValSPG28 :: addr where "iedModel_GenericIO_T60S_FSCH2_ValSPG28 \<equiv> 1540"
abbreviation (input) iedModel_GenericIO_T60S_FSCH2_ValSPG28_setVal :: addr where "iedModel_GenericIO_T60S_FSCH2_ValSPG28_setVal \<equiv> 1541"
abbreviation (input) iedModel_GenericIO_T60S_FSCH2_ValSPG29 :: addr where "iedModel_GenericIO_T60S_FSCH2_ValSPG29 \<equiv> 1542"
abbreviation (input) iedModel_GenericIO_T60S_FSCH2_ValSPG29_setVal :: addr where "iedModel_GenericIO_T60S_FSCH2_ValSPG29_setVal \<equiv> 1543"
abbreviation (input) iedModel_GenericIO_T60S_FSCH2_ValSPG30 :: addr where "iedModel_GenericIO_T60S_FSCH2_ValSPG30 \<equiv> 1544"
abbreviation (input) iedModel_GenericIO_T60S_FSCH2_ValSPG30_setVal :: addr where "iedModel_GenericIO_T60S_FSCH2_ValSPG30_setVal \<equiv> 1545"
abbreviation (input) iedModel_GenericIO_T60S_FSCH2_ValSPG31 :: addr where "iedModel_GenericIO_T60S_FSCH2_ValSPG31 \<equiv> 1546"
abbreviation (input) iedModel_GenericIO_T60S_FSCH2_ValSPG31_setVal :: addr where "iedModel_GenericIO_T60S_FSCH2_ValSPG31_setVal \<equiv> 1547"
abbreviation (input) iedModel_GenericIO_T60S_FSCH2_ValSPG32 :: addr where "iedModel_GenericIO_T60S_FSCH2_ValSPG32 \<equiv> 1548"
abbreviation (input) iedModel_GenericIO_T60S_FSCH2_ValSPG32_setVal :: addr where "iedModel_GenericIO_T60S_FSCH2_ValSPG32_setVal \<equiv> 1549"
abbreviation (input) iedModel_GenericIO_T60S_FSCH2_ValSPG33 :: addr where "iedModel_GenericIO_T60S_FSCH2_ValSPG33 \<equiv> 1550"
abbreviation (input) iedModel_GenericIO_T60S_FSCH2_ValSPG33_setVal :: addr where "iedModel_GenericIO_T60S_FSCH2_ValSPG33_setVal \<equiv> 1551"
abbreviation (input) iedModel_GenericIO_T60S_FSCH2_ValSPG34 :: addr where "iedModel_GenericIO_T60S_FSCH2_ValSPG34 \<equiv> 1552"
abbreviation (input) iedModel_GenericIO_T60S_FSCH2_ValSPG34_setVal :: addr where "iedModel_GenericIO_T60S_FSCH2_ValSPG34_setVal \<equiv> 1553"
abbreviation (input) iedModel_GenericIO_T60S_FSCH2_ValSPG35 :: addr where "iedModel_GenericIO_T60S_FSCH2_ValSPG35 \<equiv> 1554"
abbreviation (input) iedModel_GenericIO_T60S_FSCH2_ValSPG35_setVal :: addr where "iedModel_GenericIO_T60S_FSCH2_ValSPG35_setVal \<equiv> 1555"
abbreviation (input) iedModel_GenericIO_T60S_FSCH2_ValSPG36 :: addr where "iedModel_GenericIO_T60S_FSCH2_ValSPG36 \<equiv> 1556"
abbreviation (input) iedModel_GenericIO_T60S_FSCH2_ValSPG36_setVal :: addr where "iedModel_GenericIO_T60S_FSCH2_ValSPG36_setVal \<equiv> 1557"
abbreviation (input) iedModel_GenericIO_T60S_FSCH2_ValSPG37 :: addr where "iedModel_GenericIO_T60S_FSCH2_ValSPG37 \<equiv> 1558"
abbreviation (input) iedModel_GenericIO_T60S_FSCH2_ValSPG37_setVal :: addr where "iedModel_GenericIO_T60S_FSCH2_ValSPG37_setVal \<equiv> 1559"
abbreviation (input) iedModel_GenericIO_T60S_FSCH2_ValSPG38 :: addr where "iedModel_GenericIO_T60S_FSCH2_ValSPG38 \<equiv> 1560"
abbreviation (input) iedModel_GenericIO_T60S_FSCH2_ValSPG38_setVal :: addr where "iedModel_GenericIO_T60S_FSCH2_ValSPG38_setVal \<equiv> 1561"
abbreviation (input) iedModel_GenericIO_T60S_FSCH2_ValSPG39 :: addr where "iedModel_GenericIO_T60S_FSCH2_ValSPG39 \<equiv> 1562"
abbreviation (input) iedModel_GenericIO_T60S_FSCH2_ValSPG39_setVal :: addr where "iedModel_GenericIO_T60S_FSCH2_ValSPG39_setVal \<equiv> 1563"
abbreviation (input) iedModel_GenericIO_T60S_FSCH2_ValSPG40 :: addr where "iedModel_GenericIO_T60S_FSCH2_ValSPG40 \<equiv> 1564"
abbreviation (input) iedModel_GenericIO_T60S_FSCH2_ValSPG40_setVal :: addr where "iedModel_GenericIO_T60S_FSCH2_ValSPG40_setVal \<equiv> 1565"
abbreviation (input) iedModel_GenericIO_T60S_FSCH2_ValSPG41 :: addr where "iedModel_GenericIO_T60S_FSCH2_ValSPG41 \<equiv> 1566"
abbreviation (input) iedModel_GenericIO_T60S_FSCH2_ValSPG41_setVal :: addr where "iedModel_GenericIO_T60S_FSCH2_ValSPG41_setVal \<equiv> 1567"
abbreviation (input) iedModel_GenericIO_T60S_FSCH2_ValSPG42 :: addr where "iedModel_GenericIO_T60S_FSCH2_ValSPG42 \<equiv> 1568"
abbreviation (input) iedModel_GenericIO_T60S_FSCH2_ValSPG42_setVal :: addr where "iedModel_GenericIO_T60S_FSCH2_ValSPG42_setVal \<equiv> 1569"
abbreviation (input) iedModel_GenericIO_T60S_FSCH2_ValSPG43 :: addr where "iedModel_GenericIO_T60S_FSCH2_ValSPG43 \<equiv> 1570"
abbreviation (input) iedModel_GenericIO_T60S_FSCH2_ValSPG43_setVal :: addr where "iedModel_GenericIO_T60S_FSCH2_ValSPG43_setVal \<equiv> 1571"
abbreviation (input) iedModel_GenericIO_T60S_FSCH2_ValSPG44 :: addr where "iedModel_GenericIO_T60S_FSCH2_ValSPG44 \<equiv> 1572"
abbreviation (input) iedModel_GenericIO_T60S_FSCH2_ValSPG44_setVal :: addr where "iedModel_GenericIO_T60S_FSCH2_ValSPG44_setVal \<equiv> 1573"
abbreviation (input) iedModel_GenericIO_T60S_FSCH2_ValSPG45 :: addr where "iedModel_GenericIO_T60S_FSCH2_ValSPG45 \<equiv> 1574"
abbreviation (input) iedModel_GenericIO_T60S_FSCH2_ValSPG45_setVal :: addr where "iedModel_GenericIO_T60S_FSCH2_ValSPG45_setVal \<equiv> 1575"
abbreviation (input) iedModel_GenericIO_T60S_FSCH2_ValSPG46 :: addr where "iedModel_GenericIO_T60S_FSCH2_ValSPG46 \<equiv> 1576"
abbreviation (input) iedModel_GenericIO_T60S_FSCH2_ValSPG46_setVal :: addr where "iedModel_GenericIO_T60S_FSCH2_ValSPG46_setVal \<equiv> 1577"
abbreviation (input) iedModel_GenericIO_T60S_FSCH2_ValSPG47 :: addr where "iedModel_GenericIO_T60S_FSCH2_ValSPG47 \<equiv> 1578"
abbreviation (input) iedModel_GenericIO_T60S_FSCH2_ValSPG47_setVal :: addr where "iedModel_GenericIO_T60S_FSCH2_ValSPG47_setVal \<equiv> 1579"
abbreviation (input) iedModel_GenericIO_T60S_FSCH2_ValSPG48 :: addr where "iedModel_GenericIO_T60S_FSCH2_ValSPG48 \<equiv> 1580"
abbreviation (input) iedModel_GenericIO_T60S_FSCH2_ValSPG48_setVal :: addr where "iedModel_GenericIO_T60S_FSCH2_ValSPG48_setVal \<equiv> 1581"
abbreviation (input) iedModel_GenericIO_T60S_FSCH2_ValSPG49 :: addr where "iedModel_GenericIO_T60S_FSCH2_ValSPG49 \<equiv> 1582"
abbreviation (input) iedModel_GenericIO_T60S_FSCH2_ValSPG49_setVal :: addr where "iedModel_GenericIO_T60S_FSCH2_ValSPG49_setVal \<equiv> 1583"
abbreviation (input) iedModel_GenericIO_T60S_FSCH2_ValSPG50 :: addr where "iedModel_GenericIO_T60S_FSCH2_ValSPG50 \<equiv> 1584"
abbreviation (input) iedModel_GenericIO_T60S_FSCH2_ValSPG50_setVal :: addr where "iedModel_GenericIO_T60S_FSCH2_ValSPG50_setVal \<equiv> 1585"
abbreviation (input) iedModel_GenericIO_T60S_FSCH2_ValSPG51 :: addr where "iedModel_GenericIO_T60S_FSCH2_ValSPG51 \<equiv> 1586"
abbreviation (input) iedModel_GenericIO_T60S_FSCH2_ValSPG51_setVal :: addr where "iedModel_GenericIO_T60S_FSCH2_ValSPG51_setVal \<equiv> 1587"
abbreviation (input) iedModel_GenericIO_T60S_FSCH2_ValSPG52 :: addr where "iedModel_GenericIO_T60S_FSCH2_ValSPG52 \<equiv> 1588"
abbreviation (input) iedModel_GenericIO_T60S_FSCH2_ValSPG52_setVal :: addr where "iedModel_GenericIO_T60S_FSCH2_ValSPG52_setVal \<equiv> 1589"
abbreviation (input) iedModel_GenericIO_T60S_FSCH2_ValSPG53 :: addr where "iedModel_GenericIO_T60S_FSCH2_ValSPG53 \<equiv> 1590"
abbreviation (input) iedModel_GenericIO_T60S_FSCH2_ValSPG53_setVal :: addr where "iedModel_GenericIO_T60S_FSCH2_ValSPG53_setVal \<equiv> 1591"
abbreviation (input) iedModel_GenericIO_T60S_FSCH2_ValSPG54 :: addr where "iedModel_GenericIO_T60S_FSCH2_ValSPG54 \<equiv> 1592"
abbreviation (input) iedModel_GenericIO_T60S_FSCH2_ValSPG54_setVal :: addr where "iedModel_GenericIO_T60S_FSCH2_ValSPG54_setVal \<equiv> 1593"
abbreviation (input) iedModel_GenericIO_T60S_FSCH2_ValSPG55 :: addr where "iedModel_GenericIO_T60S_FSCH2_ValSPG55 \<equiv> 1594"
abbreviation (input) iedModel_GenericIO_T60S_FSCH2_ValSPG55_setVal :: addr where "iedModel_GenericIO_T60S_FSCH2_ValSPG55_setVal \<equiv> 1595"
abbreviation (input) iedModel_GenericIO_T60S_FSCH2_ValSPG56 :: addr where "iedModel_GenericIO_T60S_FSCH2_ValSPG56 \<equiv> 1596"
abbreviation (input) iedModel_GenericIO_T60S_FSCH2_ValSPG56_setVal :: addr where "iedModel_GenericIO_T60S_FSCH2_ValSPG56_setVal \<equiv> 1597"
abbreviation (input) iedModel_GenericIO_T60S_FSCH2_ValSPG57 :: addr where "iedModel_GenericIO_T60S_FSCH2_ValSPG57 \<equiv> 1598"
abbreviation (input) iedModel_GenericIO_T60S_FSCH2_ValSPG57_setVal :: addr where "iedModel_GenericIO_T60S_FSCH2_ValSPG57_setVal \<equiv> 1599"
abbreviation (input) iedModel_GenericIO_T60S_FSCH2_ValSPG58 :: addr where "iedModel_GenericIO_T60S_FSCH2_ValSPG58 \<equiv> 1600"
abbreviation (input) iedModel_GenericIO_T60S_FSCH2_ValSPG58_setVal :: addr where "iedModel_GenericIO_T60S_FSCH2_ValSPG58_setVal \<equiv> 1601"
abbreviation (input) iedModel_GenericIO_T60S_FSCH2_ValSPG59 :: addr where "iedModel_GenericIO_T60S_FSCH2_ValSPG59 \<equiv> 1602"
abbreviation (input) iedModel_GenericIO_T60S_FSCH2_ValSPG59_setVal :: addr where "iedModel_GenericIO_T60S_FSCH2_ValSPG59_setVal \<equiv> 1603"
abbreviation (input) iedModel_GenericIO_T60S_FSCH2_ValSPG60 :: addr where "iedModel_GenericIO_T60S_FSCH2_ValSPG60 \<equiv> 1604"
abbreviation (input) iedModel_GenericIO_T60S_FSCH2_ValSPG60_setVal :: addr where "iedModel_GenericIO_T60S_FSCH2_ValSPG60_setVal \<equiv> 1605"
abbreviation (input) iedModel_GenericIO_T60S_FSCH2_StrTm :: addr where "iedModel_GenericIO_T60S_FSCH2_StrTm \<equiv> 1606"
abbreviation (input) iedModel_GenericIO_T60S_FSCH2_StrTm_setTm :: addr where "iedModel_GenericIO_T60S_FSCH2_StrTm_setTm \<equiv> 1607"
abbreviation (input) iedModel_GenericIO_T60S_FSCH2_StrTm_setCal :: addr where "iedModel_GenericIO_T60S_FSCH2_StrTm_setCal \<equiv> 1608"
abbreviation (input) iedModel_GenericIO_T60S_FSCH2_StrTm_setCal_occ :: addr where "iedModel_GenericIO_T60S_FSCH2_StrTm_setCal_occ \<equiv> 1609"
abbreviation (input) iedModel_GenericIO_T60S_FSCH2_StrTm_setCal_occType :: addr where "iedModel_GenericIO_T60S_FSCH2_StrTm_setCal_occType \<equiv> 1610"
abbreviation (input) iedModel_GenericIO_T60S_FSCH2_StrTm_setCal_occPer :: addr where "iedModel_GenericIO_T60S_FSCH2_StrTm_setCal_occPer \<equiv> 1611"
abbreviation (input) iedModel_GenericIO_T60S_FSCH2_StrTm_setCal_weekDay :: addr where "iedModel_GenericIO_T60S_FSCH2_StrTm_setCal_weekDay \<equiv> 1612"
abbreviation (input) iedModel_GenericIO_T60S_FSCH2_StrTm_setCal_month :: addr where "iedModel_GenericIO_T60S_FSCH2_StrTm_setCal_month \<equiv> 1613"
abbreviation (input) iedModel_GenericIO_T60S_FSCH2_StrTm_setCal_day :: addr where "iedModel_GenericIO_T60S_FSCH2_StrTm_setCal_day \<equiv> 1614"
abbreviation (input) iedModel_GenericIO_T60S_FSCH2_StrTm_setCal_hr :: addr where "iedModel_GenericIO_T60S_FSCH2_StrTm_setCal_hr \<equiv> 1615"
abbreviation (input) iedModel_GenericIO_T60S_FSCH2_StrTm_setCal_mn :: addr where "iedModel_GenericIO_T60S_FSCH2_StrTm_setCal_mn \<equiv> 1616"
abbreviation (input) iedModel_GenericIO_T60S_FSCH2_IntvPer :: addr where "iedModel_GenericIO_T60S_FSCH2_IntvPer \<equiv> 1617"
abbreviation (input) iedModel_GenericIO_T60S_FSCH2_IntvPer_setVal :: addr where "iedModel_GenericIO_T60S_FSCH2_IntvPer_setVal \<equiv> 1618"
abbreviation (input) iedModel_GenericIO_T60S_FSCH2_IntvTyp :: addr where "iedModel_GenericIO_T60S_FSCH2_IntvTyp \<equiv> 1619"
abbreviation (input) iedModel_GenericIO_T60S_FSCH2_IntvTyp_setVal :: addr where "iedModel_GenericIO_T60S_FSCH2_IntvTyp_setVal \<equiv> 1620"
abbreviation (input) iedModel_GenericIO_T60S_FSCH2_SchdReuse :: addr where "iedModel_GenericIO_T60S_FSCH2_SchdReuse \<equiv> 1621"
abbreviation (input) iedModel_GenericIO_T60S_FSCH2_SchdReuse_setVal :: addr where "iedModel_GenericIO_T60S_FSCH2_SchdReuse_setVal \<equiv> 1622"
abbreviation (input) iedModel_GenericIO_GGIO_FSCC1 :: addr where "iedModel_GenericIO_GGIO_FSCC1 \<equiv> 1623"
abbreviation (input) iedModel_GenericIO_GGIO_FSCC1_Beh :: addr where "iedModel_GenericIO_GGIO_FSCC1_Beh \<equiv> 1624"
abbreviation (input) iedModel_GenericIO_GGIO_FSCC1_Beh_stVal :: addr where "iedModel_GenericIO_GGIO_FSCC1_Beh_stVal \<equiv> 1625"
abbreviation (input) iedModel_GenericIO_GGIO_FSCC1_Beh_q :: addr where "iedModel_GenericIO_GGIO_FSCC1_Beh_q \<equiv> 1626"
abbreviation (input) iedModel_GenericIO_GGIO_FSCC1_Beh_t :: addr where "iedModel_GenericIO_GGIO_FSCC1_Beh_t \<equiv> 1627"
abbreviation (input) iedModel_GenericIO_GGIO_FSCC1_ActSchdRef :: addr where "iedModel_GenericIO_GGIO_FSCC1_ActSchdRef \<equiv> 1628"
abbreviation (input) iedModel_GenericIO_GGIO_FSCC1_ActSchdRef_stVal :: addr where "iedModel_GenericIO_GGIO_FSCC1_ActSchdRef_stVal \<equiv> 1629"
abbreviation (input) iedModel_GenericIO_GGIO_FSCC1_ActSchdRef_q :: addr where "iedModel_GenericIO_GGIO_FSCC1_ActSchdRef_q \<equiv> 1630"
abbreviation (input) iedModel_GenericIO_GGIO_FSCC1_ActSchdRef_t :: addr where "iedModel_GenericIO_GGIO_FSCC1_ActSchdRef_t \<equiv> 1631"
abbreviation (input) iedModel_GenericIO_GGIO_FSCC1_CtlEnt :: addr where "iedModel_GenericIO_GGIO_FSCC1_CtlEnt \<equiv> 1632"
abbreviation (input) iedModel_GenericIO_GGIO_FSCC1_CtlEnt_setSrcRef :: addr where "iedModel_GenericIO_GGIO_FSCC1_CtlEnt_setSrcRef \<equiv> 1633"
abbreviation (input) iedModel_GenericIO_GGIO_FSCC1_Schd1 :: addr where "iedModel_GenericIO_GGIO_FSCC1_Schd1 \<equiv> 1634"
abbreviation (input) iedModel_GenericIO_GGIO_FSCC1_Schd1_setSrcRef :: addr where "iedModel_GenericIO_GGIO_FSCC1_Schd1_setSrcRef \<equiv> 1635"
abbreviation (input) iedModel_GenericIO_GGIO_FSCC1_Schd2 :: addr where "iedModel_GenericIO_GGIO_FSCC1_Schd2 \<equiv> 1636"
abbreviation (input) iedModel_GenericIO_GGIO_FSCC1_Schd2_setSrcRef :: addr where "iedModel_GenericIO_GGIO_FSCC1_Schd2_setSrcRef \<equiv> 1637"

end
