(* ===== verification/Ied_Basic_Nodes.thy ===== *)
theory Ied_Basic_Nodes
  imports Ied_Symbols
begin

text \<open>
  The structures of \<open>core/iec61850/model/static_model.c\<close> for the logical device \<open>GenericIO\<close> and its logical nodes \<open>LLN0\<close>, \<open>LPHD1\<close> and \<open>GGIO1\<close>, in file order,
  a list per stretch of the file, and the pass of the checker over each list.
\<close>

definition static_LD :: node_table where
  "static_LD =
   [(iedModel_GenericIO,
    LogicalDevice (Some ''GenericIO'') (Some iedModel) None (Some iedModel_GenericIO_LLN0) None)]"

definition static_LLN0_1 :: node_table where
  "static_LLN0_1 =
   [(iedModel_GenericIO_LLN0,
    LogicalNode (Some ''LLN0'') (Some iedModel_GenericIO) (Some iedModel_GenericIO_LPHD1) (Some iedModel_GenericIO_LLN0_Beh)),
    (iedModel_GenericIO_LLN0_Beh,
    DataObject (Some ''Beh'') (Some iedModel_GenericIO_LLN0) (Some iedModel_GenericIO_LLN0_Mod) (Some iedModel_GenericIO_LLN0_Beh_stVal) 0 (- 1)),
    (iedModel_GenericIO_LLN0_Beh_stVal,
    DataAttribute (Some ''stVal'') (Some iedModel_GenericIO_LLN0_Beh) (Some iedModel_GenericIO_LLN0_Beh_q) None 0 (- 1) FC_ST T_ENUMERATED (0 + TRG_OPT_DATA_CHANGED) None 0),
    (iedModel_GenericIO_LLN0_Beh_q,
    DataAttribute (Some ''q'') (Some iedModel_GenericIO_LLN0_Beh) (Some iedModel_GenericIO_LLN0_Beh_t) None 0 (- 1) FC_ST T_QUALITY (0 + TRG_OPT_QUALITY_CHANGED) None 0),
    (iedModel_GenericIO_LLN0_Beh_t,
    DataAttribute (Some ''t'') (Some iedModel_GenericIO_LLN0_Beh) None None 0 (- 1) FC_ST T_TIMESTAMP 0 None 0),
    (iedModel_GenericIO_LLN0_Mod,
    DataObject (Some ''Mod'') (Some iedModel_GenericIO_LLN0) (Some iedModel_GenericIO_LLN0_Health) (Some iedModel_GenericIO_LLN0_Mod_stVal) 0 (- 1)),
    (iedModel_GenericIO_LLN0_Mod_stVal,
    DataAttribute (Some ''stVal'') (Some iedModel_GenericIO_LLN0_Mod) (Some iedModel_GenericIO_LLN0_Mod_q) None 0 (- 1) FC_ST T_ENUMERATED (0 + TRG_OPT_DATA_CHANGED) None 0),
    (iedModel_GenericIO_LLN0_Mod_q,
    DataAttribute (Some ''q'') (Some iedModel_GenericIO_LLN0_Mod) (Some iedModel_GenericIO_LLN0_Mod_t) None 0 (- 1) FC_ST T_QUALITY (0 + TRG_OPT_QUALITY_CHANGED) None 0),
    (iedModel_GenericIO_LLN0_Mod_t,
    DataAttribute (Some ''t'') (Some iedModel_GenericIO_LLN0_Mod) (Some iedModel_GenericIO_LLN0_Mod_ctlModel) None 0 (- 1) FC_ST T_TIMESTAMP 0 None 0),
    (iedModel_GenericIO_LLN0_Mod_ctlModel,
    DataAttribute (Some ''ctlModel'') (Some iedModel_GenericIO_LLN0_Mod) None None 0 (- 1) FC_CF T_ENUMERATED 0 None 0),
    (iedModel_GenericIO_LLN0_Health,
    DataObject (Some ''Health'') (Some iedModel_GenericIO_LLN0) (Some iedModel_GenericIO_LLN0_NamPlt) (Some iedModel_GenericIO_LLN0_Health_stVal) 0 (- 1))]"

definition static_LLN0_2 :: node_table where
  "static_LLN0_2 =
   [(iedModel_GenericIO_LLN0_Health_stVal,
    DataAttribute (Some ''stVal'') (Some iedModel_GenericIO_LLN0_Health) (Some iedModel_GenericIO_LLN0_Health_q) None 0 (- 1) FC_ST T_ENUMERATED (0 + TRG_OPT_DATA_CHANGED) None 0),
    (iedModel_GenericIO_LLN0_Health_q,
    DataAttribute (Some ''q'') (Some iedModel_GenericIO_LLN0_Health) (Some iedModel_GenericIO_LLN0_Health_t) None 0 (- 1) FC_ST T_QUALITY (0 + TRG_OPT_QUALITY_CHANGED) None 0),
    (iedModel_GenericIO_LLN0_Health_t,
    DataAttribute (Some ''t'') (Some iedModel_GenericIO_LLN0_Health) None None 0 (- 1) FC_ST T_TIMESTAMP 0 None 0),
    (iedModel_GenericIO_LLN0_NamPlt,
    DataObject (Some ''NamPlt'') (Some iedModel_GenericIO_LLN0) None (Some iedModel_GenericIO_LLN0_NamPlt_vendor) 0 (- 1)),
    (iedModel_GenericIO_LLN0_NamPlt_vendor,
    DataAttribute (Some ''vendor'') (Some iedModel_GenericIO_LLN0_NamPlt) (Some iedModel_GenericIO_LLN0_NamPlt_swRev) None 0 (- 1) FC_DC T_VISIBLE_STRING_255 0 None 0),
    (iedModel_GenericIO_LLN0_NamPlt_swRev,
    DataAttribute (Some ''swRev'') (Some iedModel_GenericIO_LLN0_NamPlt) (Some iedModel_GenericIO_LLN0_NamPlt_d) None 0 (- 1) FC_DC T_VISIBLE_STRING_255 0 None 0),
    (iedModel_GenericIO_LLN0_NamPlt_d,
    DataAttribute (Some ''d'') (Some iedModel_GenericIO_LLN0_NamPlt) (Some iedModel_GenericIO_LLN0_NamPlt_configRev) None 0 (- 1) FC_DC T_VISIBLE_STRING_255 0 None 0),
    (iedModel_GenericIO_LLN0_NamPlt_configRev,
    DataAttribute (Some ''configRev'') (Some iedModel_GenericIO_LLN0_NamPlt) (Some iedModel_GenericIO_LLN0_NamPlt_ldNs) None 0 (- 1) FC_DC T_VISIBLE_STRING_255 0 None 0),
    (iedModel_GenericIO_LLN0_NamPlt_ldNs,
    DataAttribute (Some ''ldNs'') (Some iedModel_GenericIO_LLN0_NamPlt) None None 0 (- 1) FC_EX T_VISIBLE_STRING_255 0 None 0)]"

definition static_LLN0 :: node_table where
  "static_LLN0 = concat [static_LLN0_1,
     static_LLN0_2]"

definition static_LPHD1 :: node_table where
  "static_LPHD1 =
   [(iedModel_GenericIO_LPHD1,
    LogicalNode (Some ''LPHD1'') (Some iedModel_GenericIO) (Some iedModel_GenericIO_GGIO1) (Some iedModel_GenericIO_LPHD1_PhyNam)),
    (iedModel_GenericIO_LPHD1_PhyNam,
    DataObject (Some ''PhyNam'') (Some iedModel_GenericIO_LPHD1) (Some iedModel_GenericIO_LPHD1_PhyHealth) (Some iedModel_GenericIO_LPHD1_PhyNam_vendor) 0 (- 1)),
    (iedModel_GenericIO_LPHD1_PhyNam_vendor,
    DataAttribute (Some ''vendor'') (Some iedModel_GenericIO_LPHD1_PhyNam) None None 0 (- 1) FC_DC T_VISIBLE_STRING_255 0 None 0),
    (iedModel_GenericIO_LPHD1_PhyHealth,
    DataObject (Some ''PhyHealth'') (Some iedModel_GenericIO_LPHD1) (Some iedModel_GenericIO_LPHD1_Proxy) (Some iedModel_GenericIO_LPHD1_PhyHealth_stVal) 0 (- 1)),
    (iedModel_GenericIO_LPHD1_PhyHealth_stVal,
    DataAttribute (Some ''stVal'') (Some iedModel_GenericIO_LPHD1_PhyHealth) (Some iedModel_GenericIO_LPHD1_PhyHealth_q) None 0 (- 1) FC_ST T_ENUMERATED (0 + TRG_OPT_DATA_CHANGED) None 0),
    (iedModel_GenericIO_LPHD1_PhyHealth_q,
    DataAttribute (Some ''q'') (Some iedModel_GenericIO_LPHD1_PhyHealth) (Some iedModel_GenericIO_LPHD1_PhyHealth_t) None 0 (- 1) FC_ST T_QUALITY (0 + TRG_OPT_QUALITY_CHANGED) None 0),
    (iedModel_GenericIO_LPHD1_PhyHealth_t,
    DataAttribute (Some ''t'') (Some iedModel_GenericIO_LPHD1_PhyHealth) None None 0 (- 1) FC_ST T_TIMESTAMP 0 None 0),
    (iedModel_GenericIO_LPHD1_Proxy,
    DataObject (Some ''Proxy'') (Some iedModel_GenericIO_LPHD1) None (Some iedModel_GenericIO_LPHD1_Proxy_stVal) 0 (- 1)),
    (iedModel_GenericIO_LPHD1_Proxy_stVal,
    DataAttribute (Some ''stVal'') (Some iedModel_GenericIO_LPHD1_Proxy) (Some iedModel_GenericIO_LPHD1_Proxy_q) None 0 (- 1) FC_ST T_BOOLEAN (0 + TRG_OPT_DATA_CHANGED) None 0),
    (iedModel_GenericIO_LPHD1_Proxy_q,
    DataAttribute (Some ''q'') (Some iedModel_GenericIO_LPHD1_Proxy) (Some iedModel_GenericIO_LPHD1_Proxy_t) None 0 (- 1) FC_ST T_QUALITY (0 + TRG_OPT_QUALITY_CHANGED) None 0),
    (iedModel_GenericIO_LPHD1_Proxy_t,
    DataAttribute (Some ''t'') (Some iedModel_GenericIO_LPHD1_Proxy) None None 0 (- 1) FC_ST T_TIMESTAMP 0 None 0)]"

definition static_GGIO1_1 :: node_table where
  "static_GGIO1_1 =
   [(iedModel_GenericIO_GGIO1,
    LogicalNode (Some ''GGIO1'') (Some iedModel_GenericIO) (Some iedModel_GenericIO_TIM_GAPC1) (Some iedModel_GenericIO_GGIO1_Beh)),
    (iedModel_GenericIO_GGIO1_Beh,
    DataObject (Some ''Beh'') (Some iedModel_GenericIO_GGIO1) (Some iedModel_GenericIO_GGIO1_Mod) (Some iedModel_GenericIO_GGIO1_Beh_stVal) 0 (- 1)),
    (iedModel_GenericIO_GGIO1_Beh_stVal,
    DataAttribute (Some ''stVal'') (Some iedModel_GenericIO_GGIO1_Beh) (Some iedModel_GenericIO_GGIO1_Beh_q) None 0 (- 1) FC_ST T_ENUMERATED (0 + TRG_OPT_DATA_CHANGED) None 0),
    (iedModel_GenericIO_GGIO1_Beh_q,
    DataAttribute (Some ''q'') (Some iedModel_GenericIO_GGIO1_Beh) (Some iedModel_GenericIO_GGIO1_Beh_t) None 0 (- 1) FC_ST T_QUALITY (0 + TRG_OPT_QUALITY_CHANGED) None 0),
    (iedModel_GenericIO_GGIO1_Beh_t,
    DataAttribute (Some ''t'') (Some iedModel_GenericIO_GGIO1_Beh) None None 0 (- 1) FC_ST T_TIMESTAMP 0 None 0),
    (iedModel_GenericIO_GGIO1_Mod,
    DataObject (Some ''Mod'') (Some iedModel_GenericIO_GGIO1) (Some iedModel_GenericIO_GGIO1_Health) (Some iedModel_GenericIO_GGIO1_Mod_stVal) 0 (- 1)),
    (iedModel_GenericIO_GGIO1_Mod_stVal,
    DataAttribute (Some ''stVal'') (Some iedModel_GenericIO_GGIO1_Mod) (Some iedModel_GenericIO_GGIO1_Mod_q) None 0 (- 1) FC_ST T_ENUMERATED (0 + TRG_OPT_DATA_CHANGED) None 0),
    (iedModel_GenericIO_GGIO1_Mod_q,
    DataAttribute (Some ''q'') (Some iedModel_GenericIO_GGIO1_Mod) (Some iedModel_GenericIO_GGIO1_Mod_t) None 0 (- 1) FC_ST T_QUALITY (0 + TRG_OPT_QUALITY_CHANGED) None 0),
    (iedModel_GenericIO_GGIO1_Mod_t,
    DataAttribute (Some ''t'') (Some iedModel_GenericIO_GGIO1_Mod) (Some iedModel_GenericIO_GGIO1_Mod_ctlModel) None 0 (- 1) FC_ST T_TIMESTAMP 0 None 0),
    (iedModel_GenericIO_GGIO1_Mod_ctlModel,
    DataAttribute (Some ''ctlModel'') (Some iedModel_GenericIO_GGIO1_Mod) None None 0 (- 1) FC_CF T_ENUMERATED 0 None 0),
    (iedModel_GenericIO_GGIO1_Health,
    DataObject (Some ''Health'') (Some iedModel_GenericIO_GGIO1) (Some iedModel_GenericIO_GGIO1_NamPlt) (Some iedModel_GenericIO_GGIO1_Health_stVal) 0 (- 1))]"

definition static_GGIO1_2 :: node_table where
  "static_GGIO1_2 =
   [(iedModel_GenericIO_GGIO1_Health_stVal,
    DataAttribute (Some ''stVal'') (Some iedModel_GenericIO_GGIO1_Health) (Some iedModel_GenericIO_GGIO1_Health_q) None 0 (- 1) FC_ST T_ENUMERATED (0 + TRG_OPT_DATA_CHANGED) None 0),
    (iedModel_GenericIO_GGIO1_Health_q,
    DataAttribute (Some ''q'') (Some iedModel_GenericIO_GGIO1_Health) (Some iedModel_GenericIO_GGIO1_Health_t) None 0 (- 1) FC_ST T_QUALITY (0 + TRG_OPT_QUALITY_CHANGED) None 0),
    (iedModel_GenericIO_GGIO1_Health_t,
    DataAttribute (Some ''t'') (Some iedModel_GenericIO_GGIO1_Health) None None 0 (- 1) FC_ST T_TIMESTAMP 0 None 0),
    (iedModel_GenericIO_GGIO1_NamPlt,
    DataObject (Some ''NamPlt'') (Some iedModel_GenericIO_GGIO1) (Some iedModel_GenericIO_GGIO1_AnIn1) (Some iedModel_GenericIO_GGIO1_NamPlt_vendor) 0 (- 1)),
    (iedModel_GenericIO_GGIO1_NamPlt_vendor,
    DataAttribute (Some ''vendor'') (Some iedModel_GenericIO_GGIO1_NamPlt) (Some iedModel_GenericIO_GGIO1_NamPlt_swRev) None 0 (- 1) FC_DC T_VISIBLE_STRING_255 0 None 0),
    (iedModel_GenericIO_GGIO1_NamPlt_swRev,
    DataAttribute (Some ''swRev'') (Some iedModel_GenericIO_GGIO1_NamPlt) (Some iedModel_GenericIO_GGIO1_NamPlt_d) None 0 (- 1) FC_DC T_VISIBLE_STRING_255 0 None 0),
    (iedModel_GenericIO_GGIO1_NamPlt_d,
    DataAttribute (Some ''d'') (Some iedModel_GenericIO_GGIO1_NamPlt) None None 0 (- 1) FC_DC T_VISIBLE_STRING_255 0 None 0),
    (iedModel_GenericIO_GGIO1_AnIn1,
    DataObject (Some ''AnIn1'') (Some iedModel_GenericIO_GGIO1) (Some iedModel_GenericIO_GGIO1_AnIn2) (Some iedModel_GenericIO_GGIO1_AnIn1_mag) 0 (- 1)),
    (iedModel_GenericIO_GGIO1_AnIn1_mag,
    DataAttribute (Some ''mag'') (Some iedModel_GenericIO_GGIO1_AnIn1) (Some iedModel_GenericIO_GGIO1_AnIn1_q) (Some iedModel_GenericIO_GGIO1_AnIn1_mag_f) 0 (- 1) FC_MX T_CONSTRUCTED (0 + TRG_OPT_DATA_CHANGED) None 0),
    (iedModel_GenericIO_GGIO1_AnIn1_mag_f,
    DataAttribute (Some ''f'') (Some iedModel_GenericIO_GGIO1_AnIn1_mag) None None 0 (- 1) FC_MX T_FLOAT32 (0 + TRG_OPT_DATA_CHANGED) None 0),
    (iedModel_GenericIO_GGIO1_AnIn1_q,
    DataAttribute (Some ''q'') (Some iedModel_GenericIO_GGIO1_AnIn1) (Some iedModel_GenericIO_GGIO1_AnIn1_t) None 0 (- 1) FC_MX T_QUALITY (0 + TRG_OPT_QUALITY_CHANGED) None 0)]"

definition static_GGIO1_3 :: node_table where
  "static_GGIO1_3 =
   [(iedModel_GenericIO_GGIO1_AnIn1_t,
    DataAttribute (Some ''t'') (Some iedModel_GenericIO_GGIO1_AnIn1) None None 0 (- 1) FC_MX T_TIMESTAMP 0 None 0),
    (iedModel_GenericIO_GGIO1_AnIn2,
    DataObject (Some ''AnIn2'') (Some iedModel_GenericIO_GGIO1) (Some iedModel_GenericIO_GGIO1_AnIn3) (Some iedModel_GenericIO_GGIO1_AnIn2_mag) 0 (- 1)),
    (iedModel_GenericIO_GGIO1_AnIn2_mag,
    DataAttribute (Some ''mag'') (Some iedModel_GenericIO_GGIO1_AnIn2) (Some iedModel_GenericIO_GGIO1_AnIn2_q) (Some iedModel_GenericIO_GGIO1_AnIn2_mag_f) 0 (- 1) FC_MX T_CONSTRUCTED (0 + TRG_OPT_DATA_CHANGED) None 0),
    (iedModel_GenericIO_GGIO1_AnIn2_mag_f,
    DataAttribute (Some ''f'') (Some iedModel_GenericIO_GGIO1_AnIn2_mag) None None 0 (- 1) FC_MX T_FLOAT32 (0 + TRG_OPT_DATA_CHANGED) None 0),
    (iedModel_GenericIO_GGIO1_AnIn2_q,
    DataAttribute (Some ''q'') (Some iedModel_GenericIO_GGIO1_AnIn2) (Some iedModel_GenericIO_GGIO1_AnIn2_t) None 0 (- 1) FC_MX T_QUALITY (0 + TRG_OPT_QUALITY_CHANGED) None 0),
    (iedModel_GenericIO_GGIO1_AnIn2_t,
    DataAttribute (Some ''t'') (Some iedModel_GenericIO_GGIO1_AnIn2) None None 0 (- 1) FC_MX T_TIMESTAMP 0 None 0),
    (iedModel_GenericIO_GGIO1_AnIn3,
    DataObject (Some ''AnIn3'') (Some iedModel_GenericIO_GGIO1) (Some iedModel_GenericIO_GGIO1_AnIn4) (Some iedModel_GenericIO_GGIO1_AnIn3_mag) 0 (- 1)),
    (iedModel_GenericIO_GGIO1_AnIn3_mag,
    DataAttribute (Some ''mag'') (Some iedModel_GenericIO_GGIO1_AnIn3) (Some iedModel_GenericIO_GGIO1_AnIn3_q) (Some iedModel_GenericIO_GGIO1_AnIn3_mag_f) 0 (- 1) FC_MX T_CONSTRUCTED (0 + TRG_OPT_DATA_CHANGED) None 0),
    (iedModel_GenericIO_GGIO1_AnIn3_mag_f,
    DataAttribute (Some ''f'') (Some iedModel_GenericIO_GGIO1_AnIn3_mag) None None 0 (- 1) FC_MX T_FLOAT32 (0 + TRG_OPT_DATA_CHANGED) None 0),
    (iedModel_GenericIO_GGIO1_AnIn3_q,
    DataAttribute (Some ''q'') (Some iedModel_GenericIO_GGIO1_AnIn3) (Some iedModel_GenericIO_GGIO1_AnIn3_t) None 0 (- 1) FC_MX T_QUALITY (0 + TRG_OPT_QUALITY_CHANGED) None 0),
    (iedModel_GenericIO_GGIO1_AnIn3_t,
    DataAttribute (Some ''t'') (Some iedModel_GenericIO_GGIO1_AnIn3) None None 0 (- 1) FC_MX T_TIMESTAMP 0 None 0)]"

definition static_GGIO1_4 :: node_table where
  "static_GGIO1_4 =
   [(iedModel_GenericIO_GGIO1_AnIn4,
    DataObject (Some ''AnIn4'') (Some iedModel_GenericIO_GGIO1) (Some iedModel_GenericIO_GGIO1_SPCSO1) (Some iedModel_GenericIO_GGIO1_AnIn4_mag) 0 (- 1)),
    (iedModel_GenericIO_GGIO1_AnIn4_mag,
    DataAttribute (Some ''mag'') (Some iedModel_GenericIO_GGIO1_AnIn4) (Some iedModel_GenericIO_GGIO1_AnIn4_q) (Some iedModel_GenericIO_GGIO1_AnIn4_mag_f) 0 (- 1) FC_MX T_CONSTRUCTED (0 + TRG_OPT_DATA_CHANGED) None 0),
    (iedModel_GenericIO_GGIO1_AnIn4_mag_f,
    DataAttribute (Some ''f'') (Some iedModel_GenericIO_GGIO1_AnIn4_mag) None None 0 (- 1) FC_MX T_FLOAT32 (0 + TRG_OPT_DATA_CHANGED) None 0),
    (iedModel_GenericIO_GGIO1_AnIn4_q,
    DataAttribute (Some ''q'') (Some iedModel_GenericIO_GGIO1_AnIn4) (Some iedModel_GenericIO_GGIO1_AnIn4_t) None 0 (- 1) FC_MX T_QUALITY (0 + TRG_OPT_QUALITY_CHANGED) None 0),
    (iedModel_GenericIO_GGIO1_AnIn4_t,
    DataAttribute (Some ''t'') (Some iedModel_GenericIO_GGIO1_AnIn4) None None 0 (- 1) FC_MX T_TIMESTAMP 0 None 0),
    (iedModel_GenericIO_GGIO1_SPCSO1,
    DataObject (Some ''SPCSO1'') (Some iedModel_GenericIO_GGIO1) (Some iedModel_GenericIO_GGIO1_SPCSO2) (Some iedModel_GenericIO_GGIO1_SPCSO1_stVal) 0 (- 1)),
    (iedModel_GenericIO_GGIO1_SPCSO1_stVal,
    DataAttribute (Some ''stVal'') (Some iedModel_GenericIO_GGIO1_SPCSO1) (Some iedModel_GenericIO_GGIO1_SPCSO1_q) None 0 (- 1) FC_ST T_BOOLEAN (0 + TRG_OPT_DATA_CHANGED) None 0),
    (iedModel_GenericIO_GGIO1_SPCSO1_q,
    DataAttribute (Some ''q'') (Some iedModel_GenericIO_GGIO1_SPCSO1) (Some iedModel_GenericIO_GGIO1_SPCSO1_Oper) None 0 (- 1) FC_ST T_QUALITY (0 + TRG_OPT_QUALITY_CHANGED) None 0),
    (iedModel_GenericIO_GGIO1_SPCSO1_Oper,
    DataAttribute (Some ''Oper'') (Some iedModel_GenericIO_GGIO1_SPCSO1) (Some iedModel_GenericIO_GGIO1_SPCSO1_ctlModel) (Some iedModel_GenericIO_GGIO1_SPCSO1_Oper_ctlVal) 0 (- 1) FC_CO T_CONSTRUCTED 0 None 0),
    (iedModel_GenericIO_GGIO1_SPCSO1_Oper_ctlVal,
    DataAttribute (Some ''ctlVal'') (Some iedModel_GenericIO_GGIO1_SPCSO1_Oper) (Some iedModel_GenericIO_GGIO1_SPCSO1_Oper_origin) None 0 (- 1) FC_CO T_BOOLEAN 0 None 0),
    (iedModel_GenericIO_GGIO1_SPCSO1_Oper_origin,
    DataAttribute (Some ''origin'') (Some iedModel_GenericIO_GGIO1_SPCSO1_Oper) (Some iedModel_GenericIO_GGIO1_SPCSO1_Oper_ctlNum) (Some iedModel_GenericIO_GGIO1_SPCSO1_Oper_origin_orCat) 0 (- 1) FC_CO T_CONSTRUCTED 0 None 0)]"

definition static_GGIO1_5 :: node_table where
  "static_GGIO1_5 =
   [(iedModel_GenericIO_GGIO1_SPCSO1_Oper_origin_orCat,
    DataAttribute (Some ''orCat'') (Some iedModel_GenericIO_GGIO1_SPCSO1_Oper_origin) (Some iedModel_GenericIO_GGIO1_SPCSO1_Oper_origin_orIdent) None 0 (- 1) FC_CO T_ENUMERATED 0 None 0),
    (iedModel_GenericIO_GGIO1_SPCSO1_Oper_origin_orIdent,
    DataAttribute (Some ''orIdent'') (Some iedModel_GenericIO_GGIO1_SPCSO1_Oper_origin) None None 0 (- 1) FC_CO T_OCTET_STRING_64 0 None 0),
    (iedModel_GenericIO_GGIO1_SPCSO1_Oper_ctlNum,
    DataAttribute (Some ''ctlNum'') (Some iedModel_GenericIO_GGIO1_SPCSO1_Oper) (Some iedModel_GenericIO_GGIO1_SPCSO1_Oper_T) None 0 (- 1) FC_CO T_INT8U 0 None 0),
    (iedModel_GenericIO_GGIO1_SPCSO1_Oper_T,
    DataAttribute (Some ''T'') (Some iedModel_GenericIO_GGIO1_SPCSO1_Oper) (Some iedModel_GenericIO_GGIO1_SPCSO1_Oper_Test) None 0 (- 1) FC_CO T_TIMESTAMP 0 None 0),
    (iedModel_GenericIO_GGIO1_SPCSO1_Oper_Test,
    DataAttribute (Some ''Test'') (Some iedModel_GenericIO_GGIO1_SPCSO1_Oper) (Some iedModel_GenericIO_GGIO1_SPCSO1_Oper_Check) None 0 (- 1) FC_CO T_BOOLEAN 0 None 0),
    (iedModel_GenericIO_GGIO1_SPCSO1_Oper_Check,
    DataAttribute (Some ''Check'') (Some iedModel_GenericIO_GGIO1_SPCSO1_Oper) None None 0 (- 1) FC_CO T_CHECK 0 None 0),
    (iedModel_GenericIO_GGIO1_SPCSO1_ctlModel,
    DataAttribute (Some ''ctlModel'') (Some iedModel_GenericIO_GGIO1_SPCSO1) (Some iedModel_GenericIO_GGIO1_SPCSO1_t) None 0 (- 1) FC_CF T_ENUMERATED 0 None 0),
    (iedModel_GenericIO_GGIO1_SPCSO1_t,
    DataAttribute (Some ''t'') (Some iedModel_GenericIO_GGIO1_SPCSO1) None None 0 (- 1) FC_ST T_TIMESTAMP 0 None 0),
    (iedModel_GenericIO_GGIO1_SPCSO2,
    DataObject (Some ''SPCSO2'') (Some iedModel_GenericIO_GGIO1) (Some iedModel_GenericIO_GGIO1_SPCSO3) (Some iedModel_GenericIO_GGIO1_SPCSO2_stVal) 0 (- 1)),
    (iedModel_GenericIO_GGIO1_SPCSO2_stVal,
    DataAttribute (Some ''stVal'') (Some iedModel_GenericIO_GGIO1_SPCSO2) (Some iedModel_GenericIO_GGIO1_SPCSO2_q) None 0 (- 1) FC_ST T_BOOLEAN (0 + TRG_OPT_DATA_CHANGED) None 0)]"

definition static_GGIO1_6 :: node_table where
  "static_GGIO1_6 =
   [(iedModel_GenericIO_GGIO1_SPCSO2_q,
    DataAttribute (Some ''q'') (Some iedModel_GenericIO_GGIO1_SPCSO2) (Some iedModel_GenericIO_GGIO1_SPCSO2_SBO) None 0 (- 1) FC_ST T_QUALITY (0 + TRG_OPT_QUALITY_CHANGED) None 0),
    (iedModel_GenericIO_GGIO1_SPCSO2_SBO,
    DataAttribute (Some ''SBO'') (Some iedModel_GenericIO_GGIO1_SPCSO2) (Some iedModel_GenericIO_GGIO1_SPCSO2_Oper) None 0 (- 1) FC_CO T_VISIBLE_STRING_129 0 None 0),
    (iedModel_GenericIO_GGIO1_SPCSO2_Oper,
    DataAttribute (Some ''Oper'') (Some iedModel_GenericIO_GGIO1_SPCSO2) (Some iedModel_GenericIO_GGIO1_SPCSO2_Cancel) (Some iedModel_GenericIO_GGIO1_SPCSO2_Oper_ctlVal) 0 (- 1) FC_CO T_CONSTRUCTED 0 None 0),
    (iedModel_GenericIO_GGIO1_SPCSO2_Oper_ctlVal,
    DataAttribute (Some ''ctlVal'') (Some iedModel_GenericIO_GGIO1_SPCSO2_Oper) (Some iedModel_GenericIO_GGIO1_SPCSO2_Oper_origin) None 0 (- 1) FC_CO T_BOOLEAN 0 None 0),
    (iedModel_GenericIO_GGIO1_SPCSO2_Oper_origin,
    DataAttribute (Some ''origin'') (Some iedModel_GenericIO_GGIO1_SPCSO2_Oper) (Some iedModel_GenericIO_GGIO1_SPCSO2_Oper_ctlNum) (Some iedModel_GenericIO_GGIO1_SPCSO2_Oper_origin_orCat) 0 (- 1) FC_CO T_CONSTRUCTED 0 None 0),
    (iedModel_GenericIO_GGIO1_SPCSO2_Oper_origin_orCat,
    DataAttribute (Some ''orCat'') (Some iedModel_GenericIO_GGIO1_SPCSO2_Oper_origin) (Some iedModel_GenericIO_GGIO1_SPCSO2_Oper_origin_orIdent) None 0 (- 1) FC_CO T_ENUMERATED 0 None 0),
    (iedModel_GenericIO_GGIO1_SPCSO2_Oper_origin_orIdent,
    DataAttribute (Some ''orIdent'') (Some iedModel_GenericIO_GGIO1_SPCSO2_Oper_origin) None None 0 (- 1) FC_CO T_OCTET_STRING_64 0 None 0),
    (iedModel_GenericIO_GGIO1_SPCSO2_Oper_ctlNum,
    DataAttribute (Some ''ctlNum'') (Some iedModel_GenericIO_GGIO1_SPCSO2_Oper) (Some iedModel_GenericIO_GGIO1_SPCSO2_Oper_T) None 0 (- 1) FC_CO T_INT8U 0 None 0),
    (iedModel_GenericIO_GGIO1_SPCSO2_Oper_T,
    DataAttribute (Some ''T'') (Some iedModel_GenericIO_GGIO1_SPCSO2_Oper) (Some iedModel_GenericIO_GGIO1_SPCSO2_Oper_Test) None 0 (- 1) FC_CO T_TIMESTAMP 0 None 0),
    (iedModel_GenericIO_GGIO1_SPCSO2_Oper_Test,
    DataAttribute (Some ''Test'') (Some iedModel_GenericIO_GGIO1_SPCSO2_Oper) (Some iedModel_GenericIO_GGIO1_SPCSO2_Oper_Check) None 0 (- 1) FC_CO T_BOOLEAN 0 None 0)]"

definition static_GGIO1_7 :: node_table where
  "static_GGIO1_7 =
   [(iedModel_GenericIO_GGIO1_SPCSO2_Oper_Check,
    DataAttribute (Some ''Check'') (Some iedModel_GenericIO_GGIO1_SPCSO2_Oper) None None 0 (- 1) FC_CO T_CHECK 0 None 0),
    (iedModel_GenericIO_GGIO1_SPCSO2_Cancel,
    DataAttribute (Some ''Cancel'') (Some iedModel_GenericIO_GGIO1_SPCSO2) (Some iedModel_GenericIO_GGIO1_SPCSO2_ctlModel) (Some iedModel_GenericIO_GGIO1_SPCSO2_Cancel_ctlVal) 0 (- 1) FC_CO T_CONSTRUCTED 0 None 0),
    (iedModel_GenericIO_GGIO1_SPCSO2_Cancel_ctlVal,
    DataAttribute (Some ''ctlVal'') (Some iedModel_GenericIO_GGIO1_SPCSO2_Cancel) (Some iedModel_GenericIO_GGIO1_SPCSO2_Cancel_origin) None 0 (- 1) FC_CO T_BOOLEAN 0 None 0),
    (iedModel_GenericIO_GGIO1_SPCSO2_Cancel_origin,
    DataAttribute (Some ''origin'') (Some iedModel_GenericIO_GGIO1_SPCSO2_Cancel) (Some iedModel_GenericIO_GGIO1_SPCSO2_Cancel_ctlNum) (Some iedModel_GenericIO_GGIO1_SPCSO2_Cancel_origin_orCat) 0 (- 1) FC_CO T_CONSTRUCTED 0 None 0),
    (iedModel_GenericIO_GGIO1_SPCSO2_Cancel_origin_orCat,
    DataAttribute (Some ''orCat'') (Some iedModel_GenericIO_GGIO1_SPCSO2_Cancel_origin) (Some iedModel_GenericIO_GGIO1_SPCSO2_Cancel_origin_orIdent) None 0 (- 1) FC_CO T_ENUMERATED 0 None 0),
    (iedModel_GenericIO_GGIO1_SPCSO2_Cancel_origin_orIdent,
    DataAttribute (Some ''orIdent'') (Some iedModel_GenericIO_GGIO1_SPCSO2_Cancel_origin) None None 0 (- 1) FC_CO T_OCTET_STRING_64 0 None 0),
    (iedModel_GenericIO_GGIO1_SPCSO2_Cancel_ctlNum,
    DataAttribute (Some ''ctlNum'') (Some iedModel_GenericIO_GGIO1_SPCSO2_Cancel) (Some iedModel_GenericIO_GGIO1_SPCSO2_Cancel_T) None 0 (- 1) FC_CO T_INT8U 0 None 0),
    (iedModel_GenericIO_GGIO1_SPCSO2_Cancel_T,
    DataAttribute (Some ''T'') (Some iedModel_GenericIO_GGIO1_SPCSO2_Cancel) (Some iedModel_GenericIO_GGIO1_SPCSO2_Cancel_Test) None 0 (- 1) FC_CO T_TIMESTAMP 0 None 0),
    (iedModel_GenericIO_GGIO1_SPCSO2_Cancel_Test,
    DataAttribute (Some ''Test'') (Some iedModel_GenericIO_GGIO1_SPCSO2_Cancel) None None 0 (- 1) FC_CO T_BOOLEAN 0 None 0),
    (iedModel_GenericIO_GGIO1_SPCSO2_ctlModel,
    DataAttribute (Some ''ctlModel'') (Some iedModel_GenericIO_GGIO1_SPCSO2) (Some iedModel_GenericIO_GGIO1_SPCSO2_t) None 0 (- 1) FC_CF T_ENUMERATED 0 None 0)]"

definition static_GGIO1_8 :: node_table where
  "static_GGIO1_8 =
   [(iedModel_GenericIO_GGIO1_SPCSO2_t,
    DataAttribute (Some ''t'') (Some iedModel_GenericIO_GGIO1_SPCSO2) None None 0 (- 1) FC_ST T_TIMESTAMP 0 None 0),
    (iedModel_GenericIO_GGIO1_SPCSO3,
    DataObject (Some ''SPCSO3'') (Some iedModel_GenericIO_GGIO1) (Some iedModel_GenericIO_GGIO1_DPCSO1) (Some iedModel_GenericIO_GGIO1_SPCSO3_stVal) 0 (- 1)),
    (iedModel_GenericIO_GGIO1_SPCSO3_stVal,
    DataAttribute (Some ''stVal'') (Some iedModel_GenericIO_GGIO1_SPCSO3) (Some iedModel_GenericIO_GGIO1_SPCSO3_q) None 0 (- 1) FC_ST T_BOOLEAN (0 + TRG_OPT_DATA_CHANGED) None 0),
    (iedModel_GenericIO_GGIO1_SPCSO3_q,
    DataAttribute (Some ''q'') (Some iedModel_GenericIO_GGIO1_SPCSO3) (Some iedModel_GenericIO_GGIO1_SPCSO3_Oper) None 0 (- 1) FC_ST T_QUALITY (0 + TRG_OPT_QUALITY_CHANGED) None 0),
    (iedModel_GenericIO_GGIO1_SPCSO3_Oper,
    DataAttribute (Some ''Oper'') (Some iedModel_GenericIO_GGIO1_SPCSO3) (Some iedModel_GenericIO_GGIO1_SPCSO3_ctlModel) (Some iedModel_GenericIO_GGIO1_SPCSO3_Oper_ctlVal) 0 (- 1) FC_CO T_CONSTRUCTED 0 None 0),
    (iedModel_GenericIO_GGIO1_SPCSO3_Oper_ctlVal,
    DataAttribute (Some ''ctlVal'') (Some iedModel_GenericIO_GGIO1_SPCSO3_Oper) (Some iedModel_GenericIO_GGIO1_SPCSO3_Oper_origin) None 0 (- 1) FC_CO T_BOOLEAN 0 None 0),
    (iedModel_GenericIO_GGIO1_SPCSO3_Oper_origin,
    DataAttribute (Some ''origin'') (Some iedModel_GenericIO_GGIO1_SPCSO3_Oper) (Some iedModel_GenericIO_GGIO1_SPCSO3_Oper_ctlNum) (Some iedModel_GenericIO_GGIO1_SPCSO3_Oper_origin_orCat) 0 (- 1) FC_CO T_CONSTRUCTED 0 None 0),
    (iedModel_GenericIO_GGIO1_SPCSO3_Oper_origin_orCat,
    DataAttribute (Some ''orCat'') (Some iedModel_GenericIO_GGIO1_SPCSO3_Oper_origin) (Some iedModel_GenericIO_GGIO1_SPCSO3_Oper_origin_orIdent) None 0 (- 1) FC_CO T_ENUMERATED 0 None 0),
    (iedModel_GenericIO_GGIO1_SPCSO3_Oper_origin_orIdent,
    DataAttribute (Some ''orIdent'') (Some iedModel_GenericIO_GGIO1_SPCSO3_Oper_origin) None None 0 (- 1) FC_CO T_OCTET_STRING_64 0 None 0),
    (iedModel_GenericIO_GGIO1_SPCSO3_Oper_ctlNum,
    DataAttribute (Some ''ctlNum'') (Some iedModel_GenericIO_GGIO1_SPCSO3_Oper) (Some iedModel_GenericIO_GGIO1_SPCSO3_Oper_T) None 0 (- 1) FC_CO T_INT8U 0 None 0)]"

definition static_GGIO1_9 :: node_table where
  "static_GGIO1_9 =
   [(iedModel_GenericIO_GGIO1_SPCSO3_Oper_T,
    DataAttribute (Some ''T'') (Some iedModel_GenericIO_GGIO1_SPCSO3_Oper) (Some iedModel_GenericIO_GGIO1_SPCSO3_Oper_Test) None 0 (- 1) FC_CO T_TIMESTAMP 0 None 0),
    (iedModel_GenericIO_GGIO1_SPCSO3_Oper_Test,
    DataAttribute (Some ''Test'') (Some iedModel_GenericIO_GGIO1_SPCSO3_Oper) (Some iedModel_GenericIO_GGIO1_SPCSO3_Oper_Check) None 0 (- 1) FC_CO T_BOOLEAN 0 None 0),
    (iedModel_GenericIO_GGIO1_SPCSO3_Oper_Check,
    DataAttribute (Some ''Check'') (Some iedModel_GenericIO_GGIO1_SPCSO3_Oper) None None 0 (- 1) FC_CO T_CHECK 0 None 0),
    (iedModel_GenericIO_GGIO1_SPCSO3_ctlModel,
    DataAttribute (Some ''ctlModel'') (Some iedModel_GenericIO_GGIO1_SPCSO3) (Some iedModel_GenericIO_GGIO1_SPCSO3_t) None 0 (- 1) FC_CF T_ENUMERATED 0 None 0),
    (iedModel_GenericIO_GGIO1_SPCSO3_t,
    DataAttribute (Some ''t'') (Some iedModel_GenericIO_GGIO1_SPCSO3) None None 0 (- 1) FC_ST T_TIMESTAMP 0 None 0),
    (iedModel_GenericIO_GGIO1_DPCSO1,
    DataObject (Some ''DPCSO1'') (Some iedModel_GenericIO_GGIO1) (Some iedModel_GenericIO_GGIO1_Ind1) (Some iedModel_GenericIO_GGIO1_DPCSO1_stVal) 0 (- 1)),
    (iedModel_GenericIO_GGIO1_DPCSO1_stVal,
    DataAttribute (Some ''stVal'') (Some iedModel_GenericIO_GGIO1_DPCSO1) (Some iedModel_GenericIO_GGIO1_DPCSO1_q) None 0 (- 1) FC_ST T_CODEDENUM (0 + TRG_OPT_DATA_CHANGED) None 0),
    (iedModel_GenericIO_GGIO1_DPCSO1_q,
    DataAttribute (Some ''q'') (Some iedModel_GenericIO_GGIO1_DPCSO1) (Some iedModel_GenericIO_GGIO1_DPCSO1_Oper) None 0 (- 1) FC_ST T_QUALITY (0 + TRG_OPT_QUALITY_CHANGED) None 0),
    (iedModel_GenericIO_GGIO1_DPCSO1_Oper,
    DataAttribute (Some ''Oper'') (Some iedModel_GenericIO_GGIO1_DPCSO1) (Some iedModel_GenericIO_GGIO1_DPCSO1_ctlModel) (Some iedModel_GenericIO_GGIO1_DPCSO1_Oper_ctlVal) 0 (- 1) FC_CO T_CONSTRUCTED 0 None 0),
    (iedModel_GenericIO_GGIO1_DPCSO1_Oper_ctlVal,
    DataAttribute (Some ''ctlVal'') (Some iedModel_GenericIO_GGIO1_DPCSO1_Oper) (Some iedModel_GenericIO_GGIO1_DPCSO1_Oper_origin) None 0 (- 1) FC_CO T_BOOLEAN 0 None 0)]"

definition static_GGIO1_10 :: node_table where
  "static_GGIO1_10 =
   [(iedModel_GenericIO_GGIO1_DPCSO1_Oper_origin,
    DataAttribute (Some ''origin'') (Some iedModel_GenericIO_GGIO1_DPCSO1_Oper) (Some iedModel_GenericIO_GGIO1_DPCSO1_Oper_ctlNum) (Some iedModel_GenericIO_GGIO1_DPCSO1_Oper_origin_orCat) 0 (- 1) FC_CO T_CONSTRUCTED 0 None 0),
    (iedModel_GenericIO_GGIO1_DPCSO1_Oper_origin_orCat,
    DataAttribute (Some ''orCat'') (Some iedModel_GenericIO_GGIO1_DPCSO1_Oper_origin) (Some iedModel_GenericIO_GGIO1_DPCSO1_Oper_origin_orIdent) None 0 (- 1) FC_CO T_ENUMERATED 0 None 0),
    (iedModel_GenericIO_GGIO1_DPCSO1_Oper_origin_orIdent,
    DataAttribute (Some ''orIdent'') (Some iedModel_GenericIO_GGIO1_DPCSO1_Oper_origin) None None 0 (- 1) FC_CO T_OCTET_STRING_64 0 None 0),
    (iedModel_GenericIO_GGIO1_DPCSO1_Oper_ctlNum,
    DataAttribute (Some ''ctlNum'') (Some iedModel_GenericIO_GGIO1_DPCSO1_Oper) (Some iedModel_GenericIO_GGIO1_DPCSO1_Oper_T) None 0 (- 1) FC_CO T_INT8U 0 None 0),
    (iedModel_GenericIO_GGIO1_DPCSO1_Oper_T,
    DataAttribute (Some ''T'') (Some iedModel_GenericIO_GGIO1_DPCSO1_Oper) (Some iedModel_GenericIO_GGIO1_DPCSO1_Oper_Test) None 0 (- 1) FC_CO T_TIMESTAMP 0 None 0),
    (iedModel_GenericIO_GGIO1_DPCSO1_Oper_Test,
    DataAttribute (Some ''Test'') (Some iedModel_GenericIO_GGIO1_DPCSO1_Oper) (Some iedModel_GenericIO_GGIO1_DPCSO1_Oper_Check) None 0 (- 1) FC_CO T_BOOLEAN 0 None 0),
    (iedModel_GenericIO_GGIO1_DPCSO1_Oper_Check,
    DataAttribute (Some ''Check'') (Some iedModel_GenericIO_GGIO1_DPCSO1_Oper) None None 0 (- 1) FC_CO T_CHECK 0 None 0),
    (iedModel_GenericIO_GGIO1_DPCSO1_ctlModel,
    DataAttribute (Some ''ctlModel'') (Some iedModel_GenericIO_GGIO1_DPCSO1) (Some iedModel_GenericIO_GGIO1_DPCSO1_t) None 0 (- 1) FC_CF T_ENUMERATED 0 None 0),
    (iedModel_GenericIO_GGIO1_DPCSO1_t,
    DataAttribute (Some ''t'') (Some iedModel_GenericIO_GGIO1_DPCSO1) None None 0 (- 1) FC_ST T_TIMESTAMP 0 None 0),
    (iedModel_GenericIO_GGIO1_Ind1,
    DataObject (Some ''Ind1'') (Some iedModel_GenericIO_GGIO1) (Some iedModel_GenericIO_GGIO1_Ind2) (Some iedModel_GenericIO_GGIO1_Ind1_stVal) 0 (- 1))]"

definition static_GGIO1_11 :: node_table where
  "static_GGIO1_11 =
   [(iedModel_GenericIO_GGIO1_Ind1_stVal,
    DataAttribute (Some ''stVal'') (Some iedModel_GenericIO_GGIO1_Ind1) (Some iedModel_GenericIO_GGIO1_Ind1_q) None 0 (- 1) FC_ST T_BOOLEAN (0 + TRG_OPT_DATA_CHANGED) None 0),
    (iedModel_GenericIO_GGIO1_Ind1_q,
    DataAttribute (Some ''q'') (Some iedModel_GenericIO_GGIO1_Ind1) (Some iedModel_GenericIO_GGIO1_Ind1_t) None 0 (- 1) FC_ST T_QUALITY (0 + TRG_OPT_QUALITY_CHANGED) None 0),
    (iedModel_GenericIO_GGIO1_Ind1_t,
    DataAttribute (Some ''t'') (Some iedModel_GenericIO_GGIO1_Ind1) None None 0 (- 1) FC_ST T_TIMESTAMP 0 None 0),
    (iedModel_GenericIO_GGIO1_Ind2,
    DataObject (Some ''Ind2'') (Some iedModel_GenericIO_GGIO1) (Some iedModel_GenericIO_GGIO1_Ind3) (Some iedModel_GenericIO_GGIO1_Ind2_stVal) 0 (- 1)),
    (iedModel_GenericIO_GGIO1_Ind2_stVal,
    DataAttribute (Some ''stVal'') (Some iedModel_GenericIO_GGIO1_Ind2) (Some iedModel_GenericIO_GGIO1_Ind2_q) None 0 (- 1) FC_ST T_BOOLEAN (0 + TRG_OPT_DATA_CHANGED) None 0),
    (iedModel_GenericIO_GGIO1_Ind2_q,
    DataAttribute (Some ''q'') (Some iedModel_GenericIO_GGIO1_Ind2) (Some iedModel_GenericIO_GGIO1_Ind2_t) None 0 (- 1) FC_ST T_QUALITY (0 + TRG_OPT_QUALITY_CHANGED) None 0),
    (iedModel_GenericIO_GGIO1_Ind2_t,
    DataAttribute (Some ''t'') (Some iedModel_GenericIO_GGIO1_Ind2) None None 0 (- 1) FC_ST T_TIMESTAMP 0 None 0),
    (iedModel_GenericIO_GGIO1_Ind3,
    DataObject (Some ''Ind3'') (Some iedModel_GenericIO_GGIO1) (Some iedModel_GenericIO_GGIO1_Ind4) (Some iedModel_GenericIO_GGIO1_Ind3_stVal) 0 (- 1)),
    (iedModel_GenericIO_GGIO1_Ind3_stVal,
    DataAttribute (Some ''stVal'') (Some iedModel_GenericIO_GGIO1_Ind3) (Some iedModel_GenericIO_GGIO1_Ind3_q) None 0 (- 1) FC_ST T_BOOLEAN (0 + TRG_OPT_DATA_CHANGED) None 0),
    (iedModel_GenericIO_GGIO1_Ind3_q,
    DataAttribute (Some ''q'') (Some iedModel_GenericIO_GGIO1_Ind3) (Some iedModel_GenericIO_GGIO1_Ind3_t) None 0 (- 1) FC_ST T_QUALITY (0 + TRG_OPT_QUALITY_CHANGED) None 0),
    (iedModel_GenericIO_GGIO1_Ind3_t,
    DataAttribute (Some ''t'') (Some iedModel_GenericIO_GGIO1_Ind3) None None 0 (- 1) FC_ST T_TIMESTAMP 0 None 0)]"

definition static_GGIO1_12 :: node_table where
  "static_GGIO1_12 =
   [(iedModel_GenericIO_GGIO1_Ind4,
    DataObject (Some ''Ind4'') (Some iedModel_GenericIO_GGIO1) None (Some iedModel_GenericIO_GGIO1_Ind4_stVal) 0 (- 1)),
    (iedModel_GenericIO_GGIO1_Ind4_stVal,
    DataAttribute (Some ''stVal'') (Some iedModel_GenericIO_GGIO1_Ind4) (Some iedModel_GenericIO_GGIO1_Ind4_q) None 0 (- 1) FC_ST T_BOOLEAN (0 + TRG_OPT_DATA_CHANGED) None 0),
    (iedModel_GenericIO_GGIO1_Ind4_q,
    DataAttribute (Some ''q'') (Some iedModel_GenericIO_GGIO1_Ind4) (Some iedModel_GenericIO_GGIO1_Ind4_t) None 0 (- 1) FC_ST T_QUALITY (0 + TRG_OPT_QUALITY_CHANGED) None 0),
    (iedModel_GenericIO_GGIO1_Ind4_t,
    DataAttribute (Some ''t'') (Some iedModel_GenericIO_GGIO1_Ind4) None None 0 (- 1) FC_ST T_TIMESTAMP 0 None 0)]"

definition static_GGIO1 :: node_table where
  "static_GGIO1 = concat [static_GGIO1_1,
     static_GGIO1_2,
     static_GGIO1_3,
     static_GGIO1_4,
     static_GGIO1_5,
     static_GGIO1_6,
     static_GGIO1_7,
     static_GGIO1_8,
     static_GGIO1_9,
     static_GGIO1_10,
     static_GGIO1_11,
     static_GGIO1_12]"

section \<open>Checking the lists\<close>

lemma scan_static_LD: "scan [(Some iedModel, Some iedModel_GenericIO)] static_LD
    = Some [(Some iedModel_GenericIO, Some iedModel_GenericIO_LLN0), (Some iedModel, None)]"
  by (simp add: static_LD_def)

lemma conf_static_LD: "list_all node_conforms (map snd static_LD)"
  by (simp add: static_LD_def TRG_OPT_DATA_CHANGED_def TRG_OPT_QUALITY_CHANGED_def)

lemma addrs_static_LD: "map fst static_LD = [1001 ..< 1002]"
  by (simp add: static_LD_def upt_rec_numeral)

lemma scan_static_LLN0_1: "scan [(Some iedModel_GenericIO, Some iedModel_GenericIO_LLN0), (Some iedModel, None)] static_LLN0_1
    = Some [(Some iedModel_GenericIO_LLN0_Health, Some iedModel_GenericIO_LLN0_Health_stVal), (Some iedModel_GenericIO_LLN0, Some iedModel_GenericIO_LLN0_NamPlt), (Some iedModel_GenericIO, Some iedModel_GenericIO_LPHD1), (Some iedModel, None)]"
  by (simp add: static_LLN0_1_def)

lemma conf_static_LLN0_1: "list_all node_conforms (map snd static_LLN0_1)"
  by (simp add: static_LLN0_1_def TRG_OPT_DATA_CHANGED_def TRG_OPT_QUALITY_CHANGED_def)

lemma addrs_static_LLN0_1: "map fst static_LLN0_1 = [1002 ..< 1013]"
  by (simp add: static_LLN0_1_def upt_rec_numeral)

lemma scan_static_LLN0_2: "scan [(Some iedModel_GenericIO_LLN0_Health, Some iedModel_GenericIO_LLN0_Health_stVal), (Some iedModel_GenericIO_LLN0, Some iedModel_GenericIO_LLN0_NamPlt), (Some iedModel_GenericIO, Some iedModel_GenericIO_LPHD1), (Some iedModel, None)] static_LLN0_2
    = Some [(Some iedModel_GenericIO, Some iedModel_GenericIO_LPHD1), (Some iedModel, None)]"
  by (simp add: static_LLN0_2_def)

lemma conf_static_LLN0_2: "list_all node_conforms (map snd static_LLN0_2)"
  by (simp add: static_LLN0_2_def TRG_OPT_DATA_CHANGED_def TRG_OPT_QUALITY_CHANGED_def)

lemma addrs_static_LLN0_2: "map fst static_LLN0_2 = [1013 ..< 1022]"
  by (simp add: static_LLN0_2_def upt_rec_numeral)

lemma scan_static_LPHD1: "scan [(Some iedModel_GenericIO, Some iedModel_GenericIO_LPHD1), (Some iedModel, None)] static_LPHD1
    = Some [(Some iedModel_GenericIO, Some iedModel_GenericIO_GGIO1), (Some iedModel, None)]"
  by (simp add: static_LPHD1_def)

lemma conf_static_LPHD1: "list_all node_conforms (map snd static_LPHD1)"
  by (simp add: static_LPHD1_def TRG_OPT_DATA_CHANGED_def TRG_OPT_QUALITY_CHANGED_def)

lemma addrs_static_LPHD1: "map fst static_LPHD1 = [1022 ..< 1033]"
  by (simp add: static_LPHD1_def upt_rec_numeral)

lemma scan_static_GGIO1_1: "scan [(Some iedModel_GenericIO, Some iedModel_GenericIO_GGIO1), (Some iedModel, None)] static_GGIO1_1
    = Some [(Some iedModel_GenericIO_GGIO1_Health, Some iedModel_GenericIO_GGIO1_Health_stVal), (Some iedModel_GenericIO_GGIO1, Some iedModel_GenericIO_GGIO1_NamPlt), (Some iedModel_GenericIO, Some iedModel_GenericIO_TIM_GAPC1), (Some iedModel, None)]"
  by (simp add: static_GGIO1_1_def)

lemma conf_static_GGIO1_1: "list_all node_conforms (map snd static_GGIO1_1)"
  by (simp add: static_GGIO1_1_def TRG_OPT_DATA_CHANGED_def TRG_OPT_QUALITY_CHANGED_def)

lemma addrs_static_GGIO1_1: "map fst static_GGIO1_1 = [1033 ..< 1044]"
  by (simp add: static_GGIO1_1_def upt_rec_numeral)

lemma scan_static_GGIO1_2: "scan [(Some iedModel_GenericIO_GGIO1_Health, Some iedModel_GenericIO_GGIO1_Health_stVal), (Some iedModel_GenericIO_GGIO1, Some iedModel_GenericIO_GGIO1_NamPlt), (Some iedModel_GenericIO, Some iedModel_GenericIO_TIM_GAPC1), (Some iedModel, None)] static_GGIO1_2
    = Some [(Some iedModel_GenericIO_GGIO1_AnIn1, Some iedModel_GenericIO_GGIO1_AnIn1_t), (Some iedModel_GenericIO_GGIO1, Some iedModel_GenericIO_GGIO1_AnIn2), (Some iedModel_GenericIO, Some iedModel_GenericIO_TIM_GAPC1), (Some iedModel, None)]"
  by (simp add: static_GGIO1_2_def)

lemma conf_static_GGIO1_2: "list_all node_conforms (map snd static_GGIO1_2)"
  by (simp add: static_GGIO1_2_def TRG_OPT_DATA_CHANGED_def TRG_OPT_QUALITY_CHANGED_def)

lemma addrs_static_GGIO1_2: "map fst static_GGIO1_2 = [1044 ..< 1055]"
  by (simp add: static_GGIO1_2_def upt_rec_numeral)

lemma scan_static_GGIO1_3: "scan [(Some iedModel_GenericIO_GGIO1_AnIn1, Some iedModel_GenericIO_GGIO1_AnIn1_t), (Some iedModel_GenericIO_GGIO1, Some iedModel_GenericIO_GGIO1_AnIn2), (Some iedModel_GenericIO, Some iedModel_GenericIO_TIM_GAPC1), (Some iedModel, None)] static_GGIO1_3
    = Some [(Some iedModel_GenericIO_GGIO1, Some iedModel_GenericIO_GGIO1_AnIn4), (Some iedModel_GenericIO, Some iedModel_GenericIO_TIM_GAPC1), (Some iedModel, None)]"
  by (simp add: static_GGIO1_3_def)

lemma conf_static_GGIO1_3: "list_all node_conforms (map snd static_GGIO1_3)"
  by (simp add: static_GGIO1_3_def TRG_OPT_DATA_CHANGED_def TRG_OPT_QUALITY_CHANGED_def)

lemma addrs_static_GGIO1_3: "map fst static_GGIO1_3 = [1055 ..< 1066]"
  by (simp add: static_GGIO1_3_def upt_rec_numeral)

lemma scan_static_GGIO1_4: "scan [(Some iedModel_GenericIO_GGIO1, Some iedModel_GenericIO_GGIO1_AnIn4), (Some iedModel_GenericIO, Some iedModel_GenericIO_TIM_GAPC1), (Some iedModel, None)] static_GGIO1_4
    = Some [(Some iedModel_GenericIO_GGIO1_SPCSO1_Oper_origin, Some iedModel_GenericIO_GGIO1_SPCSO1_Oper_origin_orCat), (Some iedModel_GenericIO_GGIO1_SPCSO1_Oper, Some iedModel_GenericIO_GGIO1_SPCSO1_Oper_ctlNum), (Some iedModel_GenericIO_GGIO1_SPCSO1, Some iedModel_GenericIO_GGIO1_SPCSO1_ctlModel), (Some iedModel_GenericIO_GGIO1, Some iedModel_GenericIO_GGIO1_SPCSO2), (Some iedModel_GenericIO, Some iedModel_GenericIO_TIM_GAPC1), (Some iedModel, None)]"
  by (simp add: static_GGIO1_4_def)

lemma conf_static_GGIO1_4: "list_all node_conforms (map snd static_GGIO1_4)"
  by (simp add: static_GGIO1_4_def TRG_OPT_DATA_CHANGED_def TRG_OPT_QUALITY_CHANGED_def)

lemma addrs_static_GGIO1_4: "map fst static_GGIO1_4 = [1066 ..< 1077]"
  by (simp add: static_GGIO1_4_def upt_rec_numeral)

lemma scan_static_GGIO1_5: "scan [(Some iedModel_GenericIO_GGIO1_SPCSO1_Oper_origin, Some iedModel_GenericIO_GGIO1_SPCSO1_Oper_origin_orCat), (Some iedModel_GenericIO_GGIO1_SPCSO1_Oper, Some iedModel_GenericIO_GGIO1_SPCSO1_Oper_ctlNum), (Some iedModel_GenericIO_GGIO1_SPCSO1, Some iedModel_GenericIO_GGIO1_SPCSO1_ctlModel), (Some iedModel_GenericIO_GGIO1, Some iedModel_GenericIO_GGIO1_SPCSO2), (Some iedModel_GenericIO, Some iedModel_GenericIO_TIM_GAPC1), (Some iedModel, None)] static_GGIO1_5
    = Some [(Some iedModel_GenericIO_GGIO1_SPCSO2, Some iedModel_GenericIO_GGIO1_SPCSO2_q), (Some iedModel_GenericIO_GGIO1, Some iedModel_GenericIO_GGIO1_SPCSO3), (Some iedModel_GenericIO, Some iedModel_GenericIO_TIM_GAPC1), (Some iedModel, None)]"
  by (simp add: static_GGIO1_5_def)

lemma conf_static_GGIO1_5: "list_all node_conforms (map snd static_GGIO1_5)"
  by (simp add: static_GGIO1_5_def TRG_OPT_DATA_CHANGED_def TRG_OPT_QUALITY_CHANGED_def)

lemma addrs_static_GGIO1_5: "map fst static_GGIO1_5 = [1077 ..< 1087]"
  by (simp add: static_GGIO1_5_def upt_rec_numeral)

lemma scan_static_GGIO1_6: "scan [(Some iedModel_GenericIO_GGIO1_SPCSO2, Some iedModel_GenericIO_GGIO1_SPCSO2_q), (Some iedModel_GenericIO_GGIO1, Some iedModel_GenericIO_GGIO1_SPCSO3), (Some iedModel_GenericIO, Some iedModel_GenericIO_TIM_GAPC1), (Some iedModel, None)] static_GGIO1_6
    = Some [(Some iedModel_GenericIO_GGIO1_SPCSO2_Oper, Some iedModel_GenericIO_GGIO1_SPCSO2_Oper_Check), (Some iedModel_GenericIO_GGIO1_SPCSO2, Some iedModel_GenericIO_GGIO1_SPCSO2_Cancel), (Some iedModel_GenericIO_GGIO1, Some iedModel_GenericIO_GGIO1_SPCSO3), (Some iedModel_GenericIO, Some iedModel_GenericIO_TIM_GAPC1), (Some iedModel, None)]"
  by (simp add: static_GGIO1_6_def)

lemma conf_static_GGIO1_6: "list_all node_conforms (map snd static_GGIO1_6)"
  by (simp add: static_GGIO1_6_def TRG_OPT_DATA_CHANGED_def TRG_OPT_QUALITY_CHANGED_def)

lemma addrs_static_GGIO1_6: "map fst static_GGIO1_6 = [1087 ..< 1097]"
  by (simp add: static_GGIO1_6_def upt_rec_numeral)

lemma scan_static_GGIO1_7: "scan [(Some iedModel_GenericIO_GGIO1_SPCSO2_Oper, Some iedModel_GenericIO_GGIO1_SPCSO2_Oper_Check), (Some iedModel_GenericIO_GGIO1_SPCSO2, Some iedModel_GenericIO_GGIO1_SPCSO2_Cancel), (Some iedModel_GenericIO_GGIO1, Some iedModel_GenericIO_GGIO1_SPCSO3), (Some iedModel_GenericIO, Some iedModel_GenericIO_TIM_GAPC1), (Some iedModel, None)] static_GGIO1_7
    = Some [(Some iedModel_GenericIO_GGIO1_SPCSO2, Some iedModel_GenericIO_GGIO1_SPCSO2_t), (Some iedModel_GenericIO_GGIO1, Some iedModel_GenericIO_GGIO1_SPCSO3), (Some iedModel_GenericIO, Some iedModel_GenericIO_TIM_GAPC1), (Some iedModel, None)]"
  by (simp add: static_GGIO1_7_def)

lemma conf_static_GGIO1_7: "list_all node_conforms (map snd static_GGIO1_7)"
  by (simp add: static_GGIO1_7_def TRG_OPT_DATA_CHANGED_def TRG_OPT_QUALITY_CHANGED_def)

lemma addrs_static_GGIO1_7: "map fst static_GGIO1_7 = [1097 ..< 1107]"
  by (simp add: static_GGIO1_7_def upt_rec_numeral)

lemma scan_static_GGIO1_8: "scan [(Some iedModel_GenericIO_GGIO1_SPCSO2, Some iedModel_GenericIO_GGIO1_SPCSO2_t), (Some iedModel_GenericIO_GGIO1, Some iedModel_GenericIO_GGIO1_SPCSO3), (Some iedModel_GenericIO, Some iedModel_GenericIO_TIM_GAPC1), (Some iedModel, None)] static_GGIO1_8
    = Some [(Some iedModel_GenericIO_GGIO1_SPCSO3_Oper, Some iedModel_GenericIO_GGIO1_SPCSO3_Oper_T), (Some iedModel_GenericIO_GGIO1_SPCSO3, Some iedModel_GenericIO_GGIO1_SPCSO3_ctlModel), (Some iedModel_GenericIO_GGIO1, Some iedModel_GenericIO_GGIO1_DPCSO1), (Some iedModel_GenericIO, Some iedModel_GenericIO_TIM_GAPC1), (Some iedModel, None)]"
  by (simp add: static_GGIO1_8_def)

lemma conf_static_GGIO1_8: "list_all node_conforms (map snd static_GGIO1_8)"
  by (simp add: static_GGIO1_8_def TRG_OPT_DATA_CHANGED_def TRG_OPT_QUALITY_CHANGED_def)

lemma addrs_static_GGIO1_8: "map fst static_GGIO1_8 = [1107 ..< 1117]"
  by (simp add: static_GGIO1_8_def upt_rec_numeral)

lemma scan_static_GGIO1_9: "scan [(Some iedModel_GenericIO_GGIO1_SPCSO3_Oper, Some iedModel_GenericIO_GGIO1_SPCSO3_Oper_T), (Some iedModel_GenericIO_GGIO1_SPCSO3, Some iedModel_GenericIO_GGIO1_SPCSO3_ctlModel), (Some iedModel_GenericIO_GGIO1, Some iedModel_GenericIO_GGIO1_DPCSO1), (Some iedModel_GenericIO, Some iedModel_GenericIO_TIM_GAPC1), (Some iedModel, None)] static_GGIO1_9
    = Some [(Some iedModel_GenericIO_GGIO1_DPCSO1_Oper, Some iedModel_GenericIO_GGIO1_DPCSO1_Oper_origin), (Some iedModel_GenericIO_GGIO1_DPCSO1, Some iedModel_GenericIO_GGIO1_DPCSO1_ctlModel), (Some iedModel_GenericIO_GGIO1, Some iedModel_GenericIO_GGIO1_Ind1), (Some iedModel_GenericIO, Some iedModel_GenericIO_TIM_GAPC1), (Some iedModel, None)]"
  by (simp add: static_GGIO1_9_def)

lemma conf_static_GGIO1_9: "list_all node_conforms (map snd static_GGIO1_9)"
  by (simp add: static_GGIO1_9_def TRG_OPT_DATA_CHANGED_def TRG_OPT_QUALITY_CHANGED_def)

lemma addrs_static_GGIO1_9: "map fst static_GGIO1_9 = [1117 ..< 1127]"
  by (simp add: static_GGIO1_9_def upt_rec_numeral)

lemma scan_static_GGIO1_10: "scan [(Some iedModel_GenericIO_GGIO1_DPCSO1_Oper, Some iedModel_GenericIO_GGIO1_DPCSO1_Oper_origin), (Some iedModel_GenericIO_GGIO1_DPCSO1, Some iedModel_GenericIO_GGIO1_DPCSO1_ctlModel), (Some iedModel_GenericIO_GGIO1, Some iedModel_GenericIO_GGIO1_Ind1), (Some iedModel_GenericIO, Some iedModel_GenericIO_TIM_GAPC1), (Some iedModel, None)] static_GGIO1_10
    = Some [(Some iedModel_GenericIO_GGIO1_Ind1, Some iedModel_GenericIO_GGIO1_Ind1_stVal), (Some iedModel_GenericIO_GGIO1, Some iedModel_GenericIO_GGIO1_Ind2), (Some iedModel_GenericIO, Some iedModel_GenericIO_TIM_GAPC1), (Some iedModel, None)]"
  by (simp add: static_GGIO1_10_def)

lemma conf_static_GGIO1_10: "list_all node_conforms (map snd static_GGIO1_10)"
  by (simp add: static_GGIO1_10_def TRG_OPT_DATA_CHANGED_def TRG_OPT_QUALITY_CHANGED_def)

lemma addrs_static_GGIO1_10: "map fst static_GGIO1_10 = [1127 ..< 1137]"
  by (simp add: static_GGIO1_10_def upt_rec_numeral)

lemma scan_static_GGIO1_11: "scan [(Some iedModel_GenericIO_GGIO1_Ind1, Some iedModel_GenericIO_GGIO1_Ind1_stVal), (Some iedModel_GenericIO_GGIO1, Some iedModel_GenericIO_GGIO1_Ind2), (Some iedModel_GenericIO, Some iedModel_GenericIO_TIM_GAPC1), (Some iedModel, None)] static_GGIO1_11
    = Some [(Some iedModel_GenericIO_GGIO1, Some iedModel_GenericIO_GGIO1_Ind4), (Some iedModel_GenericIO, Some iedModel_GenericIO_TIM_GAPC1), (Some iedModel, None)]"
  by (simp add: static_GGIO1_11_def)

lemma conf_static_GGIO1_11: "list_all node_conforms (map snd static_GGIO1_11)"
  by (simp add: static_GGIO1_11_def TRG_OPT_DATA_CHANGED_def TRG_OPT_QUALITY_CHANGED_def)

lemma addrs_static_GGIO1_11: "map fst static_GGIO1_11 = [1137 ..< 1148]"
  by (simp add: static_GGIO1_11_def upt_rec_numeral)

lemma scan_static_GGIO1_12: "scan [(Some iedModel_GenericIO_GGIO1, Some iedModel_GenericIO_GGIO1_Ind4), (Some iedModel_GenericIO, Some iedModel_GenericIO_TIM_GAPC1), (Some iedModel, None)] static_GGIO1_12
    = Some [(Some iedModel_GenericIO, Some iedModel_GenericIO_TIM_GAPC1), (Some iedModel, None)]"
  by (simp add: static_GGIO1_12_def)

lemma conf_static_GGIO1_12: "list_all node_conforms (map snd static_GGIO1_12)"
  by (simp add: static_GGIO1_12_def TRG_OPT_DATA_CHANGED_def TRG_OPT_QUALITY_CHANGED_def)

lemma addrs_static_GGIO1_12: "map fst static_GGIO1_12 = [1148 ..< 1152]"
  by (simp add: static_GGIO1_12_def upt_rec_numeral)

end
