(* ===== verification/Ied_Timer_Node.thy ===== *)
theory Ied_Timer_Node
  imports Ied_Symbols
begin

text \<open>
  The structures of \<open>core/iec61850/model/static_model.c\<close> for the logical node \<open>TIM_GAPC1\<close>, in file order,
  a list per stretch of the file, and the pass of the checker over each list.
\<close>

definition static_TIM_GAPC1_1 :: node_table where
  "static_TIM_GAPC1_1 =
   [(iedModel_GenericIO_TIM_GAPC1,
    LogicalNode (Some ''TIM_GAPC1'') (Some iedModel_GenericIO) (Some iedModel_GenericIO_T60S_FSCH1) (Some iedModel_GenericIO_TIM_GAPC1_Beh)),
    (iedModel_GenericIO_TIM_GAPC1_Beh,
    DataObject (Some ''Beh'') (Some iedModel_GenericIO_TIM_GAPC1) (Some iedModel_GenericIO_TIM_GAPC1_Mod) (Some iedModel_GenericIO_TIM_GAPC1_Beh_stVal) 0 (- 1)),
    (iedModel_GenericIO_TIM_GAPC1_Beh_stVal,
    DataAttribute (Some ''stVal'') (Some iedModel_GenericIO_TIM_GAPC1_Beh) (Some iedModel_GenericIO_TIM_GAPC1_Beh_q) None 0 (- 1) FC_ST T_ENUMERATED (0 + TRG_OPT_DATA_CHANGED) None 0),
    (iedModel_GenericIO_TIM_GAPC1_Beh_q,
    DataAttribute (Some ''q'') (Some iedModel_GenericIO_TIM_GAPC1_Beh) (Some iedModel_GenericIO_TIM_GAPC1_Beh_t) None 0 (- 1) FC_ST T_QUALITY (0 + TRG_OPT_QUALITY_CHANGED) None 0),
    (iedModel_GenericIO_TIM_GAPC1_Beh_t,
    DataAttribute (Some ''t'') (Some iedModel_GenericIO_TIM_GAPC1_Beh) None None 0 (- 1) FC_ST T_TIMESTAMP 0 None 0),
    (iedModel_GenericIO_TIM_GAPC1_Mod,
    DataObject (Some ''Mod'') (Some iedModel_GenericIO_TIM_GAPC1) (Some iedModel_GenericIO_TIM_GAPC1_Str) (Some iedModel_GenericIO_TIM_GAPC1_Mod_stVal) 0 (- 1)),
    (iedModel_GenericIO_TIM_GAPC1_Mod_stVal,
    DataAttribute (Some ''stVal'') (Some iedModel_GenericIO_TIM_GAPC1_Mod) (Some iedModel_GenericIO_TIM_GAPC1_Mod_q) None 0 (- 1) FC_ST T_ENUMERATED (0 + TRG_OPT_DATA_CHANGED) None 0),
    (iedModel_GenericIO_TIM_GAPC1_Mod_q,
    DataAttribute (Some ''q'') (Some iedModel_GenericIO_TIM_GAPC1_Mod) (Some iedModel_GenericIO_TIM_GAPC1_Mod_t) None 0 (- 1) FC_ST T_QUALITY (0 + TRG_OPT_QUALITY_CHANGED) None 0),
    (iedModel_GenericIO_TIM_GAPC1_Mod_t,
    DataAttribute (Some ''t'') (Some iedModel_GenericIO_TIM_GAPC1_Mod) (Some iedModel_GenericIO_TIM_GAPC1_Mod_ctlModel) None 0 (- 1) FC_ST T_TIMESTAMP 0 None 0),
    (iedModel_GenericIO_TIM_GAPC1_Mod_ctlModel,
    DataAttribute (Some ''ctlModel'') (Some iedModel_GenericIO_TIM_GAPC1_Mod) None None 0 (- 1) FC_CF T_ENUMERATED 0 None 0),
    (iedModel_GenericIO_TIM_GAPC1_Str,
    DataObject (Some ''Str'') (Some iedModel_GenericIO_TIM_GAPC1) (Some iedModel_GenericIO_TIM_GAPC1_Op) (Some iedModel_GenericIO_TIM_GAPC1_Str_general) 0 (- 1))]"

definition static_TIM_GAPC1_2 :: node_table where
  "static_TIM_GAPC1_2 =
   [(iedModel_GenericIO_TIM_GAPC1_Str_general,
    DataAttribute (Some ''general'') (Some iedModel_GenericIO_TIM_GAPC1_Str) (Some iedModel_GenericIO_TIM_GAPC1_Str_dirGeneral) None 0 (- 1) FC_ST T_BOOLEAN (0 + TRG_OPT_DATA_CHANGED) None 0),
    (iedModel_GenericIO_TIM_GAPC1_Str_dirGeneral,
    DataAttribute (Some ''dirGeneral'') (Some iedModel_GenericIO_TIM_GAPC1_Str) (Some iedModel_GenericIO_TIM_GAPC1_Str_q) None 0 (- 1) FC_ST T_ENUMERATED (0 + TRG_OPT_DATA_CHANGED) None 0),
    (iedModel_GenericIO_TIM_GAPC1_Str_q,
    DataAttribute (Some ''q'') (Some iedModel_GenericIO_TIM_GAPC1_Str) (Some iedModel_GenericIO_TIM_GAPC1_Str_t) None 0 (- 1) FC_ST T_QUALITY (0 + TRG_OPT_QUALITY_CHANGED) None 0),
    (iedModel_GenericIO_TIM_GAPC1_Str_t,
    DataAttribute (Some ''t'') (Some iedModel_GenericIO_TIM_GAPC1_Str) None None 0 (- 1) FC_ST T_TIMESTAMP 0 None 0),
    (iedModel_GenericIO_TIM_GAPC1_Op,
    DataObject (Some ''Op'') (Some iedModel_GenericIO_TIM_GAPC1) (Some iedModel_GenericIO_TIM_GAPC1_OpDlTmms) (Some iedModel_GenericIO_TIM_GAPC1_Op_general) 0 (- 1)),
    (iedModel_GenericIO_TIM_GAPC1_Op_general,
    DataAttribute (Some ''general'') (Some iedModel_GenericIO_TIM_GAPC1_Op) (Some iedModel_GenericIO_TIM_GAPC1_Op_q) None 0 (- 1) FC_ST T_BOOLEAN (0 + TRG_OPT_DATA_CHANGED) None 0),
    (iedModel_GenericIO_TIM_GAPC1_Op_q,
    DataAttribute (Some ''q'') (Some iedModel_GenericIO_TIM_GAPC1_Op) (Some iedModel_GenericIO_TIM_GAPC1_Op_t) None 0 (- 1) FC_ST T_QUALITY (0 + TRG_OPT_QUALITY_CHANGED) None 0),
    (iedModel_GenericIO_TIM_GAPC1_Op_t,
    DataAttribute (Some ''t'') (Some iedModel_GenericIO_TIM_GAPC1_Op) None None 0 (- 1) FC_ST T_TIMESTAMP 0 None 0),
    (iedModel_GenericIO_TIM_GAPC1_OpDlTmms,
    DataObject (Some ''OpDlTmms'') (Some iedModel_GenericIO_TIM_GAPC1) (Some iedModel_GenericIO_TIM_GAPC1_RsDlTmms) (Some iedModel_GenericIO_TIM_GAPC1_OpDlTmms_setVal) 0 (- 1)),
    (iedModel_GenericIO_TIM_GAPC1_OpDlTmms_setVal,
    DataAttribute (Some ''setVal'') (Some iedModel_GenericIO_TIM_GAPC1_OpDlTmms) (Some iedModel_GenericIO_TIM_GAPC1_OpDlTmms_dataNs) None 0 (- 1) FC_SP T_INT32 (0 + TRG_OPT_DATA_CHANGED) None 0),
    (iedModel_GenericIO_TIM_GAPC1_OpDlTmms_dataNs,
    DataAttribute (Some ''dataNs'') (Some iedModel_GenericIO_TIM_GAPC1_OpDlTmms) None None 0 (- 1) FC_EX T_VISIBLE_STRING_255 0 None 0)]"

definition static_TIM_GAPC1_3 :: node_table where
  "static_TIM_GAPC1_3 =
   [(iedModel_GenericIO_TIM_GAPC1_RsDlTmms,
    DataObject (Some ''RsDlTmms'') (Some iedModel_GenericIO_TIM_GAPC1) (Some iedModel_GenericIO_TIM_GAPC1_OpCntRs) (Some iedModel_GenericIO_TIM_GAPC1_RsDlTmms_setVal) 0 (- 1)),
    (iedModel_GenericIO_TIM_GAPC1_RsDlTmms_setVal,
    DataAttribute (Some ''setVal'') (Some iedModel_GenericIO_TIM_GAPC1_RsDlTmms) (Some iedModel_GenericIO_TIM_GAPC1_RsDlTmms_dataNs) None 0 (- 1) FC_SP T_INT32 (0 + TRG_OPT_DATA_CHANGED) None 0),
    (iedModel_GenericIO_TIM_GAPC1_RsDlTmms_dataNs,
    DataAttribute (Some ''dataNs'') (Some iedModel_GenericIO_TIM_GAPC1_RsDlTmms) None None 0 (- 1) FC_EX T_VISIBLE_STRING_255 0 None 0),
    (iedModel_GenericIO_TIM_GAPC1_OpCntRs,
    DataObject (Some ''OpCntRs'') (Some iedModel_GenericIO_TIM_GAPC1) None (Some iedModel_GenericIO_TIM_GAPC1_OpCntRs_stVal) 0 (- 1)),
    (iedModel_GenericIO_TIM_GAPC1_OpCntRs_stVal,
    DataAttribute (Some ''stVal'') (Some iedModel_GenericIO_TIM_GAPC1_OpCntRs) (Some iedModel_GenericIO_TIM_GAPC1_OpCntRs_q) None 0 (- 1) FC_ST T_INT32 (0 + TRG_OPT_DATA_CHANGED) None 0),
    (iedModel_GenericIO_TIM_GAPC1_OpCntRs_q,
    DataAttribute (Some ''q'') (Some iedModel_GenericIO_TIM_GAPC1_OpCntRs) (Some iedModel_GenericIO_TIM_GAPC1_OpCntRs_t) None 0 (- 1) FC_ST T_QUALITY (0 + TRG_OPT_QUALITY_CHANGED) None 0),
    (iedModel_GenericIO_TIM_GAPC1_OpCntRs_t,
    DataAttribute (Some ''t'') (Some iedModel_GenericIO_TIM_GAPC1_OpCntRs) (Some iedModel_GenericIO_TIM_GAPC1_OpCntRs_Oper) None 0 (- 1) FC_ST T_TIMESTAMP 0 None 0),
    (iedModel_GenericIO_TIM_GAPC1_OpCntRs_Oper,
    DataAttribute (Some ''Oper'') (Some iedModel_GenericIO_TIM_GAPC1_OpCntRs) (Some iedModel_GenericIO_TIM_GAPC1_OpCntRs_ctlModel) (Some iedModel_GenericIO_TIM_GAPC1_OpCntRs_Oper_ctlVal) 0 (- 1) FC_CO T_CONSTRUCTED 0 None 0),
    (iedModel_GenericIO_TIM_GAPC1_OpCntRs_Oper_ctlVal,
    DataAttribute (Some ''ctlVal'') (Some iedModel_GenericIO_TIM_GAPC1_OpCntRs_Oper) (Some iedModel_GenericIO_TIM_GAPC1_OpCntRs_Oper_origin) None 0 (- 1) FC_CO T_INT32 0 None 0),
    (iedModel_GenericIO_TIM_GAPC1_OpCntRs_Oper_origin,
    DataAttribute (Some ''origin'') (Some iedModel_GenericIO_TIM_GAPC1_OpCntRs_Oper) (Some iedModel_GenericIO_TIM_GAPC1_OpCntRs_Oper_ctlNum) (Some iedModel_GenericIO_TIM_GAPC1_OpCntRs_Oper_origin_orCat) 0 (- 1) FC_CO T_CONSTRUCTED 0 None 0),
    (iedModel_GenericIO_TIM_GAPC1_OpCntRs_Oper_origin_orCat,
    DataAttribute (Some ''orCat'') (Some iedModel_GenericIO_TIM_GAPC1_OpCntRs_Oper_origin) (Some iedModel_GenericIO_TIM_GAPC1_OpCntRs_Oper_origin_orIdent) None 0 (- 1) FC_CO T_ENUMERATED 0 None 0)]"

definition static_TIM_GAPC1_4 :: node_table where
  "static_TIM_GAPC1_4 =
   [(iedModel_GenericIO_TIM_GAPC1_OpCntRs_Oper_origin_orIdent,
    DataAttribute (Some ''orIdent'') (Some iedModel_GenericIO_TIM_GAPC1_OpCntRs_Oper_origin) None None 0 (- 1) FC_CO T_OCTET_STRING_64 0 None 0),
    (iedModel_GenericIO_TIM_GAPC1_OpCntRs_Oper_ctlNum,
    DataAttribute (Some ''ctlNum'') (Some iedModel_GenericIO_TIM_GAPC1_OpCntRs_Oper) (Some iedModel_GenericIO_TIM_GAPC1_OpCntRs_Oper_T) None 0 (- 1) FC_CO T_INT8U 0 None 0),
    (iedModel_GenericIO_TIM_GAPC1_OpCntRs_Oper_T,
    DataAttribute (Some ''T'') (Some iedModel_GenericIO_TIM_GAPC1_OpCntRs_Oper) (Some iedModel_GenericIO_TIM_GAPC1_OpCntRs_Oper_Test) None 0 (- 1) FC_CO T_TIMESTAMP 0 None 0),
    (iedModel_GenericIO_TIM_GAPC1_OpCntRs_Oper_Test,
    DataAttribute (Some ''Test'') (Some iedModel_GenericIO_TIM_GAPC1_OpCntRs_Oper) (Some iedModel_GenericIO_TIM_GAPC1_OpCntRs_Oper_Check) None 0 (- 1) FC_CO T_BOOLEAN 0 None 0),
    (iedModel_GenericIO_TIM_GAPC1_OpCntRs_Oper_Check,
    DataAttribute (Some ''Check'') (Some iedModel_GenericIO_TIM_GAPC1_OpCntRs_Oper) None None 0 (- 1) FC_CO T_CHECK 0 None 0),
    (iedModel_GenericIO_TIM_GAPC1_OpCntRs_ctlModel,
    DataAttribute (Some ''ctlModel'') (Some iedModel_GenericIO_TIM_GAPC1_OpCntRs) None None 0 (- 1) FC_CF T_ENUMERATED 0 None 0)]"

definition static_TIM_GAPC1 :: node_table where
  "static_TIM_GAPC1 = concat [static_TIM_GAPC1_1,
     static_TIM_GAPC1_2,
     static_TIM_GAPC1_3,
     static_TIM_GAPC1_4]"

section \<open>Checking the lists\<close>

lemma scan_static_TIM_GAPC1_1: "scan [(Some iedModel_GenericIO, Some iedModel_GenericIO_TIM_GAPC1), (Some iedModel, None)] static_TIM_GAPC1_1
    = Some [(Some iedModel_GenericIO_TIM_GAPC1_Str, Some iedModel_GenericIO_TIM_GAPC1_Str_general), (Some iedModel_GenericIO_TIM_GAPC1, Some iedModel_GenericIO_TIM_GAPC1_Op), (Some iedModel_GenericIO, Some iedModel_GenericIO_T60S_FSCH1), (Some iedModel, None)]"
  by (simp add: static_TIM_GAPC1_1_def)

lemma conf_static_TIM_GAPC1_1: "list_all node_conforms (map snd static_TIM_GAPC1_1)"
  by (simp add: static_TIM_GAPC1_1_def TRG_OPT_DATA_CHANGED_def TRG_OPT_QUALITY_CHANGED_def)

lemma addrs_static_TIM_GAPC1_1: "map fst static_TIM_GAPC1_1 = [1152 ..< 1163]"
  by (simp add: static_TIM_GAPC1_1_def upt_rec_numeral)

lemma scan_static_TIM_GAPC1_2: "scan [(Some iedModel_GenericIO_TIM_GAPC1_Str, Some iedModel_GenericIO_TIM_GAPC1_Str_general), (Some iedModel_GenericIO_TIM_GAPC1, Some iedModel_GenericIO_TIM_GAPC1_Op), (Some iedModel_GenericIO, Some iedModel_GenericIO_T60S_FSCH1), (Some iedModel, None)] static_TIM_GAPC1_2
    = Some [(Some iedModel_GenericIO_TIM_GAPC1, Some iedModel_GenericIO_TIM_GAPC1_RsDlTmms), (Some iedModel_GenericIO, Some iedModel_GenericIO_T60S_FSCH1), (Some iedModel, None)]"
  by (simp add: static_TIM_GAPC1_2_def)

lemma conf_static_TIM_GAPC1_2: "list_all node_conforms (map snd static_TIM_GAPC1_2)"
  by (simp add: static_TIM_GAPC1_2_def TRG_OPT_DATA_CHANGED_def TRG_OPT_QUALITY_CHANGED_def)

lemma addrs_static_TIM_GAPC1_2: "map fst static_TIM_GAPC1_2 = [1163 ..< 1174]"
  by (simp add: static_TIM_GAPC1_2_def upt_rec_numeral)

lemma scan_static_TIM_GAPC1_3: "scan [(Some iedModel_GenericIO_TIM_GAPC1, Some iedModel_GenericIO_TIM_GAPC1_RsDlTmms), (Some iedModel_GenericIO, Some iedModel_GenericIO_T60S_FSCH1), (Some iedModel, None)] static_TIM_GAPC1_3
    = Some [(Some iedModel_GenericIO_TIM_GAPC1_OpCntRs_Oper_origin, Some iedModel_GenericIO_TIM_GAPC1_OpCntRs_Oper_origin_orIdent), (Some iedModel_GenericIO_TIM_GAPC1_OpCntRs_Oper, Some iedModel_GenericIO_TIM_GAPC1_OpCntRs_Oper_ctlNum), (Some iedModel_GenericIO_TIM_GAPC1_OpCntRs, Some iedModel_GenericIO_TIM_GAPC1_OpCntRs_ctlModel), (Some iedModel_GenericIO_TIM_GAPC1, None), (Some iedModel_GenericIO, Some iedModel_GenericIO_T60S_FSCH1), (Some iedModel, None)]"
  by (simp add: static_TIM_GAPC1_3_def)

lemma conf_static_TIM_GAPC1_3: "list_all node_conforms (map snd static_TIM_GAPC1_3)"
  by (simp add: static_TIM_GAPC1_3_def TRG_OPT_DATA_CHANGED_def TRG_OPT_QUALITY_CHANGED_def)

lemma addrs_static_TIM_GAPC1_3: "map fst static_TIM_GAPC1_3 = [1174 ..< 1185]"
  by (simp add: static_TIM_GAPC1_3_def upt_rec_numeral)

lemma scan_static_TIM_GAPC1_4: "scan [(Some iedModel_GenericIO_TIM_GAPC1_OpCntRs_Oper_origin, Some iedModel_GenericIO_TIM_GAPC1_OpCntRs_Oper_origin_orIdent), (Some iedModel_GenericIO_TIM_GAPC1_OpCntRs_Oper, Some iedModel_GenericIO_TIM_GAPC1_OpCntRs_Oper_ctlNum), (Some iedModel_GenericIO_TIM_GAPC1_OpCntRs, Some iedModel_GenericIO_TIM_GAPC1_OpCntRs_ctlModel), (Some iedModel_GenericIO_TIM_GAPC1, None), (Some iedModel_GenericIO, Some iedModel_GenericIO_T60S_FSCH1), (Some iedModel, None)] static_TIM_GAPC1_4
    = Some [(Some iedModel_GenericIO, Some iedModel_GenericIO_T60S_FSCH1), (Some iedModel, None)]"
  by (simp add: static_TIM_GAPC1_4_def)

lemma conf_static_TIM_GAPC1_4: "list_all node_conforms (map snd static_TIM_GAPC1_4)"
  by (simp add: static_TIM_GAPC1_4_def TRG_OPT_DATA_CHANGED_def TRG_OPT_QUALITY_CHANGED_def)

lemma addrs_static_TIM_GAPC1_4: "map fst static_TIM_GAPC1_4 = [1185 ..< 1191]"
  by (simp add: static_TIM_GAPC1_4_def upt_rec_numeral)

end
