(* ===== verification/Ied_Schedule2.thy ===== *)
theory Ied_Schedule2
  imports Ied_Symbols
begin

text \<open>
  The structures of \<open>core/iec61850/model/static_model.c\<close> for the logical node \<open>T60S_FSCH2\<close>, in file order,
  a list per stretch of the file, and the pass of the checker over each list.
\<close>

definition static_T60S_FSCH2_1 :: node_table where
  "static_T60S_FSCH2_1 =
   [(iedModel_GenericIO_T60S_FSCH2,
    LogicalNode (Some ''T60S_FSCH2'') (Some iedModel_GenericIO) (Some iedModel_GenericIO_GGIO_FSCC1) (Some iedModel_GenericIO_T60S_FSCH2_Beh)),
    (iedModel_GenericIO_T60S_FSCH2_Beh,
    DataObject (Some ''Beh'') (Some iedModel_GenericIO_T60S_FSCH2) (Some iedModel_GenericIO_T60S_FSCH2_SchdSt) (Some iedModel_GenericIO_T60S_FSCH2_Beh_stVal) 0 (- 1)),
    (iedModel_GenericIO_T60S_FSCH2_Beh_stVal,
    DataAttribute (Some ''stVal'') (Some iedModel_GenericIO_T60S_FSCH2_Beh) (Some iedModel_GenericIO_T60S_FSCH2_Beh_q) None 0 (- 1) FC_ST T_ENUMERATED (0 + TRG_OPT_DATA_CHANGED) None 0),
    (iedModel_GenericIO_T60S_FSCH2_Beh_q,
    DataAttribute (Some ''q'') (Some iedModel_GenericIO_T60S_FSCH2_Beh) (Some iedModel_GenericIO_T60S_FSCH2_Beh_t) None 0 (- 1) FC_ST T_QUALITY (0 + TRG_OPT_QUALITY_CHANGED) None 0),
    (iedModel_GenericIO_T60S_FSCH2_Beh_t,
    DataAttribute (Some ''t'') (Some iedModel_GenericIO_T60S_FSCH2_Beh) None None 0 (- 1) FC_ST T_TIMESTAMP 0 None 0),
    (iedModel_GenericIO_T60S_FSCH2_SchdSt,
    DataObject (Some ''SchdSt'') (Some iedModel_GenericIO_T60S_FSCH2) (Some iedModel_GenericIO_T60S_FSCH2_SchdEntr) (Some iedModel_GenericIO_T60S_FSCH2_SchdSt_stVal) 0 (- 1)),
    (iedModel_GenericIO_T60S_FSCH2_SchdSt_stVal,
    DataAttribute (Some ''stVal'') (Some iedModel_GenericIO_T60S_FSCH2_SchdSt) (Some iedModel_GenericIO_T60S_FSCH2_SchdSt_q) None 0 (- 1) FC_ST T_ENUMERATED (0 + TRG_OPT_DATA_CHANGED) None 0),
    (iedModel_GenericIO_T60S_FSCH2_SchdSt_q,
    DataAttribute (Some ''q'') (Some iedModel_GenericIO_T60S_FSCH2_SchdSt) (Some iedModel_GenericIO_T60S_FSCH2_SchdSt_t) None 0 (- 1) FC_ST T_QUALITY (0 + TRG_OPT_QUALITY_CHANGED) None 0),
    (iedModel_GenericIO_T60S_FSCH2_SchdSt_t,
    DataAttribute (Some ''t'') (Some iedModel_GenericIO_T60S_FSCH2_SchdSt) None None 0 (- 1) FC_ST T_TIMESTAMP 0 None 0),
    (iedModel_GenericIO_T60S_FSCH2_SchdEntr,
    DataObject (Some ''SchdEntr'') (Some iedModel_GenericIO_T60S_FSCH2) (Some iedModel_GenericIO_T60S_FSCH2_ValSPS) (Some iedModel_GenericIO_T60S_FSCH2_SchdEntr_stVal) 0 (- 1)),
    (iedModel_GenericIO_T60S_FSCH2_SchdEntr_stVal,
    DataAttribute (Some ''stVal'') (Some iedModel_GenericIO_T60S_FSCH2_SchdEntr) (Some iedModel_GenericIO_T60S_FSCH2_SchdEntr_q) None 0 (- 1) FC_ST T_INT32 (0 + TRG_OPT_DATA_CHANGED) None 0)]"

definition static_T60S_FSCH2_2 :: node_table where
  "static_T60S_FSCH2_2 =
   [(iedModel_GenericIO_T60S_FSCH2_SchdEntr_q,
    DataAttribute (Some ''q'') (Some iedModel_GenericIO_T60S_FSCH2_SchdEntr) (Some iedModel_GenericIO_T60S_FSCH2_SchdEntr_t) None 0 (- 1) FC_ST T_QUALITY (0 + TRG_OPT_QUALITY_CHANGED) None 0),
    (iedModel_GenericIO_T60S_FSCH2_SchdEntr_t,
    DataAttribute (Some ''t'') (Some iedModel_GenericIO_T60S_FSCH2_SchdEntr) None None 0 (- 1) FC_ST T_TIMESTAMP 0 None 0),
    (iedModel_GenericIO_T60S_FSCH2_ValSPS,
    DataObject (Some ''ValSPS'') (Some iedModel_GenericIO_T60S_FSCH2) (Some iedModel_GenericIO_T60S_FSCH2_VldReq) (Some iedModel_GenericIO_T60S_FSCH2_ValSPS_stVal) 0 (- 1)),
    (iedModel_GenericIO_T60S_FSCH2_ValSPS_stVal,
    DataAttribute (Some ''stVal'') (Some iedModel_GenericIO_T60S_FSCH2_ValSPS) (Some iedModel_GenericIO_T60S_FSCH2_ValSPS_q) None 0 (- 1) FC_ST T_BOOLEAN (0 + TRG_OPT_DATA_CHANGED) None 0),
    (iedModel_GenericIO_T60S_FSCH2_ValSPS_q,
    DataAttribute (Some ''q'') (Some iedModel_GenericIO_T60S_FSCH2_ValSPS) (Some iedModel_GenericIO_T60S_FSCH2_ValSPS_t) None 0 (- 1) FC_ST T_QUALITY (0 + TRG_OPT_QUALITY_CHANGED) None 0),
    (iedModel_GenericIO_T60S_FSCH2_ValSPS_t,
    DataAttribute (Some ''t'') (Some iedModel_GenericIO_T60S_FSCH2_ValSPS) None None 0 (- 1) FC_ST T_TIMESTAMP 0 None 0),
    (iedModel_GenericIO_T60S_FSCH2_VldReq,
    DataObject (Some ''VldReq'') (Some iedModel_GenericIO_T60S_FSCH2) (Some iedModel_GenericIO_T60S_FSCH2_EnaReq) (Some iedModel_GenericIO_T60S_FSCH2_VldReq_stVal) 0 (- 1)),
    (iedModel_GenericIO_T60S_FSCH2_VldReq_stVal,
    DataAttribute (Some ''stVal'') (Some iedModel_GenericIO_T60S_FSCH2_VldReq) (Some iedModel_GenericIO_T60S_FSCH2_VldReq_q) None 0 (- 1) FC_ST T_BOOLEAN (0 + TRG_OPT_DATA_CHANGED) None 0),
    (iedModel_GenericIO_T60S_FSCH2_VldReq_q,
    DataAttribute (Some ''q'') (Some iedModel_GenericIO_T60S_FSCH2_VldReq) (Some iedModel_GenericIO_T60S_FSCH2_VldReq_Oper) None 0 (- 1) FC_ST T_QUALITY (0 + TRG_OPT_QUALITY_CHANGED) None 0),
    (iedModel_GenericIO_T60S_FSCH2_VldReq_Oper,
    DataAttribute (Some ''Oper'') (Some iedModel_GenericIO_T60S_FSCH2_VldReq) (Some iedModel_GenericIO_T60S_FSCH2_VldReq_ctlModel) (Some iedModel_GenericIO_T60S_FSCH2_VldReq_Oper_ctlVal) 0 (- 1) FC_CO T_CONSTRUCTED 0 None 0),
    (iedModel_GenericIO_T60S_FSCH2_VldReq_Oper_ctlVal,
    DataAttribute (Some ''ctlVal'') (Some iedModel_GenericIO_T60S_FSCH2_VldReq_Oper) (Some iedModel_GenericIO_T60S_FSCH2_VldReq_Oper_origin) None 0 (- 1) FC_CO T_BOOLEAN 0 None 0)]"

definition static_T60S_FSCH2_3 :: node_table where
  "static_T60S_FSCH2_3 =
   [(iedModel_GenericIO_T60S_FSCH2_VldReq_Oper_origin,
    DataAttribute (Some ''origin'') (Some iedModel_GenericIO_T60S_FSCH2_VldReq_Oper) (Some iedModel_GenericIO_T60S_FSCH2_VldReq_Oper_ctlNum) (Some iedModel_GenericIO_T60S_FSCH2_VldReq_Oper_origin_orCat) 0 (- 1) FC_CO T_CONSTRUCTED 0 None 0),
    (iedModel_GenericIO_T60S_FSCH2_VldReq_Oper_origin_orCat,
    DataAttribute (Some ''orCat'') (Some iedModel_GenericIO_T60S_FSCH2_VldReq_Oper_origin) (Some iedModel_GenericIO_T60S_FSCH2_VldReq_Oper_origin_orIdent) None 0 (- 1) FC_CO T_ENUMERATED 0 None 0),
    (iedModel_GenericIO_T60S_FSCH2_VldReq_Oper_origin_orIdent,
    DataAttribute (Some ''orIdent'') (Some iedModel_GenericIO_T60S_FSCH2_VldReq_Oper_origin) None None 0 (- 1) FC_CO T_OCTET_STRING_64 0 None 0),
    (iedModel_GenericIO_T60S_FSCH2_VldReq_Oper_ctlNum,
    DataAttribute (Some ''ctlNum'') (Some iedModel_GenericIO_T60S_FSCH2_VldReq_Oper) (Some iedModel_GenericIO_T60S_FSCH2_VldReq_Oper_T) None 0 (- 1) FC_CO T_INT8U 0 None 0),
    (iedModel_GenericIO_T60S_FSCH2_VldReq_Oper_T,
    DataAttribute (Some ''T'') (Some iedModel_GenericIO_T60S_FSCH2_VldReq_Oper) (Some iedModel_GenericIO_T60S_FSCH2_VldReq_Oper_Test) None 0 (- 1) FC_CO T_TIMESTAMP 0 None 0),
    (iedModel_GenericIO_T60S_FSCH2_VldReq_Oper_Test,
    DataAttribute (Some ''Test'') (Some iedModel_GenericIO_T60S_FSCH2_VldReq_Oper) (Some iedModel_GenericIO_T60S_FSCH2_VldReq_Oper_Check) None 0 (- 1) FC_CO T_BOOLEAN 0 None 0),
    (iedModel_GenericIO_T60S_FSCH2_VldReq_Oper_Check,
    DataAttribute (Some ''Check'') (Some iedModel_GenericIO_T60S_FSCH2_VldReq_Oper) None None 0 (- 1) FC_CO T_CHECK 0 None 0),
    (iedModel_GenericIO_T60S_FSCH2_VldReq_ctlModel,
    DataAttribute (Some ''ctlModel'') (Some iedModel_GenericIO_T60S_FSCH2_VldReq) (Some iedModel_GenericIO_T60S_FSCH2_VldReq_t) None 0 (- 1) FC_CF T_ENUMERATED 0 None 0),
    (iedModel_GenericIO_T60S_FSCH2_VldReq_t,
    DataAttribute (Some ''t'') (Some iedModel_GenericIO_T60S_FSCH2_VldReq) None None 0 (- 1) FC_ST T_TIMESTAMP 0 None 0),
    (iedModel_GenericIO_T60S_FSCH2_EnaReq,
    DataObject (Some ''EnaReq'') (Some iedModel_GenericIO_T60S_FSCH2) (Some iedModel_GenericIO_T60S_FSCH2_EdtReq) (Some iedModel_GenericIO_T60S_FSCH2_EnaReq_stVal) 0 (- 1))]"

definition static_T60S_FSCH2_4 :: node_table where
  "static_T60S_FSCH2_4 =
   [(iedModel_GenericIO_T60S_FSCH2_EnaReq_stVal,
    DataAttribute (Some ''stVal'') (Some iedModel_GenericIO_T60S_FSCH2_EnaReq) (Some iedModel_GenericIO_T60S_FSCH2_EnaReq_q) None 0 (- 1) FC_ST T_BOOLEAN (0 + TRG_OPT_DATA_CHANGED) None 0),
    (iedModel_GenericIO_T60S_FSCH2_EnaReq_q,
    DataAttribute (Some ''q'') (Some iedModel_GenericIO_T60S_FSCH2_EnaReq) (Some iedModel_GenericIO_T60S_FSCH2_EnaReq_Oper) None 0 (- 1) FC_ST T_QUALITY (0 + TRG_OPT_QUALITY_CHANGED) None 0),
    (iedModel_GenericIO_T60S_FSCH2_EnaReq_Oper,
    DataAttribute (Some ''Oper'') (Some iedModel_GenericIO_T60S_FSCH2_EnaReq) (Some iedModel_GenericIO_T60S_FSCH2_EnaReq_ctlModel) (Some iedModel_GenericIO_T60S_FSCH2_EnaReq_Oper_ctlVal) 0 (- 1) FC_CO T_CONSTRUCTED 0 None 0),
    (iedModel_GenericIO_T60S_FSCH2_EnaReq_Oper_ctlVal,
    DataAttribute (Some ''ctlVal'') (Some iedModel_GenericIO_T60S_FSCH2_EnaReq_Oper) (Some iedModel_GenericIO_T60S_FSCH2_EnaReq_Oper_origin) None 0 (- 1) FC_CO T_BOOLEAN 0 None 0),
    (iedModel_GenericIO_T60S_FSCH2_EnaReq_Oper_origin,
    DataAttribute (Some ''origin'') (Some iedModel_GenericIO_T60S_FSCH2_EnaReq_Oper) (Some iedModel_GenericIO_T60S_FSCH2_EnaReq_Oper_ctlNum) (Some iedModel_GenericIO_T60S_FSCH2_EnaReq_Oper_origin_orCat) 0 (- 1) FC_CO T_CONSTRUCTED 0 None 0),
    (iedModel_GenericIO_T60S_FSCH2_EnaReq_Oper_origin_orCat,
    DataAttribute (Some ''orCat'') (Some iedModel_GenericIO_T60S_FSCH2_EnaReq_Oper_origin) (Some iedModel_GenericIO_T60S_FSCH2_EnaReq_Oper_origin_orIdent) None 0 (- 1) FC_CO T_ENUMERATED 0 None 0),
    (iedModel_GenericIO_T60S_FSCH2_EnaReq_Oper_origin_orIdent,
    DataAttribute (Some ''orIdent'') (Some iedModel_GenericIO_T60S_FSCH2_EnaReq_Oper_origin) None None 0 (- 1) FC_CO T_OCTET_STRING_64 0 None 0),
    (iedModel_GenericIO_T60S_FSCH2_EnaReq_Oper_ctlNum,
    DataAttribute (Some ''ctlNum'') (Some iedModel_GenericIO_T60S_FSCH2_EnaReq_Oper) (Some iedModel_GenericIO_T60S_FSCH2_EnaReq_Oper_T) None 0 (- 1) FC_CO T_INT8U 0 None 0),
    (iedModel_GenericIO_T60S_FSCH2_EnaReq_Oper_T,
    DataAttribute (Some ''T'') (Some iedModel_GenericIO_T60S_FSCH2_EnaReq_Oper) (Some iedModel_GenericIO_T60S_FSCH2_EnaReq_Oper_Test) None 0 (- 1) FC_CO T_TIMESTAMP 0 None 0),
    (iedModel_GenericIO_T60S_FSCH2_EnaReq_Oper_Test,
    DataAttribute (Some ''Test'') (Some iedModel_GenericIO_T60S_FSCH2_EnaReq_Oper) (Some iedModel_GenericIO_T60S_FSCH2_EnaReq_Oper_Check) None 0 (- 1) FC_CO T_BOOLEAN 0 None 0)]"

definition static_T60S_FSCH2_5 :: node_table where
  "static_T60S_FSCH2_5 =
   [(iedModel_GenericIO_T60S_FSCH2_EnaReq_Oper_Check,
    DataAttribute (Some ''Check'') (Some iedModel_GenericIO_T60S_FSCH2_EnaReq_Oper) None None 0 (- 1) FC_CO T_CHECK 0 None 0),
    (iedModel_GenericIO_T60S_FSCH2_EnaReq_ctlModel,
    DataAttribute (Some ''ctlModel'') (Some iedModel_GenericIO_T60S_FSCH2_EnaReq) (Some iedModel_GenericIO_T60S_FSCH2_EnaReq_t) None 0 (- 1) FC_CF T_ENUMERATED 0 None 0),
    (iedModel_GenericIO_T60S_FSCH2_EnaReq_t,
    DataAttribute (Some ''t'') (Some iedModel_GenericIO_T60S_FSCH2_EnaReq) None None 0 (- 1) FC_ST T_TIMESTAMP 0 None 0),
    (iedModel_GenericIO_T60S_FSCH2_EdtReq,
    DataObject (Some ''EdtReq'') (Some iedModel_GenericIO_T60S_FSCH2) (Some iedModel_GenericIO_T60S_FSCH2_DsaReq) (Some iedModel_GenericIO_T60S_FSCH2_EdtReq_stVal) 0 (- 1)),
    (iedModel_GenericIO_T60S_FSCH2_EdtReq_stVal,
    DataAttribute (Some ''stVal'') (Some iedModel_GenericIO_T60S_FSCH2_EdtReq) (Some iedModel_GenericIO_T60S_FSCH2_EdtReq_q) None 0 (- 1) FC_ST T_BOOLEAN (0 + TRG_OPT_DATA_CHANGED) None 0),
    (iedModel_GenericIO_T60S_FSCH2_EdtReq_q,
    DataAttribute (Some ''q'') (Some iedModel_GenericIO_T60S_FSCH2_EdtReq) (Some iedModel_GenericIO_T60S_FSCH2_EdtReq_Oper) None 0 (- 1) FC_ST T_QUALITY (0 + TRG_OPT_QUALITY_CHANGED) None 0),
    (iedModel_GenericIO_T60S_FSCH2_EdtReq_Oper,
    DataAttribute (Some ''Oper'') (Some iedModel_GenericIO_T60S_FSCH2_EdtReq) (Some iedModel_GenericIO_T60S_FSCH2_EdtReq_ctlModel) (Some iedModel_GenericIO_T60S_FSCH2_EdtReq_Oper_ctlVal) 0 (- 1) FC_CO T_CONSTRUCTED 0 None 0),
    (iedModel_GenericIO_T60S_FSCH2_EdtReq_Oper_ctlVal,
    DataAttribute (Some ''ctlVal'') (Some iedModel_GenericIO_T60S_FSCH2_EdtReq_Oper) (Some iedModel_GenericIO_T60S_FSCH2_EdtReq_Oper_origin) None 0 (- 1) FC_CO T_BOOLEAN 0 None 0),
    (iedModel_GenericIO_T60S_FSCH2_EdtReq_Oper_origin,
    DataAttribute (Some ''origin'') (Some iedModel_GenericIO_T60S_FSCH2_EdtReq_Oper) (Some iedModel_GenericIO_T60S_FSCH2_EdtReq_Oper_ctlNum) (Some iedModel_GenericIO_T60S_FSCH2_EdtReq_Oper_origin_orCat) 0 (- 1) FC_CO T_CONSTRUCTED 0 None 0),
    (iedModel_GenericIO_T60S_FSCH2_EdtReq_Oper_origin_orCat,
    DataAttribute (Some ''orCat'') (Some iedModel_GenericIO_T60S_FSCH2_EdtReq_Oper_origin) (Some iedModel_GenericIO_T60S_FSCH2_EdtReq_Oper_origin_orIdent) None 0 (- 1) FC_CO T_ENUMERATED 0 None 0)]"

definition static_T60S_FSCH2_6 :: node_table where
  "static_T60S_FSCH2_6 =
   [(iedModel_GenericIO_T60S_FSCH2_EdtReq_Oper_origin_orIdent,
    DataAttribute (Some ''orIdent'') (Some iedModel_GenericIO_T60S_FSCH2_EdtReq_Oper_origin) None None 0 (- 1) FC_CO T_OCTET_STRING_64 0 None 0),
    (iedModel_GenericIO_T60S_FSCH2_EdtReq_Oper_ctlNum,
    DataAttribute (Some ''ctlNum'') (Some iedModel_GenericIO_T60S_FSCH2_EdtReq_Oper) (Some iedModel_GenericIO_T60S_FSCH2_EdtReq_Oper_T) None 0 (- 1) FC_CO T_INT8U 0 None 0),
    (iedModel_GenericIO_T60S_FSCH2_EdtReq_Oper_T,
    DataAttribute (Some ''T'') (Some iedModel_GenericIO_T60S_FSCH2_EdtReq_Oper) (Some iedModel_GenericIO_T60S_FSCH2_EdtReq_Oper_Test) None 0 (- 1) FC_CO T_TIMESTAMP 0 None 0),
    (iedModel_GenericIO_T60S_FSCH2_EdtReq_Oper_Test,
    DataAttribute (Some ''Test'') (Some iedModel_GenericIO_T60S_FSCH2_EdtReq_Oper) (Some iedModel_GenericIO_T60S_FSCH2_EdtReq_Oper_Check) None 0 (- 1) FC_CO T_BOOLEAN 0 None 0),
    (iedModel_GenericIO_T60S_FSCH2_EdtReq_Oper_Check,
    DataAttribute (Some ''Check'') (Some iedModel_GenericIO_T60S_FSCH2_EdtReq_Oper) None None 0 (- 1) FC_CO T_CHECK 0 None 0),
    (iedModel_GenericIO_T60S_FSCH2_EdtReq_ctlModel,
    DataAttribute (Some ''ctlModel'') (Some iedModel_GenericIO_T60S_FSCH2_EdtReq) (Some iedModel_GenericIO_T60S_FSCH2_EdtReq_t) None 0 (- 1) FC_CF T_ENUMERATED 0 None 0),
    (iedModel_GenericIO_T60S_FSCH2_EdtReq_t,
    DataAttribute (Some ''t'') (Some iedModel_GenericIO_T60S_FSCH2_EdtReq) None None 0 (- 1) FC_ST T_TIMESTAMP 0 None 0),
    (iedModel_GenericIO_T60S_FSCH2_DsaReq,
    DataObject (Some ''DsaReq'') (Some iedModel_GenericIO_T60S_FSCH2) (Some iedModel_GenericIO_T60S_FSCH2_SchdPrio) (Some iedModel_GenericIO_T60S_FSCH2_DsaReq_stVal) 0 (- 1)),
    (iedModel_GenericIO_T60S_FSCH2_DsaReq_stVal,
    DataAttribute (Some ''stVal'') (Some iedModel_GenericIO_T60S_FSCH2_DsaReq) (Some iedModel_GenericIO_T60S_FSCH2_DsaReq_q) None 0 (- 1) FC_ST T_BOOLEAN (0 + TRG_OPT_DATA_CHANGED) None 0),
    (iedModel_GenericIO_T60S_FSCH2_DsaReq_q,
    DataAttribute (Some ''q'') (Some iedModel_GenericIO_T60S_FSCH2_DsaReq) (Some iedModel_GenericIO_T60S_FSCH2_DsaReq_Oper) None 0 (- 1) FC_ST T_QUALITY (0 + TRG_OPT_QUALITY_CHANGED) None 0)]"

definition static_T60S_FSCH2_7 :: node_table where
  "static_T60S_FSCH2_7 =
   [(iedModel_GenericIO_T60S_FSCH2_DsaReq_Oper,
    DataAttribute (Some ''Oper'') (Some iedModel_GenericIO_T60S_FSCH2_DsaReq) (Some iedModel_GenericIO_T60S_FSCH2_DsaReq_ctlModel) (Some iedModel_GenericIO_T60S_FSCH2_DsaReq_Oper_ctlVal) 0 (- 1) FC_CO T_CONSTRUCTED 0 None 0),
    (iedModel_GenericIO_T60S_FSCH2_DsaReq_Oper_ctlVal,
    DataAttribute (Some ''ctlVal'') (Some iedModel_GenericIO_T60S_FSCH2_DsaReq_Oper) (Some iedModel_GenericIO_T60S_FSCH2_DsaReq_Oper_origin) None 0 (- 1) FC_CO T_BOOLEAN 0 None 0),
    (iedModel_GenericIO_T60S_FSCH2_DsaReq_Oper_origin,
    DataAttribute (Some ''origin'') (Some iedModel_GenericIO_T60S_FSCH2_DsaReq_Oper) (Some iedModel_GenericIO_T60S_FSCH2_DsaReq_Oper_ctlNum) (Some iedModel_GenericIO_T60S_FSCH2_DsaReq_Oper_origin_orCat) 0 (- 1) FC_CO T_CONSTRUCTED 0 None 0),
    (iedModel_GenericIO_T60S_FSCH2_DsaReq_Oper_origin_orCat,
    DataAttribute (Some ''orCat'') (Some iedModel_GenericIO_T60S_FSCH2_DsaReq_Oper_origin) (Some iedModel_GenericIO_T60S_FSCH2_DsaReq_Oper_origin_orIdent) None 0 (- 1) FC_CO T_ENUMERATED 0 None 0),
    (iedModel_GenericIO_T60S_FSCH2_DsaReq_Oper_origin_orIdent,
    DataAttribute (Some ''orIdent'') (Some iedModel_GenericIO_T60S_FSCH2_DsaReq_Oper_origin) None None 0 (- 1) FC_CO T_OCTET_STRING_64 0 None 0),
    (iedModel_GenericIO_T60S_FSCH2_DsaReq_Oper_ctlNum,
    DataAttribute (Some ''ctlNum'') (Some iedModel_GenericIO_T60S_FSCH2_DsaReq_Oper) (Some iedModel_GenericIO_T60S_FSCH2_DsaReq_Oper_T) None 0 (- 1) FC_CO T_INT8U 0 None 0),
    (iedModel_GenericIO_T60S_FSCH2_DsaReq_Oper_T,
    DataAttribute (Some ''T'') (Some iedModel_GenericIO_T60S_FSCH2_DsaReq_Oper) (Some iedModel_GenericIO_T60S_FSCH2_DsaReq_Oper_Test) None 0 (- 1) FC_CO T_TIMESTAMP 0 None 0),
    (iedModel_GenericIO_T60S_FSCH2_DsaReq_Oper_Test,
    DataAttribute (Some ''Test'') (Some iedModel_GenericIO_T60S_FSCH2_DsaReq_Oper) (Some iedModel_GenericIO_T60S_FSCH2_DsaReq_Oper_Check) None 0 (- 1) FC_CO T_BOOLEAN 0 None 0),
    (iedModel_GenericIO_T60S_FSCH2_DsaReq_Oper_Check,
    DataAttribute (Some ''Check'') (Some iedModel_GenericIO_T60S_FSCH2_DsaReq_Oper) None None 0 (- 1) FC_CO T_CHECK 0 None 0),
    (iedModel_GenericIO_T60S_FSCH2_DsaReq_ctlModel,
    DataAttribute (Some ''ctlModel'') (Some iedModel_GenericIO_T60S_FSCH2_DsaReq) (Some iedModel_GenericIO_T60S_FSCH2_DsaReq_t) None 0 (- 1) FC_CF T_ENUMERATED 0 None 0)]"

definition static_T60S_FSCH2_8 :: node_table where
  "static_T60S_FSCH2_8 =
   [(iedModel_GenericIO_T60S_FSCH2_DsaReq_t,
    DataAttribute (Some ''t'') (Some iedModel_GenericIO_T60S_FSCH2_DsaReq) None None 0 (- 1) FC_ST T_TIMESTAMP 0 None 0),
    (iedModel_GenericIO_T60S_FSCH2_SchdPrio,
    DataObject (Some ''SchdPrio'') (Some iedModel_GenericIO_T60S_FSCH2) (Some iedModel_GenericIO_T60S_FSCH2_NumEntr) (Some iedModel_GenericIO_T60S_FSCH2_SchdPrio_setVal) 0 (- 1)),
    (iedModel_GenericIO_T60S_FSCH2_SchdPrio_setVal,
    DataAttribute (Some ''setVal'') (Some iedModel_GenericIO_T60S_FSCH2_SchdPrio) None None 0 (- 1) FC_SP T_INT32 (0 + TRG_OPT_DATA_CHANGED) None 0),
    (iedModel_GenericIO_T60S_FSCH2_NumEntr,
    DataObject (Some ''NumEntr'') (Some iedModel_GenericIO_T60S_FSCH2) (Some iedModel_GenericIO_T60S_FSCH2_SchdIntv) (Some iedModel_GenericIO_T60S_FSCH2_NumEntr_setVal) 0 (- 1)),
    (iedModel_GenericIO_T60S_FSCH2_NumEntr_setVal,
    DataAttribute (Some ''setVal'') (Some iedModel_GenericIO_T60S_FSCH2_NumEntr) None None 0 (- 1) FC_SP T_INT32 (0 + TRG_OPT_DATA_CHANGED) None 0),
    (iedModel_GenericIO_T60S_FSCH2_SchdIntv,
    DataObject (Some ''SchdIntv'') (Some iedModel_GenericIO_T60S_FSCH2) (Some iedModel_GenericIO_T60S_FSCH2_ValSPG1) (Some iedModel_GenericIO_T60S_FSCH2_SchdIntv_setVal) 0 (- 1)),
    (iedModel_GenericIO_T60S_FSCH2_SchdIntv_setVal,
    DataAttribute (Some ''setVal'') (Some iedModel_GenericIO_T60S_FSCH2_SchdIntv) None None 0 (- 1) FC_SP T_INT32 (0 + TRG_OPT_DATA_CHANGED) None 0),
    (iedModel_GenericIO_T60S_FSCH2_ValSPG1,
    DataObject (Some ''ValSPG1'') (Some iedModel_GenericIO_T60S_FSCH2) (Some iedModel_GenericIO_T60S_FSCH2_ValSPG2) (Some iedModel_GenericIO_T60S_FSCH2_ValSPG1_setVal) 0 (- 1)),
    (iedModel_GenericIO_T60S_FSCH2_ValSPG1_setVal,
    DataAttribute (Some ''setVal'') (Some iedModel_GenericIO_T60S_FSCH2_ValSPG1) None None 0 (- 1) FC_SG T_BOOLEAN (0 + TRG_OPT_DATA_CHANGED) None 0),
    (iedModel_GenericIO_T60S_FSCH2_ValSPG2,
    DataObject (Some ''ValSPG2'') (Some iedModel_GenericIO_T60S_FSCH2) (Some iedModel_GenericIO_T60S_FSCH2_ValSPG3) (Some iedModel_GenericIO_T60S_FSCH2_ValSPG2_setVal) 0 (- 1)),
    (iedModel_GenericIO_T60S_FSCH2_ValSPG2_setVal,
    DataAttribute (Some ''setVal'') (Some iedModel_GenericIO_T60S_FSCH2_ValSPG2) None None 0 (- 1) FC_SG T_BOOLEAN (0 + TRG_OPT_DATA_CHANGED) None 0),
    (iedModel_GenericIO_T60S_FSCH2_ValSPG3,
    DataObject (Some ''ValSPG3'') (Some iedModel_GenericIO_T60S_FSCH2) (Some iedModel_GenericIO_T60S_FSCH2_ValSPG4) (Some iedModel_GenericIO_T60S_FSCH2_ValSPG3_setVal) 0 (- 1))]"

definition static_T60S_FSCH2_9 :: node_table where
  "static_T60S_FSCH2_9 =
   [(iedModel_GenericIO_T60S_FSCH2_ValSPG3_setVal,
    DataAttribute (Some ''setVal'') (Some iedModel_GenericIO_T60S_FSCH2_ValSPG3) None None 0 (- 1) FC_SG T_BOOLEAN (0 + TRG_OPT_DATA_CHANGED) None 0),
    (iedModel_GenericIO_T60S_FSCH2_ValSPG4,
    DataObject (Some ''ValSPG4'') (Some iedModel_GenericIO_T60S_FSCH2) (Some iedModel_GenericIO_T60S_FSCH2_ValSPG5) (Some iedModel_GenericIO_T60S_FSCH2_ValSPG4_setVal) 0 (- 1)),
    (iedModel_GenericIO_T60S_FSCH2_ValSPG4_setVal,
    DataAttribute (Some ''setVal'') (Some iedModel_GenericIO_T60S_FSCH2_ValSPG4) None None 0 (- 1) FC_SG T_BOOLEAN (0 + TRG_OPT_DATA_CHANGED) None 0),
    (iedModel_GenericIO_T60S_FSCH2_ValSPG5,
    DataObject (Some ''ValSPG5'') (Some iedModel_GenericIO_T60S_FSCH2) (Some iedModel_GenericIO_T60S_FSCH2_ValSPG6) (Some iedModel_GenericIO_T60S_FSCH2_ValSPG5_setVal) 0 (- 1)),
    (iedModel_GenericIO_T60S_FSCH2_ValSPG5_setVal,
    DataAttribute (Some ''setVal'') (Some iedModel_GenericIO_T60S_FSCH2_ValSPG5) None None 0 (- 1) FC_SG T_BOOLEAN (0 + TRG_OPT_DATA_CHANGED) None 0),
    (iedModel_GenericIO_T60S_FSCH2_ValSPG6,
    DataObject (Some ''ValSPG6'') (Some iedModel_GenericIO_T60S_FSCH2) (Some iedModel_GenericIO_T60S_FSCH2_ValSPG7) (Some iedModel_GenericIO_T60S_FSCH2_ValSPG6_setVal) 0 (- 1)),
    (iedModel_GenericIO_T60S_FSCH2_ValSPG6_setVal,
    DataAttribute (Some ''setVal'') (Some iedModel_GenericIO_T60S_FSCH2_ValSPG6) None None 0 (- 1) FC_SG T_BOOLEAN (0 + TRG_OPT_DATA_CHANGED) None 0),
    (iedModel_GenericIO_T60S_FSCH2_ValSPG7,
    DataObject (Some ''ValSPG7'') (Some iedModel_GenericIO_T60S_FSCH2) (Some iedModel_GenericIO_T60S_FSCH2_ValSPG8) (Some iedModel_GenericIO_T60S_FSCH2_ValSPG7_setVal) 0 (- 1)),
    (iedModel_GenericIO_T60S_FSCH2_ValSPG7_setVal,
    DataAttribute (Some ''setVal'') (Some iedModel_GenericIO_T60S_FSCH2_ValSPG7) None None 0 (- 1) FC_SG T_BOOLEAN (0 + TRG_OPT_DATA_CHANGED) None 0),
    (iedModel_GenericIO_T60S_FSCH2_ValSPG8,
    DataObject (Some ''ValSPG8'') (Some iedModel_GenericIO_T60S_FSCH2) (Some iedModel_GenericIO_T60S_FSCH2_ValSPG9) (Some iedModel_GenericIO_T60S_FSCH2_ValSPG8_setVal) 0 (- 1)),
    (iedModel_GenericIO_T60S_FSCH2_ValSPG8_setVal,
    DataAttribute (Some ''setVal'') (Some iedModel_GenericIO_T60S_FSCH2_ValSPG8) None None 0 (- 1) FC_SG T_BOOLEAN (0 + TRG_OPT_DATA_CHANGED) None 0),
    (iedModel_GenericIO_T60S_FSCH2_ValSPG9,
    DataObject (Some ''ValSPG9'') (Some iedModel_GenericIO_T60S_FSCH2) (Some iedModel_GenericIO_T60S_FSCH2_ValSPG10) (Some iedModel_GenericIO_T60S_FSCH2_ValSPG9_setVal) 0 (- 1))]"

definition static_T60S_FSCH2_10 :: node_table where
  "static_T60S_FSCH2_10 =
   [(iedModel_GenericIO_T60S_FSCH2_ValSPG9_setVal,
    DataAttribute (Some ''setVal'') (Some iedModel_GenericIO_T60S_FSCH2_ValSPG9) None None 0 (- 1) FC_SG T_BOOLEAN (0 + TRG_OPT_DATA_CHANGED) None 0),
    (iedModel_GenericIO_T60S_FSCH2_ValSPG10,
    DataObject (Some ''ValSPG10'') (Some iedModel_GenericIO_T60S_FSCH2) (Some iedModel_GenericIO_T60S_FSCH2_ValSPG11) (Some iedModel_GenericIO_T60S_FSCH2_ValSPG10_setVal) 0 (- 1)),
    (iedModel_GenericIO_T60S_FSCH2_ValSPG10_setVal,
    DataAttribute (Some ''setVal'') (Some iedModel_GenericIO_T60S_FSCH2_ValSPG10) None None 0 (- 1) FC_SG T_BOOLEAN (0 + TRG_OPT_DATA_CHANGED) None 0),
    (iedModel_GenericIO_T60S_FSCH2_ValSPG11,
    DataObject (Some ''ValSPG11'') (Some iedModel_GenericIO_T60S_FSCH2) (Some iedModel_GenericIO_T60S_FSCH2_ValSPG12) (Some iedModel_GenericIO_T60S_FSCH2_ValSPG11_setVal) 0 (- 1)),
    (iedModel_GenericIO_T60S_FSCH2_ValSPG11_setVal,
    DataAttribute (Some ''setVal'') (Some iedModel_GenericIO_T60S_FSCH2_ValSPG11) None None 0 (- 1) FC_SG T_BOOLEAN (0 + TRG_OPT_DATA_CHANGED) None 0),
    (iedModel_GenericIO_T60S_FSCH2_ValSPG12,
    DataObject (Some ''ValSPG12'') (Some iedModel_GenericIO_T60S_FSCH2) (Some iedModel_GenericIO_T60S_FSCH2_ValSPG13) (Some iedModel_GenericIO_T60S_FSCH2_ValSPG12_setVal) 0 (- 1)),
    (iedModel_GenericIO_T60S_FSCH2_ValSPG12_setVal,
    DataAttribute (Some ''setVal'') (Some iedModel_GenericIO_T60S_FSCH2_ValSPG12) None None 0 (- 1) FC_SG T_BOOLEAN (0 + TRG_OPT_DATA_CHANGED) None 0),
    (iedModel_GenericIO_T60S_FSCH2_ValSPG13,
    DataObject (Some ''ValSPG13'') (Some iedModel_GenericIO_T60S_FSCH2) (Some iedModel_GenericIO_T60S_FSCH2_ValSPG14) (Some iedModel_GenericIO_T60S_FSCH2_ValSPG13_setVal) 0 (- 1)),
    (iedModel_GenericIO_T60S_FSCH2_ValSPG13_setVal,
    DataAttribute (Some ''setVal'') (Some iedModel_GenericIO_T60S_FSCH2_ValSPG13) None None 0 (- 1) FC_SG T_BOOLEAN (0 + TRG_OPT_DATA_CHANGED) None 0),
    (iedModel_GenericIO_T60S_FSCH2_ValSPG14,
    DataObject (Some ''ValSPG14'') (Some iedModel_GenericIO_T60S_FSCH2) (Some iedModel_GenericIO_T60S_FSCH2_ValSPG15) (Some iedModel_GenericIO_T60S_FSCH2_ValSPG14_setVal) 0 (- 1)),
    (iedModel_GenericIO_T60S_FSCH2_ValSPG14_setVal,
    DataAttribute (Some ''setVal'') (Some iedModel_GenericIO_T60S_FSCH2_ValSPG14) None None 0 (- 1) FC_SG T_BOOLEAN (0 + TRG_OPT_DATA_CHANGED) None 0),
    (iedModel_GenericIO_T60S_FSCH2_ValSPG15,
    DataObject (Some ''ValSPG15'') (Some iedModel_GenericIO_T60S_FSCH2) (Some iedModel_GenericIO_T60S_FSCH2_ValSPG16) (Some iedModel_GenericIO_T60S_FSCH2_ValSPG15_setVal) 0 (- 1))]"

definition static_T60S_FSCH2_11 :: node_table where
  "static_T60S_FSCH2_11 =
   [(iedModel_GenericIO_T60S_FSCH2_ValSPG15_setVal,
    DataAttribute (Some ''setVal'') (Some iedModel_GenericIO_T60S_FSCH2_ValSPG15) None None 0 (- 1) FC_SG T_BOOLEAN (0 + TRG_OPT_DATA_CHANGED) None 0),
    (iedModel_GenericIO_T60S_FSCH2_ValSPG16,
    DataObject (Some ''ValSPG16'') (Some iedModel_GenericIO_T60S_FSCH2) (Some iedModel_GenericIO_T60S_FSCH2_ValSPG17) (Some iedModel_GenericIO_T60S_FSCH2_ValSPG16_setVal) 0 (- 1)),
    (iedModel_GenericIO_T60S_FSCH2_ValSPG16_setVal,
    DataAttribute (Some ''setVal'') (Some iedModel_GenericIO_T60S_FSCH2_ValSPG16) None None 0 (- 1) FC_SG T_BOOLEAN (0 + TRG_OPT_DATA_CHANGED) None 0),
    (iedModel_GenericIO_T60S_FSCH2_ValSPG17,
    DataObject (Some ''ValSPG17'') (Some iedModel_GenericIO_T60S_FSCH2) (Some iedModel_GenericIO_T60S_FSCH2_ValSPG18) (Some iedModel_GenericIO_T60S_FSCH2_ValSPG17_setVal) 0 (- 1)),
    (iedModel_GenericIO_T60S_FSCH2_ValSPG17_setVal,
    DataAttribute (Some ''setVal'') (Some iedModel_GenericIO_T60S_FSCH2_ValSPG17) None None 0 (- 1) FC_SG T_BOOLEAN (0 + TRG_OPT_DATA_CHANGED) None 0),
    (iedModel_GenericIO_T60S_FSCH2_ValSPG18,
    DataObject (Some ''ValSPG18'') (Some iedModel_GenericIO_T60S_FSCH2) (Some iedModel_GenericIO_T60S_FSCH2_ValSPG19) (Some iedModel_GenericIO_T60S_FSCH2_ValSPG18_setVal) 0 (- 1)),
    (iedModel_GenericIO_T60S_FSCH2_ValSPG18_setVal,
    DataAttribute (Some ''setVal'') (Some iedModel_GenericIO_T60S_FSCH2_ValSPG18) None None 0 (- 1) FC_SG T_BOOLEAN (0 + TRG_OPT_DATA_CHANGED) None 0),
    (iedModel_GenericIO_T60S_FSCH2_ValSPG19,
    DataObject (Some ''ValSPG19'') (Some iedModel_GenericIO_T60S_FSCH2) (Some iedModel_GenericIO_T60S_FSCH2_ValSPG20) (Some iedModel_GenericIO_T60S_FSCH2_ValSPG19_setVal) 0 (- 1)),
    (iedModel_GenericIO_T60S_FSCH2_ValSPG19_setVal,
    DataAttribute (Some ''setVal'') (Some iedModel_GenericIO_T60S_FSCH2_ValSPG19) None None 0 (- 1) FC_SG T_BOOLEAN (0 + TRG_OPT_DATA_CHANGED) None 0),
    (iedModel_GenericIO_T60S_FSCH2_ValSPG20,
    DataObject (Some ''ValSPG20'') (Some iedModel_GenericIO_T60S_FSCH2) (Some iedModel_GenericIO_T60S_FSCH2_ValSPG21) (Some iedModel_GenericIO_T60S_FSCH2_ValSPG20_setVal) 0 (- 1)),
    (iedModel_GenericIO_T60S_FSCH2_ValSPG20_setVal,
    DataAttribute (Some ''setVal'') (Some iedModel_GenericIO_T60S_FSCH2_ValSPG20) None None 0 (- 1) FC_SG T_BOOLEAN (0 + TRG_OPT_DATA_CHANGED) None 0),
    (iedModel_GenericIO_T60S_FSCH2_ValSPG21,
    DataObject (Some ''ValSPG21'') (Some iedModel_GenericIO_T60S_FSCH2) (Some iedModel_GenericIO_T60S_FSCH2_ValSPG22) (Some iedModel_GenericIO_T60S_FSCH2_ValSPG21_setVal) 0 (- 1))]"

definition static_T60S_FSCH2_12 :: node_table where
  "static_T60S_FSCH2_12 =
   [(iedModel_GenericIO_T60S_FSCH2_ValSPG21_setVal,
    DataAttribute (Some ''setVal'') (Some iedModel_GenericIO_T60S_FSCH2_ValSPG21) None None 0 (- 1) FC_SG T_BOOLEAN (0 + TRG_OPT_DATA_CHANGED) None 0),
    (iedModel_GenericIO_T60S_FSCH2_ValSPG22,
    DataObject (Some ''ValSPG22'') (Some iedModel_GenericIO_T60S_FSCH2) (Some iedModel_GenericIO_T60S_FSCH2_ValSPG23) (Some iedModel_GenericIO_T60S_FSCH2_ValSPG22_setVal) 0 (- 1)),
    (iedModel_GenericIO_T60S_FSCH2_ValSPG22_setVal,
    DataAttribute (Some ''setVal'') (Some iedModel_GenericIO_T60S_FSCH2_ValSPG22) None None 0 (- 1) FC_SG T_BOOLEAN (0 + TRG_OPT_DATA_CHANGED) None 0),
    (iedModel_GenericIO_T60S_FSCH2_ValSPG23,
    DataObject (Some ''ValSPG23'') (Some iedModel_GenericIO_T60S_FSCH2) (Some iedModel_GenericIO_T60S_FSCH2_ValSPG24) (Some iedModel_GenericIO_T60S_FSCH2_ValSPG23_setVal) 0 (- 1)),
    (iedModel_GenericIO_T60S_FSCH2_ValSPG23_setVal,
    DataAttribute (Some ''setVal'') (Some iedModel_GenericIO_T60S_FSCH2_ValSPG23) None None 0 (- 1) FC_SG T_BOOLEAN (0 + TRG_OPT_DATA_CHANGED) None 0),
    (iedModel_GenericIO_T60S_FSCH2_ValSPG24,
    DataObject (Some ''ValSPG24'') (Some iedModel_GenericIO_T60S_FSCH2) (Some iedModel_GenericIO_T60S_FSCH2_ValSPG25) (Some iedModel_GenericIO_T60S_FSCH2_ValSPG24_setVal) 0 (- 1)),
    (iedModel_GenericIO_T60S_FSCH2_ValSPG24_setVal,
    DataAttribute (Some ''setVal'') (Some iedModel_GenericIO_T60S_FSCH2_ValSPG24) None None 0 (- 1) FC_SG T_BOOLEAN (0 + TRG_OPT_DATA_CHANGED) None 0),
    (iedModel_GenericIO_T60S_FSCH2_ValSPG25,
    DataObject (Some ''ValSPG25'') (Some iedModel_GenericIO_T60S_FSCH2) (Some iedModel_GenericIO_T60S_FSCH2_ValSPG26) (Some iedModel_GenericIO_T60S_FSCH2_ValSPG25_setVal) 0 (- 1)),
    (iedModel_GenericIO_T60S_FSCH2_ValSPG25_setVal,
    DataAttribute (Some ''setVal'') (Some iedModel_GenericIO_T60S_FSCH2_ValSPG25) None None 0 (- 1) FC_SG T_BOOLEAN (0 + TRG_OPT_DATA_CHANGED) None 0),
    (iedModel_GenericIO_T60S_FSCH2_ValSPG26,
    DataObject (Some ''ValSPG26'') (Some iedModel_GenericIO_T60S_FSCH2) (Some iedModel_GenericIO_T60S_FSCH2_ValSPG27) (Some iedModel_GenericIO_T60S_FSCH2_ValSPG26_setVal) 0 (- 1)),
    (iedModel_GenericIO_T60S_FSCH2_ValSPG26_setVal,
    DataAttribute (Some ''setVal'') (Some iedModel_GenericIO_T60S_FSCH2_ValSPG26) None None 0 (- 1) FC_SG T_BOOLEAN (0 + TRG_OPT_DATA_CHANGED) None 0),
    (iedModel_GenericIO_T60S_FSCH2_ValSPG27,
    DataObject (Some ''ValSPG27'') (Some iedModel_GenericIO_T60S_FSCH2) (Some iedModel_GenericIO_T60S_FSCH2_ValSPG28) (Some iedModel_GenericIO_T60S_FSCH2_ValSPG27_setVal) 0 (- 1))]"

definition static_T60S_FSCH2_13 :: node_table where
  "static_T60S_FSCH2_13 =
   [(iedModel_GenericIO_T60S_FSCH2_ValSPG27_setVal,
    DataAttribute (Some ''setVal'') (Some iedModel_GenericIO_T60S_FSCH2_ValSPG27) None None 0 (- 1) FC_SG T_BOOLEAN (0 + TRG_OPT_DATA_CHANGED) None 0),
    (iedModel_GenericIO_T60S_FSCH2_ValSPG28,
    DataObject (Some ''ValSPG28'') (Some iedModel_GenericIO_T60S_FSCH2) (Some iedModel_GenericIO_T60S_FSCH2_ValSPG29) (Some iedModel_GenericIO_T60S_FSCH2_ValSPG28_setVal) 0 (- 1)),
    (iedModel_GenericIO_T60S_FSCH2_ValSPG28_setVal,
    DataAttribute (Some ''setVal'') (Some iedModel_GenericIO_T60S_FSCH2_ValSPG28) None None 0 (- 1) FC_SG T_BOOLEAN (0 + TRG_OPT_DATA_CHANGED) None 0),
    (iedModel_GenericIO_T60S_FSCH2_ValSPG29,
    DataObject (Some ''ValSPG29'') (Some iedModel_GenericIO_T60S_FSCH2) (Some iedModel_GenericIO_T60S_FSCH2_ValSPG30) (Some iedModel_GenericIO_T60S_FSCH2_ValSPG29_setVal) 0 (- 1)),
    (iedModel_GenericIO_T60S_FSCH2_ValSPG29_setVal,
    DataAttribute (Some ''setVal'') (Some iedModel_GenericIO_T60S_FSCH2_ValSPG29) None None 0 (- 1) FC_SG T_BOOLEAN (0 + TRG_OPT_DATA_CHANGED) None 0),
    (iedModel_GenericIO_T60S_FSCH2_ValSPG30,
    DataObject (Some ''ValSPG30'') (Some iedModel_GenericIO_T60S_FSCH2) (Some iedModel_GenericIO_T60S_FSCH2_ValSPG31) (Some iedModel_GenericIO_T60S_FSCH2_ValSPG30_setVal) 0 (- 1)),
    (iedModel_GenericIO_T60S_FSCH2_ValSPG30_setVal,
    DataAttribute (Some ''setVal'') (Some iedModel_GenericIO_T60S_FSCH2_ValSPG30) None None 0 (- 1) FC_SG T_BOOLEAN (0 + TRG_OPT_DATA_CHANGED) None 0),
    (iedModel_GenericIO_T60S_FSCH2_ValSPG31,
    DataObject (Some ''ValSPG31'') (Some iedModel_GenericIO_T60S_FSCH2) (Some iedModel_GenericIO_T60S_FSCH2_ValSPG32) (Some iedModel_GenericIO_T60S_FSCH2_ValSPG31_setVal) 0 (- 1)),
    (iedModel_GenericIO_T60S_FSCH2_ValSPG31_setVal,
    DataAttribute (Some ''setVal'') (Some iedModel_GenericIO_T60S_FSCH2_ValSPG31) None None 0 (- 1) FC_SG T_BOOLEAN (0 + TRG_OPT_DATA_CHANGED) None 0),
    (iedModel_GenericIO_T60S_FSCH2_ValSPG32,
    DataObject (Some ''ValSPG32'') (Some iedModel_GenericIO_T60S_FSCH2) (Some iedModel_GenericIO_T60S_FSCH2_ValSPG33) (Some iedModel_GenericIO_T60S_FSCH2_ValSPG32_setVal) 0 (- 1)),
    (iedModel_GenericIO_T60S_FSCH2_ValSPG32_setVal,
    DataAttribute (Some ''setVal'') (Some iedModel_GenericIO_T60S_FSCH2_ValSPG32) None None 0 (- 1) FC_SG T_BOOLEAN (0 + TRG_OPT_DATA_CHANGED) None 0),
    (iedModel_GenericIO_T60S_FSCH2_ValSPG33,
    DataObject (Some ''ValSPG33'') (Some iedModel_GenericIO_T60S_FSCH2) (Some iedModel_GenericIO_T60S_FSCH2_ValSPG34) (Some iedModel_GenericIO_T60S_FSCH2_ValSPG33_setVal) 0 (- 1))]"

definition static_T60S_FSCH2_14 :: node_table where
  "static_T60S_FSCH2_14 =
   [(iedModel_GenericIO_T60S_FSCH2_ValSPG33_setVal,
    DataAttribute (Some ''setVal'') (Some iedModel_GenericIO_T60S_FSCH2_ValSPG33) None None 0 (- 1) FC_SG T_BOOLEAN (0 + TRG_OPT_DATA_CHANGED) None 0),
    (iedModel_GenericIO_T60S_FSCH2_ValSPG34,
    DataObject (Some ''ValSPG34'') (Some iedModel_GenericIO_T60S_FSCH2) (Some iedModel_GenericIO_T60S_FSCH2_ValSPG35) (Some iedModel_GenericIO_T60S_FSCH2_ValSPG34_setVal) 0 (- 1)),
    (iedModel_GenericIO_T60S_FSCH2_ValSPG34_setVal,
    DataAttribute (Some ''setVal'') (Some iedModel_GenericIO_T60S_FSCH2_ValSPG34) None None 0 (- 1) FC_SG T_BOOLEAN (0 + TRG_OPT_DATA_CHANGED) None 0),
    (iedModel_GenericIO_T60S_FSCH2_ValSPG35,
    DataObject (Some ''ValSPG35'') (Some iedModel_GenericIO_T60S_FSCH2) (Some iedModel_GenericIO_T60S_FSCH2_ValSPG36) (Some iedModel_GenericIO_T60S_FSCH2_ValSPG35_setVal) 0 (- 1)),
    (iedModel_GenericIO_T60S_FSCH2_ValSPG35_setVal,
    DataAttribute (Some ''setVal'') (Some iedModel_GenericIO_T60S_FSCH2_ValSPG35) None None 0 (- 1) FC_SG T_BOOLEAN (0 + TRG_OPT_DATA_CHANGED) None 0),
    (iedModel_GenericIO_T60S_FSCH2_ValSPG36,
    DataObject (Some ''ValSPG36'') (Some iedModel_GenericIO_T60S_FSCH2) (Some iedModel_GenericIO_T60S_FSCH2_ValSPG37) (Some iedModel_GenericIO_T60S_FSCH2_ValSPG36_setVal) 0 (- 1)),
    (iedModel_GenericIO_T60S_FSCH2_ValSPG36_setVal,
    DataAttribute (Some ''setVal'') (Some iedModel_GenericIO_T60S_FSCH2_ValSPG36) None None 0 (- 1) FC_SG T_BOOLEAN (0 + TRG_OPT_DATA_CHANGED) None 0),
    (iedModel_GenericIO_T60S_FSCH2_ValSPG37,
    DataObject (Some ''ValSPG37'') (Some iedModel_GenericIO_T60S_FSCH2) (Some iedModel_GenericIO_T60S_FSCH2_ValSPG38) (Some iedModel_GenericIO_T60S_FSCH2_ValSPG37_setVal) 0 (- 1)),
    (iedModel_GenericIO_T60S_FSCH2_ValSPG37_setVal,
    DataAttribute (Some ''setVal'') (Some iedModel_GenericIO_T60S_FSCH2_ValSPG37) None None 0 (- 1) FC_SG T_BOOLEAN (0 + TRG_OPT_DATA_CHANGED) None 0),
    (iedModel_GenericIO_T60S_FSCH2_ValSPG38,
    DataObject (Some ''ValSPG38'') (Some iedModel_GenericIO_T60S_FSCH2) (Some iedModel_GenericIO_T60S_FSCH2_ValSPG39) (Some iedModel_GenericIO_T60S_FSCH2_ValSPG38_setVal) 0 (- 1)),
    (iedModel_GenericIO_T60S_FSCH2_ValSPG38_setVal,
    DataAttribute (Some ''setVal'') (Some iedModel_GenericIO_T60S_FSCH2_ValSPG38) None None 0 (- 1) FC_SG T_BOOLEAN (0 + TRG_OPT_DATA_CHANGED) None 0),
    (iedModel_GenericIO_T60S_FSCH2_ValSPG39,
    DataObject (Some ''ValSPG39'') (Some iedModel_GenericIO_T60S_FSCH2) (Some iedModel_GenericIO_T60S_FSCH2_ValSPG40) (Some iedModel_GenericIO_T60S_FSCH2_ValSPG39_setVal) 0 (- 1))]"

definition static_T60S_FSCH2_15 :: node_table where
  "static_T60S_FSCH2_15 =
   [(iedModel_GenericIO_T60S_FSCH2_ValSPG39_setVal,
    DataAttribute (Some ''setVal'') (Some iedModel_GenericIO_T60S_FSCH2_ValSPG39) None None 0 (- 1) FC_SG T_BOOLEAN (0 + TRG_OPT_DATA_CHANGED) None 0),
    (iedModel_GenericIO_T60S_FSCH2_ValSPG40,
    DataObject (Some ''ValSPG40'') (Some iedModel_GenericIO_T60S_FSCH2) (Some iedModel_GenericIO_T60S_FSCH2_ValSPG41) (Some iedModel_GenericIO_T60S_FSCH2_ValSPG40_setVal) 0 (- 1)),
    (iedModel_GenericIO_T60S_FSCH2_ValSPG40_setVal,
    DataAttribute (Some ''setVal'') (Some iedModel_GenericIO_T60S_FSCH2_ValSPG40) None None 0 (- 1) FC_SG T_BOOLEAN (0 + TRG_OPT_DATA_CHANGED) None 0),
    (iedModel_GenericIO_T60S_FSCH2_ValSPG41,
    DataObject (Some ''ValSPG41'') (Some iedModel_GenericIO_T60S_FSCH2) (Some iedModel_GenericIO_T60S_FSCH2_ValSPG42) (Some iedModel_GenericIO_T60S_FSCH2_ValSPG41_setVal) 0 (- 1)),
    (iedModel_GenericIO_T60S_FSCH2_ValSPG41_setVal,
    DataAttribute (Some ''setVal'') (Some iedModel_GenericIO_T60S_FSCH2_ValSPG41) None None 0 (- 1) FC_SG T_BOOLEAN (0 + TRG_OPT_DATA_CHANGED) None 0),
    (iedModel_GenericIO_T60S_FSCH2_ValSPG42,
    DataObject (Some ''ValSPG42'') (Some iedModel_GenericIO_T60S_FSCH2) (Some iedModel_GenericIO_T60S_FSCH2_ValSPG43) (Some iedModel_GenericIO_T60S_FSCH2_ValSPG42_setVal) 0 (- 1)),
    (iedModel_GenericIO_T60S_FSCH2_ValSPG42_setVal,
    DataAttribute (Some ''setVal'') (Some iedModel_GenericIO_T60S_FSCH2_ValSPG42) None None 0 (- 1) FC_SG T_BOOLEAN (0 + TRG_OPT_DATA_CHANGED) None 0),
    (iedModel_GenericIO_T60S_FSCH2_ValSPG43,
    DataObject (Some ''ValSPG43'') (Some iedModel_GenericIO_T60S_FSCH2) (Some iedModel_GenericIO_T60S_FSCH2_ValSPG44) (Some iedModel_GenericIO_T60S_FSCH2_ValSPG43_setVal) 0 (- 1)),
    (iedModel_GenericIO_T60S_FSCH2_ValSPG43_setVal,
    DataAttribute (Some ''setVal'') (Some iedModel_GenericIO_T60S_FSCH2_ValSPG43) None None 0 (- 1) FC_SG T_BOOLEAN (0 + TRG_OPT_DATA_CHANGED) None 0),
    (iedModel_GenericIO_T60S_FSCH2_ValSPG44,
    DataObject (Some ''ValSPG44'') (Some iedModel_GenericIO_T60S_FSCH2) (Some iedModel_GenericIO_T60S_FSCH2_ValSPG45) (Some iedModel_GenericIO_T60S_FSCH2_ValSPG44_setVal) 0 (- 1)),
    (iedModel_GenericIO_T60S_FSCH2_ValSPG44_setVal,
    DataAttribute (Some ''setVal'') (Some iedModel_GenericIO_T60S_FSCH2_ValSPG44) None None 0 (- 1) FC_SG T_BOOLEAN (0 + TRG_OPT_DATA_CHANGED) None 0),
    (iedModel_GenericIO_T60S_FSCH2_ValSPG45,
    DataObject (Some ''ValSPG45'') (Some iedModel_GenericIO_T60S_FSCH2) (Some iedModel_GenericIO_T60S_FSCH2_ValSPG46) (Some iedModel_GenericIO_T60S_FSCH2_ValSPG45_setVal) 0 (- 1))]"

definition static_T60S_FSCH2_16 :: node_table where
  "static_T60S_FSCH2_16 =
   [(iedModel_GenericIO_T60S_FSCH2_ValSPG45_setVal,
    DataAttribute (Some ''setVal'') (Some iedModel_GenericIO_T60S_FSCH2_ValSPG45) None None 0 (- 1) FC_SG T_BOOLEAN (0 + TRG_OPT_DATA_CHANGED) None 0),
    (iedModel_GenericIO_T60S_FSCH2_ValSPG46,
    DataObject (Some ''ValSPG46'') (Some iedModel_GenericIO_T60S_FSCH2) (Some iedModel_GenericIO_T60S_FSCH2_ValSPG47) (Some iedModel_GenericIO_T60S_FSCH2_ValSPG46_setVal) 0 (- 1)),
    (iedModel_GenericIO_T60S_FSCH2_ValSPG46_setVal,
    DataAttribute (Some ''setVal'') (Some iedModel_GenericIO_T60S_FSCH2_ValSPG46) None None 0 (- 1) FC_SG T_BOOLEAN (0 + TRG_OPT_DATA_CHANGED) None 0),
    (iedModel_GenericIO_T60S_FSCH2_ValSPG47,
    DataObject (Some ''ValSPG47'') (Some iedModel_GenericIO_T60S_FSCH2) (Some iedModel_GenericIO_T60S_FSCH2_ValSPG48) (Some iedModel_GenericIO_T60S_FSCH2_ValSPG47_setVal) 0 (- 1)),
    (iedModel_GenericIO_T60S_FSCH2_ValSPG47_setVal,
    DataAttribute (Some ''setVal'') (Some iedModel_GenericIO_T60S_FSCH2_ValSPG47) None None 0 (- 1) FC_SG T_BOOLEAN (0 + TRG_OPT_DATA_CHANGED) None 0),
    (iedModel_GenericIO_T60S_FSCH2_ValSPG48,
    DataObject (Some ''ValSPG48'') (Some iedModel_GenericIO_T60S_FSCH2) (Some iedModel_GenericIO_T60S_FSCH2_ValSPG49) (Some iedModel_GenericIO_T60S_FSCH2_ValSPG48_setVal) 0 (- 1)),
    (iedModel_GenericIO_T60S_FSCH2_ValSPG48_setVal,
    DataAttribute (Some ''setVal'') (Some iedModel_GenericIO_T60S_FSCH2_ValSPG48) None None 0 (- 1) FC_SG T_BOOLEAN (0 + TRG_OPT_DATA_CHANGED) None 0),
    (iedModel_GenericIO_T60S_FSCH2_ValSPG49,
    DataObject (Some ''ValSPG49'') (Some iedModel_GenericIO_T60S_FSCH2) (Some iedModel_GenericIO_T60S_FSCH2_ValSPG50) (Some iedModel_GenericIO_T60S_FSCH2_ValSPG49_setVal) 0 (- 1)),
    (iedModel_GenericIO_T60S_FSCH2_ValSPG49_setVal,
    DataAttribute (Some ''setVal'') (Some iedModel_GenericIO_T60S_FSCH2_ValSPG49) None None 0 (- 1) FC_SG T_BOOLEAN (0 + TRG_OPT_DATA_CHANGED) None 0),
    (iedModel_GenericIO_T60S_FSCH2_ValSPG50,
    DataObject (Some ''ValSPG50'') (Some iedModel_GenericIO_T60S_FSCH2) (Some iedModel_GenericIO_T60S_FSCH2_ValSPG51) (Some iedModel_GenericIO_T60S_FSCH2_ValSPG50_setVal) 0 (- 1)),
    (iedModel_GenericIO_T60S_FSCH2_ValSPG50_setVal,
    DataAttribute (Some ''setVal'') (Some iedModel_GenericIO_T60S_FSCH2_ValSPG50) None None 0 (- 1) FC_SG T_BOOLEAN (0 + TRG_OPT_DATA_CHANGED) None 0),
    (iedModel_GenericIO_T60S_FSCH2_ValSPG51,
    DataObject (Some ''ValSPG51'') (Some iedModel_GenericIO_T60S_FSCH2) (Some iedModel_GenericIO_T60S_FSCH2_ValSPG52) (Some iedModel_GenericIO_T60S_FSCH2_ValSPG51_setVal) 0 (- 1))]"

definition static_T60S_FSCH2_17 :: node_table where
  "static_T60S_FSCH2_17 =
   [(iedModel_GenericIO_T60S_FSCH2_ValSPG51_setVal,
    DataAttribute (Some ''setVal'') (Some iedModel_GenericIO_T60S_FSCH2_ValSPG51) None None 0 (- 1) FC_SG T_BOOLEAN (0 + TRG_OPT_DATA_CHANGED) None 0),
    (iedModel_GenericIO_T60S_FSCH2_ValSPG52,
    DataObject (Some ''ValSPG52'') (Some iedModel_GenericIO_T60S_FSCH2) (Some iedModel_GenericIO_T60S_FSCH2_ValSPG53) (Some iedModel_GenericIO_T60S_FSCH2_ValSPG52_setVal) 0 (- 1)),
    (iedModel_GenericIO_T60S_FSCH2_ValSPG52_setVal,
    DataAttribute (Some ''setVal'') (Some iedModel_GenericIO_T60S_FSCH2_ValSPG52) None None 0 (- 1) FC_SG T_BOOLEAN (0 + TRG_OPT_DATA_CHANGED) None 0),
    (iedModel_GenericIO_T60S_FSCH2_ValSPG53,
    DataObject (Some ''ValSPG53'') (Some iedModel_GenericIO_T60S_FSCH2) (Some iedModel_GenericIO_T60S_FSCH2_ValSPG54) (Some iedModel_GenericIO_T60S_FSCH2_ValSPG53_setVal) 0 (- 1)),
    (iedModel_GenericIO_T60S_FSCH2_ValSPG53_setVal,
    DataAttribute (Some ''setVal'') (Some iedModel_GenericIO_T60S_FSCH2_ValSPG53) None None 0 (- 1) FC_SG T_BOOLEAN (0 + TRG_OPT_DATA_CHANGED) None 0),
    (iedModel_GenericIO_T60S_FSCH2_ValSPG54,
    DataObject (Some ''ValSPG54'') (Some iedModel_GenericIO_T60S_FSCH2) (Some iedModel_GenericIO_T60S_FSCH2_ValSPG55) (Some iedModel_GenericIO_T60S_FSCH2_ValSPG54_setVal) 0 (- 1)),
    (iedModel_GenericIO_T60S_FSCH2_ValSPG54_setVal,
    DataAttribute (Some ''setVal'') (Some iedModel_GenericIO_T60S_FSCH2_ValSPG54) None None 0 (- 1) FC_SG T_BOOLEAN (0 + TRG_OPT_DATA_CHANGED) None 0),
    (iedModel_GenericIO_T60S_FSCH2_ValSPG55,
    DataObject (Some ''ValSPG55'') (Some iedModel_GenericIO_T60S_FSCH2) (Some iedModel_GenericIO_T60S_FSCH2_ValSPG56) (Some iedModel_GenericIO_T60S_FSCH2_ValSPG55_setVal) 0 (- 1)),
    (iedModel_GenericIO_T60S_FSCH2_ValSPG55_setVal,
    DataAttribute (Some ''setVal'') (Some iedModel_GenericIO_T60S_FSCH2_ValSPG55) None None 0 (- 1) FC_SG T_BOOLEAN (0 + TRG_OPT_DATA_CHANGED) None 0),
    (iedModel_GenericIO_T60S_FSCH2_ValSPG56,
    DataObject (Some ''ValSPG56'') (Some iedModel_GenericIO_T60S_FSCH2) (Some iedModel_GenericIO_T60S_FSCH2_ValSPG57) (Some iedModel_GenericIO_T60S_FSCH2_ValSPG56_setVal) 0 (- 1)),
    (iedModel_GenericIO_T60S_FSCH2_ValSPG56_setVal,
    DataAttribute (Some ''setVal'') (Some iedModel_GenericIO_T60S_FSCH2_ValSPG56) None None 0 (- 1) FC_SG T_BOOLEAN (0 + TRG_OPT_DATA_CHANGED) None 0),
    (iedModel_GenericIO_T60S_FSCH2_ValSPG57,
    DataObject (Some ''ValSPG57'') (Some iedModel_GenericIO_T60S_FSCH2) (Some iedModel_GenericIO_T60S_FSCH2_ValSPG58) (Some iedModel_GenericIO_T60S_FSCH2_ValSPG57_setVal) 0 (- 1))]"

definition static_T60S_FSCH2_18 :: node_table where
  "static_T60S_FSCH2_18 =
   [(iedModel_GenericIO_T60S_FSCH2_ValSPG57_setVal,
    DataAttribute (Some ''setVal'') (Some iedModel_GenericIO_T60S_FSCH2_ValSPG57) None None 0 (- 1) FC_SG T_BOOLEAN (0 + TRG_OPT_DATA_CHANGED) None 0),
    (iedModel_GenericIO_T60S_FSCH2_ValSPG58,
    DataObject (Some ''ValSPG58'') (Some iedModel_GenericIO_T60S_FSCH2) (Some iedModel_GenericIO_T60S_FSCH2_ValSPG59) (Some iedModel_GenericIO_T60S_FSCH2_ValSPG58_setVal) 0 (- 1)),
    (iedModel_GenericIO_T60S_FSCH2_ValSPG58_setVal,
    DataAttribute (Some ''setVal'') (Some iedModel_GenericIO_T60S_FSCH2_ValSPG58) None None 0 (- 1) FC_SG T_BOOLEAN (0 + TRG_OPT_DATA_CHANGED) None 0),
    (iedModel_GenericIO_T60S_FSCH2_ValSPG59,
    DataObject (Some ''ValSPG59'') (Some iedModel_GenericIO_T60S_FSCH2) (Some iedModel_GenericIO_T60S_FSCH2_ValSPG60) (Some iedModel_GenericIO_T60S_FSCH2_ValSPG59_setVal) 0 (- 1)),
    (iedModel_GenericIO_T60S_FSCH2_ValSPG59_setVal,
    DataAttribute (Some ''setVal'') (Some iedModel_GenericIO_T60S_FSCH2_ValSPG59) None None 0 (- 1) FC_SG T_BOOLEAN (0 + TRG_OPT_DATA_CHANGED) None 0),
    (iedModel_GenericIO_T60S_FSCH2_ValSPG60,
    DataObject (Some ''ValSPG60'') (Some iedModel_GenericIO_T60S_FSCH2) (Some iedModel_GenericIO_T60S_FSCH2_StrTm) (Some iedModel_GenericIO_T60S_FSCH2_ValSPG60_setVal) 0 (- 1)),
    (iedModel_GenericIO_T60S_FSCH2_ValSPG60_setVal,
    DataAttribute (Some ''setVal'') (Some iedModel_GenericIO_T60S_FSCH2_ValSPG60) None None 0 (- 1) FC_SG T_BOOLEAN (0 + TRG_OPT_DATA_CHANGED) None 0),
    (iedModel_GenericIO_T60S_FSCH2_StrTm,
    DataObject (Some ''StrTm'') (Some iedModel_GenericIO_T60S_FSCH2) (Some iedModel_GenericIO_T60S_FSCH2_IntvPer) (Some iedModel_GenericIO_T60S_FSCH2_StrTm_setTm) 0 (- 1)),
    (iedModel_GenericIO_T60S_FSCH2_StrTm_setTm,
    DataAttribute (Some ''setTm'') (Some iedModel_GenericIO_T60S_FSCH2_StrTm) (Some iedModel_GenericIO_T60S_FSCH2_StrTm_setCal) None 0 (- 1) FC_SP T_TIMESTAMP (0 + TRG_OPT_DATA_CHANGED) None 0),
    (iedModel_GenericIO_T60S_FSCH2_StrTm_setCal,
    DataAttribute (Some ''setCal'') (Some iedModel_GenericIO_T60S_FSCH2_StrTm) None (Some iedModel_GenericIO_T60S_FSCH2_StrTm_setCal_occ) 0 (- 1) FC_SP T_CONSTRUCTED (0 + TRG_OPT_DATA_CHANGED) None 0),
    (iedModel_GenericIO_T60S_FSCH2_StrTm_setCal_occ,
    DataAttribute (Some ''occ'') (Some iedModel_GenericIO_T60S_FSCH2_StrTm_setCal) (Some iedModel_GenericIO_T60S_FSCH2_StrTm_setCal_occType) None 0 (- 1) FC_SP T_INT16U (0 + TRG_OPT_DATA_CHANGED) None 0)]"

definition static_T60S_FSCH2_19 :: node_table where
  "static_T60S_FSCH2_19 =
   [(iedModel_GenericIO_T60S_FSCH2_StrTm_setCal_occType,
    DataAttribute (Some ''occType'') (Some iedModel_GenericIO_T60S_FSCH2_StrTm_setCal) (Some iedModel_GenericIO_T60S_FSCH2_StrTm_setCal_occPer) None 0 (- 1) FC_SP T_ENUMERATED (0 + TRG_OPT_DATA_CHANGED) None 0),
    (iedModel_GenericIO_T60S_FSCH2_StrTm_setCal_occPer,
    DataAttribute (Some ''occPer'') (Some iedModel_GenericIO_T60S_FSCH2_StrTm_setCal) (Some iedModel_GenericIO_T60S_FSCH2_StrTm_setCal_weekDay) None 0 (- 1) FC_SP T_ENUMERATED (0 + TRG_OPT_DATA_CHANGED) None 0),
    (iedModel_GenericIO_T60S_FSCH2_StrTm_setCal_weekDay,
    DataAttribute (Some ''weekDay'') (Some iedModel_GenericIO_T60S_FSCH2_StrTm_setCal) (Some iedModel_GenericIO_T60S_FSCH2_StrTm_setCal_month) None 0 (- 1) FC_SP T_ENUMERATED (0 + TRG_OPT_DATA_CHANGED) None 0),
    (iedModel_GenericIO_T60S_FSCH2_StrTm_setCal_month,
    DataAttribute (Some ''month'') (Some iedModel_GenericIO_T60S_FSCH2_StrTm_setCal) (Some iedModel_GenericIO_T60S_FSCH2_StrTm_setCal_day) None 0 (- 1) FC_SP T_ENUMERATED (0 + TRG_OPT_DATA_CHANGED) None 0),
    (iedModel_GenericIO_T60S_FSCH2_StrTm_setCal_day,
    DataAttribute (Some ''day'') (Some iedModel_GenericIO_T60S_FSCH2_StrTm_setCal) (Some iedModel_GenericIO_T60S_FSCH2_StrTm_setCal_hr) None 0 (- 1) FC_SP T_INT8U (0 + TRG_OPT_DATA_CHANGED) None 0),
    (iedModel_GenericIO_T60S_FSCH2_StrTm_setCal_hr,
    DataAttribute (Some ''hr'') (Some iedModel_GenericIO_T60S_FSCH2_StrTm_setCal) (Some iedModel_GenericIO_T60S_FSCH2_StrTm_setCal_mn) None 0 (- 1) FC_SP T_INT8U (0 + TRG_OPT_DATA_CHANGED) None 0),
    (iedModel_GenericIO_T60S_FSCH2_StrTm_setCal_mn,
    DataAttribute (Some ''mn'') (Some iedModel_GenericIO_T60S_FSCH2_StrTm_setCal) None None 0 (- 1) FC_SP T_INT8U (0 + TRG_OPT_DATA_CHANGED) None 0),
    (iedModel_GenericIO_T60S_FSCH2_IntvPer,
    DataObject (Some ''IntvPer'') (Some iedModel_GenericIO_T60S_FSCH2) (Some iedModel_GenericIO_T60S_FSCH2_IntvTyp) (Some iedModel_GenericIO_T60S_FSCH2_IntvPer_setVal) 0 (- 1)),
    (iedModel_GenericIO_T60S_FSCH2_IntvPer_setVal,
    DataAttribute (Some ''setVal'') (Some iedModel_GenericIO_T60S_FSCH2_IntvPer) None None 0 (- 1) FC_SP T_INT32 (0 + TRG_OPT_DATA_CHANGED) None 0),
    (iedModel_GenericIO_T60S_FSCH2_IntvTyp,
    DataObject (Some ''IntvTyp'') (Some iedModel_GenericIO_T60S_FSCH2) (Some iedModel_GenericIO_T60S_FSCH2_SchdReuse) (Some iedModel_GenericIO_T60S_FSCH2_IntvTyp_setVal) 0 (- 1)),
    (iedModel_GenericIO_T60S_FSCH2_IntvTyp_setVal,
    DataAttribute (Some ''setVal'') (Some iedModel_GenericIO_T60S_FSCH2_IntvTyp) None None 0 (- 1) FC_SP T_ENUMERATED (0 + TRG_OPT_DATA_CHANGED) None 0)]"

definition static_T60S_FSCH2_20 :: node_table where
  "static_T60S_FSCH2_20 =
   [(iedModel_GenericIO_T60S_FSCH2_SchdReuse,
    DataObject (Some ''SchdReuse'') (Some iedModel_GenericIO_T60S_FSCH2) None (Some iedModel_GenericIO_T60S_FSCH2_SchdReuse_setVal) 0 (- 1)),
    (iedModel_GenericIO_T60S_FSCH2_SchdReuse_setVal,
    DataAttribute (Some ''setVal'') (Some iedModel_GenericIO_T60S_FSCH2_SchdReuse) None None 0 (- 1) FC_SG T_BOOLEAN (0 + TRG_OPT_DATA_CHANGED) None 0)]"

definition static_T60S_FSCH2 :: node_table where
  "static_T60S_FSCH2 = concat [static_T60S_FSCH2_1,
     static_T60S_FSCH2_2,
     static_T60S_FSCH2_3,
     static_T60S_FSCH2_4,
     static_T60S_FSCH2_5,
     static_T60S_FSCH2_6,
     static_T60S_FSCH2_7,
     static_T60S_FSCH2_8,
     static_T60S_FSCH2_9,
     static_T60S_FSCH2_10,
     static_T60S_FSCH2_11,
     static_T60S_FSCH2_12,
     static_T60S_FSCH2_13,
     static_T60S_FSCH2_14,
     static_T60S_FSCH2_15,
     static_T60S_FSCH2_16,
     static_T60S_FSCH2_17,
     static_T60S_FSCH2_18,
     static_T60S_FSCH2_19,
     static_T60S_FSCH2_20]"

section \<open>Checking the lists\<close>

lemma scan_static_T60S_FSCH2_1: "scan [(Some iedModel_GenericIO, Some iedModel_GenericIO_T60S_FSCH2), (Some iedModel, None)] static_T60S_FSCH2_1
    = Some [(Some iedModel_GenericIO_T60S_FSCH2_SchdEntr, Some iedModel_GenericIO_T60S_FSCH2_SchdEntr_q), (Some iedModel_GenericIO_T60S_FSCH2, Some iedModel_GenericIO_T60S_FSCH2_ValSPS), (Some iedModel_GenericIO, Some iedModel_GenericIO_GGIO_FSCC1), (Some iedModel, None)]"
  by (simp add: static_T60S_FSCH2_1_def)

lemma conf_static_T60S_FSCH2_1: "list_all node_conforms (map snd static_T60S_FSCH2_1)"
  by (simp add: static_T60S_FSCH2_1_def TRG_OPT_DATA_CHANGED_def TRG_OPT_QUALITY_CHANGED_def)

lemma addrs_static_T60S_FSCH2_1: "map fst static_T60S_FSCH2_1 = [1407 ..< 1418]"
  by (simp add: static_T60S_FSCH2_1_def upt_rec_numeral)

lemma scan_static_T60S_FSCH2_2: "scan [(Some iedModel_GenericIO_T60S_FSCH2_SchdEntr, Some iedModel_GenericIO_T60S_FSCH2_SchdEntr_q), (Some iedModel_GenericIO_T60S_FSCH2, Some iedModel_GenericIO_T60S_FSCH2_ValSPS), (Some iedModel_GenericIO, Some iedModel_GenericIO_GGIO_FSCC1), (Some iedModel, None)] static_T60S_FSCH2_2
    = Some [(Some iedModel_GenericIO_T60S_FSCH2_VldReq_Oper, Some iedModel_GenericIO_T60S_FSCH2_VldReq_Oper_origin), (Some iedModel_GenericIO_T60S_FSCH2_VldReq, Some iedModel_GenericIO_T60S_FSCH2_VldReq_ctlModel), (Some iedModel_GenericIO_T60S_FSCH2, Some iedModel_GenericIO_T60S_FSCH2_EnaReq), (Some iedModel_GenericIO, Some iedModel_GenericIO_GGIO_FSCC1), (Some iedModel, None)]"
  by (simp add: static_T60S_FSCH2_2_def)

lemma conf_static_T60S_FSCH2_2: "list_all node_conforms (map snd static_T60S_FSCH2_2)"
  by (simp add: static_T60S_FSCH2_2_def TRG_OPT_DATA_CHANGED_def TRG_OPT_QUALITY_CHANGED_def)

lemma addrs_static_T60S_FSCH2_2: "map fst static_T60S_FSCH2_2 = [1418 ..< 1429]"
  by (simp add: static_T60S_FSCH2_2_def upt_rec_numeral)

lemma scan_static_T60S_FSCH2_3: "scan [(Some iedModel_GenericIO_T60S_FSCH2_VldReq_Oper, Some iedModel_GenericIO_T60S_FSCH2_VldReq_Oper_origin), (Some iedModel_GenericIO_T60S_FSCH2_VldReq, Some iedModel_GenericIO_T60S_FSCH2_VldReq_ctlModel), (Some iedModel_GenericIO_T60S_FSCH2, Some iedModel_GenericIO_T60S_FSCH2_EnaReq), (Some iedModel_GenericIO, Some iedModel_GenericIO_GGIO_FSCC1), (Some iedModel, None)] static_T60S_FSCH2_3
    = Some [(Some iedModel_GenericIO_T60S_FSCH2_EnaReq, Some iedModel_GenericIO_T60S_FSCH2_EnaReq_stVal), (Some iedModel_GenericIO_T60S_FSCH2, Some iedModel_GenericIO_T60S_FSCH2_EdtReq), (Some iedModel_GenericIO, Some iedModel_GenericIO_GGIO_FSCC1), (Some iedModel, None)]"
  by (simp add: static_T60S_FSCH2_3_def)

lemma conf_static_T60S_FSCH2_3: "list_all node_conforms (map snd static_T60S_FSCH2_3)"
  by (simp add: static_T60S_FSCH2_3_def TRG_OPT_DATA_CHANGED_def TRG_OPT_QUALITY_CHANGED_def)

lemma addrs_static_T60S_FSCH2_3: "map fst static_T60S_FSCH2_3 = [1429 ..< 1439]"
  by (simp add: static_T60S_FSCH2_3_def upt_rec_numeral)

lemma scan_static_T60S_FSCH2_4: "scan [(Some iedModel_GenericIO_T60S_FSCH2_EnaReq, Some iedModel_GenericIO_T60S_FSCH2_EnaReq_stVal), (Some iedModel_GenericIO_T60S_FSCH2, Some iedModel_GenericIO_T60S_FSCH2_EdtReq), (Some iedModel_GenericIO, Some iedModel_GenericIO_GGIO_FSCC1), (Some iedModel, None)] static_T60S_FSCH2_4
    = Some [(Some iedModel_GenericIO_T60S_FSCH2_EnaReq_Oper, Some iedModel_GenericIO_T60S_FSCH2_EnaReq_Oper_Check), (Some iedModel_GenericIO_T60S_FSCH2_EnaReq, Some iedModel_GenericIO_T60S_FSCH2_EnaReq_ctlModel), (Some iedModel_GenericIO_T60S_FSCH2, Some iedModel_GenericIO_T60S_FSCH2_EdtReq), (Some iedModel_GenericIO, Some iedModel_GenericIO_GGIO_FSCC1), (Some iedModel, None)]"
  by (simp add: static_T60S_FSCH2_4_def)

lemma conf_static_T60S_FSCH2_4: "list_all node_conforms (map snd static_T60S_FSCH2_4)"
  by (simp add: static_T60S_FSCH2_4_def TRG_OPT_DATA_CHANGED_def TRG_OPT_QUALITY_CHANGED_def)

lemma addrs_static_T60S_FSCH2_4: "map fst static_T60S_FSCH2_4 = [1439 ..< 1449]"
  by (simp add: static_T60S_FSCH2_4_def upt_rec_numeral)

lemma scan_static_T60S_FSCH2_5: "scan [(Some iedModel_GenericIO_T60S_FSCH2_EnaReq_Oper, Some iedModel_GenericIO_T60S_FSCH2_EnaReq_Oper_Check), (Some iedModel_GenericIO_T60S_FSCH2_EnaReq, Some iedModel_GenericIO_T60S_FSCH2_EnaReq_ctlModel), (Some iedModel_GenericIO_T60S_FSCH2, Some iedModel_GenericIO_T60S_FSCH2_EdtReq), (Some iedModel_GenericIO, Some iedModel_GenericIO_GGIO_FSCC1), (Some iedModel, None)] static_T60S_FSCH2_5
    = Some [(Some iedModel_GenericIO_T60S_FSCH2_EdtReq_Oper_origin, Some iedModel_GenericIO_T60S_FSCH2_EdtReq_Oper_origin_orIdent), (Some iedModel_GenericIO_T60S_FSCH2_EdtReq_Oper, Some iedModel_GenericIO_T60S_FSCH2_EdtReq_Oper_ctlNum), (Some iedModel_GenericIO_T60S_FSCH2_EdtReq, Some iedModel_GenericIO_T60S_FSCH2_EdtReq_ctlModel), (Some iedModel_GenericIO_T60S_FSCH2, Some iedModel_GenericIO_T60S_FSCH2_DsaReq), (Some iedModel_GenericIO, Some iedModel_GenericIO_GGIO_FSCC1), (Some iedModel, None)]"
  by (simp add: static_T60S_FSCH2_5_def)

lemma conf_static_T60S_FSCH2_5: "list_all node_conforms (map snd static_T60S_FSCH2_5)"
  by (simp add: static_T60S_FSCH2_5_def TRG_OPT_DATA_CHANGED_def TRG_OPT_QUALITY_CHANGED_def)

lemma addrs_static_T60S_FSCH2_5: "map fst static_T60S_FSCH2_5 = [1449 ..< 1459]"
  by (simp add: static_T60S_FSCH2_5_def upt_rec_numeral)

lemma scan_static_T60S_FSCH2_6: "scan [(Some iedModel_GenericIO_T60S_FSCH2_EdtReq_Oper_origin, Some iedModel_GenericIO_T60S_FSCH2_EdtReq_Oper_origin_orIdent), (Some iedModel_GenericIO_T60S_FSCH2_EdtReq_Oper, Some iedModel_GenericIO_T60S_FSCH2_EdtReq_Oper_ctlNum), (Some iedModel_GenericIO_T60S_FSCH2_EdtReq, Some iedModel_GenericIO_T60S_FSCH2_EdtReq_ctlModel), (Some iedModel_GenericIO_T60S_FSCH2, Some iedModel_GenericIO_T60S_FSCH2_DsaReq), (Some iedModel_GenericIO, Some iedModel_GenericIO_GGIO_FSCC1), (Some iedModel, None)] static_T60S_FSCH2_6
    = Some [(Some iedModel_GenericIO_T60S_FSCH2_DsaReq, Some iedModel_GenericIO_T60S_FSCH2_DsaReq_Oper), (Some iedModel_GenericIO_T60S_FSCH2, Some iedModel_GenericIO_T60S_FSCH2_SchdPrio), (Some iedModel_GenericIO, Some iedModel_GenericIO_GGIO_FSCC1), (Some iedModel, None)]"
  by (simp add: static_T60S_FSCH2_6_def)

lemma conf_static_T60S_FSCH2_6: "list_all node_conforms (map snd static_T60S_FSCH2_6)"
  by (simp add: static_T60S_FSCH2_6_def TRG_OPT_DATA_CHANGED_def TRG_OPT_QUALITY_CHANGED_def)

lemma addrs_static_T60S_FSCH2_6: "map fst static_T60S_FSCH2_6 = [1459 ..< 1469]"
  by (simp add: static_T60S_FSCH2_6_def upt_rec_numeral)

lemma scan_static_T60S_FSCH2_7: "scan [(Some iedModel_GenericIO_T60S_FSCH2_DsaReq, Some iedModel_GenericIO_T60S_FSCH2_DsaReq_Oper), (Some iedModel_GenericIO_T60S_FSCH2, Some iedModel_GenericIO_T60S_FSCH2_SchdPrio), (Some iedModel_GenericIO, Some iedModel_GenericIO_GGIO_FSCC1), (Some iedModel, None)] static_T60S_FSCH2_7
    = Some [(Some iedModel_GenericIO_T60S_FSCH2_DsaReq, Some iedModel_GenericIO_T60S_FSCH2_DsaReq_t), (Some iedModel_GenericIO_T60S_FSCH2, Some iedModel_GenericIO_T60S_FSCH2_SchdPrio), (Some iedModel_GenericIO, Some iedModel_GenericIO_GGIO_FSCC1), (Some iedModel, None)]"
  by (simp add: static_T60S_FSCH2_7_def)

lemma conf_static_T60S_FSCH2_7: "list_all node_conforms (map snd static_T60S_FSCH2_7)"
  by (simp add: static_T60S_FSCH2_7_def TRG_OPT_DATA_CHANGED_def TRG_OPT_QUALITY_CHANGED_def)

lemma addrs_static_T60S_FSCH2_7: "map fst static_T60S_FSCH2_7 = [1469 ..< 1479]"
  by (simp add: static_T60S_FSCH2_7_def upt_rec_numeral)

lemma scan_static_T60S_FSCH2_8: "scan [(Some iedModel_GenericIO_T60S_FSCH2_DsaReq, Some iedModel_GenericIO_T60S_FSCH2_DsaReq_t), (Some iedModel_GenericIO_T60S_FSCH2, Some iedModel_GenericIO_T60S_FSCH2_SchdPrio), (Some iedModel_GenericIO, Some iedModel_GenericIO_GGIO_FSCC1), (Some iedModel, None)] static_T60S_FSCH2_8
    = Some [(Some iedModel_GenericIO_T60S_FSCH2_ValSPG3, Some iedModel_GenericIO_T60S_FSCH2_ValSPG3_setVal), (Some iedModel_GenericIO_T60S_FSCH2, Some iedModel_GenericIO_T60S_FSCH2_ValSPG4), (Some iedModel_GenericIO, Some iedModel_GenericIO_GGIO_FSCC1), (Some iedModel, None)]"
  by (simp add: static_T60S_FSCH2_8_def)

lemma conf_static_T60S_FSCH2_8: "list_all node_conforms (map snd static_T60S_FSCH2_8)"
  by (simp add: static_T60S_FSCH2_8_def TRG_OPT_DATA_CHANGED_def TRG_OPT_QUALITY_CHANGED_def)

lemma addrs_static_T60S_FSCH2_8: "map fst static_T60S_FSCH2_8 = [1479 ..< 1491]"
  by (simp add: static_T60S_FSCH2_8_def upt_rec_numeral)

lemma scan_static_T60S_FSCH2_9: "scan [(Some iedModel_GenericIO_T60S_FSCH2_ValSPG3, Some iedModel_GenericIO_T60S_FSCH2_ValSPG3_setVal), (Some iedModel_GenericIO_T60S_FSCH2, Some iedModel_GenericIO_T60S_FSCH2_ValSPG4), (Some iedModel_GenericIO, Some iedModel_GenericIO_GGIO_FSCC1), (Some iedModel, None)] static_T60S_FSCH2_9
    = Some [(Some iedModel_GenericIO_T60S_FSCH2_ValSPG9, Some iedModel_GenericIO_T60S_FSCH2_ValSPG9_setVal), (Some iedModel_GenericIO_T60S_FSCH2, Some iedModel_GenericIO_T60S_FSCH2_ValSPG10), (Some iedModel_GenericIO, Some iedModel_GenericIO_GGIO_FSCC1), (Some iedModel, None)]"
  by (simp add: static_T60S_FSCH2_9_def)

lemma conf_static_T60S_FSCH2_9: "list_all node_conforms (map snd static_T60S_FSCH2_9)"
  by (simp add: static_T60S_FSCH2_9_def TRG_OPT_DATA_CHANGED_def TRG_OPT_QUALITY_CHANGED_def)

lemma addrs_static_T60S_FSCH2_9: "map fst static_T60S_FSCH2_9 = [1491 ..< 1503]"
  by (simp add: static_T60S_FSCH2_9_def upt_rec_numeral)

lemma scan_static_T60S_FSCH2_10: "scan [(Some iedModel_GenericIO_T60S_FSCH2_ValSPG9, Some iedModel_GenericIO_T60S_FSCH2_ValSPG9_setVal), (Some iedModel_GenericIO_T60S_FSCH2, Some iedModel_GenericIO_T60S_FSCH2_ValSPG10), (Some iedModel_GenericIO, Some iedModel_GenericIO_GGIO_FSCC1), (Some iedModel, None)] static_T60S_FSCH2_10
    = Some [(Some iedModel_GenericIO_T60S_FSCH2_ValSPG15, Some iedModel_GenericIO_T60S_FSCH2_ValSPG15_setVal), (Some iedModel_GenericIO_T60S_FSCH2, Some iedModel_GenericIO_T60S_FSCH2_ValSPG16), (Some iedModel_GenericIO, Some iedModel_GenericIO_GGIO_FSCC1), (Some iedModel, None)]"
  by (simp add: static_T60S_FSCH2_10_def)

lemma conf_static_T60S_FSCH2_10: "list_all node_conforms (map snd static_T60S_FSCH2_10)"
  by (simp add: static_T60S_FSCH2_10_def TRG_OPT_DATA_CHANGED_def TRG_OPT_QUALITY_CHANGED_def)

lemma addrs_static_T60S_FSCH2_10: "map fst static_T60S_FSCH2_10 = [1503 ..< 1515]"
  by (simp add: static_T60S_FSCH2_10_def upt_rec_numeral)

lemma scan_static_T60S_FSCH2_11: "scan [(Some iedModel_GenericIO_T60S_FSCH2_ValSPG15, Some iedModel_GenericIO_T60S_FSCH2_ValSPG15_setVal), (Some iedModel_GenericIO_T60S_FSCH2, Some iedModel_GenericIO_T60S_FSCH2_ValSPG16), (Some iedModel_GenericIO, Some iedModel_GenericIO_GGIO_FSCC1), (Some iedModel, None)] static_T60S_FSCH2_11
    = Some [(Some iedModel_GenericIO_T60S_FSCH2_ValSPG21, Some iedModel_GenericIO_T60S_FSCH2_ValSPG21_setVal), (Some iedModel_GenericIO_T60S_FSCH2, Some iedModel_GenericIO_T60S_FSCH2_ValSPG22), (Some iedModel_GenericIO, Some iedModel_GenericIO_GGIO_FSCC1), (Some iedModel, None)]"
  by (simp add: static_T60S_FSCH2_11_def)

lemma conf_static_T60S_FSCH2_11: "list_all node_conforms (map snd static_T60S_FSCH2_11)"
  by (simp add: static_T60S_FSCH2_11_def TRG_OPT_DATA_CHANGED_def TRG_OPT_QUALITY_CHANGED_def)

lemma addrs_static_T60S_FSCH2_11: "map fst static_T60S_FSCH2_11 = [1515 ..< 1527]"
  by (simp add: static_T60S_FSCH2_11_def upt_rec_numeral)

lemma scan_static_T60S_FSCH2_12: "scan [(Some iedModel_GenericIO_T60S_FSCH2_ValSPG21, Some iedModel_GenericIO_T60S_FSCH2_ValSPG21_setVal), (Some iedModel_GenericIO_T60S_FSCH2, Some iedModel_GenericIO_T60S_FSCH2_ValSPG22), (Some iedModel_GenericIO, Some iedModel_GenericIO_GGIO_FSCC1), (Some iedModel, None)] static_T60S_FSCH2_12
    = Some [(Some iedModel_GenericIO_T60S_FSCH2_ValSPG27, Some iedModel_GenericIO_T60S_FSCH2_ValSPG27_setVal), (Some iedModel_GenericIO_T60S_FSCH2, Some iedModel_GenericIO_T60S_FSCH2_ValSPG28), (Some iedModel_GenericIO, Some iedModel_GenericIO_GGIO_FSCC1), (Some iedModel, None)]"
  by (simp add: static_T60S_FSCH2_12_def)

lemma conf_static_T60S_FSCH2_12: "list_all node_conforms (map snd static_T60S_FSCH2_12)"
  by (simp add: static_T60S_FSCH2_12_def TRG_OPT_DATA_CHANGED_def TRG_OPT_QUALITY_CHANGED_def)

lemma addrs_static_T60S_FSCH2_12: "map fst static_T60S_FSCH2_12 = [1527 ..< 1539]"
  by (simp add: static_T60S_FSCH2_12_def upt_rec_numeral)

lemma scan_static_T60S_FSCH2_13: "scan [(Some iedModel_GenericIO_T60S_FSCH2_ValSPG27, Some iedModel_GenericIO_T60S_FSCH2_ValSPG27_setVal), (Some iedModel_GenericIO_T60S_FSCH2, Some iedModel_GenericIO_T60S_FSCH2_ValSPG28), (Some iedModel_GenericIO, Some iedModel_GenericIO_GGIO_FSCC1), (Some iedModel, None)] static_T60S_FSCH2_13
    = Some [(Some iedModel_GenericIO_T60S_FSCH2_ValSPG33, Some iedModel_GenericIO_T60S_FSCH2_ValSPG33_setVal), (Some iedModel_GenericIO_T60S_FSCH2, Some iedModel_GenericIO_T60S_FSCH2_ValSPG34), (Some iedModel_GenericIO, Some iedModel_GenericIO_GGIO_FSCC1), (Some iedModel, None)]"
  by (simp add: static_T60S_FSCH2_13_def)

lemma conf_static_T60S_FSCH2_13: "list_all node_conforms (map snd static_T60S_FSCH2_13)"
  by (simp add: static_T60S_FSCH2_13_def TRG_OPT_DATA_CHANGED_def TRG_OPT_QUALITY_CHANGED_def)

lemma addrs_static_T60S_FSCH2_13: "map fst static_T60S_FSCH2_13 = [1539 ..< 1551]"
  by (simp add: static_T60S_FSCH2_13_def upt_rec_numeral)

lemma scan_static_T60S_FSCH2_14: "scan [(Some iedModel_GenericIO_T60S_FSCH2_ValSPG33, Some iedModel_GenericIO_T60S_FSCH2_ValSPG33_setVal), (Some iedModel_GenericIO_T60S_FSCH2, Some iedModel_GenericIO_T60S_FSCH2_ValSPG34), (Some iedModel_GenericIO, Some iedModel_GenericIO_GGIO_FSCC1), (Some iedModel, None)] static_T60S_FSCH2_14
    = Some [(Some iedModel_GenericIO_T60S_FSCH2_ValSPG39, Some iedModel_GenericIO_T60S_FSCH2_ValSPG39_setVal), (Some iedModel_GenericIO_T60S_FSCH2, Some iedModel_GenericIO_T60S_FSCH2_ValSPG40), (Some iedModel_GenericIO, Some iedModel_GenericIO_GGIO_FSCC1), (Some iedModel, None)]"
  by (simp add: static_T60S_FSCH2_14_def)

lemma conf_static_T60S_FSCH2_14: "list_all node_conforms (map snd static_T60S_FSCH2_14)"
  by (simp add: static_T60S_FSCH2_14_def TRG_OPT_DATA_CHANGED_def TRG_OPT_QUALITY_CHANGED_def)

lemma addrs_static_T60S_FSCH2_14: "map fst static_T60S_FSCH2_14 = [1551 ..< 1563]"
  by (simp add: static_T60S_FSCH2_14_def upt_rec_numeral)

lemma scan_static_T60S_FSCH2_15: "scan [(Some iedModel_GenericIO_T60S_FSCH2_ValSPG39, Some iedModel_GenericIO_T60S_FSCH2_ValSPG39_setVal), (Some iedModel_GenericIO_T60S_FSCH2, Some iedModel_GenericIO_T60S_FSCH2_ValSPG40), (Some iedModel_GenericIO, Some iedModel_GenericIO_GGIO_FSCC1), (Some iedModel, None)] static_T60S_FSCH2_15
    = Some [(Some iedModel_GenericIO_T60S_FSCH2_ValSPG45, Some iedModel_GenericIO_T60S_FSCH2_ValSPG45_setVal), (Some iedModel_GenericIO_T60S_FSCH2, Some iedModel_GenericIO_T60S_FSCH2_ValSPG46), (Some iedModel_GenericIO, Some iedModel_GenericIO_GGIO_FSCC1), (Some iedModel, None)]"
  by (simp add: static_T60S_FSCH2_15_def)

lemma conf_static_T60S_FSCH2_15: "list_all node_conforms (map snd static_T60S_FSCH2_15)"
  by (simp add: static_T60S_FSCH2_15_def TRG_OPT_DATA_CHANGED_def TRG_OPT_QUALITY_CHANGED_def)

lemma addrs_static_T60S_FSCH2_15: "map fst static_T60S_FSCH2_15 = [1563 ..< 1575]"
  by (simp add: static_T60S_FSCH2_15_def upt_rec_numeral)

lemma scan_static_T60S_FSCH2_16: "scan [(Some iedModel_GenericIO_T60S_FSCH2_ValSPG45, Some iedModel_GenericIO_T60S_FSCH2_ValSPG45_setVal), (Some iedModel_GenericIO_T60S_FSCH2, Some iedModel_GenericIO_T60S_FSCH2_ValSPG46), (Some iedModel_GenericIO, Some iedModel_GenericIO_GGIO_FSCC1), (Some iedModel, None)] static_T60S_FSCH2_16
    = Some [(Some iedModel_GenericIO_T60S_FSCH2_ValSPG51, Some iedModel_GenericIO_T60S_FSCH2_ValSPG51_setVal), (Some iedModel_GenericIO_T60S_FSCH2, Some iedModel_GenericIO_T60S_FSCH2_ValSPG52), (Some iedModel_GenericIO, Some iedModel_GenericIO_GGIO_FSCC1), (Some iedModel, None)]"
  by (simp add: static_T60S_FSCH2_16_def)

lemma conf_static_T60S_FSCH2_16: "list_all node_conforms (map snd static_T60S_FSCH2_16)"
  by (simp add: static_T60S_FSCH2_16_def TRG_OPT_DATA_CHANGED_def TRG_OPT_QUALITY_CHANGED_def)

lemma addrs_static_T60S_FSCH2_16: "map fst static_T60S_FSCH2_16 = [1575 ..< 1587]"
  by (simp add: static_T60S_FSCH2_16_def upt_rec_numeral)

lemma scan_static_T60S_FSCH2_17: "scan [(Some iedModel_GenericIO_T60S_FSCH2_ValSPG51, Some iedModel_GenericIO_T60S_FSCH2_ValSPG51_setVal), (Some iedModel_GenericIO_T60S_FSCH2, Some iedModel_GenericIO_T60S_FSCH2_ValSPG52), (Some iedModel_GenericIO, Some iedModel_GenericIO_GGIO_FSCC1), (Some iedModel, None)] static_T60S_FSCH2_17
    = Some [(Some iedModel_GenericIO_T60S_FSCH2_ValSPG57, Some iedModel_GenericIO_T60S_FSCH2_ValSPG57_setVal), (Some iedModel_GenericIO_T60S_FSCH2, Some iedModel_GenericIO_T60S_FSCH2_ValSPG58), (Some iedModel_GenericIO, Some iedModel_GenericIO_GGIO_FSCC1), (Some iedModel, None)]"
  by (simp add: static_T60S_FSCH2_17_def)

lemma conf_static_T60S_FSCH2_17: "list_all node_conforms (map snd static_T60S_FSCH2_17)"
  by (simp add: static_T60S_FSCH2_17_def TRG_OPT_DATA_CHANGED_def TRG_OPT_QUALITY_CHANGED_def)

lemma addrs_static_T60S_FSCH2_17: "map fst static_T60S_FSCH2_17 = [1587 ..< 1599]"
  by (simp add: static_T60S_FSCH2_17_def upt_rec_numeral)

lemma scan_static_T60S_FSCH2_18: "scan [(Some iedModel_GenericIO_T60S_FSCH2_ValSPG57, Some iedModel_GenericIO_T60S_FSCH2_ValSPG57_setVal), (Some iedModel_GenericIO_T60S_FSCH2, Some iedModel_GenericIO_T60S_FSCH2_ValSPG58), (Some iedModel_GenericIO, Some iedModel_GenericIO_GGIO_FSCC1), (Some iedModel, None)] static_T60S_FSCH2_18
    = Some [(Some iedModel_GenericIO_T60S_FSCH2_StrTm_setCal, Some iedModel_GenericIO_T60S_FSCH2_StrTm_setCal_occType), (Some iedModel_GenericIO_T60S_FSCH2_StrTm, None), (Some iedModel_GenericIO_T60S_FSCH2, Some iedModel_GenericIO_T60S_FSCH2_IntvPer), (Some iedModel_GenericIO, Some iedModel_GenericIO_GGIO_FSCC1), (Some iedModel, None)]"
  by (simp add: static_T60S_FSCH2_18_def)

lemma conf_static_T60S_FSCH2_18: "list_all node_conforms (map snd static_T60S_FSCH2_18)"
  by (simp add: static_T60S_FSCH2_18_def TRG_OPT_DATA_CHANGED_def TRG_OPT_QUALITY_CHANGED_def)

lemma addrs_static_T60S_FSCH2_18: "map fst static_T60S_FSCH2_18 = [1599 ..< 1610]"
  by (simp add: static_T60S_FSCH2_18_def upt_rec_numeral)

lemma scan_static_T60S_FSCH2_19: "scan [(Some iedModel_GenericIO_T60S_FSCH2_StrTm_setCal, Some iedModel_GenericIO_T60S_FSCH2_StrTm_setCal_occType), (Some iedModel_GenericIO_T60S_FSCH2_StrTm, None), (Some iedModel_GenericIO_T60S_FSCH2, Some iedModel_GenericIO_T60S_FSCH2_IntvPer), (Some iedModel_GenericIO, Some iedModel_GenericIO_GGIO_FSCC1), (Some iedModel, None)] static_T60S_FSCH2_19
    = Some [(Some iedModel_GenericIO_T60S_FSCH2, Some iedModel_GenericIO_T60S_FSCH2_SchdReuse), (Some iedModel_GenericIO, Some iedModel_GenericIO_GGIO_FSCC1), (Some iedModel, None)]"
  by (simp add: static_T60S_FSCH2_19_def)

lemma conf_static_T60S_FSCH2_19: "list_all node_conforms (map snd static_T60S_FSCH2_19)"
  by (simp add: static_T60S_FSCH2_19_def TRG_OPT_DATA_CHANGED_def TRG_OPT_QUALITY_CHANGED_def)

lemma addrs_static_T60S_FSCH2_19: "map fst static_T60S_FSCH2_19 = [1610 ..< 1621]"
  by (simp add: static_T60S_FSCH2_19_def upt_rec_numeral)

lemma scan_static_T60S_FSCH2_20: "scan [(Some iedModel_GenericIO_T60S_FSCH2, Some iedModel_GenericIO_T60S_FSCH2_SchdReuse), (Some iedModel_GenericIO, Some iedModel_GenericIO_GGIO_FSCC1), (Some iedModel, None)] static_T60S_FSCH2_20
    = Some [(Some iedModel_GenericIO, Some iedModel_GenericIO_GGIO_FSCC1), (Some iedModel, None)]"
  by (simp add: static_T60S_FSCH2_20_def)

lemma conf_static_T60S_FSCH2_20: "list_all node_conforms (map snd static_T60S_FSCH2_20)"
  by (simp add: static_T60S_FSCH2_20_def TRG_OPT_DATA_CHANGED_def TRG_OPT_QUALITY_CHANGED_def)

lemma addrs_static_T60S_FSCH2_20: "map fst static_T60S_FSCH2_20 = [1621 ..< 1623]"
  by (simp add: static_T60S_FSCH2_20_def upt_rec_numeral)

end
