(* ===== verification/Ied_Controller_Node.thy ===== *)
theory Ied_Controller_Node
  imports Ied_Symbols
begin

text \<open>
  The structures of \<open>core/iec61850/model/static_model.c\<close> for the logical node \<open>GGIO_FSCC1\<close>, in file order,
  a list per stretch of the file, and the pass of the checker over each list.
\<close>

definition static_GGIO_FSCC1_1 :: node_table where
  "static_GGIO_FSCC1_1 =
   [(iedModel_GenericIO_GGIO_FSCC1,
    LogicalNode (Some ''GGIO_FSCC1'') (Some iedModel_GenericIO) None (Some iedModel_GenericIO_GGIO_FSCC1_Beh)),
    (iedModel_GenericIO_GGIO_FSCC1_Beh,
    DataObject (Some ''Beh'') (Some iedModel_GenericIO_GGIO_FSCC1) (Some iedModel_GenericIO_GGIO_FSCC1_ActSchdRef) (Some iedModel_GenericIO_GGIO_FSCC1_Beh_stVal) 0 (- 1)),
    (iedModel_GenericIO_GGIO_FSCC1_Beh_stVal,
    DataAttribute (Some ''stVal'') (Some iedModel_GenericIO_GGIO_FSCC1_Beh) (Some iedModel_GenericIO_GGIO_FSCC1_Beh_q) None 0 (- 1) FC_ST T_ENUMERATED (0 + TRG_OPT_DATA_CHANGED) None 0),
    (iedModel_GenericIO_GGIO_FSCC1_Beh_q,
    DataAttribute (Some ''q'') (Some iedModel_GenericIO_GGIO_FSCC1_Beh) (Some iedModel_GenericIO_GGIO_FSCC1_Beh_t) None 0 (- 1) FC_ST T_QUALITY (0 + TRG_OPT_QUALITY_CHANGED) None 0),
    (iedModel_GenericIO_GGIO_FSCC1_Beh_t,
    DataAttribute (Some ''t'') (Some iedModel_GenericIO_GGIO_FSCC1_Beh) None None 0 (- 1) FC_ST T_TIMESTAMP 0 None 0),
    (iedModel_GenericIO_GGIO_FSCC1_ActSchdRef,
    DataObject (Some ''ActSchdRef'') (Some iedModel_GenericIO_GGIO_FSCC1) (Some iedModel_GenericIO_GGIO_FSCC1_CtlEnt) (Some iedModel_GenericIO_GGIO_FSCC1_ActSchdRef_stVal) 0 (- 1)),
    (iedModel_GenericIO_GGIO_FSCC1_ActSchdRef_stVal,
    DataAttribute (Some ''stVal'') (Some iedModel_GenericIO_GGIO_FSCC1_ActSchdRef) (Some iedModel_GenericIO_GGIO_FSCC1_ActSchdRef_q) None 0 (- 1) FC_ST T_VISIBLE_STRING_129 (0 + TRG_OPT_DATA_CHANGED) None 0),
    (iedModel_GenericIO_GGIO_FSCC1_ActSchdRef_q,
    DataAttribute (Some ''q'') (Some iedModel_GenericIO_GGIO_FSCC1_ActSchdRef) (Some iedModel_GenericIO_GGIO_FSCC1_ActSchdRef_t) None 0 (- 1) FC_ST T_QUALITY (0 + TRG_OPT_QUALITY_CHANGED) None 0),
    (iedModel_GenericIO_GGIO_FSCC1_ActSchdRef_t,
    DataAttribute (Some ''t'') (Some iedModel_GenericIO_GGIO_FSCC1_ActSchdRef) None None 0 (- 1) FC_ST T_TIMESTAMP 0 None 0),
    (iedModel_GenericIO_GGIO_FSCC1_CtlEnt,
    DataObject (Some ''CtlEnt'') (Some iedModel_GenericIO_GGIO_FSCC1) (Some iedModel_GenericIO_GGIO_FSCC1_Schd1) (Some iedModel_GenericIO_GGIO_FSCC1_CtlEnt_setSrcRef) 0 (- 1)),
    (iedModel_GenericIO_GGIO_FSCC1_CtlEnt_setSrcRef,
    DataAttribute (Some ''setSrcRef'') (Some iedModel_GenericIO_GGIO_FSCC1_CtlEnt) None None 0 (- 1) FC_SP T_VISIBLE_STRING_129 (0 + TRG_OPT_DATA_CHANGED) None 0),
    (iedModel_GenericIO_GGIO_FSCC1_Schd1,
    DataObject (Some ''Schd1'') (Some iedModel_GenericIO_GGIO_FSCC1) (Some iedModel_GenericIO_GGIO_FSCC1_Schd2) (Some iedModel_GenericIO_GGIO_FSCC1_Schd1_setSrcRef) 0 (- 1))]"

definition static_GGIO_FSCC1_2 :: node_table where
  "static_GGIO_FSCC1_2 =
   [(iedModel_GenericIO_GGIO_FSCC1_Schd1_setSrcRef,
    DataAttribute (Some ''setSrcRef'') (Some iedModel_GenericIO_GGIO_FSCC1_Schd1) None None 0 (- 1) FC_SP T_VISIBLE_STRING_129 (0 + TRG_OPT_DATA_CHANGED) None 0),
    (iedModel_GenericIO_GGIO_FSCC1_Schd2,
    DataObject (Some ''Schd2'') (Some iedModel_GenericIO_GGIO_FSCC1) None (Some iedModel_GenericIO_GGIO_FSCC1_Schd2_setSrcRef) 0 (- 1)),
    (iedModel_GenericIO_GGIO_FSCC1_Schd2_setSrcRef,
    DataAttribute (Some ''setSrcRef'') (Some iedModel_GenericIO_GGIO_FSCC1_Schd2) None None 0 (- 1) FC_SP T_VISIBLE_STRING_129 (0 + TRG_OPT_DATA_CHANGED) None 0)]"

definition static_GGIO_FSCC1 :: node_table where
  "static_GGIO_FSCC1 = concat [static_GGIO_FSCC1_1,
     static_GGIO_FSCC1_2]"

section \<open>Checking the lists\<close>

lemma scan_static_GGIO_FSCC1_1: "scan [(Some iedModel_GenericIO, Some iedModel_GenericIO_GGIO_FSCC1), (Some iedModel, None)] static_GGIO_FSCC1_1
    = Some [(Some iedModel_GenericIO_GGIO_FSCC1_Schd1, Some iedModel_GenericIO_GGIO_FSCC1_Schd1_setSrcRef), (Some iedModel_GenericIO_GGIO_FSCC1, Some iedModel_GenericIO_GGIO_FSCC1_Schd2), (Some iedModel_GenericIO, None), (Some iedModel, None)]"
  by (simp add: static_GGIO_FSCC1_1_def)

lemma conf_static_GGIO_FSCC1_1: "list_all node_conforms (map snd static_GGIO_FSCC1_1)"
  by (simp add: static_GGIO_FSCC1_1_def TRG_OPT_DATA_CHANGED_def TRG_OPT_QUALITY_CHANGED_def)

lemma addrs_static_GGIO_FSCC1_1: "map fst static_GGIO_FSCC1_1 = [1623 ..< 1635]"
  by (simp add: static_GGIO_FSCC1_1_def upt_rec_numeral)

lemma scan_static_GGIO_FSCC1_2: "scan [(Some iedModel_GenericIO_GGIO_FSCC1_Schd1, Some iedModel_GenericIO_GGIO_FSCC1_Schd1_setSrcRef), (Some iedModel_GenericIO_GGIO_FSCC1, Some iedModel_GenericIO_GGIO_FSCC1_Schd2), (Some iedModel_GenericIO, None), (Some iedModel, None)] static_GGIO_FSCC1_2
    = Some []"
  by (simp add: static_GGIO_FSCC1_2_def)

lemma conf_static_GGIO_FSCC1_2: "list_all node_conforms (map snd static_GGIO_FSCC1_2)"
  by (simp add: static_GGIO_FSCC1_2_def TRG_OPT_DATA_CHANGED_def TRG_OPT_QUALITY_CHANGED_def)

lemma addrs_static_GGIO_FSCC1_2: "map fst static_GGIO_FSCC1_2 = [1635 ..< 1638]"
  by (simp add: static_GGIO_FSCC1_2_def upt_rec_numeral)

end
