(* ===== verification/Ied_Static.thy ===== *)
theory Ied_Static
  imports Ied_Structure Ied_Basic_Nodes Ied_Timer_Node Ied_Schedule1 Ied_Schedule2 Ied_Controller_Node
begin

text \<open>
  The static model of \<open>core/iec61850/model/static_model.c\<close> as a whole: all structures, the
  data set with its entries, the report control blocks, the root structure \<open>iedModel\<close> and
  the function \<open>initializeValues\<close>.
\<close>

section \<open>The table of all structures\<close>

definition static_table :: node_table where
  "static_table =
     static_LD @ static_LLN0 @ static_LPHD1 @ static_GGIO1 @ static_TIM_GAPC1 @ static_T60S_FSCH1
     @ static_T60S_FSCH2 @ static_GGIO_FSCC1"

section \<open>Data sets, reports and the root\<close>

definition fcda_entry :: "string \<Rightarrow> nat option \<Rightarrow> data_set_entry" where
  "fcda_entry v s =
     \<lparr>fcda_logicalDeviceName = ''GenericIO'', fcda_isLDNameDynamicallyAllocated = False, fcda_variableName = v,
      fcda_index = - 1, fcda_componentName = None, fcda_value = None, fcda_sibling = s\<rparr>"

text \<open>The entries \<open>iedModelds_GenericIO_LLN0_Events_fcda0\<close> to \<open>fcda3\<close> by their number.\<close>

definition Events_fcdas :: "(nat \<times> data_set_entry) list" where
  "Events_fcdas =
     [(0, fcda_entry ''GGIO1$ST$SPCSO1$stVal'' (Some 1)),
      (1, fcda_entry ''GGIO1$ST$SPCSO2$stVal'' (Some 2)),
      (2, fcda_entry ''GGIO1$ST$SPCSO3$stVal'' (Some 3)),
      (3, fcda_entry ''GGIO1$ST$DPCSO1$stVal'' None)]"

definition Events :: data_set where
  "Events =
     \<lparr>ds_logicalDeviceName = ''GenericIO'', ds_name = ''LLN0$Events'', ds_elementCount = 4, ds_fcdas = Some 0,
      ds_sibling = None\<rparr>"

definition events_rcb :: "string \<Rightarrow> nat option \<Rightarrow> report_control_block" where
  "events_rcb n s =
     \<lparr>rcb_parent = iedModel_GenericIO_LLN0, rcb_name = n, rcb_rptId = ''Events1'', rcb_buffered = False,
      rcb_dataSetName = ''Events'', rcb_confRef = 1, rcb_trgOps = 88, rcb_options = 239, rcb_bufferTime = 50,
      rcb_intPeriod = 1000, rcb_clientReservation = replicate 17 0, rcb_sibling = s\<rparr>"

definition reports :: "(nat \<times> report_control_block) list" where
  "reports =
     [(0, events_rcb ''EventsRCB01'' (Some 1)),
      (1, events_rcb ''EventsRCB02'' (Some 2)),
      (2, events_rcb ''EventsRCB03'' (Some 3)),
      (3, events_rcb ''EventsRCB04'' (Some 4)),
      (4, events_rcb ''EventsRCB05'' None)]"

definition the_iedModel :: ied_model where
  "the_iedModel =
     \<lparr>im_name = ''beagle'', im_firstChild = iedModel_GenericIO, im_dataSets = Events, im_rcbs = 0\<rparr>"

section \<open>Initial values\<close>

definition initial_values :: "(addr \<times> mms_value) list" where
  "initial_values =
     [(iedModel_GenericIO_LLN0_Mod_ctlModel, MmsInteger 0),
      (iedModel_GenericIO_GGIO1_Mod_ctlModel, MmsInteger 0),
      (iedModel_GenericIO_GGIO1_SPCSO1_ctlModel, MmsInteger 1),
      (iedModel_GenericIO_GGIO1_SPCSO2_ctlModel, MmsInteger 1),
      (iedModel_GenericIO_GGIO1_SPCSO3_ctlModel, MmsInteger 1),
      (iedModel_GenericIO_GGIO1_DPCSO1_ctlModel, MmsInteger 1),
      (iedModel_GenericIO_TIM_GAPC1_Mod_ctlModel, MmsInteger 0),
      (iedModel_GenericIO_TIM_GAPC1_OpDlTmms_dataNs, MmsVisibleString ''EXT:2015''),
      (iedModel_GenericIO_TIM_GAPC1_RsDlTmms_dataNs, MmsVisibleString ''EXT:2015''),
      (iedModel_GenericIO_TIM_GAPC1_OpCntRs_ctlModel, MmsInteger 1)]"

definition initializeValues :: "node_table \<Rightarrow> node_table" where
  "initializeValues tbl = assign_all initial_values tbl"

section \<open>The table is one tree\<close>

lemma scan_static_LLN0: "scan [(Some iedModel_GenericIO, Some iedModel_GenericIO_LLN0), (Some iedModel, None)] static_LLN0
    = Some [(Some iedModel_GenericIO, Some iedModel_GenericIO_LPHD1), (Some iedModel, None)]"
  by (simp add: static_LLN0_def scan_append scan_static_LLN0_1 scan_static_LLN0_2)

lemma addrs_static_LLN0: "map fst static_LLN0 = [1002 ..< 1022]"
  by (simp add: static_LLN0_def upt_join addrs_static_LLN0_1 addrs_static_LLN0_2 del: upt_rec_numeral)

lemma conf_static_LLN0: "list_all node_conforms (map snd static_LLN0)"
  by (simp add: static_LLN0_def conf_static_LLN0_1 conf_static_LLN0_2)

lemma scan_static_GGIO1: "scan [(Some iedModel_GenericIO, Some iedModel_GenericIO_GGIO1), (Some iedModel, None)] static_GGIO1
    = Some [(Some iedModel_GenericIO, Some iedModel_GenericIO_TIM_GAPC1), (Some iedModel, None)]"
  by (simp add: static_GGIO1_def scan_append scan_static_GGIO1_1 scan_static_GGIO1_2 scan_static_GGIO1_3 scan_static_GGIO1_4 scan_static_GGIO1_5 scan_static_GGIO1_6 scan_static_GGIO1_7 scan_static_GGIO1_8 scan_static_GGIO1_9 scan_static_GGIO1_10 scan_static_GGIO1_11 scan_static_GGIO1_12)

lemma addrs_static_GGIO1: "map fst static_GGIO1 = [1033 ..< 1152]"
  by (simp add: static_GGIO1_def upt_join addrs_static_GGIO1_1 addrs_static_GGIO1_2 addrs_static_GGIO1_3 addrs_static_GGIO1_4 addrs_static_GGIO1_5 addrs_static_GGIO1_6 addrs_static_GGIO1_7 addrs_static_GGIO1_8 addrs_static_GGIO1_9 addrs_static_GGIO1_10 addrs_static_GGIO1_11 addrs_static_GGIO1_12 del: upt_rec_numeral)

lemma conf_static_GGIO1: "list_all node_conforms (map snd static_GGIO1)"
  by (simp add: static_GGIO1_def conf_static_GGIO1_1 conf_static_GGIO1_2 conf_static_GGIO1_3 conf_static_GGIO1_4 conf_static_GGIO1_5 conf_static_GGIO1_6 conf_static_GGIO1_7 conf_static_GGIO1_8 conf_static_GGIO1_9 conf_static_GGIO1_10 conf_static_GGIO1_11 conf_static_GGIO1_12)

lemma scan_static_TIM_GAPC1: "scan [(Some iedModel_GenericIO, Some iedModel_GenericIO_TIM_GAPC1), (Some iedModel, None)] static_TIM_GAPC1
    = Some [(Some iedModel_GenericIO, Some iedModel_GenericIO_T60S_FSCH1), (Some iedModel, None)]"
  by (simp add: static_TIM_GAPC1_def scan_append scan_static_TIM_GAPC1_1 scan_static_TIM_GAPC1_2 scan_static_TIM_GAPC1_3 scan_static_TIM_GAPC1_4)

lemma addrs_static_TIM_GAPC1: "map fst static_TIM_GAPC1 = [1152 ..< 1191]"
  by (simp add: static_TIM_GAPC1_def upt_join addrs_static_TIM_GAPC1_1 addrs_static_TIM_GAPC1_2 addrs_static_TIM_GAPC1_3 addrs_static_TIM_GAPC1_4 del: upt_rec_numeral)

lemma conf_static_TIM_GAPC1: "list_all node_conforms (map snd static_TIM_GAPC1)"
  by (simp add: static_TIM_GAPC1_def conf_static_TIM_GAPC1_1 conf_static_TIM_GAPC1_2 conf_static_TIM_GAPC1_3 conf_static_TIM_GAPC1_4)

lemma scan_static_T60S_FSCH1: "scan [(Some iedModel_GenericIO, Some iedModel_GenericIO_T60S_FSCH1), (Some iedModel, None)] static_T60S_FSCH1
    = Some [(Some iedModel_GenericIO, Some iedModel_GenericIO_T60S_FSCH2), (Some iedModel, None)]"
  by (simp add: static_T60S_FSCH1_def scan_append scan_static_T60S_FSCH1_1 scan_static_T60S_FSCH1_2 scan_static_T60S_FSCH1_3 scan_static_T60S_FSCH1_4 scan_static_T60S_FSCH1_5 scan_static_T60S_FSCH1_6 scan_static_T60S_FSCH1_7 scan_static_T60S_FSCH1_8 scan_static_T60S_FSCH1_9 scan_static_T60S_FSCH1_10 scan_static_T60S_FSCH1_11 scan_static_T60S_FSCH1_12 scan_static_T60S_FSCH1_13 scan_static_T60S_FSCH1_14 scan_static_T60S_FSCH1_15 scan_static_T60S_FSCH1_16 scan_static_T60S_FSCH1_17 scan_static_T60S_FSCH1_18 scan_static_T60S_FSCH1_19 scan_static_T60S_FSCH1_20)

lemma addrs_static_T60S_FSCH1: "map fst static_T60S_FSCH1 = [1191 ..< 1407]"
  by (simp add: static_T60S_FSCH1_def upt_join addrs_static_T60S_FSCH1_1 addrs_static_T60S_FSCH1_2 addrs_static_T60S_FSCH1_3 addrs_static_T60S_FSCH1_4 addrs_static_T60S_FSCH1_5 addrs_static_T60S_FSCH1_6 addrs_static_T60S_FSCH1_7 addrs_static_T60S_FSCH1_8 addrs_static_T60S_FSCH1_9 addrs_static_T60S_FSCH1_10 addrs_static_T60S_FSCH1_11 addrs_static_T60S_FSCH1_12 addrs_static_T60S_FSCH1_13 addrs_static_T60S_FSCH1_14 addrs_static_T60S_FSCH1_15 addrs_static_T60S_FSCH1_16 addrs_static_T60S_FSCH1_17 addrs_static_T60S_FSCH1_18 addrs_static_T60S_FSCH1_19 addrs_static_T60S_FSCH1_20 del: upt_rec_numeral)

lemma conf_static_T60S_FSCH1: "list_all node_conforms (map snd static_T60S_FSCH1)"
  by (simp add: static_T60S_FSCH1_def conf_static_T60S_FSCH1_1 conf_static_T60S_FSCH1_2 conf_static_T60S_FSCH1_3 conf_static_T60S_FSCH1_4 conf_static_T60S_FSCH1_5 conf_static_T60S_FSCH1_6 conf_static_T60S_FSCH1_7 conf_static_T60S_FSCH1_8 conf_static_T60S_FSCH1_9 conf_static_T60S_FSCH1_10 conf_static_T60S_FSCH1_11 conf_static_T60S_FSCH1_12 conf_static_T60S_FSCH1_13 conf_static_T60S_FSCH1_14 conf_static_T60S_FSCH1_15 conf_static_T60S_FSCH1_16 conf_static_T60S_FSCH1_17 conf_static_T60S_FSCH1_18 conf_static_T60S_FSCH1_19 conf_static_T60S_FSCH1_20)

lemma scan_static_T60S_FSCH2: "scan [(Some iedModel_GenericIO, Some iedModel_GenericIO_T60S_FSCH2), (Some iedModel, None)] static_T60S_FSCH2
    = Some [(Some iedModel_GenericIO, Some iedModel_GenericIO_GGIO_FSCC1), (Some iedModel, None)]"
  by (simp add: static_T60S_FSCH2_def scan_append scan_static_T60S_FSCH2_1 scan_static_T60S_FSCH2_2 scan_static_T60S_FSCH2_3 scan_static_T60S_FSCH2_4 scan_static_T60S_FSCH2_5 scan_static_T60S_FSCH2_6 scan_static_T60S_FSCH2_7 scan_static_T60S_FSCH2_8 scan_static_T60S_FSCH2_9 scan_static_T60S_FSCH2_10 scan_static_T60S_FSCH2_11 scan_static_T60S_FSCH2_12 scan_static_T60S_FSCH2_13 scan_static_T60S_FSCH2_14 scan_static_T60S_FSCH2_15 scan_static_T60S_FSCH2_16 scan_static_T60S_FSCH2_17 scan_static_T60S_FSCH2_18 scan_static_T60S_FSCH2_19 scan_static_T60S_FSCH2_20)

lemma addrs_static_T60S_FSCH2: "map fst static_T60S_FSCH2 = [1407 ..< 1623]"
  by (simp add: static_T60S_FSCH2_def upt_join addrs_static_T60S_FSCH2_1 addrs_static_T60S_FSCH2_2 addrs_static_T60S_FSCH2_3 addrs_static_T60S_FSCH2_4 addrs_static_T60S_FSCH2_5 addrs_static_T60S_FSCH2_6 addrs_static_T60S_FSCH2_7 addrs_static_T60S_FSCH2_8 addrs_static_T60S_FSCH2_9 addrs_static_T60S_FSCH2_10 addrs_static_T60S_FSCH2_11 addrs_static_T60S_FSCH2_12 addrs_static_T60S_FSCH2_13 addrs_static_T60S_FSCH2_14 addrs_static_T60S_FSCH2_15 addrs_static_T60S_FSCH2_16 addrs_static_T60S_FSCH2_17 addrs_static_T60S_FSCH2_18 addrs_static_T60S_FSCH2_19 addrs_static_T60S_FSCH2_20 del: upt_rec_numeral)

lemma conf_static_T60S_FSCH2: "list_all node_conforms (map snd static_T60S_FSCH2)"
  by (simp add: static_T60S_FSCH2_def conf_static_T60S_FSCH2_1 conf_static_T60S_FSCH2_2 conf_static_T60S_FSCH2_3 conf_static_T60S_FSCH2_4 conf_static_T60S_FSCH2_5 conf_static_T60S_FSCH2_6 conf_static_T60S_FSCH2_7 conf_static_T60S_FSCH2_8 conf_static_T60S_FSCH2_9 conf_static_T60S_FSCH2_10 conf_static_T60S_FSCH2_11 conf_static_T60S_FSCH2_12 conf_static_T60S_FSCH2_13 conf_static_T60S_FSCH2_14 conf_static_T60S_FSCH2_15 conf_static_T60S_FSCH2_16 conf_static_T60S_FSCH2_17 conf_static_T60S_FSCH2_18 conf_static_T60S_FSCH2_19 conf_static_T60S_FSCH2_20)

lemma scan_static_GGIO_FSCC1: "scan [(Some iedModel_GenericIO, Some iedModel_GenericIO_GGIO_FSCC1), (Some iedModel, None)] static_GGIO_FSCC1
    = Some []"
  by (simp add: static_GGIO_FSCC1_def scan_append scan_static_GGIO_FSCC1_1 scan_static_GGIO_FSCC1_2)

lemma addrs_static_GGIO_FSCC1: "map fst static_GGIO_FSCC1 = [1623 ..< 1638]"
  by (simp add: static_GGIO_FSCC1_def upt_join addrs_static_GGIO_FSCC1_1 addrs_static_GGIO_FSCC1_2 del: upt_rec_numeral)

lemma conf_static_GGIO_FSCC1: "list_all node_conforms (map snd static_GGIO_FSCC1)"
  by (simp add: static_GGIO_FSCC1_def conf_static_GGIO_FSCC1_1 conf_static_GGIO_FSCC1_2)

lemmas scan_groups = scan_static_LD scan_static_LLN0 scan_static_LPHD1 scan_static_GGIO1 scan_static_TIM_GAPC1 scan_static_T60S_FSCH1 scan_static_T60S_FSCH2 scan_static_GGIO_FSCC1

lemmas addrs_groups = addrs_static_LD addrs_static_LLN0 addrs_static_LPHD1 addrs_static_GGIO1 addrs_static_TIM_GAPC1 addrs_static_T60S_FSCH1 addrs_static_T60S_FSCH2 addrs_static_GGIO_FSCC1

lemmas conf_groups = conf_static_LD conf_static_LLN0 conf_static_LPHD1 conf_static_GGIO1 conf_static_TIM_GAPC1 conf_static_T60S_FSCH1 conf_static_T60S_FSCH2 conf_static_GGIO_FSCC1

lemma scan_static_table: "scan [(Some iedModel, Some iedModel_GenericIO)] static_table = Some []"
  by (simp add: static_table_def scan_append scan_groups)

lemma addrs_static_table: "map fst static_table = [1001 ..< 1638]"
  by (simp add: static_table_def upt_join addrs_groups del: upt_rec_numeral)

lemma conf_static_table: "list_all node_conforms (map snd static_table)"
  by (simp add: static_table_def conf_groups)

lemma static_table_distinct: "distinct (map fst static_table)"
  by (simp only: addrs_static_table distinct_upt)

lemma static_table_length: "length static_table = 637"
  using arg_cong [OF addrs_static_table, of length] by simp

lemma static_lookup: "(a, n) \<in> set static_table \<Longrightarrow> map_of static_table a = Some n"
  by (simp add: static_table_distinct)

section \<open>Single structures\<close>

lemma at_GenericIO:
  "map_of static_table iedModel_GenericIO = Some
    (LogicalDevice (Some ''GenericIO'') (Some iedModel) None (Some iedModel_GenericIO_LLN0) None)"
  by (rule static_lookup) (simp add: static_table_def static_LD_def)

lemma at_GenericIO_LLN0:
  "map_of static_table iedModel_GenericIO_LLN0 = Some
    (LogicalNode (Some ''LLN0'') (Some iedModel_GenericIO) (Some iedModel_GenericIO_LPHD1) (Some iedModel_GenericIO_LLN0_Beh))"
  by (rule static_lookup) (simp add: static_table_def static_LLN0_def static_LLN0_1_def)

lemma at_GenericIO_GGIO1:
  "map_of static_table iedModel_GenericIO_GGIO1 = Some
    (LogicalNode (Some ''GGIO1'') (Some iedModel_GenericIO) (Some iedModel_GenericIO_TIM_GAPC1) (Some iedModel_GenericIO_GGIO1_Beh))"
  by (rule static_lookup) (simp add: static_table_def static_GGIO1_def static_GGIO1_1_def)

lemma at_GenericIO_GGIO1_SPCSO1:
  "map_of static_table iedModel_GenericIO_GGIO1_SPCSO1 = Some
    (DataObject (Some ''SPCSO1'') (Some iedModel_GenericIO_GGIO1) (Some iedModel_GenericIO_GGIO1_SPCSO2) (Some iedModel_GenericIO_GGIO1_SPCSO1_stVal) 0 (- 1))"
  by (rule static_lookup) (simp add: static_table_def static_GGIO1_def static_GGIO1_4_def)

lemma at_GenericIO_GGIO1_SPCSO1_stVal:
  "map_of static_table iedModel_GenericIO_GGIO1_SPCSO1_stVal = Some
    (DataAttribute (Some ''stVal'') (Some iedModel_GenericIO_GGIO1_SPCSO1) (Some iedModel_GenericIO_GGIO1_SPCSO1_q) None 0 (- 1) FC_ST T_BOOLEAN (0 + TRG_OPT_DATA_CHANGED) None 0)"
  by (rule static_lookup) (simp add: static_table_def static_GGIO1_def static_GGIO1_4_def)

lemma at_GenericIO_GGIO1_SPCSO2:
  "map_of static_table iedModel_GenericIO_GGIO1_SPCSO2 = Some
    (DataObject (Some ''SPCSO2'') (Some iedModel_GenericIO_GGIO1) (Some iedModel_GenericIO_GGIO1_SPCSO3) (Some iedModel_GenericIO_GGIO1_SPCSO2_stVal) 0 (- 1))"
  by (rule static_lookup) (simp add: static_table_def static_GGIO1_def static_GGIO1_5_def)

lemma at_GenericIO_GGIO1_SPCSO2_stVal:
  "map_of static_table iedModel_GenericIO_GGIO1_SPCSO2_stVal = Some
    (DataAttribute (Some ''stVal'') (Some iedModel_GenericIO_GGIO1_SPCSO2) (Some iedModel_GenericIO_GGIO1_SPCSO2_q) None 0 (- 1) FC_ST T_BOOLEAN (0 + TRG_OPT_DATA_CHANGED) None 0)"
  by (rule static_lookup) (simp add: static_table_def static_GGIO1_def static_GGIO1_5_def)

lemma at_GenericIO_GGIO1_SPCSO3:
  "map_of static_table iedModel_GenericIO_GGIO1_SPCSO3 = Some
    (DataObject (Some ''SPCSO3'') (Some iedModel_GenericIO_GGIO1) (Some iedModel_GenericIO_GGIO1_DPCSO1) (Some iedModel_GenericIO_GGIO1_SPCSO3_stVal) 0 (- 1))"
  by (rule static_lookup) (simp add: static_table_def static_GGIO1_def static_GGIO1_8_def)

lemma at_GenericIO_GGIO1_SPCSO3_stVal:
  "map_of static_table iedModel_GenericIO_GGIO1_SPCSO3_stVal = Some
    (DataAttribute (Some ''stVal'') (Some iedModel_GenericIO_GGIO1_SPCSO3) (Some iedModel_GenericIO_GGIO1_SPCSO3_q) None 0 (- 1) FC_ST T_BOOLEAN (0 + TRG_OPT_DATA_CHANGED) None 0)"
  by (rule static_lookup) (simp add: static_table_def static_GGIO1_def static_GGIO1_8_def)

lemma at_GenericIO_GGIO1_DPCSO1:
  "map_of static_table iedModel_GenericIO_GGIO1_DPCSO1 = Some
    (DataObject (Some ''DPCSO1'') (Some iedModel_GenericIO_GGIO1) (Some iedModel_GenericIO_GGIO1_Ind1) (Some iedModel_GenericIO_GGIO1_DPCSO1_stVal) 0 (- 1))"
  by (rule static_lookup) (simp add: static_table_def static_GGIO1_def static_GGIO1_9_def)

lemma at_GenericIO_GGIO1_DPCSO1_stVal:
  "map_of static_table iedModel_GenericIO_GGIO1_DPCSO1_stVal = Some
    (DataAttribute (Some ''stVal'') (Some iedModel_GenericIO_GGIO1_DPCSO1) (Some iedModel_GenericIO_GGIO1_DPCSO1_q) None 0 (- 1) FC_ST T_CODEDENUM (0 + TRG_OPT_DATA_CHANGED) None 0)"
  by (rule static_lookup) (simp add: static_table_def static_GGIO1_def static_GGIO1_9_def)

lemma at_GenericIO_LLN0_Mod_ctlModel:
  "map_of static_table iedModel_GenericIO_LLN0_Mod_ctlModel = Some
    (DataAttribute (Some ''ctlModel'') (Some iedModel_GenericIO_LLN0_Mod) None None 0 (- 1) FC_CF T_ENUMERATED 0 None 0)"
  by (rule static_lookup) (simp add: static_table_def static_LLN0_def static_LLN0_1_def)

lemma at_GenericIO_GGIO1_Mod_ctlModel:
  "map_of static_table iedModel_GenericIO_GGIO1_Mod_ctlModel = Some
    (DataAttribute (Some ''ctlModel'') (Some iedModel_GenericIO_GGIO1_Mod) None None 0 (- 1) FC_CF T_ENUMERATED 0 None 0)"
  by (rule static_lookup) (simp add: static_table_def static_GGIO1_def static_GGIO1_1_def)

lemma at_GenericIO_GGIO1_SPCSO1_ctlModel:
  "map_of static_table iedModel_GenericIO_GGIO1_SPCSO1_ctlModel = Some
    (DataAttribute (Some ''ctlModel'') (Some iedModel_GenericIO_GGIO1_SPCSO1) (Some iedModel_GenericIO_GGIO1_SPCSO1_t) None 0 (- 1) FC_CF T_ENUMERATED 0 None 0)"
  by (rule static_lookup) (simp add: static_table_def static_GGIO1_def static_GGIO1_5_def)

lemma at_GenericIO_GGIO1_SPCSO2_ctlModel:
  "map_of static_table iedModel_GenericIO_GGIO1_SPCSO2_ctlModel = Some
    (DataAttribute (Some ''ctlModel'') (Some iedModel_GenericIO_GGIO1_SPCSO2) (Some iedModel_GenericIO_GGIO1_SPCSO2_t) None 0 (- 1) FC_CF T_ENUMERATED 0 None 0)"
  by (rule static_lookup) (simp add: static_table_def static_GGIO1_def static_GGIO1_7_def)

lemma at_GenericIO_GGIO1_SPCSO3_ctlModel:
  "map_of static_table iedModel_GenericIO_GGIO1_SPCSO3_ctlModel = Some
    (DataAttribute (Some ''ctlModel'') (Some iedModel_GenericIO_GGIO1_SPCSO3) (Some iedModel_GenericIO_GGIO1_SPCSO3_t) None 0 (- 1) FC_CF T_ENUMERATED 0 None 0)"
  by (rule static_lookup) (simp add: static_table_def static_GGIO1_def static_GGIO1_9_def)

lemma at_GenericIO_GGIO1_DPCSO1_ctlModel:
  "map_of static_table iedModel_GenericIO_GGIO1_DPCSO1_ctlModel = Some
    (DataAttribute (Some ''ctlModel'') (Some iedModel_GenericIO_GGIO1_DPCSO1) (Some iedModel_GenericIO_GGIO1_DPCSO1_t) None 0 (- 1) FC_CF T_ENUMERATED 0 None 0)"
  by (rule static_lookup) (simp add: static_table_def static_GGIO1_def static_GGIO1_10_def)

lemma at_GenericIO_TIM_GAPC1_Mod_ctlModel:
  "map_of static_table iedModel_GenericIO_TIM_GAPC1_Mod_ctlModel = Some
    (DataAttribute (Some ''ctlModel'') (Some iedModel_GenericIO_TIM_GAPC1_Mod) None None 0 (- 1) FC_CF T_ENUMERATED 0 None 0)"
  by (rule static_lookup) (simp add: static_table_def static_TIM_GAPC1_def static_TIM_GAPC1_1_def)

lemma at_GenericIO_TIM_GAPC1_OpDlTmms_dataNs:
  "map_of static_table iedModel_GenericIO_TIM_GAPC1_OpDlTmms_dataNs = Some
    (DataAttribute (Some ''dataNs'') (Some iedModel_GenericIO_TIM_GAPC1_OpDlTmms) None None 0 (- 1) FC_EX T_VISIBLE_STRING_255 0 None 0)"
  by (rule static_lookup) (simp add: static_table_def static_TIM_GAPC1_def static_TIM_GAPC1_2_def)

lemma at_GenericIO_TIM_GAPC1_RsDlTmms_dataNs:
  "map_of static_table iedModel_GenericIO_TIM_GAPC1_RsDlTmms_dataNs = Some
    (DataAttribute (Some ''dataNs'') (Some iedModel_GenericIO_TIM_GAPC1_RsDlTmms) None None 0 (- 1) FC_EX T_VISIBLE_STRING_255 0 None 0)"
  by (rule static_lookup) (simp add: static_table_def static_TIM_GAPC1_def static_TIM_GAPC1_3_def)

lemma at_GenericIO_TIM_GAPC1_OpCntRs_ctlModel:
  "map_of static_table iedModel_GenericIO_TIM_GAPC1_OpCntRs_ctlModel = Some
    (DataAttribute (Some ''ctlModel'') (Some iedModel_GenericIO_TIM_GAPC1_OpCntRs) None None 0 (- 1) FC_CF T_ENUMERATED 0 None 0)"
  by (rule static_lookup) (simp add: static_table_def static_TIM_GAPC1_def static_TIM_GAPC1_4_def)

lemmas at_reported = at_GenericIO at_GenericIO_LLN0 at_GenericIO_GGIO1 at_GenericIO_GGIO1_SPCSO1 at_GenericIO_GGIO1_SPCSO1_stVal at_GenericIO_GGIO1_SPCSO2 at_GenericIO_GGIO1_SPCSO2_stVal at_GenericIO_GGIO1_SPCSO3 at_GenericIO_GGIO1_SPCSO3_stVal at_GenericIO_GGIO1_DPCSO1 at_GenericIO_GGIO1_DPCSO1_stVal

lemmas at_initialised = at_GenericIO_LLN0_Mod_ctlModel at_GenericIO_GGIO1_Mod_ctlModel at_GenericIO_GGIO1_SPCSO1_ctlModel at_GenericIO_GGIO1_SPCSO2_ctlModel at_GenericIO_GGIO1_SPCSO3_ctlModel at_GenericIO_GGIO1_DPCSO1_ctlModel at_GenericIO_TIM_GAPC1_Mod_ctlModel at_GenericIO_TIM_GAPC1_OpDlTmms_dataNs at_GenericIO_TIM_GAPC1_RsDlTmms_dataNs at_GenericIO_TIM_GAPC1_OpCntRs_ctlModel

section \<open>The second schedule is a copy of the first\<close>

lemma reloc_1: "tl static_T60S_FSCH2_1 = map (relocate 216) (tl static_T60S_FSCH1_1)"
  by (simp add: static_T60S_FSCH1_1_def static_T60S_FSCH2_1_def)

lemma reloc_2: "static_T60S_FSCH2_2 = map (relocate 216) static_T60S_FSCH1_2"
  by (simp add: static_T60S_FSCH1_2_def static_T60S_FSCH2_2_def)

lemma reloc_3: "static_T60S_FSCH2_3 = map (relocate 216) static_T60S_FSCH1_3"
  by (simp add: static_T60S_FSCH1_3_def static_T60S_FSCH2_3_def)

lemma reloc_4: "static_T60S_FSCH2_4 = map (relocate 216) static_T60S_FSCH1_4"
  by (simp add: static_T60S_FSCH1_4_def static_T60S_FSCH2_4_def)

lemma reloc_5: "static_T60S_FSCH2_5 = map (relocate 216) static_T60S_FSCH1_5"
  by (simp add: static_T60S_FSCH1_5_def static_T60S_FSCH2_5_def)

lemma reloc_6: "static_T60S_FSCH2_6 = map (relocate 216) static_T60S_FSCH1_6"
  by (simp add: static_T60S_FSCH1_6_def static_T60S_FSCH2_6_def)

lemma reloc_7: "static_T60S_FSCH2_7 = map (relocate 216) static_T60S_FSCH1_7"
  by (simp add: static_T60S_FSCH1_7_def static_T60S_FSCH2_7_def)

lemma reloc_8: "static_T60S_FSCH2_8 = map (relocate 216) static_T60S_FSCH1_8"
  by (simp add: static_T60S_FSCH1_8_def static_T60S_FSCH2_8_def)

lemma reloc_9: "static_T60S_FSCH2_9 = map (relocate 216) static_T60S_FSCH1_9"
  by (simp add: static_T60S_FSCH1_9_def static_T60S_FSCH2_9_def)

lemma reloc_10: "static_T60S_FSCH2_10 = map (relocate 216) static_T60S_FSCH1_10"
  by (simp add: static_T60S_FSCH1_10_def static_T60S_FSCH2_10_def)

lemma reloc_11: "static_T60S_FSCH2_11 = map (relocate 216) static_T60S_FSCH1_11"
  by (simp add: static_T60S_FSCH1_11_def static_T60S_FSCH2_11_def)

lemma reloc_12: "static_T60S_FSCH2_12 = map (relocate 216) static_T60S_FSCH1_12"
  by (simp add: static_T60S_FSCH1_12_def static_T60S_FSCH2_12_def)

lemma reloc_13: "static_T60S_FSCH2_13 = map (relocate 216) static_T60S_FSCH1_13"
  by (simp add: static_T60S_FSCH1_13_def static_T60S_FSCH2_13_def)

lemma reloc_14: "static_T60S_FSCH2_14 = map (relocate 216) static_T60S_FSCH1_14"
  by (simp add: static_T60S_FSCH1_14_def static_T60S_FSCH2_14_def)

lemma reloc_15: "static_T60S_FSCH2_15 = map (relocate 216) static_T60S_FSCH1_15"
  by (simp add: static_T60S_FSCH1_15_def static_T60S_FSCH2_15_def)

lemma reloc_16: "static_T60S_FSCH2_16 = map (relocate 216) static_T60S_FSCH1_16"
  by (simp add: static_T60S_FSCH1_16_def static_T60S_FSCH2_16_def)

lemma reloc_17: "static_T60S_FSCH2_17 = map (relocate 216) static_T60S_FSCH1_17"
  by (simp add: static_T60S_FSCH1_17_def static_T60S_FSCH2_17_def)

lemma reloc_18: "static_T60S_FSCH2_18 = map (relocate 216) static_T60S_FSCH1_18"
  by (simp add: static_T60S_FSCH1_18_def static_T60S_FSCH2_18_def)

lemma reloc_19: "static_T60S_FSCH2_19 = map (relocate 216) static_T60S_FSCH1_19"
  by (simp add: static_T60S_FSCH1_19_def static_T60S_FSCH2_19_def)

lemma reloc_20: "static_T60S_FSCH2_20 = map (relocate 216) static_T60S_FSCH1_20"
  by (simp add: static_T60S_FSCH1_20_def static_T60S_FSCH2_20_def)

lemma heads_nonempty: "static_T60S_FSCH1_1 \<noteq> []" "static_T60S_FSCH2_1 \<noteq> []"
  by (simp_all add: static_T60S_FSCH1_1_def static_T60S_FSCH2_1_def)

lemma schedule_tail: "tl static_T60S_FSCH2 = map (relocate 216) (tl static_T60S_FSCH1)"
  by (simp add: static_T60S_FSCH1_def static_T60S_FSCH2_def heads_nonempty tl_append_if reloc_1 reloc_2 reloc_3 reloc_4 reloc_5 reloc_6 reloc_7 reloc_8 reloc_9 reloc_10 reloc_11 reloc_12 reloc_13 reloc_14 reloc_15 reloc_16 reloc_17 reloc_18 reloc_19 reloc_20)

section \<open>Data set and reports\<close>

lemma Events_chain: "chain_of 4 Events_fcdas fcda_sibling (ds_fcdas Events) = Some (map snd Events_fcdas)"
  by (simp add: Events_def Events_fcdas_def fcda_entry_def eval_nat_numeral)

lemma reports_chain: "chain_of 5 reports rcb_sibling (Some (im_rcbs the_iedModel)) = Some (map snd reports)"
  by (simp add: reports_def events_rcb_def the_iedModel_def eval_nat_numeral)

lemma Events_references:
  "reference static_table iedModel_GenericIO_GGIO1_SPCSO1_stVal = Some (''GenericIO'', ''GGIO1$ST$SPCSO1$stVal'')"
  "reference static_table iedModel_GenericIO_GGIO1_SPCSO2_stVal = Some (''GenericIO'', ''GGIO1$ST$SPCSO2$stVal'')"
  "reference static_table iedModel_GenericIO_GGIO1_SPCSO3_stVal = Some (''GenericIO'', ''GGIO1$ST$SPCSO3$stVal'')"
  "reference static_table iedModel_GenericIO_GGIO1_DPCSO1_stVal = Some (''GenericIO'', ''GGIO1$ST$DPCSO1$stVal'')"
  by (simp_all add: reference_def at_reported)

lemma initial_values_distinct: "distinct (map fst initial_values)"
  by (simp add: initial_values_def)

interpretation gio: static_model iedModel iedModel_GenericIO static_table initial_values
  by unfold_locales (simp_all add: scan_static_table static_table_distinct at_GenericIO initial_values_distinct)

section \<open>Properties\<close>

text \<open>
  C11. The static model is one tree: the 637 structures of the file, read in file order, are
  the preorder layout of a single tree rooted at the logical device below \<open>iedModel\<close>.
  Every \<open>firstChild\<close> and \<open>sibling\<close> pointer leads to a structure of the file, the lists of
  children end, are free of repetitions and carry the right \<open>parent\<close>, and every structure
  obeys the conventions on types, triggers and children.
\<close>

theorem static_model_is_tree:
  "model_wf (Some iedModel) static_table \<and> length static_table = 637
   \<and> (\<exists>t. static_table = emit_list (Some iedModel) [t] \<and> tree_addr t = im_firstChild the_iedModel)
   \<and> list_all node_conforms (map snd static_table)"
  using gio.single_tree static_table_length conf_static_table by (simp add: the_iedModel_def)

text \<open>
  The logical node \<open>T60S_FSCH2\<close> is a copy of \<open>T60S_FSCH1\<close>: apart from the structures of
  the two nodes themselves, its 215 structures are those of \<open>T60S_FSCH1\<close> moved by a fixed
  distance, with every internal pointer moved along.
\<close>

theorem schedules_identical:
  "tl static_T60S_FSCH2 = map (relocate 216) (tl static_T60S_FSCH1) \<and> length static_T60S_FSCH2 = 216"
  using schedule_tail arg_cong [OF addrs_static_T60S_FSCH2, of length] by simp

text \<open>
  \<open>initializeValues\<close> gives exactly the ten listed attributes the listed values, each of
  a kind that fits the type of its attribute, leaves every other structure as it was and
  keeps the model well-formed.
\<close>

theorem initializeValues_effect:
  "map_of (initializeValues static_table) b =
     map_option (\<lambda>n. case map_of initial_values b of None \<Rightarrow> n | Some x \<Rightarrow> with_mmsValue x n) (map_of static_table b)
   \<and> list_all (\<lambda>(a, x). \<exists>n. map_of (initializeValues static_table) a = Some n \<and> mmsValue n = Some x
                           \<and> value_fits x (node_type n)) initial_values
   \<and> model_wf (Some iedModel) (initializeValues static_table)"
proof -
  have "list_all (\<lambda>(a, x). \<exists>n. map_of static_table a = Some n \<and> takes_value n \<and> value_fits x (node_type n)) initial_values"
    by (simp add: initial_values_def at_initialised)
  then show ?thesis
    unfolding initializeValues_def using gio.initialised_lookup gio.initialised_values gio.initialised_wf by blast
qed

text \<open>
  Reporting is wired up: following the entries of the data set \<open>Events\<close> visits exactly
  its declared number of members, each naming a status attribute that the model has under
  that reference; following the report control blocks visits five blocks with different
  names, all below \<open>LLN0\<close> and all on that data set.
\<close>

theorem events_reports_resolve:
  "(\<exists>es. chain_of (length Events_fcdas) Events_fcdas fcda_sibling (ds_fcdas (im_dataSets the_iedModel)) = Some es
      \<and> int (length es) = ds_elementCount Events
      \<and> list_all (\<lambda>e. \<exists>a. reference static_table a = Some (fcda_logicalDeviceName e, fcda_variableName e)) es)
   \<and> (\<exists>rs. chain_of (length reports) reports rcb_sibling (Some (im_rcbs the_iedModel)) = Some rs
      \<and> length rs = 5 \<and> distinct (map rcb_name rs)
      \<and> list_all (\<lambda>r. map_option node_name (map_of static_table (rcb_parent r)) = Some (Some ''LLN0'')
                      \<and> ''LLN0$'' @ rcb_dataSetName r = ds_name Events) rs)"
proof -
  have "list_all (\<lambda>e. \<exists>a. reference static_table a = Some (fcda_logicalDeviceName e, fcda_variableName e))
      (map snd Events_fcdas)"
    using Events_references by (auto simp: Events_fcdas_def fcda_entry_def)
  moreover have "list_all (\<lambda>r. map_option node_name (map_of static_table (rcb_parent r)) = Some (Some ''LLN0'')
                      \<and> ''LLN0$'' @ rcb_dataSetName r = ds_name Events) (map snd reports)"
    by (simp add: reports_def events_rcb_def Events_def at_GenericIO_LLN0)
  moreover have "length Events_fcdas = 4" "length reports = 5" "distinct (map rcb_name (map snd reports))"
    by (simp_all add: Events_fcdas_def reports_def events_rcb_def)
  ultimately show ?thesis
    using Events_chain reports_chain
    by (simp add: Events_def the_iedModel_def del: list.map)
qed

end
