(* ===== verification/Ied_Handles.thy ===== *)
theory Ied_Handles
  imports Ied_Naming Ied_Static
begin

text \<open>
  The header \<open>core/iec61850/model/static_model.h\<close>: its declarations and handles, in file order.
\<close>

section \<open>Declarations and handles\<close>

definition gio_declared_1 :: "(c_type \<times> addr) list" where
  "gio_declared_1 =
    [(LogicalDevice_t, iedModel_GenericIO),
     (LogicalNode_t, iedModel_GenericIO_LLN0),
     (DataObject_t, iedModel_GenericIO_LLN0_Beh),
     (DataAttribute_t, iedModel_GenericIO_LLN0_Beh_stVal),
     (DataAttribute_t, iedModel_GenericIO_LLN0_Beh_q),
     (DataAttribute_t, iedModel_GenericIO_LLN0_Beh_t),
     (DataObject_t, iedModel_GenericIO_LLN0_Mod),
     (DataAttribute_t, iedModel_GenericIO_LLN0_Mod_stVal),
     (DataAttribute_t, iedModel_GenericIO_LLN0_Mod_q),
     (DataAttribute_t, iedModel_GenericIO_LLN0_Mod_t),
     (DataAttribute_t, iedModel_GenericIO_LLN0_Mod_ctlModel),
     (DataObject_t, iedModel_GenericIO_LLN0_Health),
     (DataAttribute_t, iedModel_GenericIO_LLN0_Health_stVal),
     (DataAttribute_t, iedModel_GenericIO_LLN0_Health_q),
     (DataAttribute_t, iedModel_GenericIO_LLN0_Health_t),
     (DataObject_t, iedModel_GenericIO_LLN0_NamPlt),
     (DataAttribute_t, iedModel_GenericIO_LLN0_NamPlt_vendor),
     (DataAttribute_t, iedModel_GenericIO_LLN0_NamPlt_swRev),
     (DataAttribute_t, iedModel_GenericIO_LLN0_NamPlt_d),
     (DataAttribute_t, iedModel_GenericIO_LLN0_NamPlt_configRev),
     (DataAttribute_t, iedModel_GenericIO_LLN0_NamPlt_ldNs)]"

definition gio_handles_1 :: "(string \<times> addr) list" where
  "gio_handles_1 =
    [(''IEDMODEL_GenericIO'', iedModel_GenericIO),
     (''IEDMODEL_GenericIO_LLN0'', iedModel_GenericIO_LLN0),
     (''IEDMODEL_GenericIO_LLN0_Beh'', iedModel_GenericIO_LLN0_Beh),
     (''IEDMODEL_GenericIO_LLN0_Beh_stVal'', iedModel_GenericIO_LLN0_Beh_stVal),
     (''IEDMODEL_GenericIO_LLN0_Beh_q'', iedModel_GenericIO_LLN0_Beh_q),
     (''IEDMODEL_GenericIO_LLN0_Beh_t'', iedModel_GenericIO_LLN0_Beh_t),
     (''IEDMODEL_GenericIO_LLN0_Mod'', iedModel_GenericIO_LLN0_Mod),
     (''IEDMODEL_GenericIO_LLN0_Mod_stVal'', iedModel_GenericIO_LLN0_Mod_stVal),
     (''IEDMODEL_GenericIO_LLN0_Mod_q'', iedModel_GenericIO_LLN0_Mod_q),
     (''IEDMODEL_GenericIO_LLN0_Mod_t'', iedModel_GenericIO_LLN0_Mod_t),
     (''IEDMODEL_GenericIO_LLN0_Mod_ctlModel'', iedModel_GenericIO_LLN0_Mod_ctlModel),
     (''IEDMODEL_GenericIO_LLN0_Health'', iedModel_GenericIO_LLN0_Health),
     (''IEDMODEL_GenericIO_LLN0_Health_stVal'', iedModel_GenericIO_LLN0_Health_stVal),
     (''IEDMODEL_GenericIO_LLN0_Health_q'', iedModel_GenericIO_LLN0_Health_q),
     (''IEDMODEL_GenericIO_LLN0_Health_t'', iedModel_GenericIO_LLN0_Health_t),
     (''IEDMODEL_GenericIO_LLN0_NamPlt'', iedModel_GenericIO_LLN0_NamPlt),
     (''IEDMODEL_GenericIO_LLN0_NamPlt_vendor'', iedModel_GenericIO_LLN0_NamPlt_vendor),
     (''IEDMODEL_GenericIO_LLN0_NamPlt_swRev'', iedModel_GenericIO_LLN0_NamPlt_swRev),
     (''IEDMODEL_GenericIO_LLN0_NamPlt_d'', iedModel_GenericIO_LLN0_NamPlt_d),
     (''IEDMODEL_GenericIO_LLN0_NamPlt_configRev'', iedModel_GenericIO_LLN0_NamPlt_configRev),
     (''IEDMODEL_GenericIO_LLN0_NamPlt_ldNs'', iedModel_GenericIO_LLN0_NamPlt_ldNs)]"

definition gio_declared_2 :: "(c_type \<times> addr) list" where
  "gio_declared_2 =
    [(LogicalNode_t, iedModel_GenericIO_LPHD1),
     (DataObject_t, iedModel_GenericIO_LPHD1_PhyNam),
     (DataAttribute_t, iedModel_GenericIO_LPHD1_PhyNam_vendor),
     (DataObject_t, iedModel_GenericIO_LPHD1_PhyHealth),
     (DataAttribute_t, iedModel_GenericIO_LPHD1_PhyHealth_stVal),
     (DataAttribute_t, iedModel_GenericIO_LPHD1_PhyHealth_q),
     (DataAttribute_t, iedModel_GenericIO_LPHD1_PhyHealth_t),
     (DataObject_t, iedModel_GenericIO_LPHD1_Proxy),
     (DataAttribute_t, iedModel_GenericIO_LPHD1_Proxy_stVal),
     (DataAttribute_t, iedModel_GenericIO_LPHD1_Proxy_q),
     (DataAttribute_t, iedModel_GenericIO_LPHD1_Proxy_t),
     (LogicalNode_t, iedModel_GenericIO_GGIO1),
     (DataObject_t, iedModel_GenericIO_GGIO1_Beh),
     (DataAttribute_t, iedModel_GenericIO_GGIO1_Beh_stVal),
     (DataAttribute_t, iedModel_GenericIO_GGIO1_Beh_q),
     (DataAttribute_t, iedModel_GenericIO_GGIO1_Beh_t),
     (DataObject_t, iedModel_GenericIO_GGIO1_Mod),
     (DataAttribute_t, iedModel_GenericIO_GGIO1_Mod_stVal),
     (DataAttribute_t, iedModel_GenericIO_GGIO1_Mod_q),
     (DataAttribute_t, iedModel_GenericIO_GGIO1_Mod_t),
     (DataAttribute_t, iedModel_GenericIO_GGIO1_Mod_ctlModel),
     (DataObject_t, iedModel_GenericIO_GGIO1_Health)]"

definition gio_handles_2 :: "(string \<times> addr) list" where
  "gio_handles_2 =
    [(''IEDMODEL_GenericIO_LPHD1'', iedModel_GenericIO_LPHD1),
     (''IEDMODEL_GenericIO_LPHD1_PhyNam'', iedModel_GenericIO_LPHD1_PhyNam),
     (''IEDMODEL_GenericIO_LPHD1_PhyNam_vendor'', iedModel_GenericIO_LPHD1_PhyNam_vendor),
     (''IEDMODEL_GenericIO_LPHD1_PhyHealth'', iedModel_GenericIO_LPHD1_PhyHealth),
     (''IEDMODEL_GenericIO_LPHD1_PhyHealth_stVal'', iedModel_GenericIO_LPHD1_PhyHealth_stVal),
     (''IEDMODEL_GenericIO_LPHD1_PhyHealth_q'', iedModel_GenericIO_LPHD1_PhyHealth_q),
     (''IEDMODEL_GenericIO_LPHD1_PhyHealth_t'', iedModel_GenericIO_LPHD1_PhyHealth_t),
     (''IEDMODEL_GenericIO_LPHD1_Proxy'', iedModel_GenericIO_LPHD1_Proxy),
     (''IEDMODEL_GenericIO_LPHD1_Proxy_stVal'', iedModel_GenericIO_LPHD1_Proxy_stVal),
     (''IEDMODEL_GenericIO_LPHD1_Proxy_q'', iedModel_GenericIO_LPHD1_Proxy_q),
     (''IEDMODEL_GenericIO_LPHD1_Proxy_t'', iedModel_GenericIO_LPHD1_Proxy_t),
     (''IEDMODEL_GenericIO_GGIO1'', iedModel_GenericIO_GGIO1),
     (''IEDMODEL_GenericIO_GGIO1_Beh'', iedModel_GenericIO_GGIO1_Beh),
     (''IEDMODEL_GenericIO_GGIO1_Beh_stVal'', iedModel_GenericIO_GGIO1_Beh_stVal),
     (''IEDMODEL_GenericIO_GGIO1_Beh_q'', iedModel_GenericIO_GGIO1_Beh_q),
     (''IEDMODEL_GenericIO_GGIO1_Beh_t'', iedModel_GenericIO_GGIO1_Beh_t),
     (''IEDMODEL_GenericIO_GGIO1_Mod'', iedModel_GenericIO_GGIO1_Mod),
     (''IEDMODEL_GenericIO_GGIO1_Mod_stVal'', iedModel_GenericIO_GGIO1_Mod_stVal),
     (''IEDMODEL_GenericIO_GGIO1_Mod_q'', iedModel_GenericIO_GGIO1_Mod_q),
     (''IEDMODEL_GenericIO_GGIO1_Mod_t'', iedModel_GenericIO_GGIO1_Mod_t),
     (''IEDMODEL_GenericIO_GGIO1_Mod_ctlModel'', iedModel_GenericIO_GGIO1_Mod_ctlModel),
     (''IEDMODEL_GenericIO_GGIO1_Health'', iedModel_GenericIO_GGIO1_Health)]"

definition gio_declared_3 :: "(c_type \<times> addr) list" where
  "gio_declared_3 =
    [(DataAttribute_t, iedModel_GenericIO_GGIO1_Health_stVal),
     (DataAttribute_t, iedModel_GenericIO_GGIO1_Health_q),
     (DataAttribute_t, iedModel_GenericIO_GGIO1_Health_t),
     (DataObject_t, iedModel_GenericIO_GGIO1_NamPlt),
     (DataAttribute_t, iedModel_GenericIO_GGIO1_NamPlt_vendor),
     (DataAttribute_t, iedModel_GenericIO_GGIO1_NamPlt_swRev),
     (DataAttribute_t, iedModel_GenericIO_GGIO1_NamPlt_d),
     (DataObject_t, iedModel_GenericIO_GGIO1_AnIn1),
     (DataAttribute_t, iedModel_GenericIO_GGIO1_AnIn1_mag),
     (DataAttribute_t, iedModel_GenericIO_GGIO1_AnIn1_mag_f),
     (DataAttribute_t, iedModel_GenericIO_GGIO1_AnIn1_q),
     (DataAttribute_t, iedModel_GenericIO_GGIO1_AnIn1_t),
     (DataObject_t, iedModel_GenericIO_GGIO1_AnIn2),
     (DataAttribute_t, iedModel_GenericIO_GGIO1_AnIn2_mag),
     (DataAttribute_t, iedModel_GenericIO_GGIO1_AnIn2_mag_f),
     (DataAttribute_t, iedModel_GenericIO_GGIO1_AnIn2_q),
     (DataAttribute_t, iedModel_GenericIO_GGIO1_AnIn2_t),
     (DataObject_t, iedModel_GenericIO_GGIO1_AnIn3),
     (DataAttribute_t, iedModel_GenericIO_GGIO1_AnIn3_mag),
     (DataAttribute_t, iedModel_GenericIO_GGIO1_AnIn3_mag_f),
     (DataAttribute_t, iedModel_GenericIO_GGIO1_AnIn3_q),
     (DataAttribute_t, iedModel_GenericIO_GGIO1_AnIn3_t)]"

definition gio_handles_3 :: "(string \<times> addr) list" where
  "gio_handles_3 =
    [(''IEDMODEL_GenericIO_GGIO1_Health_stVal'', iedModel_GenericIO_GGIO1_Health_stVal),
     (''IEDMODEL_GenericIO_GGIO1_Health_q'', iedModel_GenericIO_GGIO1_Health_q),
     (''IEDMODEL_GenericIO_GGIO1_Health_t'', iedModel_GenericIO_GGIO1_Health_t),
     (''IEDMODEL_GenericIO_GGIO1_NamPlt'', iedModel_GenericIO_GGIO1_NamPlt),
     (''IEDMODEL_GenericIO_GGIO1_NamPlt_vendor'', iedModel_GenericIO_GGIO1_NamPlt_vendor),
     (''IEDMODEL_GenericIO_GGIO1_NamPlt_swRev'', iedModel_GenericIO_GGIO1_NamPlt_swRev),
     (''IEDMODEL_GenericIO_GGIO1_NamPlt_d'', iedModel_GenericIO_GGIO1_NamPlt_d),
     (''IEDMODEL_GenericIO_GGIO1_AnIn1'', iedModel_GenericIO_GGIO1_AnIn1),
     (''IEDMODEL_GenericIO_GGIO1_AnIn1_mag'', iedModel_GenericIO_GGIO1_AnIn1_mag),
     (''IEDMODEL_GenericIO_GGIO1_AnIn1_mag_f'', iedModel_GenericIO_GGIO1_AnIn1_mag_f),
     (''IEDMODEL_GenericIO_GGIO1_AnIn1_q'', iedModel_GenericIO_GGIO1_AnIn1_q),
     (''IEDMODEL_GenericIO_GGIO1_AnIn1_t'', iedModel_GenericIO_GGIO1_AnIn1_t),
     (''IEDMODEL_GenericIO_GGIO1_AnIn2'', iedModel_GenericIO_GGIO1_AnIn2),
     (''IEDMODEL_GenericIO_GGIO1_AnIn2_mag'', iedModel_GenericIO_GGIO1_AnIn2_mag),
     (''IEDMODEL_GenericIO_GGIO1_AnIn2_mag_f'', iedModel_GenericIO_GGIO1_AnIn2_mag_f),
     (''IEDMODEL_GenericIO_GGIO1_AnIn2_q'', iedModel_GenericIO_GGIO1_AnIn2_q),
     (''IEDMODEL_GenericIO_GGIO1_AnIn2_t'', iedModel_GenericIO_GGIO1_AnIn2_t),
     (''IEDMODEL_GenericIO_GGIO1_AnIn3'', iedModel_GenericIO_GGIO1_AnIn3),
     (''IEDMODEL_GenericIO_GGIO1_AnIn3_mag'', iedModel_GenericIO_GGIO1_AnIn3_mag),
     (''IEDMODEL_GenericIO_GGIO1_AnIn3_mag_f'', iedModel_GenericIO_GGIO1_AnIn3_mag_f),
     (''IEDMODEL_GenericIO_GGIO1_AnIn3_q'', iedModel_GenericIO_GGIO1_AnIn3_q),
     (''IEDMODEL_GenericIO_GGIO1_AnIn3_t'', iedModel_GenericIO_GGIO1_AnIn3_t)]"

definition gio_declared_4 :: "(c_type \<times> addr) list" where
  "gio_declared_4 =
    [(DataObject_t, iedModel_GenericIO_GGIO1_AnIn4),
     (DataAttribute_t, iedModel_GenericIO_GGIO1_AnIn4_mag),
     (DataAttribute_t, iedModel_GenericIO_GGIO1_AnIn4_mag_f),
     (DataAttribute_t, iedModel_GenericIO_GGIO1_AnIn4_q),
     (DataAttribute_t, iedModel_GenericIO_GGIO1_AnIn4_t),
     (DataObject_t, iedModel_GenericIO_GGIO1_SPCSO1),
     (DataAttribute_t, iedModel_GenericIO_GGIO1_SPCSO1_stVal),
     (DataAttribute_t, iedModel_GenericIO_GGIO1_SPCSO1_q),
     (DataAttribute_t, iedModel_GenericIO_GGIO1_SPCSO1_Oper),
     (DataAttribute_t, iedModel_GenericIO_GGIO1_SPCSO1_Oper_ctlVal),
     (DataAttribute_t, iedModel_GenericIO_GGIO1_SPCSO1_Oper_origin),
     (DataAttribute_t, iedModel_GenericIO_GGIO1_SPCSO1_Oper_origin_orCat),
     (DataAttribute_t, iedModel_GenericIO_GGIO1_SPCSO1_Oper_origin_orIdent),
     (DataAttribute_t, iedModel_GenericIO_GGIO1_SPCSO1_Oper_ctlNum),
     (DataAttribute_t, iedModel_GenericIO_GGIO1_SPCSO1_Oper_T),
     (DataAttribute_t, iedModel_GenericIO_GGIO1_SPCSO1_Oper_Test),
     (DataAttribute_t, iedModel_GenericIO_GGIO1_SPCSO1_Oper_Check),
     (DataAttribute_t, iedModel_GenericIO_GGIO1_SPCSO1_ctlModel),
     (DataAttribute_t, iedModel_GenericIO_GGIO1_SPCSO1_t),
     (DataObject_t, iedModel_GenericIO_GGIO1_SPCSO2),
     (DataAttribute_t, iedModel_GenericIO_GGIO1_SPCSO2_stVal)]"

definition gio_handles_4 :: "(string \<times> addr) list" where
  "gio_handles_4 =
    [(''IEDMODEL_GenericIO_GGIO1_AnIn4'', iedModel_GenericIO_GGIO1_AnIn4),
     (''IEDMODEL_GenericIO_GGIO1_AnIn4_mag'', iedModel_GenericIO_GGIO1_AnIn4_mag),
     (''IEDMODEL_GenericIO_GGIO1_AnIn4_mag_f'', iedModel_GenericIO_GGIO1_AnIn4_mag_f),
     (''IEDMODEL_GenericIO_GGIO1_AnIn4_q'', iedModel_GenericIO_GGIO1_AnIn4_q),
     (''IEDMODEL_GenericIO_GGIO1_AnIn4_t'', iedModel_GenericIO_GGIO1_AnIn4_t),
     (''IEDMODEL_GenericIO_GGIO1_SPCSO1'', iedModel_GenericIO_GGIO1_SPCSO1),
     (''IEDMODEL_GenericIO_GGIO1_SPCSO1_stVal'', iedModel_GenericIO_GGIO1_SPCSO1_stVal),
     (''IEDMODEL_GenericIO_GGIO1_SPCSO1_q'', iedModel_GenericIO_GGIO1_SPCSO1_q),
     (''IEDMODEL_GenericIO_GGIO1_SPCSO1_Oper'', iedModel_GenericIO_GGIO1_SPCSO1_Oper),
     (''IEDMODEL_GenericIO_GGIO1_SPCSO1_Oper_ctlVal'', iedModel_GenericIO_GGIO1_SPCSO1_Oper_ctlVal),
     (''IEDMODEL_GenericIO_GGIO1_SPCSO1_Oper_origin'', iedModel_GenericIO_GGIO1_SPCSO1_Oper_origin),
     (''IEDMODEL_GenericIO_GGIO1_SPCSO1_Oper_origin_orCat'', iedModel_GenericIO_GGIO1_SPCSO1_Oper_origin_orCat),
     (''IEDMODEL_GenericIO_GGIO1_SPCSO1_Oper_origin_orIdent'', iedModel_GenericIO_GGIO1_SPCSO1_Oper_origin_orIdent),
     (''IEDMODEL_GenericIO_GGIO1_SPCSO1_Oper_ctlNum'', iedModel_GenericIO_GGIO1_SPCSO1_Oper_ctlNum),
     (''IEDMODEL_GenericIO_GGIO1_SPCSO1_Oper_T'', iedModel_GenericIO_GGIO1_SPCSO1_Oper_T),
     (''IEDMODEL_GenericIO_GGIO1_SPCSO1_Oper_Test'', iedModel_GenericIO_GGIO1_SPCSO1_Oper_Test),
     (''IEDMODEL_GenericIO_GGIO1_SPCSO1_Oper_Check'', iedModel_GenericIO_GGIO1_SPCSO1_Oper_Check),
     (''IEDMODEL_GenericIO_GGIO1_SPCSO1_ctlModel'', iedModel_GenericIO_GGIO1_SPCSO1_ctlModel),
     (''IEDMODEL_GenericIO_GGIO1_SPCSO1_t'', iedModel_GenericIO_GGIO1_SPCSO1_t),
     (''IEDMODEL_GenericIO_GGIO1_SPCSO2'', iedModel_GenericIO_GGIO1_SPCSO2),
     (''IEDMODEL_GenericIO_GGIO1_SPCSO2_stVal'', iedModel_GenericIO_GGIO1_SPCSO2_stVal)]"

definition gio_declared_5 :: "(c_type \<times> addr) list" where
  "gio_declared_5 =
    [(DataAttribute_t, iedModel_GenericIO_GGIO1_SPCSO2_q),
     (DataAttribute_t, iedModel_GenericIO_GGIO1_SPCSO2_SBO),
     (DataAttribute_t, iedModel_GenericIO_GGIO1_SPCSO2_Oper),
     (DataAttribute_t, iedModel_GenericIO_GGIO1_SPCSO2_Oper_ctlVal),
     (DataAttribute_t, iedModel_GenericIO_GGIO1_SPCSO2_Oper_origin),
     (DataAttribute_t, iedModel_GenericIO_GGIO1_SPCSO2_Oper_origin_orCat),
     (DataAttribute_t, iedModel_GenericIO_GGIO1_SPCSO2_Oper_origin_orIdent),
     (DataAttribute_t, iedModel_GenericIO_GGIO1_SPCSO2_Oper_ctlNum),
     (DataAttribute_t, iedModel_GenericIO_GGIO1_SPCSO2_Oper_T),
     (DataAttribute_t, iedModel_GenericIO_GGIO1_SPCSO2_Oper_Test),
     (DataAttribute_t, iedModel_GenericIO_GGIO1_SPCSO2_Oper_Check),
     (DataAttribute_t, iedModel_GenericIO_GGIO1_SPCSO2_Cancel),
     (DataAttribute_t, iedModel_GenericIO_GGIO1_SPCSO2_Cancel_ctlVal),
     (DataAttribute_t, iedModel_GenericIO_GGIO1_SPCSO2_Cancel_origin),
     (DataAttribute_t, iedModel_GenericIO_GGIO1_SPCSO2_Cancel_origin_orCat),
     (DataAttribute_t, iedModel_GenericIO_GGIO1_SPCSO2_Cancel_origin_orIdent),
     (DataAttribute_t, iedModel_GenericIO_GGIO1_SPCSO2_Cancel_ctlNum),
     (DataAttribute_t, iedModel_GenericIO_GGIO1_SPCSO2_Cancel_T),
     (DataAttribute_t, iedModel_GenericIO_GGIO1_SPCSO2_Cancel_Test),
     (DataAttribute_t, iedModel_GenericIO_GGIO1_SPCSO2_ctlModel)]"

definition gio_handles_5 :: "(string \<times> addr) list" where
  "gio_handles_5 =
    [(''IEDMODEL_GenericIO_GGIO1_SPCSO2_q'', iedModel_GenericIO_GGIO1_SPCSO2_q),
     (''IEDMODEL_GenericIO_GGIO1_SPCSO2_SBO'', iedModel_GenericIO_GGIO1_SPCSO2_SBO),
     (''IEDMODEL_GenericIO_GGIO1_SPCSO2_Oper'', iedModel_GenericIO_GGIO1_SPCSO2_Oper),
     (''IEDMODEL_GenericIO_GGIO1_SPCSO2_Oper_ctlVal'', iedModel_GenericIO_GGIO1_SPCSO2_Oper_ctlVal),
     (''IEDMODEL_GenericIO_GGIO1_SPCSO2_Oper_origin'', iedModel_GenericIO_GGIO1_SPCSO2_Oper_origin),
     (''IEDMODEL_GenericIO_GGIO1_SPCSO2_Oper_origin_orCat'', iedModel_GenericIO_GGIO1_SPCSO2_Oper_origin_orCat),
     (''IEDMODEL_GenericIO_GGIO1_SPCSO2_Oper_origin_orIdent'', iedModel_GenericIO_GGIO1_SPCSO2_Oper_origin_orIdent),
     (''IEDMODEL_GenericIO_GGIO1_SPCSO2_Oper_ctlNum'', iedModel_GenericIO_GGIO1_SPCSO2_Oper_ctlNum),
     (''IEDMODEL_GenericIO_GGIO1_SPCSO2_Oper_T'', iedModel_GenericIO_GGIO1_SPCSO2_Oper_T),
     (''IEDMODEL_GenericIO_GGIO1_SPCSO2_Oper_Test'', iedModel_GenericIO_GGIO1_SPCSO2_Oper_Test),
     (''IEDMODEL_GenericIO_GGIO1_SPCSO2_Oper_Check'', iedModel_GenericIO_GGIO1_SPCSO2_Oper_Check),
     (''IEDMODEL_GenericIO_GGIO1_SPCSO2_Cancel'', iedModel_GenericIO_GGIO1_SPCSO2_Cancel),
     (''IEDMODEL_GenericIO_GGIO1_SPCSO2_Cancel_ctlVal'', iedModel_GenericIO_GGIO1_SPCSO2_Cancel_ctlVal),
     (''IEDMODEL_GenericIO_GGIO1_SPCSO2_Cancel_origin'', iedModel_GenericIO_GGIO1_SPCSO2_Cancel_origin),
     (''IEDMODEL_GenericIO_GGIO1_SPCSO2_Cancel_origin_orCat'', iedModel_GenericIO_GGIO1_SPCSO2_Cancel_origin_orCat),
     (''IEDMODEL_GenericIO_GGIO1_SPCSO2_Cancel_origin_orIdent'', iedModel_GenericIO_GGIO1_SPCSO2_Cancel_origin_orIdent),
     (''IEDMODEL_GenericIO_GGIO1_SPCSO2_Cancel_ctlNum'', iedModel_GenericIO_GGIO1_SPCSO2_Cancel_ctlNum),
     (''IEDMODEL_GenericIO_GGIO1_SPCSO2_Cancel_T'', iedModel_GenericIO_GGIO1_SPCSO2_Cancel_T),
     (''IEDMODEL_GenericIO_GGIO1_SPCSO2_Cancel_Test'', iedModel_GenericIO_GGIO1_SPCSO2_Cancel_Test),
     (''IEDMODEL_GenericIO_GGIO1_SPCSO2_ctlModel'', iedModel_GenericIO_GGIO1_SPCSO2_ctlModel)]"

definition gio_declared_6 :: "(c_type \<times> addr) list" where
  "gio_declared_6 =
    [(DataAttribute_t, iedModel_GenericIO_GGIO1_SPCSO2_t),
     (DataObject_t, iedModel_GenericIO_GGIO1_SPCSO3),
     (DataAttribute_t, iedModel_GenericIO_GGIO1_SPCSO3_stVal),
     (DataAttribute_t, iedModel_GenericIO_GGIO1_SPCSO3_q),
     (DataAttribute_t, iedModel_GenericIO_GGIO1_SPCSO3_Oper),
     (DataAttribute_t, iedModel_GenericIO_GGIO1_SPCSO3_Oper_ctlVal),
     (DataAttribute_t, iedModel_GenericIO_GGIO1_SPCSO3_Oper_origin),
     (DataAttribute_t, iedModel_GenericIO_GGIO1_SPCSO3_Oper_origin_orCat),
     (DataAttribute_t, iedModel_GenericIO_GGIO1_SPCSO3_Oper_origin_orIdent),
     (DataAttribute_t, iedModel_GenericIO_GGIO1_SPCSO3_Oper_ctlNum),
     (DataAttribute_t, iedModel_GenericIO_GGIO1_SPCSO3_Oper_T),
     (DataAttribute_t, iedModel_GenericIO_GGIO1_SPCSO3_Oper_Test),
     (DataAttribute_t, iedModel_GenericIO_GGIO1_SPCSO3_Oper_Check),
     (DataAttribute_t, iedModel_GenericIO_GGIO1_SPCSO3_ctlModel),
     (DataAttribute_t, iedModel_GenericIO_GGIO1_SPCSO3_t),
     (DataObject_t, iedModel_GenericIO_GGIO1_DPCSO1),
     (DataAttribute_t, iedModel_GenericIO_GGIO1_DPCSO1_stVal),
     (DataAttribute_t, iedModel_GenericIO_GGIO1_DPCSO1_q),
     (DataAttribute_t, iedModel_GenericIO_GGIO1_DPCSO1_Oper),
     (DataAttribute_t, iedModel_GenericIO_GGIO1_DPCSO1_Oper_ctlVal)]"

definition gio_handles_6 :: "(string \<times> addr) list" where
  "gio_handles_6 =
    [(''IEDMODEL_GenericIO_GGIO1_SPCSO2_t'', iedModel_GenericIO_GGIO1_SPCSO2_t),
     (''IEDMODEL_GenericIO_GGIO1_SPCSO3'', iedModel_GenericIO_GGIO1_SPCSO3),
     (''IEDMODEL_GenericIO_GGIO1_SPCSO3_stVal'', iedModel_GenericIO_GGIO1_SPCSO3_stVal),
     (''IEDMODEL_GenericIO_GGIO1_SPCSO3_q'', iedModel_GenericIO_GGIO1_SPCSO3_q),
     (''IEDMODEL_GenericIO_GGIO1_SPCSO3_Oper'', iedModel_GenericIO_GGIO1_SPCSO3_Oper),
     (''IEDMODEL_GenericIO_GGIO1_SPCSO3_Oper_ctlVal'', iedModel_GenericIO_GGIO1_SPCSO3_Oper_ctlVal),
     (''IEDMODEL_GenericIO_GGIO1_SPCSO3_Oper_origin'', iedModel_GenericIO_GGIO1_SPCSO3_Oper_origin),
     (''IEDMODEL_GenericIO_GGIO1_SPCSO3_Oper_origin_orCat'', iedModel_GenericIO_GGIO1_SPCSO3_Oper_origin_orCat),
     (''IEDMODEL_GenericIO_GGIO1_SPCSO3_Oper_origin_orIdent'', iedModel_GenericIO_GGIO1_SPCSO3_Oper_origin_orIdent),
     (''IEDMODEL_GenericIO_GGIO1_SPCSO3_Oper_ctlNum'', iedModel_GenericIO_GGIO1_SPCSO3_Oper_ctlNum),
     (''IEDMODEL_GenericIO_GGIO1_SPCSO3_Oper_T'', iedModel_GenericIO_GGIO1_SPCSO3_Oper_T),
     (''IEDMODEL_GenericIO_GGIO1_SPCSO3_Oper_Test'', iedModel_GenericIO_GGIO1_SPCSO3_Oper_Test),
     (''IEDMODEL_GenericIO_GGIO1_SPCSO3_Oper_Check'', iedModel_GenericIO_GGIO1_SPCSO3_Oper_Check),
     (''IEDMODEL_GenericIO_GGIO1_SPCSO3_ctlModel'', iedModel_GenericIO_GGIO1_SPCSO3_ctlModel),
     (''IEDMODEL_GenericIO_GGIO1_SPCSO3_t'', iedModel_GenericIO_GGIO1_SPCSO3_t),
     (''IEDMODEL_GenericIO_GGIO1_DPCSO1'', iedModel_GenericIO_GGIO1_DPCSO1),
     (''IEDMODEL_GenericIO_GGIO1_DPCSO1_stVal'', iedModel_GenericIO_GGIO1_DPCSO1_stVal),
     (''IEDMODEL_GenericIO_GGIO1_DPCSO1_q'', iedModel_GenericIO_GGIO1_DPCSO1_q),
     (''IEDMODEL_GenericIO_GGIO1_DPCSO1_Oper'', iedModel_GenericIO_GGIO1_DPCSO1_Oper),
     (''IEDMODEL_GenericIO_GGIO1_DPCSO1_Oper_ctlVal'', iedModel_GenericIO_GGIO1_DPCSO1_Oper_ctlVal)]"

definition gio_declared_7 :: "(c_type \<times> addr) list" where
  "gio_declared_7 =
    [(DataAttribute_t, iedModel_GenericIO_GGIO1_DPCSO1_Oper_origin),
     (DataAttribute_t, iedModel_GenericIO_GGIO1_DPCSO1_Oper_origin_orCat),
     (DataAttribute_t, iedModel_GenericIO_GGIO1_DPCSO1_Oper_origin_orIdent),
     (DataAttribute_t, iedModel_GenericIO_GGIO1_DPCSO1_Oper_ctlNum),
     (DataAttribute_t, iedModel_GenericIO_GGIO1_DPCSO1_Oper_T),
     (DataAttribute_t, iedModel_GenericIO_GGIO1_DPCSO1_Oper_Test),
     (DataAttribute_t, iedModel_GenericIO_GGIO1_DPCSO1_Oper_Check),
     (DataAttribute_t, iedModel_GenericIO_GGIO1_DPCSO1_ctlModel),
     (DataAttribute_t, iedModel_GenericIO_GGIO1_DPCSO1_t),
     (DataObject_t, iedModel_GenericIO_GGIO1_Ind1),
     (DataAttribute_t, iedModel_GenericIO_GGIO1_Ind1_stVal),
     (DataAttribute_t, iedModel_GenericIO_GGIO1_Ind1_q),
     (DataAttribute_t, iedModel_GenericIO_GGIO1_Ind1_t),
     (DataObject_t, iedModel_GenericIO_GGIO1_Ind2),
     (DataAttribute_t, iedModel_GenericIO_GGIO1_Ind2_stVal),
     (DataAttribute_t, iedModel_GenericIO_GGIO1_Ind2_q),
     (DataAttribute_t, iedModel_GenericIO_GGIO1_Ind2_t),
     (DataObject_t, iedModel_GenericIO_GGIO1_Ind3),
     (DataAttribute_t, iedModel_GenericIO_GGIO1_Ind3_stVal),
     (DataAttribute_t, iedModel_GenericIO_GGIO1_Ind3_q),
     (DataAttribute_t, iedModel_GenericIO_GGIO1_Ind3_t)]"

definition gio_handles_7 :: "(string \<times> addr) list" where
  "gio_handles_7 =
    [(''IEDMODEL_GenericIO_GGIO1_DPCSO1_Oper_origin'', iedModel_GenericIO_GGIO1_DPCSO1_Oper_origin),
     (''IEDMODEL_GenericIO_GGIO1_DPCSO1_Oper_origin_orCat'', iedModel_GenericIO_GGIO1_DPCSO1_Oper_origin_orCat),
     (''IEDMODEL_GenericIO_GGIO1_DPCSO1_Oper_origin_orIdent'', iedModel_GenericIO_GGIO1_DPCSO1_Oper_origin_orIdent),
     (''IEDMODEL_GenericIO_GGIO1_DPCSO1_Oper_ctlNum'', iedModel_GenericIO_GGIO1_DPCSO1_Oper_ctlNum),
     (''IEDMODEL_GenericIO_GGIO1_DPCSO1_Oper_T'', iedModel_GenericIO_GGIO1_DPCSO1_Oper_T),
     (''IEDMODEL_GenericIO_GGIO1_DPCSO1_Oper_Test'', iedModel_GenericIO_GGIO1_DPCSO1_Oper_Test),
     (''IEDMODEL_GenericIO_GGIO1_DPCSO1_Oper_Check'', iedModel_GenericIO_GGIO1_DPCSO1_Oper_Check),
     (''IEDMODEL_GenericIO_GGIO1_DPCSO1_ctlModel'', iedModel_GenericIO_GGIO1_DPCSO1_ctlModel),
     (''IEDMODEL_GenericIO_GGIO1_DPCSO1_t'', iedModel_GenericIO_GGIO1_DPCSO1_t),
     (''IEDMODEL_GenericIO_GGIO1_Ind1'', iedModel_GenericIO_GGIO1_Ind1),
     (''IEDMODEL_GenericIO_GGIO1_Ind1_stVal'', iedModel_GenericIO_GGIO1_Ind1_stVal),
     (''IEDMODEL_GenericIO_GGIO1_Ind1_q'', iedModel_GenericIO_GGIO1_Ind1_q),
     (''IEDMODEL_GenericIO_GGIO1_Ind1_t'', iedModel_GenericIO_GGIO1_Ind1_t),
     (''IEDMODEL_GenericIO_GGIO1_Ind2'', iedModel_GenericIO_GGIO1_Ind2),
     (''IEDMODEL_GenericIO_GGIO1_Ind2_stVal'', iedModel_GenericIO_GGIO1_Ind2_stVal),
     (''IEDMODEL_GenericIO_GGIO1_Ind2_q'', iedModel_GenericIO_GGIO1_Ind2_q),
     (''IEDMODEL_GenericIO_GGIO1_Ind2_t'', iedModel_GenericIO_GGIO1_Ind2_t),
     (''IEDMODEL_GenericIO_GGIO1_Ind3'', iedModel_GenericIO_GGIO1_Ind3),
     (''IEDMODEL_GenericIO_GGIO1_Ind3_stVal'', iedModel_GenericIO_GGIO1_Ind3_stVal),
     (''IEDMODEL_GenericIO_GGIO1_Ind3_q'', iedModel_GenericIO_GGIO1_Ind3_q),
     (''IEDMODEL_GenericIO_GGIO1_Ind3_t'', iedModel_GenericIO_GGIO1_Ind3_t)]"

definition gio_declared_8 :: "(c_type \<times> addr) list" where
  "gio_declared_8 =
    [(DataObject_t, iedModel_GenericIO_GGIO1_Ind4),
     (DataAttribute_t, iedModel_GenericIO_GGIO1_Ind4_stVal),
     (DataAttribute_t, iedModel_GenericIO_GGIO1_Ind4_q),
     (DataAttribute_t, iedModel_GenericIO_GGIO1_Ind4_t),
     (LogicalNode_t, iedModel_GenericIO_TIM_GAPC1),
     (DataObject_t, iedModel_GenericIO_TIM_GAPC1_Beh),
     (DataAttribute_t, iedModel_GenericIO_TIM_GAPC1_Beh_stVal),
     (DataAttribute_t, iedModel_GenericIO_TIM_GAPC1_Beh_q),
     (DataAttribute_t, iedModel_GenericIO_TIM_GAPC1_Beh_t),
     (DataObject_t, iedModel_GenericIO_TIM_GAPC1_Mod),
     (DataAttribute_t, iedModel_GenericIO_TIM_GAPC1_Mod_stVal),
     (DataAttribute_t, iedModel_GenericIO_TIM_GAPC1_Mod_q),
     (DataAttribute_t, iedModel_GenericIO_TIM_GAPC1_Mod_t),
     (DataAttribute_t, iedModel_GenericIO_TIM_GAPC1_Mod_ctlModel),
     (DataObject_t, iedModel_GenericIO_TIM_GAPC1_Str)]"

definition gio_handles_8 :: "(string \<times> addr) list" where
  "gio_handles_8 =
    [(''IEDMODEL_GenericIO_GGIO1_Ind4'', iedModel_GenericIO_GGIO1_Ind4),
     (''IEDMODEL_GenericIO_GGIO1_Ind4_stVal'', iedModel_GenericIO_GGIO1_Ind4_stVal),
     (''IEDMODEL_GenericIO_GGIO1_Ind4_q'', iedModel_GenericIO_GGIO1_Ind4_q),
     (''IEDMODEL_GenericIO_GGIO1_Ind4_t'', iedModel_GenericIO_GGIO1_Ind4_t),
     (''IEDMODEL_GenericIO_TIM_GAPC1'', iedModel_GenericIO_TIM_GAPC1),
     (''IEDMODEL_GenericIO_TIM_GAPC1_Beh'', iedModel_GenericIO_TIM_GAPC1_Beh),
     (''IEDMODEL_GenericIO_TIM_GAPC1_Beh_stVal'', iedModel_GenericIO_TIM_GAPC1_Beh_stVal),
     (''IEDMODEL_GenericIO_TIM_GAPC1_Beh_q'', iedModel_GenericIO_TIM_GAPC1_Beh_q),
     (''IEDMODEL_GenericIO_TIM_GAPC1_Beh_t'', iedModel_GenericIO_TIM_GAPC1_Beh_t),
     (''IEDMODEL_GenericIO_TIM_GAPC1_Mod'', iedModel_GenericIO_TIM_GAPC1_Mod),
     (''IEDMODEL_GenericIO_TIM_GAPC1_Mod_stVal'', iedModel_GenericIO_TIM_GAPC1_Mod_stVal),
     (''IEDMODEL_GenericIO_TIM_GAPC1_Mod_q'', iedModel_GenericIO_TIM_GAPC1_Mod_q),
     (''IEDMODEL_GenericIO_TIM_GAPC1_Mod_t'', iedModel_GenericIO_TIM_GAPC1_Mod_t),
     (''IEDMODEL_GenericIO_TIM_GAPC1_Mod_ctlModel'', iedModel_GenericIO_TIM_GAPC1_Mod_ctlModel),
     (''IEDMODEL_GenericIO_TIM_GAPC1_Str'', iedModel_GenericIO_TIM_GAPC1_Str)]"

definition gio_declared_9 :: "(c_type \<times> addr) list" where
  "gio_declared_9 =
    [(DataAttribute_t, iedModel_GenericIO_TIM_GAPC1_Str_general),
     (DataAttribute_t, iedModel_GenericIO_TIM_GAPC1_Str_dirGeneral),
     (DataAttribute_t, iedModel_GenericIO_TIM_GAPC1_Str_q),
     (DataAttribute_t, iedModel_GenericIO_TIM_GAPC1_Str_t),
     (DataObject_t, iedModel_GenericIO_TIM_GAPC1_Op),
     (DataAttribute_t, iedModel_GenericIO_TIM_GAPC1_Op_general),
     (DataAttribute_t, iedModel_GenericIO_TIM_GAPC1_Op_q),
     (DataAttribute_t, iedModel_GenericIO_TIM_GAPC1_Op_t),
     (DataObject_t, iedModel_GenericIO_TIM_GAPC1_OpDlTmms),
     (DataAttribute_t, iedModel_GenericIO_TIM_GAPC1_OpDlTmms_setVal),
     (DataAttribute_t, iedModel_GenericIO_TIM_GAPC1_OpDlTmms_dataNs),
     (DataObject_t, iedModel_GenericIO_TIM_GAPC1_RsDlTmms),
     (DataAttribute_t, iedModel_GenericIO_TIM_GAPC1_RsDlTmms_setVal),
     (DataAttribute_t, iedModel_GenericIO_TIM_GAPC1_RsDlTmms_dataNs),
     (DataObject_t, iedModel_GenericIO_TIM_GAPC1_OpCntRs),
     (DataAttribute_t, iedModel_GenericIO_TIM_GAPC1_OpCntRs_stVal),
     (DataAttribute_t, iedModel_GenericIO_TIM_GAPC1_OpCntRs_q),
     (DataAttribute_t, iedModel_GenericIO_TIM_GAPC1_OpCntRs_t),
     (DataAttribute_t, iedModel_GenericIO_TIM_GAPC1_OpCntRs_Oper),
     (DataAttribute_t, iedModel_GenericIO_TIM_GAPC1_OpCntRs_Oper_ctlVal),
     (DataAttribute_t, iedModel_GenericIO_TIM_GAPC1_OpCntRs_Oper_origin),
     (DataAttribute_t, iedModel_GenericIO_TIM_GAPC1_OpCntRs_Oper_origin_orCat)]"

definition gio_handles_9 :: "(string \<times> addr) list" where
  "gio_handles_9 =
    [(''IEDMODEL_GenericIO_TIM_GAPC1_Str_general'', iedModel_GenericIO_TIM_GAPC1_Str_general),
     (''IEDMODEL_GenericIO_TIM_GAPC1_Str_dirGeneral'', iedModel_GenericIO_TIM_GAPC1_Str_dirGeneral),
     (''IEDMODEL_GenericIO_TIM_GAPC1_Str_q'', iedModel_GenericIO_TIM_GAPC1_Str_q),
     (''IEDMODEL_GenericIO_TIM_GAPC1_Str_t'', iedModel_GenericIO_TIM_GAPC1_Str_t),
     (''IEDMODEL_GenericIO_TIM_GAPC1_Op'', iedModel_GenericIO_TIM_GAPC1_Op),
     (''IEDMODEL_GenericIO_TIM_GAPC1_Op_general'', iedModel_GenericIO_TIM_GAPC1_Op_general),
     (''IEDMODEL_GenericIO_TIM_GAPC1_Op_q'', iedModel_GenericIO_TIM_GAPC1_Op_q),
     (''IEDMODEL_GenericIO_TIM_GAPC1_Op_t'', iedModel_GenericIO_TIM_GAPC1_Op_t),
     (''IEDMODEL_GenericIO_TIM_GAPC1_OpDlTmms'', iedModel_GenericIO_TIM_GAPC1_OpDlTmms),
     (''IEDMODEL_GenericIO_TIM_GAPC1_OpDlTmms_setVal'', iedModel_GenericIO_TIM_GAPC1_OpDlTmms_setVal),
     (''IEDMODEL_GenericIO_TIM_GAPC1_OpDlTmms_dataNs'', iedModel_GenericIO_TIM_GAPC1_OpDlTmms_dataNs),
     (''IEDMODEL_GenericIO_TIM_GAPC1_RsDlTmms'', iedModel_GenericIO_TIM_GAPC1_RsDlTmms),
     (''IEDMODEL_GenericIO_TIM_GAPC1_RsDlTmms_setVal'', iedModel_GenericIO_TIM_GAPC1_RsDlTmms_setVal),
     (''IEDMODEL_GenericIO_TIM_GAPC1_RsDlTmms_dataNs'', iedModel_GenericIO_TIM_GAPC1_RsDlTmms_dataNs),
     (''IEDMODEL_GenericIO_TIM_GAPC1_OpCntRs'', iedModel_GenericIO_TIM_GAPC1_OpCntRs),
     (''IEDMODEL_GenericIO_TIM_GAPC1_OpCntRs_stVal'', iedModel_GenericIO_TIM_GAPC1_OpCntRs_stVal),
     (''IEDMODEL_GenericIO_TIM_GAPC1_OpCntRs_q'', iedModel_GenericIO_TIM_GAPC1_OpCntRs_q),
     (''IEDMODEL_GenericIO_TIM_GAPC1_OpCntRs_t'', iedModel_GenericIO_TIM_GAPC1_OpCntRs_t),
     (''IEDMODEL_GenericIO_TIM_GAPC1_OpCntRs_Oper'', iedModel_GenericIO_TIM_GAPC1_OpCntRs_Oper),
     (''IEDMODEL_GenericIO_TIM_GAPC1_OpCntRs_Oper_ctlVal'', iedModel_GenericIO_TIM_GAPC1_OpCntRs_Oper_ctlVal),
     (''IEDMODEL_GenericIO_TIM_GAPC1_OpCntRs_Oper_origin'', iedModel_GenericIO_TIM_GAPC1_OpCntRs_Oper_origin),
     (''IEDMODEL_GenericIO_TIM_GAPC1_OpCntRs_Oper_origin_orCat'', iedModel_GenericIO_TIM_GAPC1_OpCntRs_Oper_origin_orCat)]"

definition gio_declared_10 :: "(c_type \<times> addr) list" where
  "gio_declared_10 =
    [(DataAttribute_t, iedModel_GenericIO_TIM_GAPC1_OpCntRs_Oper_origin_orIdent),
     (DataAttribute_t, iedModel_GenericIO_TIM_GAPC1_OpCntRs_Oper_ctlNum),
     (DataAttribute_t, iedModel_GenericIO_TIM_GAPC1_OpCntRs_Oper_T),
     (DataAttribute_t, iedModel_GenericIO_TIM_GAPC1_OpCntRs_Oper_Test),
     (DataAttribute_t, iedModel_GenericIO_TIM_GAPC1_OpCntRs_Oper_Check),
     (DataAttribute_t, iedModel_GenericIO_TIM_GAPC1_OpCntRs_ctlModel),
     (LogicalNode_t, iedModel_GenericIO_T60S_FSCH1),
     (DataObject_t, iedModel_GenericIO_T60S_FSCH1_Beh),
     (DataAttribute_t, iedModel_GenericIO_T60S_FSCH1_Beh_stVal),
     (DataAttribute_t, iedModel_GenericIO_T60S_FSCH1_Beh_q),
     (DataAttribute_t, iedModel_GenericIO_T60S_FSCH1_Beh_t),
     (DataObject_t, iedModel_GenericIO_T60S_FSCH1_SchdSt),
     (DataAttribute_t, iedModel_GenericIO_T60S_FSCH1_SchdSt_stVal),
     (DataAttribute_t, iedModel_GenericIO_T60S_FSCH1_SchdSt_q),
     (DataAttribute_t, iedModel_GenericIO_T60S_FSCH1_SchdSt_t),
     (DataObject_t, iedModel_GenericIO_T60S_FSCH1_SchdEntr),
     (DataAttribute_t, iedModel_GenericIO_T60S_FSCH1_SchdEntr_stVal)]"

definition gio_handles_10 :: "(string \<times> addr) list" where
  "gio_handles_10 =
    [(''IEDMODEL_GenericIO_TIM_GAPC1_OpCntRs_Oper_origin_orIdent'', iedModel_GenericIO_TIM_GAPC1_OpCntRs_Oper_origin_orIdent),
     (''IEDMODEL_GenericIO_TIM_GAPC1_OpCntRs_Oper_ctlNum'', iedModel_GenericIO_TIM_GAPC1_OpCntRs_Oper_ctlNum),
     (''IEDMODEL_GenericIO_TIM_GAPC1_OpCntRs_Oper_T'', iedModel_GenericIO_TIM_GAPC1_OpCntRs_Oper_T),
     (''IEDMODEL_GenericIO_TIM_GAPC1_OpCntRs_Oper_Test'', iedModel_GenericIO_TIM_GAPC1_OpCntRs_Oper_Test),
     (''IEDMODEL_GenericIO_TIM_GAPC1_OpCntRs_Oper_Check'', iedModel_GenericIO_TIM_GAPC1_OpCntRs_Oper_Check),
     (''IEDMODEL_GenericIO_TIM_GAPC1_OpCntRs_ctlModel'', iedModel_GenericIO_TIM_GAPC1_OpCntRs_ctlModel),
     (''IEDMODEL_GenericIO_T60S_FSCH1'', iedModel_GenericIO_T60S_FSCH1),
     (''IEDMODEL_GenericIO_T60S_FSCH1_Beh'', iedModel_GenericIO_T60S_FSCH1_Beh),
     (''IEDMODEL_GenericIO_T60S_FSCH1_Beh_stVal'', iedModel_GenericIO_T60S_FSCH1_Beh_stVal),
     (''IEDMODEL_GenericIO_T60S_FSCH1_Beh_q'', iedModel_GenericIO_T60S_FSCH1_Beh_q),
     (''IEDMODEL_GenericIO_T60S_FSCH1_Beh_t'', iedModel_GenericIO_T60S_FSCH1_Beh_t),
     (''IEDMODEL_GenericIO_T60S_FSCH1_SchdSt'', iedModel_GenericIO_T60S_FSCH1_SchdSt),
     (''IEDMODEL_GenericIO_T60S_FSCH1_SchdSt_stVal'', iedModel_GenericIO_T60S_FSCH1_SchdSt_stVal),
     (''IEDMODEL_GenericIO_T60S_FSCH1_SchdSt_q'', iedModel_GenericIO_T60S_FSCH1_SchdSt_q),
     (''IEDMODEL_GenericIO_T60S_FSCH1_SchdSt_t'', iedModel_GenericIO_T60S_FSCH1_SchdSt_t),
     (''IEDMODEL_GenericIO_T60S_FSCH1_SchdEntr'', iedModel_GenericIO_T60S_FSCH1_SchdEntr),
     (''IEDMODEL_GenericIO_T60S_FSCH1_SchdEntr_stVal'', iedModel_GenericIO_T60S_FSCH1_SchdEntr_stVal)]"

definition gio_declared_11 :: "(c_type \<times> addr) list" where
  "gio_declared_11 =
    [(DataAttribute_t, iedModel_GenericIO_T60S_FSCH1_SchdEntr_q),
     (DataAttribute_t, iedModel_GenericIO_T60S_FSCH1_SchdEntr_t),
     (DataObject_t, iedModel_GenericIO_T60S_FSCH1_ValSPS),
     (DataAttribute_t, iedModel_GenericIO_T60S_FSCH1_ValSPS_stVal),
     (DataAttribute_t, iedModel_GenericIO_T60S_FSCH1_ValSPS_q),
     (DataAttribute_t, iedModel_GenericIO_T60S_FSCH1_ValSPS_t),
     (DataObject_t, iedModel_GenericIO_T60S_FSCH1_VldReq),
     (DataAttribute_t, iedModel_GenericIO_T60S_FSCH1_VldReq_stVal),
     (DataAttribute_t, iedModel_GenericIO_T60S_FSCH1_VldReq_q),
     (DataAttribute_t, iedModel_GenericIO_T60S_FSCH1_VldReq_Oper),
     (DataAttribute_t, iedModel_GenericIO_T60S_FSCH1_VldReq_Oper_ctlVal),
     (DataAttribute_t, iedModel_GenericIO_T60S_FSCH1_VldReq_Oper_origin),
     (DataAttribute_t, iedModel_GenericIO_T60S_FSCH1_VldReq_Oper_origin_orCat),
     (DataAttribute_t, iedModel_GenericIO_T60S_FSCH1_VldReq_Oper_origin_orIdent),
     (DataAttribute_t, iedModel_GenericIO_T60S_FSCH1_VldReq_Oper_ctlNum),
     (DataAttribute_t, iedModel_GenericIO_T60S_FSCH1_VldReq_Oper_T),
     (DataAttribute_t, iedModel_GenericIO_T60S_FSCH1_VldReq_Oper_Test),
     (DataAttribute_t, iedModel_GenericIO_T60S_FSCH1_VldReq_Oper_Check),
     (DataAttribute_t, iedModel_GenericIO_T60S_FSCH1_VldReq_ctlModel),
     (DataAttribute_t, iedModel_GenericIO_T60S_FSCH1_VldReq_t),
     (DataObject_t, iedModel_GenericIO_T60S_FSCH1_EnaReq)]"

definition gio_handles_11 :: "(string \<times> addr) list" where
  "gio_handles_11 =
    [(''IEDMODEL_GenericIO_T60S_FSCH1_SchdEntr_q'', iedModel_GenericIO_T60S_FSCH1_SchdEntr_q),
     (''IEDMODEL_GenericIO_T60S_FSCH1_SchdEntr_t'', iedModel_GenericIO_T60S_FSCH1_SchdEntr_t),
     (''IEDMODEL_GenericIO_T60S_FSCH1_ValSPS'', iedModel_GenericIO_T60S_FSCH1_ValSPS),
     (''IEDMODEL_GenericIO_T60S_FSCH1_ValSPS_stVal'', iedModel_GenericIO_T60S_FSCH1_ValSPS_stVal),
     (''IEDMODEL_GenericIO_T60S_FSCH1_ValSPS_q'', iedModel_GenericIO_T60S_FSCH1_ValSPS_q),
     (''IEDMODEL_GenericIO_T60S_FSCH1_ValSPS_t'', iedModel_GenericIO_T60S_FSCH1_ValSPS_t),
     (''IEDMODEL_GenericIO_T60S_FSCH1_VldReq'', iedModel_GenericIO_T60S_FSCH1_VldReq),
     (''IEDMODEL_GenericIO_T60S_FSCH1_VldReq_stVal'', iedModel_GenericIO_T60S_FSCH1_VldReq_stVal),
     (''IEDMODEL_GenericIO_T60S_FSCH1_VldReq_q'', iedModel_GenericIO_T60S_FSCH1_VldReq_q),
     (''IEDMODEL_GenericIO_T60S_FSCH1_VldReq_Oper'', iedModel_GenericIO_T60S_FSCH1_VldReq_Oper),
     (''IEDMODEL_GenericIO_T60S_FSCH1_VldReq_Oper_ctlVal'', iedModel_GenericIO_T60S_FSCH1_VldReq_Oper_ctlVal),
     (''IEDMODEL_GenericIO_T60S_FSCH1_VldReq_Oper_origin'', iedModel_GenericIO_T60S_FSCH1_VldReq_Oper_origin),
     (''IEDMODEL_GenericIO_T60S_FSCH1_VldReq_Oper_origin_orCat'', iedModel_GenericIO_T60S_FSCH1_VldReq_Oper_origin_orCat),
     (''IEDMODEL_GenericIO_T60S_FSCH1_VldReq_Oper_origin_orIdent'', iedModel_GenericIO_T60S_FSCH1_VldReq_Oper_origin_orIdent),
     (''IEDMODEL_GenericIO_T60S_FSCH1_VldReq_Oper_ctlNum'', iedModel_GenericIO_T60S_FSCH1_VldReq_Oper_ctlNum),
     (''IEDMODEL_GenericIO_T60S_FSCH1_VldReq_Oper_T'', iedModel_GenericIO_T60S_FSCH1_VldReq_Oper_T),
     (''IEDMODEL_GenericIO_T60S_FSCH1_VldReq_Oper_Test'', iedModel_GenericIO_T60S_FSCH1_VldReq_Oper_Test),
     (''IEDMODEL_GenericIO_T60S_FSCH1_VldReq_Oper_Check'', iedModel_GenericIO_T60S_FSCH1_VldReq_Oper_Check),
     (''IEDMODEL_GenericIO_T60S_FSCH1_VldReq_ctlModel'', iedModel_GenericIO_T60S_FSCH1_VldReq_ctlModel),
     (''IEDMODEL_GenericIO_T60S_FSCH1_VldReq_t'', iedModel_GenericIO_T60S_FSCH1_VldReq_t),
     (''IEDMODEL_GenericIO_T60S_FSCH1_EnaReq'', iedModel_GenericIO_T60S_FSCH1_EnaReq)]"

definition gio_declared_12 :: "(c_type \<times> addr) list" where
  "gio_declared_12 =
    [(DataAttribute_t, iedModel_GenericIO_T60S_FSCH1_EnaReq_stVal),
     (DataAttribute_t, iedModel_GenericIO_T60S_FSCH1_EnaReq_q),
     (DataAttribute_t, iedModel_GenericIO_T60S_FSCH1_EnaReq_Oper),
     (DataAttribute_t, iedModel_GenericIO_T60S_FSCH1_EnaReq_Oper_ctlVal),
     (DataAttribute_t, iedModel_GenericIO_T60S_FSCH1_EnaReq_Oper_origin),
     (DataAttribute_t, iedModel_GenericIO_T60S_FSCH1_EnaReq_Oper_origin_orCat),
     (DataAttribute_t, iedModel_GenericIO_T60S_FSCH1_EnaReq_Oper_origin_orIdent),
     (DataAttribute_t, iedModel_GenericIO_T60S_FSCH1_EnaReq_Oper_ctlNum),
     (DataAttribute_t, iedModel_GenericIO_T60S_FSCH1_EnaReq_Oper_T),
     (DataAttribute_t, iedModel_GenericIO_T60S_FSCH1_EnaReq_Oper_Test),
     (DataAttribute_t, iedModel_GenericIO_T60S_FSCH1_EnaReq_Oper_Check),
     (DataAttribute_t, iedModel_GenericIO_T60S_FSCH1_EnaReq_ctlModel),
     (DataAttribute_t, iedModel_GenericIO_T60S_FSCH1_EnaReq_t),
     (DataObject_t, iedModel_GenericIO_T60S_FSCH1_EdtReq),
     (DataAttribute_t, iedModel_GenericIO_T60S_FSCH1_EdtReq_stVal),
     (DataAttribute_t, iedModel_GenericIO_T60S_FSCH1_EdtReq_q),
     (DataAttribute_t, iedModel_GenericIO_T60S_FSCH1_EdtReq_Oper),
     (DataAttribute_t, iedModel_GenericIO_T60S_FSCH1_EdtReq_Oper_ctlVal),
     (DataAttribute_t, iedModel_GenericIO_T60S_FSCH1_EdtReq_Oper_origin),
     (DataAttribute_t, iedModel_GenericIO_T60S_FSCH1_EdtReq_Oper_origin_orCat)]"

definition gio_handles_12 :: "(string \<times> addr) list" where
  "gio_handles_12 =
    [(''IEDMODEL_GenericIO_T60S_FSCH1_EnaReq_stVal'', iedModel_GenericIO_T60S_FSCH1_EnaReq_stVal),
     (''IEDMODEL_GenericIO_T60S_FSCH1_EnaReq_q'', iedModel_GenericIO_T60S_FSCH1_EnaReq_q),
     (''IEDMODEL_GenericIO_T60S_FSCH1_EnaReq_Oper'', iedModel_GenericIO_T60S_FSCH1_EnaReq_Oper),
     (''IEDMODEL_GenericIO_T60S_FSCH1_EnaReq_Oper_ctlVal'', iedModel_GenericIO_T60S_FSCH1_EnaReq_Oper_ctlVal),
     (''IEDMODEL_GenericIO_T60S_FSCH1_EnaReq_Oper_origin'', iedModel_GenericIO_T60S_FSCH1_EnaReq_Oper_origin),
     (''IEDMODEL_GenericIO_T60S_FSCH1_EnaReq_Oper_origin_orCat'', iedModel_GenericIO_T60S_FSCH1_EnaReq_Oper_origin_orCat),
     (''IEDMODEL_GenericIO_T60S_FSCH1_EnaReq_Oper_origin_orIdent'', iedModel_GenericIO_T60S_FSCH1_EnaReq_Oper_origin_orIdent),
     (''IEDMODEL_GenericIO_T60S_FSCH1_EnaReq_Oper_ctlNum'', iedModel_GenericIO_T60S_FSCH1_EnaReq_Oper_ctlNum),
     (''IEDMODEL_GenericIO_T60S_FSCH1_EnaReq_Oper_T'', iedModel_GenericIO_T60S_FSCH1_EnaReq_Oper_T),
     (''IEDMODEL_GenericIO_T60S_FSCH1_EnaReq_Oper_Test'', iedModel_GenericIO_T60S_FSCH1_EnaReq_Oper_Test),
     (''IEDMODEL_GenericIO_T60S_FSCH1_EnaReq_Oper_Check'', iedModel_GenericIO_T60S_FSCH1_EnaReq_Oper_Check),
     (''IEDMODEL_GenericIO_T60S_FSCH1_EnaReq_ctlModel'', iedModel_GenericIO_T60S_FSCH1_EnaReq_ctlModel),
     (''IEDMODEL_GenericIO_T60S_FSCH1_EnaReq_t'', iedModel_GenericIO_T60S_FSCH1_EnaReq_t),
     (''IEDMODEL_GenericIO_T60S_FSCH1_EdtReq'', iedModel_GenericIO_T60S_FSCH1_EdtReq),
     (''IEDMODEL_GenericIO_T60S_FSCH1_EdtReq_stVal'', iedModel_GenericIO_T60S_FSCH1_EdtReq_stVal),
     (''IEDMODEL_GenericIO_T60S_FSCH1_EdtReq_q'', iedModel_GenericIO_T60S_FSCH1_EdtReq_q),
     (''IEDMODEL_GenericIO_T60S_FSCH1_EdtReq_Oper'', iedModel_GenericIO_T60S_FSCH1_EdtReq_Oper),
     (''IEDMODEL_GenericIO_T60S_FSCH1_EdtReq_Oper_ctlVal'', iedModel_GenericIO_T60S_FSCH1_EdtReq_Oper_ctlVal),
     (''IEDMODEL_GenericIO_T60S_FSCH1_EdtReq_Oper_origin'', iedModel_GenericIO_T60S_FSCH1_EdtReq_Oper_origin),
     (''IEDMODEL_GenericIO_T60S_FSCH1_EdtReq_Oper_origin_orCat'', iedModel_GenericIO_T60S_FSCH1_EdtReq_Oper_origin_orCat)]"

definition gio_declared_13 :: "(c_type \<times> addr) list" where
  "gio_declared_13 =
    [(DataAttribute_t, iedModel_GenericIO_T60S_FSCH1_EdtReq_Oper_origin_orIdent),
     (DataAttribute_t, iedModel_GenericIO_T60S_FSCH1_EdtReq_Oper_ctlNum),
     (DataAttribute_t, iedModel_GenericIO_T60S_FSCH1_EdtReq_Oper_T),
     (DataAttribute_t, iedModel_GenericIO_T60S_FSCH1_EdtReq_Oper_Test),
     (DataAttribute_t, iedModel_GenericIO_T60S_FSCH1_EdtReq_Oper_Check),
     (DataAttribute_t, iedModel_GenericIO_T60S_FSCH1_EdtReq_ctlModel),
     (DataAttribute_t, iedModel_GenericIO_T60S_FSCH1_EdtReq_t),
     (DataObject_t, iedModel_GenericIO_T60S_FSCH1_DsaReq),
     (DataAttribute_t, iedModel_GenericIO_T60S_FSCH1_DsaReq_stVal),
     (DataAttribute_t, iedModel_GenericIO_T60S_FSCH1_DsaReq_q),
     (DataAttribute_t, iedModel_GenericIO_T60S_FSCH1_DsaReq_Oper),
     (DataAttribute_t, iedModel_GenericIO_T60S_FSCH1_DsaReq_Oper_ctlVal),
     (DataAttribute_t, iedModel_GenericIO_T60S_FSCH1_DsaReq_Oper_origin),
     (DataAttribute_t, iedModel_GenericIO_T60S_FSCH1_DsaReq_Oper_origin_orCat),
     (DataAttribute_t, iedModel_GenericIO_T60S_FSCH1_DsaReq_Oper_origin_orIdent),
     (DataAttribute_t, iedModel_GenericIO_T60S_FSCH1_DsaReq_Oper_ctlNum),
     (DataAttribute_t, iedModel_GenericIO_T60S_FSCH1_DsaReq_Oper_T),
     (DataAttribute_t, iedModel_GenericIO_T60S_FSCH1_DsaReq_Oper_Test),
     (DataAttribute_t, iedModel_GenericIO_T60S_FSCH1_DsaReq_Oper_Check),
     (DataAttribute_t, iedModel_GenericIO_T60S_FSCH1_DsaReq_ctlModel)]"

definition gio_handles_13 :: "(string \<times> addr) list" where
  "gio_handles_13 =
    [(''IEDMODEL_GenericIO_T60S_FSCH1_EdtReq_Oper_origin_orIdent'', iedModel_GenericIO_T60S_FSCH1_EdtReq_Oper_origin_orIdent),
     (''IEDMODEL_GenericIO_T60S_FSCH1_EdtReq_Oper_ctlNum'', iedModel_GenericIO_T60S_FSCH1_EdtReq_Oper_ctlNum),
     (''IEDMODEL_GenericIO_T60S_FSCH1_EdtReq_Oper_T'', iedModel_GenericIO_T60S_FSCH1_EdtReq_Oper_T),
     (''IEDMODEL_GenericIO_T60S_FSCH1_EdtReq_Oper_Test'', iedModel_GenericIO_T60S_FSCH1_EdtReq_Oper_Test),
     (''IEDMODEL_GenericIO_T60S_FSCH1_EdtReq_Oper_Check'', iedModel_GenericIO_T60S_FSCH1_EdtReq_Oper_Check),
     (''IEDMODEL_GenericIO_T60S_FSCH1_EdtReq_ctlModel'', iedModel_GenericIO_T60S_FSCH1_EdtReq_ctlModel),
     (''IEDMODEL_GenericIO_T60S_FSCH1_EdtReq_t'', iedModel_GenericIO_T60S_FSCH1_EdtReq_t),
     (''IEDMODEL_GenericIO_T60S_FSCH1_DsaReq'', iedModel_GenericIO_T60S_FSCH1_DsaReq),
     (''IEDMODEL_GenericIO_T60S_FSCH1_DsaReq_stVal'', iedModel_GenericIO_T60S_FSCH1_DsaReq_stVal),
     (''IEDMODEL_GenericIO_T60S_FSCH1_DsaReq_q'', iedModel_GenericIO_T60S_FSCH1_DsaReq_q),
     (''IEDMODEL_GenericIO_T60S_FSCH1_DsaReq_Oper'', iedModel_GenericIO_T60S_FSCH1_DsaReq_Oper),
     (''IEDMODEL_GenericIO_T60S_FSCH1_DsaReq_Oper_ctlVal'', iedModel_GenericIO_T60S_FSCH1_DsaReq_Oper_ctlVal),
     (''IEDMODEL_GenericIO_T60S_FSCH1_DsaReq_Oper_origin'', iedModel_GenericIO_T60S_FSCH1_DsaReq_Oper_origin),
     (''IEDMODEL_GenericIO_T60S_FSCH1_DsaReq_Oper_origin_orCat'', iedModel_GenericIO_T60S_FSCH1_DsaReq_Oper_origin_orCat),
     (''IEDMODEL_GenericIO_T60S_FSCH1_DsaReq_Oper_origin_orIdent'', iedModel_GenericIO_T60S_FSCH1_DsaReq_Oper_origin_orIdent),
     (''IEDMODEL_GenericIO_T60S_FSCH1_DsaReq_Oper_ctlNum'', iedModel_GenericIO_T60S_FSCH1_DsaReq_Oper_ctlNum),
     (''IEDMODEL_GenericIO_T60S_FSCH1_DsaReq_Oper_T'', iedModel_GenericIO_T60S_FSCH1_DsaReq_Oper_T),
     (''IEDMODEL_GenericIO_T60S_FSCH1_DsaReq_Oper_Test'', iedModel_GenericIO_T60S_FSCH1_DsaReq_Oper_Test),
     (''IEDMODEL_GenericIO_T60S_FSCH1_DsaReq_Oper_Check'', iedModel_GenericIO_T60S_FSCH1_DsaReq_Oper_Check),
     (''IEDMODEL_GenericIO_T60S_FSCH1_DsaReq_ctlModel'', iedModel_GenericIO_T60S_FSCH1_DsaReq_ctlModel)]"

definition gio_declared_14 :: "(c_type \<times> addr) list" where
  "gio_declared_14 =
    [(DataAttribute_t, iedModel_GenericIO_T60S_FSCH1_DsaReq_t),
     (DataObject_t, iedModel_GenericIO_T60S_FSCH1_SchdPrio),
     (DataAttribute_t, iedModel_GenericIO_T60S_FSCH1_SchdPrio_setVal),
     (DataObject_t, iedModel_GenericIO_T60S_FSCH1_NumEntr),
     (DataAttribute_t, iedModel_GenericIO_T60S_FSCH1_NumEntr_setVal),
     (DataObject_t, iedModel_GenericIO_T60S_FSCH1_SchdIntv),
     (DataAttribute_t, iedModel_GenericIO_T60S_FSCH1_SchdIntv_setVal),
     (DataObject_t, iedModel_GenericIO_T60S_FSCH1_ValSPG1),
     (DataAttribute_t, iedModel_GenericIO_T60S_FSCH1_ValSPG1_setVal),
     (DataObject_t, iedModel_GenericIO_T60S_FSCH1_ValSPG2),
     (DataAttribute_t, iedModel_GenericIO_T60S_FSCH1_ValSPG2_setVal),
     (DataObject_t, iedModel_GenericIO_T60S_FSCH1_ValSPG3),
     (DataAttribute_t, iedModel_GenericIO_T60S_FSCH1_ValSPG3_setVal),
     (DataObject_t, iedModel_GenericIO_T60S_FSCH1_ValSPG4),
     (DataAttribute_t, iedModel_GenericIO_T60S_FSCH1_ValSPG4_setVal),
     (DataObject_t, iedModel_GenericIO_T60S_FSCH1_ValSPG5),
     (DataAttribute_t, iedModel_GenericIO_T60S_FSCH1_ValSPG5_setVal),
     (DataObject_t, iedModel_GenericIO_T60S_FSCH1_ValSPG6),
     (DataAttribute_t, iedModel_GenericIO_T60S_FSCH1_ValSPG6_setVal),
     (DataObject_t, iedModel_GenericIO_T60S_FSCH1_ValSPG7),
     (DataAttribute_t, iedModel_GenericIO_T60S_FSCH1_ValSPG7_setVal),
     (DataObject_t, iedModel_GenericIO_T60S_FSCH1_ValSPG8),
     (DataAttribute_t, iedModel_GenericIO_T60S_FSCH1_ValSPG8_setVal),
     (DataObject_t, iedModel_GenericIO_T60S_FSCH1_ValSPG9)]"

definition gio_handles_14 :: "(string \<times> addr) list" where
  "gio_handles_14 =
    [(''IEDMODEL_GenericIO_T60S_FSCH1_DsaReq_t'', iedModel_GenericIO_T60S_FSCH1_DsaReq_t),
     (''IEDMODEL_GenericIO_T60S_FSCH1_SchdPrio'', iedModel_GenericIO_T60S_FSCH1_SchdPrio),
     (''IEDMODEL_GenericIO_T60S_FSCH1_SchdPrio_setVal'', iedModel_GenericIO_T60S_FSCH1_SchdPrio_setVal),
     (''IEDMODEL_GenericIO_T60S_FSCH1_NumEntr'', iedModel_GenericIO_T60S_FSCH1_NumEntr),
     (''IEDMODEL_GenericIO_T60S_FSCH1_NumEntr_setVal'', iedModel_GenericIO_T60S_FSCH1_NumEntr_setVal),
     (''IEDMODEL_GenericIO_T60S_FSCH1_SchdIntv'', iedModel_GenericIO_T60S_FSCH1_SchdIntv),
     (''IEDMODEL_GenericIO_T60S_FSCH1_SchdIntv_setVal'', iedModel_GenericIO_T60S_FSCH1_SchdIntv_setVal),
     (''IEDMODEL_GenericIO_T60S_FSCH1_ValSPG1'', iedModel_GenericIO_T60S_FSCH1_ValSPG1),
     (''IEDMODEL_GenericIO_T60S_FSCH1_ValSPG1_setVal'', iedModel_GenericIO_T60S_FSCH1_ValSPG1_setVal),
     (''IEDMODEL_GenericIO_T60S_FSCH1_ValSPG2'', iedModel_GenericIO_T60S_FSCH1_ValSPG2),
     (''IEDMODEL_GenericIO_T60S_FSCH1_ValSPG2_setVal'', iedModel_GenericIO_T60S_FSCH1_ValSPG2_setVal),
     (''IEDMODEL_GenericIO_T60S_FSCH1_ValSPG3'', iedModel_GenericIO_T60S_FSCH1_ValSPG3),
     (''IEDMODEL_GenericIO_T60S_FSCH1_ValSPG3_setVal'', iedModel_GenericIO_T60S_FSCH1_ValSPG3_setVal),
     (''IEDMODEL_GenericIO_T60S_FSCH1_ValSPG4'', iedModel_GenericIO_T60S_FSCH1_ValSPG4),
     (''IEDMODEL_GenericIO_T60S_FSCH1_ValSPG4_setVal'', iedModel_GenericIO_T60S_FSCH1_ValSPG4_setVal),
     (''IEDMODEL_GenericIO_T60S_FSCH1_ValSPG5'', iedModel_GenericIO_T60S_FSCH1_ValSPG5),
     (''IEDMODEL_GenericIO_T60S_FSCH1_ValSPG5_setVal'', iedModel_GenericIO_T60S_FSCH1_ValSPG5_setVal),
     (''IEDMODEL_GenericIO_T60S_FSCH1_ValSPG6'', iedModel_GenericIO_T60S_FSCH1_ValSPG6),
     (''IEDMODEL_GenericIO_T60S_FSCH1_ValSPG6_setVal'', iedModel_GenericIO_T60S_FSCH1_ValSPG6_setVal),
     (''IEDMODEL_GenericIO_T60S_FSCH1_ValSPG7'', iedModel_GenericIO_T60S_FSCH1_ValSPG7),
     (''IEDMODEL_GenericIO_T60S_FSCH1_ValSPG7_setVal'', iedModel_GenericIO_T60S_FSCH1_ValSPG7_setVal),
     (''IEDMODEL_GenericIO_T60S_FSCH1_ValSPG8'', iedModel_GenericIO_T60S_FSCH1_ValSPG8),
     (''IEDMODEL_GenericIO_T60S_FSCH1_ValSPG8_setVal'', iedModel_GenericIO_T60S_FSCH1_ValSPG8_setVal),
     (''IEDMODEL_GenericIO_T60S_FSCH1_ValSPG9'', iedModel_GenericIO_T60S_FSCH1_ValSPG9)]"

definition gio_declared_15 :: "(c_type \<times> addr) list" where
  "gio_declared_15 =
    [(DataAttribute_t, iedModel_GenericIO_T60S_FSCH1_ValSPG9_setVal),
     (DataObject_t, iedModel_GenericIO_T60S_FSCH1_ValSPG10),
     (DataAttribute_t, iedModel_GenericIO_T60S_FSCH1_ValSPG10_setVal),
     (DataObject_t, iedModel_GenericIO_T60S_FSCH1_ValSPG11),
     (DataAttribute_t, iedModel_GenericIO_T60S_FSCH1_ValSPG11_setVal),
     (DataObject_t, iedModel_GenericIO_T60S_FSCH1_ValSPG12),
     (DataAttribute_t, iedModel_GenericIO_T60S_FSCH1_ValSPG12_setVal),
     (DataObject_t, iedModel_GenericIO_T60S_FSCH1_ValSPG13),
     (DataAttribute_t, iedModel_GenericIO_T60S_FSCH1_ValSPG13_setVal),
     (DataObject_t, iedModel_GenericIO_T60S_FSCH1_ValSPG14),
     (DataAttribute_t, iedModel_GenericIO_T60S_FSCH1_ValSPG14_setVal),
     (DataObject_t, iedModel_GenericIO_T60S_FSCH1_ValSPG15),
     (DataAttribute_t, iedModel_GenericIO_T60S_FSCH1_ValSPG15_setVal),
     (DataObject_t, iedModel_GenericIO_T60S_FSCH1_ValSPG16),
     (DataAttribute_t, iedModel_GenericIO_T60S_FSCH1_ValSPG16_setVal),
     (DataObject_t, iedModel_GenericIO_T60S_FSCH1_ValSPG17),
     (DataAttribute_t, iedModel_GenericIO_T60S_FSCH1_ValSPG17_setVal),
     (DataObject_t, iedModel_GenericIO_T60S_FSCH1_ValSPG18),
     (DataAttribute_t, iedModel_GenericIO_T60S_FSCH1_ValSPG18_setVal),
     (DataObject_t, iedModel_GenericIO_T60S_FSCH1_ValSPG19),
     (DataAttribute_t, iedModel_GenericIO_T60S_FSCH1_ValSPG19_setVal),
     (DataObject_t, iedModel_GenericIO_T60S_FSCH1_ValSPG20),
     (DataAttribute_t, iedModel_GenericIO_T60S_FSCH1_ValSPG20_setVal),
     (DataObject_t, iedModel_GenericIO_T60S_FSCH1_ValSPG21)]"

definition gio_handles_15 :: "(string \<times> addr) list" where
  "gio_handles_15 =
    [(''IEDMODEL_GenericIO_T60S_FSCH1_ValSPG9_setVal'', iedModel_GenericIO_T60S_FSCH1_ValSPG9_setVal),
     (''IEDMODEL_GenericIO_T60S_FSCH1_ValSPG10'', iedModel_GenericIO_T60S_FSCH1_ValSPG10),
     (''IEDMODEL_GenericIO_T60S_FSCH1_ValSPG10_setVal'', iedModel_GenericIO_T60S_FSCH1_ValSPG10_setVal),
     (''IEDMODEL_GenericIO_T60S_FSCH1_ValSPG11'', iedModel_GenericIO_T60S_FSCH1_ValSPG11),
     (''IEDMODEL_GenericIO_T60S_FSCH1_ValSPG11_setVal'', iedModel_GenericIO_T60S_FSCH1_ValSPG11_setVal),
     (''IEDMODEL_GenericIO_T60S_FSCH1_ValSPG12'', iedModel_GenericIO_T60S_FSCH1_ValSPG12),
     (''IEDMODEL_GenericIO_T60S_FSCH1_ValSPG12_setVal'', iedModel_GenericIO_T60S_FSCH1_ValSPG12_setVal),
     (''IEDMODEL_GenericIO_T60S_FSCH1_ValSPG13'', iedModel_GenericIO_T60S_FSCH1_ValSPG13),
     (''IEDMODEL_GenericIO_T60S_FSCH1_ValSPG13_setVal'', iedModel_GenericIO_T60S_FSCH1_ValSPG13_setVal),
     (''IEDMODEL_GenericIO_T60S_FSCH1_ValSPG14'', iedModel_GenericIO_T60S_FSCH1_ValSPG14),
     (''IEDMODEL_GenericIO_T60S_FSCH1_ValSPG14_setVal'', iedModel_GenericIO_T60S_FSCH1_ValSPG14_setVal),
     (''IEDMODEL_GenericIO_T60S_FSCH1_ValSPG15'', iedModel_GenericIO_T60S_FSCH1_ValSPG15),
     (''IEDMODEL_GenericIO_T60S_FSCH1_ValSPG15_setVal'', iedModel_GenericIO_T60S_FSCH1_ValSPG15_setVal),
     (''IEDMODEL_GenericIO_T60S_FSCH1_ValSPG16'', iedModel_GenericIO_T60S_FSCH1_ValSPG16),
     (''IEDMODEL_GenericIO_T60S_FSCH1_ValSPG16_setVal'', iedModel_GenericIO_T60S_FSCH1_ValSPG16_setVal),
     (''IEDMODEL_GenericIO_T60S_FSCH1_ValSPG17'', iedModel_GenericIO_T60S_FSCH1_ValSPG17),
     (''IEDMODEL_GenericIO_T60S_FSCH1_ValSPG17_setVal'', iedModel_GenericIO_T60S_FSCH1_ValSPG17_setVal),
     (''IEDMODEL_GenericIO_T60S_FSCH1_ValSPG18'', iedModel_GenericIO_T60S_FSCH1_ValSPG18),
     (''IEDMODEL_GenericIO_T60S_FSCH1_ValSPG18_setVal'', iedModel_GenericIO_T60S_FSCH1_ValSPG18_setVal),
     (''IEDMODEL_GenericIO_T60S_FSCH1_ValSPG19'', iedModel_GenericIO_T60S_FSCH1_ValSPG19),
     (''IEDMODEL_GenericIO_T60S_FSCH1_ValSPG19_setVal'', iedModel_GenericIO_T60S_FSCH1_ValSPG19_setVal),
     (''IEDMODEL_GenericIO_T60S_FSCH1_ValSPG20'', iedModel_GenericIO_T60S_FSCH1_ValSPG20),
     (''IEDMODEL_GenericIO_T60S_FSCH1_ValSPG20_setVal'', iedModel_GenericIO_T60S_FSCH1_ValSPG20_setVal),
     (''IEDMODEL_GenericIO_T60S_FSCH1_ValSPG21'', iedModel_GenericIO_T60S_FSCH1_ValSPG21)]"

definition gio_declared_16 :: "(c_type \<times> addr) list" where
  "gio_declared_16 =
    [(DataAttribute_t, iedModel_GenericIO_T60S_FSCH1_ValSPG21_setVal),
     (DataObject_t, iedModel_GenericIO_T60S_FSCH1_ValSPG22),
     (DataAttribute_t, iedModel_GenericIO_T60S_FSCH1_ValSPG22_setVal),
     (DataObject_t, iedModel_GenericIO_T60S_FSCH1_ValSPG23),
     (DataAttribute_t, iedModel_GenericIO_T60S_FSCH1_ValSPG23_setVal),
     (DataObject_t, iedModel_GenericIO_T60S_FSCH1_ValSPG24),
     (DataAttribute_t, iedModel_GenericIO_T60S_FSCH1_ValSPG24_setVal),
     (DataObject_t, iedModel_GenericIO_T60S_FSCH1_ValSPG25),
     (DataAttribute_t, iedModel_GenericIO_T60S_FSCH1_ValSPG25_setVal),
     (DataObject_t, iedModel_GenericIO_T60S_FSCH1_ValSPG26),
     (DataAttribute_t, iedModel_GenericIO_T60S_FSCH1_ValSPG26_setVal),
     (DataObject_t, iedModel_GenericIO_T60S_FSCH1_ValSPG27),
     (DataAttribute_t, iedModel_GenericIO_T60S_FSCH1_ValSPG27_setVal),
     (DataObject_t, iedModel_GenericIO_T60S_FSCH1_ValSPG28),
     (DataAttribute_t, iedModel_GenericIO_T60S_FSCH1_ValSPG28_setVal),
     (DataObject_t, iedModel_GenericIO_T60S_FSCH1_ValSPG29),
     (DataAttribute_t, iedModel_GenericIO_T60S_FSCH1_ValSPG29_setVal),
     (DataObject_t, iedModel_GenericIO_T60S_FSCH1_ValSPG30),
     (DataAttribute_t, iedModel_GenericIO_T60S_FSCH1_ValSPG30_setVal),
     (DataObject_t, iedModel_GenericIO_T60S_FSCH1_ValSPG31),
     (DataAttribute_t, iedModel_GenericIO_T60S_FSCH1_ValSPG31_setVal),
     (DataObject_t, iedModel_GenericIO_T60S_FSCH1_ValSPG32),
     (DataAttribute_t, iedModel_GenericIO_T60S_FSCH1_ValSPG32_setVal),
     (DataObject_t, iedModel_GenericIO_T60S_FSCH1_ValSPG33)]"

definition gio_handles_16 :: "(string \<times> addr) list" where
  "gio_handles_16 =
    [(''IEDMODEL_GenericIO_T60S_FSCH1_ValSPG21_setVal'', iedModel_GenericIO_T60S_FSCH1_ValSPG21_setVal),
     (''IEDMODEL_GenericIO_T60S_FSCH1_ValSPG22'', iedModel_GenericIO_T60S_FSCH1_ValSPG22),
     (''IEDMODEL_GenericIO_T60S_FSCH1_ValSPG22_setVal'', iedModel_GenericIO_T60S_FSCH1_ValSPG22_setVal),
     (''IEDMODEL_GenericIO_T60S_FSCH1_ValSPG23'', iedModel_GenericIO_T60S_FSCH1_ValSPG23),
     (''IEDMODEL_GenericIO_T60S_FSCH1_ValSPG23_setVal'', iedModel_GenericIO_T60S_FSCH1_ValSPG23_setVal),
     (''IEDMODEL_GenericIO_T60S_FSCH1_ValSPG24'', iedModel_GenericIO_T60S_FSCH1_ValSPG24),
     (''IEDMODEL_GenericIO_T60S_FSCH1_ValSPG24_setVal'', iedModel_GenericIO_T60S_FSCH1_ValSPG24_setVal),
     (''IEDMODEL_GenericIO_T60S_FSCH1_ValSPG25'', iedModel_GenericIO_T60S_FSCH1_ValSPG25),
     (''IEDMODEL_GenericIO_T60S_FSCH1_ValSPG25_setVal'', iedModel_GenericIO_T60S_FSCH1_ValSPG25_setVal),
     (''IEDMODEL_GenericIO_T60S_FSCH1_ValSPG26'', iedModel_GenericIO_T60S_FSCH1_ValSPG26),
     (''IEDMODEL_GenericIO_T60S_FSCH1_ValSPG26_setVal'', iedModel_GenericIO_T60S_FSCH1_ValSPG26_setVal),
     (''IEDMODEL_GenericIO_T60S_FSCH1_ValSPG27'', iedModel_GenericIO_T60S_FSCH1_ValSPG27),
     (''IEDMODEL_GenericIO_T60S_FSCH1_ValSPG27_setVal'', iedModel_GenericIO_T60S_FSCH1_ValSPG27_setVal),
     (''IEDMODEL_GenericIO_T60S_FSCH1_ValSPG28'', iedModel_GenericIO_T60S_FSCH1_ValSPG28),
     (''IEDMODEL_GenericIO_T60S_FSCH1_ValSPG28_setVal'', iedModel_GenericIO_T60S_FSCH1_ValSPG28_setVal),
     (''IEDMODEL_GenericIO_T60S_FSCH1_ValSPG29'', iedModel_GenericIO_T60S_FSCH1_ValSPG29),
     (''IEDMODEL_GenericIO_T60S_FSCH1_ValSPG29_setVal'', iedModel_GenericIO_T60S_FSCH1_ValSPG29_setVal),
     (''IEDMODEL_GenericIO_T60S_FSCH1_ValSPG30'', iedModel_GenericIO_T60S_FSCH1_ValSPG30),
     (''IEDMODEL_GenericIO_T60S_FSCH1_ValSPG30_setVal'', iedModel_GenericIO_T60S_FSCH1_ValSPG30_setVal),
     (''IEDMODEL_GenericIO_T60S_FSCH1_ValSPG31'', iedModel_GenericIO_T60S_FSCH1_ValSPG31),
     (''IEDMODEL_GenericIO_T60S_FSCH1_ValSPG31_setVal'', iedModel_GenericIO_T60S_FSCH1_ValSPG31_setVal),
     (''IEDMODEL_GenericIO_T60S_FSCH1_ValSPG32'', iedModel_GenericIO_T60S_FSCH1_ValSPG32),
     (''IEDMODEL_GenericIO_T60S_FSCH1_ValSPG32_setVal'', iedModel_GenericIO_T60S_FSCH1_ValSPG32_setVal),
     (''IEDMODEL_GenericIO_T60S_FSCH1_ValSPG33'', iedModel_GenericIO_T60S_FSCH1_ValSPG33)]"

definition gio_declared_17 :: "(c_type \<times> addr) list" where
  "gio_declared_17 =
    [(DataAttribute_t, iedModel_GenericIO_T60S_FSCH1_ValSPG33_setVal),
     (DataObject_t, iedModel_GenericIO_T60S_FSCH1_ValSPG34),
     (DataAttribute_t, iedModel_GenericIO_T60S_FSCH1_ValSPG34_setVal),
     (DataObject_t, iedModel_GenericIO_T60S_FSCH1_ValSPG35),
     (DataAttribute_t, iedModel_GenericIO_T60S_FSCH1_ValSPG35_setVal),
     (DataObject_t, iedModel_GenericIO_T60S_FSCH1_ValSPG36),
     (DataAttribute_t, iedModel_GenericIO_T60S_FSCH1_ValSPG36_setVal),
     (DataObject_t, iedModel_GenericIO_T60S_FSCH1_ValSPG37),
     (DataAttribute_t, iedModel_GenericIO_T60S_FSCH1_ValSPG37_setVal),
     (DataObject_t, iedModel_GenericIO_T60S_FSCH1_ValSPG38),
     (DataAttribute_t, iedModel_GenericIO_T60S_FSCH1_ValSPG38_setVal),
     (DataObject_t, iedModel_GenericIO_T60S_FSCH1_ValSPG39),
     (DataAttribute_t, iedModel_GenericIO_T60S_FSCH1_ValSPG39_setVal),
     (DataObject_t, iedModel_GenericIO_T60S_FSCH1_ValSPG40),
     (DataAttribute_t, iedModel_GenericIO_T60S_FSCH1_ValSPG40_setVal),
     (DataObject_t, iedModel_GenericIO_T60S_FSCH1_ValSPG41),
     (DataAttribute_t, iedModel_GenericIO_T60S_FSCH1_ValSPG41_setVal),
     (DataObject_t, iedModel_GenericIO_T60S_FSCH1_ValSPG42),
     (DataAttribute_t, iedModel_GenericIO_T60S_FSCH1_ValSPG42_setVal),
     (DataObject_t, iedModel_GenericIO_T60S_FSCH1_ValSPG43),
     (DataAttribute_t, iedModel_GenericIO_T60S_FSCH1_ValSPG43_setVal),
     (DataObject_t, iedModel_GenericIO_T60S_FSCH1_ValSPG44),
     (DataAttribute_t, iedModel_GenericIO_T60S_FSCH1_ValSPG44_setVal),
     (DataObject_t, iedModel_GenericIO_T60S_FSCH1_ValSPG45)]"

definition gio_handles_17 :: "(string \<times> addr) list" where
  "gio_handles_17 =
    [(''IEDMODEL_GenericIO_T60S_FSCH1_ValSPG33_setVal'', iedModel_GenericIO_T60S_FSCH1_ValSPG33_setVal),
     (''IEDMODEL_GenericIO_T60S_FSCH1_ValSPG34'', iedModel_GenericIO_T60S_FSCH1_ValSPG34),
     (''IEDMODEL_GenericIO_T60S_FSCH1_ValSPG34_setVal'', iedModel_GenericIO_T60S_FSCH1_ValSPG34_setVal),
     (''IEDMODEL_GenericIO_T60S_FSCH1_ValSPG35'', iedModel_GenericIO_T60S_FSCH1_ValSPG35),
     (''IEDMODEL_GenericIO_T60S_FSCH1_ValSPG35_setVal'', iedModel_GenericIO_T60S_FSCH1_ValSPG35_setVal),
     (''IEDMODEL_GenericIO_T60S_FSCH1_ValSPG36'', iedModel_GenericIO_T60S_FSCH1_ValSPG36),
     (''IEDMODEL_GenericIO_T60S_FSCH1_ValSPG36_setVal'', iedModel_GenericIO_T60S_FSCH1_ValSPG36_setVal),
     (''IEDMODEL_GenericIO_T60S_FSCH1_ValSPG37'', iedModel_GenericIO_T60S_FSCH1_ValSPG37),
     (''IEDMODEL_GenericIO_T60S_FSCH1_ValSPG37_setVal'', iedModel_GenericIO_T60S_FSCH1_ValSPG37_setVal),
     (''IEDMODEL_GenericIO_T60S_FSCH1_ValSPG38'', iedModel_GenericIO_T60S_FSCH1_ValSPG38),
     (''IEDMODEL_GenericIO_T60S_FSCH1_ValSPG38_setVal'', iedModel_GenericIO_T60S_FSCH1_ValSPG38_setVal),
     (''IEDMODEL_GenericIO_T60S_FSCH1_ValSPG39'', iedModel_GenericIO_T60S_FSCH1_ValSPG39),
     (''IEDMODEL_GenericIO_T60S_FSCH1_ValSPG39_setVal'', iedModel_GenericIO_T60S_FSCH1_ValSPG39_setVal),
     (''IEDMODEL_GenericIO_T60S_FSCH1_ValSPG40'', iedModel_GenericIO_T60S_FSCH1_ValSPG40),
     (''IEDMODEL_GenericIO_T60S_FSCH1_ValSPG40_setVal'', iedModel_GenericIO_T60S_FSCH1_ValSPG40_setVal),
     (''IEDMODEL_GenericIO_T60S_FSCH1_ValSPG41'', iedModel_GenericIO_T60S_FSCH1_ValSPG41),
     (''IEDMODEL_GenericIO_T60S_FSCH1_ValSPG41_setVal'', iedModel_GenericIO_T60S_FSCH1_ValSPG41_setVal),
     (''IEDMODEL_GenericIO_T60S_FSCH1_ValSPG42'', iedModel_GenericIO_T60S_FSCH1_ValSPG42),
     (''IEDMODEL_GenericIO_T60S_FSCH1_ValSPG42_setVal'', iedModel_GenericIO_T60S_FSCH1_ValSPG42_setVal),
     (''IEDMODEL_GenericIO_T60S_FSCH1_ValSPG43'', iedModel_GenericIO_T60S_FSCH1_ValSPG43),
     (''IEDMODEL_GenericIO_T60S_FSCH1_ValSPG43_setVal'', iedModel_GenericIO_T60S_FSCH1_ValSPG43_setVal),
     (''IEDMODEL_GenericIO_T60S_FSCH1_ValSPG44'', iedModel_GenericIO_T60S_FSCH1_ValSPG44),
     (''IEDMODEL_GenericIO_T60S_FSCH1_ValSPG44_setVal'', iedModel_GenericIO_T60S_FSCH1_ValSPG44_setVal),
     (''IEDMODEL_GenericIO_T60S_FSCH1_ValSPG45'', iedModel_GenericIO_T60S_FSCH1_ValSPG45)]"

definition gio_declared_18 :: "(c_type \<times> addr) list" where
  "gio_declared_18 =
    [(DataAttribute_t, iedModel_GenericIO_T60S_FSCH1_ValSPG45_setVal),
     (DataObject_t, iedModel_GenericIO_T60S_FSCH1_ValSPG46),
     (DataAttribute_t, iedModel_GenericIO_T60S_FSCH1_ValSPG46_setVal),
     (DataObject_t, iedModel_GenericIO_T60S_FSCH1_ValSPG47),
     (DataAttribute_t, iedModel_GenericIO_T60S_FSCH1_ValSPG47_setVal),
     (DataObject_t, iedModel_GenericIO_T60S_FSCH1_ValSPG48),
     (DataAttribute_t, iedModel_GenericIO_T60S_FSCH1_ValSPG48_setVal),
     (DataObject_t, iedModel_GenericIO_T60S_FSCH1_ValSPG49),
     (DataAttribute_t, iedModel_GenericIO_T60S_FSCH1_ValSPG49_setVal),
     (DataObject_t, iedModel_GenericIO_T60S_FSCH1_ValSPG50),
     (DataAttribute_t, iedModel_GenericIO_T60S_FSCH1_ValSPG50_setVal),
     (DataObject_t, iedModel_GenericIO_T60S_FSCH1_ValSPG51),
     (DataAttribute_t, iedModel_GenericIO_T60S_FSCH1_ValSPG51_setVal),
     (DataObject_t, iedModel_GenericIO_T60S_FSCH1_ValSPG52),
     (DataAttribute_t, iedModel_GenericIO_T60S_FSCH1_ValSPG52_setVal),
     (DataObject_t, iedModel_GenericIO_T60S_FSCH1_ValSPG53),
     (DataAttribute_t, iedModel_GenericIO_T60S_FSCH1_ValSPG53_setVal),
     (DataObject_t, iedModel_GenericIO_T60S_FSCH1_ValSPG54),
     (DataAttribute_t, iedModel_GenericIO_T60S_FSCH1_ValSPG54_setVal),
     (DataObject_t, iedModel_GenericIO_T60S_FSCH1_ValSPG55),
     (DataAttribute_t, iedModel_GenericIO_T60S_FSCH1_ValSPG55_setVal),
     (DataObject_t, iedModel_GenericIO_T60S_FSCH1_ValSPG56),
     (DataAttribute_t, iedModel_GenericIO_T60S_FSCH1_ValSPG56_setVal),
     (DataObject_t, iedModel_GenericIO_T60S_FSCH1_ValSPG57)]"

definition gio_handles_18 :: "(string \<times> addr) list" where
  "gio_handles_18 =
    [(''IEDMODEL_GenericIO_T60S_FSCH1_ValSPG45_setVal'', iedModel_GenericIO_T60S_FSCH1_ValSPG45_setVal),
     (''IEDMODEL_GenericIO_T60S_FSCH1_ValSPG46'', iedModel_GenericIO_T60S_FSCH1_ValSPG46),
     (''IEDMODEL_GenericIO_T60S_FSCH1_ValSPG46_setVal'', iedModel_GenericIO_T60S_FSCH1_ValSPG46_setVal),
     (''IEDMODEL_GenericIO_T60S_FSCH1_ValSPG47'', iedModel_GenericIO_T60S_FSCH1_ValSPG47),
     (''IEDMODEL_GenericIO_T60S_FSCH1_ValSPG47_setVal'', iedModel_GenericIO_T60S_FSCH1_ValSPG47_setVal),
     (''IEDMODEL_GenericIO_T60S_FSCH1_ValSPG48'', iedModel_GenericIO_T60S_FSCH1_ValSPG48),
     (''IEDMODEL_GenericIO_T60S_FSCH1_ValSPG48_setVal'', iedModel_GenericIO_T60S_FSCH1_ValSPG48_setVal),
     (''IEDMODEL_GenericIO_T60S_FSCH1_ValSPG49'', iedModel_GenericIO_T60S_FSCH1_ValSPG49),
     (''IEDMODEL_GenericIO_T60S_FSCH1_ValSPG49_setVal'', iedModel_GenericIO_T60S_FSCH1_ValSPG49_setVal),
     (''IEDMODEL_GenericIO_T60S_FSCH1_ValSPG50'', iedModel_GenericIO_T60S_FSCH1_ValSPG50),
     (''IEDMODEL_GenericIO_T60S_FSCH1_ValSPG50_setVal'', iedModel_GenericIO_T60S_FSCH1_ValSPG50_setVal),
     (''IEDMODEL_GenericIO_T60S_FSCH1_ValSPG51'', iedModel_GenericIO_T60S_FSCH1_ValSPG51),
     (''IEDMODEL_GenericIO_T60S_FSCH1_ValSPG51_setVal'', iedModel_GenericIO_T60S_FSCH1_ValSPG51_setVal),
     (''IEDMODEL_GenericIO_T60S_FSCH1_ValSPG52'', iedModel_GenericIO_T60S_FSCH1_ValSPG52),
     (''IEDMODEL_GenericIO_T60S_FSCH1_ValSPG52_setVal'', iedModel_GenericIO_T60S_FSCH1_ValSPG52_setVal),
     (''IEDMODEL_GenericIO_T60S_FSCH1_ValSPG53'', iedModel_GenericIO_T60S_FSCH1_ValSPG53),
     (''IEDMODEL_GenericIO_T60S_FSCH1_ValSPG53_setVal'', iedModel_GenericIO_T60S_FSCH1_ValSPG53_setVal),
     (''IEDMODEL_GenericIO_T60S_FSCH1_ValSPG54'', iedModel_GenericIO_T60S_FSCH1_ValSPG54),
     (''IEDMODEL_GenericIO_T60S_FSCH1_ValSPG54_setVal'', iedModel_GenericIO_T60S_FSCH1_ValSPG54_setVal),
     (''IEDMODEL_GenericIO_T60S_FSCH1_ValSPG55'', iedModel_GenericIO_T60S_FSCH1_ValSPG55),
     (''IEDMODEL_GenericIO_T60S_FSCH1_ValSPG55_setVal'', iedModel_GenericIO_T60S_FSCH1_ValSPG55_setVal),
     (''IEDMODEL_GenericIO_T60S_FSCH1_ValSPG56'', iedModel_GenericIO_T60S_FSCH1_ValSPG56),
     (''IEDMODEL_GenericIO_T60S_FSCH1_ValSPG56_setVal'', iedModel_GenericIO_T60S_FSCH1_ValSPG56_setVal),
     (''IEDMODEL_GenericIO_T60S_FSCH1_ValSPG57'', iedModel_GenericIO_T60S_FSCH1_ValSPG57)]"

definition gio_declared_19 :: "(c_type \<times> addr) list" where
  "gio_declared_19 =
    [(DataAttribute_t, iedModel_GenericIO_T60S_FSCH1_ValSPG57_setVal),
     (DataObject_t, iedModel_GenericIO_T60S_FSCH1_ValSPG58),
     (DataAttribute_t, iedModel_GenericIO_T60S_FSCH1_ValSPG58_setVal),
     (DataObject_t, iedModel_GenericIO_T60S_FSCH1_ValSPG59),
     (DataAttribute_t, iedModel_GenericIO_T60S_FSCH1_ValSPG59_setVal),
     (DataObject_t, iedModel_GenericIO_T60S_FSCH1_ValSPG60),
     (DataAttribute_t, iedModel_GenericIO_T60S_FSCH1_ValSPG60_setVal),
     (DataObject_t, iedModel_GenericIO_T60S_FSCH1_StrTm),
     (DataAttribute_t, iedModel_GenericIO_T60S_FSCH1_StrTm_setTm),
     (DataAttribute_t, iedModel_GenericIO_T60S_FSCH1_StrTm_setCal),
     (DataAttribute_t, iedModel_GenericIO_T60S_FSCH1_StrTm_setCal_occ),
     (DataAttribute_t, iedModel_GenericIO_T60S_FSCH1_StrTm_setCal_occType),
     (DataAttribute_t, iedModel_GenericIO_T60S_FSCH1_StrTm_setCal_occPer),
     (DataAttribute_t, iedModel_GenericIO_T60S_FSCH1_StrTm_setCal_weekDay),
     (DataAttribute_t, iedModel_GenericIO_T60S_FSCH1_StrTm_setCal_month),
     (DataAttribute_t, iedModel_GenericIO_T60S_FSCH1_StrTm_setCal_day),
     (DataAttribute_t, iedModel_GenericIO_T60S_FSCH1_StrTm_setCal_hr),
     (DataAttribute_t, iedModel_GenericIO_T60S_FSCH1_StrTm_setCal_mn),
     (DataObject_t, iedModel_GenericIO_T60S_FSCH1_IntvPer),
     (DataAttribute_t, iedModel_GenericIO_T60S_FSCH1_IntvPer_setVal),
     (DataObject_t, iedModel_GenericIO_T60S_FSCH1_IntvTyp),
     (DataAttribute_t, iedModel_GenericIO_T60S_FSCH1_IntvTyp_setVal),
     (DataObject_t, iedModel_GenericIO_T60S_FSCH1_SchdReuse),
     (DataAttribute_t, iedModel_GenericIO_T60S_FSCH1_SchdReuse_setVal)]"

definition gio_handles_19 :: "(string \<times> addr) list" where
  "gio_handles_19 =
    [(''IEDMODEL_GenericIO_T60S_FSCH1_ValSPG57_setVal'', iedModel_GenericIO_T60S_FSCH1_ValSPG57_setVal),
     (''IEDMODEL_GenericIO_T60S_FSCH1_ValSPG58'', iedModel_GenericIO_T60S_FSCH1_ValSPG58),
     (''IEDMODEL_GenericIO_T60S_FSCH1_ValSPG58_setVal'', iedModel_GenericIO_T60S_FSCH1_ValSPG58_setVal),
     (''IEDMODEL_GenericIO_T60S_FSCH1_ValSPG59'', iedModel_GenericIO_T60S_FSCH1_ValSPG59),
     (''IEDMODEL_GenericIO_T60S_FSCH1_ValSPG59_setVal'', iedModel_GenericIO_T60S_FSCH1_ValSPG59_setVal),
     (''IEDMODEL_GenericIO_T60S_FSCH1_ValSPG60'', iedModel_GenericIO_T60S_FSCH1_ValSPG60),
     (''IEDMODEL_GenericIO_T60S_FSCH1_ValSPG60_setVal'', iedModel_GenericIO_T60S_FSCH1_ValSPG60_setVal),
     (''IEDMODEL_GenericIO_T60S_FSCH1_StrTm'', iedModel_GenericIO_T60S_FSCH1_StrTm),
     (''IEDMODEL_GenericIO_T60S_FSCH1_StrTm_setTm'', iedModel_GenericIO_T60S_FSCH1_StrTm_setTm),
     (''IEDMODEL_GenericIO_T60S_FSCH1_StrTm_setCal'', iedModel_GenericIO_T60S_FSCH1_StrTm_setCal),
     (''IEDMODEL_GenericIO_T60S_FSCH1_StrTm_setCal_occ'', iedModel_GenericIO_T60S_FSCH1_StrTm_setCal_occ),
     (''IEDMODEL_GenericIO_T60S_FSCH1_StrTm_setCal_occType'', iedModel_GenericIO_T60S_FSCH1_StrTm_setCal_occType),
     (''IEDMODEL_GenericIO_T60S_FSCH1_StrTm_setCal_occPer'', iedModel_GenericIO_T60S_FSCH1_StrTm_setCal_occPer),
     (''IEDMODEL_GenericIO_T60S_FSCH1_StrTm_setCal_weekDay'', iedModel_GenericIO_T60S_FSCH1_StrTm_setCal_weekDay),
     (''IEDMODEL_GenericIO_T60S_FSCH1_StrTm_setCal_month'', iedModel_GenericIO_T60S_FSCH1_StrTm_setCal_month),
     (''IEDMODEL_GenericIO_T60S_FSCH1_StrTm_setCal_day'', iedModel_GenericIO_T60S_FSCH1_StrTm_setCal_day),
     (''IEDMODEL_GenericIO_T60S_FSCH1_StrTm_setCal_hr'', iedModel_GenericIO_T60S_FSCH1_StrTm_setCal_hr),
     (''IEDMODEL_GenericIO_T60S_FSCH1_StrTm_setCal_mn'', iedModel_GenericIO_T60S_FSCH1_StrTm_setCal_mn),
     (''IEDMODEL_GenericIO_T60S_FSCH1_IntvPer'', iedModel_GenericIO_T60S_FSCH1_IntvPer),
     (''IEDMODEL_GenericIO_T60S_FSCH1_IntvPer_setVal'', iedModel_GenericIO_T60S_FSCH1_IntvPer_setVal),
     (''IEDMODEL_GenericIO_T60S_FSCH1_IntvTyp'', iedModel_GenericIO_T60S_FSCH1_IntvTyp),
     (''IEDMODEL_GenericIO_T60S_FSCH1_IntvTyp_setVal'', iedModel_GenericIO_T60S_FSCH1_IntvTyp_setVal),
     (''IEDMODEL_GenericIO_T60S_FSCH1_SchdReuse'', iedModel_GenericIO_T60S_FSCH1_SchdReuse),
     (''IEDMODEL_GenericIO_T60S_FSCH1_SchdReuse_setVal'', iedModel_GenericIO_T60S_FSCH1_SchdReuse_setVal)]"

definition gio_declared_20 :: "(c_type \<times> addr) list" where
  "gio_declared_20 =
    [(LogicalNode_t, iedModel_GenericIO_T60S_FSCH2),
     (DataObject_t, iedModel_GenericIO_T60S_FSCH2_Beh),
     (DataAttribute_t, iedModel_GenericIO_T60S_FSCH2_Beh_stVal),
     (DataAttribute_t, iedModel_GenericIO_T60S_FSCH2_Beh_q),
     (DataAttribute_t, iedModel_GenericIO_T60S_FSCH2_Beh_t),
     (DataObject_t, iedModel_GenericIO_T60S_FSCH2_SchdSt),
     (DataAttribute_t, iedModel_GenericIO_T60S_FSCH2_SchdSt_stVal),
     (DataAttribute_t, iedModel_GenericIO_T60S_FSCH2_SchdSt_q),
     (DataAttribute_t, iedModel_GenericIO_T60S_FSCH2_SchdSt_t),
     (DataObject_t, iedModel_GenericIO_T60S_FSCH2_SchdEntr),
     (DataAttribute_t, iedModel_GenericIO_T60S_FSCH2_SchdEntr_stVal),
     (DataAttribute_t, iedModel_GenericIO_T60S_FSCH2_SchdEntr_q),
     (DataAttribute_t, iedModel_GenericIO_T60S_FSCH2_SchdEntr_t),
     (DataObject_t, iedModel_GenericIO_T60S_FSCH2_ValSPS),
     (DataAttribute_t, iedModel_GenericIO_T60S_FSCH2_ValSPS_stVal),
     (DataAttribute_t, iedModel_GenericIO_T60S_FSCH2_ValSPS_q),
     (DataAttribute_t, iedModel_GenericIO_T60S_FSCH2_ValSPS_t),
     (DataObject_t, iedModel_GenericIO_T60S_FSCH2_VldReq),
     (DataAttribute_t, iedModel_GenericIO_T60S_FSCH2_VldReq_stVal),
     (DataAttribute_t, iedModel_GenericIO_T60S_FSCH2_VldReq_q),
     (DataAttribute_t, iedModel_GenericIO_T60S_FSCH2_VldReq_Oper),
     (DataAttribute_t, iedModel_GenericIO_T60S_FSCH2_VldReq_Oper_ctlVal)]"

definition gio_handles_20 :: "(string \<times> addr) list" where
  "gio_handles_20 =
    [(''IEDMODEL_GenericIO_T60S_FSCH2'', iedModel_GenericIO_T60S_FSCH2),
     (''IEDMODEL_GenericIO_T60S_FSCH2_Beh'', iedModel_GenericIO_T60S_FSCH2_Beh),
     (''IEDMODEL_GenericIO_T60S_FSCH2_Beh_stVal'', iedModel_GenericIO_T60S_FSCH2_Beh_stVal),
     (''IEDMODEL_GenericIO_T60S_FSCH2_Beh_q'', iedModel_GenericIO_T60S_FSCH2_Beh_q),
     (''IEDMODEL_GenericIO_T60S_FSCH2_Beh_t'', iedModel_GenericIO_T60S_FSCH2_Beh_t),
     (''IEDMODEL_GenericIO_T60S_FSCH2_SchdSt'', iedModel_GenericIO_T60S_FSCH2_SchdSt),
     (''IEDMODEL_GenericIO_T60S_FSCH2_SchdSt_stVal'', iedModel_GenericIO_T60S_FSCH2_SchdSt_stVal),
     (''IEDMODEL_GenericIO_T60S_FSCH2_SchdSt_q'', iedModel_GenericIO_T60S_FSCH2_SchdSt_q),
     (''IEDMODEL_GenericIO_T60S_FSCH2_SchdSt_t'', iedModel_GenericIO_T60S_FSCH2_SchdSt_t),
     (''IEDMODEL_GenericIO_T60S_FSCH2_SchdEntr'', iedModel_GenericIO_T60S_FSCH2_SchdEntr),
     (''IEDMODEL_GenericIO_T60S_FSCH2_SchdEntr_stVal'', iedModel_GenericIO_T60S_FSCH2_SchdEntr_stVal),
     (''IEDMODEL_GenericIO_T60S_FSCH2_SchdEntr_q'', iedModel_GenericIO_T60S_FSCH2_SchdEntr_q),
     (''IEDMODEL_GenericIO_T60S_FSCH2_SchdEntr_t'', iedModel_GenericIO_T60S_FSCH2_SchdEntr_t),
     (''IEDMODEL_GenericIO_T60S_FSCH2_ValSPS'', iedModel_GenericIO_T60S_FSCH2_ValSPS),
     (''IEDMODEL_GenericIO_T60S_FSCH2_ValSPS_stVal'', iedModel_GenericIO_T60S_FSCH2_ValSPS_stVal),
     (''IEDMODEL_GenericIO_T60S_FSCH2_ValSPS_q'', iedModel_GenericIO_T60S_FSCH2_ValSPS_q),
     (''IEDMODEL_GenericIO_T60S_FSCH2_ValSPS_t'', iedModel_GenericIO_T60S_FSCH2_ValSPS_t),
     (''IEDMODEL_GenericIO_T60S_FSCH2_VldReq'', iedModel_GenericIO_T60S_FSCH2_VldReq),
     (''IEDMODEL_GenericIO_T60S_FSCH2_VldReq_stVal'', iedModel_GenericIO_T60S_FSCH2_VldReq_stVal),
     (''IEDMODEL_GenericIO_T60S_FSCH2_VldReq_q'', iedModel_GenericIO_T60S_FSCH2_VldReq_q),
     (''IEDMODEL_GenericIO_T60S_FSCH2_VldReq_Oper'', iedModel_GenericIO_T60S_FSCH2_VldReq_Oper),
     (''IEDMODEL_GenericIO_T60S_FSCH2_VldReq_Oper_ctlVal'', iedModel_GenericIO_T60S_FSCH2_VldReq_Oper_ctlVal)]"

definition gio_declared_21 :: "(c_type \<times> addr) list" where
  "gio_declared_21 =
    [(DataAttribute_t, iedModel_GenericIO_T60S_FSCH2_VldReq_Oper_origin),
     (DataAttribute_t, iedModel_GenericIO_T60S_FSCH2_VldReq_Oper_origin_orCat),
     (DataAttribute_t, iedModel_GenericIO_T60S_FSCH2_VldReq_Oper_origin_orIdent),
     (DataAttribute_t, iedModel_GenericIO_T60S_FSCH2_VldReq_Oper_ctlNum),
     (DataAttribute_t, iedModel_GenericIO_T60S_FSCH2_VldReq_Oper_T),
     (DataAttribute_t, iedModel_GenericIO_T60S_FSCH2_VldReq_Oper_Test),
     (DataAttribute_t, iedModel_GenericIO_T60S_FSCH2_VldReq_Oper_Check),
     (DataAttribute_t, iedModel_GenericIO_T60S_FSCH2_VldReq_ctlModel),
     (DataAttribute_t, iedModel_GenericIO_T60S_FSCH2_VldReq_t),
     (DataObject_t, iedModel_GenericIO_T60S_FSCH2_EnaReq),
     (DataAttribute_t, iedModel_GenericIO_T60S_FSCH2_EnaReq_stVal),
     (DataAttribute_t, iedModel_GenericIO_T60S_FSCH2_EnaReq_q),
     (DataAttribute_t, iedModel_GenericIO_T60S_FSCH2_EnaReq_Oper),
     (DataAttribute_t, iedModel_GenericIO_T60S_FSCH2_EnaReq_Oper_ctlVal),
     (DataAttribute_t, iedModel_GenericIO_T60S_FSCH2_EnaReq_Oper_origin),
     (DataAttribute_t, iedModel_GenericIO_T60S_FSCH2_EnaReq_Oper_origin_orCat),
     (DataAttribute_t, iedModel_GenericIO_T60S_FSCH2_EnaReq_Oper_origin_orIdent),
     (DataAttribute_t, iedModel_GenericIO_T60S_FSCH2_EnaReq_Oper_ctlNum),
     (DataAttribute_t, iedModel_GenericIO_T60S_FSCH2_EnaReq_Oper_T),
     (DataAttribute_t, iedModel_GenericIO_T60S_FSCH2_EnaReq_Oper_Test)]"

definition gio_handles_21 :: "(string \<times> addr) list" where
  "gio_handles_21 =
    [(''IEDMODEL_GenericIO_T60S_FSCH2_VldReq_Oper_origin'', iedModel_GenericIO_T60S_FSCH2_VldReq_Oper_origin),
     (''IEDMODEL_GenericIO_T60S_FSCH2_VldReq_Oper_origin_orCat'', iedModel_GenericIO_T60S_FSCH2_VldReq_Oper_origin_orCat),
     (''IEDMODEL_GenericIO_T60S_FSCH2_VldReq_Oper_origin_orIdent'', iedModel_GenericIO_T60S_FSCH2_VldReq_Oper_origin_orIdent),
     (''IEDMODEL_GenericIO_T60S_FSCH2_VldReq_Oper_ctlNum'', iedModel_GenericIO_T60S_FSCH2_VldReq_Oper_ctlNum),
     (''IEDMODEL_GenericIO_T60S_FSCH2_VldReq_Oper_T'', iedModel_GenericIO_T60S_FSCH2_VldReq_Oper_T),
     (''IEDMODEL_GenericIO_T60S_FSCH2_VldReq_Oper_Test'', iedModel_GenericIO_T60S_FSCH2_VldReq_Oper_Test),
     (''IEDMODEL_GenericIO_T60S_FSCH2_VldReq_Oper_Check'', iedModel_GenericIO_T60S_FSCH2_VldReq_Oper_Check),
     (''IEDMODEL_GenericIO_T60S_FSCH2_VldReq_ctlModel'', iedModel_GenericIO_T60S_FSCH2_VldReq_ctlModel),
     (''IEDMODEL_GenericIO_T60S_FSCH2_VldReq_t'', iedModel_GenericIO_T60S_FSCH2_VldReq_t),
     (''IEDMODEL_GenericIO_T60S_FSCH2_EnaReq'', iedModel_GenericIO_T60S_FSCH2_EnaReq),
     (''IEDMODEL_GenericIO_T60S_FSCH2_EnaReq_stVal'', iedModel_GenericIO_T60S_FSCH2_EnaReq_stVal),
     (''IEDMODEL_GenericIO_T60S_FSCH2_EnaReq_q'', iedModel_GenericIO_T60S_FSCH2_EnaReq_q),
     (''IEDMODEL_GenericIO_T60S_FSCH2_EnaReq_Oper'', iedModel_GenericIO_T60S_FSCH2_EnaReq_Oper),
     (''IEDMODEL_GenericIO_T60S_FSCH2_EnaReq_Oper_ctlVal'', iedModel_GenericIO_T60S_FSCH2_EnaReq_Oper_ctlVal),
     (''IEDMODEL_GenericIO_T60S_FSCH2_EnaReq_Oper_origin'', iedModel_GenericIO_T60S_FSCH2_EnaReq_Oper_origin),
     (''IEDMODEL_GenericIO_T60S_FSCH2_EnaReq_Oper_origin_orCat'', iedModel_GenericIO_T60S_FSCH2_EnaReq_Oper_origin_orCat),
     (''IEDMODEL_GenericIO_T60S_FSCH2_EnaReq_Oper_origin_orIdent'', iedModel_GenericIO_T60S_FSCH2_EnaReq_Oper_origin_orIdent),
     (''IEDMODEL_GenericIO_T60S_FSCH2_EnaReq_Oper_ctlNum'', iedModel_GenericIO_T60S_FSCH2_EnaReq_Oper_ctlNum),
     (''IEDMODEL_GenericIO_T60S_FSCH2_EnaReq_Oper_T'', iedModel_GenericIO_T60S_FSCH2_EnaReq_Oper_T),
     (''IEDMODEL_GenericIO_T60S_FSCH2_EnaReq_Oper_Test'', iedModel_GenericIO_T60S_FSCH2_EnaReq_Oper_Test)]"

definition gio_declared_22 :: "(c_type \<times> addr) list" where
  "gio_declared_22 =
    [(DataAttribute_t, iedModel_GenericIO_T60S_FSCH2_EnaReq_Oper_Check),
     (DataAttribute_t, iedModel_GenericIO_T60S_FSCH2_EnaReq_ctlModel),
     (DataAttribute_t, iedModel_GenericIO_T60S_FSCH2_EnaReq_t),
     (DataObject_t, iedModel_GenericIO_T60S_FSCH2_EdtReq),
     (DataAttribute_t, iedModel_GenericIO_T60S_FSCH2_EdtReq_stVal),
     (DataAttribute_t, iedModel_GenericIO_T60S_FSCH2_EdtReq_q),
     (DataAttribute_t, iedModel_GenericIO_T60S_FSCH2_EdtReq_Oper),
     (DataAttribute_t, iedModel_GenericIO_T60S_FSCH2_EdtReq_Oper_ctlVal),
     (DataAttribute_t, iedModel_GenericIO_T60S_FSCH2_EdtReq_Oper_origin),
     (DataAttribute_t, iedModel_GenericIO_T60S_FSCH2_EdtReq_Oper_origin_orCat),
     (DataAttribute_t, iedModel_GenericIO_T60S_FSCH2_EdtReq_Oper_origin_orIdent),
     (DataAttribute_t, iedModel_GenericIO_T60S_FSCH2_EdtReq_Oper_ctlNum),
     (DataAttribute_t, iedModel_GenericIO_T60S_FSCH2_EdtReq_Oper_T),
     (DataAttribute_t, iedModel_GenericIO_T60S_FSCH2_EdtReq_Oper_Test),
     (DataAttribute_t, iedModel_GenericIO_T60S_FSCH2_EdtReq_Oper_Check),
     (DataAttribute_t, iedModel_GenericIO_T60S_FSCH2_EdtReq_ctlModel),
     (DataAttribute_t, iedModel_GenericIO_T60S_FSCH2_EdtReq_t),
     (DataObject_t, iedModel_GenericIO_T60S_FSCH2_DsaReq),
     (DataAttribute_t, iedModel_GenericIO_T60S_FSCH2_DsaReq_stVal),
     (DataAttribute_t, iedModel_GenericIO_T60S_FSCH2_DsaReq_q)]"

definition gio_handles_22 :: "(string \<times> addr) list" where
  "gio_handles_22 =
    [(''IEDMODEL_GenericIO_T60S_FSCH2_EnaReq_Oper_Check'', iedModel_GenericIO_T60S_FSCH2_EnaReq_Oper_Check),
     (''IEDMODEL_GenericIO_T60S_FSCH2_EnaReq_ctlModel'', iedModel_GenericIO_T60S_FSCH2_EnaReq_ctlModel),
     (''IEDMODEL_GenericIO_T60S_FSCH2_EnaReq_t'', iedModel_GenericIO_T60S_FSCH2_EnaReq_t),
     (''IEDMODEL_GenericIO_T60S_FSCH2_EdtReq'', iedModel_GenericIO_T60S_FSCH2_EdtReq),
     (''IEDMODEL_GenericIO_T60S_FSCH2_EdtReq_stVal'', iedModel_GenericIO_T60S_FSCH2_EdtReq_stVal),
     (''IEDMODEL_GenericIO_T60S_FSCH2_EdtReq_q'', iedModel_GenericIO_T60S_FSCH2_EdtReq_q),
     (''IEDMODEL_GenericIO_T60S_FSCH2_EdtReq_Oper'', iedModel_GenericIO_T60S_FSCH2_EdtReq_Oper),
     (''IEDMODEL_GenericIO_T60S_FSCH2_EdtReq_Oper_ctlVal'', iedModel_GenericIO_T60S_FSCH2_EdtReq_Oper_ctlVal),
     (''IEDMODEL_GenericIO_T60S_FSCH2_EdtReq_Oper_origin'', iedModel_GenericIO_T60S_FSCH2_EdtReq_Oper_origin),
     (''IEDMODEL_GenericIO_T60S_FSCH2_EdtReq_Oper_origin_orCat'', iedModel_GenericIO_T60S_FSCH2_EdtReq_Oper_origin_orCat),
     (''IEDMODEL_GenericIO_T60S_FSCH2_EdtReq_Oper_origin_orIdent'', iedModel_GenericIO_T60S_FSCH2_EdtReq_Oper_origin_orIdent),
     (''IEDMODEL_GenericIO_T60S_FSCH2_EdtReq_Oper_ctlNum'', iedModel_GenericIO_T60S_FSCH2_EdtReq_Oper_ctlNum),
     (''IEDMODEL_GenericIO_T60S_FSCH2_EdtReq_Oper_T'', iedModel_GenericIO_T60S_FSCH2_EdtReq_Oper_T),
     (''IEDMODEL_GenericIO_T60S_FSCH2_EdtReq_Oper_Test'', iedModel_GenericIO_T60S_FSCH2_EdtReq_Oper_Test),
     (''IEDMODEL_GenericIO_T60S_FSCH2_EdtReq_Oper_Check'', iedModel_GenericIO_T60S_FSCH2_EdtReq_Oper_Check),
     (''IEDMODEL_GenericIO_T60S_FSCH2_EdtReq_ctlModel'', iedModel_GenericIO_T60S_FSCH2_EdtReq_ctlModel),
     (''IEDMODEL_GenericIO_T60S_FSCH2_EdtReq_t'', iedModel_GenericIO_T60S_FSCH2_EdtReq_t),
     (''IEDMODEL_GenericIO_T60S_FSCH2_DsaReq'', iedModel_GenericIO_T60S_FSCH2_DsaReq),
     (''IEDMODEL_GenericIO_T60S_FSCH2_DsaReq_stVal'', iedModel_GenericIO_T60S_FSCH2_DsaReq_stVal),
     (''IEDMODEL_GenericIO_T60S_FSCH2_DsaReq_q'', iedModel_GenericIO_T60S_FSCH2_DsaReq_q)]"

definition gio_declared_23 :: "(c_type \<times> addr) list" where
  "gio_declared_23 =
    [(DataAttribute_t, iedModel_GenericIO_T60S_FSCH2_DsaReq_Oper),
     (DataAttribute_t, iedModel_GenericIO_T60S_FSCH2_DsaReq_Oper_ctlVal),
     (DataAttribute_t, iedModel_GenericIO_T60S_FSCH2_DsaReq_Oper_origin),
     (DataAttribute_t, iedModel_GenericIO_T60S_FSCH2_DsaReq_Oper_origin_orCat),
     (DataAttribute_t, iedModel_GenericIO_T60S_FSCH2_DsaReq_Oper_origin_orIdent),
     (DataAttribute_t, iedModel_GenericIO_T60S_FSCH2_DsaReq_Oper_ctlNum),
     (DataAttribute_t, iedModel_GenericIO_T60S_FSCH2_DsaReq_Oper_T),
     (DataAttribute_t, iedModel_GenericIO_T60S_FSCH2_DsaReq_Oper_Test),
     (DataAttribute_t, iedModel_GenericIO_T60S_FSCH2_DsaReq_Oper_Check),
     (DataAttribute_t, iedModel_GenericIO_T60S_FSCH2_DsaReq_ctlModel),
     (DataAttribute_t, iedModel_GenericIO_T60S_FSCH2_DsaReq_t),
     (DataObject_t, iedModel_GenericIO_T60S_FSCH2_SchdPrio),
     (DataAttribute_t, iedModel_GenericIO_T60S_FSCH2_SchdPrio_setVal),
     (DataObject_t, iedModel_GenericIO_T60S_FSCH2_NumEntr),
     (DataAttribute_t, iedModel_GenericIO_T60S_FSCH2_NumEntr_setVal),
     (DataObject_t, iedModel_GenericIO_T60S_FSCH2_SchdIntv),
     (DataAttribute_t, iedModel_GenericIO_T60S_FSCH2_SchdIntv_setVal),
     (DataObject_t, iedModel_GenericIO_T60S_FSCH2_ValSPG1),
     (DataAttribute_t, iedModel_GenericIO_T60S_FSCH2_ValSPG1_setVal),
     (DataObject_t, iedModel_GenericIO_T60S_FSCH2_ValSPG2),
     (DataAttribute_t, iedModel_GenericIO_T60S_FSCH2_ValSPG2_setVal),
     (DataObject_t, iedModel_GenericIO_T60S_FSCH2_ValSPG3)]"

definition gio_handles_23 :: "(string \<times> addr) list" where
  "gio_handles_23 =
    [(''IEDMODEL_GenericIO_T60S_FSCH2_DsaReq_Oper'', iedModel_GenericIO_T60S_FSCH2_DsaReq_Oper),
     (''IEDMODEL_GenericIO_T60S_FSCH2_DsaReq_Oper_ctlVal'', iedModel_GenericIO_T60S_FSCH2_DsaReq_Oper_ctlVal),
     (''IEDMODEL_GenericIO_T60S_FSCH2_DsaReq_Oper_origin'', iedModel_GenericIO_T60S_FSCH2_DsaReq_Oper_origin),
     (''IEDMODEL_GenericIO_T60S_FSCH2_DsaReq_Oper_origin_orCat'', iedModel_GenericIO_T60S_FSCH2_DsaReq_Oper_origin_orCat),
     (''IEDMODEL_GenericIO_T60S_FSCH2_DsaReq_Oper_origin_orIdent'', iedModel_GenericIO_T60S_FSCH2_DsaReq_Oper_origin_orIdent),
     (''IEDMODEL_GenericIO_T60S_FSCH2_DsaReq_Oper_ctlNum'', iedModel_GenericIO_T60S_FSCH2_DsaReq_Oper_ctlNum),
     (''IEDMODEL_GenericIO_T60S_FSCH2_DsaReq_Oper_T'', iedModel_GenericIO_T60S_FSCH2_DsaReq_Oper_T),
     (''IEDMODEL_GenericIO_T60S_FSCH2_DsaReq_Oper_Test'', iedModel_GenericIO_T60S_FSCH2_DsaReq_Oper_Test),
     (''IEDMODEL_GenericIO_T60S_FSCH2_DsaReq_Oper_Check'', iedModel_GenericIO_T60S_FSCH2_DsaReq_Oper_Check),
     (''IEDMODEL_GenericIO_T60S_FSCH2_DsaReq_ctlModel'', iedModel_GenericIO_T60S_FSCH2_DsaReq_ctlModel),
     (''IEDMODEL_GenericIO_T60S_FSCH2_DsaReq_t'', iedModel_GenericIO_T60S_FSCH2_DsaReq_t),
     (''IEDMODEL_GenericIO_T60S_FSCH2_SchdPrio'', iedModel_GenericIO_T60S_FSCH2_SchdPrio),
     (''IEDMODEL_GenericIO_T60S_FSCH2_SchdPrio_setVal'', iedModel_GenericIO_T60S_FSCH2_SchdPrio_setVal),
     (''IEDMODEL_GenericIO_T60S_FSCH2_NumEntr'', iedModel_GenericIO_T60S_FSCH2_NumEntr),
     (''IEDMODEL_GenericIO_T60S_FSCH2_NumEntr_setVal'', iedModel_GenericIO_T60S_FSCH2_NumEntr_setVal),
     (''IEDMODEL_GenericIO_T60S_FSCH2_SchdIntv'', iedModel_GenericIO_T60S_FSCH2_SchdIntv),
     (''IEDMODEL_GenericIO_T60S_FSCH2_SchdIntv_setVal'', iedModel_GenericIO_T60S_FSCH2_SchdIntv_setVal),
     (''IEDMODEL_GenericIO_T60S_FSCH2_ValSPG1'', iedModel_GenericIO_T60S_FSCH2_ValSPG1),
     (''IEDMODEL_GenericIO_T60S_FSCH2_ValSPG1_setVal'', iedModel_GenericIO_T60S_FSCH2_ValSPG1_setVal),
     (''IEDMODEL_GenericIO_T60S_FSCH2_ValSPG2'', iedModel_GenericIO_T60S_FSCH2_ValSPG2),
     (''IEDMODEL_GenericIO_T60S_FSCH2_ValSPG2_setVal'', iedModel_GenericIO_T60S_FSCH2_ValSPG2_setVal),
     (''IEDMODEL_GenericIO_T60S_FSCH2_ValSPG3'', iedModel_GenericIO_T60S_FSCH2_ValSPG3)]"

definition gio_declared_24 :: "(c_type \<times> addr) list" where
  "gio_declared_24 =
    [(DataAttribute_t, iedModel_GenericIO_T60S_FSCH2_ValSPG3_setVal),
     (DataObject_t, iedModel_GenericIO_T60S_FSCH2_ValSPG4),
     (DataAttribute_t, iedModel_GenericIO_T60S_FSCH2_ValSPG4_setVal),
     (DataObject_t, iedModel_GenericIO_T60S_FSCH2_ValSPG5),
     (DataAttribute_t, iedModel_GenericIO_T60S_FSCH2_ValSPG5_setVal),
     (DataObject_t, iedModel_GenericIO_T60S_FSCH2_ValSPG6),
     (DataAttribute_t, iedModel_GenericIO_T60S_FSCH2_ValSPG6_setVal),
     (DataObject_t, iedModel_GenericIO_T60S_FSCH2_ValSPG7),
     (DataAttribute_t, iedModel_GenericIO_T60S_FSCH2_ValSPG7_setVal),
     (DataObject_t, iedModel_GenericIO_T60S_FSCH2_ValSPG8),
     (DataAttribute_t, iedModel_GenericIO_T60S_FSCH2_ValSPG8_setVal),
     (DataObject_t, iedModel_GenericIO_T60S_FSCH2_ValSPG9),
     (DataAttribute_t, iedModel_GenericIO_T60S_FSCH2_ValSPG9_setVal),
     (DataObject_t, iedModel_GenericIO_T60S_FSCH2_ValSPG10),
     (DataAttribute_t, iedModel_GenericIO_T60S_FSCH2_ValSPG10_setVal),
     (DataObject_t, iedModel_GenericIO_T60S_FSCH2_ValSPG11),
     (DataAttribute_t, iedModel_GenericIO_T60S_FSCH2_ValSPG11_setVal),
     (DataObject_t, iedModel_GenericIO_T60S_FSCH2_ValSPG12),
     (DataAttribute_t, iedModel_GenericIO_T60S_FSCH2_ValSPG12_setVal),
     (DataObject_t, iedModel_GenericIO_T60S_FSCH2_ValSPG13),
     (DataAttribute_t, iedModel_GenericIO_T60S_FSCH2_ValSPG13_setVal),
     (DataObject_t, iedModel_GenericIO_T60S_FSCH2_ValSPG14),
     (DataAttribute_t, iedModel_GenericIO_T60S_FSCH2_ValSPG14_setVal),
     (DataObject_t, iedModel_GenericIO_T60S_FSCH2_ValSPG15)]"

definition gio_handles_24 :: "(string \<times> addr) list" where
  "gio_handles_24 =
    [(''IEDMODEL_GenericIO_T60S_FSCH2_ValSPG3_setVal'', iedModel_GenericIO_T60S_FSCH2_ValSPG3_setVal),
     (''IEDMODEL_GenericIO_T60S_FSCH2_ValSPG4'', iedModel_GenericIO_T60S_FSCH2_ValSPG4),
     (''IEDMODEL_GenericIO_T60S_FSCH2_ValSPG4_setVal'', iedModel_GenericIO_T60S_FSCH2_ValSPG4_setVal),
     (''IEDMODEL_GenericIO_T60S_FSCH2_ValSPG5'', iedModel_GenericIO_T60S_FSCH2_ValSPG5),
     (''IEDMODEL_GenericIO_T60S_FSCH2_ValSPG5_setVal'', iedModel_GenericIO_T60S_FSCH2_ValSPG5_setVal),
     (''IEDMODEL_GenericIO_T60S_FSCH2_ValSPG6'', iedModel_GenericIO_T60S_FSCH2_ValSPG6),
     (''IEDMODEL_GenericIO_T60S_FSCH2_ValSPG6_setVal'', iedModel_GenericIO_T60S_FSCH2_ValSPG6_setVal),
     (''IEDMODEL_GenericIO_T60S_FSCH2_ValSPG7'', iedModel_GenericIO_T60S_FSCH2_ValSPG7),
     (''IEDMODEL_GenericIO_T60S_FSCH2_ValSPG7_setVal'', iedModel_GenericIO_T60S_FSCH2_ValSPG7_setVal),
     (''IEDMODEL_GenericIO_T60S_FSCH2_ValSPG8'', iedModel_GenericIO_T60S_FSCH2_ValSPG8),
     (''IEDMODEL_GenericIO_T60S_FSCH2_ValSPG8_setVal'', iedModel_GenericIO_T60S_FSCH2_ValSPG8_setVal),
     (''IEDMODEL_GenericIO_T60S_FSCH2_ValSPG9'', iedModel_GenericIO_T60S_FSCH2_ValSPG9),
     (''IEDMODEL_GenericIO_T60S_FSCH2_ValSPG9_setVal'', iedModel_GenericIO_T60S_FSCH2_ValSPG9_setVal),
     (''IEDMODEL_GenericIO_T60S_FSCH2_ValSPG10'', iedModel_GenericIO_T60S_FSCH2_ValSPG10),
     (''IEDMODEL_GenericIO_T60S_FSCH2_ValSPG10_setVal'', iedModel_GenericIO_T60S_FSCH2_ValSPG10_setVal),
     (''IEDMODEL_GenericIO_T60S_FSCH2_ValSPG11'', iedModel_GenericIO_T60S_FSCH2_ValSPG11),
     (''IEDMODEL_GenericIO_T60S_FSCH2_ValSPG11_setVal'', iedModel_GenericIO_T60S_FSCH2_ValSPG11_setVal),
     (''IEDMODEL_GenericIO_T60S_FSCH2_ValSPG12'', iedModel_GenericIO_T60S_FSCH2_ValSPG12),
     (''IEDMODEL_GenericIO_T60S_FSCH2_ValSPG12_setVal'', iedModel_GenericIO_T60S_FSCH2_ValSPG12_setVal),
     (''IEDMODEL_GenericIO_T60S_FSCH2_ValSPG13'', iedModel_GenericIO_T60S_FSCH2_ValSPG13),
     (''IEDMODEL_GenericIO_T60S_FSCH2_ValSPG13_setVal'', iedModel_GenericIO_T60S_FSCH2_ValSPG13_setVal),
     (''IEDMODEL_GenericIO_T60S_FSCH2_ValSPG14'', iedModel_GenericIO_T60S_FSCH2_ValSPG14),
     (''IEDMODEL_GenericIO_T60S_FSCH2_ValSPG14_setVal'', iedModel_GenericIO_T60S_FSCH2_ValSPG14_setVal),
     (''IEDMODEL_GenericIO_T60S_FSCH2_ValSPG15'', iedModel_GenericIO_T60S_FSCH2_ValSPG15)]"

definition gio_declared_25 :: "(c_type \<times> addr) list" where
  "gio_declared_25 =
    [(DataAttribute_t, iedModel_GenericIO_T60S_FSCH2_ValSPG15_setVal),
     (DataObject_t, iedModel_GenericIO_T60S_FSCH2_ValSPG16),
     (DataAttribute_t, iedModel_GenericIO_T60S_FSCH2_ValSPG16_setVal),
     (DataObject_t, iedModel_GenericIO_T60S_FSCH2_ValSPG17),
     (DataAttribute_t, iedModel_GenericIO_T60S_FSCH2_ValSPG17_setVal),
     (DataObject_t, iedModel_GenericIO_T60S_FSCH2_ValSPG18),
     (DataAttribute_t, iedModel_GenericIO_T60S_FSCH2_ValSPG18_setVal),
     (DataObject_t, iedModel_GenericIO_T60S_FSCH2_ValSPG19),
     (DataAttribute_t, iedModel_GenericIO_T60S_FSCH2_ValSPG19_setVal),
     (DataObject_t, iedModel_GenericIO_T60S_FSCH2_ValSPG20),
     (DataAttribute_t, iedModel_GenericIO_T60S_FSCH2_ValSPG20_setVal),
     (DataObject_t, iedModel_GenericIO_T60S_FSCH2_ValSPG21),
     (DataAttribute_t, iedModel_GenericIO_T60S_FSCH2_ValSPG21_setVal),
     (DataObject_t, iedModel_GenericIO_T60S_FSCH2_ValSPG22),
     (DataAttribute_t, iedModel_GenericIO_T60S_FSCH2_ValSPG22_setVal),
     (DataObject_t, iedModel_GenericIO_T60S_FSCH2_ValSPG23),
     (DataAttribute_t, iedModel_GenericIO_T60S_FSCH2_ValSPG23_setVal),
     (DataObject_t, iedModel_GenericIO_T60S_FSCH2_ValSPG24),
     (DataAttribute_t, iedModel_GenericIO_T60S_FSCH2_ValSPG24_setVal),
     (DataObject_t, iedModel_GenericIO_T60S_FSCH2_ValSPG25),
     (DataAttribute_t, iedModel_GenericIO_T60S_FSCH2_ValSPG25_setVal),
     (DataObject_t, iedModel_GenericIO_T60S_FSCH2_ValSPG26),
     (DataAttribute_t, iedModel_GenericIO_T60S_FSCH2_ValSPG26_setVal),
     (DataObject_t, iedModel_GenericIO_T60S_FSCH2_ValSPG27)]"

definition gio_handles_25 :: "(string \<times> addr) list" where
  "gio_handles_25 =
    [(''IEDMODEL_GenericIO_T60S_FSCH2_ValSPG15_setVal'', iedModel_GenericIO_T60S_FSCH2_ValSPG15_setVal),
     (''IEDMODEL_GenericIO_T60S_FSCH2_ValSPG16'', iedModel_GenericIO_T60S_FSCH2_ValSPG16),
     (''IEDMODEL_GenericIO_T60S_FSCH2_ValSPG16_setVal'', iedModel_GenericIO_T60S_FSCH2_ValSPG16_setVal),
     (''IEDMODEL_GenericIO_T60S_FSCH2_ValSPG17'', iedModel_GenericIO_T60S_FSCH2_ValSPG17),
     (''IEDMODEL_GenericIO_T60S_FSCH2_ValSPG17_setVal'', iedModel_GenericIO_T60S_FSCH2_ValSPG17_setVal),
     (''IEDMODEL_GenericIO_T60S_FSCH2_ValSPG18'', iedModel_GenericIO_T60S_FSCH2_ValSPG18),
     (''IEDMODEL_GenericIO_T60S_FSCH2_ValSPG18_setVal'', iedModel_GenericIO_T60S_FSCH2_ValSPG18_setVal),
     (''IEDMODEL_GenericIO_T60S_FSCH2_ValSPG19'', iedModel_GenericIO_T60S_FSCH2_ValSPG19),
     (''IEDMODEL_GenericIO_T60S_FSCH2_ValSPG19_setVal'', iedModel_GenericIO_T60S_FSCH2_ValSPG19_setVal),
     (''IEDMODEL_GenericIO_T60S_FSCH2_ValSPG20'', iedModel_GenericIO_T60S_FSCH2_ValSPG20),
     (''IEDMODEL_GenericIO_T60S_FSCH2_ValSPG20_setVal'', iedModel_GenericIO_T60S_FSCH2_ValSPG20_setVal),
     (''IEDMODEL_GenericIO_T60S_FSCH2_ValSPG21'', iedModel_GenericIO_T60S_FSCH2_ValSPG21),
     (''IEDMODEL_GenericIO_T60S_FSCH2_ValSPG21_setVal'', iedModel_GenericIO_T60S_FSCH2_ValSPG21_setVal),
     (''IEDMODEL_GenericIO_T60S_FSCH2_ValSPG22'', iedModel_GenericIO_T60S_FSCH2_ValSPG22),
     (''IEDMODEL_GenericIO_T60S_FSCH2_ValSPG22_setVal'', iedModel_GenericIO_T60S_FSCH2_ValSPG22_setVal),
     (''IEDMODEL_GenericIO_T60S_FSCH2_ValSPG23'', iedModel_GenericIO_T60S_FSCH2_ValSPG23),
     (''IEDMODEL_GenericIO_T60S_FSCH2_ValSPG23_setVal'', iedModel_GenericIO_T60S_FSCH2_ValSPG23_setVal),
     (''IEDMODEL_GenericIO_T60S_FSCH2_ValSPG24'', iedModel_GenericIO_T60S_FSCH2_ValSPG24),
     (''IEDMODEL_GenericIO_T60S_FSCH2_ValSPG24_setVal'', iedModel_GenericIO_T60S_FSCH2_ValSPG24_setVal),
     (''IEDMODEL_GenericIO_T60S_FSCH2_ValSPG25'', iedModel_GenericIO_T60S_FSCH2_ValSPG25),
     (''IEDMODEL_GenericIO_T60S_FSCH2_ValSPG25_setVal'', iedModel_GenericIO_T60S_FSCH2_ValSPG25_setVal),
     (''IEDMODEL_GenericIO_T60S_FSCH2_ValSPG26'', iedModel_GenericIO_T60S_FSCH2_ValSPG26),
     (''IEDMODEL_GenericIO_T60S_FSCH2_ValSPG26_setVal'', iedModel_GenericIO_T60S_FSCH2_ValSPG26_setVal),
     (''IEDMODEL_GenericIO_T60S_FSCH2_ValSPG27'', iedModel_GenericIO_T60S_FSCH2_ValSPG27)]"

definition gio_declared_26 :: "(c_type \<times> addr) list" where
  "gio_declared_26 =
    [(DataAttribute_t, iedModel_GenericIO_T60S_FSCH2_ValSPG27_setVal),
     (DataObject_t, iedModel_GenericIO_T60S_FSCH2_ValSPG28),
     (DataAttribute_t, iedModel_GenericIO_T60S_FSCH2_ValSPG28_setVal),
     (DataObject_t, iedModel_GenericIO_T60S_FSCH2_ValSPG29),
     (DataAttribute_t, iedModel_GenericIO_T60S_FSCH2_ValSPG29_setVal),
     (DataObject_t, iedModel_GenericIO_T60S_FSCH2_ValSPG30),
     (DataAttribute_t, iedModel_GenericIO_T60S_FSCH2_ValSPG30_setVal),
     (DataObject_t, iedModel_GenericIO_T60S_FSCH2_ValSPG31),
     (DataAttribute_t, iedModel_GenericIO_T60S_FSCH2_ValSPG31_setVal),
     (DataObject_t, iedModel_GenericIO_T60S_FSCH2_ValSPG32),
     (DataAttribute_t, iedModel_GenericIO_T60S_FSCH2_ValSPG32_setVal),
     (DataObject_t, iedModel_GenericIO_T60S_FSCH2_ValSPG33),
     (DataAttribute_t, iedModel_GenericIO_T60S_FSCH2_ValSPG33_setVal),
     (DataObject_t, iedModel_GenericIO_T60S_FSCH2_ValSPG34),
     (DataAttribute_t, iedModel_GenericIO_T60S_FSCH2_ValSPG34_setVal),
     (DataObject_t, iedModel_GenericIO_T60S_FSCH2_ValSPG35),
     (DataAttribute_t, iedModel_GenericIO_T60S_FSCH2_ValSPG35_setVal),
     (DataObject_t, iedModel_GenericIO_T60S_FSCH2_ValSPG36),
     (DataAttribute_t, iedModel_GenericIO_T60S_FSCH2_ValSPG36_setVal),
     (DataObject_t, iedModel_GenericIO_T60S_FSCH2_ValSPG37),
     (DataAttribute_t, iedModel_GenericIO_T60S_FSCH2_ValSPG37_setVal),
     (DataObject_t, iedModel_GenericIO_T60S_FSCH2_ValSPG38),
     (DataAttribute_t, iedModel_GenericIO_T60S_FSCH2_ValSPG38_setVal),
     (DataObject_t, iedModel_GenericIO_T60S_FSCH2_ValSPG39)]"

definition gio_handles_26 :: "(string \<times> addr) list" where
  "gio_handles_26 =
    [(''IEDMODEL_GenericIO_T60S_FSCH2_ValSPG27_setVal'', iedModel_GenericIO_T60S_FSCH2_ValSPG27_setVal),
     (''IEDMODEL_GenericIO_T60S_FSCH2_ValSPG28'', iedModel_GenericIO_T60S_FSCH2_ValSPG28),
     (''IEDMODEL_GenericIO_T60S_FSCH2_ValSPG28_setVal'', iedModel_GenericIO_T60S_FSCH2_ValSPG28_setVal),
     (''IEDMODEL_GenericIO_T60S_FSCH2_ValSPG29'', iedModel_GenericIO_T60S_FSCH2_ValSPG29),
     (''IEDMODEL_GenericIO_T60S_FSCH2_ValSPG29_setVal'', iedModel_GenericIO_T60S_FSCH2_ValSPG29_setVal),
     (''IEDMODEL_GenericIO_T60S_FSCH2_ValSPG30'', iedModel_GenericIO_T60S_FSCH2_ValSPG30),
     (''IEDMODEL_GenericIO_T60S_FSCH2_ValSPG30_setVal'', iedModel_GenericIO_T60S_FSCH2_ValSPG30_setVal),
     (''IEDMODEL_GenericIO_T60S_FSCH2_ValSPG31'', iedModel_GenericIO_T60S_FSCH2_ValSPG31),
     (''IEDMODEL_GenericIO_T60S_FSCH2_ValSPG31_setVal'', iedModel_GenericIO_T60S_FSCH2_ValSPG31_setVal),
     (''IEDMODEL_GenericIO_T60S_FSCH2_ValSPG32'', iedModel_GenericIO_T60S_FSCH2_ValSPG32),
     (''IEDMODEL_GenericIO_T60S_FSCH2_ValSPG32_setVal'', iedModel_GenericIO_T60S_FSCH2_ValSPG32_setVal),
     (''IEDMODEL_GenericIO_T60S_FSCH2_ValSPG33'', iedModel_GenericIO_T60S_FSCH2_ValSPG33),
     (''IEDMODEL_GenericIO_T60S_FSCH2_ValSPG33_setVal'', iedModel_GenericIO_T60S_FSCH2_ValSPG33_setVal),
     (''IEDMODEL_GenericIO_T60S_FSCH2_ValSPG34'', iedModel_GenericIO_T60S_FSCH2_ValSPG34),
     (''IEDMODEL_GenericIO_T60S_FSCH2_ValSPG34_setVal'', iedModel_GenericIO_T60S_FSCH2_ValSPG34_setVal),
     (''IEDMODEL_GenericIO_T60S_FSCH2_ValSPG35'', iedModel_GenericIO_T60S_FSCH2_ValSPG35),
     (''IEDMODEL_GenericIO_T60S_FSCH2_ValSPG35_setVal'', iedModel_GenericIO_T60S_FSCH2_ValSPG35_setVal),
     (''IEDMODEL_GenericIO_T60S_FSCH2_ValSPG36'', iedModel_GenericIO_T60S_FSCH2_ValSPG36),
     (''IEDMODEL_GenericIO_T60S_FSCH2_ValSPG36_setVal'', iedModel_GenericIO_T60S_FSCH2_ValSPG36_setVal),
     (''IEDMODEL_GenericIO_T60S_FSCH2_ValSPG37'', iedModel_GenericIO_T60S_FSCH2_ValSPG37),
     (''IEDMODEL_GenericIO_T60S_FSCH2_ValSPG37_setVal'', iedModel_GenericIO_T60S_FSCH2_ValSPG37_setVal),
     (''IEDMODEL_GenericIO_T60S_FSCH2_ValSPG38'', iedModel_GenericIO_T60S_FSCH2_ValSPG38),
     (''IEDMODEL_GenericIO_T60S_FSCH2_ValSPG38_setVal'', iedModel_GenericIO_T60S_FSCH2_ValSPG38_setVal),
     (''IEDMODEL_GenericIO_T60S_FSCH2_ValSPG39'', iedModel_GenericIO_T60S_FSCH2_ValSPG39)]"

definition gio_declared_27 :: "(c_type \<times> addr) list" where
  "gio_declared_27 =
    [(DataAttribute_t, iedModel_GenericIO_T60S_FSCH2_ValSPG39_setVal),
     (DataObject_t, iedModel_GenericIO_T60S_FSCH2_ValSPG40),
     (DataAttribute_t, iedModel_GenericIO_T60S_FSCH2_ValSPG40_setVal),
     (DataObject_t, iedModel_GenericIO_T60S_FSCH2_ValSPG41),
     (DataAttribute_t, iedModel_GenericIO_T60S_FSCH2_ValSPG41_setVal),
     (DataObject_t, iedModel_GenericIO_T60S_FSCH2_ValSPG42),
     (DataAttribute_t, iedModel_GenericIO_T60S_FSCH2_ValSPG42_setVal),
     (DataObject_t, iedModel_GenericIO_T60S_FSCH2_ValSPG43),
     (DataAttribute_t, iedModel_GenericIO_T60S_FSCH2_ValSPG43_setVal),
     (DataObject_t, iedModel_GenericIO_T60S_FSCH2_ValSPG44),
     (DataAttribute_t, iedModel_GenericIO_T60S_FSCH2_ValSPG44_setVal),
     (DataObject_t, iedModel_GenericIO_T60S_FSCH2_ValSPG45),
     (DataAttribute_t, iedModel_GenericIO_T60S_FSCH2_ValSPG45_setVal),
     (DataObject_t, iedModel_GenericIO_T60S_FSCH2_ValSPG46),
     (DataAttribute_t, iedModel_GenericIO_T60S_FSCH2_ValSPG46_setVal),
     (DataObject_t, iedModel_GenericIO_T60S_FSCH2_ValSPG47),
     (DataAttribute_t, iedModel_GenericIO_T60S_FSCH2_ValSPG47_setVal),
     (DataObject_t, iedModel_GenericIO_T60S_FSCH2_ValSPG48),
     (DataAttribute_t, iedModel_GenericIO_T60S_FSCH2_ValSPG48_setVal),
     (DataObject_t, iedModel_GenericIO_T60S_FSCH2_ValSPG49),
     (DataAttribute_t, iedModel_GenericIO_T60S_FSCH2_ValSPG49_setVal),
     (DataObject_t, iedModel_GenericIO_T60S_FSCH2_ValSPG50),
     (DataAttribute_t, iedModel_GenericIO_T60S_FSCH2_ValSPG50_setVal),
     (DataObject_t, iedModel_GenericIO_T60S_FSCH2_ValSPG51)]"

definition gio_handles_27 :: "(string \<times> addr) list" where
  "gio_handles_27 =
    [(''IEDMODEL_GenericIO_T60S_FSCH2_ValSPG39_setVal'', iedModel_GenericIO_T60S_FSCH2_ValSPG39_setVal),
     (''IEDMODEL_GenericIO_T60S_FSCH2_ValSPG40'', iedModel_GenericIO_T60S_FSCH2_ValSPG40),
     (''IEDMODEL_GenericIO_T60S_FSCH2_ValSPG40_setVal'', iedModel_GenericIO_T60S_FSCH2_ValSPG40_setVal),
     (''IEDMODEL_GenericIO_T60S_FSCH2_ValSPG41'', iedModel_GenericIO_T60S_FSCH2_ValSPG41),
     (''IEDMODEL_GenericIO_T60S_FSCH2_ValSPG41_setVal'', iedModel_GenericIO_T60S_FSCH2_ValSPG41_setVal),
     (''IEDMODEL_GenericIO_T60S_FSCH2_ValSPG42'', iedModel_GenericIO_T60S_FSCH2_ValSPG42),
     (''IEDMODEL_GenericIO_T60S_FSCH2_ValSPG42_setVal'', iedModel_GenericIO_T60S_FSCH2_ValSPG42_setVal),
     (''IEDMODEL_GenericIO_T60S_FSCH2_ValSPG43'', iedModel_GenericIO_T60S_FSCH2_ValSPG43),
     (''IEDMODEL_GenericIO_T60S_FSCH2_ValSPG43_setVal'', iedModel_GenericIO_T60S_FSCH2_ValSPG43_setVal),
     (''IEDMODEL_GenericIO_T60S_FSCH2_ValSPG44'', iedModel_GenericIO_T60S_FSCH2_ValSPG44),
     (''IEDMODEL_GenericIO_T60S_FSCH2_ValSPG44_setVal'', iedModel_GenericIO_T60S_FSCH2_ValSPG44_setVal),
     (''IEDMODEL_GenericIO_T60S_FSCH2_ValSPG45'', iedModel_GenericIO_T60S_FSCH2_ValSPG45),
     (''IEDMODEL_GenericIO_T60S_FSCH2_ValSPG45_setVal'', iedModel_GenericIO_T60S_FSCH2_ValSPG45_setVal),
     (''IEDMODEL_GenericIO_T60S_FSCH2_ValSPG46'', iedModel_GenericIO_T60S_FSCH2_ValSPG46),
     (''IEDMODEL_GenericIO_T60S_FSCH2_ValSPG46_setVal'', iedModel_GenericIO_T60S_FSCH2_ValSPG46_setVal),
     (''IEDMODEL_GenericIO_T60S_FSCH2_ValSPG47'', iedModel_GenericIO_T60S_FSCH2_ValSPG47),
     (''IEDMODEL_GenericIO_T60S_FSCH2_ValSPG47_setVal'', iedModel_GenericIO_T60S_FSCH2_ValSPG47_setVal),
     (''IEDMODEL_GenericIO_T60S_FSCH2_ValSPG48'', iedModel_GenericIO_T60S_FSCH2_ValSPG48),
     (''IEDMODEL_GenericIO_T60S_FSCH2_ValSPG48_setVal'', iedModel_GenericIO_T60S_FSCH2_ValSPG48_setVal),
     (''IEDMODEL_GenericIO_T60S_FSCH2_ValSPG49'', iedModel_GenericIO_T60S_FSCH2_ValSPG49),
     (''IEDMODEL_GenericIO_T60S_FSCH2_ValSPG49_setVal'', iedModel_GenericIO_T60S_FSCH2_ValSPG49_setVal),
     (''IEDMODEL_GenericIO_T60S_FSCH2_ValSPG50'', iedModel_GenericIO_T60S_FSCH2_ValSPG50),
     (''IEDMODEL_GenericIO_T60S_FSCH2_ValSPG50_setVal'', iedModel_GenericIO_T60S_FSCH2_ValSPG50_setVal),
     (''IEDMODEL_GenericIO_T60S_FSCH2_ValSPG51'', iedModel_GenericIO_T60S_FSCH2_ValSPG51)]"

definition gio_declared_28 :: "(c_type \<times> addr) list" where
  "gio_declared_28 =
    [(DataAttribute_t, iedModel_GenericIO_T60S_FSCH2_ValSPG51_setVal),
     (DataObject_t, iedModel_GenericIO_T60S_FSCH2_ValSPG52),
     (DataAttribute_t, iedModel_GenericIO_T60S_FSCH2_ValSPG52_setVal),
     (DataObject_t, iedModel_GenericIO_T60S_FSCH2_ValSPG53),
     (DataAttribute_t, iedModel_GenericIO_T60S_FSCH2_ValSPG53_setVal),
     (DataObject_t, iedModel_GenericIO_T60S_FSCH2_ValSPG54),
     (DataAttribute_t, iedModel_GenericIO_T60S_FSCH2_ValSPG54_setVal),
     (DataObject_t, iedModel_GenericIO_T60S_FSCH2_ValSPG55),
     (DataAttribute_t, iedModel_GenericIO_T60S_FSCH2_ValSPG55_setVal),
     (DataObject_t, iedModel_GenericIO_T60S_FSCH2_ValSPG56),
     (DataAttribute_t, iedModel_GenericIO_T60S_FSCH2_ValSPG56_setVal),
     (DataObject_t, iedModel_GenericIO_T60S_FSCH2_ValSPG57),
     (DataAttribute_t, iedModel_GenericIO_T60S_FSCH2_ValSPG57_setVal),
     (DataObject_t, iedModel_GenericIO_T60S_FSCH2_ValSPG58),
     (DataAttribute_t, iedModel_GenericIO_T60S_FSCH2_ValSPG58_setVal),
     (DataObject_t, iedModel_GenericIO_T60S_FSCH2_ValSPG59),
     (DataAttribute_t, iedModel_GenericIO_T60S_FSCH2_ValSPG59_setVal),
     (DataObject_t, iedModel_GenericIO_T60S_FSCH2_ValSPG60),
     (DataAttribute_t, iedModel_GenericIO_T60S_FSCH2_ValSPG60_setVal),
     (DataObject_t, iedModel_GenericIO_T60S_FSCH2_StrTm),
     (DataAttribute_t, iedModel_GenericIO_T60S_FSCH2_StrTm_setTm),
     (DataAttribute_t, iedModel_GenericIO_T60S_FSCH2_StrTm_setCal),
     (DataAttribute_t, iedModel_GenericIO_T60S_FSCH2_StrTm_setCal_occ)]"

definition gio_handles_28 :: "(string \<times> addr) list" where
  "gio_handles_28 =
    [(''IEDMODEL_GenericIO_T60S_FSCH2_ValSPG51_setVal'', iedModel_GenericIO_T60S_FSCH2_ValSPG51_setVal),
     (''IEDMODEL_GenericIO_T60S_FSCH2_ValSPG52'', iedModel_GenericIO_T60S_FSCH2_ValSPG52),
     (''IEDMODEL_GenericIO_T60S_FSCH2_ValSPG52_setVal'', iedModel_GenericIO_T60S_FSCH2_ValSPG52_setVal),
     (''IEDMODEL_GenericIO_T60S_FSCH2_ValSPG53'', iedModel_GenericIO_T60S_FSCH2_ValSPG53),
     (''IEDMODEL_GenericIO_T60S_FSCH2_ValSPG53_setVal'', iedModel_GenericIO_T60S_FSCH2_ValSPG53_setVal),
     (''IEDMODEL_GenericIO_T60S_FSCH2_ValSPG54'', iedModel_GenericIO_T60S_FSCH2_ValSPG54),
     (''IEDMODEL_GenericIO_T60S_FSCH2_ValSPG54_setVal'', iedModel_GenericIO_T60S_FSCH2_ValSPG54_setVal),
     (''IEDMODEL_GenericIO_T60S_FSCH2_ValSPG55'', iedModel_GenericIO_T60S_FSCH2_ValSPG55),
     (''IEDMODEL_GenericIO_T60S_FSCH2_ValSPG55_setVal'', iedModel_GenericIO_T60S_FSCH2_ValSPG55_setVal),
     (''IEDMODEL_GenericIO_T60S_FSCH2_ValSPG56'', iedModel_GenericIO_T60S_FSCH2_ValSPG56),
     (''IEDMODEL_GenericIO_T60S_FSCH2_ValSPG56_setVal'', iedModel_GenericIO_T60S_FSCH2_ValSPG56_setVal),
     (''IEDMODEL_GenericIO_T60S_FSCH2_ValSPG57'', iedModel_GenericIO_T60S_FSCH2_ValSPG57),
     (''IEDMODEL_GenericIO_T60S_FSCH2_ValSPG57_setVal'', iedModel_GenericIO_T60S_FSCH2_ValSPG57_setVal),
     (''IEDMODEL_GenericIO_T60S_FSCH2_ValSPG58'', iedModel_GenericIO_T60S_FSCH2_ValSPG58),
     (''IEDMODEL_GenericIO_T60S_FSCH2_ValSPG58_setVal'', iedModel_GenericIO_T60S_FSCH2_ValSPG58_setVal),
     (''IEDMODEL_GenericIO_T60S_FSCH2_ValSPG59'', iedModel_GenericIO_T60S_FSCH2_ValSPG59),
     (''IEDMODEL_GenericIO_T60S_FSCH2_ValSPG59_setVal'', iedModel_GenericIO_T60S_FSCH2_ValSPG59_setVal),
     (''IEDMODEL_GenericIO_T60S_FSCH2_ValSPG60'', iedModel_GenericIO_T60S_FSCH2_ValSPG60),
     (''IEDMODEL_GenericIO_T60S_FSCH2_ValSPG60_setVal'', iedModel_GenericIO_T60S_FSCH2_ValSPG60_setVal),
     (''IEDMODEL_GenericIO_T60S_FSCH2_StrTm'', iedModel_GenericIO_T60S_FSCH2_StrTm),
     (''IEDMODEL_GenericIO_T60S_FSCH2_StrTm_setTm'', iedModel_GenericIO_T60S_FSCH2_StrTm_setTm),
     (''IEDMODEL_GenericIO_T60S_FSCH2_StrTm_setCal'', iedModel_GenericIO_T60S_FSCH2_StrTm_setCal),
     (''IEDMODEL_GenericIO_T60S_FSCH2_StrTm_setCal_occ'', iedModel_GenericIO_T60S_FSCH2_StrTm_setCal_occ)]"

definition gio_declared_29 :: "(c_type \<times> addr) list" where
  "gio_declared_29 =
    [(DataAttribute_t, iedModel_GenericIO_T60S_FSCH2_StrTm_setCal_occType),
     (DataAttribute_t, iedModel_GenericIO_T60S_FSCH2_StrTm_setCal_occPer),
     (DataAttribute_t, iedModel_GenericIO_T60S_FSCH2_StrTm_setCal_weekDay),
     (DataAttribute_t, iedModel_GenericIO_T60S_FSCH2_StrTm_setCal_month),
     (DataAttribute_t, iedModel_GenericIO_T60S_FSCH2_StrTm_setCal_day),
     (DataAttribute_t, iedModel_GenericIO_T60S_FSCH2_StrTm_setCal_hr),
     (DataAttribute_t, iedModel_GenericIO_T60S_FSCH2_StrTm_setCal_mn),
     (DataObject_t, iedModel_GenericIO_T60S_FSCH2_IntvPer),
     (DataAttribute_t, iedModel_GenericIO_T60S_FSCH2_IntvPer_setVal),
     (DataObject_t, iedModel_GenericIO_T60S_FSCH2_IntvTyp),
     (DataAttribute_t, iedModel_GenericIO_T60S_FSCH2_IntvTyp_setVal),
     (DataObject_t, iedModel_GenericIO_T60S_FSCH2_SchdReuse),
     (DataAttribute_t, iedModel_GenericIO_T60S_FSCH2_SchdReuse_setVal)]"

definition gio_handles_29 :: "(string \<times> addr) list" where
  "gio_handles_29 =
    [(''IEDMODEL_GenericIO_T60S_FSCH2_StrTm_setCal_occType'', iedModel_GenericIO_T60S_FSCH2_StrTm_setCal_occType),
     (''IEDMODEL_GenericIO_T60S_FSCH2_StrTm_setCal_occPer'', iedModel_GenericIO_T60S_FSCH2_StrTm_setCal_occPer),
     (''IEDMODEL_GenericIO_T60S_FSCH2_StrTm_setCal_weekDay'', iedModel_GenericIO_T60S_FSCH2_StrTm_setCal_weekDay),
     (''IEDMODEL_GenericIO_T60S_FSCH2_StrTm_setCal_month'', iedModel_GenericIO_T60S_FSCH2_StrTm_setCal_month),
     (''IEDMODEL_GenericIO_T60S_FSCH2_StrTm_setCal_day'', iedModel_GenericIO_T60S_FSCH2_StrTm_setCal_day),
     (''IEDMODEL_GenericIO_T60S_FSCH2_StrTm_setCal_hr'', iedModel_GenericIO_T60S_FSCH2_StrTm_setCal_hr),
     (''IEDMODEL_GenericIO_T60S_FSCH2_StrTm_setCal_mn'', iedModel_GenericIO_T60S_FSCH2_StrTm_setCal_mn),
     (''IEDMODEL_GenericIO_T60S_FSCH2_IntvPer'', iedModel_GenericIO_T60S_FSCH2_IntvPer),
     (''IEDMODEL_GenericIO_T60S_FSCH2_IntvPer_setVal'', iedModel_GenericIO_T60S_FSCH2_IntvPer_setVal),
     (''IEDMODEL_GenericIO_T60S_FSCH2_IntvTyp'', iedModel_GenericIO_T60S_FSCH2_IntvTyp),
     (''IEDMODEL_GenericIO_T60S_FSCH2_IntvTyp_setVal'', iedModel_GenericIO_T60S_FSCH2_IntvTyp_setVal),
     (''IEDMODEL_GenericIO_T60S_FSCH2_SchdReuse'', iedModel_GenericIO_T60S_FSCH2_SchdReuse),
     (''IEDMODEL_GenericIO_T60S_FSCH2_SchdReuse_setVal'', iedModel_GenericIO_T60S_FSCH2_SchdReuse_setVal)]"

definition gio_declared_30 :: "(c_type \<times> addr) list" where
  "gio_declared_30 =
    [(LogicalNode_t, iedModel_GenericIO_GGIO_FSCC1),
     (DataObject_t, iedModel_GenericIO_GGIO_FSCC1_Beh),
     (DataAttribute_t, iedModel_GenericIO_GGIO_FSCC1_Beh_stVal),
     (DataAttribute_t, iedModel_GenericIO_GGIO_FSCC1_Beh_q),
     (DataAttribute_t, iedModel_GenericIO_GGIO_FSCC1_Beh_t),
     (DataObject_t, iedModel_GenericIO_GGIO_FSCC1_ActSchdRef),
     (DataAttribute_t, iedModel_GenericIO_GGIO_FSCC1_ActSchdRef_stVal),
     (DataAttribute_t, iedModel_GenericIO_GGIO_FSCC1_ActSchdRef_q),
     (DataAttribute_t, iedModel_GenericIO_GGIO_FSCC1_ActSchdRef_t),
     (DataObject_t, iedModel_GenericIO_GGIO_FSCC1_CtlEnt),
     (DataAttribute_t, iedModel_GenericIO_GGIO_FSCC1_CtlEnt_setSrcRef),
     (DataObject_t, iedModel_GenericIO_GGIO_FSCC1_Schd1),
     (DataAttribute_t, iedModel_GenericIO_GGIO_FSCC1_Schd1_setSrcRef),
     (DataObject_t, iedModel_GenericIO_GGIO_FSCC1_Schd2),
     (DataAttribute_t, iedModel_GenericIO_GGIO_FSCC1_Schd2_setSrcRef)]"

definition gio_handles_30 :: "(string \<times> addr) list" where
  "gio_handles_30 =
    [(''IEDMODEL_GenericIO_GGIO_FSCC1'', iedModel_GenericIO_GGIO_FSCC1),
     (''IEDMODEL_GenericIO_GGIO_FSCC1_Beh'', iedModel_GenericIO_GGIO_FSCC1_Beh),
     (''IEDMODEL_GenericIO_GGIO_FSCC1_Beh_stVal'', iedModel_GenericIO_GGIO_FSCC1_Beh_stVal),
     (''IEDMODEL_GenericIO_GGIO_FSCC1_Beh_q'', iedModel_GenericIO_GGIO_FSCC1_Beh_q),
     (''IEDMODEL_GenericIO_GGIO_FSCC1_Beh_t'', iedModel_GenericIO_GGIO_FSCC1_Beh_t),
     (''IEDMODEL_GenericIO_GGIO_FSCC1_ActSchdRef'', iedModel_GenericIO_GGIO_FSCC1_ActSchdRef),
     (''IEDMODEL_GenericIO_GGIO_FSCC1_ActSchdRef_stVal'', iedModel_GenericIO_GGIO_FSCC1_ActSchdRef_stVal),
     (''IEDMODEL_GenericIO_GGIO_FSCC1_ActSchdRef_q'', iedModel_GenericIO_GGIO_FSCC1_ActSchdRef_q),
     (''IEDMODEL_GenericIO_GGIO_FSCC1_ActSchdRef_t'', iedModel_GenericIO_GGIO_FSCC1_ActSchdRef_t),
     (''IEDMODEL_GenericIO_GGIO_FSCC1_CtlEnt'', iedModel_GenericIO_GGIO_FSCC1_CtlEnt),
     (''IEDMODEL_GenericIO_GGIO_FSCC1_CtlEnt_setSrcRef'', iedModel_GenericIO_GGIO_FSCC1_CtlEnt_setSrcRef),
     (''IEDMODEL_GenericIO_GGIO_FSCC1_Schd1'', iedModel_GenericIO_GGIO_FSCC1_Schd1),
     (''IEDMODEL_GenericIO_GGIO_FSCC1_Schd1_setSrcRef'', iedModel_GenericIO_GGIO_FSCC1_Schd1_setSrcRef),
     (''IEDMODEL_GenericIO_GGIO_FSCC1_Schd2'', iedModel_GenericIO_GGIO_FSCC1_Schd2),
     (''IEDMODEL_GenericIO_GGIO_FSCC1_Schd2_setSrcRef'', iedModel_GenericIO_GGIO_FSCC1_Schd2_setSrcRef)]"

definition gio_declared :: "(c_type \<times> addr) list" where
  "gio_declared = gio_declared_1 @ gio_declared_2 @ gio_declared_3 @ gio_declared_4 @ gio_declared_5 @ gio_declared_6 @ gio_declared_7 @ gio_declared_8 @ gio_declared_9 @ gio_declared_10 @ gio_declared_11 @ gio_declared_12 @ gio_declared_13 @ gio_declared_14 @ gio_declared_15 @ gio_declared_16 @ gio_declared_17 @ gio_declared_18 @ gio_declared_19 @ gio_declared_20 @ gio_declared_21 @ gio_declared_22 @ gio_declared_23 @ gio_declared_24 @ gio_declared_25 @ gio_declared_26 @ gio_declared_27 @ gio_declared_28 @ gio_declared_29 @ gio_declared_30"

definition gio_handles :: "(string \<times> addr) list" where
  "gio_handles = gio_handles_1 @ gio_handles_2 @ gio_handles_3 @ gio_handles_4 @ gio_handles_5 @ gio_handles_6 @ gio_handles_7 @ gio_handles_8 @ gio_handles_9 @ gio_handles_10 @ gio_handles_11 @ gio_handles_12 @ gio_handles_13 @ gio_handles_14 @ gio_handles_15 @ gio_handles_16 @ gio_handles_17 @ gio_handles_18 @ gio_handles_19 @ gio_handles_20 @ gio_handles_21 @ gio_handles_22 @ gio_handles_23 @ gio_handles_24 @ gio_handles_25 @ gio_handles_26 @ gio_handles_27 @ gio_handles_28 @ gio_handles_29 @ gio_handles_30"

section \<open>Checking the header\<close>

lemma gio_declared_1_block: "gio_declared_1 = map declared_as (concat [static_LD, static_LLN0_1, static_LLN0_2])"
  by (simp add: gio_declared_1_def declared_as_def static_LD_def static_LLN0_1_def static_LLN0_2_def)

lemma gio_handles_1_block: "handle_pass [(iedModel, ''IEDMODEL'')] (concat [static_LD, static_LLN0_1, static_LLN0_2])
    = (gio_handles_1, [(iedModel_GenericIO_LLN0_NamPlt_ldNs, ''IEDMODEL_GenericIO_LLN0_NamPlt_ldNs''), (iedModel_GenericIO_LLN0_NamPlt, ''IEDMODEL_GenericIO_LLN0_NamPlt''), (iedModel_GenericIO_LLN0, ''IEDMODEL_GenericIO_LLN0''), (iedModel_GenericIO, ''IEDMODEL_GenericIO''), (iedModel, ''IEDMODEL'')])"
  by (simp add: gio_handles_1_def handle_eval static_LD_def static_LLN0_1_def static_LLN0_2_def)

lemma gio_declared_2_block: "gio_declared_2 = map declared_as (concat [static_LPHD1, static_GGIO1_1])"
  by (simp add: gio_declared_2_def declared_as_def static_LPHD1_def static_GGIO1_1_def)

lemma gio_handles_2_block: "handle_pass [(iedModel_GenericIO_LLN0_NamPlt_ldNs, ''IEDMODEL_GenericIO_LLN0_NamPlt_ldNs''), (iedModel_GenericIO_LLN0_NamPlt, ''IEDMODEL_GenericIO_LLN0_NamPlt''), (iedModel_GenericIO_LLN0, ''IEDMODEL_GenericIO_LLN0''), (iedModel_GenericIO, ''IEDMODEL_GenericIO''), (iedModel, ''IEDMODEL'')] (concat [static_LPHD1, static_GGIO1_1])
    = (gio_handles_2, [(iedModel_GenericIO_GGIO1_Health, ''IEDMODEL_GenericIO_GGIO1_Health''), (iedModel_GenericIO_GGIO1, ''IEDMODEL_GenericIO_GGIO1''), (iedModel_GenericIO, ''IEDMODEL_GenericIO''), (iedModel, ''IEDMODEL'')])"
  by (simp add: gio_handles_2_def handle_eval static_LPHD1_def static_GGIO1_1_def)

lemma gio_declared_3_block: "gio_declared_3 = map declared_as (concat [static_GGIO1_2, static_GGIO1_3])"
  by (simp add: gio_declared_3_def declared_as_def static_GGIO1_2_def static_GGIO1_3_def)

lemma gio_handles_3_block: "handle_pass [(iedModel_GenericIO_GGIO1_Health, ''IEDMODEL_GenericIO_GGIO1_Health''), (iedModel_GenericIO_GGIO1, ''IEDMODEL_GenericIO_GGIO1''), (iedModel_GenericIO, ''IEDMODEL_GenericIO''), (iedModel, ''IEDMODEL'')] (concat [static_GGIO1_2, static_GGIO1_3])
    = (gio_handles_3, [(iedModel_GenericIO_GGIO1_AnIn3_t, ''IEDMODEL_GenericIO_GGIO1_AnIn3_t''), (iedModel_GenericIO_GGIO1_AnIn3, ''IEDMODEL_GenericIO_GGIO1_AnIn3''), (iedModel_GenericIO_GGIO1, ''IEDMODEL_GenericIO_GGIO1''), (iedModel_GenericIO, ''IEDMODEL_GenericIO''), (iedModel, ''IEDMODEL'')])"
  by (simp add: gio_handles_3_def handle_eval static_GGIO1_2_def static_GGIO1_3_def)

lemma gio_declared_4_block: "gio_declared_4 = map declared_as (concat [static_GGIO1_4, static_GGIO1_5])"
  by (simp add: gio_declared_4_def declared_as_def static_GGIO1_4_def static_GGIO1_5_def)

lemma gio_handles_4_block: "handle_pass [(iedModel_GenericIO_GGIO1_AnIn3_t, ''IEDMODEL_GenericIO_GGIO1_AnIn3_t''), (iedModel_GenericIO_GGIO1_AnIn3, ''IEDMODEL_GenericIO_GGIO1_AnIn3''), (iedModel_GenericIO_GGIO1, ''IEDMODEL_GenericIO_GGIO1''), (iedModel_GenericIO, ''IEDMODEL_GenericIO''), (iedModel, ''IEDMODEL'')] (concat [static_GGIO1_4, static_GGIO1_5])
    = (gio_handles_4, [(iedModel_GenericIO_GGIO1_SPCSO2_stVal, ''IEDMODEL_GenericIO_GGIO1_SPCSO2_stVal''), (iedModel_GenericIO_GGIO1_SPCSO2, ''IEDMODEL_GenericIO_GGIO1_SPCSO2''), (iedModel_GenericIO_GGIO1, ''IEDMODEL_GenericIO_GGIO1''), (iedModel_GenericIO, ''IEDMODEL_GenericIO''), (iedModel, ''IEDMODEL'')])"
  by (simp add: gio_handles_4_def handle_eval static_GGIO1_4_def static_GGIO1_5_def)

lemma gio_declared_5_block: "gio_declared_5 = map declared_as (concat [static_GGIO1_6, static_GGIO1_7])"
  by (simp add: gio_declared_5_def declared_as_def static_GGIO1_6_def static_GGIO1_7_def)

lemma gio_handles_5_block: "handle_pass [(iedModel_GenericIO_GGIO1_SPCSO2_stVal, ''IEDMODEL_GenericIO_GGIO1_SPCSO2_stVal''), (iedModel_GenericIO_GGIO1_SPCSO2, ''IEDMODEL_GenericIO_GGIO1_SPCSO2''), (iedModel_GenericIO_GGIO1, ''IEDMODEL_GenericIO_GGIO1''), (iedModel_GenericIO, ''IEDMODEL_GenericIO''), (iedModel, ''IEDMODEL'')] (concat [static_GGIO1_6, static_GGIO1_7])
    = (gio_handles_5, [(iedModel_GenericIO_GGIO1_SPCSO2_ctlModel, ''IEDMODEL_GenericIO_GGIO1_SPCSO2_ctlModel''), (iedModel_GenericIO_GGIO1_SPCSO2, ''IEDMODEL_GenericIO_GGIO1_SPCSO2''), (iedModel_GenericIO_GGIO1, ''IEDMODEL_GenericIO_GGIO1''), (iedModel_GenericIO, ''IEDMODEL_GenericIO''), (iedModel, ''IEDMODEL'')])"
  by (simp add: gio_handles_5_def handle_eval static_GGIO1_6_def static_GGIO1_7_def)

lemma gio_declared_6_block: "gio_declared_6 = map declared_as (concat [static_GGIO1_8, static_GGIO1_9])"
  by (simp add: gio_declared_6_def declared_as_def static_GGIO1_8_def static_GGIO1_9_def)

lemma gio_handles_6_block: "handle_pass [(iedModel_GenericIO_GGIO1_SPCSO2_ctlModel, ''IEDMODEL_GenericIO_GGIO1_SPCSO2_ctlModel''), (iedModel_GenericIO_GGIO1_SPCSO2, ''IEDMODEL_GenericIO_GGIO1_SPCSO2''), (iedModel_GenericIO_GGIO1, ''IEDMODEL_GenericIO_GGIO1''), (iedModel_GenericIO, ''IEDMODEL_GenericIO''), (iedModel, ''IEDMODEL'')] (concat [static_GGIO1_8, static_GGIO1_9])
    = (gio_handles_6, [(iedModel_GenericIO_GGIO1_DPCSO1_Oper_ctlVal, ''IEDMODEL_GenericIO_GGIO1_DPCSO1_Oper_ctlVal''), (iedModel_GenericIO_GGIO1_DPCSO1_Oper, ''IEDMODEL_GenericIO_GGIO1_DPCSO1_Oper''), (iedModel_GenericIO_GGIO1_DPCSO1, ''IEDMODEL_GenericIO_GGIO1_DPCSO1''), (iedModel_GenericIO_GGIO1, ''IEDMODEL_GenericIO_GGIO1''), (iedModel_GenericIO, ''IEDMODEL_GenericIO''), (iedModel, ''IEDMODEL'')])"
  by (simp add: gio_handles_6_def handle_eval static_GGIO1_8_def static_GGIO1_9_def)

lemma gio_declared_7_block: "gio_declared_7 = map declared_as (concat [static_GGIO1_10, static_GGIO1_11])"
  by (simp add: gio_declared_7_def declared_as_def static_GGIO1_10_def static_GGIO1_11_def)

lemma gio_handles_7_block: "handle_pass [(iedModel_GenericIO_GGIO1_DPCSO1_Oper_ctlVal, ''IEDMODEL_GenericIO_GGIO1_DPCSO1_Oper_ctlVal''), (iedModel_GenericIO_GGIO1_DPCSO1_Oper, ''IEDMODEL_GenericIO_GGIO1_DPCSO1_Oper''), (iedModel_GenericIO_GGIO1_DPCSO1, ''IEDMODEL_GenericIO_GGIO1_DPCSO1''), (iedModel_GenericIO_GGIO1, ''IEDMODEL_GenericIO_GGIO1''), (iedModel_GenericIO, ''IEDMODEL_GenericIO''), (iedModel, ''IEDMODEL'')] (concat [static_GGIO1_10, static_GGIO1_11])
    = (gio_handles_7, [(iedModel_GenericIO_GGIO1_Ind3_t, ''IEDMODEL_GenericIO_GGIO1_Ind3_t''), (iedModel_GenericIO_GGIO1_Ind3, ''IEDMODEL_GenericIO_GGIO1_Ind3''), (iedModel_GenericIO_GGIO1, ''IEDMODEL_GenericIO_GGIO1''), (iedModel_GenericIO, ''IEDMODEL_GenericIO''), (iedModel, ''IEDMODEL'')])"
  by (simp add: gio_handles_7_def handle_eval static_GGIO1_10_def static_GGIO1_11_def)

lemma gio_declared_8_block: "gio_declared_8 = map declared_as (concat [static_GGIO1_12, static_TIM_GAPC1_1])"
  by (simp add: gio_declared_8_def declared_as_def static_GGIO1_12_def static_TIM_GAPC1_1_def)

lemma gio_handles_8_block: "handle_pass [(iedModel_GenericIO_GGIO1_Ind3_t, ''IEDMODEL_GenericIO_GGIO1_Ind3_t''), (iedModel_GenericIO_GGIO1_Ind3, ''IEDMODEL_GenericIO_GGIO1_Ind3''), (iedModel_GenericIO_GGIO1, ''IEDMODEL_GenericIO_GGIO1''), (iedModel_GenericIO, ''IEDMODEL_GenericIO''), (iedModel, ''IEDMODEL'')] (concat [static_GGIO1_12, static_TIM_GAPC1_1])
    = (gio_handles_8, [(iedModel_GenericIO_TIM_GAPC1_Str, ''IEDMODEL_GenericIO_TIM_GAPC1_Str''), (iedModel_GenericIO_TIM_GAPC1, ''IEDMODEL_GenericIO_TIM_GAPC1''), (iedModel_GenericIO, ''IEDMODEL_GenericIO''), (iedModel, ''IEDMODEL'')])"
  by (simp add: gio_handles_8_def handle_eval static_GGIO1_12_def static_TIM_GAPC1_1_def)

lemma gio_declared_9_block: "gio_declared_9 = map declared_as (concat [static_TIM_GAPC1_2, static_TIM_GAPC1_3])"
  by (simp add: gio_declared_9_def declared_as_def static_TIM_GAPC1_2_def static_TIM_GAPC1_3_def)

lemma gio_handles_9_block: "handle_pass [(iedModel_GenericIO_TIM_GAPC1_Str, ''IEDMODEL_GenericIO_TIM_GAPC1_Str''), (iedModel_GenericIO_TIM_GAPC1, ''IEDMODEL_GenericIO_TIM_GAPC1''), (iedModel_GenericIO, ''IEDMODEL_GenericIO''), (iedModel, ''IEDMODEL'')] (concat [static_TIM_GAPC1_2, static_TIM_GAPC1_3])
    = (gio_handles_9, [(iedModel_GenericIO_TIM_GAPC1_OpCntRs_Oper_origin_orCat, ''IEDMODEL_GenericIO_TIM_GAPC1_OpCntRs_Oper_origin_orCat''), (iedModel_GenericIO_TIM_GAPC1_OpCntRs_Oper_origin, ''IEDMODEL_GenericIO_TIM_GAPC1_OpCntRs_Oper_origin''), (iedModel_GenericIO_TIM_GAPC1_OpCntRs_Oper, ''IEDMODEL_GenericIO_TIM_GAPC1_OpCntRs_Oper''), (iedModel_GenericIO_TIM_GAPC1_OpCntRs, ''IEDMODEL_GenericIO_TIM_GAPC1_OpCntRs''), (iedModel_GenericIO_TIM_GAPC1, ''IEDMODEL_GenericIO_TIM_GAPC1''), (iedModel_GenericIO, ''IEDMODEL_GenericIO''), (iedModel, ''IEDMODEL'')])"
  by (simp add: gio_handles_9_def handle_eval static_TIM_GAPC1_2_def static_TIM_GAPC1_3_def)

lemma gio_declared_10_block: "gio_declared_10 = map declared_as (concat [static_TIM_GAPC1_4, static_T60S_FSCH1_1])"
  by (simp add: gio_declared_10_def declared_as_def static_TIM_GAPC1_4_def static_T60S_FSCH1_1_def)

lemma gio_handles_10_block: "handle_pass [(iedModel_GenericIO_TIM_GAPC1_OpCntRs_Oper_origin_orCat, ''IEDMODEL_GenericIO_TIM_GAPC1_OpCntRs_Oper_origin_orCat''), (iedModel_GenericIO_TIM_GAPC1_OpCntRs_Oper_origin, ''IEDMODEL_GenericIO_TIM_GAPC1_OpCntRs_Oper_origin''), (iedModel_GenericIO_TIM_GAPC1_OpCntRs_Oper, ''IEDMODEL_GenericIO_TIM_GAPC1_OpCntRs_Oper''), (iedModel_GenericIO_TIM_GAPC1_OpCntRs, ''IEDMODEL_GenericIO_TIM_GAPC1_OpCntRs''), (iedModel_GenericIO_TIM_GAPC1, ''IEDMODEL_GenericIO_TIM_GAPC1''), (iedModel_GenericIO, ''IEDMODEL_GenericIO''), (iedModel, ''IEDMODEL'')] (concat [static_TIM_GAPC1_4, static_T60S_FSCH1_1])
    = (gio_handles_10, [(iedModel_GenericIO_T60S_FSCH1_SchdEntr_stVal, ''IEDMODEL_GenericIO_T60S_FSCH1_SchdEntr_stVal''), (iedModel_GenericIO_T60S_FSCH1_SchdEntr, ''IEDMODEL_GenericIO_T60S_FSCH1_SchdEntr''), (iedModel_GenericIO_T60S_FSCH1, ''IEDMODEL_GenericIO_T60S_FSCH1''), (iedModel_GenericIO, ''IEDMODEL_GenericIO''), (iedModel, ''IEDMODEL'')])"
  by (simp add: gio_handles_10_def handle_eval static_TIM_GAPC1_4_def static_T60S_FSCH1_1_def)

lemma gio_declared_11_block: "gio_declared_11 = map declared_as (concat [static_T60S_FSCH1_2, static_T60S_FSCH1_3])"
  by (simp add: gio_declared_11_def declared_as_def static_T60S_FSCH1_2_def static_T60S_FSCH1_3_def)

lemma gio_handles_11_block: "handle_pass [(iedModel_GenericIO_T60S_FSCH1_SchdEntr_stVal, ''IEDMODEL_GenericIO_T60S_FSCH1_SchdEntr_stVal''), (iedModel_GenericIO_T60S_FSCH1_SchdEntr, ''IEDMODEL_GenericIO_T60S_FSCH1_SchdEntr''), (iedModel_GenericIO_T60S_FSCH1, ''IEDMODEL_GenericIO_T60S_FSCH1''), (iedModel_GenericIO, ''IEDMODEL_GenericIO''), (iedModel, ''IEDMODEL'')] (concat [static_T60S_FSCH1_2, static_T60S_FSCH1_3])
    = (gio_handles_11, [(iedModel_GenericIO_T60S_FSCH1_EnaReq, ''IEDMODEL_GenericIO_T60S_FSCH1_EnaReq''), (iedModel_GenericIO_T60S_FSCH1, ''IEDMODEL_GenericIO_T60S_FSCH1''), (iedModel_GenericIO, ''IEDMODEL_GenericIO''), (iedModel, ''IEDMODEL'')])"
  by (simp add: gio_handles_11_def handle_eval static_T60S_FSCH1_2_def static_T60S_FSCH1_3_def)

lemma gio_declared_12_block: "gio_declared_12 = map declared_as (concat [static_T60S_FSCH1_4, static_T60S_FSCH1_5])"
  by (simp add: gio_declared_12_def declared_as_def static_T60S_FSCH1_4_def static_T60S_FSCH1_5_def)

lemma gio_handles_12_block: "handle_pass [(iedModel_GenericIO_T60S_FSCH1_EnaReq, ''IEDMODEL_GenericIO_T60S_FSCH1_EnaReq''), (iedModel_GenericIO_T60S_FSCH1, ''IEDMODEL_GenericIO_T60S_FSCH1''), (iedModel_GenericIO, ''IEDMODEL_GenericIO''), (iedModel, ''IEDMODEL'')] (concat [static_T60S_FSCH1_4, static_T60S_FSCH1_5])
    = (gio_handles_12, [(iedModel_GenericIO_T60S_FSCH1_EdtReq_Oper_origin_orCat, ''IEDMODEL_GenericIO_T60S_FSCH1_EdtReq_Oper_origin_orCat''), (iedModel_GenericIO_T60S_FSCH1_EdtReq_Oper_origin, ''IEDMODEL_GenericIO_T60S_FSCH1_EdtReq_Oper_origin''), (iedModel_GenericIO_T60S_FSCH1_EdtReq_Oper, ''IEDMODEL_GenericIO_T60S_FSCH1_EdtReq_Oper''), (iedModel_GenericIO_T60S_FSCH1_EdtReq, ''IEDMODEL_GenericIO_T60S_FSCH1_EdtReq''), (iedModel_GenericIO_T60S_FSCH1, ''IEDMODEL_GenericIO_T60S_FSCH1''), (iedModel_GenericIO, ''IEDMODEL_GenericIO''), (iedModel, ''IEDMODEL'')])"
  by (simp add: gio_handles_12_def handle_eval static_T60S_FSCH1_4_def static_T60S_FSCH1_5_def)

lemma gio_declared_13_block: "gio_declared_13 = map declared_as (concat [static_T60S_FSCH1_6, static_T60S_FSCH1_7])"
  by (simp add: gio_declared_13_def declared_as_def static_T60S_FSCH1_6_def static_T60S_FSCH1_7_def)

lemma gio_handles_13_block: "handle_pass [(iedModel_GenericIO_T60S_FSCH1_EdtReq_Oper_origin_orCat, ''IEDMODEL_GenericIO_T60S_FSCH1_EdtReq_Oper_origin_orCat''), (iedModel_GenericIO_T60S_FSCH1_EdtReq_Oper_origin, ''IEDMODEL_GenericIO_T60S_FSCH1_EdtReq_Oper_origin''), (iedModel_GenericIO_T60S_FSCH1_EdtReq_Oper, ''IEDMODEL_GenericIO_T60S_FSCH1_EdtReq_Oper''), (iedModel_GenericIO_T60S_FSCH1_EdtReq, ''IEDMODEL_GenericIO_T60S_FSCH1_EdtReq''), (iedModel_GenericIO_T60S_FSCH1, ''IEDMODEL_GenericIO_T60S_FSCH1''), (iedModel_GenericIO, ''IEDMODEL_GenericIO''), (iedModel, ''IEDMODEL'')] (concat [static_T60S_FSCH1_6, static_T60S_FSCH1_7])
    = (gio_handles_13, [(iedModel_GenericIO_T60S_FSCH1_DsaReq_ctlModel, ''IEDMODEL_GenericIO_T60S_FSCH1_DsaReq_ctlModel''), (iedModel_GenericIO_T60S_FSCH1_DsaReq, ''IEDMODEL_GenericIO_T60S_FSCH1_DsaReq''), (iedModel_GenericIO_T60S_FSCH1, ''IEDMODEL_GenericIO_T60S_FSCH1''), (iedModel_GenericIO, ''IEDMODEL_GenericIO''), (iedModel, ''IEDMODEL'')])"
  by (simp add: gio_handles_13_def handle_eval static_T60S_FSCH1_6_def static_T60S_FSCH1_7_def)

lemma gio_declared_14_block: "gio_declared_14 = map declared_as (concat [static_T60S_FSCH1_8, static_T60S_FSCH1_9])"
  by (simp add: gio_declared_14_def declared_as_def static_T60S_FSCH1_8_def static_T60S_FSCH1_9_def)

lemma gio_handles_14_block: "handle_pass [(iedModel_GenericIO_T60S_FSCH1_DsaReq_ctlModel, ''IEDMODEL_GenericIO_T60S_FSCH1_DsaReq_ctlModel''), (iedModel_GenericIO_T60S_FSCH1_DsaReq, ''IEDMODEL_GenericIO_T60S_FSCH1_DsaReq''), (iedModel_GenericIO_T60S_FSCH1, ''IEDMODEL_GenericIO_T60S_FSCH1''), (iedModel_GenericIO, ''IEDMODEL_GenericIO''), (iedModel, ''IEDMODEL'')] (concat [static_T60S_FSCH1_8, static_T60S_FSCH1_9])
    = (gio_handles_14, [(iedModel_GenericIO_T60S_FSCH1_ValSPG9, ''IEDMODEL_GenericIO_T60S_FSCH1_ValSPG9''), (iedModel_GenericIO_T60S_FSCH1, ''IEDMODEL_GenericIO_T60S_FSCH1''), (iedModel_GenericIO, ''IEDMODEL_GenericIO''), (iedModel, ''IEDMODEL'')])"
  by (simp add: gio_handles_14_def handle_eval static_T60S_FSCH1_8_def static_T60S_FSCH1_9_def)

lemma gio_declared_15_block: "gio_declared_15 = map declared_as (concat [static_T60S_FSCH1_10, static_T60S_FSCH1_11])"
  by (simp add: gio_declared_15_def declared_as_def static_T60S_FSCH1_10_def static_T60S_FSCH1_11_def)

lemma gio_handles_15_block: "handle_pass [(iedModel_GenericIO_T60S_FSCH1_ValSPG9, ''IEDMODEL_GenericIO_T60S_FSCH1_ValSPG9''), (iedModel_GenericIO_T60S_FSCH1, ''IEDMODEL_GenericIO_T60S_FSCH1''), (iedModel_GenericIO, ''IEDMODEL_GenericIO''), (iedModel, ''IEDMODEL'')] (concat [static_T60S_FSCH1_10, static_T60S_FSCH1_11])
    = (gio_handles_15, [(iedModel_GenericIO_T60S_FSCH1_ValSPG21, ''IEDMODEL_GenericIO_T60S_FSCH1_ValSPG21''), (iedModel_GenericIO_T60S_FSCH1, ''IEDMODEL_GenericIO_T60S_FSCH1''), (iedModel_GenericIO, ''IEDMODEL_GenericIO''), (iedModel, ''IEDMODEL'')])"
  by (simp add: gio_handles_15_def handle_eval static_T60S_FSCH1_10_def static_T60S_FSCH1_11_def)

lemma gio_declared_16_block: "gio_declared_16 = map declared_as (concat [static_T60S_FSCH1_12, static_T60S_FSCH1_13])"
  by (simp add: gio_declared_16_def declared_as_def static_T60S_FSCH1_12_def static_T60S_FSCH1_13_def)

lemma gio_handles_16_block: "handle_pass [(iedModel_GenericIO_T60S_FSCH1_ValSPG21, ''IEDMODEL_GenericIO_T60S_FSCH1_ValSPG21''), (iedModel_GenericIO_T60S_FSCH1, ''IEDMODEL_GenericIO_T60S_FSCH1''), (iedModel_GenericIO, ''IEDMODEL_GenericIO''), (iedModel, ''IEDMODEL'')] (concat [static_T60S_FSCH1_12, static_T60S_FSCH1_13])
    = (gio_handles_16, [(iedModel_GenericIO_T60S_FSCH1_ValSPG33, ''IEDMODEL_GenericIO_T60S_FSCH1_ValSPG33''), (iedModel_GenericIO_T60S_FSCH1, ''IEDMODEL_GenericIO_T60S_FSCH1''), (iedModel_GenericIO, ''IEDMODEL_GenericIO''), (iedModel, ''IEDMODEL'')])"
  by (simp add: gio_handles_16_def handle_eval static_T60S_FSCH1_12_def static_T60S_FSCH1_13_def)

lemma gio_declared_17_block: "gio_declared_17 = map declared_as (concat [static_T60S_FSCH1_14, static_T60S_FSCH1_15])"
  by (simp add: gio_declared_17_def declared_as_def static_T60S_FSCH1_14_def static_T60S_FSCH1_15_def)

lemma gio_handles_17_block: "handle_pass [(iedModel_GenericIO_T60S_FSCH1_ValSPG33, ''IEDMODEL_GenericIO_T60S_FSCH1_ValSPG33''), (iedModel_GenericIO_T60S_FSCH1, ''IEDMODEL_GenericIO_T60S_FSCH1''), (iedModel_GenericIO, ''IEDMODEL_GenericIO''), (iedModel, ''IEDMODEL'')] (concat [static_T60S_FSCH1_14, static_T60S_FSCH1_15])
    = (gio_handles_17, [(iedModel_GenericIO_T60S_FSCH1_ValSPG45, ''IEDMODEL_GenericIO_T60S_FSCH1_ValSPG45''), (iedModel_GenericIO_T60S_FSCH1, ''IEDMODEL_GenericIO_T60S_FSCH1''), (iedModel_GenericIO, ''IEDMODEL_GenericIO''), (iedModel, ''IEDMODEL'')])"
  by (simp add: gio_handles_17_def handle_eval static_T60S_FSCH1_14_def static_T60S_FSCH1_15_def)

lemma gio_declared_18_block: "gio_declared_18 = map declared_as (concat [static_T60S_FSCH1_16, static_T60S_FSCH1_17])"
  by (simp add: gio_declared_18_def declared_as_def static_T60S_FSCH1_16_def static_T60S_FSCH1_17_def)

lemma gio_handles_18_block: "handle_pass [(iedModel_GenericIO_T60S_FSCH1_ValSPG45, ''IEDMODEL_GenericIO_T60S_FSCH1_ValSPG45''), (iedModel_GenericIO_T60S_FSCH1, ''IEDMODEL_GenericIO_T60S_FSCH1''), (iedModel_GenericIO, ''IEDMODEL_GenericIO''), (iedModel, ''IEDMODEL'')] (concat [static_T60S_FSCH1_16, static_T60S_FSCH1_17])
    = (gio_handles_18, [(iedModel_GenericIO_T60S_FSCH1_ValSPG57, ''IEDMODEL_GenericIO_T60S_FSCH1_ValSPG57''), (iedModel_GenericIO_T60S_FSCH1, ''IEDMODEL_GenericIO_T60S_FSCH1''), (iedModel_GenericIO, ''IEDMODEL_GenericIO''), (iedModel, ''IEDMODEL'')])"
  by (simp add: gio_handles_18_def handle_eval static_T60S_FSCH1_16_def static_T60S_FSCH1_17_def)

lemma gio_declared_19_block: "gio_declared_19 = map declared_as (concat [static_T60S_FSCH1_18, static_T60S_FSCH1_19, static_T60S_FSCH1_20])"
  by (simp add: gio_declared_19_def declared_as_def static_T60S_FSCH1_18_def static_T60S_FSCH1_19_def static_T60S_FSCH1_20_def)

lemma gio_handles_19_block: "handle_pass [(iedModel_GenericIO_T60S_FSCH1_ValSPG57, ''IEDMODEL_GenericIO_T60S_FSCH1_ValSPG57''), (iedModel_GenericIO_T60S_FSCH1, ''IEDMODEL_GenericIO_T60S_FSCH1''), (iedModel_GenericIO, ''IEDMODEL_GenericIO''), (iedModel, ''IEDMODEL'')] (concat [static_T60S_FSCH1_18, static_T60S_FSCH1_19, static_T60S_FSCH1_20])
    = (gio_handles_19, [(iedModel_GenericIO_T60S_FSCH1_SchdReuse_setVal, ''IEDMODEL_GenericIO_T60S_FSCH1_SchdReuse_setVal''), (iedModel_GenericIO_T60S_FSCH1_SchdReuse, ''IEDMODEL_GenericIO_T60S_FSCH1_SchdReuse''), (iedModel_GenericIO_T60S_FSCH1, ''IEDMODEL_GenericIO_T60S_FSCH1''), (iedModel_GenericIO, ''IEDMODEL_GenericIO''), (iedModel, ''IEDMODEL'')])"
  by (simp add: gio_handles_19_def handle_eval static_T60S_FSCH1_18_def static_T60S_FSCH1_19_def static_T60S_FSCH1_20_def)

lemma gio_declared_20_block: "gio_declared_20 = map declared_as (concat [static_T60S_FSCH2_1, static_T60S_FSCH2_2])"
  by (simp add: gio_declared_20_def declared_as_def static_T60S_FSCH2_1_def static_T60S_FSCH2_2_def)

lemma gio_handles_20_block: "handle_pass [(iedModel_GenericIO_T60S_FSCH1_SchdReuse_setVal, ''IEDMODEL_GenericIO_T60S_FSCH1_SchdReuse_setVal''), (iedModel_GenericIO_T60S_FSCH1_SchdReuse, ''IEDMODEL_GenericIO_T60S_FSCH1_SchdReuse''), (iedModel_GenericIO_T60S_FSCH1, ''IEDMODEL_GenericIO_T60S_FSCH1''), (iedModel_GenericIO, ''IEDMODEL_GenericIO''), (iedModel, ''IEDMODEL'')] (concat [static_T60S_FSCH2_1, static_T60S_FSCH2_2])
    = (gio_handles_20, [(iedModel_GenericIO_T60S_FSCH2_VldReq_Oper_ctlVal, ''IEDMODEL_GenericIO_T60S_FSCH2_VldReq_Oper_ctlVal''), (iedModel_GenericIO_T60S_FSCH2_VldReq_Oper, ''IEDMODEL_GenericIO_T60S_FSCH2_VldReq_Oper''), (iedModel_GenericIO_T60S_FSCH2_VldReq, ''IEDMODEL_GenericIO_T60S_FSCH2_VldReq''), (iedModel_GenericIO_T60S_FSCH2, ''IEDMODEL_GenericIO_T60S_FSCH2''), (iedModel_GenericIO, ''IEDMODEL_GenericIO''), (iedModel, ''IEDMODEL'')])"
  by (simp add: gio_handles_20_def handle_eval static_T60S_FSCH2_1_def static_T60S_FSCH2_2_def)

lemma gio_declared_21_block: "gio_declared_21 = map declared_as (concat [static_T60S_FSCH2_3, static_T60S_FSCH2_4])"
  by (simp add: gio_declared_21_def declared_as_def static_T60S_FSCH2_3_def static_T60S_FSCH2_4_def)

lemma gio_handles_21_block: "handle_pass [(iedModel_GenericIO_T60S_FSCH2_VldReq_Oper_ctlVal, ''IEDMODEL_GenericIO_T60S_FSCH2_VldReq_Oper_ctlVal''), (iedModel_GenericIO_T60S_FSCH2_VldReq_Oper, ''IEDMODEL_GenericIO_T60S_FSCH2_VldReq_Oper''), (iedModel_GenericIO_T60S_FSCH2_VldReq, ''IEDMODEL_GenericIO_T60S_FSCH2_VldReq''), (iedModel_GenericIO_T60S_FSCH2, ''IEDMODEL_GenericIO_T60S_FSCH2''), (iedModel_GenericIO, ''IEDMODEL_GenericIO''), (iedModel, ''IEDMODEL'')] (concat [static_T60S_FSCH2_3, static_T60S_FSCH2_4])
    = (gio_handles_21, [(iedModel_GenericIO_T60S_FSCH2_EnaReq_Oper_Test, ''IEDMODEL_GenericIO_T60S_FSCH2_EnaReq_Oper_Test''), (iedModel_GenericIO_T60S_FSCH2_EnaReq_Oper, ''IEDMODEL_GenericIO_T60S_FSCH2_EnaReq_Oper''), (iedModel_GenericIO_T60S_FSCH2_EnaReq, ''IEDMODEL_GenericIO_T60S_FSCH2_EnaReq''), (iedModel_GenericIO_T60S_FSCH2, ''IEDMODEL_GenericIO_T60S_FSCH2''), (iedModel_GenericIO, ''IEDMODEL_GenericIO''), (iedModel, ''IEDMODEL'')])"
  by (simp add: gio_handles_21_def handle_eval static_T60S_FSCH2_3_def static_T60S_FSCH2_4_def)

lemma gio_declared_22_block: "gio_declared_22 = map declared_as (concat [static_T60S_FSCH2_5, static_T60S_FSCH2_6])"
  by (simp add: gio_declared_22_def declared_as_def static_T60S_FSCH2_5_def static_T60S_FSCH2_6_def)

lemma gio_handles_22_block: "handle_pass [(iedModel_GenericIO_T60S_FSCH2_EnaReq_Oper_Test, ''IEDMODEL_GenericIO_T60S_FSCH2_EnaReq_Oper_Test''), (iedModel_GenericIO_T60S_FSCH2_EnaReq_Oper, ''IEDMODEL_GenericIO_T60S_FSCH2_EnaReq_Oper''), (iedModel_GenericIO_T60S_FSCH2_EnaReq, ''IEDMODEL_GenericIO_T60S_FSCH2_EnaReq''), (iedModel_GenericIO_T60S_FSCH2, ''IEDMODEL_GenericIO_T60S_FSCH2''), (iedModel_GenericIO, ''IEDMODEL_GenericIO''), (iedModel, ''IEDMODEL'')] (concat [static_T60S_FSCH2_5, static_T60S_FSCH2_6])
    = (gio_handles_22, [(iedModel_GenericIO_T60S_FSCH2_DsaReq_q, ''IEDMODEL_GenericIO_T60S_FSCH2_DsaReq_q''), (iedModel_GenericIO_T60S_FSCH2_DsaReq, ''IEDMODEL_GenericIO_T60S_FSCH2_DsaReq''), (iedModel_GenericIO_T60S_FSCH2, ''IEDMODEL_GenericIO_T60S_FSCH2''), (iedModel_GenericIO, ''IEDMODEL_GenericIO''), (iedModel, ''IEDMODEL'')])"
  by (simp add: gio_handles_22_def handle_eval static_T60S_FSCH2_5_def static_T60S_FSCH2_6_def)

lemma gio_declared_23_block: "gio_declared_23 = map declared_as (concat [static_T60S_FSCH2_7, static_T60S_FSCH2_8])"
  by (simp add: gio_declared_23_def declared_as_def static_T60S_FSCH2_7_def static_T60S_FSCH2_8_def)

lemma gio_handles_23_block: "handle_pass [(iedModel_GenericIO_T60S_FSCH2_DsaReq_q, ''IEDMODEL_GenericIO_T60S_FSCH2_DsaReq_q''), (iedModel_GenericIO_T60S_FSCH2_DsaReq, ''IEDMODEL_GenericIO_T60S_FSCH2_DsaReq''), (iedModel_GenericIO_T60S_FSCH2, ''IEDMODEL_GenericIO_T60S_FSCH2''), (iedModel_GenericIO, ''IEDMODEL_GenericIO''), (iedModel, ''IEDMODEL'')] (concat [static_T60S_FSCH2_7, static_T60S_FSCH2_8])
    = (gio_handles_23, [(iedModel_GenericIO_T60S_FSCH2_ValSPG3, ''IEDMODEL_GenericIO_T60S_FSCH2_ValSPG3''), (iedModel_GenericIO_T60S_FSCH2, ''IEDMODEL_GenericIO_T60S_FSCH2''), (iedModel_GenericIO, ''IEDMODEL_GenericIO''), (iedModel, ''IEDMODEL'')])"
  by (simp add: gio_handles_23_def handle_eval static_T60S_FSCH2_7_def static_T60S_FSCH2_8_def)

lemma gio_declared_24_block: "gio_declared_24 = map declared_as (concat [static_T60S_FSCH2_9, static_T60S_FSCH2_10])"
  by (simp add: gio_declared_24_def declared_as_def static_T60S_FSCH2_9_def static_T60S_FSCH2_10_def)

lemma gio_handles_24_block: "handle_pass [(iedModel_GenericIO_T60S_FSCH2_ValSPG3, ''IEDMODEL_GenericIO_T60S_FSCH2_ValSPG3''), (iedModel_GenericIO_T60S_FSCH2, ''IEDMODEL_GenericIO_T60S_FSCH2''), (iedModel_GenericIO, ''IEDMODEL_GenericIO''), (iedModel, ''IEDMODEL'')] (concat [static_T60S_FSCH2_9, static_T60S_FSCH2_10])
    = (gio_handles_24, [(iedModel_GenericIO_T60S_FSCH2_ValSPG15, ''IEDMODEL_GenericIO_T60S_FSCH2_ValSPG15''), (iedModel_GenericIO_T60S_FSCH2, ''IEDMODEL_GenericIO_T60S_FSCH2''), (iedModel_GenericIO, ''IEDMODEL_GenericIO''), (iedModel, ''IEDMODEL'')])"
  by (simp add: gio_handles_24_def handle_eval static_T60S_FSCH2_9_def static_T60S_FSCH2_10_def)

lemma gio_declared_25_block: "gio_declared_25 = map declared_as (concat [static_T60S_FSCH2_11, static_T60S_FSCH2_12])"
  by (simp add: gio_declared_25_def declared_as_def static_T60S_FSCH2_11_def static_T60S_FSCH2_12_def)

lemma gio_handles_25_block: "handle_pass [(iedModel_GenericIO_T60S_FSCH2_ValSPG15, ''IEDMODEL_GenericIO_T60S_FSCH2_ValSPG15''), (iedModel_GenericIO_T60S_FSCH2, ''IEDMODEL_GenericIO_T60S_FSCH2''), (iedModel_GenericIO, ''IEDMODEL_GenericIO''), (iedModel, ''IEDMODEL'')] (concat [static_T60S_FSCH2_11, static_T60S_FSCH2_12])
    = (gio_handles_25, [(iedModel_GenericIO_T60S_FSCH2_ValSPG27, ''IEDMODEL_GenericIO_T60S_FSCH2_ValSPG27''), (iedModel_GenericIO_T60S_FSCH2, ''IEDMODEL_GenericIO_T60S_FSCH2''), (iedModel_GenericIO, ''IEDMODEL_GenericIO''), (iedModel, ''IEDMODEL'')])"
  by (simp add: gio_handles_25_def handle_eval static_T60S_FSCH2_11_def static_T60S_FSCH2_12_def)

lemma gio_declared_26_block: "gio_declared_26 = map declared_as (concat [static_T60S_FSCH2_13, static_T60S_FSCH2_14])"
  by (simp add: gio_declared_26_def declared_as_def static_T60S_FSCH2_13_def static_T60S_FSCH2_14_def)

lemma gio_handles_26_block: "handle_pass [(iedModel_GenericIO_T60S_FSCH2_ValSPG27, ''IEDMODEL_GenericIO_T60S_FSCH2_ValSPG27''), (iedModel_GenericIO_T60S_FSCH2, ''IEDMODEL_GenericIO_T60S_FSCH2''), (iedModel_GenericIO, ''IEDMODEL_GenericIO''), (iedModel, ''IEDMODEL'')] (concat [static_T60S_FSCH2_13, static_T60S_FSCH2_14])
    = (gio_handles_26, [(iedModel_GenericIO_T60S_FSCH2_ValSPG39, ''IEDMODEL_GenericIO_T60S_FSCH2_ValSPG39''), (iedModel_GenericIO_T60S_FSCH2, ''IEDMODEL_GenericIO_T60S_FSCH2''), (iedModel_GenericIO, ''IEDMODEL_GenericIO''), (iedModel, ''IEDMODEL'')])"
  by (simp add: gio_handles_26_def handle_eval static_T60S_FSCH2_13_def static_T60S_FSCH2_14_def)

lemma gio_declared_27_block: "gio_declared_27 = map declared_as (concat [static_T60S_FSCH2_15, static_T60S_FSCH2_16])"
  by (simp add: gio_declared_27_def declared_as_def static_T60S_FSCH2_15_def static_T60S_FSCH2_16_def)

lemma gio_handles_27_block: "handle_pass [(iedModel_GenericIO_T60S_FSCH2_ValSPG39, ''IEDMODEL_GenericIO_T60S_FSCH2_ValSPG39''), (iedModel_GenericIO_T60S_FSCH2, ''IEDMODEL_GenericIO_T60S_FSCH2''), (iedModel_GenericIO, ''IEDMODEL_GenericIO''), (iedModel, ''IEDMODEL'')] (concat [static_T60S_FSCH2_15, static_T60S_FSCH2_16])
    = (gio_handles_27, [(iedModel_GenericIO_T60S_FSCH2_ValSPG51, ''IEDMODEL_GenericIO_T60S_FSCH2_ValSPG51''), (iedModel_GenericIO_T60S_FSCH2, ''IEDMODEL_GenericIO_T60S_FSCH2''), (iedModel_GenericIO, ''IEDMODEL_GenericIO''), (iedModel, ''IEDMODEL'')])"
  by (simp add: gio_handles_27_def handle_eval static_T60S_FSCH2_15_def static_T60S_FSCH2_16_def)

lemma gio_declared_28_block: "gio_declared_28 = map declared_as (concat [static_T60S_FSCH2_17, static_T60S_FSCH2_18])"
  by (simp add: gio_declared_28_def declared_as_def static_T60S_FSCH2_17_def static_T60S_FSCH2_18_def)

lemma gio_handles_28_block: "handle_pass [(iedModel_GenericIO_T60S_FSCH2_ValSPG51, ''IEDMODEL_GenericIO_T60S_FSCH2_ValSPG51''), (iedModel_GenericIO_T60S_FSCH2, ''IEDMODEL_GenericIO_T60S_FSCH2''), (iedModel_GenericIO, ''IEDMODEL_GenericIO''), (iedModel, ''IEDMODEL'')] (concat [static_T60S_FSCH2_17, static_T60S_FSCH2_18])
    = (gio_handles_28, [(iedModel_GenericIO_T60S_FSCH2_StrTm_setCal_occ, ''IEDMODEL_GenericIO_T60S_FSCH2_StrTm_setCal_occ''), (iedModel_GenericIO_T60S_FSCH2_StrTm_setCal, ''IEDMODEL_GenericIO_T60S_FSCH2_StrTm_setCal''), (iedModel_GenericIO_T60S_FSCH2_StrTm, ''IEDMODEL_GenericIO_T60S_FSCH2_StrTm''), (iedModel_GenericIO_T60S_FSCH2, ''IEDMODEL_GenericIO_T60S_FSCH2''), (iedModel_GenericIO, ''IEDMODEL_GenericIO''), (iedModel, ''IEDMODEL'')])"
  by (simp add: gio_handles_28_def handle_eval static_T60S_FSCH2_17_def static_T60S_FSCH2_18_def)

lemma gio_declared_29_block: "gio_declared_29 = map declared_as (concat [static_T60S_FSCH2_19, static_T60S_FSCH2_20])"
  by (simp add: gio_declared_29_def declared_as_def static_T60S_FSCH2_19_def static_T60S_FSCH2_20_def)

lemma gio_handles_29_block: "handle_pass [(iedModel_GenericIO_T60S_FSCH2_StrTm_setCal_occ, ''IEDMODEL_GenericIO_T60S_FSCH2_StrTm_setCal_occ''), (iedModel_GenericIO_T60S_FSCH2_StrTm_setCal, ''IEDMODEL_GenericIO_T60S_FSCH2_StrTm_setCal''), (iedModel_GenericIO_T60S_FSCH2_StrTm, ''IEDMODEL_GenericIO_T60S_FSCH2_StrTm''), (iedModel_GenericIO_T60S_FSCH2, ''IEDMODEL_GenericIO_T60S_FSCH2''), (iedModel_GenericIO, ''IEDMODEL_GenericIO''), (iedModel, ''IEDMODEL'')] (concat [static_T60S_FSCH2_19, static_T60S_FSCH2_20])
    = (gio_handles_29, [(iedModel_GenericIO_T60S_FSCH2_SchdReuse_setVal, ''IEDMODEL_GenericIO_T60S_FSCH2_SchdReuse_setVal''), (iedModel_GenericIO_T60S_FSCH2_SchdReuse, ''IEDMODEL_GenericIO_T60S_FSCH2_SchdReuse''), (iedModel_GenericIO_T60S_FSCH2, ''IEDMODEL_GenericIO_T60S_FSCH2''), (iedModel_GenericIO, ''IEDMODEL_GenericIO''), (iedModel, ''IEDMODEL'')])"
  by (simp add: gio_handles_29_def handle_eval static_T60S_FSCH2_19_def static_T60S_FSCH2_20_def)

lemma gio_declared_30_block: "gio_declared_30 = map declared_as (concat [static_GGIO_FSCC1_1, static_GGIO_FSCC1_2])"
  by (simp add: gio_declared_30_def declared_as_def static_GGIO_FSCC1_1_def static_GGIO_FSCC1_2_def)

lemma gio_handles_30_block: "handle_pass [(iedModel_GenericIO_T60S_FSCH2_SchdReuse_setVal, ''IEDMODEL_GenericIO_T60S_FSCH2_SchdReuse_setVal''), (iedModel_GenericIO_T60S_FSCH2_SchdReuse, ''IEDMODEL_GenericIO_T60S_FSCH2_SchdReuse''), (iedModel_GenericIO_T60S_FSCH2, ''IEDMODEL_GenericIO_T60S_FSCH2''), (iedModel_GenericIO, ''IEDMODEL_GenericIO''), (iedModel, ''IEDMODEL'')] (concat [static_GGIO_FSCC1_1, static_GGIO_FSCC1_2])
    = (gio_handles_30, [(iedModel_GenericIO_GGIO_FSCC1_Schd2_setSrcRef, ''IEDMODEL_GenericIO_GGIO_FSCC1_Schd2_setSrcRef''), (iedModel_GenericIO_GGIO_FSCC1_Schd2, ''IEDMODEL_GenericIO_GGIO_FSCC1_Schd2''), (iedModel_GenericIO_GGIO_FSCC1, ''IEDMODEL_GenericIO_GGIO_FSCC1''), (iedModel_GenericIO, ''IEDMODEL_GenericIO''), (iedModel, ''IEDMODEL'')])"
  by (simp add: gio_handles_30_def handle_eval static_GGIO_FSCC1_1_def static_GGIO_FSCC1_2_def)

lemma gio_blocks: "static_table = concat [static_LD, static_LLN0_1, static_LLN0_2]
     @ concat [static_LPHD1, static_GGIO1_1]
     @ concat [static_GGIO1_2, static_GGIO1_3]
     @ concat [static_GGIO1_4, static_GGIO1_5]
     @ concat [static_GGIO1_6, static_GGIO1_7]
     @ concat [static_GGIO1_8, static_GGIO1_9]
     @ concat [static_GGIO1_10, static_GGIO1_11]
     @ concat [static_GGIO1_12, static_TIM_GAPC1_1]
     @ concat [static_TIM_GAPC1_2, static_TIM_GAPC1_3]
     @ concat [static_TIM_GAPC1_4, static_T60S_FSCH1_1]
     @ concat [static_T60S_FSCH1_2, static_T60S_FSCH1_3]
     @ concat [static_T60S_FSCH1_4, static_T60S_FSCH1_5]
     @ concat [static_T60S_FSCH1_6, static_T60S_FSCH1_7]
     @ concat [static_T60S_FSCH1_8, static_T60S_FSCH1_9]
     @ concat [static_T60S_FSCH1_10, static_T60S_FSCH1_11]
     @ concat [static_T60S_FSCH1_12, static_T60S_FSCH1_13]
     @ concat [static_T60S_FSCH1_14, static_T60S_FSCH1_15]
     @ concat [static_T60S_FSCH1_16, static_T60S_FSCH1_17]
     @ concat [static_T60S_FSCH1_18, static_T60S_FSCH1_19, static_T60S_FSCH1_20]
     @ concat [static_T60S_FSCH2_1, static_T60S_FSCH2_2]
     @ concat [static_T60S_FSCH2_3, static_T60S_FSCH2_4]
     @ concat [static_T60S_FSCH2_5, static_T60S_FSCH2_6]
     @ concat [static_T60S_FSCH2_7, static_T60S_FSCH2_8]
     @ concat [static_T60S_FSCH2_9, static_T60S_FSCH2_10]
     @ concat [static_T60S_FSCH2_11, static_T60S_FSCH2_12]
     @ concat [static_T60S_FSCH2_13, static_T60S_FSCH2_14]
     @ concat [static_T60S_FSCH2_15, static_T60S_FSCH2_16]
     @ concat [static_T60S_FSCH2_17, static_T60S_FSCH2_18]
     @ concat [static_T60S_FSCH2_19, static_T60S_FSCH2_20]
     @ concat [static_GGIO_FSCC1_1, static_GGIO_FSCC1_2]"
  by (simp add: static_table_def static_LLN0_def static_GGIO1_def static_TIM_GAPC1_def static_T60S_FSCH1_def static_T60S_FSCH2_def static_GGIO_FSCC1_def)

lemma gio_declared_table: "gio_declared = map declared_as static_table"
  by (simp only: gio_blocks map_append gio_declared_def gio_declared_1_block gio_declared_2_block gio_declared_3_block gio_declared_4_block gio_declared_5_block gio_declared_6_block gio_declared_7_block gio_declared_8_block gio_declared_9_block gio_declared_10_block gio_declared_11_block gio_declared_12_block gio_declared_13_block gio_declared_14_block gio_declared_15_block gio_declared_16_block gio_declared_17_block gio_declared_18_block gio_declared_19_block gio_declared_20_block gio_declared_21_block gio_declared_22_block gio_declared_23_block gio_declared_24_block gio_declared_25_block gio_declared_26_block gio_declared_27_block gio_declared_28_block gio_declared_29_block gio_declared_30_block)

lemma gio_handles_pass:
  "handle_pass [(iedModel, ''IEDMODEL'')] static_table = (gio_handles, [(iedModel_GenericIO_GGIO_FSCC1_Schd2_setSrcRef, ''IEDMODEL_GenericIO_GGIO_FSCC1_Schd2_setSrcRef''), (iedModel_GenericIO_GGIO_FSCC1_Schd2, ''IEDMODEL_GenericIO_GGIO_FSCC1_Schd2''), (iedModel_GenericIO_GGIO_FSCC1, ''IEDMODEL_GenericIO_GGIO_FSCC1''), (iedModel_GenericIO, ''IEDMODEL_GenericIO''), (iedModel, ''IEDMODEL'')])"
  unfolding gio_blocks gio_handles_def by (intro handle_pass_join) (rule gio_handles_1_block gio_handles_2_block gio_handles_3_block gio_handles_4_block gio_handles_5_block gio_handles_6_block gio_handles_7_block gio_handles_8_block gio_handles_9_block gio_handles_10_block gio_handles_11_block gio_handles_12_block gio_handles_13_block gio_handles_14_block gio_handles_15_block gio_handles_16_block gio_handles_17_block gio_handles_18_block gio_handles_19_block gio_handles_20_block gio_handles_21_block gio_handles_22_block gio_handles_23_block gio_handles_24_block gio_handles_25_block gio_handles_26_block gio_handles_27_block gio_handles_28_block gio_handles_29_block gio_handles_30_block)+

lemma gio_handles_table: "fst (handle_pass [(iedModel, ''IEDMODEL'')] static_table) = gio_handles"
  by (simp only: gio_handles_pass fst_conv)

interpretation gioh: named_model iedModel iedModel_GenericIO static_table initial_values gio_declared gio_handles
  by unfold_locales (simp_all add: addrs_static_table gio_declared_table gio_handles_table del: upt_rec_numeral)

section \<open>Properties\<close>

text \<open>
  C30. The header of the gateway's model agrees with the model: it declares all 637
  structures with their types, and its handles are exactly the paths of the tree, each
  standing for the structure that has this path: \<open>IEDMODEL_GenericIO_GGIO1_SPCSO1_stVal\<close>, for
  instance, is the attribute \<open>stVal\<close> of the data object \<open>SPCSO1\<close> of the node \<open>GGIO1\<close>.
\<close>

theorem handles_are_paths:
  "(\<exists>t. static_table = emit_list (Some iedModel) [t] \<and> gio_handles = tree_handles ''IEDMODEL'' [t])
   \<and> gio_declared = map declared_as static_table \<and> length gio_handles = 637
   \<and> map snd gio_handles = map fst static_table"
proof -
  have "length gio_handles = 637"
    using arg_cong [OF gioh.handles_addrs, of length] static_table_length by (simp only: length_map)
  with gioh.handles_tree gioh.handles_addrs gio_declared_table show ?thesis by blast
qed

end
