(* ===== verification/Ordered_Map.thy ===== *)
theory Ordered_Map
  imports Gateway_Prelude
begin

text \<open>
  \<open>std::map\<close> as an association list in key order: \<open>operator[]\<close> with an assignment is
  \<open>omap_put\<close>, \<open>find\<close> is \<open>map_of\<close>, changing the value behind an iterator is \<open>omap_alter\<close>,
  and iteration visits the list from the front. The locale \<open>lookup_table\<close> is what the
  clients of such a container rely on.
\<close>

fun omap_put :: "'k::linorder \<Rightarrow> 'v \<Rightarrow> ('k \<times> 'v) list \<Rightarrow> ('k \<times> 'v) list" where
  "omap_put k v [] = [(k, v)]"
| "omap_put k v ((k', v') # m) =
     (if k < k' then (k, v) # (k', v') # m
      else if k = k' then (k, v) # m
      else (k', v') # omap_put k v m)"

definition omap_alter :: "'k::linorder \<Rightarrow> ('v \<Rightarrow> 'v) \<Rightarrow> ('k \<times> 'v) list \<Rightarrow> ('k \<times> 'v) list" where
  "omap_alter k f m = (case map_of m k of None \<Rightarrow> m | Some v \<Rightarrow> omap_put k (f v) m)"

definition omap_ok :: "('k::linorder \<times> 'v) list \<Rightarrow> bool" where
  "omap_ok m \<longleftrightarrow> sorted_wrt (<) (map fst m)"

locale lookup_table =
  fixes find :: "'m \<Rightarrow> 'k \<Rightarrow> 'v option"
    and put :: "'k \<Rightarrow> 'v \<Rightarrow> 'm \<Rightarrow> 'm"
    and ok :: "'m \<Rightarrow> bool"
  assumes find_put: "ok m \<Longrightarrow> find (put k v m) k' = (if k' = k then Some v else find m k')"
    and ok_put: "ok m \<Longrightarrow> ok (put k v m)"
begin

definition puts :: "('k \<times> 'v) list \<Rightarrow> 'm \<Rightarrow> 'm" where
  "puts kvs m = fold (\<lambda>(k, v). put k v) kvs m"

lemma puts_simps [simp]:
  "puts [] m = m"
  "puts ((k, v) # kvs) m = puts kvs (put k v m)"
  by (simp_all add: puts_def)

lemma ok_puts: "ok m \<Longrightarrow> ok (puts kvs m)"
  by (induction kvs arbitrary: m) (auto simp: ok_put)

lemma find_puts: "ok m \<Longrightarrow> find (puts kvs m) = find m ++ map_of (rev kvs)"
proof (induction kvs arbitrary: m)
  case (Cons kv kvs)
  obtain k v where kv: "kv = (k, v)" by fastforce
  have "find (put k v m) = (find m)(k \<mapsto> v)" by (auto simp: find_put [OF Cons.prems])
  then have "find (puts (kv # kvs) m) = (find m)(k \<mapsto> v) ++ map_of (rev kvs)"
    using Cons.IH [OF ok_put [OF Cons.prems]] kv by (simp del: fun_upd_apply)
  then show ?case by (simp only: entries_cons kv)
qed simp

lemma put_is_update: "ok m \<Longrightarrow> find (put k v m) = (find m)(k \<mapsto> v)"
  by (auto simp: find_put)

end

lemma omap_put_keys: "set (map fst (omap_put k v m)) = insert k (set (map fst m))"
  by (induction k v m rule: omap_put.induct) auto

lemma omap_put_lookup: "map_of (omap_put k v m) k' = (if k' = k then Some v else map_of m k')"
  if "omap_ok m"
  using that
proof (induction m)
  case (Cons a m)
  obtain k0 v0 where a: "a = (k0, v0)" by fastforce
  have "omap_ok m" and lt: "\<forall>x \<in> set (map fst m). k0 < x" using Cons.prems a by (auto simp: omap_ok_def)
  have "map_of m k = None" if "k < k0"
    using lt that by (force simp: map_of_eq_None_iff)
  with Cons.IH [OF \<open>omap_ok m\<close>] a show ?case by auto
qed simp

lemma omap_put_ok: "omap_ok m \<Longrightarrow> omap_ok (omap_put k v m)"
proof (induction m)
  case (Cons a m)
  obtain k0 v0 where a: "a = (k0, v0)" by fastforce
  have m: "omap_ok m" and lt: "\<forall>x \<in> set (map fst m). k0 < x" using Cons.prems a by (auto simp: omap_ok_def)
  have "\<forall>x \<in> set (map fst (omap_put k v m)). k0 < x" if "k0 < k"
    using lt that by (simp only: omap_put_keys) auto
  with a m lt Cons.IH show ?case by (force simp: omap_ok_def)
qed (simp add: omap_ok_def)

interpretation omap: lookup_table map_of omap_put omap_ok
  by unfold_locales (simp_all add: omap_put_lookup omap_put_ok)

lemma omap_alter_lookup:
  "omap_ok m \<Longrightarrow> map_of (omap_alter k f m) k' = (if k' = k then map_option f (map_of m k) else map_of m k')"
  by (auto simp: omap_alter_def omap_put_lookup split: option.split)

lemma omap_alter_ok: "omap_ok m \<Longrightarrow> omap_ok (omap_alter k f m)"
  by (auto simp: omap_alter_def omap_put_ok split: option.split)

lemma omap_put_present: "map_of m k \<noteq> None \<Longrightarrow> omap_ok m \<Longrightarrow> map fst (omap_put k v m) = map fst m"
proof (induction m)
  case (Cons a m)
  obtain k0 v0 where a: "a = (k0, v0)" by fastforce
  have m: "omap_ok m" and lt: "\<forall>x \<in> set (map fst m). k0 < x" using Cons.prems a by (auto simp: omap_ok_def)
  have "\<not> k < k0"
  proof
    assume k: "k < k0"
    then obtain v' where "map_of m k = Some v'" using Cons.prems(1) a by (auto split: if_splits)
    then have "k \<in> set (map fst m)" by (force dest: map_of_SomeD)
    with lt k show False by (meson less_asym)
  qed
  with Cons a m show ?case by auto
qed simp

lemma omap_put_set: "set (omap_put k v m) \<subseteq> insert (k, v) (set m)"
  by (induction k v m rule: omap_put.induct) auto

end
