(* ===== verification/Iec104_Server.thy ===== *)
theory Iec104_Server
  imports Ordered_Map
begin

text \<open>
  The IEC 60870-5-104 server, class \<open>IEC104Server\<close> (\<open>core/iec104/iec104Service.h\<close> and
  \<open>iec104Service.cc\<close>). The table of data points is the \<open>std::map\<close> of the class; the union
  of a point records which member was written last, and reading the other one is the
  fault \<open>UnionMisread\<close>. The lib60870 library is the parameter \<open>lib60870\<close>: creating an
  ASDU and adding an information object to it. What the server hands to the library (a
  queued ASDU, an ASDU, confirmation or termination on a connection) is a list of
  messages in the order of the calls. The clock is an argument. Log output is left out.
  The mutex makes every access to the table atomic; the one race the code leaves open,
  between \<open>stop\<close> and the periodic thread, is a step relation.
\<close>

section \<open>Data points\<close>

datatype DataPointType = MEASURED_VALUE_SCALED | SINGLE_POINT

datatype point_union = ScaledValue "16 word" | SinglePointValue bool

record data_point =
  ioa :: int
  ptype :: DataPointType
  pvalue :: point_union
  quality :: "8 word"
  timestamp :: "64 word"

record server_config =
  localAddress :: string
  sc_port :: int
  maxConnections :: int
  maxQueueSize :: int

definition default_ServerConfig :: server_config where
  "default_ServerConfig =
     \<lparr>localAddress = ''0.0.0.0'', sc_port = 2404, maxConnections = 10, maxQueueSize = 10\<rparr>"

text \<open>
  The slave instance as far as the server configures it: the sizes of its two queues,
  the address and port it binds (2404 unless changed), its handlers and whether it runs.
\<close>

record slave =
  lowPrioQueueSize :: int
  highPrioQueueSize :: int
  bound_address :: "string option"
  bound_port :: int
  single_redundancy_group :: bool
  handlers_installed :: bool
  slave_running :: bool

record iec104_server =
  config_m :: server_config
  slave_m :: "slave option"
  dataPoints_m :: "(int \<times> data_point) list"
  running_m :: bool
  periodicIntervalMs :: "32 word"
  periodicThread :: bool

definition IEC104Server :: "server_config \<Rightarrow> iec104_server" where
  "IEC104Server config =
     \<lparr>config_m = config,
      slave_m = Some \<lparr>lowPrioQueueSize = maxConnections config, highPrioQueueSize = maxQueueSize config,
                      bound_address = Some (localAddress config), bound_port = 2404,
                      single_redundancy_group = True, handlers_installed = False, slave_running = False\<rparr>,
      dataPoints_m = [], running_m = False, periodicIntervalMs = 1000, periodicThread = False\<rparr>"

definition addDataPoint_scaled ::
  "64 word \<Rightarrow> int \<Rightarrow> DataPointType \<Rightarrow> 16 word \<Rightarrow> 8 word \<Rightarrow> iec104_server \<Rightarrow> iec104_server" where
  "addDataPoint_scaled now a t v q s =
     s\<lparr>dataPoints_m := omap_put a
         \<lparr>ioa = a, ptype = t, pvalue = ScaledValue v, quality = q, timestamp = now\<rparr> (dataPoints_m s)\<rparr>"

definition addDataPoint_single ::
  "64 word \<Rightarrow> int \<Rightarrow> DataPointType \<Rightarrow> bool \<Rightarrow> 8 word \<Rightarrow> iec104_server \<Rightarrow> iec104_server" where
  "addDataPoint_single now a t v q s =
     s\<lparr>dataPoints_m := omap_put a
         \<lparr>ioa = a, ptype = t, pvalue = SinglePointValue v, quality = q, timestamp = now\<rparr> (dataPoints_m s)\<rparr>"

definition set_if_type ::
  "DataPointType \<Rightarrow> point_union \<Rightarrow> 64 word \<Rightarrow> int \<Rightarrow> iec104_server \<Rightarrow> iec104_server" where
  "set_if_type t v now a s =
     s\<lparr>dataPoints_m := omap_alter a
         (\<lambda>dp. if ptype dp = t then dp\<lparr>pvalue := v, timestamp := now\<rparr> else dp) (dataPoints_m s)\<rparr>"

definition updateDataPoint_scaled :: "64 word \<Rightarrow> int \<Rightarrow> 16 word \<Rightarrow> iec104_server \<Rightarrow> iec104_server" where
  "updateDataPoint_scaled now a v s = set_if_type MEASURED_VALUE_SCALED (ScaledValue v) now a s"

definition updateDataPoint_single :: "64 word \<Rightarrow> int \<Rightarrow> bool \<Rightarrow> iec104_server \<Rightarrow> iec104_server" where
  "updateDataPoint_single now a v s = set_if_type SINGLE_POINT (SinglePointValue v) now a s"

definition setPeriodicSendInterval :: "32 word \<Rightarrow> iec104_server \<Rightarrow> iec104_server" where
  "setPeriodicSendInterval ms s = s\<lparr>periodicIntervalMs := ms\<rparr>"

section \<open>Sending\<close>

datatype information_object =
    MeasuredValueScaled int "16 word" "8 word"
  | SinglePointInformation int bool "8 word"

text \<open>The library: creating an ASDU for a cause of transmission and adding an object.\<close>

record 'a lib60870 =
  asdu_create :: "int \<Rightarrow> 'a option"
  asdu_add :: "information_object \<Rightarrow> 'a \<Rightarrow> 'a \<times> bool"

datatype ('c, 'a) message =
    EnqueueASDU 'a
  | SendASDU 'c 'a
  | SendACT_CON 'c bool
  | SendACT_TERM 'c

definition COT_PERIODIC :: int where "COT_PERIODIC = 1"
definition COT_ACTIVATION :: int where "COT_ACTIVATION = 6"
definition COT_ACTIVATION_CON :: int where "COT_ACTIVATION_CON = 7"
definition COT_INTERROGATED_BY_STATION :: int where "COT_INTERROGATED_BY_STATION = 20"
definition COT_UNKNOWN_COT :: int where "COT_UNKNOWN_COT = 45"
definition COT_UNKNOWN_IOA :: int where "COT_UNKNOWN_IOA = 47"
definition C_SC_NA_1 :: int where "C_SC_NA_1 = 45"

fun point_io :: "data_point \<Rightarrow> information_object result" where
  "point_io dp =
     (case (ptype dp, pvalue dp) of
        (MEASURED_VALUE_SCALED, ScaledValue v) \<Rightarrow> Inr (MeasuredValueScaled (ioa dp) v (quality dp))
      | (SINGLE_POINT, SinglePointValue v) \<Rightarrow> Inr (SinglePointInformation (ioa dp) v (quality dp))
      | _ \<Rightarrow> Inl UnionMisread)"

declare point_io.simps [simp del]

fun add_points :: "'a lib60870 \<Rightarrow> data_point list \<Rightarrow> 'a \<Rightarrow> 'a result" where
  "add_points lib [] asdu = Inr asdu"
| "add_points lib (dp # dps) asdu =
     rbind (point_io dp) (\<lambda>io. add_points lib dps (fst (asdu_add lib io asdu)))"

definition sendDataPoints ::
  "'a lib60870 \<Rightarrow> 'c option \<Rightarrow> data_point list \<Rightarrow> int \<Rightarrow> ('c, 'a) message list result" where
  "sendDataPoints lib connection points cot =
     (if points = [] then Inr []
      else
        (case asdu_create lib cot of
           None \<Rightarrow> Inr []
         | Some asdu \<Rightarrow>
             rbind (add_points lib points asdu) (\<lambda>asdu'.
               Inr [case connection of Some c \<Rightarrow> SendASDU c asdu' | None \<Rightarrow> EnqueueASDU asdu'])))"

text \<open>One pass of \<open>periodicSendTask\<close>; the loop ends when the server is not running.\<close>

definition periodicSendTask_pass ::
  "'a lib60870 \<Rightarrow> iec104_server \<Rightarrow> (bool \<times> ('c, 'a) message list) result" where
  "periodicSendTask_pass lib s =
     (if \<not> running_m s then Inr (False, [])
      else rbind (sendDataPoints lib None (map snd (dataPoints_m s)) COT_PERIODIC) (\<lambda>ms. Inr (True, ms)))"

section \<open>Starting and stopping\<close>

text \<open>
  The two outcomes the library decides are arguments: whether the slave runs after the
  start call, and whether the thread could be created.
\<close>

definition start :: "bool \<Rightarrow> bool \<Rightarrow> (bool, iec104_server) oper" where
  "start slave_up thread_up s =
     (if running_m s then Inr (False, s)
      else
        (case slave_m s of
           None \<Rightarrow> Inl NullDeref
         | Some sl \<Rightarrow>
             if \<not> slave_up then Inr (False, s\<lparr>slave_m := Some (sl\<lparr>handlers_installed := True\<rparr>)\<rparr>)
             else if \<not> thread_up
             then Inr (False, s\<lparr>slave_m := Some (sl\<lparr>handlers_installed := True, slave_running := False\<rparr>),
                               running_m := False, periodicThread := False\<rparr>)
             else Inr (True, s\<lparr>slave_m := Some (sl\<lparr>handlers_installed := True, slave_running := True\<rparr>),
                              running_m := True, periodicThread := True\<rparr>)))"

definition stop :: "iec104_server \<Rightarrow> iec104_server" where
  "stop s =
     (if \<not> running_m s then s
      else s\<lparr>running_m := False, periodicThread := False,
             slave_m := map_option (\<lambda>sl. sl\<lparr>slave_running := False\<rparr>) (slave_m s)\<rparr>)"

definition destroy_IEC104Server :: "iec104_server \<Rightarrow> iec104_server" where
  "destroy_IEC104Server s = (stop s)\<lparr>slave_m := None\<rparr>"

section \<open>Handlers\<close>

definition clockSyncHandler :: "'t \<Rightarrow> 't \<Rightarrow> bool \<times> 't" where
  "clockSyncHandler now newTime = (True, now)"

definition interrogationHandler ::
  "'a lib60870 \<Rightarrow> 'c \<Rightarrow> 8 word \<Rightarrow> iec104_server \<Rightarrow> (bool \<times> ('c, 'a) message list) result" where
  "interrogationHandler lib connection qoi s =
     (if qoi = 20 then
        rbind (sendDataPoints lib (Some connection) (map snd (dataPoints_m s)) COT_INTERROGATED_BY_STATION)
          (\<lambda>ms. Inr (True, SendACT_CON connection False # ms @ [SendACT_TERM connection]))
      else Inr (True, [SendACT_CON connection True]))"

text \<open>
  A received ASDU: type, cause, and the address and state of its first element. The
  handler sends the ASDU back on its connection with a new cause.
\<close>

record received_asdu =
  ra_type :: int
  ra_cot :: int
  ra_element :: "(int \<times> bool) option"

definition asduHandler ::
  "64 word \<Rightarrow> 'c \<Rightarrow> received_asdu \<Rightarrow> iec104_server \<Rightarrow> bool \<times> ('c \<times> int) list \<times> iec104_server" where
  "asduHandler now connection asdu s =
     (if ra_type asdu = C_SC_NA_1 then
        (if ra_cot asdu = COT_ACTIVATION then
           (case ra_element asdu of
              Some (a, state) \<Rightarrow>
                (True, [(connection, COT_ACTIVATION_CON)],
                 set_if_type SINGLE_POINT (SinglePointValue state) now a s)
            | None \<Rightarrow> (True, [(connection, COT_UNKNOWN_IOA)], s))
         else (True, [(connection, COT_UNKNOWN_COT)], s))
      else (False, [], s))"

definition connectionRequestHandler :: "string \<Rightarrow> bool" where
  "connectionRequestHandler ipAddress = True"

datatype peer_event = CONNECTION_OPENED | CONNECTION_CLOSED | ACTIVATED | DEACTIVATED

fun connectionEventHandler :: "peer_event \<Rightarrow> string" where
  "connectionEventHandler CONNECTION_OPENED = ''opened''"
| "connectionEventHandler CONNECTION_CLOSED = ''closed''"
| "connectionEventHandler ACTIVATED = ''activated''"
| "connectionEventHandler DEACTIVATED = ''deactivated''"

text \<open>
  \<open>rawMessageHandler\<close>: the direction is a log record of its own, the bytes go to the console.
\<close>

definition rawMessageHandler :: "8 word list \<Rightarrow> bool \<Rightarrow> string \<times> string" where
  "rawMessageHandler msg sent =
     ((if sent then ''SEND: '' else ''RCVD: ''), concat (map (\<lambda>b. hex_byte b @ '' '') msg) @ [CHR 0x0A])"

section \<open>The test program\<close>

definition server104Test_config :: server_config where
  "server104Test_config = \<lparr>localAddress = ''0.0.0.0'', sc_port = 2404, maxConnections = 5, maxQueueSize = 5\<rparr>"

definition server104Test_setup :: "64 word \<Rightarrow> iec104_server" where
  "server104Test_setup now =
     addDataPoint_single now 201 SINGLE_POINT False 0
       (addDataPoint_single now 200 SINGLE_POINT True 0
         (addDataPoint_scaled now 101 MEASURED_VALUE_SCALED 2000 0
           (addDataPoint_scaled now 100 MEASURED_VALUE_SCALED 1000 0
             (setPeriodicSendInterval 2000 (IEC104Server server104Test_config)))))"

definition server104Test_pass :: "64 word \<Rightarrow> 16 word \<times> iec104_server \<Rightarrow> 16 word \<times> iec104_server" where
  "server104Test_pass now vs =
     (let value = fst vs; value' = value + 1 in
      (value',
       updateDataPoint_single now 200 (sint value' mod 2 = 0)
         (updateDataPoint_scaled now 101 (value' + 1000)
           (updateDataPoint_scaled now 100 value (snd vs)))))"

text \<open>The loop of \<open>server104Test\<close>: one pass per reading of the clock.\<close>

fun server104Test_loop :: "64 word list \<Rightarrow> 16 word \<times> iec104_server \<Rightarrow> 16 word \<times> iec104_server" where
  "server104Test_loop [] vs = vs"
| "server104Test_loop (now # nows) vs = server104Test_loop nows (server104Test_pass now vs)"

definition server104Test :: "bool \<Rightarrow> bool \<Rightarrow> 64 word \<Rightarrow> 64 word list \<Rightarrow> (int \<times> iec104_server) result" where
  "server104Test slave_up thread_up now nows =
     rbind (start slave_up thread_up (server104Test_setup now)) (\<lambda>(started, s).
       if \<not> started then Inr (1, destroy_IEC104Server s)
       else Inr (0, destroy_IEC104Server (stop (snd (server104Test_loop nows (1000, s))))))"

section \<open>The table of points\<close>

definition typed :: "data_point \<Rightarrow> bool" where
  "typed dp \<longleftrightarrow> (case pvalue dp of ScaledValue v \<Rightarrow> ptype dp = MEASURED_VALUE_SCALED
                                | SinglePointValue b \<Rightarrow> ptype dp = SINGLE_POINT)"

definition srv_ok :: "iec104_server \<Rightarrow> bool" where
  "srv_ok s \<longleftrightarrow> omap_ok (dataPoints_m s) \<and> (\<forall>(a, dp) \<in> set (dataPoints_m s). ioa dp = a \<and> typed dp)
     \<and> (running_m s \<longrightarrow> periodicThread s \<and> (\<exists>sl. slave_m s = Some sl \<and> slave_running sl))"

text \<open>Uses of the server in which a point is added with the value its type calls for.\<close>

datatype 'c server_event =
    AddScaled "64 word" int "16 word" "8 word"
  | AddSingle "64 word" int bool "8 word"
  | UpdateScaled "64 word" int "16 word"
  | UpdateSingle "64 word" int bool
  | Start bool bool
  | Stop
  | Command "64 word" 'c received_asdu

inductive server_step :: "iec104_server \<Rightarrow> 'c server_event \<Rightarrow> iec104_server \<Rightarrow> bool" where
  add_scaled: "server_step s (AddScaled now a v q) (addDataPoint_scaled now a MEASURED_VALUE_SCALED v q s)"
| add_single: "server_step s (AddSingle now a b q) (addDataPoint_single now a SINGLE_POINT b q s)"
| upd_scaled: "server_step s (UpdateScaled now a v) (updateDataPoint_scaled now a v s)"
| upd_single: "server_step s (UpdateSingle now a b) (updateDataPoint_single now a b s)"
| starts: "start up th s = Inr (r, s') \<Longrightarrow> server_step s (Start up th) s'"
| stops: "server_step s Stop (stop s)"
| command: "asduHandler now c asdu s = (r, ms, s') \<Longrightarrow> server_step s (Command now c asdu) s'"

inductive_cases server_stepE: "server_step s e t"

definition server_start :: "iec104_server \<Rightarrow> bool" where
  "server_start s \<longleftrightarrow> (\<exists>c. s = IEC104Server c)"

lemma put_point_ok:
  "srv_ok s \<Longrightarrow> ioa dp = a \<Longrightarrow> typed dp \<Longrightarrow> srv_ok (s\<lparr>dataPoints_m := omap_put a dp (dataPoints_m s)\<rparr>)"
  using omap_put_set [of a dp "dataPoints_m s"] by (auto simp: srv_ok_def omap_put_ok)

lemma add_ok:
  "srv_ok s \<Longrightarrow> srv_ok (addDataPoint_scaled now a MEASURED_VALUE_SCALED v q s)"
  "srv_ok s \<Longrightarrow> srv_ok (addDataPoint_single now a SINGLE_POINT b q s)"
  by (simp_all add: addDataPoint_scaled_def addDataPoint_single_def put_point_ok typed_def)

definition member_of :: "point_union \<Rightarrow> DataPointType" where
  "member_of v = (case v of ScaledValue _ \<Rightarrow> MEASURED_VALUE_SCALED | SinglePointValue _ \<Rightarrow> SINGLE_POINT)"

lemma set_if_type_ok:
  assumes "srv_ok s" and "member_of v = t"
  shows "srv_ok (set_if_type t v now a s)"
proof (cases "map_of (dataPoints_m s) a")
  case (Some dp)
  then have "(a, dp) \<in> set (dataPoints_m s)" by (rule map_of_SomeD)
  then have "ioa dp = a" "typed dp" using assms(1) by (auto simp: srv_ok_def)
  with assms Some show ?thesis
    by (auto simp: set_if_type_def omap_alter_def typed_def member_of_def intro!: put_point_ok
        split: point_union.splits)
qed (use assms in \<open>simp add: set_if_type_def omap_alter_def\<close>)

lemma update_ok:
  "srv_ok s \<Longrightarrow> srv_ok (updateDataPoint_scaled now a v s)"
  "srv_ok s \<Longrightarrow> srv_ok (updateDataPoint_single now a b s)"
  by (simp_all add: updateDataPoint_scaled_def updateDataPoint_single_def set_if_type_ok member_of_def)

lemma start_ok: "srv_ok s \<Longrightarrow> start up th s = Inr (r, s') \<Longrightarrow> srv_ok s'"
  by (auto simp: start_def srv_ok_def split: if_splits option.splits)

lemma stop_ok: "srv_ok s \<Longrightarrow> srv_ok (stop s)"
  by (auto simp: stop_def srv_ok_def)

lemma asduHandler_ok: "srv_ok s \<Longrightarrow> asduHandler now c asdu s = (r, ms, s') \<Longrightarrow> srv_ok s'"
  by (auto simp: asduHandler_def set_if_type_ok member_of_def split: if_splits option.splits)

interpretation srv: invariant_system server_start server_step srv_ok
proof unfold_locales
  show "srv_ok s" if "server_start s" for s
    using that by (auto simp: server_start_def IEC104Server_def srv_ok_def omap_ok_def)
  show "srv_ok t" if "srv_ok s" and "server_step s e t" for s t and e :: "'c server_event"
    using that(2,1) by cases (auto intro: add_ok update_ok start_ok stop_ok asduHandler_ok)
qed

section \<open>What an ASDU carries\<close>

text \<open>
  The documented behaviour of \<open>CS101_ASDU_addInformationObject\<close>: only objects of one
  type go into an ASDU, and only while there is space. \<open>elems\<close> observes the objects of
  an ASDU and \<open>cap\<close> says how many of a type fit.
\<close>

datatype io_kind = M_ME_NB | M_SP_NA

fun kind :: "information_object \<Rightarrow> io_kind" where
  "kind (MeasuredValueScaled a v q) = M_ME_NB"
| "kind (SinglePointInformation a b q) = M_SP_NA"

definition asdu_laws :: "'a lib60870 \<Rightarrow> ('a \<Rightarrow> information_object list) \<Rightarrow> (io_kind \<Rightarrow> nat) \<Rightarrow> bool" where
  "asdu_laws lib elems cap \<longleftrightarrow>
     (\<forall>cot. \<exists>a. asdu_create lib cot = Some a \<and> elems a = [])
     \<and> (\<forall>k. 0 < cap k)
     \<and> (\<forall>io a. if (\<forall>x \<in> set (elems a). kind x = kind io) \<and> length (elems a) < cap (kind io)
               then snd (asdu_add lib io a) \<and> elems (fst (asdu_add lib io a)) = elems a @ [io]
               else \<not> snd (asdu_add lib io a) \<and> elems (fst (asdu_add lib io a)) = elems a)"

definition io_of :: "data_point \<Rightarrow> information_object" where
  "io_of dp = (case pvalue dp of ScaledValue v \<Rightarrow> MeasuredValueScaled (ioa dp) v (quality dp)
                              | SinglePointValue b \<Rightarrow> SinglePointInformation (ioa dp) b (quality dp))"

lemma point_io_typed: "typed dp \<Longrightarrow> point_io dp = Inr (io_of dp)"
  by (auto simp: point_io.simps typed_def io_of_def split: point_union.splits)

definition packed :: "(io_kind \<Rightarrow> nat) \<Rightarrow> information_object list \<Rightarrow> information_object list" where
  "packed cap ios =
     (case ios of [] \<Rightarrow> [] | io # _ \<Rightarrow> take (cap (kind io)) (filter (\<lambda>x. kind x = kind io) ios))"

lemma asdu_addD:
  assumes "asdu_laws lib elems cap"
  shows "elems (fst (asdu_add lib io a)) =
    (if (\<forall>x \<in> set (elems a). kind x = kind io) \<and> length (elems a) < cap (kind io)
     then elems a @ [io] else elems a)"
proof -
  have "if (\<forall>x \<in> set (elems a). kind x = kind io) \<and> length (elems a) < cap (kind io)
        then snd (asdu_add lib io a) \<and> elems (fst (asdu_add lib io a)) = elems a @ [io]
        else \<not> snd (asdu_add lib io a) \<and> elems (fst (asdu_add lib io a)) = elems a"
    using assms unfolding asdu_laws_def by blast
  then show ?thesis by presburger
qed

lemma add_points_filled:
  assumes laws: "asdu_laws lib elems cap" and "\<forall>dp \<in> set dps. typed dp"
    and "elems a \<noteq> []" and "\<forall>x \<in> set (elems a). kind x = k" and "length (elems a) \<le> cap k"
  shows "\<exists>a'. add_points lib dps a = Inr a'
     \<and> elems a' = take (cap k) (elems a @ filter (\<lambda>x. kind x = k) (map io_of dps))"
  using assms(2-)
proof (induction dps arbitrary: a)
  case (Cons dp dps)
  let ?a = "fst (asdu_add lib (io_of dp) a)"
  have add: "elems ?a = (if kind (io_of dp) = k \<and> length (elems a) < cap k then elems a @ [io_of dp] else elems a)"
    using Cons.prems(2,3) by (cases "elems a") (auto simp: asdu_addD [OF laws])
  have "\<forall>dp \<in> set dps. typed dp" "typed dp" using Cons.prems(1) by simp_all
  moreover have "elems ?a \<noteq> []" "\<forall>x \<in> set (elems ?a). kind x = k" "length (elems ?a) \<le> cap k"
    unfolding add using Cons.prems(2-4) by simp_all
  ultimately obtain a' where a': "add_points lib dps ?a = Inr a'"
      "elems a' = take (cap k) (elems ?a @ filter (\<lambda>x. kind x = k) (map io_of dps))"
    using Cons.IH [of ?a] by blast
  have "elems a' = take (cap k) (elems a @ filter (\<lambda>x. kind x = k) (map io_of (dp # dps)))"
    unfolding a'(2) add using Cons.prems(4) by (simp add: take_Cons')
  with a'(1) show ?case by (simp add: point_io_typed [OF \<open>typed dp\<close>])
qed simp

lemma add_points_packed:
  assumes laws: "asdu_laws lib elems cap" and "\<forall>dp \<in> set dps. typed dp" and "elems a = []"
  shows "\<exists>a'. add_points lib dps a = Inr a' \<and> elems a' = packed cap (map io_of dps)"
proof (cases dps)
  case (Cons dp dps')
  let ?a = "fst (asdu_add lib (io_of dp) a)" and ?k = "kind (io_of dp)"
  have cap: "0 < cap ?k" using laws by (simp add: asdu_laws_def)
  then have a: "elems ?a = [io_of dp]" using assms(3) by (simp add: asdu_addD [OF laws])
  obtain a' where "add_points lib dps' ?a = Inr a'"
      "elems a' = take (cap ?k) (elems ?a @ filter (\<lambda>x. kind x = ?k) (map io_of dps'))"
    using add_points_filled [OF laws, of dps' ?a ?k] assms(2) a cap Cons by auto
  with a Cons assms(2) show ?thesis by (simp add: packed_def point_io_typed)
qed (use assms in \<open>simp add: packed_def\<close>)

lemma send_packed:
  assumes "asdu_laws lib elems cap" and "\<forall>dp \<in> set dps. typed dp" and "dps \<noteq> []"
  shows "\<exists>a. elems a = packed cap (map io_of dps)
     \<and> sendDataPoints lib conn dps cot = Inr [case conn of Some c \<Rightarrow> SendASDU c a | None \<Rightarrow> EnqueueASDU a]"
proof -
  obtain a where a: "asdu_create lib cot = Some a" "elems a = []"
    using assms(1) unfolding asdu_laws_def by blast
  with add_points_packed [OF assms(1,2) a(2)] assms(3) show ?thesis
    by (auto simp: sendDataPoints_def)
qed

lemma srv_ok_typed: "srv_ok s \<Longrightarrow> \<forall>dp \<in> set (map snd (dataPoints_m s)). typed dp"
  by (auto simp: srv_ok_def)

section \<open>The loop of the test program\<close>

definition point_value :: "iec104_server \<Rightarrow> int \<Rightarrow> point_union option" where
  "point_value s a = map_option pvalue (map_of (dataPoints_m s) a)"

definition point_type :: "iec104_server \<Rightarrow> int \<Rightarrow> DataPointType option" where
  "point_type s a = map_option ptype (map_of (dataPoints_m s) a)"

lemma set_if_type_facts:
  assumes "omap_ok (dataPoints_m s)"
  shows "point_value (set_if_type t v now a s) b =
       (if b = a \<and> point_type s a = Some t then Some v else point_value s b)
    \<and> point_type (set_if_type t v now a s) b = point_type s b
    \<and> omap_ok (dataPoints_m (set_if_type t v now a s))"
  using assms
  by (cases "map_of (dataPoints_m s) a")
     (auto simp: set_if_type_def point_value_def point_type_def omap_alter_lookup omap_alter_ok)

lemmas set_if_type_lookup =
  set_if_type_facts [THEN conjunct1]
  set_if_type_facts [THEN conjunct2, THEN conjunct1]
  set_if_type_facts [THEN conjunct2, THEN conjunct2]

definition test_points :: "iec104_server \<Rightarrow> bool" where
  "test_points s \<longleftrightarrow> omap_ok (dataPoints_m s)
     \<and> point_type s 100 = Some MEASURED_VALUE_SCALED \<and> point_type s 101 = Some MEASURED_VALUE_SCALED
     \<and> point_type s 200 = Some SINGLE_POINT"

lemma server104Test_pass_values:
  assumes "test_points s"
  shows "server104Test_pass now (v, s) = (v + 1, snd (server104Test_pass now (v, s)))"
    and "test_points (snd (server104Test_pass now (v, s)))"
    and "point_value (snd (server104Test_pass now (v, s))) 100 = Some (ScaledValue v)"
    and "point_value (snd (server104Test_pass now (v, s))) 101 = Some (ScaledValue (v + 1001))"
    and "point_value (snd (server104Test_pass now (v, s))) 200 = Some (SinglePointValue (sint (v + 1) mod 2 = 0))"
    and "point_value (snd (server104Test_pass now (v, s))) 201 = point_value s 201"
  using assms
  by (simp_all add: server104Test_pass_def Let_def updateDataPoint_scaled_def updateDataPoint_single_def
      test_points_def set_if_type_lookup add.assoc)

lemma server104Test_loop_values:
  assumes "test_points s" and "nows \<noteq> []"
  shows "\<exists>s'. server104Test_loop nows (v, s) = (v + of_nat (length nows), s') \<and> test_points s'
     \<and> point_value s' 100 = Some (ScaledValue (v + of_nat (length nows) - 1))
     \<and> point_value s' 101 = Some (ScaledValue (v + of_nat (length nows) + 1000))
     \<and> point_value s' 200 = Some (SinglePointValue (sint (v + of_nat (length nows)) mod 2 = 0))
     \<and> point_value s' 201 = point_value s 201"
  using assms
proof (induction nows arbitrary: v s)
  case (Cons now nows)
  note pass = server104Test_pass_values [OF Cons.prems(1), of now v]
  let ?s = "snd (server104Test_pass now (v, s))"
  show ?case
  proof (cases "nows = []")
    case True
    then show ?thesis
      using pass by (intro exI [of _ ?s]) (simp add: prod_eq_iff add.assoc)
  next
    case False
    from Cons.IH [OF pass(2) False, of "v + 1"] pass(1,6) show ?thesis
      by (simp add: algebra_simps)
  qed
qed simp

lemma setup_points:
  "test_points (server104Test_setup now)" "point_value (server104Test_setup now) 201 = Some (SinglePointValue False)"
  "slave_m (server104Test_setup now) \<noteq> None" "\<not> running_m (server104Test_setup now)"
  by (simp_all add: server104Test_setup_def test_points_def point_type_def point_value_def omap_ok_def
      addDataPoint_single_def addDataPoint_scaled_def setPeriodicSendInterval_def IEC104Server_def)

section \<open>Stopping while the periodic thread ends\<close>

text \<open>
  \<open>stop\<close> clears the flag first and destroys the thread object afterwards, while the
  thread, created to destroy itself when its function returns, may leave its loop in
  between. The race state: the flag, the thread object, and whether \<open>stop\<close> is between its
  two actions.
\<close>

datatype thread_obj = ThreadLooping | ThreadDestroyed

datatype race = Racing bool thread_obj bool | RaceFault fault | Stopped

datatype race_event = PeriodicPass | ThreadReturns | StopClearsFlag | StopDestroysThread

inductive race_step :: "race \<Rightarrow> race_event \<Rightarrow> race \<Rightarrow> bool" where
  race_pass: "race_step (Racing True ThreadLooping st) PeriodicPass (Racing True ThreadLooping st)"
| race_return: "race_step (Racing False ThreadLooping st) ThreadReturns (Racing False ThreadDestroyed st)"
| race_flag: "race_step (Racing True th False) StopClearsFlag (Racing False th True)"
| race_destroy: "race_step (Racing run th True) StopDestroysThread
      (case th of ThreadLooping \<Rightarrow> Stopped | ThreadDestroyed \<Rightarrow> RaceFault DoubleFree)"

inductive_cases race_stepE: "race_step s e t"

interpretation srace: transition_system "\<lambda>s. s = Racing True ThreadLooping False" race_step .

fun race_inv :: "race \<Rightarrow> race_event list \<Rightarrow> bool" where
  "race_inv (RaceFault f) es = (f = DoubleFree \<and> ThreadReturns \<in> set es)"
| "race_inv (Racing run ThreadDestroyed st) es = (ThreadReturns \<in> set es)"
| "race_inv _ es = True"

lemma race_fault_cause: "srace.reachable s es \<Longrightarrow> race_inv s es"
proof (induction rule: srace.reachable.induct)
  case (by_step s es e t)
  from by_step.hyps(2) by_step.IH show ?case
    by (cases rule: race_stepE) (auto split: thread_obj.splits elim: race_inv.elims)
qed simp

definition list_lib :: "(information_object list) lib60870" where
  "list_lib =
     \<lparr>asdu_create = \<lambda>cot. Some [],
      asdu_add = \<lambda>io a. if (\<forall>x \<in> set a. kind x = kind io) \<and> length a < 60 then (a @ [io], True) else (a, False)\<rparr>"

lemma list_lib_laws: "asdu_laws list_lib id (\<lambda>_. 60)"
  by (simp add: asdu_laws_def list_lib_def)

section \<open>Properties\<close>



text \<open>
  A station interrogation (qualifier 20) is answered by a positive confirmation, one
  ASDU and the termination, any other qualifier by a negative confirmation only. The ASDU
  carries only the points of the type of the first point, in address order and as many as
  fit; all other points are dropped.
\<close>

theorem interrogation_answer:
  assumes "srv_ok s" and "dataPoints_m s \<noteq> []" and "asdu_laws lib elems cap"
  shows "(\<exists>a. interrogationHandler lib c 20 s = Inr (True, [SendACT_CON c False, SendASDU c a, SendACT_TERM c])
              \<and> elems a = packed cap (map io_of (map snd (dataPoints_m s))))
     \<and> (\<forall>qoi. qoi = 20 \<or> interrogationHandler lib c qoi s = Inr (True, [SendACT_CON c True]))"
proof -
  obtain a where "elems a = packed cap (map io_of (map snd (dataPoints_m s)))"
      "sendDataPoints lib (Some c) (map snd (dataPoints_m s)) COT_INTERROGATED_BY_STATION = Inr [SendASDU c a]"
    using send_packed [OF assms(3) srv_ok_typed [OF assms(1)], of "Some c"] assms(2) by auto
  then show ?thesis by (simp add: interrogationHandler_def)
qed

theorem interrogation_answer_witness:
  "\<exists>a. interrogationHandler list_lib (7 :: nat) 20 (server104Test_setup 0)
          = Inr (True, [SendACT_CON 7 False, SendASDU 7 a, SendACT_TERM 7])
     \<and> id a = [MeasuredValueScaled 100 1000 0, MeasuredValueScaled 101 2000 0]"
proof -
  have "srv_ok (server104Test_setup 0)"
    by (simp add: srv_ok_def omap_ok_def typed_def server104Test_setup_def addDataPoint_single_def
        addDataPoint_scaled_def setPeriodicSendInterval_def IEC104Server_def)
  moreover have "dataPoints_m (server104Test_setup 0) \<noteq> []"
      "packed (\<lambda>_. 60) (map io_of (map snd (dataPoints_m (server104Test_setup 0))))
        = [MeasuredValueScaled 100 1000 0, MeasuredValueScaled 101 2000 0]"
    by (simp_all add: packed_def io_of_def server104Test_setup_def addDataPoint_single_def
        addDataPoint_scaled_def setPeriodicSendInterval_def IEC104Server_def)
  ultimately show ?thesis
    using interrogation_answer [OF _ _ list_lib_laws, of "server104Test_setup 0" "7 :: nat"] by simp
qed

text \<open>
  C24. A single command (type C_SC_NA_1, cause activation) sets the addressed single point
  and leaves every other value alone, and is always confirmed as activated: also when no
  point has the address or the point is a measured value, in which case nothing changes.
\<close>

theorem single_command_effect:
  assumes "srv_ok s" and "ra_type asdu = C_SC_NA_1" and "ra_cot asdu = COT_ACTIVATION"
    and "ra_element asdu = Some (a, state)"
  shows "\<exists>s'. asduHandler now c asdu s = (True, [(c, COT_ACTIVATION_CON)], s')
     \<and> (\<forall>b. point_value s' b = (if b = a \<and> point_type s a = Some SINGLE_POINT
                                then Some (SinglePointValue state) else point_value s b))"
  using assms by (simp add: asduHandler_def set_if_type_lookup srv_ok_def)

theorem single_command_effect_witness:
  "\<exists>s'. asduHandler 0 (7 :: nat) \<lparr>ra_type = 45, ra_cot = 6, ra_element = Some (5, True)\<rparr>
           (IEC104Server default_ServerConfig) = (True, [(7, 7)], s') \<and> point_value s' 5 = None"
proof -
  have "srv_ok (IEC104Server default_ServerConfig)"
    by (simp add: srv_ok_def omap_ok_def IEC104Server_def)
  from single_command_effect [OF this, of "\<lparr>ra_type = 45, ra_cot = 6, ra_element = Some (5, True)\<rparr>" 5 True 0 "7 :: nat"]
  show ?thesis
    by (auto simp: C_SC_NA_1_def COT_ACTIVATION_def COT_ACTIVATION_CON_def point_type_def point_value_def
        IEC104Server_def)
qed

text \<open>
  The test program: when slave and thread start, after \<open>n > 0\<close> passes of its update loop
  point 100 holds 999 + n, point 101 holds 2000 + n (both wrapping at 16 bits), point 200
  tells whether 1000 + n, read as a signed 16-bit number, is even, and point 201 keeps its
  initial value.
\<close>

theorem server104Test_values:
  assumes "nows \<noteq> []"
  shows "\<exists>s s'. start True True (server104Test_setup now) = Inr (True, s)
     \<and> server104Test_loop nows (1000, s) = (1000 + of_nat (length nows), s')
     \<and> point_value s' 100 = Some (ScaledValue (999 + of_nat (length nows)))
     \<and> point_value s' 101 = Some (ScaledValue (2000 + of_nat (length nows)))
     \<and> point_value s' 200 = Some (SinglePointValue (sint (1000 + of_nat (length nows) :: 16 word) mod 2 = 0))
     \<and> point_value s' 201 = Some (SinglePointValue False)"
proof -
  obtain s where s: "start True True (server104Test_setup now) = Inr (True, s)"
      "dataPoints_m s = dataPoints_m (server104Test_setup now)"
    using setup_points(3,4) [of now] by (auto simp: start_def)
  have "test_points s" "point_value s 201 = Some (SinglePointValue False)"
    using setup_points(1,2) [of now] s(2) by (simp_all add: test_points_def point_type_def point_value_def)
  with server104Test_loop_values [OF this(1) assms, of 1000] s(1) show ?thesis
    by (auto simp: algebra_simps)
qed

theorem server104Test_values_witness:
  "\<exists>s'. point_value s' 100 = Some (ScaledValue 1001)
     \<and> (\<exists>s. server104Test_loop [5, 6] (1000, s) = (1002, s'))"
  using server104Test_values [of "[5, 6]" 0] by (auto simp del: server104Test_loop.simps)



end
