(* ===== verification/Cs104_Sample.thy ===== *)
theory Cs104_Sample
  imports Iec104_Server
begin

text \<open>
  The IEC 104 sample server \<open>sample/cs104_server/simple_server.c\<close>, the program whose handlers
  the gateway's own server took over: its handlers, the text its print functions produce
  and the calls of its \<open>main\<close> in order. The two static variables are a record. Building an
  ASDU with lib60870 is the parameter \<open>asdu_lib\<close>; what the handlers rely on is \<open>asdu_rules\<close>.
\<close>

section \<open>State and library\<close>

record sample_state =
  smp_running :: bool
  smp_connected :: bool

definition sample_init :: sample_state where
  "sample_init = \<lparr>smp_running = True, smp_connected = False\<rparr>"

definition sigint_handler :: "sample_state \<Rightarrow> sample_state" where
  "sigint_handler s = s\<lparr>smp_running := False\<rparr>"

datatype sample_object =
    Scaled (obj_ioa: int) "16 word"
  | Single (obj_ioa: int) bool
  | BitString32 (obj_ioa: int) "32 word"

record 'a asdu_lib =
  asdu_new :: "bool \<Rightarrow> int \<Rightarrow> 'a"
  asdu_put :: "sample_object \<Rightarrow> 'a \<Rightarrow> 'a \<times> bool"

fun put_all :: "'a asdu_lib \<Rightarrow> sample_object list \<Rightarrow> 'a \<Rightarrow> 'a" where
  "put_all lib [] a = a"
| "put_all lib (io # ios) a = put_all lib ios (fst (asdu_put lib io a))"

section \<open>Printed text\<close>

definition two_digits :: "nat \<Rightarrow> string" where
  "two_digits n = (if n < 10 then ''0'' @ dec_nat n else dec_nat n)"

definition four_digits :: "nat \<Rightarrow> string" where
  "four_digits n = replicate (4 - length (dec_nat n)) CHR ''0'' @ dec_nat n"

record cp56 =
  cp_hour :: nat
  cp_minute :: nat
  cp_second :: nat
  cp_day :: nat
  cp_month :: nat
  cp_year :: nat

definition printCP56Time2a :: "cp56 \<Rightarrow> string" where
  "printCP56Time2a t =
     two_digits (cp_hour t) @ '':'' @ two_digits (cp_minute t) @ '':'' @ two_digits (cp_second t) @ '' ''
     @ two_digits (cp_day t) @ ''/'' @ two_digits (cp_month t) @ ''/'' @ four_digits (cp_year t + 2000)"

definition rawMessageHandler :: "8 word list \<Rightarrow> bool \<Rightarrow> string" where
  "rawMessageHandler msg sent =
     (if sent then ''SEND: '' else ''RCVD: '') @ concat (map (\<lambda>b. hex_byte b @ '' '') msg) @ [CHR 0x0A]"

section \<open>Handlers\<close>

text \<open>The time of the master is only printed; the answer carries the local time.\<close>

definition clockSyncHandler :: "'t \<Rightarrow> 't \<Rightarrow> bool \<times> 't" where
  "clockSyncHandler now newTime = (True, now)"

definition scaled_answer :: "sample_object list" where
  "scaled_answer = [Scaled 100 (- 1), Scaled 101 23, Scaled 102 2300]"

definition single_answer :: "sample_object list" where
  "single_answer = [Single 104 True, Single 105 False]"

definition sequence_answer :: "sample_object list" where
  "sequence_answer =
     [Single 300 True, Single 301 False, Single 302 True, Single 303 False,
      Single 304 True, Single 305 False, Single 306 True, Single 307 False]"

definition bitstring_answer :: "sample_object list" where
  "bitstring_answer = [BitString32 500 0xaaaa]"

definition interrogationHandler ::
  "'a asdu_lib \<Rightarrow> 'c \<Rightarrow> 8 word \<Rightarrow> bool \<times> ('c, 'a) message list" where
  "interrogationHandler lib c qoi =
     (if qoi = 20 then
        (True,
         [SendACT_CON c False,
          SendASDU c (put_all lib scaled_answer (asdu_new lib False COT_INTERROGATED_BY_STATION)),
          SendASDU c (put_all lib single_answer (asdu_new lib False COT_INTERROGATED_BY_STATION)),
          SendASDU c (put_all lib sequence_answer (asdu_new lib True COT_INTERROGATED_BY_STATION)),
          SendASDU c (put_all lib bitstring_answer (asdu_new lib False COT_INTERROGATED_BY_STATION)),
          SendACT_TERM c])
      else (True, [SendACT_CON c True]))"

text \<open>The command handler: whether it handled the ASDU, and the ASDU sent back with a new cause.\<close>

definition asduHandler :: "'c \<Rightarrow> received_asdu \<Rightarrow> bool \<times> ('c \<times> int) list" where
  "asduHandler connection asdu =
     (if ra_type asdu = C_SC_NA_1 then
        (if ra_cot asdu = COT_ACTIVATION then
           (case ra_element asdu of
              Some (a, state) \<Rightarrow>
                (True, [(connection, if a = 5000 then COT_ACTIVATION_CON else COT_UNKNOWN_IOA)])
            | None \<Rightarrow> (True, []))
         else (True, [(connection, COT_UNKNOWN_COT)]))
      else (False, []))"

definition connectionRequestHandler :: "string \<Rightarrow> bool" where
  "connectionRequestHandler ipAddress = True"

definition connectionEventHandler :: "peer_event \<Rightarrow> sample_state \<Rightarrow> sample_state" where
  "connectionEventHandler e s = (if e = CONNECTION_OPENED then s\<lparr>smp_connected := True\<rparr> else s)"

section \<open>The program\<close>

datatype slave_call =
    SlaveCreate int int
  | SlaveSetLocalAddress string
  | SlaveSetSingleRedundancyGroup
  | SlaveGetParameters
  | SlaveSetHandlers
  | SlaveStart
  | SlaveStop
  | SlaveDestroy

text \<open>
  \<open>main\<close>: the calls on the slave. The loop only sleeps until the interrupt; \<open>starts\<close> says
  whether the slave runs after the start, and a failed start skips to the clean-up.
\<close>

definition main_setup :: "slave_call list" where
  "main_setup =
     [SlaveCreate 10 10, SlaveSetLocalAddress ''0.0.0.0'', SlaveSetSingleRedundancyGroup, SlaveGetParameters,
      SlaveSetHandlers, SlaveStart]"

definition main :: "bool \<Rightarrow> slave_call list" where
  "main starts = main_setup @ (if starts then [SlaveStop] else []) @ [SlaveDestroy]"

section \<open>What the library promises\<close>

text \<open>
  Documented behaviour of adding an object: the first object fixes the type of the ASDU, a
  further one needs the same type and, in a sequence, the next address; here only ASDUs of
  at most eight objects matter, which always fit. \<open>view\<close> reads off the sequence flag, the
  cause and the objects.
\<close>

fun same_kind :: "sample_object \<Rightarrow> sample_object \<Rightarrow> bool" where
  "same_kind (Scaled _ _) (Scaled _ _) = True"
| "same_kind (Single _ _) (Single _ _) = True"
| "same_kind (BitString32 _ _) (BitString32 _ _) = True"
| "same_kind _ _ = False"

definition takes :: "bool \<Rightarrow> sample_object list \<Rightarrow> sample_object \<Rightarrow> bool" where
  "takes sq es io \<longleftrightarrow> es = [] \<or> same_kind (hd es) io \<and> (sq \<longrightarrow> obj_ioa io = obj_ioa (hd es) + int (length es))"

definition asdu_rules :: "'a asdu_lib \<Rightarrow> ('a \<Rightarrow> bool \<times> int \<times> sample_object list) \<Rightarrow> bool" where
  "asdu_rules lib view \<longleftrightarrow>
     (\<forall>sq cot. view (asdu_new lib sq cot) = (sq, cot, []))
     \<and> (\<forall>a sq cot es io. view a = (sq, cot, es) \<longrightarrow> length es < 8 \<longrightarrow>
          (if takes sq es io then view (fst (asdu_put lib io a)) = (sq, cot, es @ [io]) \<and> snd (asdu_put lib io a)
           else view (fst (asdu_put lib io a)) = (sq, cot, es) \<and> \<not> snd (asdu_put lib io a)))"

fun all_taken :: "bool \<Rightarrow> sample_object list \<Rightarrow> sample_object list \<Rightarrow> bool" where
  "all_taken sq es [] = True"
| "all_taken sq es (io # ios) = (length es < 8 \<and> takes sq es io \<and> all_taken sq (es @ [io]) ios)"

lemma put_all_view:
  assumes "asdu_rules lib view"
  shows "view a = (sq, cot, es) \<Longrightarrow> all_taken sq es ios \<Longrightarrow> view (put_all lib ios a) = (sq, cot, es @ ios)"
proof (induction ios arbitrary: a es)
  case (Cons io ios)
  then have "view (fst (asdu_put lib io a)) = (sq, cot, es @ [io])"
    using assms unfolding asdu_rules_def by (metis all_taken.simps(2))
  with Cons show ?case by simp
qed simp

lemma put_all_new:
  assumes "asdu_rules lib view" and "all_taken sq [] ios"
  shows "view (put_all lib ios (asdu_new lib sq cot)) = (sq, cot, ios)"
  using put_all_view [OF assms(1), of "asdu_new lib sq cot" sq cot "[]" ios] assms by (simp add: asdu_rules_def)

definition record_lib :: "(bool \<times> int \<times> sample_object list) asdu_lib" where
  "record_lib =
     \<lparr>asdu_new = (\<lambda>sq cot. (sq, cot, [])),
      asdu_put = (\<lambda>io (sq, cot, es). if takes sq es io then ((sq, cot, es @ [io]), True) else ((sq, cot, es), False))\<rparr>"

lemma record_lib_rules: "asdu_rules record_lib id"
  by (auto simp: asdu_rules_def record_lib_def)

definition sent_asdus :: "('c, 'a) message list \<Rightarrow> 'a list" where
  "sent_asdus ms = concat (map (\<lambda>m. case m of SendASDU c a \<Rightarrow> [a] | _ \<Rightarrow> []) ms)"

section \<open>Properties\<close>

text \<open>
  The sample answers a station interrogation completely: between confirmation and
  termination it sends four ASDUs of cause 20, and the library takes every object: their
  contents are exactly the fourteen objects of the program, each address once, one type
  per ASDU. Every other qualifier is answered by a negative confirmation alone.
\<close>

theorem sample_interrogation_complete:
  assumes "asdu_rules lib view"
  shows "\<exists>ms. interrogationHandler lib c 20 = (True, SendACT_CON c False # ms @ [SendACT_TERM c])
     \<and> map view (sent_asdus ms)
         = [(False, 20, scaled_answer), (False, 20, single_answer), (True, 20, sequence_answer), (False, 20, bitstring_answer)]
     \<and> distinct (map obj_ioa (concat (map (snd \<circ> snd \<circ> view) (sent_asdus ms))))
     \<and> (qoi = 20 \<or> interrogationHandler lib c qoi = (True, [SendACT_CON c True]))"
proof -
  have taken: "all_taken False [] scaled_answer" "all_taken False [] single_answer"
      "all_taken True [] sequence_answer" "all_taken False [] bitstring_answer"
    by (simp_all add: scaled_answer_def single_answer_def sequence_answer_def bitstring_answer_def takes_def)
  note views = taken [THEN put_all_new [OF assms]]
  have "distinct (map obj_ioa (scaled_answer @ single_answer @ sequence_answer @ bitstring_answer))"
    by (simp add: scaled_answer_def single_answer_def sequence_answer_def bitstring_answer_def)
  with views show ?thesis
    by (simp add: interrogationHandler_def sent_asdus_def COT_INTERROGATED_BY_STATION_def)
qed

theorem sample_interrogation_complete_witness:
  "\<exists>ms. interrogationHandler record_lib (7 :: nat) 20 = (True, SendACT_CON 7 False # ms @ [SendACT_TERM 7])
     \<and> length (concat (map (snd \<circ> snd) (sent_asdus ms))) = 14"
  using sample_interrogation_complete [OF record_lib_rules, of "7 :: nat" 20]
  by (auto simp: scaled_answer_def single_answer_def sequence_answer_def bitstring_answer_def map_eq_Cons_conv)

text \<open>
  C40. The gateway's command handler compared with the sample it was taken from: both handle
  the same ASDUs, and they answer differently exactly for an activated single command
  without an element (the sample is silent, the gateway reports an unknown address) and for
  one whose address the sample does not know (the sample rejects it, the gateway confirms
  it, whatever points it has).
\<close>

theorem command_handlers_differ:
  "fst (Iec104_Server.asduHandler now c asdu s) = fst (asduHandler c asdu)
   \<and> (fst (snd (Iec104_Server.asduHandler now c asdu s)) \<noteq> snd (asduHandler c asdu)
        \<longleftrightarrow> ra_type asdu = C_SC_NA_1 \<and> ra_cot asdu = COT_ACTIVATION
            \<and> (case ra_element asdu of None \<Rightarrow> True | Some (a, b) \<Rightarrow> a \<noteq> 5000))"
  by (auto simp: asduHandler_def Iec104_Server.asduHandler_def COT_ACTIVATION_CON_def COT_UNKNOWN_IOA_def
      split: option.splits)

end
