(* ===== verification/Gateway_Config.thy ===== *)
theory Gateway_Config
  imports Gateway_Prelude
begin

text \<open>
  The configuration data of the gateway (\<open>common/config/config.h\<close>): the structures
  \<open>ConfigDataModbus\<close>, \<open>ConfigDataIEC61850\<close>, \<open>ConfigDataIEC104\<close> and
  \<open>ConfigData\<close> with their helper functions. A \<open>float\<close> field is kept as its 32-bit
  pattern; an \<open>int\<close> field is an \<open>int\<close>. The \<open>to_string\<close> members are in
  \<open>Config_Print\<close>.
\<close>

section \<open>Modbus\<close>

datatype data_type_e = UNKNOWN | INT16 | UINT16 | INT32 | UINT32 | FLOAT32 | STRING

record modbus_tcp =
  tcp_ip :: string
  tcp_port :: int

record modbus_rtu =
  rtu_port_name :: string
  rtu_baudrate :: int
  rtu_parity :: string

record data_points_t =
  dp_name :: string
  dp_address :: "16 word"
  dp_type :: string
  dp_data_type :: data_type_e
  dp_scale :: "32 word"
  dp_offset :: "32 word"

definition getDataType :: "string \<Rightarrow> data_type_e" where
  "getDataType t =
     (if t = ''int16'' then INT16
      else if t = ''uint16'' then UINT16
      else if t = ''int32'' then INT32
      else if t = ''uint32'' then UINT32
      else if t = ''float32'' then FLOAT32
      else UNKNOWN)"

fun getDataTypeString :: "data_type_e \<Rightarrow> string" where
  "getDataTypeString INT16 = ''int16''"
| "getDataTypeString UINT16 = ''uint16''"
| "getDataTypeString INT32 = ''int32''"
| "getDataTypeString UINT32 = ''uint32''"
| "getDataTypeString FLOAT32 = ''float32''"
| "getDataTypeString _ = ''unknown''"

fun getDataSize :: "data_type_e \<Rightarrow> nat" where
  "getDataSize INT16 = 2"
| "getDataSize UINT16 = 2"
| "getDataSize INT32 = 4"
| "getDataSize UINT32 = 4"
| "getDataSize FLOAT32 = 4"
| "getDataSize _ = 0"

record config_modbus =
  mb_device_id :: string
  mb_Type :: string
  mb_tcp :: modbus_tcp
  mb_rtu :: modbus_rtu
  mb_slave_addr :: int
  mb_cmd_interval :: int
  mb_max_retries :: int
  mb_retry_interval :: int
  mb_byte_order :: string
  mb_data_points :: "data_points_t list"

section \<open>IEC 61850\<close>

record config_iec61850 =
  i61_device_id :: string
  i61_ip :: string
  i61_icd_file_path :: string
  i61_access_point :: string
  i61_logical_device :: string
  i61_client_mms_name :: string
  i61_port :: int
  i61_poll_interval :: int
  i61_max_retries :: int
  i61_retry_interval :: int
  i61_report_enabled :: bool
  i61_goose_enabled :: bool
  i61_tls_enabled :: bool
  i61_description :: string
  i61_data_point_filters :: "string list"

section \<open>IEC 104\<close>

record iec104_address =
  addr_ip :: string
  addr_port :: int

record iec104_apci =
  apci_t0 :: int
  apci_t1 :: int
  apci_t2 :: int
  apci_t3 :: int
  apci_k :: int
  apci_w :: int

record iec104_app_layer =
  originator_address :: int
  common_address :: int
  asdu_size :: int

record iec104_report =
  report_ioa :: int
  report_id :: string

record iec104_communication =
  gi_interval_ms :: int
  report_enabled :: bool
  reports :: "iec104_report list"

record iec104_error_handling =
  reconnect_interval_ms :: int
  max_reconnect_attempts :: int

record iec104_data_point =
  dp104_ioa :: int
  dp104_type :: string
  dp104_description :: string
  dp104_iec61850_path :: string

record config_iec104 =
  i104_device_id :: string
  i104_type :: string
  i104_tcp :: iec104_address
  i104_local_address :: iec104_address
  i104_apci :: iec104_apci
  i104_app_layer :: iec104_app_layer
  i104_communication :: iec104_communication
  i104_error_handling :: iec104_error_handling
  i104_data_points :: "iec104_data_point list"

section \<open>The whole configuration\<close>

record config_data =
  cfg_modbus :: "string \<rightharpoonup> config_modbus"
  cfg_iec61850 :: "string \<rightharpoonup> config_iec61850"
  cfg_iec104 :: "string \<rightharpoonup> config_iec104"

definition empty_config :: config_data where
  "empty_config = \<lparr>cfg_modbus = Map.empty, cfg_iec61850 = Map.empty, cfg_iec104 = Map.empty\<rparr>"

definition getModbus :: "config_data \<Rightarrow> string \<Rightarrow> config_modbus option" where
  "getModbus c deviceId = cfg_modbus c deviceId"

definition getIec61850 :: "config_data \<Rightarrow> string \<Rightarrow> config_iec61850 option" where
  "getIec61850 c deviceId = cfg_iec61850 c deviceId"

definition getIec104 :: "config_data \<Rightarrow> string \<Rightarrow> config_iec104 option" where
  "getIec104 c deviceId = cfg_iec104 c deviceId"

section \<open>Properties\<close>

text \<open>
  Data type names: reading the printed name of a supported type gives the type back,
  every other name reads as \<open>UNKNOWN\<close>, and a supported type occupies one or two
  16-bit registers.
\<close>

theorem data_type_names:
  "(getDataType (getDataTypeString t) = (if t = STRING then UNKNOWN else t))
   \<and> getDataTypeString (getDataType n) = (if getDataType n = UNKNOWN then ''unknown'' else n)
   \<and> getDataType n \<noteq> STRING
   \<and> (getDataType n \<noteq> UNKNOWN \<longleftrightarrow> getDataSize (getDataType n) \<in> {2, 4})"
proof (intro conjI)
  show "getDataType (getDataTypeString t) = (if t = STRING then UNKNOWN else t)"
    by (cases t) (simp_all add: getDataType_def)
  show "getDataTypeString (getDataType n) = (if getDataType n = UNKNOWN then ''unknown'' else n)"
    by (simp add: getDataType_def)
  show "getDataType n \<noteq> STRING"
    by (simp add: getDataType_def)
  show "getDataType n \<noteq> UNKNOWN \<longleftrightarrow> getDataSize (getDataType n) \<in> {2, 4}"
    by (simp add: getDataType_def)
qed

end
