(* ===== verification/Config_Parser.thy ===== *)
theory Config_Parser
  imports Gateway_Config
begin

text \<open>
  Loading the configuration, class \<open>Config\<close> (\<open>common/config/config.cc\<close>). A YAML document
  is a tree; a node handle is \<open>None\<close> for the invalid node that a lookup of a missing key
  returns, on which every access but the test for definedness throws. Converting a scalar
  to a number or a boolean is the parameter \<open>yaml_conv\<close>; an empty value read as a string
  is the text \<open>null\<close>. A parse function stores each device as soon as it is read, so the
  devices before a rejected or throwing one stay in the configuration.
\<close>

section \<open>YAML nodes\<close>

datatype yaml =
    YNull
  | YScalar string
  | YSeq "yaml list"
  | YMap "(string \<times> yaml) list"

type_synonym ynode = "yaml option"

record yaml_conv =
  to_int :: "string \<Rightarrow> int option"
  to_bool :: "string \<Rightarrow> bool option"
  to_uint16 :: "string \<Rightarrow> 16 word option"
  to_float :: "string \<Rightarrow> 32 word option"

fun yget :: "ynode \<Rightarrow> string \<Rightarrow> ynode result" where
  "yget None k = Inl YamlInvalidNode"
| "yget (Some (YMap kvs)) k = Inr (map_of kvs k)"
| "yget (Some (YScalar s)) k = Inl YamlBadSubscript"
| "yget (Some YNull) k = Inr None"
| "yget (Some (YSeq ys)) k = Inr None"

definition yIsNull :: "ynode \<Rightarrow> bool result" where
  "yIsNull n = (case n of None \<Rightarrow> Inl YamlInvalidNode | Some y \<Rightarrow> Inr (y = YNull))"

definition yIsScalar :: "ynode \<Rightarrow> bool result" where
  "yIsScalar n = (case n of None \<Rightarrow> Inl YamlInvalidNode | Some y \<Rightarrow> Inr (case y of YScalar _ \<Rightarrow> True | _ \<Rightarrow> False))"

definition ySeq :: "ynode \<Rightarrow> yaml list option result" where
  "ySeq n = (case n of None \<Rightarrow> Inl YamlInvalidNode | Some y \<Rightarrow> Inr (case y of YSeq ys \<Rightarrow> Some ys | _ \<Rightarrow> None))"

fun yString :: "ynode \<Rightarrow> string result" where
  "yString None = Inl YamlInvalidNode"
| "yString (Some YNull) = Inr ''null''"
| "yString (Some (YScalar s)) = Inr s"
| "yString (Some y) = Inl YamlBadConversion"

fun yConv :: "(string \<Rightarrow> 'a option) \<Rightarrow> ynode \<Rightarrow> 'a result" where
  "yConv f None = Inl YamlInvalidNode"
| "yConv f (Some (YScalar s)) = (case f s of None \<Rightarrow> Inl YamlBadConversion | Some x \<Rightarrow> Inr x)"
| "yConv f (Some y) = Inl YamlBadConversion"

section \<open>Sequencing: exceptions and rejection\<close>

text \<open>\<open>Inl\<close> is an exception, \<open>Inr None\<close> the return of \<open>false\<close>.\<close>

type_synonym 'a parse = "'a option result"

definition pbind :: "'a parse \<Rightarrow> ('a \<Rightarrow> 'b parse) \<Rightarrow> 'b parse" where
  "pbind r f = (case r of Inl e \<Rightarrow> Inl e | Inr None \<Rightarrow> Inr None | Inr (Some x) \<Rightarrow> f x)"

definition plift :: "'a result \<Rightarrow> 'a parse" where
  "plift r = (case r of Inl e \<Rightarrow> Inl e | Inr x \<Rightarrow> Inr (Some x))"

definition preject_if :: "bool result \<Rightarrow> unit parse" where
  "preject_if r = (case r of Inl e \<Rightarrow> Inl e | Inr b \<Rightarrow> Inr (if b then None else Some ()))"

definition r_or :: "bool result \<Rightarrow> bool result \<Rightarrow> bool result" where
  "r_or a b = (case a of Inl e \<Rightarrow> Inl e | Inr True \<Rightarrow> Inr True | Inr False \<Rightarrow> b)"

definition r_not :: "bool result \<Rightarrow> bool result" where
  "r_not a = (case a of Inl e \<Rightarrow> Inl e | Inr b \<Rightarrow> Inr (\<not> b))"

fun pmap :: "('a \<Rightarrow> 'b parse) \<Rightarrow> 'a list \<Rightarrow> 'b list parse" where
  "pmap f [] = Inr (Some [])"
| "pmap f (x # xs) = pbind (f x) (\<lambda>y. pbind (pmap f xs) (\<lambda>ys. Inr (Some (y # ys))))"

definition fld :: "(ynode \<Rightarrow> 'a result) \<Rightarrow> ynode \<Rightarrow> string \<Rightarrow> 'a result" where
  "fld f n k = rbind (yget n k) f"

definition defined_at :: "ynode \<Rightarrow> string \<Rightarrow> bool result" where
  "defined_at n k = rbind (yget n k) (\<lambda>m. Inr (m \<noteq> None))"

definition str_at :: "ynode \<Rightarrow> string \<Rightarrow> string parse" where
  "str_at n k = plift (fld yString n k)"

definition int_at :: "yaml_conv \<Rightarrow> ynode \<Rightarrow> string \<Rightarrow> int parse" where
  "int_at cv n k = plift (fld (yConv (to_int cv)) n k)"

definition bool_at :: "yaml_conv \<Rightarrow> ynode \<Rightarrow> string \<Rightarrow> bool parse" where
  "bool_at cv n k = plift (fld (yConv (to_bool cv)) n k)"

definition null_at :: "ynode \<Rightarrow> string \<Rightarrow> bool result" where
  "null_at n k = fld yIsNull n k"

definition empty_at :: "ynode \<Rightarrow> string \<Rightarrow> bool result" where
  "empty_at n k = rbind (fld yString n k) (\<lambda>s. Inr (s = []))"

text \<open>The optional fields of the IEC 61850 section: an empty value rejects the section.\<close>

definition opt_int_at :: "yaml_conv \<Rightarrow> ynode \<Rightarrow> string \<Rightarrow> int parse" where
  "opt_int_at cv n k = pbind (preject_if (null_at n k)) (\<lambda>_. int_at cv n k)"

definition opt_bool_at :: "yaml_conv \<Rightarrow> ynode \<Rightarrow> string \<Rightarrow> bool parse" where
  "opt_bool_at cv n k = pbind (preject_if (null_at n k)) (\<lambda>_. bool_at cv n k)"

section \<open>Modbus devices\<close>

definition parse_point :: "yaml_conv \<Rightarrow> yaml \<Rightarrow> data_points_t parse" where
  "parse_point cv p =
     (let n = Some p in
      pbind (str_at n ''name'') (\<lambda>nm.
      pbind (plift (fld (yConv (to_uint16 cv)) n ''address'')) (\<lambda>a.
      pbind (str_at n ''type'') (\<lambda>t.
      pbind (plift (fld (yConv (to_float cv)) n ''scale'')) (\<lambda>sc.
      pbind (plift (fld (yConv (to_float cv)) n ''offset'')) (\<lambda>off.
      pbind (str_at n ''data_type'') (\<lambda>dt.
      if getDataType dt = UNKNOWN then Inr None
      else Inr (Some \<lparr>dp_name = nm, dp_address = a, dp_type = t, dp_data_type = getDataType dt,
                      dp_scale = sc, dp_offset = off\<rparr>))))))))"

definition parse_transport :: "yaml_conv \<Rightarrow> ynode \<Rightarrow> string \<Rightarrow> (modbus_tcp \<times> modbus_rtu) parse" where
  "parse_transport cv n t =
     (if t = ''TCP'' then
        pbind (plift (yget n ''TCP'')) (\<lambda>tcp.
        pbind (preject_if (r_or (Inr (tcp = None)) (r_or (null_at tcp ''ip'') (null_at tcp ''port'')))) (\<lambda>_.
        pbind (str_at tcp ''ip'') (\<lambda>ip.
        pbind (int_at cv tcp ''port'') (\<lambda>port.
        Inr (Some (\<lparr>tcp_ip = ip, tcp_port = port\<rparr>, \<lparr>rtu_port_name = [], rtu_baudrate = 0, rtu_parity = []\<rparr>))))))
      else if t = ''RTU'' then
        pbind (plift (yget n ''RTU'')) (\<lambda>rtu.
        pbind (preject_if (r_or (Inr (rtu = None)) (r_or (null_at rtu ''port_name'')
                 (r_or (null_at rtu ''baudrate'') (null_at rtu ''parity''))))) (\<lambda>_.
        pbind (str_at rtu ''port_name'') (\<lambda>pn.
        pbind (int_at cv rtu ''baudrate'') (\<lambda>b.
        pbind (str_at rtu ''parity'') (\<lambda>pa.
        Inr (Some (\<lparr>tcp_ip = ''0.0.0.0'', tcp_port = 0\<rparr>,
                   \<lparr>rtu_port_name = pn, rtu_baudrate = b, rtu_parity = pa\<rparr>)))))))
      else Inr None)"

definition parse_modbus_device :: "yaml_conv \<Rightarrow> yaml \<Rightarrow> config_modbus parse" where
  "parse_modbus_device cv y =
     (let n = Some y in
      pbind (str_at n ''device_id'') (\<lambda>dev.
      pbind (str_at n ''type'') (\<lambda>t.
      pbind (int_at cv n ''slave_addr'') (\<lambda>sl.
      pbind (int_at cv n ''cmd_interval'') (\<lambda>ci.
      pbind (int_at cv n ''max_retries'') (\<lambda>mr.
      pbind (int_at cv n ''retry_interval'') (\<lambda>ri.
      pbind (str_at n ''byte_order'') (\<lambda>bo.
      pbind (parse_transport cv n t) (\<lambda>(tcp, rtu).
      pbind (plift (yget n ''data_points'')) (\<lambda>pts.
      pbind (if pts = None then Inr None else ySeq pts) (\<lambda>ys.
      pbind (pmap (parse_point cv) ys) (\<lambda>dps.
      Inr (Some \<lparr>mb_device_id = dev, mb_Type = t, mb_tcp = tcp, mb_rtu = rtu, mb_slave_addr = sl,
                 mb_cmd_interval = ci, mb_max_retries = mr, mb_retry_interval = ri, mb_byte_order = bo,
                 mb_data_points = dps\<rparr>)))))))))))))"

section \<open>IEC 61850 devices\<close>

text \<open>
  The mandatory strings come first; then the fields a comment calls optional. An entry
  of the filter list must be a non-empty scalar.
\<close>

definition parse_filter :: "yaml \<Rightarrow> string parse" where
  "parse_filter y =
     pbind (preject_if (r_or (r_not (yIsScalar (Some y))) (rbind (yString (Some y)) (\<lambda>s. Inr (s = []))))) (\<lambda>_.
       plift (yString (Some y)))"

definition parse_61850_device :: "yaml_conv \<Rightarrow> yaml \<Rightarrow> config_iec61850 parse" where
  "parse_61850_device cv y =
     (let n = Some y in
      pbind (str_at n ''device_id'') (\<lambda>dev.
      pbind (str_at n ''ip'') (\<lambda>ip.
      pbind (str_at n ''icd_file'') (\<lambda>icd.
      pbind (str_at n ''access_point'') (\<lambda>ap.
      pbind (str_at n ''logical_device'') (\<lambda>ld.
      pbind (str_at n ''client_mms_name'') (\<lambda>mms.
      pbind (opt_int_at cv n ''port'') (\<lambda>port.
      pbind (opt_int_at cv n ''poll_interval'') (\<lambda>poll.
      pbind (opt_int_at cv n ''max_retries'') (\<lambda>mr.
      pbind (opt_int_at cv n ''retry_interval'') (\<lambda>ri.
      pbind (opt_bool_at cv n ''report_enabled'') (\<lambda>rep.
      pbind (opt_bool_at cv n ''goose_enabled'') (\<lambda>goose.
      pbind (opt_bool_at cv n ''tls_enabled'') (\<lambda>tls.
      pbind (preject_if (r_or (null_at n ''description'') (r_or (r_not (fld yIsScalar n ''description''))
               (empty_at n ''description'')))) (\<lambda>_.
      pbind (str_at n ''description'') (\<lambda>desc.
      pbind (preject_if (null_at n ''data_point_filters'')) (\<lambda>_.
      pbind (fld ySeq n ''data_point_filters'') (\<lambda>ys.
      pbind (pmap parse_filter ys) (\<lambda>filters.
      Inr (Some \<lparr>i61_device_id = dev, i61_ip = ip, i61_icd_file_path = icd, i61_access_point = ap,
                 i61_logical_device = ld, i61_client_mms_name = mms, i61_port = port,
                 i61_poll_interval = poll, i61_max_retries = mr, i61_retry_interval = ri,
                 i61_report_enabled = rep, i61_goose_enabled = goose, i61_tls_enabled = tls,
                 i61_description = desc, i61_data_point_filters = filters\<rparr>))))))))))))))))))))"

section \<open>IEC 104 devices\<close>

definition parse_report :: "yaml_conv \<Rightarrow> yaml \<Rightarrow> iec104_report parse" where
  "parse_report cv y =
     (let n = Some y in
      pbind (int_at cv n ''ioa'') (\<lambda>a.
      pbind (preject_if (r_or (null_at n ''report_id'') (empty_at n ''report_id''))) (\<lambda>_.
      pbind (str_at n ''report_id'') (\<lambda>r.
      Inr (Some \<lparr>report_ioa = a, report_id = r\<rparr>)))))"

definition parse_104_point :: "yaml_conv \<Rightarrow> yaml \<Rightarrow> iec104_data_point parse" where
  "parse_104_point cv y =
     (let n = Some y in
      pbind (int_at cv n ''ioa'') (\<lambda>a.
      pbind (str_at n ''type'') (\<lambda>t.
      pbind (preject_if (r_or (null_at n ''description'') (empty_at n ''description''))) (\<lambda>_.
      pbind (str_at n ''description'') (\<lambda>d.
      pbind (preject_if (r_or (null_at n ''iec61850_path'') (empty_at n ''iec61850_path''))) (\<lambda>_.
      pbind (str_at n ''iec61850_path'') (\<lambda>path.
      Inr (Some \<lparr>dp104_ioa = a, dp104_type = t, dp104_description = d, dp104_iec61850_path = path\<rparr>))))))))"

definition parse_apci :: "yaml_conv \<Rightarrow> ynode \<Rightarrow> iec104_apci parse" where
  "parse_apci cv n =
     pbind (int_at cv n ''t0'') (\<lambda>t0.
     pbind (int_at cv n ''t1'') (\<lambda>t1.
     pbind (int_at cv n ''t2'') (\<lambda>t2.
     pbind (int_at cv n ''t3'') (\<lambda>t3.
     pbind (int_at cv n ''k'') (\<lambda>k.
     pbind (int_at cv n ''w'') (\<lambda>w.
     Inr (Some \<lparr>apci_t0 = t0, apci_t1 = t1, apci_t2 = t2, apci_t3 = t3, apci_k = k, apci_w = w\<rparr>)))))))"

definition parse_app_layer :: "yaml_conv \<Rightarrow> ynode \<Rightarrow> iec104_app_layer parse" where
  "parse_app_layer cv n =
     pbind (int_at cv n ''originator_address'') (\<lambda>oa.
     pbind (int_at cv n ''common_address'') (\<lambda>ca.
     pbind (int_at cv n ''asdu_size'') (\<lambda>sz.
     Inr (Some \<lparr>originator_address = oa, common_address = ca, asdu_size = sz\<rparr>))))"

definition parse_communication :: "yaml_conv \<Rightarrow> ynode \<Rightarrow> iec104_communication parse" where
  "parse_communication cv n =
     pbind (int_at cv n ''gi_interval_ms'') (\<lambda>gi.
     pbind (bool_at cv n ''report_enabled'') (\<lambda>re.
     pbind (preject_if (null_at n ''reports'')) (\<lambda>_.
     pbind (fld ySeq n ''reports'') (\<lambda>ys.
     pbind (pmap (parse_report cv) ys) (\<lambda>rs.
     Inr (Some \<lparr>gi_interval_ms = gi, report_enabled = re, reports = rs\<rparr>))))))"

definition parse_104_points :: "yaml_conv \<Rightarrow> ynode \<Rightarrow> iec104_data_point list parse" where
  "parse_104_points cv n =
     pbind (plift (yget n ''data_points'')) (\<lambda>pts.
     case pts of
       Some (YSeq ys) \<Rightarrow> pmap (parse_104_point cv) ys
     | _ \<Rightarrow> Inr (Some []))"

definition parse_104_device :: "yaml_conv \<Rightarrow> yaml \<Rightarrow> config_iec104 parse" where
  "parse_104_device cv y =
     (let n = Some y in
      pbind (str_at n ''device_id'') (\<lambda>dev.
      pbind (str_at n ''type'') (\<lambda>t.
      pbind (plift (yget n ''TCP'')) (\<lambda>tcp.
      pbind (str_at tcp ''ip'') (\<lambda>ip.
      pbind (int_at cv tcp ''port'') (\<lambda>port.
      pbind (plift (yget n ''local_address'')) (\<lambda>loc.
      pbind (preject_if (r_or (null_at loc ''ip'') (r_not (fld yIsScalar loc ''ip'')))) (\<lambda>_.
      pbind (str_at loc ''ip'') (\<lambda>lip.
      pbind (preject_if (null_at loc ''port'')) (\<lambda>_.
      pbind (int_at cv loc ''port'') (\<lambda>lport.
      pbind (plift (rbind (yget n ''protocol'') (\<lambda>m. yget m ''apci''))) (\<lambda>apci_node.
      pbind (parse_apci cv apci_node) (\<lambda>apci.
      pbind (plift (rbind (yget n ''protocol'') (\<lambda>m. yget m ''application_layer''))) (\<lambda>app_node.
      pbind (parse_app_layer cv app_node) (\<lambda>app.
      pbind (plift (yget n ''communication'')) (\<lambda>comm_node.
      pbind (parse_communication cv comm_node) (\<lambda>comm.
      pbind (plift (yget n ''error_handling'')) (\<lambda>err.
      pbind (int_at cv err ''reconnect_interval_ms'') (\<lambda>rec.
      pbind (int_at cv err ''max_reconnect_attempts'') (\<lambda>att.
      pbind (parse_104_points cv n) (\<lambda>pts.
      Inr (Some \<lparr>i104_device_id = dev, i104_type = t, i104_tcp = \<lparr>addr_ip = ip, addr_port = port\<rparr>,
                 i104_local_address = \<lparr>addr_ip = lip, addr_port = lport\<rparr>, i104_apci = apci,
                 i104_app_layer = app, i104_communication = comm,
                 i104_error_handling = \<lparr>reconnect_interval_ms = rec, max_reconnect_attempts = att\<rparr>,
                 i104_data_points = pts\<rparr>))))))))))))))))))))))"

section \<open>Sections and the whole file\<close>

fun device_loop ::
  "(yaml \<Rightarrow> 'c parse) \<Rightarrow> ('c \<Rightarrow> config_data \<Rightarrow> config_data) \<Rightarrow> yaml list \<Rightarrow> config_data
    \<Rightarrow> bool result \<times> config_data" where
  "device_loop parse store [] d = (Inr True, d)"
| "device_loop parse store (y # ys) d =
     (case parse y of
        Inl e \<Rightarrow> (Inl e, d)
      | Inr None \<Rightarrow> (Inr False, d)
      | Inr (Some c) \<Rightarrow> device_loop parse store ys (store c d))"

definition parse_section ::
  "string \<Rightarrow> (yaml \<Rightarrow> 'c parse) \<Rightarrow> ('c \<Rightarrow> config_data \<Rightarrow> config_data) \<Rightarrow> yaml \<Rightarrow> config_data
    \<Rightarrow> bool result \<times> config_data" where
  "parse_section key parse store config d =
     (case yget (Some config) key of
        Inl e \<Rightarrow> (Inl e, d)
      | Inr None \<Rightarrow> (Inr True, d)
      | Inr (Some (YSeq ys)) \<Rightarrow> device_loop parse store ys d
      | Inr (Some y) \<Rightarrow> (Inr False, d))"

definition store_modbus :: "config_modbus \<Rightarrow> config_data \<Rightarrow> config_data" where
  "store_modbus c d = d\<lparr>cfg_modbus := (cfg_modbus d)(mb_device_id c \<mapsto> c)\<rparr>"

definition store_61850 :: "config_iec61850 \<Rightarrow> config_data \<Rightarrow> config_data" where
  "store_61850 c d = d\<lparr>cfg_iec61850 := (cfg_iec61850 d)(i61_device_id c \<mapsto> c)\<rparr>"

definition store_104 :: "config_iec104 \<Rightarrow> config_data \<Rightarrow> config_data" where
  "store_104 c d = d\<lparr>cfg_iec104 := (cfg_iec104 d)(i104_device_id c \<mapsto> c)\<rparr>"

definition parseModbusConfig :: "yaml_conv \<Rightarrow> yaml \<Rightarrow> config_data \<Rightarrow> bool result \<times> config_data" where
  "parseModbusConfig cv config d = parse_section ''ModbusDevices'' (parse_modbus_device cv) store_modbus config d"

definition parse61850Config :: "yaml_conv \<Rightarrow> yaml \<Rightarrow> config_data \<Rightarrow> bool result \<times> config_data" where
  "parse61850Config cv config d = parse_section ''IEC61850Devices'' (parse_61850_device cv) store_61850 config d"

definition parse104Config :: "yaml_conv \<Rightarrow> yaml \<Rightarrow> config_data \<Rightarrow> bool result \<times> config_data" where
  "parse104Config cv config d = parse_section ''IEC104Devices'' (parse_104_device cv) store_104 config d"

text \<open>
  \<open>loadConfig\<close> works on the file as the library loads it (an exception when it cannot) and on
  the pointer to the configuration, null before the first successful load of a file. A
  section that is rejected is only logged; an exception leaves the function.
\<close>

definition loadConfig ::
  "yaml_conv \<Rightarrow> yaml result \<Rightarrow> config_data option \<Rightarrow> unit result \<times> config_data option" where
  "loadConfig cv file data =
     (case file of
        Inl e \<Rightarrow> (Inl e, data)
      | Inr config \<Rightarrow>
          let d0 = (case data of None \<Rightarrow> empty_config | Some d \<Rightarrow> d);
              (r1, d1) = parseModbusConfig cv config d0 in
          (case r1 of
             Inl e \<Rightarrow> (Inl e, Some d1)
           | Inr _ \<Rightarrow>
               let (r2, d2) = parse61850Config cv config d1 in
               (case r2 of
                  Inl e \<Rightarrow> (Inl e, Some d2)
                | Inr _ \<Rightarrow>
                    let (r3, d3) = parse104Config cv config d2 in
                    (case r3 of Inl e \<Rightarrow> (Inl e, Some d3) | Inr _ \<Rightarrow> (Inr (), Some d3)))))"

definition Config_init ::
  "yaml_conv \<Rightarrow> yaml result \<Rightarrow> config_data option \<Rightarrow> bool \<times> config_data option" where
  "Config_init cv file data =
     (case loadConfig cv file data of (Inl e, data') \<Rightarrow> (False, data') | (Inr _, data') \<Rightarrow> (True, data'))"

definition getConfig :: "config_data option \<Rightarrow> config_data option" where
  "getConfig data = data"

section \<open>Configurations as documents\<close>

record yaml_print =
  show_int :: "int \<Rightarrow> string"
  show_bool :: "bool \<Rightarrow> string"
  show_uint16 :: "16 word \<Rightarrow> string"
  show_float :: "32 word \<Rightarrow> string"

definition point_yaml :: "yaml_print \<Rightarrow> data_points_t \<Rightarrow> yaml" where
  "point_yaml pr p =
     YMap [(''name'', YScalar (dp_name p)), (''address'', YScalar (show_uint16 pr (dp_address p))),
           (''type'', YScalar (dp_type p)), (''data_type'', YScalar (getDataTypeString (dp_data_type p))),
           (''scale'', YScalar (show_float pr (dp_scale p))), (''offset'', YScalar (show_float pr (dp_offset p)))]"

definition transport_yaml :: "yaml_print \<Rightarrow> config_modbus \<Rightarrow> string \<times> yaml" where
  "transport_yaml pr c =
     (if mb_Type c = ''TCP''
      then (''TCP'', YMap [(''ip'', YScalar (tcp_ip (mb_tcp c))), (''port'', YScalar (show_int pr (tcp_port (mb_tcp c))))])
      else (''RTU'', YMap [(''port_name'', YScalar (rtu_port_name (mb_rtu c))),
                           (''baudrate'', YScalar (show_int pr (rtu_baudrate (mb_rtu c)))),
                           (''parity'', YScalar (rtu_parity (mb_rtu c)))]))"

definition modbus_yaml :: "yaml_print \<Rightarrow> config_modbus \<Rightarrow> yaml" where
  "modbus_yaml pr c =
     YMap [(''device_id'', YScalar (mb_device_id c)), (''type'', YScalar (mb_Type c)),
           (''slave_addr'', YScalar (show_int pr (mb_slave_addr c))),
           (''cmd_interval'', YScalar (show_int pr (mb_cmd_interval c))),
           (''max_retries'', YScalar (show_int pr (mb_max_retries c))),
           (''retry_interval'', YScalar (show_int pr (mb_retry_interval c))),
           (''byte_order'', YScalar (mb_byte_order c)), transport_yaml pr c,
           (''data_points'', YSeq (map (point_yaml pr) (mb_data_points c)))]"

definition fields_61850 :: "yaml_print \<Rightarrow> config_iec61850 \<Rightarrow> (string \<times> yaml) list" where
  "fields_61850 pr c =
     [(''device_id'', YScalar (i61_device_id c)), (''ip'', YScalar (i61_ip c)),
      (''icd_file'', YScalar (i61_icd_file_path c)), (''access_point'', YScalar (i61_access_point c)),
      (''logical_device'', YScalar (i61_logical_device c)), (''client_mms_name'', YScalar (i61_client_mms_name c)),
      (''port'', YScalar (show_int pr (i61_port c))), (''poll_interval'', YScalar (show_int pr (i61_poll_interval c))),
      (''max_retries'', YScalar (show_int pr (i61_max_retries c))),
      (''retry_interval'', YScalar (show_int pr (i61_retry_interval c))),
      (''report_enabled'', YScalar (show_bool pr (i61_report_enabled c))),
      (''goose_enabled'', YScalar (show_bool pr (i61_goose_enabled c))),
      (''tls_enabled'', YScalar (show_bool pr (i61_tls_enabled c))),
      (''description'', YScalar (i61_description c)),
      (''data_point_filters'', YSeq (map YScalar (i61_data_point_filters c)))]"

definition report_yaml :: "yaml_print \<Rightarrow> iec104_report \<Rightarrow> yaml" where
  "report_yaml pr r = YMap [(''ioa'', YScalar (show_int pr (report_ioa r))), (''report_id'', YScalar (report_id r))]"

definition point104_yaml :: "yaml_print \<Rightarrow> iec104_data_point \<Rightarrow> yaml" where
  "point104_yaml pr p =
     YMap [(''ioa'', YScalar (show_int pr (dp104_ioa p))), (''type'', YScalar (dp104_type p)),
           (''description'', YScalar (dp104_description p)), (''iec61850_path'', YScalar (dp104_iec61850_path p))]"

definition address_yaml :: "yaml_print \<Rightarrow> iec104_address \<Rightarrow> yaml" where
  "address_yaml pr a = YMap [(''ip'', YScalar (addr_ip a)), (''port'', YScalar (show_int pr (addr_port a)))]"

definition apci_yaml :: "yaml_print \<Rightarrow> iec104_apci \<Rightarrow> yaml" where
  "apci_yaml pr a =
     YMap [(''t0'', YScalar (show_int pr (apci_t0 a))), (''t1'', YScalar (show_int pr (apci_t1 a))),
           (''t2'', YScalar (show_int pr (apci_t2 a))), (''t3'', YScalar (show_int pr (apci_t3 a))),
           (''k'', YScalar (show_int pr (apci_k a))), (''w'', YScalar (show_int pr (apci_w a)))]"

definition app_yaml :: "yaml_print \<Rightarrow> iec104_app_layer \<Rightarrow> yaml" where
  "app_yaml pr a =
     YMap [(''originator_address'', YScalar (show_int pr (originator_address a))),
           (''common_address'', YScalar (show_int pr (common_address a))),
           (''asdu_size'', YScalar (show_int pr (asdu_size a)))]"

definition communication_yaml :: "yaml_print \<Rightarrow> iec104_communication \<Rightarrow> yaml" where
  "communication_yaml pr c =
     YMap [(''gi_interval_ms'', YScalar (show_int pr (gi_interval_ms c))),
           (''report_enabled'', YScalar (show_bool pr (report_enabled c))),
           (''reports'', YSeq (map (report_yaml pr) (reports c)))]"

definition iec104_yaml :: "yaml_print \<Rightarrow> config_iec104 \<Rightarrow> yaml" where
  "iec104_yaml pr c =
     YMap [(''device_id'', YScalar (i104_device_id c)), (''type'', YScalar (i104_type c)),
           (''TCP'', address_yaml pr (i104_tcp c)), (''local_address'', address_yaml pr (i104_local_address c)),
           (''protocol'', YMap [(''apci'', apci_yaml pr (i104_apci c)),
                                (''application_layer'', app_yaml pr (i104_app_layer c))]),
           (''communication'', communication_yaml pr (i104_communication c)),
           (''error_handling'', YMap [(''reconnect_interval_ms'', YScalar (show_int pr (reconnect_interval_ms (i104_error_handling c)))),
                                      (''max_reconnect_attempts'', YScalar (show_int pr (max_reconnect_attempts (i104_error_handling c))))]),
           (''data_points'', YSeq (map (point104_yaml pr) (i104_data_points c)))]"

text \<open>The configurations that a document can express.\<close>

definition modbus_valid :: "config_modbus \<Rightarrow> bool" where
  "modbus_valid c \<longleftrightarrow>
     (mb_Type c = ''TCP'' \<and> mb_rtu c = \<lparr>rtu_port_name = [], rtu_baudrate = 0, rtu_parity = []\<rparr>
      \<or> mb_Type c = ''RTU'' \<and> mb_tcp c = \<lparr>tcp_ip = ''0.0.0.0'', tcp_port = 0\<rparr>)
     \<and> (\<forall>p \<in> set (mb_data_points c). dp_data_type p \<notin> {UNKNOWN, STRING})"

definition valid_61850 :: "config_iec61850 \<Rightarrow> bool" where
  "valid_61850 c \<longleftrightarrow> i61_description c \<noteq> [] \<and> [] \<notin> set (i61_data_point_filters c)"

definition valid_104 :: "config_iec104 \<Rightarrow> bool" where
  "valid_104 c \<longleftrightarrow> (\<forall>r \<in> set (reports (i104_communication c)). report_id r \<noteq> [])
     \<and> (\<forall>p \<in> set (i104_data_points c). dp104_description p \<noteq> [] \<and> dp104_iec61850_path p \<noteq> [])"

lemma pbind_simps [simp]:
  "pbind (Inr (Some x)) f = f x"
  "pbind (Inr None) f = Inr None"
  "pbind (Inl e) f = Inl e"
  by (simp_all add: pbind_def)

lemma plift_simps [simp]:
  "plift (Inr x) = Inr (Some x)"
  "plift (Inl e) = Inl e"
  by (simp_all add: plift_def)

lemma r_simps [simp]:
  "r_or (Inr True) b = Inr True"
  "r_or (Inr False) b = b"
  "r_or (Inl e) b = Inl e"
  "r_not (Inr x) = Inr (\<not> x)"
  "r_not (Inl e) = Inl e"
  "preject_if (Inr True) = Inr None"
  "preject_if (Inr False) = Inr (Some ())"
  "preject_if (Inl e) = Inl e"
  by (simp_all add: r_or_def r_not_def preject_if_def)

lemma y_simps [simp]:
  "yIsNull (Some y) = Inr (y = YNull)"
  "yIsNull None = Inl YamlInvalidNode"
  "yIsScalar (Some (YScalar s)) = Inr True"
  "yIsScalar None = Inl YamlInvalidNode"
  "ySeq (Some (YSeq ys)) = Inr (Some ys)"
  "ySeq None = Inl YamlInvalidNode"
  by (simp_all add: yIsNull_def yIsScalar_def ySeq_def)

lemmas at_defs = str_at_def int_at_def bool_at_def null_at_def empty_at_def opt_int_at_def opt_bool_at_def fld_def

lemma pmap_all: "(\<And>x. x \<in> set xs \<Longrightarrow> f (g x) = Inr (Some x)) \<Longrightarrow> pmap f (map g xs) = Inr (Some xs)"
  by (induction xs) auto

lemma parse_filter_scalar: "s \<noteq> [] \<Longrightarrow> parse_filter (YScalar s) = Inr (Some s)"
  by (simp add: parse_filter_def)

section \<open>A printer that the conversions invert\<close>

locale yaml_printer =
  fixes cv :: yaml_conv and pr :: yaml_print
  assumes conv_int [simp]: "to_int cv (show_int pr i) = Some i"
    and conv_bool [simp]: "to_bool cv (show_bool pr b) = Some b"
    and conv_uint16 [simp]: "to_uint16 cv (show_uint16 pr a) = Some a"
    and conv_float [simp]: "to_float cv (show_float pr x) = Some x"
begin

lemma point_roundtrip:
  "dp_data_type p \<notin> {UNKNOWN, STRING} \<Longrightarrow> parse_point cv (point_yaml pr p) = Inr (Some p)"
  by (cases "dp_data_type p") (simp_all add: parse_point_def point_yaml_def at_defs getDataType_def)

lemma modbus_roundtrip:
  assumes "modbus_valid c"
  shows "parse_modbus_device cv (modbus_yaml pr c) = Inr (Some c)"
proof -
  have pts: "pmap (parse_point cv) (map (point_yaml pr) (mb_data_points c)) = Inr (Some (mb_data_points c))"
    using assms point_roundtrip by (intro pmap_all) (auto simp: modbus_valid_def)
  have tr: "parse_transport cv (Some (modbus_yaml pr c)) (mb_Type c) = Inr (Some (mb_tcp c, mb_rtu c))"
    using assms
    by (auto simp: modbus_valid_def parse_transport_def modbus_yaml_def transport_yaml_def at_defs)
  have "fst (transport_yaml pr c) \<in> {''TCP'', ''RTU''}" by (simp add: transport_yaml_def)
  then show ?thesis
    using pts tr
    by (cases "transport_yaml pr c") (auto simp: parse_modbus_device_def modbus_yaml_def at_defs)
qed

lemma roundtrip_61850:
  assumes "valid_61850 c"
  shows "parse_61850_device cv (YMap (fields_61850 pr c)) = Inr (Some c)"
proof -
  have "pmap parse_filter (map YScalar (i61_data_point_filters c)) = Inr (Some (i61_data_point_filters c))"
    using assms by (intro pmap_all) (metis parse_filter_scalar valid_61850_def)
  with assms show ?thesis
    by (simp add: parse_61850_device_def fields_61850_def at_defs valid_61850_def)
qed

lemma report_roundtrip: "report_id r \<noteq> [] \<Longrightarrow> parse_report cv (report_yaml pr r) = Inr (Some r)"
  by (simp add: parse_report_def report_yaml_def at_defs)

lemma point104_roundtrip:
  "dp104_description p \<noteq> [] \<Longrightarrow> dp104_iec61850_path p \<noteq> [] \<Longrightarrow>
     parse_104_point cv (point104_yaml pr p) = Inr (Some p)"
  by (simp add: parse_104_point_def point104_yaml_def at_defs)

lemma apci_roundtrip: "parse_apci cv (Some (apci_yaml pr a)) = Inr (Some a)"
  by (simp add: parse_apci_def apci_yaml_def at_defs)

lemma app_roundtrip: "parse_app_layer cv (Some (app_yaml pr a)) = Inr (Some a)"
  by (simp add: parse_app_layer_def app_yaml_def at_defs)

lemma communication_roundtrip:
  assumes "\<forall>r \<in> set (reports c). report_id r \<noteq> []"
  shows "parse_communication cv (Some (communication_yaml pr c)) = Inr (Some c)"
proof -
  have "pmap (parse_report cv) (map (report_yaml pr) (reports c)) = Inr (Some (reports c))"
    using assms report_roundtrip by (intro pmap_all) auto
  then show ?thesis by (simp add: parse_communication_def communication_yaml_def at_defs)
qed

lemma roundtrip_104:
  assumes "valid_104 c"
  shows "parse_104_device cv (iec104_yaml pr c) = Inr (Some c)"
proof -
  have "pmap (parse_104_point cv) (map (point104_yaml pr) (i104_data_points c)) = Inr (Some (i104_data_points c))"
    using assms point104_roundtrip by (intro pmap_all) (auto simp: valid_104_def)
  moreover have "parse_communication cv (Some (communication_yaml pr (i104_communication c)))
      = Inr (Some (i104_communication c))"
    using assms communication_roundtrip by (simp add: valid_104_def)
  ultimately show ?thesis
    by (simp add: parse_104_device_def iec104_yaml_def address_yaml_def parse_104_points_def
        at_defs apci_roundtrip app_roundtrip)
qed

end

lemma device_loop_all:
  assumes "\<And>c. c \<in> set cs \<Longrightarrow> parse (show c) = Inr (Some c)"
  shows "device_loop parse store (map show cs @ ys) d = device_loop parse store ys (fold store cs d)"
  using assms by (induction cs arbitrary: d) auto

definition config_yaml ::
  "yaml_print \<Rightarrow> config_modbus list \<Rightarrow> config_iec61850 list \<Rightarrow> config_iec104 list \<Rightarrow> yaml" where
  "config_yaml pr ms is fs =
     YMap [(''ModbusDevices'', YSeq (map (modbus_yaml pr) ms)),
           (''IEC61850Devices'', YSeq (map (\<lambda>c. YMap (fields_61850 pr c)) is)),
           (''IEC104Devices'', YSeq (map (iec104_yaml pr) fs))]"

lemma fold_stores:
  "fold store_modbus ms d = d\<lparr>cfg_modbus := cfg_modbus d ++ map_of (rev (map (\<lambda>c. (mb_device_id c, c)) ms))\<rparr>"
  "fold store_61850 is d = d\<lparr>cfg_iec61850 := cfg_iec61850 d ++ map_of (rev (map (\<lambda>c. (i61_device_id c, c)) is))\<rparr>"
  "fold store_104 fs d = d\<lparr>cfg_iec104 := cfg_iec104 d ++ map_of (rev (map (\<lambda>c. (i104_device_id c, c)) fs))\<rparr>"
proof -
  show "fold store_modbus ms d = d\<lparr>cfg_modbus := cfg_modbus d ++ map_of (rev (map (\<lambda>c. (mb_device_id c, c)) ms))\<rparr>"
    by (induction ms arbitrary: d) (simp_all add: store_modbus_def entries_cons del: rev.simps(2))
  show "fold store_61850 is d = d\<lparr>cfg_iec61850 := cfg_iec61850 d ++ map_of (rev (map (\<lambda>c. (i61_device_id c, c)) is))\<rparr>"
    by (induction "is" arbitrary: d) (simp_all add: store_61850_def entries_cons del: rev.simps(2))
  show "fold store_104 fs d = d\<lparr>cfg_iec104 := cfg_iec104 d ++ map_of (rev (map (\<lambda>c. (i104_device_id c, c)) fs))\<rparr>"
    by (induction fs arbitrary: d) (simp_all add: store_104_def entries_cons del: rev.simps(2))
qed

text \<open>Decimal printing with the scanner of the prelude is such a printer.\<close>

definition dec_conv :: yaml_conv where
  "dec_conv =
     \<lparr>to_int = scan_int,
      to_bool = \<lambda>s. if s = ''true'' then Some True else if s = ''false'' then Some False else None,
      to_uint16 = \<lambda>s. map_option word_of_int (scan_int s), to_float = \<lambda>s. map_option word_of_int (scan_int s)\<rparr>"

definition dec_print :: yaml_print where
  "dec_print =
     \<lparr>show_int = dec_int, show_bool = \<lambda>b. if b then ''true'' else ''false'',
      show_uint16 = \<lambda>w. dec_int (uint w), show_float = \<lambda>w. dec_int (uint w)\<rparr>"

interpretation dec: yaml_printer dec_conv dec_print
  by unfold_locales (simp_all add: dec_conv_def dec_print_def scan_int_dec_int)

definition optional_61850 :: "string set" where
  "optional_61850 =
     {''port'', ''poll_interval'', ''max_retries'', ''retry_interval'', ''report_enabled'', ''goose_enabled'',
      ''tls_enabled'', ''description'', ''data_point_filters''}"

definition without :: "string \<Rightarrow> (string \<times> yaml) list \<Rightarrow> yaml" where
  "without k kvs = YMap (filter (\<lambda>(k', y). k' \<noteq> k) kvs)"

definition demo_modbus :: config_modbus where
  "demo_modbus =
     \<lparr>mb_device_id = ''m'', mb_Type = ''TCP'', mb_tcp = \<lparr>tcp_ip = ''10.0.0.1'', tcp_port = 502\<rparr>,
      mb_rtu = \<lparr>rtu_port_name = [], rtu_baudrate = 0, rtu_parity = []\<rparr>, mb_slave_addr = 1,
      mb_cmd_interval = 1000, mb_max_retries = 3, mb_retry_interval = 1000, mb_byte_order = ''ABCD'',
      mb_data_points = [\<lparr>dp_name = ''u'', dp_address = 7, dp_type = ''holding'', dp_data_type = INT16,
                         dp_scale = 1, dp_offset = 0\<rparr>]\<rparr>"

definition demo_61850 :: config_iec61850 where
  "demo_61850 =
     \<lparr>i61_device_id = ''i'', i61_ip = ''10.0.0.2'', i61_icd_file_path = ''a.icd'', i61_access_point = ''AP'',
      i61_logical_device = ''LD'', i61_client_mms_name = ''c'', i61_port = 102, i61_poll_interval = 1000,
      i61_max_retries = 3, i61_retry_interval = 1000, i61_report_enabled = True, i61_goose_enabled = False,
      i61_tls_enabled = False, i61_description = ''d'', i61_data_point_filters = [''*'']\<rparr>"

lemma config_loads:
  assumes "yaml_printer cv pr" and "\<forall>c \<in> set ms. modbus_valid c" and "\<forall>c \<in> set is. valid_61850 c"
    and "\<forall>c \<in> set fs. valid_104 c"
  shows "\<exists>d. Config_init cv (Inr (config_yaml pr ms is fs)) None = (True, Some d)
     \<and> cfg_modbus d = map_of (rev (map (\<lambda>c. (mb_device_id c, c)) ms))
     \<and> cfg_iec61850 d = map_of (rev (map (\<lambda>c. (i61_device_id c, c)) is))
     \<and> cfg_iec104 d = map_of (rev (map (\<lambda>c. (i104_device_id c, c)) fs))"
proof -
  note rt = yaml_printer.modbus_roundtrip [OF assms(1)] yaml_printer.roundtrip_61850 [OF assms(1)]
    yaml_printer.roundtrip_104 [OF assms(1)]
  have m: "parseModbusConfig cv (config_yaml pr ms is fs) d = (Inr True, fold store_modbus ms d)" for d
    using device_loop_all [of ms "parse_modbus_device cv" "modbus_yaml pr" store_modbus "[]"] rt(1) assms(2)
    by (simp add: parseModbusConfig_def parse_section_def config_yaml_def)
  have i: "parse61850Config cv (config_yaml pr ms is fs) d = (Inr True, fold store_61850 is d)" for d
    using device_loop_all [of "is" "parse_61850_device cv" "\<lambda>c. YMap (fields_61850 pr c)" store_61850 "[]"]
      rt(2) assms(3)
    by (simp add: parse61850Config_def parse_section_def config_yaml_def)
  have f: "parse104Config cv (config_yaml pr ms is fs) d = (Inr True, fold store_104 fs d)" for d
    using device_loop_all [of fs "parse_104_device cv" "iec104_yaml pr" store_104 "[]"] rt(3) assms(4)
    by (simp add: parse104Config_def parse_section_def config_yaml_def)
  show ?thesis
    by (simp add: Config_init_def loadConfig_def m i f fold_stores empty_config_def)
qed

section \<open>What a loaded configuration satisfies\<close>

text \<open>
  The type of a configuration: every device is filed under its own id and is one that a
  document can express.
\<close>

definition config_typed :: "config_data \<Rightarrow> bool" where
  "config_typed d \<longleftrightarrow>
     (\<forall>k c. cfg_modbus d k = Some c \<longrightarrow> mb_device_id c = k \<and> modbus_valid c)
     \<and> (\<forall>k c. cfg_iec61850 d k = Some c \<longrightarrow> i61_device_id c = k \<and> valid_61850 c)
     \<and> (\<forall>k c. cfg_iec104 d k = Some c \<longrightarrow> i104_device_id c = k \<and> valid_104 c)"

lemma pbind_Some_iff: "pbind m f = Inr (Some y) \<longleftrightarrow> (\<exists>x. m = Inr (Some x) \<and> f x = Inr (Some y))"
  by (cases m) (auto simp: pbind_def split: option.splits)

lemma preject_if_Some_iff: "preject_if r = Inr (Some u) \<longleftrightarrow> r = Inr False"
  by (cases r) (auto simp: preject_if_def)

lemma pmap_elements: "pmap f xs = Inr (Some ys) \<Longrightarrow> y \<in> set ys \<Longrightarrow> \<exists>x \<in> set xs. f x = Inr (Some y)"
  by (induction xs arbitrary: ys) (auto simp: pbind_Some_iff)

lemma r_or_False: "r_or a b = Inr False \<longleftrightarrow> a = Inr False \<and> b = Inr False"
  by (cases a) (auto simp: r_or_def split: bool.splits)

lemma empty_at_False: "empty_at n k = Inr False \<Longrightarrow> str_at n k = Inr (Some t) \<Longrightarrow> t \<noteq> []"
  by (auto simp: empty_at_def str_at_def plift_def rbind_Inr_iff)

lemmas parse_inv = pbind_Some_iff preject_if_Some_iff r_or_False

lemma getDataType_supported: "getDataType n \<noteq> UNKNOWN \<Longrightarrow> getDataType n \<notin> {UNKNOWN, STRING}"
  by (simp add: getDataType_def split: if_splits)

lemma parsed_point_type: "parse_point cv y = Inr (Some p) \<Longrightarrow> dp_data_type p \<notin> {UNKNOWN, STRING}"
  using getDataType_supported by (fastforce simp: parse_point_def Let_def parse_inv split: if_splits)

lemma parsed_transport:
  "parse_transport cv n t = Inr (Some (tcp, rtu)) \<Longrightarrow>
     t = ''TCP'' \<and> rtu = \<lparr>rtu_port_name = [], rtu_baudrate = 0, rtu_parity = []\<rparr>
     \<or> t = ''RTU'' \<and> tcp = \<lparr>tcp_ip = ''0.0.0.0'', tcp_port = 0\<rparr>"
  by (simp add: parse_transport_def parse_inv split: if_splits) blast+

lemma parsed_modbus_valid:
  assumes "parse_modbus_device cv y = Inr (Some c)"
  shows "modbus_valid c"
proof -
  obtain tcp rtu ys dps n where c: "parse_transport cv n (mb_Type c) = Inr (Some (tcp, rtu))"
      "pmap (parse_point cv) ys = Inr (Some dps)" "mb_tcp c = tcp" "mb_rtu c = rtu" "mb_data_points c = dps"
    using assms by (simp add: parse_modbus_device_def Let_def parse_inv split_beta) (metis config_modbus.select_convs prod.collapse)
  have "dp_data_type p \<notin> {UNKNOWN, STRING}" if "p \<in> set dps" for p
    using pmap_elements [OF c(2) that] parsed_point_type by blast
  with parsed_transport [OF c(1)] c(3-5) show ?thesis by (simp add: modbus_valid_def)
qed

lemma parsed_filter: "parse_filter y = Inr (Some t) \<Longrightarrow> t \<noteq> []"
  by (auto simp: parse_filter_def parse_inv plift_def rbind_Inr_iff)

lemma parsed_61850_valid:
  assumes "parse_61850_device cv y = Inr (Some c)"
  shows "valid_61850 c"
proof -
  let ?n = "Some y"
  obtain ys where c: "empty_at ?n ''description'' = Inr False" "str_at ?n ''description'' = Inr (Some (i61_description c))"
      "pmap parse_filter ys = Inr (Some (i61_data_point_filters c))"
    using assms by (simp add: parse_61850_device_def Let_def parse_inv) (elim exE conjE, force)
  have "[] \<notin> set (i61_data_point_filters c)"
    using pmap_elements [OF c(3)] parsed_filter by blast
  with empty_at_False [OF c(1,2)] show ?thesis by (simp add: valid_61850_def)
qed

lemma parsed_report: "parse_report cv y = Inr (Some r) \<Longrightarrow> report_id r \<noteq> []"
  by (auto simp: parse_report_def Let_def parse_inv dest: empty_at_False)

lemma parsed_104_point:
  "parse_104_point cv y = Inr (Some p) \<Longrightarrow> dp104_description p \<noteq> [] \<and> dp104_iec61850_path p \<noteq> []"
  by (auto simp: parse_104_point_def Let_def parse_inv dest: empty_at_False)

lemma parsed_communication:
  "parse_communication cv n = Inr (Some m) \<Longrightarrow> r \<in> set (reports m) \<Longrightarrow> report_id r \<noteq> []"
  using parsed_report by (auto simp: parse_communication_def parse_inv dest: pmap_elements)

lemma parsed_104_points:
  assumes "parse_104_points cv n = Inr (Some ps)" and "p \<in> set ps"
  shows "dp104_description p \<noteq> [] \<and> dp104_iec61850_path p \<noteq> []"
proof -
  obtain pts where pts: "(case pts of Some (YSeq ys) \<Rightarrow> pmap (parse_104_point cv) ys | _ \<Rightarrow> Inr (Some [])) = Inr (Some ps)"
    using assms(1) by (auto simp only: parse_104_points_def pbind_Some_iff)
  obtain ys where "pmap (parse_104_point cv) ys = Inr (Some ps)"
  proof (cases pts)
    case (Some y)
    with pts assms(2) that show thesis by (cases y) auto
  qed (use pts assms(2) in simp)
  from pmap_elements [OF this assms(2)] show ?thesis using parsed_104_point by blast
qed

lemma parsed_104_valid:
  assumes "parse_104_device cv y = Inr (Some c)"
  shows "valid_104 c"
proof -
  obtain n m where "parse_communication cv m = Inr (Some (i104_communication c))"
      "parse_104_points cv n = Inr (Some (i104_data_points c))"
    using assms by (simp add: parse_104_device_def Let_def parse_inv) (elim exE conjE, force)
  with parsed_communication parsed_104_points show ?thesis by (simp add: valid_104_def)
qed

text \<open>A section keeps what its store operation keeps.\<close>

lemma device_loop_keeps:
  assumes "\<And>y c d. parse y = Inr (Some c) \<Longrightarrow> P d \<Longrightarrow> P (store c d)"
  shows "P d \<Longrightarrow> P (snd (device_loop parse store ys d))"
  using assms by (induction ys arbitrary: d) (auto split: sum.split option.split)

lemma parse_section_keeps:
  assumes "\<And>y c d. parse y = Inr (Some c) \<Longrightarrow> P d \<Longrightarrow> P (store c d)" and "P d"
  shows "P (snd (parse_section key parse store config d))"
  using assms(2) device_loop_keeps [of parse P store, OF assms(1)]
  by (simp add: parse_section_def split: sum.split option.split yaml.split)

lemma stores_typed:
  "parse_modbus_device cv y = Inr (Some m) \<Longrightarrow> config_typed d \<Longrightarrow> config_typed (store_modbus m d)"
  "parse_61850_device cv y = Inr (Some i) \<Longrightarrow> config_typed d \<Longrightarrow> config_typed (store_61850 i d)"
  "parse_104_device cv y = Inr (Some f) \<Longrightarrow> config_typed d \<Longrightarrow> config_typed (store_104 f d)"
  by (auto simp: config_typed_def store_modbus_def store_61850_def store_104_def
      dest: parsed_modbus_valid parsed_61850_valid parsed_104_valid)

lemma sections_typed:
  assumes "config_typed d"
  shows "config_typed (snd (parseModbusConfig cv y d))" "config_typed (snd (parse61850Config cv y d))"
    "config_typed (snd (parse104Config cv y d))"
  unfolding parseModbusConfig_def parse61850Config_def parse104Config_def
  by (rule parse_section_keeps [where P = config_typed, OF _ assms], erule (1) stores_typed)+

lemma loadConfig_typed:
  assumes "pred_option config_typed data"
  shows "pred_option config_typed (snd (loadConfig cv f data))"
proof (cases f)
  case (Inl e)
  with assms show ?thesis by (simp add: loadConfig_def)
next
  case (Inr y)
  have d0: "config_typed (case data of None \<Rightarrow> empty_config | Some d \<Rightarrow> d)"
    using assms by (cases data) (auto simp: config_typed_def empty_config_def)
  obtain r1 d1 where 1: "parseModbusConfig cv y (case data of None \<Rightarrow> empty_config | Some d \<Rightarrow> d) = (r1, d1)" by fastforce
  obtain r2 d2 where 2: "parse61850Config cv y d1 = (r2, d2)" by fastforce
  obtain r3 d3 where 3: "parse104Config cv y d2 = (r3, d3)" by fastforce
  have "config_typed d1" using sections_typed(1) [OF d0, of cv y] 1 by simp
  moreover from this have "config_typed d2" using sections_typed(2) [of d1 cv y] 2 by simp
  moreover from this have "config_typed d3" using sections_typed(3) [of d2 cv y] 3 by simp
  ultimately show ?thesis using Inr 1 2 3 by (simp add: loadConfig_def split: sum.split)
qed

section \<open>Properties\<close>



text \<open>
  A rejected section does not fail the load: when a Modbus device is rejected (here one
  of an unknown transport type), the devices before it are kept, it and all later Modbus
  devices are dropped, and \<open>init\<close> still reports success.
\<close>

theorem rejected_device_reports_success:
  assumes "yaml_printer cv pr" and "\<forall>c \<in> set ms. modbus_valid c" and "mb_Type bad \<notin> {''TCP'', ''RTU''}"
  shows "\<exists>d. Config_init cv (Inr (YMap [(''ModbusDevices'',
                YSeq (map (modbus_yaml pr) ms @ modbus_yaml pr bad # map (modbus_yaml pr) later))])) None = (True, Some d)
     \<and> cfg_modbus d = map_of (rev (map (\<lambda>c. (mb_device_id c, c)) ms))"
proof -
  note p = yaml_printer.conv_int [OF assms(1)]
  have "fst (transport_yaml pr bad) \<in> {''TCP'', ''RTU''}" by (simp add: transport_yaml_def)
  then have "parse_modbus_device cv (modbus_yaml pr bad) = Inr None"
    using assms(3)
    by (cases "transport_yaml pr bad") (auto simp: parse_modbus_device_def modbus_yaml_def at_defs p parse_transport_def)
  then have "parseModbusConfig cv (YMap [(''ModbusDevices'',
       YSeq (map (modbus_yaml pr) ms @ modbus_yaml pr bad # map (modbus_yaml pr) later))]) d
     = (Inr False, fold store_modbus ms d)" for d
    using device_loop_all [of ms "parse_modbus_device cv" "modbus_yaml pr" store_modbus
        "modbus_yaml pr bad # map (modbus_yaml pr) later" d] yaml_printer.modbus_roundtrip [OF assms(1)] assms(2)
    by (simp add: parseModbusConfig_def parse_section_def)
  then show ?thesis
    by (simp add: Config_init_def loadConfig_def parse61850Config_def parse104Config_def parse_section_def
        fold_stores empty_config_def)
qed

theorem rejected_device_reports_success_witness:
  "\<exists>d. Config_init dec_conv (Inr (YMap [(''ModbusDevices'',
          YSeq [modbus_yaml dec_print demo_modbus, modbus_yaml dec_print (demo_modbus\<lparr>mb_Type := ''UDP''\<rparr>)])])) None
        = (True, Some d) \<and> cfg_modbus d = map_of [(''m'', demo_modbus)]"
proof -
  have "modbus_valid demo_modbus" "mb_device_id demo_modbus = ''m''"
    by (simp_all add: modbus_valid_def demo_modbus_def)
  with rejected_device_reports_success [OF dec.yaml_printer_axioms, of "[demo_modbus]"
      "demo_modbus\<lparr>mb_Type := ''UDP''\<rparr>" "[]"] show ?thesis
    by simp
qed

text \<open>
  The fields of an IEC 61850 device that are documented as optional cannot be left out: without
  any one of them reading the device throws, and loading a file with such a device fails.
\<close>

theorem missing_optional_field_fails:
  assumes "yaml_printer cv pr" and "valid_61850 c" and "k \<in> optional_61850"
  shows "parse_61850_device cv (without k (fields_61850 pr c)) = Inl YamlInvalidNode
     \<and> fst (Config_init cv (Inr (YMap [(''IEC61850Devices'', YSeq [without k (fields_61850 pr c)])])) data) = False"
proof -
  note p = yaml_printer.conv_int [OF assms(1)] yaml_printer.conv_bool [OF assms(1)]
  have throws: "parse_61850_device cv (without k (fields_61850 pr c)) = Inl YamlInvalidNode"
    using assms(2,3) unfolding optional_61850_def
    by (elim insertE emptyE)
       (simp_all add: parse_61850_device_def without_def fields_61850_def at_defs p valid_61850_def)
  then show ?thesis
    by (simp add: Config_init_def loadConfig_def parseModbusConfig_def parse61850Config_def parse_section_def
        split: option.split)
qed

theorem missing_optional_field_fails_witness:
  "fst (Config_init dec_conv
      (Inr (YMap [(''IEC61850Devices'', YSeq [without ''port'' (fields_61850 dec_print demo_61850)])])) None) = False"
proof -
  have "valid_61850 demo_61850" by (simp add: valid_61850_def demo_61850_def)
  then show ?thesis
    using missing_optional_field_fails [OF dec.yaml_printer_axioms, of demo_61850 "''port''" None]
    by (simp add: optional_61850_def)
qed

text \<open>
  C15. Whatever the file holds, the configuration stays well typed: after any call of \<open>init\<close>,
  successful or not, every Modbus device has the transport \<open>TCP\<close> or \<open>RTU\<close> and only points of
  supported data types, every IEC 61850 device has a description and non-empty filters,
  every IEC 104 device has named reports and described points, and each device is filed
  under its own id.
\<close>

theorem init_keeps_config_typed:
  assumes "pred_option config_typed data"
  shows "pred_option config_typed (snd (Config_init cv f data))"
  using loadConfig_typed [OF assms, of cv f]
  by (cases "loadConfig cv f data") (auto simp: Config_init_def split: sum.split)

theorem init_keeps_config_typed_witness:
  "pred_option config_typed (snd (Config_init dec_conv (Inr (config_yaml dec_print [demo_modbus] [demo_61850] [])) None))"
  by (rule init_keeps_config_typed) simp

end
