(* ===== verification/Iec104_Client.thy ===== *)
theory Iec104_Client
  imports Gateway_Config
begin

text \<open>
  The IEC 60870-5-104 client, class \<open>IEC104Client\<close> (\<open>core/iec104/iec104Client.cc\<close>), and the
  manager that creates one client per configured device (\<open>iec104ClientManger.cc\<close>). Calls
  into lib60870 that send something are recorded in order. The worker thread is a
  \<open>std::thread\<close>: destroying or overwriting a joinable one is \<open>std::terminate\<close>. One pass of
  the worker's loop is one step; the semaphore is its counter. The callbacks of the manager
  only write log records.
\<close>

section \<open>The client\<close>

datatype connection_event =
    NoEvent
  | CONNECTION_OPENED
  | CONNECTION_CLOSED
  | STARTDT_CON_RECEIVED
  | STOPDT_CON_RECEIVED
  | CONNECTION_FAILED

datatype lib_call = ConnectAsync | SendStartDT | SendStopDT | SendInterrogation int int int

datatype worker = NoThread | Looping | Returned

record iec104_client =
  server_ip :: string
  server_port :: "16 word"
  local_ip :: string
  local_port :: int
  conn_t0 :: int
  conn_originator :: int
  conn_local :: "(string \<times> int) option"
  gi_interval :: int
  connection_live :: bool
  running :: bool
  start_dt_sent :: bool
  last_gi_sent :: "64 word"
  last_event_lock :: nat
  last_event :: connection_event
  worker_thread :: worker
  has_connection_callback :: bool
  has_asdu_callback :: bool
  calls :: "lib_call list"

definition emit_call :: "lib_call \<Rightarrow> iec104_client \<Rightarrow> iec104_client" where
  "emit_call c s = s\<lparr>calls := calls s @ [c]\<rparr>"

definition IEC104Client ::
  "bool \<Rightarrow> string \<Rightarrow> 16 word \<Rightarrow> string \<Rightarrow> int \<Rightarrow> int \<Rightarrow> int \<Rightarrow> int \<Rightarrow> iec104_client result" where
  "IEC104Client conn_created ip port lip lport t0 originator gi =
     (if \<not> conn_created then Inl RuntimeError
      else Inr \<lparr>server_ip = ip, server_port = port, local_ip = lip, local_port = lport, conn_t0 = t0,
                conn_originator = originator, conn_local = (if lip = [] then None else Some (lip, lport)),
                gi_interval = gi, connection_live = True, running = False, start_dt_sent = False,
                last_gi_sent = 0, last_event_lock = 1, last_event = NoEvent, worker_thread = NoThread,
                has_connection_callback = False, has_asdu_callback = False, calls = []\<rparr>)"

definition joinable :: "iec104_client \<Rightarrow> bool" where
  "joinable s \<longleftrightarrow> worker_thread s \<noteq> NoThread"

definition client_start :: "(bool, iec104_client) oper" where
  "client_start s =
     (if running s then Inr (False, s)
      else
        let s1 = emit_call ConnectAsync (s\<lparr>running := True\<rparr>) in
        if joinable s1 then Inl StdTerminate
        else Inr (True, s1\<lparr>worker_thread := Looping\<rparr>))"

definition sendInterrogationCommand :: "bool \<Rightarrow> iec104_client \<Rightarrow> bool \<times> iec104_client" where
  "sendInterrogationCommand accepted s =
     (if \<not> running s \<or> \<not> start_dt_sent s then (False, s)
      else (accepted, emit_call (SendInterrogation 6 1 20) s))"

definition sendStartDT :: "iec104_client \<Rightarrow> iec104_client" where
  "sendStartDT s = (if \<not> running s then s else emit_call SendStartDT s)"

definition sendStopDT :: "iec104_client \<Rightarrow> iec104_client" where
  "sendStopDT s = (if \<not> running s then s else emit_call SendStopDT s)"

text \<open>
  \<open>stop\<close> clears the flag and joins the worker, whose next check of the flag ends it.
\<close>

definition client_stop :: "iec104_client \<Rightarrow> iec104_client" where
  "client_stop s =
     (if running s then
        let s1 = s\<lparr>running := False\<rparr>;
            s2 = (if joinable s1 then s1\<lparr>worker_thread := NoThread\<rparr> else s1) in
        if start_dt_sent s2 then sendStopDT s2 else s2
      else s)"

definition destroy_IEC104Client :: "(unit, iec104_client) oper" where
  "destroy_IEC104Client s =
     (let s1 = client_stop s; s2 = s1\<lparr>connection_live := False\<rparr> in
      if joinable s2 then Inl StdTerminate else Inr ((), s2))"

definition setConnectionEventCallback :: "iec104_client \<Rightarrow> iec104_client" where
  "setConnectionEventCallback s = s\<lparr>has_connection_callback := True\<rparr>"

definition setAsduReceivedCallback :: "iec104_client \<Rightarrow> iec104_client" where
  "setAsduReceivedCallback s = s\<lparr>has_asdu_callback := True\<rparr>"

text \<open>
  One pass of the worker: the loop condition, then the body between waiting for the
  semaphore and posting it. \<open>last_gi_sent_ + gi_interval_ms_\<close> is 64-bit arithmetic.
\<close>

definition run_body :: "64 word \<Rightarrow> bool \<Rightarrow> iec104_client \<Rightarrow> iec104_client" where
  "run_body now accepted s =
     (if last_event s = CONNECTION_OPENED then sendStartDT s
      else if last_event s = CONNECTION_CLOSED \<or> last_event s = CONNECTION_FAILED
      then s\<lparr>running := False\<rparr>
      else if start_dt_sent s then
        let s1 = (if now < last_gi_sent s then s\<lparr>last_gi_sent := now\<rparr> else s) in
        if now > last_gi_sent s1 + word_of_int (gi_interval s1)
        then snd (sendInterrogationCommand accepted (s1\<lparr>last_gi_sent := now\<rparr>))
        else s1
      else s)"

definition run_pass :: "64 word \<Rightarrow> bool \<Rightarrow> iec104_client \<Rightarrow> iec104_client option" where
  "run_pass now accepted s =
     (if worker_thread s \<noteq> Looping then None
      else if \<not> running s then Some (s\<lparr>worker_thread := Returned\<rparr>)
      else if last_event_lock s = 0 then None
      else
        let s1 = run_body now accepted (s\<lparr>last_event_lock := last_event_lock s - 1\<rparr>) in
        Some (s1\<lparr>last_event_lock := last_event_lock s1 + 1\<rparr>))"

definition connectionHandler :: "connection_event \<Rightarrow> iec104_client \<Rightarrow> iec104_client" where
  "connectionHandler e s = s\<lparr>last_event := e, last_event_lock := last_event_lock s + 1\<rparr>"

definition asduReceivedHandler ::
  "('a \<Rightarrow> (bool \<times> string list) result) \<Rightarrow> 'a \<Rightarrow> iec104_client \<Rightarrow> (bool \<times> string list) result" where
  "asduReceivedHandler callback asdu s = (if has_asdu_callback s then callback asdu else Inr (True, []))"

section \<open>The manager\<close>

text \<open>
  The callbacks that the manager and the test function install. An ASDU is its type, and its
  elements as the library parses them (a null pointer where parsing fails). Measured values
  (\<open>M_ME_NB_1\<close>) are read through the accessor of single points: \<open>sp_value\<close> is what that accessor
  returns for an object of another type. The result is the answer and the log records.
\<close>

record 'e client_asdu =
  asdu_type :: int
  asdu_elements :: "'e option list"

definition M_ME_NB_1 :: int where
  "M_ME_NB_1 = 11"

fun connection_event_text :: "connection_event \<Rightarrow> string" where
  "connection_event_text CONNECTION_OPENED = ''Connection established''"
| "connection_event_text CONNECTION_CLOSED = ''Connection closed''"
| "connection_event_text CONNECTION_FAILED = ''Connection failed''"
| "connection_event_text STARTDT_CON_RECEIVED = ''Connection event: 2''"
| "connection_event_text STOPDT_CON_RECEIVED = ''Connection event: 3''"
| "connection_event_text NoEvent = ''Connection event: -1''"

fun element_records :: "('e \<Rightarrow> int) \<Rightarrow> ('e \<Rightarrow> bool) \<Rightarrow> 'e option list \<Rightarrow> string list result" where
  "element_records ioa sp_value [] = Inr []"
| "element_records ioa sp_value (None # es) = Inl NullDeref"
| "element_records ioa sp_value (Some e # es) =
     rbind (element_records ioa sp_value es) (\<lambda>rs.
       Inr ((''  IOA: '' @ dec_int (ioa e) @ '' value: '' @ (if sp_value e then ''1'' else ''0'')) # rs))"

definition manager_callback ::
  "(int \<Rightarrow> string) \<Rightarrow> ('e \<Rightarrow> int) \<Rightarrow> ('e \<Rightarrow> bool) \<Rightarrow> 'e client_asdu \<Rightarrow> (bool \<times> string list) result" where
  "manager_callback type_name ioa sp_value asdu =
     rbind (if asdu_type asdu = M_ME_NB_1 then element_records ioa sp_value (asdu_elements asdu) else Inr []) (\<lambda>rs.
       Inr (True, (''Received ASDU type: '' @ type_name (asdu_type asdu) @ '' elements: ''
                   @ dec_nat (length (asdu_elements asdu))) # rs))"

lemma element_records_total:
  "\<forall>e \<in> set es. e \<noteq> None \<Longrightarrow> \<exists>rs. element_records ioa sp_value es = Inr rs \<and> length rs = length es"
  by (induction es) auto

lemma manager_callback_accepts:
  assumes "\<forall>e \<in> set (asdu_elements asdu). e \<noteq> None"
  shows "\<exists>rs. manager_callback type_name ioa sp_value asdu = Inr (True, rs)
     \<and> length rs = (if asdu_type asdu = M_ME_NB_1 then Suc (length (asdu_elements asdu)) else 1)"
  using element_records_total [OF assms, of ioa sp_value] by (fastforce simp: manager_callback_def)

text \<open>
  \<open>initClients\<close> on the configured devices in the order of the hash map. The argument
  \<open>create\<close> says for which server the library creates a connection object; a failed
  construction ends the function with the exception.
\<close>

fun init_loop ::
  "(string \<Rightarrow> 16 word \<Rightarrow> bool) \<Rightarrow> (string \<times> config_iec104) list \<Rightarrow> iec104_client list
    \<Rightarrow> iec104_client list \<times> fault option" where
  "init_loop create [] clients = (clients, None)"
| "init_loop create ((device, c) # cs) clients =
     (let port = word_of_int (addr_port (i104_tcp c)) in
      case IEC104Client (create (addr_ip (i104_tcp c)) port) (addr_ip (i104_tcp c)) port
             (addr_ip (i104_local_address c)) (addr_port (i104_local_address c))
             (apci_t0 (i104_apci c)) (originator_address (i104_app_layer c))
             (gi_interval_ms (i104_communication c)) of
        Inl f \<Rightarrow> (clients, Some f)
      | Inr client \<Rightarrow>
          (case client_start (setAsduReceivedCallback (setConnectionEventCallback client)) of
             Inl f \<Rightarrow> (clients, Some f)
           | Inr (started, client') \<Rightarrow>
               init_loop create cs (if started then clients @ [client'] else clients)))"

definition initClients ::
  "(string \<Rightarrow> 16 word \<Rightarrow> bool) \<Rightarrow> (string \<times> config_iec104) list option \<Rightarrow> iec104_client list
    \<Rightarrow> iec104_client list \<times> fault option" where
  "initClients create config clients =
     (case config of None \<Rightarrow> (clients, None) | Some cs \<Rightarrow> init_loop create cs clients)"

fun destroy_clients :: "iec104_client list \<Rightarrow> unit result" where
  "destroy_clients [] = Inr ()"
| "destroy_clients (c # cs) = rbind (destroy_IEC104Client c) (\<lambda>_. destroy_clients cs)"

definition destroy_IEC104ClientManger :: "iec104_client list \<Rightarrow> unit result" where
  "destroy_IEC104ClientManger clients = destroy_clients (map client_stop clients)"

text \<open>
  \<open>testFunction\<close>: \<open>during\<close> is what the worker and the library do to the client in the fifty
  minutes that the function sleeps; the local client is destroyed when the function ends.
\<close>

definition testFunction :: "bool \<Rightarrow> (iec104_client \<Rightarrow> iec104_client) \<Rightarrow> iec104_client result" where
  "testFunction create during =
     rbind (IEC104Client create ''127.0.0.1'' 2404 [] (- 1) 5 3 1000) (\<lambda>client.
     rbind (client_start (setAsduReceivedCallback (setConnectionEventCallback client))) (\<lambda>(started, c1).
     rbind (destroy_IEC104Client (client_stop (during c1))) (\<lambda>(_, c2). Inr c2)))"

section \<open>Client states\<close>

datatype client = Client iec104_client | ClientFault fault | Destroyed

datatype client_event =
    EvStart
  | EvStop
  | EvPass "64 word" bool
  | EvConnection connection_event
  | EvDestroy
  | EvInterrogate bool
  | EvStartDT
  | EvStopDT

inductive client_step :: "client \<Rightarrow> client_event \<Rightarrow> client \<Rightarrow> bool" where
  c_start: "client_step (Client s) EvStart
     (case client_start s of Inl f \<Rightarrow> ClientFault f | Inr (ok, s') \<Rightarrow> Client s')"
| c_stop: "client_step (Client s) EvStop (Client (client_stop s))"
| c_pass: "run_pass now ok s = Some s' \<Longrightarrow> client_step (Client s) (EvPass now ok) (Client s')"
| c_event: "client_step (Client s) (EvConnection e) (Client (connectionHandler e s))"
| c_destroy: "client_step (Client s) EvDestroy
     (case destroy_IEC104Client s of Inl f \<Rightarrow> ClientFault f | Inr _ \<Rightarrow> Destroyed)"
| c_interrogate: "client_step (Client s) (EvInterrogate ok) (Client (snd (sendInterrogationCommand ok s)))"
| c_startdt: "client_step (Client s) EvStartDT (Client (sendStartDT s))"
| c_stopdt: "client_step (Client s) EvStopDT (Client (sendStopDT s))"

inductive_cases client_stepE: "client_step c e t"

definition client_begin :: "client \<Rightarrow> bool" where
  "client_begin c \<longleftrightarrow> (\<exists>ip port lip lport t0 oa gi s. IEC104Client True ip port lip lport t0 oa gi = Inr s \<and> c = Client s)"

definition is_interrogation :: "lib_call \<Rightarrow> bool" where
  "is_interrogation c = (case c of SendInterrogation _ _ _ \<Rightarrow> True | _ \<Rightarrow> False)"

definition client_ok :: "iec104_client \<Rightarrow> bool" where
  "client_ok s \<longleftrightarrow> \<not> start_dt_sent s \<and> (\<forall>c \<in> set (calls s). \<not> is_interrogation c)
     \<and> 0 < last_event_lock s \<and> (running s \<longrightarrow> worker_thread s = Looping)"

fun client_inv :: "client \<Rightarrow> bool" where
  "client_inv (Client s) = client_ok s"
| "client_inv (ClientFault f) = (f = StdTerminate)"
| "client_inv Destroyed = True"

lemmas client_defs = client_start_def client_stop_def destroy_IEC104Client_def sendInterrogationCommand_def
  sendStartDT_def sendStopDT_def run_body_def run_pass_def connectionHandler_def emit_call_def
  joinable_def Let_def

lemma client_begin_inv: "client_begin c \<Longrightarrow> client_inv c"
  by (auto simp: client_begin_def IEC104Client_def client_ok_def)

lemma client_start_inv:
  "client_ok s \<Longrightarrow> client_inv (case client_start s of Inl f \<Rightarrow> ClientFault f | Inr (ok, s') \<Rightarrow> Client s')"
  by (auto simp: client_defs client_ok_def is_interrogation_def)

lemma client_stop_inv: "client_ok s \<Longrightarrow> client_ok (client_stop s)"
  by (auto simp: client_defs client_ok_def)

lemma run_pass_inv: "client_ok s \<Longrightarrow> run_pass now ok s = Some s' \<Longrightarrow> client_ok s'"
  by (auto simp: client_defs client_ok_def is_interrogation_def split: if_splits)

lemma client_dt_inv:
  "client_ok s \<Longrightarrow> client_ok (snd (sendInterrogationCommand ok s))"
  "client_ok s \<Longrightarrow> client_ok (sendStartDT s)"
  "client_ok s \<Longrightarrow> client_ok (sendStopDT s)"
  by (auto simp: client_defs client_ok_def is_interrogation_def)

lemma destroy_inv:
  "client_inv (case destroy_IEC104Client s of Inl f \<Rightarrow> ClientFault f | Inr _ \<Rightarrow> Destroyed)"
  by (auto simp: destroy_IEC104Client_def Let_def)

lemma event_inv: "client_ok s \<Longrightarrow> client_ok (connectionHandler e s)"
  by (simp add: client_ok_def connectionHandler_def)

interpretation cl: invariant_system client_begin client_step client_inv
proof unfold_locales
  show "client_inv c" if "client_begin c" for c
    using that by (rule client_begin_inv)
  show "client_inv t" if "client_inv c" and "client_step c e t" for c e t
    using that(2,1)
    by cases (simp_all add: client_start_inv client_stop_inv run_pass_inv event_inv destroy_inv client_dt_inv)
qed

fun run_passes :: "(64 word \<times> bool) list \<Rightarrow> iec104_client \<Rightarrow> iec104_client option" where
  "run_passes [] s = Some s"
| "run_passes ((now, ok) # ps) s = Option.bind (run_pass now ok s) (run_passes ps)"

lemma opened_pass:
  "running s \<Longrightarrow> worker_thread s = Looping \<Longrightarrow> 0 < last_event_lock s \<Longrightarrow> last_event s = CONNECTION_OPENED \<Longrightarrow>
     run_pass now ok s = Some (emit_call SendStartDT s)"
  by (simp add: client_defs)

lemma opened_passes:
  "running s \<Longrightarrow> worker_thread s = Looping \<Longrightarrow> 0 < last_event_lock s \<Longrightarrow> last_event s = CONNECTION_OPENED \<Longrightarrow>
     run_passes ps s = Some (s\<lparr>calls := calls s @ replicate (length ps) SendStartDT\<rparr>)"
proof (induction ps arbitrary: s)
  case (Cons p ps)
  then show ?case
    by (cases p) (simp add: opened_pass emit_call_def)
qed simp

definition configured_client :: "config_iec104 \<Rightarrow> iec104_client" where
  "configured_client c =
     \<lparr>server_ip = addr_ip (i104_tcp c), server_port = word_of_int (addr_port (i104_tcp c)),
      local_ip = addr_ip (i104_local_address c), local_port = addr_port (i104_local_address c),
      conn_t0 = apci_t0 (i104_apci c), conn_originator = originator_address (i104_app_layer c),
      conn_local = (if addr_ip (i104_local_address c) = [] then None
                    else Some (addr_ip (i104_local_address c), addr_port (i104_local_address c))),
      gi_interval = gi_interval_ms (i104_communication c), connection_live = True, running = True,
      start_dt_sent = False, last_gi_sent = 0, last_event_lock = 1, last_event = NoEvent,
      worker_thread = Looping, has_connection_callback = True, has_asdu_callback = True, calls = [ConnectAsync]\<rparr>"

lemma init_loop_spec:
  assumes "\<forall>(d, c) \<in> set cs. create (addr_ip (i104_tcp c)) (word_of_int (addr_port (i104_tcp c)))"
  shows "init_loop create cs clients = (clients @ map (configured_client \<circ> snd) cs, None)"
  using assms
proof (induction cs arbitrary: clients)
  case (Cons dc cs)
  then show ?case
    by (cases dc)
       (simp add: IEC104Client_def client_defs setAsduReceivedCallback_def setConnectionEventCallback_def
          configured_client_def)
qed simp

lemma destroy_stopped:
  "client_ok s \<Longrightarrow> running s \<Longrightarrow> \<exists>s'. destroy_IEC104Client (client_stop s) = Inr ((), s')"
  by (simp add: client_defs client_ok_def)

lemma destroy_clients_ok:
  "\<forall>s \<in> set ss. client_ok s \<and> running s \<Longrightarrow> destroy_clients (map client_stop ss) = Inr ()"
proof (induction ss)
  case (Cons s ss)
  then show ?case using destroy_stopped [of s] by auto
qed simp

lemma configured_ok: "client_ok (configured_client c) \<and> running (configured_client c)"
  by (simp add: configured_client_def client_ok_def is_interrogation_def)

definition demo_104 :: config_iec104 where
  "demo_104 =
     \<lparr>i104_device_id = ''d'', i104_type = ''TCP'', i104_tcp = \<lparr>addr_ip = ''127.0.0.1'', addr_port = 2404\<rparr>,
      i104_local_address = \<lparr>addr_ip = [], addr_port = - 1\<rparr>,
      i104_apci = \<lparr>apci_t0 = 10, apci_t1 = 15, apci_t2 = 10, apci_t3 = 20, apci_k = 12, apci_w = 8\<rparr>,
      i104_app_layer = \<lparr>originator_address = 3, common_address = 1, asdu_size = 249\<rparr>,
      i104_communication = \<lparr>gi_interval_ms = 1000, report_enabled = False, reports = []\<rparr>,
      i104_error_handling = \<lparr>reconnect_interval_ms = 1000, max_reconnect_attempts = 3\<rparr>,
      i104_data_points = []\<rparr>"

section \<open>Properties\<close>

text \<open>
  C19. The client never asks for data: in every state it reaches under any interleaving of
  its operations, worker passes and connection events, the flag \<open>start_dt_sent_\<close> is
  still false, so no interrogation command has been sent, and the public
  \<open>sendInterrogationCommand\<close> refuses.
\<close>

theorem client_never_interrogates:
  assumes "cl.reachable (Client s) es"
  shows "\<not> start_dt_sent s \<and> (\<forall>c \<in> set (calls s). \<not> is_interrogation c)
     \<and> sendInterrogationCommand accepted s = (False, s)"
  using cl.reachable_inv [OF assms] by (simp add: client_ok_def sendInterrogationCommand_def)

lemma demo_reachable:
  "cl.reachable (Client ((configured_client demo_104)\<lparr>has_connection_callback := False, has_asdu_callback := False\<rparr>))
     [EvStart]"
proof -
  let ?s = "(configured_client demo_104)\<lparr>has_connection_callback := False, has_asdu_callback := False,
              running := False, worker_thread := NoThread, calls := []\<rparr>"
  have "client_begin (Client ?s)"
    unfolding client_begin_def
    by (rule exI [of _ "''127.0.0.1''"], rule exI [of _ "2404"], rule exI [of _ "[]"], rule exI [of _ "- 1"],
        rule exI [of _ "10"], rule exI [of _ "3"], rule exI [of _ "1000"], rule exI [of _ ?s])
       (simp add: IEC104Client_def configured_client_def demo_104_def)
  from cl.reachable.by_step [OF cl.reachable.at_start [OF this] c_start] show ?thesis
    by (simp add: client_defs configured_client_def)
qed

theorem client_never_interrogates_witness:
  "\<not> start_dt_sent ((configured_client demo_104)\<lparr>has_connection_callback := False, has_asdu_callback := False\<rparr>)"
  using client_never_interrogates [OF demo_reachable, of True] by (rule conjunct1)

text \<open>
  C32. After the peer closes the connection (or it fails) and the worker has seen it, the
  client can neither be destroyed nor started again: the worker cleared \<open>running_\<close> itself,
  \<open>stop\<close> therefore does not join it, and the joinable thread ends the process. Without
  such an event, stopping a running client joins its worker and destroying it is safe.
\<close>

theorem lost_connection_terminates:
  assumes "client_ok s" and "running s" and "e \<in> {CONNECTION_CLOSED, CONNECTION_FAILED}"
  shows "\<exists>s'. run_pass now accepted (connectionHandler e s) = Some s'
     \<and> destroy_IEC104Client s' = Inl StdTerminate \<and> client_start s' = Inl StdTerminate
     \<and> destroy_IEC104Client (client_stop s') = Inl StdTerminate
     \<and> (\<exists>t. destroy_IEC104Client s = Inr ((), t))"
  using assms by (auto simp: client_defs client_ok_def)

theorem lost_connection_terminates_witness:
  "\<exists>s'. run_pass 0 True (connectionHandler CONNECTION_CLOSED (configured_client demo_104)) = Some s'
     \<and> destroy_IEC104Client s' = Inl StdTerminate"
  using lost_connection_terminates [of "configured_client demo_104" CONNECTION_CLOSED 0 True] configured_ok
  by blast

text \<open>
  Once the connection is open and no further event arrives, every pass of the worker
  sends one more STARTDT: \<open>n\<close> passes append exactly \<open>n\<close> of them and change nothing else.
\<close>

theorem startdt_repeated_every_pass:
  assumes "client_ok s" and "running s" and "last_event s = CONNECTION_OPENED"
  shows "run_passes ps s = Some (s\<lparr>calls := calls s @ replicate (length ps) SendStartDT\<rparr>)"
  using assms by (intro opened_passes) (simp_all add: client_ok_def)

theorem startdt_repeated_every_pass_witness:
  "run_passes [(0, True), (100, True)] (connectionHandler CONNECTION_OPENED (configured_client demo_104))
   = Some ((connectionHandler CONNECTION_OPENED (configured_client demo_104))
        \<lparr>calls := [ConnectAsync, SendStartDT, SendStartDT]\<rparr>)"
proof -
  let ?s = "connectionHandler CONNECTION_OPENED (configured_client demo_104)"
  have "client_ok ?s" using configured_ok event_inv by blast
  moreover have "running ?s" "last_event ?s = CONNECTION_OPENED" "calls ?s = [ConnectAsync]"
    by (simp_all add: connectionHandler_def configured_client_def)
  ultimately show ?thesis
    using startdt_repeated_every_pass [of ?s "[(0, True), (100, True)]"] by (simp add: numeral_2_eq_2)
qed

text \<open>
  The manager starts one client per configured device, in order, each with the
  parameters of its device (the port truncated to 16 bits), and destroying the manager
  while no connection was lost stops them all without a fault.
\<close>

theorem manager_starts_every_device:
  assumes "\<forall>(d, c) \<in> set cs. create (addr_ip (i104_tcp c)) (word_of_int (addr_port (i104_tcp c)))"
  shows "initClients create (Some cs) [] = (map (configured_client \<circ> snd) cs, None)
     \<and> destroy_IEC104ClientManger (fst (initClients create (Some cs) [])) = Inr ()"
proof -
  have "initClients create (Some cs) [] = (map (configured_client \<circ> snd) cs, None)"
    using init_loop_spec [OF assms, of "[]"] by (simp add: initClients_def)
  moreover have "destroy_clients (map client_stop (map (configured_client \<circ> snd) cs)) = Inr ()"
    by (rule destroy_clients_ok) (auto simp: configured_ok)
  ultimately show ?thesis by (simp add: destroy_IEC104ClientManger_def)
qed

theorem manager_starts_every_device_witness:
  "initClients (\<lambda>_ _. True) (Some [(''d'', demo_104)]) [] = ([configured_client demo_104], None)"
  using manager_starts_every_device [of "[(''d'', demo_104)]" "\<lambda>_ _. True"] by simp

end
