(* ===== verification/Redis_Store.thy ===== *)
theory Redis_Store
  imports Gateway_Prelude
begin

text \<open>
  The Redis client wrapper \<open>DRDSDataRedis\<close> (\<open>core/redis-api/app_redis.h\<close> and
  \<open>app_redis.cc\<close>). The \<open>hiredis\<close> library and the Redis server behind it are a
  parameter, the record \<open>hiredis\<close>, over an arbitrary type of worlds. The object's
  \<open>context_\<close> is an explicit pointer into a heap of live \<open>redisContext\<close> handles, so
  that use after free, double free and dereferencing \<open>nullptr\<close> are visible faults.
  Reply objects and log output are not tracked. \<open>long\<close> has 64 bits (LP64).
\<close>

section \<open>The hiredis interface\<close>

datatype redis_reply =
    RString string
  | RInteger int
  | RNil
  | RStatus string
  | RError string
  | ROther nat "string option"

fun reply_str :: "redis_reply \<Rightarrow> string option" where
  "reply_str (RString s) = Some s"
| "reply_str (RStatus s) = Some s"
| "reply_str (RError s) = Some s"
| "reply_str (ROther t s) = s"
| "reply_str (RInteger i) = None"
| "reply_str RNil = None"

datatype endpoint = UnixSocket string | TcpHost string "int option"

text \<open>
  A context is seen by the library as \<^const>\<open>None\<close> (a null pointer) or \<^term>\<open>Some err\<close>.
  A library call that returns \<^const>\<open>None\<close> does not come back (it crashes). The timeout
  is the \<open>timeval\<close> passed on connecting.
\<close>

record 'w hiredis =
  h_connect :: "endpoint \<Rightarrow> int \<times> int \<Rightarrow> 'w \<Rightarrow> 'w \<times> bool option"
  h_command :: "string list \<Rightarrow> bool option \<Rightarrow> 'w \<Rightarrow> ('w \<times> bool \<times> redis_reply option) option"
  h_append :: "string list \<Rightarrow> bool option \<Rightarrow> 'w \<Rightarrow> ('w \<times> bool \<times> bool) option"
  h_get_reply :: "bool option \<Rightarrow> 'w \<Rightarrow> ('w \<times> bool \<times> bool \<times> redis_reply option) option"

section \<open>State of the wrapper\<close>

record redis_defaults =
  default_unix_socket_path :: string
  default_host :: string
  default_port :: int

record 'w redis =
  world :: 'w
  ctx_heap :: "nat \<Rightarrow> bool option"
  ctx_next :: nat
  context_m :: "nat option"
  unix_socket_path_m :: string
  host_m :: string
  port_m :: "int option"
  initialized :: "bool option"

record redis_set_error =
  err_key :: string
  err_message :: string

definition REDIS_TIMEOUT :: int where
  "REDIS_TIMEOUT = 3000"

definition timeval_of_ms :: "int \<Rightarrow> int \<times> int" where
  "timeval_of_ms ms = (ms div 1000, (ms mod 1000) * 1000)"

definition setDefaultConnectionInfo ::
  "string \<Rightarrow> string \<Rightarrow> int \<Rightarrow> redis_defaults \<Rightarrow> redis_defaults" where
  "setDefaultConnectionInfo path host port d =
     d\<lparr>default_unix_socket_path := path, default_host := host, default_port := port\<rparr>"

section \<open>Contexts\<close>

definition redisFree :: "nat \<Rightarrow> (unit, 'w redis) oper" where
  "redisFree p s =
     (case ctx_heap s p of
        None \<Rightarrow> Inl DoubleFree
      | Some _ \<Rightarrow> Inr ((), s\<lparr>ctx_heap := (ctx_heap s)(p := None)\<rparr>))"

definition redis_connect ::
  "'w hiredis \<Rightarrow> endpoint \<Rightarrow> int \<times> int \<Rightarrow> (unit, 'w redis) oper" where
  "redis_connect hr ep tv s =
     (case h_connect hr ep tv (world s) of
        (w, None) \<Rightarrow> Inr ((), s\<lparr>world := w, context_m := None\<rparr>)
      | (w, Some e) \<Rightarrow>
          Inr ((), s\<lparr>world := w, ctx_heap := (ctx_heap s)(ctx_next s \<mapsto> e),
                     context_m := Some (ctx_next s), ctx_next := Suc (ctx_next s)\<rparr>))"

text \<open>The value of the pointer as the library sees it; reading a freed handle is a fault.\<close>

definition context_view :: "(bool option, 'w redis) oper" where
  "context_view s =
     (case context_m s of
        None \<Rightarrow> Inr (None, s)
      | Some p \<Rightarrow>
          (case ctx_heap s p of None \<Rightarrow> Inl UseAfterFree | Some e \<Rightarrow> Inr (Some e, s)))"

definition set_context_err :: "bool \<Rightarrow> 'w redis \<Rightarrow> 'w redis" where
  "set_context_err e s =
     (case context_m s of None \<Rightarrow> s | Some p \<Rightarrow> s\<lparr>ctx_heap := (ctx_heap s)(p \<mapsto> e)\<rparr>)"

definition redisCommand ::
  "'w hiredis \<Rightarrow> string list \<Rightarrow> (redis_reply option, 'w redis) oper" where
  "redisCommand hr argv = bnd context_view (\<lambda>c s.
     (case h_command hr argv c (world s) of
        None \<Rightarrow> Inl LibraryCrash
      | Some (w, e, r) \<Rightarrow> Inr (r, set_context_err e (s\<lparr>world := w\<rparr>))))"

definition context_bad :: "(bool, 'w redis) oper" where
  "context_bad = bnd context_view (\<lambda>c. ret (c = None \<or> c = Some True))"

text \<open>\<open>context_->err\<close> without a null check.\<close>

definition context_err :: "(bool, 'w redis) oper" where
  "context_err = bnd context_view (\<lambda>c. case c of None \<Rightarrow> fail NullDeref | Some e \<Rightarrow> ret e)"

definition free_context :: "(unit, 'w redis) oper" where
  "free_context s = (case context_m s of None \<Rightarrow> Inr ((), s) | Some p \<Rightarrow> redisFree p s)"

definition checkRedisConnection :: "(bool, 'w redis) oper" where
  "checkRedisConnection = bnd context_bad (\<lambda>bad.
     if bad then bnd free_context (\<lambda>_ s. Inr (False, s\<lparr>context_m := None\<rparr>))
     else (\<lambda>s. Inr (True, s\<lparr>initialized := Some True\<rparr>)))"

definition initializeUnixConnection :: "'w hiredis \<Rightarrow> string \<Rightarrow> (unit, 'w redis) oper" where
  "initializeUnixConnection hr path s =
     bnd (redis_connect hr (UnixSocket path) (timeval_of_ms REDIS_TIMEOUT))
       (\<lambda>_. bnd checkRedisConnection (\<lambda>_. ret ()))
       (s\<lparr>unix_socket_path_m := path\<rparr>)"

definition initializeTcpConnection :: "'w hiredis \<Rightarrow> string \<Rightarrow> int \<Rightarrow> (unit, 'w redis) oper" where
  "initializeTcpConnection hr host port s =
     bnd (redis_connect hr (TcpHost host (Some port)) (timeval_of_ms REDIS_TIMEOUT))
       (\<lambda>_. bnd checkRedisConnection (\<lambda>_. ret ()))
       (s\<lparr>host_m := host, port_m := Some port\<rparr>)"

text \<open>
  A new object: \<open>context_\<close> is null and the strings are empty; \<open>port_\<close> and (except in
  the default constructor) \<open>initialized\<close> have no initial value.
\<close>

definition fresh_object :: "bool option \<Rightarrow> 'w redis \<Rightarrow> 'w redis" where
  "fresh_object ini s =
     s\<lparr>context_m := None, unix_socket_path_m := [], host_m := [], port_m := None, initialized := ini\<rparr>"

definition DRDSDataRedis :: "'w hiredis \<Rightarrow> redis_defaults \<Rightarrow> (unit, 'w redis) oper" where
  "DRDSDataRedis hr d s =
     (let s0 = fresh_object (Some False) s in
      if default_unix_socket_path d \<noteq> [] then initializeUnixConnection hr (default_unix_socket_path d) s0
      else if default_host d \<noteq> [] \<and> default_port d > 0
      then initializeTcpConnection hr (default_host d) (default_port d) s0
      else Inr ((), s0))"

definition DRDSDataRedis_unix :: "'w hiredis \<Rightarrow> string \<Rightarrow> (unit, 'w redis) oper" where
  "DRDSDataRedis_unix hr path s = initializeUnixConnection hr path (fresh_object None s)"

definition DRDSDataRedis_tcp :: "'w hiredis \<Rightarrow> string \<Rightarrow> int \<Rightarrow> (unit, 'w redis) oper" where
  "DRDSDataRedis_tcp hr host port s = initializeTcpConnection hr host port (fresh_object None s)"

definition destroy_DRDSDataRedis :: "(unit, 'w redis) oper" where
  "destroy_DRDSDataRedis = free_context"

definition reconnectIfNeeded :: "'w hiredis \<Rightarrow> int \<Rightarrow> (bool, 'w redis) oper" where
  "reconnectIfNeeded hr timeout_ms =
     bnd free_context (\<lambda>_.
     bnd (\<lambda>s. redis_connect hr
               (if unix_socket_path_m s \<noteq> [] then UnixSocket (unix_socket_path_m s)
                else TcpHost (host_m s) (port_m s))
               (timeval_of_ms timeout_ms) s) (\<lambda>_.
     bnd context_bad (\<lambda>bad.
     bnd (if bad then free_context else ret ()) (\<lambda>_. ret True))))"

definition handleConnectionErrors :: "'w hiredis \<Rightarrow> (bool, 'w redis) oper" where
  "handleConnectionErrors hr = bnd context_bad (\<lambda>bad.
     if bad then reconnectIfNeeded hr 3000 else ret True)"

section \<open>Storing\<close>

text \<open>The characters of a \<open>std::string\<close> that a C string function sees.\<close>

definition c_str :: "string \<Rightarrow> string" where
  "c_str s = takeWhile (\<lambda>c. c \<noteq> CHR 0x00) s"

definition isKeyExist :: "'w hiredis \<Rightarrow> string \<Rightarrow> (bool, 'w redis) oper" where
  "isKeyExist hr key = bnd (redisCommand hr [''EXISTS'', c_str key]) (\<lambda>r.
     case r of None \<Rightarrow> ret False | Some rep \<Rightarrow> ret (rep = RInteger 1))"

definition set_command :: "'w hiredis \<Rightarrow> string list \<Rightarrow> (bool, 'w redis) oper" where
  "set_command hr argv = bnd (redisCommand hr argv) (\<lambda>r.
     case r of
       None \<Rightarrow> handleConnectionErrors hr
     | Some (RError _) \<Rightarrow> ret False
     | Some _ \<Rightarrow> ret True)"

text \<open>
  \<open>storeValue\<close>: the value arrives as the text its \<open>printf\<close> conversion produces.
\<close>

definition storeValue :: "'w hiredis \<Rightarrow> string \<Rightarrow> string \<Rightarrow> (bool, 'w redis) oper" where
  "storeValue hr key txt = set_command hr [''SET'', c_str key, txt]"

definition storeString :: "'w hiredis \<Rightarrow> string \<Rightarrow> string \<Rightarrow> (bool, 'w redis) oper" where
  "storeString hr key v = storeValue hr key (c_str v)"

definition storeInt :: "'w hiredis \<Rightarrow> string \<Rightarrow> 16 word \<Rightarrow> (bool, 'w redis) oper" where
  "storeInt hr key v = storeValue hr key (dec_int (sint v))"

definition storeUInt :: "'w hiredis \<Rightarrow> string \<Rightarrow> 16 word \<Rightarrow> (bool, 'w redis) oper" where
  "storeUInt hr key v = storeValue hr key (dec_int (uint v))"

definition storeBool :: "'w hiredis \<Rightarrow> string \<Rightarrow> bool \<Rightarrow> (bool, 'w redis) oper" where
  "storeBool hr key v = storeValue hr key (dec_int (if v then 1 else 0))"

definition storeDInt :: "'w hiredis \<Rightarrow> string \<Rightarrow> 32 word \<Rightarrow> (bool, 'w redis) oper" where
  "storeDInt hr key v = storeValue hr key (dec_int (sint v))"

definition storeUDInt :: "'w hiredis \<Rightarrow> string \<Rightarrow> 32 word \<Rightarrow> (bool, 'w redis) oper" where
  "storeUDInt hr key v = storeValue hr key (dec_int (uint v))"

definition storeSInt :: "'w hiredis \<Rightarrow> string \<Rightarrow> 8 word \<Rightarrow> (bool, 'w redis) oper" where
  "storeSInt hr key v = storeValue hr key (dec_int (sint v))"

definition storeUSInt :: "'w hiredis \<Rightarrow> string \<Rightarrow> 8 word \<Rightarrow> (bool, 'w redis) oper" where
  "storeUSInt hr key v = storeValue hr key (dec_int (uint v))"

definition storeLInt :: "'w hiredis \<Rightarrow> string \<Rightarrow> 64 word \<Rightarrow> (bool, 'w redis) oper" where
  "storeLInt hr key v = storeValue hr key (dec_int (sint v))"

definition storeULInt :: "'w hiredis \<Rightarrow> string \<Rightarrow> 64 word \<Rightarrow> (bool, 'w redis) oper" where
  "storeULInt hr key v = storeValue hr key (dec_int (uint v))"

definition storeByte :: "'w hiredis \<Rightarrow> string \<Rightarrow> 8 word \<Rightarrow> (bool, 'w redis) oper" where
  "storeByte hr key v = storeValue hr key (dec_int (uint v))"

definition storeWord :: "'w hiredis \<Rightarrow> string \<Rightarrow> 16 word \<Rightarrow> (bool, 'w redis) oper" where
  "storeWord hr key v = storeValue hr key (dec_int (uint v))"

definition storeDWord :: "'w hiredis \<Rightarrow> string \<Rightarrow> 32 word \<Rightarrow> (bool, 'w redis) oper" where
  "storeDWord hr key v = storeValue hr key (dec_int (uint v))"

definition storeLWord :: "'w hiredis \<Rightarrow> string \<Rightarrow> 64 word \<Rightarrow> (bool, 'w redis) oper" where
  "storeLWord hr key v = storeValue hr key (dec_int (uint v))"

text \<open>
  \<open>storeReal\<close> and \<open>storeLReal\<close> print a double with \<open>%f\<close>; the printing function on
  the bit pattern of the double is an argument.
\<close>

definition storeLReal ::
  "(64 word \<Rightarrow> string) \<Rightarrow> 'w hiredis \<Rightarrow> string \<Rightarrow> 64 word \<Rightarrow> (bool, 'w redis) oper" where
  "storeLReal fmt hr key v = storeValue hr key (fmt v)"

definition storeReal ::
  "(64 word \<Rightarrow> string) \<Rightarrow> (32 word \<Rightarrow> 64 word) \<Rightarrow> 'w hiredis \<Rightarrow> string \<Rightarrow> 32 word
    \<Rightarrow> (bool, 'w redis) oper" where
  "storeReal fmt promote hr key v = storeValue hr key (fmt (promote v))"

definition storeChar :: "'w hiredis \<Rightarrow> string \<Rightarrow> string option \<Rightarrow> (bool, 'w redis) oper" where
  "storeChar hr key v =
     (case v of None \<Rightarrow> ret False | Some t \<Rightarrow> storeValue hr key (c_str t))"

definition storeBinary :: "'w hiredis \<Rightarrow> string \<Rightarrow> string option \<Rightarrow> (bool, 'w redis) oper" where
  "storeBinary hr key data =
     (case data of
        None \<Rightarrow> ret False
      | Some bytes \<Rightarrow>
          if length bytes = 0 then ret False else set_command hr [''SET'', c_str key, bytes])"

definition storeBinaryForPipline :: "'w hiredis \<Rightarrow> string \<Rightarrow> string \<Rightarrow> (bool, 'w redis) oper" where
  "storeBinaryForPipline hr key data = bnd context_view (\<lambda>c s.
     (case h_append hr [''SET'', key, data] c (world s) of
        None \<Rightarrow> Inl LibraryCrash
      | Some (w, e, ok) \<Rightarrow> Inr (ok, set_context_err e (s\<lparr>world := w\<rparr>))))"

definition processSetRedisReply ::
  "'w hiredis \<Rightarrow> string \<Rightarrow> redis_set_error \<Rightarrow> (bool \<times> redis_set_error, 'w redis) oper" where
  "processSetRedisReply hr key errors = bnd context_view (\<lambda>c s.
     (case h_get_reply hr c (world s) of
        None \<Rightarrow> Inl LibraryCrash
      | Some (w, e, ok, r) \<Rightarrow>
          Inr ((if ok then
                  (case r of
                     Some rep \<Rightarrow>
                       if rep = RStatus ''OK'' then (True, errors)
                       else (False, \<lparr>err_key = key, err_message = ''Failed to execute SET command''\<rparr>)
                   | None \<Rightarrow> (False, \<lparr>err_key = key, err_message = ''Received NULL reply''\<rparr>))
                else (False, \<lparr>err_key = key, err_message = ''Error receiving reply''\<rparr>)),
               set_context_err e (s\<lparr>world := w\<rparr>))))"

section \<open>Loading\<close>

definition cstr_arg :: "redis_reply \<Rightarrow> string result" where
  "cstr_arg rep = (case reply_str rep of None \<Rightarrow> Inl NullDeref | Some t \<Rightarrow> Inr (c_str t))"

definition scan_range :: "int \<Rightarrow> int \<Rightarrow> string \<Rightarrow> int result" where
  "scan_range lo hi t =
     (case scan_int t of
        None \<Rightarrow> Inl StdInvalidArgument
      | Some i \<Rightarrow> if lo \<le> i \<and> i \<le> hi then Inr i else Inl StdOutOfRange)"

definition stoi :: "string \<Rightarrow> int result" where
  "stoi = scan_range (- (2 ^ 31)) (2 ^ 31 - 1)"

definition stol :: "string \<Rightarrow> int result" where
  "stol = scan_range (- (2 ^ 63)) (2 ^ 63 - 1)"

definition stoul :: "string \<Rightarrow> 64 word result" where
  "stoul t = rbind (scan_range (- (2 ^ 64 - 1)) (2 ^ 64 - 1) t) (\<lambda>i. Inr (word_of_int i))"

definition get_with ::
  "'w hiredis \<Rightarrow> string \<Rightarrow> 'a \<Rightarrow> (redis_reply \<Rightarrow> 'a result) \<Rightarrow> ('a, 'w redis) oper" where
  "get_with hr key dflt conv = bnd (redisCommand hr [''GET'', c_str key]) (\<lambda>r.
     case r of
       None \<Rightarrow> bnd (handleConnectionErrors hr) (\<lambda>_. ret dflt)
     | Some rep \<Rightarrow> bnd context_err (\<lambda>e.
         if e then bnd (handleConnectionErrors hr) (\<lambda>_. ret dflt)
         else (case conv rep of Inl f \<Rightarrow> fail f | Inr v \<Rightarrow> ret v)))"

definition dec_bool :: "redis_reply \<Rightarrow> bool result" where
  "dec_bool rep = rbind (cstr_arg rep) (\<lambda>t. rbind (stoi t) (\<lambda>i. Inr (i \<noteq> 0)))"

definition dec_via_stoi :: "redis_reply \<Rightarrow> 'a::len word result" where
  "dec_via_stoi rep = rbind (cstr_arg rep) (\<lambda>t. rbind (stoi t) (\<lambda>i. Inr (word_of_int i)))"

definition dec_via_stol :: "redis_reply \<Rightarrow> 'a::len word result" where
  "dec_via_stol rep = rbind (cstr_arg rep) (\<lambda>t. rbind (stol t) (\<lambda>i. Inr (word_of_int i)))"

definition dec_via_stoul :: "redis_reply \<Rightarrow> 'a::len word result" where
  "dec_via_stoul rep = rbind (cstr_arg rep) (\<lambda>t. rbind (stoul t) (\<lambda>w. Inr (ucast w)))"

definition getBool :: "'w hiredis \<Rightarrow> string \<Rightarrow> (bool, 'w redis) oper" where
  "getBool hr key = get_with hr key False dec_bool"

definition getDInt :: "'w hiredis \<Rightarrow> string \<Rightarrow> (32 word, 'w redis) oper" where
  "getDInt hr key = get_with hr key 0 dec_via_stol"

definition getUDInt :: "'w hiredis \<Rightarrow> string \<Rightarrow> (32 word, 'w redis) oper" where
  "getUDInt hr key = get_with hr key 0 dec_via_stoul"

definition getLReal ::
  "(string \<Rightarrow> 64 word result) \<Rightarrow> 'w hiredis \<Rightarrow> string \<Rightarrow> (64 word, 'w redis) oper" where
  "getLReal stod hr key = get_with hr key 0 (\<lambda>rep. rbind (cstr_arg rep) stod)"

definition getSInt :: "'w hiredis \<Rightarrow> string \<Rightarrow> (8 word, 'w redis) oper" where
  "getSInt hr key = get_with hr key 0 dec_via_stoi"

definition getUSInt :: "'w hiredis \<Rightarrow> string \<Rightarrow> (8 word, 'w redis) oper" where
  "getUSInt hr key = get_with hr key 0 dec_via_stoul"

definition getLInt :: "'w hiredis \<Rightarrow> string \<Rightarrow> (64 word, 'w redis) oper" where
  "getLInt hr key = get_with hr key 0 dec_via_stol"

definition getULInt :: "'w hiredis \<Rightarrow> string \<Rightarrow> (64 word, 'w redis) oper" where
  "getULInt hr key = get_with hr key 0 dec_via_stoul"

definition getString :: "'w hiredis \<Rightarrow> string \<Rightarrow> (string, 'w redis) oper" where
  "getString hr key = get_with hr key [] cstr_arg"

definition getByte :: "'w hiredis \<Rightarrow> string \<Rightarrow> (8 word, 'w redis) oper" where
  "getByte hr key = getUSInt hr key"

definition getDWord :: "'w hiredis \<Rightarrow> string \<Rightarrow> (32 word, 'w redis) oper" where
  "getDWord hr key = getUDInt hr key"

definition getLWord :: "'w hiredis \<Rightarrow> string \<Rightarrow> (64 word, 'w redis) oper" where
  "getLWord hr key = getULInt hr key"

text \<open>
  \<open>getBinary\<close> writes its result into the vector passed in and returns a flag; a reply
  that is no string leaves the vector as it was.
\<close>

definition getBinary :: "'w hiredis \<Rightarrow> string \<Rightarrow> string \<Rightarrow> (bool \<times> string, 'w redis) oper" where
  "getBinary hr key data = bnd (redisCommand hr [''GET'', c_str key]) (\<lambda>r.
     case r of
       None \<Rightarrow> bnd (handleConnectionErrors hr) (\<lambda>b. ret (b, data))
     | Some rep \<Rightarrow> bnd context_err (\<lambda>e.
         if e then bnd (handleConnectionErrors hr) (\<lambda>b. ret (b, data))
         else (case rep of RString t \<Rightarrow> ret (True, t) | _ \<Rightarrow> ret (False, data))))"

definition isInitialized :: "'w redis \<Rightarrow> bool option" where
  "isInitialized s = initialized s"

definition getConnection :: "'w redis \<Rightarrow> nat option" where
  "getConnection s = context_m s"

section \<open>What the wrapper relies on\<close>

text \<open>
  The documented behaviour of a reachable Redis server on the commands the wrapper sends:
  \<open>up\<close> says that the server answers, \<open>kv\<close> is its key-value store. These are
  hypotheses of the theorems that need them.
\<close>

definition redis_laws ::
  "'w hiredis \<Rightarrow> ('w \<Rightarrow> bool) \<Rightarrow> ('w \<Rightarrow> string \<Rightarrow> string option) \<Rightarrow> bool" where
  "redis_laws hr up kv \<longleftrightarrow>
     (\<forall>w k v. up w \<longrightarrow>
        (\<exists>w'. h_command hr [''SET'', k, v] (Some False) w = Some (w', False, Some (RStatus ''OK''))
              \<and> up w' \<and> kv w' = (kv w)(k \<mapsto> v))) \<and>
     (\<forall>w k. up w \<longrightarrow>
        h_command hr [''GET'', k] (Some False) w =
          Some (w, False, Some (case kv w k of None \<Rightarrow> RNil | Some v \<Rightarrow> RString v))) \<and>
     (\<forall>w ep tv. up w \<longrightarrow> (\<exists>w'. h_connect hr ep tv w = (w', Some False) \<and> up w' \<and> kv w' = kv w))"

definition healthy :: "('w \<Rightarrow> bool) \<Rightarrow> 'w redis \<Rightarrow> bool" where
  "healthy up s \<longleftrightarrow>
     (case context_m s of None \<Rightarrow> False | Some p \<Rightarrow> ctx_heap s p = Some False) \<and> up (world s)"

text \<open>
  The pointer discipline: \<open>context_\<close> is null or a live handle, and handles not yet
  handed out are not live. A dangling object points to a freed handle.
\<close>

definition ctx_wf :: "'w redis \<Rightarrow> bool" where
  "ctx_wf s \<longleftrightarrow>
     (case context_m s of None \<Rightarrow> True | Some p \<Rightarrow> ctx_heap s p \<noteq> None \<and> p < ctx_next s) \<and>
     (\<forall>q \<ge> ctx_next s. ctx_heap s q = None)"

definition dangling :: "'w redis \<Rightarrow> bool" where
  "dangling s \<longleftrightarrow> (\<exists>p. context_m s = Some p \<and> ctx_heap s p = None)"

section \<open>Evaluation of the building blocks\<close>

lemma healthyE:
  assumes "healthy up s"
  obtains p where "context_m s = Some p" and "ctx_heap s p = Some False" and "up (world s)"
  using assms by (auto simp: healthy_def split: option.splits)

lemma context_view_healthy [fault_simps]: "healthy up s \<Longrightarrow> context_view s = Inr (Some False, s)"
  by (auto simp: context_view_def elim: healthyE)

lemma set_context_err_healthy:
  assumes "healthy up s" and "up w"
  shows "set_context_err False (s\<lparr>world := w\<rparr>) = s\<lparr>world := w\<rparr>"
  using assms by (elim healthyE) (simp add: set_context_err_def map_upd_triv)

lemma healthy_world: "healthy up s \<Longrightarrow> up w \<Longrightarrow> healthy up (s\<lparr>world := w\<rparr>)"
  by (auto simp: healthy_def split: option.splits)

lemma redisCommand_healthy:
  assumes "healthy up s" and "up w"
    and "h_command hr argv (Some False) (world s) = Some (w, False, r)"
  shows "redisCommand hr argv s = Inr (r, s\<lparr>world := w\<rparr>)"
  using assms
  by (simp add: redisCommand_def bnd_def context_view_healthy set_context_err_healthy)

lemma set_command_healthy:
  assumes "redis_laws hr up kv" and "healthy up s"
  shows "\<exists>w. set_command hr [''SET'', k, v] s = Inr (True, s\<lparr>world := w\<rparr>) \<and> up w
           \<and> kv w = (kv (world s))(k \<mapsto> v)"
proof -
  have "up (world s)" using assms(2) by (simp add: healthy_def)
  with assms(1) obtain w where
    cmd: "h_command hr [''SET'', k, v] (Some False) (world s) = Some (w, False, Some (RStatus ''OK''))"
    and w: "up w" "kv w = (kv (world s))(k \<mapsto> v)"
    unfolding redis_laws_def by blast
  from assms(2) w(1) cmd
  have "redisCommand hr [''SET'', k, v] s = Inr (Some (RStatus ''OK''), s\<lparr>world := w\<rparr>)"
    by (rule redisCommand_healthy)
  with w show ?thesis
    by (auto simp: set_command_def bnd_def ret_def)
qed

lemma storeValue_healthy:
  assumes "redis_laws hr up kv" and "healthy up s"
  obtains w where "storeValue hr key t s = Inr (True, s\<lparr>world := w\<rparr>)"
    and "healthy up (s\<lparr>world := w\<rparr>)"
    and "kv w = (kv (world s))(c_str key \<mapsto> t)"
  using set_command_healthy [OF assms, of "c_str key" t] healthy_world [OF assms(2)]
  by (auto simp: storeValue_def)

lemma redis_laws_get:
  "redis_laws hr up kv \<Longrightarrow> up w \<Longrightarrow>
     h_command hr [''GET'', k] (Some False) w =
       Some (w, False, Some (case kv w k of None \<Rightarrow> RNil | Some v \<Rightarrow> RString v))"
  by (simp only: redis_laws_def)

lemma get_with_healthy:
  assumes "redis_laws hr up kv" and "healthy up s"
  shows "get_with hr key dflt conv s =
     (case conv (case kv (world s) (c_str key) of None \<Rightarrow> RNil | Some v \<Rightarrow> RString v) of
        Inl f \<Rightarrow> Inl f | Inr x \<Rightarrow> Inr (x, s))"
proof -
  have up: "up (world s)" using assms(2) by (simp add: healthy_def)
  let ?rep = "case kv (world s) (c_str key) of None \<Rightarrow> RNil | Some v \<Rightarrow> RString v"
  have "redisCommand hr [''GET'', c_str key] s = Inr (Some ?rep, s\<lparr>world := world s\<rparr>)"
    by (rule redisCommand_healthy [OF assms(2) up redis_laws_get [OF assms(1) up]])
  with assms(2) show ?thesis
    by (simp add: get_with_def bnd_def context_err_def context_view_healthy ret_def fail_def
        split: sum.splits)
qed

section \<open>Typed cells: one contract for every pair of store and get\<close>

text \<open>
  A typed cell is a way to print a value and to read it back from a reply. The contract
  is that printing loses nothing; storing and then loading under the same key then gives
  the value back, for every pair of operations that instantiates it.
\<close>

locale typed_cell =
  fixes enc :: "'a \<Rightarrow> string"
    and dec :: "redis_reply \<Rightarrow> 'a result"
  assumes dec_enc: "dec (RString (enc v)) = Inr v"
begin

lemma store_then_get:
  assumes "redis_laws hr up kv" and "healthy up s"
  shows "\<exists>s'. storeValue hr key (enc v) s = Inr (True, s') \<and> healthy up s'
              \<and> get_with hr key dflt dec s' = Inr (v, s')
              \<and> (\<forall>k. k \<noteq> c_str key \<longrightarrow> kv (world s') k = kv (world s) k)"
proof -
  obtain w where w: "storeValue hr key (enc v) s = Inr (True, s\<lparr>world := w\<rparr>)"
      "healthy up (s\<lparr>world := w\<rparr>)" "kv w = (kv (world s))(c_str key \<mapsto> enc v)"
    by (rule storeValue_healthy [OF assms, of key "enc v"])
  moreover have "get_with hr key dflt dec (s\<lparr>world := w\<rparr>) = Inr (v, s\<lparr>world := w\<rparr>)"
    using w(3) by (simp add: get_with_healthy [OF assms(1) w(2)] dec_enc)
  ultimately show ?thesis by auto
qed

lemma store_get:
  assumes "redis_laws hr up kv" and "healthy up s"
  shows "\<exists>s'. storeValue hr key (enc v) s = Inr (True, s') \<and> get_with hr key dflt dec s' = Inr (v, s')"
  using store_then_get [OF assms, of key v dflt] by blast

end

lemma nul_free_digits: "is_digit c \<Longrightarrow> c \<noteq> CHR 0x00"
  by (auto simp: is_digit_def)

lemma c_str_dec_int [dec_simps]: "c_str (dec_int i) = dec_int i"
  unfolding c_str_def takeWhile_eq_all_conv
  by (auto simp: dec_int_def dest!: dec_nat_digits nul_free_digits)

lemma scan_range_dec_int [dec_simps]:
  "scan_range lo hi (dec_int i) = (if lo \<le> i \<and> i \<le> hi then Inr i else Inl StdOutOfRange)"
  by (simp add: scan_range_def scan_int_dec_int)

lemma cstr_arg_dec_int [dec_simps]: "cstr_arg (RString (dec_int i)) = Inr (dec_int i)"
  by (simp add: cstr_arg_def c_str_dec_int)

lemmas dec_conv_defs = dec_bool_def dec_via_stoi_def dec_via_stol_def dec_via_stoul_def
  stoi_def stol_def stoul_def

lemma sint_bounds: "- (2 ^ (LENGTH('a) - 1)) \<le> sint (v :: 'a::len word) \<and> sint v < 2 ^ (LENGTH('a) - 1)"
  using sint_ge [of v] sint_lt [of v] by simp

interpretation bool_cell: typed_cell "\<lambda>v. dec_int (if v then 1 else 0)" dec_bool
  by unfold_locales (simp add: dec_conv_defs dec_simps)

interpretation sint8_cell: typed_cell "\<lambda>v :: 8 word. dec_int (sint v)" dec_via_stoi
proof
  fix v :: "8 word"
  show "dec_via_stoi (RString (dec_int (sint v))) = Inr v"
    using sint_bounds [of v] by (simp add: dec_conv_defs dec_simps)
qed

interpretation sint32_cell: typed_cell "\<lambda>v :: 32 word. dec_int (sint v)" dec_via_stol
proof
  fix v :: "32 word"
  show "dec_via_stol (RString (dec_int (sint v))) = Inr v"
    using sint_bounds [of v] by (simp add: dec_conv_defs dec_simps)
qed

interpretation sint64_cell: typed_cell "\<lambda>v :: 64 word. dec_int (sint v)" dec_via_stol
proof
  fix v :: "64 word"
  show "dec_via_stol (RString (dec_int (sint v))) = Inr v"
    using sint_bounds [of v] by (simp add: dec_conv_defs dec_simps)
qed

lemma stoul_uint:
  fixes v :: "'a::len word"
  assumes "LENGTH('a) \<le> 64"
  shows "dec_via_stoul (RString (dec_int (uint v))) = Inr v"
proof -
  have "uint v < 2 ^ LENGTH('a)" by (rule uint_bounded)
  also have "(2::int) ^ LENGTH('a) \<le> 2 ^ 64"
    using assms by (intro power_increasing) auto
  finally have "uint v < 2 ^ 64" .
  moreover from this have "ucast (word_of_int (uint v) :: 64 word) = v"
    using assms by (intro word_uint_eqI) (simp add: unsigned_ucast_eq take_bit_word_eq_self)
  ultimately show ?thesis
    by (simp add: dec_conv_defs dec_simps order_trans [OF _ uint_ge_0])
qed

interpretation uint8_cell: typed_cell "\<lambda>v :: 8 word. dec_int (uint v)" dec_via_stoul
  by unfold_locales (simp add: stoul_uint)

interpretation uint32_cell: typed_cell "\<lambda>v :: 32 word. dec_int (uint v)" dec_via_stoul
  by unfold_locales (simp add: stoul_uint)

interpretation uint64_cell: typed_cell "\<lambda>v :: 64 word. dec_int (uint v)" dec_via_stoul
  by unfold_locales (simp add: stoul_uint)

section \<open>Reconnecting\<close>

definition free_current :: "'w redis \<Rightarrow> nat \<Rightarrow> bool option" where
  "free_current s =
     (case context_m s of None \<Rightarrow> ctx_heap s | Some p \<Rightarrow> (ctx_heap s)(p := None))"

definition current_endpoint :: "'w redis \<Rightarrow> endpoint" where
  "current_endpoint s =
     (if unix_socket_path_m s \<noteq> [] then UnixSocket (unix_socket_path_m s) else TcpHost (host_m s) (port_m s))"

lemma free_context_wf:
  "ctx_wf s \<Longrightarrow> free_context s = Inr ((), s\<lparr>ctx_heap := free_current s\<rparr>)"
  by (auto simp: ctx_wf_def free_context_def free_current_def redisFree_def split: option.splits)

lemma free_current_fresh: "ctx_wf s \<Longrightarrow> ctx_next s \<le> q \<Longrightarrow> free_current s q = None"
  by (auto simp: ctx_wf_def free_current_def split: option.splits)

text \<open>The outcome of a reconnect from a well-formed object, on every branch.\<close>

lemma reconnect_outcome:
  assumes "ctx_wf s" and "h_connect hr (current_endpoint s) (timeval_of_ms ms) (world s) = (w, r)"
  shows "reconnectIfNeeded hr ms s = Inr (True,
     (case r of
        None \<Rightarrow> s\<lparr>world := w, ctx_heap := free_current s, context_m := None\<rparr>
      | Some e \<Rightarrow>
          s\<lparr>world := w,
            ctx_heap := (free_current s)(ctx_next s := (if e then None else Some False)),
            context_m := Some (ctx_next s), ctx_next := Suc (ctx_next s)\<rparr>))"
  using assms free_context_wf [OF assms(1)]
  by (cases r)
     (auto simp: reconnectIfNeeded_def bnd_def redis_connect_def context_bad_def context_view_def
        ret_def free_context_def redisFree_def current_endpoint_def)

lemma reconnect_wf:
  assumes "ctx_wf s" and "snd (h_connect hr (current_endpoint s) (timeval_of_ms ms) (world s)) \<noteq> Some True"
  shows "\<exists>s'. reconnectIfNeeded hr ms s = Inr (True, s') \<and> ctx_wf s'"
proof -
  obtain w r where wr: "h_connect hr (current_endpoint s) (timeval_of_ms ms) (world s) = (w, r)"
    by fastforce
  with assms(2) have "r \<noteq> Some True" by simp
  with reconnect_outcome [OF assms(1) wr] free_current_fresh [OF assms(1)] show ?thesis
    by (cases r) (auto simp: ctx_wf_def)
qed

lemma context_bad_wf:
  "ctx_wf s \<Longrightarrow> \<exists>b. context_bad s = Inr (b, s)"
  by (auto simp: ctx_wf_def context_bad_def context_view_def bnd_def ret_def split: option.splits)

lemma set_context_err_wf: "ctx_wf s \<Longrightarrow> ctx_wf (set_context_err e (s\<lparr>world := w\<rparr>))"
  by (auto simp: ctx_wf_def set_context_err_def split: option.splits)

lemma redisCommand_wf:
  assumes "ctx_wf s"
  shows "redisCommand hr argv s = Inl LibraryCrash \<or> (\<exists>r s'. redisCommand hr argv s = Inr (r, s') \<and> ctx_wf s')"
proof -
  obtain c where "context_view s = Inr (c, s)"
    using assms by (auto simp: ctx_wf_def context_view_def split: option.splits)
  then show ?thesis
    using set_context_err_wf [OF assms]
    by (cases "h_command hr argv c (world s)") (auto simp: redisCommand_def bnd_def)
qed

definition connects_cleanly :: "'w hiredis \<Rightarrow> bool" where
  "connects_cleanly hr \<longleftrightarrow> (\<forall>ep tv w. snd (h_connect hr ep tv w) \<noteq> Some True)"

lemma handleConnectionErrors_wf:
  assumes "ctx_wf s" and "connects_cleanly hr"
  shows "\<exists>s'. handleConnectionErrors hr s = Inr (True, s') \<and> ctx_wf s'"
proof -
  obtain b where "context_bad s = Inr (b, s)" using context_bad_wf [OF assms(1)] by blast
  moreover have "\<exists>s'. reconnectIfNeeded hr 3000 s = Inr (True, s') \<and> ctx_wf s'"
    using assms(2) unfolding connects_cleanly_def by (intro reconnect_wf [OF assms(1)]) blast
  ultimately show ?thesis
    using assms(1) by (auto simp: handleConnectionErrors_def bnd_def ret_def)
qed

lemma set_command_wf:
  assumes "ctx_wf s" and "connects_cleanly hr"
  shows "set_command hr argv s = Inl LibraryCrash \<or> (\<exists>b s'. set_command hr argv s = Inr (b, s') \<and> ctx_wf s')"
  using redisCommand_wf [OF assms(1), of hr argv]
proof
  assume "redisCommand hr argv s = Inl LibraryCrash"
  then show ?thesis by (simp add: set_command_def bnd_def)
next
  assume "\<exists>r s'. redisCommand hr argv s = Inr (r, s') \<and> ctx_wf s'"
  then obtain r s' where "redisCommand hr argv s = Inr (r, s')" and "ctx_wf s'" by blast
  then show ?thesis
    using handleConnectionErrors_wf [OF _ assms(2), of s']
    by (auto simp: set_command_def bnd_def ret_def split: option.splits redis_reply.splits)
qed

lemma dangling_faults:
  assumes "dangling s"
  shows "storeValue hr k t s = Inl UseAfterFree"
    and "destroy_DRDSDataRedis s = Inl DoubleFree"
  using assms
  by (auto simp: dangling_def storeValue_def set_command_def redisCommand_def bnd_def
      context_view_def destroy_DRDSDataRedis_def free_context_def redisFree_def)

section \<open>Two reference servers\<close>

text \<open>A server that keeps an association list, and one that drops every connection.\<close>

fun list_command ::
  "string list \<Rightarrow> bool option \<Rightarrow> (string \<times> string) list
    \<Rightarrow> ((string \<times> string) list \<times> bool \<times> redis_reply option) option" where
  "list_command [c, k, v] ctx w =
     (if ctx = Some False \<and> c = ''SET'' then Some ((k, v) # w, False, Some (RStatus ''OK'')) else None)"
| "list_command [c, k] ctx w =
     (if ctx = Some False \<and> c = ''GET''
      then Some (w, False, Some (case map_of w k of None \<Rightarrow> RNil | Some v \<Rightarrow> RString v)) else None)"
| "list_command argv ctx w = None"

definition list_server :: "(string \<times> string) list hiredis" where
  "list_server =
     \<lparr>h_connect = \<lambda>ep tv w. (w, Some False), h_command = list_command,
      h_append = \<lambda>argv c w. Some (w, False, True), h_get_reply = \<lambda>c w. Some (w, False, False, None)\<rparr>"

definition dead_server :: "unit hiredis" where
  "dead_server =
     \<lparr>h_connect = \<lambda>ep tv w. (w, Some True), h_command = \<lambda>argv c w. Some (w, True, None),
      h_append = \<lambda>argv c w. Some (w, True, False), h_get_reply = \<lambda>c w. Some (w, True, False, None)\<rparr>"

definition redis_at :: "'w \<Rightarrow> 'w redis" where
  "redis_at w =
     \<lparr>world = w, ctx_heap = [0 \<mapsto> False], ctx_next = 1, context_m = Some 0, unix_socket_path_m = [],
      host_m = ''127.0.0.1'', port_m = Some 6380, initialized = Some True\<rparr>"

lemma list_server_laws: "redis_laws list_server (\<lambda>_. True) map_of"
  by (simp add: redis_laws_def list_server_def fun_eq_iff)

lemma redis_at_healthy: "healthy (\<lambda>_. True) (redis_at w)"
  by (simp add: healthy_def redis_at_def)

lemma redis_at_wf: "ctx_wf (redis_at w)"
  by (simp add: ctx_wf_def redis_at_def)

section \<open>Creating and destroying a connected object\<close>

definition redis_ready :: "redis_defaults \<Rightarrow> bool" where
  "redis_ready d \<longleftrightarrow> default_unix_socket_path d \<noteq> [] \<or> default_host d \<noteq> [] \<and> default_port d > 0"

lemma construct_healthy:
  assumes "redis_laws hr up kv" and "up (world s)"
    and "redis_ready d"
  shows "\<exists>s'. DRDSDataRedis hr d s = Inr ((), s') \<and> healthy up s' \<and> kv (world s') = kv (world s)
     \<and> isInitialized s' = Some True"
proof -
  have conn: "\<exists>w. h_connect hr ep tv (world s) = (w, Some False) \<and> up w \<and> kv w = kv (world s)" for ep tv
    using assms(1,2) unfolding redis_laws_def by blast
  obtain wu where u: "h_connect hr (UnixSocket (default_unix_socket_path d)) (timeval_of_ms REDIS_TIMEOUT) (world s)
      = (wu, Some False)" "up wu" "kv wu = kv (world s)"
    using conn by blast
  obtain wt where t: "h_connect hr (TcpHost (default_host d) (Some (default_port d))) (timeval_of_ms REDIS_TIMEOUT) (world s)
      = (wt, Some False)" "up wt" "kv wt = kv (world s)"
    using conn by blast
  show ?thesis
    using u t assms(3)
    by (auto simp: redis_ready_def DRDSDataRedis_def Let_def initializeUnixConnection_def initializeTcpConnection_def
        fresh_object_def bnd_def redis_connect_def checkRedisConnection_def context_bad_def
        context_view_def ret_def healthy_def isInitialized_def)
qed

lemma destroy_healthy: "healthy up s \<Longrightarrow> \<exists>s'. destroy_DRDSDataRedis s = Inr ((), s') \<and> world s' = world s"
  by (elim healthyE) (simp add: destroy_DRDSDataRedis_def free_context_def redisFree_def)

section \<open>Properties\<close>

text \<open>
  C13. Round trip of every typed cell: on a connected object and a reachable server, an
  integer of any width the wrapper can load (signed and unsigned 8, 32 and 64 bits) and a
  boolean, stored under a key and loaded from it, come back unchanged, and the store
  reports success.
\<close>

theorem store_get_roundtrip:
  fixes v8 u8 :: "8 word" and v32 u32 :: "32 word" and v64 u64 :: "64 word"
  assumes "redis_laws hr up kv" and "healthy up s"
  shows "(\<exists>s'. storeBool hr k b s = Inr (True, s') \<and> getBool hr k s' = Inr (b, s'))
    \<and> (\<exists>s'. storeSInt hr k v8 s = Inr (True, s') \<and> getSInt hr k s' = Inr (v8, s'))
    \<and> (\<exists>s'. storeDInt hr k v32 s = Inr (True, s') \<and> getDInt hr k s' = Inr (v32, s'))
    \<and> (\<exists>s'. storeLInt hr k v64 s = Inr (True, s') \<and> getLInt hr k s' = Inr (v64, s'))
    \<and> (\<exists>s'. storeUSInt hr k u8 s = Inr (True, s') \<and> getUSInt hr k s' = Inr (u8, s'))
    \<and> (\<exists>s'. storeUDInt hr k u32 s = Inr (True, s') \<and> getUDInt hr k s' = Inr (u32, s'))
    \<and> (\<exists>s'. storeULInt hr k u64 s = Inr (True, s') \<and> getULInt hr k s' = Inr (u64, s'))"
  unfolding storeBool_def getBool_def storeSInt_def getSInt_def storeDInt_def getDInt_def
    storeLInt_def getLInt_def storeUSInt_def getUSInt_def storeUDInt_def getUDInt_def
    storeULInt_def getULInt_def
  by (intro conjI bool_cell.store_get [OF assms] sint8_cell.store_get [OF assms]
      sint32_cell.store_get [OF assms] sint64_cell.store_get [OF assms]
      uint8_cell.store_get [OF assms] uint32_cell.store_get [OF assms]
      uint64_cell.store_get [OF assms])

theorem store_get_roundtrip_witness:
  "\<exists>s'. storeLInt list_server ''k'' (- 5) (redis_at []) = Inr (True, s')
        \<and> getLInt list_server ''k'' s' = Inr (- 5, s')"
  using store_get_roundtrip [OF list_server_laws redis_at_healthy,
      of "''k''" True "[]" 0 0 "- 5" 0 0 0]
  by blast

text \<open>
  Text and binary data: a string comes back up to its first NUL character (so
  unchanged exactly when it has none), non-empty binary data comes back whole, and empty
  binary data is refused without touching the server.
\<close>

theorem string_binary_roundtrip:
  assumes "redis_laws hr up kv" and "healthy up s"
  shows "(\<exists>s'. storeString hr k t s = Inr (True, s') \<and> getString hr k s' = Inr (c_str t, s'))
    \<and> (c_str t = t \<longleftrightarrow> CHR 0x00 \<notin> set t)
    \<and> (t \<noteq> [] \<longrightarrow> (\<exists>s'. storeBinary hr k (Some t) s = Inr (True, s') \<and> getBinary hr k d s' = Inr ((True, t), s')))
    \<and> storeBinary hr k (Some []) s = Inr (False, s)"
proof (intro conjI impI)
  obtain w where w: "storeValue hr k (c_str t) s = Inr (True, s\<lparr>world := w\<rparr>)"
      "healthy up (s\<lparr>world := w\<rparr>)" "kv w = (kv (world s))(c_str k \<mapsto> c_str t)"
    by (rule storeValue_healthy [OF assms])
  moreover have "getString hr k (s\<lparr>world := w\<rparr>) = Inr (c_str t, s\<lparr>world := w\<rparr>)"
    using w(3) by (simp add: getString_def get_with_healthy [OF assms(1) w(2)] cstr_arg_def c_str_def)
  ultimately show "\<exists>s'. storeString hr k t s = Inr (True, s') \<and> getString hr k s' = Inr (c_str t, s')"
    by (auto simp: storeString_def)
next
  show "c_str t = t \<longleftrightarrow> CHR 0x00 \<notin> set t"
    by (auto simp: c_str_def takeWhile_eq_all_conv)
next
  assume "t \<noteq> []"
  obtain w where w: "storeValue hr k t s = Inr (True, s\<lparr>world := w\<rparr>)"
      "healthy up (s\<lparr>world := w\<rparr>)" "kv w = (kv (world s))(c_str k \<mapsto> t)"
    by (rule storeValue_healthy [OF assms])
  let ?s = "s\<lparr>world := w\<rparr>"
  have "up w" using w(2) by (simp add: healthy_def)
  then have "redisCommand hr [''GET'', c_str k] ?s = Inr (Some (RString t), ?s)"
    using redisCommand_healthy [OF w(2), of w hr "[''GET'', c_str k]" "Some (RString t)"] w(3)
    by (simp add: redis_laws_get [OF assms(1)])
  then have "getBinary hr k d ?s = Inr ((True, t), ?s)"
    by (simp add: getBinary_def bnd_def context_err_def context_view_healthy [OF w(2)] ret_def)
  with w(1) \<open>t \<noteq> []\<close>
  show "\<exists>s'. storeBinary hr k (Some t) s = Inr (True, s') \<and> getBinary hr k d s' = Inr ((True, t), s')"
    by (auto simp: storeBinary_def storeValue_def)
next
  show "storeBinary hr k (Some []) s = Inr (False, s)"
    by (simp add: storeBinary_def ret_def)
qed

theorem string_binary_roundtrip_witness:
  "\<exists>s'. storeBinary list_server ''k'' (Some ''ab'') (redis_at []) = Inr (True, s')
        \<and> getBinary list_server ''k'' [] s' = Inr ((True, ''ab''), s')"
  using string_binary_roundtrip [OF list_server_laws redis_at_healthy, of "''k''" "''ab''" "[]" "[]"]
  by simp

text \<open>
  C25. Pointer safety of storing while connecting never yields a context in error: from a
  well-formed object a store ends in the library or returns with a well-formed object;
  it never uses a freed context, frees one twice or dereferences null.
\<close>

theorem storeValue_pointer_safe:
  assumes "ctx_wf s" and "connects_cleanly hr"
  shows "storeValue hr k t s = Inl LibraryCrash \<or> (\<exists>b s'. storeValue hr k t s = Inr (b, s') \<and> ctx_wf s')"
  unfolding storeValue_def by (rule set_command_wf [OF assms])

theorem storeValue_pointer_safe_witness:
  "\<exists>b s'. storeValue list_server ''k'' ''v'' (redis_at []) = Inr (b, s') \<and> ctx_wf s'"
proof -
  have "connects_cleanly list_server" by (simp add: connects_cleanly_def list_server_def)
  from storeValue_pointer_safe [OF redis_at_wf this, of "''k''" "''v''" "[]"]
  show ?thesis
    by (auto simp: storeValue_def set_command_def redisCommand_def bnd_def context_view_def
        redis_at_def list_server_def ret_def)
qed

text \<open>
  C34. A reconnect that fails is reported as success and leaves the object pointing to a
  freed context: when the command gets no reply and the new connection is in error, the
  store returns true although nothing was stored, the next store uses the freed context,
  and destroying the object frees it a second time.
\<close>

theorem failed_reconnect_dangles:
  assumes "ctx_wf s" and "context_m s \<noteq> None"
    and "\<And>argv c w. h_command hr argv c w = Some (w, True, None)"
    and "\<And>ep tv w. h_connect hr ep tv w = (w, Some True)"
  shows "\<exists>s'. storeValue hr k t s = Inr (True, s') \<and> world s' = world s
              \<and> storeValue hr k' t' s' = Inl UseAfterFree
              \<and> destroy_DRDSDataRedis s' = Inl DoubleFree"
proof -
  obtain p e where p: "context_m s = Some p" "ctx_heap s p = Some e"
    using assms(1,2) by (auto simp: ctx_wf_def)
  let ?s = "set_context_err True s"
  have cmd: "redisCommand hr argv s = Inr (None, ?s)" for argv
    using p assms(3) by (simp add: redisCommand_def bnd_def context_view_def)
  have wf: "ctx_wf ?s" using set_context_err_wf [OF assms(1), of True "world s"] by simp
  have bad: "context_bad ?s = Inr (True, ?s)"
    using p by (simp add: context_bad_def context_view_def bnd_def ret_def set_context_err_def)
  have "\<exists>s'. storeValue hr k t s = Inr (True, s') \<and> world s' = world s \<and> dangling s'"
    using reconnect_outcome [OF wf assms(4)] cmd bad p
    by (simp add: storeValue_def set_command_def bnd_def handleConnectionErrors_def dangling_def
        set_context_err_def)
  then show ?thesis using dangling_faults by blast
qed

theorem failed_reconnect_dangles_witness:
  "\<exists>s'. storeValue dead_server ''k'' ''v'' (redis_at ()) = Inr (True, s')
        \<and> destroy_DRDSDataRedis s' = Inl DoubleFree"
  using failed_reconnect_dangles [OF redis_at_wf, of "()" dead_server "''k''" "''v''" "''k''" "''v''"]
  by (auto simp: redis_at_def dead_server_def)

text \<open>
  Construction from the defaults: the object is initialized exactly when it holds a
  live context without error; otherwise its context is null, and a context that came
  back in error has been freed, so the heap of live contexts is as before.
\<close>

theorem construct_initialized_iff:
  assumes "\<forall>q \<ge> ctx_next s. ctx_heap s q = None"
  shows "\<exists>s'. DRDSDataRedis hr d s = Inr ((), s') \<and> ctx_wf s'
     \<and> (isInitialized s' = Some True \<longleftrightarrow> (\<exists>p. context_m s' = Some p \<and> ctx_heap s' p = Some False))
     \<and> (isInitialized s' \<noteq> Some True \<longrightarrow> context_m s' = None \<and> ctx_heap s' = ctx_heap s)"
proof -
  have conn: "\<exists>s'. bnd (redis_connect hr ep tv) (\<lambda>_. bnd checkRedisConnection (\<lambda>_. ret ())) s0 = Inr ((), s')
     \<and> ctx_wf s'
     \<and> (isInitialized s' = Some True \<longleftrightarrow> (\<exists>p. context_m s' = Some p \<and> ctx_heap s' p = Some False))
     \<and> (isInitialized s' \<noteq> Some True \<longrightarrow> context_m s' = None \<and> ctx_heap s' = ctx_heap s)"
    if "ctx_heap s0 = ctx_heap s" "ctx_next s0 = ctx_next s" "initialized s0 = Some False" for ep tv s0
  proof -
    obtain w r where "h_connect hr ep tv (world s0) = (w, r)" by fastforce
    with that assms show ?thesis
      by (cases r; cases "r = Some True")
         (auto simp: bnd_def redis_connect_def checkRedisConnection_def context_bad_def
            context_view_def ret_def free_context_def redisFree_def isInitialized_def ctx_wf_def)
  qed
  show ?thesis
    using conn [of "fresh_object (Some False) s\<lparr>unix_socket_path_m := default_unix_socket_path d\<rparr>"]
      conn [of "fresh_object (Some False) s\<lparr>host_m := default_host d, port_m := Some (default_port d)\<rparr>"]
      assms
    by (auto simp: DRDSDataRedis_def Let_def initializeUnixConnection_def initializeTcpConnection_def
        fresh_object_def isInitialized_def ctx_wf_def)
qed

theorem construct_initialized_iff_witness:
  "\<exists>s'. DRDSDataRedis dead_server
          (setDefaultConnectionInfo [] ''127.0.0.1'' 6380 \<lparr>default_unix_socket_path = [], default_host = [], default_port = 0\<rparr>)
          (redis_at ()) = Inr ((), s') \<and> context_m s' = None"
proof -
  let ?d = "setDefaultConnectionInfo [] ''127.0.0.1'' 6380
              \<lparr>default_unix_socket_path = [], default_host = [], default_port = 0\<rparr>"
  have "\<forall>q \<ge> ctx_next (redis_at ()). ctx_heap (redis_at ()) q = None"
    by (simp add: redis_at_def)
  from construct_initialized_iff [OF this, of dead_server ?d]
  obtain s' where s': "DRDSDataRedis dead_server ?d (redis_at ()) = Inr ((), s')"
    and imp: "isInitialized s' \<noteq> Some True \<longrightarrow> context_m s' = None \<and> ctx_heap s' = ctx_heap (redis_at ())"
    by blast
  from s' have "isInitialized s' = Some False"
    by (auto simp: DRDSDataRedis_def setDefaultConnectionInfo_def Let_def initializeTcpConnection_def
        fresh_object_def redis_at_def dead_server_def bnd_def redis_connect_def
        checkRedisConnection_def context_bad_def context_view_def ret_def free_context_def
        redisFree_def isInitialized_def)
  with s' imp show ?thesis by simp
qed

text \<open>
  Loading an absent key is not reported: the server answers with a nil reply, whose
  string is a null pointer, and every integer, boolean and string getter passes it on.
\<close>

theorem get_missing_key_faults:
  assumes "redis_laws hr up kv" and "healthy up s" and "kv (world s) (c_str k) = None"
  shows "getBool hr k s = Inl NullDeref \<and> getDInt hr k s = Inl NullDeref
     \<and> getLInt hr k s = Inl NullDeref \<and> getULInt hr k s = Inl NullDeref
     \<and> getString hr k s = Inl NullDeref \<and> getBinary hr k d s = Inr ((False, d), s)"
proof (intro conjI)
  have up: "up (world s)" using assms(2) by (simp add: healthy_def)
  have "redisCommand hr [''GET'', c_str k] s = Inr (Some RNil, s)"
    using redisCommand_healthy [OF assms(2) up, of hr "[''GET'', c_str k]" "Some RNil"] assms(3)
    by (simp add: redis_laws_get [OF assms(1) up])
  then show "getBinary hr k d s = Inr ((False, d), s)"
    by (simp add: getBinary_def bnd_def context_err_def context_view_healthy [OF assms(2)] ret_def)
qed (simp_all add: getBool_def getDInt_def getLInt_def getULInt_def getString_def
      get_with_healthy [OF assms(1,2)] assms(3) dec_conv_defs cstr_arg_def)

theorem get_missing_key_faults_witness:
  "getLInt list_server ''absent'' (redis_at []) = Inl NullDeref"
  using get_missing_key_faults [OF list_server_laws redis_at_healthy, of "[]" "''absent''" "[]"]
  by (simp add: redis_at_def)

end
