(* ===== verification/Logging.thy ===== *)
theory Logging
  imports Gateway_Prelude "HOL-Library.Multiset"
begin

text \<open>
  The logging component (\<open>common/log\<close>): the file sink that renames its file when it is full
  and deletes the oldest renamed files (\<open>custom_rotating_file_sink-inl.h\<close>), the logger that
  owns the sinks (\<open>logger_impl.cc\<close>, reached through the forwarding class of \<open>logger.cc\<close>) and
  the rate limiter behind \<open>LOG_TIME\<close> (\<open>logger.h\<close>).

  The sink lives in one directory, a list of named files in the order a directory scan
  returns them. A C++ exception keeps what the operation did before it, so an operation
  returns its outcome and the new state. What the operating system decides at a call (the
  clock, whether a rename, an open or a write succeeds) is the argument of type
  \<open>log_env\<close>. Messages are the formatted records: the formatter belongs to spdlog.
\<close>

section \<open>Outcomes and the directory\<close>

datatype 'a outcome = Returned 'a | Threw string | UndefinedBehaviour

record logfile =
  fcontent :: string
  mtime :: nat

type_synonym directory = "(string \<times> logfile) list"

text \<open>
  \<open>tm\<close> has the members of the broken-down local time that the time stamp prints. \<open>exe_link\<close> is
  what \<open>readlink\<close> returns for \<open>/proc/self/exe\<close>, \<^const>\<open>None\<close> when it fails;
  \<open>scan_ok\<close> is false when listing the directory throws; \<open>write_stops\<close> is \<^const>\<open>None\<close> when \<open>fwrite\<close> takes the whole buffer and \<^term>\<open>Some n\<close> when
  it fails after \<open>n\<close> bytes; \<open>flush_ok\<close> is false when \<open>fflush\<close> reports an error.
\<close>

record tm =
  year :: nat
  month :: nat
  mday :: nat
  hour :: nat
  minute :: nat
  second :: nat

record log_env =
  exe_link :: "string option"
  localtime :: tm
  write_time :: nat
  rename_ok :: bool
  scan_ok :: bool
  open_ok :: bool
  write_stops :: "nat option"
  flush_ok :: bool

definition fs_put :: "string \<Rightarrow> logfile \<Rightarrow> directory \<Rightarrow> directory" where
  "fs_put n f d = (if n \<in> fst ` set d then map (\<lambda>(m, g). (m, if m = n then f else g)) d else d @ [(n, f)])"

definition fs_remove :: "string \<Rightarrow> directory \<Rightarrow> directory" where
  "fs_remove n d = filter (\<lambda>e. fst e \<noteq> n) d"

lemma fs_put_lookup [simp]: "map_of (fs_put n f d) = (map_of d)(n \<mapsto> f)"
proof (cases "n \<in> fst ` set d")
  case True
  have "map_of (map (\<lambda>(m, g). (m, if m = n then f else g)) d) k
      = (if k = n \<and> map_of d n \<noteq> None then Some f else map_of d k)" for k
  proof (induction d)
    case (Cons x d)
    then show ?case by (cases x) auto
  qed simp
  with True show ?thesis by (simp add: fs_put_def fun_eq_iff map_of_eq_None_iff)
next
  case False
  then have "map_of d n = None" by (simp add: map_of_eq_None_iff)
  with False show ?thesis by (simp add: fs_put_def fun_eq_iff map_add_def split: option.split)
qed

lemma fs_put_names: "fst ` set (fs_put n f d) = insert n (fst ` set d)"
  by (force simp: fs_put_def)

lemma fs_put_distinct [simp]: "distinct (map fst (fs_put n f d)) = distinct (map fst d)"
proof (cases "n \<in> fst ` set d")
  case True
  have "map fst (map (\<lambda>(m, g). (m, if m = n then f else g)) d) = map fst d" by auto
  with True show ?thesis by (simp only: fs_put_def if_True)
qed (auto simp: fs_put_def)

lemma fs_remove_lookup [simp]: "map_of (fs_remove n d) = (map_of d)(n := None)"
  by (induction d) (auto simp: fs_remove_def fun_eq_iff)

lemma fs_remove_distinct [simp]: "distinct (map fst d) \<Longrightarrow> distinct (map fst (fs_remove n d))"
  by (induction d) (auto simp: fs_remove_def)

section \<open>The rotating file sink\<close>

text \<open>
  The members of \<open>custom_rotating_file_sink\<close>; \<open>fd_open\<close> says whether the file helper has the
  base file open.
\<close>

record file_sink =
  base_filename :: string
  max_size :: nat
  max_files :: nat
  current_size :: nat
  fd_open :: bool
  log_dir :: directory

definition base_content :: "file_sink \<Rightarrow> string" where
  "base_content s = (case map_of (log_dir s) (base_filename s) of None \<Rightarrow> [] | Some f \<Rightarrow> fcontent f)"

text \<open>
  The file helper: opening for appending creates a missing file, with \<open>trunc\<close> it first
  empties it; \<open>size\<close> throws on a closed helper, and \<open>write\<close> then does nothing.
\<close>

definition helper_open :: "log_env \<Rightarrow> bool \<Rightarrow> file_sink \<Rightarrow> unit outcome \<times> file_sink" where
  "helper_open e trunc s =
     (if \<not> open_ok e then (Threw ''Failed opening file'', s\<lparr>fd_open := False\<rparr>)
      else let d = log_dir s; n = base_filename s in
        (Returned (), s\<lparr>fd_open := True, log_dir :=
           if trunc \<or> map_of d n = None then fs_put n \<lparr>fcontent = [], mtime = write_time e\<rparr> d else d\<rparr>))"

definition helper_size :: "file_sink \<Rightarrow> nat outcome" where
  "helper_size s = (if fd_open s then Returned (length (base_content s)) else Threw ''Cannot use size() on closed file'')"

definition helper_append :: "log_env \<Rightarrow> string \<Rightarrow> file_sink \<Rightarrow> file_sink" where
  "helper_append e m s = s\<lparr>log_dir := fs_put (base_filename s)
     \<lparr>fcontent = base_content s @ m, mtime = write_time e\<rparr> (log_dir s)\<rparr>"

definition helper_write :: "log_env \<Rightarrow> string \<Rightarrow> file_sink \<Rightarrow> unit outcome \<times> file_sink" where
  "helper_write e m s =
     (if \<not> fd_open s then (Returned (), s)
      else case write_stops e of
             None \<Rightarrow> (Returned (), helper_append e m s)
           | Some n \<Rightarrow> (Threw ''Failed writing to file'', helper_append e (take n m) s))"

definition helper_flush :: "log_env \<Rightarrow> file_sink \<Rightarrow> unit outcome" where
  "helper_flush e s = (if fd_open s \<and> \<not> flush_ok e then Threw ''Failed flush to file'' else Returned ())"

text \<open>The parts of the name that a full file gets: the last component of the program's path (its Linux branch) and the time.\<close>

definition get_process_name :: "string option \<Rightarrow> string" where
  "get_process_name lnk =
     (case lnk of
        None \<Rightarrow> ''unknown''
      | Some buf \<Rightarrow> rev (takeWhile (\<lambda>c. c \<noteq> CHR ''/'') (rev (takeWhile (\<lambda>c. c \<noteq> CHR 0x00) buf))))"

definition two_digits :: "nat \<Rightarrow> string" where
  "two_digits n = (if n < 10 then CHR ''0'' # dec_nat n else dec_nat n)"

definition get_timestamp :: "tm \<Rightarrow> string" where
  "get_timestamp t = dec_nat (year t) @ two_digits (month t) @ two_digits (mday t) @ ''_''
     @ two_digits (hour t) @ two_digits (minute t) @ two_digits (second t)"

abbreviation process_name :: "log_env \<Rightarrow> string" where
  "process_name e \<equiv> get_process_name (exe_link e)"

text \<open>The name that a full file gets, and the test that recognises such names in the directory.\<close>

definition archive_name :: "log_env \<Rightarrow> string" where
  "archive_name e = process_name e @ ''_'' @ get_timestamp (localtime e) @ ''.log''"

text \<open>
  \<open>filename.rfind(".log") == filename.length() - 4\<close> on 64-bit sizes: a name of three
  characters also passes, because there \<open>length() - 4\<close> is \<open>npos\<close>, the answer for "not found".
\<close>

definition ends_with_log :: "string \<Rightarrow> bool" where
  "ends_with_log n = (if 4 \<le> length n then drop (length n - 4) n = ''.log'' else length n = 3)"

definition is_archive :: "log_env \<Rightarrow> string \<Rightarrow> bool" where
  "is_archive e n = (take (length (process_name e) + 1) n = process_name e @ ''_'' \<and> ends_with_log n)"

definition rename_file :: "log_env \<Rightarrow> string \<Rightarrow> string \<Rightarrow> directory \<Rightarrow> directory option" where
  "rename_file e src target d =
     (case map_of d src of
        None \<Rightarrow> None
      | Some f \<Rightarrow> if rename_ok e then Some (fs_put target f (if target = src then d else fs_remove src d)) else None)"

definition archives :: "log_env \<Rightarrow> directory \<Rightarrow> (string \<times> logfile) list" where
  "archives e d = sort_key (\<lambda>x. mtime (snd x)) (filter (\<lambda>x. is_archive e (fst x)) d)"

function remove_oldest :: "nat \<Rightarrow> (string \<times> logfile) list \<Rightarrow> directory \<Rightarrow> directory" where
  "remove_oldest m fs d =
     (if m < length fs then remove_oldest m (tl fs) (fs_remove (fst (hd fs)) d) else d)"
  by pat_completeness auto
termination by (relation "measure (\<lambda>(m, fs, d). length fs)") auto

declare remove_oldest.simps [simp del]

definition rotate :: "log_env \<Rightarrow> file_sink \<Rightarrow> unit outcome \<times> file_sink" where
  "rotate e s =
     (let s1 = s\<lparr>fd_open := False\<rparr> in
      case rename_file e (base_filename s) (archive_name e) (log_dir s1) of
        None \<Rightarrow>
          (case helper_open e True s1 of
             (Returned _, s2) \<Rightarrow> (Threw ''Failed to rotate file'', s2\<lparr>current_size := 0\<rparr>)
           | (r, s2) \<Rightarrow> (r, s2))
      | Some d \<Rightarrow>
          if \<not> scan_ok e then (Threw ''Error during file rotation'', s1\<lparr>log_dir := d\<rparr>)
          else let s2 = s1\<lparr>log_dir := remove_oldest (max_files s) (archives e d) d\<rparr> in
            (case helper_open e False s2 of
               (Returned _, s3) \<Rightarrow> (Returned (), s3\<lparr>current_size := 0\<rparr>)
             | (r, s3) \<Rightarrow> (r, s3)))"

definition rotate_now :: "log_env \<Rightarrow> file_sink \<Rightarrow> unit outcome \<times> file_sink" where
  "rotate_now e s = rotate e s"

definition custom_rotating_file_sink ::
  "log_env \<Rightarrow> string \<Rightarrow> nat \<Rightarrow> nat \<Rightarrow> bool \<Rightarrow> directory \<Rightarrow> unit outcome \<times> file_sink" where
  "custom_rotating_file_sink e n msz mfs rotate_on_open d =
     (let s = \<lparr>base_filename = n, max_size = msz, max_files = mfs, current_size = 0, fd_open = False, log_dir = d\<rparr> in
      if msz = 0 then (Threw ''max_size arg cannot be zero'', s)
      else if 200000 < mfs then (Threw ''max_files arg cannot exceed 200000'', s)
      else case helper_open e False s of
        (Returned _, s1) \<Rightarrow>
          let s2 = s1\<lparr>current_size := length (base_content s1)\<rparr> in
          if rotate_on_open \<and> 0 < current_size s2 then
            (case rotate e s2 of
               (Returned _, s3) \<Rightarrow> (Returned (), s3\<lparr>current_size := 0\<rparr>)
             | (r, s3) \<Rightarrow> (r, s3))
          else (Returned (), s2)
      | (r, s1) \<Rightarrow> (r, s1))"

definition sink_it :: "log_env \<Rightarrow> string \<Rightarrow> file_sink \<Rightarrow> unit outcome \<times> file_sink" where
  "sink_it e formatted s =
     (let finish = (\<lambda>new_size s1. case helper_write e formatted s1 of
                      (Returned _, s2) \<Rightarrow> (Returned (), s2\<lparr>current_size := new_size\<rparr>)
                    | (r, s2) \<Rightarrow> (r, s2));
          new_size = current_size s + length formatted in
      if max_size s < new_size then
        (case (helper_flush e s, helper_size s) of
           (Returned _, Returned n) \<Rightarrow>
             if 0 < n then
               (case rotate e s of
                  (Returned _, s1) \<Rightarrow> finish (length formatted) s1
                | (r, s1) \<Rightarrow> (r, s1))
             else finish new_size s
         | (Returned _, Threw x) \<Rightarrow> (Threw x, s)
         | (Threw x, _) \<Rightarrow> (Threw x, s)
         | _ \<Rightarrow> (UndefinedBehaviour, s))
      else finish new_size s)"

definition flush :: "log_env \<Rightarrow> file_sink \<Rightarrow> unit outcome \<times> file_sink" where
  "flush e s = (helper_flush e s, s)"

section \<open>The logger\<close>

text \<open>\<open>severity_level\<close> and spdlog's \<open>level_enum\<close> number the levels alike; \<open>Off\<close> is spdlog's last one.\<close>

datatype level = Trace | Debug | Info | Warning | Error | Critical | Off

fun level_num :: "level \<Rightarrow> nat" where
  "level_num Trace = 0" | "level_num Debug = 1" | "level_num Info = 2" | "level_num Warning = 3"
| "level_num Error = 4" | "level_num Critical = 5" | "level_num Off = 6"

text \<open>The levels in the order of their numbers, by which the sinks filter.\<close>

instantiation level :: linorder
begin

definition less_eq_level :: "level \<Rightarrow> level \<Rightarrow> bool" where
  "less_eq_level l l' \<longleftrightarrow> level_num l \<le> level_num l'"

definition less_level :: "level \<Rightarrow> level \<Rightarrow> bool" where
  "less_level l l' \<longleftrightarrow> level_num l < level_num l'"

instance
proof
  show "x = y" if "x \<le> y" and "y \<le> x" for x y :: level
    using that unfolding less_eq_level_def by (cases x; cases y) simp_all
qed (auto simp: less_eq_level_def less_level_def)

end

lemmas level_le [simp] = less_eq_level_def
lemmas level_less [simp] = less_level_def

datatype logger_type = Both | Console | LogToFile

definition level_from_str :: "string \<Rightarrow> level" where
  "level_from_str n =
     (if n = ''trace'' then Trace else if n = ''debug'' then Debug else if n = ''info'' then Info
      else if n = ''warning'' \<or> n = ''warn'' then Warning else if n = ''error'' \<or> n = ''err'' then Error
      else if n = ''critical'' then Critical else Off)"

definition GetLogLevelFromEnv :: "(string \<Rightarrow> string option) \<Rightarrow> string \<Rightarrow> level \<Rightarrow> level" where
  "GetLogLevelFromEnv getenv v dflt = (case getenv v of None \<Rightarrow> dflt | Some x \<Rightarrow> level_from_str x)"

record spd_logger =
  lg_level :: level
  lg_pattern :: string
  lg_flush_on :: level
  lg_async :: bool
  lg_to_file :: bool
  lg_to_console :: bool

text \<open>
  The members of \<open>LoggerImpl\<close>. \<open>logBufferSize\<close> has no initialiser, so it is \<^const>\<open>None\<close>
  until it is set. \<open>registered\<close> says whether spdlog's registry has a logger of this name;
  \<open>flusher\<close> is the period of its flush thread; \<open>console\<close> is what was printed.
\<close>

record logger_impl =
  logger :: "spd_logger option"
  console_sink :: "level option"
  log_file_sink :: "(level \<times> file_sink) option"
  flushEvery :: nat
  logBufferSize :: "nat option"
  flushOnLevel :: level
  registered :: bool
  flusher :: "nat option"
  console_out :: "string list"

definition LoggerImpl :: logger_impl where
  "LoggerImpl = \<lparr>logger = None, console_sink = None, log_file_sink = None, flushEvery = 0,
     logBufferSize = None, flushOnLevel = Error, registered = False, flusher = None, console_out = []\<rparr>"

definition make_file_sink ::
  "log_env \<Rightarrow> string \<Rightarrow> int \<Rightarrow> int \<Rightarrow> level \<Rightarrow> directory \<Rightarrow> logger_impl \<Rightarrow> unit outcome \<times> logger_impl" where
  "make_file_sink e n mib backups l d g =
     (let bytes = 1048576 * mib in
      case custom_rotating_file_sink e n (nat (bytes mod 2 ^ 64)) (nat (backups mod 2 ^ 64)) False d of
        (Returned _, s) \<Rightarrow> (Returned (), g\<lparr>log_file_sink := Some (l, s)\<rparr>)
      | (r, _) \<Rightarrow> (r, g))"

definition create_sinks ::
  "log_env \<Rightarrow> (string \<Rightarrow> string option) \<Rightarrow> string \<Rightarrow> logger_type \<Rightarrow> level \<Rightarrow> int \<Rightarrow> int \<Rightarrow> directory
     \<Rightarrow> logger_impl \<Rightarrow> unit outcome \<times> logger_impl" where
  "create_sinks e getenv n type lv mib backups d g =
     (let cl = GetLogLevelFromEnv getenv ''LOG_CONSOLE_LEVEL'' lv;
          fl = GetLogLevelFromEnv getenv ''LOG_FILE_LEVEL'' lv in
      case type of
        Both \<Rightarrow>
          (case make_file_sink e n mib backups fl d (g\<lparr>console_sink := Some Trace\<rparr>) of
             (Returned _, g1) \<Rightarrow> (Returned (), g1\<lparr>console_sink := Some cl\<rparr>)
           | (r, g1) \<Rightarrow> (r, g1))
      | Console \<Rightarrow> (Returned (), g\<lparr>console_sink := Some cl\<rparr>)
      | LogToFile \<Rightarrow> make_file_sink e n mib backups fl d g)"

definition default_pattern :: string where
  "default_pattern = ''[%Y-%m-%d %H:%M:%S.%e] [%^%l%$] [%t] [%s:%# %!] %v''"

text \<open>
  \<open>Init\<close>. The product \<open>1024 * 1024 * maxFileSize\<close> is computed in \<open>int\<close>, where overflow is
  undefined, as is reading the uninitialised queue size of an asynchronous logger; spdlog
  refuses a thread pool without threads and a second logger of the same name.
\<close>

definition Init ::
  "log_env \<Rightarrow> (string \<Rightarrow> string option) \<Rightarrow> nat \<Rightarrow> string \<Rightarrow> logger_type \<Rightarrow> level \<Rightarrow> int \<Rightarrow> int \<Rightarrow> bool
     \<Rightarrow> directory \<Rightarrow> logger_impl \<Rightarrow> bool outcome \<times> logger_impl" where
  "Init e getenv cores n type lv mib backups isAsync d g =
     (if 1048576 * mib < - (2 ^ 31) \<or> 2 ^ 31 \<le> 1048576 * mib then (UndefinedBehaviour, g)
      else case create_sinks e getenv n type lv mib backups d g of
        (Returned _, g1) \<Rightarrow>
          if isAsync \<and> logBufferSize g1 = None then (UndefinedBehaviour, g1)
          else if isAsync \<and> (cores div 4 = 0 \<or> 1000 < cores div 4) then (Threw ''invalid threads_n param'', g1)
          else let lg = \<lparr>lg_level = Trace, lg_pattern = default_pattern, lg_flush_on = flushOnLevel g1,
                         lg_async = isAsync, lg_to_file = (type \<noteq> Console), lg_to_console = (type \<noteq> LogToFile)\<rparr>;
                   g2 = g1\<lparr>logger := Some lg, flusher := if 0 < flushEvery g1 then Some (flushEvery g1) else flusher g1\<rparr> in
            if registered g2 then (Threw ''logger with name already exists'', g2)
            else (Returned True, g2\<lparr>registered := True\<rparr>)
      | (Threw x, g1) \<Rightarrow> (Threw x, g1)
      | (UndefinedBehaviour, g1) \<Rightarrow> (UndefinedBehaviour, g1))"

definition Uinit :: "logger_impl \<Rightarrow> logger_impl" where
  "Uinit g = g\<lparr>logger := None, registered := False, flusher := None\<rparr>"

text \<open>
  \<open>log\<close>: each sink whose level admits the record gets it, the file sink first, and an
  exception of a sink is swallowed. The queue of an asynchronous logger delays this and
  keeps the order.
\<close>

definition log_file :: "log_env \<Rightarrow> level \<Rightarrow> string \<Rightarrow> logger_impl \<Rightarrow> logger_impl" where
  "log_file e lv m g =
     (case log_file_sink g of
        None \<Rightarrow> g
      | Some (fl, s) \<Rightarrow> if fl \<le> lv then g\<lparr>log_file_sink := Some (fl, snd (sink_it e m s))\<rparr> else g)"

definition log_console :: "level \<Rightarrow> string \<Rightarrow> logger_impl \<Rightarrow> logger_impl" where
  "log_console lv m g =
     (case console_sink g of
        None \<Rightarrow> g
      | Some cl \<Rightarrow> if cl \<le> lv then g\<lparr>console_out := console_out g @ [m]\<rparr> else g)"

definition log :: "log_env \<Rightarrow> level \<Rightarrow> string \<Rightarrow> logger_impl \<Rightarrow> logger_impl" where
  "log e lv m g =
     (case logger g of
        None \<Rightarrow> g
      | Some lg \<Rightarrow>
          if lg_level lg \<le> lv then
            (let g1 = if lg_to_file lg then log_file e lv m g else g
             in if lg_to_console lg then log_console lv m g1 else g1)
          else g)"

definition setFlushEvery :: "nat \<Rightarrow> logger_impl \<Rightarrow> logger_impl" where
  "setFlushEvery n g = (if 0 < n then g\<lparr>flushEvery := n\<rparr> else g)"

definition setFlushOnLevel :: "level \<Rightarrow> logger_impl \<Rightarrow> logger_impl" where
  "setFlushOnLevel l g = g\<lparr>flushOnLevel := l\<rparr>"

definition setLogLevel :: "level \<Rightarrow> logger_impl \<Rightarrow> logger_impl" where
  "setLogLevel l g = g\<lparr>logger := map_option (\<lambda>lg. lg\<lparr>lg_level := l\<rparr>) (logger g)\<rparr>"

definition setLogPattern :: "string \<Rightarrow> logger_impl \<Rightarrow> logger_impl" where
  "setLogPattern p g = g\<lparr>logger := map_option (\<lambda>lg. lg\<lparr>lg_pattern := p\<rparr>) (logger g)\<rparr>"

definition setLogConsoleLevel :: "level \<Rightarrow> logger_impl \<Rightarrow> logger_impl" where
  "setLogConsoleLevel l g = g\<lparr>console_sink := map_option (\<lambda>_. l) (console_sink g)\<rparr>"

definition setLogFileLevel :: "level \<Rightarrow> logger_impl \<Rightarrow> logger_impl" where
  "setLogFileLevel l g = g\<lparr>log_file_sink := map_option (\<lambda>(_, s). (l, s)) (log_file_sink g)\<rparr>"

definition setLogBufferSize :: "nat \<Rightarrow> logger_impl \<Rightarrow> logger_impl" where
  "setLogBufferSize n g = g\<lparr>logBufferSize := Some n\<rparr>"

section \<open>The rate limiter\<close>

text \<open>
  \<open>shouldLog\<close> keeps, per key, the steady clock (in nanoseconds) of the last admitted call;
  \<open>duration_cast\<close> truncates the elapsed time to milliseconds.
\<close>

definition shouldLog :: "string \<Rightarrow> int \<Rightarrow> nat \<Rightarrow> (string \<rightharpoonup> nat) \<Rightarrow> bool \<times> (string \<rightharpoonup> nat)" where
  "shouldLog key interval_ms now last_times =
     (case last_times key of
        None \<Rightarrow> (True, last_times(key \<mapsto> now))
      | Some t \<Rightarrow> if interval_ms \<le> (int now - int t) div 1000000 then (True, last_times(key \<mapsto> now)) else (False, last_times))"


section \<open>Facts about the sink\<close>

definition log_healthy :: "log_env \<Rightarrow> bool" where
  "log_healthy e \<longleftrightarrow> rename_ok e \<and> scan_ok e \<and> open_ok e \<and> write_stops e = None \<and> flush_ok e"

definition sink_inv :: "file_sink \<Rightarrow> bool" where
  "sink_inv s \<longleftrightarrow> distinct (map fst (log_dir s)) \<and> fd_open s \<and> base_filename s \<in> dom (map_of (log_dir s))
     \<and> current_size s = length (base_content s)"

text \<open>
  A renamed file stays in the directory of the log, and rotations in different seconds of
  the local time give it different names: the printed time can be read back.
\<close>

lemma digit_char_0: "digit_char 0 = CHR ''0''"
  by code_simp

lemma two_digits_shape:
  assumes "n < 100"
  shows "two_digits n = [digit_char (n div 10), digit_char (n mod 10)]"
proof -
  have "n div 10 < 10" using assms by simp
  then have "dec_nat (n div 10) = [digit_char (n div 10)]" by (subst dec_nat.simps) simp
  then show ?thesis by (simp add: two_digits_def dec_nat.simps [of n] digit_char_0)
qed

lemma two_digits_eq:
  assumes "m < 100" and "n < 100" and "two_digits m = two_digits n"
  shows "m = n"
proof -
  have "m div 10 < 10" "n div 10 < 10" using assms(1,2) by simp_all
  moreover have "digit_char (m div 10) = digit_char (n div 10)" "digit_char (m mod 10) = digit_char (n mod 10)"
    using assms by (simp_all add: two_digits_shape)
  ultimately have "m div 10 = n div 10" "m mod 10 = n mod 10"
    by (metis digit_val_digit_char, metis digit_val_digit_char mod_less_divisor zero_less_numeral)
  then show ?thesis by (metis mult_div_mod_eq)
qed

lemma dec_nat_no_slash: "CHR ''/'' \<notin> set (dec_nat n)"
  using dec_nat_digits [of "CHR ''/''" n] by (auto simp: is_digit_def)

lemma two_digits_no_slash: "CHR ''/'' \<notin> set (two_digits n)"
  by (simp add: two_digits_def dec_nat_no_slash)

lemma process_name_no_slash: "CHR ''/'' \<notin> set (get_process_name lnk)"
  by (auto simp: get_process_name_def split: option.splits dest: set_takeWhileD)

lemma archive_name_no_slash: "CHR ''/'' \<notin> set (archive_name e)"
  by (simp add: archive_name_def get_timestamp_def process_name_no_slash two_digits_no_slash dec_nat_no_slash)

definition civil :: "tm \<Rightarrow> bool" where
  "civil t \<longleftrightarrow> month t < 100 \<and> mday t < 100 \<and> hour t < 100 \<and> minute t < 100 \<and> second t < 100"

lemma get_timestamp_inj:
  assumes "civil t" and "civil u" and "get_timestamp t = get_timestamp u"
  shows "t = u"
proof -
  have "length (two_digits n) = 2" if "n < 100" for n using that by (simp add: two_digits_shape)
  then have "dec_nat (year t) = dec_nat (year u)" "two_digits (month t) = two_digits (month u)"
      "two_digits (mday t) = two_digits (mday u)" "two_digits (hour t) = two_digits (hour u)"
      "two_digits (minute t) = two_digits (minute u)" "two_digits (second t) = two_digits (second u)"
    using assms by (simp_all add: get_timestamp_def civil_def)
  moreover from this(1) have "year t = year u" by (metis read_digits_dec_nat)
  moreover have "month t = month u" "mday t = mday u" "hour t = hour u" "minute t = minute u" "second t = second u"
    using calculation(2-6) assms(1,2) two_digits_eq unfolding civil_def by blast+
  ultimately show ?thesis by (intro tm.equality) simp_all
qed

lemma archive_names_differ:
  assumes "civil (localtime e)" and "civil (localtime e')" and "exe_link e = exe_link e'"
  shows "archive_name e = archive_name e' \<longleftrightarrow> localtime e = localtime e'"
  using assms get_timestamp_inj by (auto simp: archive_name_def)

lemma archive_name_is_archive: "is_archive e (archive_name e)"
  by (simp add: is_archive_def archive_name_def ends_with_log_def)

lemma remove_oldest_filter:
  "remove_oldest m fs d = filter (\<lambda>x. fst x \<notin> fst ` set (take (length fs - m) fs)) d"
proof (induction m fs d rule: remove_oldest.induct)
  case (1 m fs d)
  show ?case
  proof (cases "m < length fs")
    case False
    then show ?thesis by (subst remove_oldest.simps) simp
  next
    case True
    then obtain f gs where fs: "fs = f # gs" by (cases fs) auto
    with True have "length fs - m = Suc (length gs - m)" by simp
    with 1 [OF True] True fs show ?thesis
      by (subst remove_oldest.simps) (auto simp: fs_remove_def intro!: filter_cong)
  qed
qed

lemma remove_oldest_lookup:
  "map_of (remove_oldest m fs d) n = (if n \<in> fst ` set (take (length fs - m) fs) then None else map_of d n)"
proof -
  have "map_of (filter (\<lambda>x. fst x \<notin> K) d) n = (if n \<in> K then None else map_of d n)" for K
    by (induction d) auto
  then show ?thesis by (simp only: remove_oldest_filter)
qed

lemma distinct_filter_keys: "distinct (map fst d) \<Longrightarrow> distinct (map fst (filter P d))"
  by (induction d) auto

lemma archives_mset: "mset (archives e d) = mset (filter (\<lambda>x. is_archive e (fst x)) d)"
  by (simp add: archives_def)

lemma archives_set: "set (archives e d) = {x \<in> set d. is_archive e (fst x)}"
  by (simp add: archives_def)

lemma archives_distinct:
  assumes "distinct (map fst d)"
  shows "distinct (map fst (archives e d))"
proof -
  have "mset (map fst (archives e d)) = mset (map fst (filter (\<lambda>x. is_archive e (fst x)) d))"
    by (simp add: archives_mset)
  with distinct_filter_keys [OF assms] show ?thesis by (metis mset_eq_imp_distinct_iff)
qed

lemma filter_take_keys:
  assumes "distinct (map fst xs)"
  shows "filter (\<lambda>x. fst x \<notin> fst ` set (take k xs)) xs = drop k xs"
proof -
  have "distinct (map fst (take k xs) @ map fst (drop k xs))"
    using assms by (simp flip: map_append)
  then have "filter (\<lambda>x. fst x \<notin> fst ` set (take k xs)) (take k xs @ drop k xs) = drop k xs"
    unfolding filter_append by (auto simp: filter_id_conv filter_empty_conv)
  then show ?thesis by simp
qed

lemma kept_archives:
  assumes "distinct (map fst d)"
  shows "length (filter (\<lambda>x. is_archive e (fst x)) (remove_oldest m (archives e d) d)) \<le> m"
proof -
  let ?k = "length (archives e d) - m"
  have "mset (filter (\<lambda>x. is_archive e (fst x)) (remove_oldest m (archives e d) d))
      = filter_mset (\<lambda>x. fst x \<notin> fst ` set (take ?k (archives e d))) (mset (archives e d))"
    unfolding remove_oldest_filter archives_mset mset_filter by (simp add: filter_filter_mset conj_commute)
  also have "\<dots> = mset (drop ?k (archives e d))"
    unfolding mset_filter [symmetric] filter_take_keys [OF archives_distinct [OF assms]] ..
  finally have "length (filter (\<lambda>x. is_archive e (fst x)) (remove_oldest m (archives e d) d)) = length (drop ?k (archives e d))"
    by (rule mset_eq_length)
  then show ?thesis by simp
qed

lemma evicted_older:
  assumes "b \<in> set (take k (archives e d))" and "a \<in> set (drop k (archives e d))"
  shows "mtime (snd b) \<le> mtime (snd a)"
proof -
  have "sorted (map (\<lambda>x. mtime (snd x)) (archives e d))"
    by (simp add: archives_def)
  then have "sorted (map (\<lambda>x. mtime (snd x)) (take k (archives e d)) @ map (\<lambda>x. mtime (snd x)) (drop k (archives e d)))"
    unfolding map_append [symmetric] append_take_drop_id .
  then show ?thesis using assms unfolding sorted_append by simp
qed


text \<open>
  What one rotation does: \<open>rotated\<close> is the directory right after the rename, and the result
  keeps of it every file that is no archive, and the newest archives.
\<close>

definition rotated :: "log_env \<Rightarrow> file_sink \<Rightarrow> string \<rightharpoonup> logfile" where
  "rotated e s = (map_of (log_dir s))(base_filename s := None, archive_name e := map_of (log_dir s) (base_filename s))"

definition keeps_newest :: "log_env \<Rightarrow> file_sink \<Rightarrow> file_sink \<Rightarrow> bool" where
  "keeps_newest e s s' \<longleftrightarrow>
     (\<forall>n. n \<noteq> base_filename s \<longrightarrow> map_of (log_dir s') n = rotated e s n
            \<or> map_of (log_dir s') n = None \<and> is_archive e n
              \<and> (\<forall>a f g. a \<noteq> base_filename s \<longrightarrow> is_archive e a \<longrightarrow> map_of (log_dir s') a = Some f \<longrightarrow> rotated e s n = Some g
                    \<longrightarrow> mtime g \<le> mtime f))
     \<and> length (filter (\<lambda>x. is_archive e (fst x) \<and> fst x \<noteq> base_filename s) (log_dir s')) \<le> max_files s"

lemma rename_healthy:
  assumes "sink_inv s" and "log_healthy e" and "archive_name e \<noteq> base_filename s"
  obtains d where "rename_file e (base_filename s) (archive_name e) (log_dir s) = Some d"
    and "distinct (map fst d)" and "map_of d = rotated e s"
proof -
  obtain f where f: "map_of (log_dir s) (base_filename s) = Some f" using assms(1) by (auto simp: sink_inv_def)
  let ?d = "fs_put (archive_name e) f (fs_remove (base_filename s) (log_dir s))"
  have "rename_file e (base_filename s) (archive_name e) (log_dir s) = Some ?d"
    using assms(2,3) f by (simp add: rename_file_def log_healthy_def)
  moreover have "distinct (map fst ?d)" using assms(1) by (simp add: sink_inv_def)
  moreover have "map_of ?d = rotated e s" using f assms(3) by (auto simp: rotated_def)
  ultimately show thesis by (rule that)
qed

lemma eviction:
  assumes d: "distinct (map fst d)" and m: "map_of (remove_oldest m (archives e d) d) n \<noteq> map_of d n"
  shows "map_of (remove_oldest m (archives e d) d) n = None \<and> is_archive e n
    \<and> (\<forall>a f g. is_archive e a \<longrightarrow> map_of (remove_oldest m (archives e d) d) a = Some f \<longrightarrow> map_of d n = Some g
          \<longrightarrow> mtime g \<le> mtime f)"
proof -
  let ?as = "archives e d" let ?k = "length ?as - m"
  have n: "n \<in> fst ` set (take ?k ?as)" and none: "map_of (remove_oldest m ?as d) n = None"
    using m by (auto simp: remove_oldest_lookup split: if_splits)
  have "is_archive e n" using n in_set_takeD [of _ ?k ?as] by (auto simp: archives_set)
  moreover have "mtime g \<le> mtime f"
    if a: "is_archive e a" "map_of (remove_oldest m ?as d) a = Some f" and g: "map_of d n = Some g" for a f g
  proof (rule evicted_older [where b = "(n, g)" and a = "(a, f)" and k = ?k, simplified])
    obtain h where h: "(n, h) \<in> set (take ?k ?as)" using n by auto
    then have "(n, h) \<in> set d" using in_set_takeD [of _ ?k ?as] by (auto simp: archives_set)
    with d g h show "(n, g) \<in> set (take ?k ?as)" by (metis map_of_eq_Some_iff option.inject)
    have af: "a \<notin> fst ` set (take ?k ?as)" "map_of d a = Some f"
      using a(2) by (auto simp: remove_oldest_lookup split: if_splits)
    then have "(a, f) \<in> set (take ?k ?as @ drop ?k ?as)"
      using a(1) map_of_SomeD [of d a f] by (simp add: archives_set)
    with af(1) show "(a, f) \<in> set (drop ?k ?as)" by (force simp del: append_take_drop_id)
  qed
  ultimately show ?thesis using none by blast
qed


lemma filter_fs_put_other:
  "\<not> P n \<Longrightarrow> length (filter (\<lambda>x. P (fst x)) (fs_put n f d)) = length (filter (\<lambda>x. P (fst x)) d)"
proof -
  have "map fst (filter (\<lambda>x. P (fst x)) (map (\<lambda>(m, g). (m, if m = n then f else g)) d)) = map fst (filter (\<lambda>x. P (fst x)) d)"
    by (induction d) auto
  then have "length (filter (\<lambda>x. P (fst x)) (map (\<lambda>(m, g). (m, if m = n then f else g)) d)) = length (filter (\<lambda>x. P (fst x)) d)"
    by (rule map_eq_imp_length_eq)
  moreover assume "\<not> P n"
  ultimately show ?thesis by (simp add: fs_put_def)
qed

lemma length_filter_imp: "(\<And>x. P x \<Longrightarrow> Q x) \<Longrightarrow> length (filter P xs) \<le> length (filter Q xs)"
  by (induction xs) auto

lemma rotate_healthy:
  assumes s: "sink_inv s" and e: "log_healthy e" and ne: "archive_name e \<noteq> base_filename s"
  obtains s' where "rotate e s = (Returned (), s')" and "sink_inv s'" and "base_content s' = []"
    and "keeps_newest e s s'" and "base_filename s' = base_filename s" and "max_size s' = max_size s"
    and "max_files s' = max_files s"
proof -
  obtain d where d: "rename_file e (base_filename s) (archive_name e) (log_dir s) = Some d"
      "distinct (map fst d)" "map_of d = rotated e s"
    by (rule rename_healthy [OF assms])
  let ?d = "remove_oldest (max_files s) (archives e d) d" and ?b = "base_filename s"
  let ?f = "\<lparr>fcontent = [], mtime = write_time e\<rparr>"
  let ?s = "s\<lparr>fd_open := True, log_dir := fs_put ?b ?f ?d, current_size := 0\<rparr>"
  have nb: "map_of ?d ?b = None" using d(3) ne by (simp add: remove_oldest_lookup rotated_def)
  have dd: "distinct (map fst ?d)" using d(2) by (simp add: remove_oldest_filter distinct_filter_keys)
  have "rotate e s = (Returned (), ?s)"
    using d(1) e nb by (simp add: rotate_def helper_open_def log_healthy_def Let_def)
  moreover have inv: "sink_inv ?s" "base_content ?s = []" using dd by (simp_all add: sink_inv_def base_content_def)
  moreover have "keeps_newest e s ?s"
  proof -
    let ?A = "\<lambda>n. is_archive e n \<and> n \<noteq> ?b"
    have "length (filter (\<lambda>x. ?A (fst x)) (log_dir ?s)) = length (filter (\<lambda>x. ?A (fst x)) ?d)"
      using filter_fs_put_other [of ?A ?b ?f ?d] by simp
    also have "\<dots> \<le> length (filter (\<lambda>x. is_archive e (fst x)) ?d)" by (rule length_filter_imp) simp
    also have "\<dots> \<le> max_files s" by (rule kept_archives [OF d(2)])
    finally have len: "length (filter (\<lambda>x. ?A (fst x)) (log_dir ?s)) \<le> max_files s" .
    have "map_of ?d n = rotated e s n \<or> map_of ?d n = None \<and> is_archive e n
        \<and> (\<forall>a f g. is_archive e a \<longrightarrow> map_of ?d a = Some f \<longrightarrow> rotated e s n = Some g \<longrightarrow> mtime g \<le> mtime f)" for n
      using eviction [OF d(2), of "max_files s" e n] unfolding d(3) by blast
    with len show ?thesis unfolding keeps_newest_def by (simp; blast)
  qed
  ultimately show thesis by (rule that) simp_all
qed

lemma sink_write_healthy:
  assumes s: "sink_inv s" and e: "log_healthy e"
  shows "(case helper_write e m s of (Returned _, s2) \<Rightarrow> (Returned (), s2\<lparr>current_size := k\<rparr>) | (r, s2) \<Rightarrow> (r, s2))
     = (Returned (), (helper_append e m s)\<lparr>current_size := k\<rparr>)"
    and "k = current_size s + length m \<Longrightarrow> sink_inv ((helper_append e m s)\<lparr>current_size := k\<rparr>)"
    and "base_content ((helper_append e m s)\<lparr>current_size := k\<rparr>) = base_content s @ m"
proof -
  have "fd_open s" using s by (simp add: sink_inv_def)
  then show "(case helper_write e m s of (Returned _, s2) \<Rightarrow> (Returned (), s2\<lparr>current_size := k\<rparr>) | (r, s2) \<Rightarrow> (r, s2))
     = (Returned (), (helper_append e m s)\<lparr>current_size := k\<rparr>)"
    using e by (simp add: helper_write_def log_healthy_def)
  show b: "base_content ((helper_append e m s)\<lparr>current_size := k\<rparr>) = base_content s @ m"
    by (simp add: helper_append_def base_content_def)
  show "sink_inv ((helper_append e m s)\<lparr>current_size := k\<rparr>)" if "k = current_size s + length m"
    using s b that by (simp add: sink_inv_def helper_append_def)
qed

lemma keeps_newest_append:
  assumes "keeps_newest e s s1" and "base_filename s1 = base_filename s"
  shows "keeps_newest e s ((helper_append e' m s1)\<lparr>current_size := k\<rparr>)"
proof -
  let ?A = "\<lambda>n. is_archive e n \<and> n \<noteq> base_filename s"
  have "length (filter (\<lambda>x. ?A (fst x)) (fs_put (base_filename s) f (log_dir s1))) = length (filter (\<lambda>x. ?A (fst x)) (log_dir s1))" for f
    using filter_fs_put_other [of ?A "base_filename s" f "log_dir s1"] by simp
  with assms show ?thesis by (simp add: keeps_newest_def helper_append_def)
qed

lemma new_sink_inv:
  assumes "log_healthy e" and "distinct (map fst d)" and "0 < msz" and "mfs \<le> 200000"
  shows "\<exists>s. custom_rotating_file_sink e n msz mfs False d = (Returned (), s) \<and> sink_inv s"
proof -
  let ?s = "\<lparr>base_filename = n, max_size = msz, max_files = mfs, current_size = 0, fd_open = False, log_dir = d\<rparr>"
  let ?d = "if map_of d n = None then fs_put n \<lparr>fcontent = [], mtime = write_time e\<rparr> d else d"
  let ?t = "?s\<lparr>fd_open := True, log_dir := ?d\<rparr>"
  have "map_of ?d n \<noteq> None" by simp
  then have "n \<in> dom (map_of ?d)" by (rule domIff [THEN iffD2])
  moreover have "distinct (map fst ?d)" using assms(2) by simp
  ultimately have "sink_inv (?t\<lparr>current_size := length (base_content ?t)\<rparr>)"
    by (simp only: sink_inv_def base_content_def file_sink.simps simp_thms file_sink.surjective file_sink.update_convs)
  moreover have "helper_open e False ?s = (Returned (), ?t)"
    using assms(1) by (simp add: helper_open_def log_healthy_def Let_def)
  ultimately show ?thesis using assms(3,4) by (simp add: custom_rotating_file_sink_def Let_def)
qed

lemma shouldLog_spacing:
  assumes "shouldLog key i t0 m = (True, m')" and "shouldLog key i t1 m' = (True, m'')"
  shows "i * 1000000 \<le> int t1 - int t0"
proof -
  have "m' key = Some t0" using assms(1) by (auto simp: shouldLog_def split: option.splits if_splits)
  with assms(2) have "i \<le> (int t1 - int t0) div 1000000" by (auto simp: shouldLog_def split: if_splits)
  then show ?thesis by linarith
qed

section \<open>Properties\<close>

text \<open>
  One record in the log file. While the operating system serves the sink, a record that
  fits (or finds the file empty) is appended to the base file and nothing else changes;
  otherwise the base file is renamed, the record starts a new base file, at most
  \<open>max_files\<close> renamed files stay, and every renamed file that was deleted is no newer than
  the ones that stay. In both cases the sink's byte count is the size of the file, and the
  file is larger than the limit only when it holds a single record. A renamed file replaces
  one of the same name (two rotations within the same second): \<open>rotated\<close> maps the name to
  the new file whatever it held before.
\<close>

theorem sink_appends_or_rotates:
  assumes s: "sink_inv s" and e: "log_healthy e" and ne: "archive_name e \<noteq> base_filename s"
  shows "\<exists>s'. sink_it e m s = (Returned (), s') \<and> sink_inv s' \<and> length (base_content s') \<le> max (max_size s) (length m)
     \<and> (if current_size s + length m \<le> max_size s \<or> current_size s = 0
        then log_dir s' = fs_put (base_filename s) \<lparr>fcontent = base_content s @ m, mtime = write_time e\<rparr> (log_dir s)
        else base_content s' = m \<and> keeps_newest e s s')"
proof (cases "current_size s + length m \<le> max_size s \<or> current_size s = 0")
  case True
  let ?s = "(helper_append e m s)\<lparr>current_size := current_size s + length m\<rparr>"
  have size: "helper_size s = Returned (current_size s)" "helper_flush e s = Returned ()"
    using s e by (simp_all add: helper_size_def sink_inv_def helper_flush_def log_healthy_def)
  have "sink_it e m s = (Returned (), ?s)"
    using True size sink_write_healthy(1) [OF s e, where m = m and k = "current_size s + length m"]
    by (auto simp: sink_it_def Let_def)
  moreover have "length (base_content ?s) \<le> max (max_size s) (length m)"
    using True s unfolding sink_write_healthy(3) [OF s e] by (auto simp: sink_inv_def)
  ultimately show ?thesis using True sink_write_healthy(2) [OF s e, where m = m, OF refl] by (simp add: helper_append_def)
next
  case False
  obtain s1 where s1: "rotate e s = (Returned (), s1)" "sink_inv s1" "base_content s1 = []" "keeps_newest e s s1"
      "base_filename s1 = base_filename s" "max_size s1 = max_size s" "max_files s1 = max_files s"
    by (rule rotate_healthy [OF assms])
  have size: "helper_size s = Returned (current_size s)" "helper_flush e s = Returned ()"
    using s e by (simp_all add: helper_size_def sink_inv_def helper_flush_def log_healthy_def)
  let ?s = "(helper_append e m s1)\<lparr>current_size := length m\<rparr>"
  have "sink_it e m s = (Returned (), ?s)"
    using False size s1(1) sink_write_healthy(1) [OF s1(2) e, where m = m and k = "length m"]
    by (simp add: sink_it_def Let_def)
  moreover have "length m = current_size s1 + length m" using s1(2,3) by (simp add: sink_inv_def)
  note sink_write_healthy(2) [OF s1(2) e this]
  moreover have "base_content ?s = m" using sink_write_healthy(3) [OF s1(2) e] s1(3) by simp
  ultimately show ?thesis using False keeps_newest_append [OF s1(4,5), where e' = e and m = m and k = "length m"] by simp
qed

definition noon :: tm where
  "noon = \<lparr>year = 2025, month = 6, mday = 8, hour = 12, minute = 0, second = 0\<rparr>"

theorem sink_appends_or_rotates_witness:
  "\<exists>s'. sink_it \<lparr>exe_link = Some ''/opt/gw'', localtime = noon, write_time = 7, rename_ok = True, scan_ok = True,
                 open_ok = True, write_stops = None, flush_ok = True\<rparr> ''cd''
        \<lparr>base_filename = ''a.log'', max_size = 3, max_files = 1, current_size = 2, fd_open = True,
         log_dir = [(''a.log'', \<lparr>fcontent = ''ab'', mtime = 5\<rparr>)]\<rparr> = (Returned (), s')
     \<and> base_content s' = ''cd''"
  using sink_appends_or_rotates
    [where e = "\<lparr>exe_link = Some ''/opt/gw'', localtime = noon, write_time = 7, rename_ok = True, scan_ok = True,
                 open_ok = True, write_stops = None, flush_ok = True\<rparr>" and m = "''cd''"
       and s = "\<lparr>base_filename = ''a.log'', max_size = 3, max_files = 1, current_size = 2, fd_open = True,
         log_dir = [(''a.log'', \<lparr>fcontent = ''ab'', mtime = 5\<rparr>)]\<rparr>"]
  by (auto simp: sink_inv_def log_healthy_def archive_name_def get_process_name_def base_content_def)


text \<open>
  A rotation whose rename fails destroys the log: the base file is reopened with
  truncation, so what it held is gone, the record that triggered the rotation is not
  written either, and no renamed copy exists.
\<close>

theorem failed_rename_empties_log:
  assumes s: "sink_inv s" and e: "\<not> rename_ok e" "open_ok e" "flush_ok e"
    and full: "0 < current_size s" "max_size s < current_size s + length m"
  shows "\<exists>s'. sink_it e m s = (Threw ''Failed to rotate file'', s') \<and> base_content s' = [] \<and> sink_inv s'
     \<and> (\<forall>n. n \<noteq> base_filename s \<longrightarrow> map_of (log_dir s') n = map_of (log_dir s) n)"
proof -
  let ?s = "s\<lparr>fd_open := True, current_size := 0,
      log_dir := fs_put (base_filename s) \<lparr>fcontent = [], mtime = write_time e\<rparr> (log_dir s)\<rparr>"
  have "rename_file e (base_filename s) (archive_name e) (log_dir s) = None"
    using e by (simp add: rename_file_def split: option.split)
  then have "rotate e s = (Threw ''Failed to rotate file'', ?s)"
    using e by (simp add: rotate_def helper_open_def Let_def)
  moreover have "helper_size s = Returned (current_size s)" "helper_flush e s = Returned ()"
    using s e by (simp_all add: helper_size_def sink_inv_def helper_flush_def)
  ultimately have "sink_it e m s = (Threw ''Failed to rotate file'', ?s)" using full by (simp add: sink_it_def Let_def)
  with s show ?thesis by (simp add: sink_inv_def base_content_def)
qed

theorem failed_rename_empties_log_witness:
  "\<exists>s'. sink_it \<lparr>exe_link = Some ''/opt/gw'', localtime = noon, write_time = 7, rename_ok = False, scan_ok = True,
                 open_ok = True, write_stops = None, flush_ok = True\<rparr> ''cd''
        \<lparr>base_filename = ''a.log'', max_size = 3, max_files = 1, current_size = 2, fd_open = True,
         log_dir = [(''a.log'', \<lparr>fcontent = ''ab'', mtime = 5\<rparr>)]\<rparr> = (Threw ''Failed to rotate file'', s')
     \<and> base_content s' = []"
  using failed_rename_empties_log
    [where e = "\<lparr>exe_link = Some ''/opt/gw'', localtime = noon, write_time = 7, rename_ok = False, scan_ok = True,
                 open_ok = True, write_stops = None, flush_ok = True\<rparr>" and m = "''cd''"
       and s = "\<lparr>base_filename = ''a.log'', max_size = 3, max_files = 1, current_size = 2, fd_open = True,
         log_dir = [(''a.log'', \<lparr>fcontent = ''ab'', mtime = 5\<rparr>)]\<rparr>"]
  by (auto simp: sink_inv_def base_content_def)

end
