(* ===== verification/Log_Frontend.thy ===== *)
theory Log_Frontend
  imports Logging "HOL-Library.Sublist"
begin

text \<open>
  The front of the logging component: the configuration structure read from a JSON file
  (\<open>LoggerConfig\<close> in \<open>common/log/logger_impl.h\<close>), the class \<open>Logger\<close> that forwards to the
  implementation (\<open>logger.cc\<close>), and the macros \<open>LOG\<close> and \<open>LOG_TIME\<close> through which the program
  writes its records (\<open>logger.h\<close>). A JSON document is a tree; how a real number converts to
  \<open>int\<close> is the parameter \<open>trunc\<close>.
\<close>

section \<open>The configuration file\<close>

datatype json =
    JNull
  | JBool bool
  | JInt int
  | JReal "64 word"
  | JString string
  | JArray "json list"
  | JObject "(string \<times> json) list"

text \<open>
  \<open>value\<close>: the entry of an object or the default; it throws on anything but an object, and
  when the entry does not convert to the type of the default. An exception is \<^const>\<open>None\<close>.
\<close>

definition json_value :: "(json \<Rightarrow> 'a option) \<Rightarrow> json \<Rightarrow> string \<Rightarrow> 'a \<Rightarrow> 'a option" where
  "json_value conv j key dflt =
     (case j of
        JObject es \<Rightarrow> (case map_of es key of None \<Rightarrow> Some dflt | Some v \<Rightarrow> conv v)
      | _ \<Rightarrow> None)"

fun as_string :: "json \<Rightarrow> string option" where
  "as_string (JString s) = Some s"
| "as_string _ = None"

fun as_bool :: "json \<Rightarrow> bool option" where
  "as_bool (JBool b) = Some b"
| "as_bool _ = None"

fun as_int :: "(64 word \<Rightarrow> int) \<Rightarrow> json \<Rightarrow> int option" where
  "as_int trunc (JInt i) = Some (signed_take_bit 31 i)"
| "as_int trunc (JReal x) = Some (trunc x)"
| "as_int trunc (JBool b) = Some (if b then 1 else 0)"
| "as_int trunc _ = None"

record logger_config =
  lc_fileName :: string
  lc_type :: string
  lc_level :: string
  lc_maxFileSize :: int
  lc_maxBackupIndex :: int
  lc_isAsync :: bool
  lc_flushEvery :: int
  lc_flushOnLevel :: string
  lc_LogConsoleLevel :: string
  lc_LogFileLevel :: string
  lc_LogPattern :: string

definition default_config :: logger_config where
  "default_config =
     \<lparr>lc_fileName = ''./'', lc_type = ''console'', lc_level = ''info'', lc_maxFileSize = 60, lc_maxBackupIndex = 5,
      lc_isAsync = False, lc_flushEvery = 1, lc_flushOnLevel = ''error'', lc_LogConsoleLevel = ''info'',
      lc_LogFileLevel = ''info'', lc_LogPattern = default_pattern\<rparr>"

text \<open>The assignments of the constructor in their order; each one may throw.\<close>

definition config_assignments :: "(64 word \<Rightarrow> int) \<Rightarrow> (json \<Rightarrow> logger_config \<Rightarrow> logger_config option) list" where
  "config_assignments trunc =
     [\<lambda>j c. map_option (\<lambda>v. c\<lparr>lc_fileName := v\<rparr>) (json_value as_string j ''FileName'' (lc_fileName c)),
      \<lambda>j c. map_option (\<lambda>v. c\<lparr>lc_type := v\<rparr>) (json_value as_string j ''LogType'' (lc_type c)),
      \<lambda>j c. map_option (\<lambda>v. c\<lparr>lc_level := v\<rparr>) (json_value as_string j ''LogLevel'' (lc_level c)),
      \<lambda>j c. map_option (\<lambda>v. c\<lparr>lc_maxFileSize := v\<rparr>) (json_value (as_int trunc) j ''MaxFileSize'' (lc_maxFileSize c)),
      \<lambda>j c. map_option (\<lambda>v. c\<lparr>lc_maxBackupIndex := v\<rparr>)
              (json_value (as_int trunc) j ''MaxBackupIndex'' (lc_maxBackupIndex c)),
      \<lambda>j c. map_option (\<lambda>v. c\<lparr>lc_isAsync := v\<rparr>) (json_value as_bool j ''IsAsync'' (lc_isAsync c)),
      \<lambda>j c. map_option (\<lambda>v. c\<lparr>lc_flushEvery := v\<rparr>) (json_value (as_int trunc) j ''FlushEvery'' (lc_flushEvery c)),
      \<lambda>j c. map_option (\<lambda>v. c\<lparr>lc_flushOnLevel := v\<rparr>) (json_value as_string j ''FlushOnLevel'' (lc_flushOnLevel c)),
      \<lambda>j c. map_option (\<lambda>v. c\<lparr>lc_LogConsoleLevel := v\<rparr>)
              (json_value as_string j ''ConsoleLogLevel'' (lc_LogConsoleLevel c)),
      \<lambda>j c. map_option (\<lambda>v. c\<lparr>lc_LogFileLevel := v\<rparr>) (json_value as_string j ''FileLogLevel'' (lc_LogFileLevel c)),
      \<lambda>j c. map_option (\<lambda>v. c\<lparr>lc_LogPattern := v\<rparr>) (json_value as_string j ''LogPattern'' (lc_LogPattern c))]"

fun run_assignments :: "(json \<Rightarrow> 'c \<Rightarrow> 'c option) list \<Rightarrow> json \<Rightarrow> 'c \<Rightarrow> 'c" where
  "run_assignments [] j c = c"
| "run_assignments (a # as) j c = (case a j c of None \<Rightarrow> c | Some c' \<Rightarrow> run_assignments as j c')"

datatype config_file = CannotOpen | NotJson | Parsed json

definition LoggerConfig :: "(64 word \<Rightarrow> int) \<Rightarrow> config_file \<Rightarrow> logger_config" where
  "LoggerConfig trunc f =
     (case f of
        CannotOpen \<Rightarrow> default_config
      | NotJson \<Rightarrow> default_config
      | Parsed j \<Rightarrow>
          (case json_value Some j ''LoggerConfig'' (JObject []) of
             None \<Rightarrow> default_config
           | Some lc \<Rightarrow> run_assignments (config_assignments trunc) lc default_config))"

text \<open>
  Initialising from a file: \<open>LoggerConfig Config();\<close> declares a function, everything else is
  commented out, and success is reported.
\<close>

definition Init_file :: "string \<Rightarrow> logger_impl \<Rightarrow> bool \<times> logger_impl" where
  "Init_file path g = (True, g)"

section \<open>The class \<open>Logger\<close>\<close>

record logger_object =
  pImpl :: logger_impl

definition Logger_new :: logger_object where
  "Logger_new = \<lparr>pImpl = LoggerImpl\<rparr>"

text \<open>The instance is created by the first call and is the same object afterwards.\<close>

definition Logger_Instance :: "logger_object option \<Rightarrow> logger_object" where
  "Logger_Instance st = (case st of None \<Rightarrow> Logger_new | Some l \<Rightarrow> l)"

definition Logger_Init ::
  "log_env \<Rightarrow> (string \<Rightarrow> string option) \<Rightarrow> nat \<Rightarrow> string \<Rightarrow> logger_type \<Rightarrow> level \<Rightarrow> int \<Rightarrow> int \<Rightarrow> bool
     \<Rightarrow> directory \<Rightarrow> logger_object \<Rightarrow> bool outcome \<times> logger_object" where
  "Logger_Init e getenv cores n type lv mib backups isAsync d l =
     (case Init e getenv cores n type lv mib backups isAsync d (pImpl l) of (r, g) \<Rightarrow> (r, l\<lparr>pImpl := g\<rparr>))"

definition Logger_Uinit :: "logger_object \<Rightarrow> logger_object" where
  "Logger_Uinit l = l\<lparr>pImpl := Uinit (pImpl l)\<rparr>"

definition Logger_Log :: "log_env \<Rightarrow> level \<Rightarrow> string \<Rightarrow> logger_object \<Rightarrow> logger_object" where
  "Logger_Log e lv msg l = l\<lparr>pImpl := log e lv msg (pImpl l)\<rparr>"

definition Logger_setFlushEvery :: "nat \<Rightarrow> logger_object \<Rightarrow> logger_object" where
  "Logger_setFlushEvery n l = l\<lparr>pImpl := setFlushEvery n (pImpl l)\<rparr>"

definition Logger_setFlushOnLevel :: "level \<Rightarrow> logger_object \<Rightarrow> logger_object" where
  "Logger_setFlushOnLevel lv l = l\<lparr>pImpl := setFlushOnLevel lv (pImpl l)\<rparr>"

definition Logger_setLogLevel :: "level \<Rightarrow> logger_object \<Rightarrow> logger_object" where
  "Logger_setLogLevel lv l = l\<lparr>pImpl := setLogLevel lv (pImpl l)\<rparr>"

definition Logger_setLogPattern :: "string \<Rightarrow> logger_object \<Rightarrow> logger_object" where
  "Logger_setLogPattern p l = l\<lparr>pImpl := setLogPattern p (pImpl l)\<rparr>"

definition Logger_setLogConsoleLevel :: "level \<Rightarrow> logger_object \<Rightarrow> logger_object" where
  "Logger_setLogConsoleLevel lv l = l\<lparr>pImpl := setLogConsoleLevel lv (pImpl l)\<rparr>"

definition Logger_setLogFileLevel :: "level \<Rightarrow> logger_object \<Rightarrow> logger_object" where
  "Logger_setLogFileLevel lv l = l\<lparr>pImpl := setLogFileLevel lv (pImpl l)\<rparr>"

definition Logger_setLogBufferSize :: "nat \<Rightarrow> logger_object \<Rightarrow> logger_object" where
  "Logger_setLogBufferSize n l = l\<lparr>pImpl := setLogBufferSize n (pImpl l)\<rparr>"

section \<open>Log statements\<close>

text \<open>A statement builds a temporary stream; its destructor at the end of the statement logs the text.\<close>

record log_stream =
  ls_level :: level
  ls_text :: string

definition LogStream :: "level \<Rightarrow> log_stream" where
  "LogStream lv = \<lparr>ls_level = lv, ls_text = []\<rparr>"

definition destroy_LogStream :: "log_env \<Rightarrow> log_stream \<Rightarrow> logger_object \<Rightarrow> logger_object" where
  "destroy_LogStream e st l = Logger_Log e (ls_level st) (ls_text st) l"

definition LOG :: "log_env \<Rightarrow> level \<Rightarrow> string list \<Rightarrow> logger_object \<Rightarrow> logger_object" where
  "LOG e lv parts l =
     destroy_LogStream e (foldl (\<lambda>st p. st\<lparr>ls_text := ls_text st @ p\<rparr>) (LogStream lv) parts) l"

definition LOG_TIME ::
  "log_env \<Rightarrow> nat \<Rightarrow> string \<Rightarrow> nat \<Rightarrow> level \<Rightarrow> int \<Rightarrow> string list
     \<Rightarrow> (string \<rightharpoonup> nat) \<times> logger_object \<Rightarrow> (string \<rightharpoonup> nat) \<times> logger_object" where
  "LOG_TIME e now src ln lv interval_ms parts st =
     (case shouldLog (src @ '':'' @ dec_nat ln) interval_ms now (fst st) of
        (ok, last_times) \<Rightarrow> (last_times, if ok then LOG e lv parts (snd st) else snd st))"

lemma LOG_logs_concat: "LOG e lv parts l = Logger_Log e lv (concat parts) l"
proof -
  have "foldl (\<lambda>st p. st\<lparr>ls_text := ls_text st @ p\<rparr>) st parts = st\<lparr>ls_text := ls_text st @ concat parts\<rparr>"
    for st :: log_stream
    by (induction parts arbitrary: st) simp_all
  then show ?thesis by (simp add: LOG_def LogStream_def destroy_LogStream_def)
qed

section \<open>Rate of a limited statement\<close>

text \<open>All passes of one thread over one \<open>LOG_TIME\<close> statement, each with its time and its text.\<close>

definition limited_run ::
  "log_env \<Rightarrow> string \<Rightarrow> nat \<Rightarrow> level \<Rightarrow> int \<Rightarrow> (nat \<times> string list) list
     \<Rightarrow> (string \<rightharpoonup> nat) \<times> logger_object \<Rightarrow> (string \<rightharpoonup> nat) \<times> logger_object" where
  "limited_run e src ln lv i calls st = foldl (\<lambda>st c. LOG_TIME e (fst c) src ln lv i (snd c) st) st calls"

definition plain_run :: "log_env \<Rightarrow> level \<Rightarrow> (nat \<times> string list) list \<Rightarrow> logger_object \<Rightarrow> logger_object" where
  "plain_run e lv calls l = foldl (\<lambda>l c. LOG e lv (snd c) l) l calls"

lemma limited_run_Cons:
  "limited_run e src ln lv i (c # cs) st = limited_run e src ln lv i cs (LOG_TIME e (fst c) src ln lv i (snd c) st)"
  by (simp add: limited_run_def)

lemma plain_run_Cons: "plain_run e lv (c # cs) l = plain_run e lv cs (LOG e lv (snd c) l)"
  by (simp add: plain_run_def)

lemma limited_run_after:
  assumes "m (src @ '':'' @ dec_nat ln) = Some t0" and "sorted (map fst calls)"
    and "\<forall>c \<in> set calls. t0 \<le> fst c \<and> fst c \<le> b" and "t0 \<le> b" and "0 \<le> i"
  shows "\<exists>adm. subseq adm calls \<and> snd (limited_run e src ln lv i calls (m, l)) = plain_run e lv adm l
     \<and> int (length adm) * (i * 1000000) \<le> int b - int t0"
  using assms(1-4)
proof (induction calls arbitrary: m t0 l)
  case Nil
  then show ?case by (intro exI [of _ "[]"]) (simp add: limited_run_def plain_run_def)
next
  case (Cons c cs)
  let ?key = "src @ '':'' @ dec_nat ln"
  have rest: "sorted (map fst cs)" "\<forall>x \<in> set cs. fst c \<le> fst x \<and> fst x \<le> b" "fst c \<le> b" "t0 \<le> fst c"
    using Cons.prems(2,3) by auto
  show ?case
  proof (cases "i \<le> (int (fst c) - int t0) div 1000000")
    case True
    then have gap: "i * 1000000 \<le> int (fst c) - int t0" by linarith
    have step: "LOG_TIME e (fst c) src ln lv i (snd c) (m, l) = (m(?key \<mapsto> fst c), LOG e lv (snd c) l)"
      using True Cons.prems(1) by (simp add: LOG_TIME_def shouldLog_def)
    let ?m = "m(?key \<mapsto> fst c)"
    have "?m ?key = Some (fst c)" by simp
    from Cons.IH [where m = ?m, OF this rest(1-3)] obtain adm where adm: "subseq adm cs"
        "snd (limited_run e src ln lv i cs (m(?key \<mapsto> fst c), LOG e lv (snd c) l)) = plain_run e lv adm (LOG e lv (snd c) l)"
        "int (length adm) * (i * 1000000) \<le> int b - int (fst c)"
      by blast
    from adm(3) gap have "int (length (c # adm)) * (i * 1000000) \<le> int b - int t0" by (simp add: algebra_simps)
    with adm step show ?thesis
      by (intro exI [of _ "c # adm"]) (simp add: limited_run_Cons plain_run_Cons)
  next
    case False
    then have "LOG_TIME e (fst c) src ln lv i (snd c) (m, l) = (m, l)"
      using Cons.prems(1) by (simp add: LOG_TIME_def shouldLog_def)
    moreover have "\<forall>x \<in> set cs. t0 \<le> fst x \<and> fst x \<le> b" using Cons.prems(3) by simp
    ultimately show ?thesis
      using Cons.IH [where m = m and l = l, OF Cons.prems(1) rest(1) _ Cons.prems(4)]
      by (auto simp: limited_run_Cons intro: list_emb_Cons)
  qed
qed

section \<open>Files with one bad entry\<close>

definition config_entries :: "logger_config \<Rightarrow> (string \<times> json) list" where
  "config_entries c =
     [(''FileName'', JString (lc_fileName c)), (''LogType'', JString (lc_type c)), (''LogLevel'', JString (lc_level c)),
      (''MaxFileSize'', JInt (lc_maxFileSize c)), (''MaxBackupIndex'', JInt (lc_maxBackupIndex c)),
      (''IsAsync'', JBool (lc_isAsync c)), (''FlushEvery'', JInt (lc_flushEvery c)),
      (''FlushOnLevel'', JString (lc_flushOnLevel c)), (''ConsoleLogLevel'', JString (lc_LogConsoleLevel c)),
      (''FileLogLevel'', JString (lc_LogFileLevel c)), (''LogPattern'', JString (lc_LogPattern c))]"

definition config_document :: "(string \<times> json) list \<Rightarrow> config_file" where
  "config_document es = Parsed (JObject [(''LoggerConfig'', JObject es)])"

definition int32 :: "int \<Rightarrow> bool" where
  "int32 i \<longleftrightarrow> - (2 ^ 31) \<le> i \<and> i < 2 ^ 31"

lemma int32_take_bit: "int32 i \<Longrightarrow> signed_take_bit 31 i = i"
  by (simp add: int32_def signed_take_bit_int_eq_self)

definition config_int32 :: "logger_config \<Rightarrow> bool" where
  "config_int32 c \<longleftrightarrow> int32 (lc_maxFileSize c) \<and> int32 (lc_maxBackupIndex c) \<and> int32 (lc_flushEvery c)"

lemma config_length: "length (config_entries c) = 11"
  by (simp add: config_entries_def)

lemmas config_eval = LoggerConfig_def config_document_def config_assignments_def config_entries_def json_value_def
  default_config_def int32_take_bit

section \<open>Properties\<close>

text \<open>
  C37. The logger configuration is read back from the document that lists its fields, and a
  bad entry does not give the default configuration, as the warning of the code says: when
  the entry of the \<open>k\<close>-th field is null, the fields before it keep the values of the file
  and only the others have their defaults.
\<close>

theorem config_file_prefix_loaded:
  assumes "config_int32 c" and "k < 11"
  shows "LoggerConfig trunc (config_document (config_entries c)) = c
     \<and> config_entries (LoggerConfig trunc (config_document ((config_entries c)[k := (fst (config_entries c ! k), JNull)])))
       = take k (config_entries c) @ drop k (config_entries default_config)"
proof -
  have ints: "int32 (lc_maxFileSize c)" "int32 (lc_maxBackupIndex c)" "int32 (lc_flushEvery c)"
    using assms(1) by (simp_all add: config_int32_def)
  have all: "LoggerConfig trunc (config_document (config_entries c)) = c"
    using ints by (simp add: config_eval)
  have "k = 0 \<or> k = 1 \<or> k = 2 \<or> k = 3 \<or> k = 4 \<or> k = 5 \<or> k = 6 \<or> k = 7 \<or> k = 8 \<or> k = 9 \<or> k = 10"
    using assms(2) by presburger
  with ints all show ?thesis
    by (elim disjE) (simp_all add: config_eval)
qed

theorem config_file_prefix_loaded_witness:
  "lc_level (LoggerConfig (\<lambda>_. 0) (config_document [(''FileName'', JString ''gw.log''), (''LogType'', JNull),
      (''LogLevel'', JString ''debug''), (''MaxFileSize'', JInt 10), (''MaxBackupIndex'', JInt 3), (''IsAsync'', JBool True),
      (''FlushEvery'', JInt 2), (''FlushOnLevel'', JString ''warn''), (''ConsoleLogLevel'', JString ''warn''),
      (''FileLogLevel'', JString ''debug''), (''LogPattern'', JString ''%v'')])) = ''info''"
  using config_file_prefix_loaded
    [of "\<lparr>lc_fileName = ''gw.log'', lc_type = ''both'', lc_level = ''debug'', lc_maxFileSize = 10,
          lc_maxBackupIndex = 3, lc_isAsync = True, lc_flushEvery = 2, lc_flushOnLevel = ''warn'',
          lc_LogConsoleLevel = ''warn'', lc_LogFileLevel = ''debug'', lc_LogPattern = ''%v''\<rparr>" 1 "\<lambda>_. 0"]
  by (simp add: config_int32_def int32_def config_entries_def default_config_def)

text \<open>
  C39. A rate-limited log statement: the passes of a thread over it log a subsequence of the
  records, the first one included, and in a span of \<open>b - a\<close> nanoseconds no more than one
  plus as many as the interval fits into the span.
\<close>

theorem log_time_rate_bounded:
  assumes "m (src @ '':'' @ dec_nat ln) = None" and "sorted (map fst (c # calls))"
    and "\<forall>x \<in> set (c # calls). a \<le> fst x \<and> fst x \<le> b" and "0 \<le> i"
  shows "\<exists>adm. subseq adm calls
     \<and> snd (limited_run e src ln lv i (c # calls) (m, l)) = plain_run e lv (c # adm) l
     \<and> int (length adm) * (i * 1000000) \<le> int b - int a"
proof -
  let ?m = "m(src @ '':'' @ dec_nat ln \<mapsto> fst c)"
  have step: "LOG_TIME e (fst c) src ln lv i (snd c) (m, l) = (?m, LOG e lv (snd c) l)"
    using assms(1) by (simp add: LOG_TIME_def shouldLog_def)
  have "?m (src @ '':'' @ dec_nat ln) = Some (fst c)" by simp
  moreover have "sorted (map fst calls)" "\<forall>x \<in> set calls. fst c \<le> fst x \<and> fst x \<le> b" "fst c \<le> b"
    using assms(2,3) by auto
  ultimately obtain adm where "subseq adm calls"
      "snd (limited_run e src ln lv i calls (?m, LOG e lv (snd c) l)) = plain_run e lv adm (LOG e lv (snd c) l)"
      "int (length adm) * (i * 1000000) \<le> int b - int (fst c)"
    using limited_run_after [where m = ?m and calls = calls and b = b and l = "LOG e lv (snd c) l"] assms(4) by blast
  with step assms(3) show ?thesis
    by (intro exI [of _ adm]) (auto simp: limited_run_Cons plain_run_Cons)
qed

definition quiet_env :: log_env where
  "quiet_env = \<lparr>exe_link = Some ''/opt/gw'', localtime = noon, write_time = 7, rename_ok = True, scan_ok = True,
     open_ok = True, write_stops = None, flush_ok = True\<rparr>"

theorem log_time_rate_bounded_witness:
  "\<exists>adm. subseq adm [(2000000, [''b'']), (7000000, [''c''])]
     \<and> snd (limited_run quiet_env ''main.cc'' 12 Info 5 [(1000000, [''a'']), (2000000, [''b'']), (7000000, [''c''])] (Map.empty, Logger_new))
         = plain_run quiet_env Info ((1000000, [''a'']) # adm) Logger_new
     \<and> int (length adm) * (5 * 1000000) \<le> int 7000000 - int 1000000"
  by (rule log_time_rate_bounded) simp_all

end
