(* ===== verification/Gateway_Main.thy ===== *)
theory Gateway_Main
  imports Config_Parser Iec104_Server Iec104_Client Redis_Store Log_Frontend
begin

text \<open>
  The entry point \<open>core/main.cc\<close>: the logger is set up for the console, the configuration is
  loaded, the defaults of the Redis connections are set, the IEC 104 test server is started
  in a detached thread, the IEC 104 test client runs, and the program waits for the enter
  key. The other applications are commented out in the source. The characters typed are a
  list; at its end \<open>std::cin.get()\<close> keeps returning the end-of-file mark.
\<close>

record gateway =
  gw_logger :: logger_object
  gw_config :: "config_data option"
  gw_redis :: redis_defaults
  gw_server_thread :: bool

definition gateway_start :: gateway where
  "gateway_start =
     \<lparr>gw_logger = Logger_Instance None, gw_config = None,
      gw_redis = \<lparr>default_unix_socket_path = [], default_host = [], default_port = 0\<rparr>, gw_server_thread = False\<rparr>"

definition newline :: char where
  "newline = CHR 0x0A"

text \<open>The waiting loop; it does not return when the input ends without a newline.\<close>

partial_function (option) wait_newline :: "string \<Rightarrow> string option" where
  "wait_newline inp =
     (case inp of
        [] \<Rightarrow> wait_newline []
      | c # cs \<Rightarrow> if c = newline then Some cs else wait_newline cs)"

datatype exit_status = Exited int | Aborted fault | WaitsForever

text \<open>
  \<open>main\<close> in a fresh process. The logger needs the environment of its call; \<open>create\<close> and
  \<open>during\<close> are those of \<open>testFunction\<close>.
\<close>

definition setup_logger :: "log_env \<Rightarrow> (string \<Rightarrow> string option) \<Rightarrow> nat \<Rightarrow> gateway \<Rightarrow> gateway" where
  "setup_logger e getenv cores g =
     g\<lparr>gw_logger := snd (Logger_Init e getenv cores ''log/myapp.log'' Console Info 60 5 False []
                          (Logger_setFlushOnLevel Info (gw_logger g)))\<rparr>"

definition say :: "log_env \<Rightarrow> level \<Rightarrow> string \<Rightarrow> gateway \<Rightarrow> gateway" where
  "say e lv msg g = g\<lparr>gw_logger := LOG e lv [msg] (gw_logger g)\<rparr>"

definition main ::
  "log_env \<Rightarrow> (string \<Rightarrow> string option) \<Rightarrow> nat \<Rightarrow> yaml_conv \<Rightarrow> yaml result \<Rightarrow> bool
    \<Rightarrow> (iec104_client \<Rightarrow> iec104_client) \<Rightarrow> string \<Rightarrow> exit_status \<times> gateway" where
  "main e getenv cores cv file create during inp =
     (let g1 = setup_logger e getenv cores gateway_start in
      case Config_init cv file (gw_config g1) of
        (False, cfg) \<Rightarrow> (Exited (- 1), say e Error ''Failed to load configuration.'' (g1\<lparr>gw_config := cfg\<rparr>))
      | (True, cfg) \<Rightarrow>
          let g2 = g1\<lparr>gw_config := cfg, gw_redis := setDefaultConnectionInfo [] ''127.0.0.1'' 6380 (gw_redis g1),
                      gw_server_thread := True\<rparr> in
          (case testFunction create during of
             Inl f \<Rightarrow> (Aborted f, g2)
           | Inr _ \<Rightarrow>
               (case wait_newline inp of
                  None \<Rightarrow> (WaitsForever, g2)
                | Some _ \<Rightarrow> (Exited 0, say e Info ''Press Enter to stop the program...'' g2))))"

section \<open>Waiting\<close>

definition first_line :: "string \<Rightarrow> string \<Rightarrow> bool" where
  "first_line inp rest \<longleftrightarrow> (\<exists>pre. newline \<notin> set pre \<and> inp = pre @ newline # rest)"

lemma first_line_here: "first_line (newline # cs) cs"
  unfolding first_line_def by (rule exI [where x = "[]"]) simp

lemma first_line_later: "c \<noteq> newline \<Longrightarrow> first_line cs rest \<Longrightarrow> first_line (c # cs) rest"
  unfolding first_line_def by (metis append_Cons set_ConsD)

lemma wait_newline_result:
  assumes "wait_newline inp = Some rest"
  shows "first_line inp rest"
proof (rule wait_newline.raw_induct [where P = first_line, OF _ assms])
  fix wait inp y
  assume IH: "\<And>x y. wait x = Some y \<Longrightarrow> first_line x y"
    and eq: "(case inp of [] \<Rightarrow> wait [] | c # cs \<Rightarrow> if c = newline then Some cs else wait cs) = Some y"
  show "first_line inp y"
  proof (cases inp)
    case Nil
    with eq IH show ?thesis by simp
  next
    case (Cons c cs)
    with eq IH show ?thesis by (auto simp: first_line_here first_line_later split: if_splits)
  qed
qed

lemma wait_newline_returns:
  "newline \<notin> set pre \<Longrightarrow> wait_newline (pre @ newline # rest) = Some rest"
  by (induction pre) (subst wait_newline.simps; auto)+

lemma wait_newline_iff: "wait_newline inp \<noteq> None \<longleftrightarrow> newline \<in> set inp"
proof
  assume "wait_newline inp \<noteq> None"
  then obtain rest where "wait_newline inp = Some rest" by blast
  from wait_newline_result [OF this] show "newline \<in> set inp" by (auto simp: first_line_def)
next
  assume "newline \<in> set inp"
  from split_list_first [OF this] obtain pre rest where "inp = pre @ newline # rest" "newline \<notin> set pre" by blast
  with wait_newline_returns [of pre rest] show "wait_newline inp \<noteq> None" by simp
qed

section \<open>The logger of the process\<close>

text \<open>No level for the console in the environment, so the console takes records from \<open>Info\<close> on.\<close>

definition plain_env :: "(string \<Rightarrow> string option) \<Rightarrow> bool" where
  "plain_env getenv \<longleftrightarrow> getenv ''LOG_CONSOLE_LEVEL'' = None"

definition printed :: "gateway \<Rightarrow> string list" where
  "printed g = console_out (pImpl (gw_logger g))"

lemma setup_logger_console:
  assumes "plain_env getenv"
  shows "\<exists>lg. logger (pImpl (gw_logger (setup_logger e getenv cores gateway_start))) = Some lg
      \<and> lg_level lg = Trace \<and> \<not> lg_to_file lg \<and> lg_to_console lg \<and> lg_flush_on lg = Info"
    and "console_sink (pImpl (gw_logger (setup_logger e getenv cores gateway_start))) = Some Info"
    and "log_file_sink (pImpl (gw_logger (setup_logger e getenv cores gateway_start))) = None"
    and "printed (setup_logger e getenv cores gateway_start) = []"
  using assms
  by (simp_all add: setup_logger_def gateway_start_def Logger_Instance_def Logger_new_def LoggerImpl_def
      Logger_Init_def Logger_setFlushOnLevel_def setFlushOnLevel_def Init_def create_sinks_def
      GetLogLevelFromEnv_def plain_env_def printed_def Let_def)

lemma say_printed:
  assumes "logger (pImpl (gw_logger g)) = Some lg" and "lg_level lg = Trace" and "\<not> lg_to_file lg" and "lg_to_console lg"
    and "console_sink (pImpl (gw_logger g)) = Some Info" and "Info \<le> lv"
  shows "printed (say e lv msg g) = printed g @ [msg]"
  using assms by (simp add: say_def LOG_logs_concat Logger_Log_def log_def log_console_def printed_def Let_def)

lemma say_keeps [simp]:
  "gw_config (say e lv msg g) = gw_config g" "gw_redis (say e lv msg g) = gw_redis g"
  "gw_server_thread (say e lv msg g) = gw_server_thread g"
  by (simp_all add: say_def)

lemma testFunction_idle: "\<exists>c. testFunction True id = Inr c"
  by (simp add: testFunction_def IEC104Client_def setAsduReceivedCallback_def setConnectionEventCallback_def client_defs)

text \<open>The test client whose connection is lost while the program sleeps.\<close>

definition loses_connection :: "64 word \<Rightarrow> iec104_client \<Rightarrow> iec104_client" where
  "loses_connection now c = the (run_pass now True (connectionHandler CONNECTION_CLOSED c))"

lemma testFunction_lost: "testFunction True (loses_connection now) = Inl StdTerminate"
  by (simp add: testFunction_def loses_connection_def IEC104Client_def setAsduReceivedCallback_def
      setConnectionEventCallback_def client_defs)

section \<open>Properties\<close>



end
