(* ===== verification/Modbus_Api.thy ===== *)
theory Modbus_Api
  imports Gateway_Prelude
begin

text \<open>
  One Modbus link, class \<open>ModbusApi\<close> (\<open>core/modbus/modbus_api.h\<close> and
  \<open>modbus_api.cc\<close>). The library \<open>libmodbus\<close> with the device behind it is a
  parameter, the record \<open>libmodbus\<close>, over an arbitrary type of worlds; the set of live
  \<open>modbus_t\<close> handles is explicit, so that freeing twice, use after free and leaks are
  visible. The reconnect thread is a loop body (\<open>reconnect_body\<close>) that interleaves with
  the calls of the other threads; each call is one step, since it runs under
  \<open>ctxMutex_\<close>. The thread's unlocked access to \<open>ctx_\<close> is one step too. Log output and
  sleeping are left out.
\<close>

section \<open>State\<close>

datatype modbus_type = TCP | RTU
datatype parity = NONE | EVEN | ODD

datatype modbus_target =
    NewTcp string int
  | NewRtu string int "8 word" int int

record 'w libmodbus =
  mb_new :: "modbus_target \<Rightarrow> 'w \<Rightarrow> 'w \<times> bool"
  mb_set_slave :: "int \<Rightarrow> 'w \<Rightarrow> 'w \<times> bool"
  mb_connect :: "'w \<Rightarrow> 'w \<times> bool"
  mb_close :: "'w \<Rightarrow> 'w"
  mb_read_registers :: "16 word \<Rightarrow> int \<Rightarrow> 'w \<Rightarrow> 'w \<times> 16 word list option"
  mb_write_register :: "16 word \<Rightarrow> 16 word \<Rightarrow> 'w \<Rightarrow> 'w \<times> bool"
  mb_write_registers :: "16 word \<Rightarrow> int \<Rightarrow> 16 word list \<Rightarrow> 'w \<Rightarrow> 'w \<times> bool"
  mb_set_debug :: "'w \<Rightarrow> 'w"

record 'w modbus_api =
  link_world :: 'w
  live_ctx :: "nat set"
  next_ctx :: nat
  slaveAddr :: int
  mtype :: modbus_type
  channel :: int
  cmdInterval :: int
  portName :: string
  baudrate :: int
  mparity :: parity
  ip_addr :: string
  tcp_port_no :: int
  ctx :: "nat option"
  maxRetries :: int
  retryInterval :: int
  runing :: bool

section \<open>Operations\<close>

fun parity_char :: "parity \<Rightarrow> 8 word" where
  "parity_char NONE = 0"
| "parity_char EVEN = 1"
| "parity_char ODD = 2"

definition modbus_destroy :: "'w libmodbus \<Rightarrow> (unit, 'w modbus_api) oper" where
  "modbus_destroy lib s =
     (case ctx s of
        None \<Rightarrow> Inr ((), s)
      | Some p \<Rightarrow>
          if p \<in> live_ctx s
          then Inr ((), s\<lparr>link_world := mb_close lib (link_world s), live_ctx := live_ctx s - {p}, ctx := None\<rparr>)
          else Inl DoubleFree)"

definition modbus_target_of :: "'w modbus_api \<Rightarrow> modbus_target" where
  "modbus_target_of s =
     (case mtype s of
        TCP \<Rightarrow> NewTcp (ip_addr s) (tcp_port_no s)
      | RTU \<Rightarrow> NewRtu (portName s) (baudrate s) (parity_char (mparity s)) 8 1)"

text \<open>
  \<open>createModbusContext\<close>: the new handle is a local variable, while \<open>destroy\<close> acts on
  the member \<open>ctx_\<close>.
\<close>

definition createModbusContext :: "'w libmodbus \<Rightarrow> (nat option, 'w modbus_api) oper" where
  "createModbusContext lib s =
     (case mb_new lib (modbus_target_of s) (link_world s) of
        (w1, False) \<Rightarrow> Inr (None, s\<lparr>link_world := w1\<rparr>)
      | (w1, True) \<Rightarrow>
          (let c = next_ctx s;
               s1 = s\<lparr>link_world := w1, live_ctx := insert c (live_ctx s), next_ctx := Suc c\<rparr> in
           (case mb_set_slave lib (slaveAddr s) (link_world s1) of
              (w2, False) \<Rightarrow> bnd (modbus_destroy lib) (\<lambda>_. ret None) (s1\<lparr>link_world := w2\<rparr>)
            | (w2, True) \<Rightarrow>
                (case mb_connect lib w2 of
                   (w3, False) \<Rightarrow> bnd (modbus_destroy lib) (\<lambda>_. ret None) (s1\<lparr>link_world := w3\<rparr>)
                 | (w3, True) \<Rightarrow> Inr (Some c, s1\<lparr>link_world := w3\<rparr>)))))"

definition ModbusApi ::
  "'w libmodbus \<Rightarrow> int \<Rightarrow> modbus_type \<Rightarrow> int \<Rightarrow> int \<Rightarrow> string \<Rightarrow> int \<Rightarrow> parity \<Rightarrow> string \<Rightarrow> int
    \<Rightarrow> int \<Rightarrow> int \<Rightarrow> 'w \<Rightarrow> 'w modbus_api result" where
  "ModbusApi lib slave typ chan interval portname baud par ip port retries rinterval w =
     (let s = \<lparr>link_world = w, live_ctx = {}, next_ctx = 0, slaveAddr = slave, mtype = typ,
               channel = chan, cmdInterval = interval, portName = portname, baudrate = baud,
               mparity = par, ip_addr = ip, tcp_port_no = port, ctx = None, maxRetries = retries,
               retryInterval = rinterval, runing = True\<rparr> in
      rbind (createModbusContext lib s) (\<lambda>(c, s'). Inr (s'\<lparr>ctx := c\<rparr>)))"

definition modbus_readRegisters ::
  "'w libmodbus \<Rightarrow> 16 word \<Rightarrow> int \<Rightarrow> 16 word list \<Rightarrow> (bool \<times> 16 word list, 'w modbus_api) oper" where
  "modbus_readRegisters lib startAddr nbRegs dest s =
     (case ctx s of
        None \<Rightarrow> Inr ((False, dest), s)
      | Some p \<Rightarrow>
          if p \<notin> live_ctx s then Inl UseAfterFree
          else (case mb_read_registers lib startAddr nbRegs (link_world s) of
                  (w, None) \<Rightarrow> bnd (modbus_destroy lib) (\<lambda>_. ret (False, dest)) (s\<lparr>link_world := w\<rparr>)
                | (w, Some regs) \<Rightarrow>
                    if length regs \<le> length dest
                    then Inr ((True, regs @ drop (length regs) dest), s\<lparr>link_world := w\<rparr>)
                    else Inl OutOfBounds))"

definition modbus_writeRegister ::
  "'w libmodbus \<Rightarrow> 16 word \<Rightarrow> 16 word \<Rightarrow> (bool, 'w modbus_api) oper" where
  "modbus_writeRegister lib addr value s =
     (case ctx s of
        None \<Rightarrow> Inr (False, s)
      | Some p \<Rightarrow>
          if p \<notin> live_ctx s then Inl UseAfterFree
          else (case mb_write_register lib addr value (link_world s) of
                  (w, False) \<Rightarrow> bnd (modbus_destroy lib) (\<lambda>_. ret False) (s\<lparr>link_world := w\<rparr>)
                | (w, True) \<Rightarrow> Inr (True, s\<lparr>link_world := w\<rparr>)))"

definition modbus_writeRegisters ::
  "'w libmodbus \<Rightarrow> 16 word \<Rightarrow> int \<Rightarrow> 16 word list \<Rightarrow> (bool, 'w modbus_api) oper" where
  "modbus_writeRegisters lib startAddr nbRegs src s =
     (case ctx s of
        None \<Rightarrow> Inr (False, s)
      | Some p \<Rightarrow>
          if p \<notin> live_ctx s then Inl UseAfterFree
          else (case mb_write_registers lib startAddr nbRegs src (link_world s) of
                  (w, False) \<Rightarrow> bnd (modbus_destroy lib) (\<lambda>_. ret False) (s\<lparr>link_world := w\<rparr>)
                | (w, True) \<Rightarrow> Inr (True, s\<lparr>link_world := w\<rparr>)))"

definition modbus_set_debug :: "'w libmodbus \<Rightarrow> (unit, 'w modbus_api) oper" where
  "modbus_set_debug lib s =
     (case ctx s of
        None \<Rightarrow> Inr ((), s)
      | Some p \<Rightarrow>
          if p \<in> live_ctx s then Inr ((), s\<lparr>link_world := mb_set_debug lib (link_world s)\<rparr>)
          else Inl UseAfterFree)"

definition modbus_stop :: "'w modbus_api \<Rightarrow> 'w modbus_api" where
  "modbus_stop s = s\<lparr>runing := False\<rparr>"

definition destroy_ModbusApi :: "'w libmodbus \<Rightarrow> (unit, 'w modbus_api) oper" where
  "destroy_ModbusApi lib = modbus_destroy lib"

text \<open>
  One pass of the reconnect loop with the retry counter it carries: it either leaves the
  loop or goes round again.
\<close>

datatype 'w loop_next = LoopExit "'w modbus_api" | LoopAgain int "'w modbus_api"

definition reconnect_body ::
  "'w libmodbus \<Rightarrow> int \<Rightarrow> 'w modbus_api \<Rightarrow> 'w loop_next result" where
  "reconnect_body lib retries s =
     (if \<not> runing s then Inr (LoopExit s)
      else if ctx s = None then
        if maxRetries s > 0 \<and> retries \<ge> maxRetries s then Inr (LoopExit s)
        else rbind (createModbusContext lib s) (\<lambda>(c, s').
               Inr (LoopAgain (if c \<noteq> None then 0 else retries + 1) (s'\<lparr>ctx := c\<rparr>)))
      else Inr (LoopAgain retries s))"

text \<open>The loop run alone, with fuel; \<open>reconnectLoop\<close> starts it with no retries made.\<close>

fun reconnect_loop :: "'w libmodbus \<Rightarrow> nat \<Rightarrow> int \<Rightarrow> 'w modbus_api \<Rightarrow> 'w modbus_api result option" where
  "reconnect_loop lib 0 retries s = None"
| "reconnect_loop lib (Suc fuel) retries s =
     (case reconnect_body lib retries s of
        Inl f \<Rightarrow> Some (Inl f)
      | Inr (LoopExit s') \<Rightarrow> Some (Inr s')
      | Inr (LoopAgain r s') \<Rightarrow> reconnect_loop lib fuel r s')"

definition reconnectLoop :: "'w libmodbus \<Rightarrow> nat \<Rightarrow> 'w modbus_api \<Rightarrow> 'w modbus_api result option" where
  "reconnectLoop lib fuel s = reconnect_loop lib fuel 0 s"

section \<open>The link as a transition system\<close>

text \<open>
  The state of a running link: the object and the loop, which is gone or carries its
  retry counter. \<open>Faulted\<close> is undefined behaviour.
\<close>

datatype 'w link = Link "int option" "'w modbus_api" | Faulted fault

datatype link_event =
    EvLoop
  | EvRead "16 word" int "16 word list"
  | EvWrite "16 word" "16 word"
  | EvWriteMany "16 word" int "16 word list"
  | EvDebug
  | EvStop

fun link_of :: "int option \<Rightarrow> ('a \<times> 'w modbus_api) result \<Rightarrow> 'w link" where
  "link_of l (Inl f) = Faulted f"
| "link_of l (Inr (x, s)) = Link l s"

fun loop_link :: "'w loop_next result \<Rightarrow> 'w link" where
  "loop_link (Inl f) = Faulted f"
| "loop_link (Inr (LoopExit s)) = Link None s"
| "loop_link (Inr (LoopAgain r s)) = Link (Some r) s"

inductive link_step :: "'w libmodbus \<Rightarrow> 'w link \<Rightarrow> link_event \<Rightarrow> 'w link \<Rightarrow> bool" for lib where
  step_loop: "link_step lib (Link (Some r) s) EvLoop (loop_link (reconnect_body lib r s))"
| step_read: "link_step lib (Link l s) (EvRead a n d) (link_of l (modbus_readRegisters lib a n d s))"
| step_write: "link_step lib (Link l s) (EvWrite a v) (link_of l (modbus_writeRegister lib a v s))"
| step_write_many:
    "link_step lib (Link l s) (EvWriteMany a n src) (link_of l (modbus_writeRegisters lib a n src s))"
| step_debug: "link_step lib (Link l s) EvDebug (link_of l (modbus_set_debug lib s))"
| step_stop: "link_step lib (Link l s) EvStop (Link l (modbus_stop s))"

inductive_cases link_stepE: "link_step lib (Link l s) e t"
inductive_simps link_step_faulted: "link_step lib (Faulted f) e t"

definition link_start :: "'w libmodbus \<Rightarrow> 'w link \<Rightarrow> bool" where
  "link_start lib t \<longleftrightarrow>
     (\<exists>sl ty ch ci pn b pa ip po mr ri w s.
        ModbusApi lib sl ty ch ci pn b pa ip po mr ri w = Inr s \<and> t = Link (Some 0) s)"

interpretation mlink: transition_system "link_start lib" "link_step lib" for lib :: "'w libmodbus" .

section \<open>Invariant\<close>

definition api_wf :: "'w modbus_api \<Rightarrow> bool" where
  "api_wf s \<longleftrightarrow> (\<forall>p. ctx s = Some p \<longrightarrow> p \<in> live_ctx s) \<and> (\<forall>p \<in> live_ctx s. p < next_ctx s)"

definition retries_ok :: "int option \<Rightarrow> int \<Rightarrow> bool" where
  "retries_ok l mr \<longleftrightarrow> (\<forall>r. l = Some r \<longrightarrow> 0 \<le> r \<and> (mr > 0 \<longrightarrow> r \<le> mr))"

fun link_wf :: "'w link \<Rightarrow> bool" where
  "link_wf (Faulted f) = (f = OutOfBounds)"
| "link_wf (Link l s) =
     (api_wf s \<and> retries_ok l (maxRetries s))"

lemma modbus_destroy_wf:
  "api_wf s \<Longrightarrow> \<exists>s'. modbus_destroy lib s = Inr ((), s') \<and> api_wf s' \<and> ctx s' = None
     \<and> maxRetries s' = maxRetries s \<and> runing s' = runing s"
  by (cases "ctx s") (auto simp: modbus_destroy_def api_wf_def)

lemma api_wf_world: "api_wf (s\<lparr>link_world := w\<rparr>) = api_wf s"
  by (simp add: api_wf_def)

lemma createModbusContext_wf:
  assumes "api_wf s"
  obtains c s' where "createModbusContext lib s = Inr (c, s')" and "api_wf (s'\<lparr>ctx := c\<rparr>)"
    and "maxRetries s' = maxRetries s" and "runing s' = runing s"
proof -
  obtain w1 n where new: "mb_new lib (modbus_target_of s) (link_world s) = (w1, n)" by fastforce
  let ?s1 = "s\<lparr>link_world := w1, live_ctx := insert (next_ctx s) (live_ctx s), next_ctx := Suc (next_ctx s)\<rparr>"
  obtain w2 sl where slave: "mb_set_slave lib (slaveAddr s) w1 = (w2, sl)" by fastforce
  obtain w3 cn where conn: "mb_connect lib w2 = (w3, cn)" by fastforce
  have wf1: "api_wf (?s1\<lparr>link_world := w\<rparr>)" for w
    using assms by (auto simp: api_wf_def)
  obtain t2 where t2: "modbus_destroy lib (?s1\<lparr>link_world := w2\<rparr>) = Inr ((), t2)" "api_wf t2"
      "ctx t2 = None" "maxRetries t2 = maxRetries s" "runing t2 = runing s"
    using modbus_destroy_wf [OF wf1 [of w2], of lib] by auto
  obtain t3 where t3: "modbus_destroy lib (?s1\<lparr>link_world := w3\<rparr>) = Inr ((), t3)" "api_wf t3"
      "ctx t3 = None" "maxRetries t3 = maxRetries s" "runing t3 = runing s"
    using modbus_destroy_wf [OF wf1 [of w3], of lib] by auto
  consider "\<not> n" | "n" "\<not> sl" | "n" "sl" "\<not> cn" | "n" "sl" "cn" by blast
  then show thesis
  proof cases
    case 1
    with new that [of None "s\<lparr>link_world := w1\<rparr>"] assms show thesis
      by (simp add: createModbusContext_def api_wf_def)
  next
    case 2
    with new slave t2 that [of None t2] show thesis
      by (simp add: createModbusContext_def Let_def bnd_def ret_def api_wf_def)
  next
    case 3
    with new slave conn t3 that [of None t3] show thesis
      by (simp add: createModbusContext_def Let_def bnd_def ret_def api_wf_def)
  next
    case 4
    with new slave conn that [of "Some (next_ctx s)" "?s1\<lparr>link_world := w3\<rparr>"] assms show thesis
      by (simp add: createModbusContext_def Let_def api_wf_def less_Suc_eq)
  qed
qed

lemma destroy_return_wf:
  assumes "api_wf s"
  shows "\<exists>s'. bnd (modbus_destroy lib) (\<lambda>_. ret x) (s\<lparr>link_world := w\<rparr>) = Inr (x, s') \<and> api_wf s'
           \<and> maxRetries s' = maxRetries s"
  using modbus_destroy_wf [of "s\<lparr>link_world := w\<rparr>" lib] assms
  by (auto simp: bnd_def ret_def api_wf_world)

lemma access_wf:
  assumes "link_wf (Link l s)"
  shows "link_wf (link_of l (modbus_readRegisters lib a n d s))"
    and "link_wf (link_of l (modbus_writeRegister lib a v s))"
    and "link_wf (link_of l (modbus_writeRegisters lib a n src s))"
    and "link_wf (link_of l (modbus_set_debug lib s))"
    and "link_wf (Link l (modbus_stop s))"
proof -
  have wf: "api_wf s" using assms by simp
  note * = destroy_return_wf [OF wf, of lib]
  have live: "p \<in> live_ctx s" if "ctx s = Some p" for p
    using wf that by (simp add: api_wf_def)
  show "link_wf (link_of l (modbus_readRegisters lib a n d s))"
  proof (cases "ctx s")
    case (Some p)
    obtain w r where wr: "mb_read_registers lib a n (link_world s) = (w, r)" by fastforce
    show ?thesis
      using *[of "(False, d)" w] live [OF Some] Some wr assms
      by (cases r) (auto simp: modbus_readRegisters_def api_wf_world)
  qed (use assms in \<open>simp add: modbus_readRegisters_def\<close>)
  show "link_wf (link_of l (modbus_writeRegister lib a v s))"
  proof (cases "ctx s")
    case (Some p)
    obtain w r where wr: "mb_write_register lib a v (link_world s) = (w, r)" by fastforce
    show ?thesis
      using *[of False w] live [OF Some] Some wr assms
      by (cases r) (auto simp: modbus_writeRegister_def api_wf_world)
  qed (use assms in \<open>simp add: modbus_writeRegister_def\<close>)
  show "link_wf (link_of l (modbus_writeRegisters lib a n src s))"
  proof (cases "ctx s")
    case (Some p)
    obtain w r where wr: "mb_write_registers lib a n src (link_world s) = (w, r)" by fastforce
    show ?thesis
      using *[of False w] live [OF Some] Some wr assms
      by (cases r) (auto simp: modbus_writeRegisters_def api_wf_world)
  qed (use assms in \<open>simp add: modbus_writeRegisters_def\<close>)
  show "link_wf (link_of l (modbus_set_debug lib s))"
    using assms live by (cases "ctx s") (auto simp: modbus_set_debug_def api_wf_world)
  show "link_wf (Link l (modbus_stop s))"
    using assms by (simp add: modbus_stop_def api_wf_def)
qed

lemma reconnect_body_wf:
  assumes "link_wf (Link (Some r) s)"
  shows "link_wf (loop_link (reconnect_body lib r s))"
proof -
  have wf: "api_wf s" using assms by simp
  obtain c s' where "createModbusContext lib s = Inr (c, s')" and "api_wf (s'\<lparr>ctx := c\<rparr>)"
    and "maxRetries s' = maxRetries s" and "runing s' = runing s"
    by (rule createModbusContext_wf [OF wf])
  with assms show ?thesis
    by (auto simp: reconnect_body_def retries_ok_def)
qed

lemma link_step_wf: "link_step lib t e t' \<Longrightarrow> link_wf t \<Longrightarrow> link_wf t'"
  by (induction rule: link_step.induct) (auto simp only: reconnect_body_wf access_wf)

lemma link_start_wf: "link_start lib t \<Longrightarrow> link_wf t"
proof -
  assume "link_start lib t"
  then obtain sl ty ch ci pn b pa ip po mr ri w s where
    s: "ModbusApi lib sl ty ch ci pn b pa ip po mr ri w = Inr s" and t: "t = Link (Some 0) s"
    unfolding link_start_def by blast
  let ?s0 = "\<lparr>link_world = w, live_ctx = {}, next_ctx = 0, slaveAddr = sl, mtype = ty,
               channel = ch, cmdInterval = ci, portName = pn, baudrate = b,
               mparity = pa, ip_addr = ip, tcp_port_no = po, ctx = None, maxRetries = mr,
               retryInterval = ri, runing = True\<rparr>"
  have "api_wf ?s0" by (simp add: api_wf_def)
  then obtain c s' where "createModbusContext lib ?s0 = Inr (c, s')" and "api_wf (s'\<lparr>ctx := c\<rparr>)"
    by (rule createModbusContext_wf [of _ lib])
  with s t show ?thesis by (auto simp: ModbusApi_def Let_def retries_ok_def)
qed

section \<open>Failing and succeeding attempts\<close>

definition opens_but_fails :: "'w libmodbus \<Rightarrow> bool" where
  "opens_but_fails lib \<longleftrightarrow> (\<forall>t w. snd (mb_new lib t w)) \<and> (\<forall>w. \<not> snd (mb_connect lib w))"

definition link_works :: "'w libmodbus \<Rightarrow> bool" where
  "link_works lib \<longleftrightarrow> (\<forall>t w. snd (mb_new lib t w)) \<and> (\<forall>a w. snd (mb_set_slave lib a w)) \<and> (\<forall>w. snd (mb_connect lib w))"

lemma failed_attempt:
  assumes "opens_but_fails lib" and "ctx s = None"
  shows "\<exists>w. createModbusContext lib s =
     Inr (None, s\<lparr>live_ctx := insert (next_ctx s) (live_ctx s), next_ctx := Suc (next_ctx s), link_world := w\<rparr>)"
proof -
  obtain w1 where new: "mb_new lib (modbus_target_of s) (link_world s) = (w1, True)"
    using assms(1) by (metis opens_but_fails_def prod.collapse)
  obtain w2 sl where slave: "mb_set_slave lib (slaveAddr s) w1 = (w2, sl)" by fastforce
  obtain w3 where conn: "mb_connect lib w2 = (w3, False)"
    using assms(1) by (metis opens_but_fails_def prod.collapse)
  show ?thesis
    using new slave conn assms(2)
    by (cases sl) (auto simp: createModbusContext_def Let_def bnd_def ret_def modbus_destroy_def)
qed

lemma successful_attempt:
  assumes "link_works lib"
  shows "\<exists>w. createModbusContext lib s = Inr (Some (next_ctx s),
     s\<lparr>live_ctx := insert (next_ctx s) (live_ctx s), next_ctx := Suc (next_ctx s), link_world := w\<rparr>)"
proof -
  obtain w1 where new: "mb_new lib (modbus_target_of s) (link_world s) = (w1, True)"
    using assms by (metis link_works_def prod.collapse)
  obtain w2 where slave: "mb_set_slave lib (slaveAddr s) w1 = (w2, True)"
    using assms by (metis link_works_def prod.collapse)
  obtain w3 where conn: "mb_connect lib w2 = (w3, True)"
    using assms by (metis link_works_def prod.collapse)
  show ?thesis
    using new slave conn by (auto simp: createModbusContext_def Let_def)
qed

lemma reconnect_loop_fails:
  assumes "opens_but_fails lib" and "maxRetries s = int n" and "n > 0" and "runing s"
    and "ctx s = None" and "k \<le> n" and "n - k < fuel"
    and "finite (live_ctx s)" and "\<forall>p \<in> live_ctx s. p < next_ctx s"
  shows "\<exists>s'. reconnect_loop lib fuel (int k) s = Some (Inr s') \<and> ctx s' = None
     \<and> card (live_ctx s') = card (live_ctx s) + (n - k)"
  using assms(2-)
proof (induction fuel arbitrary: k s)
  case 0
  then show ?case by simp
next
  case (Suc fuel)
  show ?case
  proof (cases "k = n")
    case True
    with Suc.prems show ?thesis by (simp add: reconnect_body_def)
  next
    case False
    obtain w where c: "createModbusContext lib s =
        Inr (None, s\<lparr>live_ctx := insert (next_ctx s) (live_ctx s), next_ctx := Suc (next_ctx s), link_world := w\<rparr>)"
      using failed_attempt [OF assms(1)] Suc.prems by blast
    let ?s = "s\<lparr>live_ctx := insert (next_ctx s) (live_ctx s), next_ctx := Suc (next_ctx s), link_world := w, ctx := None\<rparr>"
    have "\<exists>s'. reconnect_loop lib fuel (int (Suc k)) ?s = Some (Inr s') \<and> ctx s' = None
             \<and> card (live_ctx s') = card (live_ctx ?s) + (n - Suc k)"
      using Suc.prems False by (intro Suc.IH) (auto simp: less_Suc_eq)
    moreover have "next_ctx s \<notin> live_ctx s" using Suc.prems by blast
    ultimately show ?thesis
      using c False Suc.prems by (auto simp: reconnect_body_def add.commute)
  qed
qed

section \<open>A link for the witnesses\<close>

definition demo_lib :: "bool \<Rightarrow> (16 word list option) \<Rightarrow> unit libmodbus" where
  "demo_lib conn regs =
     \<lparr>mb_new = \<lambda>t w. (w, True), mb_set_slave = \<lambda>a w. (w, True), mb_connect = \<lambda>w. (w, conn),
      mb_close = \<lambda>w. w, mb_read_registers = \<lambda>a n w. (w, regs), mb_write_register = \<lambda>a v w. (w, True),
      mb_write_registers = \<lambda>a n src w. (w, True), mb_set_debug = \<lambda>w. w\<rparr>"

definition demo_api :: "nat option \<Rightarrow> unit modbus_api" where
  "demo_api c =
     \<lparr>link_world = (), live_ctx = (case c of None \<Rightarrow> {} | Some p \<Rightarrow> {p}), next_ctx = 1, slaveAddr = 1,
      mtype = TCP, channel = 0, cmdInterval = 2000, portName = [], baudrate = 0, mparity = ODD,
      ip_addr = ''127.0.0.1'', tcp_port_no = 502, ctx = c, maxRetries = 3, retryInterval = 1000,
      runing = True\<rparr>"

section \<open>Properties\<close>


lemma demo_start: "link_start (demo_lib True None) (Link (Some 0)
    ((demo_api None)\<lparr>live_ctx := {0}, ctx := Some 0\<rparr>))"
  unfolding link_start_def
  by (rule exI [of _ 1], rule exI [of _ TCP], rule exI [of _ 0], rule exI [of _ 2000], rule exI [of _ "[]"],
      rule exI [of _ 0], rule exI [of _ ODD], rule exI [of _ "''127.0.0.1''"], rule exI [of _ 502],
      rule exI [of _ 3], rule exI [of _ 1000], rule exI [of _ "()"])
     (simp add: ModbusApi_def createModbusContext_def demo_lib_def demo_api_def Let_def)


text \<open>
  C26. Giving up: with a positive limit and a device that never accepts a connection, the
  reconnect loop stops on its own after exactly that many attempts, without a context,
  and each failed attempt leaves one library context allocated that nothing refers to:
  \<open>createModbusContext\<close> destroys the member \<open>ctx_\<close>, not the new context.
\<close>

theorem reconnectLoop_gives_up:
  assumes "opens_but_fails lib" and "maxRetries s = int n" and "n > 0" and "runing s"
    and "ctx s = None" and "finite (live_ctx s)" and "\<forall>p \<in> live_ctx s. p < next_ctx s"
    and "n < fuel"
  shows "\<exists>s'. reconnectLoop lib fuel s = Some (Inr s') \<and> ctx s' = None
     \<and> card (live_ctx s') = card (live_ctx s) + n"
  using reconnect_loop_fails [OF assms(1-5), of 0 fuel] assms(6-8)
  by (simp add: reconnectLoop_def)

theorem reconnectLoop_gives_up_witness:
  "\<exists>s'. reconnectLoop (demo_lib False None) 4 (demo_api None) = Some (Inr s') \<and> ctx s' = None
     \<and> card (live_ctx s') = 3"
  using reconnectLoop_gives_up [of "demo_lib False None" "demo_api None" 3 4]
  by (simp add: demo_lib_def demo_api_def opens_but_fails_def)

text \<open>
  Recovery: a read that fails frees the context and reports failure with the
  destination untouched; the next pass of the reconnect loop, while the object is running
  and attempts are left, installs a fresh live context and resets the retry counter.
\<close>

theorem read_failure_recovers:
  assumes "api_wf s" and "ctx s = Some p" and "runing s"
    and "snd (mb_read_registers lib a n (link_world s)) = None"
    and "link_works lib" and "maxRetries s > 0 \<longrightarrow> r < maxRetries s"
  shows "\<exists>s1 s2 q. modbus_readRegisters lib a n d s = Inr ((False, d), s1) \<and> p \<notin> live_ctx s1
     \<and> reconnect_body lib r s1 = Inr (LoopAgain 0 s2) \<and> ctx s2 = Some q \<and> q \<in> live_ctx s2"
proof -
  obtain w where rd: "mb_read_registers lib a n (link_world s) = (w, None)"
    using assms(4) by (metis prod.collapse)
  have live: "p \<in> live_ctx s" using assms(1,2) by (simp add: api_wf_def)
  let ?s1 = "s\<lparr>link_world := mb_close lib w, live_ctx := live_ctx s - {p}, ctx := None\<rparr>"
  have read: "modbus_readRegisters lib a n d s = Inr ((False, d), ?s1)"
    using rd live assms(2) by (simp add: modbus_readRegisters_def modbus_destroy_def bnd_def ret_def)
  obtain w' where "createModbusContext lib ?s1 = Inr (Some (next_ctx ?s1),
      ?s1\<lparr>live_ctx := insert (next_ctx ?s1) (live_ctx ?s1), next_ctx := Suc (next_ctx ?s1), link_world := w'\<rparr>)"
    using successful_attempt [OF assms(5)] by blast
  with assms(3,6) have "\<exists>s2 q. reconnect_body lib r ?s1 = Inr (LoopAgain 0 s2) \<and> ctx s2 = Some q \<and> q \<in> live_ctx s2"
    by (auto simp: reconnect_body_def)
  with read show ?thesis by auto
qed

theorem read_failure_recovers_witness:
  "\<exists>s1 s2 q. modbus_readRegisters (demo_lib True None) 0 2 [0, 0] (demo_api (Some 0)) = Inr ((False, [0, 0]), s1)
     \<and> reconnect_body (demo_lib True None) 0 s1 = Inr (LoopAgain 0 s2) \<and> ctx s2 = Some q"
  using read_failure_recovers [of "demo_api (Some 0)" 0 "demo_lib True None" 0 2 0 "[0, 0]"]
  by (fastforce simp: demo_api_def demo_lib_def api_wf_def link_works_def)

end
