(* ===== verification/Modbus_Client.thy ===== *)
theory Modbus_Client
  imports Gateway_Config Modbus_Api Redis_Store "HOL-Library.Multiset"
begin

text \<open>
  The Modbus application, class \<open>AppModbus\<close> (\<open>core/modbus/app_modbus_client.h\<close> and
  \<open>app_modbus_client.cc\<close>): registering the configured devices, grouping data points
  into ranges of consecutive registers, reading each range and writing the values to
  Redis. \<open>std::sort\<close> is not stable, so the sorting function is an argument; what the
  program relies on is \<open>sorts_by_address\<close>. \<open>std::vector::operator[]\<close> out of range is
  the fault \<open>OutOfBounds\<close>. Each device link has its own library world. Log output,
  \<open>printf\<close> and sleeping are left out, and creating a thread succeeds.
\<close>

section \<open>Ranges of consecutive registers\<close>

record register_range =
  rr_start_addr :: "16 word"
  rr_count :: int
  rr_end_index :: nat

fun reg_count :: "data_type_e \<Rightarrow> int option" where
  "reg_count INT16 = Some 1"
| "reg_count UINT16 = Some 1"
| "reg_count INT32 = Some 2"
| "reg_count UINT32 = Some 2"
| "reg_count FLOAT32 = Some 2"
| "reg_count _ = None"

function range_loop :: "data_points_t list \<Rightarrow> register_range \<Rightarrow> int \<Rightarrow> nat \<Rightarrow> register_range" where
  "range_loop points rng next_expected_addr current_index =
     (if current_index < length points then
        (let current_point = points ! current_index in
         case reg_count (dp_data_type current_point) of
           None \<Rightarrow> rng
         | Some current_reg_count \<Rightarrow>
             if uint (dp_address current_point) = next_expected_addr
             then range_loop points
                    (rng\<lparr>rr_count := rr_count rng + current_reg_count, rr_end_index := current_index\<rparr>)
                    (uint (dp_address current_point) + current_reg_count) (current_index + 1)
             else rng)
      else rng)"
  by pat_completeness auto
termination
  by (relation "measure (\<lambda>(points, rng, n, i). length points - i)") auto

declare range_loop.simps [simp del]

definition findContinuousRegisters :: "data_points_t list \<Rightarrow> nat \<Rightarrow> register_range" where
  "findContinuousRegisters points start_index =
     (let rng = \<lparr>rr_start_addr = 0, rr_count = 0, rr_end_index = start_index\<rparr> in
      if start_index \<ge> length points then rng
      else
        let start_point = points ! start_index;
            rng = rng\<lparr>rr_start_addr := dp_address start_point, rr_end_index := start_index\<rparr> in
        case reg_count (dp_data_type start_point) of
          None \<Rightarrow> rng\<lparr>rr_count := 0\<rparr>
        | Some n \<Rightarrow>
            let rng = rng\<lparr>rr_count := n\<rparr> in
            if start_index = length points - 1 then rng
            else range_loop points rng (uint (rr_start_addr rng) + rr_count rng) (start_index + 1))"

section \<open>Writing the values of one buffer\<close>

record fp_env =
  fp_printf_f :: "64 word \<Rightarrow> string"
  fp_promote :: "32 word \<Rightarrow> 64 word"

definition buf_at :: "16 word list \<Rightarrow> 32 word \<Rightarrow> (16 word, 's) oper" where
  "buf_at buf off = (if unat off < length buf then ret (buf ! unat off) else fail OutOfBounds)"

definition buf_float :: "16 word list \<Rightarrow> 32 word \<Rightarrow> (32 word, 's) oper" where
  "buf_float buf off =
     (if unat off + 1 < length buf
      then ret (word_cat (buf ! (unat off + 1)) (buf ! unat off)) else fail OutOfBounds)"

definition modbus_key :: "string \<Rightarrow> data_points_t \<Rightarrow> string" where
  "modbus_key deviceId point = ''modbus_data:'' @ deviceId @ '':'' @ dp_name point"

definition point_step ::
  "'w hiredis \<Rightarrow> fp_env \<Rightarrow> string \<Rightarrow> 16 word list \<Rightarrow> 32 word \<Rightarrow> data_points_t \<Rightarrow> (32 word, 'w redis) oper" where
  "point_step hr fp key buf off point =
     (case dp_data_type point of
        INT16 \<Rightarrow> bnd (buf_at buf off) (\<lambda>v. bnd (storeInt hr key v) (\<lambda>_. ret (off + 1)))
      | UINT16 \<Rightarrow> bnd (buf_at buf off) (\<lambda>v. bnd (storeUInt hr key v) (\<lambda>_. ret (off + 1)))
      | INT32 \<Rightarrow> bnd (buf_at buf off) (\<lambda>v. bnd (storeDInt hr key (ucast v)) (\<lambda>_. ret (off + 2)))
      | UINT32 \<Rightarrow> bnd (buf_at buf off) (\<lambda>v. bnd (storeUDInt hr key (ucast v)) (\<lambda>_. ret (off + 2)))
      | FLOAT32 \<Rightarrow> bnd (buf_float buf off)
                    (\<lambda>v. bnd (storeLReal (fp_printf_f fp) hr key (fp_promote fp v)) (\<lambda>_. ret (off + 2)))
      | _ \<Rightarrow> ret off)"

fun user_data_loop ::
  "'w hiredis \<Rightarrow> fp_env \<Rightarrow> string \<Rightarrow> 16 word list \<Rightarrow> 32 word \<Rightarrow> data_points_t list \<Rightarrow> (unit, 'w redis) oper" where
  "user_data_loop hr fp deviceId buf off [] = ret ()"
| "user_data_loop hr fp deviceId buf off (point # points) =
     bnd (point_step hr fp (modbus_key deviceId point) buf off point)
       (\<lambda>off'. user_data_loop hr fp deviceId buf off' points)"

definition processUserData ::
  "'w hiredis \<Rightarrow> redis_defaults \<Rightarrow> fp_env \<Rightarrow> string \<Rightarrow> 16 word list \<Rightarrow> data_points_t list
    \<Rightarrow> (bool, 'w redis) oper" where
  "processUserData hr d fp deviceId dataBuffer dataPoints =
     bnd (DRDSDataRedis hr d) (\<lambda>_.
     bnd (user_data_loop hr fp deviceId dataBuffer 0 dataPoints) (\<lambda>_.
     bnd destroy_DRDSDataRedis (\<lambda>_. ret True)))"

section \<open>Reading all ranges of a device\<close>

lemma range_loop_end_ge:
  "i \<le> rr_end_index r \<Longrightarrow> i \<le> n \<Longrightarrow> i \<le> rr_end_index (range_loop ps r a n)"
proof (induction ps r a n rule: range_loop.induct)
  case (1 ps r a n)
  then show ?case
    by (subst range_loop.simps) (auto simp: Let_def split: option.splits)
qed

lemma find_end_ge: "i \<le> rr_end_index (findContinuousRegisters ps i)"
  by (auto simp: findContinuousRegisters_def Let_def range_loop_end_ge split: option.splits)

text \<open>
  One pass of the loop body: read the range, and on success hand \<^emph>\<open>all\<close> points of the
  device with the buffer of this range to \<open>processUserData\<close>.
\<close>

definition process_range ::
  "'m libmodbus \<Rightarrow> 'w hiredis \<Rightarrow> redis_defaults \<Rightarrow> fp_env \<Rightarrow> string \<Rightarrow> data_points_t list \<Rightarrow> register_range
    \<Rightarrow> 'm modbus_api \<times> 'w redis \<Rightarrow> ('m modbus_api \<times> 'w redis) result" where
  "process_range lib hr d fp deviceId points rng st =
     rbind (modbus_readRegisters lib (rr_start_addr rng) (rr_count rng)
              (replicate (nat (rr_count rng)) 0) (fst st))
       (\<lambda>((success, buffer), api).
          if \<not> success then Inr (api, snd st)
          else rbind (processUserData hr d fp deviceId buffer points (snd st))
                 (\<lambda>(ok, rs). Inr (api, rs)))"

function process_loop ::
  "'m libmodbus \<Rightarrow> 'w hiredis \<Rightarrow> redis_defaults \<Rightarrow> fp_env \<Rightarrow> string \<Rightarrow> data_points_t list \<Rightarrow> nat
    \<Rightarrow> 'm modbus_api \<times> 'w redis \<Rightarrow> ('m modbus_api \<times> 'w redis) result" where
  "process_loop lib hr d fp deviceId points i st =
     (if i < length points then
        (let rng = findContinuousRegisters points i in
         rbind (process_range lib hr d fp deviceId points rng st)
           (\<lambda>st'. process_loop lib hr d fp deviceId points (rr_end_index rng + 1) st'))
      else Inr st)"
  by pat_completeness auto
termination
proof (relation "measure (\<lambda>(lib, hr, d, fp, dev, points, i, st). length points - i)", simp, clarsimp)
  fix points :: "data_points_t list" and i
  assume "i < length points"
  then show "length points - Suc (rr_end_index (findContinuousRegisters points i)) < length points - i"
    using find_end_ge [of i points] by linarith
qed

declare process_loop.simps [simp del]

definition processContinuousRegisters ::
  "'m libmodbus \<Rightarrow> 'w hiredis \<Rightarrow> redis_defaults \<Rightarrow> fp_env \<Rightarrow> (data_points_t list \<Rightarrow> data_points_t list)
    \<Rightarrow> config_modbus \<Rightarrow> 'm modbus_api \<times> 'w redis \<Rightarrow> ('m modbus_api \<times> 'w redis) result" where
  "processContinuousRegisters lib hr d fp sorter config st =
     (let points = mb_data_points config in
      if points = [] then Inr st
      else process_loop lib hr d fp (mb_device_id config) (sorter points) 0 st)"

definition sorts_by_address :: "(data_points_t list \<Rightarrow> data_points_t list) \<Rightarrow> bool" where
  "sorts_by_address sorter \<longleftrightarrow>
     (\<forall>ps. mset (sorter ps) = mset ps \<and> sorted (map (\<lambda>p. uint (dp_address p)) (sorter ps)))"

section \<open>Devices\<close>

record 'm app_modbus =
  app_running :: bool
  app_devices :: "string \<Rightarrow> 'm modbus_api option"

definition AppModbus :: "'m app_modbus" where
  "AppModbus = \<lparr>app_running = True, app_devices = Map.empty\<rparr>"

definition getDeviceApi :: "'m app_modbus \<Rightarrow> string \<Rightarrow> 'm modbus_api option" where
  "getDeviceApi app deviceId = app_devices app deviceId"

definition register_device ::
  "'m libmodbus \<Rightarrow> (string \<Rightarrow> 'm) \<Rightarrow> string \<times> config_modbus \<Rightarrow> 'm app_modbus \<Rightarrow> 'm app_modbus result" where
  "register_device lib link dev app =
     (let (deviceId, config) = dev in
      if mb_Type config = [] \<or> mb_device_id config = [] then Inr app
      else if mb_Type config \<noteq> ''TCP'' \<and> mb_Type config \<noteq> ''RTU'' then Inr app
      else
        let typ = (if mb_Type config = ''TCP'' then TCP else RTU) in
        if app_devices app deviceId \<noteq> None then Inr app
        else if typ = RTU \<and> (rtu_port_name (mb_rtu config) = [] \<or> rtu_baudrate (mb_rtu config) \<le> 0) then Inr app
        else if typ = TCP \<and> (tcp_ip (mb_tcp config) = [] \<or> tcp_port (mb_tcp config) \<le> 0) then Inr app
        else
          rbind (ModbusApi lib (mb_slave_addr config) typ 0 (mb_cmd_interval config)
                   (rtu_port_name (mb_rtu config)) (rtu_baudrate (mb_rtu config))
                   (if rtu_parity (mb_rtu config) = ''NONE'' then NONE else ODD)
                   (tcp_ip (mb_tcp config)) (tcp_port (mb_tcp config))
                   (mb_max_retries config) (mb_retry_interval config) (link (mb_device_id config)))
            (\<lambda>api. Inr (app\<lparr>app_devices := (app_devices app)(mb_device_id config \<mapsto> api)\<rparr>)))"

fun register_devices ::
  "'m libmodbus \<Rightarrow> (string \<Rightarrow> 'm) \<Rightarrow> (string \<times> config_modbus) list \<Rightarrow> 'm app_modbus \<Rightarrow> 'm app_modbus result" where
  "register_devices lib link [] app = Inr app"
| "register_devices lib link (dev # devs) app =
     rbind (register_device lib link dev app) (register_devices lib link devs)"

text \<open>\<open>run\<close> on the configured devices in the order the hash map yields them.\<close>

definition AppModbus_run ::
  "'m libmodbus \<Rightarrow> (string \<Rightarrow> 'm) \<Rightarrow> (string \<times> config_modbus) list \<Rightarrow> 'm app_modbus
    \<Rightarrow> (bool \<times> 'm app_modbus) result" where
  "AppModbus_run lib link mConfig app =
     (if mConfig = [] then Inr (False, app)
      else rbind (register_devices lib link mConfig app) (\<lambda>app'. Inr (True, app')))"

definition with_device ::
  "string \<Rightarrow> 'a \<Rightarrow> ('a, 'm modbus_api) oper \<Rightarrow> ('a, 'm app_modbus) oper" where
  "with_device deviceId dflt f app =
     (case getDeviceApi app deviceId of
        None \<Rightarrow> Inr (dflt, app)
      | Some api \<Rightarrow>
          rbind (f api) (\<lambda>(x, api'). Inr (x, app\<lparr>app_devices := (app_devices app)(deviceId \<mapsto> api')\<rparr>)))"

definition AppModbus_readRegisters ::
  "'m libmodbus \<Rightarrow> string \<Rightarrow> 16 word \<Rightarrow> int \<Rightarrow> 16 word list \<Rightarrow> (16 word list, 'm app_modbus) oper" where
  "AppModbus_readRegisters lib deviceId startAddr nbRegs dest =
     with_device deviceId dest (bnd (modbus_readRegisters lib startAddr nbRegs dest) (\<lambda>(ok, buf). ret buf))"

definition AppModbus_writeRegister ::
  "'m libmodbus \<Rightarrow> string \<Rightarrow> 16 word \<Rightarrow> 16 word \<Rightarrow> (unit, 'm app_modbus) oper" where
  "AppModbus_writeRegister lib deviceId addr value =
     with_device deviceId () (bnd (modbus_writeRegister lib addr value) (\<lambda>ok. ret ()))"

text \<open>
  The task of one device: switch on debugging (before the null check), then poll while
  the application runs. \<open>device_task_begin\<close> says whether polling starts.
\<close>

definition device_task_begin ::
  "'m libmodbus \<Rightarrow> config_data \<Rightarrow> string \<Rightarrow> (bool, 'm app_modbus) oper" where
  "device_task_begin lib cfg deviceId app =
     (case getDeviceApi app deviceId of
        None \<Rightarrow> Inl NullDeref
      | Some api \<Rightarrow>
          rbind (modbus_set_debug lib api) (\<lambda>(_, api').
            Inr (getModbus cfg deviceId \<noteq> None, app\<lparr>app_devices := (app_devices app)(deviceId \<mapsto> api')\<rparr>)))"

definition device_task_pass ::
  "'m libmodbus \<Rightarrow> 'w hiredis \<Rightarrow> redis_defaults \<Rightarrow> fp_env \<Rightarrow> (data_points_t list \<Rightarrow> data_points_t list)
    \<Rightarrow> config_modbus \<Rightarrow> string \<Rightarrow> 'm app_modbus \<times> 'w redis \<Rightarrow> ('m app_modbus \<times> 'w redis) result" where
  "device_task_pass lib hr d fp sorter config deviceId st =
     (if \<not> app_running (fst st) then Inr st
      else
        (case getDeviceApi (fst st) deviceId of
           None \<Rightarrow> Inl NullDeref
         | Some api \<Rightarrow>
             rbind (processContinuousRegisters lib hr d fp sorter config (api, snd st)) (\<lambda>(api', rs).
               Inr ((fst st)\<lparr>app_devices := (app_devices (fst st))(deviceId \<mapsto> api')\<rparr>, rs))))"

definition AppModbus_stop :: "'m app_modbus \<Rightarrow> 'm app_modbus" where
  "AppModbus_stop app =
     app\<lparr>app_devices := (\<lambda>id. map_option modbus_stop (app_devices app id)), app_running := False\<rparr>"

section \<open>Contiguous blocks of points\<close>

definition regs :: "data_points_t \<Rightarrow> nat" where
  "regs p = (case reg_count (dp_data_type p) of None \<Rightarrow> 0 | Some n \<Rightarrow> nat n)"

definition known :: "data_points_t \<Rightarrow> bool" where
  "known p \<longleftrightarrow> reg_count (dp_data_type p) \<noteq> None"

definition total_regs :: "data_points_t list \<Rightarrow> nat" where
  "total_regs ps = sum_list (map regs ps)"

definition follows :: "data_points_t \<Rightarrow> data_points_t \<Rightarrow> bool" where
  "follows p q \<longleftrightarrow> known q \<and> uint (dp_address q) = uint (dp_address p) + int (regs p)"

fun contiguous :: "data_points_t list \<Rightarrow> bool" where
  "contiguous [] = True"
| "contiguous [p] = known p"
| "contiguous (p # q # ps) = (known p \<and> follows p q \<and> contiguous (q # ps))"

lemma reg_count_regs: "reg_count (dp_data_type p) = Some n \<Longrightarrow> n = int (regs p) \<and> known p"
  by (cases "dp_data_type p") (auto simp: regs_def known_def)

lemma reg_count_known: "known p \<Longrightarrow> reg_count (dp_data_type p) = Some (int (regs p))"
  by (auto simp: known_def dest: reg_count_regs)

lemma known_regs: "known p \<Longrightarrow> 1 \<le> regs p \<and> regs p \<le> 2"
  by (cases "dp_data_type p") (auto simp: known_def regs_def)

lemma total_regs_simps [simp]:
  "total_regs [] = 0"
  "total_regs (p # ps) = regs p + total_regs ps"
  "total_regs (ps @ qs) = total_regs ps + total_regs qs"
  by (simp_all add: total_regs_def)

lemma contiguous_snoc:
  "ps \<noteq> [] \<Longrightarrow> contiguous (ps @ [q]) \<longleftrightarrow> contiguous ps \<and> follows (last ps) q"
proof (induction ps rule: contiguous.induct)
  case (2 p)
  then show ?case by (auto simp: follows_def)
qed auto

lemma contiguous_span:
  "contiguous ps \<Longrightarrow> ps \<noteq> [] \<Longrightarrow>
     uint (dp_address (last ps)) + int (regs (last ps)) = uint (dp_address (hd ps)) + int (total_regs ps)"
  by (induction ps rule: contiguous.induct) (auto simp: follows_def)

lemma contiguous_known: "contiguous ps \<Longrightarrow> p \<in> set ps \<Longrightarrow> known p"
  by (induction ps rule: contiguous.induct) (auto simp: follows_def)

text \<open>
  What the range search returns: the points split into those before the start, a
  contiguous block and the rest; the block cannot be extended.
\<close>

definition is_block :: "data_points_t list \<Rightarrow> nat \<Rightarrow> register_range \<Rightarrow> data_points_t list \<Rightarrow> data_points_t list \<Rightarrow> bool" where
  "is_block ps i r blk post \<longleftrightarrow>
     drop i ps = blk @ post \<and> blk \<noteq> [] \<and> contiguous blk
     \<and> rr_start_addr r = dp_address (hd blk) \<and> rr_count r = int (total_regs blk)
     \<and> rr_end_index r + 1 = i + length blk"

lemma range_loop_block:
  assumes "is_block ps i r blk post" and "i < length ps" and "n = i + length blk"
    and "a = uint (dp_address (last blk)) + int (regs (last blk))"
  shows "\<exists>blk' post'. is_block ps i (range_loop ps r a n) blk' post'
           \<and> (post' = [] \<or> \<not> follows (last blk') (hd post'))"
  using assms
proof (induction ps r a n arbitrary: blk post rule: range_loop.induct)
  case (1 ps r a n)
  note b = "1.prems"(1)
  have ps: "drop i ps = blk @ post" and blk: "blk \<noteq> []" "contiguous blk"
    using b by (auto simp: is_block_def)
  have len: "length ps = n + length post"
    using arg_cong [OF ps, of length] "1.prems"(2,3) by simp
  show ?case
  proof (cases post)
    case Nil
    with len b show ?thesis by (subst range_loop.simps) auto
  next
    case (Cons q post2)
    have n: "n < length ps" using len Cons by simp
    have q: "ps ! n = q"
      using arg_cong [OF ps, of "\<lambda>xs. xs ! length blk"] "1.prems"(2,3) Cons by (simp add: nth_append)
    have split: "drop i ps = (blk @ [q]) @ post2" using ps Cons by simp
    show ?thesis
    proof (cases "follows (last blk) q")
      case False
      then have "range_loop ps r a n = r"
        using n q "1.prems"(4)
        by (subst range_loop.simps) (auto simp: Let_def follows_def dest: reg_count_regs split: option.splits)
      with b False Cons show ?thesis by (metis list.sel(1))
    next
      case True
      then have k: "reg_count (dp_data_type q) = Some (int (regs q))" and addr: "uint (dp_address q) = a"
        using "1.prems"(4) by (auto simp: follows_def reg_count_known)
      let ?r = "r\<lparr>rr_count := rr_count r + int (regs q), rr_end_index := n\<rparr>"
      have step: "range_loop ps r a n = range_loop ps ?r (uint (dp_address q) + int (regs q)) (n + 1)"
        using n q k addr by (subst range_loop.simps) (simp add: Let_def)
      have "is_block ps i ?r (blk @ [q]) post2"
        using b True blk split "1.prems"(3) by (simp add: is_block_def contiguous_snoc)
      then show ?thesis
        unfolding step
        using n q k addr "1.prems"(2,3) by (intro "1.IH") auto
    qed
  qed
qed

lemma find_block:
  assumes "i < length ps" and "known (ps ! i)"
  shows "\<exists>blk post. is_block ps i (findContinuousRegisters ps i) blk post
           \<and> (post = [] \<or> \<not> follows (last blk) (hd post))"
proof -
  let ?p = "ps ! i"
  let ?r = "\<lparr>rr_start_addr = dp_address ?p, rr_count = int (regs ?p), rr_end_index = i\<rparr>"
  have split: "drop i ps = [?p] @ drop (Suc i) ps"
    using assms(1) by (simp add: Cons_nth_drop_Suc)
  have b: "is_block ps i ?r [?p] (drop (Suc i) ps)"
    unfolding is_block_def using split assms(2) by simp
  have find: "findContinuousRegisters ps i =
      (if i = length ps - 1 then ?r else range_loop ps ?r (uint (dp_address ?p) + int (regs ?p)) (i + 1))"
    using assms reg_count_known [OF assms(2)] by (simp add: findContinuousRegisters_def Let_def)
  show ?thesis
  proof (cases "i = length ps - 1")
    case True
    with b find assms(1) show ?thesis by auto
  next
    case False
    with find range_loop_block [OF b assms(1), of "i + 1" "uint (dp_address ?p) + int (regs ?p)"]
    show ?thesis by simp
  qed
qed

lemma find_unknown:
  "i < length ps \<Longrightarrow> \<not> known (ps ! i) \<Longrightarrow>
     findContinuousRegisters ps i = \<lparr>rr_start_addr = dp_address (ps ! i), rr_count = 0, rr_end_index = i\<rparr>"
  by (simp add: findContinuousRegisters_def Let_def known_def)

lemma find_end_less: "i < length ps \<Longrightarrow> rr_end_index (findContinuousRegisters ps i) < length ps"
proof (cases "known (ps ! i)")
  case True
  assume i: "i < length ps"
  obtain blk post where b: "is_block ps i (findContinuousRegisters ps i) blk post"
    using find_block [OF i True] by blast
  then have "length ps - i = length blk + length post"
    by (metis is_block_def length_append length_drop)
  moreover have "rr_end_index (findContinuousRegisters ps i) + 1 = i + length blk"
    using b by (simp add: is_block_def)
  ultimately show ?thesis using i by linarith
qed (simp add: find_unknown)

section \<open>The plan of ranges behind the loop\<close>

function read_plan :: "data_points_t list \<Rightarrow> nat \<Rightarrow> (nat \<times> register_range) list" where
  "read_plan ps i =
     (if i < length ps
      then (i, findContinuousRegisters ps i) # read_plan ps (rr_end_index (findContinuousRegisters ps i) + 1)
      else [])"
  by pat_completeness auto
termination
proof (relation "measure (\<lambda>(ps, i). length ps - i)", simp, clarsimp)
  fix ps :: "data_points_t list" and i
  assume "i < length ps"
  then show "length ps - Suc (rr_end_index (findContinuousRegisters ps i)) < length ps - i"
    using find_end_ge [of i ps] by linarith
qed

declare read_plan.simps [simp del]

fun run_plan ::
  "(register_range \<Rightarrow> 's \<Rightarrow> 's result) \<Rightarrow> (nat \<times> register_range) list \<Rightarrow> 's \<Rightarrow> 's result" where
  "run_plan f [] st = Inr st"
| "run_plan f ((i, r) # rs) st = rbind (f r st) (run_plan f rs)"

lemma process_loop_plan:
  "process_loop lib hr d fp dev ps i st = run_plan (process_range lib hr d fp dev ps) (read_plan ps i) st"
proof (induction ps i arbitrary: st rule: read_plan.induct)
  case (1 ps i)
  show ?case
  proof (cases "i < length ps")
    case True
    then have "process_loop lib hr d fp dev ps (rr_end_index (findContinuousRegisters ps i) + 1) =
        run_plan (process_range lib hr d fp dev ps)
          (read_plan ps (rr_end_index (findContinuousRegisters ps i) + 1))"
      using "1.IH" by (intro ext) simp
    with True show ?thesis
      by (subst process_loop.simps, subst read_plan.simps) (simp add: Let_def)
  next
    case False
    then show ?thesis by (subst process_loop.simps, subst read_plan.simps) simp
  qed
qed

lemma read_plan_covers:
  "i \<le> length ps \<Longrightarrow> concat (map (\<lambda>(a, r). [a ..< rr_end_index r + 1]) (read_plan ps i)) = [i ..< length ps]"
proof (induction ps i rule: read_plan.induct)
  case (1 ps i)
  show ?case
  proof (cases "i < length ps")
    case True
    let ?e = "rr_end_index (findContinuousRegisters ps i)"
    have e: "i \<le> ?e" "?e < length ps" by (simp_all add: find_end_ge find_end_less True)
    then have "[i ..< length ps] = [i ..< ?e + 1] @ [?e + 1 ..< length ps]"
      by (metis Suc_eq_plus1 Suc_leI le_SucI le_add_diff_inverse upt_add_eq_append)
    with "1.IH" True e show ?thesis by (subst read_plan.simps) simp
  next
    case False
    with "1.prems" show ?thesis by (subst read_plan.simps) simp
  qed
qed

section \<open>What one buffer writes\<close>

text \<open>
  The text stored for a point whose registers start at index \<open>n\<close> of the buffer; a
  32-bit integer takes its value from the first of its two registers only.
\<close>

definition point_text :: "fp_env \<Rightarrow> 16 word list \<Rightarrow> nat \<Rightarrow> data_points_t \<Rightarrow> string" where
  "point_text fp buf n p =
     (case dp_data_type p of
        INT16 \<Rightarrow> dec_int (sint (buf ! n))
      | FLOAT32 \<Rightarrow> fp_printf_f fp (fp_promote fp (word_cat (buf ! (n + 1)) (buf ! n)))
      | _ \<Rightarrow> dec_int (uint (buf ! n)))"

fun stored_entries ::
  "fp_env \<Rightarrow> string \<Rightarrow> 16 word list \<Rightarrow> nat \<Rightarrow> data_points_t list \<Rightarrow> (string \<times> string) list" where
  "stored_entries fp dev buf n [] = []"
| "stored_entries fp dev buf n (p # ps) =
     (c_str (modbus_key dev p), point_text fp buf n p) # stored_entries fp dev buf (n + regs p) ps"

lemma uint_ucast_16_32: "uint (ucast (v :: 16 word) :: 32 word) = uint v"
  by (simp add: uint_up_ucast is_up)

lemma sint_ucast_16_32: "sint (ucast (v :: 16 word) :: 32 word) = uint v"
proof -
  have "uint v < 2 ^ 16" using uint_bounded [of v] by simp
  moreover have "- (2 ^ 31) \<le> uint v" by (rule order_trans [OF _ uint_ge_0]) simp
  ultimately show ?thesis
    by (simp add: sint_uint uint_ucast_16_32 signed_take_bit_int_eq_self)
qed

lemma store_texts:
  "storeInt hr key v = storeValue hr key (dec_int (sint v))"
  "storeUInt hr key v = storeValue hr key (dec_int (uint v))"
  "storeDInt hr key (ucast v) = storeValue hr key (dec_int (uint v))"
  "storeUDInt hr key (ucast v) = storeValue hr key (dec_int (uint v))"
  "storeLReal fmt hr key x = storeValue hr key (fmt x)"
  for v :: "16 word"
  by (simp_all add: storeInt_def storeUInt_def storeDInt_def storeUDInt_def storeLReal_def
      sint_ucast_16_32 uint_ucast_16_32)

lemma point_step_stores:
  assumes "known p" and "unat off + regs p \<le> length buf"
  shows "point_step hr fp key buf off p =
     bnd (storeValue hr key (point_text fp buf (unat off) p)) (\<lambda>_. ret (off + of_nat (regs p)))"
  using assms
  by (cases "dp_data_type p")
     (auto simp: known_def regs_def point_step_def buf_at_def buf_float_def bnd_ret store_texts point_text_def)

lemma point_step_overrun:
  assumes "known p" and "unat off = length buf"
  shows "point_step hr fp key buf off p s = Inl OutOfBounds"
  using assms
  by (cases "dp_data_type p")
     (auto simp: known_def point_step_def buf_at_def buf_float_def bnd_fail fail_def)

lemma point_step_healthy:
  assumes "redis_laws hr up kv" and "healthy up s" and "known p" and "unat off + regs p \<le> length buf"
  obtains w where "point_step hr fp key buf off p s = Inr (off + of_nat (regs p), s\<lparr>world := w\<rparr>)"
    and "healthy up (s\<lparr>world := w\<rparr>)"
    and "kv w = (kv (world s))(c_str key \<mapsto> point_text fp buf (unat off) p)"
proof -
  obtain w where "storeValue hr key (point_text fp buf (unat off) p) s = Inr (True, s\<lparr>world := w\<rparr>)"
      "healthy up (s\<lparr>world := w\<rparr>)" "kv w = (kv (world s))(c_str key \<mapsto> point_text fp buf (unat off) p)"
    by (rule storeValue_healthy [OF assms(1,2)])
  with that show thesis
    by (simp add: point_step_stores [OF assms(3,4)] bnd_def ret_def)
qed

lemma unat_add_regs:
  fixes off :: "32 word"
  assumes "unat off = n" and "n + k < 2 ^ 32"
  shows "unat (off + of_nat k) = n + k"
proof -
  have "off = of_nat n" using assms(1) by auto
  then have "off + of_nat k = of_nat (n + k)" by simp
  with assms(2) show ?thesis by (simp only: unat_of_nat) simp
qed

lemma user_data_loop_ok:
  assumes "redis_laws hr up kv" and "healthy up s" and "\<forall>p \<in> set ps. known p"
    and "unat off = n" and "n + total_regs ps \<le> length buf" and "length buf < 2 ^ 32"
  shows "\<exists>w. user_data_loop hr fp dev buf off (ps @ qs) s
             = user_data_loop hr fp dev buf (of_nat (n + total_regs ps)) qs (s\<lparr>world := w\<rparr>)
           \<and> healthy up (s\<lparr>world := w\<rparr>)
           \<and> kv w = kv (world s) ++ map_of (rev (stored_entries fp dev buf n ps))"
  using assms(2-5)
proof (induction ps arbitrary: s off n)
  case Nil
  then have "off = of_nat n" by auto
  with Nil show ?case by (intro exI [of _ "world s"]) simp
next
  case (Cons p ps)
  have k: "known p" and fits: "unat off + regs p \<le> length buf" using Cons.prems by auto
  obtain w where w: "point_step hr fp (modbus_key dev p) buf off p s = Inr (off + of_nat (regs p), s\<lparr>world := w\<rparr>)"
      "healthy up (s\<lparr>world := w\<rparr>)"
      "kv w = (kv (world s))(c_str (modbus_key dev p) \<mapsto> point_text fp buf (unat off) p)"
    by (rule point_step_healthy [OF assms(1) Cons.prems(1) k fits])
  have off: "unat (off + of_nat (regs p)) = n + regs p"
    using Cons.prems(3,4) assms(6) by (intro unat_add_regs) auto
  obtain w' where "user_data_loop hr fp dev buf (off + of_nat (regs p)) (ps @ qs) (s\<lparr>world := w\<rparr>)
        = user_data_loop hr fp dev buf (of_nat (n + regs p + total_regs ps)) qs (s\<lparr>world := w\<rparr>\<lparr>world := w'\<rparr>)"
      "healthy up (s\<lparr>world := w\<rparr>\<lparr>world := w'\<rparr>)"
      "kv w' = kv w ++ map_of (rev (stored_entries fp dev buf (n + regs p) ps))"
    using Cons.IH [OF w(2) _ off] Cons.prems by auto
  with w Cons.prems(3) show ?case
    by (intro exI [of _ w']) (simp add: bnd_def add.assoc entries_cons del: rev.simps)
qed

lemma user_data_loop_overrun:
  assumes "redis_laws hr up kv" and "healthy up s" and "\<forall>p \<in> set ps. known p"
    and "total_regs ps = length buf" and "length buf < 2 ^ 32" and "known q"
  shows "user_data_loop hr fp dev buf 0 (ps @ q # qs) s = Inl OutOfBounds"
proof -
  obtain w where "user_data_loop hr fp dev buf 0 (ps @ q # qs) s
      = user_data_loop hr fp dev buf (of_nat (total_regs ps)) (q # qs) (s\<lparr>world := w\<rparr>)"
    using user_data_loop_ok [OF assms(1-3), of 0 0 buf fp dev "q # qs"] assms(4,5) by auto
  moreover have "unat (of_nat (total_regs ps) :: 32 word) = length buf"
    using assms(4,5) by (simp add: unat_of_nat)
  ultimately show ?thesis
    using assms(6) by (simp add: bnd_def point_step_overrun)
qed

lemma processUserData_ok:
  assumes "redis_laws hr up kv" and "up (world s)" and "redis_ready d"
    and "\<forall>p \<in> set ps. known p" and "total_regs ps \<le> length buf" and "length buf < 2 ^ 32"
  shows "\<exists>s'. processUserData hr d fp dev buf ps s = Inr (True, s') \<and> up (world s')
           \<and> kv (world s') = kv (world s) ++ map_of (rev (stored_entries fp dev buf 0 ps))"
proof -
  obtain s1 where s1: "DRDSDataRedis hr d s = Inr ((), s1)" "healthy up s1" "kv (world s1) = kv (world s)"
    using construct_healthy [OF assms(1-3)] by blast
  obtain w where w: "user_data_loop hr fp dev buf 0 ps s1 = Inr ((), s1\<lparr>world := w\<rparr>)"
      "healthy up (s1\<lparr>world := w\<rparr>)" "kv w = kv (world s1) ++ map_of (rev (stored_entries fp dev buf 0 ps))"
    using user_data_loop_ok [OF assms(1) s1(2) assms(4), of 0 0 buf fp dev "[]"] assms(5,6)
    by (auto simp: ret_def)
  have "up w" using w(2) by (simp add: healthy_def split: option.splits)
  with s1 w destroy_healthy [OF w(2)] show ?thesis
    by (auto simp: processUserData_def bnd_def ret_def)
qed

lemma processUserData_overrun:
  assumes "redis_laws hr up kv" and "up (world s)" and "redis_ready d"
    and "\<forall>p \<in> set ps. known p" and "total_regs ps = length buf" and "length buf < 2 ^ 32" and "known q"
  shows "processUserData hr d fp dev buf (ps @ q # qs) s = Inl OutOfBounds"
proof -
  obtain s1 where s1: "DRDSDataRedis hr d s = Inr ((), s1)" "healthy up s1"
    using construct_healthy [OF assms(1-3)] by blast
  then show ?thesis
    using user_data_loop_overrun [OF assms(1) s1(2) assms(4-7), of fp dev qs]
    by (simp add: processUserData_def bnd_def)
qed

lemma block_bound:
  assumes "contiguous blk" and "blk \<noteq> []"
  shows "int (total_regs blk) \<le> 65537 - uint (dp_address (hd blk))"
proof -
  have "uint (dp_address (last blk)) < 65536" using uint_bounded [of "dp_address (last blk)"] by simp
  moreover have "regs (last blk) \<le> 2" using assms contiguous_known known_regs by (meson last_in_set)
  ultimately show ?thesis using contiguous_span [OF assms] by simp
qed

lemma block_small: "contiguous blk \<Longrightarrow> blk \<noteq> [] \<Longrightarrow> total_regs blk \<le> 65537"
  using block_bound [of blk] uint_ge_0 [of "dp_address (hd blk)"] by linarith

lemma read_ok:
  assumes "api_wf api" and "ctx api \<noteq> None"
    and "mb_read_registers lib a n (link_world api) = (w, Some rs)" and "length rs = nat n"
  shows "modbus_readRegisters lib a n (replicate (nat n) 0) api = Inr ((True, rs), api\<lparr>link_world := w\<rparr>)"
  using assms by (auto simp: modbus_readRegisters_def api_wf_def)

section \<open>Registering devices\<close>

definition valid_device :: "config_modbus \<Rightarrow> bool" where
  "valid_device c \<longleftrightarrow> mb_device_id c \<noteq> [] \<and>
     (mb_Type c = ''TCP'' \<and> tcp_ip (mb_tcp c) \<noteq> [] \<and> tcp_port (mb_tcp c) > 0
      \<or> mb_Type c = ''RTU'' \<and> rtu_port_name (mb_rtu c) \<noteq> [] \<and> rtu_baudrate (mb_rtu c) > 0)"

lemma ModbusApi_total:
  "\<exists>api. ModbusApi lib sl ty ch ci pn b pa ip po mr ri w = Inr api \<and> api_wf api \<and> runing api"
proof -
  let ?s0 = "\<lparr>link_world = w, live_ctx = {}, next_ctx = 0, slaveAddr = sl, mtype = ty,
               channel = ch, cmdInterval = ci, portName = pn, baudrate = b,
               mparity = pa, ip_addr = ip, tcp_port_no = po, ctx = None, maxRetries = mr,
               retryInterval = ri, runing = True\<rparr>"
  have "api_wf ?s0" by (simp add: api_wf_def)
  then obtain c s' where "createModbusContext lib ?s0 = Inr (c, s')" "api_wf (s'\<lparr>ctx := c\<rparr>)"
      "runing s' = runing ?s0"
    by (rule createModbusContext_wf [of _ lib])
  then show ?thesis by (simp add: ModbusApi_def Let_def)
qed

lemma register_device_skips:
  assumes "\<not> valid_device (snd dev) \<or> app_devices app (fst dev) \<noteq> None"
  shows "register_device lib link dev app = Inr app \<or> fst dev \<noteq> mb_device_id (snd dev)"
  using assms by (cases dev) (auto simp: register_device_def valid_device_def Let_def)

lemma register_device_adds:
  assumes "fst dev = mb_device_id (snd dev)" and "valid_device (snd dev)" and "app_devices app (fst dev) = None"
  shows "\<exists>api. register_device lib link dev app = Inr (app\<lparr>app_devices := (app_devices app)(fst dev \<mapsto> api)\<rparr>)
              \<and> api_wf api \<and> runing api"
proof -
  obtain i c where dev: "dev = (i, c)" by fastforce
  have c: "i = mb_device_id c" "valid_device c" "app_devices app i = None" using assms dev by auto
  let ?ty = "if mb_Type c = ''TCP'' then TCP else RTU"
  obtain api where "ModbusApi lib (mb_slave_addr c) ?ty 0 (mb_cmd_interval c)
      (rtu_port_name (mb_rtu c)) (rtu_baudrate (mb_rtu c))
      (if rtu_parity (mb_rtu c) = ''NONE'' then NONE else ODD)
      (tcp_ip (mb_tcp c)) (tcp_port (mb_tcp c)) (mb_max_retries c) (mb_retry_interval c)
      (link (mb_device_id c)) = Inr api" and wf: "api_wf api" "runing api"
    using ModbusApi_total [of lib "mb_slave_addr c" ?ty 0 "mb_cmd_interval c" "rtu_port_name (mb_rtu c)"
        "rtu_baudrate (mb_rtu c)" "if rtu_parity (mb_rtu c) = ''NONE'' then NONE else ODD"
        "tcp_ip (mb_tcp c)" "tcp_port (mb_tcp c)" "mb_max_retries c" "mb_retry_interval c" "link (mb_device_id c)"]
    by (elim exE conjE)
  then have "register_device lib link dev app = Inr (app\<lparr>app_devices := (app_devices app)(fst dev \<mapsto> api)\<rparr>)"
    using c dev unfolding valid_device_def by (elim conjE disjE) (simp_all add: register_device_def)
  with wf show ?thesis by blast
qed

definition device_up :: "'m modbus_api option \<Rightarrow> bool" where
  "device_up a \<longleftrightarrow> (\<exists>api. a = Some api \<and> api_wf api \<and> runing api)"

lemma register_device_spec:
  assumes "fst dev = mb_device_id (snd dev)" and "app_devices app (fst dev) = None"
  obtains app' where "register_device lib link dev app = Inr app'" "app_running app' = app_running app"
    "\<And>i. i \<noteq> fst dev \<Longrightarrow> app_devices app' i = app_devices app i"
    "valid_device (snd dev) \<Longrightarrow> device_up (app_devices app' (fst dev))"
    "\<not> valid_device (snd dev) \<Longrightarrow> app_devices app' (fst dev) = None"
proof (cases "valid_device (snd dev)")
  case True
  then show thesis
    using register_device_adds [OF assms(1) True assms(2), of lib link] that
    by (elim exE conjE) (simp add: device_up_def)
next
  case False
  then show thesis
    using register_device_skips [of dev app lib link] that assms by simp
qed

definition valid_ids :: "(string \<times> config_modbus) list \<Rightarrow> string set" where
  "valid_ids devs = fst ` set (filter (\<lambda>dev. valid_device (snd dev)) devs)"

lemma register_devices_spec:
  assumes "\<forall>dev \<in> set devs. fst dev = mb_device_id (snd dev)" and "distinct (map fst devs)"
    and "\<forall>dev \<in> set devs. app_devices app (fst dev) = None"
  shows "\<exists>app'. register_devices lib link devs app = Inr app' \<and> app_running app' = app_running app
     \<and> (\<forall>i. if i \<in> valid_ids devs then device_up (app_devices app' i)
            else app_devices app' i = app_devices app i)"
  using assms
proof (induction devs arbitrary: app)
  case Nil
  then show ?case by (simp add: valid_ids_def)
next
  case (Cons dev devs)
  obtain app1 where app1: "register_device lib link dev app = Inr app1" "app_running app1 = app_running app"
      "\<And>i. i \<noteq> fst dev \<Longrightarrow> app_devices app1 i = app_devices app i"
      "valid_device (snd dev) \<Longrightarrow> device_up (app_devices app1 (fst dev))"
      "\<not> valid_device (snd dev) \<Longrightarrow> app_devices app1 (fst dev) = None"
    using register_device_spec [of dev app] Cons.prems(1,3) by (metis list.set_intros(1))
  have ndev: "fst dev \<notin> fst ` set devs" using Cons.prems(2) by simp
  have "\<forall>dev' \<in> set devs. app_devices app1 (fst dev') = None"
    using Cons.prems(3) app1(3) ndev by (metis image_eqI list.set_intros(2))
  then obtain app2 where app2: "register_devices lib link devs app1 = Inr app2"
      "app_running app2 = app_running app1"
      "\<forall>i. if i \<in> valid_ids devs then device_up (app_devices app2 i) else app_devices app2 i = app_devices app1 i"
    using Cons.IH [of app1] Cons.prems(1,2) by auto
  have "if i \<in> valid_ids (dev # devs) then device_up (app_devices app2 i)
        else app_devices app2 i = app_devices app i" for i
  proof (cases "i = fst dev")
    case True
    then have "i \<notin> valid_ids devs" using ndev by (auto simp: valid_ids_def)
    then have "app_devices app2 i = app_devices app1 i" using app2(3) by presburger
    with True show ?thesis
      using app1(4,5) Cons.prems(3) ndev by (auto simp: valid_ids_def)
  next
    case False
    then have "i \<in> valid_ids (dev # devs) \<longleftrightarrow> i \<in> valid_ids devs" by (auto simp: valid_ids_def)
    with app2(3) app1(3) [OF False] show ?thesis by metis
  qed
  with app1(1,2) app2(1,2) show ?case by auto
qed

section \<open>A polling pass over one device\<close>

lemma contiguous_prefix: "contiguous (xs @ ys) \<Longrightarrow> contiguous xs"
proof (induction xs rule: contiguous.induct)
  case (2 p)
  then show ?case by (cases ys) auto
qed auto

lemma find_single_block:
  assumes "contiguous ps" and "ps \<noteq> []"
  shows "findContinuousRegisters ps 0 =
    \<lparr>rr_start_addr = dp_address (hd ps), rr_count = int (total_regs ps), rr_end_index = length ps - 1\<rparr>"
proof -
  have k: "0 < length ps" "known (ps ! 0)"
    using assms contiguous_known [OF assms(1)] by auto
  then obtain blk post where b: "is_block ps 0 (findContinuousRegisters ps 0) blk post"
      "post = [] \<or> \<not> follows (last blk) (hd post)"
    using find_block by blast
  have "post = []"
  proof (rule ccontr)
    assume "post \<noteq> []"
    then obtain q post2 where "post = q # post2" by (cases post) auto
    then have ps: "ps = (blk @ [q]) @ post2" and blk: "blk \<noteq> []" using b(1) by (auto simp: is_block_def)
    have "contiguous (blk @ [q])" using assms(1) ps contiguous_prefix by blast
    then show False using b(2) \<open>post = q # post2\<close> contiguous_snoc [OF blk] by simp
  qed
  with b(1) have "ps = blk" "rr_start_addr (findContinuousRegisters ps 0) = dp_address (hd blk)"
    "rr_count (findContinuousRegisters ps 0) = int (total_regs blk)"
    "rr_end_index (findContinuousRegisters ps 0) + 1 = length blk"
    by (auto simp: is_block_def)
  then show ?thesis by (auto intro!: register_range.equality)
qed

lemma sorter_length: "sorts_by_address sorter \<Longrightarrow> length (sorter ps) = length ps"
  by (metis size_mset sorts_by_address_def)

lemma sorter_Nil: "sorts_by_address sorter \<Longrightarrow> sorter ps = [] \<longleftrightarrow> ps = []"
  by (metis length_0_conv sorter_length)

lemma process_first_block:
  assumes "api_wf api" and "ctx api \<noteq> None" and "i < length ps"
    and "mb_read_registers lib (rr_start_addr (findContinuousRegisters ps i))
           (rr_count (findContinuousRegisters ps i)) (link_world api) = (w, Some rs)"
    and "length rs = nat (rr_count (findContinuousRegisters ps i))"
  shows "process_loop lib hr d fp dev ps i (api, s) =
    rbind (processUserData hr d fp dev rs ps s)
      (\<lambda>(ok, s'). process_loop lib hr d fp dev ps (rr_end_index (findContinuousRegisters ps i) + 1)
                    (api\<lparr>link_world := w\<rparr>, s'))"
  using assms(3) read_ok [OF assms(1,2,4,5)]
  by (subst process_loop.simps, cases "processUserData hr d fp dev rs ps s")
     (auto simp: Let_def process_range_def)

lemma sort_key_sorts: "sorts_by_address (sort_key (\<lambda>p. uint (dp_address p)))"
  by (simp add: sorts_by_address_def)

definition demo_point :: "string \<Rightarrow> 16 word \<Rightarrow> data_type_e \<Rightarrow> data_points_t" where
  "demo_point n a t = \<lparr>dp_name = n, dp_address = a, dp_type = ''holding'', dp_data_type = t, dp_scale = 0, dp_offset = 0\<rparr>"

definition demo_device :: "data_points_t list \<Rightarrow> config_modbus" where
  "demo_device ps =
     \<lparr>mb_device_id = ''dev'', mb_Type = ''TCP'', mb_tcp = \<lparr>tcp_ip = ''127.0.0.1'', tcp_port = 502\<rparr>,
      mb_rtu = \<lparr>rtu_port_name = [], rtu_baudrate = 0, rtu_parity = ''N''\<rparr>, mb_slave_addr = 1,
      mb_cmd_interval = 1000, mb_max_retries = 3, mb_retry_interval = 1000, mb_byte_order = ''ABCD'',
      mb_data_points = ps\<rparr>"

definition demo_fp :: fp_env where
  "demo_fp = \<lparr>fp_printf_f = (\<lambda>x. dec_nat (unat x)), fp_promote = ucast\<rparr>"

definition demo_defaults :: redis_defaults where
  "demo_defaults = \<lparr>default_unix_socket_path = [], default_host = ''127.0.0.1'', default_port = 6379\<rparr>"

lemma run_registers:
  assumes "mConfig \<noteq> []" and "distinct (map fst mConfig)"
    and "\<forall>dev \<in> set mConfig. fst dev = mb_device_id (snd dev)"
  shows "\<exists>app. AppModbus_run lib link mConfig AppModbus = Inr (True, app) \<and> app_running app
     \<and> (\<forall>i. if i \<in> valid_ids mConfig then device_up (getDeviceApi app i) else getDeviceApi app i = None)"
proof -
  obtain app where "register_devices lib link mConfig AppModbus = Inr app" "app_running app"
      "\<forall>i. if i \<in> valid_ids mConfig then device_up (app_devices app i) else app_devices app i = None"
    using register_devices_spec [OF assms(3,2), of AppModbus lib link] by (auto simp: AppModbus_def)
  with assms(1) show ?thesis by (simp add: AppModbus_run_def getDeviceApi_def)
qed

lemma poll_contiguous:
  assumes "redis_laws hr up kv" and "up (world s)" and "redis_ready d"
    and "sorts_by_address sorter" and "mb_data_points config \<noteq> []"
    and "sorter (mb_data_points config) = ps" and "contiguous ps"
    and "api_wf api" and "ctx api \<noteq> None"
    and "mb_read_registers lib (dp_address (hd ps)) (int (total_regs ps)) (link_world api) = (w, Some rs)"
    and "length rs = total_regs ps"
  shows "\<exists>s'. processContinuousRegisters lib hr d fp sorter config (api, s) = Inr (api\<lparr>link_world := w\<rparr>, s')
     \<and> up (world s') \<and> kv (world s') = kv (world s) ++ map_of (rev (stored_entries fp (mb_device_id config) rs 0 ps))"
proof -
  have ps: "ps \<noteq> []" using sorter_Nil [OF assms(4)] assms(5,6) by metis
  note find = find_single_block [OF assms(7) ps]
  have len: "length rs < 2 ^ 32"
    using block_small [OF assms(7) ps] assms(11) by simp
  obtain s' where s': "processUserData hr d fp (mb_device_id config) rs ps s = Inr (True, s')" "up (world s')"
      "kv (world s') = kv (world s) ++ map_of (rev (stored_entries fp (mb_device_id config) rs 0 ps))"
    using processUserData_ok [OF assms(1-3), of ps rs fp "mb_device_id config"] contiguous_known [OF assms(7)]
      assms(11) len by auto
  have last: "process_loop lib hr d fp dev ps (length ps) st = Inr st" for dev st
    by (subst process_loop.simps) simp
  have "process_loop lib hr d fp (mb_device_id config) ps 0 (api, s) = Inr (api\<lparr>link_world := w\<rparr>, s')"
    using process_first_block [of api 0 ps lib w rs hr d fp "mb_device_id config" s] assms(8-11) ps s'(1) last
    by (simp add: find)
  with s'(2,3) assms(5,6) show ?thesis by (simp add: processContinuousRegisters_def Let_def)
qed

text \<open>
  libmodbus refuses to read more than \<open>MODBUS_MAX_READ_REGISTERS\<close> registers at once: the
  documented limit of the protocol is 125.
\<close>

definition refuses_long_reads :: "'m libmodbus \<Rightarrow> bool" where
  "refuses_long_reads lib \<longleftrightarrow> (\<forall>a n w. 125 < n \<longrightarrow> snd (mb_read_registers lib a n w) = None)"

lemma read_refused:
  assumes "api_wf api" and "refuses_long_reads lib" and "125 < n"
  shows "\<exists>api'. modbus_readRegisters lib a n dest api = Inr ((False, dest), api') \<and> api_wf api' \<and> ctx api' = None"
proof (cases "ctx api")
  case None
  with assms(1) show ?thesis by (simp add: modbus_readRegisters_def)
next
  case (Some p)
  then have p: "p \<in> live_ctx api" using assms(1) by (simp add: api_wf_def)
  have "snd (mb_read_registers lib a n (link_world api)) = None"
    using assms(2,3) by (simp add: refuses_long_reads_def)
  then obtain w where w: "mb_read_registers lib a n (link_world api) = (w, None)" by (metis prod.collapse)
  have "api_wf (api\<lparr>link_world := w\<rparr>)" using assms(1) by (simp add: api_wf_def)
  then obtain api' where "modbus_destroy lib (api\<lparr>link_world := w\<rparr>) = Inr ((), api')" "api_wf api'" "ctx api' = None"
    using modbus_destroy_wf by blast
  with Some p w show ?thesis by (simp add: modbus_readRegisters_def bnd_def ret_def)
qed

lemma process_loop_disconnected:
  assumes "ctx api = None"
  shows "process_loop lib hr d fp dev ps i (api, s) = Inr (api, s)"
proof (induction "length ps - i" arbitrary: i rule: less_induct)
  case less
  show ?case
  proof (cases "i < length ps")
    case True
    then have "length ps - (rr_end_index (findContinuousRegisters ps i) + 1) < length ps - i"
      using find_end_ge [of i ps] by linarith
    from less [OF this] True assms show ?thesis
      by (subst process_loop.simps) (simp add: Let_def process_range_def modbus_readRegisters_def)
  qed (subst process_loop.simps, simp)
qed

lemma poll_refused:
  assumes "api_wf api" and "refuses_long_reads lib" and "ps \<noteq> []" and "125 < rr_count (findContinuousRegisters ps 0)"
  shows "\<exists>api'. process_loop lib hr d fp dev ps 0 (api, s) = Inr (api', s) \<and> ctx api' = None"
proof -
  let ?r = "findContinuousRegisters ps 0"
  obtain api' where r: "modbus_readRegisters lib (rr_start_addr ?r) (rr_count ?r) (replicate (nat (rr_count ?r)) 0) api
      = Inr ((False, replicate (nat (rr_count ?r)) 0), api')" "ctx api' = None"
    using read_refused [OF assms(1,2,4)] by blast
  then show ?thesis using assms(3)
    by (subst process_loop.simps) (simp add: Let_def process_range_def process_loop_disconnected)
qed

definition reg_point :: "nat \<Rightarrow> data_points_t" where
  "reg_point i = demo_point (dec_nat i) (of_nat i) INT16"

lemma reg_point_facts:
  "known (reg_point i)" "regs (reg_point i) = 1" "i < 65536 \<Longrightarrow> uint (dp_address (reg_point i)) = int i"
  by (simp_all add: reg_point_def known_def regs_def demo_point_def uint_nat unat_of_nat)

lemma contiguous_points: "k + n \<le> 65536 \<Longrightarrow> contiguous (map reg_point [k ..< k + n])"
proof (induction n)
  case (Suc n)
  show ?case
  proof (cases n)
    case 0
    then show ?thesis by (simp add: reg_point_facts)
  next
    case (Suc m)
    have "follows (last (map reg_point [k ..< k + n])) (reg_point (k + n))"
      using Suc Suc.prems by (simp add: follows_def last_map reg_point_facts)
    then have "contiguous (map reg_point [k ..< k + n] @ [reg_point (k + n)])"
      using Suc Suc.prems Suc.IH by (subst contiguous_snoc) auto
    then show ?thesis by simp
  qed
qed simp

lemma total_regs_points: "total_regs (map reg_point is) = length is"
  by (induction "is") (simp_all add: reg_point_facts)

definition demo_block :: "data_points_t list" where
  "demo_block = map reg_point [0 ..< 126]"

lemma demo_block_facts:
  "contiguous demo_block" "total_regs demo_block = 126" "sort_key (\<lambda>p. uint (dp_address p)) demo_block = demo_block"
proof -
  show "contiguous demo_block" unfolding demo_block_def using contiguous_points [of 0 126] by simp
  show "total_regs demo_block = 126" by (simp only: demo_block_def total_regs_points length_upt)
  have "map (\<lambda>p. uint (dp_address p)) demo_block = map int [0 ..< 126]"
    unfolding demo_block_def map_map by (rule map_cong) (simp_all add: reg_point_facts del: upt_rec_numeral)
  moreover have "sorted (map int [0 ..< 126])" by (simp add: sorted_iff_nth_mono del: upt_rec_numeral)
  ultimately show "sort_key (\<lambda>p. uint (dp_address p)) demo_block = demo_block" by (simp add: sort_key_id_if_sorted)
qed

section \<open>Properties\<close>



text \<open>
  A polling pass reads each data point in exactly one range: with any sorting
  function that permutes the points into address order, the pass is the run of a plan of
  ranges, and the index intervals of the plan, put together, are all indices of the
  device's points, each once and in order.
\<close>

theorem poll_covers_every_point_once:
  assumes "sorts_by_address sorter"
  shows "processContinuousRegisters lib hr d fp sorter config st =
       run_plan (process_range lib hr d fp (mb_device_id config) (sorter (mb_data_points config)))
         (read_plan (sorter (mb_data_points config)) 0) st
     \<and> concat (map (\<lambda>(a, r). [a ..< rr_end_index r + 1]) (read_plan (sorter (mb_data_points config)) 0))
         = [0 ..< length (mb_data_points config)]"
proof -
  have empty: "process_loop lib hr d fp dev [] 0 st = Inr st" for dev
    by (subst process_loop.simps) simp
  have "processContinuousRegisters lib hr d fp sorter config st =
      process_loop lib hr d fp (mb_device_id config) (sorter (mb_data_points config)) 0 st"
    using sorter_Nil [OF assms, of "mb_data_points config"] empty
    by (auto simp: processContinuousRegisters_def Let_def)
  then show ?thesis
    using read_plan_covers [of 0 "sorter (mb_data_points config)"] sorter_length [OF assms]
    by (simp add: process_loop_plan)
qed

theorem poll_covers_every_point_once_witness:
  "concat (map (\<lambda>(a, r). [a ..< rr_end_index r + 1])
     (read_plan (sort_key (\<lambda>p. uint (dp_address p)) [demo_point ''a'' 8 INT16, demo_point ''b'' 3 INT32]) 0)) = [0, 1]"
  using poll_covers_every_point_once [OF sort_key_sorts,
      of "demo_lib True None" list_server demo_defaults demo_fp
         "demo_device [demo_point ''a'' 8 INT16, demo_point ''b'' 3 INT32]" "(demo_api None, redis_at [])"]
  by (simp add: demo_device_def)

text \<open>
  A device whose points occupy one gapless block is polled completely: when the link
  is connected, the registers arrive and Redis is reachable, the pass ends without a
  fault, and Redis then holds, under the key of each point, the text of its registers;
  no other key changes and the later of two points with the same key wins.
\<close>

theorem poll_stores_contiguous_device:
  assumes "redis_laws hr up kv" and "up (world s)" and "redis_ready d"
    and "sorts_by_address sorter" and "mb_data_points config \<noteq> []"
    and "sorter (mb_data_points config) = ps" and "contiguous ps"
    and "api_wf api" and "ctx api \<noteq> None"
    and "mb_read_registers lib (dp_address (hd ps)) (int (total_regs ps)) (link_world api) = (w, Some rs)"
    and "length rs = total_regs ps"
  shows "\<exists>s'. processContinuousRegisters lib hr d fp sorter config (api, s) = Inr (api\<lparr>link_world := w\<rparr>, s')
     \<and> kv (world s') = kv (world s) ++ map_of (rev (stored_entries fp (mb_device_id config) rs 0 ps))"
  using poll_contiguous [OF assms, of fp] by blast

theorem poll_stores_contiguous_device_witness:
  "\<exists>s'. processContinuousRegisters (demo_lib True (Some [5, 65535])) list_server demo_defaults demo_fp
          (sort_key (\<lambda>p. uint (dp_address p)))
          (demo_device [demo_point ''b'' 8 INT16, demo_point ''a'' 7 INT16]) (demo_api (Some 0), redis_at [])
        = Inr (demo_api (Some 0), s')
      \<and> map_of (world s') = map_of [] ++ map_of [(''modbus_data:dev:b'', dec_int (- 1)), (''modbus_data:dev:a'', dec_int 5)]"
proof -
  let ?c = "demo_device [demo_point ''b'' 8 INT16, demo_point ''a'' 7 INT16]"
  let ?ps = "[demo_point ''a'' 7 INT16, demo_point ''b'' 8 INT16]"
  show ?thesis
    using poll_stores_contiguous_device [OF list_server_laws, where s = "redis_at []" and d = demo_defaults
        and sorter = "sort_key (\<lambda>p. uint (dp_address p))" and config = ?c and ps = ?ps
        and api = "demo_api (Some 0)" and lib = "demo_lib True (Some [5, 65535])"
        and rs = "[5, 65535]" and fp = demo_fp] sort_key_sorts
    by (simp add: redis_ready_def demo_defaults_def demo_device_def demo_point_def demo_api_def demo_lib_def
        api_wf_def regs_def known_def follows_def point_text_def modbus_key_def redis_at_def c_str_def)
qed

text \<open>
  C31. A gap between the points of a device makes the pass run off its buffer: the loop
  hands \<^emph>\<open>all\<close> points of the device to \<open>processUserData\<close> together with the buffer of the
  first range only, so as soon as that range is read and a point of a known type follows
  it, \<open>dataBuffer[regOffset]\<close> is read past the end of the vector.
\<close>

theorem poll_with_gap_overruns:
  assumes "redis_laws hr up kv" and "up (world s)" and "redis_ready d"
    and "mb_data_points config \<noteq> []" and "sorter (mb_data_points config) = ps"
    and "is_block ps 0 (findContinuousRegisters ps 0) blk (q # post)" and "known q"
    and "api_wf api" and "ctx api \<noteq> None"
    and "mb_read_registers lib (dp_address (hd blk)) (int (total_regs blk)) (link_world api) = (w, Some rs)"
    and "length rs = total_regs blk"
  shows "processContinuousRegisters lib hr d fp sorter config (api, s) = Inl OutOfBounds"
proof -
  let ?r = "findContinuousRegisters ps 0"
  have ps: "ps = blk @ q # post" and blk: "contiguous blk" "blk \<noteq> []"
    and r: "rr_start_addr ?r = dp_address (hd blk)" "rr_count ?r = int (total_regs blk)"
    using assms(6) by (auto simp: is_block_def)
  have len: "length rs < 2 ^ 32"
    using block_small [OF blk] assms(11) by simp
  have "processUserData hr d fp (mb_device_id config) rs ps s = Inl OutOfBounds"
    unfolding ps using contiguous_known [OF blk(1)] assms(11) len
    by (intro processUserData_overrun [OF assms(1-3) _ _ _ assms(7)]) auto
  moreover have "0 < length ps" "length rs = nat (rr_count ?r)" using ps r(2) assms(11) by simp_all
  ultimately have "process_loop lib hr d fp (mb_device_id config) ps 0 (api, s) = Inl OutOfBounds"
    using process_first_block [of api 0 ps lib w rs hr d fp "mb_device_id config" s] assms(8-10) r
    by simp
  with assms(4,5) show ?thesis by (simp add: processContinuousRegisters_def Let_def)
qed

lemma demo_gap_block:
  "is_block [demo_point ''a'' 7 INT16, demo_point ''b'' 20 INT16] 0
     (findContinuousRegisters [demo_point ''a'' 7 INT16, demo_point ''b'' 20 INT16] 0)
     [demo_point ''a'' 7 INT16] [demo_point ''b'' 20 INT16]"
  by (simp add: is_block_def findContinuousRegisters_def range_loop.simps Let_def demo_point_def known_def regs_def)

theorem poll_with_gap_overruns_witness:
  "processContinuousRegisters (demo_lib True (Some [5])) list_server demo_defaults demo_fp
     (sort_key (\<lambda>p. uint (dp_address p)))
     (demo_device [demo_point ''a'' 7 INT16, demo_point ''b'' 20 INT16]) (demo_api (Some 0), redis_at [])
   = Inl OutOfBounds"
proof -
  let ?ps = "[demo_point ''a'' 7 INT16, demo_point ''b'' 20 INT16]"
  have "sort_key (\<lambda>p. uint (dp_address p)) (mb_data_points (demo_device ?ps)) = ?ps"
    by (simp add: demo_device_def demo_point_def)
  then show ?thesis
    using poll_with_gap_overruns [OF list_server_laws _ _ _ _ demo_gap_block, where s = "redis_at []"
        and d = demo_defaults and config = "demo_device ?ps" and sorter = "sort_key (\<lambda>p. uint (dp_address p))"
        and api = "demo_api (Some 0)" and lib = "demo_lib True (Some [5])" and rs = "[5]" and fp = demo_fp]
    by (simp add: redis_ready_def demo_defaults_def demo_device_def demo_point_def demo_api_def demo_lib_def
        api_wf_def regs_def known_def)
qed

text \<open>
  A 32-bit integer point stores its first register only: two buffers that differ in
  the second register of an \<open>INT32\<close> or \<open>UINT32\<close> point are written alike, and the value
  stored is the 16-bit number of the first register.
\<close>

theorem int32_point_ignores_second_register:
  assumes "dp_data_type p \<in> {INT32, UINT32}"
  shows "user_data_loop hr fp dev [v, b] 0 [p] = user_data_loop hr fp dev [v, b'] 0 [p]
     \<and> user_data_loop hr fp dev [v, b] 0 [p] s
         = rbind (storeValue hr (modbus_key dev p) (dec_int (uint v)) s) (\<lambda>(ok, s'). Inr ((), s'))"
  using assms
  by (cases "storeValue hr (modbus_key dev p) (dec_int (uint v)) s")
     (auto simp: fun_eq_iff point_step_def buf_at_def bnd_ret store_texts bnd_def ret_def split: sum.split)

theorem int32_point_ignores_second_register_witness:
  "user_data_loop list_server demo_fp ''dev'' [5, 1] 0 [demo_point ''a'' 7 INT32]
   = user_data_loop list_server demo_fp ''dev'' [5, 2] 0 [demo_point ''a'' 7 INT32]"
  using int32_point_ignores_second_register
    [of "demo_point ''a'' 7 INT32" list_server demo_fp "''dev''" 5 1 2 "redis_at []"]
  by (simp add: demo_point_def)

text \<open>
  \<open>run\<close> registers exactly the well-configured devices: from a fresh application,
  with the configuration keyed by device id, it succeeds, and a device has an API object
  afterwards if and only if its configuration is valid (a known type with the parameters
  of that type); each object is in a consistent state and running.
\<close>

theorem run_registers_valid_devices:
  assumes "mConfig \<noteq> []" and "distinct (map fst mConfig)"
    and "\<forall>dev \<in> set mConfig. fst dev = mb_device_id (snd dev)"
  shows "\<exists>app. AppModbus_run lib link mConfig AppModbus = Inr (True, app) \<and> app_running app
     \<and> (\<forall>i. if i \<in> valid_ids mConfig then device_up (getDeviceApi app i) else getDeviceApi app i = None)"
  by (rule run_registers [OF assms])

theorem run_registers_valid_devices_witness:
  "\<exists>app. AppModbus_run (demo_lib True None) (\<lambda>_. ()) [(''dev'', demo_device [])] AppModbus = Inr (True, app)
     \<and> device_up (getDeviceApi app ''dev'') \<and> getDeviceApi app ''other'' = None"
proof -
  have ids: "valid_ids [(''dev'', demo_device [])] = {''dev''}"
    by (simp add: valid_ids_def valid_device_def demo_device_def)
  obtain app where "AppModbus_run (demo_lib True None) (\<lambda>_. ()) [(''dev'', demo_device [])] AppModbus = Inr (True, app)"
      "\<forall>i. if i \<in> {''dev''} then device_up (getDeviceApi app i) else getDeviceApi app i = None"
    using run_registers_valid_devices [of "[(''dev'', demo_device [])]" "demo_lib True None" "\<lambda>_. ()"] ids
    by (auto simp: demo_device_def)
  then show ?thesis by (intro exI [of _ app]) auto
qed

text \<open>
  \<open>stop\<close> ends all work: afterwards every registered link has left its reconnect loop's
  condition, the set of devices is unchanged, and a pass of any device task changes
  nothing.
\<close>

theorem stop_ends_device_tasks:
  "dom (app_devices (AppModbus_stop app)) = dom (app_devices app)
   \<and> pred_option (\<lambda>api. \<not> runing api) (getDeviceApi (AppModbus_stop app) i)
   \<and> device_task_pass lib hr d fp sorter config i (AppModbus_stop app, rs) = Inr (AppModbus_stop app, rs)"
  by (cases "app_devices app i")
     (auto simp: AppModbus_stop_def getDeviceApi_def device_task_pass_def modbus_stop_def dom_def)

text \<open>
  C27. A block of registers is never split: a device whose points form one gapless block of
  more than 125 registers asks for all of them in one read, which libmodbus refuses, so
  every pass closes the connection, stores nothing and leaves Redis as it was; the next
  pass finds the same block.
\<close>

theorem long_block_never_stored:
  assumes "refuses_long_reads lib" and "api_wf api" and "sorts_by_address sorter"
    and "sorter (mb_data_points config) = ps" and "contiguous ps" and "125 < total_regs ps"
  shows "\<exists>api'. processContinuousRegisters lib hr d fp sorter config (api, s) = Inr (api', s) \<and> ctx api' = None"
proof -
  have ps: "ps \<noteq> []" using assms(6) by auto
  then have pts: "mb_data_points config \<noteq> []" using sorter_Nil [OF assms(3)] assms(4) by metis
  have "125 < rr_count (findContinuousRegisters ps 0)"
    using find_single_block [OF assms(5) ps] assms(6) by simp
  with poll_refused [OF assms(2,1) ps] pts assms(4) show ?thesis
    by (simp add: processContinuousRegisters_def Let_def)
qed

theorem long_block_never_stored_witness:
  "\<exists>api'. processContinuousRegisters (demo_lib True None) list_server demo_defaults demo_fp
            (sort_key (\<lambda>p. uint (dp_address p))) (demo_device demo_block) (demo_api (Some 0), redis_at [])
          = Inr (api', redis_at []) \<and> ctx api' = None"
proof (rule long_block_never_stored)
  show "refuses_long_reads (demo_lib True None)" by (simp add: refuses_long_reads_def demo_lib_def)
  show "api_wf (demo_api (Some 0))" by (simp add: api_wf_def demo_api_def)
  show "sorts_by_address (sort_key (\<lambda>p. uint (dp_address p)))" by (rule sort_key_sorts)
  show "sort_key (\<lambda>p. uint (dp_address p)) (mb_data_points (demo_device demo_block)) = demo_block"
    by (simp add: demo_device_def demo_block_facts)
  show "contiguous demo_block" "125 < total_regs demo_block" by (simp_all add: demo_block_facts)
qed

end
