(* ===== verification/Iec104_Image.thy ===== *)
theory Iec104_Image
  imports Iec104_Server
begin

text \<open>
  The IEC 104 server (\<open>core/iec104/iec104Service.cc\<close>) from outside: its process image, that is
  the information object last valid under each address, as a function of the history of
  calls and commands alone. \<open>Iec104_Server\<close> keeps it in a table with types, unions and times;
  here the table is shown to implement the image.
\<close>

section \<open>The image of a history\<close>

type_synonym image = "int \<rightharpoonup> information_object"

definition set_scaled :: "int \<Rightarrow> 16 word \<Rightarrow> image \<Rightarrow> image" where
  "set_scaled a v m = (case m a of Some (MeasuredValueScaled _ _ q) \<Rightarrow> m(a \<mapsto> MeasuredValueScaled a v q) | _ \<Rightarrow> m)"

definition set_single :: "int \<Rightarrow> bool \<Rightarrow> image \<Rightarrow> image" where
  "set_single a b m = (case m a of Some (SinglePointInformation _ _ q) \<Rightarrow> m(a \<mapsto> SinglePointInformation a b q) | _ \<Rightarrow> m)"

fun image_step :: "'c server_event \<Rightarrow> image \<Rightarrow> image" where
  "image_step (AddScaled now a v q) m = m(a \<mapsto> MeasuredValueScaled a v q)"
| "image_step (AddSingle now a b q) m = m(a \<mapsto> SinglePointInformation a b q)"
| "image_step (UpdateScaled now a v) m = set_scaled a v m"
| "image_step (UpdateSingle now a b) m = set_single a b m"
| "image_step (Start up th) m = m"
| "image_step Stop m = m"
| "image_step (Command now c asdu) m =
     (if ra_type asdu = C_SC_NA_1 \<and> ra_cot asdu = COT_ACTIVATION
      then case ra_element asdu of Some (a, b) \<Rightarrow> set_single a b m | None \<Rightarrow> m
      else m)"

definition image_of :: "'c server_event list \<Rightarrow> image" where
  "image_of es = fold image_step es Map.empty"

text \<open>The objects of an image in the order of their addresses.\<close>

definition listed :: "image \<Rightarrow> information_object list" where
  "listed m = map (\<lambda>a. the (m a)) (sorted_list_of_set (dom m))"

section \<open>The table implements the image\<close>

definition table_image :: "iec104_server \<Rightarrow> image" where
  "table_image s a = map_option io_of (map_of (dataPoints_m s) a)"

lemma table_point:
  assumes "srv_ok s" and "map_of (dataPoints_m s) a = Some dp"
  shows "ioa dp = a \<and> typed dp"
  using map_of_SomeD [OF assms(2)] assms(1) by (auto simp: srv_ok_def)

lemma put_image:
  "srv_ok s \<Longrightarrow> table_image (s\<lparr>dataPoints_m := omap_put a dp (dataPoints_m s)\<rparr>) = (table_image s)(a \<mapsto> io_of dp)"
  by (auto simp: table_image_def srv_ok_def omap_put_lookup)

lemma alter_image:
  assumes "srv_ok s"
  shows "table_image (set_if_type t v now a s) =
    (case map_of (dataPoints_m s) a of
       None \<Rightarrow> table_image s
     | Some dp \<Rightarrow> if ptype dp = t then (table_image s)(a \<mapsto> io_of (dp\<lparr>pvalue := v, timestamp := now\<rparr>)) else table_image s)"
  using assms
  by (auto simp: table_image_def set_if_type_def srv_ok_def omap_alter_lookup fun_eq_iff split: option.split)

lemma set_single_image:
  assumes "srv_ok s"
  shows "table_image (set_if_type SINGLE_POINT (SinglePointValue b) now a s) = set_single a b (table_image s)"
proof (cases "map_of (dataPoints_m s) a")
  case (Some dp)
  then show ?thesis using table_point [OF assms Some] alter_image [OF assms, of SINGLE_POINT "SinglePointValue b" now a]
    by (auto simp: set_single_def table_image_def io_of_def typed_def split: point_union.splits)
qed (use alter_image [OF assms, of SINGLE_POINT "SinglePointValue b" now a] in \<open>simp add: set_single_def table_image_def\<close>)

lemma set_scaled_image:
  assumes "srv_ok s"
  shows "table_image (set_if_type MEASURED_VALUE_SCALED (ScaledValue v) now a s) = set_scaled a v (table_image s)"
proof (cases "map_of (dataPoints_m s) a")
  case (Some dp)
  then show ?thesis using table_point [OF assms Some] alter_image [OF assms, of MEASURED_VALUE_SCALED "ScaledValue v" now a]
    by (auto simp: set_scaled_def table_image_def io_of_def typed_def split: point_union.splits)
qed (use alter_image [OF assms, of MEASURED_VALUE_SCALED "ScaledValue v" now a] in \<open>simp add: set_scaled_def table_image_def\<close>)

lemma same_table: "dataPoints_m s' = dataPoints_m s \<Longrightarrow> table_image s' = table_image s"
  by (simp add: table_image_def fun_eq_iff)

lemma step_image:
  assumes "server_step s e t" and "srv_ok s"
  shows "table_image t = image_step e (table_image s)"
  using assms(1)
proof cases
  case (add_scaled now a v q)
  then show ?thesis using put_image [OF assms(2)] by (simp add: addDataPoint_scaled_def io_of_def)
next
  case (add_single now a b q)
  then show ?thesis using put_image [OF assms(2)] by (simp add: addDataPoint_single_def io_of_def)
next
  case (upd_scaled now a v)
  then show ?thesis using set_scaled_image [OF assms(2)] by (simp add: updateDataPoint_scaled_def)
next
  case (upd_single now a b)
  then show ?thesis using set_single_image [OF assms(2)] by (simp add: updateDataPoint_single_def)
next
  case (starts up th r)
  then have "dataPoints_m t = dataPoints_m s" by (auto simp: start_def split: if_splits option.splits)
  then have "table_image t = table_image s" by (rule same_table)
  with starts show ?thesis by simp
next
  case stops
  have "table_image (stop s) = table_image s" by (rule same_table) (simp add: stop_def)
  with stops show ?thesis by simp
next
  case (command now c asdu r ms)
  then show ?thesis using set_single_image [OF assms(2)]
    by (auto simp: asduHandler_def split: if_splits option.splits prod.splits)
qed

lemma reachable_image: "srv.reachable s es \<Longrightarrow> table_image s = image_of es"
proof (induction rule: srv.reachable.induct)
  case (at_start s)
  then show ?case by (auto simp: server_start_def IEC104Server_def table_image_def image_of_def)
next
  case (by_step s es e t)
  then show ?case using step_image [OF by_step.hyps(2)] srv.reachable_inv [OF by_step.hyps(1)] by (simp add: image_of_def)
qed

lemma omap_values:
  assumes "omap_ok m"
  shows "map snd m = map (\<lambda>k. the (map_of m k)) (sorted_list_of_set (dom (map_of m)))"
proof -
  have s: "sorted_wrt (<) (map fst m)" using assms by (simp add: omap_ok_def)
  then have "sorted (map fst m)" "distinct (map fst m)" by (simp_all add: strict_sorted_iff)
  then have "sorted_list_of_set (dom (map_of m)) = map fst m"
    by (simp add: dom_map_of_conv_image_fst sorted_list_of_set.idem_if_sorted_distinct flip: set_map)
  moreover have "map (\<lambda>k. the (map_of m k)) (map fst m) = map snd m"
    using \<open>distinct (map fst m)\<close> by (auto simp: map_of_is_SomeI)
  ultimately show ?thesis by simp
qed

lemma table_listed:
  assumes "srv_ok s"
  shows "map io_of (map snd (dataPoints_m s)) = listed (table_image s)"
proof -
  have "omap_ok (dataPoints_m s)" using assms by (simp add: srv_ok_def)
  moreover have d: "dom (table_image s) = dom (map_of (dataPoints_m s))" by (auto simp: table_image_def)
  moreover have "io_of (the (map_of (dataPoints_m s) a)) = the (table_image s a)"
    if "a \<in> dom (map_of (dataPoints_m s))" for a
    using that by (auto simp: table_image_def)
  moreover have "finite (dom (map_of (dataPoints_m s)))" by (rule finite_dom_map_of)
  ultimately show ?thesis
    using omap_values [of "dataPoints_m s"] by (simp add: listed_def d)
qed

section \<open>Properties\<close>

lemma image_answers:
  assumes "srv_ok s" and "asdu_laws lib elems cap"
  shows "\<exists>ms. sendDataPoints lib conn (map snd (dataPoints_m s)) cot = Inr ms
    \<and> (if table_image s = Map.empty then ms = []
       else \<exists>a. ms = [case conn of Some c \<Rightarrow> SendASDU c a | None \<Rightarrow> EnqueueASDU a] \<and> elems a = packed cap (listed (table_image s)))"
proof (cases "dataPoints_m s")
  case Nil
  then have "table_image s = Map.empty" by (simp add: table_image_def fun_eq_iff)
  with Nil show ?thesis by (simp add: sendDataPoints_def)
next
  case (Cons x xs)
  then have "table_image s (fst x) \<noteq> None" by (simp add: table_image_def)
  then have "table_image s \<noteq> Map.empty" by auto
  moreover obtain a where "elems a = packed cap (map io_of (map snd (dataPoints_m s)))"
      "sendDataPoints lib conn (map snd (dataPoints_m s)) cot = Inr [case conn of Some c \<Rightarrow> SendASDU c a | None \<Rightarrow> EnqueueASDU a]"
    using send_packed [OF assms(2) srv_ok_typed [OF assms(1)], of conn cot] Cons by auto
  ultimately show ?thesis using table_listed [OF assms(1)] by auto
qed

text \<open>
  C9. What a control station is told depends on the history of calls and commands only
  through the process image: after any sequence of additions, updates, commands, starts and
  stops, the answer to a station interrogation and the periodic transmission carry the
  objects that were last written under their addresses, in address order, as far as they
  have the type of the first one and fit. An update or a command that does not match the
  type of the point under its address, or finds none, has no effect on later answers.
\<close>

theorem answers_follow_image:
  fixes c :: 'c and lib :: "'a lib60870"
  assumes "srv.reachable s es" and "asdu_laws lib elems cap"
  shows "if image_of es = Map.empty
     then interrogationHandler lib c 20 s = Inr (True, [SendACT_CON c False, SendACT_TERM c])
          \<and> periodicSendTask_pass lib s = (Inr (running_m s, []) :: (bool \<times> ('c, 'a) message list) result)
     else (\<exists>a. interrogationHandler lib c 20 s = Inr (True, [SendACT_CON c False, SendASDU c a, SendACT_TERM c])
              \<and> elems a = packed cap (listed (image_of es)))
          \<and> (if running_m s
             then \<exists>a. periodicSendTask_pass lib s = (Inr (True, [EnqueueASDU a]) :: (bool \<times> ('c, 'a) message list) result) \<and> elems a = packed cap (listed (image_of es))
             else periodicSendTask_pass lib s = (Inr (False, []) :: (bool \<times> ('c, 'a) message list) result))"
proof -
  have ok: "srv_ok s" using assms(1) by (rule srv.reachable_inv)
  note i = image_answers [OF ok assms(2), unfolded reachable_image [OF assms(1)]]
  show ?thesis
    using i [of "Some c" COT_INTERROGATED_BY_STATION] i [of "None :: 'c option" COT_PERIODIC]
    by (auto simp: interrogationHandler_def periodicSendTask_pass_def)
qed

theorem answers_follow_image_witness:
  "\<exists>a. interrogationHandler list_lib (7 :: nat) 20
         (updateDataPoint_single 2 200 False (updateDataPoint_scaled 1 200 5
           (addDataPoint_single 0 200 SINGLE_POINT True 0 (IEC104Server default_ServerConfig))))
       = Inr (True, [SendACT_CON 7 False, SendASDU 7 a, SendACT_TERM 7])
     \<and> a = [SinglePointInformation 200 False 0]"
proof -
  let ?s0 = "IEC104Server default_ServerConfig"
  let ?es = "[AddSingle 0 200 True 0, UpdateScaled 1 200 5, UpdateSingle 2 200 False] :: nat server_event list"
  have "srv.reachable ?s0 ([] :: nat server_event list)"
    by (rule srv.reachable.at_start) (auto simp: server_start_def)
  from srv.reachable.by_step [OF srv.reachable.by_step [OF srv.reachable.by_step [OF this add_single] upd_scaled] upd_single]
  have "srv.reachable (updateDataPoint_single 2 200 False (updateDataPoint_scaled 1 200 5
           (addDataPoint_single 0 200 SINGLE_POINT True 0 ?s0))) ?es" by fastforce
  moreover have "image_of ?es = [200 \<mapsto> SinglePointInformation 200 False 0]"
    by (simp add: image_of_def set_scaled_def set_single_def)
  ultimately show ?thesis
    using answers_follow_image [OF _ list_lib_laws, where c = "7 :: nat"] by (fastforce simp: listed_def packed_def)
qed

end
