(* ===== verification/Icd_Parser.thy ===== *)
theory Icd_Parser
  imports Gateway_Prelude
begin

text \<open>
  The parser of ICD files, class \<open>IcdParser\<close> (\<open>core/iec61850/icd_parse.h\<close>). The XML
  document is a list of elements with attributes and child elements, as the library
  presents it; loading the file is an argument. \<open>strcmp\<close> on the null pointer that a missing
  attribute gives is the fault \<open>NullDeref\<close>. Reading a boolean attribute is a parameter. Log
  output and \<open>printParseResult\<close> are left out.
\<close>

section \<open>Elements\<close>

datatype xml = Elem (xname: string) (attrs: "(string \<times> string) list") (kids: "xml list")

definition attr :: "xml \<Rightarrow> string \<Rightarrow> string option" where
  "attr e k = map_of (attrs e) k"

definition attr_or :: "xml \<Rightarrow> string \<Rightarrow> string \<Rightarrow> string" where
  "attr_or e k dflt = (case attr e k of None \<Rightarrow> dflt | Some s \<Rightarrow> s)"

definition named :: "string \<Rightarrow> xml list \<Rightarrow> xml list" where
  "named nm es = filter (\<lambda>e. xname e = nm) es"

definition first_named :: "string \<Rightarrow> xml list \<Rightarrow> xml option" where
  "first_named nm es = (case named nm es of [] \<Rightarrow> None | e # _ \<Rightarrow> Some e)"

definition strcmp_eq :: "string option \<Rightarrow> string \<Rightarrow> bool result" where
  "strcmp_eq a s = (case a of None \<Rightarrow> Inl NullDeref | Some x \<Rightarrow> Inr (x = s))"

text \<open>A loop that returns from the function at the first hit, and one that collects.\<close>

fun search :: "(xml \<Rightarrow> 'a option result) \<Rightarrow> xml list \<Rightarrow> 'a option result" where
  "search f [] = Inr None"
| "search f (x # xs) = rbind (f x) (\<lambda>r. case r of Some y \<Rightarrow> Inr (Some y) | None \<Rightarrow> search f xs)"

fun collect :: "(xml \<Rightarrow> 'a list result) \<Rightarrow> xml list \<Rightarrow> 'a list result" where
  "collect f [] = Inr []"
| "collect f (x # xs) = rbind (f x) (\<lambda>ys. rbind (collect f xs) (\<lambda>zs. Inr (ys @ zs)))"

text \<open>The body of a loop that is run only for elements with a given attribute value.\<close>

definition when_attr :: "string \<Rightarrow> string \<Rightarrow> 'a \<Rightarrow> (xml \<Rightarrow> 'a result) \<Rightarrow> xml \<Rightarrow> 'a result" where
  "when_attr k s dflt f e = rbind (strcmp_eq (attr e k) s) (\<lambda>b. if b then f e else Inr dflt)"

section \<open>Lookups in the templates\<close>

type_synonym document = "xml list"

definition templates :: "document \<Rightarrow> xml option result" where
  "templates doc =
     (case first_named ''SCL'' doc of
        None \<Rightarrow> Inl NullDeref
      | Some scl \<Rightarrow> Inr (first_named ''DataTypeTemplates'' (kids scl)))"

definition getDoTypeId :: "document \<Rightarrow> string option \<Rightarrow> string option \<Rightarrow> string result" where
  "getDoTypeId doc lnType doName =
     (case (lnType, doName) of
        (Some lt, Some dn) \<Rightarrow>
          rbind (templates doc) (\<lambda>dtt.
            case dtt of
              None \<Rightarrow> Inr []
            | Some t \<Rightarrow>
                rbind (search (when_attr ''id'' lt None (\<lambda>lnt.
                          search (when_attr ''name'' dn None (\<lambda>d. Inr (Some (attr_or d ''type'' []))))
                            (named ''DO'' (kids lnt))))
                        (named ''LNodeType'' (kids t)))
                  (\<lambda>r. Inr (case r of None \<Rightarrow> [] | Some s \<Rightarrow> s)))
      | _ \<Rightarrow> Inr [])"

definition isControlObject :: "document \<Rightarrow> string \<Rightarrow> bool result" where
  "isControlObject doc doTypeId =
     rbind (templates doc) (\<lambda>dtt.
       case dtt of
         None \<Rightarrow> Inr False
       | Some t \<Rightarrow>
           rbind (search (when_attr ''id'' doTypeId None (\<lambda>dt.
                     Inr (Some (attr dt ''cdc'' = Some ''SPC'' \<or> attr dt ''cdc'' = Some ''DPC''))))
                   (named ''DOType'' (kids t)))
             (\<lambda>r. Inr (case r of None \<Rightarrow> False | Some b \<Rightarrow> b)))"

definition da_fc :: "string \<Rightarrow> xml \<Rightarrow> string option result" where
  "da_fc da dt = search (when_attr ''name'' da None (\<lambda>d. Inr (Some (attr_or d ''fc'' [])))) (named ''DA'' (kids dt))"

definition getFcFromDoType ::
  "document \<Rightarrow> string option \<Rightarrow> string option \<Rightarrow> string option \<Rightarrow> string result" where
  "getFcFromDoType doc lnType doName daName =
     (case (lnType, doName, daName) of
        (Some lt, Some dn, Some da) \<Rightarrow>
          rbind (templates doc) (\<lambda>dtt.
            case dtt of
              None \<Rightarrow> Inr []
            | Some t \<Rightarrow>
                rbind (search (when_attr ''id'' lt None (\<lambda>lnt.
                          search (when_attr ''name'' dn None (\<lambda>d.
                              case attr d ''type'' of
                                None \<Rightarrow> Inr None
                              | Some ty \<Rightarrow> search (when_attr ''id'' ty None (da_fc da)) (named ''DOType'' (kids t))))
                            (named ''DO'' (kids lnt))))
                        (named ''LNodeType'' (kids t)))
                  (\<lambda>r. Inr (case r of None \<Rightarrow> [] | Some s \<Rightarrow> s)))
      | _ \<Rightarrow> Inr [])"

text \<open>A data node: path and functional constraint.\<close>

type_synonym data_node = "string \<times> string"

definition da_nodes :: "string \<Rightarrow> xml \<Rightarrow> data_node list result" where
  "da_nodes doPath dt =
     Inr (concat (map (\<lambda>da. case (attr da ''name'', attr da ''fc'') of
                              (Some n, Some fc) \<Rightarrow> [(doPath @ ''.'' @ n, fc)]
                            | _ \<Rightarrow> []) (named ''DA'' (kids dt))))"

definition do_nodes :: "document \<Rightarrow> string \<Rightarrow> xml \<Rightarrow> xml \<Rightarrow> data_node list result" where
  "do_nodes doc lnRef t d =
     (let doPath = lnRef @ ''.'' @ attr_or d ''name'' [] in
      case attr d ''type'' of
        None \<Rightarrow> Inr []
      | Some ty \<Rightarrow>
          rbind (isControlObject doc ty) (\<lambda>ctl.
          rbind (collect (when_attr ''id'' ty [] (da_nodes doPath)) (named ''DOType'' (kids t))) (\<lambda>das.
          Inr ((if ctl then [(doPath, ''CO'')] else []) @ das))))"

definition extractAllDoDa :: "document \<Rightarrow> string \<Rightarrow> string \<Rightarrow> data_node list result" where
  "extractAllDoDa doc lnRef lnType =
     rbind (templates doc) (\<lambda>dtt.
       case dtt of
         None \<Rightarrow> Inr []
       | Some t \<Rightarrow>
           collect (when_attr ''id'' lnType [] (\<lambda>lnt. collect (do_nodes doc lnRef t) (named ''DO'' (kids lnt))))
             (named ''LNodeType'' (kids t)))"

section \<open>The walk over the document\<close>

record data_set_info =
  dsi_name :: string
  dsi_fcdaPaths :: "string list"

record report_control_info =
  rpi_name :: string
  rpi_datSet :: string
  rpi_buffered :: bool

record parse_result =
  pr_nodes :: "data_node list"
  pr_dataSets :: "data_set_info list"
  pr_reports :: "report_control_info list"

definition no_result :: parse_result where
  "no_result = \<lparr>pr_nodes = [], pr_dataSets = [], pr_reports = []\<rparr>"

definition join :: "parse_result \<Rightarrow> parse_result \<Rightarrow> parse_result" where
  "join a b = \<lparr>pr_nodes = pr_nodes a @ pr_nodes b, pr_dataSets = pr_dataSets a @ pr_dataSets b,
               pr_reports = pr_reports a @ pr_reports b\<rparr>"

fun gather :: "(xml \<Rightarrow> parse_result result) \<Rightarrow> xml list \<Rightarrow> parse_result result" where
  "gather f [] = Inr no_result"
| "gather f (x # xs) = rbind (f x) (\<lambda>a. rbind (gather f xs) (\<lambda>b. Inr (join a b)))"

definition fcda_path :: "string \<Rightarrow> xml \<Rightarrow> string" where
  "fcda_path ied e =
     ied @ attr_or e ''ldInst'' [] @ ''/'' @ attr_or e ''lnClass'' [] @ attr_or e ''lnInst'' [] @ ''.''
     @ attr_or e ''doName'' [] @ (case attr e ''daName'' of None \<Rightarrow> [] | Some n \<Rightarrow> ''.'' @ n)"

definition parse_dataset :: "string \<Rightarrow> xml \<Rightarrow> parse_result" where
  "parse_dataset ied ds =
     (let members = concat (map (\<lambda>e. case attr e ''fc'' of None \<Rightarrow> [] | Some fc \<Rightarrow> [(fcda_path ied e, fc)])
                             (named ''FCDA'' (kids ds))) in
      \<lparr>pr_nodes = members, pr_dataSets = [\<lparr>dsi_name = attr_or ds ''name'' [], dsi_fcdaPaths = map fst members\<rparr>],
       pr_reports = []\<rparr>)"

definition parse_report_control :: "(string \<Rightarrow> bool option) \<Rightarrow> xml \<Rightarrow> parse_result" where
  "parse_report_control to_bool e =
     \<lparr>pr_nodes = [], pr_dataSets = [],
      pr_reports = [\<lparr>rpi_name = attr_or e ''name'' [], rpi_datSet = attr_or e ''datSet'' [],
                     rpi_buffered = (case Option.bind (attr e ''buffered'') to_bool of None \<Rightarrow> False | Some b \<Rightarrow> b)\<rparr>]\<rparr>"

definition parse_dai :: "document \<Rightarrow> string \<Rightarrow> string option \<Rightarrow> xml \<Rightarrow> xml \<Rightarrow> data_node list result" where
  "parse_dai doc lnRef lnType doi dai =
     rbind (getFcFromDoType doc lnType (attr doi ''name'') (attr dai ''name'')) (\<lambda>fc.
       Inr (if fc = [] then []
            else [(lnRef @ ''.'' @ attr_or doi ''name'' [] @ ''.'' @ attr_or dai ''name'' [], fc)]))"

definition parse_doi :: "document \<Rightarrow> string \<Rightarrow> string option \<Rightarrow> xml \<Rightarrow> data_node list result" where
  "parse_doi doc lnRef lnType doi =
     rbind (getDoTypeId doc lnType (attr doi ''name'')) (\<lambda>ty.
     rbind (if ty = [] then Inr False else isControlObject doc ty) (\<lambda>ctl.
     rbind (collect (parse_dai doc lnRef lnType doi) (named ''DAI'' (kids doi))) (\<lambda>das.
     Inr ((if ctl then [(lnRef @ ''.'' @ attr_or doi ''name'' [], ''CO'')] else []) @ das))))"

definition only_nodes :: "data_node list \<Rightarrow> parse_result" where
  "only_nodes ns = \<lparr>pr_nodes = ns, pr_dataSets = [], pr_reports = []\<rparr>"

definition parse_ln :: "(string \<Rightarrow> bool option) \<Rightarrow> document \<Rightarrow> string \<Rightarrow> string \<Rightarrow> xml \<Rightarrow> parse_result result" where
  "parse_ln to_bool doc ied ld ln =
     (if xname ln \<noteq> ''LN'' \<and> xname ln \<noteq> ''LN0'' then Inr no_result
      else
        let lnRef = ied @ ld @ ''/'' @ attr_or ln ''lnClass'' [] @ attr_or ln ''inst'' [];
            lnType = attr ln ''lnType'' in
        rbind (gather (\<lambda>ds. Inr (parse_dataset ied ds)) (named ''DataSet'' (kids ln))) (\<lambda>a.
        rbind (gather (\<lambda>e. Inr (parse_report_control to_bool e)) (named ''ReportControl'' (kids ln))) (\<lambda>b.
        rbind (collect (parse_doi doc lnRef lnType) (named ''DOI'' (kids ln))) (\<lambda>c.
        rbind (case lnType of None \<Rightarrow> Inr [] | Some t \<Rightarrow> if t = [] then Inr [] else extractAllDoDa doc lnRef t) (\<lambda>d.
        Inr (join a (join b (only_nodes (c @ d)))))))))"

definition parse_ied :: "(string \<Rightarrow> bool option) \<Rightarrow> document \<Rightarrow> xml \<Rightarrow> parse_result result" where
  "parse_ied to_bool doc e =
     (let ied = attr_or e ''name'' ''UnknownIED'' in
      gather (\<lambda>ap. case first_named ''Server'' (kids ap) of
                     None \<Rightarrow> Inr no_result
                   | Some server \<Rightarrow>
                       gather (\<lambda>ld. gather (parse_ln to_bool doc ied (attr_or ld ''inst'' ''UnknownLDevice'')) (kids ld))
                         (named ''LDevice'' (kids server)))
        (named ''AccessPoint'' (kids e)))"

definition icd_parse :: "(string \<Rightarrow> bool option) \<Rightarrow> document option \<Rightarrow> parse_result result" where
  "icd_parse to_bool file =
     (case file of
        None \<Rightarrow> Inr no_result
      | Some doc \<Rightarrow>
          (case first_named ''SCL'' doc of
             None \<Rightarrow> Inr no_result
           | Some root \<Rightarrow> gather (parse_ied to_bool doc) (named ''IED'' (kids root))))"

section \<open>Loops\<close>

definition returns :: "'a result \<Rightarrow> bool" where
  "returns r \<longleftrightarrow> (\<exists>x. r = Inr x)"

named_theorems returns_intros \<open>operations that end without a fault\<close>

lemma returns_Inr [returns_intros]: "returns (Inr x)"
  by (simp add: returns_def)

lemma returns_rbind [returns_intros]: "returns r \<Longrightarrow> (\<And>x. returns (f x)) \<Longrightarrow> returns (rbind r f)"
  by (auto simp: returns_def)

lemma returns_if [returns_intros]: "returns a \<Longrightarrow> returns b \<Longrightarrow> returns (if c then a else b)"
  by simp

lemma returns_option [returns_intros]:
  "returns a \<Longrightarrow> (\<And>x. returns (f x)) \<Longrightarrow> returns (case o' of None \<Rightarrow> a | Some x \<Rightarrow> f x)"
  by (cases o') auto

lemma search_total [returns_intros]: "(\<And>x. x \<in> set xs \<Longrightarrow> returns (f x)) \<Longrightarrow> returns (search f xs)"
  by (induction xs) (auto intro!: returns_intros)

lemma collect_total [returns_intros]: "(\<And>x. x \<in> set xs \<Longrightarrow> returns (f x)) \<Longrightarrow> returns (collect f xs)"
  by (induction xs) (auto intro!: returns_intros)

lemma gather_total [returns_intros]: "(\<And>x. x \<in> set xs \<Longrightarrow> returns (f x)) \<Longrightarrow> returns (gather f xs)"
  by (induction xs) (auto intro!: returns_intros)

lemma when_attr_total [returns_intros]: "attr e k \<noteq> None \<Longrightarrow> returns (f e) \<Longrightarrow> returns (when_attr k s dflt f e)"
  by (auto simp: when_attr_def strcmp_eq_def returns_Inr)

lemma when_attr_hit: "when_attr k s None f e = Inr (Some y) \<Longrightarrow> attr e k = Some s \<and> f e = Inr (Some y)"
  by (auto simp: when_attr_def strcmp_eq_def rbind_Inr_iff split: option.splits if_splits)

lemma search_hit: "search f xs = Inr (Some y) \<Longrightarrow> \<exists>x \<in> set xs. f x = Inr (Some y)"
proof (induction xs)
  case (Cons x xs)
  then obtain r where "f x = Inr r" by (auto simp: rbind_Inr_iff)
  with Cons show ?case by (cases r) auto
qed simp

lemma collect_elem: "collect f xs = Inr ys \<Longrightarrow> x \<in> set xs \<Longrightarrow> \<exists>zs. f x = Inr zs \<and> set zs \<subseteq> set ys"
proof (induction xs arbitrary: ys)
  case (Cons a xs)
  then obtain zs us where "f a = Inr zs" "collect f xs = Inr us" "ys = zs @ us" by (auto simp: rbind_Inr_iff)
  with Cons show ?case by (cases "x = a") fastforce+
qed simp

lemma collect_when:
  assumes "collect (when_attr k s [] f) xs = Inr ys" and "x \<in> set xs" and "attr x k = Some s"
  shows "\<exists>zs. f x = Inr zs \<and> set zs \<subseteq> set ys"
  using collect_elem [OF assms(1,2)] assms(3) by (simp add: when_attr_def strcmp_eq_def)

lemma collect_set: "collect f xs = Inr ys \<Longrightarrow> y \<in> set ys \<Longrightarrow> \<exists>x \<in> set xs. \<exists>zs. f x = Inr zs \<and> y \<in> set zs"
proof (induction xs arbitrary: ys)
  case (Cons a xs)
  then obtain zs us where "f a = Inr zs" "collect f xs = Inr us" "ys = zs @ us" by (auto simp: rbind_Inr_iff)
  with Cons show ?case by auto
qed simp

section \<open>Well-formed templates\<close>

text \<open>
  The attributes that the lookups compare without a test: ids of node and object types,
  names of data objects and attributes.
\<close>

definition template_ok :: "xml \<Rightarrow> bool" where
  "template_ok t \<longleftrightarrow>
     (\<forall>lnt \<in> set (named ''LNodeType'' (kids t)). attr lnt ''id'' \<noteq> None
        \<and> (\<forall>d \<in> set (named ''DO'' (kids lnt)). attr d ''name'' \<noteq> None))
     \<and> (\<forall>dt \<in> set (named ''DOType'' (kids t)). attr dt ''id'' \<noteq> None
        \<and> (\<forall>da \<in> set (named ''DA'' (kids dt)). attr da ''name'' \<noteq> None))"

definition scl_ok :: "document \<Rightarrow> bool" where
  "scl_ok doc \<longleftrightarrow> (\<exists>scl. first_named ''SCL'' doc = Some scl
     \<and> (\<forall>t. first_named ''DataTypeTemplates'' (kids scl) = Some t \<longrightarrow> template_ok t))"

lemma templates_ok:
  assumes "scl_ok doc"
  obtains "templates doc = Inr None" | t where "templates doc = Inr (Some t)" and "template_ok t"
  using assms by (cases "templates doc") (auto simp: scl_ok_def templates_def split: option.splits)

lemma with_templates:
  assumes "scl_ok doc" and "returns a" and "\<And>t. template_ok t \<Longrightarrow> returns (f t)"
  shows "returns (rbind (templates doc) (\<lambda>dtt. case dtt of None \<Rightarrow> a | Some t \<Rightarrow> f t))"
  using assms by (cases rule: templates_ok [OF assms(1)]) auto

lemma template_attrs:
  "template_ok t \<Longrightarrow> lnt \<in> set (named ''LNodeType'' (kids t)) \<Longrightarrow> attr lnt ''id'' \<noteq> None"
  "template_ok t \<Longrightarrow> lnt \<in> set (named ''LNodeType'' (kids t)) \<Longrightarrow> d \<in> set (named ''DO'' (kids lnt)) \<Longrightarrow>
     attr d ''name'' \<noteq> None"
  "template_ok t \<Longrightarrow> dt \<in> set (named ''DOType'' (kids t)) \<Longrightarrow> attr dt ''id'' \<noteq> None"
  "template_ok t \<Longrightarrow> dt \<in> set (named ''DOType'' (kids t)) \<Longrightarrow> da \<in> set (named ''DA'' (kids dt)) \<Longrightarrow>
     attr da ''name'' \<noteq> None"
  by (auto simp: template_ok_def)

lemma getDoTypeId_total: "scl_ok doc \<Longrightarrow> returns (getDoTypeId doc lt dn)"
  unfolding getDoTypeId_def
  by (cases lt; cases dn; simp add: returns_Inr; rule with_templates)
     (assumption | intro returns_intros template_attrs | assumption)+

lemma isControlObject_total: "scl_ok doc \<Longrightarrow> returns (isControlObject doc ty)"
  unfolding isControlObject_def
  by (rule with_templates) (assumption | intro returns_intros template_attrs | assumption)+

lemma da_fc_total:
  "template_ok t \<Longrightarrow> dt \<in> set (named ''DOType'' (kids t)) \<Longrightarrow> returns (da_fc da dt)"
  unfolding da_fc_def by (intro returns_intros) (simp_all add: template_attrs)

lemma getFcFromDoType_total: "scl_ok doc \<Longrightarrow> returns (getFcFromDoType doc lt dn da)"
  unfolding getFcFromDoType_def
  by (cases lt; cases dn; cases da; simp add: returns_Inr; rule with_templates)
     (assumption | intro returns_intros template_attrs da_fc_total | assumption)+

lemma do_nodes_total: "scl_ok doc \<Longrightarrow> template_ok t \<Longrightarrow> returns (do_nodes doc ref t d)"
  unfolding do_nodes_def Let_def
  by (intro returns_intros isControlObject_total template_attrs) (simp_all add: da_nodes_def returns_Inr)

lemma extractAllDoDa_total: "scl_ok doc \<Longrightarrow> returns (extractAllDoDa doc ref lt)"
  unfolding extractAllDoDa_def
  by (rule with_templates) (assumption | intro returns_intros template_attrs do_nodes_total | assumption)+

lemma parse_doi_total: "scl_ok doc \<Longrightarrow> returns (parse_doi doc ref lt doi)"
  unfolding parse_doi_def parse_dai_def
  by (intro returns_intros getDoTypeId_total isControlObject_total getFcFromDoType_total)

lemma parse_ln_total: "scl_ok doc \<Longrightarrow> returns (parse_ln tb doc ied ld ln)"
  unfolding parse_ln_def Let_def
  by (intro returns_intros parse_doi_total extractAllDoDa_total)

lemma parse_ied_total: "scl_ok doc \<Longrightarrow> returns (parse_ied tb doc e)"
  unfolding parse_ied_def Let_def
  by (intro returns_intros parse_ln_total)

section \<open>Instances and templates give the same nodes\<close>

lemma do_in_templates:
  assumes "extractAllDoDa doc ref lt = Inr ns" and "templates doc = Inr (Some t)"
    and lnt: "lnt \<in> set (named ''LNodeType'' (kids t))" "attr lnt ''id'' = Some lt"
    and d: "d \<in> set (named ''DO'' (kids lnt))"
  shows "\<exists>zs. do_nodes doc ref t d = Inr zs \<and> set zs \<subseteq> set ns"
proof -
  have c: "collect (when_attr ''id'' lt [] (\<lambda>lnt. collect (do_nodes doc ref t) (named ''DO'' (kids lnt))))
      (named ''LNodeType'' (kids t)) = Inr ns"
    using assms(1,2) by (simp add: extractAllDoDa_def)
  obtain ms where ms: "collect (do_nodes doc ref t) (named ''DO'' (kids lnt)) = Inr ms" "set ms \<subseteq> set ns"
    using collect_when [OF c lnt] by blast
  then show ?thesis using collect_elem [OF ms(1) d] by blast
qed

lemma dai_in_templates:
  assumes "getFcFromDoType doc (Some lt) (Some dn) (Some da) = Inr fc" and "fc \<noteq> []"
    and "extractAllDoDa doc ref lt = Inr ns"
  shows "(ref @ ''.'' @ dn @ ''.'' @ da, fc) \<in> set ns"
proof -
  from assms(1,2) obtain t lnt d ty dt where t: "templates doc = Inr (Some t)"
    and lnt: "lnt \<in> set (named ''LNodeType'' (kids t))" "attr lnt ''id'' = Some lt"
    and d: "d \<in> set (named ''DO'' (kids lnt))" "attr d ''name'' = Some dn" "attr d ''type'' = Some ty"
    and dt: "dt \<in> set (named ''DOType'' (kids t))" "attr dt ''id'' = Some ty" "da_fc da dt = Inr (Some fc)"
    by (fastforce simp: getFcFromDoType_def rbind_Inr_iff dest!: search_hit when_attr_hit split: option.splits)
  from dt(3) obtain x where x: "x \<in> set (named ''DA'' (kids dt))" "attr x ''name'' = Some da" "attr x ''fc'' = Some fc"
    using assms(2) unfolding da_fc_def
    by (fastforce simp: attr_or_def dest!: search_hit when_attr_hit split: option.splits)
  obtain zs where zs: "do_nodes doc ref t d = Inr zs" "set zs \<subseteq> set ns"
    using do_in_templates [OF assms(3) t lnt d(1)] by blast
  then obtain das where das: "collect (when_attr ''id'' ty [] (da_nodes (ref @ ''.'' @ dn))) (named ''DOType'' (kids t)) = Inr das"
      "set das \<subseteq> set zs"
    using d(2,3) by (auto simp: do_nodes_def rbind_Inr_iff attr_or_def Let_def)
  obtain us where "da_nodes (ref @ ''.'' @ dn) dt = Inr us" "set us \<subseteq> set das"
    using collect_when [OF das(1) dt(1,2)] by blast
  moreover have "(ref @ ''.'' @ dn @ ''.'' @ da, fc) \<in> set us"
    using calculation(1) x by (force simp: da_nodes_def)
  ultimately show ?thesis using das(2) zs(2) by blast
qed

lemma control_in_templates:
  assumes "getDoTypeId doc (Some lt) (Some dn) = Inr ty" and "ty \<noteq> []" and "isControlObject doc ty = Inr True"
    and "extractAllDoDa doc ref lt = Inr ns"
  shows "(ref @ ''.'' @ dn, ''CO'') \<in> set ns"
proof -
  from assms(1,2) obtain t lnt d where t: "templates doc = Inr (Some t)"
    and lnt: "lnt \<in> set (named ''LNodeType'' (kids t))" "attr lnt ''id'' = Some lt"
    and d: "d \<in> set (named ''DO'' (kids lnt))" "attr d ''name'' = Some dn" "attr_or d ''type'' [] = ty"
    by (fastforce simp: getDoTypeId_def rbind_Inr_iff dest!: search_hit when_attr_hit split: option.splits)
  have ty: "attr d ''type'' = Some ty" using d(3) assms(2) by (auto simp: attr_or_def split: option.splits)
  obtain zs where "do_nodes doc ref t d = Inr zs" "set zs \<subseteq> set ns"
    using do_in_templates [OF assms(4) t lnt d(1)] by blast
  with ty d(2) assms(3) show ?thesis
    by (auto simp: do_nodes_def rbind_Inr_iff attr_or_def Let_def)
qed

lemma doi_in_templates:
  assumes "parse_doi doc ref (Some lt) doi = Inr zs" and "extractAllDoDa doc ref lt = Inr ns"
  shows "set zs \<subseteq> set ns"
proof
  fix z assume z: "z \<in> set zs"
  obtain ty ctl das where p: "getDoTypeId doc (Some lt) (attr doi ''name'') = Inr ty"
      "(if ty = [] then Inr False else isControlObject doc ty) = Inr ctl"
      "collect (parse_dai doc ref (Some lt) doi) (named ''DAI'' (kids doi)) = Inr das"
      "zs = (if ctl then [(ref @ ''.'' @ attr_or doi ''name'' [], ''CO'')] else []) @ das"
    using assms(1) by (auto simp: parse_doi_def rbind_Inr_iff)
  show "z \<in> set ns"
  proof (cases "z \<in> set das")
    case True
    obtain dai ws where "parse_dai doc ref (Some lt) doi dai = Inr ws" "z \<in> set ws"
      using collect_set [OF p(3) True] by blast
    then obtain fc where fc: "getFcFromDoType doc (Some lt) (attr doi ''name'') (attr dai ''name'') = Inr fc"
        "fc \<noteq> []" "z = (ref @ ''.'' @ attr_or doi ''name'' [] @ ''.'' @ attr_or dai ''name'' [], fc)"
      by (auto simp: parse_dai_def rbind_Inr_iff split: if_splits)
    then obtain dn da where "attr doi ''name'' = Some dn" "attr dai ''name'' = Some da"
      by (auto simp: getFcFromDoType_def split: option.splits)
    with fc dai_in_templates [OF _ fc(2) assms(2), of dn da] show ?thesis by (simp add: attr_or_def)
  next
    case False
    with z p(4) have c: "ctl" "z = (ref @ ''.'' @ attr_or doi ''name'' [], ''CO'')" by (auto split: if_splits)
    then have "ty \<noteq> []" "isControlObject doc ty = Inr True" using p(2) by (auto split: if_splits)
    moreover obtain dn where "attr doi ''name'' = Some dn"
      using p(1) calculation(1) by (auto simp: getDoTypeId_def split: option.splits)
    ultimately show ?thesis
      using control_in_templates [OF _ _ _ assms(2), of dn ty] p(1) c(2) by (simp add: attr_or_def)
  qed
qed

lemma gather_pure: "gather (\<lambda>x. Inr (f x)) xs =
    Inr \<lparr>pr_nodes = concat (map (pr_nodes \<circ> f) xs), pr_dataSets = concat (map (pr_dataSets \<circ> f) xs),
         pr_reports = concat (map (pr_reports \<circ> f) xs)\<rparr>"
  by (induction xs) (auto simp: no_result_def join_def)

definition demo_doc :: document where
  "demo_doc =
     [Elem ''SCL'' []
        [Elem ''IED'' [(''name'', ''E'')] [Elem ''AccessPoint'' [] [Elem ''Server'' []
           [Elem ''LDevice'' [(''inst'', ''D'')]
             [Elem ''LN'' [(''lnClass'', ''GGIO''), (''inst'', ''1''), (''lnType'', ''T'')]
               [Elem ''DOI'' [(''name'', ''S'')] [Elem ''DAI'' [(''name'', ''v'')] []]]]]]],
         Elem ''DataTypeTemplates'' []
           [Elem ''LNodeType'' [(''id'', ''T'')] [Elem ''DO'' [(''name'', ''S''), (''type'', ''X'')] []],
            Elem ''DOType'' [(''id'', ''X''), (''cdc'', ''SPC'')] [Elem ''DA'' [(''name'', ''v''), (''fc'', ''ST'')] []]]]]"

lemmas demo_simps = demo_doc_def first_named_def named_def attr_def attr_or_def

lemma demo_doc_ok: "scl_ok demo_doc"
  by (auto simp: scl_ok_def template_ok_def demo_simps)

section \<open>Properties\<close>

text \<open>
  C17. Parsing an ICD file never follows a null pointer when the templates carry the
  attributes the schema requires (ids of node types and object types, names of data
  objects and data attributes): whatever else the document contains, the parser returns
  a result.
\<close>

theorem icd_parse_safe:
  assumes "\<forall>doc. loaded = Some doc \<longrightarrow> scl_ok doc"
  shows "\<exists>r. icd_parse to_bool loaded = Inr r"
proof -
  have "returns (icd_parse to_bool loaded)"
    using assms unfolding icd_parse_def
    by (cases loaded) (auto intro!: returns_intros parse_ied_total split: option.split)
  then show ?thesis by (simp add: returns_def)
qed

theorem icd_parse_safe_witness: "\<exists>r. icd_parse (\<lambda>_. None) (Some demo_doc) = Inr r"
  using icd_parse_safe [of "Some demo_doc" "\<lambda>_. None"] demo_doc_ok by simp

text \<open>
  The instance sections of a logical node add nothing to the templates: for a logical
  node with a type, the nodes found are those of its data sets, those of its instances
  and those of its type, and every node of an instance is also one of the type, with
  the same path and constraint. So each of them is in the result twice.
\<close>

theorem instance_nodes_repeat_templates:
  assumes "xname ln \<in> {''LN'', ''LN0''}" and "attr ln ''lnType'' = Some t" and "t \<noteq> []"
    and "parse_ln to_bool doc ied ld ln = Inr r"
    and "ref = ied @ ld @ ''/'' @ attr_or ln ''lnClass'' [] @ attr_or ln ''inst'' []"
  shows "\<exists>is ns. pr_nodes r = concat (map (pr_nodes \<circ> parse_dataset ied) (named ''DataSet'' (kids ln))) @ is @ ns
     \<and> collect (parse_doi doc ref (Some t)) (named ''DOI'' (kids ln)) = Inr is
     \<and> extractAllDoDa doc ref t = Inr ns \<and> set is \<subseteq> set ns"
proof -
  have rep: "concat (map (pr_nodes \<circ> parse_report_control to_bool) xs) = []" for xs
    by (induction xs) (auto simp: parse_report_control_def)
  obtain "is" ns where r: "collect (parse_doi doc ref (Some t)) (named ''DOI'' (kids ln)) = Inr is"
      "extractAllDoDa doc ref t = Inr ns"
      "pr_nodes r = concat (map (pr_nodes \<circ> parse_dataset ied) (named ''DataSet'' (kids ln))) @ is @ ns"
    using assms(1-4)
    by (auto simp: parse_ln_def rbind_Inr_iff gather_pure join_def only_nodes_def rep Let_def assms(5))
  have "set is \<subseteq> set ns"
    using collect_set [OF r(1)] doi_in_templates [OF _ r(2)] by blast
  with r show ?thesis by blast
qed

theorem instance_nodes_repeat_templates_witness:
  "\<exists>is ns. collect (parse_doi demo_doc ''ED/GGIO1'' (Some ''T''))
       [Elem ''DOI'' [(''name'', ''S'')] [Elem ''DAI'' [(''name'', ''v'')] []]] = Inr is
     \<and> extractAllDoDa demo_doc ''ED/GGIO1'' ''T'' = Inr ns \<and> set is \<subseteq> set ns"
proof -
  let ?ln = "Elem ''LN'' [(''lnClass'', ''GGIO''), (''inst'', ''1''), (''lnType'', ''T'')]
      [Elem ''DOI'' [(''name'', ''S'')] [Elem ''DAI'' [(''name'', ''v'')] []]]"
  obtain r where "parse_ln (\<lambda>_. None) demo_doc ''E'' ''D'' ?ln = Inr r"
    using parse_ln_total [OF demo_doc_ok] unfolding returns_def by blast
  from instance_nodes_repeat_templates [OF _ _ _ this, of "''T''" "''ED/GGIO1''"] show ?thesis
    by (simp add: attr_def attr_or_def named_def) blast
qed

end
