(* ===== verification/Iec61850_Client.thy ===== *)
theory Iec61850_Client
  imports Gateway_Config Redis_Store Icd_Parser
begin

text \<open>
  The IEC 61850 client, class \<open>iec61850Client\<close> (\<open>core/iec61850/lec61850Client.cc\<close>), and its
  manager (\<open>iec61850ClientManger.cc\<close>). MMS values are a datatype with the types the code
  distinguishes; a call of the MMS library outside its documented domain is the fault
  \<open>LibraryCrash\<close>. Reading an object and connecting are parameters with a state of the
  remote side. What \<open>parseStructure\<close> does with a structure is the list of log entries it
  writes; its branch for a target path, which stores the element found and releases it, is
  \<open>parse_target\<close>. \<open>subscribeToReports\<close> has a loop with an empty body.
\<close>

section \<open>MMS values\<close>

datatype mms =
    MmsBoolean bool
  | MmsInt "64 word"
  | MmsUnsigned "64 word"
  | MmsFloat "64 word"
  | MmsText "string option"
  | MmsBits "bool list"
  | MmsUtc "64 word"
  | MmsStructure "mms option list"
  | MmsOther int

fun getUtcTimeInMs :: "mms \<Rightarrow> 64 word result" where
  "getUtcTimeInMs (MmsUtc t) = Inr t"
| "getUtcTimeInMs _ = Inl LibraryCrash"

fun mms_toString :: "mms \<Rightarrow> string option result" where
  "mms_toString (MmsText s) = Inr s"
| "mms_toString _ = Inl LibraryCrash"

definition bit_text :: "bool list \<Rightarrow> string" where
  "bit_text bs = map (\<lambda>b. if b then CHR ''1'' else CHR ''0'') bs"

section \<open>Structures\<close>

datatype log_entry =
    LogValue string mms
  | LogStructure string
  | LogInvalid string
  | LogDepth string
  | LogNoElement string nat
  | LogUnsupported string int

definition elem_path :: "string \<Rightarrow> nat \<Rightarrow> string" where
  "elem_path path i = path @ ''['' @ dec_nat i @ '']''"

text \<open>
  The loop over the elements; \<open>self\<close> is the structure itself, which the code passes to
  \<open>MmsValue_getUtcTimeInMs\<close> where an element is a time.
\<close>

fun parseStructure :: "string \<Rightarrow> nat \<Rightarrow> mms \<Rightarrow> log_entry list result"
and parse_elements :: "string \<Rightarrow> nat \<Rightarrow> mms \<Rightarrow> nat \<Rightarrow> mms option list \<Rightarrow> log_entry list result" where
  "parseStructure path lvl (MmsStructure vs) =
     (if lvl > 10 then Inr [LogDepth path] else parse_elements path lvl (MmsStructure vs) 0 vs)"
| "parseStructure path lvl v = Inr [LogInvalid path]"
| "parse_elements path lvl self i [] = Inr []"
| "parse_elements path lvl self i (None # vs) =
     rbind (parse_elements path lvl self (i + 1) vs) (\<lambda>l. Inr (LogNoElement path i # l))"
| "parse_elements path lvl self i (Some v # vs) =
     rbind (case v of
              MmsUtc t \<Rightarrow> rbind (getUtcTimeInMs self) (\<lambda>ms. Inr [LogValue (elem_path path i) (MmsUtc ms)])
            | MmsStructure us \<Rightarrow>
                rbind (parseStructure (elem_path path i) (lvl + 1) v) (\<lambda>l. Inr (LogStructure (elem_path path i) # l))
            | MmsOther t \<Rightarrow> Inr [LogUnsupported (elem_path path i) t]
            | _ \<Rightarrow> Inr [LogValue (elem_path path i) v])
       (\<lambda>l1. rbind (parse_elements path lvl self (i + 1) vs) (\<lambda>l2. Inr (l1 @ l2)))"

section \<open>Reading and storing\<close>

text \<open>\<open>std::string::find\<close>: whether a text contains another.\<close>

fun contains :: "string \<Rightarrow> string \<Rightarrow> bool" where
  "contains pat [] = (pat = [])"
| "contains pat (c # cs) = (take (length pat) (c # cs) = pat \<or> contains pat cs)"

definition selected :: "data_node \<Rightarrow> bool" where
  "selected n \<longleftrightarrow> contains ''/SPTR01.'' (fst n) \<and> snd n \<noteq> ''CO'' \<and> (snd n = ''ST'' \<or> snd n = ''CF'')"

definition store_mms ::
  "'w hiredis \<Rightarrow> (64 word \<Rightarrow> string) \<Rightarrow> string \<Rightarrow> mms \<Rightarrow> (unit, 'w redis) oper" where
  "store_mms hr fmt path v =
     (case v of
        MmsBoolean b \<Rightarrow> bnd (storeBool hr path b) (\<lambda>_. ret ())
      | MmsInt i \<Rightarrow> bnd (storeLInt hr path i) (\<lambda>_. ret ())
      | MmsUnsigned i \<Rightarrow> bnd (storeULInt hr path i) (\<lambda>_. ret ())
      | MmsFloat x \<Rightarrow> bnd (storeLReal fmt hr path x) (\<lambda>_. ret ())
      | MmsText s \<Rightarrow> bnd (storeString hr path (case s of None \<Rightarrow> [] | Some t \<Rightarrow> t)) (\<lambda>_. ret ())
      | MmsBits bs \<Rightarrow> bnd (storeString hr path (bit_text bs)) (\<lambda>_. ret ())
      | MmsUtc t \<Rightarrow> bnd (storeLInt hr path t) (\<lambda>_. ret ())
      | MmsStructure vs \<Rightarrow> (case parseStructure path 0 v of Inl e \<Rightarrow> fail e | Inr l \<Rightarrow> ret ())
      | MmsOther t \<Rightarrow> ret ())"

text \<open>
  \<open>parseStructure\<close> with a target path and a specification. \<open>sub\<close> stands for
  \<open>MmsValue_getSubElement\<close>: the position of the element inside the value, if there is one.
  The element is stored under the joined path, where a time is read from the structure and
  not from the element, and then released; the result is the position released.
\<close>

fun element_at :: "mms \<Rightarrow> nat list \<Rightarrow> mms option" where
  "element_at v [] = Some v"
| "element_at (MmsStructure vs) (i # is) =
     (if i < length vs then (case vs ! i of None \<Rightarrow> None | Some u \<Rightarrow> element_at u is) else None)"
| "element_at _ (i # is) = None"

definition store_target ::
  "'w hiredis \<Rightarrow> (64 word \<Rightarrow> string) \<Rightarrow> mms \<Rightarrow> string \<Rightarrow> nat \<Rightarrow> mms \<Rightarrow> (unit, 'w redis) oper" where
  "store_target hr fmt self path lvl u =
     (case u of
        MmsUtc t \<Rightarrow>
          (case getUtcTimeInMs self of Inl e \<Rightarrow> fail e | Inr ms \<Rightarrow> bnd (storeLInt hr path ms) (\<lambda>_. ret ()))
      | MmsStructure us \<Rightarrow> (case parseStructure path (lvl + 1) u of Inl e \<Rightarrow> fail e | Inr l \<Rightarrow> ret ())
      | _ \<Rightarrow> store_mms hr fmt path u)"

definition parse_target ::
  "'w hiredis \<Rightarrow> (64 word \<Rightarrow> string) \<Rightarrow> (mms \<Rightarrow> string \<Rightarrow> nat list option) \<Rightarrow> string \<Rightarrow> nat \<Rightarrow> string \<Rightarrow> mms
    \<Rightarrow> (nat list option, 'w redis) oper" where
  "parse_target hr fmt sub path lvl target v =
     (case v of
        MmsStructure vs \<Rightarrow>
          if lvl > 10 then ret None
          else
            (case sub v target of
               None \<Rightarrow> ret None
             | Some pos \<Rightarrow>
                 (case element_at v pos of
                    None \<Rightarrow> ret None
                  | Some u \<Rightarrow>
                      bnd (store_target hr fmt v (path @ ''.'' @ target) lvl u) (\<lambda>_. ret (Some pos))))
      | _ \<Rightarrow> ret None)"

text \<open>Releasing a value releases its elements with it; one that is already gone is freed twice.\<close>

definition delete_value :: "nat list option \<Rightarrow> (unit, 'w redis) oper" where
  "delete_value released = (case released of None \<Rightarrow> ret () | Some pos \<Rightarrow> fail DoubleFree)"

text \<open>The remote side: reading gives a success flag and possibly a value.\<close>

record 'c ied_lib =
  ied_read :: "string \<Rightarrow> string \<Rightarrow> 'c \<Rightarrow> 'c \<times> bool \<times> mms option"
  ied_connect :: "string \<Rightarrow> 16 word \<Rightarrow> bool \<Rightarrow> 'c \<Rightarrow> 'c \<times> bool"

definition read_node ::
  "'c ied_lib \<Rightarrow> 'w hiredis \<Rightarrow> (64 word \<Rightarrow> string) \<Rightarrow> data_node \<Rightarrow> 'c \<times> 'w redis \<Rightarrow> ('c \<times> 'w redis) result" where
  "read_node lib hr fmt n st =
     (if \<not> selected n then Inr st
      else
        (case ied_read lib (fst n) (snd n) (fst st) of
           (c, True, Some v) \<Rightarrow> rbind (store_mms hr fmt (fst n) v (snd st)) (\<lambda>(_, rs). Inr (c, rs))
         | (c, False, Some v) \<Rightarrow>
             rbind (mms_toString v) (\<lambda>s. case s of None \<Rightarrow> Inl NullDeref | Some _ \<Rightarrow> Inr (c, snd st))
         | (c, _, None) \<Rightarrow> Inr (c, snd st)))"

fun read_nodes ::
  "'c ied_lib \<Rightarrow> 'w hiredis \<Rightarrow> (64 word \<Rightarrow> string) \<Rightarrow> data_node list \<Rightarrow> 'c \<times> 'w redis \<Rightarrow> ('c \<times> 'w redis) result" where
  "read_nodes lib hr fmt [] st = Inr st"
| "read_nodes lib hr fmt (n # ns) st = rbind (read_node lib hr fmt n st) (read_nodes lib hr fmt ns)"

text \<open>
  \<open>readAllValues\<close> with a bound on the number of passes until \<open>running_\<close> is cleared (nothing in
  the class clears it): the Redis object is created first, and without a connection to
  Redis, without nodes or without a connection object nothing is read.
\<close>

fun read_passes ::
  "nat \<Rightarrow> 'c ied_lib \<Rightarrow> 'w hiredis \<Rightarrow> (64 word \<Rightarrow> string) \<Rightarrow> data_node list \<Rightarrow> 'c \<times> 'w redis \<Rightarrow> ('c \<times> 'w redis) result" where
  "read_passes 0 lib hr fmt ns st = Inr st"
| "read_passes (Suc n) lib hr fmt ns st = rbind (read_nodes lib hr fmt ns st) (read_passes n lib hr fmt ns)"

definition readAllValues ::
  "nat \<Rightarrow> 'c ied_lib \<Rightarrow> 'w hiredis \<Rightarrow> redis_defaults \<Rightarrow> (64 word \<Rightarrow> string) \<Rightarrow> bool \<Rightarrow> data_node list
    \<Rightarrow> 'c \<times> 'w redis \<Rightarrow> ('c \<times> 'w redis) result" where
  "readAllValues passes lib hr d fmt has_con ns st =
     rbind (DRDSDataRedis hr d (snd st)) (\<lambda>(_, rs).
       if isInitialized rs \<noteq> Some True \<or> ns = [] \<or> \<not> has_con then
         rbind (destroy_DRDSDataRedis rs) (\<lambda>(_, rs'). Inr (fst st, rs'))
       else
         rbind (read_passes passes lib hr fmt ns (fst st, rs)) (\<lambda>(c, rs').
           rbind (destroy_DRDSDataRedis rs') (\<lambda>(_, rs''). Inr (c, rs''))))"

section \<open>Control\<close>

datatype ctl_value = CtlBoolean bool | CtlInteger int

text \<open>
  The value \<open>controlObjects\<close> sends for a control object of MMS boolean or integer type;
  for every other type it operates with a null value, which the library does not accept.
\<close>

definition control_value :: "mms \<Rightarrow> string \<Rightarrow> ctl_value result" where
  "control_value ty ctlVal =
     (case ty of
        MmsBoolean _ \<Rightarrow> Inr (CtlBoolean (ctlVal \<in> {''true'', ''1'', ''True'', ''TRUE''}))
      | MmsInt _ \<Rightarrow> rbind (stoi ctlVal) (\<lambda>i. Inr (CtlInteger (if i \<noteq> 0 then 1 else 0)))
      | _ \<Rightarrow> Inl NullDeref)"

fun controlObjects ::
  "(string \<Rightarrow> mms option) \<Rightarrow> string list \<Rightarrow> string \<Rightarrow> (string \<times> ctl_value) list result" where
  "controlObjects create [] ctlVal = Inr []"
| "controlObjects create (n # ns) ctlVal =
     (case create n of
        None \<Rightarrow> controlObjects create ns ctlVal
      | Some ty \<Rightarrow>
          rbind (control_value ty ctlVal) (\<lambda>v.
          rbind (controlObjects create ns ctlVal) (\<lambda>l. Inr ((n, v) # l))))"

definition subscribeToReports :: "data_node list \<Rightarrow> string list" where
  "subscribeToReports nodes = foldl (\<lambda>out report. out) [''Subscribing to reports:''] nodes"

section \<open>Clients and manager\<close>

record iec61850_client =
  c61_id :: nat
  c61_ip :: string
  c61_port :: "16 word"
  c61_connected :: bool
  c61_reader :: "data_node list option"

definition iec61850Client :: "nat \<Rightarrow> string \<Rightarrow> 16 word \<Rightarrow> iec61850_client" where
  "iec61850Client i ip port =
     \<lparr>c61_id = i, c61_ip = ip, c61_port = port, c61_connected = False, c61_reader = None\<rparr>"

definition client_connect :: "'c ied_lib \<Rightarrow> iec61850_client \<times> 'c \<Rightarrow> bool \<times> iec61850_client \<times> 'c" where
  "client_connect lib s =
     (case s of (cl, w) \<Rightarrow>
        (case ied_connect lib (c61_ip cl) (c61_port cl) (c61_connected cl) w of
           (w', ok) \<Rightarrow> (ok, (if ok then cl\<lparr>c61_connected := True\<rparr> else cl), w')))"

text \<open>
  \<open>init\<close>: parse the ICD file, connect, and start the detached reader on success; the lambda
  of the thread holds a copy of the nodes, which is the value of \<open>c61_reader\<close>.
\<close>

definition client_init ::
  "'c ied_lib \<Rightarrow> parse_result result \<Rightarrow> iec61850_client \<times> 'c \<Rightarrow> (iec61850_client \<times> 'c) result" where
  "client_init lib parsed s =
     rbind parsed (\<lambda>nodes.
       case client_connect lib s of
         (False, s') \<Rightarrow> Inr s'
       | (True, (cl, w)) \<Rightarrow> Inr (cl\<lparr>c61_reader := Some (pr_nodes nodes)\<rparr>, w))"

definition client_disconnect :: "iec61850_client \<Rightarrow> iec61850_client" where
  "client_disconnect cl = cl\<lparr>c61_connected := False\<rparr>"

definition addClient :: "iec61850_client \<Rightarrow> iec61850_client list \<Rightarrow> iec61850_client list" where
  "addClient cl cls = cls @ [cl]"

definition removeClient :: "iec61850_client \<Rightarrow> iec61850_client list \<Rightarrow> iec61850_client list" where
  "removeClient cl cls = filter (\<lambda>x. c61_id x \<noteq> c61_id cl) cls"

text \<open>
  \<open>initClients\<close> on the configured devices: the second component collects the clients that go
  out of scope at the end of an iteration and are destroyed.
\<close>

fun init_61850_loop ::
  "'c ied_lib \<Rightarrow> (string \<Rightarrow> parse_result result) \<Rightarrow> (string \<times> config_iec61850) list \<Rightarrow> nat
    \<Rightarrow> iec61850_client list \<times> iec61850_client list \<times> 'c
    \<Rightarrow> (iec61850_client list \<times> iec61850_client list \<times> 'c) result" where
  "init_61850_loop lib parse [] i st = Inr st"
| "init_61850_loop lib parse ((dev, cfg) # cs) i (kept, gone, w) =
     rbind (client_init lib (parse (i61_icd_file_path cfg))
              (iec61850Client i (i61_ip cfg) (word_of_int (i61_port cfg)), w)) (\<lambda>s.
       case client_connect lib s of
         (True, cl, w') \<Rightarrow> init_61850_loop lib parse cs (i + 1) (addClient cl kept, gone, w')
       | (False, cl, w') \<Rightarrow> init_61850_loop lib parse cs (i + 1) (kept, gone @ [cl], w'))"

definition init61850Clients ::
  "'c ied_lib \<Rightarrow> (string \<Rightarrow> parse_result result) \<Rightarrow> (string \<times> config_iec61850) list option
    \<Rightarrow> iec61850_client list \<times> iec61850_client list \<times> 'c
    \<Rightarrow> (iec61850_client list \<times> iec61850_client list \<times> 'c) result" where
  "init61850Clients lib parse config st =
     (case config of None \<Rightarrow> Inr st | Some cs \<Rightarrow> init_61850_loop lib parse cs (length (fst st)) st)"

definition destroy_iec61850ClientManger :: "iec61850_client list \<Rightarrow> iec61850_client list" where
  "destroy_iec61850ClientManger cls = map client_disconnect cls"

section \<open>Structures without times\<close>

fun no_time :: "mms \<Rightarrow> bool" and no_times :: "mms option list \<Rightarrow> bool" where
  "no_time (MmsStructure vs) = no_times vs"
| "no_time v = True"
| "no_times [] = True"
| "no_times (None # vs) = no_times vs"
| "no_times (Some (MmsUtc t) # vs) = False"
| "no_times (Some v # vs) = (no_time v \<and> no_times vs)"

lemma parse_without_times:
  "no_time v \<Longrightarrow> returns (parseStructure path lvl v)"
  "no_times vs \<Longrightarrow> returns (parse_elements path lvl self i vs)"
proof (induction path lvl v and path lvl self i vs rule: parseStructure_parse_elements.induct)
  case (5 path lvl self i v vs)
  then show ?case by (cases v) (auto intro!: returns_intros)
qed (auto intro!: returns_intros)

lemma parse_time_crashes:
  "lvl \<le> 10 \<Longrightarrow> parseStructure path lvl (MmsStructure (Some (MmsUtc t) # vs)) = Inl LibraryCrash"
  by simp

fun stored_text :: "(64 word \<Rightarrow> string) \<Rightarrow> mms \<Rightarrow> string option" where
  "stored_text fmt (MmsBoolean b) = Some (dec_int (if b then 1 else 0))"
| "stored_text fmt (MmsInt i) = Some (dec_int (sint i))"
| "stored_text fmt (MmsUnsigned i) = Some (dec_int (uint i))"
| "stored_text fmt (MmsFloat x) = Some (fmt x)"
| "stored_text fmt (MmsText s) = Some (case s of None \<Rightarrow> [] | Some t \<Rightarrow> c_str t)"
| "stored_text fmt (MmsBits bs) = Some (bit_text bs)"
| "stored_text fmt (MmsUtc t) = Some (dec_int (sint t))"
| "stored_text fmt (MmsStructure vs) = None"
| "stored_text fmt (MmsOther t) = None"

lemma c_str_bits: "c_str (bit_text bs) = bit_text bs"
  by (induction bs) (auto simp: c_str_def bit_text_def)

lemma store_mms_text:
  assumes "no_time v"
  shows "store_mms hr fmt path v =
    (case stored_text fmt v of None \<Rightarrow> ret () | Some t \<Rightarrow> bnd (storeValue hr path t) (\<lambda>_. ret ()))"
proof (cases v)
  case (MmsStructure vs)
  then obtain l where "parseStructure path 0 v = Inr l"
    using parse_without_times(1) [OF assms] unfolding returns_def by blast
  with MmsStructure show ?thesis by (simp add: store_mms_def del: parseStructure.simps)
next
  case (MmsText s)
  then show ?thesis by (cases s) (simp_all add: store_mms_def storeString_def c_str_def)
next
  case (MmsBits bs)
  then show ?thesis by (simp add: store_mms_def storeString_def c_str_bits)
qed (simp_all add: store_mms_def storeBool_def storeLInt_def storeULInt_def storeLReal_def)

lemma store_mms_healthy:
  assumes "redis_laws hr up kv" and "healthy up s" and "no_time v"
  shows "\<exists>w. store_mms hr fmt path v s = Inr ((), s\<lparr>world := w\<rparr>) \<and> healthy up (s\<lparr>world := w\<rparr>)
     \<and> kv w = (case stored_text fmt v of None \<Rightarrow> kv (world s) | Some t \<Rightarrow> (kv (world s))(c_str path \<mapsto> t))"
proof (cases "stored_text fmt v")
  case None
  with assms show ?thesis by (intro exI [of _ "world s"]) (simp add: store_mms_text ret_def)
next
  case (Some t)
  obtain w where "storeValue hr path t s = Inr (True, s\<lparr>world := w\<rparr>)" "healthy up (s\<lparr>world := w\<rparr>)"
      "kv w = (kv (world s))(c_str path \<mapsto> t)"
    by (rule storeValue_healthy [OF assms(1,2)])
  with Some show ?thesis
    by (intro exI [of _ w]) (simp add: store_mms_text [OF assms(3)] bnd_def ret_def)
qed

text \<open>
  A target path is no usable alternative to storing a node: whenever the element is found
  in a structure without times, its text is stored and the caller's release of the whole
  value then frees the element a second time.
\<close>

lemma store_target_text:
  assumes "no_time u" and "\<forall>t. u \<noteq> MmsUtc t"
  shows "store_target hr fmt self path lvl u = store_mms hr fmt path u"
proof (cases u)
  case (MmsStructure us)
  obtain l l' where "parseStructure path (lvl + 1) u = Inr l" "parseStructure path 0 u = Inr l'"
    using parse_without_times(1) [OF assms(1)] unfolding returns_def by blast
  with MmsStructure show ?thesis by (simp add: store_target_def store_mms_def del: parseStructure.simps)
qed (use assms in \<open>simp_all add: store_target_def\<close>)

lemma target_read_double_frees:
  assumes "redis_laws hr up kv" and "healthy up s" and "lvl \<le> 10"
    and "sub (MmsStructure vs) target = Some pos" and "element_at (MmsStructure vs) pos = Some u"
    and "no_time u" and "\<forall>t. u \<noteq> MmsUtc t" and "stored_text fmt u = Some t"
  shows "\<exists>w. parse_target hr fmt sub path lvl target (MmsStructure vs) s = Inr (Some pos, s\<lparr>world := w\<rparr>)
     \<and> kv w = (kv (world s))(c_str (path @ ''.'' @ target) \<mapsto> t)
     \<and> bnd (parse_target hr fmt sub path lvl target (MmsStructure vs)) delete_value s = Inl DoubleFree"
proof -
  obtain w where "store_mms hr fmt (path @ ''.'' @ target) u s = Inr ((), s\<lparr>world := w\<rparr>)"
      "kv w = (kv (world s))(c_str (path @ ''.'' @ target) \<mapsto> t)"
    using store_mms_healthy [OF assms(1,2,6), of fmt "path @ ''.'' @ target"] assms(8) by auto
  with assms(3-7) have "parse_target hr fmt sub path lvl target (MmsStructure vs) s = Inr (Some pos, s\<lparr>world := w\<rparr>)"
    by (simp add: parse_target_def store_target_text bnd_def ret_def)
  with \<open>kv w = _\<close> show ?thesis by (intro exI [of _ w]) (simp add: bnd_def delete_value_def fail_def)
qed

section \<open>One pass over the nodes\<close>

text \<open>A device that answers every read with a fixed value of the object.\<close>

definition answers :: "'c ied_lib \<Rightarrow> (string \<Rightarrow> string \<Rightarrow> mms) \<Rightarrow> bool" where
  "answers lib vals \<longleftrightarrow> (\<forall>p fc w. ied_read lib p fc w = (w, True, Some (vals p fc)))"

definition node_entries :: "(64 word \<Rightarrow> string) \<Rightarrow> (string \<Rightarrow> string \<Rightarrow> mms) \<Rightarrow> data_node \<Rightarrow> (string \<times> string) list" where
  "node_entries fmt vals n =
     (if selected n
      then (case stored_text fmt (vals (fst n) (snd n)) of None \<Rightarrow> [] | Some t \<Rightarrow> [(c_str (fst n), t)]) else [])"

lemma read_nodes_healthy:
  assumes "redis_laws hr up kv" and "answers lib vals"
    and "\<forall>n \<in> set ns. selected n \<longrightarrow> no_time (vals (fst n) (snd n))" and "healthy up s"
  shows "\<exists>w. read_nodes lib hr fmt ns (c, s) = Inr (c, s\<lparr>world := w\<rparr>) \<and> healthy up (s\<lparr>world := w\<rparr>)
     \<and> kv w = kv (world s) ++ map_of (rev (concat (map (node_entries fmt vals) ns)))"
  using assms(3,4)
proof (induction ns arbitrary: s)
  case Nil
  then show ?case by (intro exI [of _ "world s"]) simp
next
  case (Cons n ns)
  have "\<exists>w. read_node lib hr fmt n (c, s) = Inr (c, s\<lparr>world := w\<rparr>) \<and> healthy up (s\<lparr>world := w\<rparr>)
      \<and> kv w = kv (world s) ++ map_of (rev (node_entries fmt vals n))"
  proof (cases "selected n")
    case False
    with Cons.prems show ?thesis
      by (intro exI [of _ "world s"]) (simp add: read_node_def node_entries_def)
  next
    case True
    then have "no_time (vals (fst n) (snd n))" using Cons.prems(1) by simp
    from store_mms_healthy [OF assms(1) Cons.prems(2) this, of fmt "fst n"] True assms(2) show ?thesis
      by (auto simp: read_node_def node_entries_def answers_def split: option.splits)
  qed
  then obtain w where w: "read_node lib hr fmt n (c, s) = Inr (c, s\<lparr>world := w\<rparr>)" "healthy up (s\<lparr>world := w\<rparr>)"
      "kv w = kv (world s) ++ map_of (rev (node_entries fmt vals n))" by blast
  obtain w' where "read_nodes lib hr fmt ns (c, s\<lparr>world := w\<rparr>) = Inr (c, s\<lparr>world := w\<rparr>\<lparr>world := w'\<rparr>)"
      "healthy up (s\<lparr>world := w\<rparr>\<lparr>world := w'\<rparr>)"
      "kv w' = kv w ++ map_of (rev (concat (map (node_entries fmt vals) ns)))"
    using Cons.IH [OF _ w(2)] Cons.prems(1) by auto
  with w show ?case by (intro exI [of _ w']) (simp add: map_add_assoc)
qed

definition refuses_second_connect :: "'c ied_lib \<Rightarrow> bool" where
  "refuses_second_connect lib \<longleftrightarrow> (\<forall>ip port w. \<not> snd (ied_connect lib ip port True w))"

lemma connect_keeps_reader:
  "client_connect lib (cl, w) = (ok, cl', w') \<Longrightarrow> c61_reader cl' = c61_reader cl \<and> (ok \<longrightarrow> c61_connected cl')"
  by (auto simp: client_connect_def split: prod.splits if_splits)

lemma second_connect_fails:
  "refuses_second_connect lib \<Longrightarrow> c61_connected cl \<Longrightarrow> client_connect lib (cl, w) = (ok, cl', w') \<Longrightarrow> \<not> ok"
  unfolding refuses_second_connect_def client_connect_def by (auto split: prod.splits) (metis snd_conv)

lemma init_reader_connected:
  "client_init lib parsed (iec61850Client i ip port, w) = Inr (cl, w1) \<Longrightarrow> c61_reader cl \<noteq> None \<Longrightarrow> c61_connected cl"
proof -
  assume a: "client_init lib parsed (iec61850Client i ip port, w) = Inr (cl, w1)" "c61_reader cl \<noteq> None"
  obtain ok cl' w' where conn: "client_connect lib (iec61850Client i ip port, w) = (ok, cl', w')"
    by (metis prod.exhaust)
  with a connect_keeps_reader [OF conn] show ?thesis
    by (cases ok) (auto simp: client_init_def rbind_Inr_iff iec61850Client_def)
qed

lemma init_61850_loop_readers:
  assumes "refuses_second_connect lib"
    and "init_61850_loop lib parse cs i (kept, gone, w) = Inr (kept', gone', w')"
    and "\<forall>cl \<in> set kept. c61_reader cl = None"
  shows "\<forall>cl \<in> set kept'. c61_reader cl = None"
  using assms(2,3)
proof (induction cs arbitrary: i kept gone w)
  case (Cons c cs)
  obtain dev cfg where c: "c = (dev, cfg)" by fastforce
  obtain cl w1 where init: "client_init lib (parse (i61_icd_file_path cfg))
      (iec61850Client i (i61_ip cfg) (word_of_int (i61_port cfg)), w) = Inr (cl, w1)"
    using Cons.prems(1) c by (auto simp: rbind_Inr_iff)
  obtain ok cl2 w2 where conn: "client_connect lib (cl, w1) = (ok, cl2, w2)" by (metis prod.exhaust)
  show ?case
  proof (cases ok)
    case True
    then have "\<not> c61_connected cl" using second_connect_fails [OF assms(1) _ conn] by blast
    then have "c61_reader cl2 = None"
      using init_reader_connected [OF init] connect_keeps_reader [OF conn] by (metis)
    with Cons.prems(2) have "\<forall>cl \<in> set (addClient cl2 kept). c61_reader cl = None" by (auto simp: addClient_def)
    moreover have "init_61850_loop lib parse cs (i + 1) (addClient cl2 kept, gone, w2) = Inr (kept', gone', w')"
      using Cons.prems(1) c init conn True by simp
    ultimately show ?thesis by (rule Cons.IH [rotated])
  next
    case False
    then have "init_61850_loop lib parse cs (i + 1) (kept, gone @ [cl2], w2) = Inr (kept', gone', w')"
      using Cons.prems(1) c init conn by simp
    then show ?thesis using Cons.prems(2) by (rule Cons.IH)
  qed
qed simp

lemma init_61850_loop_count:
  "init_61850_loop lib parse cs i (kept, gone, w) = Inr (kept', gone', w') \<Longrightarrow>
     length kept' + length gone' = length kept + length gone + length cs"
proof (induction cs arbitrary: i kept gone w)
  case (Cons c cs)
  obtain dev cfg where c: "c = (dev, cfg)" by fastforce
  obtain cl w1 where init: "client_init lib (parse (i61_icd_file_path cfg))
      (iec61850Client i (i61_ip cfg) (word_of_int (i61_port cfg)), w) = Inr (cl, w1)"
    using Cons.prems(1) c by (auto simp: rbind_Inr_iff)
  obtain ok cl2 w2 where conn: "client_connect lib (cl, w1) = (ok, cl2, w2)" by (metis prod.exhaust)
  show ?case
    using Cons.IH [of "i + 1" "addClient cl2 kept" gone w2] Cons.IH [of "i + 1" kept "gone @ [cl2]" w2]
      Cons.prems c init conn
    by (cases ok) (simp_all add: addClient_def)
qed simp

lemma map_add_idem: "m ++ f ++ f = m ++ f"
  by (auto simp: map_add_def fun_eq_iff split: option.split)

lemma read_passes_healthy:
  assumes "redis_laws hr up kv" and "answers lib vals"
    and "\<forall>n \<in> set ns. selected n \<longrightarrow> no_time (vals (fst n) (snd n))" and "healthy up s"
  shows "\<exists>w. read_passes k lib hr fmt ns (c, s) = Inr (c, s\<lparr>world := w\<rparr>) \<and> healthy up (s\<lparr>world := w\<rparr>)
     \<and> kv w = (if k = 0 then kv (world s) else kv (world s) ++ map_of (rev (concat (map (node_entries fmt vals) ns))))"
  using assms(4)
proof (induction k arbitrary: s)
  case 0
  then show ?case by (intro exI [of _ "world s"]) simp
next
  case (Suc k)
  let ?e = "map_of (rev (concat (map (node_entries fmt vals) ns)))"
  obtain w where w: "read_nodes lib hr fmt ns (c, s) = Inr (c, s\<lparr>world := w\<rparr>)" "healthy up (s\<lparr>world := w\<rparr>)"
      "kv w = kv (world s) ++ ?e"
    using read_nodes_healthy [OF assms(1-3) Suc.prems, of fmt c] by blast
  obtain w' where "read_passes k lib hr fmt ns (c, s\<lparr>world := w\<rparr>) = Inr (c, s\<lparr>world := w\<rparr>\<lparr>world := w'\<rparr>)"
      "healthy up (s\<lparr>world := w\<rparr>\<lparr>world := w'\<rparr>)" "kv w' = (if k = 0 then kv w else kv w ++ ?e)"
    using Suc.IH [OF w(2)] by auto
  with w show ?case by (intro exI [of _ w']) (simp add: map_add_idem)
qed

definition static_ied :: "(string \<Rightarrow> string \<Rightarrow> mms) \<Rightarrow> unit ied_lib" where
  "static_ied vals =
     \<lparr>ied_read = \<lambda>p fc w. (w, True, Some (vals p fc)), ied_connect = \<lambda>ip port already w. (w, \<not> already)\<rparr>"

lemma readAllValues_healthy:
  assumes "redis_laws hr up kv" and "up (world s)" and "redis_ready d" and "answers lib vals"
    and "\<forall>n \<in> set ns. selected n \<longrightarrow> no_time (vals (fst n) (snd n))" and "ns \<noteq> []" and "0 < passes"
  shows "\<exists>s'. readAllValues passes lib hr d fmt True ns (c, s) = Inr (c, s') \<and> up (world s')
     \<and> kv (world s') = kv (world s) ++ map_of (rev (concat (map (node_entries fmt vals) ns)))"
proof -
  obtain s1 where s1: "DRDSDataRedis hr d s = Inr ((), s1)" "healthy up s1" "kv (world s1) = kv (world s)"
    and "isInitialized s1 = Some True"
    using construct_healthy [OF assms(1-3)] by blast
  obtain w where w: "read_passes passes lib hr fmt ns (c, s1) = Inr (c, s1\<lparr>world := w\<rparr>)" "healthy up (s1\<lparr>world := w\<rparr>)"
      "kv w = kv (world s1) ++ map_of (rev (concat (map (node_entries fmt vals) ns)))"
    using read_passes_healthy [OF assms(1,4,5) s1(2), of passes fmt c] assms(7) by auto
  with s1 destroy_healthy [OF w(2)] assms(6) \<open>isInitialized s1 = Some True\<close> show ?thesis
    by (auto simp: readAllValues_def healthy_def)
qed

section \<open>Properties\<close>

text \<open>
  Reading a device into Redis: with Redis reachable and a device that answers every
  read, any number of passes ends without a fault, and afterwards Redis holds exactly the
  texts of the selected nodes (status and configuration nodes below \<open>SPTR01\<close>) whose value
  is a scalar; a structure is never stored, and no other key changes.
\<close>

theorem readAllValues_stores_selected:
  assumes "redis_laws hr up kv" and "up (world s)" and "redis_ready d" and "answers lib vals"
    and "\<forall>n \<in> set ns. selected n \<longrightarrow> no_time (vals (fst n) (snd n))" and "ns \<noteq> []" and "0 < passes"
  shows "\<exists>s'. readAllValues passes lib hr d fmt True ns (c, s) = Inr (c, s')
     \<and> kv (world s') = kv (world s) ++ map_of (rev (concat (map (node_entries fmt vals) ns)))"
  using readAllValues_healthy [OF assms] by blast

theorem readAllValues_stores_selected_witness:
  "\<exists>s'. readAllValues 2 (static_ied (\<lambda>p fc. MmsBits [True, False])) list_server
          \<lparr>default_unix_socket_path = [], default_host = ''127.0.0.1'', default_port = 6380\<rparr> (\<lambda>_. []) True
          [(''L/SPTR01.Op'', ''ST''), (''L/GGIO1.Op'', ''ST'')] ((), redis_at []) = Inr ((), s')
      \<and> map_of (world s') = map_of [] ++ map_of [(''L/SPTR01.Op'', ''10'')]"
proof -
  have "answers (static_ied (\<lambda>p fc. MmsBits [True, False])) (\<lambda>p fc. MmsBits [True, False])"
    by (simp add: answers_def static_ied_def)
  from readAllValues_stores_selected [OF list_server_laws _ _ this, where s = "redis_at []"
      and d = "\<lparr>default_unix_socket_path = [], default_host = ''127.0.0.1'', default_port = 6380\<rparr>"
      and ns = "[(''L/SPTR01.Op'', ''ST''), (''L/GGIO1.Op'', ''ST'')]" and passes = 2 and fmt = "\<lambda>_. []" and c = "()"]
  show ?thesis
    by (simp add: redis_ready_def redis_at_def node_entries_def selected_def bit_text_def c_str_def
        map_add_def del: map_of.simps(1))
qed

text \<open>
  C33. The manager loses every client it connects: with a library that refuses to connect
  a connected client (its documented behaviour), the second \<open>connect\<close> of
  \<open>initClients\<close> fails, so each client whose detached reader thread was started is dropped
  and destroyed while the thread goes on using it; no client kept by the manager has a
  reader.
\<close>

theorem connected_clients_are_dropped:
  assumes "refuses_second_connect lib" and "init61850Clients lib parse (Some cs) ([], [], w) = Inr (kept, gone, w')"
  shows "(\<forall>cl \<in> set kept. c61_reader cl = None) \<and> length kept + length gone = length cs"
  using init_61850_loop_readers [OF assms(1), of parse cs 0 "[]" "[]" w kept gone w']
    init_61850_loop_count [of lib parse cs 0 "[]" "[]" w kept gone w'] assms(2)
  by (simp add: init61850Clients_def)

theorem connected_clients_are_dropped_witness:
  "\<exists>kept gone. init61850Clients (static_ied (\<lambda>p fc. MmsOther 0)) (\<lambda>_. Inr no_result)
       (Some [(''i'', \<lparr>i61_device_id = ''i'', i61_ip = ''10.0.0.2'', i61_icd_file_path = ''a.icd'',
          i61_access_point = [], i61_logical_device = [], i61_client_mms_name = [], i61_port = 102,
          i61_poll_interval = 1, i61_max_retries = 1, i61_retry_interval = 1, i61_report_enabled = False,
          i61_goose_enabled = False, i61_tls_enabled = False, i61_description = ''d'',
          i61_data_point_filters = []\<rparr>)]) ([], [], ()) = Inr (kept, gone, ())
     \<and> length kept + length gone = 1 \<and> (\<forall>cl \<in> set kept. c61_reader cl = None) \<and> list_all (\<lambda>cl. c61_reader cl \<noteq> None) gone"
proof -
  let ?cs = "[(''i'', \<lparr>i61_device_id = ''i'', i61_ip = ''10.0.0.2'', i61_icd_file_path = ''a.icd'',
          i61_access_point = [], i61_logical_device = [], i61_client_mms_name = [], i61_port = 102,
          i61_poll_interval = 1, i61_max_retries = 1, i61_retry_interval = 1, i61_report_enabled = False,
          i61_goose_enabled = False, i61_tls_enabled = False, i61_description = ''d'',
          i61_data_point_filters = []\<rparr>)]"
  let ?lib = "static_ied (\<lambda>p fc. MmsOther 0)" and ?p = "\<lambda>_ :: string. Inr no_result :: parse_result result"
  have r: "init61850Clients ?lib ?p (Some ?cs) ([], [], ()) = Inr ([],
      [(iec61850Client 0 ''10.0.0.2'' 102)\<lparr>c61_connected := True, c61_reader := Some []\<rparr>], ())"
    by (simp add: init61850Clients_def client_init_def client_connect_def static_ied_def iec61850Client_def no_result_def)
  moreover have "refuses_second_connect ?lib" by (simp add: refuses_second_connect_def static_ied_def)
  ultimately show ?thesis
    using connected_clients_are_dropped [of ?lib ?p ?cs "()"] by auto
qed

end
