(* ===== verification/Iec61850_Service.thy ===== *)
theory Iec61850_Service
  imports Gateway_Prelude
begin

text \<open>
  The IEC 61850 server, class \<open>ice61850Service\<close> (\<open>core/iec61850/ice61850Service.cc\<close>): its
  life cycle over the MMS server and the sampled value publisher of the library, and the
  handler of connection events with its two file-level variables. Objects the library
  creates live in a heap, so that objects nobody refers to any more can be seen. Which
  library calls succeed is an argument. The two threads of a running service interleave
  with the calls of the owner one pass at a time. \<open>setLocalData\<close>, the control handler and the
  GOOSE handler of the class are declared but have no definition in the source.
\<close>

datatype lib_object = IedServer | SvPublisher

record service =
  objects :: "nat \<Rightarrow> lib_object option"
  next_object :: nat
  server_m :: "nat option"
  model_set :: bool
  svPublisher :: "nat option"
  service_running :: bool
  dataUpdateThread :: bool
  svThread :: bool
  server_started :: bool
  goose_interface :: "string option"
  gcb_interface :: "(string \<times> string) option"
  goose_publishing :: bool

definition ice61850Service :: "service \<Rightarrow> service" where
  "ice61850Service s =
     s\<lparr>server_m := None, model_set := False, svPublisher := None, service_running := False,
       dataUpdateThread := False, svThread := False, server_started := False, goose_interface := None,
       gcb_interface := None, goose_publishing := False\<rparr>"

definition new_object :: "lib_object \<Rightarrow> service \<Rightarrow> nat \<times> service" where
  "new_object k s =
     (next_object s, s\<lparr>objects := (objects s)(next_object s \<mapsto> k), next_object := next_object s + 1\<rparr>)"

definition free_object :: "nat \<Rightarrow> service \<Rightarrow> service result" where
  "free_object p s =
     (if objects s p = None then Inl DoubleFree else Inr (s\<lparr>objects := (objects s)(p := None)\<rparr>))"

definition initializeGoose :: "string \<Rightarrow> string \<Rightarrow> string \<Rightarrow> service \<Rightarrow> service" where
  "initializeGoose interface specificGooseInterface specificGcbName s =
     (let s1 = (if interface \<noteq> [] then s\<lparr>goose_interface := Some interface\<rparr> else s) in
      if specificGooseInterface \<noteq> []
      then s1\<lparr>gcb_interface := Some (specificGcbName, specificGooseInterface)\<rparr> else s1)"

definition initializeSvPublisher :: "bool \<Rightarrow> service \<Rightarrow> service" where
  "initializeSvPublisher created s =
     (if created then (case new_object SvPublisher s of (p, s1) \<Rightarrow> s1\<lparr>svPublisher := Some p\<rparr>)
      else s\<lparr>svPublisher := None\<rparr>)"

text \<open>The local data store is still to be filled; its initialisation has an empty body.\<close>

definition initializeLocalData :: "service \<Rightarrow> service" where
  "initializeLocalData s = s"

definition service_init ::
  "bool \<Rightarrow> bool \<Rightarrow> string \<Rightarrow> string \<Rightarrow> string \<Rightarrow> service \<Rightarrow> bool \<times> service" where
  "service_init server_created sv_created interface specificGooseInterface specificGcbName s =
     (let s1 = s\<lparr>model_set := True\<rparr> in
      if \<not> server_created then (False, s1\<lparr>server_m := None\<rparr>)
      else
        (case new_object IedServer s1 of (p, s2) \<Rightarrow>
           (True, initializeLocalData (initializeSvPublisher sv_created
              (initializeGoose interface specificGooseInterface specificGcbName (s2\<lparr>server_m := Some p\<rparr>))))))"

text \<open>
  \<open>startServer\<close>: assigning to a joinable \<open>std::thread\<close> ends the process; starting the
  listener may fail.
\<close>

definition startServer :: "bool \<Rightarrow> (bool, service) oper" where
  "startServer listening s =
     (if server_m s = None \<or> service_running s then Inr (False, s)
      else if \<not> listening then Inr (False, s)
      else
        let s1 = s\<lparr>server_started := True, goose_publishing := True, service_running := True\<rparr> in
        if dataUpdateThread s1 \<or> svThread s1 then Inl StdTerminate
        else Inr (True, s1\<lparr>dataUpdateThread := True, svThread := True\<rparr>))"

definition stop_running :: "service \<Rightarrow> service result" where
  "stop_running s =
     (case server_m s of
        Some p \<Rightarrow>
          if service_running s
          then rbind (free_object p (s\<lparr>service_running := False, dataUpdateThread := False, svThread := False,
                                       server_started := False\<rparr>)) (\<lambda>s1. Inr (s1\<lparr>server_m := None\<rparr>))
          else Inr s
      | None \<Rightarrow> Inr s)"

definition stopServer :: "service \<Rightarrow> service result" where
  "stopServer s =
     rbind (stop_running s) (\<lambda>s1.
     rbind (case svPublisher s1 of
              Some p \<Rightarrow> rbind (free_object p s1) (\<lambda>s2. Inr (s2\<lparr>svPublisher := None\<rparr>))
            | None \<Rightarrow> Inr s1) (\<lambda>s2.
     Inr (s2\<lparr>model_set := False\<rparr>)))"

text \<open>The destructor: a member that is still a joinable thread ends the process.\<close>

definition destroy_ice61850Service :: "service \<Rightarrow> service result" where
  "destroy_ice61850Service s =
     rbind (stopServer s) (\<lambda>s1. if dataUpdateThread s1 \<or> svThread s1 then Inl StdTerminate else Inr s1)"

section \<open>Thread loops\<close>

text \<open>
  Locking and unlocking the data model uses the server object. Each loop is given the
  number of passes after which it looks at \<open>running_\<close> no more; the service is not changed
  by another thread during these passes.
\<close>

definition updateServerData :: "service \<Rightarrow> service result" where
  "updateServerData s =
     (case server_m s of
        None \<Rightarrow> Inl NullDeref
      | Some p \<Rightarrow> if objects s p = None then Inl UseAfterFree else Inr s)"

fun updateDataLoop :: "nat \<Rightarrow> service \<Rightarrow> service result" where
  "updateDataLoop 0 s = Inr s"
| "updateDataLoop (Suc n) s =
     (if service_running s then rbind (updateServerData s) (updateDataLoop n) else Inr s)"

fun publishGooseLoop :: "nat \<Rightarrow> service \<Rightarrow> service" where
  "publishGooseLoop 0 s = s"
| "publishGooseLoop (Suc n) s = (if service_running s then publishGooseLoop n s else s)"

fun publishSvLoop :: "nat \<Rightarrow> service \<Rightarrow> service" where
  "publishSvLoop 0 s = s"
| "publishSvLoop (Suc n) s = (if service_running s then publishSvLoop n s else s)"

section \<open>Connection events\<close>

record control_mode =
  automaticOperationMode :: bool
  controllingClient :: "nat option"

definition connectionIndicationHandler :: "nat \<Rightarrow> bool \<Rightarrow> control_mode \<Rightarrow> control_mode" where
  "connectionIndicationHandler connection connected m =
     (if connected then m
      else if controllingClient m = Some connection
      then m\<lparr>controllingClient := None, automaticOperationMode := True\<rparr> else m)"

section \<open>Life cycle\<close>

datatype service_state = Service service | ServiceFault fault

datatype service_event = SInit bool bool string string string | SStart bool | SStop
  | SUpdatePass | SSvPass

inductive service_step :: "service_state \<Rightarrow> service_event \<Rightarrow> service_state \<Rightarrow> bool" where
  s_init: "service_step (Service s) (SInit a b i g c) (Service (snd (service_init a b i g c s)))"
| s_start: "service_step (Service s) (SStart up)
     (case startServer up s of Inl f \<Rightarrow> ServiceFault f | Inr (ok, s') \<Rightarrow> Service s')"
| s_stop: "service_step (Service s) SStop
     (case stopServer s of Inl f \<Rightarrow> ServiceFault f | Inr s' \<Rightarrow> Service s')"
| s_update: "dataUpdateThread s \<Longrightarrow> service_step (Service s) SUpdatePass
     (case updateDataLoop 1 s of Inl f \<Rightarrow> ServiceFault f | Inr s' \<Rightarrow> Service s')"
| s_sv: "svThread s \<Longrightarrow> service_step (Service s) SSvPass (Service (publishSvLoop 1 s))"

text \<open>An owner that never initialises a running service in vain.\<close>

fun careful :: "service_state \<Rightarrow> service_event \<Rightarrow> bool" where
  "careful (Service s) (SInit created _ _ _ _) = (created \<or> \<not> service_running s)"
| "careful _ _ = True"

definition careful_step :: "service_state \<Rightarrow> service_event \<Rightarrow> service_state \<Rightarrow> bool" where
  "careful_step c e t \<longleftrightarrow> careful c e \<and> service_step c e t"

definition empty_heap :: service where
  "empty_heap =
     \<lparr>objects = Map.empty, next_object = 0, server_m = None, model_set = False, svPublisher = None,
      service_running = False, dataUpdateThread = False, svThread = False, server_started = False,
      goose_interface = None, gcb_interface = None, goose_publishing = False\<rparr>"

definition service_start :: "service_state \<Rightarrow> bool" where
  "service_start t \<longleftrightarrow> t = Service (ice61850Service empty_heap)"

text \<open>
  Pointers of the service are null or refer to live objects of the right kind, the two
  threads exist while the service runs and only then, and a running service has a server.
\<close>

definition service_ok :: "service \<Rightarrow> bool" where
  "service_ok s \<longleftrightarrow>
     (\<forall>p. server_m s = Some p \<longrightarrow> objects s p = Some IedServer)
     \<and> (\<forall>p. svPublisher s = Some p \<longrightarrow> objects s p = Some SvPublisher)
     \<and> (\<forall>p \<ge> next_object s. objects s p = None)
     \<and> dataUpdateThread s = service_running s \<and> svThread s = service_running s
     \<and> (service_running s \<longrightarrow> server_m s \<noteq> None)"

fun service_inv :: "service_state \<Rightarrow> bool" where
  "service_inv (Service s) = service_ok s"
| "service_inv (ServiceFault f) = False"

lemma service_init_ok:
  "service_ok s \<Longrightarrow> a \<or> \<not> service_running s \<Longrightarrow> service_ok (snd (service_init a b i g c s))"
  by (auto simp: service_ok_def service_init_def new_object_def initializeGoose_def initializeSvPublisher_def
      initializeLocalData_def Let_def)

lemma startServer_ok:
  "service_ok s \<Longrightarrow> service_inv (case startServer up s of Inl f \<Rightarrow> ServiceFault f | Inr (ok, s') \<Rightarrow> Service s')"
  by (auto simp: service_ok_def startServer_def Let_def)

lemma startServer_running: "startServer up s = Inr (True, s') \<Longrightarrow> service_running s'"
  by (auto simp: startServer_def Let_def split: if_splits)

lemma free_object_live: "objects s p = Some k \<Longrightarrow> free_object p s = Inr (s\<lparr>objects := (objects s)(p := None)\<rparr>)"
  by (simp add: free_object_def)

lemma stop_running_ok:
  assumes "service_ok s"
  obtains s' where "stop_running s = Inr s'" "service_ok s'" "svPublisher s' = svPublisher s"
    "\<not> service_running s'" "service_running s \<longrightarrow> server_m s' = None" "\<not> service_running s \<longrightarrow> s' = s"
proof (cases "service_running s")
  case False
  with assms that [of s] show thesis by (cases "server_m s") (simp_all add: stop_running_def)
next
  case True
  with assms obtain p where p: "server_m s = Some p" "objects s p = Some IedServer"
    by (auto simp: service_ok_def)
  let ?s = "s\<lparr>service_running := False, dataUpdateThread := False, svThread := False, server_started := False,
              objects := (objects s)(p := None), server_m := None\<rparr>"
  have "stop_running s = Inr ?s" using True p by (simp add: stop_running_def free_object_live)
  moreover have "service_ok ?s" using assms p by (auto simp: service_ok_def)
  ultimately show thesis using that [of ?s] True by simp
qed

text \<open>What stopping leaves: the objects of the heap that are still allocated.\<close>

definition without :: "nat option \<Rightarrow> (nat \<Rightarrow> 'b option) \<Rightarrow> nat \<Rightarrow> 'b option" where
  "without p h = (case p of None \<Rightarrow> h | Some q \<Rightarrow> h(q := None))"

lemma stopServer_ok:
  assumes "service_ok s"
  obtains s' where "stopServer s = Inr s'" "service_ok s'" "svPublisher s' = None" "\<not> service_running s'"
    "service_running s \<longrightarrow> server_m s' = None"
    "\<not> service_running s \<longrightarrow> server_m s' = server_m s \<and> objects s' = without (svPublisher s) (objects s)"
proof -
  obtain s1 where s1: "stop_running s = Inr s1" "service_ok s1" "svPublisher s1 = svPublisher s"
      "\<not> service_running s1" "service_running s \<longrightarrow> server_m s1 = None" "\<not> service_running s \<longrightarrow> s1 = s"
    by (rule stop_running_ok [OF assms])
  show thesis
  proof (cases "svPublisher s1")
    case None
    with s1 that [of "s1\<lparr>model_set := False\<rparr>"] show thesis
      by (auto simp: stopServer_def service_ok_def without_def)
  next
    case (Some p)
    with s1(2) have p: "objects s1 p = Some SvPublisher" by (simp add: service_ok_def)
    let ?s = "s1\<lparr>objects := (objects s1)(p := None), svPublisher := None, model_set := False\<rparr>"
    have "stopServer s = Inr ?s" using s1(1) Some p by (simp add: stopServer_def free_object_live)
    moreover have "service_ok ?s" using s1(2) p by (auto simp: service_ok_def)
    moreover have "svPublisher s = Some p" using s1(3) Some by simp
    ultimately show thesis using that [of ?s] s1(4-6) by (auto simp: without_def)
  qed
qed

lemma updateDataLoop_ok: "service_ok s \<Longrightarrow> updateDataLoop n s = Inr s"
  by (induction n) (auto simp: service_ok_def updateServerData_def split: option.split)

lemma publishSvLoop_id [simp]: "publishSvLoop n s = s"
  by (induction n) simp_all

lemma publishGooseLoop_id [simp]: "publishGooseLoop n s = s"
  by (induction n) simp_all

interpretation svc: invariant_system service_start careful_step service_inv
proof unfold_locales
  show "service_inv t" if "service_start t" for t
    using that by (simp add: service_start_def service_ok_def ice61850Service_def empty_heap_def)
  show "service_inv t" if "service_inv c" and "careful_step c e t" for c e t
  proof -
    from that(2) have step: "service_step c e t" and care: "careful c e" by (simp_all add: careful_step_def)
    from step that(1) care show ?thesis
    proof cases
      case (s_stop s)
      then have "service_ok s" using that(1) by simp
      then show ?thesis by (rule stopServer_ok) (simp add: s_stop)
    qed (auto simp: service_init_ok startServer_ok updateDataLoop_ok simp del: updateDataLoop.simps)
  qed
qed

section \<open>Properties\<close>



text \<open>
  C36. The case excluded above: an initialisation that fails while the service runs clears
  the server pointer under the running threads. The next pass of the update thread then
  uses a null server, stopping no longer stops anything, and destroying the service ends
  the process because its threads are still joinable.
\<close>

theorem failed_init_while_running_faults:
  assumes "svc.reachable (Service s) es" and "service_running s"
    and "service_init False b i g c s = (ok, s1)"
  shows "\<not> ok \<and> updateDataLoop (Suc n) s1 = Inl NullDeref
     \<and> (\<exists>s2. stopServer s1 = Inr s2 \<and> service_running s2 \<and> server_m s2 = None)
     \<and> destroy_ice61850Service s1 = Inl StdTerminate"
proof -
  have ok: "service_ok s" using svc.reachable_inv [OF assms(1)] by simp
  have s1: "\<not> ok" "s1 = s\<lparr>model_set := True, server_m := None\<rparr>"
    using assms(3) by (simp_all add: service_init_def Let_def)
  let ?s2 = "s1\<lparr>objects := without (svPublisher s1) (objects s1), svPublisher := None, model_set := False\<rparr>"
  have "stopServer s1 = Inr ?s2"
    using ok s1(2)
    by (cases "svPublisher s") (auto simp: stopServer_def stop_running_def service_ok_def free_object_live without_def)
  with ok s1 assms(2) show ?thesis
    by (simp add: updateServerData_def destroy_ice61850Service_def service_ok_def)
qed

definition running_service :: service where
  "running_service =
     (case startServer True (snd (service_init True True ''eth0'' [] ''gcb'' (ice61850Service empty_heap))) of
        Inl f \<Rightarrow> empty_heap | Inr r \<Rightarrow> snd r)"

lemma running_service_reachable:
  "svc.reachable (Service running_service) ([] @ [SInit True True ''eth0'' [] ''gcb''] @ [SStart True])"
  "service_running running_service"
proof -
  let ?s = "snd (service_init True True ''eth0'' [] ''gcb'' (ice61850Service empty_heap))"
  have "svc.reachable (Service (ice61850Service empty_heap)) []"
    by (rule svc.reachable.at_start) (simp add: service_start_def)
  then have "svc.reachable (Service ?s) ([] @ [SInit True True ''eth0'' [] ''gcb''])"
    by (rule svc.reachable.by_step) (simp add: careful_step_def s_init)
  moreover have st: "startServer True ?s = Inr (True, running_service)"
    by (simp add: running_service_def startServer_def service_init_def new_object_def initializeGoose_def
        initializeSvPublisher_def initializeLocalData_def ice61850Service_def empty_heap_def)
  moreover have "service_step (Service ?s) (SStart True) (Service running_service)"
    using s_start [of ?s True] st by simp
  ultimately show "svc.reachable (Service running_service) ([] @ [SInit True True ''eth0'' [] ''gcb''] @ [SStart True])"
    using svc.reachable.by_step [of "Service ?s" "[] @ [SInit True True ''eth0'' [] ''gcb'']" "SStart True"]
    by (simp add: careful_step_def)
  show "service_running running_service"
    using st by (rule startServer_running)
qed

theorem failed_init_while_running_faults_witness:
  "destroy_ice61850Service (snd (service_init False True ''eth0'' [] ''gcb'' running_service)) = Inl StdTerminate"
  using failed_init_while_running_faults [OF running_service_reachable, where n = 0
      and ok = "fst (service_init False True ''eth0'' [] ''gcb'' running_service)"
      and ?s1.0 = "snd (service_init False True ''eth0'' [] ''gcb'' running_service)"]
  by (metis prod.collapse)

end
