(* ===== verification/Beagle_Demo.thy ===== *)
theory Beagle_Demo
  imports Gateway_Prelude
begin

text \<open>
  The IEC 61850 demonstration of \<open>sample/61850_demo\<close>, from which the gateway's own server
  is derived: the server with its control and write handlers and its main loop
  (\<open>beagle_demo.c\<close>), the LED driver in its simulated variant (\<open>beaglebone_leds.c\<close>) and the
  client that drives the LEDs (\<open>beagle_client.c\<close>), and the command line of \<open>main.c\<close>.

  The static variables of the server are a record; what it prints for the LEDs and the
  attribute values it gives to the library are a list in the order of the calls. Client
  connections are the type variable \<open>'c\<close> (pointers compared for identity), the clock is an
  argument, and the analogue values are the parameter \<open>cfloat\<close>: single-precision addition,
  \<open>sinf\<close> and the literals, \<open>flit n\<close> for \<open>n\<close> tenths. Handlers and loop passes are steps of one transition system.
\<close>

section \<open>State\<close>

datatype led = LED1 | LED2 | LED3 | LED4

datatype data_object = SPCSO1 | SPCSO2 | SPCSO3 | DPCSO1 | OpCntRs | OtherObject

datatype dbpos = DBPOS_INTERMEDIATE_STATE | DBPOS_OFF | DBPOS_ON

datatype attribute =
    Attr_stVal data_object
  | Attr_t data_object
  | Attr_q data_object
  | OpDlTmms_setVal
  | RsDlTmms_setVal
  | AnIn_mag_f nat
  | AnIn_q nat
  | AnIn_t nat
  | OtherAttribute

text \<open>Quality is the disjunction of the library's flags, kept here as the list of the flags.\<close>

datatype quality_flag = VALIDITY_GOOD | VALIDITY_QUESTIONABLE | SOURCE_SUBSTITUTED | DETAIL_OSCILLATORY

datatype 'f mms_value =
    Boolean bool
  | Int32 "32 word"
  | UTCTime "64 word"
  | Quality "quality_flag list"
  | DbposValue dbpos
  | FloatValue 'f

datatype 'f demo_output =
    Switch led bool
  | Flash led
  | SwitchPrinted led
  | Update attribute "'f mms_value"
  | SetBits attribute "32 word"

record ('c, 'f) demo =
  running :: bool
  automaticOperationMode :: bool
  controllingClient :: "'c option"
  ledOnTimeMs :: "32 word"
  ledOffTimeMs :: "32 word"
  opCnt :: "32 word"
  ledStateValue :: bool
  nextLedToggleTime :: "64 word"
  float_t :: 'f
  outputs :: "'f demo_output list"

record 'f cfloat =
  fadd :: "'f \<Rightarrow> 'f \<Rightarrow> 'f"
  flit :: "nat \<Rightarrow> 'f"
  sinf :: "'f \<Rightarrow> 'f"

definition emit :: "'f demo_output list \<Rightarrow> ('c, 'f) demo \<Rightarrow> ('c, 'f) demo" where
  "emit os s = s\<lparr>outputs := outputs s @ os\<rparr>"

section \<open>LED driver\<close>

definition switchLED :: "led \<Rightarrow> bool \<Rightarrow> 'f demo_output list" where
  "switchLED l v = [Switch l v]"

definition flashLED :: "led \<Rightarrow> 'f demo_output list" where
  "flashLED l = [Flash l]"

definition initLEDs :: "'f demo_output list" where
  "initLEDs = switchLED LED1 False @ switchLED LED2 False @ switchLED LED3 False @ switchLED LED4 False"

section \<open>Handlers\<close>

definition sigint_handler :: "('c, 'f) demo \<Rightarrow> ('c, 'f) demo" where
  "sigint_handler s = s\<lparr>running := False\<rparr>"

definition connectionIndicationHandler :: "'c \<Rightarrow> bool \<Rightarrow> ('c, 'f) demo \<Rightarrow> ('c, 'f) demo" where
  "connectionIndicationHandler c connected s =
     (if \<not> connected \<and> controllingClient s = Some c
      then s\<lparr>controllingClient := None, automaticOperationMode := True\<rparr> else s)"

datatype check_result = CONTROL_ACCEPTED | CONTROL_TEMPORARILY_UNAVAILABLE

definition performCheckHandler :: "bool \<Rightarrow> 'c \<Rightarrow> ('c, 'f) demo \<Rightarrow> check_result \<times> ('c, 'f) demo" where
  "performCheckHandler test c s =
     (let s1 = (if controllingClient s = None
                then s\<lparr>controllingClient := Some c, automaticOperationMode := False\<rparr> else s) in
      if test then (CONTROL_TEMPORARILY_UNAVAILABLE, s1)
      else if controllingClient s1 = Some c then (CONTROL_ACCEPTED, s1)
      else (CONTROL_TEMPORARILY_UNAVAILABLE, s1))"

definition update_led :: "led \<Rightarrow> data_object \<Rightarrow> quality_flag list \<Rightarrow> bool \<Rightarrow> 64 word \<Rightarrow> 'f demo_output list" where
  "update_led l d q v ts =
     switchLED l v @ [Update (Attr_t d) (UTCTime ts), Update (Attr_stVal d) (Boolean v), Update (Attr_q d) (Quality q)]"

definition updateLED1stVal :: "bool \<Rightarrow> 64 word \<Rightarrow> 'f demo_output list" where
  "updateLED1stVal = update_led LED1 SPCSO1 [VALIDITY_GOOD, SOURCE_SUBSTITUTED]"

definition updateLED2stVal :: "bool \<Rightarrow> 64 word \<Rightarrow> 'f demo_output list" where
  "updateLED2stVal = update_led LED2 SPCSO2 [VALIDITY_QUESTIONABLE, DETAIL_OSCILLATORY]"

definition updateLED3stVal :: "bool \<Rightarrow> 64 word \<Rightarrow> 'f demo_output list" where
  "updateLED3stVal = update_led LED3 SPCSO3 [VALIDITY_GOOD]"

text \<open>
  The handler for binary outputs; \<open>later\<close> is the clock after the three seconds it sleeps on a
  double point. The double point's LED is flashed and its new state printed, not switched:
  that call is commented out.
\<close>

definition controlHandlerForBinaryOutput ::
  "data_object \<Rightarrow> bool \<Rightarrow> bool \<Rightarrow> 64 word \<Rightarrow> 64 word \<Rightarrow> ('c, 'f) demo \<Rightarrow> ('c, 'f) demo" where
  "controlHandlerForBinaryOutput parameter newState test now later s =
     (if test then s
      else emit
        (case parameter of
           SPCSO1 \<Rightarrow> updateLED1stVal newState now
         | SPCSO2 \<Rightarrow> updateLED2stVal newState now
         | SPCSO3 \<Rightarrow> updateLED3stVal newState now
         | DPCSO1 \<Rightarrow>
             [Update (Attr_stVal DPCSO1) (DbposValue DBPOS_INTERMEDIATE_STATE), Update (Attr_t DPCSO1) (UTCTime now)]
             @ flashLED LED4 @ [SwitchPrinted LED4]
             @ [Update (Attr_stVal DPCSO1) (DbposValue (if newState then DBPOS_ON else DBPOS_OFF)),
                Update (Attr_t DPCSO1) (UTCTime later)]
         | _ \<Rightarrow> []) s)"

definition publish_opCnt :: "64 word \<Rightarrow> ('c, 'f) demo \<Rightarrow> ('c, 'f) demo" where
  "publish_opCnt now s = emit [Update (Attr_t OpCntRs) (UTCTime now), Update (Attr_stVal OpCntRs) (Int32 (opCnt s))] s"

definition controlHandlerForInt32Controls ::
  "data_object \<Rightarrow> 32 word \<Rightarrow> bool \<Rightarrow> 64 word \<Rightarrow> ('c, 'f) demo \<Rightarrow> ('c, 'f) demo" where
  "controlHandlerForInt32Controls parameter newValue test now s =
     (if test then s
      else if parameter = OpCntRs then publish_opCnt now (s\<lparr>opCnt := newValue\<rparr>)
      else s)"

datatype access_result = ACCESS_SUCCESS | OBJECT_VALUE_INVALID | OBJECT_ACCESS_DENIED

definition int32WriteAccessHandler ::
  "attribute \<Rightarrow> 32 word \<Rightarrow> ('c, 'f) demo \<Rightarrow> access_result \<times> ('c, 'f) demo" where
  "int32WriteAccessHandler a newValue s =
     (if sint newValue < 0 then (OBJECT_VALUE_INVALID, s)
      else if a = OpDlTmms_setVal then (ACCESS_SUCCESS, s\<lparr>ledOffTimeMs := newValue\<rparr>)
      else if a = RsDlTmms_setVal then (ACCESS_SUCCESS, s\<lparr>ledOnTimeMs := newValue\<rparr>)
      else (OBJECT_ACCESS_DENIED, s))"

section \<open>The main loop\<close>

text \<open>
  \<open>service\<close> up to the loop: the state it starts from, after the LEDs are off, the bit string
  of the double point is set from the integer 1 and the two settings are published. Its
  registrations give the check handler to the four binary outputs and not to \<open>OpCntRs\<close>.
\<close>

definition service_start :: "'f cfloat \<Rightarrow> 64 word \<Rightarrow> ('c, 'f) demo" where
  "service_start fl now =
     \<lparr>running = True, automaticOperationMode = True, controllingClient = None, ledOnTimeMs = 1000, ledOffTimeMs = 1000,
      opCnt = 0, ledStateValue = False, nextLedToggleTime = now + 1000, float_t = flit fl 0,
      outputs = initLEDs @ [SetBits (Attr_stVal DPCSO1) 1,
                            Update OpDlTmms_setVal (Int32 1000), Update RsDlTmms_setVal (Int32 1000)]\<rparr>"

definition toggle :: "64 word \<Rightarrow> ('c, 'f) demo \<Rightarrow> ('c, 'f) demo result" where
  "toggle now s =
     (let led = \<not> ledStateValue s;
          s1 = s\<lparr>nextLedToggleTime := now + (if ledStateValue s then scast (ledOffTimeMs s) else scast (ledOnTimeMs s)),
                 ledStateValue := led\<rparr> in
      rbind (if led then
               (if opCnt s1 = 0x7FFFFFFF then Inl SignedOverflow
                else Inr (publish_opCnt now (s1\<lparr>opCnt := opCnt s1 + 1\<rparr>)))
             else Inr s1)
        (\<lambda>s2. Inr (emit (updateLED1stVal led now @ updateLED2stVal led now @ updateLED3stVal led now) s2)))"

definition publish_analog :: "'f cfloat \<Rightarrow> 64 word \<Rightarrow> nat \<Rightarrow> 'f \<Rightarrow> 'f demo_output list" where
  "publish_analog fl now i x =
     [Update (AnIn_mag_f i) (FloatValue (sinf fl x)), Update (AnIn_q i) (Quality [VALIDITY_GOOD]),
      Update (AnIn_t i) (UTCTime now)]"

definition loop_pass :: "'f cfloat \<Rightarrow> 64 word \<Rightarrow> ('c, 'f) demo \<Rightarrow> ('c, 'f) demo result" where
  "loop_pass fl now s =
     (if \<not> running s then Inr s
      else rbind (if automaticOperationMode s \<and> nextLedToggleTime s \<le> now then toggle now s else Inr s) (\<lambda>s1.
        let t = fadd fl (float_t s1) (flit fl 1) in
        Inr (emit (publish_analog fl now 1 t @ publish_analog fl now 2 (fadd fl t (flit fl 10))
                   @ publish_analog fl now 3 (fadd fl t (flit fl 20)) @ publish_analog fl now 4 (fadd fl t (flit fl 30)))
               (s1\<lparr>float_t := t\<rparr>))))"

text \<open>
  \<open>service\<close> as a whole. The handlers it registers are a list. After a failed start the server
  is destroyed and the process exits; otherwise the loop runs one pass per entry of \<open>nows\<close>
  (the clock, and whether the interrupt signal arrives after the pass), and once \<open>running\<close> is
  cleared the server is stopped and destroyed. The function ends without returning a value.
\<close>

datatype handler = PerformCheck | ControlBinaryOutput | ControlInt32

definition registrations :: "(handler \<times> data_object) list" where
  "registrations =
     [(PerformCheck, SPCSO1), (ControlBinaryOutput, SPCSO1), (PerformCheck, SPCSO2), (ControlBinaryOutput, SPCSO2),
      (PerformCheck, SPCSO3), (ControlBinaryOutput, SPCSO3), (PerformCheck, DPCSO1), (ControlBinaryOutput, DPCSO1),
      (ControlInt32, OpCntRs)]"

definition write_access :: "attribute list" where
  "write_access = [OpDlTmms_setVal, RsDlTmms_setVal]"

datatype server_call = ServerCreate | ServerStart "16 word" | ServerStop | ServerDestroy

datatype service_exit = ProcessExit int | NoReturnValue | StillRunning | ServiceFault fault

fun service_loop :: "'f cfloat \<Rightarrow> (64 word \<times> bool) list \<Rightarrow> ('c, 'f) demo \<Rightarrow> ('c, 'f) demo result" where
  "service_loop fl [] s = Inr s"
| "service_loop fl ((now, interrupted) # nows) s =
     (if \<not> running s then Inr s
      else rbind (loop_pass fl now s) (\<lambda>s1. service_loop fl nows (if interrupted then sigint_handler s1 else s1)))"

definition service ::
  "'f cfloat \<Rightarrow> bool \<Rightarrow> 16 word \<Rightarrow> 64 word \<Rightarrow> (64 word \<times> bool) list \<Rightarrow> server_call list \<times> service_exit" where
  "service fl listening port now nows =
     (if \<not> listening then ([ServerCreate, ServerStart port, ServerDestroy], ProcessExit (- 1))
      else
        (case service_loop fl nows (service_start fl now :: (nat, 'f) demo) of
           Inl f \<Rightarrow> ([ServerCreate, ServerStart port], ServiceFault f)
         | Inr s \<Rightarrow>
             if running s then ([ServerCreate, ServerStart port], StillRunning)
             else ([ServerCreate, ServerStart port, ServerStop, ServerDestroy], NoReturnValue)))"

text \<open>The command line of \<open>main.c\<close>: what the program runs, or the status it ends with at once.\<close>

datatype command = Status int | RunService "16 word" | RunClient string "16 word"

definition demo_main :: "string list \<Rightarrow> command" where
  "demo_main argv =
     (if length argv < 2 then Status (- 1)
      else if argv ! 1 = ''svr'' then RunService 102
      else if argv ! 1 = ''cli'' then RunClient ''localhost'' 102
      else Status (- 1))"

section \<open>Steps\<close>

text \<open>The library may call any handler at any time, between any two passes of the main loop.\<close>

datatype 'c demo_event =
    Connected 'c
  | Closed 'c
  | Checked bool 'c check_result
  | BinaryControl data_object bool bool
  | Int32Control data_object "32 word" bool
  | Written attribute "32 word" access_result
  | Pass "64 word"
  | Interrupted

datatype ('c, 'f) demo_conf = Demo "('c, 'f) demo" | DemoFault fault

inductive demo_step :: "'f cfloat \<Rightarrow> ('c, 'f) demo_conf \<Rightarrow> 'c demo_event \<Rightarrow> ('c, 'f) demo_conf \<Rightarrow> bool" for fl where
  d_connect: "demo_step fl (Demo s) (Connected c) (Demo (connectionIndicationHandler c True s))"
| d_close: "demo_step fl (Demo s) (Closed c) (Demo (connectionIndicationHandler c False s))"
| d_check: "performCheckHandler test c s = (r, s') \<Longrightarrow> demo_step fl (Demo s) (Checked test c r) (Demo s')"
| d_binary: "demo_step fl (Demo s) (BinaryControl d v test) (Demo (controlHandlerForBinaryOutput d v test now later s))"
| d_int32: "demo_step fl (Demo s) (Int32Control d w test) (Demo (controlHandlerForInt32Controls d w test now s))"
| d_write: "int32WriteAccessHandler a v s = (r, s') \<Longrightarrow> demo_step fl (Demo s) (Written a v r) (Demo s')"
| d_pass: "demo_step fl (Demo s) (Pass now) (case loop_pass fl now s of Inl f \<Rightarrow> DemoFault f | Inr s' \<Rightarrow> Demo s')"
| d_sigint: "demo_step fl (Demo s) Interrupted (Demo (sigint_handler s))"

inductive_cases demo_stepE: "demo_step fl c e t"

definition demo_start :: "'f cfloat \<Rightarrow> ('c, 'f) demo_conf \<Rightarrow> bool" where
  "demo_start fl t \<longleftrightarrow> (\<exists>now. t = Demo (service_start fl now))"

section \<open>The client\<close>

text \<open>
  \<open>client\<close>: the requests it sends, in order, with the state of the fourth LED it alternates.
  \<open>outcome\<close> decides the success of each operate; the loop ends at the first one that fails.
\<close>

datatype request = Select led | Operate led bool

definition client_prologue :: "request list" where
  "client_prologue = [Operate LED1 False, Select LED2, Operate LED2 False, Operate LED4 False]"

definition client_pass :: "bool \<Rightarrow> request list" where
  "client_pass led4State =
     [Operate LED3 False, Operate LED1 True, Operate LED1 False, Select LED2, Operate LED2 True,
      Select LED2, Operate LED2 False, Operate LED3 True, Operate LED4 (\<not> led4State)]"

fun send_requests :: "(request list \<Rightarrow> request \<Rightarrow> bool) \<Rightarrow> request list \<Rightarrow> request list \<Rightarrow> bool \<times> request list" where
  "send_requests outcome sent [] = (True, sent)"
| "send_requests outcome sent (Select l # rs) = send_requests outcome (sent @ [Select l]) rs"
| "send_requests outcome sent (Operate l v # rs) =
     (if outcome sent (Operate l v) then send_requests outcome (sent @ [Operate l v]) rs
      else (False, sent @ [Operate l v]))"

fun client_loop :: "(request list \<Rightarrow> request \<Rightarrow> bool) \<Rightarrow> nat \<Rightarrow> bool \<Rightarrow> request list \<Rightarrow> request list" where
  "client_loop outcome 0 led4State sent = sent"
| "client_loop outcome (Suc n) led4State sent =
     (case send_requests outcome sent (client_pass led4State) of
        (True, sent') \<Rightarrow> client_loop outcome n (\<not> led4State) sent'
      | (False, sent') \<Rightarrow> sent')"

definition client :: "bool \<Rightarrow> (request list \<Rightarrow> request \<Rightarrow> bool) \<Rightarrow> nat \<Rightarrow> request list" where
  "client connect_ok outcome n =
     (if \<not> connect_ok then []
      else case send_requests outcome [] client_prologue of
        (True, sent) \<Rightarrow> client_loop outcome n False sent
      | (False, sent) \<Rightarrow> sent)"

section \<open>Facts\<close>

definition demo_ok :: "('c, 'f) demo \<Rightarrow> bool" where
  "demo_ok s \<longleftrightarrow> (automaticOperationMode s \<longleftrightarrow> controllingClient s = None)
     \<and> 0 \<le> sint (ledOnTimeMs s) \<and> 0 \<le> sint (ledOffTimeMs s)"

fun demo_inv :: "('c, 'f) demo_conf \<Rightarrow> bool" where
  "demo_inv (Demo s) = demo_ok s"
| "demo_inv (DemoFault f) = (f = SignedOverflow)"

lemma emit_simps [simp]:
  "running (emit os s) = running s" "automaticOperationMode (emit os s) = automaticOperationMode s"
  "controllingClient (emit os s) = controllingClient s" "ledOnTimeMs (emit os s) = ledOnTimeMs s"
  "ledOffTimeMs (emit os s) = ledOffTimeMs s" "opCnt (emit os s) = opCnt s"
  "outputs (emit os s) = outputs s @ os" "demo_ok (emit os s) = demo_ok s"
  by (simp_all add: emit_def demo_ok_def)

lemma demo_ok_frame [simp]:
  "demo_ok (s\<lparr>opCnt := v\<rparr>) = demo_ok s" "demo_ok (s\<lparr>float_t := t\<rparr>) = demo_ok s"
  "demo_ok (s\<lparr>nextLedToggleTime := w, ledStateValue := b\<rparr>) = demo_ok s"
  by (simp_all add: demo_ok_def)

lemma performCheck_ok: "performCheckHandler test c s = (r, s') \<Longrightarrow> demo_ok s \<Longrightarrow> demo_ok s'"
  by (auto simp: performCheckHandler_def demo_ok_def Let_def split: if_splits)

lemma binary_ok: "demo_ok s \<Longrightarrow> demo_ok (controlHandlerForBinaryOutput d v test now later s)"
  by (simp add: controlHandlerForBinaryOutput_def)

lemma int32_ok: "demo_ok s \<Longrightarrow> demo_ok (controlHandlerForInt32Controls d w test now s)"
  by (simp add: controlHandlerForInt32Controls_def publish_opCnt_def)

lemma connection_ok: "demo_ok s \<Longrightarrow> demo_ok (connectionIndicationHandler c b s)"
  by (auto simp: connectionIndicationHandler_def demo_ok_def)

lemma sigint_ok: "demo_ok (sigint_handler s) = demo_ok s"
  by (simp add: sigint_handler_def demo_ok_def)

lemma write_ok: "demo_ok s \<Longrightarrow> int32WriteAccessHandler a v s = (r, s') \<Longrightarrow> demo_ok s'"
  by (auto simp: int32WriteAccessHandler_def demo_ok_def split: if_splits)

lemma toggle_ok:
  assumes "demo_ok s"
  shows "case toggle now s of Inl f \<Rightarrow> f = SignedOverflow | Inr s' \<Rightarrow> demo_ok s'"
  using assms by (simp add: toggle_def Let_def publish_opCnt_def)

lemma loop_pass_ok:
  assumes "demo_ok s"
  shows "demo_inv (case loop_pass fl now s of Inl f \<Rightarrow> DemoFault f | Inr s' \<Rightarrow> Demo s')"
  using assms toggle_ok [OF assms, of now]
  by (auto simp: loop_pass_def Let_def rbind_def split: sum.splits)


interpretation bd: invariant_system "demo_start fl" "demo_step fl" demo_inv for fl
proof unfold_locales
  show "demo_inv t" if "demo_start fl t" for t
    using that by (auto simp: demo_start_def service_start_def demo_ok_def)
  show "demo_inv t" if "demo_inv c" and "demo_step fl c e t" for c e t
    using that(2,1)
    by (cases rule: demo_step.cases)
       (auto simp: loop_pass_ok connection_ok sigint_ok binary_ok int32_ok dest: performCheck_ok write_ok)
qed


lemma check_result:
  "fst (performCheckHandler test c s) = CONTROL_ACCEPTED \<longleftrightarrow> \<not> test \<and> controllingClient s \<in> {None, Some c}"
  "controllingClient (snd (performCheckHandler test c s)) = (if controllingClient s = None then Some c else controllingClient s)"
  by (auto simp: performCheckHandler_def Let_def)

lemma remote_pass:
  assumes "\<not> automaticOperationMode s"
  shows "\<exists>s' os. loop_pass fl now s = Inr s' \<and> outputs s' = outputs s @ os \<and> (\<forall>l v. Switch l v \<notin> set os)
    \<and> opCnt s' = opCnt s"
  using assms by (auto simp: loop_pass_def Let_def publish_analog_def)

text \<open>
  The operation counter can be set by any client, whoever controls the device, and counting
  on from its largest value overflows.
\<close>

lemma operation_counter_overflows:
  "\<exists>es. bd.reachable fl (DemoFault SignedOverflow :: ('c, 'f) demo_conf) es"
proof -
  let ?s = "service_start fl 0 :: ('c, 'f) demo" and ?v = "0x7FFFFFFF :: 32 word"
  let ?t = "controlHandlerForInt32Controls OpCntRs ?v False 0 ?s"
  have "bd.reachable fl (Demo ?s) []" by (rule bd.reachable.at_start) (auto simp: demo_start_def)
  then have "bd.reachable fl (Demo ?t) ([] @ [Int32Control OpCntRs ?v False])"
    by (rule bd.reachable.by_step) (rule d_int32)
  then have "bd.reachable fl (case loop_pass fl 1000 ?t of Inl f \<Rightarrow> DemoFault f | Inr s' \<Rightarrow> Demo s')
      (([] @ [Int32Control OpCntRs ?v False]) @ [Pass 1000])"
    by (rule bd.reachable.by_step) (rule d_pass)
  moreover have "loop_pass fl 1000 ?t = Inl SignedOverflow"
    by (simp add: controlHandlerForInt32Controls_def publish_opCnt_def emit_def service_start_def loop_pass_def toggle_def Let_def)
  ultimately show ?thesis by auto
qed

text \<open>
  The check that keeps other clients out is registered for the four binary outputs and not
  for the operation counter, so the counter is the one control that any client may use.
\<close>

lemma check_registered_for_outputs:
  "{d. (PerformCheck, d) \<in> set registrations} = {d. (ControlBinaryOutput, d) \<in> set registrations}"
  "(ControlInt32, OpCntRs) \<in> set registrations" "(PerformCheck, OpCntRs) \<notin> set registrations"
  by (auto simp: registrations_def)

lemma loop_pass_running: "loop_pass fl now s = Inr s' \<Longrightarrow> running s' = running s"
  by (auto simp: loop_pass_def toggle_def publish_opCnt_def Let_def rbind_Inr_iff split: if_splits)

text \<open>A started service ends only after an interrupt, and then stops and destroys the server once.\<close>

lemma service_loop_running:
  "service_loop fl nows s = Inr s' \<Longrightarrow> running s \<Longrightarrow> \<forall>p \<in> set nows. \<not> snd p \<Longrightarrow> running s'"
proof (induction fl nows s rule: service_loop.induct)
  case (2 fl now interrupted nows s)
  then obtain s1 where "loop_pass fl now s = Inr s1" "service_loop fl nows s1 = Inr s'"
    by (auto simp: rbind_Inr_iff)
  with 2 loop_pass_running [of fl now s s1] show ?case by auto
qed simp

lemma service_ends_after_interrupt:
  assumes "service fl True port now nows = (cs, NoReturnValue)"
  shows "(\<exists>p \<in> set nows. snd p) \<and> cs = [ServerCreate, ServerStart port, ServerStop, ServerDestroy]"
proof -
  from assms obtain s where s: "service_loop fl nows (service_start fl now :: (nat, 'a) demo) = Inr s" "\<not> running s"
      "cs = [ServerCreate, ServerStart port, ServerStop, ServerDestroy]"
    by (auto simp: service_def split: sum.splits if_splits)
  moreover have "running (service_start fl now :: (nat, 'a) demo)" by (simp add: service_start_def)
  ultimately show ?thesis using service_loop_running by blast
qed

section \<open>Properties\<close>



end
