(* ===== verification/Icd_Spec.thy ===== *)
theory Icd_Spec
  imports Icd_Parser
begin

text \<open>
  What an SCL document declares, as a specification independent of the order in which the
  parser walks the document: the logical nodes of its servers, the data objects of a node
  type, and the data nodes that follow from them. The parser of \<open>Icd_Parser\<close> implements it.
\<close>

section \<open>Declarations of a document\<close>

inductive scl_ln :: "document \<Rightarrow> string \<Rightarrow> string \<Rightarrow> xml \<Rightarrow> bool" for doc :: document where
  scl_lnI: "first_named ''SCL'' doc = Some root \<Longrightarrow> e \<in> set (named ''IED'' (kids root)) \<Longrightarrow>
    ap \<in> set (named ''AccessPoint'' (kids e)) \<Longrightarrow> first_named ''Server'' (kids ap) = Some server \<Longrightarrow>
    ld \<in> set (named ''LDevice'' (kids server)) \<Longrightarrow> ln \<in> set (kids ld) \<Longrightarrow> xname ln \<in> {''LN'', ''LN0''} \<Longrightarrow>
    scl_ln doc (attr_or e ''name'' ''UnknownIED'') (attr_or ld ''inst'' ''UnknownLDevice'') ln"

inductive scl_do :: "document \<Rightarrow> string \<Rightarrow> xml \<Rightarrow> xml \<Rightarrow> bool" for doc :: document and lt :: string where
  scl_doI: "templates doc = Inr (Some t) \<Longrightarrow> lnt \<in> set (named ''LNodeType'' (kids t)) \<Longrightarrow> attr lnt ''id'' = Some lt \<Longrightarrow>
    d \<in> set (named ''DO'' (kids lnt)) \<Longrightarrow> scl_do doc lt t d"

definition ln_ref :: "string \<Rightarrow> string \<Rightarrow> xml \<Rightarrow> string" where
  "ln_ref ied ld ln = ied @ ld @ ''/'' @ attr_or ln ''lnClass'' [] @ attr_or ln ''inst'' []"

definition control_type :: "xml \<Rightarrow> string \<Rightarrow> bool" where
  "control_type t ty \<longleftrightarrow>
     (case find (\<lambda>dt. attr dt ''id'' = Some ty) (named ''DOType'' (kids t)) of
        None \<Rightarrow> False
      | Some dt \<Rightarrow> attr dt ''cdc'' \<in> {Some ''SPC'', Some ''DPC''})"

inductive template_node :: "document \<Rightarrow> string \<Rightarrow> string \<Rightarrow> data_node \<Rightarrow> bool"
  for doc :: document and ref :: string and lt :: string where
  attribute: "scl_do doc lt t d \<Longrightarrow> attr d ''type'' = Some ty \<Longrightarrow> dt \<in> set (named ''DOType'' (kids t)) \<Longrightarrow>
    attr dt ''id'' = Some ty \<Longrightarrow> da \<in> set (named ''DA'' (kids dt)) \<Longrightarrow> attr da ''name'' = Some n \<Longrightarrow>
    attr da ''fc'' = Some fc \<Longrightarrow> template_node doc ref lt (ref @ ''.'' @ attr_or d ''name'' [] @ ''.'' @ n, fc)"
| control: "scl_do doc lt t d \<Longrightarrow> attr d ''type'' = Some ty \<Longrightarrow> control_type t ty \<Longrightarrow>
    template_node doc ref lt (ref @ ''.'' @ attr_or d ''name'' [], ''CO'')"

inductive scl_declares :: "document \<Rightarrow> data_node \<Rightarrow> bool" for doc :: document where
  member: "scl_ln doc ied ld ln \<Longrightarrow> ds \<in> set (named ''DataSet'' (kids ln)) \<Longrightarrow> x \<in> set (named ''FCDA'' (kids ds)) \<Longrightarrow>
    attr x ''fc'' = Some fc \<Longrightarrow> scl_declares doc (fcda_path ied x, fc)"
| typed: "scl_ln doc ied ld ln \<Longrightarrow> attr ln ''lnType'' = Some lt \<Longrightarrow> template_node doc (ln_ref ied ld ln) lt n \<Longrightarrow>
    scl_declares doc n"

inductive_simps scl_ln_iff: "scl_ln doc ied ld ln"
inductive_simps scl_do_iff: "scl_do doc lt t d"
inductive_simps template_node_iff: "template_node doc ref lt n"
inductive_simps scl_declares_iff: "scl_declares doc n"

section \<open>Loops as sets\<close>

lemma collect_mem: "collect f xs = Inr ys \<Longrightarrow> y \<in> set ys \<longleftrightarrow> (\<exists>x \<in> set xs. \<exists>zs. f x = Inr zs \<and> y \<in> set zs)"
  by (induction xs arbitrary: ys) (auto simp: rbind_Inr_iff)

lemma gather_mem:
  "gather f xs = Inr r \<Longrightarrow> n \<in> set (pr_nodes r) \<longleftrightarrow> (\<exists>x \<in> set xs. \<exists>a. f x = Inr a \<and> n \<in> set (pr_nodes a))"
  by (induction xs arbitrary: r) (auto simp: no_result_def join_def rbind_Inr_iff)

lemma search_find:
  "\<forall>e \<in> set xs. attr e k \<noteq> None \<Longrightarrow>
     search (when_attr k s None (\<lambda>e. Inr (Some (g e)))) xs = Inr (map_option g (find (\<lambda>e. attr e k = Some s) xs))"
  by (induction xs) (auto simp: when_attr_def strcmp_eq_def)

lemma when_attr_mem:
  "(\<exists>zs. when_attr k s [] f e = Inr zs \<and> y \<in> set zs) \<longleftrightarrow> attr e k = Some s \<and> (\<exists>zs. f e = Inr zs \<and> y \<in> set zs)"
  by (auto simp: when_attr_def strcmp_eq_def split: option.splits)

section \<open>The parser finds what the document declares\<close>

lemma isControlObject_iff:
  assumes "templates doc = Inr (Some t)" and "template_ok t"
  shows "isControlObject doc ty = Inr (control_type t ty)"
  using assms
  by (simp add: isControlObject_def control_type_def search_find template_attrs(3) split: option.splits)

lemma present_mem:
 shows "n \<in> set (case a of None \<Rightarrow> [] | Some x \<Rightarrow> [f x]) \<longleftrightarrow> (\<exists>x. a = Some x \<and> n = f x)"
 and "n \<in> set (case a of None \<Rightarrow> [] | Some x \<Rightarrow> (case b of None \<Rightarrow> [] | Some y \<Rightarrow> [g x y])) \<longleftrightarrow>
     (\<exists>x y. a = Some x \<and> b = Some y \<and> n = g x y)"
  by (auto split: option.splits)

lemma da_nodes_mem:
  "(\<exists>zs. da_nodes p dt = Inr zs \<and> n \<in> set zs) \<longleftrightarrow>
     (\<exists>da \<in> set (named ''DA'' (kids dt)). \<exists>nm fc. attr da ''name'' = Some nm \<and> attr da ''fc'' = Some fc
        \<and> n = (p @ ''.'' @ nm, fc))"
  by (simp add: da_nodes_def present_mem) metis

lemma do_nodes_mem:
  assumes "scl_ok doc" and "templates doc = Inr (Some t)" and "template_ok t"
  shows "(\<exists>zs. do_nodes doc ref t d = Inr zs \<and> n \<in> set zs) \<longleftrightarrow>
    (\<exists>ty. attr d ''type'' = Some ty \<and>
       (control_type t ty \<and> n = (ref @ ''.'' @ attr_or d ''name'' [], ''CO'') \<or>
        (\<exists>dt \<in> set (named ''DOType'' (kids t)). attr dt ''id'' = Some ty \<and>
           (\<exists>zs. da_nodes (ref @ ''.'' @ attr_or d ''name'' []) dt = Inr zs \<and> n \<in> set zs))))"
proof (cases "attr d ''type''")
  case (Some ty)
  let ?p = "ref @ ''.'' @ attr_or d ''name'' []"
  have "returns (collect (when_attr ''id'' ty [] (da_nodes ?p)) (named ''DOType'' (kids t)))"
    using assms(3) by (intro returns_intros) (simp_all add: template_attrs da_nodes_def returns_Inr)
  then obtain das where das: "collect (when_attr ''id'' ty [] (da_nodes ?p)) (named ''DOType'' (kids t)) = Inr das"
    by (auto simp: returns_def)
  with Some show ?thesis
    by (auto simp: do_nodes_def isControlObject_iff [OF assms(2,3)] collect_mem [OF das] when_attr_mem Let_def)
qed (simp add: do_nodes_def)

lemma extractAllDoDa_mem:
  assumes "scl_ok doc" and "extractAllDoDa doc ref lt = Inr ns"
  shows "n \<in> set ns \<longleftrightarrow> template_node doc ref lt n"
proof (cases rule: templates_ok [OF assms(1)])
  case 1
  with assms(2) show ?thesis by (auto simp: extractAllDoDa_def template_node_iff scl_do_iff)
next
  case (2 t)
  note c = assms(2) [unfolded extractAllDoDa_def 2(1), simplified]
  have dos: "(\<exists>zs. collect (do_nodes doc ref t) (named ''DO'' (kids lnt)) = Inr zs \<and> n \<in> set zs) \<longleftrightarrow>
      (\<exists>d \<in> set (named ''DO'' (kids lnt)). \<exists>zs. do_nodes doc ref t d = Inr zs \<and> n \<in> set zs)" for lnt
  proof -
    have "returns (collect (do_nodes doc ref t) (named ''DO'' (kids lnt)))"
      by (intro collect_total do_nodes_total [OF assms(1) 2(2)])
    then obtain ys where "collect (do_nodes doc ref t) (named ''DO'' (kids lnt)) = Inr ys" by (auto simp: returns_def)
    from collect_mem [OF this, of n] this show ?thesis by simp
  qed
  have scl: "scl_do doc lt t d \<longleftrightarrow> (\<exists>lnt \<in> set (named ''LNodeType'' (kids t)). attr lnt ''id'' = Some lt
      \<and> d \<in> set (named ''DO'' (kids lnt)))" for d
    using 2(1) by (auto simp: scl_do_iff)
  have "n \<in> set ns \<longleftrightarrow> (\<exists>d. scl_do doc lt t d \<and> (\<exists>zs. do_nodes doc ref t d = Inr zs \<and> n \<in> set zs))"
    unfolding collect_mem [OF c] when_attr_mem dos scl by blast
  then have m: "n \<in> set ns \<longleftrightarrow> (\<exists>d. scl_do doc lt t d \<and> (\<exists>ty. attr d ''type'' = Some ty \<and>
       (control_type t ty \<and> n = (ref @ ''.'' @ attr_or d ''name'' [], ''CO'') \<or>
        (\<exists>dt \<in> set (named ''DOType'' (kids t)). attr dt ''id'' = Some ty \<and>
           (\<exists>da \<in> set (named ''DA'' (kids dt)). \<exists>nm fc. attr da ''name'' = Some nm \<and> attr da ''fc'' = Some fc
        \<and> n = (ref @ ''.'' @ attr_or d ''name'' [] @ ''.'' @ nm, fc))))))"
    by (simp only: do_nodes_mem [OF assms(1) 2] da_nodes_mem append_assoc)
  show ?thesis
  proof
    show "n \<in> set ns \<Longrightarrow> template_node doc ref lt n"
      unfolding m by (elim exE conjE disjE bexE; hypsubst) (erule (2) control, erule (6) attribute)
  next
    assume "template_node doc ref lt n"
    then show "n \<in> set ns"
    proof cases
      case (attribute t' d ty dt da nm fc)
      moreover have "t' = t" using attribute(2) 2(1) by (simp add: scl_do_iff)
      ultimately show ?thesis unfolding m by blast
    next
      case (control t' d ty)
      moreover have "t' = t" using control(2) 2(1) by (simp add: scl_do_iff)
      ultimately show ?thesis unfolding m by blast
    qed
  qed
qed

text \<open>The schema requires a node type; an empty one would keep the type's nodes out of the result.\<close>

definition lns_typed :: "document \<Rightarrow> bool" where
  "lns_typed doc \<longleftrightarrow> (\<forall>ied ld ln. scl_ln doc ied ld ln \<longrightarrow> attr ln ''lnType'' \<noteq> Some [])"

lemma untyped_doi: "parse_doi doc ref None doi = Inr zs \<Longrightarrow> zs = []"
proof -
  have "collect (parse_dai doc ref None doi) xs = Inr ys \<Longrightarrow> ys = []" for xs ys
    by (induction xs arbitrary: ys) (auto simp: parse_dai_def getFcFromDoType_def rbind_Inr_iff)
  then show "parse_doi doc ref None doi = Inr zs \<Longrightarrow> zs = []"
    by (auto simp: parse_doi_def getDoTypeId_def rbind_Inr_iff)
qed

lemma parse_dataset_mem:
  "n \<in> set (pr_nodes (parse_dataset ied ds)) \<longleftrightarrow>
     (\<exists>x \<in> set (named ''FCDA'' (kids ds)). \<exists>fc. attr x ''fc'' = Some fc \<and> n = (fcda_path ied x, fc))"
  by (simp add: parse_dataset_def Let_def present_mem) metis

lemma parse_ln_mem:
  assumes "scl_ok doc" and "xname ln \<in> {''LN'', ''LN0''}" and "attr ln ''lnType'' \<noteq> Some []"
    and "parse_ln tb doc ied ld ln = Inr r"
  shows "n \<in> set (pr_nodes r) \<longleftrightarrow>
    (\<exists>ds \<in> set (named ''DataSet'' (kids ln)). n \<in> set (pr_nodes (parse_dataset ied ds)))
    \<or> (\<exists>lt. attr ln ''lnType'' = Some lt \<and> template_node doc (ln_ref ied ld ln) lt n)"
proof -
  have rep: "concat (map (pr_nodes \<circ> parse_report_control tb) xs) = []" for xs
    by (induction xs) (auto simp: parse_report_control_def)
  obtain "is" ns where r: "collect (parse_doi doc (ln_ref ied ld ln) (attr ln ''lnType'')) (named ''DOI'' (kids ln)) = Inr is"
      "(case attr ln ''lnType'' of None \<Rightarrow> Inr [] | Some t \<Rightarrow> if t = [] then Inr [] else extractAllDoDa doc (ln_ref ied ld ln) t)
         = Inr ns"
      "pr_nodes r = concat (map (pr_nodes \<circ> parse_dataset ied) (named ''DataSet'' (kids ln))) @ is @ ns"
    using assms(2,4) unfolding parse_ln_def Let_def ln_ref_def [symmetric]
    by (auto simp: rbind_Inr_iff gather_pure join_def only_nodes_def rep simp del: if_split_asm)
  show ?thesis
  proof (cases "attr ln ''lnType''")
    case None
    then have "is = []" using collect_set [OF r(1)] untyped_doi by (metis empty_iff last_in_set list.set(1))
    with None r(2,3) show ?thesis by auto
  next
    case (Some t)
    then have ns: "extractAllDoDa doc (ln_ref ied ld ln) t = Inr ns" using r(2) assms(3) by simp
    have "set is \<subseteq> set ns"
    proof
      fix y assume "y \<in> set is"
      then obtain doi zs where "parse_doi doc (ln_ref ied ld ln) (Some t) doi = Inr zs" "y \<in> set zs"
        using collect_set [OF r(1)] unfolding Some by blast
      with doi_in_templates [OF _ ns] show "y \<in> set ns" by blast
    qed
    with Some r(3) extractAllDoDa_mem [OF assms(1) ns, of n] show ?thesis by auto
  qed
qed

definition yields :: "parse_result result \<Rightarrow> data_node \<Rightarrow> bool" where
  "yields r n \<longleftrightarrow> (\<exists>a. r = Inr a \<and> n \<in> set (pr_nodes a))"

lemma yields_gather:
  assumes "\<And>x. x \<in> set xs \<Longrightarrow> returns (f x)"
  shows "yields (gather f xs) n \<longleftrightarrow> (\<exists>x \<in> set xs. yields (f x) n)"
proof -
  obtain r where r: "gather f xs = Inr r"
    using gather_total [of xs f] assms unfolding returns_def by blast
  show ?thesis using gather_mem [OF r, of n] unfolding yields_def r by simp
qed

lemma yields_none: "\<not> yields (Inr no_result) n"
  by (simp add: yields_def no_result_def)

lemma yields_parse_ied:
  assumes "scl_ok doc"
  shows "yields (parse_ied tb doc e) n \<longleftrightarrow>
    (\<exists>ap \<in> set (named ''AccessPoint'' (kids e)). \<exists>server. first_named ''Server'' (kids ap) = Some server
       \<and> (\<exists>ld \<in> set (named ''LDevice'' (kids server)). \<exists>ln \<in> set (kids ld).
            yields (parse_ln tb doc (attr_or e ''name'' ''UnknownIED'') (attr_or ld ''inst'' ''UnknownLDevice'') ln) n))"
proof -
  let ?ld = "\<lambda>ld. gather (parse_ln tb doc (attr_or e ''name'' ''UnknownIED'') (attr_or ld ''inst'' ''UnknownLDevice'')) (kids ld)"
  have ld: "returns (?ld x)" for x
    by (intro returns_intros parse_ln_total [OF assms])
  have "yields (case first_named ''Server'' (kids ap) of None \<Rightarrow> Inr no_result | Some server \<Rightarrow> gather ?ld (named ''LDevice'' (kids server))) n
      \<longleftrightarrow> (\<exists>server. first_named ''Server'' (kids ap) = Some server
       \<and> (\<exists>ld \<in> set (named ''LDevice'' (kids server)). \<exists>ln \<in> set (kids ld).
            yields (parse_ln tb doc (attr_or e ''name'' ''UnknownIED'') (attr_or ld ''inst'' ''UnknownLDevice'') ln) n))" for ap
    by (cases "first_named ''Server'' (kids ap)")
       (simp_all add: yields_none yields_gather [OF ld] yields_gather [OF parse_ln_total [OF assms]])
  then show ?thesis
    unfolding parse_ied_def Let_def by (subst yields_gather) (auto intro!: returns_intros parse_ln_total [OF assms])
qed

lemma yields_icd_parse:
  assumes "scl_ok doc"
  shows "yields (icd_parse tb (Some doc)) n \<longleftrightarrow> (\<exists>ied ld ln. scl_ln doc ied ld ln \<and> yields (parse_ln tb doc ied ld ln) n)"
proof -
  obtain root where root: "first_named ''SCL'' doc = Some root" using assms by (auto simp: scl_ok_def)
  have other: "\<not> yields (parse_ln tb doc ied ld ln) n" if "xname ln \<notin> {''LN'', ''LN0''}" for ied ld ln
    using that by (simp add: parse_ln_def yields_none)
  have walk: "yields (icd_parse tb (Some doc)) n \<longleftrightarrow> (\<exists>e \<in> set (named ''IED'' (kids root)). yields (parse_ied tb doc e) n)"
    by (simp add: icd_parse_def root yields_gather [OF parse_ied_total [OF assms]])
  show ?thesis
  proof
    assume "yields (icd_parse tb (Some doc)) n"
    then obtain e ap server ld ln where e: "e \<in> set (named ''IED'' (kids root))" "ap \<in> set (named ''AccessPoint'' (kids e))"
        "first_named ''Server'' (kids ap) = Some server" "ld \<in> set (named ''LDevice'' (kids server))" "ln \<in> set (kids ld)"
      and y: "yields (parse_ln tb doc (attr_or e ''name'' ''UnknownIED'') (attr_or ld ''inst'' ''UnknownLDevice'') ln) n"
      unfolding walk yields_parse_ied [OF assms] by blast
    from scl_lnI [OF root e] other y show "\<exists>ied ld ln. scl_ln doc ied ld ln \<and> yields (parse_ln tb doc ied ld ln) n"
      by blast
  next
    assume "\<exists>ied ld ln. scl_ln doc ied ld ln \<and> yields (parse_ln tb doc ied ld ln) n"
    then obtain ied ld ln where l: "scl_ln doc ied ld ln" "yields (parse_ln tb doc ied ld ln) n" by blast
    from l(1) show "yields (icd_parse tb (Some doc)) n"
    proof cases
      case (scl_lnI root' e ap server ld')
      moreover have "root' = root" using scl_lnI(3) root by simp
      ultimately show ?thesis using l(2) unfolding walk yields_parse_ied [OF assms] by blast
    qed
  qed
qed

lemma icd_parse_total: "scl_ok doc \<Longrightarrow> returns (icd_parse tb (Some doc))"
  unfolding icd_parse_def by (auto intro!: returns_intros parse_ied_total split: option.split)

lemma icd_parse_declared:
  assumes "scl_ok doc" and "lns_typed doc"
  shows "yields (icd_parse tb (Some doc)) n \<longleftrightarrow> scl_declares doc n"
proof -
  have ln: "yields (parse_ln tb doc ied ld ln) n \<longleftrightarrow>
      (\<exists>ds \<in> set (named ''DataSet'' (kids ln)). n \<in> set (pr_nodes (parse_dataset ied ds)))
      \<or> (\<exists>lt. attr ln ''lnType'' = Some lt \<and> template_node doc (ln_ref ied ld ln) lt n)"
    if l: "scl_ln doc ied ld ln" for ied ld ln
  proof -
    obtain r where r: "parse_ln tb doc ied ld ln = Inr r"
      using parse_ln_total [OF assms(1)] unfolding returns_def by blast
    have "xname ln \<in> {''LN'', ''LN0''}" using l by cases
    from parse_ln_mem [OF assms(1) this _ r] l assms(2) show ?thesis
      unfolding yields_def r lns_typed_def by simp
  qed
  show ?thesis
  proof
    assume "yields (icd_parse tb (Some doc)) n"
    then obtain ied ld l where l: "scl_ln doc ied ld l" "yields (parse_ln tb doc ied ld l) n"
      unfolding yields_icd_parse [OF assms(1)] by blast
    then show "scl_declares doc n"
      unfolding ln [OF l(1)] parse_dataset_mem by (auto intro: scl_declares.intros)
  next
    assume "scl_declares doc n"
    then show "yields (icd_parse tb (Some doc)) n"
      unfolding yields_icd_parse [OF assms(1)]
      by cases (use ln parse_dataset_mem in blast)+
  qed
qed

section \<open>Properties\<close>

text \<open>
  C5. The parser implements the declarative reading of a document: when the templates carry
  the attributes the schema requires and no logical node has an empty type, parsing ends
  with a result, and the nodes found are exactly the members of the data sets, the data
  attributes of the templates of each logical node, and its control objects. Instances
  (\<open>DOI\<close>, \<open>DAI\<close>) add none.
\<close>

theorem icd_nodes_declared:
  assumes "scl_ok doc" and "lns_typed doc"
  shows "\<exists>r. icd_parse tb (Some doc) = Inr r \<and> (\<forall>n. n \<in> set (pr_nodes r) \<longleftrightarrow> scl_declares doc n)"
proof -
  obtain r where r: "icd_parse tb (Some doc) = Inr r"
    using icd_parse_total [OF assms(1)] unfolding returns_def by blast
  with icd_parse_declared [OF assms, of tb] show ?thesis unfolding yields_def by auto
qed

lemma demo_doc_lns:
  "scl_ln demo_doc ied ld ln \<Longrightarrow>
     ln = Elem ''LN'' [(''lnClass'', ''GGIO''), (''inst'', ''1''), (''lnType'', ''T'')]
       [Elem ''DOI'' [(''name'', ''S'')] [Elem ''DAI'' [(''name'', ''v'')] []]]"
  by (auto simp: scl_ln_iff demo_simps)

theorem icd_nodes_declared_witness:
  "scl_declares demo_doc (''ED/GGIO1.S.v'', ''ST'') \<and> scl_declares demo_doc (''ED/GGIO1.S'', ''CO'')
     \<and> \<not> scl_declares demo_doc (''ED/GGIO1.S.v'', ''CF'')"
proof -
  have "lns_typed demo_doc" unfolding lns_typed_def by (auto dest!: demo_doc_lns simp: attr_def)
  from icd_nodes_declared [OF demo_doc_ok this, of "\<lambda>_. None"]
  obtain r where r: "icd_parse (\<lambda>_. None) (Some demo_doc) = Inr r" "\<And>n. n \<in> set (pr_nodes r) \<longleftrightarrow> scl_declares demo_doc n"
    by blast
  have "icd_parse (\<lambda>_. None) (Some demo_doc) = Inr \<lparr>pr_nodes = [(''ED/GGIO1.S'', ''CO''), (''ED/GGIO1.S.v'', ''ST''),
      (''ED/GGIO1.S'', ''CO''), (''ED/GGIO1.S.v'', ''ST'')], pr_dataSets = [], pr_reports = []\<rparr>"
    by code_simp
  with r(1) have "pr_nodes r = [(''ED/GGIO1.S'', ''CO''), (''ED/GGIO1.S.v'', ''ST''),
      (''ED/GGIO1.S'', ''CO''), (''ED/GGIO1.S.v'', ''ST'')]" by auto
  with r(2) [symmetric] show ?thesis by simp
qed

end
