(* ===== verification/Config_Print.thy ===== *)
theory Config_Print
  imports Gateway_Config Log_Frontend
begin

text \<open>
  The members \<open>to_string\<close> of the configuration structures (\<open>common/config/config.h\<close>), which
  write the fields to the log, one record per statement. The text that a stream produces for
  a \<open>float\<close> is the argument \<open>fl\<close>; integers are decimal, a \<open>bool\<close> is 0 or 1, and the data type
  of a point is the number of its enumerator.
\<close>

section \<open>Records of a configuration\<close>

definition log_lines :: "log_env \<Rightarrow> level \<Rightarrow> string list list \<Rightarrow> logger_object \<Rightarrow> logger_object" where
  "log_lines e lv ls l = foldl (\<lambda>l parts. LOG e lv parts l) l ls"

fun data_type_number :: "data_type_e \<Rightarrow> int" where
  "data_type_number UNKNOWN = - 1"
| "data_type_number INT16 = 0"
| "data_type_number UINT16 = 1"
| "data_type_number INT32 = 2"
| "data_type_number UINT32 = 3"
| "data_type_number FLOAT32 = 4"
| "data_type_number STRING = 5"

definition bool_digit :: "bool \<Rightarrow> string" where
  "bool_digit b = (if b then ''1'' else ''0'')"

definition rule_line :: string where
  "rule_line = CHR 0x0A # ''------------------------'' @ [CHR 0x0A]"

definition point_lines :: "(32 word \<Rightarrow> string) \<Rightarrow> data_points_t \<Rightarrow> string list list" where
  "point_lines fl p =
     [[''name: '', dp_name p],
      [''address: '', dec_int (uint (dp_address p))],
      [''type: '', dp_type p],
      [''data_type: '', getDataTypeString (dp_data_type p)],
      [''scale: '', fl (dp_scale p)],
      [''offset: '', fl (dp_offset p)]]"

definition data_point_to_string ::
  "log_env \<Rightarrow> (32 word \<Rightarrow> string) \<Rightarrow> data_points_t \<Rightarrow> logger_object \<Rightarrow> logger_object" where
  "data_point_to_string e fl p = log_lines e Info (point_lines fl p)"

definition modbus_point_lines :: "(32 word \<Rightarrow> string) \<Rightarrow> data_points_t \<Rightarrow> string list list" where
  "modbus_point_lines fl p =
     [[''data_point.name: '', dp_name p],
      [''data_point.address: '', dec_int (uint (dp_address p))],
      [''data_point.type: '', dp_type p],
      [''data_point.data_type: '', dec_int (data_type_number (dp_data_type p))],
      [''data_point.scale: '', fl (dp_scale p)],
      [''data_point.offset: '', fl (dp_offset p)],
      [rule_line]]"

definition modbus_lines :: "(32 word \<Rightarrow> string) \<Rightarrow> config_modbus \<Rightarrow> string list list" where
  "modbus_lines fl c =
     [[''device_id: '', mb_device_id c],
      [''Type: '', mb_Type c],
      [''cmd_interval: '', dec_int (mb_cmd_interval c)],
      [''max_retries: '', dec_int (mb_max_retries c)],
      [''retry_interval: '', dec_int (mb_retry_interval c)],
      [''slave_addr: '', dec_int (mb_slave_addr c)],
      [''tcp.ip: '', tcp_ip (mb_tcp c)],
      [''tcp.port: '', dec_int (tcp_port (mb_tcp c))],
      [''rtu.port_name: '', rtu_port_name (mb_rtu c)],
      [''rtu.baudrate: '', dec_int (rtu_baudrate (mb_rtu c))],
      [''rtu.parity: '', rtu_parity (mb_rtu c)],
      [''byte_order: '', mb_byte_order c]]
     @ concat (map (modbus_point_lines fl) (mb_data_points c))"

definition modbus_to_string ::
  "log_env \<Rightarrow> (32 word \<Rightarrow> string) \<Rightarrow> config_modbus \<Rightarrow> logger_object \<Rightarrow> logger_object" where
  "modbus_to_string e fl c = log_lines e Info (modbus_lines fl c)"

definition iec61850_lines :: "config_iec61850 \<Rightarrow> string list list" where
  "iec61850_lines c =
     [[''device_id: '', i61_device_id c],
      [''ip: '', i61_ip c],
      [''icd_file_path: '', i61_icd_file_path c],
      [''access_point: '', i61_access_point c],
      [''logical_device: '', i61_logical_device c],
      [''client_mms_name: '', i61_client_mms_name c],
      [''port: '', dec_int (i61_port c)],
      [''poll_interval: '', dec_int (i61_poll_interval c)],
      [''max_retries: '', dec_int (i61_max_retries c)],
      [''retry_interval: '', dec_int (i61_retry_interval c)],
      [''report_enabled: '', bool_digit (i61_report_enabled c)],
      [''goose_enabled: '', bool_digit (i61_goose_enabled c)],
      [''tls_enabled: '', bool_digit (i61_tls_enabled c)],
      [''description: '', i61_description c],
      [''data_point_filters: '']]
     @ map (\<lambda>f. [f]) (i61_data_point_filters c)"

definition iec61850_to_string :: "log_env \<Rightarrow> config_iec61850 \<Rightarrow> logger_object \<Rightarrow> logger_object" where
  "iec61850_to_string e c = log_lines e Info (iec61850_lines c)"

text \<open>The two loops of the IEC 104 structure print the index of each element.\<close>

fun report_lines :: "nat \<Rightarrow> iec104_report list \<Rightarrow> string list list" where
  "report_lines i [] = []"
| "report_lines i (r # rs) =
     [''communication.reports['', dec_nat i, ''].ioa: '', dec_int (report_ioa r)]
     # [''communication.reports['', dec_nat i, ''].report_id: '', report_id r]
     # report_lines (i + 1) rs"

fun point104_lines :: "nat \<Rightarrow> iec104_data_point list \<Rightarrow> string list list" where
  "point104_lines i [] = []"
| "point104_lines i (d # ds) =
     [''data_points['', dec_nat i, ''].ioa: '', dec_int (dp104_ioa d)]
     # [''data_points['', dec_nat i, ''].type: '', dp104_type d]
     # [''data_points['', dec_nat i, ''].description: '', dp104_description d]
     # [''data_points['', dec_nat i, ''].iec61850_path: '', dp104_iec61850_path d]
     # [rule_line]
     # point104_lines (i + 1) ds"

definition iec104_head_lines :: "config_iec104 \<Rightarrow> string list list" where
  "iec104_head_lines c =
     [[''device_id: '', i104_device_id c],
      [''type: '', i104_type c],
      [''tcp.ip: '', addr_ip (i104_tcp c)],
      [''tcp.port: '', dec_int (addr_port (i104_tcp c))],
      [''local_address.ip: '', addr_ip (i104_local_address c)],
      [''local_address.port: '', dec_int (addr_port (i104_local_address c))],
      [''protocol.apci.t0: '', dec_int (apci_t0 (i104_apci c))],
      [''protocol.apci.t1: '', dec_int (apci_t1 (i104_apci c))],
      [''protocol.apci.t2: '', dec_int (apci_t2 (i104_apci c))],
      [''protocol.apci.t3: '', dec_int (apci_t3 (i104_apci c))],
      [''protocol.apci.k: '', dec_int (apci_k (i104_apci c))],
      [''protocol.apci.w: '', dec_int (apci_w (i104_apci c))],
      [''protocol.application_layer.originator_address: '', dec_int (originator_address (i104_app_layer c))],
      [''protocol.application_layer.common_address: '', dec_int (common_address (i104_app_layer c))],
      [''protocol.application_layer.asdu_size: '', dec_int (asdu_size (i104_app_layer c))],
      [''communication.gi_interval_ms: '', dec_int (gi_interval_ms (i104_communication c))],
      [''communication.report_enabled: '', if report_enabled (i104_communication c) then ''true'' else ''false'']]"

definition iec104_lines :: "config_iec104 \<Rightarrow> string list list" where
  "iec104_lines c =
     iec104_head_lines c @ report_lines 0 (reports (i104_communication c))
     @ [[''error_handling.reconnect_interval_ms: '', dec_int (reconnect_interval_ms (i104_error_handling c))],
        [''error_handling.max_reconnect_attempts: '', dec_int (max_reconnect_attempts (i104_error_handling c))]]
     @ point104_lines 0 (i104_data_points c)"

definition iec104_to_string :: "log_env \<Rightarrow> config_iec104 \<Rightarrow> logger_object \<Rightarrow> logger_object" where
  "iec104_to_string e c = log_lines e Info (iec104_lines c)"

section \<open>The records determine the configuration\<close>

lemma dec_int_inject: "dec_int i = dec_int j \<longleftrightarrow> i = j"
  by (metis option.inject scan_int_dec_int)

lemma data_type_number_inject: "data_type_number a = data_type_number b \<longleftrightarrow> a = b"
  by (cases a; cases b) simp_all

lemma bool_digit_inject: "bool_digit a = bool_digit b \<longleftrightarrow> a = b"
  by (simp add: bool_digit_def)

lemma address_inject: "uint a = uint b \<longleftrightarrow> a = b" for a b :: "16 word"
  using word_uint_eqI by blast

lemmas print_inject = dec_int_inject address_inject data_type_number_inject bool_digit_inject

text \<open>What is printed of a point: its fields, with the text of the two numbers.\<close>

definition shown_point :: "(32 word \<Rightarrow> string) \<Rightarrow> data_points_t \<Rightarrow> string \<times> 16 word \<times> string \<times> data_type_e \<times> string \<times> string" where
  "shown_point fl p = (dp_name p, dp_address p, dp_type p, dp_data_type p, fl (dp_scale p), fl (dp_offset p))"

lemma modbus_point_step:
  "map concat (modbus_point_lines fl p) @ xs = map concat (modbus_point_lines fl q) @ ys \<longleftrightarrow>
     shown_point fl p = shown_point fl q \<and> xs = ys"
  by (auto simp: modbus_point_lines_def shown_point_def print_inject)

lemma modbus_point_lines_nonempty [simp]: "modbus_point_lines fl p \<noteq> []"
  by (simp add: modbus_point_lines_def)

lemma modbus_points_inject:
  "map concat (concat (map (modbus_point_lines fl) ps)) = map concat (concat (map (modbus_point_lines fl) qs))
     \<longleftrightarrow> map (shown_point fl) ps = map (shown_point fl) qs"
proof (induction ps arbitrary: qs)
  case Nil
  then show ?case by (cases qs) simp_all
next
  case (Cons p ps)
  then show ?case by (cases qs) (simp_all add: modbus_point_step)
qed

lemma modbus_lines_inject:
  "map concat (modbus_lines fl c) = map concat (modbus_lines fl c') \<longleftrightarrow>
     c\<lparr>mb_data_points := []\<rparr> = c'\<lparr>mb_data_points := []\<rparr>
     \<and> map (shown_point fl) (mb_data_points c) = map (shown_point fl) (mb_data_points c')"
  unfolding modbus_lines_def map_append modbus_points_inject
  by (cases c; cases c') (auto simp: print_inject modbus_points_inject)

lemma iec61850_lines_inject: "map concat (iec61850_lines c) = map concat (iec61850_lines c') \<longleftrightarrow> c = c'"
  by (cases c; cases c') (auto simp: iec61850_lines_def print_inject comp_def)


lemma reports_inject:
  "map concat (report_lines i rs) @ (CHR ''e'' # x) # a = map concat (report_lines i ss) @ (CHR ''e'' # y) # b
     \<longleftrightarrow> rs = ss \<and> x = y \<and> a = b"
proof (induction rs arbitrary: i ss)
  case Nil
  show ?case by (cases ss) auto
next
  case (Cons r rs)
  show ?case
  proof (cases ss)
    case Nil
    then show ?thesis by auto
  next
    case (Cons s ss')
    have "r = s \<longleftrightarrow> report_ioa r = report_ioa s \<and> report_id r = report_id s" by (cases r; cases s) auto
    with Cons show ?thesis by (auto simp: print_inject Cons.IH)
  qed
qed

lemma points104_inject:
  "map concat (point104_lines i ds) = map concat (point104_lines i es) \<longleftrightarrow> ds = es"
proof (induction ds arbitrary: i es)
  case Nil
  show ?case by (cases es) auto
next
  case (Cons d ds)
  show ?case
  proof (cases es)
    case Nil
    then show ?thesis by auto
  next
    case (Cons e es')
    have "d = e \<longleftrightarrow> dp104_ioa d = dp104_ioa e \<and> dp104_type d = dp104_type e
        \<and> dp104_description d = dp104_description e \<and> dp104_iec61850_path d = dp104_iec61850_path e"
      by (cases d; cases e) auto
    with Cons show ?thesis by (auto simp: print_inject Cons.IH)
  qed
qed

lemma head104_inject:
  "map concat (iec104_head_lines c) = map concat (iec104_head_lines c') \<longleftrightarrow>
     i104_device_id c = i104_device_id c' \<and> i104_type c = i104_type c' \<and> i104_tcp c = i104_tcp c'
     \<and> i104_local_address c = i104_local_address c' \<and> i104_apci c = i104_apci c' \<and> i104_app_layer c = i104_app_layer c'
     \<and> gi_interval_ms (i104_communication c) = gi_interval_ms (i104_communication c')
     \<and> report_enabled (i104_communication c) = report_enabled (i104_communication c')"
proof -
  have "a = b \<longleftrightarrow> addr_ip a = addr_ip b \<and> addr_port a = addr_port b" for a b :: iec104_address by (cases a; cases b) auto
  moreover have "a = b \<longleftrightarrow> apci_t0 a = apci_t0 b \<and> apci_t1 a = apci_t1 b \<and> apci_t2 a = apci_t2 b \<and> apci_t3 a = apci_t3 b
      \<and> apci_k a = apci_k b \<and> apci_w a = apci_w b" for a b :: iec104_apci by (cases a; cases b) auto
  moreover have "a = b \<longleftrightarrow> originator_address a = originator_address b \<and> common_address a = common_address b
      \<and> asdu_size a = asdu_size b" for a b :: iec104_app_layer by (cases a; cases b) auto
  ultimately show ?thesis by (simp add: iec104_head_lines_def print_inject)
qed

lemma iec104_lines_inject: "map concat (iec104_lines c) = map concat (iec104_lines c') \<longleftrightarrow> c = c'"
proof -
  have comm: "a = b \<longleftrightarrow> gi_interval_ms a = gi_interval_ms b \<and> report_enabled a = report_enabled b \<and> reports a = reports b"
    for a b :: iec104_communication by (cases a; cases b) auto
  have err: "a = b \<longleftrightarrow> reconnect_interval_ms a = reconnect_interval_ms b \<and> max_reconnect_attempts a = max_reconnect_attempts b"
    for a b :: iec104_error_handling by (cases a; cases b) auto
  have "c = c' \<longleftrightarrow> i104_device_id c = i104_device_id c' \<and> i104_type c = i104_type c' \<and> i104_tcp c = i104_tcp c'
     \<and> i104_local_address c = i104_local_address c' \<and> i104_apci c = i104_apci c' \<and> i104_app_layer c = i104_app_layer c'
     \<and> i104_communication c = i104_communication c' \<and> i104_error_handling c = i104_error_handling c'
     \<and> i104_data_points c = i104_data_points c'" by (cases c; cases c') auto
  moreover have "length (map concat (iec104_head_lines c)) = length (map concat (iec104_head_lines c'))"
    by (simp add: iec104_head_lines_def)
  ultimately show ?thesis
    unfolding iec104_lines_def map_append comm err
    by (simp add: reports_inject points104_inject head104_inject print_inject)
qed


section \<open>On the console\<close>

definition prints :: "level \<Rightarrow> logger_object \<Rightarrow> bool" where
  "prints lv l \<longleftrightarrow>
     (\<exists>lg cl. logger (pImpl l) = Some lg \<and> lg_to_console lg \<and> lg_level lg \<le> lv
        \<and> console_sink (pImpl l) = Some cl \<and> cl \<le> lv)"

lemma log_file_keeps:
  "logger (log_file e lv m g) = logger g" "console_sink (log_file e lv m g) = console_sink g"
  "console_out (log_file e lv m g) = console_out g"
  by (simp_all add: log_file_def split: option.split)

lemma LOG_console:
  assumes "prints lv l"
  shows "prints lv (LOG e lv parts l) \<and> console_out (pImpl (LOG e lv parts l)) = console_out (pImpl l) @ [concat parts]"
  using assms by (auto simp: prints_def LOG_logs_concat Logger_Log_def log_def log_console_def Let_def log_file_keeps)

lemma log_lines_console:
  "prints lv l \<Longrightarrow> console_out (pImpl (log_lines e lv ls l)) = console_out (pImpl l) @ map concat ls"
  by (induction ls arbitrary: l) (simp_all add: log_lines_def LOG_console)

section \<open>Properties\<close>


definition console_logger :: logger_object where
  "console_logger = \<lparr>pImpl = LoggerImpl\<lparr>logger := Some \<lparr>lg_level = Trace, lg_pattern = default_pattern, lg_flush_on = Error,
     lg_async = False, lg_to_file = False, lg_to_console = True\<rparr>, console_sink := Some Info, registered := True\<rparr>\<rparr>"


end
