(* ===== verification/Icd_Print.thy ===== *)
theory Icd_Print
  imports Icd_Parser Config_Print
begin

text \<open>
  \<open>printParseResult\<close> (\<open>core/iec61850/icd_parse.h\<close>), which the client calls after parsing: records
  of level debug, with line ends written to the standard output between them. The second
  component of the state is the text written to the standard output besides the logger.
\<close>

datatype print_item = Record "string list" | Endl

fun emit :: "log_env \<Rightarrow> print_item \<Rightarrow> logger_object \<times> string \<Rightarrow> logger_object \<times> string" where
  "emit e (Record parts) (l, out) = (LOG e Debug parts l, out)"
| "emit e Endl (l, out) = (l, out @ [CHR 0x0A])"

definition data_set_items :: "data_set_info \<Rightarrow> print_item list" where
  "data_set_items ds =
     Record [''  DataSet: '', dsi_name ds, '', FCDA Paths: '']
     # map (\<lambda>path. Record [''  FCDA Path: '', path]) (dsi_fcdaPaths ds) @ [Endl]"

definition parse_result_items :: "parse_result \<Rightarrow> print_item list" where
  "parse_result_items r =
     [Record [''Parsed Data Nodes:'']]
     @ map (\<lambda>node. Record [''  Path: '', fst node, '', FC: '', snd node]) (pr_nodes r) @ [Endl]
     @ [Record [''Parsed Data Sets:'']] @ concat (map data_set_items (pr_dataSets r))
     @ [Record [''Parsed Report Controls:'']]
     @ map (\<lambda>rpt. Record [''  ReportControl: '', rpi_name rpt, '', DataSet: '', rpi_datSet rpt,
                          '', Buffered: '', if rpi_buffered rpt then ''Yes'' else ''No'']) (pr_reports r)"

definition printParseResult :: "log_env \<Rightarrow> parse_result \<Rightarrow> logger_object \<times> string \<Rightarrow> logger_object \<times> string" where
  "printParseResult e r st = foldl (\<lambda>st i. emit e i st) st (parse_result_items r)"

text \<open>
  With a logger that shows debug records, the console gets one line per element found, in the
  order of the result; a logger with a higher level only lets the line ends through.
\<close>

fun record_texts :: "print_item list \<Rightarrow> string list" where
  "record_texts [] = []"
| "record_texts (Record parts # xs) = concat parts # record_texts xs"
| "record_texts (Endl # xs) = record_texts xs"

lemma record_texts_append [simp]: "record_texts (xs @ js) = record_texts xs @ record_texts js"
  by (induction xs rule: record_texts.induct) simp_all

lemma record_texts_records: "record_texts (map (\<lambda>x. Record (f x)) xs) = map (\<lambda>x. concat (f x)) xs"
  by (induction xs) simp_all

lemma print_items_console:
  "prints Debug l \<Longrightarrow>
     console_out (pImpl (fst (foldl (\<lambda>st i. emit e i st) (l, out) xs))) = console_out (pImpl l) @ record_texts xs"
proof (induction xs arbitrary: l out)
  case (Cons i xs)
  then show ?case using LOG_console [OF Cons.prems] by (cases i) simp_all
qed simp

lemma print_items_ends:
  "snd (foldl (\<lambda>st i. emit e i st) (l, out) xs) = out @ replicate (length (filter (\<lambda>i. i = Endl) xs)) (CHR 0x0A)"
proof (induction xs arbitrary: l out)
  case (Cons i xs)
  then show ?case by (cases i) simp_all
qed simp

lemma data_set_ends: "length (filter (\<lambda>i. i = Endl) (concat (map data_set_items dss))) = length dss"
  by (induction dss) (simp_all add: data_set_items_def filter_map o_def)

lemma parse_result_shown:
  assumes "prints Debug l"
  shows "\<exists>l'. printParseResult e r (l, out) = (l', out @ replicate (1 + length (pr_dataSets r)) (CHR 0x0A))
     \<and> (\<forall>n \<in> set (pr_nodes r). ''  Path: '' @ fst n @ '', FC: '' @ snd n \<in> set (console_out (pImpl l')))"
proof -
  let ?st = "printParseResult e r (l, out)"
  have "snd ?st = out @ replicate (1 + length (pr_dataSets r)) (CHR 0x0A)"
    unfolding printParseResult_def print_items_ends
    by (simp add: parse_result_items_def filter_map o_def data_set_ends)
  moreover have "''  Path: '' @ fst n @ '', FC: '' @ snd n \<in> set (console_out (pImpl (fst ?st)))" if "n \<in> set (pr_nodes r)" for n
  proof -
    let ?f = "\<lambda>n. concat [''  Path: '', fst n, '', FC: '', snd n]"
    have "?f n \<in> set (map ?f (pr_nodes r))" using that by (simp only: set_map image_eqI)
    then have "?f n \<in> set (console_out (pImpl (fst ?st)))"
      unfolding printParseResult_def print_items_console [OF assms] parse_result_items_def record_texts_append
        record_texts_records set_append by blast
    then show ?thesis by (simp only: concat.simps append_Nil2)
  qed
  ultimately show ?thesis by (intro exI [of _ "fst ?st"] conjI ballI prod_eqI) (simp_all only: fst_conv snd_conv)
qed

end
