(* ===== verification/Ied_To_Store.thy ===== *)
theory Ied_To_Store
  imports Icd_Spec Iec61850_Client
begin

text \<open>
  The path of a value on the IEC 61850 side: from the declarations of an SCL document over
  the nodes that a connected client reads to a client of the Redis store.
\<close>

lemma map_of_rev_agree:
  assumes "(k, v) \<in> set es" and "\<And>v'. (k, v') \<in> set es \<Longrightarrow> v' = v"
  shows "map_of (rev es) k = Some v"
proof -
  obtain v' where v': "map_of (rev es) k = Some v'"
    using assms(1) by (metis not_None_eq weak_map_of_SomeI set_rev)
  then have "(k, v') \<in> set es" using map_of_SomeD by fastforce
  with assms(2) v' show ?thesis by simp
qed

lemma node_entries_iff:
  "(k, t) \<in> set (concat (map (node_entries fmt vals) ns)) \<longleftrightarrow>
     (\<exists>n \<in> set ns. selected n \<and> k = c_str (fst n) \<and> stored_text fmt (vals (fst n) (snd n)) = Some t)"
proof -
  have "(k, t) \<in> set (node_entries fmt vals n) \<longleftrightarrow>
      selected n \<and> k = c_str (fst n) \<and> stored_text fmt (vals (fst n) (snd n)) = Some t" for n
    by (cases "stored_text fmt (vals (fst n) (snd n))";
        simp only: node_entries_def option.case if_split list.set) auto
  then show ?thesis unfolding set_concat set_map by blast
qed

lemma node_entry_lookup:
  assumes "n \<in> set ns" and "selected n" and "stored_text fmt (vals (fst n) (snd n)) = Some t"
    and "\<And>m. m \<in> set ns \<Longrightarrow> selected m \<Longrightarrow> c_str (fst m) = c_str (fst n) \<Longrightarrow> m = n"
  shows "map_of (rev (concat (map (node_entries fmt vals) ns))) (c_str (fst n)) = Some t"
proof (rule map_of_rev_agree)
  show "(c_str (fst n), t) \<in> set (concat (map (node_entries fmt vals) ns))"
    unfolding node_entries_iff using assms(1-3) by blast
next
  fix t' assume "(c_str (fst n), t') \<in> set (concat (map (node_entries fmt vals) ns))"
  then obtain m where m: "m \<in> set ns" "selected m" "c_str (fst n) = c_str (fst m)"
      "stored_text fmt (vals (fst m) (snd m)) = Some t'"
    unfolding node_entries_iff by blast
  then have "m = n" using assms(4) by simp
  with m(4) assms(3) show "t' = t" by simp
qed

text \<open>What a client of the store loads under a key for a value of each type.\<close>

definition loads_as :: "'w hiredis \<Rightarrow> string \<Rightarrow> mms \<Rightarrow> 'w redis \<Rightarrow> bool" where
  "loads_as hr key v s =
     (case v of
        MmsBoolean b \<Rightarrow> getBool hr key s = Inr (b, s)
      | MmsInt i \<Rightarrow> getLInt hr key s = Inr (i, s)
      | MmsUnsigned i \<Rightarrow> getULInt hr key s = Inr (i, s)
      | MmsText t \<Rightarrow> getString hr key s = Inr ((case t of None \<Rightarrow> [] | Some x \<Rightarrow> c_str x), s)
      | MmsBits bs \<Rightarrow> getString hr key s = Inr (bit_text bs, s)
      | MmsUtc t \<Rightarrow> getLInt hr key s = Inr (t, s)
      | _ \<Rightarrow> True)"

lemma c_str_idem: "c_str (c_str t) = c_str t"
  by (simp add: c_str_def)

lemma c_str_nil: "c_str [] = []"
  by (simp add: c_str_def)

lemma stored_text_loads:
  assumes "redis_laws hr up kv" and "healthy up s"
    and "\<And>t. stored_text fmt v = Some t \<Longrightarrow> kv (world s) (c_str key) = Some t"
  shows "loads_as hr key v s"
  using assms(3) bool_cell.dec_enc sint64_cell.dec_enc uint64_cell.dec_enc
  by (cases v)
     (simp_all add: loads_as_def getBool_def getLInt_def getULInt_def getString_def get_with_healthy [OF assms(1,2)]
       cstr_arg_def c_str_idem c_str_nil c_str_bits split: option.splits)

lemma init_reader_nodes:
  assumes "client_init lib parsed (iec61850Client i ip port, c0) = Inr (cl, c)" and "c61_reader cl = Some ns"
  shows "\<exists>r. parsed = Inr r \<and> pr_nodes r = ns"
proof -
  obtain ok cl' c' where conn: "client_connect lib (iec61850Client i ip port, c0) = (ok, cl', c')"
    by (metis prod.exhaust)
  with assms connect_keeps_reader [OF conn] show ?thesis
    by (cases ok) (auto simp: client_init_def rbind_Inr_iff iec61850Client_def)
qed

section \<open>Properties\<close>



definition sptr_doc :: document where
  "sptr_doc =
     [Elem ''SCL'' []
        [Elem ''IED'' [(''name'', ''E'')] [Elem ''AccessPoint'' [] [Elem ''Server'' []
           [Elem ''LDevice'' [(''inst'', ''D'')]
             [Elem ''LN'' [(''lnClass'', ''SPTR''), (''inst'', ''01''), (''lnType'', ''T'')] []]]]],
         Elem ''DataTypeTemplates'' []
           [Elem ''LNodeType'' [(''id'', ''T'')] [Elem ''DO'' [(''name'', ''Op''), (''type'', ''X'')] []],
            Elem ''DOType'' [(''id'', ''X''), (''cdc'', ''ACT'')]
              [Elem ''DA'' [(''name'', ''n''), (''fc'', ''ST'')] [], Elem ''DA'' [(''name'', ''g''), (''fc'', ''ST'')] []]]]]"

lemma sptr_doc_ok: "scl_ok sptr_doc"
  by (auto simp: scl_ok_def template_ok_def sptr_doc_def first_named_def named_def attr_def)

lemma sptr_doc_typed: "lns_typed sptr_doc"
  by (auto simp: lns_typed_def scl_ln_iff sptr_doc_def first_named_def named_def attr_def)

lemma sptr_doc_nodes:
  "icd_parse (\<lambda>_. None) (Some sptr_doc) = Inr (only_nodes [(''ED/SPTR01.Op.n'', ''ST''), (''ED/SPTR01.Op.g'', ''ST'')])"
  by code_simp

lemma sptr_doc_declares:
  "scl_declares sptr_doc n \<longleftrightarrow> n = (''ED/SPTR01.Op.n'', ''ST'') \<or> n = (''ED/SPTR01.Op.g'', ''ST'')"
  unfolding icd_parse_declared [OF sptr_doc_ok sptr_doc_typed, of "\<lambda>_. None", symmetric] sptr_doc_nodes yields_def
  by (simp add: only_nodes_def)


end
