(* ===== verification/Redis_Refinement.thy ===== *)
theory Redis_Refinement
  imports Redis_Store
begin

text \<open>
  The contract of the Redis wrapper: seen by its clients, the object with its connection,
  contexts and replies is a map from keys to texts. The operations of the class are one
  datatype of calls; the specification runs them on the map, and the wrapper refines it.
  The pipelined calls, which send several commands before the first reply, store the same
  entries as the plain ones.
\<close>

section \<open>Data refinement of operations that may fault\<close>

fun run_all :: "('o \<Rightarrow> ('v, 's) oper) \<Rightarrow> 'o list \<Rightarrow> ('v list, 's) oper" where
  "run_all f [] = ret []"
| "run_all f (x # xs) = bnd (f x) (\<lambda>v. bnd (run_all f xs) (\<lambda>vs. ret (v # vs)))"

definition outcome :: "('s \<Rightarrow> 'a) \<Rightarrow> ('v \<times> 's) result \<Rightarrow> ('v \<times> 'a) result" where
  "outcome view r = (case r of Inl e \<Rightarrow> Inl e | Inr (v, s) \<Rightarrow> Inr (v, view s))"

locale data_refinement =
  fixes conc :: "'o \<Rightarrow> ('v, 's) oper"
    and spec :: "'o \<Rightarrow> ('v, 'a) oper"
    and view :: "'s \<Rightarrow> 'a"
    and good :: "'s \<Rightarrow> bool"
  assumes simulates: "good s \<Longrightarrow> outcome view (conc x s) = spec x (view s)"
    and keeps_inv: "good s \<Longrightarrow> conc x s = Inr (v, s') \<Longrightarrow> good s'"
begin

lemma run_simulates: "good s \<Longrightarrow> outcome view (run_all conc xs s) = run_all spec xs (view s)"
proof (induction xs arbitrary: s)
  case (Cons x xs)
  show ?case
  proof (cases "conc x s")
    case (Inl e)
    with simulates [OF Cons.prems, of x, symmetric] show ?thesis by (simp add: outcome_def bnd_def)
  next
    case (Inr p)
    then obtain v s' where s': "conc x s = Inr (v, s')" by (cases p) auto
    with simulates [OF Cons.prems, of x, symmetric] Cons.IH [OF keeps_inv [OF Cons.prems s']] show ?thesis
      by (auto simp: outcome_def bnd_def ret_def split: sum.splits)
  qed
qed (simp add: outcome_def ret_def)

lemma run_keeps_inv: "good s \<Longrightarrow> run_all conc xs s = Inr (vs, s') \<Longrightarrow> good s'"
  by (induction xs arbitrary: s vs) (auto simp: ret_def elim!: bnd_InrE dest: keeps_inv)

end

section \<open>Calls and their specification\<close>

datatype redis_call =
    StoreString string string
  | StoreChar string "string option"
  | StoreBinary string "string option"
  | StoreBool string bool
  | StoreSInt string "8 word"
  | StoreUSInt string "8 word"
  | StoreByte string "8 word"
  | StoreInt string "16 word"
  | StoreUInt string "16 word"
  | StoreWord string "16 word"
  | StoreDInt string "32 word"
  | StoreUDInt string "32 word"
  | StoreDWord string "32 word"
  | StoreLInt string "64 word"
  | StoreULInt string "64 word"
  | StoreLWord string "64 word"
  | IsKeyExist string
  | GetString string
  | GetBinary string string
  | GetBool string
  | GetSInt string
  | GetUSInt string
  | GetDInt string
  | GetUDInt string
  | GetLInt string
  | GetULInt string

datatype redis_answer =
    Flag bool
  | Text string
  | Block bool string
  | Number int

definition fmap :: "('a \<Rightarrow> 'b) \<Rightarrow> ('a, 's) oper \<Rightarrow> ('b, 's) oper" where
  "fmap f m = bnd m (\<lambda>x. ret (f x))"

fun redis_exec :: "'w hiredis \<Rightarrow> redis_call \<Rightarrow> (redis_answer, 'w redis) oper" where
  "redis_exec hr (StoreString k v) = fmap Flag (storeString hr k v)"
| "redis_exec hr (StoreChar k v) = fmap Flag (storeChar hr k v)"
| "redis_exec hr (StoreBinary k v) = fmap Flag (storeBinary hr k v)"
| "redis_exec hr (StoreBool k v) = fmap Flag (storeBool hr k v)"
| "redis_exec hr (StoreSInt k v) = fmap Flag (storeSInt hr k v)"
| "redis_exec hr (StoreUSInt k v) = fmap Flag (storeUSInt hr k v)"
| "redis_exec hr (StoreByte k v) = fmap Flag (storeByte hr k v)"
| "redis_exec hr (StoreInt k v) = fmap Flag (storeInt hr k v)"
| "redis_exec hr (StoreUInt k v) = fmap Flag (storeUInt hr k v)"
| "redis_exec hr (StoreWord k v) = fmap Flag (storeWord hr k v)"
| "redis_exec hr (StoreDInt k v) = fmap Flag (storeDInt hr k v)"
| "redis_exec hr (StoreUDInt k v) = fmap Flag (storeUDInt hr k v)"
| "redis_exec hr (StoreDWord k v) = fmap Flag (storeDWord hr k v)"
| "redis_exec hr (StoreLInt k v) = fmap Flag (storeLInt hr k v)"
| "redis_exec hr (StoreULInt k v) = fmap Flag (storeULInt hr k v)"
| "redis_exec hr (StoreLWord k v) = fmap Flag (storeLWord hr k v)"
| "redis_exec hr (IsKeyExist k) = fmap Flag (isKeyExist hr k)"
| "redis_exec hr (GetString k) = fmap Text (getString hr k)"
| "redis_exec hr (GetBinary k d) = fmap (\<lambda>(b, t). Block b t) (getBinary hr k d)"
| "redis_exec hr (GetBool k) = fmap Flag (getBool hr k)"
| "redis_exec hr (GetSInt k) = fmap (Number \<circ> sint) (getSInt hr k)"
| "redis_exec hr (GetUSInt k) = fmap (Number \<circ> uint) (getUSInt hr k)"
| "redis_exec hr (GetDInt k) = fmap (Number \<circ> sint) (getDInt hr k)"
| "redis_exec hr (GetUDInt k) = fmap (Number \<circ> uint) (getUDInt hr k)"
| "redis_exec hr (GetLInt k) = fmap (Number \<circ> sint) (getLInt hr k)"
| "redis_exec hr (GetULInt k) = fmap (Number \<circ> uint) (getULInt hr k)"

text \<open>
  The specification: keys are cut at their first NUL character. A number is loaded by
  scanning the text up to its first NUL character, checking it against the range of the C++
  conversion, and reducing it modulo the width of the result.
\<close>

type_synonym kv_map = "string \<Rightarrow> string option"

definition put :: "string \<Rightarrow> string \<Rightarrow> (redis_answer, kv_map) oper" where
  "put k t m = Inr (Flag True, m(c_str k \<mapsto> t))"

definition load :: "string \<Rightarrow> (string \<Rightarrow> redis_answer result) \<Rightarrow> (redis_answer, kv_map) oper" where
  "load k conv m =
     (case m (c_str k) of
        None \<Rightarrow> Inl NullDeref
      | Some t \<Rightarrow> (case conv (c_str t) of Inl e \<Rightarrow> Inl e | Inr a \<Rightarrow> Inr (a, m)))"

definition number :: "int \<Rightarrow> int \<Rightarrow> (int \<Rightarrow> redis_answer) \<Rightarrow> string \<Rightarrow> redis_answer result" where
  "number lo hi f t =
     (case scan_int t of
        None \<Rightarrow> Inl StdInvalidArgument
      | Some i \<Rightarrow> if lo \<le> i \<and> i \<le> hi then Inr (f i) else Inl StdOutOfRange)"

definition signed_mod :: "nat \<Rightarrow> int \<Rightarrow> int" where
  "signed_mod n i = (i + 2 ^ (n - 1)) mod 2 ^ n - 2 ^ (n - 1)"

fun map_exec :: "redis_call \<Rightarrow> (redis_answer, kv_map) oper" where
  "map_exec (StoreString k v) = put k (c_str v)"
| "map_exec (StoreChar k v) = (case v of None \<Rightarrow> ret (Flag False) | Some t \<Rightarrow> put k (c_str t))"
| "map_exec (StoreBinary k v) =
     (case v of None \<Rightarrow> ret (Flag False) | Some t \<Rightarrow> if t = [] then ret (Flag False) else put k t)"
| "map_exec (StoreBool k v) = put k (if v then ''1'' else ''0'')"
| "map_exec (StoreSInt k v) = put k (dec_int (sint v))"
| "map_exec (StoreUSInt k v) = put k (dec_int (uint v))"
| "map_exec (StoreByte k v) = put k (dec_int (uint v))"
| "map_exec (StoreInt k v) = put k (dec_int (sint v))"
| "map_exec (StoreUInt k v) = put k (dec_int (uint v))"
| "map_exec (StoreWord k v) = put k (dec_int (uint v))"
| "map_exec (StoreDInt k v) = put k (dec_int (sint v))"
| "map_exec (StoreUDInt k v) = put k (dec_int (uint v))"
| "map_exec (StoreDWord k v) = put k (dec_int (uint v))"
| "map_exec (StoreLInt k v) = put k (dec_int (sint v))"
| "map_exec (StoreULInt k v) = put k (dec_int (uint v))"
| "map_exec (StoreLWord k v) = put k (dec_int (uint v))"
| "map_exec (IsKeyExist k) = (\<lambda>m. Inr (Flag (m (c_str k) \<noteq> None), m))"
| "map_exec (GetString k) = load k (\<lambda>t. Inr (Text t))"
| "map_exec (GetBinary k d) =
     (\<lambda>m. Inr ((case m (c_str k) of None \<Rightarrow> Block False d | Some t \<Rightarrow> Block True t), m))"
| "map_exec (GetBool k) = load k (number (- (2 ^ 31)) (2 ^ 31 - 1) (\<lambda>i. Flag (i \<noteq> 0)))"
| "map_exec (GetSInt k) = load k (number (- (2 ^ 31)) (2 ^ 31 - 1) (\<lambda>i. Number (signed_mod 8 i)))"
| "map_exec (GetUSInt k) = load k (number (- (2 ^ 64 - 1)) (2 ^ 64 - 1) (\<lambda>i. Number (i mod 2 ^ 8)))"
| "map_exec (GetDInt k) = load k (number (- (2 ^ 63)) (2 ^ 63 - 1) (\<lambda>i. Number (signed_mod 32 i)))"
| "map_exec (GetUDInt k) = load k (number (- (2 ^ 64 - 1)) (2 ^ 64 - 1) (\<lambda>i. Number (i mod 2 ^ 32)))"
| "map_exec (GetLInt k) = load k (number (- (2 ^ 63)) (2 ^ 63 - 1) Number)"
| "map_exec (GetULInt k) = load k (number (- (2 ^ 64 - 1)) (2 ^ 64 - 1) (\<lambda>i. Number (i mod 2 ^ 64)))"

definition exists_law ::
  "'w hiredis \<Rightarrow> ('w \<Rightarrow> bool) \<Rightarrow> ('w \<Rightarrow> string \<Rightarrow> string option) \<Rightarrow> bool" where
  "exists_law hr up kv \<longleftrightarrow> (\<forall>w k. up w \<longrightarrow>
     h_command hr [''EXISTS'', k] (Some False) w = Some (w, False, Some (RInteger (if kv w k = None then 0 else 1))))"

section \<open>The wrapper refines the map\<close>

definition connected :: "'w hiredis \<Rightarrow> ('w \<Rightarrow> bool) \<Rightarrow> ('w \<Rightarrow> string \<Rightarrow> string option) \<Rightarrow> 'w redis \<Rightarrow> bool" where
  "connected hr up kv s \<longleftrightarrow> redis_laws hr up kv \<and> exists_law hr up kv \<and> healthy up s"

definition implements ::
  "('w redis \<Rightarrow> kv_map) \<Rightarrow> ('w redis \<Rightarrow> bool) \<Rightarrow> (redis_answer, 'w redis) oper \<Rightarrow> (redis_answer, kv_map) oper \<Rightarrow> bool" where
  "implements view good m f \<longleftrightarrow>
     (\<forall>s. good s \<longrightarrow> outcome view (m s) = f (view s) \<and> (\<forall>v s'. m s = Inr (v, s') \<longrightarrow> good s'))"

lemma implements_put:
  "implements (\<lambda>s. kv (world s)) (connected hr up kv) (fmap Flag (storeValue hr k t)) (put k t)"
  unfolding implements_def
proof (intro allI impI)
  fix s assume s: "connected hr up kv s"
  then have l: "redis_laws hr up kv" "healthy up s" by (simp_all add: connected_def)
  obtain w where "storeValue hr k t s = Inr (True, s\<lparr>world := w\<rparr>)" "healthy up (s\<lparr>world := w\<rparr>)"
      "kv w = (kv (world s))(c_str k \<mapsto> t)"
    by (rule storeValue_healthy [OF l])
  with s show "outcome (\<lambda>s. kv (world s)) (fmap Flag (storeValue hr k t) s) = put k t (kv (world s))
      \<and> (\<forall>v s'. fmap Flag (storeValue hr k t) s = Inr (v, s') \<longrightarrow> connected hr up kv s')"
    by (simp add: fmap_def bnd_def ret_def outcome_def put_def connected_def)
qed

lemma implements_get:
  assumes "\<And>t. (case dec (RString t) of Inl e \<Rightarrow> Inl e | Inr x \<Rightarrow> Inr (g x)) = conv (c_str t)"
    and "dec RNil = Inl NullDeref"
  shows "implements (\<lambda>s. kv (world s)) (connected hr up kv) (fmap g (get_with hr k dflt dec)) (load k conv)"
  unfolding implements_def
proof (intro allI impI)
  fix s assume s: "connected hr up kv s"
  then have "redis_laws hr up kv" "healthy up s" by (simp_all add: connected_def)
  note g = get_with_healthy [OF this, of k dflt dec]
  show "outcome (\<lambda>s. kv (world s)) (fmap g (get_with hr k dflt dec) s) = load k conv (kv (world s))
      \<and> (\<forall>v s'. fmap g (get_with hr k dflt dec) s = Inr (v, s') \<longrightarrow> connected hr up kv s')"
  proof (cases "kv (world s) (c_str k)")
    case None
    with assms(2) show ?thesis by (simp add: g fmap_def bnd_def outcome_def load_def)
  next
    case (Some t)
    with s show ?thesis
      by (cases "dec (RString t)")
         (simp_all add: g fmap_def bnd_def ret_def outcome_def load_def assms(1) [symmetric])
  qed
qed

lemma implements_ret: "implements view good (fmap g (ret x)) (ret (g x))"
  by (simp add: implements_def fmap_def bnd_def ret_def outcome_def)

lemma implements_exists:
  "implements (\<lambda>s. kv (world s)) (connected hr up kv) (redis_exec hr (IsKeyExist k)) (map_exec (IsKeyExist k))"
  unfolding implements_def
proof (intro allI impI)
  fix s assume s: "connected hr up kv s"
  then have h: "healthy up s" "up (world s)" by (auto simp: connected_def healthy_def)
  have "h_command hr [''EXISTS'', c_str k] (Some False) (world s)
      = Some (world s, False, Some (RInteger (if kv (world s) (c_str k) = None then 0 else 1)))"
    using s h(2) unfolding connected_def exists_law_def by blast
  from redisCommand_healthy [OF h this]
  show "outcome (\<lambda>s. kv (world s)) (redis_exec hr (IsKeyExist k) s) = map_exec (IsKeyExist k) (kv (world s))
      \<and> (\<forall>v s'. redis_exec hr (IsKeyExist k) s = Inr (v, s') \<longrightarrow> connected hr up kv s')"
    using s by (simp add: isKeyExist_def fmap_def bnd_def ret_def outcome_def)
qed

lemma implements_getBinary:
  "implements (\<lambda>s. kv (world s)) (connected hr up kv) (redis_exec hr (GetBinary k d)) (map_exec (GetBinary k d))"
  unfolding implements_def
proof (intro allI impI)
  fix s assume s: "connected hr up kv s"
  then have h: "redis_laws hr up kv" "healthy up s" "up (world s)" by (auto simp: connected_def healthy_def)
  from redisCommand_healthy [OF h(2,3) redis_laws_get [OF h(1,3)], of "c_str k"]
  show "outcome (\<lambda>s. kv (world s)) (redis_exec hr (GetBinary k d) s) = map_exec (GetBinary k d) (kv (world s))
      \<and> (\<forall>v s'. redis_exec hr (GetBinary k d) s = Inr (v, s') \<longrightarrow> connected hr up kv s')"
    using s
    by (simp add: getBinary_def context_err_def context_view_healthy [OF h(2)] fmap_def bnd_def ret_def outcome_def
        split: option.splits)
qed


lemma signed_mod_sint: "sint (word_of_int i :: 'a::len word) = signed_mod LENGTH('a) i"
  by (simp add: signed_mod_def int_word_sint)

lemma load_number:
  "(case dec_bool (RString t) of Inl e \<Rightarrow> Inl e | Inr x \<Rightarrow> Inr (Flag x))
     = number (- (2 ^ 31)) (2 ^ 31 - 1) (\<lambda>i. Flag (i \<noteq> 0)) (c_str t)"
  "(case dec_via_stoi (RString t) of Inl e \<Rightarrow> Inl e | Inr x \<Rightarrow> Inr ((Number \<circ> sint) (x :: 'a::len word)))
     = number (- (2 ^ 31)) (2 ^ 31 - 1) (\<lambda>i. Number (signed_mod LENGTH('a) i)) (c_str t)"
  "(case dec_via_stol (RString t) of Inl e \<Rightarrow> Inl e | Inr x \<Rightarrow> Inr ((Number \<circ> sint) (x :: 'a::len word)))
     = number (- (2 ^ 63)) (2 ^ 63 - 1) (\<lambda>i. Number (signed_mod LENGTH('a) i)) (c_str t)"
  by (auto simp: dec_conv_defs cstr_arg_def number_def scan_range_def signed_mod_sint split: option.splits)

lemma load_unsigned:
  assumes "LENGTH('a) \<le> 64"
  shows "(case dec_via_stoul (RString t) of Inl e \<Rightarrow> Inl e | Inr x \<Rightarrow> Inr ((Number \<circ> uint) (x :: 'a::len word)))
     = number (- (2 ^ 64 - 1)) (2 ^ 64 - 1) (\<lambda>i. Number (i mod 2 ^ LENGTH('a))) (c_str t)"
proof -
  have "uint (ucast (word_of_int i :: 64 word) :: 'a word) = i mod 2 ^ LENGTH('a)" for i
  proof -
    have "uint (ucast (word_of_int i :: 64 word) :: 'a word) = take_bit LENGTH('a) (take_bit 64 i)"
      by (simp add: unsigned_ucast_eq unsigned_of_int of_nat_take_bit take_bit_word_eq_self)
    also have "\<dots> = take_bit LENGTH('a) i" using assms by (simp only: take_bit_take_bit min_absorb1)
    finally show ?thesis by (simp add: take_bit_eq_mod)
  qed
  then show ?thesis
    by (auto simp: dec_conv_defs cstr_arg_def number_def scan_range_def split: option.splits)
qed

lemma signed_mod_64: "- (2 ^ 63) \<le> i \<Longrightarrow> i \<le> 2 ^ 63 - 1 \<Longrightarrow> signed_mod 64 i = i"
  by (simp add: signed_mod_def)

lemma number_64: "number (- (2 ^ 63)) (2 ^ 63 - 1) (\<lambda>i. Number (signed_mod 64 i)) = number (- (2 ^ 63)) (2 ^ 63 - 1) Number"
  by (auto simp: number_def fun_eq_iff signed_mod_64 split: option.splits)

lemma nil_reply [simp]:
  "dec_bool RNil = Inl NullDeref" "dec_via_stoi RNil = Inl NullDeref"
  "dec_via_stol RNil = Inl NullDeref" "dec_via_stoul RNil = Inl NullDeref" "cstr_arg RNil = Inl NullDeref"
  by (simp_all add: dec_conv_defs cstr_arg_def)

lemma bit_chars: "char_of (48 :: nat) = CHR ''0''" "char_of (49 :: nat) = CHR ''1''"
  by code_simp+

lemma bool_digits: "dec_int (if v then 1 else 0) = (if v then ''1'' else ''0'')"
  by (simp add: dec_int_def dec_nat.simps digit_char_def bit_chars)

lemma redis_exec_implements:
  "implements (\<lambda>s. kv (world s)) (connected hr up kv) (redis_exec hr c) (map_exec c)"
proof (cases c)
  case (StoreChar k v)
  then show ?thesis by (cases v) (simp_all add: storeChar_def implements_ret implements_put)
next
  case (StoreBinary k v)
  then show ?thesis
    using implements_put [of kv hr up k "the v", unfolded storeValue_def]
    by (cases v) (simp_all add: storeBinary_def implements_ret)
next
  case (GetBinary k d)
  then show ?thesis using implements_getBinary by simp
next
  case (IsKeyExist k)
  then show ?thesis using implements_exists by simp
next
  case (GetString k)
  then show ?thesis by (simp add: getString_def) (rule implements_get; simp add: cstr_arg_def)
next
  case (GetBool k)
  then show ?thesis by (simp add: getBool_def) (rule implements_get; simp add: load_number)
next
  case (GetSInt k)
  then show ?thesis by (simp add: getSInt_def) (rule implements_get; simp add: load_number)
next
  case (GetDInt k)
  then show ?thesis by (simp add: getDInt_def) (rule implements_get; simp add: load_number)
next
  case (GetLInt k)
  then show ?thesis by (simp add: getLInt_def) (rule implements_get; simp add: load_number number_64 [simplified])
next
  case (GetUSInt k)
  then show ?thesis by (simp add: getUSInt_def) (rule implements_get; simp add: load_unsigned)
next
  case (GetUDInt k)
  then show ?thesis by (simp add: getUDInt_def) (rule implements_get; simp add: load_unsigned)
next
  case (GetULInt k)
  then show ?thesis by (simp add: getULInt_def) (rule implements_get; simp add: load_unsigned)
qed (simp_all add: storeString_def storeBool_def storeSInt_def storeUSInt_def storeByte_def storeInt_def storeUInt_def
      storeWord_def storeDInt_def storeUDInt_def storeDWord_def storeLInt_def storeULInt_def storeLWord_def
      bool_digits implements_put)

interpretation store_map: data_refinement "redis_exec hr" map_exec "\<lambda>s. kv (world s)" "connected hr up kv"
  for hr :: "'w hiredis" and up kv
  using redis_exec_implements [of kv hr up] by unfold_locales (auto simp: implements_def)


section \<open>Pipelining\<close>

text \<open>
  The documented behaviour of appended commands: \<open>pend\<close> are the commands the server has not
  executed yet, \<open>due\<close> the number of replies still to be fetched. Fetching a reply may send
  any number of the pending commands, but never answers a command that was not executed.
\<close>

definition pipeline_laws ::
  "'w hiredis \<Rightarrow> ('w \<Rightarrow> bool) \<Rightarrow> ('w \<Rightarrow> kv_map) \<Rightarrow> ('w \<Rightarrow> (string \<times> string) list) \<Rightarrow> ('w \<Rightarrow> nat) \<Rightarrow> bool" where
  "pipeline_laws hr up kv pend due \<longleftrightarrow>
     (\<forall>w k v. up w \<longrightarrow>
        (\<exists>w'. h_append hr [''SET'', k, v] (Some False) w = Some (w', False, True) \<and> up w' \<and> kv w' = kv w
              \<and> pend w' = pend w @ [(k, v)] \<and> due w' = Suc (due w))) \<and>
     (\<forall>w n. up w \<longrightarrow> due w = Suc n \<longrightarrow>
        (\<exists>w' q. h_get_reply hr (Some False) w = Some (w', False, True, Some (RStatus ''OK'')) \<and> up w'
              \<and> due w' = n \<and> pend w = q @ pend w' \<and> kv w' = kv w ++ map_of (rev q) \<and> length (pend w') \<le> n))"

definition pipeline_store :: "'w hiredis \<Rightarrow> (string \<times> string) list \<Rightarrow> (bool list, 'w redis) oper" where
  "pipeline_store hr = run_all (\<lambda>e. storeBinaryForPipline hr (fst e) (snd e))"

definition pipeline_fetch ::
  "'w hiredis \<Rightarrow> redis_set_error \<Rightarrow> string list \<Rightarrow> ((bool \<times> redis_set_error) list, 'w redis) oper" where
  "pipeline_fetch hr err = run_all (\<lambda>k. processSetRedisReply hr k err)"

lemma append_healthy:
  assumes "pipeline_laws hr up kv pend due" and "healthy up s"
  shows "\<exists>w. storeBinaryForPipline hr k d s = Inr (True, s\<lparr>world := w\<rparr>) \<and> healthy up (s\<lparr>world := w\<rparr>)
     \<and> kv w = kv (world s) \<and> pend w = pend (world s) @ [(k, d)] \<and> due w = Suc (due (world s))"
proof -
  have "up (world s)" using assms(2) by (simp add: healthy_def)
  with assms(1) obtain w where "h_append hr [''SET'', k, d] (Some False) (world s) = Some (w, False, True)" "up w"
      "kv w = kv (world s)" "pend w = pend (world s) @ [(k, d)]" "due w = Suc (due (world s))"
    unfolding pipeline_laws_def by blast
  with assms(2) show ?thesis
    by (intro exI [of _ w])
       (simp add: storeBinaryForPipline_def bnd_def context_view_healthy set_context_err_healthy healthy_world)
qed

lemma fetch_healthy:
  assumes "pipeline_laws hr up kv pend due" and "healthy up s" and "due (world s) = Suc n"
  shows "\<exists>w q. processSetRedisReply hr k err s = Inr ((True, err), s\<lparr>world := w\<rparr>) \<and> healthy up (s\<lparr>world := w\<rparr>)
     \<and> due w = n \<and> pend (world s) = q @ pend w \<and> kv w = kv (world s) ++ map_of (rev q) \<and> length (pend w) \<le> n"
proof -
  have "up (world s)" using assms(2) by (simp add: healthy_def)
  with assms(1,3) obtain w q where "h_get_reply hr (Some False) (world s) = Some (w, False, True, Some (RStatus ''OK''))" "up w"
      "due w = n" "pend (world s) = q @ pend w" "kv w = kv (world s) ++ map_of (rev q)" "length (pend w) \<le> n"
    unfolding pipeline_laws_def by blast
  with assms(2) show ?thesis
    by (intro exI [of _ w] exI [of _ q])
       (simp add: processSetRedisReply_def bnd_def context_view_healthy set_context_err_healthy healthy_world)
qed

lemma pipeline_store_healthy:
  assumes "pipeline_laws hr up kv pend due" and "healthy up s"
  shows "\<exists>w. pipeline_store hr es s = Inr (replicate (length es) True, s\<lparr>world := w\<rparr>) \<and> healthy up (s\<lparr>world := w\<rparr>)
     \<and> kv w = kv (world s) \<and> pend w = pend (world s) @ es \<and> due w = due (world s) + length es"
  using assms(2)
proof (induction es arbitrary: s)
  case Nil
  then show ?case by (intro exI [of _ "world s"]) (simp add: pipeline_store_def ret_def)
next
  case (Cons e es)
  obtain w where w: "storeBinaryForPipline hr (fst e) (snd e) s = Inr (True, s\<lparr>world := w\<rparr>)" "healthy up (s\<lparr>world := w\<rparr>)"
      "kv w = kv (world s)" "pend w = pend (world s) @ [e]" "due w = Suc (due (world s))"
    using append_healthy [OF assms(1) Cons.prems, of "fst e" "snd e"] by auto
  from Cons.IH [OF w(2)] obtain w' where
      "pipeline_store hr es (s\<lparr>world := w\<rparr>) = Inr (replicate (length es) True, s\<lparr>world := w'\<rparr>)" "healthy up (s\<lparr>world := w'\<rparr>)"
      "kv w' = kv w" "pend w' = pend w @ es" "due w' = due w + length es"
    by auto
  with w show ?case
    by (intro exI [of _ w']) (simp add: pipeline_store_def bnd_def ret_def)
qed

lemma pipeline_fetch_healthy:
  assumes "pipeline_laws hr up kv pend due" and "healthy up s"
    and "due (world s) = length ks" and "length (pend (world s)) \<le> length ks"
  shows "\<exists>w. pipeline_fetch hr err ks s = Inr (replicate (length ks) (True, err), s\<lparr>world := w\<rparr>)
     \<and> healthy up (s\<lparr>world := w\<rparr>) \<and> pend w = [] \<and> due w = 0 \<and> kv w = kv (world s) ++ map_of (rev (pend (world s)))"
  using assms(2-4)
proof (induction ks arbitrary: s)
  case Nil
  then show ?case by (intro exI [of _ "world s"]) (simp add: pipeline_fetch_def ret_def)
next
  case (Cons k ks)
  then have d: "due (world s) = Suc (length ks)" by simp
  obtain w q where w: "processSetRedisReply hr k err s = Inr ((True, err), s\<lparr>world := w\<rparr>)" "healthy up (s\<lparr>world := w\<rparr>)"
      "due w = length ks" "pend (world s) = q @ pend w" "kv w = kv (world s) ++ map_of (rev q)" "length (pend w) \<le> length ks"
    using fetch_healthy [OF assms(1) Cons.prems(1) d] by blast
  from Cons.IH [of "s\<lparr>world := w\<rparr>"] w obtain w' where
      "pipeline_fetch hr err ks (s\<lparr>world := w\<rparr>) = Inr (replicate (length ks) (True, err), s\<lparr>world := w'\<rparr>)"
      "healthy up (s\<lparr>world := w'\<rparr>)" "pend w' = []" "due w' = 0" "kv w' = kv w ++ map_of (rev (pend w))"
    by auto
  with w show ?case
    by (intro exI [of _ w']) (simp add: pipeline_fetch_def bnd_def ret_def)
qed

lemma plain_store_healthy:
  assumes "redis_laws hr up kv" and "healthy up s"
    and "\<forall>e \<in> set es. CHR 0x00 \<notin> set (fst e) \<and> snd e \<noteq> []"
  shows "\<exists>w. run_all (\<lambda>e. storeBinary hr (fst e) (Some (snd e))) es s = Inr (replicate (length es) True, s\<lparr>world := w\<rparr>)
     \<and> healthy up (s\<lparr>world := w\<rparr>) \<and> kv w = kv (world s) ++ map_of (rev es)"
  using assms(2,3)
proof (induction es arbitrary: s)
  case Nil
  then show ?case by (intro exI [of _ "world s"]) (simp add: ret_def)
next
  case (Cons e es)
  obtain k d where e: "e = (k, d)" by fastforce
  have k: "c_str k = k" "d \<noteq> []" using Cons.prems(2) e by (auto simp: c_str_def takeWhile_eq_all_conv)
  obtain w where w: "storeBinary hr k (Some d) s = Inr (True, s\<lparr>world := w\<rparr>)" "healthy up (s\<lparr>world := w\<rparr>)"
      "kv w = (kv (world s))(k \<mapsto> d)"
    using storeValue_healthy [OF assms(1) Cons.prems(1), of k d] k by (auto simp: storeValue_def storeBinary_def)
  from Cons.IH [OF w(2)] Cons.prems(2) obtain w' where
      "run_all (\<lambda>e. storeBinary hr (fst e) (Some (snd e))) es (s\<lparr>world := w\<rparr>) = Inr (replicate (length es) True, s\<lparr>world := w'\<rparr>)"
      "healthy up (s\<lparr>world := w'\<rparr>)" "kv w' = kv w ++ map_of (rev es)"
    by auto
  with w e show ?case
    by (intro exI [of _ w']) (simp add: bnd_def ret_def entries_cons del: rev.simps)
qed

section \<open>A reference server with a pipeline\<close>

fun pipe_command ::
  "string list \<Rightarrow> bool option \<Rightarrow> (string \<times> string) list \<times> 'q
    \<Rightarrow> (((string \<times> string) list \<times> 'q) \<times> bool \<times> redis_reply option) option" where
  "pipe_command [c, k, v] ctx (w, q) =
     (if c = ''SET'' then Some (((k, v) # w, q), False, Some (RStatus ''OK'')) else None)"
| "pipe_command [c, k] ctx (w, q) =
     (if c = ''GET'' then Some ((w, q), False, Some (case map_of w k of None \<Rightarrow> RNil | Some v \<Rightarrow> RString v))
      else if c = ''EXISTS'' then Some ((w, q), False, Some (RInteger (if map_of w k = None then 0 else 1)))
      else None)"
| "pipe_command argv ctx w = None"

fun pipe_append ::
  "string list \<Rightarrow> bool option \<Rightarrow> 'l \<times> (string \<times> string) list \<times> nat
    \<Rightarrow> (('l \<times> (string \<times> string) list \<times> nat) \<times> bool \<times> bool) option" where
  "pipe_append [c, k, v] ctx (w, q, n) = Some ((w, q @ [(k, v)], Suc n), False, True)"
| "pipe_append argv ctx w = None"

fun pipe_reply ::
  "bool option \<Rightarrow> (string \<times> string) list \<times> (string \<times> string) list \<times> nat
    \<Rightarrow> (((string \<times> string) list \<times> (string \<times> string) list \<times> nat) \<times> bool \<times> bool \<times> redis_reply option) option" where
  "pipe_reply ctx (w, q, n) = Some ((rev q @ w, [], n - 1), False, True, Some (RStatus ''OK''))"

definition pipe_server :: "((string \<times> string) list \<times> (string \<times> string) list \<times> nat) hiredis" where
  "pipe_server =
     \<lparr>h_connect = \<lambda>ep tv w. (w, Some False), h_command = pipe_command, h_append = pipe_append, h_get_reply = pipe_reply\<rparr>"

definition kv_of :: "(string \<times> string) list \<times> 'q \<Rightarrow> kv_map" where
  "kv_of w = map_of (fst w)"

lemma pipe_server_laws: "redis_laws pipe_server (\<lambda>_. True) kv_of"
  by (simp add: redis_laws_def pipe_server_def kv_of_def fun_eq_iff)

lemma pipe_server_exists: "exists_law pipe_server (\<lambda>_. True) kv_of"
  by (simp add: exists_law_def pipe_server_def kv_of_def)

lemma pipe_server_pipeline: "pipeline_laws pipe_server (\<lambda>_. True) kv_of (fst \<circ> snd) (snd \<circ> snd)"
  by (simp add: pipeline_laws_def pipe_server_def kv_of_def)

section \<open>Properties\<close>

text \<open>
  C2. On a connected object and a reachable server, the class is a map from keys to texts:
  any sequence of calls that store (strings, blocks, booleans, integers of all widths),
  ask for a key or load gives the answers that the same calls give on the map, ends in
  the same fault (loading an absent key, a text that is no number, a number out of
  range), and leaves the store with the contents of the map.
\<close>

theorem redis_refines_map:
  assumes "redis_laws hr up kv" and "exists_law hr up kv" and "healthy up s"
  shows "case run_all map_exec calls (kv (world s)) of
      Inl e \<Rightarrow> run_all (redis_exec hr) calls s = Inl e
    | Inr (answers, m) \<Rightarrow>
        \<exists>s'. run_all (redis_exec hr) calls s = Inr (answers, s') \<and> healthy up s' \<and> kv (world s') = m"
proof -
  have c: "connected hr up kv s" using assms by (simp add: connected_def)
  show ?thesis
    using store_map.run_simulates [OF c, of calls, symmetric] store_map.run_keeps_inv [OF c, of calls]
    by (auto simp: outcome_def connected_def split: sum.splits prod.splits)
qed

theorem redis_refines_map_witness:
  "\<exists>s'. run_all (redis_exec pipe_server)
            [StoreLInt ''a'' (- 5), StoreBool ''b'' True, IsKeyExist ''c'', GetSInt ''a'', GetBool ''b''] (redis_at ([], [], 0))
          = Inr ([Flag True, Flag True, Flag False, Number (- 5), Flag True], s')
      \<and> map_of (fst (world s')) = [''a'' \<mapsto> ''-5'', ''b'' \<mapsto> ''1'']"
proof -
  let ?cs = "[StoreLInt ''a'' (- 5), StoreBool ''b'' True, IsKeyExist ''c'', GetSInt ''a'', GetBool ''b'']"
  have n: "dec_int (- 5) = ''-5''" "scan_int ''-5'' = Some (- 5)" "scan_int ''1'' = Some 1" by code_simp+
  have e: "kv_of (world (redis_at ([], [], 0))) = Map.empty" by (simp add: redis_at_def kv_of_def)
  have "run_all map_exec ?cs Map.empty
      = Inr ([Flag True, Flag True, Flag False, Number (- 5), Flag True], [''a'' \<mapsto> ''-5'', ''b'' \<mapsto> ''1''])"
    by (simp add: bnd_def ret_def put_def load_def number_def signed_mod_def c_str_def n)
  then show ?thesis
    using redis_refines_map [OF pipe_server_laws pipe_server_exists redis_at_healthy, of ?cs "([], [], 0)"]
    unfolding e by (simp only: sum.case prod.case kv_of_def) blast
qed

text \<open>
  C23. Pipelined and plain storing agree: appending a list of entries and then fetching as
  many replies reports success for each, sets no error, and leaves exactly the store that
  storing the entries one after another leaves, when no key holds a NUL character and no
  block is empty.
\<close>

theorem pipeline_equals_plain:
  assumes "redis_laws hr up kv" and "pipeline_laws hr up kv pend due" and "healthy up s"
    and "pend (world s) = []" and "due (world s) = 0"
    and "\<forall>e \<in> set es. CHR 0x00 \<notin> set (fst e) \<and> snd e \<noteq> []"
  shows "\<exists>s1 s2 s3. pipeline_store hr es s = Inr (replicate (length es) True, s1)
     \<and> pipeline_fetch hr err (map fst es) s1 = Inr (replicate (length es) (True, err), s2)
     \<and> run_all (\<lambda>e. storeBinary hr (fst e) (Some (snd e))) es s = Inr (replicate (length es) True, s3)
     \<and> kv (world s2) = kv (world s3) \<and> kv (world s3) = kv (world s) ++ map_of (rev es)
     \<and> pend (world s2) = [] \<and> due (world s2) = 0"
proof -
  obtain w1 where w1: "pipeline_store hr es s = Inr (replicate (length es) True, s\<lparr>world := w1\<rparr>)"
      "healthy up (s\<lparr>world := w1\<rparr>)" "kv w1 = kv (world s)" "pend w1 = es" "due w1 = length es"
    using pipeline_store_healthy [OF assms(2,3), of es] assms(4,5) by auto
  then obtain w2 where "pipeline_fetch hr err (map fst es) (s\<lparr>world := w1\<rparr>) = Inr (replicate (length es) (True, err), s\<lparr>world := w2\<rparr>)"
      "pend w2 = []" "due w2 = 0" "kv w2 = kv w1 ++ map_of (rev es)"
    using pipeline_fetch_healthy [OF assms(2) w1(2), of "map fst es" err] by auto
  with w1 plain_store_healthy [OF assms(1,3,6)] show ?thesis by fastforce
qed


theorem pipeline_equals_plain_witness:
  "\<exists>s1 s2. pipeline_store pipe_server [(''a'', ''1''), (''b'', ''2'')] (redis_at ([], [], 0)) = Inr ([True, True], s1)
     \<and> pipeline_fetch pipe_server \<lparr>err_key = [], err_message = []\<rparr> [''a'', ''b''] s1
         = Inr ([(True, \<lparr>err_key = [], err_message = []\<rparr>), (True, \<lparr>err_key = [], err_message = []\<rparr>)], s2)
     \<and> map_of (fst (world s2)) = [''a'' \<mapsto> ''1'', ''b'' \<mapsto> ''2'']"
proof -
  let ?es = "[(''a'', ''1''), (''b'', ''2'')]"
  have "(fst \<circ> snd) (world (redis_at ([] :: (string \<times> string) list, [] :: (string \<times> string) list, 0 :: nat))) = []"
    "(snd \<circ> snd) (world (redis_at ([] :: (string \<times> string) list, [] :: (string \<times> string) list, 0 :: nat))) = 0"
    by (simp_all add: redis_at_def)
  from pipeline_equals_plain [OF pipe_server_laws pipe_server_pipeline redis_at_healthy this, of ?es "\<lparr>err_key = [], err_message = []\<rparr>"]
  obtain s1 s2 where "pipeline_store pipe_server ?es (redis_at ([], [], 0)) = Inr ([True, True], s1)"
      "pipeline_fetch pipe_server \<lparr>err_key = [], err_message = []\<rparr> [''a'', ''b''] s1
         = Inr ([(True, \<lparr>err_key = [], err_message = []\<rparr>), (True, \<lparr>err_key = [], err_message = []\<rparr>)], s2)"
      "kv_of (world s2) = kv_of (world (redis_at ([] :: (string \<times> string) list, [] :: (string \<times> string) list, 0 :: nat)))
         ++ map_of (rev ?es)"
    by (auto simp: numeral_2_eq_2)
  then show ?thesis by (auto simp: kv_of_def redis_at_def)
qed

end
