(* ===== verification/Modbus_Fleet.thy ===== *)
theory Modbus_Fleet
  imports Modbus_Client
begin

text \<open>
  The tasks of all Modbus devices together: \<open>runTask\<close> (\<open>core/modbus/app_modbus_client.cc\<close>)
  starts one polling task per device, and the tasks take turns in an order nobody controls.
  A schedule is a list of device identifiers, one per polling pass.
\<close>

section \<open>Schedules\<close>

text \<open>A task whose device has no configuration has returned at its start and makes no pass.\<close>

fun run_schedule ::
  "'m libmodbus \<Rightarrow> 'w hiredis \<Rightarrow> redis_defaults \<Rightarrow> fp_env \<Rightarrow> (data_points_t list \<Rightarrow> data_points_t list)
    \<Rightarrow> config_data \<Rightarrow> string list \<Rightarrow> 'm app_modbus \<times> 'w redis \<Rightarrow> ('m app_modbus \<times> 'w redis) result" where
  "run_schedule lib hr d fp sorter cfg [] st = Inr st"
| "run_schedule lib hr d fp sorter cfg (i # ids) st =
     (case getModbus cfg i of
        None \<Rightarrow> run_schedule lib hr d fp sorter cfg ids st
      | Some config \<Rightarrow>
          rbind (device_task_pass lib hr d fp sorter config i st) (run_schedule lib hr d fp sorter cfg ids))"

text \<open>
  A device that is polled as configured: its points form a gapless block, and every read of
  the block over its link returns the same registers; \<open>lup\<close> describes the links that answer.
\<close>

definition points_of :: "(data_points_t list \<Rightarrow> data_points_t list) \<Rightarrow> config_data \<Rightarrow> string \<Rightarrow> data_points_t list" where
  "points_of sorter cfg i = (case getModbus cfg i of None \<Rightarrow> [] | Some c \<Rightarrow> sorter (mb_data_points c))"

definition block_device ::
  "'m libmodbus \<Rightarrow> (string \<Rightarrow> 'm \<Rightarrow> bool) \<Rightarrow> (string \<Rightarrow> 16 word list) \<Rightarrow> (data_points_t list \<Rightarrow> data_points_t list)
    \<Rightarrow> config_data \<Rightarrow> string \<Rightarrow> bool" where
  "block_device lib lup vals sorter cfg i \<longleftrightarrow>
     (\<exists>c. getModbus cfg i = Some c \<and> mb_device_id c = i \<and> mb_data_points c \<noteq> [])
     \<and> contiguous (points_of sorter cfg i) \<and> length (vals i) = total_regs (points_of sorter cfg i)
     \<and> (\<forall>w. lup i w \<longrightarrow>
          (\<exists>w'. mb_read_registers lib (dp_address (hd (points_of sorter cfg i))) (int (total_regs (points_of sorter cfg i))) w
                  = (w', Some (vals i)) \<and> lup i w'))"

definition link_up :: "(string \<Rightarrow> 'm \<Rightarrow> bool) \<Rightarrow> 'm app_modbus \<Rightarrow> string \<Rightarrow> bool" where
  "link_up lup app i \<longleftrightarrow>
     (\<exists>api. getDeviceApi app i = Some api \<and> api_wf api \<and> ctx api \<noteq> None \<and> lup i (link_world api))"

definition device_entries ::
  "fp_env \<Rightarrow> (string \<Rightarrow> 16 word list) \<Rightarrow> (data_points_t list \<Rightarrow> data_points_t list) \<Rightarrow> config_data \<Rightarrow> string
    \<Rightarrow> (string \<times> string) list" where
  "device_entries fp vals sorter cfg i = stored_entries fp i (vals i) 0 (points_of sorter cfg i)"

lemma pass_stores_block:
  assumes "redis_laws hr up kv" and "up (world s)" and "redis_ready d" and "sorts_by_address sorter"
    and "block_device lib lup vals sorter cfg i" and "link_up lup app i" and "app_running app"
    and "getModbus cfg i = Some config"
  shows "\<exists>app' s'. device_task_pass lib hr d fp sorter config i (app, s) = Inr (app', s') \<and> up (world s')
     \<and> kv (world s') = kv (world s) ++ map_of (rev (device_entries fp vals sorter cfg i))
     \<and> app_running app' \<and> link_up lup app' i \<and> (\<forall>j. j \<noteq> i \<longrightarrow> getDeviceApi app' j = getDeviceApi app j)"
proof -
  let ?ps = "points_of sorter cfg i"
  have c: "mb_device_id config = i" "mb_data_points config \<noteq> []" "sorter (mb_data_points config) = ?ps"
    using assms(5,8) by (auto simp: block_device_def points_of_def)
  obtain api where api: "getDeviceApi app i = Some api" "api_wf api" "ctx api \<noteq> None" "lup i (link_world api)"
    using assms(6) by (auto simp: link_up_def)
  then obtain w where w: "mb_read_registers lib (dp_address (hd ?ps)) (int (total_regs ?ps)) (link_world api) = (w, Some (vals i))"
      "lup i w"
    using assms(5) by (auto simp: block_device_def)
  have "contiguous ?ps" "length (vals i) = total_regs ?ps" using assms(5) by (simp_all add: block_device_def)
  from poll_contiguous [OF assms(1-4) c(2,3) this(1) api(2,3) w(1) this(2), of fp]
  obtain s' where s': "processContinuousRegisters lib hr d fp sorter config (api, s) = Inr (api\<lparr>link_world := w\<rparr>, s')"
      "up (world s')" "kv (world s') = kv (world s) ++ map_of (rev (device_entries fp vals sorter cfg i))"
    unfolding c(1) device_entries_def by blast
  let ?app = "app\<lparr>app_devices := (app_devices app)(i \<mapsto> api\<lparr>link_world := w\<rparr>)\<rparr>"
  have "link_up lup ?app i" using api(2,3) w(2) by (simp add: link_up_def getDeviceApi_def api_wf_def)
  with s' api(1) assms(7) show ?thesis
    by (intro exI [of _ ?app] exI [of _ s']) (simp add: device_task_pass_def getDeviceApi_def)
qed

lemma schedule_stores_blocks:
  assumes "redis_laws hr up kv" and "redis_ready d" and "sorts_by_address sorter"
    and "\<forall>i \<in> set ids. block_device lib lup vals sorter cfg i"
    and "up (world s)" and "\<forall>i \<in> set ids. link_up lup app i" and "app_running app"
  shows "\<exists>app' s'. run_schedule lib hr d fp sorter cfg ids (app, s) = Inr (app', s') \<and> up (world s')
     \<and> kv (world s') = kv (world s) ++ map_of (rev (concat (map (device_entries fp vals sorter cfg) ids)))"
  using assms(4-7)
proof (induction ids arbitrary: app s)
  case (Cons i ids)
  obtain config where config: "getModbus cfg i = Some config"
    using Cons.prems(1) by (auto simp: block_device_def)
  obtain app1 s1 where p: "device_task_pass lib hr d fp sorter config i (app, s) = Inr (app1, s1)" "up (world s1)"
      "kv (world s1) = kv (world s) ++ map_of (rev (device_entries fp vals sorter cfg i))"
      "app_running app1" "link_up lup app1 i" "\<forall>j. j \<noteq> i \<longrightarrow> getDeviceApi app1 j = getDeviceApi app j"
    using pass_stores_block [OF assms(1) Cons.prems(2) assms(2,3), of lib lup vals cfg i app config fp] config Cons.prems by auto
  have "\<forall>j \<in> set ids. link_up lup app1 j"
    using p(5,6) Cons.prems(3) by (metis link_up_def list.set_intros(2))
  from Cons.IH [OF _ p(2) this p(4)] Cons.prems(1)
  obtain app2 s2 where "run_schedule lib hr d fp sorter cfg ids (app1, s1) = Inr (app2, s2)" "up (world s2)"
      "kv (world s2) = kv (world s1) ++ map_of (rev (concat (map (device_entries fp vals sorter cfg) ids)))"
    by auto
  with p config show ?case by (simp add: map_add_assoc)
qed simp

section \<open>Keys of different devices\<close>

lemma prefix_upto_colon: "CHR '':'' \<notin> set i \<Longrightarrow> takeWhile (\<lambda>c. c \<noteq> CHR '':'') (i @ CHR '':'' # x) = i"
  by (induction i) auto

lemma c_str_key:
  assumes "CHR 0x00 \<notin> set i"
  shows "c_str (modbus_key i p) = ''modbus_data:'' @ i @ '':'' @ c_str (dp_name p)"
proof -
  have "takeWhile (\<lambda>c. c \<noteq> CHR 0x00) (i @ CHR '':'' # x) = i @ CHR '':'' # takeWhile (\<lambda>c. c \<noteq> CHR 0x00) x" for x
    using assms by (induction i) auto
  then show ?thesis by (simp add: c_str_def modbus_key_def)
qed

definition plain_id :: "string \<Rightarrow> bool" where
  "plain_id i \<longleftrightarrow> CHR '':'' \<notin> set i \<and> CHR 0x00 \<notin> set i"

lemma key_device:
  assumes "plain_id i" and "plain_id j" and "c_str (modbus_key i p) = c_str (modbus_key j q)"
  shows "i = j \<and> c_str (dp_name p) = c_str (dp_name q)"
proof -
  have "i @ CHR '':'' # c_str (dp_name p) = j @ CHR '':'' # c_str (dp_name q)"
    using assms by (simp add: plain_id_def c_str_key)
  moreover from this have "i = j"
    using prefix_upto_colon [of i] prefix_upto_colon [of j] assms(1,2) unfolding plain_id_def by metis
  ultimately show ?thesis by simp
qed

text \<open>An identifier with a colon can share keys with another device.\<close>

lemma key_collision:
  "modbus_key ''a:b'' (p\<lparr>dp_name := ''c''\<rparr>) = modbus_key ''a'' (q\<lparr>dp_name := ''b:c''\<rparr>)"
  by (simp add: modbus_key_def)

lemma entries_keys: "fst ` set (stored_entries fp i buf n ps) = (\<lambda>p. c_str (modbus_key i p)) ` set ps"
  by (induction ps arbitrary: n) auto

lemma concat_lookup:
  assumes "i \<in> set ids" and "k \<in> fst ` set (f i)" and "\<And>j. j \<in> set ids \<Longrightarrow> k \<in> fst ` set (f j) \<Longrightarrow> j = i"
  shows "map_of (rev (concat (map f ids))) k = map_of (rev (f i)) k"
  using assms(1,3)
proof (induction ids rule: rev_induct)
  case (snoc j js)
  have *: "map_of (rev (f j)) k \<noteq> None \<longleftrightarrow> k \<in> fst ` set (f j)" by (simp add: map_of_eq_None_iff)
  show ?case
  proof (cases "j = i")
    case True
    obtain v where "map_of (rev (f i)) k = Some v" using * assms(2) True by auto
    with True show ?thesis by (simp add: map_add_def)
  next
    case False
    then have "k \<notin> fst ` set (f j)" "i \<in> set js" using snoc.prems by auto
    moreover from this(1) have "map_of (rev (f j)) k = None" using * by blast
    moreover have "map_of (rev (concat (map f js))) k = map_of (rev (f i)) k"
      using snoc.IH [OF \<open>i \<in> set js\<close>] snoc.prems(2) by simp
    ultimately show ?thesis by (simp add: map_add_def)
  qed
qed simp

lemma concat_lookup_other:
  "k \<notin> (\<Union>i \<in> set ids. fst ` set (f i)) \<Longrightarrow> map_of (rev (concat (map f ids))) k = None"
  unfolding map_of_eq_None_iff by force

section \<open>Properties\<close>

text \<open>
  C1. All devices together: when every scheduled device has a gapless block of points, a
  connected link that answers, and an identifier without colon and NUL characters, then
  every schedule of polling passes, in any order and with any repetitions, ends without a
  fault. Redis then holds under every key of a scheduled device what a pass over this
  device alone stores, whatever the order, and every other key is unchanged.
\<close>

theorem schedules_do_not_interfere:
  assumes "redis_laws hr up kv" and "up (world s)" and "redis_ready d" and "sorts_by_address sorter"
    and "app_running app" and "\<forall>i \<in> set ids. plain_id i"
    and "\<forall>i \<in> set ids. block_device lib lup vals sorter cfg i" and "\<forall>i \<in> set ids. link_up lup app i"
  shows "\<exists>app' s'. run_schedule lib hr d fp sorter cfg ids (app, s) = Inr (app', s')
     \<and> (\<forall>i \<in> set ids. \<forall>p \<in> set (points_of sorter cfg i).
          kv (world s') (c_str (modbus_key i p)) = map_of (rev (device_entries fp vals sorter cfg i)) (c_str (modbus_key i p))
          \<and> kv (world s') (c_str (modbus_key i p)) \<noteq> None)
     \<and> (\<forall>k. (\<forall>i \<in> set ids. \<forall>p \<in> set (points_of sorter cfg i). k \<noteq> c_str (modbus_key i p)) \<longrightarrow>
          kv (world s') k = kv (world s) k)"
proof -
  let ?f = "device_entries fp vals sorter cfg"
  obtain app' s' where r: "run_schedule lib hr d fp sorter cfg ids (app, s) = Inr (app', s')"
      "kv (world s') = kv (world s) ++ map_of (rev (concat (map ?f ids)))"
    using schedule_stores_blocks [OF assms(1,3,4,7,2,8,5), of fp] by blast
  have keys: "fst ` set (?f i) = (\<lambda>p. c_str (modbus_key i p)) ` set (points_of sorter cfg i)" for i
    by (simp add: device_entries_def entries_keys)
  have "kv (world s') (c_str (modbus_key i p)) = map_of (rev (?f i)) (c_str (modbus_key i p))
      \<and> kv (world s') (c_str (modbus_key i p)) \<noteq> None"
    if i: "i \<in> set ids" "p \<in> set (points_of sorter cfg i)" for i p
  proof -
    have k: "c_str (modbus_key i p) \<in> fst ` set (?f i)" using i(2) unfolding keys by blast
    have "j = i" if "j \<in> set ids" "c_str (modbus_key i p) \<in> fst ` set (?f j)" for j
      using that i(1) assms(6) key_device unfolding keys by (metis imageE)
    from concat_lookup [of i ids "c_str (modbus_key i p)" ?f, OF i(1) k this]
    have "map_of (rev (concat (map ?f ids))) (c_str (modbus_key i p)) = map_of (rev (?f i)) (c_str (modbus_key i p))" by blast
    moreover have "map_of (rev (?f i)) (c_str (modbus_key i p)) \<noteq> None" using k by (simp add: map_of_eq_None_iff)
    ultimately show ?thesis by (auto simp: r(2) map_add_def)
  qed
  moreover have "kv (world s') k = kv (world s) k"
    if "\<forall>i \<in> set ids. \<forall>p \<in> set (points_of sorter cfg i). k \<noteq> c_str (modbus_key i p)" for k
  proof -
    have "map_of (rev (concat (map ?f ids))) k = None"
      by (rule concat_lookup_other) (use that in \<open>auto simp: keys\<close>)
    then show ?thesis by (simp add: r(2) map_add_def)
  qed
  ultimately show ?thesis using r(1) by blast
qed


definition fleet_config :: config_data where
  "fleet_config =
     \<lparr>cfg_modbus = [''m1'' \<mapsto> (demo_device [demo_point ''a'' 7 INT16])\<lparr>mb_device_id := ''m1''\<rparr>,
                    ''m2'' \<mapsto> (demo_device [demo_point ''a'' 7 INT16])\<lparr>mb_device_id := ''m2''\<rparr>],
      cfg_iec61850 = Map.empty, cfg_iec104 = Map.empty\<rparr>"

theorem schedules_do_not_interfere_witness:
  "\<exists>app' s'. run_schedule (demo_lib True (Some [5])) list_server demo_defaults demo_fp
       (sort_key (\<lambda>p. uint (dp_address p))) fleet_config [''m2'', ''m1'', ''m2'']
       (\<lparr>app_running = True, app_devices = [''m1'' \<mapsto> demo_api (Some 0), ''m2'' \<mapsto> demo_api (Some 0)]\<rparr>, redis_at [])
         = Inr (app', s')
     \<and> map_of (world s') ''modbus_data:m1:a'' = Some (dec_int 5)
     \<and> map_of (world s') ''modbus_data:m2:a'' = Some (dec_int 5)"
proof -
  let ?srt = "sort_key (\<lambda>p. uint (dp_address p))"
  let ?app = "\<lparr>app_running = True, app_devices = [''m1'' \<mapsto> demo_api (Some 0), ''m2'' \<mapsto> demo_api (Some 0)]\<rparr>"
  have pts: "points_of ?srt fleet_config i = [demo_point ''a'' 7 INT16]" if "i \<in> {''m1'', ''m2''}" for i
    using that by (auto simp: points_of_def getModbus_def fleet_config_def demo_device_def)
  have "block_device (demo_lib True (Some [5])) (\<lambda>_ _. True) (\<lambda>_. [5]) ?srt fleet_config i" if "i \<in> {''m1'', ''m2''}" for i
    unfolding block_device_def pts [OF that]
    using that by (auto simp: getModbus_def fleet_config_def demo_device_def demo_point_def known_def regs_def demo_lib_def)
  moreover have "link_up (\<lambda>_ _. True) ?app i" if "i \<in> {''m1'', ''m2''}" for i
    using that by (auto simp: link_up_def getDeviceApi_def demo_api_def api_wf_def)
  ultimately show ?thesis
    using schedules_do_not_interfere [OF list_server_laws _ _ sort_key_sorts, where s = "redis_at []" and d = demo_defaults
        and app = ?app and ids = "[''m2'', ''m1'', ''m2'']" and lib = "demo_lib True (Some [5])" and lup = "\<lambda>_ _. True"
        and vals = "\<lambda>_. [5]" and cfg = fleet_config and fp = demo_fp]
    by (simp add: redis_ready_def demo_defaults_def plain_id_def pts device_entries_def point_text_def demo_point_def
        modbus_key_def c_str_def) blast
qed

end
