(* ===== verification/Modbus_Races.thy ===== *)
theory Modbus_Races
  imports Modbus_Api
begin

text \<open>
  The threads of a Modbus link in finer steps (\<open>core/modbus/modbus_api.cc\<close>). Reads and writes
  hold \<open>ctxMutex_\<close> and exclude each other, but the reconnect loop and \<open>set_debug\<close> take no lock:
  the loop tests \<open>ctx_\<close>, creates a context in a local variable, assigns it and tests \<open>ctx_\<close> again
  in four steps, \<open>set_debug\<close> tests \<open>ctx_\<close>, loads it again and uses it in three. The loop runs in a detached
  thread with a plain pointer to the object, so it can go on after the destructor; every
  other caller holds a shared pointer.
\<close>

section \<open>Threads in single steps\<close>

datatype loop_pc = AtTest int | Creating int | Created int "nat option" | Assigned int | LoopDone

datatype debug_pc = Idle | Tested | Loaded "nat option"

record 'w fine_link =
  obj :: "'w modbus_api"
  freed :: bool
  loop_at :: loop_pc
  debug_at :: debug_pc

datatype 'w fine = Fine "'w fine_link" | FineFault fault

datatype locked_call =
    Read "16 word" int "16 word list"
  | Write "16 word" "16 word"
  | WriteMany "16 word" int "16 word list"
  | Stop

datatype fine_event = LoopTest | LoopCreate | LoopAssign | LoopCheck | Call locked_call | DebugTest | DebugLoad | DebugUse | Destroy

definition with_object :: "('w modbus_api \<Rightarrow> 'w fine) \<Rightarrow> 'w fine_link \<Rightarrow> 'w fine" where
  "with_object f s = (if freed s then FineFault UseAfterFree else f (obj s))"

definition loop_test :: "int \<Rightarrow> 'w fine_link \<Rightarrow> 'w fine" where
  "loop_test r s = with_object (\<lambda>a. Fine (s\<lparr>loop_at :=
     if \<not> runing a then LoopDone
     else if ctx a \<noteq> None then AtTest r
     else if maxRetries a > 0 \<and> r \<ge> maxRetries a then LoopDone
     else Creating r\<rparr>)) s"

definition loop_create :: "'w libmodbus \<Rightarrow> int \<Rightarrow> 'w fine_link \<Rightarrow> 'w fine" where
  "loop_create lib r s = with_object (\<lambda>a.
     case createModbusContext lib a of
       Inl f \<Rightarrow> FineFault f
     | Inr (c, a') \<Rightarrow> Fine (s\<lparr>obj := a', loop_at := Created r c\<rparr>)) s"

definition loop_assign :: "int \<Rightarrow> nat option \<Rightarrow> 'w fine_link \<Rightarrow> 'w fine" where
  "loop_assign r c s = with_object (\<lambda>a.
     Fine (s\<lparr>obj := a\<lparr>ctx := c\<rparr>, loop_at := Assigned r\<rparr>)) s"

definition loop_check :: "int \<Rightarrow> 'w fine_link \<Rightarrow> 'w fine" where
  "loop_check r s = with_object (\<lambda>a. Fine (s\<lparr>loop_at := AtTest (if ctx a \<noteq> None then 0 else r + 1)\<rparr>)) s"

fun locked :: "'w libmodbus \<Rightarrow> locked_call \<Rightarrow> 'w modbus_api \<Rightarrow> 'w modbus_api result" where
  "locked lib (Read a n d) s = rbind (modbus_readRegisters lib a n d s) (\<lambda>(_, s'). Inr s')"
| "locked lib (Write a v) s = rbind (modbus_writeRegister lib a v s) (\<lambda>(_, s'). Inr s')"
| "locked lib (WriteMany a n src) s = rbind (modbus_writeRegisters lib a n src s) (\<lambda>(_, s'). Inr s')"
| "locked lib Stop s = Inr (modbus_stop s)"

definition fine_call :: "'w libmodbus \<Rightarrow> locked_call \<Rightarrow> 'w fine_link \<Rightarrow> 'w fine" where
  "fine_call lib c s = (case locked lib c (obj s) of Inl f \<Rightarrow> FineFault f | Inr a \<Rightarrow> Fine (s\<lparr>obj := a\<rparr>))"

text \<open>\<open>modbus_set_debug\<close> of the library rejects a null pointer with an error code, which nobody reads.\<close>

definition debug_use :: "'w libmodbus \<Rightarrow> nat option \<Rightarrow> 'w fine_link \<Rightarrow> 'w fine" where
  "debug_use lib p s =
     (case p of
        None \<Rightarrow> Fine (s\<lparr>debug_at := Idle\<rparr>)
      | Some q \<Rightarrow>
          if q \<in> live_ctx (obj s)
          then Fine (s\<lparr>obj := (obj s)\<lparr>link_world := mb_set_debug lib (link_world (obj s))\<rparr>, debug_at := Idle\<rparr>)
          else FineFault UseAfterFree)"

definition fine_destroy :: "'w libmodbus \<Rightarrow> 'w fine_link \<Rightarrow> 'w fine" where
  "fine_destroy lib s =
     (case destroy_ModbusApi lib (obj s) of
        Inl f \<Rightarrow> FineFault f
      | Inr (_, a) \<Rightarrow> Fine (s\<lparr>obj := a, freed := True\<rparr>))"

inductive fine_step :: "'w libmodbus \<Rightarrow> 'w fine \<Rightarrow> fine_event \<Rightarrow> 'w fine \<Rightarrow> bool" for lib where
  f_test: "loop_at s = AtTest r \<Longrightarrow> fine_step lib (Fine s) LoopTest (loop_test r s)"
| f_create: "loop_at s = Creating r \<Longrightarrow> fine_step lib (Fine s) LoopCreate (loop_create lib r s)"
| f_assign: "loop_at s = Created r c \<Longrightarrow> fine_step lib (Fine s) LoopAssign (loop_assign r c s)"
| f_check: "loop_at s = Assigned r \<Longrightarrow> fine_step lib (Fine s) LoopCheck (loop_check r s)"
| f_call: "\<not> freed s \<Longrightarrow> fine_step lib (Fine s) (Call c) (fine_call lib c s)"
| f_debug_test: "\<not> freed s \<Longrightarrow> debug_at s = Idle \<Longrightarrow>
    fine_step lib (Fine s) DebugTest (Fine (s\<lparr>debug_at := if ctx (obj s) = None then Idle else Tested\<rparr>))"
| f_debug_load: "debug_at s = Tested \<Longrightarrow> fine_step lib (Fine s) DebugLoad (Fine (s\<lparr>debug_at := Loaded (ctx (obj s))\<rparr>))"
| f_debug_use: "debug_at s = Loaded p \<Longrightarrow> fine_step lib (Fine s) DebugUse (debug_use lib p s)"
| f_destroy: "\<not> freed s \<Longrightarrow> debug_at s = Idle \<Longrightarrow> fine_step lib (Fine s) Destroy (fine_destroy lib s)"

inductive_cases fine_step_FineE: "fine_step lib (Fine s) e t"
inductive_simps fine_step_fault: "fine_step lib (FineFault f) e t"

definition fine_start :: "'w libmodbus \<Rightarrow> 'w fine \<Rightarrow> bool" where
  "fine_start lib t \<longleftrightarrow>
     (\<exists>sl ty ch ci pn b pa ip po mr ri w a.
        ModbusApi lib sl ty ch ci pn b pa ip po mr ri w = Inr a
        \<and> t = Fine \<lparr>obj = a, freed = False, loop_at = AtTest 0, debug_at = Idle\<rparr>)"

lemma fine_start_link: "fine_start lib t \<longleftrightarrow>
    (\<exists>a. link_start lib (Link (Some 0) a) \<and> t = Fine \<lparr>obj = a, freed = False, loop_at = AtTest 0, debug_at = Idle\<rparr>)"
  unfolding fine_start_def link_start_def by blast

section \<open>Invariant\<close>

text \<open>While the loop makes a new context nobody else has one: \<open>ctx_\<close> stays null until the assignment.\<close>

fun loop_ok :: "loop_pc \<Rightarrow> 'w modbus_api \<Rightarrow> bool" where
  "loop_ok (AtTest r) a = retries_ok (Some r) (maxRetries a)"
| "loop_ok (Creating r) a = (ctx a = None \<and> 0 \<le> r \<and> (maxRetries a > 0 \<longrightarrow> r < maxRetries a))"
| "loop_ok (Created r c) a =
     (ctx a = None \<and> 0 \<le> r \<and> (maxRetries a > 0 \<longrightarrow> r < maxRetries a) \<and> api_wf (a\<lparr>ctx := c\<rparr>))"
| "loop_ok (Assigned r) a = (0 \<le> r \<and> (maxRetries a > 0 \<longrightarrow> r < maxRetries a))"
| "loop_ok LoopDone a = True"

fun fine_inv :: "'w fine \<Rightarrow> bool" where
  "fine_inv (FineFault f) = (f = OutOfBounds \<or> f = UseAfterFree)"
| "fine_inv (Fine s) = (if freed s then debug_at s = Idle else api_wf (obj s) \<and> loop_ok (loop_at s) (obj s))"

lemma create_keeps_none:
  assumes "ctx a = None" and "createModbusContext lib a = Inr (c, a')"
  shows "ctx a' = None"
  using assms
  by (auto simp: createModbusContext_def modbus_destroy_def bnd_def ret_def Let_def split: prod.splits bool.splits)

lemma loop_test_inv: "fine_inv (Fine s) \<Longrightarrow> loop_at s = AtTest r \<Longrightarrow> fine_inv (loop_test r s)"
  by (auto simp: loop_test_def with_object_def retries_ok_def)

lemma loop_create_inv:
  assumes "fine_inv (Fine s)" and "loop_at s = Creating r"
  shows "fine_inv (loop_create lib r s)"
proof (cases "freed s")
  case False
  then have ok: "api_wf (obj s)" "ctx (obj s) = None" "0 \<le> r" "maxRetries (obj s) > 0 \<longrightarrow> r < maxRetries (obj s)"
    using assms by simp_all
  obtain c a where a: "createModbusContext lib (obj s) = Inr (c, a)" "api_wf (a\<lparr>ctx := c\<rparr>)"
      "maxRetries a = maxRetries (obj s)" "runing a = runing (obj s)"
    by (rule createModbusContext_wf [OF ok(1)])
  moreover have "ctx a = None" by (rule create_keeps_none [OF ok(2) a(1)])
  moreover from this a(2) have "api_wf a" by (simp add: api_wf_def)
  ultimately show ?thesis using False ok by (simp add: loop_create_def with_object_def)
qed (simp add: loop_create_def with_object_def)

lemma loop_assign_inv: "fine_inv (Fine s) \<Longrightarrow> loop_at s = Created r c \<Longrightarrow> fine_inv (loop_assign r c s)"
  by (auto simp: loop_assign_def with_object_def)

lemma loop_check_inv: "fine_inv (Fine s) \<Longrightarrow> loop_at s = Assigned r \<Longrightarrow> fine_inv (loop_check r s)"
  by (auto simp: loop_check_def with_object_def retries_ok_def)

text \<open>A call under the lock keeps the object well formed; without a context it does nothing to it.\<close>

lemma api_wf_stop: "api_wf (modbus_stop a) = api_wf a" "maxRetries (modbus_stop a) = maxRetries a"
  by (simp_all add: modbus_stop_def api_wf_def)

lemma locked_wf:
  assumes "api_wf a"
  shows "case locked lib c a of Inl f \<Rightarrow> f = OutOfBounds
    | Inr a' \<Rightarrow> api_wf a' \<and> maxRetries a' = maxRetries a \<and> (ctx a = None \<longrightarrow> a' = a \<or> a' = modbus_stop a)"
proof (cases "ctx a")
  case None
  then show ?thesis using assms
    by (cases c) (simp_all add: modbus_readRegisters_def modbus_writeRegister_def modbus_writeRegisters_def api_wf_stop)
next
  case (Some p)
  then have live: "p \<in> live_ctx a" using assms by (simp add: api_wf_def)
  note * = destroy_return_wf [OF assms, of lib]
  show ?thesis
  proof (cases c)
    case (Read x n d)
    obtain w r where "mb_read_registers lib x n (link_world a) = (w, r)" by fastforce
    then show ?thesis using Read Some live assms *[of "(False, d)" w]
      by (cases r) (auto simp: modbus_readRegisters_def api_wf_world)
  next
    case (Write x v)
    obtain w r where "mb_write_register lib x v (link_world a) = (w, r)" by fastforce
    then show ?thesis using Write Some live assms *[of False w]
      by (cases r) (auto simp: modbus_writeRegister_def api_wf_world)
  next
    case (WriteMany x n src)
    obtain w r where "mb_write_registers lib x n src (link_world a) = (w, r)" by fastforce
    then show ?thesis using WriteMany Some live assms *[of False w]
      by (cases r) (auto simp: modbus_writeRegisters_def api_wf_world)
  next
    case Stop
    then show ?thesis using assms by (simp add: api_wf_stop)
  qed
qed

lemma loop_ok_stop: "loop_ok l (modbus_stop a) = loop_ok l a"
  by (cases l) (simp_all add: modbus_stop_def api_wf_def)

lemma loop_ok_call:
  assumes "loop_ok l a" and "maxRetries a' = maxRetries a" and "ctx a = None \<longrightarrow> a' = a \<or> a' = modbus_stop a"
  shows "loop_ok l a'"
proof (cases "ctx a = None")
  case True
  then show ?thesis using assms(1,3) loop_ok_stop by metis
next
  case False
  then show ?thesis using assms(1,2) by (cases l) simp_all
qed

lemma fine_call_inv:
  assumes "fine_inv (Fine s)" and "\<not> freed s"
  shows "fine_inv (fine_call lib c s)"
  using locked_wf [of "obj s" lib c] assms loop_ok_call [of "loop_at s" "obj s"]
  by (auto simp: fine_call_def split: sum.splits)

lemma loop_ok_world: "loop_ok l (a\<lparr>link_world := w\<rparr>) = loop_ok l a"
  by (cases l) (simp_all add: api_wf_def)

lemma debug_use_inv: "fine_inv (Fine s) \<Longrightarrow> debug_at s = Loaded p \<Longrightarrow> fine_inv (debug_use lib p s)"
  by (auto simp: debug_use_def api_wf_world loop_ok_world split: option.split)

lemma fine_destroy_inv:
  assumes "fine_inv (Fine s)" and "\<not> freed s" and "debug_at s = Idle"
  shows "\<exists>a. fine_destroy lib s = Fine (s\<lparr>obj := a, freed := True\<rparr>)"
  using modbus_destroy_wf [of "obj s" lib] assms by (auto simp: fine_destroy_def destroy_ModbusApi_def)

lemma fine_step_inv: "fine_step lib t e t' \<Longrightarrow> fine_inv t \<Longrightarrow> fine_inv t'"
proof (induction rule: fine_step.induct)
  case (f_destroy s)
  then show ?case using fine_destroy_inv [of s lib] by auto
next
  case (f_call s c)
  then show ?case by (intro fine_call_inv)
qed (simp_all only: loop_test_inv loop_create_inv loop_assign_inv loop_check_inv debug_use_inv, auto)

lemma fine_start_inv: "fine_start lib t \<Longrightarrow> fine_inv t"
  using link_start_wf by (fastforce simp: fine_start_link)

interpretation fine: invariant_system "fine_start lib" "fine_step lib" fine_inv for lib :: "'w libmodbus"
  by unfold_locales (auto intro: fine_start_inv fine_step_inv)

section \<open>Where a fault can come from\<close>

lemma fault_step:
  assumes "fine_step lib (Fine s) e (FineFault f)" and "fine_inv (Fine s)"
  shows "f = OutOfBounds \<or> f = UseAfterFree \<and> (e = DebugUse \<or> e \<in> {LoopTest, LoopCreate, LoopAssign, LoopCheck} \<and> freed s)"
  using assms(1)
proof (cases rule: fine_step.cases)
  case (f_create r)
  then show ?thesis using loop_create_inv [OF assms(2), of r lib] assms(2)
    by (cases "freed s") (auto simp: loop_create_def with_object_def elim!: createModbusContext_wf [of "obj s" lib])
next
  case (f_call c)
  then show ?thesis using locked_wf [of "obj s" lib c] assms(2) by (auto simp: fine_call_def split: sum.splits)
next
  case f_destroy
  then show ?thesis using fine_destroy_inv [OF assms(2), of lib] by auto
qed (use assms(2) in \<open>auto simp: loop_test_def loop_assign_def loop_check_def with_object_def debug_use_def split: if_splits option.splits\<close>)

lemma freed_step: "fine_step lib (Fine s) e (Fine s') \<Longrightarrow> freed s' \<Longrightarrow> freed s \<or> e = Destroy"
  by (elim fine_step_FineE)
     (auto simp: loop_test_def loop_create_def loop_assign_def loop_check_def with_object_def fine_call_def debug_use_def
        split: if_splits sum.splits option.splits)

lemma freed_by_destroy: "fine.reachable lib t es \<Longrightarrow> t = Fine s \<Longrightarrow> freed s \<Longrightarrow> Destroy \<in> set es"
proof (induction arbitrary: s rule: fine.reachable.induct)
  case (at_start t)
  then show ?case by (auto simp: fine_start_def)
next
  case (by_step t es e t')
  then show ?case using freed_step by (cases t) (fastforce simp: fine_step_fault)+
qed

section \<open>Properties\<close>

text \<open>
  C4. The threads of a Modbus link in single steps: in every reachable state of a live object a
  non-null \<open>ctx_\<close> points to a live context, and it is null as long as the reconnect loop makes
  a new one, so the unlocked loop never overwrites a context; the retry counter stays
  within its bound. No schedule frees a context
  twice. A freed object or context is used only by \<open>set_debug\<close>, which works on a pointer
  loaded before, or by the detached loop after the destructor has run.
\<close>

theorem fine_link_faults:
  assumes "fine.reachable lib t es"
  shows "case t of
      Fine s \<Rightarrow> \<not> freed s \<longrightarrow>
        (\<forall>p. ctx (obj s) = Some p \<longrightarrow> p \<in> live_ctx (obj s))
        \<and> ((\<exists>r. loop_at s = Creating r) \<or> (\<exists>r c. loop_at s = Created r c) \<longrightarrow> ctx (obj s) = None)
        \<and> (\<forall>r. loop_at s = AtTest r \<longrightarrow> 0 \<le> r \<and> (maxRetries (obj s) > 0 \<longrightarrow> r \<le> maxRetries (obj s)))
    | FineFault f \<Rightarrow> f = OutOfBounds \<or> f = UseAfterFree
        \<and> (last es = DebugUse \<or> last es \<in> {LoopTest, LoopCreate, LoopAssign, LoopCheck} \<and> Destroy \<in> set es)"
proof (cases t)
  case (Fine s)
  then show ?thesis using fine.reachable_inv [OF assms] by (auto simp: api_wf_def retries_ok_def)
next
  case (FineFault f)
  have "f = OutOfBounds \<or> f = UseAfterFree
      \<and> (last es = DebugUse \<or> last es \<in> {LoopTest, LoopCreate, LoopAssign, LoopCheck} \<and> Destroy \<in> set es)"
    using assms [unfolded FineFault]
  proof (cases rule: fine.reachable.cases)
    case (by_step u es' e)
    then obtain s where s: "u = Fine s" by (cases u) (auto simp: fine_step_fault)
    have "f = OutOfBounds \<or> f = UseAfterFree \<and> (e = DebugUse \<or> e \<in> {LoopTest, LoopCreate, LoopAssign, LoopCheck} \<and> freed s)"
      using by_step fine.reachable_inv [of lib u es'] unfolding s by (intro fault_step) auto
    then show ?thesis using by_step freed_by_destroy [of lib u es' s] s by auto
  qed (simp add: fine_start_def)
  then show ?thesis by (simp add: FineFault)
qed

text \<open>Both kinds of fault happen, the second one although the link was stopped before.\<close>

definition demo_fine :: "unit fine_link" where
  "demo_fine = \<lparr>obj = (demo_api None)\<lparr>live_ctx := {0}, ctx := Some 0\<rparr>, freed = False, loop_at = AtTest 0, debug_at = Idle\<rparr>"

lemma demo_fine_start: "fine.reachable (demo_lib True None) (Fine demo_fine) []"
  using demo_start by (intro fine.reachable.at_start) (auto simp: fine_start_link demo_fine_def)

lemma debug_race: "fine.reachable (demo_lib True None) (FineFault UseAfterFree) [DebugTest, DebugLoad, Call (Read 0 1 [0]), DebugUse]"
proof -
  let ?lib = "demo_lib True None"
  let ?s1 = "demo_fine\<lparr>debug_at := Tested\<rparr>" and ?s2 = "demo_fine\<lparr>debug_at := Loaded (Some 0)\<rparr>"
  let ?s3 = "?s2\<lparr>obj := (obj demo_fine)\<lparr>live_ctx := {}, ctx := None\<rparr>\<rparr>"
  have "fine_step ?lib (Fine demo_fine) DebugTest (Fine ?s1)"
    using f_debug_test [of demo_fine ?lib] by (simp add: demo_fine_def)
  moreover have "fine_step ?lib (Fine ?s1) DebugLoad (Fine ?s2)"
    using f_debug_load [of ?s1 ?lib] by (simp add: demo_fine_def)
  moreover have "fine_call ?lib (Read 0 1 [0]) ?s2 = Fine ?s3"
    by (simp add: fine_call_def demo_fine_def demo_lib_def modbus_readRegisters_def modbus_destroy_def bnd_def ret_def)
  then have "fine_step ?lib (Fine ?s2) (Call (Read 0 1 [0])) (Fine ?s3)"
    using f_call [of ?s2 ?lib "Read 0 1 [0]"] by (simp add: demo_fine_def)
  moreover have "fine_step ?lib (Fine ?s3) DebugUse (FineFault UseAfterFree)"
    using f_debug_use [of ?s3 "Some 0" ?lib] by (simp add: debug_use_def)
  ultimately show ?thesis
    using fine.reachable.by_step [OF fine.reachable.by_step [OF fine.reachable.by_step
        [OF fine.reachable.by_step [OF demo_fine_start]]]] by fastforce
qed

lemma loop_outlives_object: "fine.reachable (demo_lib True None) (FineFault UseAfterFree) [Call Stop, Destroy, LoopTest]"
proof -
  let ?lib = "demo_lib True None"
  let ?s1 = "demo_fine\<lparr>obj := modbus_stop (obj demo_fine)\<rparr>"
  let ?s2 = "?s1\<lparr>obj := (obj ?s1)\<lparr>live_ctx := {}, ctx := None\<rparr>, freed := True\<rparr>"
  have "fine_step ?lib (Fine demo_fine) (Call Stop) (Fine ?s1)"
    using f_call [of demo_fine ?lib Stop] by (simp add: fine_call_def demo_fine_def)
  moreover have "fine_destroy ?lib ?s1 = Fine ?s2"
    by (simp add: fine_destroy_def destroy_ModbusApi_def modbus_destroy_def demo_fine_def demo_lib_def modbus_stop_def)
  then have "fine_step ?lib (Fine ?s1) Destroy (Fine ?s2)"
    using f_destroy [of ?s1 ?lib] by (simp add: demo_fine_def)
  moreover have "fine_step ?lib (Fine ?s2) LoopTest (FineFault UseAfterFree)"
    using f_test [of ?s2 0 ?lib] by (simp add: loop_test_def with_object_def demo_fine_def)
  ultimately show ?thesis
    using fine.reachable.by_step [OF fine.reachable.by_step [OF fine.reachable.by_step [OF demo_fine_start]]] by fastforce
qed

theorem fine_link_faults_witness:
  "fine.reachable (demo_lib True None) (Fine demo_fine) [] \<and> (0::nat) \<in> live_ctx (obj demo_fine)"
  using demo_fine_start fine_link_faults [OF demo_fine_start] by (simp add: demo_fine_def)

end
