(* ===== verification/Modbus_Outage.thy ===== *)
theory Modbus_Outage
  imports Modbus_Client
begin

text \<open>
  An outage of a Modbus device: its polling task (\<open>core/modbus/app_modbus_client.cc\<close>) and the
  reconnect loop of its link (\<open>modbus_api.cc\<close>) go on in turns while the device does not
  answer, and after it has come back. The state is the loop with its retry counter (or its
  end), the link and the store.
\<close>

section \<open>Turns of the two threads\<close>

datatype 'm outage_event = Poll | Turn | Outside 'm

text \<open>\<open>Outside w\<close> is a change of the device or the network between two calls.\<close>

fun outage_step ::
  "'m libmodbus \<Rightarrow> 'w hiredis \<Rightarrow> redis_defaults \<Rightarrow> fp_env \<Rightarrow> (data_points_t list \<Rightarrow> data_points_t list) \<Rightarrow> config_modbus
    \<Rightarrow> 'm outage_event \<Rightarrow> int option \<times> 'm modbus_api \<times> 'w redis \<Rightarrow> (int option \<times> 'm modbus_api \<times> 'w redis) result" where
  "outage_step lib hr d fp sorter config Poll (l, api, s) =
     rbind (processContinuousRegisters lib hr d fp sorter config (api, s)) (\<lambda>st. Inr (l, st))"
| "outage_step lib hr d fp sorter config Turn (l, api, s) =
     (case l of
        None \<Rightarrow> Inr (None, api, s)
      | Some r \<Rightarrow> rbind (reconnect_body lib r api) (\<lambda>nxt.
          case nxt of LoopExit api' \<Rightarrow> Inr (None, api', s) | LoopAgain r' api' \<Rightarrow> Inr (Some r', api', s)))"
| "outage_step lib hr d fp sorter config (Outside w) (l, api, s) = Inr (l, api\<lparr>link_world := w\<rparr>, s)"

fun outage_run ::
  "'m libmodbus \<Rightarrow> 'w hiredis \<Rightarrow> redis_defaults \<Rightarrow> fp_env \<Rightarrow> (data_points_t list \<Rightarrow> data_points_t list) \<Rightarrow> config_modbus
    \<Rightarrow> 'm outage_event list \<Rightarrow> int option \<times> 'm modbus_api \<times> 'w redis \<Rightarrow> (int option \<times> 'm modbus_api \<times> 'w redis) result" where
  "outage_run lib hr d fp sorter config [] st = Inr st"
| "outage_run lib hr d fp sorter config (e # es) st =
     rbind (outage_step lib hr d fp sorter config e st) (outage_run lib hr d fp sorter config es)"

text \<open>
  The library while the device is away (worlds in \<open>off\<close>: reading and connecting fail) and
  while it answers (worlds in \<open>on\<close>: a context can be opened and the block can be read).
\<close>

definition away :: "'m libmodbus \<Rightarrow> ('m \<Rightarrow> bool) \<Rightarrow> bool" where
  "away lib off \<longleftrightarrow>
     (\<forall>w. off w \<longrightarrow> (\<forall>a n. \<exists>w'. mb_read_registers lib a n w = (w', None) \<and> off w')
        \<and> off (mb_close lib w) \<and> (\<forall>t. off (fst (mb_new lib t w))) \<and> (\<forall>a. off (fst (mb_set_slave lib a w)))
        \<and> (\<exists>w'. mb_connect lib w = (w', False) \<and> off w'))"

definition answering :: "'m libmodbus \<Rightarrow> ('m \<Rightarrow> bool) \<Rightarrow> data_points_t list \<Rightarrow> 16 word list \<Rightarrow> bool" where
  "answering lib on ps vals \<longleftrightarrow>
     (\<forall>w. on w \<longrightarrow> (\<forall>t. \<exists>w'. mb_new lib t w = (w', True) \<and> on w') \<and> (\<forall>a. \<exists>w'. mb_set_slave lib a w = (w', True) \<and> on w')
        \<and> (\<exists>w'. mb_connect lib w = (w', True) \<and> on w')
        \<and> (\<exists>w'. mb_read_registers lib (dp_address (hd ps)) (int (total_regs ps)) w = (w', Some vals)))"

section \<open>While the device is away\<close>

definition cut_off :: "('m \<Rightarrow> bool) \<Rightarrow> int \<Rightarrow> 'm modbus_api \<Rightarrow> bool" where
  "cut_off off mr api \<longleftrightarrow> api_wf api \<and> off (link_world api) \<and> ctx api = None \<and> runing api \<and> maxRetries api = mr"

lemma read_away:
  assumes "away lib off" and "api_wf api" and "off (link_world api)" and "runing api" and "maxRetries api = mr"
  shows "\<exists>api'. modbus_readRegisters lib a n dest api = Inr ((False, dest), api') \<and> cut_off off mr api'"
proof (cases "ctx api")
  case None
  with assms show ?thesis by (simp add: modbus_readRegisters_def cut_off_def)
next
  case (Some p)
  then have p: "p \<in> live_ctx api" using assms(2) by (simp add: api_wf_def)
  obtain w where w: "mb_read_registers lib a n (link_world api) = (w, None)" "off (mb_close lib w)"
    using assms(1,3) unfolding away_def by metis
  then show ?thesis using Some p assms(2,4,5)
    by (auto simp: modbus_readRegisters_def modbus_destroy_def bnd_def ret_def cut_off_def api_wf_def)
qed

lemma poll_away:
  assumes "away lib off" and "api_wf api" and "off (link_world api)" and "runing api" and "maxRetries api = mr"
    and "mb_data_points config \<noteq> []" and "sorts_by_address sorter"
  shows "\<exists>api'. processContinuousRegisters lib hr d fp sorter config (api, s) = Inr (api', s) \<and> cut_off off mr api'"
proof -
  let ?ps = "sorter (mb_data_points config)"
  let ?r = "findContinuousRegisters ?ps 0"
  have "?ps \<noteq> []" using sorter_Nil [OF assms(7)] assms(6) by metis
  moreover obtain api' where "modbus_readRegisters lib (rr_start_addr ?r) (rr_count ?r) (replicate (nat (rr_count ?r)) 0) api
      = Inr ((False, replicate (nat (rr_count ?r)) 0), api')" "cut_off off mr api'"
    using read_away [OF assms(1-5)] by blast
  ultimately have "process_loop lib hr d fp (mb_device_id config) ?ps 0 (api, s) = Inr (api', s)"
    by (subst process_loop.simps) (simp add: Let_def process_range_def process_loop_disconnected cut_off_def)
  with \<open>cut_off off mr api'\<close> assms(6) show ?thesis by (simp add: processContinuousRegisters_def Let_def)
qed

lemma attempt_away:
  assumes "away lib off" and "cut_off off mr api"
  shows "\<exists>api'. createModbusContext lib api = Inr (None, api') \<and> cut_off off mr api'"
proof -
  obtain w1 b where new: "mb_new lib (modbus_target_of api) (link_world api) = (w1, b)" "off w1"
    using assms unfolding away_def cut_off_def by (metis prod.collapse)
  obtain w2 c where slave: "mb_set_slave lib (slaveAddr api) w1 = (w2, c)" "off w2"
    using assms(1) new(2) unfolding away_def by (metis prod.collapse)
  obtain w3 where conn: "mb_connect lib w2 = (w3, False)" "off w3"
    using assms(1) slave(2) unfolding away_def by metis
  show ?thesis using new slave conn assms(2)
    by (cases b; cases c)
       (auto simp: createModbusContext_def Let_def modbus_destroy_def bnd_def ret_def cut_off_def api_wf_def)
qed

text \<open>The retry counter after \<open>n\<close> more turns of the loop without a context.\<close>

definition retries_after :: "int \<Rightarrow> nat \<Rightarrow> int option \<Rightarrow> int option" where
  "retries_after mr n l =
     (case l of None \<Rightarrow> None | Some r \<Rightarrow> if 0 < mr \<and> mr < r + int n then None else Some (r + int n))"

lemma turn_away:
  assumes "away lib off" and "cut_off off mr api" and "\<And>r. l = Some r \<Longrightarrow> 0 < mr \<longrightarrow> r \<le> mr"
  shows "\<exists>api'. outage_step lib hr d fp sorter config Turn (l, api, s) = Inr (retries_after mr 1 l, api', s)
     \<and> cut_off off mr api'"
proof (cases l)
  case (Some r)
  obtain api' where a: "createModbusContext lib api = Inr (None, api')" "cut_off off mr api'"
    using attempt_away [OF assms(1,2)] by blast
  have "cut_off off mr (api'\<lparr>ctx := None\<rparr>)" using a(2) by (simp add: cut_off_def api_wf_def)
  moreover have "runing api" "ctx api = None" "maxRetries api = mr" using assms(2) by (simp_all add: cut_off_def)
  ultimately show ?thesis using a(1) Some assms(2,3)
    by (cases "0 < mr \<and> mr \<le> r") (auto simp: reconnect_body_def retries_after_def)
qed (use assms in \<open>simp add: retries_after_def\<close>)

definition turns :: "'m outage_event list \<Rightarrow> nat" where
  "turns es = length (filter (\<lambda>e. e = Turn) es)"

definition threads_only :: "'m outage_event list \<Rightarrow> bool" where
  "threads_only es \<longleftrightarrow> (\<forall>e \<in> set es. e = Poll \<or> e = Turn)"

lemma run_away:
  assumes "away lib off" and "mb_data_points config \<noteq> []" and "sorts_by_address sorter" and "threads_only es"
    and "cut_off off mr api" and "\<And>r. l = Some r \<Longrightarrow> 0 < mr \<longrightarrow> r \<le> mr"
  shows "\<exists>api'. outage_run lib hr d fp sorter config es (l, api, s) = Inr (retries_after mr (turns es) l, api', s)
     \<and> cut_off off mr api'"
  using assms(4-)
proof (induction es arbitrary: l api)
  case (Cons e es)
  have es: "threads_only es" using Cons.prems(1) by (simp add: threads_only_def)
  consider "e = Poll" | "e = Turn" using Cons.prems(1) by (auto simp: threads_only_def)
  then show ?case
  proof cases
    case 1
    obtain api' where "processContinuousRegisters lib hr d fp sorter config (api, s) = Inr (api', s)" "cut_off off mr api'"
      using poll_away [OF assms(1) _ _ _ _ assms(2,3)] Cons.prems(2) unfolding cut_off_def by metis
    with Cons.IH [OF es _ Cons.prems(3)] 1 show ?thesis by (simp add: turns_def)
  next
    case 2
    obtain api' where a: "outage_step lib hr d fp sorter config Turn (l, api, s) = Inr (retries_after mr 1 l, api', s)"
        "cut_off off mr api'"
      using turn_away [OF assms(1) Cons.prems(2)] Cons.prems(3) by blast
    have "0 < mr \<longrightarrow> r \<le> mr" if "retries_after mr 1 l = Some r" for r
      using that by (auto simp: retries_after_def split: option.splits if_splits)
    moreover have "retries_after mr (turns es) (retries_after mr 1 l) = retries_after mr (turns (e # es)) l"
      using 2 by (auto simp: retries_after_def turns_def split: option.split)
    moreover note Cons.IH [OF es a(2), of "retries_after mr 1 l"]
    ultimately show ?thesis using a(1) 2 by simp
  qed
qed (auto simp: retries_after_def turns_def split: option.split)

section \<open>After the device has come back\<close>

lemma open_answering:
  assumes "answering lib on ps vals" and "on (link_world api)" and "api_wf api"
  shows "\<exists>c api'. createModbusContext lib api = Inr (Some c, api') \<and> api_wf (api'\<lparr>ctx := Some c\<rparr>) \<and> on (link_world api')"
proof -
  obtain w1 where new: "mb_new lib (modbus_target_of api) (link_world api) = (w1, True)" "on w1"
    using assms(1,2) unfolding answering_def by metis
  obtain w2 where slave: "mb_set_slave lib (slaveAddr api) w1 = (w2, True)" "on w2"
    using assms(1) new(2) unfolding answering_def by metis
  obtain w3 where conn: "mb_connect lib w2 = (w3, True)" "on w3"
    using assms(1) slave(2) unfolding answering_def by metis
  show ?thesis using new slave conn assms(3)
    by (auto simp: createModbusContext_def Let_def api_wf_def less_Suc_eq)
qed

text \<open>A loop that has attempts left reconnects in its next turn, and the next pass stores the block.\<close>

lemma heals:
  assumes "redis_laws hr up kv" and "up (world s)" and "redis_ready d" and "sorts_by_address sorter"
    and "mb_data_points config \<noteq> []" and "sorter (mb_data_points config) = ps" and "contiguous ps"
    and "length vals = total_regs ps" and "answering lib on ps vals" and "on w"
    and "cut_off off mr api" and "0 < mr \<longrightarrow> r < mr"
  shows "\<exists>l' api' s'. outage_run lib hr d fp sorter config [Outside w, Turn, Poll] (Some r, api, s) = Inr (l', api', s')
     \<and> kv (world s') = kv (world s) ++ map_of (rev (stored_entries fp (mb_device_id config) vals 0 ps))"
proof -
  let ?a = "api\<lparr>link_world := w\<rparr>"
  have a: "api_wf ?a" "runing ?a" "ctx ?a = None" "maxRetries ?a = mr" using assms(11) by (simp_all add: cut_off_def api_wf_def)
  obtain c b where b: "createModbusContext lib ?a = Inr (Some c, b)" "api_wf (b\<lparr>ctx := Some c\<rparr>)" "on (link_world b)"
    using open_answering [OF assms(9) _ a(1)] assms(10) by auto
  let ?b = "b\<lparr>ctx := Some c\<rparr>"
  have turn: "outage_step lib hr d fp sorter config Turn (Some r, ?a, s) = Inr (Some 0, ?b, s)"
    using a b(1) assms(12) by (auto simp: reconnect_body_def)
  obtain v where "mb_read_registers lib (dp_address (hd ps)) (int (total_regs ps)) (link_world ?b) = (v, Some vals)"
    using assms(9) b(3) unfolding answering_def by auto
  from poll_contiguous [OF assms(1-7) b(2) _ this assms(8), of fp]
  obtain s' where "processContinuousRegisters lib hr d fp sorter config (?b, s) = Inr (?b\<lparr>link_world := v\<rparr>, s')"
      "kv (world s') = kv (world s) ++ map_of (rev (stored_entries fp (mb_device_id config) vals 0 ps))"
    by auto
  with turn show ?thesis by simp
qed

text \<open>A loop without attempts left never opens a context again, whatever the device does.\<close>

definition given_up :: "int option \<Rightarrow> 'm modbus_api \<Rightarrow> bool" where
  "given_up l api \<longleftrightarrow> ctx api = None \<and> (case l of None \<Rightarrow> True | Some r \<Rightarrow> 0 < maxRetries api \<and> maxRetries api \<le> r)"

lemma given_up_forever:
  assumes "given_up l api"
  shows "\<exists>l' api'. outage_run lib hr d fp sorter config es (l, api, s) = Inr (l', api', s)"
  using assms
proof (induction es arbitrary: l api)
  case (Cons e es)
  have "\<exists>l' api'. outage_step lib hr d fp sorter config e (l, api, s) = Inr (l', api', s) \<and> given_up l' api'"
  proof (cases e)
    case Poll
    with Cons.prems show ?thesis
      by (auto simp: given_up_def processContinuousRegisters_def Let_def process_loop_disconnected)
  next
    case Turn
    with Cons.prems show ?thesis
      by (auto simp: given_up_def reconnect_body_def split: option.splits)
  next
    case (Outside w)
    with Cons.prems show ?thesis by (auto simp: given_up_def split: option.splits)
  qed
  with Cons.IH show ?case by fastforce
qed simp

section \<open>Properties\<close>

text \<open>
  C10. An outage and its end. A device stops answering and is polled; then its polling task
  and its reconnect loop take any number of turns, in any order. No turn faults, and the
  store keeps its contents. If the device then answers again and the loop has made fewer
  attempts than it may, one turn of the loop and one pass put the device's registers into
  the store. If the attempts are used up, no further turns, whatever happens outside, ever
  change the store.
\<close>

theorem outage_heals_in_time:
  assumes "redis_laws hr up kv" and "up (world s)" and "redis_ready d" and "sorts_by_address sorter"
    and "mb_data_points config \<noteq> []" and "sorter (mb_data_points config) = ps" and "contiguous ps"
    and "length vals = total_regs ps" and "answering lib on ps vals" and "on w"
    and "away lib off" and "off (link_world api)" and "api_wf api" and "runing api" and "threads_only es"
  shows "\<exists>l api'. outage_run lib hr d fp sorter config (Poll # es) (Some 0, api, s) = Inr (l, api', s)
     \<and> (if maxRetries api \<le> 0 \<or> int (turns es) < maxRetries api
        then \<exists>l2 api2 s2. outage_run lib hr d fp sorter config [Outside w, Turn, Poll] (l, api', s) = Inr (l2, api2, s2)
               \<and> kv (world s2) = kv (world s) ++ map_of (rev (stored_entries fp (mb_device_id config) vals 0 ps))
        else \<forall>es'. \<exists>l2 api2. outage_run lib hr d fp sorter config es' (l, api', s) = Inr (l2, api2, s))"
proof -
  let ?mr = "maxRetries api" and ?l = "retries_after (maxRetries api) (turns es) (Some 0)"
  obtain a0 where a0: "processContinuousRegisters lib hr d fp sorter config (api, s) = Inr (a0, s)" "cut_off off ?mr a0"
    using poll_away [OF assms(11,13,12,14) refl assms(5,4)] by blast
  obtain api' where r: "outage_run lib hr d fp sorter config es (Some 0, a0, s) = Inr (?l, api', s)" "cut_off off ?mr api'"
    using run_away [OF assms(11,5,4,15) a0(2), of "Some 0"] by fastforce
  show ?thesis
  proof (cases "?mr \<le> 0 \<or> int (turns es) < ?mr")
    case True
    then have "?l = Some (int (turns es))" "0 < ?mr \<longrightarrow> int (turns es) < ?mr" by (auto simp: retries_after_def)
    with heals [OF assms(1-10) r(2), of "int (turns es)" fp] True a0(1) r(1) show ?thesis by auto
  next
    case False
    then have "given_up ?l api'" using r(2) by (auto simp: given_up_def cut_off_def retries_after_def)
    with given_up_forever [of ?l api'] False a0(1) r(1) show ?thesis by auto
  qed
qed

text \<open>A device that can be switched: its world says whether it answers.\<close>

definition switch_lib :: "bool libmodbus" where
  "switch_lib =
     \<lparr>mb_new = \<lambda>t w. (w, True), mb_set_slave = \<lambda>a w. (w, True), mb_connect = \<lambda>w. (w, w),
      mb_close = \<lambda>w. w, mb_read_registers = \<lambda>a n w. (w, if w then Some [5] else None), mb_write_register = \<lambda>a v w. (w, w),
      mb_write_registers = \<lambda>a n src w. (w, w), mb_set_debug = \<lambda>w. w\<rparr>"

definition switched_off :: "bool modbus_api" where
  "switched_off =
     \<lparr>link_world = False, live_ctx = {0}, next_ctx = 1, slaveAddr = 1, mtype = TCP, channel = 0, cmdInterval = 2000,
      portName = [], baudrate = 0, mparity = ODD, ip_addr = ''127.0.0.1'', tcp_port_no = 502, ctx = Some 0,
      maxRetries = 3, retryInterval = 1000, runing = True\<rparr>"

theorem outage_heals_in_time_witness:
  "\<exists>l api' l2 api2 s2. outage_run switch_lib list_server demo_defaults demo_fp (sort_key (\<lambda>p. uint (dp_address p)))
         (demo_device [demo_point ''a'' 7 INT16]) [Poll, Turn, Poll, Turn] (Some 0, switched_off, redis_at []) = Inr (l, api', redis_at [])
     \<and> outage_run switch_lib list_server demo_defaults demo_fp (sort_key (\<lambda>p. uint (dp_address p)))
         (demo_device [demo_point ''a'' 7 INT16]) [Outside True, Turn, Poll] (l, api', redis_at []) = Inr (l2, api2, s2)
     \<and> map_of (world s2) ''modbus_data:dev:a'' = Some (dec_int 5)"
proof -
  let ?c = "demo_device [demo_point ''a'' 7 INT16]"
  have "answering switch_lib (\<lambda>w. w) [demo_point ''a'' 7 INT16] [5]" "away switch_lib Not"
    by (simp_all add: answering_def away_def switch_lib_def)
  from outage_heals_in_time [OF list_server_laws _ _ sort_key_sorts _ _ _ _ this(1) _ this(2), where s = "redis_at []"
      and d = demo_defaults and config = ?c and w = True and api = switched_off and es = "[Turn, Poll, Turn]" and fp = demo_fp]
  show ?thesis
    by (simp add: redis_ready_def demo_defaults_def demo_device_def demo_point_def switched_off_def api_wf_def threads_only_def
        turns_def known_def regs_def redis_at_def modbus_key_def c_str_def point_text_def) fastforce
qed

end
