(* ===== verification/Log_History.thy ===== *)
theory Log_History
  imports Logging "HOL-Library.Sublist"
begin

text \<open>
  The rotating sink over a sequence of records. Seen from outside, a log is the list of its
  renamed files, oldest first, and the current file; writing a record is one function on
  that pair. The sink (\<open>custom_rotating_file_sink-inl.h\<close>), with its directory, names and
  modification times, implements it as long as the operating system serves it, its clock
  moves forward and no two rotations fall into the same second.
\<close>

section \<open>The log from outside\<close>

type_synonym log_view = "string list \<times> string"

definition newest :: "nat \<Rightarrow> 'a list \<Rightarrow> 'a list" where
  "newest n xs = drop (length xs - n) xs"

definition view_write :: "nat \<Rightarrow> nat \<Rightarrow> string \<Rightarrow> log_view \<Rightarrow> log_view" where
  "view_write msz mfs m v =
     (if length (snd v) + length m \<le> msz \<or> snd v = [] then (fst v, snd v @ m)
      else (newest mfs (fst v @ [snd v]), m))"

definition view_text :: "log_view \<Rightarrow> string" where
  "view_text v = concat (fst v) @ snd v"

lemma newest_suffix: "suffix (newest n xs) xs"
  by (simp add: newest_def suffix_drop)

lemma newest_all: "length xs \<le> n \<Longrightarrow> newest n xs = xs"
  by (simp add: newest_def)

lemma newest_length: "length (newest n xs) = min n (length xs)"
  by (simp add: newest_def)

lemma newest_map: "map f (newest n xs) = newest n (map f xs)"
  by (simp add: newest_def drop_map)

lemma concat_suffix: "suffix xs ys \<Longrightarrow> suffix (concat xs) (concat ys)"
  by (auto simp: suffix_def)

lemma view_write_suffix: "suffix (view_text (view_write msz mfs m v)) (view_text v @ m)"
proof -
  have "suffix (concat (newest mfs (fst v @ [snd v]))) (concat (fst v @ [snd v]))"
    by (intro concat_suffix newest_suffix)
  then have "suffix (concat (newest mfs (fst v @ [snd v])) @ m) (concat (fst v @ [snd v]) @ m)"
    by (auto simp: suffix_def)
  then show ?thesis by (simp add: view_write_def view_text_def)
qed

lemma view_write_length:
  assumes "length (fst v) \<le> mfs"
  shows "length (fst v) \<le> length (fst (view_write msz mfs m v)) \<and> length (fst (view_write msz mfs m v)) \<le> mfs"
  using assms by (auto simp: view_write_def newest_length)

lemma view_write_exact:
  assumes "length (fst v) \<le> mfs" and "length (fst (view_write msz mfs m v)) < mfs"
  shows "view_text (view_write msz mfs m v) = view_text v @ m"
  using assms by (auto simp: view_write_def view_text_def newest_length newest_all split: if_splits)

text \<open>What is kept of a sequence of records is the end of everything written.\<close>

lemma view_writes:
  assumes "length (fst v) \<le> mfs"
  shows "suffix (view_text (fold (view_write msz mfs) ms v)) (view_text v @ concat ms)
     \<and> length (fst (fold (view_write msz mfs) ms v)) \<le> mfs
     \<and> length (fst v) \<le> length (fst (fold (view_write msz mfs) ms v))
     \<and> (length (fst (fold (view_write msz mfs) ms v)) < mfs \<longrightarrow>
          view_text (fold (view_write msz mfs) ms v) = view_text v @ concat ms)"
  using assms
proof (induction ms arbitrary: v)
  case (Cons m ms)
  let ?u = "view_write msz mfs m v"
  have u: "length (fst v) \<le> length (fst ?u)" "length (fst ?u) \<le> mfs"
    using view_write_length [OF Cons.prems] by blast+
  note IH = Cons.IH [OF u(2)]
  have "suffix (view_text ?u @ concat ms) ((view_text v @ m) @ concat ms)"
    using view_write_suffix [of msz mfs m v] by (auto simp: suffix_def)
  then have "suffix (view_text (fold (view_write msz mfs) ms ?u)) (view_text v @ m @ concat ms)"
    using IH suffix_order.trans by fastforce
  moreover have "view_text ?u = view_text v @ m" if "length (fst (fold (view_write msz mfs) ms ?u)) < mfs"
    using view_write_exact [OF Cons.prems] IH that by simp
  ultimately show ?case using IH u by auto
qed simp

definition sizes_within :: "nat \<Rightarrow> log_view \<Rightarrow> bool" where
  "sizes_within b v \<longleftrightarrow> (\<forall>f \<in> insert (snd v) (set (fst v)). length f \<le> b)"

lemma view_write_sizes:
  assumes "msz \<le> b" and "length m \<le> b" and "sizes_within b v"
  shows "sizes_within b (view_write msz mfs m v)"
  using assms set_mono_suffix [OF newest_suffix [of mfs "fst v @ [snd v]"]]
  by (auto simp: sizes_within_def view_write_def)

lemma view_writes_sizes:
  assumes "msz \<le> b" and "\<forall>m \<in> set ms. length m \<le> b" and "sizes_within b v"
  shows "sizes_within b (fold (view_write msz mfs) ms v)"
  using assms(2,3) by (induction ms arbitrary: v) (simp_all add: view_write_sizes [OF assms(1)])

section \<open>What the directory shows\<close>

definition view_of :: "log_env \<Rightarrow> file_sink \<Rightarrow> log_view" where
  "view_of e s = (map (\<lambda>x. fcontent (snd x)) (archives e (log_dir s)), base_content s)"

text \<open>
  The state between two records: the base file is no archive and newer than all of them, no
  two archives have the same time, and \<open>t\<close> is not before the last write.
\<close>

definition chronological :: "log_env \<Rightarrow> nat \<Rightarrow> file_sink \<Rightarrow> bool" where
  "chronological e t s \<longleftrightarrow> sink_inv s \<and> \<not> is_archive e (base_filename s)
     \<and> (\<exists>f. map_of (log_dir s) (base_filename s) = Some f \<and> mtime f \<le> t
          \<and> (\<forall>x \<in> set (archives e (log_dir s)). mtime (snd x) < mtime f))
     \<and> distinct (map (\<lambda>x. mtime (snd x)) (archives e (log_dir s)))"

lemma is_archive_link: "exe_link e = exe_link e' \<Longrightarrow> is_archive e = is_archive e'"
  by (simp add: is_archive_def fun_eq_iff)

lemma archives_link:
  assumes "exe_link e = exe_link e'"
  shows "archives e = archives e'"
  unfolding archives_def is_archive_link [OF assms] ..

lemma filter_fs_put:
  assumes "\<not> P n"
  shows "filter (\<lambda>x. P (fst x)) (fs_put n f d) = filter (\<lambda>x. P (fst x)) d"
proof -
  have "filter (\<lambda>x. P (fst x)) (map (\<lambda>(m, g). (m, if m = n then f else g)) d) = filter (\<lambda>x. P (fst x)) d"
    using assms by (induction d) auto
  then show ?thesis using assms by (simp add: fs_put_def)
qed

lemma archives_put: "\<not> is_archive e n \<Longrightarrow> archives e (fs_put n f d) = archives e d"
  by (simp add: archives_def filter_fs_put)

lemma filter_fs_remove: "\<not> P n \<Longrightarrow> filter (\<lambda>x. P (fst x)) (fs_remove n d) = filter (\<lambda>x. P (fst x)) d"
  by (auto simp: fs_remove_def intro!: filter_cong)

text \<open>Archives with different times are sorted in one way only, whatever order the scan has.\<close>

lemma archives_unique:
  assumes "mset xs = mset (filter (\<lambda>x. is_archive e (fst x)) d)" and "sorted (map (\<lambda>x. mtime (snd x)) xs)"
    and "distinct (map (\<lambda>x. mtime (snd x)) xs)"
  shows "archives e d = xs"
  unfolding archives_def
proof (rule sort_key_inj_key_eq)
  show "inj_on (\<lambda>x. mtime (snd x)) (set (filter (\<lambda>x. is_archive e (fst x)) d))"
    using assms(1,3) by (metis distinct_map set_mset_mset)
qed (use assms in simp_all)

lemma archives_sorted: "sorted (map (\<lambda>x. mtime (snd x)) (archives e d))"
  by (simp add: archives_def)

lemma archives_add:
  assumes "n \<notin> fst ` set d" and "is_archive e n" and "\<forall>x \<in> set (archives e d). mtime (snd x) < mtime f"
    and "distinct (map (\<lambda>x. mtime (snd x)) (archives e d))"
  shows "archives e (fs_put n f d) = archives e d @ [(n, f)]"
proof (rule archives_unique)
  show "mset (archives e d @ [(n, f)]) = mset (filter (\<lambda>x. is_archive e (fst x)) (fs_put n f d))"
    using assms(1,2) by (simp add: fs_put_def archives_mset)
  show "sorted (map (\<lambda>x. mtime (snd x)) (archives e d @ [(n, f)]))"
    using assms(3) archives_sorted [of e d] by (auto simp: sorted_append intro: less_imp_le)
  show "distinct (map (\<lambda>x. mtime (snd x)) (archives e d @ [(n, f)]))"
    using assms(3,4) by fastforce
qed

lemma archives_evict:
  assumes "distinct (map fst d)" and "distinct (map (\<lambda>x. mtime (snd x)) (archives e d))"
  shows "archives e (remove_oldest m (archives e d) d) = newest m (archives e d)"
proof (rule archives_unique)
  let ?as = "archives e d" and ?k = "length (archives e d) - m"
  have "mset (filter (\<lambda>x. is_archive e (fst x)) (remove_oldest m ?as d))
      = filter_mset (\<lambda>x. fst x \<notin> fst ` set (take ?k ?as)) (mset ?as)"
    unfolding remove_oldest_filter archives_mset mset_filter by (simp add: filter_filter_mset conj_commute)
  also have "\<dots> = mset (newest m ?as)"
    unfolding mset_filter [symmetric] filter_take_keys [OF archives_distinct [OF assms(1)]] newest_def ..
  finally show "mset (newest m ?as) = mset (filter (\<lambda>x. is_archive e (fst x)) (remove_oldest m ?as d))" ..
  show "sorted (map (\<lambda>x. mtime (snd x)) (newest m ?as))"
    using archives_sorted [of e d] unfolding newest_map by (simp add: newest_def sorted_wrt_drop)
  show "distinct (map (\<lambda>x. mtime (snd x)) (newest m ?as))"
    using assms(2) unfolding newest_map by (simp add: newest_def)
qed

section \<open>One record\<close>

lemma append_chronological:
  assumes "chronological e0 t s" and "t \<le> write_time e" and "k = length (base_content s @ m)"
  defines "s' \<equiv> s\<lparr>log_dir := fs_put (base_filename s) \<lparr>fcontent = base_content s @ m, mtime = write_time e\<rparr> (log_dir s), current_size := k\<rparr>"
  shows "chronological e0 (write_time e) s' \<and> view_of e0 s' = (fst (view_of e0 s), base_content s @ m)"
proof -
  have b: "\<not> is_archive e0 (base_filename s)" using assms(1) by (simp add: chronological_def)
  have a: "archives e0 (log_dir s') = archives e0 (log_dir s)" unfolding s'_def using archives_put [OF b] by simp
  have c: "base_content s' = base_content s @ m" by (simp add: s'_def base_content_def)
  have "sink_inv s'" using assms(1,3) c by (simp add: chronological_def sink_inv_def s'_def)
  then have "chronological e0 (write_time e) s'"
    using assms(1,2) unfolding chronological_def a by (fastforce simp: s'_def)
  then show ?thesis by (simp add: view_of_def a c)
qed

lemma rotate_chronological:
  assumes s: "chronological e0 t s" and e: "log_healthy e" "exe_link e = exe_link e0" and t: "t < write_time e"
    and fresh: "archive_name e \<notin> fst ` set (log_dir s)"
  obtains s' where "rotate e s = (Returned (), s')" and "chronological e0 (write_time e) s'"
    and "view_of e0 s' = (newest (max_files s) (fst (view_of e0 s) @ [base_content s]), [])"
    and "base_filename s' = base_filename s" and "max_size s' = max_size s" and "max_files s' = max_files s"
    and "fst ` set (log_dir s') \<subseteq> insert (archive_name e) (fst ` set (log_dir s))"
proof -
  let ?b = "base_filename s" and ?a = "archive_name e"
  have inv: "sink_inv s" and b: "\<not> is_archive e0 ?b" using s by (simp_all add: chronological_def)
  obtain f where f: "map_of (log_dir s) ?b = Some f" "mtime f \<le> t"
      "\<forall>x \<in> set (archives e0 (log_dir s)). mtime (snd x) < mtime f"
    using s by (auto simp: chronological_def)
  let ?rm = "fs_remove ?b (log_dir s)"
  let ?d = "fs_put ?a f ?rm"
  let ?d' = "remove_oldest (max_files s) (archives e ?d) ?d"
  let ?s = "s\<lparr>fd_open := True, log_dir := fs_put ?b \<lparr>fcontent = [], mtime = write_time e\<rparr> ?d', current_size := 0\<rparr>"
  have ne: "?a \<noteq> ?b" using fresh f(1) by (force dest: map_of_SomeD)
  have bc: "base_content s = fcontent f" using f(1) by (simp add: base_content_def)
  have a0: "archives e0 ?rm = archives e0 (log_dir s)" by (simp add: archives_def filter_fs_remove [of "is_archive e0" ?b, OF b])
  have "?a \<notin> fst ` set ?rm" using fresh by (auto simp: fs_remove_def)
  then have a1: "archives e0 ?d = archives e0 (log_dir s) @ [(?a, f)]"
    using f(3) s archive_name_is_archive [of e] unfolding is_archive_link [OF e(2)]
    by (subst archives_add) (simp_all add: a0 chronological_def)
  have dd: "distinct (map fst ?d)" using inv by (simp add: sink_inv_def)
  have td: "distinct (map (\<lambda>x. mtime (snd x)) (archives e0 ?d))"
    unfolding a1 using s f(3) by (fastforce simp: chronological_def)
  have a2: "archives e0 (log_dir ?s) = newest (max_files s) (archives e0 (log_dir s) @ [(?a, f)])"
    using archives_evict [OF dd td] a1 by (simp add: archives_put [OF b] archives_link [OF e(2)])
  have nb: "map_of ?d' ?b = None" using ne by (simp add: remove_oldest_lookup)
  have "rotate e s = (Returned (), ?s)"
    using e f(1) ne nb by (simp add: rotate_def rename_file_def helper_open_def log_healthy_def Let_def)
  moreover have "distinct (map fst ?d')" using dd by (simp add: remove_oldest_filter distinct_filter_keys)
  then have "sink_inv ?s" by (simp add: sink_inv_def base_content_def)
  then have "chronological e0 (write_time e) ?s"
    using f(2,3) t b td unfolding chronological_def a2 a1
    by (force simp: newest_def drop_map [symmetric] distinct_drop dest: in_set_dropD)
  moreover have "view_of e0 ?s = (newest (max_files s) (fst (view_of e0 s) @ [base_content s]), [])"
    unfolding view_of_def a2 newest_map by (simp add: bc) (simp add: base_content_def)
  moreover have "fst ` set (log_dir ?s) \<subseteq> insert ?a (fst ` set (log_dir s))"
  proof -
    have "fst ` set ?d' \<subseteq> fst ` set ?d" by (auto simp: remove_oldest_filter)
    moreover have "fst ` set ?rm \<subseteq> fst ` set (log_dir s)" by (auto simp: fs_remove_def)
    moreover have "?b \<in> fst ` set (log_dir s)" using f(1) by (force dest: map_of_SomeD)
    ultimately show ?thesis by (auto simp: fs_put_names)
  qed
  ultimately show thesis by (intro that [of ?s]) simp_all
qed

definition needs_rotation :: "string \<Rightarrow> file_sink \<Rightarrow> bool" where
  "needs_rotation m s \<longleftrightarrow> max_size s < length (base_content s) + length m \<and> base_content s \<noteq> []"

lemma helper_answers:
  assumes "chronological e0 t s" and "log_healthy e"
  shows "sink_inv s" and "base_filename s \<in> fst ` set (log_dir s)"
    and "helper_size s = Returned (current_size s)" and "helper_flush e s = Returned ()"
    and "current_size s = length (base_content s)"
proof -
  show inv: "sink_inv s" using assms(1) by (simp add: chronological_def)
  then show "base_filename s \<in> fst ` set (log_dir s)" by (force simp: sink_inv_def dest: map_of_SomeD)
  show "helper_size s = Returned (current_size s)" "helper_flush e s = Returned ()" "current_size s = length (base_content s)"
    using inv assms(2) by (simp_all add: helper_size_def sink_inv_def helper_flush_def log_healthy_def)
qed

text \<open>What the sink does with a record, compared with the view.\<close>

definition writes :: "log_env \<Rightarrow> log_env \<Rightarrow> string \<Rightarrow> file_sink \<Rightarrow> file_sink \<Rightarrow> bool" where
  "writes e0 e m s s' \<longleftrightarrow> sink_it e m s = (Returned (), s') \<and> chronological e0 (write_time e) s'
     \<and> view_of e0 s' = view_write (max_size s) (max_files s) m (view_of e0 s)
     \<and> max_size s' = max_size s \<and> max_files s' = max_files s"

lemma sink_it_fits:
  assumes s: "chronological e0 t s" and e: "log_healthy e" and t: "t \<le> write_time e" and fits: "\<not> needs_rotation m s"
  shows "\<exists>s'. writes e0 e m s s'"
proof -
  note h = helper_answers [OF s e]
  let ?s = "s\<lparr>log_dir := fs_put (base_filename s) \<lparr>fcontent = base_content s @ m, mtime = write_time e\<rparr> (log_dir s),
              current_size := current_size s + length m\<rparr>"
  have k: "current_size s + length m = length (base_content s @ m)" by (simp add: h(5))
  have "current_size s + length m \<le> max_size s \<or> current_size s = 0"
    using fits by (simp add: needs_rotation_def h(5) not_less)
  then have "sink_it e m s = (Returned (), ?s)"
    using h(3,4) sink_write_healthy(1) [OF h(1) e, where m = m and k = "current_size s + length m"]
    by (auto simp: sink_it_def Let_def helper_append_def)
  then show ?thesis
    using append_chronological [OF s t k] fits
    by (intro exI [of _ ?s]) (auto simp: writes_def view_write_def view_of_def needs_rotation_def)
qed

lemma sink_it_rotates:
  assumes s: "chronological e0 t s" and e: "log_healthy e" "exe_link e = exe_link e0" and t: "t < write_time e"
    and fresh: "archive_name e \<notin> fst ` set (log_dir s)" and rot: "needs_rotation m s"
  shows "\<exists>s'. writes e0 e m s s'"
proof -
  note h = helper_answers [OF s e(1)]
  obtain r where r: "rotate e s = (Returned (), r)" "chronological e0 (write_time e) r"
      "view_of e0 r = (newest (max_files s) (fst (view_of e0 s) @ [base_content s]), [])"
      "base_filename r = base_filename s" "max_size r = max_size s" "max_files r = max_files s"
    by (rule rotate_chronological [OF s e t fresh])
  let ?s = "r\<lparr>log_dir := fs_put (base_filename r) \<lparr>fcontent = base_content r @ m, mtime = write_time e\<rparr> (log_dir r),
              current_size := length (base_content r @ m)\<rparr>"
  have rinv: "sink_inv r" and rb: "base_content r = []" using r(2,3) by (simp_all add: chronological_def view_of_def)
  have "sink_it e m s = (Returned (), ?s)"
    using rot h(3-5) r(1) rb sink_write_healthy(1) [OF rinv e(1), where m = m and k = "length m"]
    by (simp add: sink_it_def Let_def helper_append_def needs_rotation_def)
  then show ?thesis
    using append_chronological [OF r(2) order_refl refl] rot r(3,5,6) rb
    by (intro exI [of _ ?s]) (auto simp: writes_def view_write_def view_of_def needs_rotation_def)
qed

text \<open>A new sink over a directory without archives starts in such a state.\<close>

lemma new_sink_chronological:
  assumes "log_healthy e" and "distinct (map fst d)" and "0 < msz" and "mfs \<le> 200000"
    and "\<not> is_archive e n" and "archives e d = []" and "\<And>f. map_of d n = Some f \<Longrightarrow> mtime f \<le> write_time e"
  shows "\<exists>s. custom_rotating_file_sink e n msz mfs False d = (Returned (), s) \<and> chronological e (write_time e) s
     \<and> fst (view_of e s) = []"
proof -
  obtain s where s: "custom_rotating_file_sink e n msz mfs False d = (Returned (), s)" "sink_inv s"
    using new_sink_inv [OF assms(1-4)] by blast
  then have "base_filename s = n"
      "log_dir s = (if map_of d n = None then fs_put n \<lparr>fcontent = [], mtime = write_time e\<rparr> d else d)"
    using assms(1,3,4) by (auto simp: custom_rotating_file_sink_def helper_open_def log_healthy_def Let_def)
  moreover from this have "archives e (log_dir s) = []" using archives_put [OF assms(5)] assms(6) by auto
  ultimately have "chronological e (write_time e) s"
    using s(2) assms(5,7) by (cases "map_of d n") (auto simp: chronological_def)
  with s(1) \<open>archives e (log_dir s) = []\<close> show ?thesis by (simp add: view_of_def)
qed

section \<open>Sequences of records\<close>

text \<open>The records of a program, each with the answers of the operating system; an exception does not stop later ones.\<close>

fun log_all :: "(log_env \<times> string) list \<Rightarrow> file_sink \<Rightarrow> unit outcome list \<times> file_sink" where
  "log_all [] s = ([], s)"
| "log_all ((e, m) # rs) s =
     (case sink_it e m s of (r, s1) \<Rightarrow> case log_all rs s1 of (out, s2) \<Rightarrow> (r # out, s2))"

text \<open>
  The system serves the sink: no call fails, the clock does not run backwards, and whenever
  a record needs a rotation, the clock has moved since the last write and the name for the
  full file is not taken, that is, no other rotation fell into the same second.
\<close>

fun served :: "log_env \<Rightarrow> nat \<Rightarrow> (log_env \<times> string) list \<Rightarrow> file_sink \<Rightarrow> bool" where
  "served e0 t [] s = True"
| "served e0 t ((e, m) # rs) s =
     (log_healthy e \<and> exe_link e = exe_link e0 \<and> t \<le> write_time e
      \<and> (needs_rotation m s \<longrightarrow> t < write_time e \<and> archive_name e \<notin> fst ` set (log_dir s))
      \<and> served e0 (write_time e) rs (snd (sink_it e m s)))"

lemma log_all_view:
  assumes "chronological e0 t s" and "served e0 t rs s"
  shows "\<exists>s'. log_all rs s = (replicate (length rs) (Returned ()), s')
     \<and> view_of e0 s' = fold (view_write (max_size s) (max_files s)) (map snd rs) (view_of e0 s)"
  using assms
proof (induction rs arbitrary: t s)
  case (Cons r rs)
  obtain e m where r: "r = (e, m)" by fastforce
  have "\<exists>s1. writes e0 e m s s1"
    using Cons.prems r sink_it_fits [OF Cons.prems(1), of e m] sink_it_rotates [OF Cons.prems(1), of e m] by auto
  then obtain s1 where s1: "writes e0 e m s s1" ..
  then have "chronological e0 (write_time e) s1" "served e0 (write_time e) rs s1"
    using Cons.prems(2) r by (simp_all add: writes_def)
  from Cons.IH [OF this] s1 show ?case by (auto simp: r writes_def)
qed simp

section \<open>Properties\<close>

text \<open>
  C18. No record is lost, torn or reordered as long as the system serves the sink: after any
  sequence of records the renamed files, from the oldest to the newest, followed by the
  base file are what the abstract log holds. Their text is the end of everything ever
  written, and all of it while fewer than \<open>max_files\<close> renamed files exist. No file grows
  beyond the limit, or beyond the longest record where that is longer.
\<close>

theorem log_is_recent_history:
  assumes "chronological e0 t s" and "served e0 t rs s" and "length (archives e0 (log_dir s)) \<le> max_files s"
  shows "\<exists>s'. log_all rs s = (replicate (length rs) (Returned ()), s')
     \<and> view_of e0 s' = fold (view_write (max_size s) (max_files s)) (map snd rs) (view_of e0 s)
     \<and> length (archives e0 (log_dir s')) \<le> max_files s
     \<and> suffix (view_text (view_of e0 s')) (view_text (view_of e0 s) @ concat (map snd rs))
     \<and> (length (archives e0 (log_dir s')) < max_files s \<longrightarrow>
          view_text (view_of e0 s') = view_text (view_of e0 s) @ concat (map snd rs))
     \<and> (\<forall>b. max_size s \<le> b \<and> (\<forall>m \<in> set (map snd rs). length m \<le> b) \<and> sizes_within b (view_of e0 s) \<longrightarrow>
          sizes_within b (view_of e0 s'))"
proof -
  have len: "length (fst (view_of e0 x)) = length (archives e0 (log_dir x))" for x by (simp add: view_of_def)
  obtain s' where "log_all rs s = (replicate (length rs) (Returned ()), s')"
      "view_of e0 s' = fold (view_write (max_size s) (max_files s)) (map snd rs) (view_of e0 s)"
    using log_all_view [OF assms(1,2)] by blast
  with view_writes [of "view_of e0 s" "max_files s" "max_size s" "map snd rs"] assms(3) show ?thesis
    unfolding len [symmetric] using view_writes_sizes [where v = "view_of e0 s"] by auto
qed

definition demo_env :: "nat \<Rightarrow> nat \<Rightarrow> log_env" where
  "demo_env sec now = \<lparr>exe_link = Some ''/opt/gw'', localtime = noon\<lparr>second := sec\<rparr>, write_time = now, rename_ok = True,
     scan_ok = True, open_ok = True, write_stops = None, flush_ok = True\<rparr>"

definition demo_sink :: file_sink where
  "demo_sink = \<lparr>base_filename = ''a.log'', max_size = 3, max_files = 2, current_size = 2, fd_open = True,
     log_dir = [(''a.log'', \<lparr>fcontent = ''ab'', mtime = 5\<rparr>)]\<rparr>"

lemma demo_served: "served (demo_env 0 0) 5 [(demo_env 1 6, ''c''), (demo_env 1 7, ''de'')] demo_sink"
  by (simp add: demo_env_def demo_sink_def log_healthy_def needs_rotation_def base_content_def sink_it_def Let_def
      helper_write_def helper_append_def archive_name_def get_process_name_def fs_put_def)

lemma demo_chronological: "chronological (demo_env 0 0) 5 demo_sink" "archives (demo_env 0 0) (log_dir demo_sink) = []"
  by (simp_all add: chronological_def sink_inv_def demo_sink_def base_content_def archives_def is_archive_def
      get_process_name_def demo_env_def)

theorem log_is_recent_history_witness:
  "\<exists>s'. log_all [(demo_env 1 6, ''c''), (demo_env 1 7, ''de'')] demo_sink = ([Returned (), Returned ()], s')
     \<and> view_of (demo_env 0 0) s' = ([''abc''], ''de'') \<and> view_text (view_of (demo_env 0 0) s') = ''abcde''"
proof -
  have v: "view_of (demo_env 0 0) demo_sink = ([], ''ab'')" "max_size demo_sink = 3" "max_files demo_sink = 2"
    using demo_chronological(2) by (simp_all add: view_of_def) (simp_all add: demo_sink_def base_content_def)
  then have "fold (view_write 3 2) [''c'', ''de''] (view_of (demo_env 0 0) demo_sink) = ([''abc''], ''de'')"
    by (simp add: view_write_def newest_def)
  with log_is_recent_history [OF demo_chronological(1) demo_served] demo_chronological(2) v
  show ?thesis by (auto simp: view_text_def numeral_2_eq_2)
qed

end
