(* ===== verification/Demo_Model.thy ===== *)
theory Demo_Model
  imports Beagle_Demo Ied_Handles
begin

text \<open>
  The demonstration server (\<open>sample/61850_demo/beagle_demo.c\<close>) against its data model: the
  handles of the header that its calls use, and the types the model gives to the attributes
  behind them. Its \<open>static_model.c\<close> and \<open>.h\<close> have, byte for byte, the text of the gateway's, which
  \<open>Ied_Static\<close> and \<open>Ied_Handles\<close> model, so the definitions of the copy refer to them.
\<close>

section \<open>The model of the demonstration\<close>

definition demo_table :: node_table where
  "demo_table = static_table"

definition demo_iedModel :: ied_model where
  "demo_iedModel = the_iedModel"

definition demo_reports :: "(nat \<times> report_control_block) list" where
  "demo_reports = reports"

definition demo_initial_values :: "(addr \<times> Ied_Model.mms_value) list" where
  "demo_initial_values = initial_values"

definition demo_declared :: "(c_type \<times> addr) list" where
  "demo_declared = gio_declared"

definition demo_handles :: "(string \<times> addr) list" where
  "demo_handles = gio_handles"

interpretation demo_ied: named_model iedModel iedModel_GenericIO demo_table demo_initial_values demo_declared demo_handles
  unfolding demo_table_def demo_initial_values_def demo_declared_def demo_handles_def by (rule gioh.named_model_axioms)

section \<open>Handles in the program\<close>

fun object_handle :: "data_object \<Rightarrow> string option" where
  "object_handle SPCSO1 = Some ''IEDMODEL_GenericIO_GGIO1_SPCSO1''"
| "object_handle SPCSO2 = Some ''IEDMODEL_GenericIO_GGIO1_SPCSO2''"
| "object_handle SPCSO3 = Some ''IEDMODEL_GenericIO_GGIO1_SPCSO3''"
| "object_handle DPCSO1 = Some ''IEDMODEL_GenericIO_GGIO1_DPCSO1''"
| "object_handle OpCntRs = Some ''IEDMODEL_GenericIO_TIM_GAPC1_OpCntRs''"
| "object_handle OtherObject = None"

fun attribute_handle :: "attribute \<Rightarrow> string option" where
  "attribute_handle (Attr_stVal d) = map_option (\<lambda>h. h @ ''_stVal'') (object_handle d)"
| "attribute_handle (Attr_t d) = map_option (\<lambda>h. h @ ''_t'') (object_handle d)"
| "attribute_handle (Attr_q d) = map_option (\<lambda>h. h @ ''_q'') (object_handle d)"
| "attribute_handle OpDlTmms_setVal = Some ''IEDMODEL_GenericIO_TIM_GAPC1_OpDlTmms_setVal''"
| "attribute_handle RsDlTmms_setVal = Some ''IEDMODEL_GenericIO_TIM_GAPC1_RsDlTmms_setVal''"
| "attribute_handle (AnIn_mag_f i) = Some (''IEDMODEL_GenericIO_GGIO1_AnIn'' @ dec_nat i @ ''_mag_f'')"
| "attribute_handle (AnIn_q i) = Some (''IEDMODEL_GenericIO_GGIO1_AnIn'' @ dec_nat i @ ''_q'')"
| "attribute_handle (AnIn_t i) = Some (''IEDMODEL_GenericIO_GGIO1_AnIn'' @ dec_nat i @ ''_t'')"
| "attribute_handle OtherAttribute = None"

section \<open>Types in the model\<close>

definition model_type :: "string \<Rightarrow> attribute_type \<Rightarrow> bool" where
  "model_type h ty \<longleftrightarrow> (\<exists>a n. (h, a) \<in> set demo_handles \<and> map_of demo_table a = Some n
     \<and> c_type_of n = DataAttribute_t \<and> node_type n = ty)"

definition model_object :: "string \<Rightarrow> bool" where
  "model_object h \<longleftrightarrow> (\<exists>a n. (h, a) \<in> set demo_handles \<and> map_of demo_table a = Some n
     \<and> c_type_of n = DataObject_t)"

text \<open>The update function called for a value, and the attribute type it is made for.\<close>

fun update_type :: "'f Beagle_Demo.mms_value \<Rightarrow> attribute_type" where
  "update_type (Boolean b) = T_BOOLEAN"
| "update_type (Int32 w) = T_INT32"
| "update_type (UTCTime t) = T_TIMESTAMP"
| "update_type (Quality q) = T_QUALITY"
| "update_type (DbposValue d) = T_CODEDENUM"
| "update_type (FloatValue x) = T_FLOAT32"

definition attribute_typed :: "attribute \<Rightarrow> attribute_type \<Rightarrow> bool" where
  "attribute_typed a ty \<longleftrightarrow> (\<exists>h. attribute_handle a = Some h \<and> model_type h ty)"

fun output_typed :: "'f demo_output \<Rightarrow> bool" where
  "output_typed (Update a v) = attribute_typed a (update_type v)"
| "output_typed (SetBits a w) = attribute_typed a T_CODEDENUM"
| "output_typed _ = True"

lemma model_typeI:
  "(h, a) \<in> set gio_handles \<Longrightarrow> (a, n) \<in> set static_table \<Longrightarrow> c_type_of n = DataAttribute_t \<Longrightarrow> node_type n = ty \<Longrightarrow>
     model_type h ty"
  unfolding model_type_def demo_handles_def demo_table_def using static_lookup by blast

lemma model_objectI:
  "(h, a) \<in> set gio_handles \<Longrightarrow> (a, n) \<in> set static_table \<Longrightarrow> c_type_of n = DataObject_t \<Longrightarrow> model_object h"
  unfolding model_object_def demo_handles_def demo_table_def using static_lookup by blast

lemma typed_GGIO1_SPCSO1_stVal: "model_type ''IEDMODEL_GenericIO_GGIO1_SPCSO1_stVal'' T_BOOLEAN"
  by (rule model_typeI [where a = iedModel_GenericIO_GGIO1_SPCSO1_stVal and n = "DataAttribute (Some ''stVal'') (Some iedModel_GenericIO_GGIO1_SPCSO1) (Some iedModel_GenericIO_GGIO1_SPCSO1_q) None 0 (- 1) FC_ST T_BOOLEAN (0 + TRG_OPT_DATA_CHANGED) None 0"])
     (simp_all add: gio_handles_def gio_handles_4_def static_table_def static_GGIO1_def static_GGIO1_4_def)

lemma typed_GGIO1_SPCSO1_t: "model_type ''IEDMODEL_GenericIO_GGIO1_SPCSO1_t'' T_TIMESTAMP"
  by (rule model_typeI [where a = iedModel_GenericIO_GGIO1_SPCSO1_t and n = "DataAttribute (Some ''t'') (Some iedModel_GenericIO_GGIO1_SPCSO1) None None 0 (- 1) FC_ST T_TIMESTAMP 0 None 0"])
     (simp_all add: gio_handles_def gio_handles_4_def static_table_def static_GGIO1_def static_GGIO1_5_def)

lemma typed_GGIO1_SPCSO1_q: "model_type ''IEDMODEL_GenericIO_GGIO1_SPCSO1_q'' T_QUALITY"
  by (rule model_typeI [where a = iedModel_GenericIO_GGIO1_SPCSO1_q and n = "DataAttribute (Some ''q'') (Some iedModel_GenericIO_GGIO1_SPCSO1) (Some iedModel_GenericIO_GGIO1_SPCSO1_Oper) None 0 (- 1) FC_ST T_QUALITY (0 + TRG_OPT_QUALITY_CHANGED) None 0"])
     (simp_all add: gio_handles_def gio_handles_4_def static_table_def static_GGIO1_def static_GGIO1_4_def)

lemma typed_GGIO1_SPCSO2_stVal: "model_type ''IEDMODEL_GenericIO_GGIO1_SPCSO2_stVal'' T_BOOLEAN"
  by (rule model_typeI [where a = iedModel_GenericIO_GGIO1_SPCSO2_stVal and n = "DataAttribute (Some ''stVal'') (Some iedModel_GenericIO_GGIO1_SPCSO2) (Some iedModel_GenericIO_GGIO1_SPCSO2_q) None 0 (- 1) FC_ST T_BOOLEAN (0 + TRG_OPT_DATA_CHANGED) None 0"])
     (simp_all add: gio_handles_def gio_handles_4_def static_table_def static_GGIO1_def static_GGIO1_5_def)

lemma typed_GGIO1_SPCSO2_t: "model_type ''IEDMODEL_GenericIO_GGIO1_SPCSO2_t'' T_TIMESTAMP"
  by (rule model_typeI [where a = iedModel_GenericIO_GGIO1_SPCSO2_t and n = "DataAttribute (Some ''t'') (Some iedModel_GenericIO_GGIO1_SPCSO2) None None 0 (- 1) FC_ST T_TIMESTAMP 0 None 0"])
     (simp_all add: gio_handles_def gio_handles_6_def static_table_def static_GGIO1_def static_GGIO1_8_def)

lemma typed_GGIO1_SPCSO2_q: "model_type ''IEDMODEL_GenericIO_GGIO1_SPCSO2_q'' T_QUALITY"
  by (rule model_typeI [where a = iedModel_GenericIO_GGIO1_SPCSO2_q and n = "DataAttribute (Some ''q'') (Some iedModel_GenericIO_GGIO1_SPCSO2) (Some iedModel_GenericIO_GGIO1_SPCSO2_SBO) None 0 (- 1) FC_ST T_QUALITY (0 + TRG_OPT_QUALITY_CHANGED) None 0"])
     (simp_all add: gio_handles_def gio_handles_5_def static_table_def static_GGIO1_def static_GGIO1_6_def)

lemma typed_GGIO1_SPCSO3_stVal: "model_type ''IEDMODEL_GenericIO_GGIO1_SPCSO3_stVal'' T_BOOLEAN"
  by (rule model_typeI [where a = iedModel_GenericIO_GGIO1_SPCSO3_stVal and n = "DataAttribute (Some ''stVal'') (Some iedModel_GenericIO_GGIO1_SPCSO3) (Some iedModel_GenericIO_GGIO1_SPCSO3_q) None 0 (- 1) FC_ST T_BOOLEAN (0 + TRG_OPT_DATA_CHANGED) None 0"])
     (simp_all add: gio_handles_def gio_handles_6_def static_table_def static_GGIO1_def static_GGIO1_8_def)

lemma typed_GGIO1_SPCSO3_t: "model_type ''IEDMODEL_GenericIO_GGIO1_SPCSO3_t'' T_TIMESTAMP"
  by (rule model_typeI [where a = iedModel_GenericIO_GGIO1_SPCSO3_t and n = "DataAttribute (Some ''t'') (Some iedModel_GenericIO_GGIO1_SPCSO3) None None 0 (- 1) FC_ST T_TIMESTAMP 0 None 0"])
     (simp_all add: gio_handles_def gio_handles_6_def static_table_def static_GGIO1_def static_GGIO1_9_def)

lemma typed_GGIO1_SPCSO3_q: "model_type ''IEDMODEL_GenericIO_GGIO1_SPCSO3_q'' T_QUALITY"
  by (rule model_typeI [where a = iedModel_GenericIO_GGIO1_SPCSO3_q and n = "DataAttribute (Some ''q'') (Some iedModel_GenericIO_GGIO1_SPCSO3) (Some iedModel_GenericIO_GGIO1_SPCSO3_Oper) None 0 (- 1) FC_ST T_QUALITY (0 + TRG_OPT_QUALITY_CHANGED) None 0"])
     (simp_all add: gio_handles_def gio_handles_6_def static_table_def static_GGIO1_def static_GGIO1_8_def)

lemma typed_GGIO1_DPCSO1_stVal: "model_type ''IEDMODEL_GenericIO_GGIO1_DPCSO1_stVal'' T_CODEDENUM"
  by (rule model_typeI [where a = iedModel_GenericIO_GGIO1_DPCSO1_stVal and n = "DataAttribute (Some ''stVal'') (Some iedModel_GenericIO_GGIO1_DPCSO1) (Some iedModel_GenericIO_GGIO1_DPCSO1_q) None 0 (- 1) FC_ST T_CODEDENUM (0 + TRG_OPT_DATA_CHANGED) None 0"])
     (simp_all add: gio_handles_def gio_handles_6_def static_table_def static_GGIO1_def static_GGIO1_9_def)

lemma typed_GGIO1_DPCSO1_t: "model_type ''IEDMODEL_GenericIO_GGIO1_DPCSO1_t'' T_TIMESTAMP"
  by (rule model_typeI [where a = iedModel_GenericIO_GGIO1_DPCSO1_t and n = "DataAttribute (Some ''t'') (Some iedModel_GenericIO_GGIO1_DPCSO1) None None 0 (- 1) FC_ST T_TIMESTAMP 0 None 0"])
     (simp_all add: gio_handles_def gio_handles_7_def static_table_def static_GGIO1_def static_GGIO1_10_def)

lemma typed_TIM_GAPC1_OpCntRs_stVal: "model_type ''IEDMODEL_GenericIO_TIM_GAPC1_OpCntRs_stVal'' T_INT32"
  by (rule model_typeI [where a = iedModel_GenericIO_TIM_GAPC1_OpCntRs_stVal and n = "DataAttribute (Some ''stVal'') (Some iedModel_GenericIO_TIM_GAPC1_OpCntRs) (Some iedModel_GenericIO_TIM_GAPC1_OpCntRs_q) None 0 (- 1) FC_ST T_INT32 (0 + TRG_OPT_DATA_CHANGED) None 0"])
     (simp_all add: gio_handles_def gio_handles_9_def static_table_def static_TIM_GAPC1_def static_TIM_GAPC1_3_def)

lemma typed_TIM_GAPC1_OpCntRs_t: "model_type ''IEDMODEL_GenericIO_TIM_GAPC1_OpCntRs_t'' T_TIMESTAMP"
  by (rule model_typeI [where a = iedModel_GenericIO_TIM_GAPC1_OpCntRs_t and n = "DataAttribute (Some ''t'') (Some iedModel_GenericIO_TIM_GAPC1_OpCntRs) (Some iedModel_GenericIO_TIM_GAPC1_OpCntRs_Oper) None 0 (- 1) FC_ST T_TIMESTAMP 0 None 0"])
     (simp_all add: gio_handles_def gio_handles_9_def static_table_def static_TIM_GAPC1_def static_TIM_GAPC1_3_def)

lemma typed_TIM_GAPC1_OpDlTmms_setVal: "model_type ''IEDMODEL_GenericIO_TIM_GAPC1_OpDlTmms_setVal'' T_INT32"
  by (rule model_typeI [where a = iedModel_GenericIO_TIM_GAPC1_OpDlTmms_setVal and n = "DataAttribute (Some ''setVal'') (Some iedModel_GenericIO_TIM_GAPC1_OpDlTmms) (Some iedModel_GenericIO_TIM_GAPC1_OpDlTmms_dataNs) None 0 (- 1) FC_SP T_INT32 (0 + TRG_OPT_DATA_CHANGED) None 0"])
     (simp_all add: gio_handles_def gio_handles_9_def static_table_def static_TIM_GAPC1_def static_TIM_GAPC1_2_def)

lemma typed_TIM_GAPC1_RsDlTmms_setVal: "model_type ''IEDMODEL_GenericIO_TIM_GAPC1_RsDlTmms_setVal'' T_INT32"
  by (rule model_typeI [where a = iedModel_GenericIO_TIM_GAPC1_RsDlTmms_setVal and n = "DataAttribute (Some ''setVal'') (Some iedModel_GenericIO_TIM_GAPC1_RsDlTmms) (Some iedModel_GenericIO_TIM_GAPC1_RsDlTmms_dataNs) None 0 (- 1) FC_SP T_INT32 (0 + TRG_OPT_DATA_CHANGED) None 0"])
     (simp_all add: gio_handles_def gio_handles_9_def static_table_def static_TIM_GAPC1_def static_TIM_GAPC1_3_def)

lemma typed_GGIO1_AnIn1_mag_f: "model_type ''IEDMODEL_GenericIO_GGIO1_AnIn1_mag_f'' T_FLOAT32"
  by (rule model_typeI [where a = iedModel_GenericIO_GGIO1_AnIn1_mag_f and n = "DataAttribute (Some ''f'') (Some iedModel_GenericIO_GGIO1_AnIn1_mag) None None 0 (- 1) FC_MX T_FLOAT32 (0 + TRG_OPT_DATA_CHANGED) None 0"])
     (simp_all add: gio_handles_def gio_handles_3_def static_table_def static_GGIO1_def static_GGIO1_2_def)

lemma typed_GGIO1_AnIn1_q: "model_type ''IEDMODEL_GenericIO_GGIO1_AnIn1_q'' T_QUALITY"
  by (rule model_typeI [where a = iedModel_GenericIO_GGIO1_AnIn1_q and n = "DataAttribute (Some ''q'') (Some iedModel_GenericIO_GGIO1_AnIn1) (Some iedModel_GenericIO_GGIO1_AnIn1_t) None 0 (- 1) FC_MX T_QUALITY (0 + TRG_OPT_QUALITY_CHANGED) None 0"])
     (simp_all add: gio_handles_def gio_handles_3_def static_table_def static_GGIO1_def static_GGIO1_2_def)

lemma typed_GGIO1_AnIn1_t: "model_type ''IEDMODEL_GenericIO_GGIO1_AnIn1_t'' T_TIMESTAMP"
  by (rule model_typeI [where a = iedModel_GenericIO_GGIO1_AnIn1_t and n = "DataAttribute (Some ''t'') (Some iedModel_GenericIO_GGIO1_AnIn1) None None 0 (- 1) FC_MX T_TIMESTAMP 0 None 0"])
     (simp_all add: gio_handles_def gio_handles_3_def static_table_def static_GGIO1_def static_GGIO1_3_def)

lemma typed_GGIO1_AnIn2_mag_f: "model_type ''IEDMODEL_GenericIO_GGIO1_AnIn2_mag_f'' T_FLOAT32"
  by (rule model_typeI [where a = iedModel_GenericIO_GGIO1_AnIn2_mag_f and n = "DataAttribute (Some ''f'') (Some iedModel_GenericIO_GGIO1_AnIn2_mag) None None 0 (- 1) FC_MX T_FLOAT32 (0 + TRG_OPT_DATA_CHANGED) None 0"])
     (simp_all add: gio_handles_def gio_handles_3_def static_table_def static_GGIO1_def static_GGIO1_3_def)

lemma typed_GGIO1_AnIn2_q: "model_type ''IEDMODEL_GenericIO_GGIO1_AnIn2_q'' T_QUALITY"
  by (rule model_typeI [where a = iedModel_GenericIO_GGIO1_AnIn2_q and n = "DataAttribute (Some ''q'') (Some iedModel_GenericIO_GGIO1_AnIn2) (Some iedModel_GenericIO_GGIO1_AnIn2_t) None 0 (- 1) FC_MX T_QUALITY (0 + TRG_OPT_QUALITY_CHANGED) None 0"])
     (simp_all add: gio_handles_def gio_handles_3_def static_table_def static_GGIO1_def static_GGIO1_3_def)

lemma typed_GGIO1_AnIn2_t: "model_type ''IEDMODEL_GenericIO_GGIO1_AnIn2_t'' T_TIMESTAMP"
  by (rule model_typeI [where a = iedModel_GenericIO_GGIO1_AnIn2_t and n = "DataAttribute (Some ''t'') (Some iedModel_GenericIO_GGIO1_AnIn2) None None 0 (- 1) FC_MX T_TIMESTAMP 0 None 0"])
     (simp_all add: gio_handles_def gio_handles_3_def static_table_def static_GGIO1_def static_GGIO1_3_def)

lemma typed_GGIO1_AnIn3_mag_f: "model_type ''IEDMODEL_GenericIO_GGIO1_AnIn3_mag_f'' T_FLOAT32"
  by (rule model_typeI [where a = iedModel_GenericIO_GGIO1_AnIn3_mag_f and n = "DataAttribute (Some ''f'') (Some iedModel_GenericIO_GGIO1_AnIn3_mag) None None 0 (- 1) FC_MX T_FLOAT32 (0 + TRG_OPT_DATA_CHANGED) None 0"])
     (simp_all add: gio_handles_def gio_handles_3_def static_table_def static_GGIO1_def static_GGIO1_3_def)

lemma typed_GGIO1_AnIn3_q: "model_type ''IEDMODEL_GenericIO_GGIO1_AnIn3_q'' T_QUALITY"
  by (rule model_typeI [where a = iedModel_GenericIO_GGIO1_AnIn3_q and n = "DataAttribute (Some ''q'') (Some iedModel_GenericIO_GGIO1_AnIn3) (Some iedModel_GenericIO_GGIO1_AnIn3_t) None 0 (- 1) FC_MX T_QUALITY (0 + TRG_OPT_QUALITY_CHANGED) None 0"])
     (simp_all add: gio_handles_def gio_handles_3_def static_table_def static_GGIO1_def static_GGIO1_3_def)

lemma typed_GGIO1_AnIn3_t: "model_type ''IEDMODEL_GenericIO_GGIO1_AnIn3_t'' T_TIMESTAMP"
  by (rule model_typeI [where a = iedModel_GenericIO_GGIO1_AnIn3_t and n = "DataAttribute (Some ''t'') (Some iedModel_GenericIO_GGIO1_AnIn3) None None 0 (- 1) FC_MX T_TIMESTAMP 0 None 0"])
     (simp_all add: gio_handles_def gio_handles_3_def static_table_def static_GGIO1_def static_GGIO1_3_def)

lemma typed_GGIO1_AnIn4_mag_f: "model_type ''IEDMODEL_GenericIO_GGIO1_AnIn4_mag_f'' T_FLOAT32"
  by (rule model_typeI [where a = iedModel_GenericIO_GGIO1_AnIn4_mag_f and n = "DataAttribute (Some ''f'') (Some iedModel_GenericIO_GGIO1_AnIn4_mag) None None 0 (- 1) FC_MX T_FLOAT32 (0 + TRG_OPT_DATA_CHANGED) None 0"])
     (simp_all add: gio_handles_def gio_handles_4_def static_table_def static_GGIO1_def static_GGIO1_4_def)

lemma typed_GGIO1_AnIn4_q: "model_type ''IEDMODEL_GenericIO_GGIO1_AnIn4_q'' T_QUALITY"
  by (rule model_typeI [where a = iedModel_GenericIO_GGIO1_AnIn4_q and n = "DataAttribute (Some ''q'') (Some iedModel_GenericIO_GGIO1_AnIn4) (Some iedModel_GenericIO_GGIO1_AnIn4_t) None 0 (- 1) FC_MX T_QUALITY (0 + TRG_OPT_QUALITY_CHANGED) None 0"])
     (simp_all add: gio_handles_def gio_handles_4_def static_table_def static_GGIO1_def static_GGIO1_4_def)

lemma typed_GGIO1_AnIn4_t: "model_type ''IEDMODEL_GenericIO_GGIO1_AnIn4_t'' T_TIMESTAMP"
  by (rule model_typeI [where a = iedModel_GenericIO_GGIO1_AnIn4_t and n = "DataAttribute (Some ''t'') (Some iedModel_GenericIO_GGIO1_AnIn4) None None 0 (- 1) FC_MX T_TIMESTAMP 0 None 0"])
     (simp_all add: gio_handles_def gio_handles_4_def static_table_def static_GGIO1_def static_GGIO1_4_def)

lemma object_SPCSO1: "model_object ''IEDMODEL_GenericIO_GGIO1_SPCSO1''"
  by (rule model_objectI [where a = iedModel_GenericIO_GGIO1_SPCSO1 and n = "DataObject (Some ''SPCSO1'') (Some iedModel_GenericIO_GGIO1) (Some iedModel_GenericIO_GGIO1_SPCSO2) (Some iedModel_GenericIO_GGIO1_SPCSO1_stVal) 0 (- 1)"])
     (simp_all add: gio_handles_def gio_handles_4_def static_table_def static_GGIO1_def static_GGIO1_4_def)

lemma object_SPCSO2: "model_object ''IEDMODEL_GenericIO_GGIO1_SPCSO2''"
  by (rule model_objectI [where a = iedModel_GenericIO_GGIO1_SPCSO2 and n = "DataObject (Some ''SPCSO2'') (Some iedModel_GenericIO_GGIO1) (Some iedModel_GenericIO_GGIO1_SPCSO3) (Some iedModel_GenericIO_GGIO1_SPCSO2_stVal) 0 (- 1)"])
     (simp_all add: gio_handles_def gio_handles_4_def static_table_def static_GGIO1_def static_GGIO1_5_def)

lemma object_SPCSO3: "model_object ''IEDMODEL_GenericIO_GGIO1_SPCSO3''"
  by (rule model_objectI [where a = iedModel_GenericIO_GGIO1_SPCSO3 and n = "DataObject (Some ''SPCSO3'') (Some iedModel_GenericIO_GGIO1) (Some iedModel_GenericIO_GGIO1_DPCSO1) (Some iedModel_GenericIO_GGIO1_SPCSO3_stVal) 0 (- 1)"])
     (simp_all add: gio_handles_def gio_handles_6_def static_table_def static_GGIO1_def static_GGIO1_8_def)

lemma object_DPCSO1: "model_object ''IEDMODEL_GenericIO_GGIO1_DPCSO1''"
  by (rule model_objectI [where a = iedModel_GenericIO_GGIO1_DPCSO1 and n = "DataObject (Some ''DPCSO1'') (Some iedModel_GenericIO_GGIO1) (Some iedModel_GenericIO_GGIO1_Ind1) (Some iedModel_GenericIO_GGIO1_DPCSO1_stVal) 0 (- 1)"])
     (simp_all add: gio_handles_def gio_handles_6_def static_table_def static_GGIO1_def static_GGIO1_9_def)

lemma object_OpCntRs: "model_object ''IEDMODEL_GenericIO_TIM_GAPC1_OpCntRs''"
  by (rule model_objectI [where a = iedModel_GenericIO_TIM_GAPC1_OpCntRs and n = "DataObject (Some ''OpCntRs'') (Some iedModel_GenericIO_TIM_GAPC1) None (Some iedModel_GenericIO_TIM_GAPC1_OpCntRs_stVal) 0 (- 1)"])
     (simp_all add: gio_handles_def gio_handles_9_def static_table_def static_TIM_GAPC1_def static_TIM_GAPC1_3_def)

lemmas model_types =
  typed_GGIO1_SPCSO1_stVal typed_GGIO1_SPCSO1_t typed_GGIO1_SPCSO1_q typed_GGIO1_SPCSO2_stVal
  typed_GGIO1_SPCSO2_t typed_GGIO1_SPCSO2_q typed_GGIO1_SPCSO3_stVal typed_GGIO1_SPCSO3_t typed_GGIO1_SPCSO3_q
  typed_GGIO1_DPCSO1_stVal typed_GGIO1_DPCSO1_t typed_TIM_GAPC1_OpCntRs_stVal typed_TIM_GAPC1_OpCntRs_t
  typed_TIM_GAPC1_OpDlTmms_setVal typed_TIM_GAPC1_RsDlTmms_setVal typed_GGIO1_AnIn1_mag_f typed_GGIO1_AnIn1_q
  typed_GGIO1_AnIn1_t typed_GGIO1_AnIn2_mag_f typed_GGIO1_AnIn2_q typed_GGIO1_AnIn2_t typed_GGIO1_AnIn3_mag_f
  typed_GGIO1_AnIn3_q typed_GGIO1_AnIn3_t typed_GGIO1_AnIn4_mag_f typed_GGIO1_AnIn4_q typed_GGIO1_AnIn4_t

lemmas model_objects = object_SPCSO1 object_SPCSO2 object_SPCSO3 object_DPCSO1 object_OpCntRs

section \<open>Every update is typed\<close>

lemma analog_names: "dec_nat 1 = ''1''" "dec_nat (Suc 0) = ''1''" "dec_nat 2 = ''2''" "dec_nat 3 = ''3''" "dec_nat 4 = ''4''"
  by (simp_all add: dec_nat.simps digit_chars)

lemmas output_eval = attribute_typed_def model_types analog_names

lemma led_outputs_typed:
  "list_all output_typed (updateLED1stVal v ts)" "list_all output_typed (updateLED2stVal v ts)"
  "list_all output_typed (updateLED3stVal v ts)"
  by (simp_all add: updateLED1stVal_def updateLED2stVal_def updateLED3stVal_def update_led_def switchLED_def output_eval)

lemma analog_outputs_typed:
  "i \<in> {1, 2, 3, 4} \<Longrightarrow> list_all output_typed (publish_analog fl now i x)"
  by (auto simp: publish_analog_def output_eval)

lemma binary_outputs_typed:
  "list_all output_typed (outputs s) \<Longrightarrow>
     list_all output_typed (outputs (controlHandlerForBinaryOutput d v test now later s))"
  by (simp add: controlHandlerForBinaryOutput_def led_outputs_typed flashLED_def output_eval split: data_object.split)

lemma opCnt_outputs_typed:
  "list_all output_typed (outputs s) \<Longrightarrow> list_all output_typed (outputs (publish_opCnt now s))"
  by (simp add: publish_opCnt_def output_eval)

lemma int32_outputs_typed:
  "list_all output_typed (outputs s) \<Longrightarrow>
     list_all output_typed (outputs (controlHandlerForInt32Controls d w test now s))"
  by (simp add: controlHandlerForInt32Controls_def opCnt_outputs_typed)

lemma toggle_outputs_typed:
  assumes "list_all output_typed (outputs s)" and "toggle now s = Inr s'"
  shows "list_all output_typed (outputs s')"
  using assms by (auto simp: toggle_def Let_def rbind_Inr_iff opCnt_outputs_typed led_outputs_typed split: if_splits)

lemma pass_outputs_typed:
  assumes "list_all output_typed (outputs s)" and "loop_pass fl now s = Inr s'"
  shows "list_all output_typed (outputs s')"
  using assms toggle_outputs_typed [OF assms(1)]
  by (auto simp: loop_pass_def Let_def rbind_Inr_iff analog_outputs_typed split: if_splits)

lemma handlers_keep_outputs:
  "outputs (connectionIndicationHandler c b s) = outputs s" "outputs (sigint_handler s) = outputs s"
  "performCheckHandler test c s = (r, s') \<Longrightarrow> outputs s' = outputs s"
  "int32WriteAccessHandler a v s = (r', s'') \<Longrightarrow> outputs s'' = outputs s"
  by (auto simp: connectionIndicationHandler_def sigint_handler_def performCheckHandler_def int32WriteAccessHandler_def
      Let_def split: if_splits)

fun outputs_typed :: "('c, 'f) demo_conf \<Rightarrow> bool" where
  "outputs_typed (Demo s) = list_all output_typed (outputs s)"
| "outputs_typed (DemoFault f) = True"

interpretation typed_demo: invariant_system "demo_start fl" "demo_step fl" outputs_typed for fl
proof unfold_locales
  show "outputs_typed t" if "demo_start fl t" for t
    using that by (auto simp: demo_start_def service_start_def initLEDs_def switchLED_def output_eval)
  show "outputs_typed t" if "outputs_typed c" and "demo_step fl c e t" for c e t
    using that(2,1)
    by (cases rule: demo_step.cases)
       (auto simp: handlers_keep_outputs binary_outputs_typed int32_outputs_typed dest: pass_outputs_typed split: sum.split)
qed


section \<open>Properties\<close>

text \<open>
  C22. The demonstration server and its data model fit together: in every reachable state each
  value it has given to the library went to a handle of the header whose attribute has the
  type of the update function used (booleans, 32-bit integers, times, qualities, double
  points, single-precision numbers); each control handler is registered for a data object
  of the model, and the write handler for two 32-bit integer attributes.
\<close>

theorem demo_updates_typed:
  assumes "bd.reachable fl (Demo s) es"
  shows "list_all output_typed (outputs s)
    \<and> list_all (\<lambda>(h, d). \<exists>n. object_handle d = Some n \<and> model_object n) registrations
    \<and> list_all (\<lambda>a. attribute_typed a T_INT32) write_access"
  using typed_demo.reachable_inv [OF assms]
  by (simp add: registrations_def write_access_def model_objects output_eval)

theorem demo_updates_typed_witness:
  "list_all output_typed (outputs (controlHandlerForBinaryOutput DPCSO1 True False 5 3005
     (service_start \<lparr>fadd = (+), flit = id, sinf = id\<rparr> 0 :: (nat, nat) demo)))"
proof -
  let ?fl = "\<lparr>fadd = (+), flit = id, sinf = id\<rparr> :: nat cfloat"
  let ?s = "service_start ?fl 0 :: (nat, nat) demo"
  have "bd.reachable ?fl (Demo ?s) []" by (rule bd.reachable.at_start) (auto simp: demo_start_def)
  then have "bd.reachable ?fl (Demo (controlHandlerForBinaryOutput DPCSO1 True False 5 3005 ?s))
      ([] @ [BinaryControl DPCSO1 True False])"
    by (rule bd.reachable.by_step) (rule d_binary)
  from demo_updates_typed [OF this] show ?thesis by blast
qed

end
