(* ===== verification/Spec2Isabelle.thy ===== *)
theory Spec2Isabelle
  imports
    Sample_Programs
    Sample_Handles
    Ied_Handles
    Cs104_Sample
    Gateway_Main
    Modbus_Client
    Config_Parser
    Iec104_Server
    Iec104_Image
    Iec104_Client
    Icd_Parser
    Iec61850_Client
    Iec61850_Service
    Ied_Static
    Logging
    Beagle_Demo
    Icd_Spec
    Icd_Print
    Ied_To_Store
    Redis_Refinement
    Modbus_Fleet
    Modbus_Races
    Modbus_Outage
    Log_History
    Demo_Model
    Config_Print
begin

text \<open>
  A verification library for the IEC 61850 data gateway. The gateway reads field devices
  over Modbus, IEC 60870-5-104 and IEC 61850, keeps the values in a Redis store, and offers
  them through an IEC 104 and an IEC 61850 server of its own. The theories follow the
  directories of the source; paths below are relative to \<open>src/\<close>.

  \<^bold>\<open>Parts and theories.\<close>

  \<^item> \<open>Gateway_Prelude\<close>: run-time faults as values (\<open>fault\<close>), operations that may fault, decimal
    printing and scanning, and the locales \<open>transition_system\<close> and \<open>invariant_system\<close> on which
    every component with a step relation is interpreted.
  \<^item> \<open>Gateway_Config\<close> and \<open>Config_Parser\<close>: the configuration structures of
    \<open>common/config/config.h\<close> and their loading in \<open>config.cc\<close> (\<open>init\<close>, \<open>loadConfig\<close>, the three
    section parsers). A YAML document is a tree; an exception of the YAML library is a
    fault and a section parser that returns \<open>false\<close> is a separate outcome. The locale
    \<open>yaml_printer\<close> states what a printer of scalars must satisfy; \<open>dec\<close> interprets it on
    decimal text. \<open>Config_Print\<close> has the records that the \<open>to_string\<close> members log.
  \<^item> \<open>Redis_Store\<close>: class \<open>DRDSDataRedis\<close> of \<open>core/redis-api\<close>, with the heap of connection
    contexts, so that freed and null contexts can be told apart. \<open>Redis_Refinement\<close> states its
    contract: the locale \<open>data_refinement\<close> lifts a simulation of single calls to sequences of
    calls, and \<open>store_map\<close> interprets it on the class and a map from keys to texts.
  \<^item> \<open>Modbus_Api\<close> and \<open>Modbus_Client\<close>: one link to a device (\<open>core/modbus/modbus_api.cc\<close>) and the
    application that groups the registers of a device, polls them and stores the values
    (\<open>app_modbus_client.cc\<close>). The client rests on \<open>Redis_Store\<close> and \<open>Gateway_Config\<close>.
    \<open>Modbus_Fleet\<close> runs the polling tasks of several devices in arbitrary order, and
    \<open>Modbus_Races\<close> splits the unlocked threads of a link into single steps. \<open>Modbus_Outage\<close>
    interleaves the polling task and the reconnect loop of a device that goes away.
  \<^item> \<open>Ordered_Map\<close>: the \<open>std::map\<close> of the IEC 104 server, with its laws in the locale
    \<open>lookup_table\<close>, interpreted as \<open>omap\<close>.
  \<^item> \<open>Iec104_Server\<close> and \<open>Iec104_Client\<close>: \<open>core/iec104\<close>, that is the server with its handlers and
    its periodic thread, the client with its worker thread, and the client manager.
    \<open>Iec104_Image\<close> is the contract of the server: the process image of a history of calls.
  \<^item> \<open>Icd_Parser\<close> and \<open>Iec61850_Client\<close>: the reader of SCL files (\<open>core/iec61850/icd_parse.h\<close>)
    and the client that reads the nodes it finds (\<open>lec61850Client.cc\<close>) with its manager
    (\<open>iec61850ClientManger.cc\<close>). \<open>Icd_Spec\<close> is a declarative reading of an SCL document by
    inductive predicates, \<open>Icd_Print\<close> the printing of a parse result, and \<open>Ied_To_Store\<close> composes
    parser, client and store.
  \<^item> \<open>Iec61850_Service\<close>: the gateway's IEC 61850 server (\<open>ice61850Service.cc\<close>).
  \<^item> \<open>Ied_Model\<close>, \<open>Ied_Structure\<close> and \<open>Ied_Naming\<close>: what a static IED model is, that is linked
    structures as the layout of a tree, data sets, reports and initial values, and a header
    with handles. The locales \<open>static_model\<close> and \<open>named_model\<close> (which extends it) state what is
    checked of a model in one pass and derive its properties; both models of the repository
    are interpretations.
  \<^item> \<open>Ied_Symbols\<close>, \<open>Ied_Basic_Nodes\<close>, \<open>Ied_Timer_Node\<close>, \<open>Ied_Schedule1\<close>,
    \<open>Ied_Schedule2\<close>, \<open>Ied_Controller_Node\<close>, \<open>Ied_Static\<close> and \<open>Ied_Handles\<close>: the data model that
    this server offers (\<open>core/iec61850/model/static_model.c\<close> and \<open>.h\<close>), all of its
    structures, declarations and handles, one definition per logical node or stretch of
    the file, with pointers as symbols.
  \<^item> \<open>Logging\<close> and \<open>Log_Frontend\<close>: the rotating file sink, the logger and the rate limiter of
    \<open>common/log\<close>; the configuration file of the logger, its forwarding class and the log
    macros. \<open>Log_History\<close> is the contract of the sink over sequences of records.
  \<^item> \<open>Gateway_Main\<close>: the entry point \<open>core/main.cc\<close>, which composes the logger, the configuration
    loader, the store's defaults and the IEC 104 test programs.
  \<^item> \<open>Beagle_Demo\<close>: the demonstration server and client of \<open>sample/61850_demo\<close>;
    \<open>Demo_Model\<close> holds its calls against its data model.
  \<^item> \<open>Cs104_Sample\<close>: the IEC 104 server of \<open>sample/cs104_server\<close>, compared with the gateway's.
  \<^item> \<open>Sample_Programs\<close>, \<open>Sample_Symbols\<close>, \<open>Sample_Nodes\<close>, \<open>Sample_Values\<close>, \<open>Sample_Times\<close>,
    \<open>Sample_Static\<close> and \<open>Sample_Handles\<close>: the GOOSE programs of \<open>sample/goose_subpub\<close> and the
    simple server of \<open>sample/server_example_simple\<close> with its static model.

  \<^bold>\<open>State and operations.\<close> A class is a record of its members, an enumeration a datatype. An
  operation takes the state and returns the new one; undefined behaviour, exceptions of the
  standard library and calls of \<open>std::terminate\<close> are the left summand of a \<open>result\<close>. In \<open>Logging\<close>
  an exception keeps the state, since callers continue after it. Threads are interleaved as
  events of a step relation whose steps are the stretches between the points where the code
  can be interrupted (a pass of a loop, a handler call, a call under the mutex; in
  \<open>Modbus_Races\<close> every access to the shared pointer).

  \<^bold>\<open>Parameters.\<close> Code outside the repository's own sources enters as arguments: hiredis, libmodbus,
  lib60870, libiec61850, the scalar conversions of yaml-cpp, \<open>getenv\<close>, the clock, the file
  system's answers, and floating-point arithmetic. What a property needs of them is a
  hypothesis in its statement, and its witness instantiates them by concrete functions.

  \<^bold>\<open>What is shown.\<close>

  \<^item> Storing and loading: values of every integer width, booleans, strings and binary blocks
    survive the store; a connection is never used after it is freed as long as reconnecting
    succeeds, and the two cases where the code breaks are proved as such. Over a healthy
    connection the class refines a map, and pipelined storing equals plain storing.
  \<^item> Polling: the search for gapless ranges finds maximal ones, a pass covers every point
    exactly once, and a device with one range is stored exactly, so that a value read from
    a register is the one a client of the store loads (\<open>polled_value_reads_back\<close>, below); a
    device with a gap overruns the buffer, and a range longer than one request is never
    stored. The passes of several devices do not interfere as long as no device identifier
    has a colon.
  \<^item> Links: pointer safety under all interleavings of calls, and for the unlocked threads in
    single steps which schedules use freed memory; the retry bound of the reconnect loop,
    after an outage the values of a device reach the store again exactly when attempts to
    reconnect are left.
  \<^item> IEC 104: the point table stays ordered and typed and implements the process image, so
    that answers carry the values last written; the answers to commands; what the client sends and what it never sends; life cycle of its threads.
  \<^item> IEC 61850: the parser is safe on documents with the attributes it compares, and its
    nodes are those that the document declares; the client stores what it reads, so that
    a reader of the store finds the device's value under every selected path of the SCL
    file (\<open>declared_value_reads_back\<close>); the server's objects and
    threads are released once, unless an initialisation fails while it runs; each static
    model is the preorder layout of one tree, its data set and reports resolve,
    \<open>initializeValues\<close> keeps it well formed, and the handles of its header are the paths of
    the tree.
  \<^item> Configuration: printing and loading is a round trip; every file leaves a well-typed
    configuration; rejected and missing fields; the logged records determine a device.
  \<^item> Logging: the files hold the end of everything written, in order and within their sizes; the rate of a
    limited log statement; what remains of a configuration file with a bad entry.
  \<^item> Entry point: with which status the program ends, and when it does not.
  \<^item> Samples: exclusive control of the demonstration device, whose updates fit the types
    of its data model; complete answers of the IEC 104
    sample and where the gateway's handler deviates from it; the GOOSE programs agree.

  \<^bold>\<open>Bounds and fuel.\<close> All loops terminate by construction (structural recursion or a measure) except
  those that run until they are stopped. \<open>reconnectLoop\<close> of a Modbus link takes fuel, and
  \<open>reconnectLoop_gives_up\<close> proves that fuel beyond the configured number of attempts is not
  used. The reading loop of the IEC 61850 client, the thread loops of the IEC 61850 server, the
  loop of the demonstration and the update loop of the IEC 104 test program take the
  number of passes, and their properties hold for every number. The wait for input in
  \<open>main\<close> is a partial function; \<open>wait_newline_iff\<close> proves exactly when it returns. Register
  addresses, values and times are words of their C++ width wherever the code can wrap.

  \<^bold>\<open>Not modelled.\<close> Log output and printing to the console, except the text that the logger, the
  printing members of the configuration and of the parser, the handlers of the IEC 104 callbacks,
  the samples and the demonstration produce; code that is commented out (\<open>app_modbus_service\<close>
  and the applications in \<open>main.cc\<close>); the queue of an asynchronous logger, which belongs to
  spdlog; and the third-party libraries.
\<close>


section \<open>From the configuration file to the links and clients\<close>

lemma valid_ids_map:
  assumes "distinct (map fst devs)"
  shows "i \<in> valid_ids devs \<longleftrightarrow> (\<exists>c. map_of devs i = Some c \<and> valid_device c)"
  using assms by (force simp: valid_ids_def map_of_eq_Some_iff)

text \<open>The last device of an identifier in a section of the file, which is the one that is loaded.\<close>

definition last_device :: "('c \<Rightarrow> string) \<Rightarrow> 'c list \<Rightarrow> string \<Rightarrow> 'c option" where
  "last_device ident cs = map_of (rev (map (\<lambda>c. (ident c, c)) cs))"

lemma last_device_SomeD:
  assumes "last_device ident cs i = Some c"
  shows "c \<in> set cs \<and> ident c = i"
  using map_of_SomeD [OF assms [unfolded last_device_def]] by auto

lemma last_device_None: "last_device ident cs = Map.empty \<longleftrightarrow> cs = []"
  unfolding last_device_def by (simp add: map_of_eq_empty_iff)

lemma config_loads_last:
  assumes "yaml_printer cv pr" and "\<forall>c \<in> set ms. modbus_valid c" and "\<forall>c \<in> set es. valid_61850 c"
    and "\<forall>c \<in> set fs. valid_104 c"
  obtains d where "Config_init cv (Inr (config_yaml pr ms es fs)) None = (True, Some d)"
    "cfg_modbus d = last_device mb_device_id ms" "cfg_iec104 d = last_device i104_device_id fs"
  using config_loads [OF assms] unfolding last_device_def by blast

text \<open>An enumeration of a hash map lists every entry once, in some order.\<close>

lemma enumerated:
  assumes "distinct (map fst xs)" and "map_of xs = last_device ident cs"
  shows "(i, c) \<in> set xs \<longleftrightarrow> last_device ident cs i = Some c"
  using map_of_eq_Some_iff [OF assms(1), of i c] assms(2) by simp

lemma configured_modbus:
  assumes "ms \<noteq> []" and "distinct (map fst mConfig)" and "map_of mConfig = last_device mb_device_id ms"
  shows "\<exists>app. AppModbus_run lib link mConfig AppModbus = Inr (True, app)
     \<and> (\<forall>i. case last_device mb_device_id ms i of
              None \<Rightarrow> getDeviceApi app i = None
            | Some c \<Rightarrow> if valid_device c then device_up (getDeviceApi app i) else getDeviceApi app i = None)"
proof -
  have "mConfig \<noteq> []" using assms(1,3) last_device_None [of mb_device_id ms] by auto
  moreover have "\<forall>dev \<in> set mConfig. fst dev = mb_device_id (snd dev)"
    using enumerated [OF assms(2,3)] last_device_SomeD by fastforce
  ultimately obtain app where app: "AppModbus_run lib link mConfig AppModbus = Inr (True, app)"
      "\<And>i. if i \<in> valid_ids mConfig then device_up (getDeviceApi app i) else getDeviceApi app i = None"
    using run_registers [of mConfig lib link] assms(2) by blast
  have "case last_device mb_device_id ms i of None \<Rightarrow> getDeviceApi app i = None
      | Some c \<Rightarrow> if valid_device c then device_up (getDeviceApi app i) else getDeviceApi app i = None" for i
    using app(2) [of i] unfolding valid_ids_map [OF assms(2)] assms(3)
    by (cases "last_device mb_device_id ms i") auto
  with app(1) show ?thesis by blast
qed



section \<open>From a Modbus register to a client of the store\<close>

text \<open>The integer that a point's first register stands for, and the entry the pass makes for a point.\<close>

definition point_int :: "data_points_t \<Rightarrow> 16 word \<Rightarrow> int" where
  "point_int p v = (if dp_data_type p = INT16 then sint v else uint v)"

lemma stored_entry:
  assumes "j < length ps"
  shows "stored_entries fp dev buf n ps ! j
     = (c_str (modbus_key dev (ps ! j)), point_text fp buf (n + total_regs (take j ps)) (ps ! j))"
  using assms
proof (induction ps arbitrary: n j)
  case (Cons p ps)
  then show ?case by (cases j) (simp_all add: add.assoc)
qed simp

lemma stored_entries_length: "length (stored_entries fp dev buf n ps) = length ps"
  by (induction ps arbitrary: n) simp_all

lemma stored_keys: "map fst (stored_entries fp dev buf n ps) = map (\<lambda>p. c_str (modbus_key dev p)) ps"
  by (induction ps arbitrary: n) simp_all

lemma stored_lookup:
  assumes "distinct (map (\<lambda>p. c_str (modbus_key dev p)) ps)" and "j < length ps"
  shows "map_of (rev (stored_entries fp dev buf 0 ps)) (c_str (modbus_key dev (ps ! j)))
     = Some (point_text fp buf (total_regs (take j ps)) (ps ! j))"
proof -
  let ?es = "stored_entries fp dev buf 0 ps"
  have "distinct (map fst (rev ?es))"
    using assms(1) unfolding rev_map [symmetric] distinct_rev stored_keys .
  moreover have "?es ! j \<in> set ?es" using assms(2) stored_entries_length by (simp add: nth_mem)
  ultimately show ?thesis
    using stored_entry [OF assms(2), of fp dev buf 0] by (intro map_of_is_SomeI) simp_all
qed

lemma point_text_int:
  assumes "dp_data_type p \<in> {INT16, UINT16, INT32, UINT32}"
  shows "point_text fp buf n p = dec_int (point_int p (buf ! n))"
  using assms by (auto simp: point_text_def point_int_def)

lemma point_int_range: "- (2 ^ 31) \<le> point_int p v \<and> point_int p v < 2 ^ 31"
proof -
  have "uint v < 2 ^ 16" using uint_bounded [of v] by simp
  moreover have "- (2 ^ 31) \<le> uint v" by (rule order_trans [OF _ uint_ge_0]) simp
  moreover have "- (2 ^ 15) \<le> sint v" "sint v < 2 ^ 15" using sint_bounds [of v] by simp_all
  ultimately show ?thesis by (simp add: point_int_def)
qed

lemma get_int_text:
  assumes "redis_laws hr up kv" and "healthy up s" and "kv (world s) (c_str key) = Some (dec_int i)"
    and "- (2 ^ 31) \<le> i" and "i < 2 ^ 31"
  shows "getDInt hr key s = Inr (word_of_int i, s)"
  using assms(4,5)
  by (simp add: getDInt_def get_with_healthy [OF assms(1,2)] assms(3) dec_via_stol_def cstr_arg_dec_int stol_def
      scan_range_dec_int)

text \<open>
  C8. From the device to a reader of the store: after a polling pass over a device whose
  points form one gapless block and have different keys, a new connection to Redis loads,
  under the key of every integer point, the number its first register stands for (signed
  for a 16-bit integer, unsigned for the other types).
\<close>

theorem polled_value_reads_back:
  assumes "redis_laws hr up kv" and "up (world s)" and "redis_ready d"
    and "sorts_by_address sorter" and "mb_data_points config \<noteq> []"
    and "sorter (mb_data_points config) = ps" and "contiguous ps"
    and "api_wf api" and "ctx api \<noteq> None"
    and "mb_read_registers lib (dp_address (hd ps)) (int (total_regs ps)) (link_world api) = (w, Some rs)"
    and "length rs = total_regs ps"
    and "distinct (map (\<lambda>p. c_str (modbus_key (mb_device_id config) p)) ps)"
    and "j < length ps" and "dp_data_type (ps ! j) \<in> {INT16, UINT16, INT32, UINT32}"
  shows "\<exists>s1 s2. processContinuousRegisters lib hr d fp sorter config (api, s) = Inr (api\<lparr>link_world := w\<rparr>, s1)
     \<and> DRDSDataRedis hr d s1 = Inr ((), s2)
     \<and> getDInt hr (modbus_key (mb_device_id config) (ps ! j)) s2
         = Inr (word_of_int (point_int (ps ! j) (rs ! total_regs (take j ps))), s2)"
proof -
  let ?key = "modbus_key (mb_device_id config) (ps ! j)" and ?i = "point_int (ps ! j) (rs ! total_regs (take j ps))"
  obtain s1 where s1: "processContinuousRegisters lib hr d fp sorter config (api, s) = Inr (api\<lparr>link_world := w\<rparr>, s1)"
      "up (world s1)" "kv (world s1) = kv (world s) ++ map_of (rev (stored_entries fp (mb_device_id config) rs 0 ps))"
    using poll_contiguous [OF assms(1-11)] by blast
  obtain s2 where s2: "DRDSDataRedis hr d s1 = Inr ((), s2)" "healthy up s2" "kv (world s2) = kv (world s1)"
    using construct_healthy [OF assms(1) s1(2) assms(3)] by blast
  have "kv (world s2) (c_str ?key) = Some (dec_int ?i)"
    using s1(3) s2(3) stored_lookup [OF assms(12,13)] point_text_int [OF assms(14)] by simp
  with s1(1) s2(1,2) point_int_range get_int_text [OF assms(1) s2(2)] show ?thesis by blast
qed

theorem polled_value_reads_back_witness:
  "\<exists>s1 s2. processContinuousRegisters (demo_lib True (Some [5, 65535])) list_server demo_defaults demo_fp
          (sort_key (\<lambda>p. uint (dp_address p)))
          (demo_device [demo_point ''b'' 8 INT16, demo_point ''a'' 7 INT16]) (demo_api (Some 0), redis_at [])
        = Inr (demo_api (Some 0), s1)
     \<and> DRDSDataRedis list_server demo_defaults s1 = Inr ((), s2)
     \<and> getDInt list_server ''modbus_data:dev:b'' s2 = Inr (- 1, s2)"
proof -
  let ?c = "demo_device [demo_point ''b'' 8 INT16, demo_point ''a'' 7 INT16]"
  let ?ps = "[demo_point ''a'' 7 INT16, demo_point ''b'' 8 INT16]"
  show ?thesis
    using polled_value_reads_back [OF list_server_laws, where s = "redis_at []" and d = demo_defaults
        and sorter = "sort_key (\<lambda>p. uint (dp_address p))" and config = ?c and ps = ?ps
        and api = "demo_api (Some 0)" and lib = "demo_lib True (Some [5, 65535])"
        and rs = "[5, 65535]" and fp = demo_fp and j = 1] sort_key_sorts
    by (simp add: redis_ready_def demo_defaults_def demo_device_def demo_point_def demo_api_def demo_lib_def
        api_wf_def regs_def known_def follows_def point_int_def modbus_key_def redis_at_def c_str_def)
qed

end
